(* ===== verification/Prelude.thy ===== *)
theory Prelude
  imports Main "HOL-Library.Word"
begin

text \<open>
  Shared vocabulary of the development: the machine integers of the ARM target (32-bit
  \<open>int\<close>, \<open>unsigned long\<close> and \<open>size_t\<close>), byte buffers, the errors a C function can end
  with, and the generic lemmas on lists and words that the component theories use.
\<close>

unbundle bit_operations_syntax

section \<open>Machine integers and buffers\<close>

type_synonym u8 = "8 word"
type_synonym u16 = "16 word"
type_synonym u32 = "32 word"
type_synonym u64 = "64 word"
type_synonym bytes = "u8 list"

named_theorems word_bytes \<open>conversions between words and byte lists\<close>
named_theorems buf_simps \<open>reading and writing byte buffers\<close>

text \<open>
  How a C function can end other than by returning: an access outside a buffer (undefined
  behaviour, made explicit so that memory safety is a theorem), \<open>THROW\<close> (the longjmp of
  \<open>src/bolos/exception.h\<close>) with its 16-bit code, and \<open>errx\<close> (the process exits).
\<close>

datatype c_error = Oob | Throw u16 | Errx

type_synonym 'a res = "c_error + 'a"

definition res_bind :: "'a res \<Rightarrow> ('a \<Rightarrow> 'b res) \<Rightarrow> 'b res" where
  "res_bind m f = (case m of Inl e \<Rightarrow> Inl e | Inr x \<Rightarrow> f x)"

lemma res_bind_simps [simp]:
  "res_bind (Inl e) f = Inl e"
  "res_bind (Inr x) f = f x"
  by (simp_all add: res_bind_def)

lemma res_bind_eq_Inr_iff:
  "res_bind m f = Inr y \<longleftrightarrow> (\<exists>x. m = Inr x \<and> f x = Inr y)"
  by (cases m) simp_all

text \<open>
  \<open>memcpy (dst + off, src, n)\<close> for a source of \<open>n\<close> bytes, and \<open>memset\<close>. Both are total:
  \<open>mem_write\<close> guards them where the code does not check the bounds itself.
\<close>

definition buf_write :: "'a list \<Rightarrow> nat \<Rightarrow> 'a list \<Rightarrow> 'a list" where
  "buf_write dst off src = take off dst @ src @ drop (off + length src) dst"

definition mem_write :: "'a list \<Rightarrow> nat \<Rightarrow> 'a list \<Rightarrow> 'a list res" where
  "mem_write dst off src =
     (if off + length src \<le> length dst then Inr (buf_write dst off src) else Inl Oob)"

definition mem_read :: "'a list \<Rightarrow> nat \<Rightarrow> nat \<Rightarrow> 'a list res" where
  "mem_read src off n =
     (if off + n \<le> length src then Inr (take n (drop off src)) else Inl Oob)"

definition mem_get :: "'a list \<Rightarrow> nat \<Rightarrow> 'a res" where
  "mem_get src i = (if i < length src then Inr (src ! i) else Inl Oob)"

text \<open>
  A \<open>const uint8_t *\<close> argument with its length: \<open>None\<close> is \<open>NULL\<close>, and a length past
  the end of the buffer is an out-of-bounds read.
\<close>

definition mem_arg :: "'a list option \<Rightarrow> nat \<Rightarrow> 'a list res" where
  "mem_arg data len =
     (case data of None \<Rightarrow> (if len = 0 then Inr [] else Inl Oob) | Some d \<Rightarrow> mem_read d 0 len)"

text \<open>
  \<open>memset\<close>, and the conversion of an \<open>int\<close> expression to \<open>size_t\<close> where the code passes a
  difference as a length.
\<close>

definition mem_set :: "'a list \<Rightarrow> nat \<Rightarrow> 'a \<Rightarrow> nat \<Rightarrow> 'a list res" where
  "mem_set dst off v n =
     (if off + n \<le> length dst then Inr (buf_write dst off (replicate n v)) else Inl Oob)"

definition size_of_int :: "int \<Rightarrow> nat" where
  "size_of_int i = nat (i mod 2 ^ 32)"

lemma size_of_int_nat [simp]: "i < 2 ^ 32 \<Longrightarrow> size_of_int (int i) = i"
  by (simp add: size_of_int_def)

lemma size_of_int_diff [simp]: "j \<le> i \<Longrightarrow> i < 2 ^ 32 \<Longrightarrow> size_of_int (int i - int j) = i - j"
  by (simp add: size_of_int_def)

lemma mem_arg_Some [simp]: "mem_arg (Some d) (length d) = Inr d"
  by (simp add: mem_arg_def mem_read_def)

lemma length_buf_write [simp, buf_simps]:
  "off + length src \<le> length dst \<Longrightarrow> length (buf_write dst off src) = length dst"
  by (simp add: buf_write_def)

lemma buf_write_nil [simp]: "off \<le> length dst \<Longrightarrow> buf_write dst off [] = dst"
  by (simp add: buf_write_def)

lemma take_buf_write [buf_simps]:
  "off \<le> length dst \<Longrightarrow> take (off + length src) (buf_write dst off src) = take off dst @ src"
  by (simp add: buf_write_def)

lemma take_buf_write_before [buf_simps]:
  "n \<le> off \<Longrightarrow> off \<le> length dst \<Longrightarrow> take n (buf_write dst off src) = take n dst"
  by (simp add: buf_write_def)

lemma drop_buf_write_after [buf_simps]:
  "off + length src \<le> n \<Longrightarrow> off \<le> length dst \<Longrightarrow> drop n (buf_write dst off src) = drop n dst"
  by (simp add: buf_write_def)

lemma drop_buf_write_at [buf_simps]:
  "off \<le> length dst \<Longrightarrow> drop off (buf_write dst off src) = src @ drop (off + length src) dst"
  by (simp add: buf_write_def)

lemma nth_buf_write:
  assumes "off + length src \<le> length dst" and "i < length dst"
  shows "buf_write dst off src ! i =
    (if off \<le> i \<and> i < off + length src then src ! (i - off) else dst ! i)"
proof -
  have "min (length dst) off = off" using assms(1) by simp
  then show ?thesis using assms by (auto simp: buf_write_def nth_append)
qed

lemma buf_write_full: "length src = length dst \<Longrightarrow> buf_write dst 0 src = src"
  by (simp add: buf_write_def)

lemma buf_write_append:
  "off \<le> length dst \<Longrightarrow>
   buf_write (buf_write dst off xs) (off + length xs) ys = buf_write dst off (xs @ ys)"
  by (simp add: buf_write_def ac_simps)

lemma mem_write_Inr_iff [buf_simps]:
  "mem_write dst off src = Inr r \<longleftrightarrow> off + length src \<le> length dst \<and> r = buf_write dst off src"
  by (auto simp: mem_write_def)

lemma mem_set_Inr_iff [buf_simps]:
  "mem_set dst off v n = Inr r \<longleftrightarrow>
   off + n \<le> length dst \<and> r = buf_write dst off (replicate n v)"
  by (auto simp: mem_set_def)

lemma mem_read_Inr_iff [buf_simps]:
  "mem_read src off n = Inr r \<longleftrightarrow> off + n \<le> length src \<and> r = take n (drop off src)"
  by (auto simp: mem_read_def)

lemma mem_get_Inr_iff [buf_simps]:
  "mem_get src i = Inr r \<longleftrightarrow> i < length src \<and> r = src ! i"
  by (auto simp: mem_get_def)

section \<open>Words as byte lists\<close>

text \<open>
  The views the sources take of a byte array through \<open>uint32_t *\<close> and \<open>uint64_t *\<close> on the
  little-endian target, and the big-endian numbers of the protocols.
\<close>

definition le_of_u32 :: "u32 \<Rightarrow> bytes" where
  "le_of_u32 w = [ucast w, ucast (drop_bit 8 w), ucast (drop_bit 16 w), ucast (drop_bit 24 w)]"

definition be_of_u32 :: "u32 \<Rightarrow> bytes" where
  "be_of_u32 w = [ucast (drop_bit 24 w), ucast (drop_bit 16 w), ucast (drop_bit 8 w), ucast w]"

fun u32_of_le :: "bytes \<Rightarrow> u32" where
  "u32_of_le (a # b # c # d # _) =
     ucast a OR push_bit 8 (ucast b) OR push_bit 16 (ucast c) OR push_bit 24 (ucast d)"
| "u32_of_le _ = 0"

fun u32_of_be :: "bytes \<Rightarrow> u32" where
  "u32_of_be (a # b # c # d # _) =
     push_bit 24 (ucast a) OR push_bit 16 (ucast b) OR push_bit 8 (ucast c) OR ucast d"
| "u32_of_be _ = 0"

definition be_of_u16 :: "u16 \<Rightarrow> bytes" where
  "be_of_u16 w = [ucast (drop_bit 8 w), ucast w]"

definition le_of_u64 :: "u64 \<Rightarrow> bytes" where
  "le_of_u64 w = le_of_u32 (ucast w) @ le_of_u32 (ucast (drop_bit 32 w))"

definition be_of_u64 :: "u64 \<Rightarrow> bytes" where
  "be_of_u64 w = be_of_u32 (ucast (drop_bit 32 w)) @ be_of_u32 (ucast w)"

definition u64_of_le :: "bytes \<Rightarrow> u64" where
  "u64_of_le xs = ucast (u32_of_le xs) OR push_bit 32 (ucast (u32_of_le (drop 4 xs)))"

definition u64_of_be :: "bytes \<Rightarrow> u64" where
  "u64_of_be xs = push_bit 32 (ucast (u32_of_be xs)) OR ucast (u32_of_be (drop 4 xs))"

lemma length_word_bytes [simp]:
  "length (le_of_u32 w) = 4" "length (be_of_u32 w) = 4"
  "length (le_of_u64 v) = 8" "length (be_of_u64 v) = 8"
  by (simp_all add: le_of_u32_def be_of_u32_def le_of_u64_def be_of_u64_def)

lemma byte_cases:
  assumes "n < (32::nat)"
  obtains "n < 8" | "8 \<le> n" "n < 16" | "16 \<le> n" "n < 24" | "24 \<le> n" "n < 32"
  using assms by linarith

lemma u32_of_le_of_u32 [simp, word_bytes]: "u32_of_le (le_of_u32 w @ xs) = w"
proof (rule bit_word_eqI)
  fix n assume "n < LENGTH(32)"
  then have "n < 32" by simp
  then show "bit (u32_of_le (le_of_u32 w @ xs)) n = bit w n"
    by (cases n rule: byte_cases) (auto simp: le_of_u32_def bit_simps)
qed

lemma u32_of_be_of_u32 [simp, word_bytes]: "u32_of_be (be_of_u32 w @ xs) = w"
proof (rule bit_word_eqI)
  fix n assume "n < LENGTH(32)"
  then have "n < 32" by simp
  then show "bit (u32_of_be (be_of_u32 w @ xs)) n = bit w n"
    by (cases n rule: byte_cases) (auto simp: be_of_u32_def bit_simps)
qed

lemma u32_of_bytes_inverse [simp]: "u32_of_le (le_of_u32 w) = w" "u32_of_be (be_of_u32 w) = w"
  using u32_of_le_of_u32 [of w "[]"] u32_of_be_of_u32 [of w "[]"] by simp_all

lemma u64_of_le_of_u64 [simp, word_bytes]: "u64_of_le (le_of_u64 w @ xs) = w"
proof (rule bit_word_eqI)
  fix n assume "n < LENGTH(64)"
  then show "bit (u64_of_le (le_of_u64 w @ xs)) n = bit w n"
    by (cases "n < 32") (auto simp: u64_of_le_def le_of_u64_def bit_simps)
qed

lemma u64_of_be_of_u64 [simp, word_bytes]: "u64_of_be (be_of_u64 w @ xs) = w"
proof (rule bit_word_eqI)
  fix n assume "n < LENGTH(64)"
  then show "bit (u64_of_be (be_of_u64 w @ xs)) n = bit w n"
    by (cases "n < 32") (auto simp: u64_of_be_def be_of_u64_def bit_simps)
qed

lemma length_be_of_u16 [simp]: "length (be_of_u16 w) = 2"
  by (simp add: be_of_u16_def)

lemma rev_le_of_u32: "rev (le_of_u32 w) = be_of_u32 w"
  by (simp add: le_of_u32_def be_of_u32_def)

lemma length_4E:
  assumes "length xs = 4"
  obtains a b c d where "xs = [a, b, c, d]"
  using assms by (auto simp: eval_nat_numeral length_Suc_conv)

lemma u32_of_le_Cons: "u32_of_le [a, b, c, d] =
    ucast a OR push_bit 8 (ucast b) OR push_bit 16 (ucast c) OR push_bit 24 (ucast d)"
  by simp

lemma u32_of_be_Cons: "u32_of_be [a, b, c, d] =
    push_bit 24 (ucast a) OR push_bit 16 (ucast b) OR push_bit 8 (ucast c) OR ucast d"
  by simp

lemma byte_eqI: "(\<And>i. i < 8 \<Longrightarrow> bit (a::u8) i = bit b i) \<Longrightarrow> a = b"
  by (rule bit_word_eqI) simp

lemma not_bit_byte: "8 \<le> i \<Longrightarrow> \<not> bit (a::u8) i"
  by (auto dest: bit_imp_le_length)

lemma not_bit_u32: "32 \<le> i \<Longrightarrow> \<not> bit (a::u32) i"
  by (auto dest: bit_imp_le_length)

lemma le_of_u32_inverse [word_bytes]: "length xs = 4 \<Longrightarrow> le_of_u32 (u32_of_le xs) = xs"
  by (erule length_4E)
    (auto simp del: u32_of_le.simps simp add: u32_of_le_Cons le_of_u32_def bit_simps not_bit_byte
      intro!: byte_eqI)

lemma be_of_u32_inverse [word_bytes]: "length xs = 4 \<Longrightarrow> be_of_u32 (u32_of_be xs) = xs"
  by (erule length_4E)
    (auto simp del: u32_of_be.simps simp add: u32_of_be_Cons be_of_u32_def bit_simps not_bit_byte
      intro!: byte_eqI)

lemma u64_of_bytes_inverse [simp]: "u64_of_le (le_of_u64 w) = w" "u64_of_be (be_of_u64 w) = w"
  using u64_of_le_of_u64 [of w "[]"] u64_of_be_of_u64 [of w "[]"] by simp_all

lemma ucast_of_nat_narrow:
  "LENGTH('b) \<le> LENGTH('a) \<Longrightarrow> (ucast (of_nat n :: 'a::len word) :: 'b::len word) = of_nat n"
  by (rule bit_word_eqI) (simp add: bit_simps)

lemma ucast_of_nat_small:
  "n < 2 ^ LENGTH('a) \<Longrightarrow> (ucast (of_nat n :: 'a::len word) :: 'b::len word) = of_nat n"
  by (simp add: unsigned_of_nat take_bit_nat_eq_self)

lemma not_bit_small: "(x::nat) < 2 ^ m \<Longrightarrow> m \<le> n \<Longrightarrow> \<not> bit x n"
  by (simp add: bit_iff_odd div_less less_le_trans [OF _ power_increasing [of m n 2]])

lemma push_bit_and_small:
  "x < 2 ^ k \<Longrightarrow> push_bit k y AND (of_nat x :: 'a::len word) = 0"
  using not_bit_small [of x k] by (intro bit_word_eqI) (auto simp: bit_simps)

text \<open>A shift by \<open>n\<close> or-ed with the opposite shift is a rotation.\<close>

lemma mod_wrap:
  assumes "i < L" and "n \<le> (L::nat)"
  shows "(i + n) mod L = (if i + n < L then i + n else i + n - L)"
  using assms by (cases "i + n < L") (auto simp: le_mod_geq)

lemma mod_neq: "i < j \<Longrightarrow> j < i + n \<Longrightarrow> i mod n \<noteq> (j mod n :: nat)"
proof
  assume *: "i < j" "j < i + n" "i mod n = j mod n"
  then have "n dvd j - i" by (metis mod_eq_dvd_iff_nat less_imp_le)
  then show False using *(1,2) by (auto dest: dvd_imp_le)
qed

lemma shift_or_rotr:
  fixes x :: "'a::len word"
  assumes "n \<le> LENGTH('a)"
  shows "drop_bit n x OR push_bit (LENGTH('a) - n) x = word_rotr n x"
proof (rule bit_word_eqI)
  fix i assume i: "i < LENGTH('a)"
  show "bit (drop_bit n x OR push_bit (LENGTH('a) - n) x) i = bit (word_rotr n x) i"
  proof (cases "i + n < LENGTH('a)")
    case True
    then show ?thesis using i assms by (auto simp: bit_simps mod_wrap add.commute)
  next
    case False
    moreover have "\<not> bit x (n + i)" using False by (auto dest: bit_imp_le_length)
    ultimately show ?thesis using i assms by (auto simp: bit_simps mod_wrap)
  qed
qed

lemma shift_or_rotl:
  fixes x :: "'a::len word"
  assumes "n < LENGTH('a)"
  shows "push_bit n x OR drop_bit (LENGTH('a) - n) x = word_rotl n x"
proof -
  have "push_bit n x OR drop_bit (LENGTH('a) - n) x = word_rotr (LENGTH('a) - n) x"
    using shift_or_rotr [of "LENGTH('a) - n" x] assms by (simp add: or.commute)
  also have "\<dots> = word_rotl n x"
    using assms by (simp add: word_rotl_eq_word_rotr)
  finally show ?thesis .
qed

end
