(* ===== verification/Cx_Crc.thy ===== *)
theory Cx_Crc
  imports Prelude
begin

text \<open>
  \<open>src/bolos/cx_crc.c\<close>: the table-driven CRC-16/CCITT and CRC-32 updates and the system
  call that selects one. The reference definitions compute the same checksums bit by bit.
\<close>

section \<open>The tables and the update functions\<close>

definition cx_ccitt16 :: "u16 list" where
  "cx_ccitt16 = [
     0x0000, 0x1021, 0x2042, 0x3063, 0x4084, 0x50a5, 0x60c6, 0x70e7, 0x8108,
     0x9129, 0xa14a, 0xb16b, 0xc18c, 0xd1ad, 0xe1ce, 0xf1ef, 0x1231, 0x0210,
     0x3273, 0x2252, 0x52b5, 0x4294, 0x72f7, 0x62d6, 0x9339, 0x8318, 0xb37b,
     0xa35a, 0xd3bd, 0xc39c, 0xf3ff, 0xe3de, 0x2462, 0x3443, 0x0420, 0x1401,
     0x64e6, 0x74c7, 0x44a4, 0x5485, 0xa56a, 0xb54b, 0x8528, 0x9509, 0xe5ee,
     0xf5cf, 0xc5ac, 0xd58d, 0x3653, 0x2672, 0x1611, 0x0630, 0x76d7, 0x66f6,
     0x5695, 0x46b4, 0xb75b, 0xa77a, 0x9719, 0x8738, 0xf7df, 0xe7fe, 0xd79d,
     0xc7bc, 0x48c4, 0x58e5, 0x6886, 0x78a7, 0x0840, 0x1861, 0x2802, 0x3823,
     0xc9cc, 0xd9ed, 0xe98e, 0xf9af, 0x8948, 0x9969, 0xa90a, 0xb92b, 0x5af5,
     0x4ad4, 0x7ab7, 0x6a96, 0x1a71, 0x0a50, 0x3a33, 0x2a12, 0xdbfd, 0xcbdc,
     0xfbbf, 0xeb9e, 0x9b79, 0x8b58, 0xbb3b, 0xab1a, 0x6ca6, 0x7c87, 0x4ce4,
     0x5cc5, 0x2c22, 0x3c03, 0x0c60, 0x1c41, 0xedae, 0xfd8f, 0xcdec, 0xddcd,
     0xad2a, 0xbd0b, 0x8d68, 0x9d49, 0x7e97, 0x6eb6, 0x5ed5, 0x4ef4, 0x3e13,
     0x2e32, 0x1e51, 0x0e70, 0xff9f, 0xefbe, 0xdfdd, 0xcffc, 0xbf1b, 0xaf3a,
     0x9f59, 0x8f78, 0x9188, 0x81a9, 0xb1ca, 0xa1eb, 0xd10c, 0xc12d, 0xf14e,
     0xe16f, 0x1080, 0x00a1, 0x30c2, 0x20e3, 0x5004, 0x4025, 0x7046, 0x6067,
     0x83b9, 0x9398, 0xa3fb, 0xb3da, 0xc33d, 0xd31c, 0xe37f, 0xf35e, 0x02b1,
     0x1290, 0x22f3, 0x32d2, 0x4235, 0x5214, 0x6277, 0x7256, 0xb5ea, 0xa5cb,
     0x95a8, 0x8589, 0xf56e, 0xe54f, 0xd52c, 0xc50d, 0x34e2, 0x24c3, 0x14a0,
     0x0481, 0x7466, 0x6447, 0x5424, 0x4405, 0xa7db, 0xb7fa, 0x8799, 0x97b8,
     0xe75f, 0xf77e, 0xc71d, 0xd73c, 0x26d3, 0x36f2, 0x0691, 0x16b0, 0x6657,
     0x7676, 0x4615, 0x5634, 0xd94c, 0xc96d, 0xf90e, 0xe92f, 0x99c8, 0x89e9,
     0xb98a, 0xa9ab, 0x5844, 0x4865, 0x7806, 0x6827, 0x18c0, 0x08e1, 0x3882,
     0x28a3, 0xcb7d, 0xdb5c, 0xeb3f, 0xfb1e, 0x8bf9, 0x9bd8, 0xabbb, 0xbb9a,
     0x4a75, 0x5a54, 0x6a37, 0x7a16, 0x0af1, 0x1ad0, 0x2ab3, 0x3a92, 0xfd2e,
     0xed0f, 0xdd6c, 0xcd4d, 0xbdaa, 0xad8b, 0x9de8, 0x8dc9, 0x7c26, 0x6c07,
     0x5c64, 0x4c45, 0x3ca2, 0x2c83, 0x1ce0, 0x0cc1, 0xef1f, 0xff3e, 0xcf5d,
     0xdf7c, 0xaf9b, 0xbfba, 0x8fd9, 0x9ff8, 0x6e17, 0x7e36, 0x4e55, 0x5e74,
     0x2e93, 0x3eb2, 0x0ed1, 0x1ef0]"

definition cx_ccitt32 :: "u32 list" where
  "cx_ccitt32 = [
     0x00000000, 0x77073096, 0xee0e612c, 0x990951ba, 0x076dc419, 0x706af48f, 0xe963a535,
     0x9e6495a3, 0x0edb8832, 0x79dcb8a4, 0xe0d5e91e, 0x97d2d988, 0x09b64c2b, 0x7eb17cbd,
     0xe7b82d07, 0x90bf1d91, 0x1db71064, 0x6ab020f2, 0xf3b97148, 0x84be41de, 0x1adad47d,
     0x6ddde4eb, 0xf4d4b551, 0x83d385c7, 0x136c9856, 0x646ba8c0, 0xfd62f97a, 0x8a65c9ec,
     0x14015c4f, 0x63066cd9, 0xfa0f3d63, 0x8d080df5, 0x3b6e20c8, 0x4c69105e, 0xd56041e4,
     0xa2677172, 0x3c03e4d1, 0x4b04d447, 0xd20d85fd, 0xa50ab56b, 0x35b5a8fa, 0x42b2986c,
     0xdbbbc9d6, 0xacbcf940, 0x32d86ce3, 0x45df5c75, 0xdcd60dcf, 0xabd13d59, 0x26d930ac,
     0x51de003a, 0xc8d75180, 0xbfd06116, 0x21b4f4b5, 0x56b3c423, 0xcfba9599, 0xb8bda50f,
     0x2802b89e, 0x5f058808, 0xc60cd9b2, 0xb10be924, 0x2f6f7c87, 0x58684c11, 0xc1611dab,
     0xb6662d3d, 0x76dc4190, 0x01db7106, 0x98d220bc, 0xefd5102a, 0x71b18589, 0x06b6b51f,
     0x9fbfe4a5, 0xe8b8d433, 0x7807c9a2, 0x0f00f934, 0x9609a88e, 0xe10e9818, 0x7f6a0dbb,
     0x086d3d2d, 0x91646c97, 0xe6635c01, 0x6b6b51f4, 0x1c6c6162, 0x856530d8, 0xf262004e,
     0x6c0695ed, 0x1b01a57b, 0x8208f4c1, 0xf50fc457, 0x65b0d9c6, 0x12b7e950, 0x8bbeb8ea,
     0xfcb9887c, 0x62dd1ddf, 0x15da2d49, 0x8cd37cf3, 0xfbd44c65, 0x4db26158, 0x3ab551ce,
     0xa3bc0074, 0xd4bb30e2, 0x4adfa541, 0x3dd895d7, 0xa4d1c46d, 0xd3d6f4fb, 0x4369e96a,
     0x346ed9fc, 0xad678846, 0xda60b8d0, 0x44042d73, 0x33031de5, 0xaa0a4c5f, 0xdd0d7cc9,
     0x5005713c, 0x270241aa, 0xbe0b1010, 0xc90c2086, 0x5768b525, 0x206f85b3, 0xb966d409,
     0xce61e49f, 0x5edef90e, 0x29d9c998, 0xb0d09822, 0xc7d7a8b4, 0x59b33d17, 0x2eb40d81,
     0xb7bd5c3b, 0xc0ba6cad, 0xedb88320, 0x9abfb3b6, 0x03b6e20c, 0x74b1d29a, 0xead54739,
     0x9dd277af, 0x04db2615, 0x73dc1683, 0xe3630b12, 0x94643b84, 0x0d6d6a3e, 0x7a6a5aa8,
     0xe40ecf0b, 0x9309ff9d, 0x0a00ae27, 0x7d079eb1, 0xf00f9344, 0x8708a3d2, 0x1e01f268,
     0x6906c2fe, 0xf762575d, 0x806567cb, 0x196c3671, 0x6e6b06e7, 0xfed41b76, 0x89d32be0,
     0x10da7a5a, 0x67dd4acc, 0xf9b9df6f, 0x8ebeeff9, 0x17b7be43, 0x60b08ed5, 0xd6d6a3e8,
     0xa1d1937e, 0x38d8c2c4, 0x4fdff252, 0xd1bb67f1, 0xa6bc5767, 0x3fb506dd, 0x48b2364b,
     0xd80d2bda, 0xaf0a1b4c, 0x36034af6, 0x41047a60, 0xdf60efc3, 0xa867df55, 0x316e8eef,
     0x4669be79, 0xcb61b38c, 0xbc66831a, 0x256fd2a0, 0x5268e236, 0xcc0c7795, 0xbb0b4703,
     0x220216b9, 0x5505262f, 0xc5ba3bbe, 0xb2bd0b28, 0x2bb45a92, 0x5cb36a04, 0xc2d7ffa7,
     0xb5d0cf31, 0x2cd99e8b, 0x5bdeae1d, 0x9b64c2b0, 0xec63f226, 0x756aa39c, 0x026d930a,
     0x9c0906a9, 0xeb0e363f, 0x72076785, 0x05005713, 0x95bf4a82, 0xe2b87a14, 0x7bb12bae,
     0x0cb61b38, 0x92d28e9b, 0xe5d5be0d, 0x7cdcefb7, 0x0bdbdf21, 0x86d3d2d4, 0xf1d4e242,
     0x68ddb3f8, 0x1fda836e, 0x81be16cd, 0xf6b9265b, 0x6fb077e1, 0x18b74777, 0x88085ae6,
     0xff0f6a70, 0x66063bca, 0x11010b5c, 0x8f659eff, 0xf862ae69, 0x616bffd3, 0x166ccf45,
     0xa00ae278, 0xd70dd2ee, 0x4e048354, 0x3903b3c2, 0xa7672661, 0xd06016f7, 0x4969474d,
     0x3e6e77db, 0xaed16a4a, 0xd9d65adc, 0x40df0b66, 0x37d83bf0, 0xa9bcae53, 0xdebb9ec5,
     0x47b2cf7f, 0x30b5ffe9, 0xbdbdf21c, 0xcabac28a, 0x53b39330, 0x24b4a3a6, 0xbad03605,
     0xcdd70693, 0x54de5729, 0x23d967bf, 0xb3667a2e, 0xc4614ab8, 0x5d681b02, 0x2a6f2b94,
     0xb40bbe37, 0xc30c8ea1, 0x5a05df1b, 0x2d02ef8d]"

definition sys_cx_crc16_update :: "u16 \<Rightarrow> bytes \<Rightarrow> u16" where
  "sys_cx_crc16_update crc buf =
     foldl (\<lambda>crc p. (cx_ccitt16 ! unat (ucast p XOR drop_bit 8 crc)) XOR push_bit 8 crc) crc buf"

definition CX_CRC32_INIT :: u32 where
  "CX_CRC32_INIT = 0xFFFFFFFF"

definition sys_cx_crc32_update :: "u32 \<Rightarrow> bytes \<Rightarrow> u32" where
  "sys_cx_crc32_update crc buf =
     foldl (\<lambda>crc p. (cx_ccitt32 ! unat ((crc XOR ucast p) AND 0xff)) XOR drop_bit 8 crc) crc buf
       XOR CX_CRC32_INIT"

fun reverse_32_bits_loop :: "nat \<Rightarrow> u32 \<Rightarrow> u32 \<Rightarrow> u32" where
  "reverse_32_bits_loop 0 v reverse_val = reverse_val"
| "reverse_32_bits_loop (Suc k) v reverse_val =
     (let i = 31 - k in
      reverse_32_bits_loop k v
        (if v AND push_bit i 1 \<noteq> 0 then reverse_val OR push_bit (32 - 1 - i) 1
         else reverse_val))"

definition reverse_32_bits :: "u32 \<Rightarrow> u32" where
  "reverse_32_bits v = reverse_32_bits_loop 32 v 0"

datatype crc_type = CRC_TYPE_CRC16_CCITT_FALSE | CRC_TYPE_CRC32 | CRC_TYPE_OTHER

definition sys_cx_crc_hw :: "crc_type \<Rightarrow> u32 \<Rightarrow> bytes \<Rightarrow> u32" where
  "sys_cx_crc_hw crc_type crc_state buf =
     (case crc_type of
        CRC_TYPE_CRC16_CCITT_FALSE \<Rightarrow> ucast (sys_cx_crc16_update (ucast crc_state) buf)
      | CRC_TYPE_CRC32 \<Rightarrow> sys_cx_crc32_update (reverse_32_bits crc_state) buf
      | CRC_TYPE_OTHER \<Rightarrow> 0)"

section \<open>The checksums bit by bit\<close>

text \<open>
  Most significant bit first with the polynomial \<open>0x1021\<close>; least significant bit first
  with the reflected polynomial \<open>0xEDB88320\<close>.
\<close>

definition crc16_bit :: "u16 \<Rightarrow> u16" where
  "crc16_bit crc = push_bit 1 crc XOR (if bit crc 15 then 0x1021 else 0)"

definition crc32_bit :: "u32 \<Rightarrow> u32" where
  "crc32_bit crc = drop_bit 1 crc XOR (if bit crc 0 then 0xEDB88320 else 0)"

definition crc16_byte :: "u16 \<Rightarrow> u8 \<Rightarrow> u16" where
  "crc16_byte crc b = (crc16_bit ^^ 8) (crc XOR push_bit 8 (ucast b))"

definition crc32_byte :: "u32 \<Rightarrow> u8 \<Rightarrow> u32" where
  "crc32_byte crc b = (crc32_bit ^^ 8) (crc XOR ucast b)"

text \<open>
  Both bit steps are linear over exclusive or, so a table of 256 entries is determined by
  the entries at the powers of two: doubling appends a copy xored with the next power.
\<close>

definition xor_linear :: "('a::len word \<Rightarrow> 'b::len word) \<Rightarrow> bool" where
  "xor_linear f \<longleftrightarrow> (\<forall>x y. f (x XOR y) = f x XOR f y)"

definition xdbl :: "'b::len word \<Rightarrow> 'b word list \<Rightarrow> 'b word list" where
  "xdbl c xs = xs @ map (\<lambda>x. x XOR c) xs"

lemma xor_linear_funpow:
  fixes f :: "'a::len word \<Rightarrow> 'a word"
  shows "xor_linear f \<Longrightarrow> xor_linear (f ^^ k)"
  by (induction k) (simp_all add: xor_linear_def)

lemma xor_linear_zero: "xor_linear f \<Longrightarrow> f 0 = 0"
proof -
  assume "xor_linear f"
  then have "f (0 XOR 0) = f 0 XOR f 0" unfolding xor_linear_def by blast
  then show ?thesis by simp
qed

lemma funpow_8: "(f ^^ 8) x = f (f (f (f (f (f (f (f x)))))))"
  by (simp add: eval_nat_numeral)

lemma of_nat_split: "i < 2 ^ k \<Longrightarrow> (of_nat (2 ^ k + i) :: 'a::len word) = of_nat i XOR of_nat (2 ^ k)"
proof -
  assume i: "i < 2 ^ k"
  have "push_bit k 1 AND (of_nat i :: 'a word) = 0" by (rule push_bit_and_small [OF i])
  then have "push_bit k 1 + (of_nat i :: 'a word) = push_bit k 1 XOR of_nat i"
    by (rule disjunctive_add_eq_xor)
  then show ?thesis by (simp add: push_bit_eq_mult xor.commute)
qed

lemma linear_table_double:
  assumes "xor_linear f"
  shows "map (\<lambda>i. f (of_nat i)) [0..<2 ^ Suc k] =
    xdbl (f (of_nat (2 ^ k))) (map (\<lambda>i. f (of_nat i)) [0..<2 ^ k])"
proof -
  have "[0..<2 ^ Suc k] = [0..<2 ^ k] @ map (\<lambda>i. 2 ^ k + i) [0..<2 ^ k]"
    using upt_add_eq_append [of 0 "2 ^ k" "2 ^ k"] by (simp add: map_add_upt mult_2 add.commute)
  moreover have "f (of_nat (2 ^ k + i)) = f (of_nat i) XOR f (of_nat (2 ^ k))" if "i < 2 ^ k" for i
    using assms unfolding of_nat_split [OF that] xor_linear_def by blast
  ultimately show ?thesis by (simp add: xdbl_def comp_def)
qed

lemma linear_table:
  assumes "xor_linear f"
  shows "map (\<lambda>i. f (of_nat i)) [0..<256] =
    xdbl (f 128) (xdbl (f 64) (xdbl (f 32) (xdbl (f 16) (xdbl (f 8) (xdbl (f 4) (xdbl (f 2)
      (xdbl (f 1) [0])))))))"
proof -
  have "map (\<lambda>i. f (of_nat i)) [0..<Suc 0] = [0]"
    using xor_linear_zero [OF assms] by simp
  then show ?thesis
    using linear_table_double [OF assms, of 0] linear_table_double [OF assms, of 1]
      linear_table_double [OF assms, of 2] linear_table_double [OF assms, of 3]
      linear_table_double [OF assms, of 4] linear_table_double [OF assms, of 5]
      linear_table_double [OF assms, of 6] linear_table_double [OF assms, of 7]
    by (simp del: upt_Suc upt_rec_numeral)
qed

lemma crc16_bit_linear: "xor_linear crc16_bit"
  unfolding xor_linear_def crc16_bit_def
  by (auto simp: bit_xor_iff push_bit_xor ac_simps)

lemma crc32_bit_linear: "xor_linear crc32_bit"
  unfolding xor_linear_def crc32_bit_def
  by (auto simp: bit_xor_iff drop_bit_xor ac_simps)

lemma crc16_high_linear: "xor_linear (\<lambda>x. (crc16_bit ^^ 8) (push_bit 8 x))"
  using xor_linear_funpow [OF crc16_bit_linear, of 8] by (simp add: xor_linear_def push_bit_xor)

lemma crc16_table: "cx_ccitt16 = map (\<lambda>i. (crc16_bit ^^ 8) (push_bit 8 (of_nat i))) [0..<256]"
  unfolding linear_table [OF crc16_high_linear]
  by (simp add: cx_ccitt16_def xdbl_def crc16_bit_def funpow_8)

lemma crc32_table: "cx_ccitt32 = map (\<lambda>i. (crc32_bit ^^ 8) (of_nat i)) [0..<256]"
  unfolding linear_table [OF xor_linear_funpow [OF crc32_bit_linear, of 8]]
  by (simp add: cx_ccitt32_def xdbl_def crc32_bit_def funpow_8)

section \<open>The table-driven updates compute the checksums\<close>

lemma crc16_low: "k \<le> 8 \<Longrightarrow> (crc16_bit ^^ k) (take_bit 8 x) = push_bit k (take_bit 8 x)"
  by (induction k) (auto simp: crc16_bit_def bit_simps)

lemma crc32_high: "k \<le> 8 \<Longrightarrow> (crc32_bit ^^ k) (push_bit 8 x) = drop_bit k (push_bit 8 x)"
  by (induction k) (auto simp: crc32_bit_def bit_simps add.commute)

lemma crc16_split: "x = push_bit 8 (drop_bit 8 x) XOR take_bit 8 (x::u16)"
  by (rule bit_word_eqI) (auto simp: bit_simps)

lemma crc32_split: "x = take_bit 8 x XOR push_bit 8 (drop_bit 8 (x::u32))"
  by (rule bit_word_eqI) (auto simp: bit_simps)

lemma unat_drop_bit_8: "unat (drop_bit 8 (x::u16)) < 256"
proof -
  have "unat (drop_bit 8 x) = unat x div 256"
    by (simp add: drop_bit_eq_div unat_div_distrib)
  also have "\<dots> < 256" using unsigned_less [where 'a = nat, of x] by simp
  finally show ?thesis .
qed

lemma unat_take_bit_8: "unat (take_bit 8 (x::u32)) < 256"
  using take_bit_nat_less_exp [of 8 "unat x"] by (simp add: unsigned_take_bit_eq)

lemma crc16_table_step:
  "(cx_ccitt16 ! unat (ucast p XOR drop_bit 8 crc)) XOR push_bit 8 crc = crc16_byte crc p"
proof -
  let ?x = "crc XOR push_bit 8 (ucast p)"
  have h: "ucast p XOR drop_bit 8 crc = drop_bit 8 ?x"
    by (rule bit_word_eqI) (auto simp: bit_simps dest: bit_imp_le_length)
  have "(crc16_bit ^^ 8) ?x = (crc16_bit ^^ 8) (push_bit 8 (drop_bit 8 ?x) XOR take_bit 8 ?x)"
    by (subst crc16_split) (rule refl)
  also have "\<dots> = (crc16_bit ^^ 8) (push_bit 8 (drop_bit 8 ?x)) XOR (crc16_bit ^^ 8) (take_bit 8 ?x)"
    using xor_linear_funpow [OF crc16_bit_linear, of 8] unfolding xor_linear_def by blast
  also have "(crc16_bit ^^ 8) (take_bit 8 ?x) = push_bit 8 crc"
    by (subst crc16_low) (auto intro!: bit_word_eqI simp: bit_simps)
  also have "(crc16_bit ^^ 8) (push_bit 8 (drop_bit 8 ?x)) = cx_ccitt16 ! unat (drop_bit 8 ?x)"
    unfolding crc16_table using unat_drop_bit_8 [of ?x] by (simp del: upt_rec_numeral)
  finally show ?thesis by (simp add: crc16_byte_def h)
qed

lemma crc32_table_step:
  "(cx_ccitt32 ! unat ((crc XOR ucast p) AND 0xff)) XOR drop_bit 8 crc = crc32_byte crc p"
proof -
  let ?x = "crc XOR ucast p"
  have m: "?x AND 0xff = take_bit 8 ?x" by (simp add: take_bit_eq_mask mask_eq_exp_minus_1)
  have "(crc32_bit ^^ 8) ?x = (crc32_bit ^^ 8) (take_bit 8 ?x XOR push_bit 8 (drop_bit 8 ?x))"
    by (subst crc32_split) (rule refl)
  also have "\<dots> = (crc32_bit ^^ 8) (take_bit 8 ?x) XOR (crc32_bit ^^ 8) (push_bit 8 (drop_bit 8 ?x))"
    using xor_linear_funpow [OF crc32_bit_linear, of 8] unfolding xor_linear_def by blast
  also have "(crc32_bit ^^ 8) (push_bit 8 (drop_bit 8 ?x)) = drop_bit 8 crc"
  proof (rule bit_word_eqI)
    fix n assume "n < LENGTH(32)"
    show "bit ((crc32_bit ^^ 8) (push_bit 8 (drop_bit 8 ?x))) n = bit (drop_bit 8 crc) n"
      using bit_imp_le_length [of crc "8 + n"]
      by (subst crc32_high) (auto simp: bit_simps not_bit_byte)
  qed
  also have "(crc32_bit ^^ 8) (take_bit 8 ?x) = cx_ccitt32 ! unat (take_bit 8 ?x)"
    unfolding crc32_table using unat_take_bit_8 [of ?x] by (simp del: upt_rec_numeral)
  finally show ?thesis by (simp add: crc32_byte_def m)
qed

lemma crc16_update_step: "sys_cx_crc16_update crc buf = foldl crc16_byte crc buf"
  by (simp only: sys_cx_crc16_update_def crc16_table_step)

lemma crc32_update_step: "sys_cx_crc32_update crc buf = foldl crc32_byte crc buf XOR 0xFFFFFFFF"
  by (simp only: sys_cx_crc32_update_def crc32_table_step CX_CRC32_INIT_def)

text \<open>
  The table-driven CRC-16 is the bitwise CRC-16/CCITT of the input for every
  starting value and every input; in particular every one of the 256 table entries is right.
\<close>

theorem crc16_update_bitwise: "sys_cx_crc16_update crc buf = foldl crc16_byte crc buf"
  by (rule crc16_update_step)

text \<open>
  The table-driven CRC-32 is the bitwise reflected CRC-32 with its final
  complement, for every starting value and every input.
\<close>

theorem crc32_update_bitwise: "sys_cx_crc32_update crc buf = foldl crc32_byte crc buf XOR 0xFFFFFFFF"
  by (rule crc32_update_step)

lemma reverse_32_bits_step:
  "k < 32 \<Longrightarrow> (if v AND push_bit (31 - k) 1 \<noteq> 0 then r OR push_bit (32 - 1 - (31 - k)) 1 else r) =
   (r OR push_bit k (if bit v (31 - k) then 1 else 0) :: u32)"
  using bit_iff_and_push_bit_not_eq_0 [of v "31 - k"] by simp

lemma reverse_32_bits_loop_bit:
  "k \<le> 32 \<Longrightarrow> n < 32 \<Longrightarrow> bit (reverse_32_bits_loop k v r) n \<longleftrightarrow>
   bit r n \<or> n < k \<and> bit v (31 - n)"
proof (induction k arbitrary: r)
  case (Suc k)
  have "bit (r OR push_bit k (if bit v (31 - k) then 1 else 0)) n \<longleftrightarrow> bit r n \<or> n = k \<and> bit v (31 - n)"
    using Suc.prems by (cases "bit v (31 - k)") (auto simp: bit_simps)
  then show ?case
    using Suc reverse_32_bits_step [of k v r] by (auto simp: Let_def less_Suc_eq simp del: push_bit_of_1)
qed simp

lemma bit_reverse_32_bits: "n < 32 \<Longrightarrow> bit (reverse_32_bits v) n = bit v (31 - n)"
  by (simp add: reverse_32_bits_def reverse_32_bits_loop_bit)

text \<open>
  \<open>sys_cx_crc_hw\<close> selects the checksum by its type and mirrors the 32 bits
  of the CRC-32 state; mirroring twice is the identity, and an unknown type gives 0.
\<close>

theorem crc_hw_dispatch:
  "sys_cx_crc_hw CRC_TYPE_CRC16_CCITT_FALSE s buf = ucast (foldl crc16_byte (ucast s) buf) \<and>
   sys_cx_crc_hw CRC_TYPE_CRC32 (reverse_32_bits s) buf = foldl crc32_byte s buf XOR 0xFFFFFFFF \<and>
   sys_cx_crc_hw CRC_TYPE_OTHER s buf = 0"
proof -
  have "reverse_32_bits (reverse_32_bits s) = s"
    by (rule bit_word_eqI) (simp add: bit_reverse_32_bits)
  then show ?thesis by (simp add: sys_cx_crc_hw_def crc16_update_step crc32_update_step)
qed

end
