(* ===== verification/Block_Stream.thy ===== *)
theory Block_Stream
  imports Prelude
begin

text \<open>
  The buffering discipline shared by the update functions of \<open>cx_sha256.c\<close>,
  \<open>cx_sha512.c\<close>, \<open>cx_ripemd160.c\<close> and \<open>cx_sha3.c\<close>: input bytes are gathered in a block
  of \<open>n\<close> bytes, every full block is absorbed, and the rest waits for the next call.
  \<open>feed\<close> says what such an update promises, independently of how the input was cut up;
  the locale \<open>block_stream\<close> states what the loop of the C code is made of and proves once
  that it keeps this promise.
\<close>

section \<open>The contract: full blocks and the pending rest\<close>

function chunks :: "nat \<Rightarrow> 'a list \<Rightarrow> 'a list list" where
  "chunks n xs = (if n = 0 \<or> length xs < n then [] else take n xs # chunks n (drop n xs))"
  by pat_completeness auto
termination
  by (relation "measure (\<lambda>(n, xs). length xs)") auto

declare chunks.simps [simp del]

definition chunk_rest :: "nat \<Rightarrow> 'a list \<Rightarrow> 'a list" where
  "chunk_rest n xs = drop (length xs div n * n) xs"

definition feed :: "('s \<Rightarrow> 'a list \<Rightarrow> 's) \<Rightarrow> nat \<Rightarrow> 's \<times> 'a list \<Rightarrow> 'a list \<Rightarrow> 's \<times> 'a list" where
  "feed f n sp d = (foldl f (fst sp) (chunks n (snd sp @ d)), chunk_rest n (snd sp @ d))"

lemma chunks_short [simp]: "length xs < n \<Longrightarrow> chunks n xs = []"
  by (simp add: chunks.simps)

lemma chunk_rest_short [simp]: "length xs < n \<Longrightarrow> chunk_rest n xs = xs"
  by (simp add: chunk_rest_def)

lemma chunks_Cons:
  "length b = n \<Longrightarrow> 0 < n \<Longrightarrow> chunks n (b @ xs) = b # chunks n xs"
  by (subst chunks.simps) simp

lemma chunk_rest_Cons:
  assumes "length b = n" and "0 < n"
  shows "chunk_rest n (b @ xs) = chunk_rest n xs"
proof -
  have "length (b @ xs) div n = Suc (length xs div n)" using assms by (simp add: div_add_self1)
  then show ?thesis using assms by (simp add: chunk_rest_def del: length_append)
qed

lemma length_chunk_rest: "0 < n \<Longrightarrow> length (chunk_rest n xs) = length xs mod n"
  by (simp add: chunk_rest_def minus_div_mult_eq_mod)

lemma length_chunk_rest_less: "0 < n \<Longrightarrow> length (chunk_rest n xs) < n"
  by (simp add: length_chunk_rest)

lemma length_chunks: "0 < n \<Longrightarrow> length (chunks n xs) = length xs div n"
proof (induction n xs rule: chunks.induct)
  case (1 n xs)
  then show ?case
    by (subst chunks.simps) (auto simp: not_less le_div_geq)
qed

lemma set_chunks_length: "b \<in> set (chunks n xs) \<Longrightarrow> length b = n"
proof (induction n xs rule: chunks.induct)
  case (1 n xs)
  then show ?case
    by (subst (asm) (2) chunks.simps) (auto split: if_splits)
qed

lemma chunks_cases:
  assumes "0 < n"
  obtains "length xs < n" | b ys where "xs = b @ ys" "length b = n"
proof (cases "length xs < n")
  case False
  have "xs = take n xs @ drop n xs" by simp
  then show ?thesis using False that(2) [of "take n xs" "drop n xs"] by simp
qed (rule that(1))

lemma chunks_append:
  assumes "0 < n"
  shows "chunks n (xs @ ys) = chunks n xs @ chunks n (chunk_rest n xs @ ys)"
proof (induction "length xs" arbitrary: xs rule: less_induct)
  case less
  show ?case
  proof (cases xs rule: chunks_cases [OF assms])
    case 1 then show ?thesis by simp
  next
    case (2 b zs)
    with assms less have "chunks n (zs @ ys) = chunks n zs @ chunks n (chunk_rest n zs @ ys)"
      by auto
    then show ?thesis using 2 assms by (simp add: chunks_Cons chunk_rest_Cons)
  qed
qed

lemma chunk_rest_append:
  assumes "0 < n"
  shows "chunk_rest n (xs @ ys) = chunk_rest n (chunk_rest n xs @ ys)"
proof (induction "length xs" arbitrary: xs rule: less_induct)
  case less
  show ?case
  proof (cases xs rule: chunks_cases [OF assms])
    case 1 then show ?thesis by simp
  next
    case (2 b zs)
    with assms less have "chunk_rest n (zs @ ys) = chunk_rest n (chunk_rest n zs @ ys)"
      by auto
    then show ?thesis using 2 assms by (simp add: chunk_rest_Cons)
  qed
qed

lemma concat_chunks: "0 < n \<Longrightarrow> concat (chunks n xs) @ chunk_rest n xs = xs"
proof (induction n xs rule: chunks.induct)
  case (1 n xs)
  show ?case
  proof (cases "length xs < n")
    case False
    have "chunk_rest n xs = chunk_rest n (drop n xs)"
      using chunk_rest_Cons [of "take n xs" n "drop n xs"] 1(2) False by simp
    then show ?thesis using 1 False by (subst chunks.simps) simp
  qed simp
qed

text \<open>Cutting the input in two does not matter: the streaming law.\<close>

lemma feed_append: "0 < n \<Longrightarrow> feed f n (feed f n sp a) b = feed f n sp (a @ b)"
  using chunks_append [of n "snd sp @ a" b] chunk_rest_append [of n "snd sp @ a" b]
  by (simp add: feed_def)

lemma feed_short: "length (p @ d) < n \<Longrightarrow> feed f n (s, p) d = (s, p @ d)"
  by (simp add: feed_def)

lemma feed_block:
  "length b = n \<Longrightarrow> 0 < n \<Longrightarrow> b = p @ take r d \<Longrightarrow> feed f n (s, p) d = feed f n (f s b, []) (drop r d)"
proof -
  assume b: "length b = n" "0 < n" "b = p @ take r d"
  then have "p @ d = b @ drop r d" by simp
  then show ?thesis using b(1,2) by (simp add: feed_def chunks_Cons chunk_rest_Cons)
qed

lemma length_snd_feed: "0 < n \<Longrightarrow> length (snd (feed f n sp d)) < n"
  by (simp add: feed_def length_chunk_rest_less)

section \<open>Merkle-Damgard padding\<close>

text \<open>
  The padding of SHA-2 and RIPEMD-160: a byte \<open>0x80\<close>, the least number of zeros that makes
  the length field of \<open>l\<close> bytes end a block of \<open>n\<close> bytes, and the encoded bit length.
  \<open>md_last\<close> are the one or two blocks the C code builds from the pending bytes.
\<close>

definition md_pad :: "nat \<Rightarrow> nat \<Rightarrow> bytes \<Rightarrow> bytes \<Rightarrow> bytes" where
  "md_pad n l len m =
     m @ [0x80] @ replicate ((n - (length m + 1 + l) mod n) mod n) 0 @ len"

definition md_last :: "nat \<Rightarrow> nat \<Rightarrow> bytes \<Rightarrow> bytes \<Rightarrow> bytes list" where
  "md_last n l len p =
     (if length p + 1 + l \<le> n then [p @ 0x80 # replicate (n - l - (length p + 1)) 0 @ len]
      else [p @ 0x80 # replicate (n - (length p + 1)) 0, replicate (n - l) 0 @ len])"

lemma chunks_exact: "length b = n \<Longrightarrow> 0 < n \<Longrightarrow> chunks n b = [b]"
  using chunks_Cons [of b n "[]"] by simp

lemma md_zeros:
  assumes "0 < n" and "l < n" and "length p = k mod n"
  shows "(n - (k + 1 + l) mod n) mod n =
    (if length p + 1 + l \<le> n then n - l - (length p + 1) else (n - (length p + 1)) + (n - l))"
proof -
  have k: "(k + 1 + l) mod n = (length p + 1 + l) mod n"
    using mod_add_left_eq [of k n "1 + l"] assms(3) by (simp add: add.assoc)
  have p: "length p < n" using assms by simp
  show ?thesis
  proof (cases "length p + 1 + l \<le> n")
    case True
    then show ?thesis unfolding k
      by (cases "length p + 1 + l = n") (use assms(1) in auto)
  next
    case False
    then have "(length p + 1 + l) mod n = length p + 1 + l - n"
      using p assms(2) by (simp add: le_mod_geq)
    then show ?thesis unfolding k using False p assms(2) by simp
  qed
qed

lemma chunks_md_pad:
  assumes "0 < n" and "l < n" and "length len = l"
  shows "chunks n (md_pad n l len m) = chunks n m @ md_last n l len (chunk_rest n m)"
proof -
  let ?p = "chunk_rest n m"
  let ?z = "(n - (length m + 1 + l) mod n) mod n"
  have lp: "length ?p = length m mod n" "length ?p < n"
    using assms(1) by (simp_all add: length_chunk_rest)
  have "chunks n (md_pad n l len m) = chunks n m @ chunks n (?p @ [0x80] @ replicate ?z 0 @ len)"
    unfolding md_pad_def by (rule chunks_append [OF assms(1)])
  also have "chunks n (?p @ [0x80] @ replicate ?z 0 @ len) = md_last n l len ?p"
  proof (cases "length ?p + 1 + l \<le> n")
    case True
    then have z: "?z = n - l - (length ?p + 1)" using md_zeros [OF assms(1,2) lp(1)] by simp
    have "length (?p @ [0x80] @ replicate ?z 0 @ len) = n" unfolding z using True assms by simp
    then show ?thesis using True assms(1) z by (simp add: md_last_def chunks_exact)
  next
    case False
    then have z: "?z = (n - (length ?p + 1)) + (n - l)" using md_zeros [OF assms(1,2) lp(1)] by simp
    have "chunks n ((?p @ 0x80 # replicate (n - (length ?p + 1)) 0) @ replicate (n - l) 0 @ len) =
        [?p @ 0x80 # replicate (n - (length ?p + 1)) 0, replicate (n - l) 0 @ len]"
      using assms lp(2) by (subst chunks_Cons) (simp_all add: chunks_exact)
    then show ?thesis using False unfolding z by (simp add: md_last_def replicate_add)
  qed
  finally show ?thesis .
qed

text \<open>How the C code writes these blocks into the block buffer.\<close>

lemma md_write_mark:
  assumes "length blk = n" and "b < n"
  shows "buf_write (blk[b := 0x80]) (Suc b) (replicate (n - Suc b) 0) =
    take b blk @ 0x80 # replicate (n - Suc b) (0::u8)"
proof -
  have "take (Suc b) (blk[b := 0x80]) = take b blk @ [0x80]"
    using assms by (simp add: take_Suc_conv_app_nth)
  then show ?thesis using assms by (simp add: buf_write_def)
qed

lemma md_write_length:
  assumes "length p = b" and "b + 1 + l \<le> n" and "length len = l"
  shows "buf_write (p @ 0x80 # replicate (n - Suc b) 0) (n - l) len =
    p @ 0x80 # replicate (n - l - Suc b) (0::u8) @ len"
proof -
  have "take (n - l) (p @ 0x80 # replicate (n - Suc b) 0) = p @ 0x80 # replicate (n - l - Suc b) (0::u8)"
    using assms by (simp add: take_Cons' min_def)
  then show ?thesis using assms by (simp add: buf_write_def)
qed

lemma md_write_zeros:
  assumes "length blk = n" and "l \<le> n" and "length len = l"
  shows "buf_write (buf_write blk 0 (replicate n 0)) (n - l) len = replicate (n - l) (0::u8) @ len"
  using assms by (simp add: buf_write_def)

section \<open>The loop\<close>

text \<open>
  \<open>start\<close> clears the pending length, \<open>absorb c b x\<close> copies \<open>x\<close> at offset \<open>b\<close> of the
  block buffer, runs the compression and counts the block, \<open>finish c b x\<close> keeps the last
  bytes; \<open>st\<close> is the chaining state, \<open>blk\<close> the block buffer. \<open>room\<close> is the test on the
  block counter, whose failure throws \<open>exn\<close>.
\<close>

locale block_stream =
  fixes n :: nat
    and start :: "'c \<Rightarrow> 'c"
    and absorb :: "'c \<Rightarrow> nat \<Rightarrow> bytes \<Rightarrow> 'c"
    and finish :: "'c \<Rightarrow> nat \<Rightarrow> bytes \<Rightarrow> 'c"
    and room :: "'s \<Rightarrow> bool"
    and exn :: u16
    and loop :: "'c \<Rightarrow> nat \<Rightarrow> nat \<Rightarrow> bytes \<Rightarrow> 'c \<times> (c_error + bytes)"
    and blen :: "'c \<Rightarrow> nat"
    and blk :: "'c \<Rightarrow> bytes"
    and st :: "'c \<Rightarrow> 's"
    and wf :: "'c \<Rightarrow> bool"
    and compress :: "'s \<Rightarrow> bytes \<Rightarrow> 's"
  assumes n_pos: "0 < n"
    and loop_eq: "loop c b r d =
      (if \<not> room (st c) then (c, Inl (Throw exn))
       else if n \<le> length (drop r d) then loop (absorb c b (take r d)) 0 n (drop r d)
       else (absorb c b (take r d), Inr (drop r d)))"
    and blk_length: "wf c \<Longrightarrow> length (blk c) = n"
    and start_laws: "st (start c) = st c" "blk (start c) = blk c" "wf c \<Longrightarrow> wf (start c)"
    and absorb_wf: "wf c \<Longrightarrow> b + length x = n \<Longrightarrow> wf (absorb c b x)"
    and absorb_st: "wf c \<Longrightarrow> b + length x = n \<Longrightarrow>
      st (absorb c b x) = compress (st c) (take b (blk c) @ x)"
    and finish_wf: "wf c \<Longrightarrow> b + length x < n \<Longrightarrow> wf (finish c b x)"
    and finish_st: "st (finish c b x) = st c"
    and finish_blen: "blen (finish c b x) = b + length x"
    and finish_blk: "wf c \<Longrightarrow> b + length x < n \<Longrightarrow> blk (finish c b x) = buf_write (blk c) b x"
begin

definition pend :: "'c \<Rightarrow> bytes" where
  "pend c = take (blen c) (blk c)"

definition rooms :: "'s \<Rightarrow> bytes list \<Rightarrow> bool" where
  "rooms s bs \<longleftrightarrow> (\<forall>k < length bs. room (foldl compress s (take k bs)))"

lemma rooms_Nil [simp]: "rooms s []"
  by (simp add: rooms_def)

lemma rooms_Cons: "rooms s (b # bs) \<longleftrightarrow> room s \<and> rooms (compress s b) bs"
  by (auto simp: rooms_def nth_Cons' less_Suc_eq_0_disj)

lemma loop_feed:
  assumes "wf c" and "0 < r" and "b + r = n" and "r \<le> length d"
    and "rooms (st c) (chunks n (take b (blk c) @ d))"
  shows "\<exists>c' d'. loop c b r d = (c', Inr d') \<and> wf c' \<and> length d' < n \<and>
    (st c', d') = feed compress n (st c, take b (blk c)) d"
  using assms
proof (induction "length d" arbitrary: c b r d rule: less_induct)
  case less
  let ?blk = "take b (blk c) @ take r d" and ?c = "absorb c b (take r d)"
  have len: "length ?blk = n" "b + length (take r d) = n"
    using less.prems blk_length by auto
  have split: "take b (blk c) @ d = ?blk @ drop r d" by simp
  have room: "room (st c)" and rest: "rooms (compress (st c) ?blk) (chunks n (drop r d))"
    using less.prems(5) len n_pos unfolding split by (simp_all only: chunks_Cons rooms_Cons)
  have c: "wf ?c" "st ?c = compress (st c) ?blk"
    using less.prems(1) len(2) by (simp_all add: absorb_wf absorb_st)
  have feed: "feed compress n (st c, take b (blk c)) d = feed compress n (st ?c, []) (drop r d)"
    unfolding c(2) using len(1) n_pos by (intro feed_block) simp_all
  show ?case
  proof (cases "n \<le> length (drop r d)")
    case True
    have "length (drop r d) < length d" using less.prems(2,4) by simp
    from less.hyps [OF this c(1), of n 0] True c(2) rest n_pos
    show ?thesis unfolding loop_eq [of c b r d] feed using room by auto
  next
    case False
    then show ?thesis
      unfolding loop_eq [of c b r d] feed using room c(1) by (auto simp: feed_short)
  qed
qed

end

text \<open>
  The update function around the loop: \<open>update\<close> takes the input bytes once the pointer
  checks of the C function are passed, and returns the status of the C function.
\<close>

locale block_update = block_stream +
  fixes update :: "'a \<Rightarrow> bytes \<Rightarrow> 'a \<times> (c_error + nat)"
  assumes update_eq: "wf c \<Longrightarrow> blen c < n \<Longrightarrow> blen c + length d < 2 ^ 32 \<Longrightarrow> update c d =
      (if n \<le> blen c + length d
       then (case loop (start c) (blen c) (n - blen c) d of
               (c', Inl e) \<Rightarrow> (c', Inl e)
             | (c', Inr d') \<Rightarrow> (finish c' 0 d', Inr 1))
       else (finish (start c) (blen c) d, Inr 1))"
begin

lemma pend_finish:
  assumes "wf c" and "b + length x < n"
  shows "pend (finish c b x) = take b (blk c) @ x"
  using assms blk_length [of c] by (simp add: pend_def finish_blen finish_blk take_buf_write)

lemma length_pend: "wf c \<Longrightarrow> blen c < n \<Longrightarrow> length (pend c) = blen c"
  using blk_length [of c] by (simp add: pend_def)

lemma update_feed:
  assumes "wf c" and "blen c < n" and "blen c + length d < 2 ^ 32"
    and "rooms (st c) (chunks n (pend c @ d))"
  shows "\<exists>c'. update c d = (c', Inr 1) \<and> wf c' \<and> blen c' < n \<and>
    (st c', pend c') = feed compress n (st c, pend c) d"
proof (cases "n \<le> blen c + length d")
  case True
  have "rooms (st (start c)) (chunks n (take (blen c) (blk (start c)) @ d))"
    using assms(4) by (simp add: start_laws pend_def)
  moreover have "n - blen c \<le> length d" using True by simp
  ultimately obtain c' d' where l: "loop (start c) (blen c) (n - blen c) d = (c', Inr d')" "wf c'"
      "length d' < n" "(st c', d') = feed compress n (st c, pend c) d"
    using loop_feed [of "start c" "n - blen c" "blen c" d] assms(1,2)
    by (auto simp: start_laws pend_def)
  have "update c d = (finish c' 0 d', Inr 1)"
    using update_eq [OF assms(1-3)] True l(1) by simp
  moreover have "pend (finish c' 0 d') = d'" using l(2,3) by (simp add: pend_finish)
  ultimately show ?thesis using l by (simp add: finish_wf finish_st finish_blen)
next
  case False
  have "pend (finish (start c) (blen c) d) = pend c @ d"
    using False assms(1) by (simp add: pend_finish start_laws) (simp add: pend_def)
  moreover have "length (pend c @ d) < n" using False assms(1,2) by (simp add: length_pend)
  ultimately show ?thesis
    using update_eq [OF assms(1-3)] False assms(1)
    by (simp add: feed_short finish_wf finish_st finish_blen start_laws)
qed

lemma update_no_room:
  assumes "wf c" and "blen c < n" and "blen c + length d < 2 ^ 32"
    and "n \<le> blen c + length d" and "\<not> room (st c)"
  shows "update c d = (start c, Inl (Throw exn))"
  using assms by (simp add: update_eq loop_eq [of "start c"] start_laws)

lemma rooms_append: "rooms s (xs @ ys) \<longleftrightarrow> rooms s xs \<and> rooms (foldl compress s xs) ys"
  by (induction xs arbitrary: s) (auto simp: rooms_Cons)

lemma update_append:
  assumes "wf c" and "blen c < n" and "blen c + length a + length b < 2 ^ 32"
    and "rooms (st c) (chunks n (pend c @ a @ b))"
  shows "\<exists>c1 c2 c'. update c a = (c1, Inr 1) \<and> update c1 b = (c2, Inr 1) \<and>
    update c (a @ b) = (c', Inr 1) \<and> st c2 = st c' \<and> pend c2 = pend c'"
proof -
  have ch: "chunks n (pend c @ a @ b) = chunks n (pend c @ a) @ chunks n (chunk_rest n (pend c @ a) @ b)"
    using chunks_append [OF n_pos, of "pend c @ a" b] by simp
  obtain c1 where c1: "update c a = (c1, Inr 1)" "wf c1" "blen c1 < n"
      "(st c1, pend c1) = feed compress n (st c, pend c) a"
    using update_feed [OF assms(1,2), of a] assms(3,4) unfolding ch rooms_append by auto
  have "rooms (st c1) (chunks n (pend c1 @ b))"
    using assms(4) c1(4) unfolding ch rooms_append by (simp add: feed_def)
  moreover have "blen c1 \<le> blen c + length a"
  proof -
    have "blen c1 = length (pend c1)" using c1(2,3) by (simp add: length_pend)
    also have "\<dots> = length (pend c @ a) mod n" using c1(4) n_pos by (simp add: feed_def length_chunk_rest)
    also have "\<dots> \<le> length (pend c @ a)" by (rule mod_less_eq_dividend)
    finally show ?thesis using assms(1,2) by (simp add: length_pend)
  qed
  ultimately obtain c2 where c2: "update c1 b = (c2, Inr 1)"
      "(st c2, pend c2) = feed compress n (st c1, pend c1) b"
    using update_feed [OF c1(2,3), of b] assms(3) by auto
  obtain c' where c': "update c (a @ b) = (c', Inr 1)"
      "(st c', pend c') = feed compress n (st c, pend c) (a @ b)"
    using update_feed [OF assms(1,2), of "a @ b"] assms(3,4) by auto
  have "(st c2, pend c2) = (st c', pend c')"
    unfolding c2(2) c'(2) c1(4) by (rule feed_append [OF n_pos])
  then show ?thesis using c1(1) c2(1) c'(1) by blast
qed

end

end
