(* ===== verification/Cx_Utils.thy ===== *)
theory Cx_Utils
  imports Prelude
begin

text \<open>
  \<open>src/bolos/cx_utils.c\<close> and \<open>cx_utils.h\<close> in the configuration the build sets
  (\<open>OS_LITTLE_ENDIAN\<close>, \<open>NATIVE_64BITS\<close>): rotations, byte swapping, big-endian numbers in
  buffers, buffer reversal and the derivation path parser.
\<close>

section \<open>Rotations and byte swapping\<close>

definition cx_rotl :: "u32 \<Rightarrow> nat \<Rightarrow> u32" where
  "cx_rotl x n = push_bit n x OR drop_bit (32 - n) x"

definition cx_rotr :: "u32 \<Rightarrow> nat \<Rightarrow> u32" where
  "cx_rotr x n = drop_bit n x OR push_bit (32 - n) x"

definition cx_shr :: "u32 \<Rightarrow> nat \<Rightarrow> u32" where
  "cx_shr x n = drop_bit n x"

definition cx_rotr64 :: "u64 \<Rightarrow> nat \<Rightarrow> u64" where
  "cx_rotr64 x n = drop_bit n x OR push_bit (64 - n) x"

definition cx_rotl64 :: "u64 \<Rightarrow> nat \<Rightarrow> u64" where
  "cx_rotl64 x n = push_bit n x OR drop_bit (64 - n) x"

definition cx_shr64 :: "u64 \<Rightarrow> nat \<Rightarrow> u64" where
  "cx_shr64 x n = drop_bit n x"

definition spec_cx_swap_uint32 :: "u32 \<Rightarrow> u32" where
  "spec_cx_swap_uint32 v =
     (push_bit 24 v AND 0xFF000000) OR (push_bit 8 v AND 0x00FF0000) OR
     (drop_bit 8 v AND 0x0000FF00) OR (drop_bit 24 v AND 0x000000FF)"

text \<open>\<open>while (len--) v[len] = spec_cx_swap_uint32(v[len])\<close>\<close>

fun spec_cx_swap_buffer32 :: "u32 list \<Rightarrow> nat \<Rightarrow> u32 list" where
  "spec_cx_swap_buffer32 v 0 = v"
| "spec_cx_swap_buffer32 v (Suc len) =
     spec_cx_swap_buffer32 (v[len := spec_cx_swap_uint32 (v ! len)]) len"

definition spec_cx_swap_uint64 :: "u64 \<Rightarrow> u64" where
  "spec_cx_swap_uint64 v =
     (let h = ucast (drop_bit 32 v AND 0xFFFFFFFF) :: u32;
          l = ucast (v AND 0xFFFFFFFF) :: u32;
          l = spec_cx_swap_uint32 l;
          h = spec_cx_swap_uint32 h
      in push_bit 32 (ucast l) OR ucast h)"

text \<open>The 64-bit loop walks the buffer forwards: \<open>v\<close> is the rest of the buffer.\<close>

fun spec_cx_swap_buffer64 :: "u64 list \<Rightarrow> nat \<Rightarrow> u64 list" where
  "spec_cx_swap_buffer64 v 0 = v"
| "spec_cx_swap_buffer64 (i # v) (Suc len) = spec_cx_swap_uint64 i # spec_cx_swap_buffer64 v len"
| "spec_cx_swap_buffer64 [] (Suc len) = []"

lemma cx_rotr_word_rotr: "n \<le> 32 \<Longrightarrow> cx_rotr x n = word_rotr n x"
  using shift_or_rotr [of n x] by (simp add: cx_rotr_def)

lemma cx_rotl_word_rotl: "n < 32 \<Longrightarrow> cx_rotl x n = word_rotl n x"
  using shift_or_rotl [of n x] by (simp add: cx_rotl_def)

lemma cx_rotr64_word_rotr: "n \<le> 64 \<Longrightarrow> cx_rotr64 x n = word_rotr n x"
  using shift_or_rotr [of n x] by (simp add: cx_rotr64_def)

lemma cx_rotl64_word_rotl: "n < 64 \<Longrightarrow> cx_rotl64 x n = word_rotl n x"
  using shift_or_rotl [of n x] by (simp add: cx_rotl64_def)

lemmas cx_rot_simps = cx_rotr_word_rotr cx_rotl_word_rotl cx_rotr64_word_rotr cx_rotl64_word_rotl

text \<open>Swapping a word reverses its bytes in memory.\<close>

lemma swap_masks:
  "(0xFF000000::u32) = push_bit 24 (mask 8)" "(0x00FF0000::u32) = push_bit 16 (mask 8)"
  "(0x0000FF00::u32) = push_bit 8 (mask 8)" "(0x000000FF::u32) = mask 8"
  by (simp_all add: mask_eq_exp_minus_1)

lemma le_swap_uint32 [word_bytes]: "le_of_u32 (spec_cx_swap_uint32 v) = be_of_u32 v"
  unfolding le_of_u32_def be_of_u32_def spec_cx_swap_uint32_def swap_masks
  by (auto intro!: byte_eqI simp: bit_simps dest: bit_imp_le_length)

lemma swap_uint32_le_be: "length xs = 4 \<Longrightarrow> spec_cx_swap_uint32 (u32_of_le xs) = u32_of_be xs"
proof -
  assume len: "length xs = 4"
  have "le_of_u32 (spec_cx_swap_uint32 (u32_of_le xs)) = be_of_u32 (u32_of_le xs)"
    by (rule le_swap_uint32)
  also have "\<dots> = rev xs"
    using len by (simp add: le_of_u32_inverse flip: rev_le_of_u32)
  also have "\<dots> = le_of_u32 (u32_of_be xs)"
    using be_of_u32_inverse [OF len] by (simp flip: rev_le_of_u32 add: rev_swap)
  finally have eq: "le_of_u32 (spec_cx_swap_uint32 (u32_of_le xs)) = le_of_u32 (u32_of_be xs)" .
  show ?thesis using arg_cong [OF eq, of "\<lambda>l. u32_of_le (l @ [])"] by (simp only: u32_of_le_of_u32)
qed

lemma swap_uint32_swap [simp]: "spec_cx_swap_uint32 (spec_cx_swap_uint32 v) = v"
proof -
  have "spec_cx_swap_uint32 (spec_cx_swap_uint32 v) = u32_of_be (le_of_u32 (spec_cx_swap_uint32 v))"
    using swap_uint32_le_be [of "le_of_u32 (spec_cx_swap_uint32 v)"]
    using u32_of_le_of_u32 [of "spec_cx_swap_uint32 v" "[]"] by simp
  also have "\<dots> = v" using u32_of_be_of_u32 [of v "[]"] by (simp add: le_swap_uint32)
  finally show ?thesis .
qed

lemma le_swap_uint64 [word_bytes]: "le_of_u64 (spec_cx_swap_uint64 v) = be_of_u64 v"
proof -
  have m: "(0xFFFFFFFF::u64) = mask 32" by (simp add: mask_eq_exp_minus_1)
  have u: "ucast (x AND mask 32) = (ucast x :: u32)" for x :: u64
    by (rule bit_word_eqI) (auto simp: bit_simps)
  have lo: "ucast (spec_cx_swap_uint64 v) = spec_cx_swap_uint32 (ucast (drop_bit 32 v))"
    unfolding spec_cx_swap_uint64_def m Let_def u by (rule bit_word_eqI) (simp add: bit_simps)
  have hi: "ucast (drop_bit 32 (spec_cx_swap_uint64 v)) = spec_cx_swap_uint32 (ucast v)"
    unfolding spec_cx_swap_uint64_def m Let_def u
    by (rule bit_word_eqI) (auto simp: bit_simps dest: bit_imp_le_length)
  show ?thesis unfolding le_of_u64_def be_of_u64_def lo hi le_swap_uint32 ..
qed

lemma swap_buffer32_map:
  "len \<le> length v \<Longrightarrow>
   spec_cx_swap_buffer32 v len = map spec_cx_swap_uint32 (take len v) @ drop len v"
proof (induction v len rule: spec_cx_swap_buffer32.induct)
  case (2 v len)
  then have "spec_cx_swap_buffer32 v (Suc len) =
      map spec_cx_swap_uint32 (take len v) @ drop len (v[len := spec_cx_swap_uint32 (v ! len)])"
    by simp
  also have "drop len (v[len := spec_cx_swap_uint32 (v ! len)]) =
      spec_cx_swap_uint32 (v ! len) # drop (Suc len) v"
    using 2(2) by (simp add: Cons_nth_drop_Suc [symmetric])
  finally show ?case using 2(2) by (simp add: take_Suc_conv_app_nth)
qed simp

lemma swap_buffer64_map:
  "len \<le> length v \<Longrightarrow>
   spec_cx_swap_buffer64 v len = map spec_cx_swap_uint64 (take len v) @ drop len v"
  by (induction v len rule: spec_cx_swap_buffer64.induct) auto

section \<open>Reversing buffers\<close>

text \<open>
  \<open>be2le\<close> steps both indices in the loop header and again in the loop body; the indices are
  C \<open>int\<close>s, an access with a negative or too large one is out of bounds.
\<close>

definition int_get :: "'a list \<Rightarrow> int \<Rightarrow> 'a res" where
  "int_get v i = (if 0 \<le> i then mem_get v (nat i) else Inl Oob)"

definition int_set :: "'a list \<Rightarrow> int \<Rightarrow> 'a \<Rightarrow> 'a list res" where
  "int_set v i x = (if 0 \<le> i then mem_write v (nat i) [x] else Inl Oob)"

fun be2le_loop :: "nat \<Rightarrow> int \<Rightarrow> int \<Rightarrow> bytes \<Rightarrow> bytes res" where
  "be2le_loop 0 i j v = Inr v"
| "be2le_loop (Suc len) i j v =
     res_bind (int_get v i) (\<lambda>t.
     res_bind (int_get v j) (\<lambda>x.
     res_bind (int_set v i x) (\<lambda>v.
     res_bind (int_set v j t) (\<lambda>v.
       be2le_loop len (i + 2) (j - 2) v))))"

definition be2le :: "bytes \<Rightarrow> nat \<Rightarrow> bytes res" where
  "be2le v len = be2le_loop (len div 2) 0 (int len - 1) v"

definition le2be :: "bytes \<Rightarrow> nat \<Rightarrow> bytes res" where
  "le2be v len = be2le v len"

text \<open>\<open>cx_swap_bytes\<close>: \<open>size_t j = len - 1\<close>, then \<open>while (i < j)\<close>.\<close>

function cx_swap_bytes_loop :: "nat \<Rightarrow> nat \<Rightarrow> bytes \<Rightarrow> bytes res" where
  "cx_swap_bytes_loop i j buffer =
     (if i < j then
        res_bind (mem_get buffer i) (\<lambda>t.
        res_bind (mem_get buffer j) (\<lambda>x.
        res_bind (mem_write buffer i [x]) (\<lambda>buffer.
        res_bind (mem_write buffer j [t]) (\<lambda>buffer.
          cx_swap_bytes_loop (i + 1) (j - 1) buffer))))
      else Inr buffer)"
  by pat_completeness auto
termination
  by (relation "measure (\<lambda>(i, j, buffer). j - i)") auto

declare cx_swap_bytes_loop.simps [simp del]

definition cx_swap_bytes :: "bytes option \<Rightarrow> nat \<Rightarrow> bytes option res" where
  "cx_swap_bytes buffer len =
     (case buffer of
        None \<Rightarrow> Inr None
      | Some b \<Rightarrow> (if len \<le> 1 then Inr (Some b)
                  else res_bind (cx_swap_bytes_loop 0 (len - 1) b) (\<lambda>b. Inr (Some b))))"

fun cx_memxor_loop :: "nat \<Rightarrow> nat \<Rightarrow> bytes \<Rightarrow> bytes \<Rightarrow> bytes res" where
  "cx_memxor_loop i 0 buf1 buf2 = Inr buf1"
| "cx_memxor_loop i (Suc k) buf1 buf2 =
     res_bind (mem_get buf1 i) (\<lambda>a.
     res_bind (mem_get buf2 i) (\<lambda>b.
     res_bind (mem_write buf1 i [a XOR b]) (\<lambda>buf1. cx_memxor_loop (i + 1) k buf1 buf2)))"

definition cx_memxor :: "bytes \<Rightarrow> bytes \<Rightarrow> nat \<Rightarrow> bytes res" where
  "cx_memxor buf1 buf2 len = cx_memxor_loop 0 len buf1 buf2"

lemma buf_write_single: "i < length v \<Longrightarrow> buf_write v i [x] = v[i := x]"
  by (simp add: buf_write_def upd_conv_take_nth_drop)

lemma mem_get_in [simp]: "i < length v \<Longrightarrow> mem_get v i = Inr (v ! i)"
  by (simp add: mem_get_def)

lemma mem_write_single [simp]: "i < length v \<Longrightarrow> mem_write v i [x] = Inr (v[i := x])"
  by (simp add: mem_write_def buf_write_single)

lemma be2le_loop_step:
  "i < length v \<Longrightarrow> j < length v \<Longrightarrow>
   be2le_loop (Suc m) (int i) (int j) v =
   be2le_loop m (int (i + 2)) (int j - 2) (v[i := v ! j, j := v ! i])"
  by (simp add: int_get_def int_set_def add.commute)

text \<open>
  The positions \<open>be2le\<close> has exchanged after \<open>k\<close> rounds on a buffer of even length \<open>n\<close>:
  the even ones below \<open>2 * k\<close> and their mirror images.
\<close>

definition swapped :: "nat \<Rightarrow> nat \<Rightarrow> nat \<Rightarrow> bool" where
  "swapped n k p \<longleftrightarrow> (even p \<and> p < 2 * k) \<or> (odd p \<and> n < p + 1 + 2 * k)"

lemma be2le_loop_even:
  assumes "length v = 2 * h" and "k + m = h" and "length w = length v"
    and "\<forall>p < 2 * h. w ! p = v ! (if swapped (2 * h) k p then 2 * h - 1 - p else p)"
  shows "be2le_loop m (int (2 * k)) (int (2 * h) - 1 - int (2 * k)) w = Inr (rev v)"
  using assms
proof (induction m arbitrary: k w)
  case 0
  have "w = rev v"
    using 0 by (intro nth_equalityI) (auto simp: rev_nth swapped_def)
  then show ?case by simp
next
  case (Suc m)
  let ?i = "2 * k" and ?j = "2 * h - 1 - 2 * k"
  let ?w = "w[?i := w ! ?j, ?j := w ! ?i]"
  have ij: "?i < length w" "?j < length w" "?i \<noteq> ?j" using Suc.prems by (auto, presburger)
  have j: "int (2 * h) - 1 - int ?i = int ?j" using Suc.prems by auto
  have nth: "?w ! p = v ! (if swapped (2 * h) (Suc k) p then 2 * h - 1 - p else p)"
    if "p < 2 * h" for p
  proof -
    consider "p = ?i" | "p = ?j" | "p \<noteq> ?i" "p \<noteq> ?j" by blast
    then show ?thesis
    proof cases
      case 1
      moreover have "w ! ?j = v ! ?j" using Suc.prems ij by (auto simp: swapped_def)
      ultimately show ?thesis using ij by (simp add: swapped_def)
    next
      case 2
      moreover have "w ! ?i = v ! ?i" using Suc.prems ij by (auto simp: swapped_def)
      moreover have "swapped (2 * h) (Suc k) ?j" "2 * h - 1 - ?j = ?i"
        using Suc.prems by (auto simp: swapped_def)
      ultimately show ?thesis using ij by simp
    next
      case 3
      have "swapped (2 * h) (Suc k) p = swapped (2 * h) k p"
        using 3 that Suc.prems(2)
        by (cases "even p") (auto simp: swapped_def elim!: evenE oddE)
      then show ?thesis using 3 that Suc.prems(4) by simp
    qed
  qed
  have "be2le_loop (Suc m) (int ?i) (int ?j) w = be2le_loop m (int (?i + 2)) (int ?j - 2) ?w"
    using ij by (intro be2le_loop_step)
  also have "int (?i + 2) = int (2 * Suc k)" by simp
  also have "int ?j - 2 = int (2 * h) - 1 - int (2 * Suc k)" using j by simp
  also have "be2le_loop m (int (2 * Suc k)) (int (2 * h) - 1 - int (2 * Suc k)) ?w = Inr (rev v)"
    using Suc.prems nth by (intro Suc.IH) auto
  finally show ?case using j by simp
qed

text \<open>
  On a buffer of even length \<open>be2le\<close> reverses the bytes, although it
  advances its indices by two per round, and never leaves the buffer.
\<close>

theorem be2le_even: "even (length v) \<Longrightarrow> be2le v (length v) = Inr (rev v)"
proof -
  assume "even (length v)"
  then obtain h where h: "length v = 2 * h" by (elim evenE)
  have "be2le_loop h (int (2 * 0)) (int (2 * h) - 1 - int (2 * 0)) v = Inr (rev v)"
    by (rule be2le_loop_even [OF h]) (simp_all add: swapped_def)
  then show ?thesis using h by (simp add: be2le_def)
qed

theorem be2le_even_witness: "be2le [1, 2, 3, 4] 4 = Inr [4, 3, 2, 1]"
proof -
  have "length [1, 2, 3, 4 :: u8] = 4" by simp
  then show ?thesis using be2le_even [of "[1, 2, 3, 4]"] by (simp del: list.size)
qed

lemma be2le_loop_odd:
  assumes "length w = 2 * h + 1" and "k + m = h"
  shows "\<exists>w'. be2le_loop m (int (2 * k)) (int (2 * h) - int (2 * k)) w = Inr w' \<and>
    length w' = length w \<and> (\<forall>p. odd p \<longrightarrow> w' ! p = w ! p)"
  using assms
proof (induction m arbitrary: k w)
  case (Suc m)
  let ?i = "2 * k" and ?j = "2 * h - 2 * k"
  let ?w = "w[?i := w ! ?j, ?j := w ! ?i]"
  have j: "int (2 * h) - int ?i = int ?j" and ij: "?i < length w" "?j < length w"
    using Suc.prems by linarith+
  have "be2le_loop (Suc m) (int ?i) (int ?j) w = be2le_loop m (int (?i + 2)) (int ?j - 2) ?w"
    using ij by (rule be2le_loop_step)
  also have "int (?i + 2) = int (2 * Suc k)" by simp
  also have "int ?j - 2 = int (2 * h) - int (2 * Suc k)"
    by (subst j [symmetric]) simp
  finally have step: "be2le_loop (Suc m) (int ?i) (int ?j) w =
      be2le_loop m (int (2 * Suc k)) (int (2 * h) - int (2 * Suc k)) ?w" .
  have "?w ! p = w ! p" if "odd p" for p
  proof -
    have "p \<noteq> ?i" "p \<noteq> ?j" using that by auto
    then show ?thesis by simp
  qed
  then show ?case using Suc.IH [of ?w "Suc k"] Suc.prems unfolding j step by simp
qed simp

text \<open>
  On a buffer of odd length \<open>be2le\<close> leaves every byte at an odd position
  where it was, so a buffer of five or more bytes is not reversed.
\<close>

theorem be2le_odd:
  "odd (length v) \<Longrightarrow> \<exists>w. be2le v (length v) = Inr w \<and> length w = length v \<and>
     (\<forall>p. odd p \<longrightarrow> w ! p = v ! p)"
proof -
  assume "odd (length v)"
  then obtain h where h: "length v = 2 * h + 1" by (elim oddE)
  then show ?thesis using be2le_loop_odd [OF h, of 0 h] by (simp add: be2le_def)
qed

theorem be2le_odd_witness:
  "odd (length [1, 2, 3, 4, 5 :: u8]) \<and> be2le [1, 2, 3, 4, 5] 5 = Inr [5, 2, 3, 4, 1] \<and>
   (\<exists>w. be2le [1, 2, 3, 4, 5] 5 = Inr w \<and> w ! 1 = 2)"
proof -
  have "\<exists>w. be2le [1, 2, 3, 4, 5] 5 = Inr w \<and> w ! 1 = 2"
  proof -
    have len: "length [1, 2, 3, 4, 5 :: u8] = 5" by simp
    obtain w where "be2le [1, 2, 3, 4, 5] 5 = Inr w" "\<forall>p. odd p \<longrightarrow> w ! p = [1, 2, 3, 4, 5] ! p"
      using be2le_odd [of "[1, 2, 3, 4, 5]"] unfolding len by auto
    then show ?thesis by (intro exI [of _ w]) simp
  qed
  moreover have "be2le [1, 2, 3, 4, 5] 5 = Inr [5, 2, 3, 4, 1]" by code_simp
  ultimately show ?thesis by simp
qed

lemma swap_ends:
  assumes "length pre = i"
  shows "(pre @ x # ys @ y # post) ! i = x"
    "(pre @ x # ys @ y # post) ! Suc (i + length ys) = y"
    "(pre @ x # ys @ y # post)[i := y, Suc (i + length ys) := x] = pre @ y # ys @ x # post"
  using assms by (simp_all add: nth_append list_update_append)

text \<open>The loop of \<open>cx_swap_bytes\<close> reverses the segment between its two indices.\<close>

lemma cx_swap_bytes_loop_rev:
  "i + length xs = Suc j \<Longrightarrow> length pre = i \<Longrightarrow>
   cx_swap_bytes_loop i j (pre @ xs @ post) = Inr (pre @ rev xs @ post)"
proof (induction "length xs" arbitrary: i j pre xs post rule: less_induct)
  case less
  show ?case
  proof (cases "i < j")
    case False
    then have "length xs \<le> 1" using less.prems by simp
    then have "rev xs = xs" by (cases xs) auto
    then show ?thesis using False by (simp add: cx_swap_bytes_loop.simps)
  next
    case True
    then obtain x zs where "xs = x # zs" "zs \<noteq> []"
      using less.prems by (cases xs) auto
    then obtain ys y where xs: "xs = x # ys @ [y]" by (cases zs rule: rev_cases) auto
    have j: "j = Suc (i + length ys)" using less.prems xs by simp
    have "cx_swap_bytes_loop i j (pre @ xs @ post) =
        cx_swap_bytes_loop (Suc i) (j - 1) ((pre @ [y]) @ ys @ (x # post))"
      unfolding xs j by (subst cx_swap_bytes_loop.simps) (simp add: swap_ends less.prems(2))
    also have "\<dots> = Inr ((pre @ [y]) @ rev ys @ (x # post))"
      using less.prems(2) xs j by (intro less.hyps) auto
    finally show ?thesis by (simp add: xs)
  qed
qed

text \<open>
  \<open>cx_swap_bytes\<close> reverses a buffer of any length in place and stays inside it.
\<close>

theorem cx_swap_bytes_rev: "cx_swap_bytes (Some v) (length v) = Inr (Some (rev v))"
proof (cases "length v \<le> 1")
  case True
  then have "rev v = v" by (cases v) auto
  then show ?thesis using True by (simp add: cx_swap_bytes_def)
next
  case False
  then show ?thesis
    using cx_swap_bytes_loop_rev [of 0 v "length v - 1" "[]" "[]"] by (simp add: cx_swap_bytes_def)
qed

section \<open>Numbers in buffers\<close>

definition U2BE_ENCODE :: "bytes \<Rightarrow> nat \<Rightarrow> u32 \<Rightarrow> bytes res" where
  "U2BE_ENCODE buf off value =
     mem_write buf off [ucast (drop_bit 8 value AND 0xFF), ucast (value AND 0xFF)]"

definition U4BE_ENCODE :: "bytes \<Rightarrow> nat \<Rightarrow> u32 \<Rightarrow> bytes res" where
  "U4BE_ENCODE buf off value =
     mem_write buf off [ucast (drop_bit 24 value AND 0xFF), ucast (drop_bit 16 value AND 0xFF),
       ucast (drop_bit 8 value AND 0xFF), ucast (value AND 0xFF)]"

definition U4LE_ENCODE :: "bytes \<Rightarrow> nat \<Rightarrow> u32 \<Rightarrow> bytes res" where
  "U4LE_ENCODE buf off value =
     mem_write buf off [ucast (value AND 0xFF), ucast (drop_bit 8 value AND 0xFF),
       ucast (drop_bit 16 value AND 0xFF), ucast (drop_bit 24 value AND 0xFF)]"

definition U2BE :: "bytes \<Rightarrow> nat \<Rightarrow> u16 res" where
  "U2BE buf off =
     res_bind (mem_get buf off) (\<lambda>a.
     res_bind (mem_get buf (off + 1)) (\<lambda>b. Inr (push_bit 8 (ucast a) OR ucast b)))"

definition U4BE :: "bytes \<Rightarrow> nat \<Rightarrow> u32 res" where
  "U4BE buf off =
     res_bind (mem_get buf off) (\<lambda>a.
     res_bind (mem_get buf (off + 1)) (\<lambda>b.
     res_bind (mem_get buf (off + 2)) (\<lambda>c.
     res_bind (mem_get buf (off + 3)) (\<lambda>d.
       Inr (push_bit 24 (ucast a) OR push_bit 16 (ucast b) OR push_bit 8 (ucast c) OR ucast d)))))"

lemma ucast_and_255 [simp]: "ucast ((w::u32) AND 0xFF) = (ucast w :: u8)"
proof -
  have m: "(0xFF::u32) = mask 8" by (simp add: mask_eq_exp_minus_1)
  show ?thesis unfolding m by (auto simp: bit_simps intro!: byte_eqI)
qed

lemma U4BE_at: "length pre = off \<Longrightarrow> length xs = 4 \<Longrightarrow> U4BE (pre @ xs @ post) off = Inr (u32_of_be xs)"
  by (erule length_4E) (simp add: U4BE_def mem_get_def nth_append)

lemma U2BE_at: "length pre = off \<Longrightarrow>
    U2BE (pre @ a # b # post) off = Inr (push_bit 8 (ucast a) OR ucast b)"
  by (simp add: U2BE_def mem_get_def nth_append)

lemma U2BE_ENCODE_u16: "U2BE_ENCODE cb off (ucast (w::u16)) = mem_write cb off (be_of_u16 w)"
proof -
  have "(ucast (drop_bit 8 (ucast w :: u32)) :: u8) = ucast (drop_bit 8 w)"
    "(ucast (ucast w :: u32) :: u8) = ucast w"
    by (rule byte_eqI, simp add: bit_simps)+
  then show ?thesis by (simp add: U2BE_ENCODE_def be_of_u16_def)
qed

lemma U2BE_be_of_u16:
  assumes "length pre = off"
  shows "U2BE (pre @ be_of_u16 w @ post) off = Inr w"
proof -
  have "push_bit 8 (ucast (ucast (drop_bit 8 w) :: u8)) OR ucast (ucast w :: u8) = w"
    by (rule bit_word_eqI) (auto simp: bit_simps)
  then show ?thesis using U2BE_at [OF assms] by (simp add: be_of_u16_def)
qed

lemma U2BE_total: "off + 1 < length buf \<Longrightarrow> \<exists>w. U2BE buf off = Inr w"
  by (simp add: U2BE_def mem_get_def)

lemma U4BE_ENCODE_eq: "U4BE_ENCODE buf off v = mem_write buf off (be_of_u32 v)"
  by (simp add: U4BE_ENCODE_def be_of_u32_def)

lemma U4LE_ENCODE_eq: "U4LE_ENCODE buf off v = mem_write buf off (le_of_u32 v)"
  by (simp add: U4LE_ENCODE_def le_of_u32_def)

lemma u16_of_bytes: "push_bit 8 (ucast (ucast (drop_bit 8 v) :: u8)) OR ucast (ucast v :: u8) =
    (ucast (v::u32) :: u16)"
  by (rule bit_word_eqI) (auto simp: bit_simps)

text \<open>
  A number written with \<open>U4BE_ENCODE\<close> inside a buffer is read back by
  \<open>U4BE\<close>, the rest of the buffer is untouched, and \<open>U2BE\<close> reads back the low 16 bits
  of what \<open>U2BE_ENCODE\<close> wrote.
\<close>

theorem be_encode_decode:
  "off + 4 \<le> length buf \<Longrightarrow>
   (\<exists>buf'. U4BE_ENCODE buf off v = Inr buf' \<and> length buf' = length buf \<and> U4BE buf' off = Inr v \<and>
      take off buf' = take off buf \<and> drop (off + 4) buf' = drop (off + 4) buf) \<and>
   (\<exists>buf'. U2BE_ENCODE buf off v = Inr buf' \<and> length buf' = length buf \<and>
      U2BE buf' off = Inr (ucast v) \<and>
      take off buf' = take off buf \<and> drop (off + 2) buf' = drop (off + 2) buf)"
proof -
  assume off: "off + 4 \<le> length buf"
  have "U4BE (buf_write buf off (be_of_u32 v)) off = Inr (u32_of_be (be_of_u32 v @ []))"
    using off unfolding buf_write_def append_Nil2 by (intro U4BE_at) simp_all
  moreover have "U2BE (buf_write buf off [ucast (drop_bit 8 v), ucast v]) off = Inr (ucast v)"
    using off unfolding buf_write_def append_Cons by (subst U2BE_at) (simp_all add: u16_of_bytes)
  ultimately show ?thesis
    using off by (auto simp: U4BE_ENCODE_eq U2BE_ENCODE_def mem_write_def buf_simps
        simp del: u32_of_be.simps)
qed

theorem be_encode_decode_witness:
  "1 + 4 \<le> length [9, 9, 9, 9, 9, 9 :: u8] \<and>
   (\<exists>buf'. U4BE_ENCODE [9, 9, 9, 9, 9, 9] 1 0x12345678 = Inr buf' \<and> U4BE buf' 1 = Inr 0x12345678)"
  using be_encode_decode [of 1 "[9, 9, 9, 9, 9, 9]" "0x12345678"] by fastforce

section \<open>Derivation paths\<close>

text \<open>
  \<open>get_path\<close> cuts the string at \<open>/\<close> with \<open>strtok\<close>, which skips empty tokens, and reads
  every token with \<open>strtoul\<close> in base 10 (white space, a sign, digits; \<open>ULONG_MAX\<close> when
  the number does not fit the 32-bit \<open>unsigned long\<close>).
\<close>

fun split_on :: "char \<Rightarrow> string \<Rightarrow> string list" where
  "split_on c [] = [[]]"
| "split_on c (x # xs) =
     (if x = c then [] # split_on c xs
      else (case split_on c xs of [] \<Rightarrow> [[x]] | t # ts \<Rightarrow> (x # t) # ts))"

definition strtok_tokens :: "char \<Rightarrow> string \<Rightarrow> string list" where
  "strtok_tokens c str = filter (\<lambda>t. t \<noteq> []) (split_on c str)"

definition c_isspace :: "char \<Rightarrow> bool" where
  "c_isspace c \<longleftrightarrow> c \<in> set [CHR 0x20, CHR 0x09, CHR 0x0A, CHR 0x0B, CHR 0x0C, CHR 0x0D]"

definition c_isdigit :: "char \<Rightarrow> bool" where
  "c_isdigit c \<longleftrightarrow> 48 \<le> (of_char c :: nat) \<and> (of_char c :: nat) \<le> 57"

definition digits_value :: "string \<Rightarrow> nat" where
  "digits_value ds = foldl (\<lambda>v c. 10 * v + (of_char c - 48)) 0 ds"

definition strtoul :: "string \<Rightarrow> u32" where
  "strtoul str =
     (let s = dropWhile c_isspace str;
          neg = (s \<noteq> [] \<and> hd s = CHR ''-'');
          s = (if s \<noteq> [] \<and> (hd s = CHR ''-'' \<or> hd s = CHR ''+'') then tl s else s);
          v = digits_value (takeWhile c_isdigit s)
      in if 2 ^ 32 \<le> v then 0xFFFFFFFF
         else if neg then - of_nat v else of_nat v)"

fun get_path_loop :: "string list \<Rightarrow> u32 list \<Rightarrow> int \<Rightarrow> int \<times> u32 list" where
  "get_path_loop [] path max_path_len = (int (length path), path)"
| "get_path_loop (token # tokens) path max_path_len =
     (if max_path_len \<le> int (length path) then (-1, path)
      else if length token = 0 then (-1, path)
      else let p = (if last token = CHR 0x27 then 0x80000000 OR strtoul (butlast token)
                    else 0 OR strtoul token)
           in get_path_loop tokens (path @ [p]) max_path_len)"

definition get_path :: "string \<Rightarrow> int \<Rightarrow> int \<times> u32 list" where
  "get_path str max_path_len = get_path_loop (strtok_tokens (CHR ''/'') str) [] max_path_len"

text \<open>The textual form of a path, in the notation of BIP-32: a quote marks a hardened index.\<close>

fun dec_string :: "nat \<Rightarrow> string" where
  "dec_string n = (if n < 10 then [char_of (48 + n)]
                   else dec_string (n div 10) @ [char_of (48 + n mod 10)])"

declare dec_string.simps [simp del]

definition show_index :: "u32 \<Rightarrow> string" where
  "show_index p = (if 2 ^ 31 \<le> unat p then dec_string (unat p - 2 ^ 31) @ [CHR 0x27]
                   else dec_string (unat p))"

fun show_path :: "u32 list \<Rightarrow> string" where
  "show_path [] = []"
| "show_path [p] = show_index p"
| "show_path (p # ps) = show_index p @ CHR ''/'' # show_path ps"

lemma dec_string_ne: "dec_string n \<noteq> []"
  by (subst dec_string.simps) simp

lemma dec_digit: "k < 10 \<Longrightarrow> c_isdigit (char_of (48 + k)) \<and> of_char (char_of (48 + k)) = 48 + (k::nat)"
  by (simp add: c_isdigit_def)

lemma dec_string_digits: "\<forall>c \<in> set (dec_string n). c_isdigit c"
proof (induction n rule: dec_string.induct)
  case (1 n)
  then show ?case by (subst dec_string.simps) (auto simp: dec_digit)
qed

lemma digits_value_dec: "digits_value (dec_string n) = n"
proof (induction n rule: dec_string.induct)
  case (1 n)
  then show ?case
    by (subst dec_string.simps) (auto simp: digits_value_def dec_digit)
qed

lemma digit_not_special: "c_isdigit c \<Longrightarrow> \<not> c_isspace c \<and> c \<noteq> CHR ''-'' \<and> c \<noteq> CHR ''+'' \<and>
    c \<noteq> CHR ''/'' \<and> c \<noteq> CHR 0x27"
  by (auto simp: c_isdigit_def c_isspace_def)

lemma strtoul_dec:
  assumes "n < 2 ^ 32"
  shows "strtoul (dec_string n) = of_nat n"
proof -
  obtain c cs where d: "dec_string n = c # cs" using dec_string_ne by (cases "dec_string n") auto
  have all: "\<forall>c \<in> set (dec_string n). c_isdigit c" by (rule dec_string_digits)
  then have c: "\<not> c_isspace c" "c \<noteq> CHR ''-''" "c \<noteq> CHR ''+''"
    using digit_not_special d by auto
  have "takeWhile c_isdigit (dec_string n) = dec_string n"
    using all by (simp add: takeWhile_eq_all_conv)
  then show ?thesis
    using c d assms digits_value_dec [of n] by (simp add: strtoul_def Let_def)
qed

lemma split_on_no_sep: "c \<notin> set t \<Longrightarrow> split_on c t = [t]"
  by (induction t) auto

lemma split_on_append: "c \<notin> set t \<Longrightarrow> split_on c (t @ c # s) = t # split_on c s"
  by (induction t) auto

lemma show_index_ne: "show_index p \<noteq> []"
  by (simp add: show_index_def dec_string_ne)

lemma show_index_no_slash: "CHR ''/'' \<notin> set (show_index p)"
  using dec_string_digits digit_not_special by (auto simp: show_index_def)

lemma tokens_show_path: "strtok_tokens (CHR ''/'') (show_path ps) = map show_index ps"
  by (induction ps rule: show_path.induct)
    (simp_all add: strtok_tokens_def split_on_no_sep split_on_append show_index_no_slash show_index_ne)

lemma hardened_or:
  assumes "2 ^ 31 \<le> unat (p::u32)"
  shows "0x80000000 OR (of_nat (unat p - 2 ^ 31) :: u32) = p"
proof -
  let ?x = "unat p - 2 ^ 31"
  have x: "?x < 2 ^ 31" using unsigned_less [where 'a = nat, of p] by simp
  have m: "(0x80000000::u32) = push_bit 31 1" by simp
  have "push_bit 31 1 AND (of_nat ?x :: u32) = 0" by (rule push_bit_and_small [OF x])
  then have "0x80000000 OR (of_nat ?x :: u32) = 0x80000000 + of_nat ?x"
    unfolding m by (simp add: disjunctive_add_eq_or)
  also have "\<dots> = of_nat (2 ^ 31 + ?x)" by simp
  also have "\<dots> = p" using assms by simp
  finally show ?thesis .
qed

lemma read_index:
  "(if last (show_index p) = CHR 0x27 then 0x80000000 OR strtoul (butlast (show_index p))
    else 0 OR strtoul (show_index p)) = p"
proof (cases "2 ^ 31 \<le> unat p")
  case True
  moreover have "unat p - 2 ^ 31 < 2 ^ 32" using unsigned_less [where 'a = nat, of p] by simp
  ultimately show ?thesis using hardened_or [OF True] by (simp add: show_index_def strtoul_dec)
next
  case False
  have "last (dec_string (unat p)) \<in> set (dec_string (unat p))"
    by (rule last_in_set [OF dec_string_ne])
  then have "last (dec_string (unat p)) \<noteq> CHR 0x27"
    using dec_string_digits digit_not_special by blast
  then show ?thesis using False by (simp add: show_index_def strtoul_dec)
qed

lemma get_path_loop_show:
  "int (length path + length ps) \<le> max_path_len \<Longrightarrow>
   get_path_loop (map show_index ps) path max_path_len = (int (length path + length ps), path @ ps)"
proof (induction ps arbitrary: path)
  case (Cons p ps)
  have "get_path_loop (map show_index (p # ps)) path max_path_len =
      get_path_loop (map show_index ps) (path @ [p]) max_path_len"
    using Cons.prems read_index [of p] show_index_ne [of p] by (simp del: or.left_neutral)
  also have "\<dots> = (int (length (path @ [p]) + length ps), (path @ [p]) @ ps)"
    using Cons.prems by (intro Cons.IH) simp
  finally show ?case by simp
qed simp

text \<open>
  Property C39: parsing the textual form of a derivation path gives back its indices,
  hardened or not, as long as the caller's array has room for them.
\<close>

theorem get_path_show_path:
  "int (length ps) \<le> max_path_len \<Longrightarrow> get_path (show_path ps) max_path_len = (int (length ps), ps)"
  using get_path_loop_show [of "[]" ps max_path_len] by (simp add: get_path_def tokens_show_path)

theorem get_path_show_path_witness:
  "get_path (show_path [0x8000002C, 7]) 2 = (2, [0x8000002C, 7])"
  using get_path_show_path [of "[0x8000002C, 7]" 2] by simp

lemma split_on_ne: "split_on c s \<noteq> []"
  by (induction s) (auto split: list.splits)

lemma tokens_ne: "t \<in> set (strtok_tokens c s) \<Longrightarrow> t \<noteq> []"
  by (simp add: strtok_tokens_def)

lemma get_path_loop_bounded:
  assumes "\<forall>t \<in> set tokens. t \<noteq> []" and "int (length path) \<le> m"
  shows "int (length (snd (get_path_loop tokens path m))) \<le> m \<and>
    fst (get_path_loop tokens path m) =
      (if m < int (length path + length tokens) then -1 else int (length path + length tokens))"
  using assms
proof (induction tokens path m rule: get_path_loop.induct)
  case (2 token tokens path m)
  then show ?case by (cases "m \<le> int (length path)") (auto simp: Let_def)
qed simp

text \<open>
  Whatever the string, \<open>get_path\<close> never writes more than \<open>max_path_len\<close>
  entries; it returns the number of components, or \<open>-1\<close> when there are more than that.
\<close>

theorem get_path_bounded:
  "0 \<le> max_path_len \<Longrightarrow>
   int (length (snd (get_path str max_path_len))) \<le> max_path_len \<and>
   fst (get_path str max_path_len) =
     (let n = int (length (strtok_tokens (CHR ''/'') str)) in if max_path_len < n then -1 else n)"
  using get_path_loop_bounded [of "strtok_tokens (CHR ''/'') str" "[]" max_path_len] tokens_ne
  by (auto simp: get_path_def Let_def)

theorem get_path_bounded_witness:
  "fst (get_path ''1/2/3'' 2) = -1 \<and> length (snd (get_path ''1/2/3'' 2)) \<le> 2"
proof -
  have "strtok_tokens (CHR ''/'') ''1/2/3'' = [''1'', ''2'', ''3'']" by code_simp
  then show ?thesis using get_path_bounded [of 2 "''1/2/3''"] by simp
qed

end
