(* ===== verification/Cx_Hash_Types.thy ===== *)
theory Cx_Hash_Types
  imports Block_Stream Cx_Utils
begin

text \<open>
  The constants and the algorithm identifiers of \<open>src/bolos/cx_hash.h\<close>, and the facts on
  byte and word views of a block that the hash functions share.

  A context pointer of the C code is the state argument of the model, returned updated
  also when the function throws; it is never \<open>NULL\<close>, so the \<open>ctx == NULL\<close> guards have no
  counterpart. Input and output pointers are options, and a write into an output buffer
  that is too small is \<open>Oob\<close>.
\<close>

definition CX_HASH_MAX_BLOCK_COUNT :: nat where
  "CX_HASH_MAX_BLOCK_COUNT = 65535"

definition INVALID_PARAMETER :: u16 where
  "INVALID_PARAMETER = 2"

datatype cx_md =
    CX_NONE | CX_RIPEMD160 | CX_SHA224 | CX_SHA256 | CX_SHA384 | CX_SHA512 | CX_KECCAK
  | CX_SHA3 | CX_SHA3_XOF | CX_GROESTL | CX_BLAKE2B | CX_SHAKE128 | CX_SHAKE256 | CX_SHA3_256

text \<open>\<open>memcpy\<close> into the caller's digest buffer, after the test against \<open>NULL\<close>.\<close>

definition put_digest :: "bytes \<Rightarrow> bytes \<Rightarrow> c_error + nat \<times> bytes option" where
  "put_digest d out = res_bind (mem_write out 0 d) (\<lambda>out. Inr (1, Some out))"

lemma put_digest_fits:
  "length d \<le> length out \<Longrightarrow> put_digest d out = Inr (1, Some (d @ drop (length d) out))"
  by (simp add: put_digest_def mem_write_def buf_write_def)

section \<open>Blocks as arrays of words\<close>

definition words32_le :: "bytes \<Rightarrow> u32 list" where
  "words32_le b = map u32_of_le (chunks 4 b)"

definition words32_be :: "bytes \<Rightarrow> u32 list" where
  "words32_be b = map u32_of_be (chunks 4 b)"

definition bytes32_le :: "u32 list \<Rightarrow> bytes" where
  "bytes32_le ws = concat (map le_of_u32 ws)"

definition bytes32_be :: "u32 list \<Rightarrow> bytes" where
  "bytes32_be ws = concat (map be_of_u32 ws)"

definition words64_le :: "bytes \<Rightarrow> u64 list" where
  "words64_le b = map u64_of_le (chunks 8 b)"

definition words64_be :: "bytes \<Rightarrow> u64 list" where
  "words64_be b = map u64_of_be (chunks 8 b)"

definition bytes64_le :: "u64 list \<Rightarrow> bytes" where
  "bytes64_le ws = concat (map le_of_u64 ws)"

definition bytes64_be :: "u64 list \<Rightarrow> bytes" where
  "bytes64_be ws = concat (map be_of_u64 ws)"

lemma length_words [simp]:
  "length (words32_le b) = length b div 4" "length (words32_be b) = length b div 4"
  "length (words64_le b) = length b div 8" "length (words64_be b) = length b div 8"
  by (simp_all add: words32_le_def words32_be_def words64_le_def words64_be_def length_chunks)

lemma length_bytes_of_words [simp]:
  "length (bytes32_le ws) = 4 * length ws" "length (bytes32_be ws) = 4 * length ws"
  "length (bytes64_le vs) = 8 * length vs" "length (bytes64_be vs) = 8 * length vs"
  by (simp_all add: bytes32_le_def bytes32_be_def bytes64_le_def bytes64_be_def length_concat
      comp_def sum_list_triv)

lemma map_swap_words32: "map spec_cx_swap_uint32 (words32_le b) = words32_be b"
  by (auto simp: words32_le_def words32_be_def swap_uint32_le_be dest!: set_chunks_length)

lemma bytes_swap_words32: "bytes32_le (map spec_cx_swap_uint32 ws) = bytes32_be ws"
  by (simp add: bytes32_le_def bytes32_be_def comp_def le_swap_uint32)

lemma u32_of_take: "length xs = 8 \<Longrightarrow> u32_of_le xs = u32_of_le (take 4 xs) \<and>
    u32_of_be xs = u32_of_be (take 4 xs)"
  by (auto simp: eval_nat_numeral length_Suc_conv)

lemma le_of_u64_inverse: "length xs = 8 \<Longrightarrow> le_of_u64 (u64_of_le xs) = xs"
proof -
  assume len: "length xs = 8"
  have "ucast (u64_of_le xs) = u32_of_le xs" and "ucast (drop_bit 32 (u64_of_le xs)) = u32_of_le (drop 4 xs)"
    unfolding u64_of_le_def by (auto intro!: bit_word_eqI simp: bit_simps not_bit_u32)
  then show ?thesis
    using len u32_of_take [OF len] by (simp add: le_of_u64_def le_of_u32_inverse)
qed

lemma be_of_u64_inverse: "length xs = 8 \<Longrightarrow> be_of_u64 (u64_of_be xs) = xs"
proof -
  assume len: "length xs = 8"
  have "ucast (u64_of_be xs) = u32_of_be (drop 4 xs)" and "ucast (drop_bit 32 (u64_of_be xs)) = u32_of_be xs"
    unfolding u64_of_be_def by (auto intro!: bit_word_eqI simp: bit_simps not_bit_u32)
  then show ?thesis
    using len u32_of_take [OF len] by (simp add: be_of_u64_def be_of_u32_inverse)
qed

lemma rev_le_of_u64: "rev (le_of_u64 w) = be_of_u64 w"
  by (simp add: le_of_u64_def be_of_u64_def rev_le_of_u32)

lemma swap_uint64_le_be: "length xs = 8 \<Longrightarrow> spec_cx_swap_uint64 (u64_of_le xs) = u64_of_be xs"
proof -
  assume len: "length xs = 8"
  have "le_of_u64 (spec_cx_swap_uint64 (u64_of_le xs)) = rev xs"
    using len by (simp add: le_swap_uint64 le_of_u64_inverse flip: rev_le_of_u64)
  also have "\<dots> = le_of_u64 (u64_of_be xs)"
    using be_of_u64_inverse [OF len] by (simp flip: rev_le_of_u64 add: rev_swap)
  finally show ?thesis by (metis u64_of_bytes_inverse(1))
qed

lemma map_swap_words64: "map spec_cx_swap_uint64 (words64_le b) = words64_be b"
  by (auto simp: words64_le_def words64_be_def swap_uint64_le_be dest!: set_chunks_length)

lemma bytes_swap_words64: "bytes64_le (map spec_cx_swap_uint64 ws) = bytes64_be ws"
  by (simp add: bytes64_le_def bytes64_be_def comp_def le_swap_uint64)

section \<open>Shared facts on contexts\<close>

lemma length_8E:
  assumes "length xs = 8"
  obtains a b c d e f g h where "xs = [a, b, c, d, e, f, g, h]"
  using assms by (auto simp: eval_nat_numeral length_Suc_conv)

text \<open>The bit length of a message from its block count and the pending rest.\<close>

lemma of_nat_div_mod: "of_nat (k div n) * of_nat n + of_nat (k mod n) = (of_nat k :: 'a::semiring_1)"
  by (simp flip: of_nat_mult of_nat_add)

lemma ucast_of_nat_32_64: "k < 2 ^ 32 \<Longrightarrow> (ucast (of_nat k :: u32) :: u64) = of_nat k"
  by (simp add: unsigned_of_nat take_bit_nat_eq_self)

lemma bit_length_blocks:
  assumes "length m < 2 ^ 32" and "0 < n"
  shows "(ucast (of_nat (length (chunks n m)) :: u32) * of_nat n + of_nat (length (chunk_rest n m))) * 8 =
    (of_nat (8 * length m) :: u64)"
proof -
  have "length m div n < 2 ^ 32" using assms(1) by (meson div_le_dividend le_less_trans)
  then have "(ucast (of_nat (length (chunks n m)) :: u32) :: u64) = of_nat (length m div n)"
    using assms(2) by (simp add: length_chunks ucast_of_nat_32_64)
  moreover have "(length m div n) * n + length m mod n = length m" by simp
  then have "of_nat (length m div n) * of_nat n + of_nat (length m mod n) = (of_nat (length m) :: u64)"
    by (simp flip: of_nat_mult of_nat_add)
  ultimately show ?thesis using assms(2) by (simp add: length_chunk_rest)
qed

end
