(* ===== verification/Sha2_Schedule.thy ===== *)
theory Sha2_Schedule
  imports Cx_Hash_Types
begin

text \<open>
  The message schedule of the SHA-2 family. FIPS 180-4 expands sixteen words to sixty-four
  (or eighty); the C code keeps a window of sixteen and replaces the oldest one in place.
  The locale states the recurrence both share and proves that the window always holds the
  last sixteen words of the schedule. The padding rule and the choice and majority functions
  are common to both word sizes too.
\<close>

definition fips_Ch :: "'a::len word \<Rightarrow> 'a word \<Rightarrow> 'a word \<Rightarrow> 'a word" where
  "fips_Ch x y z = (x AND y) XOR (NOT x AND z)"

definition fips_Maj :: "'a::len word \<Rightarrow> 'a word \<Rightarrow> 'a word \<Rightarrow> 'a word" where
  "fips_Maj x y z = (x AND y) XOR (x AND z) XOR (y AND z)"

locale sha2_schedule =
  fixes s0 s1 :: "'a::len word \<Rightarrow> 'a word"
    and W :: "'a word list \<Rightarrow> nat \<Rightarrow> 'a word"
  assumes W_eq: "W M t = (if t < 16 then M ! t
    else s1 (W M (t - 2)) + W M (t - 7) + s0 (W M (t - 15)) + W M (t - 16))"
begin

definition slide :: "'a word list \<Rightarrow> nat \<Rightarrow> 'a word list" where
  "slide X j = (if 16 \<le> j then
     X[j mod 16 := s1 (X ! ((j - 2) mod 16)) + X ! ((j - 7) mod 16) +
       s0 (X ! ((j - 15) mod 16)) + X ! ((j - 16) mod 16)] else X)"

definition window :: "'a word list \<Rightarrow> nat \<Rightarrow> 'a word list \<Rightarrow> bool" where
  "window M j X \<longleftrightarrow> length X = 16 \<and>
     (\<forall>i. i < max 16 j \<longrightarrow> max 16 j \<le> i + 16 \<longrightarrow> X ! (i mod 16) = W M i)"

lemma window_init: "length M = 16 \<Longrightarrow> window M 0 M"
  by (simp add: window_def W_eq)

lemma window_nth: "window M j X \<Longrightarrow> i < max 16 j \<Longrightarrow> max 16 j \<le> i + 16 \<Longrightarrow> X ! (i mod 16) = W M i"
  by (simp add: window_def)

lemma window_slide:
  assumes "window M j X"
  shows "window M (Suc j) (slide X j)" and "slide X j ! (j mod 16) = W M j"
proof -
  have len: "length X = 16" using assms by (simp add: window_def)
  have nth: "X ! (i mod 16) = W M i" if "i < j" "j \<le> i + 16" "16 \<le> j" for i
    using window_nth [OF assms] that by simp
  show hit: "slide X j ! (j mod 16) = W M j"
  proof (cases "16 \<le> j")
    case True
    then show ?thesis using len nth by (simp add: slide_def W_eq [of M j])
  next
    case False
    then show ?thesis using window_nth [OF assms, of j] by (simp add: slide_def)
  qed
  show "window M (Suc j) (slide X j)"
    unfolding window_def
  proof (intro conjI allI impI)
    show "length (slide X j) = 16" using len by (simp add: slide_def)
    fix i assume i: "i < max 16 (Suc j)" "max 16 (Suc j) \<le> i + 16"
    show "slide X j ! (i mod 16) = W M i"
    proof (cases "16 \<le> j \<and> i \<noteq> j")
      case True
      then have "i mod 16 \<noteq> j mod 16" using i by (intro mod_neq) auto
      then show ?thesis using True nth [of i] i by (simp add: slide_def)
    next
      case False
      then show ?thesis using hit window_nth [OF assms, of i] i by (auto simp: slide_def)
    qed
  qed
qed

end

end
