(* ===== verification/Hash_Interface.thy ===== *)
theory Hash_Interface
  imports Cx_Hash_Types
begin

text \<open>
  What a hash function of the library promises its clients (the generic dispatch of
  \<open>cx_hash.c\<close>, HMAC, HKDF and the deterministic generator): a context remembers the bytes
  it has absorbed, an update appends to them, and the final call writes the digest of
  exactly those bytes, however they were cut into updates. \<open>cap\<close> bounds the message: beyond
  it the block counter of the C code makes the update throw.
\<close>

locale hash_function =
  fixes init :: "'c"
    and update :: "'c \<Rightarrow> bytes option \<Rightarrow> nat \<Rightarrow> 'c \<times> (c_error + nat)"
    and final :: "'c \<Rightarrow> bytes option \<Rightarrow> 'c \<times> (c_error + nat \<times> bytes option)"
    and valid :: "'c \<Rightarrow> bool"
    and absorbed :: "'c \<Rightarrow> bytes \<Rightarrow> bool"
    and digest :: "bytes \<Rightarrow> bytes"
    and osize cap :: nat
  assumes init_absorbed: "absorbed init []"
    and absorbed_valid: "absorbed c m \<Longrightarrow> valid c"
    and update_absorbed: "absorbed c m \<Longrightarrow> length m + length d < cap \<Longrightarrow>
      \<exists>c'. update c (Some d) (length d) = (c', Inr 1) \<and> absorbed c' (m @ d)"
    and final_digest: "absorbed c m \<Longrightarrow> snd (final c (Some out)) = put_digest (digest m) out"
    and digest_length: "length (digest m) = osize"
begin

text \<open>A sequence of updates absorbs the concatenation of its inputs.\<close>

fun updates :: "'c \<Rightarrow> bytes list \<Rightarrow> 'c \<times> (c_error + nat)" where
  "updates c [] = (c, Inr 1)"
| "updates c (d # ds) =
     (case update c (Some d) (length d) of
        (c', Inl e) \<Rightarrow> (c', Inl e)
      | (c', Inr r) \<Rightarrow> (if r = 0 then (c', Inr 0) else updates c' ds))"

lemma updates_absorbed:
  "absorbed c m \<Longrightarrow> length m + length (concat ds) < cap \<Longrightarrow>
   \<exists>c'. updates c ds = (c', Inr 1) \<and> absorbed c' (m @ concat ds)"
proof (induction ds arbitrary: c m)
  case (Cons d ds)
  then obtain c1 where c1: "update c (Some d) (length d) = (c1, Inr 1)" "absorbed c1 (m @ d)"
    using update_absorbed [of c m d] by auto
  from Cons.IH [OF this(2)] Cons.prems(2) show ?case using c1(1) by auto
qed simp

lemma updates_digest:
  assumes "length (concat ds) < cap" and "osize \<le> length out"
  shows "\<exists>c. updates init ds = (c, Inr 1) \<and>
    snd (final c (Some out)) = Inr (1, Some (digest (concat ds) @ drop osize out))"
  using updates_absorbed [OF init_absorbed, of ds] assms
  by (auto simp: final_digest put_digest_fits digest_length)

end

end
