(* ===== verification/Cx_Sha256.thy ===== *)
theory Cx_Sha256
  imports Sha2_Schedule Hash_Interface
begin

text \<open>
  \<open>src/bolos/cx_sha256.c\<close>: SHA-224 and SHA-256 over a context that buffers a partial
  block. The compression keeps only sixteen schedule words and overwrites them in the block
  buffer itself; it is proved equal to the compression function of FIPS 180-4, and the
  buffering to be an instance of \<open>block_update\<close>.
\<close>

section \<open>The context and the compression function\<close>

record cx_sha256 =
  sha256_algo :: cx_md
  sha256_counter :: u32
  sha256_blen :: nat
  sha256_block :: bytes
  sha256_acc :: "u32 list"

definition sha256_primeSqrt :: "u32 list" where
  "sha256_primeSqrt = concat [
     [0x428a2f98, 0x71374491, 0xb5c0fbcf, 0xe9b5dba5, 0x3956c25b, 0x59f111f1],
     [0x923f82a4, 0xab1c5ed5, 0xd807aa98, 0x12835b01, 0x243185be, 0x550c7dc3],
     [0x72be5d74, 0x80deb1fe, 0x9bdc06a7, 0xc19bf174, 0xe49b69c1, 0xefbe4786],
     [0x0fc19dc6, 0x240ca1cc, 0x2de92c6f, 0x4a7484aa, 0x5cb0a9dc, 0x76f988da],
     [0x983e5152, 0xa831c66d, 0xb00327c8, 0xbf597fc7, 0xc6e00bf3, 0xd5a79147],
     [0x06ca6351, 0x14292967, 0x27b70a85, 0x2e1b2138, 0x4d2c6dfc, 0x53380d13],
     [0x650a7354, 0x766a0abb, 0x81c2c92e, 0x92722c85, 0xa2bfe8a1, 0xa81a664b],
     [0xc24b8b70, 0xc76c51a3, 0xd192e819, 0xd6990624, 0xf40e3585, 0x106aa070],
     [0x19a4c116, 0x1e376c08, 0x2748774c, 0x34b0bcb5, 0x391c0cb3, 0x4ed8aa4a],
     [0x5b9cca4f, 0x682e6ff3, 0x748f82ee, 0x78a5636f, 0x84c87814, 0x8cc70208],
     [0x90befffa, 0xa4506ceb, 0xbef9a3f7, 0xc67178f2]]"

definition hzero_224 :: "u32 list" where
  "hzero_224 = [
     0xc1059ed8, 0x367cd507, 0x3070dd17, 0xf70e5939, 0xffc00b31, 0x68581511, 0x64f98fa7, 0xbefa4fa4]"

definition hzero_256 :: "u32 list" where
  "hzero_256 = [
     0x6a09e667, 0xbb67ae85, 0x3c6ef372, 0xa54ff53a, 0x510e527f, 0x9b05688c, 0x1f83d9ab, 0x5be0cd19]"

definition sig256 :: "u32 \<Rightarrow> nat \<Rightarrow> nat \<Rightarrow> nat \<Rightarrow> u32" where
  "sig256 x a b c = cx_rotr x a XOR cx_rotr x b XOR cx_shr x c"

definition sum256 :: "u32 \<Rightarrow> nat \<Rightarrow> nat \<Rightarrow> nat \<Rightarrow> u32" where
  "sum256 x a b c = cx_rotr x a XOR cx_rotr x b XOR cx_rotr x c"

definition sha256_sigma0 :: "u32 \<Rightarrow> u32" where "sha256_sigma0 x = sig256 x 7 18 3"
definition sha256_sigma1 :: "u32 \<Rightarrow> u32" where "sha256_sigma1 x = sig256 x 17 19 10"
definition sha256_sum0 :: "u32 \<Rightarrow> u32" where "sha256_sum0 x = sum256 x 2 13 22"
definition sha256_sum1 :: "u32 \<Rightarrow> u32" where "sha256_sum1 x = sum256 x 6 11 25"

definition sha256_ch :: "u32 \<Rightarrow> u32 \<Rightarrow> u32 \<Rightarrow> u32" where
  "sha256_ch x y z = z XOR (x AND (y XOR z))"

definition sha256_maj :: "u32 \<Rightarrow> u32 \<Rightarrow> u32 \<Rightarrow> u32" where
  "sha256_maj x y z = (x AND y) OR (z AND (x OR y))"

definition cx_sha224_init :: "cx_sha256" where
  "cx_sha224_init = \<lparr>sha256_algo = CX_SHA224, sha256_counter = 0, sha256_blen = 0,
     sha256_block = replicate 64 0, sha256_acc = hzero_224\<rparr>"

definition cx_sha256_init :: "cx_sha256" where
  "cx_sha256_init = \<lparr>sha256_algo = CX_SHA256, sha256_counter = 0, sha256_blen = 0,
     sha256_block = replicate 64 0, sha256_acc = hzero_256\<rparr>"

text \<open>
  One iteration of the round loop on the schedule window \<open>X\<close> and the eight working
  variables \<open>ACC\<close>; \<open>memmove(&ACC[1], &ACC[0], ...)\<close> shifts them by one.
\<close>

definition sha256_round :: "u32 list \<times> u32 list \<Rightarrow> nat \<Rightarrow> u32 list \<times> u32 list" where
  "sha256_round XA j =
     (let (X, ACC) = XA;
          X = (if 16 \<le> j then
                 X[j mod 16 := sha256_sigma1 (X ! ((j - 2) mod 16)) + X ! ((j - 7) mod 16) +
                   sha256_sigma0 (X ! ((j - 15) mod 16)) + X ! ((j - 16) mod 16)]
               else X);
          t1 = ACC ! 7 + sha256_sum1 (ACC ! 4) + sha256_ch (ACC ! 4) (ACC ! 5) (ACC ! 6) +
               sha256_primeSqrt ! j + X ! (j mod 16);
          t2 = sha256_sum0 (ACC ! 0) + sha256_maj (ACC ! 0) (ACC ! 1) (ACC ! 2);
          ACC = buf_write ACC 1 (take 7 ACC);
          ACC = ACC[4 := ACC ! 4 + t1];
          ACC = ACC[0 := t1 + t2]
      in (X, ACC))"

definition cx_sha256_block :: "cx_sha256 \<Rightarrow> cx_sha256" where
  "cx_sha256_block hash =
     (let X = spec_cx_swap_buffer32 (words32_le (sha256_block hash)) 16;
          accumulator = sha256_acc hash;
          (X, ACC) = foldl sha256_round (X, accumulator) [0..<64]
      in hash\<lparr>sha256_block := bytes32_le X, sha256_acc := map2 (+) accumulator ACC\<rparr>)"

text \<open>The do-while loop over full blocks: copy \<open>r\<close> bytes at \<open>blen\<close>, compress, count.\<close>

definition sha256_absorb :: "cx_sha256 \<Rightarrow> nat \<Rightarrow> bytes \<Rightarrow> cx_sha256" where
  "sha256_absorb ctx blen d =
     (let ctx = cx_sha256_block (ctx\<lparr>sha256_block := buf_write (sha256_block ctx) blen d\<rparr>)
      in ctx\<lparr>sha256_counter := sha256_counter ctx + 1\<rparr>)"

function sha256_update_loop ::
  "cx_sha256 \<Rightarrow> nat \<Rightarrow> nat \<Rightarrow> bytes \<Rightarrow> cx_sha256 \<times> (c_error + bytes)" where
  "sha256_update_loop ctx blen r data =
     (let ctx = sha256_absorb ctx blen (take r data); data = drop r data
      in if 64 \<le> length data then sha256_update_loop ctx 0 64 data else (ctx, Inr data))"
  by pat_completeness auto
termination
  by (relation "measure (\<lambda>(ctx, blen, r, data). 2 * length data + (if r = 0 then 1 else 0))") auto

declare sha256_update_loop.simps [simp del]

definition spec_cx_sha256_update ::
  "cx_sha256 \<Rightarrow> bytes option \<Rightarrow> nat \<Rightarrow> cx_sha256 \<times> (c_error + nat)" where
  "spec_cx_sha256_update ctx data len =
     (if data = None \<and> len \<noteq> 0 then (ctx, Inr 0)
      else case mem_arg data len of
        Inl e \<Rightarrow> (ctx, Inl e)
      | Inr data \<Rightarrow>
          (let blen = sha256_blen ctx; ctx = ctx\<lparr>sha256_blen := 0\<rparr> in
           if 64 \<le> blen then (ctx, Inl (Throw INVALID_PARAMETER))
           else
             (case (if 64 \<le> (blen + len) mod 2 ^ 32
                    then (case sha256_update_loop ctx blen (64 - blen) data of
                            (ctx, Inl e) \<Rightarrow> (ctx, Inl e)
                          | (ctx, Inr data) \<Rightarrow> (ctx, Inr (0, data)))
                    else (ctx, Inr (blen, data))) of
                (ctx, Inl e) \<Rightarrow> (ctx, Inl e)
              | (ctx, Inr (blen, data)) \<Rightarrow>
                  (ctx\<lparr>sha256_block := buf_write (sha256_block ctx) blen data,
                       sha256_blen := blen + length data\<rparr>, Inr 1))))"

definition spec_cx_sha256_final ::
  "cx_sha256 \<Rightarrow> bytes option \<Rightarrow> cx_sha256 \<times> (c_error + nat \<times> bytes option)" where
  "spec_cx_sha256_final ctx digest =
     (case digest of
        None \<Rightarrow> (ctx, Inr (0, None))
      | Some out \<Rightarrow>
         (if length (sha256_block ctx) \<le> sha256_blen ctx then (ctx, Inl Oob)
          else
            let ctx = ctx\<lparr>sha256_block := (sha256_block ctx)[sha256_blen ctx := 0x80],
                          sha256_blen := sha256_blen ctx + 1\<rparr>;
                bitlen = (ucast (sha256_counter ctx) * 64 + of_nat (sha256_blen ctx) - 1) * 8 :: u64;
                ctx = (if 64 - sha256_blen ctx < 8
                       then (cx_sha256_block (ctx\<lparr>sha256_block :=
                               buf_write (sha256_block ctx) (sha256_blen ctx)
                                 (replicate (64 - sha256_blen ctx) 0)\<rparr>))\<lparr>sha256_blen := 0\<rparr>
                       else ctx);
                ctx = ctx\<lparr>sha256_block := buf_write (sha256_block ctx) (sha256_blen ctx)
                         (replicate (64 - sha256_blen ctx) 0)\<rparr>;
                ctx = ctx\<lparr>sha256_block := buf_write (sha256_block ctx) (64 - 8)
                         (le_of_u64 (spec_cx_swap_uint64 bitlen))\<rparr>;
                ctx = cx_sha256_block ctx;
                ctx = ctx\<lparr>sha256_acc := spec_cx_swap_buffer32 (sha256_acc ctx) 8\<rparr>
            in (ctx, put_digest (take (if sha256_algo ctx = CX_SHA256 then 32 else 28)
                       (bytes32_le (sha256_acc ctx))) out)))"

definition cx_sha256_validate_context :: "cx_sha256 \<Rightarrow> bool" where
  "cx_sha256_validate_context ctx \<longleftrightarrow> sha256_blen ctx < 64"

text \<open>
  \<open>sys_cx_hash_sha256\<close> ignores the status of its calls; an exception or a stray access
  ends it.
\<close>

definition sys_cx_hash_sha256 :: "bytes option \<Rightarrow> nat \<Rightarrow> bytes option \<Rightarrow> (nat \<times> bytes option) res" where
  "sys_cx_hash_sha256 data len out =
     (case spec_cx_sha256_update cx_sha256_init data len of
        (_, Inl e) \<Rightarrow> Inl e
      | (ctx, Inr _) \<Rightarrow>
          (case spec_cx_sha256_final ctx out of
             (_, Inl e) \<Rightarrow> Inl e
           | (_, Inr (_, out)) \<Rightarrow> Inr (32, out)))"

section \<open>The compression function of FIPS 180-4\<close>

definition fips_Sigma0 :: "u32 \<Rightarrow> u32" where
  "fips_Sigma0 x = word_rotr 2 x XOR word_rotr 13 x XOR word_rotr 22 x"
definition fips_Sigma1 :: "u32 \<Rightarrow> u32" where
  "fips_Sigma1 x = word_rotr 6 x XOR word_rotr 11 x XOR word_rotr 25 x"
definition fips_sigma0 :: "u32 \<Rightarrow> u32" where
  "fips_sigma0 x = word_rotr 7 x XOR word_rotr 18 x XOR drop_bit 3 x"
definition fips_sigma1 :: "u32 \<Rightarrow> u32" where
  "fips_sigma1 x = word_rotr 17 x XOR word_rotr 19 x XOR drop_bit 10 x"

text \<open>The message schedule with all its sixty-four words.\<close>

fun sha256_W :: "u32 list \<Rightarrow> nat \<Rightarrow> u32" where
  "sha256_W M t =
     (if t < 16 then M ! t
      else fips_sigma1 (sha256_W M (t - 2)) + sha256_W M (t - 7) +
           fips_sigma0 (sha256_W M (t - 15)) + sha256_W M (t - 16))"

declare sha256_W.simps [simp del]

fun fips256_step :: "u32 \<Rightarrow> u32 \<Rightarrow> u32 list \<Rightarrow> u32 list" where
  "fips256_step Kt Wt [a, b, c, d, e, f, g, h] =
     (let T1 = h + fips_Sigma1 e + fips_Ch e f g + Kt + Wt;
          T2 = fips_Sigma0 a + fips_Maj a b c
      in [T1 + T2, a, b, c, d + T1, e, f, g])"
| "fips256_step Kt Wt xs = xs"

definition fips256_compress :: "u32 list \<Rightarrow> bytes \<Rightarrow> u32 list" where
  "fips256_compress H B =
     map2 (+) H (foldl (\<lambda>s t. fips256_step (sha256_primeSqrt ! t) (sha256_W (words32_be B) t) s) H [0..<64])"

text \<open>The digest of a message, block by block over the padded message.\<close>

definition fips256_digest :: "u32 list \<Rightarrow> nat \<Rightarrow> bytes \<Rightarrow> bytes" where
  "fips256_digest H0 sz m =
     take sz (bytes32_be (foldl fips256_compress H0
       (chunks 64 (md_pad 64 8 (be_of_u64 (of_nat (8 * length m))) m))))"

section \<open>The compression function is the one of the standard\<close>

lemma sha256_functions:
  "sha256_ch x y z = fips_Ch x y z" "sha256_maj x y z = fips_Maj x y z"
  by (rule bit_word_eqI; auto simp: sha256_ch_def sha256_maj_def fips_Ch_def fips_Maj_def bit_simps)+

lemma sha256_sigmas:
  "sha256_sigma0 x = fips_sigma0 x" "sha256_sigma1 x = fips_sigma1 x"
  "sha256_sum0 x = fips_Sigma0 x" "sha256_sum1 x = fips_Sigma1 x"
  by (simp_all add: sha256_sigma0_def sha256_sigma1_def sha256_sum0_def sha256_sum1_def sig256_def
      sum256_def cx_rot_simps cx_shr_def fips_sigma0_def fips_sigma1_def fips_Sigma0_def fips_Sigma1_def)

interpretation sched256: sha2_schedule fips_sigma0 fips_sigma1 sha256_W
  by unfold_locales (rule sha256_W.simps)

lemma fips256_step_length [simp]: "length (fips256_step k w s) = length s"
  by (cases "(k, w, s)" rule: fips256_step.cases) (simp_all add: Let_def)

lemma sha256_round_step:
  assumes "length ACC = 8" and "sched256.window M j X"
  shows "sha256_round (X, ACC) j =
    (sched256.slide X j, fips256_step (sha256_primeSqrt ! j) (sha256_W M j) ACC)"
  using assms(1)
proof (rule length_8E)
  fix a b c d e f g h assume ACC: "ACC = [a, b, c, d, e, f, g, h]"
  show ?thesis
    using sched256.window_slide(2) [OF assms(2)]
    unfolding ACC sha256_round_def sched256.slide_def sha256_sigmas
    by (simp add: Let_def buf_write_def sha256_functions sha256_sigmas)
qed

lemma sha256_rounds:
  assumes "length M = 16" and "length H = 8"
  shows "\<exists>X. foldl sha256_round (M, H) [0..<k] =
      (X, foldl (\<lambda>s t. fips256_step (sha256_primeSqrt ! t) (sha256_W M t) s) H [0..<k]) \<and>
    sched256.window M k X \<and>
    length (foldl (\<lambda>s t. fips256_step (sha256_primeSqrt ! t) (sha256_W M t) s) H [0..<k]) = 8"
proof (induction k)
  case 0
  then show ?case using assms sched256.window_init by simp
next
  case (Suc k)
  then show ?case using sha256_round_step sched256.window_slide(1) by fastforce
qed

lemma sha256_block_step:
  assumes "length (sha256_block c) = 64" and "length (sha256_acc c) = 8"
  shows "\<exists>X. length X = 16 \<and> cx_sha256_block c =
    c\<lparr>sha256_block := bytes32_le X, sha256_acc := fips256_compress (sha256_acc c) (sha256_block c)\<rparr>"
proof -
  let ?M = "words32_be (sha256_block c)"
  have M: "spec_cx_swap_buffer32 (words32_le (sha256_block c)) 16 = ?M"
    using assms(1) by (simp add: swap_buffer32_map map_swap_words32)
  have "length ?M = 16" using assms(1) by simp
  from sha256_rounds [OF this assms(2), of 64] obtain X where
    X: "foldl sha256_round (?M, sha256_acc c) [0..<64] = (X, foldl (\<lambda>s t.
      fips256_step (sha256_primeSqrt ! t) (sha256_W ?M t) s) (sha256_acc c) [0..<64])"
      "sched256.window ?M 64 X"
    by blast
  then show ?thesis
    by (intro exI [of _ X])
      (simp add: cx_sha256_block_def M fips256_compress_def sched256.window_def Let_def del: upt_rec_numeral)
qed

text \<open>
  \<open>cx_sha256_block\<close>, which keeps sixteen schedule words in the block buffer,
  updates the accumulator exactly by the compression function of FIPS 180-4 with its full
  schedule of sixty-four words, and leaves the counters and the algorithm alone.
\<close>

theorem sha256_block_fips:
  "length (sha256_block c) = 64 \<Longrightarrow> length (sha256_acc c) = 8 \<Longrightarrow>
   sha256_acc (cx_sha256_block c) = fips256_compress (sha256_acc c) (sha256_block c) \<and>
   length (sha256_block (cx_sha256_block c)) = 64 \<and>
   sha256_counter (cx_sha256_block c) = sha256_counter c \<and>
   sha256_blen (cx_sha256_block c) = sha256_blen c \<and>
   sha256_algo (cx_sha256_block c) = sha256_algo c"
  using sha256_block_step [of c] by auto

theorem sha256_block_fips_witness:
  "sha256_acc (cx_sha256_block cx_sha256_init) = fips256_compress hzero_256 (replicate 64 0)"
  using sha256_block_fips [of cx_sha256_init] by (simp add: cx_sha256_init_def hzero_256_def)

section \<open>Buffering\<close>

definition sha256_wf :: "cx_sha256 \<Rightarrow> bool" where
  "sha256_wf c \<longleftrightarrow> length (sha256_block c) = 64 \<and> length (sha256_acc c) = 8"

definition sha256_st :: "cx_sha256 \<Rightarrow> u32 list \<times> u32 \<times> cx_md" where
  "sha256_st c = (sha256_acc c, sha256_counter c, sha256_algo c)"

definition sha256_compress :: "u32 list \<times> u32 \<times> cx_md \<Rightarrow> bytes \<Rightarrow> u32 list \<times> u32 \<times> cx_md" where
  "sha256_compress s b = (fips256_compress (fst s) b, fst (snd s) + 1, snd (snd s))"

definition sha256_finish :: "cx_sha256 \<Rightarrow> nat \<Rightarrow> bytes \<Rightarrow> cx_sha256" where
  "sha256_finish c b x = c\<lparr>sha256_block := buf_write (sha256_block c) b x, sha256_blen := b + length x\<rparr>"

lemma fips256_compress_length [simp]: "length H = 8 \<Longrightarrow> length (fips256_compress H b) = 8"
proof -
  have "length (foldl (\<lambda>s t. fips256_step (k t) (w t) s) H ts) = length H" for k w :: "nat \<Rightarrow> u32" and ts
    by (induction ts rule: rev_induct) simp_all
  then show "length H = 8 \<Longrightarrow> ?thesis" by (simp add: fips256_compress_def)
qed

lemma sha256_absorb_step:
  assumes "sha256_wf c" and "b + length x = 64"
  shows "sha256_wf (sha256_absorb c b x) \<and>
    sha256_st (sha256_absorb c b x) = sha256_compress (sha256_st c) (take b (sha256_block c) @ x)"
proof -
  let ?c = "c\<lparr>sha256_block := buf_write (sha256_block c) b x\<rparr>"
  have blk: "buf_write (sha256_block c) b x = take b (sha256_block c) @ x"
    using assms by (simp add: buf_write_def sha256_wf_def)
  have "length (sha256_block ?c) = 64" "length (sha256_acc ?c) = 8"
    using assms by (simp_all add: sha256_wf_def)
  from sha256_block_step [OF this] blk assms show ?thesis
    by (auto simp: sha256_absorb_def sha256_wf_def sha256_st_def sha256_compress_def Let_def)
qed

interpretation sha256: block_update 64 "\<lambda>c. c\<lparr>sha256_blen := 0\<rparr>" sha256_absorb sha256_finish
  "\<lambda>_. True" INVALID_PARAMETER sha256_update_loop sha256_blen sha256_block sha256_st sha256_wf
  sha256_compress "\<lambda>c d. spec_cx_sha256_update c (Some d) (length d)"
proof unfold_locales
  fix c b r d
  show "sha256_update_loop c b r d =
    (if \<not> True then (c, Inl (Throw INVALID_PARAMETER))
     else if 64 \<le> length (drop r d)
       then sha256_update_loop (sha256_absorb c b (take r d)) 0 64 (drop r d)
       else (sha256_absorb c b (take r d), Inr (drop r d)))"
    by (subst sha256_update_loop.simps) (simp add: Let_def)
next
  fix c :: cx_sha256 and d :: bytes assume c: "sha256_blen c < 64" "sha256_blen c + length d < 2 ^ 32"
  then show "spec_cx_sha256_update c (Some d) (length d) =
    (if 64 \<le> sha256_blen c + length d
     then (case sha256_update_loop (c\<lparr>sha256_blen := 0\<rparr>) (sha256_blen c) (64 - sha256_blen c) d of
            (c', Inl e) \<Rightarrow> (c', Inl e) | (c', Inr d') \<Rightarrow> (sha256_finish c' 0 d', Inr 1))
     else (sha256_finish (c\<lparr>sha256_blen := 0\<rparr>) (sha256_blen c) d, Inr 1))"
    by (auto simp: spec_cx_sha256_update_def sha256_finish_def Let_def split: sum.splits prod.splits)
qed (simp_all add: sha256_absorb_step,
    auto simp: sha256_wf_def sha256_st_def sha256_finish_def)

lemma sha256_init_wf: "sha256_wf cx_sha256_init" "sha256_wf cx_sha224_init"
  by (simp_all add: sha256_wf_def cx_sha256_init_def cx_sha224_init_def hzero_256_def hzero_224_def)

text \<open>
  Feeding SHA-256 a message in two calls is the same as in one: both
  sequences succeed and leave the same chaining value, block counter and pending bytes.
\<close>

theorem sha256_update_append:
  assumes "sha256_wf c" and "sha256_blen c < 64"
    and "sha256_blen c + length a + length b < 2 ^ 32"
  shows "\<exists>c1 c2 c'. spec_cx_sha256_update c (Some a) (length a) = (c1, Inr 1) \<and>
    spec_cx_sha256_update c1 (Some b) (length b) = (c2, Inr 1) \<and>
    spec_cx_sha256_update c (Some (a @ b)) (length (a @ b)) = (c', Inr 1) \<and>
    sha256_st c2 = sha256_st c' \<and>
    take (sha256_blen c2) (sha256_block c2) = take (sha256_blen c') (sha256_block c')"
  using sha256.update_append [OF assms] unfolding sha256.rooms_def sha256.pend_def by simp

theorem sha256_update_append_witness:
  "\<exists>c1 c2 c'. spec_cx_sha256_update cx_sha256_init (Some [1, 2]) (length [1, 2 :: u8]) = (c1, Inr 1) \<and>
    spec_cx_sha256_update c1 (Some [3]) (length [3 :: u8]) = (c2, Inr 1) \<and>
    spec_cx_sha256_update cx_sha256_init (Some [1, 2, 3]) (length [1, 2, 3 :: u8]) = (c', Inr 1) \<and>
    sha256_st c2 = sha256_st c'"
proof -
  have "sha256_blen cx_sha256_init < 64"
    "sha256_blen cx_sha256_init + length [1, 2 :: u8] + length [3 :: u8] < 2 ^ 32"
    by (simp_all add: cx_sha256_init_def)
  from sha256_update_append [OF sha256_init_wf(1) this] show ?thesis by simp blast
qed

section \<open>The digest\<close>

text \<open>The last one or two blocks built by \<open>spec_cx_sha256_final\<close>.\<close>

lemma sha256_block_simps:
  "sha256_algo (cx_sha256_block c) = sha256_algo c"
  "sha256_blen (cx_sha256_block c) = sha256_blen c"
  "length (sha256_block c) = 64 \<Longrightarrow> length (sha256_acc c) = 8 \<Longrightarrow>
     sha256_acc (cx_sha256_block c) = fips256_compress (sha256_acc c) (sha256_block c)"
  "length (sha256_block c) = 64 \<Longrightarrow> length (sha256_acc c) = 8 \<Longrightarrow>
     length (sha256_block (cx_sha256_block c)) = 64"
proof -
  show "sha256_algo (cx_sha256_block c) = sha256_algo c" "sha256_blen (cx_sha256_block c) = sha256_blen c"
    by (simp_all add: cx_sha256_block_def Let_def split: prod.splits)
qed (use sha256_block_step [of c] in auto)

lemma sha256_final_blocks:
  assumes "sha256_wf c" and "sha256_blen c < 64"
  shows "snd (spec_cx_sha256_final c (Some out)) =
    put_digest (take (if sha256_algo c = CX_SHA256 then 32 else 28)
      (bytes32_be (foldl fips256_compress (sha256_acc c)
        (md_last 64 8 (be_of_u64 ((ucast (sha256_counter c) * 64 + of_nat (sha256_blen c)) * 8))
          (take (sha256_blen c) (sha256_block c)))))) out"
proof -
  let ?p = "take (sha256_blen c) (sha256_block c)" and ?b = "sha256_blen c"
  let ?bl = "(ucast (sha256_counter c) * 64 + of_nat ?b) * 8 :: u64"
  have len: "length (sha256_block c) = 64" "length (sha256_acc c) = 8" "length ?p = ?b"
    using assms by (simp_all add: sha256_wf_def)
  have swap: "bytes32_le (spec_cx_swap_buffer32 acc 8) = bytes32_be acc" if "length acc = 8" for acc
    using that by (simp add: swap_buffer32_map bytes_swap_words32)
  have fill: "buf_write ((sha256_block c)[?b := 0x80]) (Suc ?b) (replicate (63 - ?b) 0) =
      ?p @ 0x80 # replicate (63 - ?b) 0"
    using md_write_mark [OF len(1) assms(2)] by simp
  have bitlen: "(ucast (sha256_counter c) * 64 + of_nat (Suc ?b) - 1) * 8 = ?bl" by simp
  note final = spec_cx_sha256_final_def Let_def sha256_block_simps swap fill le_swap_uint64
  show ?thesis
  proof (cases "?b + 1 + 8 \<le> 64")
    case True
    then have "buf_write (?p @ 0x80 # replicate (63 - ?b) 0) 56 (be_of_u64 v) =
        ?p @ 0x80 # replicate (55 - ?b) 0 @ be_of_u64 v" for v
      using md_write_length [OF len(3) True, of "be_of_u64 v"] by simp
    moreover have "\<not> 63 - ?b < 8" using True by linarith
    ultimately show ?thesis using True assms(2) len by (simp add: final md_last_def)
  next
    case False
    then have "63 - ?b < 8" by linarith
    then show ?thesis
      using False assms(2) len md_write_zeros [of _ 64 8] by (simp add: final md_last_def)
  qed
qed

text \<open>The bytes a context has absorbed since its initialisation.\<close>

definition sha256_absorbed :: "cx_sha256 \<Rightarrow> cx_sha256 \<Rightarrow> bytes \<Rightarrow> bool" where
  "sha256_absorbed c0 c m \<longleftrightarrow> sha256_wf c \<and> sha256_blen c < 64 \<and> length m < 2 ^ 32 \<and>
     (sha256_st c, take (sha256_blen c) (sha256_block c)) = feed sha256_compress 64 (sha256_st c0, []) m"

lemma foldl_sha256_compress:
  "foldl sha256_compress (h, k, a) bs = (foldl fips256_compress h bs, k + of_nat (length bs), a)"
  by (induction bs arbitrary: h k) (simp_all add: sha256_compress_def algebra_simps)

lemma sha256_absorbed_init:
  "c0 = cx_sha256_init \<or> c0 = cx_sha224_init \<Longrightarrow> sha256_absorbed c0 c0 []"
  using sha256_init_wf
  by (auto simp: sha256_absorbed_def feed_def chunk_rest_def cx_sha256_init_def cx_sha224_init_def)

lemma sha256_absorbed_update:
  assumes "sha256_absorbed c0 c m" and "length m + length d < 2 ^ 32"
  shows "\<exists>c'. spec_cx_sha256_update c (Some d) (length d) = (c', Inr 1) \<and> sha256_absorbed c0 c' (m @ d)"
proof -
  have "sha256_blen c = length (take (sha256_blen c) (sha256_block c))"
    using assms(1) by (simp add: sha256_absorbed_def sha256_wf_def)
  also have "\<dots> = length (chunk_rest 64 m)"
    using assms(1) by (simp add: sha256_absorbed_def feed_def)
  finally have "sha256_blen c \<le> length m" by (simp add: length_chunk_rest)
  then have "\<exists>c'. spec_cx_sha256_update c (Some d) (length d) = (c', Inr 1) \<and> sha256_wf c' \<and>
      sha256_blen c' < 64 \<and> (sha256_st c', sha256.pend c') =
      feed sha256_compress 64 (sha256_st c, sha256.pend c) d"
    using assms by (intro sha256.update_feed) (simp_all add: sha256_absorbed_def sha256.rooms_def)
  then show ?thesis
    using assms by (auto simp: sha256_absorbed_def sha256.pend_def feed_append)
qed

lemma sha256_absorbed_final:
  assumes "sha256_absorbed c0 c m" and "c0 = cx_sha256_init \<and> sz = 32 \<or> c0 = cx_sha224_init \<and> sz = 28"
  shows "snd (spec_cx_sha256_final c (Some out)) = put_digest (fips256_digest (sha256_acc c0) sz m) out"
proof -
  have c0: "sha256_counter c0 = 0" "sz = (if sha256_algo c0 = CX_SHA256 then 32 else 28)"
    using assms(2) by (auto simp: cx_sha256_init_def cx_sha224_init_def)
  have "(sha256_st c, take (sha256_blen c) (sha256_block c)) = feed sha256_compress 64 (sha256_st c0, []) m"
    using assms(1) by (simp add: sha256_absorbed_def)
  then have c: "sha256_acc c = foldl fips256_compress (sha256_acc c0) (chunks 64 m)"
      "sha256_counter c = of_nat (length (chunks 64 m))" "sha256_algo c = sha256_algo c0"
      "take (sha256_blen c) (sha256_block c) = chunk_rest 64 m"
    by (auto simp: feed_def sha256_st_def foldl_sha256_compress c0)
  have b: "sha256_blen c = length (chunk_rest 64 m)"
    using c(4) assms(1) by (auto simp: sha256_absorbed_def sha256_wf_def dest!: arg_cong [of _ _ length])
  have "length m < 2 ^ 32" using assms(1) by (simp add: sha256_absorbed_def)
  from bit_length_blocks [OF this, of 64]
  have len: "(ucast (sha256_counter c) * 64 + of_nat (sha256_blen c)) * 8 = (of_nat (8 * length m) :: u64)"
    by (simp add: c(2) b)
  have "foldl fips256_compress (sha256_acc c0) (chunks 64 (md_pad 64 8 (be_of_u64 (of_nat (8 * length m))) m)) =
      foldl fips256_compress (sha256_acc c)
        (md_last 64 8 (be_of_u64 (of_nat (8 * length m))) (take (sha256_blen c) (sha256_block c)))"
    by (simp add: chunks_md_pad c)
  then show ?thesis
    using sha256_final_blocks [of c out] assms(1) len c(3) c0(2)
    by (simp add: fips256_digest_def sha256_absorbed_def)
qed

lemma fips256_digest_length:
  assumes "length H0 = 8" and "sz \<le> 32"
  shows "length (fips256_digest H0 sz m) = sz"
proof -
  have "length (foldl fips256_compress H0 bs) = 8" for bs
    using assms(1) by (induction bs rule: rev_induct) simp_all
  then show ?thesis using assms(2) by (simp add: fips256_digest_def)
qed

interpretation hash256: hash_function cx_sha256_init spec_cx_sha256_update spec_cx_sha256_final
  cx_sha256_validate_context "sha256_absorbed cx_sha256_init" "fips256_digest hzero_256 32" 32 "2 ^ 32"
proof unfold_locales
  show "length (fips256_digest hzero_256 32 m) = 32" for m
    by (rule fips256_digest_length) (simp_all add: hzero_256_def)
  show "snd (spec_cx_sha256_final c (Some out)) = put_digest (fips256_digest hzero_256 32 m) out"
    if "sha256_absorbed cx_sha256_init c m" for c m out
    using sha256_absorbed_final [OF that] by (simp add: cx_sha256_init_def)
qed (erule (1) sha256_absorbed_update | simp add: sha256_absorbed_init |
    simp add: sha256_absorbed_def cx_sha256_validate_context_def)+

interpretation hash224: hash_function cx_sha224_init spec_cx_sha256_update spec_cx_sha256_final
  cx_sha256_validate_context "sha256_absorbed cx_sha224_init" "fips256_digest hzero_224 28" 28 "2 ^ 32"
proof unfold_locales
  show "length (fips256_digest hzero_224 28 m) = 28" for m
    by (rule fips256_digest_length) (simp_all add: hzero_224_def)
  show "snd (spec_cx_sha256_final c (Some out)) = put_digest (fips256_digest hzero_224 28 m) out"
    if "sha256_absorbed cx_sha224_init c m" for c m out
    using sha256_absorbed_final [OF that] by (simp add: cx_sha224_init_def)
qed (erule (1) sha256_absorbed_update | simp add: sha256_absorbed_init |
    simp add: sha256_absorbed_def cx_sha256_validate_context_def)+

text \<open>
  Property C2: for every message the address space can hold, \<open>sys_cx_hash_sha256\<close> returns
  32 and puts the FIPS 180-4 digest of the message at the start of the output buffer,
  leaving the rest of the buffer alone.
\<close>

theorem sys_cx_hash_sha256_fips:
  "length m < 2 ^ 32 \<Longrightarrow> 32 \<le> length out \<Longrightarrow>
   sys_cx_hash_sha256 (Some m) (length m) (Some out) =
     Inr (32, Some (fips256_digest hzero_256 32 m @ drop 32 out))"
proof -
  assume "length m < 2 ^ 32" "32 \<le> length out"
  then obtain c where c: "spec_cx_sha256_update cx_sha256_init (Some m) (length m) = (c, Inr 1)"
      "sha256_absorbed cx_sha256_init c m"
    using hash256.update_absorbed [OF hash256.init_absorbed, of m] by auto
  obtain c' where "spec_cx_sha256_final c (Some out) =
      (c', Inr (1, Some (fips256_digest hzero_256 32 m @ drop 32 out)))"
    using hash256.final_digest [OF c(2), of out] \<open>32 \<le> length out\<close>
    by (cases "spec_cx_sha256_final c (Some out)") (auto simp: put_digest_fits hash256.digest_length)
  then show ?thesis using c(1) by (simp add: sys_cx_hash_sha256_def)
qed

theorem sys_cx_hash_sha256_fips_witness:
  "\<exists>d. length d = 32 \<and>
     sys_cx_hash_sha256 (Some [97, 98, 99]) (length [97, 98, 99 :: u8]) (Some (replicate 32 0)) =
       Inr (32, Some d)"
  using sys_cx_hash_sha256_fips [of "[97, 98, 99]" "replicate 32 0"] hash256.digest_length
  by (intro exI [of _ "fips256_digest hzero_256 32 [97, 98, 99]"]) simp

end
