(* ===== verification/Counted_Stream.thy ===== *)
theory Counted_Stream
  imports Hash_Interface
begin

text \<open>
  The hash functions whose update counts the blocks in \<open>header.counter\<close> and throws at
  \<open>CX_HASH_MAX_BLOCK_COUNT\<close>: the chaining state is the accumulator with the counter and the
  algorithm. The locale derives from the block stream what such a context has absorbed, up to
  65535 full blocks.
\<close>

locale counted_stream =
  block_update n start absorb finish room exn loop blen blk st wf compress update
  for n start absorb finish room exn loop blen blk
    and st :: "'c \<Rightarrow> 'h \<times> u32 \<times> 'a" and wf compress update +
  fixes comp :: "'h \<Rightarrow> bytes \<Rightarrow> 'h"
    and c0 :: 'c
  assumes compress_eq: "compress s b = (comp (fst s) b, fst (snd s) + 1, snd (snd s))"
    and room_eq: "room s \<longleftrightarrow> fst (snd s) \<noteq> of_nat CX_HASH_MAX_BLOCK_COUNT"
    and n_small: "n < 2 ^ 15"
    and c0_laws: "wf c0" "blen c0 = 0" "fst (snd (st c0)) = 0"
begin

definition absorbed :: "'c \<Rightarrow> bytes \<Rightarrow> bool" where
  "absorbed c m \<longleftrightarrow> wf c \<and> blen c < n \<and> length m < 65536 * n \<and>
     (st c, pend c) = feed compress n (st c0, []) m"

lemma absorbed_wf:
  assumes "absorbed c m"
  shows "wf c" and "blen c < n" and "length m < 65536 * n"
  using assms by (simp_all add: absorbed_def)

lemma rooms_count: "unat (fst (snd s)) + length bs \<le> 65535 \<Longrightarrow> rooms s bs"
proof (induction bs arbitrary: s)
  case (Cons b bs)
  have "fst (snd s) \<noteq> of_nat CX_HASH_MAX_BLOCK_COUNT"
    using Cons.prems by (auto simp: CX_HASH_MAX_BLOCK_COUNT_def)
  moreover have "unat (fst (snd s) + 1) = unat (fst (snd s)) + 1"
    using Cons.prems unat_add_lem [of "fst (snd s)" 1] by simp
  ultimately have "room s" "unat (fst (snd (compress s b))) + length bs \<le> 65535"
    using Cons.prems by (simp_all add: room_eq compress_eq)
  then show ?case using Cons.IH by (simp add: rooms_Cons)
qed simp

lemma foldl_compress: "foldl compress s bs = (foldl comp (fst s) bs, fst (snd s) + of_nat (length bs), snd (snd s))"
  by (induction bs arbitrary: s) (simp_all add: compress_eq algebra_simps)

lemma absorbedD:
  assumes "absorbed c m"
  shows "st c = (foldl comp (fst (st c0)) (chunks n m), of_nat (length m div n), snd (snd (st c0)))"
    and "take (blen c) (blk c) = chunk_rest n m" and "blen c = length m mod n"
    and "length m div n \<le> 65535" and "length m < 2 ^ 31"
proof -
  have *: "(st c, pend c) = feed compress n (st c0, []) m" using assms by (simp add: absorbed_def)
  then show "st c = (foldl comp (fst (st c0)) (chunks n m), of_nat (length m div n), snd (snd (st c0)))"
    and "take (blen c) (blk c) = chunk_rest n m"
    by (auto simp: feed_def foldl_compress c0_laws length_chunks n_pos pend_def)
  from arg_cong [OF this(2), of length] show "blen c = length m mod n"
    using assms blk_length [of c] by (simp add: absorbed_def length_chunk_rest n_pos)
  have "length m < 65536 * n" using assms by (simp add: absorbed_def)
  then have "length m div n < 65536" by (rule less_mult_imp_div_less)
  then show "length m div n \<le> 65535" by simp
  show "length m < 2 ^ 31" using \<open>length m < 65536 * n\<close> n_small by simp
qed

lemma absorbed_init: "absorbed c0 []"
  using c0_laws n_pos by (simp add: absorbed_def feed_def chunk_rest_def pend_def)

lemma absorbed_update:
  assumes "absorbed c m" and "length m + length d < 65536 * n"
  shows "\<exists>c'. update c d = (c', Inr 1) \<and> absorbed c' (m @ d)"
proof -
  note c = absorbedD [OF assms(1)]
  have "length m div n + (length m mod n + length d) div n = (length m + length d) div n"
  proof -
    have "length m + length d = (length m mod n + length d) + length m div n * n" by simp
    then show ?thesis
      using div_mult_self1 [of n "length m mod n + length d" "length m div n"] n_pos by simp
  qed
  moreover have "(length m + length d) div n < 65536"
    by (rule less_mult_imp_div_less) (rule assms(2))
  moreover have "unat (fst (snd (st c))) = length m div n" using c(1,4) by (simp add: unat_of_nat)
  ultimately have "unat (fst (snd (st c))) + length (chunks n (pend c @ d)) \<le> 65535"
    by (simp add: length_chunks n_pos pend_def c(2) length_chunk_rest)
  from rooms_count [OF this]
  have "\<exists>c'. update c d = (c', Inr 1) \<and> wf c' \<and> blen c' < n \<and>
      (st c', pend c') = feed compress n (st c, pend c) d"
    using assms n_small by (intro update_feed) (simp_all add: absorbed_def)
  then show ?thesis
    using assms n_pos by (auto simp: absorbed_def feed_append)
qed

lemma no_room:
  assumes "wf c" and "blen c < n" and "n \<le> blen c + length d" and "blen c + length d < 2 ^ 32"
    and "fst (snd (st c)) = 65535"
  shows "update c d = (start c, Inl (Throw exn))"
  by (rule update_no_room [OF assms(1,2,4,3)]) (simp add: room_eq assms(5) CX_HASH_MAX_BLOCK_COUNT_def)

end

end
