(* ===== verification/Cx_Sha512.thy ===== *)
theory Cx_Sha512
  imports Sha2_Schedule Counted_Stream
begin

text \<open>
  \<open>src/bolos/cx_sha512.c\<close>: SHA-384 and SHA-512, in the variant built with
  \<open>NATIVE_64BITS\<close>. The shape is that of SHA-256 with 64-bit words and blocks of 128 bytes;
  besides, the update refuses more than \<open>CX_HASH_MAX_BLOCK_COUNT\<close> blocks, and the bit length
  goes through a 32-bit variable, which this bound makes harmless.
\<close>

section \<open>The context and the compression function\<close>

record cx_sha512 =
  sha512_algo :: cx_md
  sha512_counter :: u32
  sha512_blen :: nat
  sha512_block :: bytes
  sha512_acc :: "u64 list"

definition hzero_384 :: "u64 list" where
  "hzero_384 = concat [
     [0xcbbb9d5dc1059ed8, 0x629a292a367cd507, 0x9159015a3070dd17, 0x152fecd8f70e5939],
     [0x67332667ffc00b31, 0x8eb44a8768581511, 0xdb0c2e0d64f98fa7, 0x47b5481dbefa4fa4]]"

definition hzero_512 :: "u64 list" where
  "hzero_512 = concat [
     [0x6a09e667f3bcc908, 0xbb67ae8584caa73b, 0x3c6ef372fe94f82b, 0xa54ff53a5f1d36f1],
     [0x510e527fade682d1, 0x9b05688c2b3e6c1f, 0x1f83d9abfb41bd6b, 0x5be0cd19137e2179]]"

definition sha512_primeSqrt :: "u64 list" where
  "sha512_primeSqrt = concat [
     [0x428a2f98d728ae22, 0x7137449123ef65cd, 0xb5c0fbcfec4d3b2f, 0xe9b5dba58189dbbc],
     [0x3956c25bf348b538, 0x59f111f1b605d019, 0x923f82a4af194f9b, 0xab1c5ed5da6d8118],
     [0xd807aa98a3030242, 0x12835b0145706fbe, 0x243185be4ee4b28c, 0x550c7dc3d5ffb4e2],
     [0x72be5d74f27b896f, 0x80deb1fe3b1696b1, 0x9bdc06a725c71235, 0xc19bf174cf692694],
     [0xe49b69c19ef14ad2, 0xefbe4786384f25e3, 0x0fc19dc68b8cd5b5, 0x240ca1cc77ac9c65],
     [0x2de92c6f592b0275, 0x4a7484aa6ea6e483, 0x5cb0a9dcbd41fbd4, 0x76f988da831153b5],
     [0x983e5152ee66dfab, 0xa831c66d2db43210, 0xb00327c898fb213f, 0xbf597fc7beef0ee4],
     [0xc6e00bf33da88fc2, 0xd5a79147930aa725, 0x06ca6351e003826f, 0x142929670a0e6e70],
     [0x27b70a8546d22ffc, 0x2e1b21385c26c926, 0x4d2c6dfc5ac42aed, 0x53380d139d95b3df],
     [0x650a73548baf63de, 0x766a0abb3c77b2a8, 0x81c2c92e47edaee6, 0x92722c851482353b],
     [0xa2bfe8a14cf10364, 0xa81a664bbc423001, 0xc24b8b70d0f89791, 0xc76c51a30654be30],
     [0xd192e819d6ef5218, 0xd69906245565a910, 0xf40e35855771202a, 0x106aa07032bbd1b8],
     [0x19a4c116b8d2d0c8, 0x1e376c085141ab53, 0x2748774cdf8eeb99, 0x34b0bcb5e19b48a8],
     [0x391c0cb3c5c95a63, 0x4ed8aa4ae3418acb, 0x5b9cca4f7763e373, 0x682e6ff3d6b2b8a3],
     [0x748f82ee5defb2fc, 0x78a5636f43172f60, 0x84c87814a1f0ab72, 0x8cc702081a6439ec],
     [0x90befffa23631e28, 0xa4506cebde82bde9, 0xbef9a3f7b2c67915, 0xc67178f2e372532b],
     [0xca273eceea26619c, 0xd186b8c721c0c207, 0xeada7dd6cde0eb1e, 0xf57d4f7fee6ed178],
     [0x06f067aa72176fba, 0x0a637dc5a2c898a6, 0x113f9804bef90dae, 0x1b710b35131c471b],
     [0x28db77f523047d84, 0x32caab7b40c72493, 0x3c9ebe0a15c9bebc, 0x431d67c49c100d4c],
     [0x4cc5d4becb3e42b6, 0x597f299cfc657e2a, 0x5fcb6fab3ad6faec, 0x6c44198c4a475817]]"

definition sig512 :: "u64 \<Rightarrow> nat \<Rightarrow> nat \<Rightarrow> nat \<Rightarrow> u64" where
  "sig512 x a b c = cx_rotr64 x a XOR cx_rotr64 x b XOR cx_shr64 x c"

definition sum512 :: "u64 \<Rightarrow> nat \<Rightarrow> nat \<Rightarrow> nat \<Rightarrow> u64" where
  "sum512 x a b c = cx_rotr64 x a XOR cx_rotr64 x b XOR cx_rotr64 x c"

definition sha512_sigma0 :: "u64 \<Rightarrow> u64" where "sha512_sigma0 x = sig512 x 1 8 7"
definition sha512_sigma1 :: "u64 \<Rightarrow> u64" where "sha512_sigma1 x = sig512 x 19 61 6"
definition sha512_sum0 :: "u64 \<Rightarrow> u64" where "sha512_sum0 x = sum512 x 28 34 39"
definition sha512_sum1 :: "u64 \<Rightarrow> u64" where "sha512_sum1 x = sum512 x 14 18 41"

definition sha512_ch :: "u64 \<Rightarrow> u64 \<Rightarrow> u64 \<Rightarrow> u64" where
  "sha512_ch x y z = (x AND y) XOR (NOT x AND z)"

definition sha512_maj :: "u64 \<Rightarrow> u64 \<Rightarrow> u64 \<Rightarrow> u64" where
  "sha512_maj x y z = (x AND y) XOR (x AND z) XOR (y AND z)"

definition cx_sha384_init :: "cx_sha512" where
  "cx_sha384_init = \<lparr>sha512_algo = CX_SHA384, sha512_counter = 0, sha512_blen = 0,
     sha512_block = replicate 128 0, sha512_acc = hzero_384\<rparr>"

definition cx_sha512_init :: "cx_sha512" where
  "cx_sha512_init = \<lparr>sha512_algo = CX_SHA512, sha512_counter = 0, sha512_blen = 0,
     sha512_block = replicate 128 0, sha512_acc = hzero_512\<rparr>"

text \<open>One iteration of the round loop on the schedule window and the variables \<open>A\<close> to \<open>H\<close>.\<close>

definition sha512_round :: "u64 list \<times> u64 list \<Rightarrow> nat \<Rightarrow> u64 list \<times> u64 list" where
  "sha512_round XA j =
     (let (X, ACC) = XA;
          X = (if 16 \<le> j then
                 X[j mod 16 := sha512_sigma1 (X ! ((j - 2) mod 16)) + X ! ((j - 7) mod 16) +
                   sha512_sigma0 (X ! ((j - 15) mod 16)) + X ! ((j - 16) mod 16)]
               else X);
          A = ACC ! 0; B = ACC ! 1; C = ACC ! 2; D = ACC ! 3;
          E = ACC ! 4; F = ACC ! 5; G = ACC ! 6; H = ACC ! 7;
          t1 = H + sha512_sum1 E + sha512_ch E F G + sha512_primeSqrt ! j + X ! (j mod 16);
          t2 = sha512_sum0 A + sha512_maj A B C
      in (X, [t1 + t2, A, B, C, D + t1, E, F, G]))"

definition cx_sha512_block :: "cx_sha512 \<Rightarrow> cx_sha512" where
  "cx_sha512_block hash =
     (let X = spec_cx_swap_buffer64 (words64_le (sha512_block hash)) 16;
          accumulator = sha512_acc hash;
          (X, ACC) = foldl sha512_round (X, accumulator) [0..<80]
      in hash\<lparr>sha512_block := bytes64_le X, sha512_acc := map2 (+) accumulator ACC\<rparr>)"

text \<open>The do-while loop over full blocks: check the counter, copy \<open>r\<close> bytes, compress, count.\<close>

definition sha512_absorb :: "cx_sha512 \<Rightarrow> nat \<Rightarrow> bytes \<Rightarrow> cx_sha512" where
  "sha512_absorb ctx blen d =
     (let ctx = cx_sha512_block (ctx\<lparr>sha512_block := buf_write (sha512_block ctx) blen d\<rparr>)
      in ctx\<lparr>sha512_counter := sha512_counter ctx + 1\<rparr>)"

function sha512_update_loop ::
  "cx_sha512 \<Rightarrow> nat \<Rightarrow> nat \<Rightarrow> bytes \<Rightarrow> cx_sha512 \<times> (c_error + bytes)" where
  "sha512_update_loop ctx blen r data =
     (if sha512_counter ctx = of_nat CX_HASH_MAX_BLOCK_COUNT then (ctx, Inl (Throw INVALID_PARAMETER))
      else
        let ctx = sha512_absorb ctx blen (take r data); data = drop r data
        in if 128 \<le> length data then sha512_update_loop ctx 0 128 data else (ctx, Inr data))"
  by pat_completeness auto
termination
  by (relation "measure (\<lambda>(ctx, blen, r, data). 2 * length data + (if r = 0 then 1 else 0))") auto

declare sha512_update_loop.simps [simp del]

text \<open>
  The update. Unlike SHA-256 it does not refuse a pending length past the block size:
  \<open>block_size - blen\<close> then wraps and the copy leaves the block.
\<close>

definition spec_cx_sha512_update ::
  "cx_sha512 \<Rightarrow> bytes option \<Rightarrow> nat \<Rightarrow> cx_sha512 \<times> (c_error + nat)" where
  "spec_cx_sha512_update ctx data len =
     (if data = None \<and> len \<noteq> 0 then (ctx, Inr 0)
      else case mem_arg data len of
        Inl e \<Rightarrow> (ctx, Inl e)
      | Inr data \<Rightarrow>
          (let blen = sha512_blen ctx; ctx = ctx\<lparr>sha512_blen := 0\<rparr> in
           case (if 128 \<le> (blen + len) mod 2 ^ 32
                 then if (128 < blen \<or> len < 128 - blen) \<and> sha512_counter ctx \<noteq> of_nat CX_HASH_MAX_BLOCK_COUNT
                   then (ctx, Inl Oob)
                   else (case sha512_update_loop ctx blen (128 - blen) data of
                           (ctx, Inl e) \<Rightarrow> (ctx, Inl e)
                         | (ctx, Inr data) \<Rightarrow> (ctx, Inr (0, data)))
                 else (ctx, Inr (blen, data))) of
             (ctx, Inl e) \<Rightarrow> (ctx, Inl e)
           | (ctx, Inr (blen, data)) \<Rightarrow>
               if 128 < blen + length data then (ctx, Inl Oob)
               else (ctx\<lparr>sha512_block := buf_write (sha512_block ctx) blen data,
                         sha512_blen := blen + length data\<rparr>, Inr 1)))"

definition spec_cx_sha512_final ::
  "cx_sha512 \<Rightarrow> bytes option \<Rightarrow> cx_sha512 \<times> (c_error + nat \<times> bytes option)" where
  "spec_cx_sha512_final ctx digest =
     (case digest of
        None \<Rightarrow> (ctx, Inr (0, None))
      | Some out \<Rightarrow>
         (if length (sha512_block ctx) \<le> sha512_blen ctx then (ctx, Inl Oob)
          else
            let blen = sha512_blen ctx;
                ctx = ctx\<lparr>sha512_block := (sha512_block ctx)[blen := 0x80]\<rparr>;
                blen = blen + 1;
                bitlen = ucast ((ucast (sha512_counter ctx) * 128 + of_nat blen - 1) * 8 :: u64) :: u32;
                (ctx, blen) =
                  (if 128 - blen < 16
                   then (cx_sha512_block (ctx\<lparr>sha512_block :=
                           buf_write (sha512_block ctx) blen (replicate (128 - blen) 0)\<rparr>), 0)
                   else (ctx, blen));
                ctx = ctx\<lparr>sha512_block := buf_write (sha512_block ctx) blen (replicate (128 - blen) 0)\<rparr>;
                ctx = ctx\<lparr>sha512_block := buf_write (sha512_block ctx) (128 - 8)
                         (le_of_u64 (spec_cx_swap_uint64 (ucast bitlen)))\<rparr>;
                ctx = cx_sha512_block ctx;
                ctx = ctx\<lparr>sha512_acc := spec_cx_swap_buffer64 (sha512_acc ctx) 8\<rparr>
            in (ctx, put_digest (take (if sha512_algo ctx = CX_SHA512 then 64 else 48)
                       (bytes64_le (sha512_acc ctx))) out)))"

definition cx_sha512_validate_context :: "cx_sha512 \<Rightarrow> bool" where
  "cx_sha512_validate_context ctx \<longleftrightarrow> sha512_blen ctx < 128"

definition spec_cx_hash_sha512 :: "bytes option \<Rightarrow> nat \<Rightarrow> bytes option \<Rightarrow> (nat \<times> bytes option) res" where
  "spec_cx_hash_sha512 data len out =
     (case spec_cx_sha512_update cx_sha512_init data len of
        (_, Inl e) \<Rightarrow> Inl e
      | (ctx, Inr _) \<Rightarrow>
          (case spec_cx_sha512_final ctx out of
             (_, Inl e) \<Rightarrow> Inl e
           | (_, Inr (_, out)) \<Rightarrow> Inr (64, out)))"

section \<open>The compression function of FIPS 180-4\<close>

definition fips512_Sigma0 :: "u64 \<Rightarrow> u64" where
  "fips512_Sigma0 x = word_rotr 28 x XOR word_rotr 34 x XOR word_rotr 39 x"
definition fips512_Sigma1 :: "u64 \<Rightarrow> u64" where
  "fips512_Sigma1 x = word_rotr 14 x XOR word_rotr 18 x XOR word_rotr 41 x"
definition fips512_sigma0 :: "u64 \<Rightarrow> u64" where
  "fips512_sigma0 x = word_rotr 1 x XOR word_rotr 8 x XOR drop_bit 7 x"
definition fips512_sigma1 :: "u64 \<Rightarrow> u64" where
  "fips512_sigma1 x = word_rotr 19 x XOR word_rotr 61 x XOR drop_bit 6 x"

fun sha512_W :: "u64 list \<Rightarrow> nat \<Rightarrow> u64" where
  "sha512_W M t =
     (if t < 16 then M ! t
      else fips512_sigma1 (sha512_W M (t - 2)) + sha512_W M (t - 7) +
           fips512_sigma0 (sha512_W M (t - 15)) + sha512_W M (t - 16))"

declare sha512_W.simps [simp del]

fun fips512_step :: "u64 \<Rightarrow> u64 \<Rightarrow> u64 list \<Rightarrow> u64 list" where
  "fips512_step Kt Wt [a, b, c, d, e, f, g, h] =
     (let T1 = h + fips512_Sigma1 e + fips_Ch e f g + Kt + Wt;
          T2 = fips512_Sigma0 a + fips_Maj a b c
      in [T1 + T2, a, b, c, d + T1, e, f, g])"
| "fips512_step Kt Wt xs = xs"

definition fips512_rounds :: "u64 list \<Rightarrow> nat \<Rightarrow> u64 list \<Rightarrow> u64 list" where
  "fips512_rounds M k H = foldl (\<lambda>s t. fips512_step (sha512_primeSqrt ! t) (sha512_W M t) s) H [0..<k]"

definition fips512_compress :: "u64 list \<Rightarrow> bytes \<Rightarrow> u64 list" where
  "fips512_compress H B = map2 (+) H (fips512_rounds (words64_be B) 80 H)"

text \<open>The digest; the standard's length field has 128 bits.\<close>

definition fips512_length :: "nat \<Rightarrow> bytes" where
  "fips512_length k = be_of_u64 (of_nat (k div 2 ^ 64)) @ be_of_u64 (of_nat k)"

definition fips512_digest :: "u64 list \<Rightarrow> nat \<Rightarrow> bytes \<Rightarrow> bytes" where
  "fips512_digest H0 sz m =
     take sz (bytes64_be (foldl fips512_compress H0
       (chunks 128 (md_pad 128 16 (fips512_length (8 * length m)) m))))"

section \<open>The compression function is the one of the standard\<close>

lemma sha512_functions:
  "sha512_ch x y z = fips_Ch x y z" "sha512_maj x y z = fips_Maj x y z"
  "sha512_sigma0 x = fips512_sigma0 x" "sha512_sigma1 x = fips512_sigma1 x"
  "sha512_sum0 x = fips512_Sigma0 x" "sha512_sum1 x = fips512_Sigma1 x"
  by (simp_all add: sha512_ch_def sha512_maj_def fips_Ch_def fips_Maj_def sha512_sigma0_def
      sha512_sigma1_def sha512_sum0_def sha512_sum1_def sig512_def sum512_def cx_rot_simps cx_shr64_def
      fips512_sigma0_def fips512_sigma1_def fips512_Sigma0_def fips512_Sigma1_def)

interpretation sched512: sha2_schedule fips512_sigma0 fips512_sigma1 sha512_W
  by unfold_locales (rule sha512_W.simps)

lemma fips512_step_length [simp]: "length (fips512_step k w s) = length s"
  by (cases "(k, w, s)" rule: fips512_step.cases) (simp_all add: Let_def)

lemma fips512_rounds_simps [simp]:
  "fips512_rounds M 0 H = H"
  "fips512_rounds M (Suc k) H = fips512_step (sha512_primeSqrt ! k) (sha512_W M k) (fips512_rounds M k H)"
  by (simp_all add: fips512_rounds_def)

lemma fips512_rounds_length [simp]: "length (fips512_rounds M k H) = length H"
  by (induction k) simp_all

lemma fips512_compress_length [simp]: "length (fips512_compress H b) = length H"
  by (simp add: fips512_compress_def)

lemma sha512_round_step:
  assumes "length ACC = 8" and "sched512.window M j X"
  shows "sha512_round (X, ACC) j =
    (sched512.slide X j, fips512_step (sha512_primeSqrt ! j) (sha512_W M j) ACC)"
  using assms(1)
proof (rule length_8E)
  fix a b c d e f g h assume ACC: "ACC = [a, b, c, d, e, f, g, h]"
  show ?thesis
    using sched512.window_slide(2) [OF assms(2)]
    unfolding ACC sha512_round_def sched512.slide_def
    by (cases "16 \<le> j") (simp_all add: Let_def sha512_functions)
qed

lemma sha512_rounds:
  assumes "length M = 16" and "length H = 8"
  shows "\<exists>X. foldl sha512_round (M, H) [0..<k] = (X, fips512_rounds M k H) \<and> sched512.window M k X"
proof (induction k)
  case 0
  then show ?case using assms sched512.window_init by simp
next
  case (Suc k)
  then obtain X where X: "foldl sha512_round (M, H) [0..<k] = (X, fips512_rounds M k H)" "sched512.window M k X"
    by blast
  then show ?case
    using sha512_round_step [OF _ X(2), of "fips512_rounds M k H"] sched512.window_slide(1) [OF X(2)] assms(2)
    by simp
qed

lemma sha512_block_step:
  assumes "length (sha512_block c) = 128" and "length (sha512_acc c) = 8"
  shows "\<exists>X. length X = 16 \<and> cx_sha512_block c =
    c\<lparr>sha512_block := bytes64_le X, sha512_acc := fips512_compress (sha512_acc c) (sha512_block c)\<rparr>"
proof -
  let ?M = "words64_be (sha512_block c)"
  have M: "spec_cx_swap_buffer64 (words64_le (sha512_block c)) 16 = ?M"
    using assms(1) by (simp add: swap_buffer64_map map_swap_words64)
  have "length ?M = 16" using assms(1) by simp
  from sha512_rounds [OF this assms(2), of 80] obtain X where
    "foldl sha512_round (?M, sha512_acc c) [0..<80] = (X, fips512_rounds ?M 80 (sha512_acc c))"
      "sched512.window ?M 80 X"
    by blast
  then show ?thesis
    by (intro exI [of _ X])
      (simp add: cx_sha512_block_def M fips512_compress_def sched512.window_def Let_def del: upt_rec_numeral)
qed

section \<open>Buffering\<close>

definition sha512_wf :: "cx_sha512 \<Rightarrow> bool" where
  "sha512_wf c \<longleftrightarrow> length (sha512_block c) = 128 \<and> length (sha512_acc c) = 8"

type_synonym chain512 = "u64 list \<times> u32 \<times> cx_md"

definition sha512_st :: "cx_sha512 \<Rightarrow> chain512" where
  "sha512_st c = (sha512_acc c, sha512_counter c, sha512_algo c)"

definition sha512_compress :: "chain512 \<Rightarrow> bytes \<Rightarrow> chain512" where
  "sha512_compress s b = (fips512_compress (fst s) b, fst (snd s) + 1, snd (snd s))"

definition sha512_room :: "chain512 \<Rightarrow> bool" where
  "sha512_room s \<longleftrightarrow> fst (snd s) \<noteq> of_nat CX_HASH_MAX_BLOCK_COUNT"

definition sha512_finish :: "cx_sha512 \<Rightarrow> nat \<Rightarrow> bytes \<Rightarrow> cx_sha512" where
  "sha512_finish c b x = c\<lparr>sha512_block := buf_write (sha512_block c) b x, sha512_blen := b + length x\<rparr>"

lemma sha512_absorb_step:
  assumes "sha512_wf c" and "b + length x = 128"
  shows "sha512_wf (sha512_absorb c b x) \<and>
    sha512_st (sha512_absorb c b x) = sha512_compress (sha512_st c) (take b (sha512_block c) @ x)"
proof -
  let ?c = "c\<lparr>sha512_block := buf_write (sha512_block c) b x\<rparr>"
  have blk: "buf_write (sha512_block c) b x = take b (sha512_block c) @ x"
    using assms by (simp add: buf_write_def sha512_wf_def)
  have "length (sha512_block ?c) = 128" "length (sha512_acc ?c) = 8"
    using assms by (simp_all add: sha512_wf_def)
  from sha512_block_step [OF this] blk assms show ?thesis
    by (auto simp: sha512_absorb_def sha512_wf_def sha512_st_def sha512_compress_def Let_def)
qed

lemma sha512_loop_rest:
  "sha512_update_loop c b r d = (c', Inr d') \<Longrightarrow> length d' < 128"
proof (induction c b r d rule: sha512_update_loop.induct)
  case (1 ctx blen r data)
  from 1(2) show ?case
    by (subst (asm) sha512_update_loop.simps) (use 1(1) in \<open>auto simp: Let_def split: if_splits\<close>)
qed

lemma sha512_init_wf: "sha512_wf cx_sha512_init" "sha512_wf cx_sha384_init"
  by (simp_all add: sha512_wf_def cx_sha512_init_def cx_sha384_init_def hzero_512_def hzero_384_def)

lemma sha512_stream:
  assumes "c0 = cx_sha512_init \<or> c0 = cx_sha384_init"
  shows "counted_stream 128 (\<lambda>c. c\<lparr>sha512_blen := 0\<rparr>) sha512_absorb sha512_finish
    sha512_room INVALID_PARAMETER sha512_update_loop sha512_blen sha512_block sha512_st sha512_wf
    sha512_compress (\<lambda>c d. spec_cx_sha512_update c (Some d) (length d)) fips512_compress c0"
proof unfold_locales
  fix c b r d
  show "sha512_update_loop c b r d =
    (if \<not> sha512_room (sha512_st c) then (c, Inl (Throw INVALID_PARAMETER))
     else if 128 \<le> length (drop r d)
       then sha512_update_loop (sha512_absorb c b (take r d)) 0 128 (drop r d)
       else (sha512_absorb c b (take r d), Inr (drop r d)))"
    by (subst sha512_update_loop.simps) (simp add: Let_def sha512_room_def sha512_st_def)
next
  fix c :: cx_sha512 and d :: bytes assume c: "sha512_blen c < 128" "sha512_blen c + length d < 2 ^ 32"
  then show "spec_cx_sha512_update c (Some d) (length d) =
    (if 128 \<le> sha512_blen c + length d
     then (case sha512_update_loop (c\<lparr>sha512_blen := 0\<rparr>) (sha512_blen c) (128 - sha512_blen c) d of
            (c', Inl e) \<Rightarrow> (c', Inl e) | (c', Inr d') \<Rightarrow> (sha512_finish c' 0 d', Inr 1))
     else (sha512_finish (c\<lparr>sha512_blen := 0\<rparr>) (sha512_blen c) d, Inr 1))"
    by (auto simp: spec_cx_sha512_update_def sha512_finish_def Let_def split: sum.splits prod.splits
        dest: sha512_loop_rest)
next
  show "sha512_wf c0" "sha512_blen c0 = 0" "fst (snd (sha512_st c0)) = 0"
    using assms sha512_init_wf by (auto simp: sha512_st_def cx_sha512_init_def cx_sha384_init_def)
qed (simp_all add: sha512_absorb_step,
    auto simp: sha512_wf_def sha512_st_def sha512_finish_def sha512_compress_def sha512_room_def)

interpretation sha512: counted_stream 128 "\<lambda>c. c\<lparr>sha512_blen := 0\<rparr>" sha512_absorb sha512_finish
  sha512_room INVALID_PARAMETER sha512_update_loop sha512_blen sha512_block sha512_st sha512_wf
  sha512_compress "\<lambda>c d. spec_cx_sha512_update c (Some d) (length d)" fips512_compress cx_sha512_init
  by (rule sha512_stream) simp

interpretation sha384: counted_stream 128 "\<lambda>c. c\<lparr>sha512_blen := 0\<rparr>" sha512_absorb sha512_finish
  sha512_room INVALID_PARAMETER sha512_update_loop sha512_blen sha512_block sha512_st sha512_wf
  sha512_compress "\<lambda>c d. spec_cx_sha512_update c (Some d) (length d)" fips512_compress cx_sha384_init
  by (rule sha512_stream) simp

section \<open>The digest\<close>

lemma sha512_block_simps:
  "sha512_algo (cx_sha512_block c) = sha512_algo c"
  "length (sha512_block c) = 128 \<Longrightarrow> length (sha512_acc c) = 8 \<Longrightarrow>
     sha512_acc (cx_sha512_block c) = fips512_compress (sha512_acc c) (sha512_block c)"
  "length (sha512_block c) = 128 \<Longrightarrow> length (sha512_acc c) = 8 \<Longrightarrow>
     length (sha512_block (cx_sha512_block c)) = 128"
proof -
  show "sha512_algo (cx_sha512_block c) = sha512_algo c"
    by (simp add: cx_sha512_block_def Let_def split: prod.splits)
qed (use sha512_block_step [of c] in auto)

text \<open>The eight bytes written by the code complete the zeros before them to the length field.\<close>

definition sha512_tail :: "u32 \<Rightarrow> bytes" where
  "sha512_tail n = replicate 8 0 @ be_of_u64 (ucast n)"

lemma length_sha512_tail [simp]: "length (sha512_tail n) = 16"
  by (simp add: sha512_tail_def)

lemma replicate_tail: "i = j + 8 \<Longrightarrow> replicate i 0 @ be_of_u64 (ucast n) = replicate j 0 @ sha512_tail n"
  by (simp add: sha512_tail_def replicate_add)

lemma sha512_final_blocks:
  assumes "sha512_wf c" and "sha512_blen c < 128"
  shows "snd (spec_cx_sha512_final c (Some out)) =
    put_digest (take (if sha512_algo c = CX_SHA512 then 64 else 48)
      (bytes64_be (foldl fips512_compress (sha512_acc c)
        (md_last 128 16 (sha512_tail (ucast ((ucast (sha512_counter c) * 128 + of_nat (sha512_blen c)) * 8 :: u64)))
          (take (sha512_blen c) (sha512_block c)))))) out"
proof -
  let ?p = "take (sha512_blen c) (sha512_block c)" and ?b = "sha512_blen c"
  have len: "length (sha512_block c) = 128" "length (sha512_acc c) = 8" "length ?p = ?b"
    using assms by (simp_all add: sha512_wf_def)
  have swap: "bytes64_le (spec_cx_swap_buffer64 acc 8) = bytes64_be acc" if "length acc = 8" for acc
    using that by (simp add: swap_buffer64_map bytes_swap_words64)
  have fill: "buf_write ((sha512_block c)[?b := 0x80]) (Suc ?b) (replicate (127 - ?b) 0) =
      ?p @ 0x80 # replicate (127 - ?b) 0"
    using md_write_mark [OF len(1) assms(2)] by simp
  note final = spec_cx_sha512_final_def Let_def sha512_block_simps swap fill le_swap_uint64
  show ?thesis
  proof (cases "?b + 1 + 16 \<le> 128")
    case True
    then have "buf_write (?p @ 0x80 # replicate (127 - ?b) 0) 120 (be_of_u64 (ucast v)) =
        ?p @ 0x80 # replicate (111 - ?b) 0 @ sha512_tail v" for v
      using md_write_length [OF len(3), of 8 128 "be_of_u64 (ucast v)"] replicate_tail [of "119 - ?b" "111 - ?b" v]
      by simp
    moreover have "\<not> 127 - ?b < 16" using True by linarith
    ultimately show ?thesis using True assms(2) len by (simp add: final md_last_def)
  next
    case False
    then have "127 - ?b < 16" by linarith
    moreover have "buf_write (buf_write b 0 (replicate 128 0)) 120 (be_of_u64 (ucast v)) = replicate 112 0 @ sha512_tail v"
      if "length b = 128" for b v
      using md_write_zeros [OF that, of 8 "be_of_u64 (ucast v)"] replicate_tail [of 120 112 v] by simp
    ultimately show ?thesis
      using False assms(2) len by (simp add: final md_last_def)
  qed
qed

lemma be_of_u64_0: "be_of_u64 0 = replicate 8 0"
  by (simp add: be_of_u64_def be_of_u32_def numeral_eq_Suc)

text \<open>What the final call makes of a context that has absorbed a message.\<close>

lemma sha512_final_digest:
  assumes wf: "sha512_wf c" "sha512_blen c < 128"
    and st: "sha512_st c = (foldl fips512_compress H0 (chunks 128 m), of_nat (length m div 128), alg)"
    and rest: "take (sha512_blen c) (sha512_block c) = chunk_rest 128 m"
    and b: "sha512_blen c = length m mod 128" and m: "length m < 2 ^ 23"
  shows "snd (spec_cx_sha512_final c (Some out)) =
    put_digest (fips512_digest H0 (if alg = CX_SHA512 then 64 else 48) m) out"
proof -
  have "length m < 2 ^ 32" using m by simp
  from bit_length_blocks [OF this, of 128]
  have "(ucast (sha512_counter c) * 128 + of_nat (sha512_blen c)) * 8 = (of_nat (8 * length m) :: u64)"
    using st b by (simp add: sha512_st_def length_chunks length_chunk_rest)
  moreover have "(ucast (ucast (of_nat (8 * length m) :: u64) :: u32) :: u64) = of_nat (8 * length m)"
    using m by (simp add: ucast_of_nat_narrow ucast_of_nat_small del: of_nat_mult)
  then have "sha512_tail (ucast (of_nat (8 * length m) :: u64)) = fips512_length (8 * length m)"
    using m by (simp add: sha512_tail_def fips512_length_def be_of_u64_0 del: of_nat_mult)
  moreover have "foldl fips512_compress H0 (chunks 128 (md_pad 128 16 (fips512_length (8 * length m)) m)) =
      foldl fips512_compress (sha512_acc c)
        (md_last 128 16 (fips512_length (8 * length m)) (take (sha512_blen c) (sha512_block c)))"
    using st by (subst chunks_md_pad) (simp_all add: rest sha512_st_def fips512_length_def)
  ultimately show ?thesis
    using sha512_final_blocks [OF wf, of out] st by (simp add: fips512_digest_def sha512_st_def)
qed

lemma fips512_digest_length:
  assumes "length H0 = 8" and "sz \<le> 64"
  shows "length (fips512_digest H0 sz m) = sz"
proof -
  have "length (foldl fips512_compress H0 bs) = 8" for bs
    using assms(1) by (induction bs rule: rev_induct) simp_all
  then show ?thesis using assms(2) by (simp add: fips512_digest_def)
qed

interpretation hash512: hash_function cx_sha512_init spec_cx_sha512_update spec_cx_sha512_final
  cx_sha512_validate_context sha512.absorbed "fips512_digest hzero_512 64" 64 "2 ^ 23"
proof unfold_locales
  show "length (fips512_digest hzero_512 64 m) = 64" for m
    by (rule fips512_digest_length) (simp_all add: hzero_512_def)
  show "snd (spec_cx_sha512_final c (Some out)) = put_digest (fips512_digest hzero_512 64 m) out"
    if "sha512.absorbed c m" for c m out
    using sha512_final_digest [OF sha512.absorbed_wf(1,2) [OF that] sha512.absorbedD(1-3) [OF that]]
      sha512.absorbed_wf(3) [OF that]
    by (simp add: sha512_st_def cx_sha512_init_def)
qed (use sha512.absorbed_init sha512.absorbed_update in
    \<open>auto simp: sha512.absorbed_def cx_sha512_validate_context_def\<close>)

interpretation hash384: hash_function cx_sha384_init spec_cx_sha512_update spec_cx_sha512_final
  cx_sha512_validate_context sha384.absorbed "fips512_digest hzero_384 48" 48 "2 ^ 23"
proof unfold_locales
  show "length (fips512_digest hzero_384 48 m) = 48" for m
    by (rule fips512_digest_length) (simp_all add: hzero_384_def)
  show "snd (spec_cx_sha512_final c (Some out)) = put_digest (fips512_digest hzero_384 48 m) out"
    if "sha384.absorbed c m" for c m out
    using sha512_final_digest [OF sha384.absorbed_wf(1,2) [OF that] sha384.absorbedD(1-3) [OF that]]
      sha384.absorbed_wf(3) [OF that]
    by (simp add: sha512_st_def cx_sha384_init_def)
qed (use sha384.absorbed_init sha384.absorbed_update in
    \<open>auto simp: sha384.absorbed_def cx_sha512_validate_context_def\<close>)

text \<open>
  For every message of less than 65536 blocks, \<open>spec_cx_hash_sha512\<close> returns 64
  and puts the FIPS 180-4 SHA-512 digest of the message, with its 128-bit length field, at the
  start of the output buffer, leaving the rest of the buffer alone.
\<close>

theorem spec_cx_hash_sha512_fips:
  assumes "length m < 2 ^ 23" and "64 \<le> length out"
  shows "spec_cx_hash_sha512 (Some m) (length m) (Some out) =
    Inr (64, Some (fips512_digest hzero_512 64 m @ drop 64 out))"
proof -
  obtain c where c: "spec_cx_sha512_update cx_sha512_init (Some m) (length m) = (c, Inr 1)"
      "sha512.absorbed c m"
    using hash512.update_absorbed [OF hash512.init_absorbed, of m] assms(1) by auto
  obtain c' where "spec_cx_sha512_final c (Some out) =
      (c', Inr (1, Some (fips512_digest hzero_512 64 m @ drop 64 out)))"
    using hash512.final_digest [OF c(2), of out] assms(2)
    by (cases "spec_cx_sha512_final c (Some out)") (auto simp: put_digest_fits hash512.digest_length)
  then show ?thesis using c(1) by (simp add: spec_cx_hash_sha512_def)
qed

theorem spec_cx_hash_sha512_fips_witness:
  "\<exists>d. length d = 64 \<and>
     spec_cx_hash_sha512 (Some [97, 98, 99]) (length [97, 98, 99 :: u8]) (Some (replicate 64 0)) =
       Inr (64, Some d)"
  using spec_cx_hash_sha512_fips [of "[97, 98, 99]" "replicate 64 0"] hash512.digest_length
  by (intro exI [of _ "fips512_digest hzero_512 64 [97, 98, 99]"]) simp

text \<open>
  A SHA-512 context that has counted 65535 blocks throws \<open>INVALID_PARAMETER\<close> as
  soon as another block is full, and the pending bytes are forgotten.
\<close>

theorem sha512_too_long:
  assumes "sha512_wf c" and "sha512_blen c < 128" and "128 \<le> sha512_blen c + length d"
    and "sha512_blen c + length d < 2 ^ 32" and "sha512_counter c = 65535"
  shows "spec_cx_sha512_update c (Some d) (length d) =
    (c\<lparr>sha512_blen := 0\<rparr>, Inl (Throw INVALID_PARAMETER))"
  by (rule sha512.no_room) (use assms in \<open>simp_all add: sha512_st_def\<close>)

theorem sha512_too_long_witness:
  "spec_cx_sha512_update (cx_sha512_init\<lparr>sha512_counter := 65535\<rparr>) (Some (replicate 128 0)) 128 =
    (cx_sha512_init\<lparr>sha512_counter := 65535, sha512_blen := 0\<rparr>, Inl (Throw INVALID_PARAMETER))"
  using sha512_too_long [of "cx_sha512_init\<lparr>sha512_counter := 65535\<rparr>" "replicate 128 0"] sha512_init_wf(1)
  by (simp add: sha512_wf_def cx_sha512_init_def)

end
