(* ===== verification/Cx_Ripemd160.thy ===== *)
theory Cx_Ripemd160
  imports Counted_Stream
begin

text \<open>
  \<open>src/bolos/cx_ripemd160.c\<close>. The reference is the definition of RIPEMD-160 by its two
  independent lines, with the message selection generated by the permutations \<open>\<rho>\<close> and \<open>\<pi>\<close> and
  the rotations given per round and message word; the code runs both lines in one loop over
  flat tables.
\<close>

section \<open>The context and the compression function\<close>

record cx_ripemd160 =
  rmd_algo :: cx_md
  rmd_counter :: u32
  rmd_blen :: nat
  rmd_block :: bytes
  rmd_acc :: "u32 list"

definition rmd_zL :: "nat list" where
  "rmd_zL = concat [
     [0, 1, 2, 3, 4, 5, 6, 7, 8, 9, 10, 11, 12, 13, 14, 15],
     [7, 4, 13, 1, 10, 6, 15, 3, 12, 0, 9, 5, 2, 14, 11, 8],
     [3, 10, 14, 4, 9, 15, 8, 1, 2, 7, 0, 6, 13, 11, 5, 12],
     [1, 9, 11, 10, 0, 8, 12, 4, 13, 3, 7, 15, 14, 5, 6, 2],
     [4, 0, 5, 9, 7, 12, 2, 10, 14, 1, 3, 8, 11, 6, 15, 13]]"

definition rmd_zR :: "nat list" where
  "rmd_zR = concat [
     [5, 14, 7, 0, 9, 2, 11, 4, 13, 6, 15, 8, 1, 10, 3, 12],
     [6, 11, 3, 7, 0, 13, 5, 10, 14, 15, 8, 12, 4, 9, 1, 2],
     [15, 5, 1, 3, 7, 14, 6, 9, 11, 8, 12, 2, 10, 0, 4, 13],
     [8, 6, 4, 1, 3, 11, 15, 0, 5, 12, 2, 13, 9, 7, 10, 14],
     [12, 15, 10, 4, 1, 5, 8, 7, 6, 2, 13, 14, 0, 3, 9, 11]]"

definition rmd_sL :: "nat list" where
  "rmd_sL = concat [
     [11, 14, 15, 12, 5, 8, 7, 9, 11, 13, 14, 15, 6, 7, 9, 8],
     [7, 6, 8, 13, 11, 9, 7, 15, 7, 12, 15, 9, 11, 7, 13, 12],
     [11, 13, 6, 7, 14, 9, 13, 15, 14, 8, 13, 6, 5, 12, 7, 5],
     [11, 12, 14, 15, 14, 15, 9, 8, 9, 14, 5, 6, 8, 6, 5, 12],
     [9, 15, 5, 11, 6, 8, 13, 12, 5, 12, 13, 14, 11, 8, 5, 6]]"

definition rmd_sR :: "nat list" where
  "rmd_sR = concat [
     [8, 9, 9, 11, 13, 15, 15, 5, 7, 7, 8, 11, 14, 14, 12, 6],
     [9, 13, 15, 7, 12, 8, 9, 11, 7, 7, 12, 7, 6, 15, 13, 11],
     [9, 7, 15, 11, 8, 6, 6, 14, 12, 13, 5, 14, 13, 13, 7, 5],
     [15, 5, 8, 11, 14, 14, 6, 14, 6, 9, 12, 9, 12, 5, 15, 8],
     [8, 5, 12, 9, 12, 5, 14, 6, 8, 13, 6, 5, 15, 13, 11, 11]]"

definition rmd_hzero :: "u32 list" where
  "rmd_hzero = [0x67452301, 0xEFCDAB89, 0x98BADCFE, 0x10325476, 0xC3D2E1F0]"

text \<open>The functions \<open>f1\<close> to \<open>f5\<close>, on the address of the second of the working variables.\<close>

definition rmd_f1 :: "u32 list \<Rightarrow> u32" where "rmd_f1 BCD = BCD ! 0 XOR BCD ! 1 XOR BCD ! 2"
definition rmd_f2 :: "u32 list \<Rightarrow> u32" where "rmd_f2 BCD = (BCD ! 0 AND BCD ! 1) OR (NOT (BCD ! 0) AND BCD ! 2)"
definition rmd_f3 :: "u32 list \<Rightarrow> u32" where "rmd_f3 BCD = (BCD ! 0 OR NOT (BCD ! 1)) XOR BCD ! 2"
definition rmd_f4 :: "u32 list \<Rightarrow> u32" where "rmd_f4 BCD = (BCD ! 0 AND BCD ! 2) OR (BCD ! 1 AND NOT (BCD ! 2))"
definition rmd_f5 :: "u32 list \<Rightarrow> u32" where "rmd_f5 BCD = BCD ! 0 XOR (BCD ! 1 OR NOT (BCD ! 2))"

definition cx_ripemd160_init :: cx_ripemd160 where
  "cx_ripemd160_init = \<lparr>rmd_algo = CX_RIPEMD160, rmd_counter = 0, rmd_blen = 0,
     rmd_block = replicate 64 0, rmd_acc = rmd_hzero\<rparr>"

text \<open>The \<open>switch\<close> on \<open>j >> 4\<close>: what is added to \<open>Tl\<close> and \<open>Tr\<close>.\<close>

definition rmd_switch :: "nat \<Rightarrow> u32 list \<Rightarrow> u32 list \<Rightarrow> u32 \<times> u32" where
  "rmd_switch k Bl Br =
     (if k = 0 then (rmd_f1 Bl + 0x00000000, rmd_f5 Br + 0x50A28BE6)
      else if k = 1 then (rmd_f2 Bl + 0x5A827999, rmd_f4 Br + 0x5C4DD124)
      else if k = 2 then (rmd_f3 Bl + 0x6ED9EBA1, rmd_f3 Br + 0x6D703EF3)
      else if k = 3 then (rmd_f4 Bl + 0x8F1BBCDC, rmd_f2 Br + 0x7A6D76E9)
      else if k = 4 then (rmd_f5 Bl + 0xA953FD4E, rmd_f1 Br + 0x00000000)
      else (0, 0))"

text \<open>The end of a round for one line: rotate, add \<open>E\<close>, and shift the variables.\<close>

definition rmd_shift :: "u32 \<Rightarrow> nat \<Rightarrow> u32 list \<Rightarrow> u32 list" where
  "rmd_shift T s ACC = [ACC ! 4, cx_rotl T s + ACC ! 4, ACC ! 1, cx_rotl (ACC ! 2) 10, ACC ! 3]"

definition rmd_round :: "u32 list \<Rightarrow> u32 list \<times> u32 list \<Rightarrow> nat \<Rightarrow> u32 list \<times> u32 list" where
  "rmd_round X LR j =
     (let (ACCl, ACCr) = LR;
          Tl = ACCl ! 0 + X ! (rmd_zL ! j);
          Tr = ACCr ! 0 + X ! (rmd_zR ! j);
          (dl, dr) = rmd_switch (j div 16) (drop 1 ACCl) (drop 1 ACCr)
      in (rmd_shift (Tl + dl) (rmd_sL ! j) ACCl, rmd_shift (Tr + dr) (rmd_sR ! j) ACCr))"

definition cx_ripemd160_block :: "cx_ripemd160 \<Rightarrow> cx_ripemd160" where
  "cx_ripemd160_block hash =
     (let X = words32_le (rmd_block hash);
          a = rmd_acc hash;
          (l, r) = foldl (rmd_round X) (a, a) [0..<80]
      in hash\<lparr>rmd_acc := [a ! 1 + l ! 2 + r ! 3, a ! 2 + l ! 3 + r ! 4, a ! 3 + l ! 4 + r ! 0,
                          a ! 4 + l ! 0 + r ! 1, a ! 0 + l ! 1 + r ! 2]\<rparr>)"

definition rmd_absorb :: "cx_ripemd160 \<Rightarrow> nat \<Rightarrow> bytes \<Rightarrow> cx_ripemd160" where
  "rmd_absorb ctx blen d =
     (let ctx = cx_ripemd160_block (ctx\<lparr>rmd_block := buf_write (rmd_block ctx) blen d\<rparr>)
      in ctx\<lparr>rmd_counter := rmd_counter ctx + 1\<rparr>)"

function rmd_update_loop ::
  "cx_ripemd160 \<Rightarrow> nat \<Rightarrow> nat \<Rightarrow> bytes \<Rightarrow> cx_ripemd160 \<times> (c_error + bytes)" where
  "rmd_update_loop ctx blen r data =
     (if rmd_counter ctx = of_nat CX_HASH_MAX_BLOCK_COUNT then (ctx, Inl (Throw INVALID_PARAMETER))
      else
        let ctx = rmd_absorb ctx blen (take r data); data = drop r data
        in if 64 \<le> length data then rmd_update_loop ctx 0 64 data else (ctx, Inr data))"
  by pat_completeness auto
termination
  by (relation "measure (\<lambda>(ctx, blen, r, data). 2 * length data + (if r = 0 then 1 else 0))") auto

declare rmd_update_loop.simps [simp del]

definition spec_cx_ripemd160_update ::
  "cx_ripemd160 \<Rightarrow> bytes option \<Rightarrow> nat \<Rightarrow> cx_ripemd160 \<times> (c_error + nat)" where
  "spec_cx_ripemd160_update ctx data len =
     (if data = None \<and> len \<noteq> 0 then (ctx, Inr 0)
      else case mem_arg data len of
        Inl e \<Rightarrow> (ctx, Inl e)
      | Inr data \<Rightarrow>
          (let blen = rmd_blen ctx; ctx = ctx\<lparr>rmd_blen := 0\<rparr> in
           if 64 \<le> blen then (ctx, Inr 0)
           else
             case (if 64 \<le> (blen + len) mod 2 ^ 32
                   then (case rmd_update_loop ctx blen (64 - blen) data of
                           (ctx, Inl e) \<Rightarrow> (ctx, Inl e)
                         | (ctx, Inr data) \<Rightarrow> (ctx, Inr (0, data)))
                   else (ctx, Inr (blen, data))) of
               (ctx, Inl e) \<Rightarrow> (ctx, Inl e)
             | (ctx, Inr (blen, data)) \<Rightarrow>
                 if 64 < blen + length data then (ctx, Inl Oob)
                 else (ctx\<lparr>rmd_block := buf_write (rmd_block ctx) blen data,
                           rmd_blen := blen + length data\<rparr>, Inr 1)))"

definition spec_cx_ripemd160_final ::
  "cx_ripemd160 \<Rightarrow> bytes option \<Rightarrow> cx_ripemd160 \<times> (c_error + nat \<times> bytes option)" where
  "spec_cx_ripemd160_final ctx digest =
     (case digest of
        None \<Rightarrow> (ctx, Inr (0, None))
      | Some out \<Rightarrow>
         (if length (rmd_block ctx) \<le> rmd_blen ctx then (ctx, Inl Oob)
          else
            let blen = rmd_blen ctx;
                ctx = ctx\<lparr>rmd_block := (rmd_block ctx)[blen := 0x80]\<rparr>;
                blen = blen + 1;
                bitlen = (rmd_counter ctx * 64 + of_nat blen - 1) * 8 :: u32;
                (ctx, blen) =
                  (if 64 - blen < 8
                   then (cx_ripemd160_block (ctx\<lparr>rmd_block :=
                           buf_write (rmd_block ctx) blen (replicate (64 - blen) 0)\<rparr>), 0)
                   else (ctx, blen));
                ctx = ctx\<lparr>rmd_block := buf_write (rmd_block ctx) blen (replicate (64 - blen) 0)\<rparr>;
                ctx = ctx\<lparr>rmd_block := buf_write (rmd_block ctx) (64 - 8) (le_of_u64 (ucast bitlen))\<rparr>;
                ctx = cx_ripemd160_block ctx
            in (ctx, put_digest (bytes32_le (rmd_acc ctx)) out)))"

definition cx_ripemd160_validate_context :: "cx_ripemd160 \<Rightarrow> bool" where
  "cx_ripemd160_validate_context ctx \<longleftrightarrow> rmd_blen ctx < 64"

definition sys_cx_hash_ripemd160 ::
  "bytes option \<Rightarrow> nat \<Rightarrow> bytes option \<Rightarrow> nat \<Rightarrow> (nat \<times> bytes option) res" where
  "sys_cx_hash_ripemd160 data len out out_len =
     (if out_len < 20 then Inr (0, out)
      else case spec_cx_ripemd160_update cx_ripemd160_init data len of
        (_, Inl e) \<Rightarrow> Inl e
      | (ctx, Inr _) \<Rightarrow>
          (case spec_cx_ripemd160_final ctx out of
             (_, Inl e) \<Rightarrow> Inl e
           | (_, Inr (_, out)) \<Rightarrow> Inr (20, out)))"

section \<open>The definition of RIPEMD-160\<close>

definition ripemd_rho :: "nat \<Rightarrow> nat" where
  "ripemd_rho i = [7, 4, 13, 1, 10, 6, 15, 3, 12, 0, 9, 5, 2, 14, 11, 8] ! i"

definition ripemd_pi :: "nat \<Rightarrow> nat" where
  "ripemd_pi i = (9 * i + 5) mod 16"

definition ripemd_r :: "nat \<Rightarrow> nat" where
  "ripemd_r j = (ripemd_rho ^^ (j div 16)) (j mod 16)"

definition ripemd_r' :: "nat \<Rightarrow> nat" where
  "ripemd_r' j = (ripemd_rho ^^ (j div 16)) (ripemd_pi (j mod 16))"

text \<open>The rotation of each message word in each round, the same for both lines.\<close>

definition ripemd_rotations :: "nat list list" where
  "ripemd_rotations = [
     [11, 14, 15, 12, 5, 8, 7, 9, 11, 13, 14, 15, 6, 7, 9, 8],
     [12, 13, 11, 15, 6, 9, 9, 7, 12, 15, 11, 13, 7, 8, 7, 7],
     [13, 15, 14, 11, 7, 7, 6, 8, 13, 14, 13, 12, 5, 5, 6, 9],
     [14, 11, 12, 14, 8, 6, 5, 5, 15, 12, 15, 14, 9, 9, 8, 6],
     [15, 12, 13, 13, 9, 5, 8, 6, 14, 11, 12, 11, 8, 6, 5, 5]]"

definition ripemd_f :: "nat \<Rightarrow> u32 \<Rightarrow> u32 \<Rightarrow> u32 \<Rightarrow> u32" where
  "ripemd_f k x y z =
     [x XOR y XOR z, (x AND y) OR (NOT x AND z), (x OR NOT y) XOR z,
      (x AND z) OR (y AND NOT z), x XOR (y OR NOT z)] ! k"

definition ripemd_K :: "u32 list" where
  "ripemd_K = [0, 0x5A827999, 0x6ED9EBA1, 0x8F1BBCDC, 0xA953FD4E]"

definition ripemd_K' :: "u32 list" where
  "ripemd_K' = [0x50A28BE6, 0x5C4DD124, 0x6D703EF3, 0x7A6D76E9, 0]"

fun ripemd_step :: "u32 \<Rightarrow> nat \<Rightarrow> nat \<Rightarrow> u32 list \<Rightarrow> u32 list" where
  "ripemd_step w s k [A, B, C, D, E] =
     [E, word_rotl s (A + ripemd_f k B C D + w) + E, B, word_rotl 10 C, D]"
| "ripemd_step w s k xs = xs"

definition ripemd_left :: "u32 list \<Rightarrow> u32 list \<Rightarrow> nat \<Rightarrow> u32 list" where
  "ripemd_left X h n = foldl (\<lambda>h j. ripemd_step (X ! ripemd_r j + ripemd_K ! (j div 16))
     (ripemd_rotations ! (j div 16) ! ripemd_r j) (j div 16) h) h [0..<n]"

definition ripemd_right :: "u32 list \<Rightarrow> u32 list \<Rightarrow> nat \<Rightarrow> u32 list" where
  "ripemd_right X h n = foldl (\<lambda>h j. ripemd_step (X ! ripemd_r' j + ripemd_K' ! (j div 16))
     (ripemd_rotations ! (j div 16) ! ripemd_r' j) (4 - j div 16) h) h [0..<n]"

definition ripemd160_compress :: "u32 list \<Rightarrow> bytes \<Rightarrow> u32 list" where
  "ripemd160_compress h B =
     (let X = words32_le B; l = ripemd_left X h 80; r = ripemd_right X h 80
      in map (\<lambda>i. h ! ((i + 1) mod 5) + l ! ((i + 2) mod 5) + r ! ((i + 3) mod 5)) [0..<5])"

definition ripemd160_digest :: "bytes \<Rightarrow> bytes" where
  "ripemd160_digest m =
     bytes32_le (foldl ripemd160_compress rmd_hzero
       (chunks 64 (md_pad 64 8 (le_of_u64 (of_nat (8 * length m))) m)))"

section \<open>The tables and the compression function\<close>

lemma funpow_small:
  "(f ^^ 2) x = f (f x)" "(f ^^ 3) x = f (f (f x))" "(f ^^ 4) x = f (f (f (f x)))"
  by (simp_all add: numeral_eq_Suc)

lemma rmd_tables_map:
  "map ripemd_r [0..<80] = rmd_zL" "map ripemd_r' [0..<80] = rmd_zR"
  "map (\<lambda>j. ripemd_rotations ! (j div 16) ! ripemd_r j) [0..<80] = rmd_sL"
  "map (\<lambda>j. ripemd_rotations ! (j div 16) ! ripemd_r' j) [0..<80] = rmd_sR"
  by (simp_all add: ripemd_r_def ripemd_r'_def ripemd_rho_def ripemd_pi_def ripemd_rotations_def
    rmd_zL_def rmd_zR_def rmd_sL_def rmd_sR_def funpow_small upt_conv_Cons)

lemma rmd_tables:
  assumes "j < 80"
  shows "rmd_zL ! j = ripemd_r j" "rmd_zR ! j = ripemd_r' j"
    "rmd_sL ! j = ripemd_rotations ! (j div 16) ! ripemd_r j"
    "rmd_sR ! j = ripemd_rotations ! (j div 16) ! ripemd_r' j"
  using assms by (simp_all flip: rmd_tables_map del: upt_rec_numeral)

lemma rmd_sL_small: "j < 80 \<Longrightarrow> rmd_sL ! j < 32" "j < 80 \<Longrightarrow> rmd_sR ! j < 32"
proof -
  have "\<forall>x\<in>set rmd_sL. x < 32" "\<forall>x\<in>set rmd_sR. x < 32" "length rmd_sL = 80" "length rmd_sR = 80"
    by (simp_all add: rmd_sL_def rmd_sR_def)
  then show "j < 80 \<Longrightarrow> rmd_sL ! j < 32" "j < 80 \<Longrightarrow> rmd_sR ! j < 32" by simp_all
qed

lemma length_5E:
  assumes "length xs = 5"
  obtains a b c d e where "xs = [a, b, c, d, e]"
  using assms by (auto simp: eval_nat_numeral length_Suc_conv)

lemma ripemd_step_length [simp]: "length (ripemd_step w s k h) = length h"
  by (cases "(w, s, k, h)" rule: ripemd_step.cases) simp_all

lemma ripemd_lines_simps [simp]:
  "ripemd_left X h 0 = h" "ripemd_right X h 0 = h"
  "ripemd_left X h (Suc n) = ripemd_step (X ! ripemd_r n + ripemd_K ! (n div 16))
     (ripemd_rotations ! (n div 16) ! ripemd_r n) (n div 16) (ripemd_left X h n)"
  "ripemd_right X h (Suc n) = ripemd_step (X ! ripemd_r' n + ripemd_K' ! (n div 16))
     (ripemd_rotations ! (n div 16) ! ripemd_r' n) (4 - n div 16) (ripemd_right X h n)"
  by (simp_all add: ripemd_left_def ripemd_right_def)

lemma ripemd_lines_length [simp]:
  "length (ripemd_left X h n) = length h" "length (ripemd_right X h n) = length h"
  by (induction n) simp_all

lemma div16_cases:
  assumes "j < (80::nat)"
  obtains "j div 16 = 0" | "j div 16 = 1" | "j div 16 = 2" | "j div 16 = 3" | "j div 16 = 4"
proof -
  have "j div 16 < 5" using assms by (intro less_mult_imp_div_less) simp
  then show ?thesis using that by linarith
qed

lemma rmd_round_step:
  assumes "length l = 5" and "length r = 5" and "j < 80"
  shows "rmd_round X (l, r) j =
    (ripemd_step (X ! ripemd_r j + ripemd_K ! (j div 16)) (ripemd_rotations ! (j div 16) ! ripemd_r j) (j div 16) l,
     ripemd_step (X ! ripemd_r' j + ripemd_K' ! (j div 16)) (ripemd_rotations ! (j div 16) ! ripemd_r' j) (4 - j div 16) r)"
proof -
  obtain a b c d e where l: "l = [a, b, c, d, e]" using assms(1) by (rule length_5E)
  obtain a' b' c' d' e' where r: "r = [a', b', c', d', e']" using assms(2) by (rule length_5E)
  have rot: "cx_rotl x (rmd_sL ! j) = word_rotl (rmd_sL ! j) x" "cx_rotl x (rmd_sR ! j) = word_rotl (rmd_sR ! j) x"
    "cx_rotl x 10 = word_rotl 10 x" for x
    using rmd_sL_small [OF assms(3)] by (simp_all add: cx_rot_simps)
  show ?thesis unfolding rmd_tables(3,4) [OF assms(3), symmetric]
    by (rule div16_cases [OF assms(3)])
      (simp_all add: l r rmd_round_def rmd_switch_def rmd_shift_def Let_def rot rmd_tables(1,2) [OF assms(3)]
        ripemd_f_def ripemd_K_def ripemd_K'_def rmd_f1_def rmd_f2_def rmd_f3_def rmd_f4_def rmd_f5_def ac_simps)
qed

lemma rmd_rounds:
  assumes "length h = 5" and "n \<le> 80"
  shows "foldl (rmd_round X) (h, h) [0..<n] = (ripemd_left X h n, ripemd_right X h n)"
  using assms(2)
proof (induction n)
  case (Suc n)
  then have "foldl (rmd_round X) (h, h) [0..<n] = (ripemd_left X h n, ripemd_right X h n)" by simp
  then show ?case using rmd_round_step [of "ripemd_left X h n" "ripemd_right X h n" n X] assms(1) Suc.prems by simp
qed simp

lemma rmd_block_step:
  assumes "length (rmd_acc c) = 5"
  shows "cx_ripemd160_block c = c\<lparr>rmd_acc := ripemd160_compress (rmd_acc c) (rmd_block c)\<rparr>"
proof -
  have "[0..<5] = [0, 1, 2, 3, 4 :: nat]" by (simp add: upt_conv_Cons)
  then show ?thesis using rmd_rounds [OF assms, of 80 "words32_le (rmd_block c)"]
    by (simp add: cx_ripemd160_block_def ripemd160_compress_def Let_def numeral_2_eq_2)
qed

lemma ripemd160_compress_length [simp]: "length (ripemd160_compress h B) = 5"
  by (simp add: ripemd160_compress_def Let_def)

section \<open>Buffering\<close>

definition rmd_wf :: "cx_ripemd160 \<Rightarrow> bool" where
  "rmd_wf c \<longleftrightarrow> length (rmd_block c) = 64 \<and> length (rmd_acc c) = 5"

type_synonym chain160 = "u32 list \<times> u32 \<times> cx_md"

definition rmd_st :: "cx_ripemd160 \<Rightarrow> chain160" where
  "rmd_st c = (rmd_acc c, rmd_counter c, rmd_algo c)"

definition rmd_compress :: "chain160 \<Rightarrow> bytes \<Rightarrow> chain160" where
  "rmd_compress s b = (ripemd160_compress (fst s) b, fst (snd s) + 1, snd (snd s))"

definition rmd_room :: "chain160 \<Rightarrow> bool" where
  "rmd_room s \<longleftrightarrow> fst (snd s) \<noteq> of_nat CX_HASH_MAX_BLOCK_COUNT"

definition rmd_finish :: "cx_ripemd160 \<Rightarrow> nat \<Rightarrow> bytes \<Rightarrow> cx_ripemd160" where
  "rmd_finish c b x = c\<lparr>rmd_block := buf_write (rmd_block c) b x, rmd_blen := b + length x\<rparr>"

lemma rmd_absorb_step:
  assumes "rmd_wf c" and "b + length x = 64"
  shows "rmd_wf (rmd_absorb c b x) \<and>
    rmd_st (rmd_absorb c b x) = rmd_compress (rmd_st c) (take b (rmd_block c) @ x)"
  using assms by (simp add: rmd_absorb_def rmd_wf_def rmd_st_def rmd_compress_def Let_def rmd_block_step buf_write_def)

lemma rmd_loop_rest: "rmd_update_loop c b r d = (c', Inr d') \<Longrightarrow> length d' < 64"
proof (induction c b r d rule: rmd_update_loop.induct)
  case (1 ctx blen r data)
  from 1(2) show ?case
    by (subst (asm) rmd_update_loop.simps) (use 1(1) in \<open>auto simp: Let_def split: if_splits\<close>)
qed

interpretation ripemd160: counted_stream 64 "\<lambda>c. c\<lparr>rmd_blen := 0\<rparr>" rmd_absorb rmd_finish
  rmd_room INVALID_PARAMETER rmd_update_loop rmd_blen rmd_block rmd_st rmd_wf
  rmd_compress "\<lambda>c d. spec_cx_ripemd160_update c (Some d) (length d)" ripemd160_compress cx_ripemd160_init
proof unfold_locales
  fix c b r d
  show "rmd_update_loop c b r d =
    (if \<not> rmd_room (rmd_st c) then (c, Inl (Throw INVALID_PARAMETER))
     else if 64 \<le> length (drop r d)
       then rmd_update_loop (rmd_absorb c b (take r d)) 0 64 (drop r d)
       else (rmd_absorb c b (take r d), Inr (drop r d)))"
    by (subst rmd_update_loop.simps) (simp add: Let_def rmd_room_def rmd_st_def)
next
  fix c :: cx_ripemd160 and d :: bytes assume c: "rmd_blen c < 64" "rmd_blen c + length d < 2 ^ 32"
  then show "spec_cx_ripemd160_update c (Some d) (length d) =
    (if 64 \<le> rmd_blen c + length d
     then (case rmd_update_loop (c\<lparr>rmd_blen := 0\<rparr>) (rmd_blen c) (64 - rmd_blen c) d of
            (c', Inl e) \<Rightarrow> (c', Inl e) | (c', Inr d') \<Rightarrow> (rmd_finish c' 0 d', Inr 1))
     else (rmd_finish (c\<lparr>rmd_blen := 0\<rparr>) (rmd_blen c) d, Inr 1))"
    by (auto simp: spec_cx_ripemd160_update_def rmd_finish_def Let_def split: sum.splits prod.splits
        dest: rmd_loop_rest)
qed (simp_all add: rmd_absorb_step,
    auto simp: rmd_wf_def rmd_st_def rmd_finish_def rmd_compress_def rmd_room_def cx_ripemd160_init_def rmd_hzero_def)

section \<open>The digest\<close>

lemma rmd_final_blocks:
  assumes "rmd_wf c" and "rmd_blen c < 64"
  shows "snd (spec_cx_ripemd160_final c (Some out)) =
    put_digest (bytes32_le (foldl ripemd160_compress (rmd_acc c)
      (md_last 64 8 (le_of_u64 (ucast ((rmd_counter c * 64 + of_nat (rmd_blen c)) * 8)))
        (take (rmd_blen c) (rmd_block c))))) out"
proof -
  let ?p = "take (rmd_blen c) (rmd_block c)" and ?b = "rmd_blen c"
  have len: "length (rmd_block c) = 64" "length (rmd_acc c) = 5" "length ?p = ?b"
    using assms by (simp_all add: rmd_wf_def)
  have fill: "buf_write ((rmd_block c)[?b := 0x80]) (Suc ?b) (replicate (63 - ?b) 0) =
      ?p @ 0x80 # replicate (63 - ?b) 0"
    using md_write_mark [OF len(1) assms(2)] by simp
  note final = spec_cx_ripemd160_final_def Let_def rmd_block_step fill
  show ?thesis
  proof (cases "?b + 1 + 8 \<le> 64")
    case True
    then have "buf_write (?p @ 0x80 # replicate (63 - ?b) 0) 56 (le_of_u64 v) =
        ?p @ 0x80 # replicate (55 - ?b) 0 @ le_of_u64 v" for v
      using md_write_length [OF len(3) True, of "le_of_u64 v"] by simp
    moreover have "\<not> 63 - ?b < 8" using True by linarith
    ultimately show ?thesis using True assms(2) len by (simp add: final md_last_def)
  next
    case False
    then have "63 - ?b < 8" by linarith
    then show ?thesis
      using False assms(2) len md_write_zeros [of _ 64 8] by (simp add: final md_last_def)
  qed
qed

lemma rmd_final_digest:
  assumes "ripemd160.absorbed c m"
  shows "snd (spec_cx_ripemd160_final c (Some out)) = put_digest (ripemd160_digest m) out"
proof -
  note wf = ripemd160.absorbed_wf [OF assms] and c = ripemd160.absorbedD [OF assms]
  have "(rmd_counter c * 64 + of_nat (rmd_blen c)) * 8 = (of_nat (8 * length m) :: u32)"
    using c(1,3) of_nat_div_mod [of "length m" 64, where 'a=u32] by (simp add: rmd_st_def)
  moreover have "(ucast (of_nat (8 * length m) :: u32) :: u64) = of_nat (8 * length m)"
    using wf(3) by (intro ucast_of_nat_small) simp
  moreover have "foldl ripemd160_compress rmd_hzero (chunks 64 (md_pad 64 8 (le_of_u64 (of_nat (8 * length m))) m)) =
      foldl ripemd160_compress (rmd_acc c)
        (md_last 64 8 (le_of_u64 (of_nat (8 * length m))) (take (rmd_blen c) (rmd_block c)))"
    using c(1) by (subst chunks_md_pad) (simp_all add: c(2) rmd_st_def cx_ripemd160_init_def)
  ultimately show ?thesis
    using rmd_final_blocks [OF wf(1,2), of out] by (simp add: ripemd160_digest_def)
qed

lemma ripemd160_digest_length: "length (ripemd160_digest m) = 20"
proof -
  have "length (foldl ripemd160_compress rmd_hzero bs) = 5" for bs
    by (induction bs rule: rev_induct) (simp_all add: rmd_hzero_def)
  then show ?thesis by (simp add: ripemd160_digest_def)
qed

interpretation hash160: hash_function cx_ripemd160_init spec_cx_ripemd160_update spec_cx_ripemd160_final
  cx_ripemd160_validate_context ripemd160.absorbed ripemd160_digest 20 "2 ^ 22"
  by unfold_locales (use ripemd160.absorbed_init ripemd160.absorbed_update in
    \<open>auto simp: ripemd160.absorbed_def cx_ripemd160_validate_context_def rmd_final_digest ripemd160_digest_length\<close>)

text \<open>
  For every message of less than 65536 blocks, \<open>sys_cx_hash_ripemd160\<close> returns 20
  and puts the RIPEMD-160 digest of the message at the start of the output buffer, leaving the
  rest of the buffer alone; a buffer length below 20 is refused with 0.
\<close>

theorem sys_cx_hash_ripemd160_digest:
  assumes "length m < 2 ^ 22" and "n \<le> length out"
  shows "sys_cx_hash_ripemd160 (Some m) (length m) (Some out) n =
    (if 20 \<le> n then Inr (20, Some (ripemd160_digest m @ drop 20 out)) else Inr (0, Some out))"
proof (cases "20 \<le> n")
  case True
  obtain c where c: "spec_cx_ripemd160_update cx_ripemd160_init (Some m) (length m) = (c, Inr 1)"
      "ripemd160.absorbed c m"
    using hash160.update_absorbed [OF hash160.init_absorbed, of m] assms(1) by auto
  obtain c' where "spec_cx_ripemd160_final c (Some out) = (c', Inr (1, Some (ripemd160_digest m @ drop 20 out)))"
    using hash160.final_digest [OF c(2), of out] True assms(2)
    by (cases "spec_cx_ripemd160_final c (Some out)") (auto simp: put_digest_fits hash160.digest_length)
  then show ?thesis using c(1) True by (simp add: sys_cx_hash_ripemd160_def)
qed (simp add: sys_cx_hash_ripemd160_def)

theorem sys_cx_hash_ripemd160_digest_witness:
  "\<exists>d. length d = 20 \<and>
     sys_cx_hash_ripemd160 (Some [97, 98, 99]) (length [97, 98, 99 :: u8]) (Some (replicate 20 0)) 20 =
       Inr (20, Some d)"
  using sys_cx_hash_ripemd160_digest [of "[97, 98, 99]" 20 "replicate 20 0"] hash160.digest_length
  by (intro exI [of _ "ripemd160_digest [97, 98, 99]"]) simp

end
