(* ===== verification/Cx_Sha3.thy ===== *)
theory Cx_Sha3
  imports Counted_Stream
begin

text \<open>
  \<open>src/bolos/cx_sha3.c\<close>: Keccak, SHA-3 and SHAKE. The permutation works in place on a flat
  array of 25 lanes; it is proved equal to Keccak-f[1600] as FIPS 202 defines it, lane by lane,
  with the rotation offsets and the round constants generated as in the standard. The sponge is
  an instance of the counted block stream, for every rate.
\<close>

section \<open>The permutation\<close>

definition cx_sha3_theta :: "u64 list \<Rightarrow> u64 list" where
  "cx_sha3_theta state =
     (let C = map (\<lambda>i. state ! i XOR state ! (i + 5) XOR state ! (i + 10) XOR state ! (i + 15) XOR state ! (i + 20))
                [0..<5]
      in foldl (\<lambda>state i.
           let D = C ! ((i + 4) mod 5) XOR cx_rotl64 (C ! ((i + 1) mod 5)) 1
           in foldl (\<lambda>state j. state[i + 5 * j := state ! (i + 5 * j) XOR D]) state [0..<5]) state [0..<5])"

definition C_cx_pi_table :: "nat list" where
  "C_cx_pi_table = concat [
     [10, 7, 11, 17, 18, 3, 5, 16],
     [8, 21, 24, 4, 15, 23, 19, 13],
     [12, 2, 20, 14, 22, 9, 6, 1]]"

definition C_cx_rho_table :: "nat list" where
  "C_cx_rho_table = concat [
     [1, 3, 6, 10, 15, 21, 28, 36],
     [45, 55, 2, 14, 27, 41, 56, 8],
     [25, 43, 62, 18, 39, 61, 20, 44]]"

definition cx_sha3_rho_pi :: "u64 list \<Rightarrow> u64 list" where
  "cx_sha3_rho_pi state =
     fst (foldl (\<lambda>(state, A) i.
       let j = C_cx_pi_table ! i
       in (state[j := cx_rotl64 A (C_cx_rho_table ! i)], state ! j)) (state, state ! 1) [0..<24])"

definition cx_sha3_chi :: "u64 list \<Rightarrow> u64 list" where
  "cx_sha3_chi state =
     foldl (\<lambda>state j.
       let C = map (\<lambda>i. state ! (i + 5 * j)) [0..<5]
       in foldl (\<lambda>state i. state[i + 5 * j := state ! (i + 5 * j) XOR
            (NOT (C ! ((i + 1) mod 5)) AND C ! ((i + 2) mod 5))]) state [0..<5]) state [0..<5]"

definition C_cx_iota_RC :: "u64 list" where
  "C_cx_iota_RC = concat [
     [0x0000000000000001, 0x0000000000008082, 0x800000000000808A, 0x8000000080008000],
     [0x000000000000808B, 0x0000000080000001, 0x8000000080008081, 0x8000000000008009],
     [0x000000000000008A, 0x0000000000000088, 0x0000000080008009, 0x000000008000000A],
     [0x000000008000808B, 0x800000000000008B, 0x8000000000008089, 0x8000000000008003],
     [0x8000000000008002, 0x8000000000000080, 0x000000000000800A, 0x800000008000000A],
     [0x8000000080008081, 0x8000000000008080, 0x0000000080000001, 0x8000000080008008]]"

definition cx_sha3_iota :: "u64 list \<Rightarrow> nat \<Rightarrow> u64 list" where
  "cx_sha3_iota state round = state[0 := state ! 0 XOR C_cx_iota_RC ! round]"

definition sha3_rounds :: "u64 list \<Rightarrow> u64 list" where
  "sha3_rounds acc = foldl (\<lambda>acc r. cx_sha3_iota (cx_sha3_chi (cx_sha3_rho_pi (cx_sha3_theta acc))) r) acc [0..<24]"

section \<open>Contexts\<close>

record cx_sha3 =
  sha3_algo :: cx_md
  sha3_counter :: u32
  sha3_output_size :: nat
  sha3_block_size :: nat
  sha3_blen :: nat
  sha3_block :: bytes
  sha3_acc :: "u64 list"

definition sha3_zero :: cx_sha3 where
  "sha3_zero = \<lparr>sha3_algo = CX_NONE, sha3_counter = 0, sha3_output_size = 0, sha3_block_size = 0,
     sha3_blen = 0, sha3_block = replicate 200 0, sha3_acc = replicate 25 0\<rparr>"

definition check_hash_out_size :: "nat \<Rightarrow> unit res" where
  "check_hash_out_size sz =
     (if sz = 128 \<or> sz = 224 \<or> sz = 256 \<or> sz = 384 \<or> sz = 512 then Inr () else Inl (Throw INVALID_PARAMETER))"

definition cx_sha3_init :: "nat \<Rightarrow> cx_sha3 res" where
  "cx_sha3_init sz =
     res_bind (check_hash_out_size sz) (\<lambda>_.
     Inr (sha3_zero\<lparr>sha3_algo := CX_SHA3, sha3_output_size := sz div 8, sha3_block_size := (1600 - 2 * sz) div 8\<rparr>))"

definition cx_keccak_init :: "nat \<Rightarrow> cx_sha3 res" where
  "cx_keccak_init sz =
     res_bind (check_hash_out_size sz) (\<lambda>_.
     res_bind (cx_sha3_init sz) (\<lambda>hash. Inr (hash\<lparr>sha3_algo := CX_KECCAK\<rparr>)))"

text \<open>The SHAKE contexts: a size that is no number of bytes returns 0 and a cleared context.\<close>

definition cx_shake128_init :: "nat \<Rightarrow> cx_sha3 \<times> cx_md" where
  "cx_shake128_init sz =
     (if sz mod 8 \<noteq> 0 then (sha3_zero, CX_NONE)
      else (sha3_zero\<lparr>sha3_algo := CX_SHAKE128, sha3_output_size := sz div 8, sha3_block_size := 168\<rparr>, CX_SHAKE128))"

definition cx_shake256_init :: "nat \<Rightarrow> cx_sha3 \<times> cx_md" where
  "cx_shake256_init sz =
     (if sz mod 8 \<noteq> 0 then (sha3_zero, CX_NONE)
      else (sha3_zero\<lparr>sha3_algo := CX_SHAKE256, sha3_output_size := sz div 8, sha3_block_size := 136\<rparr>, CX_SHAKE256))"

definition cx_sha3_xof_init :: "nat \<Rightarrow> nat \<Rightarrow> cx_sha3 res" where
  "cx_sha3_xof_init sz out_length =
     (if sz \<noteq> 128 \<and> sz \<noteq> 256 then Inl (Throw INVALID_PARAMETER)
      else Inr (sha3_zero\<lparr>sha3_algo := if sz = 128 then CX_SHAKE128 else CX_SHAKE256,
                          sha3_output_size := out_length, sha3_block_size := (1600 - 2 * sz) div 8\<rparr>))"

text \<open>The number of words that \<open>spec_cx_sha3_block\<close> takes from the block, by its thresholds.\<close>

definition sha3_words :: "nat \<Rightarrow> nat" where
  "sha3_words block_size =
     (if 144 < block_size then 21 else if 136 < block_size then 18 else if 104 < block_size then 17
      else if 72 < block_size then 13 else 9)"

definition spec_cx_sha3_block :: "cx_sha3 \<Rightarrow> cx_sha3" where
  "spec_cx_sha3_block hash =
     (let n = sha3_words (sha3_block_size hash); block = words64_le (sha3_block hash);
          acc = foldl (\<lambda>acc i. acc[i := acc ! i XOR block ! i]) (sha3_acc hash) [0..<n]
      in hash\<lparr>sha3_acc := sha3_rounds acc\<rparr>)"

section \<open>Absorbing and squeezing\<close>

definition sha3_absorb :: "cx_sha3 \<Rightarrow> nat \<Rightarrow> bytes \<Rightarrow> cx_sha3" where
  "sha3_absorb ctx blen d =
     (let ctx = spec_cx_sha3_block (ctx\<lparr>sha3_block := buf_write (sha3_block ctx) blen d\<rparr>)
      in ctx\<lparr>sha3_counter := sha3_counter ctx + 1\<rparr>)"

function sha3_update_loop ::
  "nat \<Rightarrow> cx_sha3 \<Rightarrow> nat \<Rightarrow> nat \<Rightarrow> bytes \<Rightarrow> cx_sha3 \<times> (c_error + bytes)" where
  "sha3_update_loop block_size ctx blen r data =
     (if sha3_counter ctx = of_nat CX_HASH_MAX_BLOCK_COUNT then (ctx, Inl (Throw INVALID_PARAMETER))
      else
        let ctx = sha3_absorb ctx blen (take r data); data = drop r data
        in if 0 < block_size \<and> block_size \<le> length data
           then sha3_update_loop block_size ctx 0 block_size data else (ctx, Inr data))"
  by pat_completeness auto
termination
  by (relation "measure (\<lambda>(block_size, ctx, blen, r, data). 2 * length data + (if r = 0 then 1 else 0))") auto

declare sha3_update_loop.simps [simp del]

text \<open>
  The update. The loop is entered only with \<open>blen < block_size\<close>, so that the block size is
  positive there.
\<close>

definition spec_cx_sha3_update :: "cx_sha3 \<Rightarrow> bytes option \<Rightarrow> nat \<Rightarrow> cx_sha3 \<times> (c_error + nat)" where
  "spec_cx_sha3_update ctx data len =
     (if data = None \<and> len \<noteq> 0 then (ctx, Inr 0)
      else if 200 < sha3_block_size ctx then (ctx, Inr 0)
      else case mem_arg data len of
        Inl e \<Rightarrow> (ctx, Inl e)
      | Inr data \<Rightarrow>
          (let block_size = sha3_block_size ctx; blen = sha3_blen ctx; ctx = ctx\<lparr>sha3_blen := 0\<rparr> in
           if block_size \<le> blen then (ctx, Inr 0)
           else
             case (if block_size \<le> (blen + len) mod 2 ^ 32
                   then (case sha3_update_loop block_size ctx blen (block_size - blen) data of
                           (ctx, Inl e) \<Rightarrow> (ctx, Inl e)
                         | (ctx, Inr data) \<Rightarrow> (ctx, Inr (0, data)))
                   else (ctx, Inr (blen, data))) of
               (ctx, Inl e) \<Rightarrow> (ctx, Inl e)
             | (ctx, Inr (blen, data)) \<Rightarrow>
                 if 200 < blen + length data then (ctx, Inl Oob)
                 else (ctx\<lparr>sha3_block := buf_write (sha3_block ctx) blen data,
                           sha3_blen := blen + length data\<rparr>, Inr 1)))"

text \<open>
  The padding of the last block: \<open>memset\<close> up to 200, the domain byte, the final bit.
\<close>

definition sha3_pad_block :: "u8 \<Rightarrow> cx_sha3 \<Rightarrow> cx_sha3" where
  "sha3_pad_block domain hash =
     (let blen = sha3_blen hash; block_size = sha3_block_size hash;
          b = buf_write (sha3_block hash) blen (replicate (200 - blen) 0);
          b = b[blen := b ! blen OR domain];
          b = b[block_size - 1 := b ! (block_size - 1) OR 0x80]
      in hash\<lparr>sha3_block := b\<rparr>)"

text \<open>The squeezing loop; \<open>off\<close> is how far \<open>digest\<close> has advanced.\<close>

function sha3_squeeze :: "nat \<Rightarrow> cx_sha3 \<Rightarrow> nat \<Rightarrow> nat \<Rightarrow> bytes \<Rightarrow> cx_sha3 \<times> bytes res" where
  "sha3_squeeze block_size hash blen off out =
     (if 0 < block_size \<and> block_size < blen then
        (case mem_write out off (take block_size (bytes64_le (sha3_acc hash))) of
           Inl e \<Rightarrow> (hash, Inl e)
         | Inr out \<Rightarrow> sha3_squeeze block_size (spec_cx_sha3_block hash) (blen - block_size) (off + block_size) out)
      else (hash, mem_write out off (take blen (bytes64_le (sha3_acc hash)))))"
  by pat_completeness auto
termination
  by (relation "measure (\<lambda>(block_size, hash, blen, off, out). blen)") auto

declare sha3_squeeze.simps [simp del]

definition spec_cx_sha3_final :: "cx_sha3 \<Rightarrow> bytes option \<Rightarrow> cx_sha3 \<times> (c_error + nat \<times> bytes option)" where
  "spec_cx_sha3_final hash digest =
     (case digest of
        None \<Rightarrow> (hash, Inr (0, None))
      | Some out \<Rightarrow>
          if 200 \<le> sha3_blen hash \<or> sha3_block_size hash = 0 \<or> 200 < sha3_block_size hash then (hash, Inl Oob)
          else if sha3_algo hash = CX_KECCAK \<or> sha3_algo hash = CX_SHA3 then
            (let hash = spec_cx_sha3_block
                   (sha3_pad_block (if sha3_algo hash = CX_KECCAK then 0x01 else 0x06) hash)
             in (hash, if 200 < sha3_output_size hash then Inl Oob
                       else put_digest (take (sha3_output_size hash) (bytes64_le (sha3_acc hash))) out))
          else
            (let hash = spec_cx_sha3_block (sha3_pad_block 0x1F hash);
                 hash = hash\<lparr>sha3_block := replicate 200 0\<rparr>;
                 (hash, r) = sha3_squeeze (sha3_block_size hash) hash (sha3_output_size hash) 0 out
             in (hash, res_bind r (\<lambda>out. Inr (1, Some out)))))"

definition spec_cx_sha3_get_output_size :: "cx_sha3 \<Rightarrow> nat" where
  "spec_cx_sha3_get_output_size ctx = sha3_output_size ctx"

definition cx_sha3_validate_context :: "cx_sha3 \<Rightarrow> bool" where
  "cx_sha3_validate_context ctx \<longleftrightarrow>
     sha3_output_size ctx \<in> {16, 28, 32, 48, 64} \<and>
     sha3_block_size ctx = 200 - 2 * sha3_output_size ctx \<and> sha3_blen ctx < 200"

definition cx_shake_validate_context :: "cx_sha3 \<Rightarrow> bool" where
  "cx_shake_validate_context ctx \<longleftrightarrow>
     (sha3_block_size ctx = 136 \<or> sha3_block_size ctx = 168) \<and> sha3_blen ctx < 200"

section \<open>Keccak-f[1600] as in FIPS 202\<close>

text \<open>Lane \<open>(x, y)\<close> is the element \<open>x + 5 * y\<close> of the state.\<close>

definition lane :: "u64 list \<Rightarrow> nat \<Rightarrow> nat \<Rightarrow> u64" where
  "lane A x y = A ! (x mod 5 + 5 * (y mod 5))"

definition of_lanes :: "(nat \<Rightarrow> nat \<Rightarrow> u64) \<Rightarrow> u64 list" where
  "of_lanes f = map (\<lambda>i. f (i mod 5) (i div 5)) [0..<25]"

definition keccak_theta :: "u64 list \<Rightarrow> u64 list" where
  "keccak_theta A =
     (let C = (\<lambda>x. lane A x 0 XOR lane A x 1 XOR lane A x 2 XOR lane A x 3 XOR lane A x 4)
      in of_lanes (\<lambda>x y. lane A x y XOR (C (x + 4) XOR word_rotl 1 (C (x + 1)))))"

text \<open>The walk over the lanes that gives the rotation offsets.\<close>

fun rho_walk :: "nat list \<Rightarrow> nat \<times> nat \<Rightarrow> ((nat \<times> nat) \<times> nat) list" where
  "rho_walk [] xy = []"
| "rho_walk (t # ts) (x, y) =
     ((x, y), (t + 1) * (t + 2) div 2 mod 64) # rho_walk ts (y, (2 * x + 3 * y) mod 5)"

definition rho_offset :: "nat \<Rightarrow> nat \<Rightarrow> nat" where
  "rho_offset x y =
     (case map_of (rho_walk [0..<24] (1, 0)) (x, y) of None \<Rightarrow> 0 | Some k \<Rightarrow> k)"

definition keccak_rho :: "u64 list \<Rightarrow> u64 list" where
  "keccak_rho A = of_lanes (\<lambda>x y. word_rotl (rho_offset x y) (lane A x y))"

definition keccak_pi :: "u64 list \<Rightarrow> u64 list" where
  "keccak_pi A = of_lanes (\<lambda>x y. lane A (x + 3 * y) x)"

definition keccak_chi :: "u64 list \<Rightarrow> u64 list" where
  "keccak_chi A = of_lanes (\<lambda>x y. lane A x y XOR (NOT (lane A (x + 1) y) AND lane A (x + 2) y))"

text \<open>The shift register of the round constants, and the constant of a round.\<close>

definition rc_step :: "bool list \<Rightarrow> bool list" where
  "rc_step R =
     (let R = False # R
      in take 8 (R[0 := R ! 0 \<noteq> R ! 8, 4 := R ! 4 \<noteq> R ! 8, 5 := R ! 5 \<noteq> R ! 8, 6 := R ! 6 \<noteq> R ! 8]))"

fun rc_stream :: "nat list \<Rightarrow> bool list \<Rightarrow> bool list" where
  "rc_stream [] R = []"
| "rc_stream (t # ts) R = R ! 0 # rc_stream ts (rc_step R)"

definition keccak_RC :: "nat \<Rightarrow> u64" where
  "keccak_RC r =
     (let rc = rc_stream [0..<168] [True, False, False, False, False, False, False, False]
      in foldr (\<lambda>j w. (if rc ! (j + 7 * r) then push_bit (2 ^ j - 1) 1 else 0) OR w) [0, 1, 2, 3, 4, 5, 6] 0)"

definition keccak_iota :: "u64 list \<Rightarrow> nat \<Rightarrow> u64 list" where
  "keccak_iota A r = of_lanes (\<lambda>x y. if x = 0 \<and> y = 0 then lane A 0 0 XOR keccak_RC r else lane A x y)"

definition keccak_f :: "u64 list \<Rightarrow> u64 list" where
  "keccak_f A = foldl (\<lambda>A r. keccak_iota (keccak_chi (keccak_pi (keccak_rho (keccak_theta A)))) r) A [0..<24]"

section \<open>The in-place permutation is Keccak-f\<close>

lemma upt_values:
  "[0..<5] = [0, 1, 2, 3, 4 :: nat]"
  "[0..<24] = [0, 1, 2, 3, 4, 5, 6, 7, 8, 9, 10, 11, 12, 13, 14, 15, 16, 17, 18, 19, 20, 21, 22, 23 :: nat]"
  "[0..<25] = [0, 1, 2, 3, 4, 5, 6, 7, 8, 9, 10, 11, 12, 13, 14, 15, 16, 17, 18, 19, 20, 21, 22, 23, 24 :: nat]"
  by (simp_all add: upt_conv_Cons)

lemma length_25E:
  assumes "length xs = 25"
  obtains a0 a1 a2 a3 a4 a5 a6 a7 a8 a9 a10 a11 a12 a13 a14 a15 a16 a17 a18 a19 a20 a21 a22 a23 a24
  where "xs = [a0, a1, a2, a3, a4, a5, a6, a7, a8, a9, a10, a11, a12, a13, a14, a15, a16, a17, a18, a19,
    a20, a21, a22, a23, a24]"
proof -
  have "xs = map (\<lambda>i. xs ! i) [0..<25]" using assms map_nth [of xs] by simp
  also have "\<dots> = [xs ! 0, xs ! 1, xs ! 2, xs ! 3, xs ! 4, xs ! 5, xs ! 6, xs ! 7, xs ! 8, xs ! 9, xs ! 10,
    xs ! 11, xs ! 12, xs ! 13, xs ! 14, xs ! 15, xs ! 16, xs ! 17, xs ! 18, xs ! 19, xs ! 20, xs ! 21,
    xs ! 22, xs ! 23, xs ! 24]" by (simp add: upt_values)
  finally show ?thesis by (rule that)
qed

lemma theta_eq: "length A = 25 \<Longrightarrow> cx_sha3_theta A = keccak_theta A"
  by (erule length_25E)
    (simp add: cx_sha3_theta_def keccak_theta_def of_lanes_def lane_def Let_def upt_values cx_rot_simps
      xor.assoc)

lemma chi_eq: "length A = 25 \<Longrightarrow> cx_sha3_chi A = keccak_chi A"
  by (erule length_25E)
    (simp add: cx_sha3_chi_def keccak_chi_def of_lanes_def lane_def Let_def upt_values)

lemma rho_offset_values:
  "map (\<lambda>i. rho_offset (i mod 5) (i div 5)) [0..<25] =
    [0, 1, 62, 28, 27, 36, 44, 6, 55, 20, 3, 10, 43, 25, 39, 41, 45, 15, 21, 8, 18, 2, 61, 56, 14]"
  unfolding rho_offset_def by (simp add: upt_values)

lemma RC_eq: "map keccak_RC [0..<24] = C_cx_iota_RC"
  unfolding keccak_RC_def Let_def C_cx_iota_RC_def
  by (simp add: upt_conv_Cons rc_step_def)

lemma word_rotl_0 [simp]: "word_rotl 0 (x :: u64) = x"
  by transfer simp

lemma rho_pi_eq: "length A = 25 \<Longrightarrow> cx_sha3_rho_pi A = keccak_pi (keccak_rho A)"
proof -
  assume len: "length A = 25"
  have off: "rho_offset (i mod 5) (i div 5) =
    [0, 1, 62, 28, 27, 36, 44, 6, 55, 20, 3, 10, 43, 25, 39, 41, 45, 15, 21, 8, 18, 2, 61, 56, 14] ! i"
    if "i < 25" for i
    using that arg_cong [OF rho_offset_values, of "\<lambda>xs. xs ! i"] by simp
  have rho: "keccak_rho A = map (\<lambda>i. word_rotl ([0, 1, 62, 28, 27, 36, 44, 6, 55, 20, 3, 10, 43, 25, 39, 41,
      45, 15, 21, 8, 18, 2, 61, 56, 14] ! i) (A ! i)) [0..<25]"
    unfolding keccak_rho_def of_lanes_def
    by (intro map_cong [OF refl]) (auto simp: off lane_def less_mult_imp_div_less)
  show ?thesis unfolding rho using len
    by (rule length_25E)
      (simp add: cx_sha3_rho_pi_def keccak_pi_def of_lanes_def lane_def Let_def upt_values
        C_cx_pi_table_def C_cx_rho_table_def cx_rot_simps)
qed

lemma length_keccak [simp]:
  "length (keccak_theta A) = 25" "length (keccak_rho A) = 25" "length (keccak_pi A) = 25"
  "length (keccak_chi A) = 25" "length (keccak_iota A r) = 25"
  by (simp_all add: keccak_theta_def keccak_rho_def keccak_pi_def keccak_chi_def keccak_iota_def
      of_lanes_def Let_def)

lemma iota_eq: "length A = 25 \<Longrightarrow> r < 24 \<Longrightarrow> cx_sha3_iota A r = keccak_iota A r"
proof -
  assume A: "length A = 25" and r: "r < 24"
  have rc: "C_cx_iota_RC ! r = keccak_RC r"
    using r by (simp flip: RC_eq del: upt_rec_numeral)
  show ?thesis using A
    by (rule length_25E) (simp add: cx_sha3_iota_def keccak_iota_def of_lanes_def lane_def upt_values rc)
qed

lemma sha3_rounds_eq:
  assumes "length A = 25"
  shows "sha3_rounds A = keccak_f A"
proof -
  have "length A = 25 \<and> n \<le> 24 \<longrightarrow> length (foldl (\<lambda>A r. keccak_iota (keccak_chi (keccak_pi (keccak_rho (keccak_theta A)))) r) A [0..<n]) = 25 \<and>
    foldl (\<lambda>acc r. cx_sha3_iota (cx_sha3_chi (cx_sha3_rho_pi (cx_sha3_theta acc))) r) A [0..<n] =
    foldl (\<lambda>A r. keccak_iota (keccak_chi (keccak_pi (keccak_rho (keccak_theta A)))) r) A [0..<n]" for n
    by (induction n) (simp_all add: theta_eq rho_pi_eq chi_eq iota_eq)
  from this [of 24] show ?thesis
    using assms by (simp add: sha3_rounds_def keccak_f_def del: upt_rec_numeral)
qed

lemma length_keccak_f [simp]: "length (keccak_f A) = 25"
proof -
  have "[0..<24] = [0..<23] @ [23]" by (simp add: upt_conv_Cons)
  then show ?thesis by (simp add: keccak_f_def del: upt_rec_numeral)
qed

section \<open>The sponge\<close>

definition xor_words :: "u64 list \<Rightarrow> u64 list \<Rightarrow> u64 list" where
  "xor_words A ws = map (\<lambda>i. if i < length ws then A ! i XOR ws ! i else A ! i) [0..<25]"

definition keccak_absorb :: "u64 list \<Rightarrow> bytes \<Rightarrow> u64 list" where
  "keccak_absorb A B = keccak_f (xor_words A (words64_le B))"

text \<open>The padding of \<open>q\<close> bytes: the domain bits and a bit 1, zeros, and a bit 1 at the end.\<close>

definition pad_tail :: "u8 \<Rightarrow> nat \<Rightarrow> bytes" where
  "pad_tail ds q = (if q = 1 then [ds OR 0x80] else ds # replicate (q - 2) 0 @ [0x80])"

definition sponge_pad :: "nat \<Rightarrow> u8 \<Rightarrow> bytes \<Rightarrow> bytes" where
  "sponge_pad n ds m = m @ pad_tail ds (n - length m mod n)"

function keccak_squeeze :: "nat \<Rightarrow> nat \<Rightarrow> u64 list \<Rightarrow> bytes" where
  "keccak_squeeze n d A =
     (if 0 < n \<and> n < d then take n (bytes64_le A) @ keccak_squeeze n (d - n) (keccak_f A)
      else take d (bytes64_le A))"
  by pat_completeness auto
termination
  by (relation "measure (\<lambda>(n, d, A). d)") auto

declare keccak_squeeze.simps [simp del]

definition keccak_sponge :: "nat \<Rightarrow> u8 \<Rightarrow> nat \<Rightarrow> bytes \<Rightarrow> bytes" where
  "keccak_sponge n ds d m =
     keccak_squeeze n d (foldl keccak_absorb (replicate 25 0) (chunks n (sponge_pad n ds m)))"

definition sha3_rates :: "nat set" where
  "sha3_rates = {72, 104, 136, 144, 168}"

lemma sha3_rate_laws:
  assumes "n \<in> sha3_rates"
  shows "sha3_words n = n div 8" "0 < n" "n \<le> 168" "8 * (n div 8) = n" "n div 8 \<le> 21"
  using assms by (auto simp: sha3_rates_def sha3_words_def)

lemma length_pad_tail [simp]: "0 < q \<Longrightarrow> length (pad_tail ds q) = q"
  by (auto simp: pad_tail_def)

lemma chunks_sponge_pad:
  assumes "0 < n"
  shows "chunks n (sponge_pad n ds m) = chunks n m @ [chunk_rest n m @ pad_tail ds (n - length m mod n)]"
proof -
  have "length (chunk_rest n m @ pad_tail ds (n - length m mod n)) = n"
    using assms by (simp add: length_chunk_rest)
  then show ?thesis
    using chunks_append [OF assms, of m] assms by (simp add: sponge_pad_def chunks_exact)
qed

lemma words64_le_take:
  assumes "8 * k \<le> length b" and "i < k"
  shows "words64_le b ! i = words64_le (take (8 * k) b) ! i"
proof -
  have "chunks 8 b = chunks 8 (take (8 * k) b) @ chunks 8 (chunk_rest 8 (take (8 * k) b) @ drop (8 * k) b)"
    using chunks_append [of 8 "take (8 * k) b" "drop (8 * k) b"] by simp
  then have "words64_le b = words64_le (take (8 * k) b) @
      map u64_of_le (chunks 8 (chunk_rest 8 (take (8 * k) b) @ drop (8 * k) b))"
    by (simp add: words64_le_def)
  then show ?thesis using assms by (simp add: nth_append)
qed

lemma foldl_xor:
  assumes "length acc = 25" and "k \<le> 25"
  shows "foldl (\<lambda>acc i. acc[i := acc ! i XOR b ! i]) acc [0..<k] =
    map (\<lambda>i. if i < k then acc ! i XOR b ! i else acc ! i) [0..<25]"
  using assms(2)
proof (induction k)
  case 0
  then show ?case using assms(1) map_nth [of acc] by simp
next
  case (Suc k)
  then show ?case by (simp add: list_eq_iff_nth_eq nth_list_update)
qed

lemma sha3_block_step:
  assumes "n \<in> sha3_rates" and "sha3_block_size c = n" and "length (sha3_block c) = 200" and "length (sha3_acc c) = 25"
  shows "spec_cx_sha3_block c = c\<lparr>sha3_acc := keccak_absorb (sha3_acc c) (take n (sha3_block c))\<rparr>"
proof -
  note n = sha3_rate_laws [OF assms(1)]
  have "foldl (\<lambda>acc i. acc[i := acc ! i XOR words64_le (sha3_block c) ! i]) (sha3_acc c) [0..<n div 8] =
      xor_words (sha3_acc c) (words64_le (take n (sha3_block c)))"
    using assms(3,4) n words64_le_take [of "n div 8" "sha3_block c"]
    by (simp add: foldl_xor xor_words_def)
  moreover have "length (xor_words A ws) = 25" for A ws by (simp add: xor_words_def)
  ultimately show ?thesis using assms(2) n(1)
    by (simp add: spec_cx_sha3_block_def Let_def keccak_absorb_def sha3_rounds_eq)
qed

lemma length_keccak_absorb [simp]: "length (keccak_absorb A B) = 25"
  by (simp add: keccak_absorb_def)

lemma xor_words_zero: "length A = 25 \<Longrightarrow> set ws \<subseteq> {0} \<Longrightarrow> xor_words A ws = A"
  by (auto simp: xor_words_def list_eq_iff_nth_eq dest!: nth_mem)

lemma keccak_absorb_zero:
  assumes "length A = 25"
  shows "keccak_absorb A (replicate n 0) = keccak_f A"
proof -
  have "b = replicate 8 0" if "b \<in> set (chunks 8 (replicate n (0::u8)))" for b
  proof -
    have "set (concat (chunks 8 (replicate n (0::u8)))) \<subseteq> {0}"
      using arg_cong [OF concat_chunks [of 8 "replicate n (0::u8)"], of set] by auto
    then have "set b \<subseteq> {0}" using that by auto
    then show ?thesis using set_chunks_length [OF that] by (simp add: list_eq_iff_nth_eq subset_iff)
  qed
  moreover have "u64_of_le (replicate 8 0) = 0" by (simp add: u64_of_le_def numeral_eq_Suc)
  ultimately have "set (words64_le (replicate n 0)) \<subseteq> {0}" by (auto simp: words64_le_def)
  then show ?thesis using assms by (simp add: keccak_absorb_def xor_words_zero)
qed

section \<open>Absorbing\<close>

definition sha3_wf :: "nat \<Rightarrow> cx_sha3 \<Rightarrow> bool" where
  "sha3_wf n c \<longleftrightarrow> length (sha3_block c) = 200 \<and> length (sha3_acc c) = 25 \<and> sha3_block_size c = n"

type_synonym chain_sha3 = "u64 list \<times> u32 \<times> cx_md \<times> nat"

definition sha3_st :: "cx_sha3 \<Rightarrow> chain_sha3" where
  "sha3_st c = (sha3_acc c, sha3_counter c, sha3_algo c, sha3_output_size c)"

definition sha3_compress :: "chain_sha3 \<Rightarrow> bytes \<Rightarrow> chain_sha3" where
  "sha3_compress s b = (keccak_absorb (fst s) b, fst (snd s) + 1, snd (snd s))"

definition sha3_room :: "chain_sha3 \<Rightarrow> bool" where
  "sha3_room s \<longleftrightarrow> fst (snd s) \<noteq> of_nat CX_HASH_MAX_BLOCK_COUNT"

definition sha3_finish :: "cx_sha3 \<Rightarrow> nat \<Rightarrow> bytes \<Rightarrow> cx_sha3" where
  "sha3_finish c b x = c\<lparr>sha3_block := buf_write (sha3_block c) b x, sha3_blen := b + length x\<rparr>"

definition sha3_start :: "nat \<Rightarrow> cx_sha3 \<Rightarrow> bool" where
  "sha3_start n c0 \<longleftrightarrow> n \<in> sha3_rates \<and> sha3_wf n c0 \<and> sha3_blen c0 = 0 \<and> sha3_counter c0 = 0 \<and>
     sha3_acc c0 = replicate 25 0"

lemma sha3_absorb_step:
  assumes "n \<in> sha3_rates" and "sha3_wf n c" and "b + length x = n"
  shows "sha3_wf n (sha3_absorb c b x) \<and>
    sha3_st (sha3_absorb c b x) = sha3_compress (sha3_st c) (take b (take n (sha3_block c)) @ x)"
proof -
  let ?c = "c\<lparr>sha3_block := buf_write (sha3_block c) b x\<rparr>"
  note n = sha3_rate_laws [OF assms(1)]
  have len: "length (sha3_block ?c) = 200" "length (sha3_acc ?c) = 25" "sha3_block_size ?c = n"
    using assms(2,3) n by (simp_all add: sha3_wf_def)
  have "take n (sha3_block ?c) = take b (take n (sha3_block c)) @ x"
    using assms(2,3) n by (simp add: sha3_wf_def buf_write_def)
  then show ?thesis
    using sha3_block_step [OF assms(1) len(3,1,2)] len assms(2)
    by (simp add: sha3_absorb_def sha3_wf_def sha3_st_def sha3_compress_def Let_def)
qed

lemma sha3_loop_rest: "sha3_update_loop n c b r d = (c', Inr d') \<Longrightarrow> 0 < n \<Longrightarrow> length d' < n"
proof (induction n c b r d rule: sha3_update_loop.induct)
  case (1 n ctx blen r data)
  from 1(2) show ?case
    by (subst (asm) sha3_update_loop.simps) (use 1(1,3) in \<open>auto simp: Let_def split: if_splits\<close>)
qed

lemma sha3_stream:
  assumes "sha3_start n c0"
  shows "counted_stream n (\<lambda>c. c\<lparr>sha3_blen := 0\<rparr>) sha3_absorb sha3_finish sha3_room INVALID_PARAMETER
    (sha3_update_loop n) sha3_blen (\<lambda>c. take n (sha3_block c)) sha3_st (sha3_wf n)
    sha3_compress (\<lambda>c d. spec_cx_sha3_update c (Some d) (length d)) keccak_absorb c0"
proof -
  have rate: "n \<in> sha3_rates" using assms by (simp add: sha3_start_def)
  note n = sha3_rate_laws [OF rate]
  show ?thesis
  proof unfold_locales
    fix c b r d
    show "sha3_update_loop n c b r d =
      (if \<not> sha3_room (sha3_st c) then (c, Inl (Throw INVALID_PARAMETER))
       else if n \<le> length (drop r d)
         then sha3_update_loop n (sha3_absorb c b (take r d)) 0 n (drop r d)
         else (sha3_absorb c b (take r d), Inr (drop r d)))"
      using n(2) by (subst sha3_update_loop.simps) (simp add: Let_def sha3_room_def sha3_st_def)
  next
    fix c :: cx_sha3 and d :: bytes
    assume c: "sha3_wf n c" "sha3_blen c < n" "sha3_blen c + length d < 2 ^ 32"
    then show "spec_cx_sha3_update c (Some d) (length d) =
      (if n \<le> sha3_blen c + length d
       then (case sha3_update_loop n (c\<lparr>sha3_blen := 0\<rparr>) (sha3_blen c) (n - sha3_blen c) d of
              (c', Inl e) \<Rightarrow> (c', Inl e) | (c', Inr d') \<Rightarrow> (sha3_finish c' 0 d', Inr 1))
       else (sha3_finish (c\<lparr>sha3_blen := 0\<rparr>) (sha3_blen c) d, Inr 1))"
      using n(2,3)
      by (auto simp: spec_cx_sha3_update_def sha3_finish_def sha3_wf_def Let_def split: sum.splits prod.splits
          dest: sha3_loop_rest)
  qed (use assms n in \<open>simp_all add: sha3_absorb_step [OF rate]\<close>,
      auto simp: sha3_wf_def sha3_st_def sha3_finish_def sha3_compress_def sha3_room_def sha3_start_def
        buf_write_def min_def take_drop)
qed

section \<open>The digest\<close>

lemma sha3_pad_eq:
  assumes "sha3_wf n c" and "sha3_blen c < n" and "n \<le> 168"
  shows "take n (sha3_block (sha3_pad_block ds c)) =
    take (sha3_blen c) (sha3_block c) @ pad_tail ds (n - sha3_blen c)"
proof (rule nth_equalityI)
  let ?b = "sha3_blen c" and ?k = "sha3_block c"
  have len: "length ?k = 200" "sha3_block_size c = n" using assms(1) by (simp_all add: sha3_wf_def)
  have nth: "buf_write ?k ?b (replicate (200 - ?b) 0) ! i = (if i < ?b then ?k ! i else 0)" if "i < 200" for i
    using that assms(2,3) len by (simp add: buf_write_def nth_append)
  show "length (take n (sha3_block (sha3_pad_block ds c))) = length (take ?b ?k @ pad_tail ds (n - ?b))"
    using assms len by (simp add: sha3_pad_block_def Let_def)
  fix i assume "i < length (take n (sha3_block (sha3_pad_block ds c)))"
  then have i: "i < n" by simp
  show "take n (sha3_block (sha3_pad_block ds c)) ! i = (take ?b ?k @ pad_tail ds (n - ?b)) ! i"
    using i assms len
    by (auto simp: sha3_pad_block_def Let_def nth_append pad_tail_def nth_list_update nth nth_Cons'
        less_Suc_eq)
qed

lemma sha3_pad_wf:
  "sha3_wf n c \<Longrightarrow> n \<le> 168 \<Longrightarrow> sha3_blen c < n \<Longrightarrow> sha3_wf n (sha3_pad_block ds c)"
  by (simp add: sha3_wf_def sha3_pad_block_def Let_def)

text \<open>The last block of the message, absorbed.\<close>

lemma sha3_last_block:
  fixes ds :: u8
  assumes "n \<in> sha3_rates" and "sha3_wf n c" and "sha3_blen c < n"
  defines "c' \<equiv> spec_cx_sha3_block (sha3_pad_block ds c)"
  shows "sha3_acc c' = keccak_absorb (sha3_acc c) (take (sha3_blen c) (sha3_block c) @ pad_tail ds (n - sha3_blen c))"
    and "sha3_wf n c'" and "sha3_output_size c' = sha3_output_size c"
proof -
  note n = sha3_rate_laws [OF assms(1)]
  have wf: "sha3_wf n (sha3_pad_block ds c)" using assms(2,3) n by (simp add: sha3_pad_wf)
  then have eq: "c' = (sha3_pad_block ds c)\<lparr>sha3_acc := keccak_absorb (sha3_acc c)
      (take (sha3_blen c) (sha3_block c) @ pad_tail ds (n - sha3_blen c))\<rparr>"
    using sha3_block_step [OF assms(1), of "sha3_pad_block ds c"] sha3_pad_eq [OF assms(2,3) n(3), of ds]
    by (simp add: c'_def sha3_wf_def) (simp add: sha3_pad_block_def Let_def)
  show "sha3_acc c' = keccak_absorb (sha3_acc c) (take (sha3_blen c) (sha3_block c) @ pad_tail ds (n - sha3_blen c))"
    by (simp add: eq)
  show "sha3_wf n c'" using wf by (simp add: eq sha3_wf_def)
  show "sha3_output_size c' = sha3_output_size c" by (simp add: eq sha3_pad_block_def Let_def)
qed

text \<open>The squeezing loop writes the output of the sponge.\<close>

lemma length_keccak_squeeze:
  "length A = 25 \<Longrightarrow> 0 < n \<Longrightarrow> n \<le> 200 \<Longrightarrow> length (keccak_squeeze n d A) = d"
proof (induction n d A rule: keccak_squeeze.induct)
  case (1 n d A)
  then show ?case by (subst keccak_squeeze.simps) auto
qed

lemma mem_write_append:
  "off + length x \<le> length out \<Longrightarrow>
    mem_write (buf_write out off x) (off + length x) y = mem_write out off (x @ y)"
  by (auto simp: mem_write_def buf_write_def ac_simps)

lemma sha3_squeeze_eq:
  assumes "n \<in> sha3_rates" and "sha3_wf n c" and "take n (sha3_block c) = replicate n 0"
  shows "snd (sha3_squeeze n c d off out) = mem_write out off (keccak_squeeze n d (sha3_acc c))"
  using assms(2-)
proof (induction d arbitrary: c off out rule: less_induct)
  case (less d)
  note n = sha3_rate_laws [OF assms(1)]
  have len: "length (sha3_acc c) = 25" using less.prems(1) by (simp add: sha3_wf_def)
  show ?case
  proof (cases "n < d")
    case True
    let ?c = "spec_cx_sha3_block c" and ?w = "take n (bytes64_le (sha3_acc c))"
    have w: "length ?w = n" using len n by simp
    have c: "?c = c\<lparr>sha3_acc := keccak_f (sha3_acc c)\<rparr>"
      using sha3_block_step [OF assms(1)] less.prems len by (simp add: sha3_wf_def keccak_absorb_zero)
    have IH: "snd (sha3_squeeze n ?c (d - n) (off + n) out') =
        mem_write out' (off + n) (keccak_squeeze n (d - n) (keccak_f (sha3_acc c)))" for out'
      using less.IH [of "d - n" ?c "off + n" out'] less.prems True n by (simp add: c sha3_wf_def)
    show ?thesis
    proof (cases "off + n \<le> length out")
      case fits: True
      then have "mem_write out off ?w = Inr (buf_write out off ?w)" using w by (simp add: mem_write_def)
      then show ?thesis using True n(2) IH mem_write_append [of off ?w out] fits w
        by (subst sha3_squeeze.simps, subst keccak_squeeze.simps) simp
    next
      case False
      then show ?thesis using True n(2) w
        by (subst sha3_squeeze.simps, subst keccak_squeeze.simps) (simp add: mem_write_def)
    qed
  next
    case False
    then show ?thesis
      by (subst sha3_squeeze.simps, subst keccak_squeeze.simps) simp
  qed
qed

text \<open>The domain byte of an algorithm, and the digest of a context's algorithm.\<close>

definition sha3_domain :: "cx_md \<Rightarrow> u8" where
  "sha3_domain a = (if a = CX_KECCAK then 0x01 else if a = CX_SHA3 then 0x06 else 0x1F)"

definition sha3_fits :: "nat \<Rightarrow> cx_sha3 \<Rightarrow> bool" where
  "sha3_fits n c0 \<longleftrightarrow> sha3_start n c0 \<and>
     (sha3_algo c0 \<in> {CX_KECCAK, CX_SHA3} \<longrightarrow> sha3_output_size c0 \<le> n)"

definition sha3_absorbed :: "nat \<Rightarrow> cx_sha3 \<Rightarrow> cx_sha3 \<Rightarrow> bytes \<Rightarrow> bool" where
  "sha3_absorbed n c0 =
     counted_stream.absorbed n sha3_blen (\<lambda>c. take n (sha3_block c)) sha3_st (sha3_wf n) sha3_compress c0"

lemma sha3_final_digest:
  assumes "sha3_fits n c0" and "sha3_absorbed n c0 c m"
  shows "snd (spec_cx_sha3_final c (Some out)) =
    put_digest (keccak_sponge n (sha3_domain (sha3_algo c0)) (sha3_output_size c0) m) out"
proof -
  have start: "sha3_start n c0" using assms(1) by (simp add: sha3_fits_def)
  then have rate: "n \<in> sha3_rates" by (simp add: sha3_start_def)
  note n = sha3_rate_laws [OF rate]
  note ab = assms(2) [unfolded sha3_absorbed_def]
  note wf = counted_stream.absorbed_wf [OF sha3_stream [OF start] ab]
    and c = counted_stream.absorbedD [OF sha3_stream [OF start] ab]
  let ?ds = "sha3_domain (sha3_algo c0)" and ?d = "sha3_output_size c0"
  let ?p = "spec_cx_sha3_block (sha3_pad_block ?ds c)"
  have st: "sha3_acc c = foldl keccak_absorb (replicate 25 0) (chunks n m)" "sha3_algo c = sha3_algo c0"
      "sha3_output_size c = ?d"
    using c(1) start by (simp_all add: sha3_st_def sha3_start_def)
  note last = sha3_last_block [OF rate wf(1,2), of ?ds]
  have pend: "take (sha3_blen c) (sha3_block c) = chunk_rest n m" using c(2) wf(2) by (simp add: min_def)
  have acc: "sha3_acc ?p = foldl keccak_absorb (replicate 25 0) (chunks n (sponge_pad n ?ds m))"
    using last(1) n(2) unfolding pend by (simp add: st chunks_sponge_pad c(3))
  have guard: "\<not> (200 \<le> sha3_blen c \<or> sha3_block_size c = 0 \<or> 200 < sha3_block_size c)"
    using wf(1,2) n by (auto simp: sha3_wf_def)
  have len: "length (sha3_acc ?p) = 25" using last(2) by (simp add: sha3_wf_def)
  show ?thesis
  proof (cases "sha3_algo c0 = CX_KECCAK \<or> sha3_algo c0 = CX_SHA3")
    case True
    then have d: "?d \<le> n" using assms(1) by (auto simp: sha3_fits_def)
    then have "keccak_sponge n ?ds ?d m = take ?d (bytes64_le (sha3_acc ?p))"
      unfolding keccak_sponge_def by (subst keccak_squeeze.simps) (simp add: acc)
    then show ?thesis
      using True guard st last(3) d n(3)
      by (auto simp: spec_cx_sha3_final_def Let_def sha3_domain_def)
  next
    case False
    let ?q = "?p\<lparr>sha3_block := replicate 200 0\<rparr>"
    have q: "sha3_wf n ?q" "take n (sha3_block ?q) = replicate n 0" "sha3_output_size ?q = ?d"
      using last(2,3) n(3) st(3) by (simp_all add: sha3_wf_def min_def)
    have "snd (sha3_squeeze n ?q ?d 0 out) = mem_write out 0 (keccak_sponge n ?ds ?d m)"
      using sha3_squeeze_eq [OF rate q(1,2), of ?d 0 out] by (simp add: keccak_sponge_def acc)
    moreover have "snd (spec_cx_sha3_final c (Some out)) =
        res_bind (snd (sha3_squeeze n ?q ?d 0 out)) (\<lambda>out. Inr (1, Some out))"
      using False guard st q wf(1) by (simp add: spec_cx_sha3_final_def Let_def sha3_domain_def sha3_wf_def split: prod.splits)
    ultimately show ?thesis by (simp add: put_digest_def)
  qed
qed

text \<open>Every context the initialisations make meets the conditions.\<close>

lemma sha3_init_fits:
  "cx_sha3_init sz = Inr c0 \<Longrightarrow> sha3_fits ((1600 - 2 * sz) div 8) c0 \<and>
     sha3_algo c0 = CX_SHA3 \<and> sha3_output_size c0 = sz div 8"
  "cx_keccak_init sz = Inr c0 \<Longrightarrow> sha3_fits ((1600 - 2 * sz) div 8) c0 \<and>
     sha3_algo c0 = CX_KECCAK \<and> sha3_output_size c0 = sz div 8"
  "cx_sha3_xof_init sz d = Inr c0 \<Longrightarrow> sha3_fits ((1600 - 2 * sz) div 8) c0 \<and>
     sha3_algo c0 \<in> {CX_SHAKE128, CX_SHAKE256} \<and> sha3_output_size c0 = d"
  by (auto simp: cx_sha3_init_def cx_keccak_init_def cx_sha3_xof_init_def check_hash_out_size_def
      sha3_fits_def sha3_start_def sha3_rates_def sha3_wf_def sha3_zero_def split: if_splits)

lemma shake_init_xof:
  "8 dvd sz \<Longrightarrow> cx_sha3_xof_init 128 (sz div 8) = Inr (fst (cx_shake128_init sz))"
  "8 dvd sz \<Longrightarrow> cx_sha3_xof_init 256 (sz div 8) = Inr (fst (cx_shake256_init sz))"
  by (simp_all add: cx_sha3_xof_init_def cx_shake128_init_def cx_shake256_init_def)

lemma keccak_sponge_length:
  assumes "n \<in> sha3_rates"
  shows "length (keccak_sponge n ds d m) = d"
proof -
  have "length (foldl keccak_absorb (replicate 25 0) bs) = 25" for bs
    by (induction bs rule: rev_induct) simp_all
  then show ?thesis
    using sha3_rate_laws [OF assms] by (simp add: keccak_sponge_def length_keccak_squeeze)
qed

lemma sha3_hash_function:
  assumes "sha3_fits n c0"
  shows "hash_function c0 spec_cx_sha3_update spec_cx_sha3_final
    (\<lambda>c. sha3_block_size c = n \<and> sha3_blen c < n) (sha3_absorbed n c0)
    (keccak_sponge n (sha3_domain (sha3_algo c0)) (sha3_output_size c0)) (sha3_output_size c0) (65536 * n)"
proof -
  have start: "sha3_start n c0" using assms by (simp add: sha3_fits_def)
  then have rate: "n \<in> sha3_rates" by (simp add: sha3_start_def)
  note stream = sha3_stream [OF start]
  show ?thesis
  proof unfold_locales
    show "sha3_block_size c = n \<and> sha3_blen c < n" if "sha3_absorbed n c0 c m" for c m
      using counted_stream.absorbed_wf(1,2) [OF stream that [unfolded sha3_absorbed_def]]
      by (simp add: sha3_wf_def)
  qed (use counted_stream.absorbed_init [OF stream] counted_stream.absorbed_update [OF stream] rate
      sha3_final_digest [OF assms] keccak_sponge_length [OF rate] in \<open>simp_all add: sha3_absorbed_def\<close>)
qed

text \<open>The instances for the Ethereum hash and for SHAKE256 with 32 bytes of output.\<close>

definition keccak256_ctx :: cx_sha3 where
  "keccak256_ctx = sha3_zero\<lparr>sha3_algo := CX_KECCAK, sha3_output_size := 32, sha3_block_size := 136\<rparr>"

lemma keccak256_init: "cx_keccak_init 256 = Inr keccak256_ctx"
  by (simp add: cx_keccak_init_def cx_sha3_init_def check_hash_out_size_def keccak256_ctx_def)

interpretation keccak256: hash_function keccak256_ctx spec_cx_sha3_update spec_cx_sha3_final
  "\<lambda>c. sha3_block_size c = 136 \<and> sha3_blen c < 136" "sha3_absorbed 136 keccak256_ctx"
  "keccak_sponge 136 0x01 32" 32 "65536 * 136"
  using sha3_hash_function [of 136 keccak256_ctx] sha3_init_fits(2) [OF keccak256_init]
  by (simp add: sha3_domain_def)

text \<open>
  Property C38: the in-place permutation of the library, with its tables of rotations, lane moves
  and round constants, is Keccak-f[1600] as FIPS 202 defines it, where the offsets come from the
  walk over the lanes and the constants from the shift register.
\<close>

theorem sha3_permutation:
  assumes "length A = 25"
  shows "sha3_rounds A = keccak_f A"
  using sha3_rounds_eq [OF assms] .

theorem sha3_permutation_witness:
  "sha3_rounds (replicate 25 0) = keccak_f (replicate 25 0)"
  using sha3_permutation [of "replicate 25 0"] by simp

text \<open>
  Property C37: a context of \<open>cx_sha3_init\<close>, \<open>cx_keccak_init\<close> or \<open>cx_sha3_xof_init\<close> that has
  absorbed a message in any number of updates, up to 65536 blocks, gives the sponge output of
  exactly that message: its rate is \<open>(1600 - 2 * sz) / 8\<close>, its domain byte \<open>06\<close>, \<open>01\<close> or
  \<open>1F\<close>, and for the extendable functions the output has any requested length. The digest is
  written at the start of the buffer.
\<close>

theorem sha3_family_digest:
  assumes "cx_sha3_init sz = Inr c0 \<and> ds = 0x06 \<and> d = sz div 8 \<or>
           cx_keccak_init sz = Inr c0 \<and> ds = 0x01 \<and> d = sz div 8 \<or>
           cx_sha3_xof_init sz d = Inr c0 \<and> ds = 0x1F"
    and "n = (1600 - 2 * sz) div 8" and "length (concat ms) < 65536 * n" and "d \<le> length out"
  shows "\<exists>c. hash_function.updates spec_cx_sha3_update c0 ms = (c, Inr 1) \<and>
    snd (spec_cx_sha3_final c (Some out)) = Inr (1, Some (keccak_sponge n ds d (concat ms) @ drop d out))"
proof -
  have "sha3_fits n c0 \<and> sha3_domain (sha3_algo c0) = ds \<and> sha3_output_size c0 = d"
    using assms(1,2) by (auto simp: sha3_domain_def dest!: sha3_init_fits)
  then show ?thesis
    using hash_function.updates_digest [OF sha3_hash_function, of n c0 ms out] assms(3,4) by simp
qed

theorem sha3_family_digest_witness:
  "\<exists>c. hash_function.updates spec_cx_sha3_update keccak256_ctx [[97], [98, 99]] = (c, Inr 1) \<and>
    snd (spec_cx_sha3_final c (Some (replicate 32 0))) = Inr (1, Some (keccak_sponge 136 0x01 32 [97, 98, 99]))"
  using sha3_family_digest [of 256 keccak256_ctx "0x01" 32 136 "[[97], [98, 99]]" "replicate 32 0"] keccak256_init
  by simp

end
