(* ===== verification/Cx_Blake2b.thy ===== *)
theory Cx_Blake2b
  imports Hash_Interface
begin

text \<open>
  \<open>src/bolos/cx_blake2b.c\<close>: BLAKE2b with salt, personalisation and keys. Unlike the other hash
  functions the update keeps a full block back until more input comes, because the last block
  is compressed with the final flag. The reference is the definition of RFC 7693: a list of
  blocks, a byte count per block and a flag for the last one.
\<close>

section \<open>State and parameters\<close>

record blake2b_state =
  b2_h :: "u64 list"
  b2_t :: "u64 list"
  b2_f :: "u64 list"
  b2_buf :: bytes
  b2_buflen :: nat
  b2_outlen :: nat
  b2_last_node :: u8

record cx_blake2b =
  blake2b_algo :: cx_md
  blake2b_counter :: u32
  blake2b_output_size :: nat
  blake2b_ctx :: blake2b_state

record blake2b_param =
  digest_length :: u8
  key_length :: u8
  param_fanout :: u8
  param_depth :: u8
  leaf_length :: u32
  node_offset :: u32
  xof_length :: u32
  node_depth :: u8
  inner_length :: u8
  param_reserved :: bytes
  param_salt :: bytes
  param_personal :: bytes

definition load64 :: "bytes \<Rightarrow> u64" where
  "load64 p = push_bit 0 (ucast (p ! 0)) OR push_bit 8 (ucast (p ! 1)) OR push_bit 16 (ucast (p ! 2)) OR
     push_bit 24 (ucast (p ! 3)) OR push_bit 32 (ucast (p ! 4)) OR push_bit 40 (ucast (p ! 5)) OR
     push_bit 48 (ucast (p ! 6)) OR push_bit 56 (ucast (p ! 7))"

definition store32 :: "u32 \<Rightarrow> bytes" where
  "store32 w = [ucast (drop_bit 0 w), ucast (drop_bit 8 w), ucast (drop_bit 16 w), ucast (drop_bit 24 w)]"

definition store64 :: "u64 \<Rightarrow> bytes" where
  "store64 w = [ucast (drop_bit 0 w), ucast (drop_bit 8 w), ucast (drop_bit 16 w), ucast (drop_bit 24 w),
     ucast (drop_bit 32 w), ucast (drop_bit 40 w), ucast (drop_bit 48 w), ucast (drop_bit 56 w)]"

definition rotr64 :: "u64 \<Rightarrow> nat \<Rightarrow> u64" where
  "rotr64 w c = drop_bit c w OR push_bit (64 - c) w"

text \<open>The packed structure as the bytes that \<open>spec_blake2b_init_param\<close> reads.\<close>

definition param_bytes :: "blake2b_param \<Rightarrow> bytes" where
  "param_bytes P =
     [digest_length P, key_length P, param_fanout P, param_depth P] @ store32 (leaf_length P) @ store32 (node_offset P) @
     store32 (xof_length P) @ [node_depth P, inner_length P] @ param_reserved P @ param_salt P @ param_personal P"

definition blake2b_IV :: "u64 list" where
  "blake2b_IV =
    [0x6a09e667f3bcc908, 0xbb67ae8584caa73b, 0x3c6ef372fe94f82b, 0xa54ff53a5f1d36f1,
     0x510e527fade682d1, 0x9b05688c2b3e6c1f, 0x1f83d9abfb41bd6b, 0x5be0cd19137e2179]"

definition blake2b_sigma :: "nat list list" where
  "blake2b_sigma =
    [[0, 1, 2, 3, 4, 5, 6, 7, 8, 9, 10, 11, 12, 13, 14, 15],
     [14, 10, 4, 8, 9, 15, 13, 6, 1, 12, 0, 2, 11, 7, 5, 3],
     [11, 8, 12, 0, 5, 2, 15, 13, 10, 14, 3, 6, 7, 1, 9, 4],
     [7, 9, 3, 1, 13, 12, 11, 14, 2, 6, 5, 10, 4, 0, 15, 8],
     [9, 0, 5, 7, 2, 4, 10, 15, 14, 1, 11, 12, 6, 8, 3, 13],
     [2, 12, 6, 10, 0, 11, 8, 3, 4, 13, 7, 5, 15, 14, 1, 9],
     [12, 5, 1, 15, 14, 13, 4, 10, 0, 7, 6, 3, 9, 2, 8, 11],
     [13, 11, 7, 14, 12, 1, 3, 9, 5, 0, 15, 4, 8, 6, 2, 10],
     [6, 15, 14, 9, 11, 3, 0, 8, 12, 2, 13, 7, 1, 4, 10, 5],
     [10, 2, 8, 4, 7, 6, 1, 5, 15, 11, 9, 14, 3, 12, 13, 0],
     [0, 1, 2, 3, 4, 5, 6, 7, 8, 9, 10, 11, 12, 13, 14, 15],
     [14, 10, 4, 8, 9, 15, 13, 6, 1, 12, 0, 2, 11, 7, 5, 3]]"

definition blake2b_set_lastnode :: "blake2b_state \<Rightarrow> blake2b_state" where
  "blake2b_set_lastnode S = S\<lparr>b2_f := (b2_f S)[1 := - 1]\<rparr>"

definition blake2b_is_lastblock :: "blake2b_state \<Rightarrow> bool" where
  "blake2b_is_lastblock S \<longleftrightarrow> b2_f S ! 0 \<noteq> 0"

definition blake2b_set_lastblock :: "blake2b_state \<Rightarrow> blake2b_state" where
  "blake2b_set_lastblock S =
     (let S = (if b2_last_node S \<noteq> 0 then blake2b_set_lastnode S else S)
      in S\<lparr>b2_f := (b2_f S)[0 := - 1]\<rparr>)"

definition blake2b_increment_counter :: "blake2b_state \<Rightarrow> u64 \<Rightarrow> blake2b_state" where
  "blake2b_increment_counter S inc =
     (let t = (b2_t S)[0 := b2_t S ! 0 + inc]
      in S\<lparr>b2_t := t[1 := t ! 1 + (if t ! 0 < inc then 1 else 0)]\<rparr>)"

definition spec_blake2b_init0 :: "blake2b_state" where
  "spec_blake2b_init0 = \<lparr>b2_h = blake2b_IV, b2_t = [0, 0], b2_f = [0, 0], b2_buf = replicate 128 0,
     b2_buflen = 0, b2_outlen = 0, b2_last_node = 0\<rparr>"

definition spec_blake2b_init_param :: "blake2b_param \<Rightarrow> blake2b_state" where
  "spec_blake2b_init_param P =
     (let p = param_bytes P; S = spec_blake2b_init0;
          h = map (\<lambda>i. b2_h S ! i XOR load64 (drop (8 * i) p)) [0..<8]
      in S\<lparr>b2_h := h, b2_outlen := unat (digest_length P)\<rparr>)"

text \<open>The parameters both initialisations share; salt and personalisation overwrite zeros.\<close>

definition blake2b_default_param :: "nat \<Rightarrow> nat \<Rightarrow> blake2b_param" where
  "blake2b_default_param outlen keylen =
     \<lparr>digest_length = of_nat outlen, key_length = of_nat keylen, param_fanout = 1, param_depth = 1, leaf_length = 0,
      node_offset = 0, xof_length = 0, node_depth = 0, inner_length = 0, param_reserved = replicate 14 0,
      param_salt = replicate 16 0, param_personal = replicate 16 0\<rparr>"

definition put_param :: "bytes \<Rightarrow> bytes option \<Rightarrow> nat \<Rightarrow> bytes res" where
  "put_param field data len =
     (case data of None \<Rightarrow> Inr field | Some _ \<Rightarrow> res_bind (mem_arg data len) (mem_write field 0))"

definition spec_blake2b_init ::
  "nat \<Rightarrow> bytes option \<Rightarrow> nat \<Rightarrow> bytes option \<Rightarrow> nat \<Rightarrow> blake2b_state option res" where
  "spec_blake2b_init outlen sa salt_len pe personal_len =
     (if outlen = 0 \<or> 64 < outlen then Inr None
      else
        let P = blake2b_default_param outlen 0
        in res_bind (put_param (param_salt P) sa salt_len) (\<lambda>s.
           res_bind (put_param (param_personal P) pe personal_len) (\<lambda>q.
           Inr (Some (spec_blake2b_init_param (P\<lparr>param_salt := s, param_personal := q\<rparr>))))))"

section \<open>Compression\<close>

definition blake2b_G ::
  "u64 list \<Rightarrow> nat \<Rightarrow> nat \<Rightarrow> nat \<Rightarrow> nat \<Rightarrow> nat \<Rightarrow> nat \<Rightarrow> u64 list \<Rightarrow> u64 list" where
  "blake2b_G m r i a b c d v =
     (let v = v[a := v ! a + v ! b + m ! (blake2b_sigma ! r ! (2 * i + 0))];
          v = v[d := rotr64 (v ! d XOR v ! a) 32];
          v = v[c := v ! c + v ! d];
          v = v[b := rotr64 (v ! b XOR v ! c) 24];
          v = v[a := v ! a + v ! b + m ! (blake2b_sigma ! r ! (2 * i + 1))];
          v = v[d := rotr64 (v ! d XOR v ! a) 16];
          v = v[c := v ! c + v ! d];
          v = v[b := rotr64 (v ! b XOR v ! c) 63]
      in v)"

definition blake2b_round :: "u64 list \<Rightarrow> u64 list \<Rightarrow> nat \<Rightarrow> u64 list" where
  "blake2b_round m v r =
     (let v = foldl (\<lambda>v i. blake2b_G m r i i (4 + i) (8 + i) (12 + i) v) v [0..<4]
      in foldl (\<lambda>v i. blake2b_G m r (4 + i) i (4 + (i + 1) mod 4) (8 + (i + 2) mod 4) (12 + (i + 3) mod 4) v)
           v [0..<4])"

definition blake2b_compress :: "blake2b_state \<Rightarrow> bytes \<Rightarrow> blake2b_state" where
  "blake2b_compress S block =
     (let m = map (\<lambda>i. load64 (drop (8 * i) block)) [0..<16];
          v = map (\<lambda>i. b2_h S ! i) [0..<8] @
              [blake2b_IV ! 0, blake2b_IV ! 1, blake2b_IV ! 2, blake2b_IV ! 3,
               blake2b_IV ! 4 XOR b2_t S ! 0, blake2b_IV ! 5 XOR b2_t S ! 1,
               blake2b_IV ! 6 XOR b2_f S ! 0, blake2b_IV ! 7 XOR b2_f S ! 1];
          v = foldl (blake2b_round m) v [0..<12]
      in S\<lparr>b2_h := map (\<lambda>i. b2_h S ! i XOR v ! i XOR v ! (i + 8)) [0..<8]\<rparr>)"

section \<open>Update and finalisation\<close>

text \<open>The loop over the blocks that are taken directly from the input.\<close>

function blake2b_update_loop :: "blake2b_state \<Rightarrow> bytes \<Rightarrow> blake2b_state \<times> bytes" where
  "blake2b_update_loop S d =
     (if 128 < length d
      then blake2b_update_loop (blake2b_compress (blake2b_increment_counter S 128) (take 128 d)) (drop 128 d)
      else (S, d))"
  by pat_completeness auto
termination
  by (relation "measure (\<lambda>(S, d). length d)") auto

declare blake2b_update_loop.simps [simp del]

text \<open>
  The update. A pending length past the buffer makes \<open>BLAKE2B_BLOCKBYTES - left\<close> wrap to a huge
  \<open>fill\<close>; every copy then starts outside the buffer.
\<close>

definition spec_blake2b_update :: "blake2b_state \<Rightarrow> bytes option \<Rightarrow> nat \<Rightarrow> blake2b_state res" where
  "spec_blake2b_update S pin inlen =
     (if inlen = 0 then Inr S
      else res_bind (mem_arg pin inlen) (\<lambda>d.
        if 128 < b2_buflen S then Inl Oob
        else
          let left = b2_buflen S; fill = 128 - left;
              (S, d) =
                (if fill < inlen
                 then let S = S\<lparr>b2_buflen := 0, b2_buf := buf_write (b2_buf S) left (take fill d)\<rparr>;
                          S = blake2b_increment_counter S 128;
                          S = blake2b_compress S (b2_buf S)
                      in blake2b_update_loop S (drop fill d)
                 else (S, d))
          in res_bind (mem_write (b2_buf S) (b2_buflen S) d) (\<lambda>buf.
             Inr (S\<lparr>b2_buf := buf, b2_buflen := b2_buflen S + length d\<rparr>))))"

text \<open>
  The finalisation: \<open>None\<close> is the status -1, with the state unchanged. The digest is also kept at
  the start of the block buffer.
\<close>

definition spec_blake2b_final ::
  "blake2b_state \<Rightarrow> bytes option \<Rightarrow> nat \<Rightarrow> (blake2b_state \<times> bytes option \<times> bool) res" where
  "spec_blake2b_final S out outlen =
     (if (out \<noteq> None \<and> outlen < b2_outlen S) \<or> blake2b_is_lastblock S then Inr (S, out, False)
      else if 128 < b2_buflen S \<or> 64 < b2_outlen S then Inl Oob
      else
        let S = blake2b_increment_counter S (of_nat (b2_buflen S));
            S = blake2b_set_lastblock S;
            S = S\<lparr>b2_buf := buf_write (b2_buf S) (b2_buflen S) (replicate (128 - b2_buflen S) 0)\<rparr>;
            S = blake2b_compress S (b2_buf S);
            buffer = take (b2_outlen S) (concat (map store64 (b2_h S)));
            S = S\<lparr>b2_buf := buf_write (b2_buf S) 0 buffer\<rparr>
        in case out of
             None \<Rightarrow> Inr (S, None, True)
           | Some o1 \<Rightarrow> res_bind (mem_write o1 0 buffer) (\<lambda>o2. Inr (S, Some o2, True)))"

definition spec_blake2b_init_key :: "nat \<Rightarrow> bytes option \<Rightarrow> nat \<Rightarrow> blake2b_state option res" where
  "spec_blake2b_init_key outlen key keylen =
     (if outlen = 0 \<or> 64 < outlen then Inr None
      else if key = None \<or> keylen = 0 \<or> 64 < keylen then Inr None
      else
        let S = spec_blake2b_init_param (blake2b_default_param outlen keylen)
        in res_bind (mem_arg key keylen) (\<lambda>k.
           res_bind (spec_blake2b_update S (Some (buf_write (replicate 128 0) 0 k)) 128) (\<lambda>S. Inr (Some S))))"

section \<open>The library's context\<close>

definition cx_blake2b_init2 ::
  "nat \<Rightarrow> bytes option \<Rightarrow> nat \<Rightarrow> bytes option \<Rightarrow> nat \<Rightarrow> cx_blake2b res" where
  "cx_blake2b_init2 sz sa salt_len perso perso_len =
     (if sa = None \<and> salt_len \<noteq> 0 \<or> perso = None \<and> perso_len \<noteq> 0 \<or> 16 < salt_len \<or> 16 < perso_len \<or>
         sz mod 8 \<noteq> 0 \<or> sz < 8 \<or> 512 < sz
      then Inl (Throw INVALID_PARAMETER)
      else res_bind (spec_blake2b_init (sz div 8) sa salt_len perso perso_len) (\<lambda>r.
        case r of None \<Rightarrow> Inl (Throw INVALID_PARAMETER)
        | Some S \<Rightarrow> Inr \<lparr>blake2b_algo = CX_BLAKE2B, blake2b_counter = 0, blake2b_output_size = sz div 8,
                        blake2b_ctx = S\<rparr>))"

definition cx_blake2b_init :: "nat \<Rightarrow> cx_blake2b res" where
  "cx_blake2b_init sz = cx_blake2b_init2 sz None 0 None 0"

definition spec_cx_blake2b_update :: "cx_blake2b \<Rightarrow> bytes option \<Rightarrow> nat \<Rightarrow> cx_blake2b \<times> (c_error + nat)" where
  "spec_cx_blake2b_update ctx data len =
     (if data = None \<and> len \<noteq> 0 then (ctx, Inr 0)
      else case spec_blake2b_update (blake2b_ctx ctx) data len of
        Inl e \<Rightarrow> (ctx, Inl e)
      | Inr S \<Rightarrow> (ctx\<lparr>blake2b_ctx := S\<rparr>, Inr 1))"

definition spec_cx_blake2b_final ::
  "cx_blake2b \<Rightarrow> bytes option \<Rightarrow> cx_blake2b \<times> (c_error + nat \<times> bytes option)" where
  "spec_cx_blake2b_final ctx digest =
     (case spec_blake2b_final (blake2b_ctx ctx) digest (blake2b_output_size ctx) of
        Inl e \<Rightarrow> (ctx, Inl e)
      | Inr (S, out, ok) \<Rightarrow> (ctx\<lparr>blake2b_ctx := S\<rparr>, Inr (if ok then 1 else 0, out)))"

definition spec_cx_blake2b_get_output_size :: "cx_blake2b \<Rightarrow> nat" where
  "spec_cx_blake2b_get_output_size ctx = blake2b_output_size ctx"

definition cx_blake2b_validate_context :: "cx_blake2b \<Rightarrow> bool" where
  "cx_blake2b_validate_context ctx \<longleftrightarrow>
     \<not> (blake2b_output_size ctx < 1 \<or> 512 div 8 < blake2b_output_size ctx) \<and>
     \<not> (128 < b2_buflen (blake2b_ctx ctx) \<or> 128 < b2_outlen (blake2b_ctx ctx))"

text \<open>The one-call interface; \<open>last\<close> is \<open>mode & CX_LAST\<close>.\<close>

definition spec_cx_blake2b ::
  "cx_blake2b \<Rightarrow> bool \<Rightarrow> bytes option \<Rightarrow> nat \<Rightarrow> bytes option \<Rightarrow> nat \<Rightarrow>
     cx_blake2b \<times> (c_error + nat \<times> bytes option)" where
  "spec_cx_blake2b ctx is_last data len out out_len =
     (case spec_blake2b_update (blake2b_ctx ctx) data len of
        Inl e \<Rightarrow> (ctx, Inl e)
      | Inr S \<Rightarrow>
          (let ctx = ctx\<lparr>blake2b_ctx := S\<rparr> in
           if \<not> is_last then (ctx, Inr (0, out))
           else if out \<noteq> None \<and> out_len < blake2b_output_size ctx then (ctx, Inl (Throw INVALID_PARAMETER))
           else case spec_blake2b_final S out out_len of
             Inl e \<Rightarrow> (ctx, Inl e)
           | Inr (S, out, ok) \<Rightarrow>
               if ok then (ctx\<lparr>blake2b_ctx := S\<rparr>, Inr (blake2b_output_size ctx, out))
               else (ctx\<lparr>blake2b_ctx := S\<rparr>, Inl (Throw INVALID_PARAMETER))))"

section \<open>BLAKE2b as in RFC 7693\<close>

definition rfc7693_G :: "u64 list \<Rightarrow> nat \<Rightarrow> nat \<Rightarrow> nat \<Rightarrow> nat \<Rightarrow> u64 \<Rightarrow> u64 \<Rightarrow> u64 list" where
  "rfc7693_G v a b c d x y =
     (let va = v ! a + v ! b + x;
          vd = word_rotr 32 (v ! d XOR va);
          vc = v ! c + vd;
          vb = word_rotr 24 (v ! b XOR vc);
          va' = va + vb + y;
          vd' = word_rotr 16 (vd XOR va');
          vc' = vc + vd';
          vb' = word_rotr 63 (vb XOR vc')
      in v[a := va', b := vb', c := vc', d := vd'])"

definition rfc7693_lanes :: "(nat \<times> nat \<times> nat \<times> nat \<times> nat) list" where
  "rfc7693_lanes = [(0, 0, 4, 8, 12), (1, 1, 5, 9, 13), (2, 2, 6, 10, 14), (3, 3, 7, 11, 15),
     (4, 0, 5, 10, 15), (5, 1, 6, 11, 12), (6, 2, 7, 8, 13), (7, 3, 4, 9, 14)]"

definition rfc7693_round :: "nat list \<Rightarrow> u64 list \<Rightarrow> u64 list \<Rightarrow> u64 list" where
  "rfc7693_round s m v =
     foldl (\<lambda>v (k, a, b, c, d). rfc7693_G v a b c d (m ! (s ! (2 * k))) (m ! (s ! (2 * k + 1)))) v rfc7693_lanes"

text \<open>There are ten permutations; round \<open>i\<close> takes the one of \<open>i mod 10\<close>.\<close>

definition rfc7693_F :: "u64 list \<Rightarrow> bytes \<Rightarrow> nat \<Rightarrow> bool \<Rightarrow> u64 list" where
  "rfc7693_F h block t fin =
     (let v = h @ take 4 blake2b_IV @
            [blake2b_IV ! 4 XOR of_nat t, blake2b_IV ! 5 XOR of_nat (t div 2 ^ 64),
             if fin then NOT (blake2b_IV ! 6) else blake2b_IV ! 6, blake2b_IV ! 7];
          v = foldl (\<lambda>v i. rfc7693_round (blake2b_sigma ! (i mod 10)) (words64_le block) v) v [0..<12]
      in map (\<lambda>i. h ! i XOR v ! i XOR v ! (i + 8)) [0..<8])"

text \<open>
  The first \<open>q\<close> blocks of a message, each with the count of bytes up to its end, and the digest:
  all blocks but the last, then the last one padded with zeros.
\<close>

definition rfc7693_blocks :: "u64 list \<Rightarrow> bytes \<Rightarrow> nat \<Rightarrow> u64 list" where
  "rfc7693_blocks h m q = foldl (\<lambda>h i. rfc7693_F h (take 128 (drop (128 * i) m)) (128 * (i + 1)) False) h [0..<q]"

definition rfc7693_digest :: "u64 list \<Rightarrow> nat \<Rightarrow> bytes \<Rightarrow> bytes" where
  "rfc7693_digest h n m =
     (let q = (length m - 1) div 128; b = drop (128 * q) m
      in take n (bytes64_le (rfc7693_F (rfc7693_blocks h m q) (b @ replicate (128 - length b) 0) (length m) True)))"

section \<open>The compression is the one of the standard\<close>

lemma rotr64_word_rotr: "0 < c \<Longrightarrow> c < 64 \<Longrightarrow> rotr64 w c = word_rotr c w"
  unfolding rotr64_def using cx_rotr64_word_rotr [of c w] by (simp add: cx_rotr64_def or.commute)

lemma load64_bytes:
  "push_bit 0 (ucast a) OR push_bit 8 (ucast b) OR push_bit 16 (ucast c) OR push_bit 24 (ucast d) OR
   push_bit 32 (ucast e) OR push_bit 40 (ucast f) OR push_bit 48 (ucast g) OR push_bit 56 (ucast h) =
   u64_of_le [a, b, c, d, e, f, g, h]" (is "?l = ?r")
proof (rule bit_word_eqI)
  fix n assume n: "n < LENGTH(64)"
  have r: "?r = ucast (u32_of_le [a, b, c, d]) OR push_bit 32 (ucast (u32_of_le [e, f, g, h]))"
    by (simp add: u64_of_le_def)
  show "bit ?l n = bit ?r n"
  proof (cases "n < 32")
    case True
    then show ?thesis unfolding r
      by (cases n rule: byte_cases)
        (auto simp del: u32_of_le.simps simp add: u32_of_le_Cons bit_simps not_bit_byte)
  next
    case False
    define k where "k = n - 32"
    then have k: "n = k + 32" "k < 32" using False n by auto
    show ?thesis unfolding r k(1) using k(2)
      by (cases k rule: byte_cases)
        (auto simp del: u32_of_le.simps simp add: u32_of_le_Cons bit_simps not_bit_byte)
  qed
qed

lemma load64_le: "8 \<le> length p \<Longrightarrow> load64 p = u64_of_le (take 8 p)"
proof -
  assume "8 \<le> length p"
  then obtain a b c d e f g h where p: "take 8 p = [a, b, c, d, e, f, g, h]"
    by (metis length_8E length_take min.absorb2)
  have "p ! i = [a, b, c, d, e, f, g, h] ! i" if "i < 8" for i
    using nth_take [OF that, of p] p by simp
  then show ?thesis unfolding p by (simp add: load64_def flip: load64_bytes)
qed

lemma store32_le: "store32 w = le_of_u32 w"
  by (simp add: store32_def le_of_u32_def)

lemma store64_le: "store64 = le_of_u64"
  by (rule ext) (auto intro!: byte_eqI simp: store64_def le_of_u64_def le_of_u32_def bit_simps)

lemma nth_chunks: "0 < n \<Longrightarrow> i < length xs div n \<Longrightarrow> chunks n xs ! i = take n (drop (n * i) xs)"
proof (induction n xs arbitrary: i rule: chunks.induct)
  case (1 n xs)
  then have len: "n \<le> length xs"
    by (metis div_less less_nat_zero_code not_le_imp_less)
  show ?case
  proof (cases i)
    case 0 then show ?thesis using len 1(2) by (subst chunks.simps) simp
  next
    case (Suc j)
    have "j < length (drop n xs) div n" using 1(2,3) len Suc by (simp add: le_div_geq)
    then have "chunks n (drop n xs) ! j = take n (drop (n * j) (drop n xs))"
      using 1(1,2) len by simp
    then show ?thesis using len 1(2) Suc by (subst chunks.simps) (simp add: add.commute)
  qed
qed

lemma load_block: "length b = 8 * k \<Longrightarrow> map (\<lambda>i. load64 (drop (8 * i) b)) [0..<k] = words64_le b"
  by (rule nth_equalityI) (simp_all add: words64_le_def length_chunks nth_chunks load64_le)

lemma xor_load_block:
  "length iv = k \<Longrightarrow> length b = 8 * k \<Longrightarrow>
    map (\<lambda>i. iv ! i XOR load64 (drop (8 * i) b)) [0..<k] = map2 (XOR) iv (words64_le b)"
  by (rule nth_equalityI) (simp_all flip: load_block)

lemma list_update_twice:
  assumes "distinct [a, b, c, d]"
  shows "v[a := a1, d := d1, c := c1, b := b1, a := a2, d := d2, c := c2, b := b2] =
    v[a := a2, b := b2, c := c2, d := d2]"
proof -
  have "v[a := a1, d := d1, c := c1, b := b1, a := a2, d := d2, c := c2, b := b2] =
      v[a := a1, a := a2, d := d1, c := c1, b := b1, d := d2, c := c2, b := b2]"
    using assms by (simp add: list_update_swap [of a d] list_update_swap [of a c] list_update_swap [of a b])
  also have "\<dots> = v[a := a2, d := d1, d := d2, c := c1, b := b1, c := c2, b := b2]"
    using assms by (simp add: list_update_swap [of d c] list_update_swap [of d b])
  also have "\<dots> = v[a := a2, d := d2, c := c1, c := c2, b := b1, b := b2]"
    using assms by (simp add: list_update_swap [of c b])
  also have "\<dots> = v[a := a2, b := b2, c := c2, d := d2]"
    using assms by (simp add: list_update_swap [of d c] list_update_swap [of d b] list_update_swap [of c b])
  finally show ?thesis .
qed

lemma blake2b_G_eq:
  assumes "distinct [a, b, c, d]" and "\<forall>x \<in> {a, b, c, d}. x < length v"
  shows "blake2b_G m r i a b c d v =
    rfc7693_G v a b c d (m ! (blake2b_sigma ! r ! (2 * i))) (m ! (blake2b_sigma ! r ! (2 * i + 1)))"
proof -
  have "a < length v" "b < length v" "c < length v" "d < length v"
    "a \<noteq> b" "a \<noteq> c" "a \<noteq> d" "b \<noteq> a" "b \<noteq> c" "b \<noteq> d" "c \<noteq> a" "c \<noteq> b" "c \<noteq> d" "d \<noteq> a" "d \<noteq> b" "d \<noteq> c"
    using assms by auto
  note index = this
  have rot: "rotr64 w 32 = word_rotr 32 w" "rotr64 w 24 = word_rotr 24 w" "rotr64 w 16 = word_rotr 16 w"
    "rotr64 w 63 = word_rotr 63 w" for w
    by (simp_all add: rotr64_word_rotr)
  show ?thesis
    unfolding blake2b_G_def rfc7693_G_def rot add_0_right
    by (simp only: Let_def index if_False if_True not_False_eq_True nth_list_update_eq nth_list_update_neq
        length_list_update list_update_twice [OF assms(1)])
qed

lemma length_rfc7693_G [simp]: "length (rfc7693_G v a b c d x y) = length v"
  by (simp add: rfc7693_G_def Let_def)

lemma length_rfc7693_round [simp]: "length (rfc7693_round s m v) = length v"
  by (simp add: rfc7693_round_def rfc7693_lanes_def)

lemma blake2b_round_eq:
  assumes "length v = 16"
  shows "blake2b_round m v r = rfc7693_round (blake2b_sigma ! r) m v"
proof -
  have upt: "[0..<4] = [0, 1, 2, 3 :: nat]" by (simp add: upt_conv_Cons)
  show ?thesis
    using assms by (simp add: blake2b_round_def rfc7693_round_def rfc7693_lanes_def Let_def upt blake2b_G_eq)
qed

lemma blake2b_sigma_mod: "r < 12 \<Longrightarrow> blake2b_sigma ! (r mod 10) = blake2b_sigma ! r"
proof -
  assume "r < 12"
  then consider "r < 10" | "r = 10" | "r = 11" by linarith
  then show ?thesis by cases (simp_all add: blake2b_sigma_def)
qed

lemma length_rfc7693_rounds [simp]: "length (foldl (\<lambda>v i. rfc7693_round (s i) m v) v is) = length v"
  by (induction "is" arbitrary: v) simp_all

lemma blake2b_rounds_eq:
  assumes "length v = 16" and "n \<le> 12"
  shows "foldl (blake2b_round m) v [0..<n] =
    foldl (\<lambda>v i. rfc7693_round (blake2b_sigma ! (i mod 10)) m v) v [0..<n]"
  using assms(2) by (induction n) (simp_all add: assms(1) blake2b_round_eq blake2b_sigma_mod)

text \<open>The byte counter is a 128-bit number in two words.\<close>

definition count128 :: "nat \<Rightarrow> u64 list" where
  "count128 k = [of_nat k, of_nat (k div 2 ^ 64)]"

lemma count128_0: "count128 0 = [0, 0]"
  by (simp add: count128_def)

lemma add_div_carry:
  fixes k i M :: nat
  assumes "i < M"
  shows "(k + i) div M = k div M + (if M \<le> k mod M + i then 1 else 0)"
    and "(k + i) mod M < i \<longleftrightarrow> M \<le> k mod M + i"
proof -
  have k: "k mod M < M" using assms by simp
  have eq: "k + i = (k mod M + i) + M * (k div M)" by (simp add: add.commute)
  have d: "(k + i) div M = (k mod M + i) div M + k div M"
    unfolding eq using assms by (subst div_mult_self2) simp_all
  have m: "(k + i) mod M = (k mod M + i) mod M" by (simp add: mod_add_left_eq)
  show "(k + i) div M = k div M + (if M \<le> k mod M + i then 1 else 0)"
  proof (cases "M \<le> k mod M + i")
    case True
    then have "k mod M + i - M < M" using assms k by linarith
    then show ?thesis unfolding d using True assms by (simp add: le_div_geq)
  qed (simp add: d)
  show "(k + i) mod M < i \<longleftrightarrow> M \<le> k mod M + i"
  proof (cases "M \<le> k mod M + i")
    case True
    then have "k mod M + i - M < M" "k mod M + i - M < i" using assms k by linarith+
    then show ?thesis unfolding m using True assms by (simp add: le_mod_geq)
  qed (simp add: m)
qed

lemma b2_buf_increment_counter [simp]: "b2_buf (blake2b_increment_counter S i) = b2_buf S"
  by (simp add: blake2b_increment_counter_def Let_def)

lemma increment_counter:
  assumes "b2_t S = count128 k" and "i < 2 ^ 64"
  shows "blake2b_increment_counter S (of_nat i) = S\<lparr>b2_t := count128 (k + i)\<rparr>"
proof -
  have "(of_nat (k + i) :: u64) < of_nat i \<longleftrightarrow> 2 ^ 64 \<le> k mod 2 ^ 64 + i"
    unfolding word_less_nat_alt using add_div_carry(2) [OF assms(2), of k] assms(2)
    by (simp add: unat_of_nat del: of_nat_add)
  moreover have "of_nat ((k + i) div 2 ^ 64) = (of_nat (k div 2 ^ 64) :: u64) +
      (if 2 ^ 64 \<le> k mod 2 ^ 64 + i then 1 else 0)"
    unfolding add_div_carry(1) [OF assms(2), of k] by simp
  ultimately show ?thesis
    unfolding blake2b_increment_counter_def assms(1) count128_def Let_def
    by (simp only: list_update_code nth_Cons_0 One_nat_def nth_Cons_Suc of_nat_add)
qed

lemma blake2b_compress_eq:
  assumes "b2_t S = count128 k" and "b2_f S = [if fin then - 1 else 0, 0]"
    and "length (b2_h S) = 8" and "length block = 128"
  shows "blake2b_compress S block = S\<lparr>b2_h := rfc7693_F (b2_h S) block k fin\<rparr>"
proof -
  define v where "v = b2_h S @ take 4 blake2b_IV @
    [blake2b_IV ! 4 XOR of_nat k, blake2b_IV ! 5 XOR of_nat (k div 2 ^ 64),
     if fin then NOT (blake2b_IV ! 6) else blake2b_IV ! 6, blake2b_IV ! 7]"
  have h: "map ((!) (b2_h S)) [0..<8] = b2_h S" using map_nth [of "b2_h S"] assms(3) by simp
  have iv: "take 4 blake2b_IV = [blake2b_IV ! 0, blake2b_IV ! 1, blake2b_IV ! 2, blake2b_IV ! 3]"
    by (simp add: blake2b_IV_def)
  have len: "length v = 16" using assms(3) by (simp add: v_def iv)
  have v: "map ((!) (b2_h S)) [0..<8] @
      [blake2b_IV ! 0, blake2b_IV ! 1, blake2b_IV ! 2, blake2b_IV ! 3,
       blake2b_IV ! 4 XOR b2_t S ! 0, blake2b_IV ! 5 XOR b2_t S ! 1,
       blake2b_IV ! 6 XOR b2_f S ! 0, blake2b_IV ! 7 XOR b2_f S ! 1] = v"
    unfolding h using assms(1,2) by (simp add: v_def iv count128_def)
  have m: "map (\<lambda>i. load64 (drop (8 * i) block)) [0..<16] = words64_le block"
    using load_block [of block 16] assms(4) by simp
  show ?thesis
    unfolding blake2b_compress_def rfc7693_F_def Let_def m
      v v_def [symmetric] blake2b_rounds_eq [OF len order_refl] ..
qed

lemma length_rfc7693_F [simp]: "length (rfc7693_F h b t fin) = 8"
  by (simp add: rfc7693_F_def Let_def)

section \<open>Streaming\<close>

definition blake2b_full :: "bytes \<Rightarrow> nat" where
  "blake2b_full m = (length m - 1) div 128"

definition blake2b_absorbed :: "u64 list \<Rightarrow> nat \<Rightarrow> blake2b_state \<Rightarrow> bytes \<Rightarrow> bool" where
  "blake2b_absorbed h n S m \<longleftrightarrow> length h = 8 \<and> b2_h S = rfc7693_blocks h m (blake2b_full m) \<and>
     b2_t S = count128 (128 * blake2b_full m) \<and> b2_f S = [0, 0] \<and> length (b2_buf S) = 128 \<and>
     b2_buflen S = length m - 128 * blake2b_full m \<and>
     take (b2_buflen S) (b2_buf S) = drop (128 * blake2b_full m) m \<and> b2_outlen S = n \<and> b2_last_node S = 0"

lemma blake2b_absorbedD:
  assumes "blake2b_absorbed h n S m"
  shows "length h = 8" "b2_h S = rfc7693_blocks h m (blake2b_full m)" "b2_t S = count128 (128 * blake2b_full m)"
    "b2_f S = [0, 0]" "length (b2_buf S) = 128" "b2_buflen S = length m - 128 * blake2b_full m"
    "take (b2_buflen S) (b2_buf S) = drop (128 * blake2b_full m) m" "b2_outlen S = n" "b2_last_node S = 0"
  using assms unfolding blake2b_absorbed_def by blast+

lemma blake2b_fullI: "128 * q < length m \<Longrightarrow> length m \<le> 128 * q + 128 \<Longrightarrow> blake2b_full m = q"
proof -
  assume "128 * q < length m" and "length m \<le> 128 * q + 128"
  then have "128 * q \<le> length m - 1" "length m - 1 < 128 * Suc q" by auto
  then show ?thesis unfolding blake2b_full_def by (rule div_nat_eqI)
qed

lemma blake2b_full_bounds:
  shows "128 * blake2b_full m \<le> length m" and "length m - 128 * blake2b_full m \<le> 128"
    and "m \<noteq> [] \<Longrightarrow> 128 * blake2b_full m < length m"
proof -
  have "length m - 1 = 128 * blake2b_full m + (length m - 1) mod 128" by (simp add: blake2b_full_def)
  moreover have "(length m - 1) mod 128 < 128" by simp
  moreover have "m \<noteq> [] \<Longrightarrow> 0 < length m" by simp
  ultimately show "128 * blake2b_full m \<le> length m" "length m - 128 * blake2b_full m \<le> 128"
    "m \<noteq> [] \<Longrightarrow> 128 * blake2b_full m < length m"
    by linarith+
qed

lemma rfc7693_blocks_append:
  "128 * q \<le> length m \<Longrightarrow> rfc7693_blocks h (m @ d) q = rfc7693_blocks h m q"
  unfolding rfc7693_blocks_def by (rule foldl_cong) auto

lemma rfc7693_blocks_Suc:
  "rfc7693_blocks h m (Suc q) =
    rfc7693_F (rfc7693_blocks h m q) (take 128 (drop (128 * q) m)) (128 * q + 128) False"
  by (simp add: rfc7693_blocks_def add.commute)

lemma length_rfc7693_blocks [simp]: "length h = 8 \<Longrightarrow> length (rfc7693_blocks h m q) = 8"
  by (cases q) (simp_all add: rfc7693_blocks_def)

text \<open>One more full block of the message.\<close>

lemma blake2b_block_step:
  assumes "length h = 8" and "b2_h S = rfc7693_blocks h m q" and "b2_t S = count128 (128 * q)"
    and "b2_f S = [0, 0]" and "128 * q + 128 \<le> length m" and "b = take 128 (drop (128 * q) m)"
  shows "blake2b_compress (blake2b_increment_counter S 128) b =
    S\<lparr>b2_h := rfc7693_blocks h m (Suc q), b2_t := count128 (128 * Suc q)\<rparr>"
proof -
  have "blake2b_increment_counter S 128 = S\<lparr>b2_t := count128 (128 * q + 128)\<rparr>"
    using increment_counter [OF assms(3), of 128] by simp
  then show ?thesis
    using blake2b_compress_eq [of "S\<lparr>b2_t := count128 (128 * q + 128)\<rparr>" "128 * q + 128" False b] assms
    by (simp add: rfc7693_blocks_Suc add.commute)
qed

lemma blake2b_loop_blocks:
  assumes "length h = 8" and "b2_h S = rfc7693_blocks h m q" and "b2_t S = count128 (128 * q)"
    and "b2_f S = [0, 0]" and "d = drop (128 * q) m" and "d \<noteq> []"
  shows "blake2b_update_loop S d = (S\<lparr>b2_h := rfc7693_blocks h m (blake2b_full m),
    b2_t := count128 (128 * blake2b_full m)\<rparr>, drop (128 * blake2b_full m) m)"
  using assms
proof (induction S d arbitrary: q rule: blake2b_update_loop.induct)
  case (1 S d)
  show ?case
  proof (cases "128 < length d")
    case True
    let ?S = "S\<lparr>b2_h := rfc7693_blocks h m (Suc q), b2_t := count128 (128 * Suc q)\<rparr>"
    have "128 * q + 128 < length m" using True 1(6) by simp
    then have step: "blake2b_compress (blake2b_increment_counter S 128) (take 128 d) = ?S"
      using 1 by (intro blake2b_block_step) simp_all
    have "drop 128 d = drop (128 * Suc q) m" "drop 128 d \<noteq> []" using True 1(6) by (simp_all add: add.commute)
    with 1(1) [OF True, of "Suc q"] 1(2,5) have "blake2b_update_loop ?S (drop 128 d) =
        (?S\<lparr>b2_h := rfc7693_blocks h m (blake2b_full m), b2_t := count128 (128 * blake2b_full m)\<rparr>,
         drop (128 * blake2b_full m) m)"
      unfolding step by simp
    then show ?thesis using True step by (subst blake2b_update_loop.simps) simp
  next
    case False
    then have "blake2b_full m = q" using 1(6,7) by (intro blake2b_fullI) auto
    then show ?thesis using False 1 by (subst blake2b_update_loop.simps) simp
  qed
qed

lemma blake2b_absorbed_update:
  assumes "blake2b_absorbed h n S m"
  shows "\<exists>S'. spec_blake2b_update S (Some d) (length d) = Inr S' \<and> blake2b_absorbed h n S' (m @ d)"
proof (cases "d = []")
  case True
  then show ?thesis using assms by (simp add: spec_blake2b_update_def)
next
  case False
  let ?q = "blake2b_full m" and ?l = "b2_buflen S"
  note q = blake2b_full_bounds [of m]
  note S = blake2b_absorbedD [OF assms(1)]
  have l: "?l \<le> 128" using q(2) S(6) by simp
  show ?thesis
  proof (cases "128 - ?l < length d")
    case fits: False
    have "blake2b_full (m @ d) = ?q"
    proof (rule blake2b_fullI)
      have "0 < length d" using False by simp
      then show "128 * ?q < length (m @ d)" using q(1) unfolding length_append by linarith
      show "length (m @ d) \<le> 128 * ?q + 128" using q(1) S(6) l fits by simp
    qed
    then have "blake2b_absorbed h n (S\<lparr>b2_buf := buf_write (b2_buf S) ?l d, b2_buflen := ?l + length d\<rparr>) (m @ d)"
      using S(1-5,8,9) q(1) l fits take_buf_write [of ?l "b2_buf S" d] S(7)
      by (simp add: blake2b_absorbed_def rfc7693_blocks_append) (simp add: S(6))
    then show ?thesis using False fits S(5) l by (simp add: spec_blake2b_update_def mem_write_def Let_def)
  next
    case True
    let ?fill = "128 - ?l" and ?M = "m @ d"
    let ?S = "S\<lparr>b2_buflen := 0, b2_buf := buf_write (b2_buf S) ?l (take ?fill d)\<rparr>"
    have b: "b2_buf ?S = take 128 (drop (128 * ?q) ?M)"
      using S(5-7) q(1) l True by (simp add: buf_write_def)
    have step: "blake2b_compress (blake2b_increment_counter ?S 128) (b2_buf ?S) =
        ?S\<lparr>b2_h := rfc7693_blocks h ?M (Suc ?q), b2_t := count128 (128 * Suc ?q)\<rparr>"
      using S q True b by (intro blake2b_block_step) (simp_all add: rfc7693_blocks_append)
    have rest: "drop ?fill d = drop (128 * Suc ?q) ?M" "drop ?fill d \<noteq> []"
      using S(6) q(1,2) True by auto
    let ?S' = "?S\<lparr>b2_h := rfc7693_blocks h ?M (blake2b_full ?M), b2_t := count128 (128 * blake2b_full ?M)\<rparr>"
    have loop: "blake2b_update_loop (?S\<lparr>b2_h := rfc7693_blocks h ?M (Suc ?q), b2_t := count128 (128 * Suc ?q)\<rparr>)
        (drop ?fill d) = (?S', drop (128 * blake2b_full ?M) ?M)"
      using blake2b_loop_blocks [OF S(1) _ _ _ rest, of "?S\<lparr>b2_h := rfc7693_blocks h ?M (Suc ?q), b2_t := count128 (128 * Suc ?q)\<rparr>"]
        S(4) by simp
    let ?r = "drop (128 * blake2b_full ?M) ?M"
    have len: "length ?r \<le> 128" "length (b2_buf ?S) = 128"
      using blake2b_full_bounds(2) [of ?M] S(5) l True by (simp_all del: length_append drop_append)
    have "spec_blake2b_update S (Some d) (length d) =
        Inr (?S'\<lparr>b2_buf := buf_write (b2_buf ?S') 0 ?r, b2_buflen := length ?r\<rparr>)"
      using False True l len step loop
      by (simp add: spec_blake2b_update_def Let_def mem_write_def)
    moreover have "blake2b_absorbed h n (?S'\<lparr>b2_buf := buf_write (b2_buf ?S') 0 ?r, b2_buflen := length ?r\<rparr>) ?M"
      using S(1,4,8,9) len take_buf_write [of 0 "b2_buf ?S'" ?r] by (simp add: blake2b_absorbed_def)
    ultimately show ?thesis by blast
  qed
qed

lemma blake2b_absorbed_final:
  assumes "blake2b_absorbed h n S m" and "n \<le> 64" and "n \<le> outlen"
  shows "\<exists>S'. spec_blake2b_final S (Some out) outlen =
    res_bind (mem_write out 0 (rfc7693_digest h n m)) (\<lambda>o2. Inr (S', Some o2, True))"
proof -
  let ?q = "blake2b_full m" and ?l = "b2_buflen S"
  note q = blake2b_full_bounds [of m]
  note S = blake2b_absorbedD [OF assms(1)]
  have l: "?l \<le> 128" using q(2) S(6) by simp
  let ?b = "drop (128 * ?q) m @ replicate (128 - ?l) 0"
  let ?S = "S\<lparr>b2_t := count128 (length m), b2_f := [- 1, 0], b2_buf := ?b\<rparr>"
  have inc: "blake2b_increment_counter S (of_nat ?l) = S\<lparr>b2_t := count128 (length m)\<rparr>"
    using increment_counter [OF S(3), of ?l] l S(6) q(1) by simp
  have buf: "buf_write (b2_buf S) ?l (replicate (128 - ?l) 0) = ?b"
    using S(5,7) l by (simp add: buf_write_def)
  have comp: "blake2b_compress ?S ?b = ?S\<lparr>b2_h := rfc7693_F (rfc7693_blocks h m ?q) ?b (length m) True\<rparr>"
    using blake2b_compress_eq [of ?S "length m" True ?b] S(1,2,6) l by simp
  have dig: "take n (concat (map store64 (rfc7693_F (rfc7693_blocks h m ?q) ?b (length m) True))) = rfc7693_digest h n m"
    unfolding rfc7693_digest_def Let_def blake2b_full_def [symmetric] S(6)
    by (simp add: bytes64_le_def store64_le)
  show ?thesis
    using S(4,5,8,9) assms(2,3) l comp dig
    by (simp add: spec_blake2b_final_def blake2b_is_lastblock_def blake2b_set_lastblock_def inc buf Let_def)
      (rule exI, rule refl)
qed

section \<open>Initial states\<close>

text \<open>
  The parameter block: digest length, key length, fanout and depth 1, zeros, the salt and the
  personalisation, each padded to sixteen bytes. The chaining value starts as the initialisation
  vector xored with it.
\<close>

definition pad16 :: "bytes \<Rightarrow> bytes" where
  "pad16 b = b @ replicate (16 - length b) 0"

definition rfc7693_h :: "nat \<Rightarrow> nat \<Rightarrow> bytes \<Rightarrow> bytes \<Rightarrow> u64 list" where
  "rfc7693_h n k sa pe =
     map2 (XOR) blake2b_IV (words64_le ([of_nat n, of_nat k, 1, 1] @ replicate 28 0 @ pad16 sa @ pad16 pe))"

lemma length_rfc7693_h [simp]: "length sa \<le> 16 \<Longrightarrow> length pe \<le> 16 \<Longrightarrow> length (rfc7693_h n k sa pe) = 8"
  by (simp add: rfc7693_h_def pad16_def blake2b_IV_def)

lemma blake2b_init_param_absorbed:
  assumes "n \<le> 64" and "length sa \<le> 16" and "length pe \<le> 16"
  shows "blake2b_absorbed (rfc7693_h n k sa pe) n (spec_blake2b_init_param
    ((blake2b_default_param n k)\<lparr>param_salt := pad16 sa, param_personal := pad16 pe\<rparr>)) []"
proof -
  let ?P = "(blake2b_default_param n k)\<lparr>param_salt := pad16 sa, param_personal := pad16 pe\<rparr>"
  let ?p = "[of_nat n, of_nat k, 1, 1] @ replicate 28 0 @ pad16 sa @ pad16 pe"
  have zeros: "[0, 0, 0, 0] @ [0, 0, 0, 0] @ [0, 0, 0, 0] @ [0, 0] @ replicate 14 0 = replicate 28 (0 :: u8)"
    by (simp add: numeral_eq_Suc)
  have "param_bytes ?P = ?p"
    unfolding zeros [symmetric] by (simp add: param_bytes_def blake2b_default_param_def store32_def)
  moreover have len: "length ?p = 8 * 8" using assms by (simp add: pad16_def)
  ultimately have "map (\<lambda>i. blake2b_IV ! i XOR load64 (drop (8 * i) (param_bytes ?P))) [0..<8] =
      map2 (XOR) blake2b_IV (words64_le ?p)"
    using xor_load_block [of blake2b_IV 8 ?p] by (simp add: blake2b_IV_def)
  then show ?thesis
    using assms len
    by (simp add: spec_blake2b_init_param_def Let_def spec_blake2b_init0_def blake2b_absorbed_def
        blake2b_full_def rfc7693_blocks_def rfc7693_h_def count128_def blake2b_default_param_def blake2b_IV_def
        unat_of_nat)
qed

lemma put_param_eq:
  "length sa \<le> 16 \<Longrightarrow> put_param (replicate 16 0) (Some sa) (length sa) = Inr (pad16 sa)"
  "put_param (replicate 16 0) None 0 = Inr (pad16 [])"
  by (simp_all add: put_param_def mem_write_def buf_write_def pad16_def)

text \<open>A salt or personalisation argument with its length; \<open>NULL\<close> counts as empty.\<close>

definition opt_bytes :: "bytes option \<Rightarrow> bytes" where
  "opt_bytes a = (case a of None \<Rightarrow> [] | Some b \<Rightarrow> b)"

lemma cx_blake2b_init2_absorbed:
  assumes "8 dvd sz" and "8 \<le> sz" and "sz \<le> 512"
    and "length (opt_bytes sa) \<le> 16" and "length (opt_bytes pe) \<le> 16"
  shows "\<exists>S. cx_blake2b_init2 sz sa (length (opt_bytes sa)) pe (length (opt_bytes pe)) =
      Inr \<lparr>blake2b_algo = CX_BLAKE2B, blake2b_counter = 0, blake2b_output_size = sz div 8, blake2b_ctx = S\<rparr> \<and>
    blake2b_absorbed (rfc7693_h (sz div 8) 0 (opt_bytes sa) (opt_bytes pe)) (sz div 8) S []"
proof -
  have sz: "sz div 8 \<noteq> 0" "sz div 8 \<le> 64" "sz mod 8 = 0" using assms(1-3) by auto
  have put: "put_param (replicate 16 0) a (length (opt_bytes a)) = Inr (pad16 (opt_bytes a))"
    if "length (opt_bytes a) \<le> 16" for a
    using that by (cases a) (simp_all add: opt_bytes_def put_param_eq)
  have none: "\<not> (a = None \<and> length (opt_bytes a) \<noteq> 0)" for a by (cases a) (simp_all add: opt_bytes_def)
  have dflt: "param_salt (blake2b_default_param n k) = replicate 16 0"
    "param_personal (blake2b_default_param n k) = replicate 16 0" for n k
    by (simp_all add: blake2b_default_param_def)
  show ?thesis
    using sz assms none [of sa] none [of pe] blake2b_init_param_absorbed [OF sz(2) assms(4,5), of 0]
    by (simp add: cx_blake2b_init2_def spec_blake2b_init_def Let_def dflt put)
qed

text \<open>A keyed state has absorbed the key, padded to a block.\<close>

lemma blake2b_init_key_absorbed:
  assumes "0 < n" and "n \<le> 64" and "key \<noteq> []" and "length key \<le> 64"
  shows "\<exists>S. spec_blake2b_init_key n (Some key) (length key) = Inr (Some S) \<and>
    blake2b_absorbed (rfc7693_h n (length key) [] []) n S (key @ replicate (128 - length key) 0)"
proof -
  have P: "(blake2b_default_param n k)\<lparr>param_salt := pad16 [], param_personal := pad16 []\<rparr> =
      blake2b_default_param n k" for k
    by (simp add: blake2b_default_param_def pad16_def)
  let ?k = "key @ replicate (128 - length key) 0"
  have k: "buf_write (replicate 128 0) 0 key = ?k" "length ?k = 128"
    using assms(4) by (simp_all add: buf_write_def)
  from blake2b_absorbed_update [OF blake2b_init_param_absorbed [OF assms(2), of "[]" "[]" "length key"], of ?k]
  show ?thesis
    using assms k by (auto simp: P spec_blake2b_init_key_def Let_def)
qed

section \<open>The hash interface\<close>

definition cx_blake2b_absorbed :: "u64 list \<Rightarrow> nat \<Rightarrow> cx_blake2b \<Rightarrow> bytes \<Rightarrow> bool" where
  "cx_blake2b_absorbed h n c m \<longleftrightarrow>
     blake2b_absorbed h n (blake2b_ctx c) m \<and> blake2b_output_size c = n \<and> blake2b_algo c = CX_BLAKE2B"

lemma rfc7693_digest_length: "n \<le> 64 \<Longrightarrow> length (rfc7693_digest h n m) = n"
  by (simp add: rfc7693_digest_def Let_def)

lemma blake2b_hash_function:
  assumes "cx_blake2b_absorbed h n c0 []" and "1 \<le> n" and "n \<le> 64"
  shows "hash_function c0 spec_cx_blake2b_update spec_cx_blake2b_final cx_blake2b_validate_context
    (cx_blake2b_absorbed h n) (rfc7693_digest h n) n cap"
proof unfold_locales
  fix c m d out assume c: "cx_blake2b_absorbed h n c m"
  then have S: "blake2b_absorbed h n (blake2b_ctx c) m" by (simp add: cx_blake2b_absorbed_def)
  show "cx_blake2b_validate_context c"
    using c assms(2,3) blake2b_full_bounds(2) [of m] blake2b_absorbedD(6,8) [OF S]
    by (simp add: cx_blake2b_absorbed_def cx_blake2b_validate_context_def)
  show "\<exists>c'. spec_cx_blake2b_update c (Some d) (length d) = (c', Inr 1) \<and> cx_blake2b_absorbed h n c' (m @ d)"
    using blake2b_absorbed_update [OF S, of d] c
    by (auto simp: spec_cx_blake2b_update_def cx_blake2b_absorbed_def)
  show "snd (spec_cx_blake2b_final c (Some out)) = put_digest (rfc7693_digest h n m) out"
    using blake2b_absorbed_final [OF S assms(3), of n out] c
    by (cases "mem_write out 0 (rfc7693_digest h n m)")
      (auto simp: spec_cx_blake2b_final_def cx_blake2b_absorbed_def put_digest_def)
qed (use assms rfc7693_digest_length in simp_all)

text \<open>The context of an unkeyed 256-bit digest.\<close>

definition blake2b256_ctx :: cx_blake2b where
  "blake2b256_ctx = \<lparr>blake2b_algo = CX_BLAKE2B, blake2b_counter = 0, blake2b_output_size = 32,
     blake2b_ctx = spec_blake2b_init_param (blake2b_default_param 32 0)\<rparr>"

lemma blake2b256_init: "cx_blake2b_init 256 = Inr blake2b256_ctx"
  by (simp add: cx_blake2b_init_def cx_blake2b_init2_def spec_blake2b_init_def Let_def put_param_def
      blake2b256_ctx_def blake2b_default_param_def)

lemma blake2b256_absorbed: "cx_blake2b_absorbed (rfc7693_h 32 0 [] []) 32 blake2b256_ctx []"
  using cx_blake2b_init2_absorbed [of 256 None None] blake2b256_init
  by (auto simp: cx_blake2b_init_def opt_bytes_def cx_blake2b_absorbed_def blake2b256_ctx_def)

interpretation blake2b256: hash_function blake2b256_ctx spec_cx_blake2b_update spec_cx_blake2b_final
  cx_blake2b_validate_context "cx_blake2b_absorbed (rfc7693_h 32 0 [] []) 32"
  "rfc7693_digest (rfc7693_h 32 0 [] []) 32" 32 "2 ^ 32"
  by (rule blake2b_hash_function [OF blake2b256_absorbed]) simp_all

text \<open>
  Property C8: a BLAKE2b context made by \<open>cx_blake2b_init2\<close> for any whole number of output bytes,
  salt and personalisation, fed with a message in any number of updates, gives the digest of
  RFC 7693 of exactly that message, at the start of the output buffer. There is no bound on the
  message: the 128-bit byte counter carries from its low to its high word.
\<close>

theorem blake2b_digest:
  assumes "8 dvd sz" and "8 \<le> sz" and "sz \<le> 512"
    and "length (opt_bytes sa) \<le> 16" and "length (opt_bytes pe) \<le> 16" and "sz div 8 \<le> length out"
  shows "\<exists>c0 c. cx_blake2b_init2 sz sa (length (opt_bytes sa)) pe (length (opt_bytes pe)) = Inr c0 \<and>
    hash_function.updates spec_cx_blake2b_update c0 ms = (c, Inr 1) \<and>
    snd (spec_cx_blake2b_final c (Some out)) =
      Inr (1, Some (rfc7693_digest (rfc7693_h (sz div 8) 0 (opt_bytes sa) (opt_bytes pe)) (sz div 8) (concat ms) @
                    drop (sz div 8) out))"
proof -
  let ?h = "rfc7693_h (sz div 8) 0 (opt_bytes sa) (opt_bytes pe)" and ?n = "sz div 8"
  from cx_blake2b_init2_absorbed [OF assms(1-5)] obtain c0 where
    c0: "cx_blake2b_init2 sz sa (length (opt_bytes sa)) pe (length (opt_bytes pe)) = Inr c0"
      "cx_blake2b_absorbed ?h ?n c0 []"
    by (auto simp: cx_blake2b_absorbed_def)
  have n: "1 \<le> ?n" "?n \<le> 64" using assms(2,3) by auto
  have "\<exists>c. hash_function.updates spec_cx_blake2b_update c0 ms = (c, Inr 1) \<and>
      snd (spec_cx_blake2b_final c (Some out)) =
        Inr (1, Some (rfc7693_digest ?h ?n (concat ms) @ drop ?n out))"
    by (rule hash_function.updates_digest [OF blake2b_hash_function [OF c0(2) n]])
      (rule lessI, rule assms(6))
  then show ?thesis using c0(1) by blast
qed

theorem blake2b_digest_witness:
  "\<exists>c0 c. cx_blake2b_init2 256 None 0 (Some [112, 101]) (length [112, 101 :: u8]) = Inr c0 \<and>
    hash_function.updates spec_cx_blake2b_update c0 [[97], [98, 99]] = (c, Inr 1) \<and>
    snd (spec_cx_blake2b_final c (Some (replicate 32 0))) =
      Inr (1, Some (rfc7693_digest (rfc7693_h 32 0 [] [112, 101]) 32 [97, 98, 99]))"
  using blake2b_digest [of 256 None "Some [112, 101]" "replicate 32 0" "[[97], [98, 99]]"]
  by (simp add: opt_bytes_def)

end
