(* ===== verification/Cx_Hash.thy ===== *)
theory Cx_Hash
  imports Cx_Sha256 Cx_Sha512 Cx_Ripemd160 Cx_Sha3 Cx_Blake2b
begin

text \<open>
  \<open>src/bolos/cx_hash.c\<close>: the generic hash interface, a table of function pointers per algorithm
  over the union of all contexts, and the system call \<open>sys_cx_hash\<close>.

  The union is a datatype with one constructor per member; \<open>Ctx_header\<close> is a context of which
  only \<open>header.algo\<close> has been written (a cleared one has algorithm 0). The C code would
  reinterpret the bytes of a context whose algorithm does not belong to the member it was
  initialised as; in the model such a use is \<open>Oob\<close>.
\<close>

section \<open>Contexts and the table of algorithms\<close>

datatype cx_hash_ctx =
    Ctx_header cx_md
  | Ctx_sha256 cx_sha256
  | Ctx_sha512 cx_sha512
  | Ctx_blake2b cx_blake2b
  | Ctx_ripemd160 cx_ripemd160
  | Ctx_sha3 cx_sha3

fun header_algo :: "cx_hash_ctx \<Rightarrow> cx_md" where
  "header_algo (Ctx_header md) = md"
| "header_algo (Ctx_sha256 c) = sha256_algo c"
| "header_algo (Ctx_sha512 c) = sha512_algo c"
| "header_algo (Ctx_blake2b c) = blake2b_algo c"
| "header_algo (Ctx_ripemd160 c) = rmd_algo c"
| "header_algo (Ctx_sha3 c) = sha3_algo c"

type_synonym hash_update = "cx_hash_ctx \<Rightarrow> bytes option \<Rightarrow> nat \<Rightarrow> cx_hash_ctx \<times> (c_error + nat)"
type_synonym hash_final = "cx_hash_ctx \<Rightarrow> bytes option \<Rightarrow> cx_hash_ctx \<times> (c_error + nat \<times> bytes option)"

record cx_hash_info =
  md_type :: cx_md
  output_size :: nat
  block_size :: nat
  init_func :: "cx_hash_ctx option"
  update_func :: hash_update
  finish_func :: hash_final
  init_ex_func :: "(nat \<Rightarrow> cx_hash_ctx res) option"
  validate_context :: "cx_hash_ctx \<Rightarrow> bool res"
  output_size_func :: "(cx_hash_ctx \<Rightarrow> nat res) option"

text \<open>The member functions, cast to the type of the table.\<close>

fun as_sha256 :: "cx_hash_ctx \<Rightarrow> cx_sha256 res" where
  "as_sha256 (Ctx_sha256 c) = Inr c" | "as_sha256 _ = Inl Oob"

fun as_sha512 :: "cx_hash_ctx \<Rightarrow> cx_sha512 res" where
  "as_sha512 (Ctx_sha512 c) = Inr c" | "as_sha512 _ = Inl Oob"

fun as_blake2b :: "cx_hash_ctx \<Rightarrow> cx_blake2b res" where
  "as_blake2b (Ctx_blake2b c) = Inr c" | "as_blake2b _ = Inl Oob"

fun as_ripemd160 :: "cx_hash_ctx \<Rightarrow> cx_ripemd160 res" where
  "as_ripemd160 (Ctx_ripemd160 c) = Inr c" | "as_ripemd160 _ = Inl Oob"

fun as_sha3 :: "cx_hash_ctx \<Rightarrow> cx_sha3 res" where
  "as_sha3 (Ctx_sha3 c) = Inr c" | "as_sha3 _ = Inl Oob"

definition cast_update ::
  "(cx_hash_ctx \<Rightarrow> 'c res) \<Rightarrow> ('c \<Rightarrow> cx_hash_ctx) \<Rightarrow>
   ('c \<Rightarrow> bytes option \<Rightarrow> nat \<Rightarrow> 'c \<times> (c_error + nat)) \<Rightarrow> hash_update" where
  "cast_update get mk f ctx data len =
     (case get ctx of Inl e \<Rightarrow> (ctx, Inl e) | Inr c \<Rightarrow> map_prod mk id (f c data len))"

definition cast_final ::
  "(cx_hash_ctx \<Rightarrow> 'c res) \<Rightarrow> ('c \<Rightarrow> cx_hash_ctx) \<Rightarrow>
   ('c \<Rightarrow> bytes option \<Rightarrow> 'c \<times> (c_error + nat \<times> bytes option)) \<Rightarrow> hash_final" where
  "cast_final get mk f ctx out =
     (case get ctx of Inl e \<Rightarrow> (ctx, Inl e) | Inr c \<Rightarrow> map_prod mk id (f c out))"

definition cast_get :: "(cx_hash_ctx \<Rightarrow> 'c res) \<Rightarrow> ('c \<Rightarrow> 'b) \<Rightarrow> cx_hash_ctx \<Rightarrow> 'b res" where
  "cast_get get f ctx = res_bind (get ctx) (\<lambda>c. Inr (f c))"

definition cast_init :: "('c \<Rightarrow> cx_hash_ctx) \<Rightarrow> (nat \<Rightarrow> 'c res) \<Rightarrow> nat \<Rightarrow> cx_hash_ctx res" where
  "cast_init mk f n = res_bind (f n) (\<lambda>c. Inr (mk c))"

definition cx_sha256_info :: cx_hash_info where
  "cx_sha256_info = \<lparr>md_type = CX_SHA256, output_size = 32, block_size = 64,
     init_func = Some (Ctx_sha256 cx_sha256_init),
     update_func = cast_update as_sha256 Ctx_sha256 spec_cx_sha256_update,
     finish_func = cast_final as_sha256 Ctx_sha256 spec_cx_sha256_final,
     init_ex_func = None, validate_context = cast_get as_sha256 cx_sha256_validate_context,
     output_size_func = None\<rparr>"

definition cx_sha224_info :: cx_hash_info where
  "cx_sha224_info = \<lparr>md_type = CX_SHA224, output_size = 28, block_size = 64,
     init_func = Some (Ctx_sha256 cx_sha224_init),
     update_func = cast_update as_sha256 Ctx_sha256 spec_cx_sha256_update,
     finish_func = cast_final as_sha256 Ctx_sha256 spec_cx_sha256_final,
     init_ex_func = None, validate_context = cast_get as_sha256 cx_sha256_validate_context,
     output_size_func = None\<rparr>"

definition cx_sha384_info :: cx_hash_info where
  "cx_sha384_info = \<lparr>md_type = CX_SHA384, output_size = 48, block_size = 128,
     init_func = Some (Ctx_sha512 cx_sha384_init),
     update_func = cast_update as_sha512 Ctx_sha512 spec_cx_sha512_update,
     finish_func = cast_final as_sha512 Ctx_sha512 spec_cx_sha512_final,
     init_ex_func = None, validate_context = cast_get as_sha512 cx_sha512_validate_context,
     output_size_func = None\<rparr>"

definition cx_sha512_info :: cx_hash_info where
  "cx_sha512_info = \<lparr>md_type = CX_SHA512, output_size = 64, block_size = 128,
     init_func = Some (Ctx_sha512 cx_sha512_init),
     update_func = cast_update as_sha512 Ctx_sha512 spec_cx_sha512_update,
     finish_func = cast_final as_sha512 Ctx_sha512 spec_cx_sha512_final,
     init_ex_func = None, validate_context = cast_get as_sha512 cx_sha512_validate_context,
     output_size_func = None\<rparr>"

definition cx_sha3_info :: cx_hash_info where
  "cx_sha3_info = \<lparr>md_type = CX_SHA3, output_size = 0, block_size = 0, init_func = None,
     update_func = cast_update as_sha3 Ctx_sha3 spec_cx_sha3_update,
     finish_func = cast_final as_sha3 Ctx_sha3 spec_cx_sha3_final,
     init_ex_func = Some (cast_init Ctx_sha3 cx_sha3_init),
     validate_context = cast_get as_sha3 cx_sha3_validate_context,
     output_size_func = Some (cast_get as_sha3 spec_cx_sha3_get_output_size)\<rparr>"

definition cx_keccak_info :: cx_hash_info where
  "cx_keccak_info = \<lparr>md_type = CX_KECCAK, output_size = 0, block_size = 0, init_func = None,
     update_func = cast_update as_sha3 Ctx_sha3 spec_cx_sha3_update,
     finish_func = cast_final as_sha3 Ctx_sha3 spec_cx_sha3_final,
     init_ex_func = Some (cast_init Ctx_sha3 cx_keccak_init),
     validate_context = cast_get as_sha3 cx_sha3_validate_context,
     output_size_func = Some (cast_get as_sha3 spec_cx_sha3_get_output_size)\<rparr>"

definition cx_shake128_info :: cx_hash_info where
  "cx_shake128_info = \<lparr>md_type = CX_SHAKE128, output_size = 0, block_size = 0, init_func = None,
     update_func = cast_update as_sha3 Ctx_sha3 spec_cx_sha3_update,
     finish_func = cast_final as_sha3 Ctx_sha3 spec_cx_sha3_final,
     init_ex_func = Some (cast_init Ctx_sha3 (\<lambda>sz. Inr (fst (cx_shake128_init sz)))),
     validate_context = cast_get as_sha3 cx_shake_validate_context,
     output_size_func = Some (cast_get as_sha3 spec_cx_sha3_get_output_size)\<rparr>"

definition cx_shake256_info :: cx_hash_info where
  "cx_shake256_info = \<lparr>md_type = CX_SHAKE256, output_size = 0, block_size = 0, init_func = None,
     update_func = cast_update as_sha3 Ctx_sha3 spec_cx_sha3_update,
     finish_func = cast_final as_sha3 Ctx_sha3 spec_cx_sha3_final,
     init_ex_func = Some (cast_init Ctx_sha3 (\<lambda>sz. Inr (fst (cx_shake256_init sz)))),
     validate_context = cast_get as_sha3 cx_shake_validate_context,
     output_size_func = Some (cast_get as_sha3 spec_cx_sha3_get_output_size)\<rparr>"

definition cx_ripemd160_info :: cx_hash_info where
  "cx_ripemd160_info = \<lparr>md_type = CX_RIPEMD160, output_size = 20, block_size = 64,
     init_func = Some (Ctx_ripemd160 cx_ripemd160_init),
     update_func = cast_update as_ripemd160 Ctx_ripemd160 spec_cx_ripemd160_update,
     finish_func = cast_final as_ripemd160 Ctx_ripemd160 spec_cx_ripemd160_final,
     init_ex_func = None, validate_context = cast_get as_ripemd160 cx_ripemd160_validate_context,
     output_size_func = None\<rparr>"

definition cx_blake2b_info :: cx_hash_info where
  "cx_blake2b_info = \<lparr>md_type = CX_BLAKE2B, output_size = 0, block_size = 128, init_func = None,
     update_func = cast_update as_blake2b Ctx_blake2b spec_cx_blake2b_update,
     finish_func = cast_final as_blake2b Ctx_blake2b spec_cx_blake2b_final,
     init_ex_func = Some (cast_init Ctx_blake2b cx_blake2b_init),
     validate_context = cast_get as_blake2b cx_blake2b_validate_context,
     output_size_func = Some (cast_get as_blake2b spec_cx_blake2b_get_output_size)\<rparr>"

fun spec_cx_hash_get_info :: "cx_md \<Rightarrow> cx_hash_info option" where
  "spec_cx_hash_get_info CX_SHA256 = Some cx_sha256_info"
| "spec_cx_hash_get_info CX_RIPEMD160 = Some cx_ripemd160_info"
| "spec_cx_hash_get_info CX_SHA224 = Some cx_sha224_info"
| "spec_cx_hash_get_info CX_SHA384 = Some cx_sha384_info"
| "spec_cx_hash_get_info CX_SHA512 = Some cx_sha512_info"
| "spec_cx_hash_get_info CX_SHA3 = Some cx_sha3_info"
| "spec_cx_hash_get_info CX_SHA3_256 = Some cx_sha3_info"
| "spec_cx_hash_get_info CX_KECCAK = Some cx_keccak_info"
| "spec_cx_hash_get_info CX_SHAKE128 = Some cx_shake128_info"
| "spec_cx_hash_get_info CX_SHAKE256 = Some cx_shake256_info"
| "spec_cx_hash_get_info CX_BLAKE2B = Some cx_blake2b_info"
| "spec_cx_hash_get_info _ = None"

section \<open>Operations\<close>

text \<open>A call through a \<open>NULL\<close> function pointer is \<open>Oob\<close>.\<close>

definition spec_cx_hash_get_size :: "cx_hash_ctx \<Rightarrow> nat res" where
  "spec_cx_hash_get_size ctx =
     (case spec_cx_hash_get_info (header_algo ctx) of
        None \<Rightarrow> Inr 0
      | Some info \<Rightarrow>
          if output_size info \<noteq> 0 then Inr (output_size info)
          else (case output_size_func info of None \<Rightarrow> Inl Oob | Some f \<Rightarrow> f ctx))"

definition spec_cx_hash_init :: "cx_hash_ctx \<Rightarrow> cx_md \<Rightarrow> cx_hash_ctx \<times> (c_error + nat)" where
  "spec_cx_hash_init ctx md =
     (case spec_cx_hash_get_info md of
        None \<Rightarrow> (ctx, Inr 0)
      | Some info \<Rightarrow>
          if output_size info = 0 then (ctx, Inr 0)
          else (case init_func info of None \<Rightarrow> (Ctx_header md, Inl Oob) | Some c \<Rightarrow> (c, Inr 1)))"

definition spec_cx_hash_init_ex :: "cx_hash_ctx \<Rightarrow> cx_md \<Rightarrow> nat \<Rightarrow> cx_hash_ctx \<times> (c_error + nat)" where
  "spec_cx_hash_init_ex ctx md n =
     (case spec_cx_hash_get_info md of
        None \<Rightarrow> (ctx, Inr 0)
      | Some info \<Rightarrow>
          if output_size info \<noteq> 0
          then if output_size info \<noteq> n then (ctx, Inr 0) else spec_cx_hash_init ctx md
          else (case init_ex_func info of
                  None \<Rightarrow> (Ctx_header md, Inl Oob)
                | Some f \<Rightarrow>
                    (case f (n * 8 mod 2 ^ 32) of
                       Inl e \<Rightarrow> (Ctx_header md, Inl e) | Inr c \<Rightarrow> (c, Inr 1))))"

definition spec_cx_hash_update :: hash_update where
  "spec_cx_hash_update ctx data len =
     (case spec_cx_hash_get_info (header_algo ctx) of
        None \<Rightarrow> (ctx, Inr 0)
      | Some info \<Rightarrow>
          (case validate_context info ctx of
             Inl e \<Rightarrow> (ctx, Inl e)
           | Inr ok \<Rightarrow> if \<not> ok then (ctx, Inr 0) else update_func info ctx data len))"

definition spec_cx_hash_final :: hash_final where
  "spec_cx_hash_final ctx digest =
     (if digest = None then (ctx, Inr (0, digest))
      else case spec_cx_hash_get_info (header_algo ctx) of
        None \<Rightarrow> (ctx, Inr (0, digest))
      | Some info \<Rightarrow>
          (case validate_context info ctx of
             Inl e \<Rightarrow> (ctx, Inl e)
           | Inr ok \<Rightarrow> if \<not> ok then (ctx, Inr (0, digest)) else finish_func info ctx digest))"

definition cx_hash_validate_context :: "cx_hash_ctx \<Rightarrow> bool res" where
  "cx_hash_validate_context ctx =
     (case spec_cx_hash_get_info (header_algo ctx) of
        None \<Rightarrow> Inr False | Some info \<Rightarrow> validate_context info ctx)"

definition CX_LAST :: u32 where
  "CX_LAST = push_bit 0 1"

definition sys_cx_hash ::
  "cx_hash_ctx \<Rightarrow> u32 \<Rightarrow> bytes option \<Rightarrow> nat \<Rightarrow> bytes option \<Rightarrow> nat \<Rightarrow>
     cx_hash_ctx \<times> (c_error + nat \<times> bytes option)" where
  "sys_cx_hash hash mode data len out out_len =
     (case cx_hash_validate_context hash of
        Inl e \<Rightarrow> (hash, Inl e)
      | Inr False \<Rightarrow> (hash, Inl (Throw INVALID_PARAMETER))
      | Inr True \<Rightarrow>
         (case spec_cx_hash_get_size hash of
            Inl e \<Rightarrow> (hash, Inl e)
          | Inr digest_len \<Rightarrow>
             (case spec_cx_hash_update hash data len of
                (hash, Inl e) \<Rightarrow> (hash, Inl e)
              | (hash, Inr r) \<Rightarrow>
                  if r = 0 then (hash, Inl (Throw INVALID_PARAMETER))
                  else if mode AND CX_LAST \<noteq> 0 then
                    if out_len < digest_len then (hash, Inl (Throw INVALID_PARAMETER))
                    else
                      (case spec_cx_hash_final hash out of
                         (hash, Inl e) \<Rightarrow> (hash, Inl e)
                       | (hash, Inr (r, out)) \<Rightarrow>
                           if r = 0 then (hash, Inl (Throw INVALID_PARAMETER))
                           else (hash, Inr (digest_len, out)))
                  else (hash, Inr (0, out)))))"

section \<open>The generic interface keeps the contract of its members\<close>

text \<open>A message in pieces, the last one with \<open>CX_LAST\<close>.\<close>

fun sys_cx_hash_pieces :: "cx_hash_ctx \<Rightarrow> bytes list \<Rightarrow> cx_hash_ctx \<times> (c_error + nat)" where
  "sys_cx_hash_pieces x [] = (x, Inr 0)"
| "sys_cx_hash_pieces x (d # ds) =
     (case sys_cx_hash x 0 (Some d) (length d) None 0 of
        (x, Inl e) \<Rightarrow> (x, Inl e) | (x, Inr _) \<Rightarrow> sys_cx_hash_pieces x ds)"

text \<open>What a context of the generic interface promises, and what the system call makes of it.\<close>

locale generic_hash =
  hash_function init spec_cx_hash_update spec_cx_hash_final "\<lambda>x. cx_hash_validate_context x = Inr True"
    absorbed digest osize cap
  for init :: cx_hash_ctx and absorbed digest osize cap +
  assumes get_size: "absorbed x m \<Longrightarrow> spec_cx_hash_get_size x = Inr osize"
begin

lemma sys_cx_hash_more:
  assumes "absorbed x m" and "length m + length d < cap" and "mode AND CX_LAST = 0"
  shows "\<exists>x'. sys_cx_hash x mode (Some d) (length d) out n = (x', Inr (0, out)) \<and> absorbed x' (m @ d)"
proof -
  obtain x' where "spec_cx_hash_update x (Some d) (length d) = (x', Inr 1)" "absorbed x' (m @ d)"
    using update_absorbed [OF assms(1,2)] by blast
  then show ?thesis
    using absorbed_valid [OF assms(1)] get_size [OF assms(1)] assms(3) by (simp add: sys_cx_hash_def)
qed

lemma sys_cx_hash_last:
  assumes "absorbed x m" and "length m + length d < cap" and "mode AND CX_LAST \<noteq> 0"
  shows "snd (sys_cx_hash x mode (Some d) (length d) (Some out) n) =
    (if n < osize then Inl (Throw INVALID_PARAMETER)
     else res_bind (put_digest (digest (m @ d)) out) (\<lambda>r. Inr (osize, snd r)))"
proof -
  obtain x' where x': "spec_cx_hash_update x (Some d) (length d) = (x', Inr 1)" "absorbed x' (m @ d)"
    using update_absorbed [OF assms(1,2)] by blast
  show ?thesis
    using absorbed_valid [OF assms(1)] get_size [OF assms(1)] assms(3) x'(1) final_digest [OF x'(2), of out]
    by (cases "spec_cx_hash_final x' (Some out)")
      (auto simp: sys_cx_hash_def put_digest_def mem_write_def split: if_splits)
qed

lemma pieces_absorbed:
  "absorbed x m \<Longrightarrow> length m + length (concat ds) < cap \<Longrightarrow>
    \<exists>x'. sys_cx_hash_pieces x ds = (x', Inr 0) \<and> absorbed x' (m @ concat ds)"
proof (induction ds arbitrary: x m)
  case (Cons d ds)
  then obtain x1 where "sys_cx_hash x 0 (Some d) (length d) None 0 = (x1, Inr (0, None))" "absorbed x1 (m @ d)"
    using sys_cx_hash_more [of x m d 0 None 0] by auto
  with Cons.IH [of x1 "m @ d"] Cons.prems(2) show ?case by auto
qed simp

lemma pieces_digest:
  assumes "length (concat ds) + length d < cap" and "osize \<le> n" and "n \<le> length out" and "mode AND CX_LAST \<noteq> 0"
  shows "\<exists>x. sys_cx_hash_pieces init ds = (x, Inr 0) \<and>
    snd (sys_cx_hash x mode (Some d) (length d) (Some out) n) =
      Inr (osize, Some (digest (concat ds @ d) @ drop osize out))"
proof -
  obtain x where x: "sys_cx_hash_pieces init ds = (x, Inr 0)" "absorbed x (concat ds)"
    using pieces_absorbed [OF init_absorbed, of ds] assms(1) by auto
  then show ?thesis
    using sys_cx_hash_last [OF x(2) assms(1,4), of out n] assms(2,3)
    by (simp add: put_digest_fits digest_length)
qed

end

text \<open>A member of the union whose functions the table gives, cast.\<close>

locale hash_member = hash_function init update final valid absorbed digest osize cap
  for init :: 'c and update final valid absorbed digest osize cap +
  fixes get :: "cx_hash_ctx \<Rightarrow> 'c res" and mk :: "'c \<Rightarrow> cx_hash_ctx"
    and info :: cx_hash_info
  assumes get_mk: "get (mk c) = Inr c"
    and info_absorbed: "absorbed c m \<Longrightarrow> spec_cx_hash_get_info (header_algo (mk c)) = Some info"
    and update_cast: "update_func info = cast_update get mk update"
    and final_cast: "finish_func info = cast_final get mk final"
    and valid_absorbed: "absorbed c m \<Longrightarrow> validate_context info (mk c) = Inr True"
    and size_absorbed: "absorbed c m \<Longrightarrow>
      (if output_size info \<noteq> 0 then Inr (output_size info)
       else (case output_size_func info of None \<Rightarrow> Inl Oob | Some f \<Rightarrow> f (mk c))) = Inr osize"
begin

lemma member_generic: "generic_hash (mk init) (\<lambda>x m. \<exists>c. x = mk c \<and> absorbed c m) digest osize cap"
proof unfold_locales
  fix x :: cx_hash_ctx and m d out :: bytes assume "\<exists>c. x = mk c \<and> absorbed c m"
  then obtain c where c: "x = mk c" "absorbed c m" by blast
  note info = info_absorbed [OF c(2)] valid_absorbed [OF c(2)] size_absorbed [OF c(2)]
  show "cx_hash_validate_context x = Inr True"
    using info by (simp add: cx_hash_validate_context_def c(1))
  show "spec_cx_hash_get_size x = Inr osize"
    using info by (simp add: spec_cx_hash_get_size_def c(1))
  show "snd (spec_cx_hash_final x (Some out)) = put_digest (digest m) out"
    using info final_digest [OF c(2), of out]
    by (simp add: spec_cx_hash_final_def c(1) final_cast cast_final_def get_mk)
  assume "length m + length d < cap"
  from update_absorbed [OF c(2) this]
  show "\<exists>x'. spec_cx_hash_update x (Some d) (length d) = (x', Inr 1) \<and> (\<exists>c. x' = mk c \<and> absorbed c (m @ d))"
    using info by (auto simp: spec_cx_hash_update_def c(1) update_cast cast_update_def get_mk)
qed (use init_absorbed digest_length in auto)

end

sublocale hash_member \<subseteq> generic: generic_hash "mk init" "\<lambda>x m. \<exists>c. x = mk c \<and> absorbed c m" digest osize cap
  by (rule member_generic)

section \<open>Every algorithm of the table\<close>

lemmas info_defs = cx_sha256_info_def cx_sha224_info_def cx_sha384_info_def cx_sha512_info_def
  cx_sha3_info_def cx_keccak_info_def cx_shake128_info_def cx_shake256_info_def cx_ripemd160_info_def
  cx_blake2b_info_def

lemma cast_get_simps [simp]:
  "cast_get as_sha256 f (Ctx_sha256 c) = Inr (f c)" "cast_get as_sha512 g (Ctx_sha512 d) = Inr (g d)"
  "cast_get as_sha3 h (Ctx_sha3 e) = Inr (h e)" "cast_get as_ripemd160 i (Ctx_ripemd160 r) = Inr (i r)"
  "cast_get as_blake2b j (Ctx_blake2b b) = Inr (j b)"
  by (simp_all add: cast_get_def)

lemma sha256_absorbed_algo: "sha256_absorbed c0 c m \<Longrightarrow> sha256_algo c = sha256_algo c0"
  by (auto simp: sha256_absorbed_def sha256_st_def feed_def foldl_sha256_compress)

lemma sha512_absorbed_algo: "sha512.absorbed c m \<Longrightarrow> sha512_algo c = CX_SHA512"
  by (drule sha512.absorbedD(1)) (simp add: sha512_st_def cx_sha512_init_def)

lemma sha384_absorbed_algo: "sha384.absorbed c m \<Longrightarrow> sha512_algo c = CX_SHA384"
  by (drule sha384.absorbedD(1)) (simp add: sha512_st_def cx_sha384_init_def)

lemma ripemd160_absorbed_algo: "ripemd160.absorbed c m \<Longrightarrow> rmd_algo c = CX_RIPEMD160"
  by (drule ripemd160.absorbedD(1)) (simp add: rmd_st_def cx_ripemd160_init_def)

lemmas absorbed_algo = sha256_absorbed_algo sha512_absorbed_algo sha384_absorbed_algo ripemd160_absorbed_algo

interpretation md256: hash_member cx_sha256_init spec_cx_sha256_update spec_cx_sha256_final
  cx_sha256_validate_context "sha256_absorbed cx_sha256_init" "fips256_digest hzero_256 32" 32 "2 ^ 32"
  as_sha256 Ctx_sha256 cx_sha256_info
  by unfold_locales
    (auto simp: cx_sha256_info_def cx_sha256_init_def hash256.absorbed_valid dest: absorbed_algo)

interpretation md224: hash_member cx_sha224_init spec_cx_sha256_update spec_cx_sha256_final
  cx_sha256_validate_context "sha256_absorbed cx_sha224_init" "fips256_digest hzero_224 28" 28 "2 ^ 32"
  as_sha256 Ctx_sha256 cx_sha224_info
  by unfold_locales
    (auto simp: cx_sha224_info_def cx_sha224_init_def hash224.absorbed_valid dest: absorbed_algo)

interpretation md384: hash_member cx_sha384_init spec_cx_sha512_update spec_cx_sha512_final
  cx_sha512_validate_context sha384.absorbed "fips512_digest hzero_384 48" 48 "2 ^ 23"
  as_sha512 Ctx_sha512 cx_sha384_info
  by unfold_locales (auto simp: cx_sha384_info_def hash384.absorbed_valid dest: absorbed_algo)

interpretation md512: hash_member cx_sha512_init spec_cx_sha512_update spec_cx_sha512_final
  cx_sha512_validate_context sha512.absorbed "fips512_digest hzero_512 64" 64 "2 ^ 23"
  as_sha512 Ctx_sha512 cx_sha512_info
  by unfold_locales (auto simp: cx_sha512_info_def hash512.absorbed_valid dest: absorbed_algo)

interpretation md160: hash_member cx_ripemd160_init spec_cx_ripemd160_update spec_cx_ripemd160_final
  cx_ripemd160_validate_context ripemd160.absorbed ripemd160_digest 20 "2 ^ 22"
  as_ripemd160 Ctx_ripemd160 cx_ripemd160_info
  by unfold_locales (auto simp: cx_ripemd160_info_def hash160.absorbed_valid dest: absorbed_algo)

text \<open>The algorithms with a variable output: the sponges at every rate, and BLAKE2b.\<close>

lemma sha3_member:
  assumes "sha3_fits n c0" and "spec_cx_hash_get_info (sha3_algo c0) = Some info"
    and "info \<in> {cx_sha3_info, cx_keccak_info} \<and> n = 200 - 2 * sha3_output_size c0 \<and>
           sha3_output_size c0 \<in> {16, 28, 32, 48, 64} \<or>
         info \<in> {cx_shake128_info, cx_shake256_info} \<and> n \<in> {136, 168}"
  shows "hash_member c0 spec_cx_sha3_update spec_cx_sha3_final (\<lambda>c. sha3_block_size c = n \<and> sha3_blen c < n)
    (sha3_absorbed n c0) (keccak_sponge n (sha3_domain (sha3_algo c0)) (sha3_output_size c0))
    (sha3_output_size c0) (65536 * n) as_sha3 Ctx_sha3 info"
proof -
  have start: "sha3_start n c0" using assms(1) by (simp add: sha3_fits_def)
  then have "n \<in> sha3_rates" by (simp add: sha3_start_def)
  note n = sha3_rate_laws(3) [OF this]
  have ab: "sha3_algo c = sha3_algo c0 \<and> sha3_output_size c = sha3_output_size c0 \<and> sha3_block_size c = n \<and> sha3_blen c < n"
    if "sha3_absorbed n c0 c m" for c m
    using counted_stream.absorbedD(1) [OF sha3_stream [OF start] that [unfolded sha3_absorbed_def]]
      counted_stream.absorbed_wf [OF sha3_stream [OF start] that [unfolded sha3_absorbed_def]]
    by (simp add: sha3_st_def sha3_wf_def)
  show ?thesis
    by (intro hash_member.intro hash_member_axioms.intro sha3_hash_function [OF assms(1)])
      (use assms(2,3) n in \<open>auto simp: info_defs cx_sha3_validate_context_def cx_shake_validate_context_def
        spec_cx_sha3_get_output_size_def dest!: ab\<close>)
qed

lemma blake2b_member:
  assumes "cx_blake2b_absorbed h n c0 []" and "1 \<le> n" and "n \<le> 64"
  shows "hash_member c0 spec_cx_blake2b_update spec_cx_blake2b_final cx_blake2b_validate_context
    (cx_blake2b_absorbed h n) (rfc7693_digest h n) n cap as_blake2b Ctx_blake2b cx_blake2b_info"
proof (intro hash_member.intro hash_member_axioms.intro blake2b_hash_function [OF assms])
  fix c m assume "cx_blake2b_absorbed h n c m"
  then show "validate_context cx_blake2b_info (Ctx_blake2b c) = Inr True"
    using hash_function.absorbed_valid [OF blake2b_hash_function [OF assms]] by (simp add: cx_blake2b_info_def)
qed (auto simp: cx_blake2b_info_def spec_cx_blake2b_get_output_size_def cx_blake2b_absorbed_def)

interpretation md_keccak256: hash_member keccak256_ctx spec_cx_sha3_update spec_cx_sha3_final
  "\<lambda>c. sha3_block_size c = 136 \<and> sha3_blen c < 136" "sha3_absorbed 136 keccak256_ctx"
  "keccak_sponge 136 0x01 32" 32 "65536 * 136" as_sha3 Ctx_sha3 cx_keccak_info
  using sha3_member [of 136 keccak256_ctx cx_keccak_info] sha3_init_fits(2) [OF keccak256_init]
  by (simp add: sha3_domain_def)

interpretation md_blake2b256: hash_member blake2b256_ctx spec_cx_blake2b_update spec_cx_blake2b_final
  cx_blake2b_validate_context "cx_blake2b_absorbed (rfc7693_h 32 0 [] []) 32"
  "rfc7693_digest (rfc7693_h 32 0 [] []) 32" 32 "2 ^ 32" as_blake2b Ctx_blake2b cx_blake2b_info
  by (rule blake2b_member [OF blake2b256_absorbed]) simp_all

text \<open>The digest that each algorithm of the table stands for, and the length up to which it is computed.\<close>

fun hash_digest :: "cx_md \<Rightarrow> nat \<Rightarrow> bytes \<Rightarrow> bytes" where
  "hash_digest CX_SHA256 n = fips256_digest hzero_256 n"
| "hash_digest CX_SHA224 n = fips256_digest hzero_224 n"
| "hash_digest CX_SHA384 n = fips512_digest hzero_384 n"
| "hash_digest CX_SHA512 n = fips512_digest hzero_512 n"
| "hash_digest CX_RIPEMD160 n = ripemd160_digest"
| "hash_digest CX_KECCAK n = keccak_sponge (200 - 2 * n) 0x01 n"
| "hash_digest CX_SHA3 n = keccak_sponge (200 - 2 * n) 0x06 n"
| "hash_digest CX_SHA3_256 n = keccak_sponge (200 - 2 * n) 0x06 n"
| "hash_digest CX_SHAKE128 n = keccak_sponge 168 0x1F n"
| "hash_digest CX_SHAKE256 n = keccak_sponge 136 0x1F n"
| "hash_digest CX_BLAKE2B n = rfc7693_digest (rfc7693_h n 0 [] []) n"
| "hash_digest _ n = (\<lambda>_. [])"

fun hash_limit :: "cx_md \<Rightarrow> nat \<Rightarrow> nat" where
  "hash_limit CX_RIPEMD160 n = 2 ^ 22"
| "hash_limit CX_SHA384 n = 2 ^ 23"
| "hash_limit CX_SHA512 n = 2 ^ 23"
| "hash_limit CX_KECCAK n = 65536 * (200 - 2 * n)"
| "hash_limit CX_SHA3 n = 65536 * (200 - 2 * n)"
| "hash_limit CX_SHA3_256 n = 65536 * (200 - 2 * n)"
| "hash_limit CX_SHAKE128 n = 65536 * 168"
| "hash_limit CX_SHAKE256 n = 65536 * 136"
| "hash_limit _ n = 2 ^ 32"

text \<open>The contract holds for every context that an initialisation returns.\<close>

lemma init_fixed_generic:
  assumes "spec_cx_hash_init ctx md = (x, Inr 1)" and "spec_cx_hash_get_info md = Some info"
  shows "\<exists>absorbed. generic_hash x absorbed (hash_digest md (output_size info)) (output_size info)
    (hash_limit md (output_size info))"
  using assms md256.member_generic md224.member_generic md384.member_generic md512.member_generic md160.member_generic
  by (cases md) (auto simp: spec_cx_hash_init_def info_defs)

lemma sha3_family_generic:
  assumes "sha3_fits r c0" and "spec_cx_hash_get_info (sha3_algo c0) = Some info" and "sha3_output_size c0 = n"
    and "info \<in> {cx_sha3_info, cx_keccak_info} \<and> r = 200 - 2 * n \<and> n \<in> {16, 28, 32, 48, 64} \<or>
         info \<in> {cx_shake128_info, cx_shake256_info} \<and> r \<in> {136, 168}"
  shows "\<exists>absorbed. generic_hash (Ctx_sha3 c0) absorbed (keccak_sponge r (sha3_domain (sha3_algo c0)) n) n (65536 * r)"
  using hash_member.member_generic [OF sha3_member [OF assms(1,2)]] assms(3,4) by blast

lemma cx_sha3_init_size:
  assumes "cx_sha3_init (n * 8) = Inr c0 \<or> cx_keccak_init (n * 8) = Inr c0"
  shows "n \<in> {16, 28, 32, 48, 64}" "(1600 - 2 * (n * 8)) div 8 = 200 - 2 * n"
  using assms by (auto simp: cx_keccak_init_def cx_sha3_init_def check_hash_out_size_def split: if_splits)

lemma init_ex_generic:
  assumes "spec_cx_hash_init_ex ctx md n = (x, Inr 1)" and "n < 2 ^ 29"
  shows "\<exists>absorbed. generic_hash x absorbed (hash_digest md n) n (hash_limit md n)"
proof -
  have n8: "n * 8 mod 2 ^ 32 = n * 8" using assms(2) by simp
  note init = assms(1) [unfolded spec_cx_hash_init_ex_def n8]
  consider (fixed) info where "spec_cx_hash_get_info md = Some info" "output_size info = n" "output_size info \<noteq> 0"
      "spec_cx_hash_init ctx md = (x, Inr 1)"
    | (sha3) c where "md \<in> {CX_SHA3, CX_SHA3_256}" "x = Ctx_sha3 c" "cx_sha3_init (n * 8) = Inr c"
    | (keccak) c where "md = CX_KECCAK" "x = Ctx_sha3 c" "cx_keccak_init (n * 8) = Inr c"
    | (shake128) "md = CX_SHAKE128" "x = Ctx_sha3 (fst (cx_shake128_init (n * 8)))"
    | (shake256) "md = CX_SHAKE256" "x = Ctx_sha3 (fst (cx_shake256_init (n * 8)))"
    | (blake) c where "md = CX_BLAKE2B" "x = Ctx_blake2b c" "cx_blake2b_init (n * 8) = Inr c"
    using init
    by (cases md) (auto simp: info_defs cast_init_def res_bind_def split: if_splits sum.splits)
  then show ?thesis
  proof cases
    case fixed
    then show ?thesis using init_fixed_generic by blast
  next
    case sha3
    from sha3_init_fits(1) [OF sha3(3)] cx_sha3_init_size [of n c] sha3(3)
      sha3_family_generic [of "200 - 2 * n" c cx_sha3_info n]
    show ?thesis using sha3(1,2) by (auto simp: sha3_domain_def)
  next
    case keccak
    from sha3_init_fits(2) [OF keccak(3)] cx_sha3_init_size [of n c] keccak(3)
      sha3_family_generic [of "200 - 2 * n" c cx_keccak_info n]
    show ?thesis using keccak(1,2) by (auto simp: sha3_domain_def)
  next
    case shake128
    from sha3_init_fits(3) [OF shake_init_xof(1), of "n * 8"]
      sha3_family_generic [of 168 "fst (cx_shake128_init (n * 8))" cx_shake128_info n]
    show ?thesis using shake128 by (auto simp: sha3_domain_def cx_shake128_init_def)
  next
    case shake256
    from sha3_init_fits(3) [OF shake_init_xof(2), of "n * 8"]
      sha3_family_generic [of 136 "fst (cx_shake256_init (n * 8))" cx_shake256_info n]
    show ?thesis using shake256 by (auto simp: sha3_domain_def cx_shake256_init_def)
  next
    case blake
    then have n: "1 \<le> n" "n \<le> 64"
      by (auto simp: cx_blake2b_init_def cx_blake2b_init2_def split: if_splits)
    from cx_blake2b_init2_absorbed [of "n * 8" None None] blake(3) n
    have "cx_blake2b_absorbed (rfc7693_h n 0 [] []) n c []"
      by (auto simp: cx_blake2b_init_def opt_bytes_def cx_blake2b_absorbed_def)
    from hash_member.member_generic [OF blake2b_member [OF this n]] show ?thesis using blake(1,2) by auto
  qed
qed

text \<open>
  Property C5: whatever algorithm of the table a context is initialised for, and with whatever
  output size below \<open>2 ^ 29\<close> bytes the initialisation accepts, the system call \<open>sys_cx_hash\<close> absorbs a
  message of fewer than \<open>hash_limit\<close> bytes in pieces and, with \<open>CX_LAST\<close>, returns the digest length
  and writes the digest of the standard behind that algorithm to the start of the output buffer.
  The limit is the one of the algorithm: 65536 blocks where the code counts blocks up to
  \<open>CX_HASH_MAX_BLOCK_COUNT\<close>, the address space for SHA-224, SHA-256 and BLAKE2b. Larger output sizes
  are left out because their number of bits wraps around before it is checked.
\<close>

theorem sys_cx_hash_digest:
  assumes "spec_cx_hash_init_ex ctx md n = (x0, Inr 1)" and "n < 2 ^ 29"
    and "length (concat ds) + length d < hash_limit md n"
    and "n \<le> out_len" and "out_len \<le> length out" and "mode AND CX_LAST \<noteq> 0"
  shows "\<exists>x. sys_cx_hash_pieces x0 ds = (x, Inr 0) \<and>
    snd (sys_cx_hash x mode (Some d) (length d) (Some out) out_len) =
      Inr (n, Some (hash_digest md n (concat ds @ d) @ drop n out))"
proof -
  obtain absorbed where "generic_hash x0 absorbed (hash_digest md n) n (hash_limit md n)"
    using init_ex_generic [OF assms(1,2)] by blast
  from generic_hash.pieces_digest [OF this assms(3-6)] show ?thesis .
qed

theorem sys_cx_hash_digest_witness:
  "\<exists>x0 x. spec_cx_hash_init_ex (Ctx_header CX_NONE) CX_BLAKE2B 32 = (x0, Inr 1) \<and>
    sys_cx_hash_pieces x0 [[97]] = (x, Inr 0) \<and>
    snd (sys_cx_hash x 1 (Some [98, 99]) (length [98, 99 :: u8]) (Some (replicate 40 0)) 40) =
      Inr (32, Some (hash_digest CX_BLAKE2B 32 [97, 98, 99] @ replicate 8 0))"
proof -
  have "spec_cx_hash_init_ex (Ctx_header CX_NONE) CX_BLAKE2B 32 = (Ctx_blake2b blake2b256_ctx, Inr 1)"
    using blake2b256_init by (simp add: spec_cx_hash_init_ex_def cx_blake2b_info_def cast_init_def)
  moreover note sys_cx_hash_digest [OF this, of "[[97]]" "[98, 99]" 40 "replicate 40 0" 1]
  ultimately show ?thesis by (simp add: CX_LAST_def)
qed

text \<open>
  The refusals of the system call: a context of an unknown algorithm and a context whose pending
  length is out of range throw \<open>INVALID_PARAMETER\<close> and are left as they are.
\<close>

lemma sys_cx_hash_refused:
  "spec_cx_hash_get_info (header_algo x) = None \<Longrightarrow>
     sys_cx_hash x mode data len out n = (x, Inl (Throw INVALID_PARAMETER))"
  "sha256_algo c = CX_SHA256 \<Longrightarrow> \<not> cx_sha256_validate_context c \<Longrightarrow>
     sys_cx_hash (Ctx_sha256 c) mode data len out n = (Ctx_sha256 c, Inl (Throw INVALID_PARAMETER))"
  by (simp_all add: sys_cx_hash_def cx_hash_validate_context_def cx_sha256_info_def)

text \<open>An update reads no further than its length.\<close>

lemma mem_arg_prefix: "n \<le> length d \<Longrightarrow> mem_arg (Some (take n d)) n = mem_arg (Some d) n"
  by (simp add: mem_arg_def mem_read_def)

lemma spec_cx_hash_update_prefix:
  assumes "n \<le> length d"
  shows "spec_cx_hash_update x (Some (take n d)) n = spec_cx_hash_update x (Some d) n"
proof -
  note p = mem_arg_prefix [OF assms]
  have "spec_cx_sha256_update c (Some (take n d)) n = spec_cx_sha256_update c (Some d) n"
    "spec_cx_sha512_update c5 (Some (take n d)) n = spec_cx_sha512_update c5 (Some d) n"
    "spec_cx_ripemd160_update cr (Some (take n d)) n = spec_cx_ripemd160_update cr (Some d) n"
    "spec_cx_sha3_update c3 (Some (take n d)) n = spec_cx_sha3_update c3 (Some d) n"
    "spec_cx_blake2b_update cb (Some (take n d)) n = spec_cx_blake2b_update cb (Some d) n"
    for c c5 cr c3 cb
    by (simp_all add: spec_cx_sha256_update_def spec_cx_sha512_update_def spec_cx_ripemd160_update_def
        spec_cx_sha3_update_def spec_cx_blake2b_update_def spec_blake2b_update_def p)
  then have "update_func info x (Some (take n d)) n = update_func info x (Some d) n"
    if "spec_cx_hash_get_info md = Some info" for md info
    using that by (cases md) (auto simp: info_defs cast_update_def split: sum.splits)
  then show ?thesis by (auto simp: spec_cx_hash_update_def split: option.splits sum.splits)
qed

text \<open>A finalisation does not change the algorithm of the context.\<close>

lemma block_algo [simp]:
  "sha256_algo (cx_sha256_block c) = sha256_algo c" "sha512_algo (cx_sha512_block c5) = sha512_algo c5"
  "rmd_algo (cx_ripemd160_block cr) = rmd_algo cr" "sha3_algo (spec_cx_sha3_block c3) = sha3_algo c3"
  "sha3_algo (sha3_pad_block ds c3) = sha3_algo c3"
  by (simp_all add: cx_sha256_block_def cx_sha512_block_def cx_ripemd160_block_def spec_cx_sha3_block_def
      sha3_pad_block_def Let_def split: prod.splits)

lemma sha3_squeeze_algo: "sha3_algo (fst (sha3_squeeze n c d off out)) = sha3_algo c"
proof (induction n c d off out rule: sha3_squeeze.induct)
  case (1 n c d off out)
  then show ?case by (subst sha3_squeeze.simps) (auto split: sum.splits)
qed

lemma sha2_final_algo:
  "sha256_algo (fst (spec_cx_sha256_final c out)) = sha256_algo c"
  "sha512_algo (fst (spec_cx_sha512_final c5 out)) = sha512_algo c5"
  "rmd_algo (fst (spec_cx_ripemd160_final cr out)) = rmd_algo cr"
  by (auto simp: spec_cx_sha256_final_def spec_cx_sha512_final_def spec_cx_ripemd160_final_def Let_def
      split: option.splits)

lemma sha3_final_algo: "sha3_algo (fst (spec_cx_sha3_final c out)) = sha3_algo c"
  by (cases out) (auto simp: spec_cx_sha3_final_def Let_def case_prod_beta sha3_squeeze_algo)

lemma blake2b_final_algo: "blake2b_algo (fst (spec_cx_blake2b_final c out)) = blake2b_algo c"
  by (simp add: spec_cx_blake2b_final_def split: sum.splits prod.splits)

lemma finish_func_algo:
  assumes "spec_cx_hash_get_info md = Some info"
  shows "header_algo (fst (finish_func info x out)) = header_algo x"
  using assms
  by (cases md; cases x)
    (auto simp: info_defs cast_final_def sha2_final_algo sha3_final_algo blake2b_final_algo)

lemma spec_cx_hash_final_algo: "header_algo (fst (spec_cx_hash_final x out)) = header_algo x"
  using finish_func_algo by (auto simp: spec_cx_hash_final_def split: option.splits sum.splits)

end
