(* ===== verification/Cx_Hmac.thy ===== *)
theory Cx_Hmac
  imports Cx_Hash
begin

text \<open>
  \<open>src/bolos/cx_hmac.c\<close>: HMAC over the generic hash interface, with the context that keeps the
  key block xored with the inner pad. The lemmas are proved once, in a locale over the contract
  of a hash algorithm, and interpreted for the five algorithms the code allows.
\<close>

section \<open>Context and operations\<close>

record cx_hmac_ctx =
  hash_ctx :: cx_hash_ctx
  hmac_key :: bytes

definition hmac_zero :: cx_hmac_ctx where
  "hmac_zero = \<lparr>hash_ctx = Ctx_header CX_NONE, hmac_key = replicate 128 0\<rparr>"

definition IPAD :: u8 where "IPAD = 0x36"
definition OPAD :: u8 where "OPAD = 0x5c"

definition get_block_size :: "cx_md \<Rightarrow> nat" where
  "get_block_size md =
     (case spec_cx_hash_get_info md of None \<Rightarrow> 0 | Some info \<Rightarrow> block_size info)"

definition get_algorithm :: "cx_hmac_ctx \<Rightarrow> cx_md" where
  "get_algorithm ctx = header_algo (hash_ctx ctx)"

definition is_allowed_digest :: "cx_md \<Rightarrow> bool" where
  "is_allowed_digest md \<longleftrightarrow> md \<in> set [CX_SHA256, CX_SHA224, CX_SHA384, CX_SHA512, CX_RIPEMD160]"

definition get_hash_ctx :: "cx_hmac_ctx \<Rightarrow> cx_hash_ctx option" where
  "get_hash_ctx ctx = (if is_allowed_digest (get_algorithm ctx) then Some (hash_ctx ctx) else None)"

text \<open>
  Calls of the hash interface in a row: the context is passed on, also when a call throws. The
  return values of the calls are not looked at by the code, except where it says so.
\<close>

definition hash_bind ::
  "cx_hash_ctx \<times> (c_error + 'a) \<Rightarrow> (cx_hash_ctx \<Rightarrow> 'a \<Rightarrow> cx_hash_ctx \<times> (c_error + 'b)) \<Rightarrow>
   cx_hash_ctx \<times> (c_error + 'b)" where
  "hash_bind p f = (case p of (x, Inl e) \<Rightarrow> (x, Inl e) | (x, Inr a) \<Rightarrow> f x a)"

lemma hash_bind_simps [simp]:
  "hash_bind (x, Inl e) f = (x, Inl e)" "hash_bind (x, Inr a) f = f x a"
  by (simp_all add: hash_bind_def)

text \<open>The xor loop over the first \<open>n\<close> bytes of a key block.\<close>

definition xor_pad :: "u8 \<Rightarrow> nat \<Rightarrow> bytes \<Rightarrow> bytes" where
  "xor_pad p n key = map (\<lambda>b. b XOR p) (take n key) @ drop n key"

text \<open>The key block: a long key is hashed, a short one copied; then it is xored with the inner pad.\<close>

definition hmac_set_key :: "cx_md \<Rightarrow> nat \<Rightarrow> bytes option \<Rightarrow> nat \<Rightarrow> cx_hmac_ctx \<Rightarrow> cx_hash_ctx \<times> (c_error + bytes)" where
  "hmac_set_key hash_id bs key key_len ctx =
     (if key = None then (hash_ctx ctx, Inr (hmac_key ctx))
      else
        hash_bind
          (if bs < key_len
           then hash_bind (spec_cx_hash_init (hash_ctx ctx) hash_id) (\<lambda>x _.
                hash_bind (spec_cx_hash_update x key key_len) (\<lambda>x _.
                hash_bind (spec_cx_hash_final x (Some (hmac_key ctx))) (\<lambda>x r.
                (x, case snd r of None \<Rightarrow> Inl Oob | Some k \<Rightarrow> Inr k))))
           else (hash_ctx ctx, res_bind (mem_arg key key_len) (mem_write (hmac_key ctx) 0)))
          (\<lambda>x k. (x, Inr (xor_pad IPAD bs k))))"

definition spec_cx_hmac_init ::
  "cx_hmac_ctx \<Rightarrow> cx_md \<Rightarrow> bytes option \<Rightarrow> nat \<Rightarrow> cx_hmac_ctx \<times> (c_error + nat)" where
  "spec_cx_hmac_init ctx hash_id key key_len =
     (if key = None \<and> key_len \<noteq> 0 then (ctx, Inr 0)
      else if \<not> is_allowed_digest hash_id then (ctx, Inr 0)
      else
        let ctx = hmac_zero; bs = get_block_size hash_id in
        case hmac_set_key hash_id bs key key_len ctx of
          (x, Inl e) \<Rightarrow> (ctx\<lparr>hash_ctx := x\<rparr>, Inl e)
        | (x, Inr k) \<Rightarrow>
            (let ctx = ctx\<lparr>hmac_key := k\<rparr> in
             case hash_bind (spec_cx_hash_init x hash_id) (\<lambda>x _.
                  spec_cx_hash_update x (Some k) bs) of
               (x, Inl e) \<Rightarrow> (ctx\<lparr>hash_ctx := x\<rparr>, Inl e)
             | (x, Inr _) \<Rightarrow> (ctx\<lparr>hash_ctx := x\<rparr>, Inr 1)))"

definition spec_cx_hmac_update ::
  "cx_hmac_ctx \<Rightarrow> bytes option \<Rightarrow> nat \<Rightarrow> cx_hmac_ctx \<times> (c_error + nat)" where
  "spec_cx_hmac_update ctx data data_len =
     (if data = None then (ctx, Inr 0)
      else case get_hash_ctx ctx of
        None \<Rightarrow> (ctx, Inr 0)
      | Some x \<Rightarrow> (case spec_cx_hash_update x data data_len of (x, r) \<Rightarrow> (ctx\<lparr>hash_ctx := x\<rparr>, r)))"

text \<open>
  The finalisation returns its status with the output buffer and \<open>*out_len\<close>. The inner hash is an
  uninitialised local: when the hash function refuses to write it, the next call reads it, which
  is \<open>Oob\<close> here.
\<close>

definition hmac_outer :: "cx_hash_ctx \<Rightarrow> cx_md \<Rightarrow> nat \<Rightarrow> nat \<Rightarrow> bytes \<Rightarrow> bytes \<Rightarrow> cx_hash_ctx \<times> (c_error + bytes)" where
  "hmac_outer x md bs hash_output_size inner_hash hkey =
     hash_bind (spec_cx_hash_init x md) (\<lambda>x _.
     hash_bind (spec_cx_hash_update x (Some hkey) bs) (\<lambda>x _.
     hash_bind (spec_cx_hash_update x (Some inner_hash) hash_output_size) (\<lambda>x _.
     hash_bind (spec_cx_hash_final x (Some hkey)) (\<lambda>x r.
     (x, case snd r of None \<Rightarrow> Inl Oob | Some k \<Rightarrow> Inr k)))))"

definition spec_cx_hmac_final ::
  "cx_hmac_ctx \<Rightarrow> bytes option \<Rightarrow> nat \<Rightarrow> cx_hmac_ctx \<times> (c_error + nat \<times> bytes option \<times> nat)" where
  "spec_cx_hmac_final ctx out out_len =
     (case (out, get_hash_ctx ctx) of
        (Some o1, Some x) \<Rightarrow>
          (let md = get_algorithm ctx; bs = get_block_size md in
           case spec_cx_hash_get_size x of
             Inl e \<Rightarrow> (ctx, Inl e)
           | Inr hash_output_size \<Rightarrow>
               (case hash_bind (spec_cx_hash_final x (Some (replicate 64 0))) (\<lambda>x r.
                     case r of
                       (0, _) \<Rightarrow> (x, Inl Oob)
                     | (_, None) \<Rightarrow> (x, Inl Oob)
                     | (_, Some inner_hash) \<Rightarrow>
                         hmac_outer x md bs hash_output_size inner_hash
                           (xor_pad (OPAD XOR IPAD) bs (hmac_key ctx))) of
                  (x, Inl e) \<Rightarrow> (ctx\<lparr>hash_ctx := x\<rparr>, Inl e)
                | (x, Inr hkey) \<Rightarrow>
                    (let out_len = (if hash_output_size \<le> out_len then hash_output_size else out_len)
                     in (ctx\<lparr>hash_ctx := x\<rparr>,
                         res_bind (mem_read hkey 0 out_len) (\<lambda>h.
                         res_bind (mem_write o1 0 h) (\<lambda>o2. Inr (1, Some o2, out_len)))))))
      | _ \<Rightarrow> (ctx, Inr (0, out, out_len)))"

text \<open>The initialisations of the old interface throw when the generic one refuses.\<close>

definition hmac_init_or_throw :: "cx_hmac_ctx \<Rightarrow> cx_md \<Rightarrow> bytes option \<Rightarrow> nat \<Rightarrow> cx_hmac_ctx \<times> (c_error + cx_md)" where
  "hmac_init_or_throw hmac md key key_len =
     (case spec_cx_hmac_init hmac md key key_len of
        (hmac, Inl e) \<Rightarrow> (hmac, Inl e)
      | (hmac, Inr r) \<Rightarrow> if r = 0 then (hmac, Inl (Throw INVALID_PARAMETER)) else (hmac, Inr md))"

definition cx_hmac_sha256_init :: "cx_hmac_ctx \<Rightarrow> bytes option \<Rightarrow> nat \<Rightarrow> cx_hmac_ctx \<times> (c_error + cx_md)" where
  "cx_hmac_sha256_init hmac key key_len = hmac_init_or_throw hmac CX_SHA256 key key_len"

definition cx_hmac_ripemd160_init :: "cx_hmac_ctx \<Rightarrow> bytes option \<Rightarrow> nat \<Rightarrow> cx_hmac_ctx \<times> (c_error + cx_md)" where
  "cx_hmac_ripemd160_init hmac key key_len = hmac_init_or_throw hmac CX_RIPEMD160 key key_len"

definition cx_hmac_sha512_init :: "cx_hmac_ctx \<Rightarrow> bytes option \<Rightarrow> nat \<Rightarrow> cx_hmac_ctx \<times> (c_error + cx_md)" where
  "cx_hmac_sha512_init hmac key key_len = hmac_init_or_throw hmac CX_SHA512 key key_len"

text \<open>The checks of \<open>cx_scc.c\<close> that \<open>cx_hmac\<close> makes on its context.\<close>

fun cx_scc_struct_check_hash :: "cx_hash_ctx \<Rightarrow> unit res" where
  "cx_scc_struct_check_hash (Ctx_sha256 c) =
     (if sha256_algo c = CX_SHA256 \<and> sha256_blen c < 64 then Inr () else Inl (Throw INVALID_PARAMETER))"
| "cx_scc_struct_check_hash (Ctx_ripemd160 c) =
     (if rmd_algo c = CX_RIPEMD160 \<and> rmd_blen c < 64 then Inr () else Inl (Throw INVALID_PARAMETER))"
| "cx_scc_struct_check_hash (Ctx_sha512 c) =
     (if sha512_algo c = CX_SHA512 \<and> sha512_blen c < 128 then Inr () else Inl (Throw INVALID_PARAMETER))"
| "cx_scc_struct_check_hash (Ctx_blake2b c) =
     (if blake2b_algo c = CX_BLAKE2B \<and> 1 \<le> blake2b_output_size c \<and> blake2b_output_size c \<le> 64 \<and>
         b2_buflen (blake2b_ctx c) \<le> 128 \<and> b2_outlen (blake2b_ctx c) \<le> 128
      then Inr () else Inl (Throw INVALID_PARAMETER))"
| "cx_scc_struct_check_hash _ = Inl (Throw INVALID_PARAMETER)"

definition cx_scc_struct_check_hashmac :: "cx_hmac_ctx \<Rightarrow> unit res" where
  "cx_scc_struct_check_hashmac hmac =
     (let a = header_algo (hash_ctx hmac) in
      if a \<noteq> CX_SHA256 \<and> a \<noteq> CX_SHA512 \<and> a \<noteq> CX_RIPEMD160 then Inl (Throw INVALID_PARAMETER)
      else cx_scc_struct_check_hash (hash_ctx hmac))"

definition CX_NO_REINIT :: u32 where
  "CX_NO_REINIT = push_bit 15 1"

definition cx_hmac ::
  "cx_hmac_ctx \<Rightarrow> u32 \<Rightarrow> bytes option \<Rightarrow> nat \<Rightarrow> bytes option \<Rightarrow> nat \<Rightarrow>
     cx_hmac_ctx \<times> (c_error + nat \<times> bytes option)" where
  "cx_hmac hmac mode data len out out_len =
     (if data = None \<and> len \<noteq> 0 \<or> out = None \<and> out_len \<noteq> 0 then (hmac, Inl (Throw INVALID_PARAMETER))
      else case cx_scc_struct_check_hashmac hmac of
        Inl e \<Rightarrow> (hmac, Inl e)
      | Inr _ \<Rightarrow>
         (case spec_cx_hmac_update hmac data len of
            (hmac, Inl e) \<Rightarrow> (hmac, Inl e)
          | (hmac, Inr _) \<Rightarrow>
              if mode AND CX_LAST = 0 then (hmac, Inr (0, out))
              else
                (case spec_cx_hmac_final hmac out out_len of
                   (hmac, Inl e) \<Rightarrow> (hmac, Inl e)
                 | (hmac, Inr (_, out, osz)) \<Rightarrow>
                     if mode AND CX_NO_REINIT \<noteq> 0 then (hmac, Inr (osz, out))
                     else
                       (case spec_cx_hmac_init hmac (get_algorithm hmac) None 0 of
                          (hmac, Inl e) \<Rightarrow> (hmac, Inl e)
                        | (hmac, Inr _) \<Rightarrow> (hmac, Inr (osz, out))))))"

text \<open>The one-shot calls, on the global context \<open>G_cx.hmac\<close>.\<close>

definition hmac_oneshot ::
  "cx_md \<Rightarrow> cx_hmac_ctx \<Rightarrow> bytes option \<Rightarrow> nat \<Rightarrow> bytes option \<Rightarrow> nat \<Rightarrow> bytes option \<Rightarrow> nat \<Rightarrow>
     cx_hmac_ctx \<times> (c_error + nat \<times> bytes option)" where
  "hmac_oneshot md G key key_len data len out out_len =
     (case spec_cx_hmac_init G md key key_len of
        (G, Inl e) \<Rightarrow> (G, Inl e)
      | (G, Inr _) \<Rightarrow>
         (case spec_cx_hmac_update G data len of
            (G, Inl e) \<Rightarrow> (G, Inl e)
          | (G, Inr _) \<Rightarrow>
             (case spec_cx_hmac_final G out out_len of
                (G, Inl e) \<Rightarrow> (G, Inl e)
              | (G, Inr (_, out, mac_len)) \<Rightarrow> (G, Inr (mac_len, out)))))"

definition spec_cx_hmac_sha256 ::
  "cx_hmac_ctx \<Rightarrow> bytes option \<Rightarrow> nat \<Rightarrow> bytes option \<Rightarrow> nat \<Rightarrow> bytes option \<Rightarrow> nat \<Rightarrow>
     cx_hmac_ctx \<times> (c_error + nat \<times> bytes option)" where
  "spec_cx_hmac_sha256 = hmac_oneshot CX_SHA256"

definition spec_cx_hmac_sha512 ::
  "cx_hmac_ctx \<Rightarrow> bytes option \<Rightarrow> nat \<Rightarrow> bytes option \<Rightarrow> nat \<Rightarrow> bytes option \<Rightarrow> nat \<Rightarrow>
     cx_hmac_ctx \<times> (c_error + nat \<times> bytes option)" where
  "spec_cx_hmac_sha512 = hmac_oneshot CX_SHA512"

section \<open>HMAC as in RFC 2104\<close>

definition hmac_block :: "(bytes \<Rightarrow> bytes) \<Rightarrow> nat \<Rightarrow> bytes \<Rightarrow> bytes" where
  "hmac_block H B k = (let k0 = (if B < length k then H k else k) in k0 @ replicate (B - length k0) 0)"

definition rfc2104 :: "(bytes \<Rightarrow> bytes) \<Rightarrow> nat \<Rightarrow> bytes \<Rightarrow> bytes \<Rightarrow> bytes" where
  "rfc2104 H B k m =
     H (map (\<lambda>b. b XOR 0x5c) (hmac_block H B k) @ H (map (\<lambda>b. b XOR 0x36) (hmac_block H B k) @ m))"

lemma length_hmac_block: "length (H k) \<le> B \<Longrightarrow> length (hmac_block H B k) = B"
  by (simp add: hmac_block_def Let_def)

lemma xor_pad_append: "length a = n \<Longrightarrow> xor_pad p n (a @ b) = map (\<lambda>x. x XOR p) a @ b"
  by (simp add: xor_pad_def)

lemma xor_pads: "(x XOR IPAD) XOR (OPAD XOR IPAD) = x XOR (0x5c :: u8)"
  by (simp add: IPAD_def OPAD_def xor.assoc)

text \<open>What HMAC needs of a hash algorithm of the table.\<close>

locale hmac_hash = generic_hash init absorbed digest osize cap
  for init absorbed digest osize cap +
  fixes md :: cx_md and bs :: nat
  assumes init_md: "spec_cx_hash_init x md = (init, Inr 1)"
    and allowed: "is_allowed_digest md"
    and absorbed_md: "absorbed x m \<Longrightarrow> header_algo x = md"
    and block_size_md: "get_block_size md = bs"
    and sizes: "0 < osize" "osize \<le> 64" "osize \<le> bs" "bs \<le> 128" "192 < cap"
begin

definition mac :: "bytes \<Rightarrow> bytes \<Rightarrow> bytes" where
  "mac k m = rfc2104 digest bs k m"

definition inner_key :: "bytes \<Rightarrow> bytes" where
  "inner_key k = map (\<lambda>b. b XOR IPAD) (hmac_block digest bs k)"

definition hmac_absorbed :: "cx_hmac_ctx \<Rightarrow> bytes \<Rightarrow> bytes \<Rightarrow> bool" where
  "hmac_absorbed c k m \<longleftrightarrow> hmac_key c = inner_key k @ replicate (128 - bs) 0 \<and>
     absorbed (hash_ctx c) (inner_key k @ m)"

lemma length_inner_key [simp]: "length (inner_key k) = bs"
  using sizes by (simp add: inner_key_def length_hmac_block digest_length)

lemma update_take:
  assumes "absorbed x m" and "n \<le> length d" and "length m + n < cap"
  shows "\<exists>x'. spec_cx_hash_update x (Some d) n = (x', Inr 1) \<and> absorbed x' (m @ take n d)"
  using update_absorbed [OF assms(1), of "take n d"] assms(2,3) spec_cx_hash_update_prefix [OF assms(2), of x]
  by simp

lemma set_key:
  assumes "length k < cap"
  shows "\<exists>x. hmac_set_key md bs (Some k) (length k) hmac_zero = (x, Inr (inner_key k @ replicate (128 - bs) 0))"
proof -
  have pad: "k0 @ replicate (128 - length k0) 0 = (k0 @ replicate (bs - length k0) 0) @ replicate (128 - bs) (0 :: u8)"
    if "length k0 \<le> bs" for k0
    using that sizes by (simp flip: replicate_add)
  have ipad: "xor_pad IPAD bs (hmac_block digest bs k @ replicate (128 - bs) 0) = inner_key k @ replicate (128 - bs) 0"
    using sizes by (simp add: xor_pad_append length_hmac_block digest_length inner_key_def)
  show ?thesis
  proof (cases "bs < length k")
    case True
    obtain x where x: "spec_cx_hash_update init (Some k) (length k) = (x, Inr 1)" "absorbed x k"
      using update_absorbed [OF init_absorbed, of k] assms by auto
    have "snd (spec_cx_hash_final x (Some (replicate 128 0))) =
        Inr (1, Some (hmac_block digest bs k @ replicate (128 - bs) 0))"
      using final_digest [OF x(2), of "replicate 128 0"] True pad [of "digest k"] sizes
      by (simp add: put_digest_fits digest_length hmac_block_def)
    then show ?thesis
      using True init_md x(1) ipad
      by (cases "spec_cx_hash_final x (Some (replicate 128 0))")
        (simp add: hmac_set_key_def hmac_zero_def)
  next
    case False
    have "mem_write (replicate 128 0) 0 k = Inr (hmac_block digest bs k @ replicate (128 - bs) 0)"
      using False sizes pad [of k] by (simp add: mem_write_def buf_write_def hmac_block_def)
    then show ?thesis using False ipad by (simp add: hmac_set_key_def hmac_zero_def)
  qed
qed

lemma hmac_init:
  assumes "length k < cap"
  shows "\<exists>c'. spec_cx_hmac_init c md (Some k) (length k) = (c', Inr 1) \<and> hmac_absorbed c' k []"
proof -
  let ?k = "inner_key k @ replicate (128 - bs) 0"
  obtain x where x: "hmac_set_key md bs (Some k) (length k) hmac_zero = (x, Inr ?k)"
    using set_key [OF assms] by blast
  obtain x' where x': "spec_cx_hash_update init (Some ?k) bs = (x', Inr 1)" "absorbed x' (inner_key k)"
    using update_take [OF init_absorbed, of bs ?k] sizes by auto
  show ?thesis
    using x x' init_md allowed
    by (simp add: spec_cx_hmac_init_def Let_def block_size_md hmac_absorbed_def)
qed

lemma hash_ctx_absorbed:
  assumes "hmac_absorbed c k m"
  shows "get_algorithm c = md" and "get_hash_ctx c = Some (hash_ctx c)" and "spec_cx_hash_get_size (hash_ctx c) = Inr osize"
  using assms absorbed_md allowed get_size
  by (auto simp: hmac_absorbed_def get_algorithm_def get_hash_ctx_def)

lemma hmac_update:
  assumes "hmac_absorbed c k m" and "bs + length m + length d < cap"
  shows "\<exists>c'. spec_cx_hmac_update c (Some d) (length d) = (c', Inr 1) \<and> hmac_absorbed c' k (m @ d)"
proof -
  have "absorbed (hash_ctx c) (inner_key k @ m)" using assms(1) by (simp add: hmac_absorbed_def)
  from update_absorbed [OF this, of d] assms
  show ?thesis
    by (auto simp: spec_cx_hmac_update_def hash_ctx_absorbed [OF assms(1)] hmac_absorbed_def)
qed

lemma hmac_outer_mac:
  assumes "length h = osize" and "osize \<le> length i" and "take osize i = h"
  shows "\<exists>x'. hmac_outer x md bs osize i (map (\<lambda>b. b XOR 0x5c) (hmac_block digest bs k) @ r) =
    (x', Inr (digest (map (\<lambda>b. b XOR 0x5c) (hmac_block digest bs k) @ h) @
      drop osize (map (\<lambda>b. b XOR 0x5c) (hmac_block digest bs k) @ r))) \<and> header_algo x' = md"
proof -
  let ?o = "map (\<lambda>b. b XOR 0x5c) (hmac_block digest bs k)"
  have o: "length ?o = bs" using sizes by (simp add: length_hmac_block digest_length)
  obtain x1 where x1: "spec_cx_hash_update init (Some (?o @ r)) bs = (x1, Inr 1)" "absorbed x1 ?o"
    using update_take [OF init_absorbed, of bs "?o @ r"] sizes o by auto
  obtain x2 where x2: "spec_cx_hash_update x1 (Some i) osize = (x2, Inr 1)" "absorbed x2 (?o @ h)"
    using update_take [OF x1(2) assms(2)] sizes o assms by auto
  have "snd (spec_cx_hash_final x2 (Some (?o @ r))) = Inr (1, Some (digest (?o @ h) @ drop osize (?o @ r)))"
    using final_digest [OF x2(2), of "?o @ r"] sizes o
    by (simp add: put_digest_fits digest_length del: drop_append)
  then show ?thesis
    using init_md x1(1) x2(1) spec_cx_hash_final_algo [of x2 "Some (?o @ r)"] absorbed_md [OF x2(2)]
    by (cases "spec_cx_hash_final x2 (Some (?o @ r))") (simp add: hmac_outer_def)
qed

lemma hmac_final:
  assumes "hmac_absorbed c k m" and "min n osize \<le> length out"
  shows "\<exists>c'. spec_cx_hmac_final c (Some out) n =
    (c', Inr (1, Some (take (min n osize) (mac k m) @ drop (min n osize) out), min n osize)) \<and> get_algorithm c' = md"
proof -
  let ?h = "digest (inner_key k @ m)" and ?i = "digest (inner_key k @ m) @ replicate (64 - osize) 0"
  have ab: "absorbed (hash_ctx c) (inner_key k @ m)" and key: "hmac_key c = inner_key k @ replicate (128 - bs) 0"
    using assms(1) by (simp_all add: hmac_absorbed_def)
  have inner: "snd (spec_cx_hash_final (hash_ctx c) (Some (replicate 64 0))) = Inr (1, Some ?i)"
    using final_digest [OF ab, of "replicate 64 0"] sizes by (simp add: put_digest_fits digest_length)
  have okey: "xor_pad (OPAD XOR IPAD) bs (hmac_key c) =
      map (\<lambda>b. b XOR 0x5c) (hmac_block digest bs k) @ replicate (128 - bs) 0"
    unfolding key by (subst xor_pad_append) (rule length_inner_key, simp add: inner_key_def xor_pads)
  obtain x1 where x1: "spec_cx_hash_final (hash_ctx c) (Some (replicate 64 0)) = (x1, Inr (1, Some ?i))"
    using inner by (cases "spec_cx_hash_final (hash_ctx c) (Some (replicate 64 0))") auto
  obtain x' t where outer: "hmac_outer x1 md bs osize ?i (xor_pad (OPAD XOR IPAD) bs (hmac_key c)) = (x', Inr (mac k m @ t))"
      "header_algo x' = md"
    using hmac_outer_mac [of ?h ?i x1 k "replicate (128 - bs) 0"] okey
    by (auto simp: digest_length mac_def rfc2104_def inner_key_def IPAD_def)
  have "length (mac k m) = osize" by (simp add: mac_def rfc2104_def digest_length)
  then show ?thesis
    using hash_ctx_absorbed [OF assms(1)] x1 outer assms(2)
    by (auto simp: spec_cx_hmac_final_def get_algorithm_def Let_def block_size_md mem_read_def mem_write_def buf_write_def min_def
        split: if_splits)
qed

lemma oneshot_mac:
  assumes "length k < cap" and "bs + length d < cap" and "min n osize \<le> length out"
  shows "snd (hmac_oneshot md G (Some k) (length k) (Some d) (length d) (Some out) n) =
    Inr (min n osize, Some (take (min n osize) (mac k d) @ drop (min n osize) out))"
proof -
  obtain c where c: "spec_cx_hmac_init G md (Some k) (length k) = (c, Inr 1)" "hmac_absorbed c k []"
    using hmac_init [OF assms(1)] by blast
  obtain c' where c': "spec_cx_hmac_update c (Some d) (length d) = (c', Inr 1)" "hmac_absorbed c' k d"
    using hmac_update [OF c(2), of d] assms(2) by auto
  show ?thesis
    using c(1) c'(1) hmac_final [OF c'(2) assms(3)] by (auto simp: hmac_oneshot_def)
qed

end

section \<open>Without a key\<close>

text \<open>
  With a \<open>NULL\<close> key the pad is not applied to the zero block, so that the code computes the MAC
  under the key of \<open>bs\<close> bytes \<open>0x36\<close> instead of the empty key.
\<close>

context hmac_hash
begin

lemma hmac_init_null: "\<exists>c'. spec_cx_hmac_init c md None 0 = (c', Inr 1) \<and> hmac_absorbed c' (replicate bs 0x36) [] \<and>
  hmac_key c' = replicate 128 0"
proof -
  have zero: "inner_key (replicate bs 0x36) = replicate bs 0"
    by (simp add: inner_key_def hmac_block_def IPAD_def)
  have key: "inner_key (replicate bs 0x36) @ replicate (128 - bs) 0 = replicate 128 0"
    unfolding zero using sizes by (simp flip: replicate_add)
  have "hmac_set_key md bs None 0 hmac_zero = (Ctx_header CX_NONE, Inr (replicate 128 0))"
    by (simp add: hmac_set_key_def hmac_zero_def)
  moreover obtain x' where "spec_cx_hash_update init (Some (replicate 128 0)) bs = (x', Inr 1)"
      "absorbed x' (inner_key (replicate bs 0x36))"
    using update_take [OF init_absorbed, of bs "replicate 128 0"] sizes zero by (auto simp: min_def)
  ultimately show ?thesis
    using init_md allowed key
    by (simp add: spec_cx_hmac_init_def Let_def block_size_md hmac_absorbed_def)
qed

lemma oneshot_null:
  assumes "bs + length d < cap" and "min n osize \<le> length out"
  shows "snd (hmac_oneshot md G None 0 (Some d) (length d) (Some out) n) =
    Inr (min n osize, Some (take (min n osize) (mac (replicate bs 0x36) d) @ drop (min n osize) out))"
proof -
  obtain c where c: "spec_cx_hmac_init G md None 0 = (c, Inr 1)" "hmac_absorbed c (replicate bs 0x36) []"
    using hmac_init_null by blast
  obtain c' where c': "spec_cx_hmac_update c (Some d) (length d) = (c', Inr 1)" "hmac_absorbed c' (replicate bs 0x36) d"
    using hmac_update [OF c(2), of d] assms(1) by auto
  show ?thesis
    using c(1) c'(1) hmac_final [OF c'(2) assms(2)] by (auto simp: hmac_oneshot_def)
qed

end

section \<open>The call with a mode\<close>

text \<open>A message in pieces, none of them the last.\<close>

fun cx_hmac_pieces :: "cx_hmac_ctx \<Rightarrow> bytes list \<Rightarrow> cx_hmac_ctx \<times> (c_error + nat)" where
  "cx_hmac_pieces c [] = (c, Inr 0)"
| "cx_hmac_pieces c (d # ds) =
     (case cx_hmac c 0 (Some d) (length d) None 0 of
        (c, Inl e) \<Rightarrow> (c, Inl e) | (c, Inr _) \<Rightarrow> cx_hmac_pieces c ds)"

locale hmac_call = hmac_hash +
  assumes scc: "absorbed x m \<Longrightarrow> cx_scc_struct_check_hash x = Inr ()"
    and scc_md: "md \<in> {CX_SHA256, CX_SHA512, CX_RIPEMD160}"
begin

lemma scc_absorbed: "hmac_absorbed c k m \<Longrightarrow> cx_scc_struct_check_hashmac c = Inr ()"
  using scc scc_md absorbed_md by (auto simp: hmac_absorbed_def cx_scc_struct_check_hashmac_def)

lemma cx_hmac_more:
  assumes "hmac_absorbed c k m" and "bs + length m + length d < cap"
  shows "\<exists>c'. cx_hmac c 0 (Some d) (length d) None 0 = (c', Inr (0, None)) \<and> hmac_absorbed c' k (m @ d)"
  using hmac_update [OF assms] scc_absorbed [OF assms(1)] by (auto simp: cx_hmac_def)

lemma hmac_pieces:
  "hmac_absorbed c k m \<Longrightarrow> bs + length m + length (concat ds) < cap \<Longrightarrow>
    \<exists>c'. cx_hmac_pieces c ds = (c', Inr 0) \<and> hmac_absorbed c' k (m @ concat ds)"
proof (induction ds arbitrary: c m)
  case (Cons d ds)
  then obtain c1 where "cx_hmac c 0 (Some d) (length d) None 0 = (c1, Inr (0, None))" "hmac_absorbed c1 k (m @ d)"
    using cx_hmac_more [of c k m d] by auto
  with Cons.IH [of c1 "m @ d"] Cons.prems(2) show ?case by auto
qed simp

lemma cx_hmac_last:
  assumes "hmac_absorbed c k m" and "bs + length m + length d < cap" and "min n osize \<le> length out"
    and "mode AND CX_LAST \<noteq> 0"
  shows "\<exists>c'. cx_hmac c mode (Some d) (length d) (Some out) n =
      (c', Inr (min n osize, Some (take (min n osize) (mac k (m @ d)) @ drop (min n osize) out))) \<and>
    (mode AND CX_NO_REINIT = 0 \<longrightarrow> hmac_absorbed c' (replicate bs 0x36) [])"
proof -
  obtain c1 where c1: "spec_cx_hmac_update c (Some d) (length d) = (c1, Inr 1)" "hmac_absorbed c1 k (m @ d)"
    using hmac_update [OF assms(1,2)] by blast
  obtain c2 where c2: "spec_cx_hmac_final c1 (Some out) n =
      (c2, Inr (1, Some (take (min n osize) (mac k (m @ d)) @ drop (min n osize) out), min n osize))"
      "get_algorithm c2 = md"
    using hmac_final [OF c1(2) assms(3)] by blast
  then show ?thesis
    using scc_absorbed [OF assms(1)] c1(1) c2 assms(4) hmac_init_null [of c2] by (auto simp: cx_hmac_def)
qed

end

section \<open>The algorithms\<close>

interpretation hmac256: hmac_hash "Ctx_sha256 cx_sha256_init"
  "\<lambda>x m. \<exists>c. x = Ctx_sha256 c \<and> sha256_absorbed cx_sha256_init c m" "fips256_digest hzero_256 32" 32 "2 ^ 32" CX_SHA256 64
  by unfold_locales (auto simp: spec_cx_hash_init_def is_allowed_digest_def get_block_size_def
    cx_sha256_info_def cx_sha256_init_def dest: absorbed_algo)

interpretation hmac224: hmac_hash "Ctx_sha256 cx_sha224_init"
  "\<lambda>x m. \<exists>c. x = Ctx_sha256 c \<and> sha256_absorbed cx_sha224_init c m" "fips256_digest hzero_224 28" 28 "2 ^ 32" CX_SHA224 64
  by unfold_locales (auto simp: spec_cx_hash_init_def is_allowed_digest_def get_block_size_def
    cx_sha224_info_def cx_sha224_init_def dest: absorbed_algo)

interpretation hmac384: hmac_hash "Ctx_sha512 cx_sha384_init"
  "\<lambda>x m. \<exists>c. x = Ctx_sha512 c \<and> sha384.absorbed c m" "fips512_digest hzero_384 48" 48 "2 ^ 23" CX_SHA384 128
  by unfold_locales (auto simp: spec_cx_hash_init_def is_allowed_digest_def get_block_size_def
    cx_sha384_info_def dest: absorbed_algo)

interpretation hmac512: hmac_hash "Ctx_sha512 cx_sha512_init"
  "\<lambda>x m. \<exists>c. x = Ctx_sha512 c \<and> sha512.absorbed c m" "fips512_digest hzero_512 64" 64 "2 ^ 23" CX_SHA512 128
  by unfold_locales (auto simp: spec_cx_hash_init_def is_allowed_digest_def get_block_size_def
    cx_sha512_info_def dest: absorbed_algo)

interpretation hmac160: hmac_hash "Ctx_ripemd160 cx_ripemd160_init"
  "\<lambda>x m. \<exists>c. x = Ctx_ripemd160 c \<and> ripemd160.absorbed c m" ripemd160_digest 20 "2 ^ 22" CX_RIPEMD160 64
  by unfold_locales (auto simp: spec_cx_hash_init_def is_allowed_digest_def get_block_size_def
    cx_ripemd160_info_def dest: absorbed_algo)

lemma sha256_init_algo: "sha256_algo cx_sha256_init = CX_SHA256"
  by (simp add: cx_sha256_init_def)

interpretation mac256: hmac_call "Ctx_sha256 cx_sha256_init"
  "\<lambda>x m. \<exists>c. x = Ctx_sha256 c \<and> sha256_absorbed cx_sha256_init c m" "fips256_digest hzero_256 32" 32 "2 ^ 32" CX_SHA256 64
  by unfold_locales (use hash256.absorbed_valid sha256_absorbed_algo [of cx_sha256_init] in
    \<open>auto simp: sha256_init_algo cx_sha256_validate_context_def\<close>)

interpretation mac512: hmac_call "Ctx_sha512 cx_sha512_init"
  "\<lambda>x m. \<exists>c. x = Ctx_sha512 c \<and> sha512.absorbed c m" "fips512_digest hzero_512 64" 64 "2 ^ 23" CX_SHA512 128
  by unfold_locales (auto dest: absorbed_algo sha512.absorbed_wf(2))

interpretation mac160: hmac_call "Ctx_ripemd160 cx_ripemd160_init"
  "\<lambda>x m. \<exists>c. x = Ctx_ripemd160 c \<and> ripemd160.absorbed c m" ripemd160_digest 20 "2 ^ 22" CX_RIPEMD160 64
  by unfold_locales (auto dest: absorbed_algo ripemd160.absorbed_wf(2))

section \<open>What the system calls compute\<close>

text \<open>
  Property C6: the one-shot calls \<open>spec_cx_hmac_sha256\<close> and \<open>spec_cx_hmac_sha512\<close> return the MAC of
  RFC 2104 under the key, cut to the length of the output buffer, whatever the global context
  held before; keys longer than a block are hashed first.
\<close>

theorem hmac_oneshot_rfc2104:
  assumes "length k < 2 ^ 22" and "length d < 2 ^ 22" and "n \<le> length out"
  shows "snd (spec_cx_hmac_sha256 G (Some k) (length k) (Some d) (length d) (Some out) n) =
      Inr (min n 32, Some (take (min n 32) (rfc2104 (fips256_digest hzero_256 32) 64 k d) @ drop (min n 32) out)) \<and>
    snd (spec_cx_hmac_sha512 G (Some k) (length k) (Some d) (length d) (Some out) n) =
      Inr (min n 64, Some (take (min n 64) (rfc2104 (fips512_digest hzero_512 64) 128 k d) @ drop (min n 64) out))"
  using hmac256.oneshot_mac [of k d n out G] hmac512.oneshot_mac [of k d n out G] assms(1,2)
    min.coboundedI1 [OF assms(3)]
  by (simp add: spec_cx_hmac_sha256_def spec_cx_hmac_sha512_def hmac256.mac_def hmac512.mac_def)

theorem hmac_oneshot_rfc2104_witness:
  "snd (spec_cx_hmac_sha256 hmac_zero (Some [1]) (length [1 :: u8]) (Some [2, 3]) (length [2, 3 :: u8])
      (Some (replicate 32 0)) 32) =
     Inr (32, Some (take 32 (rfc2104 (fips256_digest hzero_256 32) 64 [1] [2, 3])))"
  using hmac_oneshot_rfc2104 [of "[1]" "[2, 3]" 32 "replicate 32 0" hmac_zero] by simp

text \<open>
  A context initialised with a key and fed with a message in pieces through \<open>cx_hmac\<close>
  gives the MAC of the whole message with the call that has \<open>CX_LAST\<close> set.
\<close>

theorem cx_hmac_stream:
  assumes "length k < 2 ^ 22" and "length (concat ds) + length d < 2 ^ 22" and "n \<le> length out"
    and "mode AND CX_LAST \<noteq> 0"
  shows "\<exists>c0 c. cx_hmac_sha256_init G (Some k) (length k) = (c0, Inr CX_SHA256) \<and>
    cx_hmac_pieces c0 ds = (c, Inr 0) \<and>
    snd (cx_hmac c mode (Some d) (length d) (Some out) n) =
      Inr (min n 32, Some (take (min n 32) (rfc2104 (fips256_digest hzero_256 32) 64 k (concat ds @ d)) @ drop (min n 32) out))"
proof -
  obtain c0 where c0: "spec_cx_hmac_init G CX_SHA256 (Some k) (length k) = (c0, Inr 1)" "hmac256.hmac_absorbed c0 k []"
    using hmac256.hmac_init [of k G] assms(1) by auto
  obtain c where c: "cx_hmac_pieces c0 ds = (c, Inr 0)" "hmac256.hmac_absorbed c k (concat ds)"
    using mac256.hmac_pieces [OF c0(2), of ds] assms(2) by auto
  obtain c' where "cx_hmac c mode (Some d) (length d) (Some out) n =
      (c', Inr (min n 32, Some (take (min n 32) (hmac256.mac k (concat ds @ d)) @ drop (min n 32) out)))"
    using mac256.cx_hmac_last [OF c(2), of d n out mode] assms(2,4) min.coboundedI1 [OF assms(3)] by auto
  then show ?thesis
    using c0(1) c(1)
    by (simp add: cx_hmac_sha256_init_def hmac_init_or_throw_def hmac256.mac_def)
qed

theorem cx_hmac_stream_witness:
  "\<exists>c0 c. cx_hmac_sha256_init hmac_zero (Some [1]) (length [1 :: u8]) = (c0, Inr CX_SHA256) \<and>
    cx_hmac_pieces c0 [[2], [3]] = (c, Inr 0) \<and>
    snd (cx_hmac c 1 (Some [4]) (length [4 :: u8]) (Some (replicate 16 0)) 16) =
      Inr (16, Some (take 16 (rfc2104 (fips256_digest hzero_256 32) 64 [1] [2, 3, 4])))"
  using cx_hmac_stream [of "[1]" "[[2], [3]]" "[4]" 16 "replicate 16 0" 1 hmac_zero] by (simp add: CX_LAST_def)

text \<open>
  Without \<open>CX_NO_REINIT\<close> a last call of \<open>cx_hmac\<close> forgets the key: the context it
  leaves behind computes MACs under the fixed key of 64 bytes \<open>0x36\<close>, which is also what a
  \<open>NULL\<close> key means.
\<close>

theorem cx_hmac_reinit_forgets_key:
  assumes "length k < 2 ^ 22" and "length d < 2 ^ 22" and "length e < 2 ^ 22" and "n \<le> length out"
  shows "\<exists>c0 c. cx_hmac_sha256_init G (Some k) (length k) = (c0, Inr CX_SHA256) \<and>
    fst (cx_hmac c0 CX_LAST (Some d) (length d) (Some out) n) = c \<and>
    snd (cx_hmac c CX_LAST (Some e) (length e) (Some out) n) =
      Inr (min n 32, Some (take (min n 32) (rfc2104 (fips256_digest hzero_256 32) 64 (replicate 64 0x36) e) @
                           drop (min n 32) out))"
proof -
  have mode: "CX_LAST AND CX_LAST \<noteq> 0" "CX_LAST AND CX_NO_REINIT = 0"
    by (simp_all add: CX_LAST_def CX_NO_REINIT_def)
  obtain c0 where c0: "spec_cx_hmac_init G CX_SHA256 (Some k) (length k) = (c0, Inr 1)" "hmac256.hmac_absorbed c0 k []"
    using hmac256.hmac_init [of k G] assms(1) by auto
  obtain c where c: "fst (cx_hmac c0 CX_LAST (Some d) (length d) (Some out) n) = c"
      "hmac256.hmac_absorbed c (replicate 64 0x36) []"
    using mac256.cx_hmac_last [OF c0(2), of d n out CX_LAST] assms(2) min.coboundedI1 [OF assms(4)] mode by auto
  obtain c' where "cx_hmac c CX_LAST (Some e) (length e) (Some out) n =
      (c', Inr (min n 32, Some (take (min n 32) (hmac256.mac (replicate 64 0x36) e) @ drop (min n 32) out)))"
    using mac256.cx_hmac_last [OF c(2), of e n out CX_LAST] assms(3) min.coboundedI1 [OF assms(4)] mode by auto
  then show ?thesis
    using c0(1) c(1) by (simp add: cx_hmac_sha256_init_def hmac_init_or_throw_def hmac256.mac_def)
qed

theorem cx_hmac_reinit_forgets_key_witness:
  "\<exists>c0 c. cx_hmac_sha256_init hmac_zero (Some [1]) (length [1 :: u8]) = (c0, Inr CX_SHA256) \<and>
    fst (cx_hmac c0 CX_LAST (Some [2]) (length [2 :: u8]) (Some (replicate 32 0)) 32) = c \<and>
    snd (cx_hmac c CX_LAST (Some [2]) (length [2 :: u8]) (Some (replicate 32 0)) 32) =
      Inr (32, Some (take 32 (rfc2104 (fips256_digest hzero_256 32) 64 (replicate 64 0x36) [2])))"
  using cx_hmac_reinit_forgets_key [of "[1]" "[2]" "[2]" 32 "replicate 32 0" hmac_zero] by simp

end
