(* ===== verification/Cx_Hkdf.thy ===== *)
theory Cx_Hkdf
  imports Cx_Hmac
begin

text \<open>
  \<open>src/bolos/cx_hkdf.c\<close>: the extract and expand steps of HKDF over the HMAC of the library. The
  expansion counts its blocks in one byte; RFC 5869 allows 255 of them, which the code does not
  check. With a hash algorithm of variable size the block length is 0 and the loop does not end,
  so that it is a partial function.
\<close>

section \<open>Operations\<close>

text \<open>
  \<open>hmac_ctx\<close> is the uninitialised local of the C functions. Without a salt the code clears the
  start of \<open>hmac_ctx.key\<close> and uses it as the salt; the initialisation clears the context and
  copies the zeros onto themselves.
\<close>

definition cx_hkdf_extract ::
  "cx_hmac_ctx \<Rightarrow> cx_md \<Rightarrow> bytes option \<Rightarrow> nat \<Rightarrow> bytes option \<Rightarrow> nat \<Rightarrow> bytes \<Rightarrow> bytes res" where
  "cx_hkdf_extract hmac_ctx hash_id ikm ikm_len sa sa_len prk =
     (case spec_cx_hash_get_info hash_id of
        None \<Rightarrow> Inl Oob
      | Some info \<Rightarrow>
          (let md_len = output_size info;
               (sa, sa_len) = (if sa = None then (Some (replicate md_len 0), md_len) else (sa, sa_len)) in
           case spec_cx_hmac_init hmac_ctx hash_id sa sa_len of
             (hmac_ctx, Inl e) \<Rightarrow> Inl e
           | (hmac_ctx, Inr _) \<Rightarrow>
              (case spec_cx_hmac_update hmac_ctx ikm ikm_len of
                 (hmac_ctx, Inl e) \<Rightarrow> Inl e
               | (hmac_ctx, Inr _) \<Rightarrow>
                  (case snd (spec_cx_hmac_final hmac_ctx (Some prk) md_len) of
                     Inl e \<Rightarrow> Inl e
                   | Inr (_, out, _) \<Rightarrow> (case out of None \<Rightarrow> Inl Oob | Some prk \<Rightarrow> Inr prk)))))"

text \<open>The calls of one round of the expansion: the block \<open>T\<close> and the context afterwards.\<close>

definition hkdf_update :: "cx_hmac_ctx \<times> (c_error + 'a) \<Rightarrow> bytes option \<Rightarrow> nat \<Rightarrow> cx_hmac_ctx \<times> (c_error + nat)" where
  "hkdf_update p data len =
     (case p of (c, Inl e) \<Rightarrow> (c, Inl e) | (c, Inr _) \<Rightarrow> spec_cx_hmac_update c data len)"

definition hkdf_round ::
  "cx_md \<Rightarrow> bytes option \<Rightarrow> nat \<Rightarrow> bytes option \<Rightarrow> nat \<Rightarrow> nat \<Rightarrow> cx_hmac_ctx \<Rightarrow> u8 \<Rightarrow> nat \<Rightarrow> bytes \<Rightarrow>
     (cx_hmac_ctx \<times> bytes \<times> nat) res" where
  "hkdf_round hash_id prk prk_len info info_len md_len c i offset T =
     (let p = spec_cx_hmac_init c hash_id prk prk_len;
          p = (if 1 < i then hkdf_update p (Some T) offset else p);
          p = hkdf_update p info info_len;
          p = hkdf_update p (Some [i]) 1
      in case p of
           (c, Inl e) \<Rightarrow> Inl e
         | (c, Inr _) \<Rightarrow>
             (case spec_cx_hmac_final c (Some T) md_len of
                (c, Inl e) \<Rightarrow> Inl e
              | (c, Inr (_, out, md_len)) \<Rightarrow> (case out of None \<Rightarrow> Inl Oob | Some T \<Rightarrow> Inr (c, T, md_len))))"

text \<open>\<open>memcpy(okm + (i - 1) * md_len, T, offset)\<close>: for \<open>i = 0\<close> the index is negative.\<close>

definition okm_write :: "bytes \<Rightarrow> u8 \<Rightarrow> nat \<Rightarrow> bytes \<Rightarrow> nat \<Rightarrow> bytes res" where
  "okm_write okm i md_len T offset =
     (if i = 0 \<and> 0 < md_len * offset then Inl Oob
      else res_bind (mem_read T 0 offset) (mem_write okm ((unat i - 1) * md_len)))"

partial_function (option) hkdf_loop ::
  "cx_md \<Rightarrow> bytes option \<Rightarrow> nat \<Rightarrow> bytes option \<Rightarrow> nat \<Rightarrow> nat \<Rightarrow> cx_hmac_ctx \<Rightarrow> u8 \<Rightarrow> nat \<Rightarrow> bytes \<Rightarrow>
     bytes \<Rightarrow> nat \<Rightarrow> bytes res option" where
  "hkdf_loop hash_id prk prk_len info info_len md_len c i offset T okm okm_len =
     (if okm_len = 0 then Some (Inr okm)
      else case hkdf_round hash_id prk prk_len info info_len md_len c i offset T of
        Inl e \<Rightarrow> Some (Inl e)
      | Inr (c, T, md_len) \<Rightarrow>
          (let offset = (if okm_len < md_len then okm_len else md_len) in
           case okm_write okm i md_len T offset of
             Inl e \<Rightarrow> Some (Inl e)
           | Inr okm \<Rightarrow>
               hkdf_loop hash_id prk prk_len info info_len md_len c (i + 1) offset T okm (okm_len - offset)))"

definition spec_cx_hkdf_expand ::
  "cx_hmac_ctx \<Rightarrow> bytes \<Rightarrow> cx_md \<Rightarrow> bytes option \<Rightarrow> nat \<Rightarrow> bytes option \<Rightarrow> nat \<Rightarrow> bytes \<Rightarrow> nat \<Rightarrow> bytes res option" where
  "spec_cx_hkdf_expand hmac_ctx T hash_id prk prk_len info info_len okm okm_len =
     (case spec_cx_hash_get_info hash_id of
        None \<Rightarrow> Some (Inl Oob)
      | Some hash_info \<Rightarrow>
          hkdf_loop hash_id prk prk_len info info_len (output_size hash_info) hmac_ctx 1 0 T okm okm_len)"

declare hkdf_loop.simps [code]

section \<open>HKDF as in RFC 5869\<close>

fun hkdf_T :: "(bytes \<Rightarrow> bytes) \<Rightarrow> bytes \<Rightarrow> nat \<Rightarrow> bytes" where
  "hkdf_T mac info 0 = []"
| "hkdf_T mac info (Suc n) = mac (hkdf_T mac info n @ info @ [of_nat (Suc n)])"

definition rfc5869_expand :: "(bytes \<Rightarrow> bytes) \<Rightarrow> nat \<Rightarrow> bytes \<Rightarrow> nat \<Rightarrow> bytes" where
  "rfc5869_expand mac hlen info L =
     take L (concat (map (\<lambda>i. hkdf_T mac info (Suc i)) [0..<(L + hlen - 1) div hlen]))"

context hmac_hash
begin

lemma hmac_update_any:
  assumes "hmac_absorbed c k m" and "n \<le> length d" and "bs + length m + n < cap"
  shows "\<exists>c'. spec_cx_hmac_update c (Some d) n = (c', Inr 1) \<and> hmac_absorbed c' k (m @ take n d)"
proof -
  have "absorbed (hash_ctx c) (inner_key k @ m)" using assms(1) by (simp add: hmac_absorbed_def)
  from update_take [OF this assms(2)] assms
  show ?thesis
    by (auto simp: spec_cx_hmac_update_def hash_ctx_absorbed [OF assms(1)] hmac_absorbed_def)
qed

lemma hkdf_round_mac:
  assumes "length prk < cap" and "bs + osize + length info + 1 < cap" and "length T = 64"
    and "1 < i \<longrightarrow> offset = osize \<and> take osize T = t" and "\<not> 1 < i \<longrightarrow> t = []"
  shows "\<exists>c'. hkdf_round md (Some prk) (length prk) (Some info) (length info) osize c i offset T =
    Inr (c', mac prk (t @ info @ [i]) @ drop osize T, osize)"
proof -
  obtain c0 where c0: "spec_cx_hmac_init c md (Some prk) (length prk) = (c0, Inr 1)" "hmac_absorbed c0 prk []"
    using hmac_init [OF assms(1)] by blast
  have t: "length t \<le> osize" using assms(3-5) sizes by auto
  obtain c1 r where c1: "(if 1 < i then hkdf_update (c0, Inr (1::nat)) (Some T) offset else (c0, Inr 1)) =
      (c1, Inr r)" "hmac_absorbed c1 prk t"
  proof (cases "1 < i")
    case True
    from hmac_update_any [OF c0(2), of osize T] sizes assms(2,3) obtain c1 where
      "spec_cx_hmac_update c0 (Some T) osize = (c1, Inr 1)" "hmac_absorbed c1 prk (take osize T)" by auto
    then show ?thesis using that [of c1 1] True assms(4) by (simp add: hkdf_update_def)
  next
    case False
    then show ?thesis using that [of c0 1] c0(2) assms(5) by simp
  qed
  obtain c2 where c2: "spec_cx_hmac_update c1 (Some info) (length info) = (c2, Inr 1)" "hmac_absorbed c2 prk (t @ info)"
    using hmac_update [OF c1(2), of info] t assms(2) by auto
  obtain c3 where c3: "spec_cx_hmac_update c2 (Some [i]) 1 = (c3, Inr 1)" "hmac_absorbed c3 prk (t @ info @ [i])"
    using hmac_update [OF c2(2), of "[i]"] t assms(2) by auto
  have "length (mac prk m) = osize" for m by (simp add: mac_def rfc2104_def digest_length)
  with hmac_final [OF c3(2), of osize T] sizes assms(3)
  obtain c4 where "spec_cx_hmac_final c3 (Some T) osize =
      (c4, Inr (1, Some (mac prk (t @ info @ [i]) @ drop osize T), osize))" by auto
  then show ?thesis
    unfolding hkdf_round_def Let_def c0(1) c1(1)
    using c2(1) c3(1) by (simp add: hkdf_update_def del: One_nat_def)
qed

lemma counter_gt_1: "j < 255 \<Longrightarrow> 1 < (of_nat (Suc j) :: u8) \<longleftrightarrow> 0 < j"
  by (simp add: word_less_nat_alt unat_of_nat del: of_nat_Suc)

lemma hkdf_step:
  assumes "length prk < cap" and "bs + osize + length info + 1 < cap" and "length T = 64"
    and "0 < j \<longrightarrow> offset = osize \<and> take osize T = hkdf_T (mac prk) info j" and "j < 255"
    and "0 < l" and "j * osize + min l osize \<le> length okm"
  defines "t \<equiv> hkdf_T (mac prk) info (Suc j)"
  shows "\<exists>c'. hkdf_loop md (Some prk) (length prk) (Some info) (length info) osize c (of_nat (Suc j)) offset T okm l =
    hkdf_loop md (Some prk) (length prk) (Some info) (length info) osize c' (of_nat (Suc (Suc j))) (min l osize)
      (t @ drop osize T) (buf_write okm (j * osize) (take (min l osize) t)) (l - min l osize)"
proof -
  let ?T = "t @ drop osize T" and ?n = "min l osize"
  have t: "length t = osize" by (simp add: t_def mac_def rfc2104_def digest_length)
  obtain c' where round: "hkdf_round md (Some prk) (length prk) (Some info) (length info) osize c (of_nat (Suc j)) offset T =
      Inr (c', ?T, osize)"
    using hkdf_round_mac [OF assms(1-3), of "of_nat (Suc j)" offset "hkdf_T (mac prk) info j" c] assms(4)
      counter_gt_1 [OF assms(5)]
    by (cases "j = 0") (auto simp: t_def)
  have i: "unat (of_nat (Suc j) :: u8) = Suc j" "(of_nat (Suc j) :: u8) \<noteq> 0"
    using assms(5) by (simp_all add: unat_of_nat flip: unat_eq_0 del: of_nat_Suc)
  have wr: "okm_write okm (of_nat (Suc j)) osize ?T ?n = Inr (buf_write okm (j * osize) (take ?n t))"
    using i assms(3,7) sizes t by (simp add: okm_write_def mem_read_def mem_write_def del: of_nat_Suc)
  have off: "(if l < osize then l else osize) = ?n" by simp
  have suc: "(of_nat (Suc j) :: u8) + 1 = of_nat (Suc (Suc j))" by simp
  have "l \<noteq> 0" using assms(6) by simp
  then show ?thesis
    by (intro exI [of _ c'], subst hkdf_loop.simps)
      (simp only: round wr off suc Let_def sum.case prod.case if_False)
qed

text \<open>
  Round \<open>j\<close> of the loop starts with \<open>j\<close> blocks written. The loop ends with the output of the
  standard, or outside the buffer when the counter has wrapped to 0.
\<close>

lemma length_T [simp]: "length (hkdf_T (mac prk) info (Suc j)) = osize"
  by (simp add: mac_def rfc2104_def digest_length)

lemma hkdf_loop_blocks:
  assumes "length prk < cap" and "bs + osize + length info + 1 < cap" and "length T = 64"
    and "0 < j \<longrightarrow> offset = osize \<and> take osize T = hkdf_T (mac prk) info j" and "j \<le> 255"
    and "j * osize + l \<le> length okm" and "j * osize + l \<le> 255 * osize"
  shows "hkdf_loop md (Some prk) (length prk) (Some info) (length info) osize c (of_nat (Suc j)) offset T okm l =
    Some (Inr (buf_write okm (j * osize)
      (take l (concat (map (\<lambda>i. hkdf_T (mac prk) info (Suc i)) [j..<j + (l + osize - 1) div osize])))))"
  using assms(3-)
proof (induction l arbitrary: j c offset T okm rule: less_induct)
  case (less l)
  show ?case
  proof (cases "l = 0")
    case True
    then show ?thesis using less.prems(4) by (subst hkdf_loop.simps) simp
  next
    case False
    then have j: "j < 255" using less.prems(3,5) sizes(1) by (cases "j = 255") auto
    let ?t = "hkdf_T (mac prk) info (Suc j)" and ?n = "min l osize"
    let ?T = "?t @ drop osize T" and ?okm = "buf_write okm (j * osize) (take (min l osize) (hkdf_T (mac prk) info (Suc j)))"
    obtain c' where step: "hkdf_loop md (Some prk) (length prk) (Some info) (length info) osize c (of_nat (Suc j)) offset T okm l =
        hkdf_loop md (Some prk) (length prk) (Some info) (length info) osize c' (of_nat (Suc (Suc j))) ?n ?T ?okm (l - ?n)"
    proof -
      have "0 < l" "j * osize + ?n \<le> length okm" using False less.prems(4) by auto
      from hkdf_step [OF assms(1,2) less.prems(1,2) j this, of c] show ?thesis using that by blast
    qed
    have N: "(l + osize - 1) div osize = Suc ((l - 1) div osize)"
    proof -
      have eq: "l + osize - 1 = (l - 1) + osize" using False by simp
      show ?thesis unfolding eq using sizes(1) by (subst div_add_self2) simp_all
    qed
    have upt: "[j..<j + (l + osize - 1) div osize] = j # [Suc j..<Suc j + (l - 1) div osize]"
      unfolding N by (subst upt_conv_Cons) simp_all
    show ?thesis
    proof (cases "l \<le> osize")
      case True
      then have "(l - 1) div osize = 0" using False sizes(1) by simp
      then show ?thesis unfolding step using True upt
        by (subst hkdf_loop.simps) (simp add: min_def del: hkdf_T.simps)
    next
      case l: False
      then have n: "?n = osize" by simp
      have len: "length ?T = 64" "length ?okm = length okm" using less.prems(1,4) sizes by (auto simp del: hkdf_T.simps)
      have "hkdf_loop md (Some prk) (length prk) (Some info) (length info) osize c' (of_nat (Suc (Suc j))) ?n ?T ?okm (l - ?n) =
        Some (Inr (buf_write ?okm (Suc j * osize)
          (take (l - osize) (concat (map (\<lambda>i. hkdf_T (mac prk) info (Suc i)) [Suc j..<Suc j + (l - 1) div osize])))))"
        using less.IH [of "l - osize" ?T "Suc j" osize ?okm c'] l len n less.prems(4,5) sizes(1) j
        by (simp del: hkdf_T.simps of_nat_Suc)
      moreover have "buf_write ?okm (Suc j * osize) r = buf_write okm (j * osize) (?t @ r)" for r
        using buf_write_append [of "j * osize" okm ?t r] less.prems(4) l by (simp add: add.commute del: hkdf_T.simps)
      ultimately show ?thesis unfolding step upt using l by (simp del: hkdf_T.simps upt_Suc)
    qed
  qed
qed

lemma hkdf_loop_wraps:
  assumes "length prk < cap" and "bs + osize + length info + 1 < cap" and "length T = 64"
    and "0 < j \<longrightarrow> offset = osize \<and> take osize T = hkdf_T (mac prk) info j" and "j \<le> 255"
    and "255 * osize \<le> length okm" and "255 * osize < j * osize + l"
  shows "hkdf_loop md (Some prk) (length prk) (Some info) (length info) osize c (of_nat (Suc j)) offset T okm l =
    Some (Inl Oob)"
  using assms(3-)
proof (induction l arbitrary: j c offset T okm rule: less_induct)
  case (less l)
  show ?case
  proof (cases "j = 255")
    case True
    then have l: "0 < l" using less.prems(5) by simp
    obtain c' T' where round: "hkdf_round md (Some prk) (length prk) (Some info) (length info) osize c 0 offset T = Inr (c', T', osize)"
      using hkdf_round_mac [OF assms(1,2) less.prems(1), of 0 offset "[]" c] by auto
    have zero: "(of_nat (Suc j) :: u8) = 0" using True by simp
    have "okm_write okm 0 osize T' (if l < osize then l else osize) = Inl Oob"
      using l sizes by (simp add: okm_write_def)
    then show ?thesis unfolding zero using l round by (subst hkdf_loop.simps) (simp add: Let_def)
  next
    case False
    then have j: "j < 255" using less.prems(3) by simp
    have "Suc j * osize \<le> 255 * osize" using j by (intro mult_le_mono1) simp
    then have "osize + j * osize \<le> 255 * osize" by simp
    then have l: "osize < l" "j * osize + min l osize \<le> length okm"
      using less.prems(4,5) min.cobounded2 [of l osize] by linarith+
    then have n: "min l osize = osize" "0 < l" by simp_all
    let ?t = "hkdf_T (mac prk) info (Suc j)"
    let ?T = "?t @ drop osize T" and ?okm = "buf_write okm (j * osize) (take (min l osize) (hkdf_T (mac prk) info (Suc j)))"
    obtain c' where step: "hkdf_loop md (Some prk) (length prk) (Some info) (length info) osize c (of_nat (Suc j)) offset T okm l =
        hkdf_loop md (Some prk) (length prk) (Some info) (length info) osize c' (of_nat (Suc (Suc j))) (min l osize) ?T ?okm (l - min l osize)"
      using hkdf_step [OF assms(1,2) less.prems(1,2) j n(2) l(2), of c] by blast
    have "length ?okm = length okm" "length ?T = 64" using l(2) less.prems(1) n sizes by (auto simp del: hkdf_T.simps)
    then show ?thesis
      unfolding step n(1) using less.IH [of "l - osize" ?T "Suc j" osize ?okm c'] l(1) n sizes(1) less.prems(4,5) j
      by (simp del: hkdf_T.simps of_nat_Suc)
  qed
qed

lemma expand_rfc5869:
  assumes "length prk < cap" and "bs + osize + length info + 1 < cap" and "length T = 64"
    and "L \<le> 255 * osize" and "L \<le> length okm" and "spec_cx_hash_get_info md = Some hi" and "output_size hi = osize"
  shows "spec_cx_hkdf_expand c T md (Some prk) (length prk) (Some info) (length info) okm L =
    Some (Inr (rfc5869_expand (mac prk) osize info L @ drop L okm))"
proof -
  have "length (concat (map (\<lambda>i. hkdf_T (mac prk) info (Suc i)) [0..<(L + osize - 1) div osize])) =
      (L + osize - 1) div osize * osize"
    by (simp add: length_concat comp_def sum_list_triv del: hkdf_T.simps)
  moreover have "L \<le> (L + osize - 1) div osize * osize"
    using sizes(1) div_mult_mod_eq [of "L + osize - 1" osize] mod_less_divisor [OF sizes(1), of "L + osize - 1"]
    by linarith
  ultimately have "length (rfc5869_expand (mac prk) osize info L) = L" by (simp add: rfc5869_expand_def)
  then show ?thesis
    using hkdf_loop_blocks [OF assms(1,2), of T 0 0 L okm c] assms(3-)
    by (simp add: spec_cx_hkdf_expand_def rfc5869_expand_def buf_write_def del: hkdf_T.simps)
qed

lemma extract_rfc5869:
  assumes "bs + length ikm < cap" and "osize \<le> length prk"
    and "spec_cx_hash_get_info md = Some hi" and "output_size hi = osize"
    and "case sa of None \<Rightarrow> True | Some s \<Rightarrow> length s < cap \<and> sl = length s"
  shows "cx_hkdf_extract c md (Some ikm) (length ikm) sa sl prk =
    Inr (mac (case sa of None \<Rightarrow> replicate osize 0 | Some s \<Rightarrow> s) ikm @ drop osize prk)"
proof -
  let ?s = "case sa of None \<Rightarrow> replicate osize 0 | Some s \<Rightarrow> s"
  have s: "length ?s < cap" using assms(5) sizes by (cases sa) simp_all
  obtain c1 where c1: "spec_cx_hmac_init c md (Some ?s) (length ?s) = (c1, Inr 1)" "hmac_absorbed c1 ?s []"
    using hmac_init [OF s] by blast
  obtain c2 where c2: "spec_cx_hmac_update c1 (Some ikm) (length ikm) = (c2, Inr 1)" "hmac_absorbed c2 ?s ikm"
    using hmac_update [OF c1(2), of ikm] assms(1) by auto
  have "length (mac ?s ikm) = osize" by (simp add: mac_def rfc2104_def digest_length)
  with hmac_final [OF c2(2), of osize prk] assms(2) obtain c3 where
    "spec_cx_hmac_final c2 (Some prk) osize = (c3, Inr (1, Some (mac ?s ikm @ drop osize prk), osize))"
    by auto
  then show ?thesis
    using c1(1) c2(1) assms(3-5) by (cases sa) (simp_all add: cx_hkdf_extract_def)
qed

end

section \<open>What the functions compute\<close>

text \<open>
  Property C7: \<open>cx_hkdf_extract\<close> followed by \<open>spec_cx_hkdf_expand\<close>, both with SHA-256, is HKDF of
  RFC 5869: the pseudorandom key is the MAC of the input under the salt (32 zeros without one),
  and the expansion ends and writes the first \<open>L\<close> bytes of its block chain for every \<open>L\<close> up to
  255 blocks. The contents of the uninitialised locals do not matter.
\<close>

theorem hkdf_sha256_rfc5869:
  assumes "length ikm < 2 ^ 31" and "length (opt_bytes sa) < 2 ^ 31" and "length info < 2 ^ 31"
    and "length prk = 32" and "length T = 64" and "L \<le> 255 * 32" and "L \<le> length okm"
  defines "PRK \<equiv> rfc2104 (fips256_digest hzero_256 32) 64
      (case sa of None \<Rightarrow> replicate 32 0 | Some s \<Rightarrow> s) ikm"
  shows "cx_hkdf_extract c1 CX_SHA256 (Some ikm) (length ikm) sa (length (opt_bytes sa)) prk = Inr PRK \<and>
    spec_cx_hkdf_expand c2 T CX_SHA256 (Some PRK) 32 (Some info) (length info) okm L =
      Some (Inr (rfc5869_expand (rfc2104 (fips256_digest hzero_256 32) 64 PRK) 32 info L @ drop L okm))"
proof -
  have len: "length PRK = 32" by (simp add: PRK_def rfc2104_def hash256.digest_length)
  have "case sa of None \<Rightarrow> True | Some s \<Rightarrow> length s < 2 ^ 32 \<and> length (opt_bytes sa) = length s"
    using assms(2) by (cases sa) (simp_all add: opt_bytes_def)
  with hmac256.extract_rfc5869 [where sa = sa and sl = "length (opt_bytes sa)" and hi = cx_sha256_info, of ikm prk c1] assms(1,4)
    hmac256.expand_rfc5869 [of PRK info T L okm cx_sha256_info c2] assms(3,5-7) len
  show ?thesis by (simp add: cx_sha256_info_def hmac256.mac_def [abs_def] PRK_def)
qed

theorem hkdf_sha256_rfc5869_witness:
  "\<exists>prk okm. cx_hkdf_extract hmac_zero CX_SHA256 (Some [1]) (length [1 :: u8]) None 0 (replicate 32 0) = Inr prk \<and>
    spec_cx_hkdf_expand hmac_zero (replicate 64 0) CX_SHA256 (Some prk) 32 (Some [7]) (length [7 :: u8])
      (replicate 40 0) 40 = Some (Inr okm)"
  using hkdf_sha256_rfc5869 [of "[1]" None "[7]" "replicate 32 0" "replicate 64 0" 40 "replicate 40 0" hmac_zero hmac_zero]
  by (auto simp: opt_bytes_def)

text \<open>
  A request for more than 255 blocks is not refused: after the last block the
  one-byte counter is 0 and the next block is copied to an address in front of the output buffer.
\<close>

theorem hkdf_expand_wraps:
  assumes "length prk < 2 ^ 31" and "length info < 2 ^ 31" and "length T = 64"
    and "255 * 32 < L" and "L \<le> length okm"
  shows "spec_cx_hkdf_expand c T CX_SHA256 (Some prk) (length prk) (Some info) (length info) okm L = Some (Inl Oob)"
  using hmac256.hkdf_loop_wraps [of prk info T 0 0 okm L c] assms
  by (simp add: spec_cx_hkdf_expand_def cx_sha256_info_def)

theorem hkdf_expand_wraps_witness:
  "spec_cx_hkdf_expand hmac_zero (replicate 64 0) CX_SHA256 (Some [1]) (length [1 :: u8]) (Some [2])
    (length [2 :: u8]) (replicate 8161 0) 8161 = Some (Inl Oob)"
  using hkdf_expand_wraps [of "[1]" "[2]" "replicate 64 0" 8161 "replicate 8161 0" hmac_zero] by simp

end
