(* ===== verification/Usbd_LL.thy ===== *)
theory Usbd_LL
  imports Prelude
begin

text \<open>
  The lowest layers of the USB device stack: the low-level driver of
  \<open>io/sdk/lib_stusb/src/usbd_conf.c\<close>, which turns every operation into SEPROXYHAL packets for
  the MCU, and the control-endpoint requests of \<open>usbd_ioreq.c\<close> on top of it.

  The state is built in layers by record extension, so that an operation of one layer is
  polymorphic in the layers above it and cannot touch them: \<open>usb_ll\<close> holds the two stall words
  of the driver and \<open>seph_out\<close>, the packets handed to \<open>os_io_tx_cmd\<close> in order; \<open>usbd_handle\<close>
  adds the fields of \<open>USBD_HandleTypeDef\<close> that the stack uses. \<open>os_io_tx_cmd\<close> itself belongs to
  the I/O component: here its calls are the output trace, and \<open>tx_times_out\<close> says whether a call
  with a timeout reports \<open>TIMEOUT\<close>.
\<close>

section \<open>The low-level driver\<close>

datatype usbd_status = USBD_OK | USBD_BUSY | USBD_EMEM | USBD_FAIL | USBD_TIMEOUT

record usb_ll =
  ep_in_stall_status :: u8
  ep_out_stall_status :: u8
  tx_times_out :: bool
  seph_out :: "bytes list"

abbreviation (input) SEPROXYHAL_TAG_USB_CONFIG :: u8 where "SEPROXYHAL_TAG_USB_CONFIG \<equiv> 0x4F"
abbreviation (input) SEPROXYHAL_TAG_USB_CONFIG_CONNECT :: u8 where
  "SEPROXYHAL_TAG_USB_CONFIG_CONNECT \<equiv> 0x01"
abbreviation (input) SEPROXYHAL_TAG_USB_CONFIG_DISCONNECT :: u8 where
  "SEPROXYHAL_TAG_USB_CONFIG_DISCONNECT \<equiv> 0x02"
abbreviation (input) SEPROXYHAL_TAG_USB_CONFIG_ADDR :: u8 where
  "SEPROXYHAL_TAG_USB_CONFIG_ADDR \<equiv> 0x03"
abbreviation (input) SEPROXYHAL_TAG_USB_CONFIG_ENDPOINTS :: u8 where
  "SEPROXYHAL_TAG_USB_CONFIG_ENDPOINTS \<equiv> 0x04"
abbreviation (input) SEPROXYHAL_TAG_USB_EP_PREPARE :: u8 where
  "SEPROXYHAL_TAG_USB_EP_PREPARE \<equiv> 0x50"
abbreviation (input) SEPROXYHAL_TAG_USB_EP_PREPARE_DIR_IN :: u8 where
  "SEPROXYHAL_TAG_USB_EP_PREPARE_DIR_IN \<equiv> 0x20"
abbreviation (input) SEPROXYHAL_TAG_USB_EP_PREPARE_DIR_OUT :: u8 where
  "SEPROXYHAL_TAG_USB_EP_PREPARE_DIR_OUT \<equiv> 0x30"
abbreviation (input) SEPROXYHAL_TAG_USB_EP_PREPARE_DIR_STALL :: u8 where
  "SEPROXYHAL_TAG_USB_EP_PREPARE_DIR_STALL \<equiv> 0x40"
abbreviation (input) SEPROXYHAL_TAG_USB_EP_PREPARE_DIR_UNSTALL :: u8 where
  "SEPROXYHAL_TAG_USB_EP_PREPARE_DIR_UNSTALL \<equiv> 0x80"

abbreviation (input) USBD_EP_TYPE_CTRL :: u8 where "USBD_EP_TYPE_CTRL \<equiv> 0x00"
abbreviation (input) USBD_EP_TYPE_ISOC :: u8 where "USBD_EP_TYPE_ISOC \<equiv> 0x01"
abbreviation (input) USBD_EP_TYPE_BULK :: u8 where "USBD_EP_TYPE_BULK \<equiv> 0x02"
abbreviation (input) USBD_EP_TYPE_INTR :: u8 where "USBD_EP_TYPE_INTR \<equiv> 0x03"

definition seph_tx :: "bytes \<Rightarrow> 'a usb_ll_scheme \<Rightarrow> 'a usb_ll_scheme" where
  "seph_tx p s = s\<lparr>seph_out := seph_out s @ [p]\<rparr>"

definition ep_num :: "u8 \<Rightarrow> nat" where
  "ep_num ep_addr = unat (ep_addr AND 0x7F)"

definition is_in_ep :: "u8 \<Rightarrow> bool" where
  "is_in_ep ep_addr \<longleftrightarrow> ep_addr AND 0x80 \<noteq> 0"

definition USBD_LL_Init :: "'a usb_ll_scheme \<Rightarrow> 'a usb_ll_scheme \<times> usbd_status" where
  "USBD_LL_Init s = (s\<lparr>ep_in_stall_status := 0, ep_out_stall_status := 0\<rparr>, USBD_OK)"

definition USBD_LL_DeInit :: "'a usb_ll_scheme \<Rightarrow> 'a usb_ll_scheme \<times> usbd_status" where
  "USBD_LL_DeInit s = (s, USBD_OK)"

definition USBD_LL_Start :: "'a usb_ll_scheme \<Rightarrow> 'a usb_ll_scheme \<times> usbd_status" where
  "USBD_LL_Start s =
     (seph_tx [SEPROXYHAL_TAG_USB_CONFIG, 0, 1, SEPROXYHAL_TAG_USB_CONFIG_CONNECT]
       (seph_tx [SEPROXYHAL_TAG_USB_CONFIG, 0, 2, SEPROXYHAL_TAG_USB_CONFIG_ADDR, 0] s), USBD_OK)"

definition USBD_LL_Stop :: "'a usb_ll_scheme \<Rightarrow> 'a usb_ll_scheme \<times> usbd_status" where
  "USBD_LL_Stop s =
     (seph_tx [SEPROXYHAL_TAG_USB_CONFIG, 0, 1, SEPROXYHAL_TAG_USB_CONFIG_DISCONNECT] s, USBD_OK)"

definition ep_type_tag :: "u8 \<Rightarrow> u8" where
  "ep_type_tag ep_type =
     (if ep_type = USBD_EP_TYPE_CTRL then 0x01
      else if ep_type = USBD_EP_TYPE_ISOC then 0x04
      else if ep_type = USBD_EP_TYPE_BULK then 0x03
      else if ep_type = USBD_EP_TYPE_INTR then 0x02
      else 0x02)"

definition USBD_LL_OpenEP ::
    "u8 \<Rightarrow> u8 \<Rightarrow> u16 \<Rightarrow> 'a usb_ll_scheme \<Rightarrow> 'a usb_ll_scheme \<times> usbd_status" where
  "USBD_LL_OpenEP ep_addr ep_type ep_mps s =
     (if ep_num ep_addr \<ge> 8 then (s, USBD_FAIL)
      else (seph_tx [SEPROXYHAL_TAG_USB_CONFIG, 0, 5, SEPROXYHAL_TAG_USB_CONFIG_ENDPOINTS, 1, ep_addr,
                ep_type_tag ep_type, ucast ep_mps]
              (s\<lparr>ep_in_stall_status := 0, ep_out_stall_status := 0\<rparr>), USBD_OK))"

definition USBD_LL_CloseEP :: "u8 \<Rightarrow> 'a usb_ll_scheme \<Rightarrow> 'a usb_ll_scheme \<times> usbd_status" where
  "USBD_LL_CloseEP ep_addr s =
     (if ep_num ep_addr \<ge> 8 then (s, USBD_FAIL)
      else (seph_tx [SEPROXYHAL_TAG_USB_CONFIG, 0, 5, SEPROXYHAL_TAG_USB_CONFIG_ENDPOINTS, 1, ep_addr,
                0x00, 0] s, USBD_OK))"

definition USBD_LL_FlushEP :: "u8 \<Rightarrow> 'a usb_ll_scheme \<Rightarrow> 'a usb_ll_scheme \<times> usbd_status" where
  "USBD_LL_FlushEP ep_addr s = (s, if ep_num ep_addr \<ge> 8 then USBD_FAIL else USBD_OK)"

definition USBD_LL_StallEP :: "u8 \<Rightarrow> 'a usb_ll_scheme \<Rightarrow> 'a usb_ll_scheme \<times> usbd_status" where
  "USBD_LL_StallEP ep_addr s =
     (if ep_num ep_addr \<ge> 8 then (s, USBD_FAIL)
      else
        (let s = (if is_in_ep ep_addr
                  then s\<lparr>ep_in_stall_status := ep_in_stall_status s OR push_bit (ep_num ep_addr) 1\<rparr>
                  else s\<lparr>ep_out_stall_status := ep_out_stall_status s OR push_bit (ep_num ep_addr) 1\<rparr>)
         in (seph_tx [SEPROXYHAL_TAG_USB_EP_PREPARE, 0, 3, ep_addr,
               SEPROXYHAL_TAG_USB_EP_PREPARE_DIR_STALL, 0] s, USBD_OK)))"

definition USBD_LL_ClearStallEP :: "u8 \<Rightarrow> 'a usb_ll_scheme \<Rightarrow> 'a usb_ll_scheme \<times> usbd_status" where
  "USBD_LL_ClearStallEP ep_addr s =
     (if ep_num ep_addr \<ge> 8 then (s, USBD_FAIL)
      else
        (let s = (if is_in_ep ep_addr
                  then s\<lparr>ep_in_stall_status := ep_in_stall_status s AND NOT (push_bit (ep_num ep_addr) 1)\<rparr>
                  else s\<lparr>ep_out_stall_status := ep_out_stall_status s AND NOT (push_bit (ep_num ep_addr) 1)\<rparr>)
         in (seph_tx [SEPROXYHAL_TAG_USB_EP_PREPARE, 0, 3, ep_addr,
               SEPROXYHAL_TAG_USB_EP_PREPARE_DIR_UNSTALL, 0] s, USBD_OK)))"

definition USBD_LL_IsStallEP :: "u8 \<Rightarrow> 'a usb_ll_scheme \<Rightarrow> u8" where
  "USBD_LL_IsStallEP ep_addr s =
     (if ep_num ep_addr \<ge> 8 then 0
      else if is_in_ep ep_addr then ep_in_stall_status s AND push_bit (ep_num ep_addr) 1
      else ep_out_stall_status s AND push_bit (ep_num ep_addr) 1)"

definition USBD_LL_SetUSBAddress :: "u8 \<Rightarrow> 'a usb_ll_scheme \<Rightarrow> 'a usb_ll_scheme \<times> usbd_status" where
  "USBD_LL_SetUSBAddress dev_addr s =
     (seph_tx [SEPROXYHAL_TAG_USB_CONFIG, 0, 2, SEPROXYHAL_TAG_USB_CONFIG_ADDR, dev_addr] s, USBD_OK)"

text \<open>
  \<open>USBD_LL_Transmit\<close> announces the transfer and sends the \<open>size\<close> bytes behind the pointer
  (\<open>None\<close> is \<open>NULL\<close>).
\<close>

definition transmit_header :: "u8 \<Rightarrow> u32 \<Rightarrow> bytes" where
  "transmit_header ep_addr sz =
     [SEPROXYHAL_TAG_USB_EP_PREPARE, ucast (drop_bit 8 (3 + sz)), ucast (3 + sz), ep_addr,
      SEPROXYHAL_TAG_USB_EP_PREPARE_DIR_IN, ucast sz]"

definition USBD_LL_Transmit ::
    "u8 \<Rightarrow> bytes option \<Rightarrow> u32 \<Rightarrow> u32 \<Rightarrow> 'a usb_ll_scheme \<Rightarrow> ('a usb_ll_scheme \<times> usbd_status) res" where
  "USBD_LL_Transmit ep_addr pbuf sz timeout_ms s =
     (if ep_num ep_addr \<ge> 8 then Inr (s, USBD_FAIL)
      else
        (let s = seph_tx (transmit_header ep_addr sz) s
         in if timeout_ms \<noteq> 0 \<and> tx_times_out s then Inr (s, USBD_TIMEOUT)
            else res_bind (mem_arg pbuf (unat sz)) (\<lambda>d. Inr (seph_tx d s, USBD_OK))))"

definition USBD_LL_PrepareReceive ::
    "u8 \<Rightarrow> u32 \<Rightarrow> 'a usb_ll_scheme \<Rightarrow> 'a usb_ll_scheme \<times> usbd_status" where
  "USBD_LL_PrepareReceive ep_addr sz s =
     (if ep_num ep_addr \<ge> 8 then (s, USBD_FAIL)
      else (seph_tx [SEPROXYHAL_TAG_USB_EP_PREPARE, 0, 3, ep_addr,
              SEPROXYHAL_TAG_USB_EP_PREPARE_DIR_OUT, ucast sz] s, USBD_OK))"

section \<open>The device handle and the control endpoint\<close>

datatype usbd_speed = USBD_SPEED_HIGH | USBD_SPEED_FULL | USBD_SPEED_LOW

datatype usbd_ep0_state =
  USBD_EP0_IDLE | USBD_EP0_SETUP | USBD_EP0_DATA_IN | USBD_EP0_DATA_OUT
| USBD_EP0_STATUS_IN | USBD_EP0_STATUS_OUT | USBD_EP0_STALL

abbreviation (input) USBD_STATE_DEFAULT :: u8 where "USBD_STATE_DEFAULT \<equiv> 0x01"
abbreviation (input) USBD_STATE_ADDRESSED :: u8 where "USBD_STATE_ADDRESSED \<equiv> 0x02"
abbreviation (input) USBD_STATE_CONFIGURED :: u8 where "USBD_STATE_CONFIGURED \<equiv> 0x03"
abbreviation (input) USBD_STATE_SUSPENDED :: u8 where "USBD_STATE_SUSPENDED \<equiv> 0x04"

record usbd_endpoint =
  ep_status :: u32
  ep_total_length :: u32
  ep_rem_length :: u32
  ep_maxpacket :: u32
  ep_is_used :: u16

record usbd_setup_req =
  bmRequest :: u8
  bRequest :: u8
  wValue :: u16
  wIndex :: u16
  wLength :: u16

text \<open>
  \<open>USBD_HandleTypeDef\<close>. \<open>pClass\<close>, \<open>pDesc\<close> and \<open>pClassData\<close> are only ever \<open>NULL\<close> or the address
  of one object, so they are flags; \<open>pData\<close> is the buffer it points into.
\<close>

record usbd_handle = usb_ll +
  dev_id :: u8
  dev_config :: u32
  dev_default_config :: u32
  dev_config_status :: u32
  dev_speed :: usbd_speed
  ep_in :: "usbd_endpoint list"
  ep_out :: "usbd_endpoint list"
  ep0_state :: usbd_ep0_state
  ep0_data_len :: u32
  dev_state :: u8
  dev_old_state :: u8
  dev_address :: u8
  dev_remote_wakeup :: u32
  request :: usbd_setup_req
  pDesc :: bool
  pClass :: bool
  pClassData :: bool
  pData :: "bytes option"
  pConfDesc :: "bytes option"

definition IO_USB_MAX_ENDPOINTS :: nat where "IO_USB_MAX_ENDPOINTS = 6"

text \<open>A write to one field of \<open>ep_in[i]\<close> or \<open>ep_out[i]\<close>.\<close>

definition upd_ep_in ::
    "nat \<Rightarrow> (usbd_endpoint \<Rightarrow> usbd_endpoint) \<Rightarrow> 'a usbd_handle_scheme \<Rightarrow> 'a usbd_handle_scheme res" where
  "upd_ep_in i f s =
     (if i < length (ep_in s) then Inr (s\<lparr>ep_in := (ep_in s)[i := f (ep_in s ! i)]\<rparr>) else Inl Oob)"

definition upd_ep_out ::
    "nat \<Rightarrow> (usbd_endpoint \<Rightarrow> usbd_endpoint) \<Rightarrow> 'a usbd_handle_scheme \<Rightarrow> 'a usbd_handle_scheme res" where
  "upd_ep_out i f s =
     (if i < length (ep_out s) then Inr (s\<lparr>ep_out := (ep_out s)[i := f (ep_out s ! i)]\<rparr>) else Inl Oob)"

definition USBD_CtlContinueSendData ::
    "bytes option \<Rightarrow> u32 \<Rightarrow> 'a usbd_handle_scheme \<Rightarrow> 'a usbd_handle_scheme res" where
  "USBD_CtlContinueSendData pbuf len s =
     res_bind (mem_get (ep_in s) 0) (\<lambda>ep.
     res_bind (USBD_LL_Transmit 0x00 pbuf (min len (ep_maxpacket ep)) 0 s) (\<lambda>(s, _). Inr s))"

definition USBD_CtlSendData ::
    "bytes option \<Rightarrow> u32 \<Rightarrow> 'a usbd_handle_scheme \<Rightarrow> 'a usbd_handle_scheme res" where
  "USBD_CtlSendData pbuf len s =
     res_bind (upd_ep_in 0 (\<lambda>ep. ep\<lparr>ep_total_length := len, ep_rem_length := len\<rparr>)
       (s\<lparr>ep0_state := USBD_EP0_DATA_IN\<rparr>)) (\<lambda>s.
     USBD_CtlContinueSendData pbuf len (s\<lparr>pData := pbuf\<rparr>))"

definition USBD_CtlContinueRx :: "u32 \<Rightarrow> 'a usbd_handle_scheme \<Rightarrow> 'a usbd_handle_scheme" where
  "USBD_CtlContinueRx len s = fst (USBD_LL_PrepareReceive 0 len s)"

definition USBD_CtlPrepareRx :: "u32 \<Rightarrow> 'a usbd_handle_scheme \<Rightarrow> 'a usbd_handle_scheme res" where
  "USBD_CtlPrepareRx len s =
     res_bind (upd_ep_out 0 (\<lambda>ep. ep\<lparr>ep_total_length := len, ep_rem_length := len\<rparr>)
       (s\<lparr>ep0_state := USBD_EP0_DATA_OUT\<rparr>)) (\<lambda>s.
     Inr (fst (USBD_LL_PrepareReceive 0 len s)))"

definition USBD_CtlSendStatus :: "'a usbd_handle_scheme \<Rightarrow> 'a usbd_handle_scheme res" where
  "USBD_CtlSendStatus s =
     res_bind (USBD_LL_Transmit 0x00 None 0 0 (s\<lparr>ep0_state := USBD_EP0_STATUS_IN\<rparr>)) (\<lambda>(s, _). Inr s)"

definition USBD_CtlReceiveStatus :: "'a usbd_handle_scheme \<Rightarrow> 'a usbd_handle_scheme" where
  "USBD_CtlReceiveStatus s = fst (USBD_LL_PrepareReceive 0 0 (s\<lparr>ep0_state := USBD_EP0_STATUS_OUT\<rparr>))"

section \<open>Stall bookkeeping\<close>

lemma and_bit_nonzero: "n < 8 \<Longrightarrow> ((w::u8) AND push_bit n 1 \<noteq> 0) = bit w n"
  by (simp add: and_exp_eq_0_iff_not_bit push_bit_eq_mult)

lemma USBD_LL_IsStallEP_bit:
  "(USBD_LL_IsStallEP a s \<noteq> 0) =
   (ep_num a < 8 \<and> bit (if is_in_ep a then ep_in_stall_status s else ep_out_stall_status s) (ep_num a))"
  using and_bit_nonzero [of "ep_num a"] by (auto simp: USBD_LL_IsStallEP_def)

text \<open>
  \<open>USBD_LL_StallEP\<close> marks the end point as stalled, \<open>USBD_LL_ClearStallEP\<close> unmarks it,
  and neither changes the mark of any other end point.
\<close>

theorem stall_marks:
  assumes "ep_num a < 8"
  shows "((USBD_LL_IsStallEP b (fst (USBD_LL_StallEP a s)) \<noteq> 0) =
      (is_in_ep b = is_in_ep a \<and> ep_num b = ep_num a \<or> USBD_LL_IsStallEP b s \<noteq> 0)) \<and>
    ((USBD_LL_IsStallEP b (fst (USBD_LL_ClearStallEP a s)) \<noteq> 0) =
      (\<not> (is_in_ep b = is_in_ep a \<and> ep_num b = ep_num a) \<and> USBD_LL_IsStallEP b s \<noteq> 0))"
  using assms unfolding USBD_LL_IsStallEP_bit
  by (auto simp: USBD_LL_StallEP_def USBD_LL_ClearStallEP_def seph_tx_def bit_simps)

theorem stall_marks_witness:
  "ep_num 0x82 < 8 \<and>
   USBD_LL_IsStallEP 0x82 (fst (USBD_LL_StallEP 0x82
     \<lparr>ep_in_stall_status = 0, ep_out_stall_status = 0, tx_times_out = False, seph_out = []\<rparr>)) \<noteq> 0"
proof -
  have "ep_num 0x82 < 8" by (simp add: ep_num_def)
  then show ?thesis using stall_marks [of "0x82" "0x82"
      "\<lparr>ep_in_stall_status = 0, ep_out_stall_status = 0, tx_times_out = False, seph_out = []\<rparr>"] by blast
qed

end
