(* ===== verification/Ledger_Protocol.thy ===== *)
theory Ledger_Protocol
  imports Prelude Cx_Utils
begin

text \<open>
  The transport protocol of \<open>io/sdk/protocol/src/ledger_protocol.c\<close>: an APDU is cut into chunks
  of at most \<open>mtu\<close> bytes, each with a channel identifier, a tag and a sequence number, and put
  together again on the other side. The handle is the record of \<open>ledger_protocol.h\<close>; the buffers
  it points to are its fields, so that a write outside one of them is \<open>Oob\<close>. All operations keep
  the 16-bit and 8-bit widths of the fields; sums and differences of fields are taken in \<open>int\<close>,
  as C promotes them.

  The specification is \<open>frames\<close>, the list of chunks of an APDU. The theorems: transmission emits
  exactly the frames, reception of the frames (with any padding) restores the APDU behind its
  type byte, no packet leads to an access outside the buffers when the receive buffer has one byte
  more than \<open>rx_apdu_buffer_size\<close>, and a packet does when it has not.
\<close>

section \<open>State\<close>

datatype apdu_status =
  APDU_STATUS_WAITING
| APDU_STATUS_NEED_MORE_DATA
| APDU_STATUS_COMPLETE

record ledger_protocol =
  lp_type :: u8
  tx_apdu_buffer :: "bytes option"
  tx_apdu_length :: u16
  tx_apdu_sequence_number :: u16
  tx_apdu_offset :: u16
  tx_chunk_buffer :: bytes
  tx_chunk_buffer_size :: u8
  tx_chunk_length :: u8
  rx_apdu_buffer :: bytes
  rx_apdu_buffer_size :: u16
  rx_apdu_status :: apdu_status
  rx_apdu_sequence_number :: u16
  rx_apdu_length :: u16
  rx_apdu_offset :: u16
  mtu :: u16
  mtu_negotiated :: u8

abbreviation (input) TAG_GET_PROTOCOL_VERSION :: u8 where "TAG_GET_PROTOCOL_VERSION \<equiv> 0x00"
abbreviation (input) TAG_ALLOCATE_CHANNEL :: u8 where "TAG_ALLOCATE_CHANNEL \<equiv> 0x01"
abbreviation (input) TAG_PING :: u8 where "TAG_PING \<equiv> 0x02"
abbreviation (input) TAG_APDU :: u8 where "TAG_APDU \<equiv> 0x05"
abbreviation (input) TAG_MTU :: u8 where "TAG_MTU \<equiv> 0x08"

definition protocol_version :: bytes where
  "protocol_version = [0x00, 0x00, 0x00, 0x00]"

section \<open>Reception\<close>

text \<open>
  The second half of \<open>process_apdu_chunk\<close>: clamp the payload to what is missing, copy it behind
  the type byte and decide whether the APDU is complete.
\<close>

definition apdu_store :: "ledger_protocol \<Rightarrow> bytes \<Rightarrow> u16 \<Rightarrow> ledger_protocol res" where
  "apdu_store h buffer len0 =
     (let len = (if unat (rx_apdu_offset h) + unat len0 > unat (rx_apdu_length h)
                 then rx_apdu_length h - rx_apdu_offset h else len0)
      in res_bind (mem_read buffer 0 (unat len)) (\<lambda>payload.
         res_bind (mem_write (rx_apdu_buffer h) (1 + unat (rx_apdu_offset h)) payload) (\<lambda>rb.
         let h = h\<lparr>rx_apdu_buffer := rb, rx_apdu_offset := rx_apdu_offset h + len\<rparr>
         in Inr (if rx_apdu_offset h = rx_apdu_length h
                 then h\<lparr>rx_apdu_length := rx_apdu_length h + 1, rx_apdu_sequence_number := 0,
                        rx_apdu_status := APDU_STATUS_COMPLETE\<rparr>
                 else h\<lparr>rx_apdu_sequence_number := rx_apdu_sequence_number h + 1,
                        rx_apdu_status := APDU_STATUS_NEED_MORE_DATA\<rparr>))))"

definition process_apdu_chunk :: "ledger_protocol \<Rightarrow> bytes \<Rightarrow> u16 \<Rightarrow> ledger_protocol res" where
  "process_apdu_chunk h buffer len =
     res_bind (if len < 2 then Inr True
               else res_bind (U2BE buffer 0) (\<lambda>s. Inr (s \<noteq> rx_apdu_sequence_number h))) (\<lambda>bad.
     if bad then Inr (h\<lparr>rx_apdu_status := APDU_STATUS_WAITING\<rparr>)
     else if len < 4 \<and> rx_apdu_sequence_number h = 0
     then Inr (h\<lparr>rx_apdu_status := APDU_STATUS_WAITING\<rparr>)
     else if rx_apdu_sequence_number h = 0 then
       res_bind (mem_write (rx_apdu_buffer h) 0 [lp_type h]) (\<lambda>rb.
       res_bind (U2BE buffer 2) (\<lambda>n.
       let h = h\<lparr>rx_apdu_buffer := rb, rx_apdu_status := APDU_STATUS_NEED_MORE_DATA,
                 rx_apdu_length := n\<rparr>
       in if rx_apdu_length h > rx_apdu_buffer_size h
          then Inr (h\<lparr>rx_apdu_status := APDU_STATUS_WAITING,
                      rx_apdu_length := rx_apdu_buffer_size h\<rparr>)
          else apdu_store (h\<lparr>rx_apdu_offset := 0\<rparr>) (drop 4 buffer) (len - 4)))
     else apdu_store h (drop 2 buffer) (len - 2))"

definition LEDGER_PROTOCOL_init :: "ledger_protocol \<Rightarrow> u8 \<Rightarrow> ledger_protocol" where
  "LEDGER_PROTOCOL_init h t =
     h\<lparr>rx_apdu_status := APDU_STATUS_WAITING, rx_apdu_sequence_number := 0, lp_type := t\<rparr>"

text \<open>The cases of the switch in \<open>LEDGER_PROTOCOL_rx\<close> that answer in the chunk buffer.\<close>

definition rx_protocol_version :: "ledger_protocol \<Rightarrow> ledger_protocol res" where
  "rx_protocol_version h =
     res_bind (mem_write (tx_chunk_buffer h) 2 [TAG_GET_PROTOCOL_VERSION]) (\<lambda>cb.
     let n = (word_of_int (min 4 (uint (tx_chunk_buffer_size h) - 3)) :: u8)
     in res_bind (mem_read protocol_version 0 (unat n)) (\<lambda>v.
        res_bind (mem_write cb 3 v) (\<lambda>cb.
        Inr (h\<lparr>tx_chunk_buffer := cb, tx_chunk_length := n + 3\<rparr>))))"

definition rx_mtu :: "ledger_protocol \<Rightarrow> ledger_protocol res" where
  "rx_mtu h =
     res_bind (mem_write (tx_chunk_buffer h) 2
       [TAG_MTU, 0x00, 0x00, 0x00, 0x01, ucast (mtu h - 2)]) (\<lambda>cb.
     res_bind (U2BE_ENCODE cb 4 (ucast (mtu h) - 2)) (\<lambda>cb.
     Inr (h\<lparr>tx_chunk_buffer := cb, tx_chunk_length := 8\<rparr>)))"

definition rx_ping :: "ledger_protocol \<Rightarrow> bytes \<Rightarrow> u16 \<Rightarrow> ledger_protocol res" where
  "rx_ping h buffer len =
     (let n = (if ucast (tx_chunk_buffer_size h) < len then tx_chunk_buffer_size h else ucast len)
      in res_bind (mem_read buffer 0 (unat n)) (\<lambda>d.
         res_bind (mem_write (tx_chunk_buffer h) 0 d) (\<lambda>cb.
         Inr (h\<lparr>tx_chunk_buffer := cb, tx_chunk_length := n\<rparr>))))"

definition LEDGER_PROTOCOL_rx :: "ledger_protocol \<Rightarrow> bytes option \<Rightarrow> u16 \<Rightarrow> ledger_protocol res" where
  "LEDGER_PROTOCOL_rx h buf len =
     (case buf of None \<Rightarrow> Inr h | Some buffer \<Rightarrow>
      if len < 3 then Inr h
      else
        res_bind (mem_set (tx_chunk_buffer h) 0 0 (unat (tx_chunk_buffer_size h))) (\<lambda>cb.
        res_bind (mem_read buffer 0 2) (\<lambda>channel.
        res_bind (mem_write cb 0 channel) (\<lambda>cb.
        let h = h\<lparr>tx_chunk_buffer := cb\<rparr>
        in res_bind (mem_get buffer 2) (\<lambda>tag.
           if tag = TAG_GET_PROTOCOL_VERSION then rx_protocol_version h
           else if tag = TAG_ALLOCATE_CHANNEL then
             res_bind (mem_write cb 2 [TAG_ALLOCATE_CHANNEL]) (\<lambda>cb.
             Inr (h\<lparr>tx_chunk_buffer := cb, tx_chunk_length := 3\<rparr>))
           else if tag = TAG_PING then rx_ping h buffer len
           else if tag = TAG_APDU then process_apdu_chunk h (drop 3 buffer) (len - 3)
           else if tag = TAG_MTU then rx_mtu h
           else Inr h)))))"

section \<open>Transmission\<close>

text \<open>The header of a chunk: tag, sequence number and, in the first chunk, the total length.\<close>

definition tx_header :: "ledger_protocol \<Rightarrow> bytes \<Rightarrow> (bytes \<times> u16) res" where
  "tx_header h cb =
     res_bind (mem_write cb 2 [TAG_APDU]) (\<lambda>cb.
     res_bind (U2BE_ENCODE cb 3 (ucast (tx_apdu_sequence_number h))) (\<lambda>cb.
     if tx_apdu_sequence_number h = 0
     then res_bind (U2BE_ENCODE cb 5 (ucast (tx_apdu_length h))) (\<lambda>cb. Inr (cb, 7))
     else Inr (cb, 5)))"

definition tx_payload :: "ledger_protocol \<Rightarrow> bytes \<Rightarrow> bytes \<Rightarrow> u16 \<Rightarrow> ledger_protocol res" where
  "tx_payload h apdu cb off =
     (if unat (tx_apdu_length h) + unat off > unat (mtu h) + unat (tx_apdu_offset h)
      then
        res_bind (mem_read apdu (unat (tx_apdu_offset h)) (size_of_int (uint (mtu h) - uint off)))
          (\<lambda>d. res_bind (mem_write cb (unat off) d) (\<lambda>cb.
        Inr (h\<lparr>tx_chunk_buffer := cb, tx_apdu_offset := tx_apdu_offset h + (mtu h - off),
               tx_apdu_sequence_number := tx_apdu_sequence_number h + 1,
               tx_chunk_length := ucast (mtu h)\<rparr>)))
      else
        res_bind (mem_read apdu (unat (tx_apdu_offset h))
            (size_of_int (uint (tx_apdu_length h) - uint (tx_apdu_offset h))))
          (\<lambda>d. res_bind (mem_write cb (unat off) d) (\<lambda>cb.
        Inr (h\<lparr>tx_chunk_buffer := cb, tx_apdu_offset := tx_apdu_length h,
               tx_apdu_buffer := None,
               tx_chunk_length := ucast (off + (tx_apdu_length h - tx_apdu_offset h))\<rparr>))))"

definition LEDGER_PROTOCOL_tx :: "ledger_protocol \<Rightarrow> bytes option \<Rightarrow> u16 \<Rightarrow> ledger_protocol res" where
  "LEDGER_PROTOCOL_tx h0 buffer len =
     (let h = (case buffer of None \<Rightarrow> h0
        | Some b \<Rightarrow> h0\<lparr>tx_apdu_buffer := Some b, tx_apdu_length := len,
                      tx_apdu_sequence_number := 0, tx_apdu_offset := 0\<rparr>)
      in case tx_apdu_buffer h of None \<Rightarrow> Inr h
         | Some apdu \<Rightarrow>
             res_bind (mem_set (tx_chunk_buffer h) 2 0
               (size_of_int (uint (tx_chunk_buffer_size h) - 2))) (\<lambda>cb.
             res_bind (tx_header h cb) (\<lambda>(cb, off). tx_payload h apdu cb off)))"

section \<open>The chunks of an APDU\<close>

text \<open>
  The frames of an APDU, the specification both directions are compared with: the frame with
  number \<open>s\<close> has the two bytes of the channel, the tag, \<open>s\<close>, in frame 0 the total length \<open>n\<close>, and
  as much of the rest of the APDU as fits \<open>m\<close> bytes.
\<close>

definition frame_head :: "bytes \<Rightarrow> u16 \<Rightarrow> u16 \<Rightarrow> bytes" where
  "frame_head ch s n = ch @ [TAG_APDU] @ be_of_u16 s @ (if s = 0 then be_of_u16 n else [])"

function frames :: "nat \<Rightarrow> bytes \<Rightarrow> u16 \<Rightarrow> u16 \<Rightarrow> bytes \<Rightarrow> bytes list" where
  "frames m ch s n rest =
     (let hdr = frame_head ch s n; k = m - length hdr
      in if 0 < k \<and> k < length rest
         then (hdr @ take k rest) # frames m ch (s + 1) n (drop k rest)
         else [hdr @ rest])"
  by pat_completeness auto
termination
  by (relation "measure (\<lambda>(m, ch, s, n, rest). length rest)") auto

declare frames.simps [simp del]

lemma frames_not_Nil [simp]: "frames m ch s n rest \<noteq> []"
  by (subst frames.simps) (simp add: Let_def)

definition apdu_frames :: "nat \<Rightarrow> bytes \<Rightarrow> bytes \<Rightarrow> bytes list" where
  "apdu_frames m ch apdu = frames m ch 0 (of_nat (length apdu)) apdu"

lemma frames_length:
  assumes "length ch = 2" and "8 \<le> m" and "f \<in> set (frames m ch s n rest)"
  shows "length f \<le> m"
  using assms
proof (induction m ch s n rest rule: frames.induct)
  case (1 m ch s n rest)
  have "length (frame_head ch s n) < m" using "1.prems" by (auto simp: frame_head_def)
  then show ?case
    using 1 by (subst (asm) frames.simps) (auto simp: Let_def split: if_splits)
qed

text \<open>Reception of a sequence of packets, each handed to \<open>LEDGER_PROTOCOL_rx\<close> with its length.\<close>

fun rx_all :: "ledger_protocol \<Rightarrow> bytes list \<Rightarrow> ledger_protocol res" where
  "rx_all h [] = Inr h"
| "rx_all h (p # ps) =
     res_bind (LEDGER_PROTOCOL_rx h (Some p) (of_nat (length p))) (\<lambda>h. rx_all h ps)"

lemma rx_all_append: "rx_all h (ps @ qs) = res_bind (rx_all h ps) (\<lambda>h. rx_all h qs)"
  by (induction ps arbitrary: h) (auto simp: res_bind_def split: sum.splits)

section \<open>Reception of one chunk\<close>

definition rx_stored :: "ledger_protocol \<Rightarrow> bytes \<Rightarrow> ledger_protocol" where
  "rx_stored h p =
     (let h = h\<lparr>rx_apdu_buffer := buf_write (rx_apdu_buffer h) (1 + unat (rx_apdu_offset h)) p,
                rx_apdu_offset := rx_apdu_offset h + of_nat (length p)\<rparr>
      in if rx_apdu_offset h = rx_apdu_length h
         then h\<lparr>rx_apdu_length := rx_apdu_length h + 1, rx_apdu_sequence_number := 0,
                rx_apdu_status := APDU_STATUS_COMPLETE\<rparr>
         else h\<lparr>rx_apdu_sequence_number := rx_apdu_sequence_number h + 1,
                rx_apdu_status := APDU_STATUS_NEED_MORE_DATA\<rparr>)"

lemma u16_less_65536: "unat (w::u16) < 65536"
  using unsigned_less [where 'a = nat, of w] by simp

lemma u8_less_256: "unat (w::u8) < 256"
  using unsigned_less [where 'a = nat, of w] by simp

text \<open>What is copied of a chunk: all of it, or what is missing when there is more.\<close>

lemma apdu_store_eq:
  assumes "unat (rx_apdu_offset h) \<le> unat (rx_apdu_length h)" and "unat len \<le> length buffer"
  shows "apdu_store h buffer len =
    (let p = take (min (unat len) (unat (rx_apdu_length h) - unat (rx_apdu_offset h))) buffer
     in if 1 + unat (rx_apdu_offset h) + length p \<le> length (rx_apdu_buffer h)
        then Inr (rx_stored h p) else Inl Oob)"
proof -
  define len' where "len' = (if unat (rx_apdu_offset h) + unat len > unat (rx_apdu_length h)
      then rx_apdu_length h - rx_apdu_offset h else len)"
  define p where "p = take (unat len') buffer"
  have m: "unat (rx_apdu_length h - rx_apdu_offset h) =
      unat (rx_apdu_length h) - unat (rx_apdu_offset h)"
    using assms(1) by (simp add: unat_sub word_le_nat_alt)
  have len': "unat len' = min (unat len) (unat (rx_apdu_length h) - unat (rx_apdu_offset h))"
    using m assms by (auto simp: len'_def)
  have l: "length p = unat len'" using assms(2) len' by (simp add: p_def)
  have p: "mem_read buffer 0 (unat len') = Inr p"
    using assms(2) len' by (simp add: p_def mem_read_def)
  have "apdu_store h buffer len =
      (if 1 + unat (rx_apdu_offset h) + length p \<le> length (rx_apdu_buffer h)
        then Inr (rx_stored h p) else Inl Oob)"
    unfolding apdu_store_def len'_def [symmetric] rx_stored_def
    by (simp add: p l mem_write_def Let_def)
  then show ?thesis by (simp add: p_def len' Let_def)
qed

section \<open>Transmission of one chunk\<close>

lemma mem_write_prefix:
  "length pre = off \<Longrightarrow> length xs \<le> n \<Longrightarrow>
   mem_write (pre @ replicate n v) off xs = Inr ((pre @ xs) @ replicate (n - length xs) v)"
  by (auto simp: mem_write_def buf_write_def)

lemma mem_set_suffix:
  "off \<le> length dst \<Longrightarrow> n = length dst - off \<Longrightarrow>
   mem_set dst off v n = Inr (take off dst @ replicate n v)"
  by (simp add: mem_set_def buf_write_def)

definition tx_wf :: "ledger_protocol \<Rightarrow> bool" where
  "tx_wf h \<longleftrightarrow>
     length (tx_chunk_buffer h) = unat (tx_chunk_buffer_size h) \<and>
     8 \<le> unat (mtu h) \<and> unat (mtu h) \<le> unat (tx_chunk_buffer_size h) \<and>
     (case tx_apdu_buffer h of None \<Rightarrow> True
      | Some b \<Rightarrow> tx_apdu_offset h \<le> tx_apdu_length h \<and> unat (tx_apdu_length h) \<le> length b)"

lemma length_frame_head: "length (frame_head ch s n) = length ch + (if s = 0 then 5 else 3)"
  by (simp add: frame_head_def)

lemma tx_header_eq:
  assumes "length ch = 2" and "5 \<le> k"
  shows "tx_header h (ch @ replicate k 0) =
    (let hdr = frame_head ch (tx_apdu_sequence_number h) (tx_apdu_length h)
     in Inr (hdr @ replicate (k + 2 - length hdr) 0, of_nat (length hdr)))"
proof -
  have 1: "mem_write (ch @ replicate k 0) 2 [TAG_APDU] =
      Inr ((ch @ [TAG_APDU]) @ replicate (k - 1) 0)"
    using assms mem_write_prefix [of ch 2 "[TAG_APDU]" k 0] by simp
  have 2: "mem_write ((ch @ [TAG_APDU]) @ replicate (k - 1) 0) 3 (be_of_u16 w) =
      Inr (((ch @ [TAG_APDU]) @ be_of_u16 w) @ replicate (k - 1 - 2) 0)" for w
    using assms mem_write_prefix [of "ch @ [TAG_APDU]" 3 "be_of_u16 w" "k - 1" 0]
    by simp
  have 3: "mem_write (((ch @ [TAG_APDU]) @ be_of_u16 w) @ replicate (k - 1 - 2) 0) 5 (be_of_u16 v) =
      Inr ((((ch @ [TAG_APDU]) @ be_of_u16 w) @ be_of_u16 v) @ replicate (k - 1 - 2 - 2) 0)" for v w
    using assms
      mem_write_prefix [of "(ch @ [TAG_APDU]) @ be_of_u16 w" 5 "be_of_u16 v" "k - 1 - 2" 0]
    by simp
  show ?thesis
    unfolding tx_header_def U2BE_ENCODE_u16 1 res_bind_simps 2 3 Let_def
    using assms by (simp add: frame_head_def numeral_eq_Suc)
qed

text \<open>The part of the APDU that is still to be sent.\<close>

definition tx_rest :: "ledger_protocol \<Rightarrow> bytes \<Rightarrow> bytes" where
  "tx_rest h apdu = drop (unat (tx_apdu_offset h)) (take (unat (tx_apdu_length h)) apdu)"

definition tx_sent :: "ledger_protocol \<Rightarrow> bytes \<Rightarrow> ledger_protocol" where
  "tx_sent h apdu =
     (let hdr = frame_head (take 2 (tx_chunk_buffer h)) (tx_apdu_sequence_number h) (tx_apdu_length h);
          rest = tx_rest h apdu; k = unat (mtu h) - length hdr;
          pad = (\<lambda>f. f @ replicate (unat (tx_chunk_buffer_size h) - length f) 0)
      in if k < length rest
         then h\<lparr>tx_chunk_buffer := pad (hdr @ take k rest), tx_apdu_offset := tx_apdu_offset h + of_nat k,
                tx_apdu_sequence_number := tx_apdu_sequence_number h + 1,
                tx_chunk_length := of_nat (unat (mtu h))\<rparr>
         else h\<lparr>tx_chunk_buffer := pad (hdr @ rest), tx_apdu_offset := tx_apdu_length h,
                tx_apdu_buffer := None, tx_chunk_length := of_nat (length hdr + length rest)\<rparr>)"

lemma length_tx_rest:
  "tx_wf h \<Longrightarrow> tx_apdu_buffer h = Some apdu \<Longrightarrow>
   length (tx_rest h apdu) = unat (tx_apdu_length h) - unat (tx_apdu_offset h)"
  by (simp add: tx_wf_def tx_rest_def)

lemma tx_payload_more:
  assumes wf: "tx_wf h" "tx_apdu_buffer h = Some apdu"
    and hdr: "length hdr \<le> 7" "r = unat (tx_chunk_buffer_size h) - length hdr"
    and more: "unat (mtu h) - length hdr < length (tx_rest h apdu)"
  shows "tx_payload h apdu (hdr @ replicate r 0) (of_nat (length hdr)) =
    (let f = hdr @ take (unat (mtu h) - length hdr) (tx_rest h apdu)
     in Inr (h\<lparr>tx_chunk_buffer := f @ replicate (unat (tx_chunk_buffer_size h) - length f) 0,
        tx_apdu_offset := tx_apdu_offset h + of_nat (unat (mtu h) - length hdr),
        tx_apdu_sequence_number := tx_apdu_sequence_number h + 1,
        tx_chunk_length := of_nat (unat (mtu h))\<rparr>))"
proof -
  let ?k = "unat (mtu h) - length hdr" and ?o = "unat (tx_apdu_offset h)"
    and ?l = "unat (tx_apdu_length h)"
  have hd_conv: "unat (of_nat (length hdr) :: u16) = length hdr" "uint (of_nat (length hdr) :: u16) = int (length hdr)"
    using hdr(1) by (simp_all add: unat_of_nat uint_nat)
  have mtu: "8 \<le> unat (mtu h)" "unat (mtu h) \<le> unat (tx_chunk_buffer_size h)"
    using wf(1) by (simp_all add: tx_wf_def)
  have l: "?o \<le> ?l" "?l \<le> length apdu" using wf by (simp_all add: tx_wf_def word_le_nat_alt)
  have k: "?k < ?l - ?o" using more length_tx_rest [OF wf] by simp
  have rd: "mem_read apdu ?o ?k = Inr (take ?k (tx_rest h apdu))"
    using k l by (simp add: mem_read_def tx_rest_def drop_take)
  have wr: "mem_write (hdr @ replicate r 0) (length hdr) (take ?k (tx_rest h apdu)) =
      Inr ((hdr @ take ?k (tx_rest h apdu)) @ replicate (r - ?k) 0)"
    using k l mtu hdr length_tx_rest [OF wf] by (subst mem_write_prefix) simp_all
  have size: "size_of_int (uint (mtu h) - int (length hdr)) = ?k"
    using size_of_int_diff [of "length hdr" "unat (mtu h)"] hdr(1) mtu(1) u16_less_65536 [of "mtu h"]
    by simp
  have w: "mtu h - of_nat (length hdr) = of_nat ?k" using hdr(1) mtu(1) by simp
  have c: "?l + length hdr > unat (mtu h) + ?o" using k by linarith
  have e: "r - ?k = unat (tx_chunk_buffer_size h) - length (hdr @ take ?k (tx_rest h apdu))"
    using k l mtu hdr length_tx_rest [OF wf] by simp
  show ?thesis
    unfolding tx_payload_def hd_conv size if_P [OF c] rd res_bind_simps wr e w Let_def by simp
qed

lemma tx_payload_last:
  assumes wf: "tx_wf h" "tx_apdu_buffer h = Some apdu"
    and hdr: "length hdr \<le> 7" "r = unat (tx_chunk_buffer_size h) - length hdr"
    and more: "\<not> unat (mtu h) - length hdr < length (tx_rest h apdu)"
  shows "tx_payload h apdu (hdr @ replicate r 0) (of_nat (length hdr)) =
    (let f = hdr @ tx_rest h apdu
     in Inr (h\<lparr>tx_chunk_buffer := f @ replicate (unat (tx_chunk_buffer_size h) - length f) 0,
        tx_apdu_offset := tx_apdu_length h, tx_apdu_buffer := None,
        tx_chunk_length := of_nat (length hdr + length (tx_rest h apdu))\<rparr>))"
proof -
  let ?o = "unat (tx_apdu_offset h)" and ?l = "unat (tx_apdu_length h)"
  have hd_conv: "unat (of_nat (length hdr) :: u16) = length hdr"
    using hdr(1) by (simp add: unat_of_nat)
  have mtu: "8 \<le> unat (mtu h)" "unat (mtu h) \<le> unat (tx_chunk_buffer_size h)"
    using wf(1) by (simp_all add: tx_wf_def)
  have l: "?o \<le> ?l" "?l \<le> length apdu" "tx_apdu_offset h \<le> tx_apdu_length h"
    using wf by (simp_all add: tx_wf_def word_le_nat_alt)
  have k: "?l - ?o \<le> unat (mtu h) - length hdr" using more length_tx_rest [OF wf] by simp
  have rd: "mem_read apdu ?o (?l - ?o) = Inr (tx_rest h apdu)"
    using l by (simp add: mem_read_def tx_rest_def drop_take)
  have wr: "mem_write (hdr @ replicate r 0) (length hdr) (tx_rest h apdu) =
      Inr ((hdr @ tx_rest h apdu) @ replicate (r - (?l - ?o)) 0)"
    using k mtu hdr length_tx_rest [OF wf] by (subst mem_write_prefix) simp_all
  have size: "size_of_int (uint (tx_apdu_length h) - uint (tx_apdu_offset h)) = ?l - ?o"
    using size_of_int_diff [OF l(1)] u16_less_65536 [of "tx_apdu_length h"] by simp
  have c: "\<not> ?l + length hdr > unat (mtu h) + ?o" using k l mtu hdr(1) by linarith
  have e: "r - (?l - ?o) = unat (tx_chunk_buffer_size h) - length (hdr @ tx_rest h apdu)"
    using hdr length_tx_rest [OF wf] by simp
  have "tx_apdu_length h - tx_apdu_offset h = of_nat (?l - ?o)"
    using l(3) by (simp add: word_le_nat_alt)
  then have "of_nat (length hdr) + (tx_apdu_length h - tx_apdu_offset h) =
      of_nat (length hdr + length (tx_rest h apdu))"
    using length_tx_rest [OF wf] by simp
  then have w: "(ucast (of_nat (length hdr) + (tx_apdu_length h - tx_apdu_offset h)) :: u8) =
      of_nat (length hdr + length (tx_rest h apdu))"
    by (simp only: ucast_of_nat_narrow) (simp add: ucast_of_nat_narrow del: of_nat_add)
  show ?thesis
    unfolding tx_payload_def hd_conv size if_not_P [OF c] rd res_bind_simps wr e w Let_def by simp
qed

lemma LEDGER_PROTOCOL_tx_next:
  assumes wf: "tx_wf h" "tx_apdu_buffer h = Some apdu"
  shows "LEDGER_PROTOCOL_tx h None len = Inr (tx_sent h apdu)"
proof -
  let ?s = "unat (tx_chunk_buffer_size h)"
  let ?hdr = "frame_head (take 2 (tx_chunk_buffer h)) (tx_apdu_sequence_number h) (tx_apdu_length h)"
  have s: "8 \<le> ?s" "length (tx_chunk_buffer h) = ?s"
    using wf(1) by (auto simp: tx_wf_def)
  have "size_of_int (uint (tx_chunk_buffer_size h) - 2) = ?s - 2"
    using size_of_int_diff [of 2 ?s] s(1) u8_less_256 [of "tx_chunk_buffer_size h"] by simp
  then have 1: "mem_set (tx_chunk_buffer h) 2 0 (size_of_int (uint (tx_chunk_buffer_size h) - 2)) =
      Inr (take 2 (tx_chunk_buffer h) @ replicate (?s - 2) 0)"
    using s by (simp add: mem_set_suffix)
  have 2: "tx_header h (take 2 (tx_chunk_buffer h) @ replicate (?s - 2) 0) =
      Inr (?hdr @ replicate (?s - length ?hdr) 0, of_nat (length ?hdr))"
    using s by (subst tx_header_eq) (simp_all add: Let_def)
  have 3: "length ?hdr \<le> 7" using s by (simp add: length_frame_head)
  show ?thesis
    unfolding LEDGER_PROTOCOL_tx_def Let_def option.case wf(2) 1 2 res_bind_simps prod.case
    using tx_payload_more [OF wf 3 refl] tx_payload_last [OF wf 3 refl]
    by (cases "unat (mtu h) - length ?hdr < length (tx_rest h apdu)")
      (simp_all add: tx_sent_def Let_def)
qed

definition tx_start :: "ledger_protocol \<Rightarrow> bytes \<Rightarrow> u16 \<Rightarrow> ledger_protocol" where
  "tx_start h b len = h\<lparr>tx_apdu_buffer := Some b, tx_apdu_length := len,
     tx_apdu_sequence_number := 0, tx_apdu_offset := 0\<rparr>"

lemma LEDGER_PROTOCOL_tx_first:
  "LEDGER_PROTOCOL_tx h (Some b) len = LEDGER_PROTOCOL_tx (tx_start h b len) None 0"
  by (simp add: LEDGER_PROTOCOL_tx_def tx_start_def)

lemma tx_sent_cases:
  assumes wf: "tx_wf h" "tx_apdu_buffer h = Some apdu"
    and h: "hdr = frame_head (take 2 (tx_chunk_buffer h)) (tx_apdu_sequence_number h) (tx_apdu_length h)"
  obtains (more) k f where "length hdr + k = unat (mtu h)" "0 < k" "k < length (tx_rest h apdu)"
      "unat (tx_apdu_offset h + of_nat k) = unat (tx_apdu_offset h) + k"
      "f = hdr @ take k (tx_rest h apdu)" "length f = unat (mtu h)"
      "tx_sent h apdu = h\<lparr>tx_chunk_buffer := f @ replicate (unat (tx_chunk_buffer_size h) - length f) 0,
         tx_apdu_offset := tx_apdu_offset h + of_nat k,
         tx_apdu_sequence_number := tx_apdu_sequence_number h + 1,
         tx_chunk_length := of_nat (length f)\<rparr>"
  | (last) f where "unat (mtu h) - length hdr \<ge> length (tx_rest h apdu)"
      "f = hdr @ tx_rest h apdu" "length f \<le> unat (mtu h)"
      "tx_sent h apdu = h\<lparr>tx_chunk_buffer := f @ replicate (unat (tx_chunk_buffer_size h) - length f) 0,
         tx_apdu_offset := tx_apdu_length h, tx_apdu_buffer := None,
         tx_chunk_length := of_nat (length f)\<rparr>"
proof -
  define k where "k = unat (mtu h) - length hdr"
  have s: "8 \<le> unat (mtu h)" "length (tx_chunk_buffer h) \<ge> 8"
    using wf(1) by (auto simp: tx_wf_def)
  have l: "length hdr \<le> 7" using s by (simp add: h length_frame_head)
  have r: "length (tx_rest h apdu) = unat (tx_apdu_length h) - unat (tx_apdu_offset h)"
    by (rule length_tx_rest [OF wf])
  note sent = tx_sent_def [of h apdu, folded h, unfolded Let_def, folded k_def]
  show ?thesis
  proof (cases "k < length (tx_rest h apdu)")
    case True
    show ?thesis
    proof (rule more [of k "hdr @ take k (tx_rest h apdu)"])
      show "unat (tx_apdu_offset h + of_nat k) = unat (tx_apdu_offset h) + k"
        using True r u16_less_65536 [of "tx_apdu_length h"]
        by (simp add: unat_word_ariths unat_of_nat)
      have "length (hdr @ take k (tx_rest h apdu)) = unat (mtu h)"
        using True l s by (simp add: k_def)
      then show "length (hdr @ take k (tx_rest h apdu)) = unat (mtu h)"
        "tx_sent h apdu = h\<lparr>tx_chunk_buffer := (hdr @ take k (tx_rest h apdu)) @
            replicate (unat (tx_chunk_buffer_size h) - length (hdr @ take k (tx_rest h apdu))) 0,
           tx_apdu_offset := tx_apdu_offset h + of_nat k,
           tx_apdu_sequence_number := tx_apdu_sequence_number h + 1,
           tx_chunk_length := of_nat (length (hdr @ take k (tx_rest h apdu)))\<rparr>"
        using True by (simp_all only: sent if_True)
    qed (use True l s in \<open>auto simp: k_def\<close>)
  next
    case False
    then show ?thesis using l s by (intro last [of "hdr @ tx_rest h apdu"]) (auto simp: k_def sent)
  qed
qed

lemma u16_in_byte: "n \<le> unat (m::u16) \<Longrightarrow> unat m \<le> unat (s::u8) \<Longrightarrow> unat (of_nat n :: u8) = n"
  using u8_less_256 [of s] by (simp add: unat_of_nat)

lemma tx_sent_frame:
  assumes wf: "tx_wf h" "tx_apdu_buffer h = Some apdu"
  shows "frames (unat (mtu h)) (take 2 (tx_chunk_buffer h)) (tx_apdu_sequence_number h)
      (tx_apdu_length h) (tx_rest h apdu) =
    take (unat (tx_chunk_length (tx_sent h apdu))) (tx_chunk_buffer (tx_sent h apdu)) #
    (case tx_apdu_buffer (tx_sent h apdu) of None \<Rightarrow> []
     | Some b \<Rightarrow> frames (unat (mtu h)) (take 2 (tx_chunk_buffer h))
         (tx_apdu_sequence_number (tx_sent h apdu)) (tx_apdu_length h) (tx_rest (tx_sent h apdu) apdu))"
proof -
  have m: "unat (mtu h) \<le> unat (tx_chunk_buffer_size h)" using wf(1) by (simp add: tx_wf_def)
  show ?thesis
  proof (cases rule: tx_sent_cases [OF wf refl, case_names more last])
    case (more k f)
    have "tx_rest (tx_sent h apdu) apdu = drop k (tx_rest h apdu)"
      using more(4) by (simp add: more(7) tx_rest_def add.commute)
    moreover have "unat (of_nat (length f) :: u8) = length f"
      by (rule u16_in_byte [OF eq_imp_le [OF more(6)] m])
    then have "take (unat (tx_chunk_length (tx_sent h apdu))) (tx_chunk_buffer (tx_sent h apdu)) = f"
      by (simp add: more(7))
    moreover have "unat (mtu h) - length (frame_head (take 2 (tx_chunk_buffer h))
        (tx_apdu_sequence_number h) (tx_apdu_length h)) = k"
      "length (frame_head (take 2 (tx_chunk_buffer h))
        (tx_apdu_sequence_number h) (tx_apdu_length h)) < unat (mtu h)"
      using more(1,2) by linarith+
    ultimately show ?thesis
      using more(2,3) wf(2) by (subst frames.simps) (simp add: Let_def more(7) more(5) [symmetric])
  next
    case (last f)
    have "unat (of_nat (length f) :: u8) = length f" by (rule u16_in_byte [OF last(3) m])
    then have "take (unat (tx_chunk_length (tx_sent h apdu))) (tx_chunk_buffer (tx_sent h apdu)) = f"
      by (simp add: last(4))
    then show ?thesis
      using last(1) by (subst frames.simps) (simp add: Let_def last(4) last(2) [symmetric])
  qed
qed

lemma tx_sent_wf:
  assumes wf: "tx_wf h" "tx_apdu_buffer h = Some apdu"
  shows "tx_wf (tx_sent h apdu)" "take 2 (tx_chunk_buffer (tx_sent h apdu)) = take 2 (tx_chunk_buffer h)"
proof -
  have s: "2 \<le> length (tx_chunk_buffer h)" using wf(1) by (auto simp: tx_wf_def)
  show "tx_wf (tx_sent h apdu)"
    using wf length_tx_rest [OF wf]
    by (cases rule: tx_sent_cases [OF wf refl]) (auto simp: tx_wf_def word_le_nat_alt)
  show "take 2 (tx_chunk_buffer (tx_sent h apdu)) = take 2 (tx_chunk_buffer h)"
    using s by (simp add: tx_sent_def Let_def frame_head_def)
qed

lemma tx_sent_simps [simp]:
  "mtu (tx_sent h apdu) = mtu h" "tx_apdu_length (tx_sent h apdu) = tx_apdu_length h"
  "tx_apdu_buffer h = Some apdu \<Longrightarrow> tx_apdu_buffer (tx_sent h apdu) = Some b \<Longrightarrow> b = apdu"
  by (auto simp: tx_sent_def Let_def split: if_splits)

section \<open>Reception of the frames of an APDU\<close>

text \<open>The answer buffer \<open>LEDGER_PROTOCOL_rx\<close> clears on every packet.\<close>

definition chunk_ok :: "ledger_protocol \<Rightarrow> bool" where
  "chunk_ok h \<longleftrightarrow>
     length (tx_chunk_buffer h) = unat (tx_chunk_buffer_size h) \<and> 8 \<le> unat (tx_chunk_buffer_size h)"

definition rx_cleared :: "ledger_protocol \<Rightarrow> bytes \<Rightarrow> ledger_protocol" where
  "rx_cleared h ch = h\<lparr>tx_chunk_buffer := ch @ replicate (unat (tx_chunk_buffer_size h) - 2) 0\<rparr>"

lemma rx_clear:
  assumes "chunk_ok h" and "length ch = 2"
  shows "mem_set (tx_chunk_buffer h) 0 0 (unat (tx_chunk_buffer_size h)) =
      Inr (replicate (unat (tx_chunk_buffer_size h)) 0)"
    "mem_write (replicate (unat (tx_chunk_buffer_size h)) 0) 0 ch =
      Inr (ch @ replicate (unat (tx_chunk_buffer_size h) - 2) 0)"
  using assms by (auto simp: chunk_ok_def mem_set_def mem_write_def buf_write_def)

text \<open>The state in which the payload of the frame with number \<open>s\<close> is stored.\<close>

definition rx_begun :: "ledger_protocol \<Rightarrow> bytes \<Rightarrow> u16 \<Rightarrow> u16 \<Rightarrow> ledger_protocol" where
  "rx_begun h ch s n =
     (if s = 0
      then (rx_cleared h ch)\<lparr>rx_apdu_buffer := buf_write (rx_apdu_buffer h) 0 [lp_type h],
         rx_apdu_status := APDU_STATUS_NEED_MORE_DATA, rx_apdu_length := n, rx_apdu_offset := 0\<rparr>
      else rx_cleared h ch)"

lemma u16_not_less: "k \<le> x \<Longrightarrow> x < 65536 \<Longrightarrow> \<not> (of_nat x :: u16) < of_nat k"
  by (simp add: word_less_nat_alt unat_of_nat)

lemma rx_frame:
  assumes h: "chunk_ok h" "0 < length (rx_apdu_buffer h)" "rx_apdu_sequence_number h = s"
    and n: "s = 0 \<Longrightarrow> n \<le> rx_apdu_buffer_size h"
    and ch: "length ch = 2" and len: "length (frame_head ch s n @ d) < 65536"
  shows "LEDGER_PROTOCOL_rx h (Some (frame_head ch s n @ d)) (of_nat (length (frame_head ch s n @ d))) =
    apdu_store (rx_begun h ch s n) d (of_nat (length d))"
proof -
  let ?f = "frame_head ch s n @ d"
  let ?b = "be_of_u16 s @ (if s = 0 then be_of_u16 n else []) @ d"
  obtain a b where ab: "ch = [a, b]" using ch by (auto simp: numeral_2_eq_2 length_Suc_conv)
  have f: "?f = a # b # TAG_APDU # ?b" by (simp add: ab frame_head_def)
  have lb: "length ?f = length ?b + 3" "2 \<le> length ?b" "s = 0 \<Longrightarrow> 4 \<le> length ?b"
    unfolding f by simp_all
  have le: "3 \<le> length ?f" "length ?b < 65536" using lb len by linarith+
  have lens: "\<not> (of_nat (length ?f) :: u16) < 3" "\<not> (of_nat (length ?b) :: u16) < 2"
    "s = 0 \<Longrightarrow> \<not> (of_nat (length ?b) :: u16) < 4"
    by (rule u16_not_less [OF le(1) len, unfolded of_nat_numeral]
        u16_not_less [OF lb(2) le(2), unfolded of_nat_numeral]
        u16_not_less [OF lb(3) le(2), unfolded of_nat_numeral], assumption?)+
  have lens4: "(of_nat (length ?f) :: u16) - 3 = of_nat (length ?b)"
    unfolding lb(1) by simp
  have c: "mem_read ?f 0 2 = Inr ch" "mem_get ?f 2 = Inr TAG_APDU" "drop 3 ?f = ?b"
    unfolding f by (simp_all add: ab mem_read_def mem_get_def)
  have 1: "LEDGER_PROTOCOL_rx h (Some ?f) (of_nat (length ?f)) =
      process_apdu_chunk (rx_cleared h ch) ?b (of_nat (length ?b))"
    unfolding LEDGER_PROTOCOL_rx_def option.case Let_def
    by (simp only: lens(1) lens4 if_False rx_clear [OF h(1) ch] c res_bind_simps)
      (simp add: rx_cleared_def)
  have u: "U2BE ?b 0 = Inr s" using U2BE_be_of_u16 [of "[]" 0 s] by simp
  have "apdu_store (rx_begun h ch s n) d (of_nat (length d)) =
      process_apdu_chunk (rx_cleared h ch) ?b (of_nat (length ?b))"
  proof (cases "s = 0")
    case True
    have "U2BE ?b 2 = Inr n" using U2BE_be_of_u16 [of "be_of_u16 s" 2 n d] True by simp
    moreover have "(of_nat (length ?b) :: u16) - 4 = of_nat (length d)" using True by simp
    ultimately show ?thesis
      using u lens(2,3) True h(2,3) n
      by (auto simp: process_apdu_chunk_def rx_begun_def rx_cleared_def mem_write_def Let_def
          be_of_u16_def Suc_le_eq)
  next
    case False
    then show ?thesis
      using u lens(2) h(3)
      by (simp add: process_apdu_chunk_def rx_begun_def rx_cleared_def be_of_u16_def)
  qed
  then show ?thesis using 1 by simp
qed

text \<open>
  The receiver has stored the first \<open>o\<close> bytes of the APDU and expects frame \<open>s\<close>.
\<close>

definition rx_at :: "ledger_protocol \<Rightarrow> bytes \<Rightarrow> nat \<Rightarrow> u16 \<Rightarrow> bool" where
  "rx_at h apdu p s \<longleftrightarrow>
     chunk_ok h \<and> length apdu \<le> unat (rx_apdu_buffer_size h) \<and>
     length apdu \<le> length (rx_apdu_buffer h) \<and> 0 < length (rx_apdu_buffer h) \<and>
     rx_apdu_sequence_number h = s \<and> p \<le> length apdu \<and> (s = 0 \<longrightarrow> p = 0) \<and>
     (s \<noteq> 0 \<longrightarrow> unat (rx_apdu_offset h) = p \<and> unat (rx_apdu_length h) = length apdu \<and>
        take (1 + p) (rx_apdu_buffer h) = lp_type h # take p apdu)"

lemma rx_begun_at:
  assumes "rx_at h apdu p s" and "length ch = 2"
  shows "unat (rx_apdu_offset (rx_begun h ch s (of_nat (length apdu)))) = p"
    "unat (rx_apdu_length (rx_begun h ch s (of_nat (length apdu)))) = length apdu"
    "take (1 + p) (rx_apdu_buffer (rx_begun h ch s (of_nat (length apdu)))) = lp_type h # take p apdu"
    "length (rx_apdu_buffer (rx_begun h ch s (of_nat (length apdu)))) = length (rx_apdu_buffer h)"
    "rx_apdu_sequence_number (rx_begun h ch s (of_nat (length apdu))) = s"
    "rx_apdu_buffer_size (rx_begun h ch s (of_nat (length apdu))) = rx_apdu_buffer_size h"
    "lp_type (rx_begun h ch s (of_nat (length apdu))) = lp_type h"
    "chunk_ok (rx_begun h ch s (of_nat (length apdu)))"
  using assms u16_less_65536 [of "rx_apdu_buffer_size h"]
  by (auto simp: rx_at_def rx_begun_def rx_cleared_def unat_of_nat buf_write_def chunk_ok_def Suc_le_eq)

lemma rx_frame_at:
  assumes at: "rx_at h apdu p s" and ch: "length ch = 2"
    and len: "length (frame_head ch s (of_nat (length apdu)) @ d) < 65536"
    and q: "q = min (length d) (length apdu - p)"
  shows "LEDGER_PROTOCOL_rx h (Some (frame_head ch s (of_nat (length apdu)) @ d))
      (of_nat (length (frame_head ch s (of_nat (length apdu)) @ d))) =
    (if 1 + p + q \<le> length (rx_apdu_buffer h)
     then Inr (rx_stored (rx_begun h ch s (of_nat (length apdu))) (take q d)) else Inl Oob)"
proof -
  have h: "chunk_ok h" "0 < length (rx_apdu_buffer h)" "rx_apdu_sequence_number h = s"
    "(of_nat (length apdu) :: u16) \<le> rx_apdu_buffer_size h" "p \<le> length apdu"
    using at by (auto simp: rx_at_def word_le_nat_alt unat_of_nat)
  have d: "unat (of_nat (length d) :: u16) = length d" using len by (simp add: unat_of_nat)
  note b = rx_begun_at [OF at ch]
  have "apdu_store (rx_begun h ch s (of_nat (length apdu))) d (of_nat (length d)) =
    (if 1 + p + q \<le> length (rx_apdu_buffer h)
     then Inr (rx_stored (rx_begun h ch s (of_nat (length apdu))) (take q d)) else Inl Oob)"
    using h(5) by (subst apdu_store_eq) (simp_all add: b d q Let_def)
  then show ?thesis using rx_frame [OF h(1-3) h(4) ch len] by simp
qed

lemma rx_stored_simps [simp]:
  "lp_type (rx_stored h p) = lp_type h"
  "rx_apdu_buffer_size (rx_stored h p) = rx_apdu_buffer_size h"
  "chunk_ok (rx_stored h p) = chunk_ok h"
  "tx_chunk_buffer (rx_stored h p) = tx_chunk_buffer h"
  "tx_chunk_buffer_size (rx_stored h p) = tx_chunk_buffer_size h"
  "mtu (rx_stored h p) = mtu h" "tx_apdu_buffer (rx_stored h p) = tx_apdu_buffer h"
  "tx_apdu_length (rx_stored h p) = tx_apdu_length h"
  "tx_apdu_offset (rx_stored h p) = tx_apdu_offset h"
  "rx_apdu_buffer (rx_stored h p) = buf_write (rx_apdu_buffer h) (1 + unat (rx_apdu_offset h)) p"
  by (simp_all add: rx_stored_def Let_def chunk_ok_def)

lemma take_append_buf_write:
  assumes "take n dst = xs" and "length xs = n" and "n + length ys \<le> length dst"
  shows "take (n + length ys) (buf_write dst n ys) = xs @ ys"
  using assms by (simp add: buf_write_def)

lemma rx_stored_more:
  assumes at: "rx_at h apdu p s" and ch: "length ch = 2"
    and k: "p + k < length apdu" "s + 1 \<noteq> 0"
  defines "h' \<equiv> rx_stored (rx_begun h ch s (of_nat (length apdu))) (take k (drop p apdu))"
  shows "rx_at h' apdu (p + k) (s + 1)" "rx_apdu_status h' = APDU_STATUS_NEED_MORE_DATA"
    "length (rx_apdu_buffer h') = length (rx_apdu_buffer h)" "lp_type h' = lp_type h"
proof -
  let ?b = "rx_begun h ch s (of_nat (length apdu))"
  note b = rx_begun_at [OF at ch]
  have at': "length apdu \<le> unat (rx_apdu_buffer_size h)" "length apdu \<le> length (rx_apdu_buffer h)"
    "0 < length (rx_apdu_buffer h)" "p \<le> length apdu"
    using at by (simp_all add: rx_at_def)
  have mn: "min (length apdu - p) k = k" and l: "length (take k (drop p apdu)) = k"
    using k by simp_all
  have off: "unat (rx_apdu_offset ?b + of_nat k) = p + k"
    using k(1) at'(1) u16_less_65536 [of "rx_apdu_buffer_size h"]
    by (simp add: unat_word_ariths unat_of_nat b(1))
  have ne: "rx_apdu_offset ?b + of_nat k \<noteq> rx_apdu_length ?b"
    using off b(2) k(1) by auto
  have "take (1 + p + length (take k (drop p apdu)))
      (buf_write (rx_apdu_buffer ?b) (1 + p) (take k (drop p apdu))) =
      (lp_type h # take p apdu) @ take k (drop p apdu)"
    using at' k b(4) by (intro take_append_buf_write [OF b(3)]) simp_all
  then have "take (1 + (p + k)) (rx_apdu_buffer h') = lp_type h # take (p + k) apdu"
    unfolding l h'_def by (simp add: b(1) take_add add.assoc)
  moreover show "length (rx_apdu_buffer h') = length (rx_apdu_buffer h)" "lp_type h' = lp_type h"
    using at' k by (simp_all add: h'_def b(1,4,7))
  moreover have "rx_apdu_sequence_number h' = s + 1" "unat (rx_apdu_offset h') = p + k"
    "unat (rx_apdu_length h') = length apdu"
    and st: "rx_apdu_status h' = APDU_STATUS_NEED_MORE_DATA"
    using ne off by (simp_all add: h'_def rx_stored_def Let_def mn b(2,5))
  ultimately show "rx_at h' apdu (p + k) (s + 1)"
    using at' k b(6,8) by (simp add: rx_at_def) (simp add: h'_def)
  show "rx_apdu_status h' = APDU_STATUS_NEED_MORE_DATA" by (rule st)
qed

lemma rx_stored_last:
  assumes at: "rx_at h apdu p s" and ch: "length ch = 2" and room: "length apdu < length (rx_apdu_buffer h)"
  defines "h' \<equiv> rx_stored (rx_begun h ch s (of_nat (length apdu))) (drop p apdu)"
  shows "rx_apdu_status h' = APDU_STATUS_COMPLETE" "rx_apdu_sequence_number h' = 0"
    "rx_apdu_length h' = of_nat (length apdu + 1)"
    "take (1 + length apdu) (rx_apdu_buffer h') = lp_type h # apdu"
proof -
  let ?b = "rx_begun h ch s (of_nat (length apdu))"
  note b = rx_begun_at [OF at ch]
  have p: "p \<le> length apdu" using at by (simp add: rx_at_def)
  have off: "rx_apdu_offset ?b + of_nat (length apdu - p) = rx_apdu_length ?b"
    using p b(1,2) by (metis add_diff_inverse_nat not_less of_nat_add of_nat_unat ucast_id)
  have "take (1 + p + length (drop p apdu)) (buf_write (rx_apdu_buffer ?b) (1 + p) (drop p apdu)) =
      (lp_type h # take p apdu) @ drop p apdu"
    using room p b(4) by (intro take_append_buf_write [OF b(3)]) simp_all
  then show "take (1 + length apdu) (rx_apdu_buffer h') = lp_type h # apdu"
    using p by (simp add: h'_def b(1))
  have "rx_apdu_length ?b = of_nat (length apdu)" using b(2) by (metis of_nat_unat ucast_id)
  then show "rx_apdu_status h' = APDU_STATUS_COMPLETE" "rx_apdu_sequence_number h' = 0"
    "rx_apdu_length h' = of_nat (length apdu + 1)"
    using off by (simp_all add: h'_def rx_stored_def Let_def)
qed

text \<open>
  What becomes of an APDU sent as frames, the last one possibly padded: it arrives complete when
  the buffer has room for it and the type byte, and overruns the buffer by one byte when its
  length is exactly that of the buffer.
\<close>

definition rx_arrived :: "ledger_protocol \<Rightarrow> bytes \<Rightarrow> ledger_protocol res \<Rightarrow> bool" where
  "rx_arrived h apdu r \<longleftrightarrow>
     (if length apdu < length (rx_apdu_buffer h)
      then \<exists>h'. r = Inr h' \<and> rx_apdu_status h' = APDU_STATUS_COMPLETE \<and>
        rx_apdu_sequence_number h' = 0 \<and> rx_apdu_length h' = of_nat (length apdu + 1) \<and>
        take (1 + length apdu) (rx_apdu_buffer h') = lp_type h # apdu
      else r = Inl Oob)"

lemma rx_all_frames:
  assumes "rx_at h apdu p s" and "rest = drop p apdu" and "unat s + length rest < 65536"
    and "length ch = 2" and "8 \<le> m" and "m + length pad < 65536"
    and "n = of_nat (length apdu)"
  shows "rx_arrived h apdu
    (rx_all h (butlast (frames m ch s n rest) @ [last (frames m ch s n rest) @ pad]))"
  using assms
proof (induction m ch s n rest arbitrary: h p rule: frames.induct)
  case (1 m ch s n rest)
  note at = "1.prems"(1) and rest = "1.prems"(2) and ch = "1.prems"(4) and n = "1.prems"(7)
  let ?hdr = "frame_head ch s n" and ?k = "m - length (frame_head ch s n)"
  have hdr: "length ?hdr \<le> 7" using ch by (simp add: length_frame_head)
  have pl: "p \<le> length apdu" using at by (simp add: rx_at_def)
  show ?case
  proof (cases "0 < ?k \<and> ?k < length rest")
    case True
    have s: "s + 1 \<noteq> 0" "unat (s + 1) = unat s + 1"
      using "1.prems"(3) True by (auto simp: unat_word_ariths simp flip: unat_eq_0)
    define h' where "h' = rx_stored (rx_begun h ch s n) (take ?k (drop p apdu))"
    have k: "p + ?k < length apdu" using True rest pl by simp linarith
    note more = rx_stored_more [OF at ch k s(1), folded n, folded h'_def]
    have "LEDGER_PROTOCOL_rx h (Some (?hdr @ take ?k rest)) (of_nat (length (?hdr @ take ?k rest))) = Inr h'"
      using rx_frame_at [OF at ch _ refl, of "take ?k rest"] True rest k "1.prems"(6) hdr at
      by (simp add: n [symmetric] h'_def rx_at_def min_def)
    moreover have "rx_arrived h' apdu (rx_all h' (butlast (frames m ch (s + 1) n (drop ?k rest)) @
        [last (frames m ch (s + 1) n (drop ?k rest)) @ pad]))"
      using True more(1) "1.prems" s(2) by (intro "1.IH" [OF refl refl]) (auto simp: rest add.commute)
    moreover have "frames m ch s n rest = (?hdr @ take ?k rest) # frames m ch (s + 1) n (drop ?k rest)"
      using True by (subst frames.simps) (simp add: Let_def)
    moreover have "rx_arrived h apdu r = rx_arrived h' apdu r" for r
      unfolding rx_arrived_def more(3,4) ..
    ultimately show ?thesis by simp
  next
    case False
    have mn: "min (length rest + length pad) (length apdu - p) = length rest" using rest pl by simp
    have l: "length (?hdr @ rest @ pad) < 65536" using False "1.prems"(5,6) hdr by simp
    have r: "LEDGER_PROTOCOL_rx h (Some (?hdr @ rest @ pad)) (of_nat (length (?hdr @ rest @ pad))) =
        (if length apdu < length (rx_apdu_buffer h) then Inr (rx_stored (rx_begun h ch s n) rest) else Inl Oob)"
      using rx_frame_at [OF at ch _ refl, of "rest @ pad"] l mn pl rest by (simp add: n [symmetric])
    have f: "frames m ch s n rest = [?hdr @ rest]" using False by (subst frames.simps) (auto simp: Let_def)
    show ?thesis
      using r rx_stored_last [OF at ch] rest unfolding f by (simp add: rx_arrived_def n [symmetric])
  qed
qed

section \<open>Properties\<close>

text \<open>
  The state of a receiver between packets: no access goes outside the buffers as long as the
  receive buffer has room for one byte more than \<open>rx_apdu_buffer_size\<close> says.
\<close>

definition rx_wf :: "ledger_protocol \<Rightarrow> bool" where
  "rx_wf h \<longleftrightarrow>
     chunk_ok h \<and> unat (rx_apdu_buffer_size h) < length (rx_apdu_buffer h) \<and>
     (rx_apdu_sequence_number h \<noteq> 0 \<longrightarrow>
        rx_apdu_offset h \<le> rx_apdu_length h \<and> rx_apdu_length h \<le> rx_apdu_buffer_size h)"

lemma rx_wf_status [simp]: "rx_wf (h\<lparr>rx_apdu_status := st\<rparr>) = rx_wf h"
  by (simp add: rx_wf_def chunk_ok_def)

lemma apdu_store_wf:
  assumes "chunk_ok h" and "unat (rx_apdu_buffer_size h) < length (rx_apdu_buffer h)"
    and "rx_apdu_offset h \<le> rx_apdu_length h" and "rx_apdu_length h \<le> rx_apdu_buffer_size h"
    and "unat len \<le> length buffer"
  shows "\<exists>h'. apdu_store h buffer len = Inr h' \<and> rx_wf h'"
proof -
  define p where
    "p = take (min (unat len) (unat (rx_apdu_length h) - unat (rx_apdu_offset h))) buffer"
  have le: "unat (rx_apdu_offset h) \<le> unat (rx_apdu_length h)"
    "unat (rx_apdu_length h) \<le> unat (rx_apdu_buffer_size h)"
    using assms(3,4) by (simp_all add: word_le_nat_alt)
  have lp: "unat (rx_apdu_offset h) + length p \<le> unat (rx_apdu_length h)"
    using le by (simp add: p_def)
  then have "unat (rx_apdu_offset h + of_nat (length p)) = unat (rx_apdu_offset h) + length p"
    using u16_less_65536 [of "rx_apdu_length h"] by (simp add: unat_word_ariths unat_of_nat)
  then have "rx_wf (rx_stored h p)"
    using assms(1,2) lp le by (auto simp: rx_wf_def word_le_nat_alt) (auto simp: rx_stored_def Let_def)
  then show ?thesis
    using apdu_store_eq [OF le(1) assms(5)] lp le assms(2)
    by (simp add: p_def [symmetric] Let_def)
qed

lemma process_apdu_chunk_wf:
  assumes wf: "rx_wf h" and len: "unat len \<le> length buffer"
  shows "\<exists>h'. process_apdu_chunk h buffer len = Inr h' \<and> rx_wf h'"
proof (cases "len < 2")
  case True
  then show ?thesis using wf by (simp add: process_apdu_chunk_def)
next
  case False
  then have 2: "2 \<le> unat len" by (simp add: word_less_nat_alt)
  then obtain s where s: "U2BE buffer 0 = Inr s" using U2BE_total [of 0 buffer] len by auto
  let ?q = "rx_apdu_sequence_number h"
  consider "s \<noteq> ?q \<or> len < 4 \<and> ?q = 0" | "s = ?q" "?q \<noteq> 0" | "s = ?q" "?q = 0" "\<not> len < 4" by blast
  then show ?thesis
  proof cases
    case 1
    then show ?thesis using False s wf by (auto simp: process_apdu_chunk_def)
  next
    case 2
    moreover have "unat (len - 2) \<le> length (drop 2 buffer)"
      using \<open>2 \<le> unat len\<close> len by (simp add: unat_sub word_le_nat_alt)
    ultimately show ?thesis
      using False s wf apdu_store_wf [of h "len - 2" "drop 2 buffer"]
      by (auto simp: process_apdu_chunk_def rx_wf_def)
  next
    case 3
    then have 4: "4 \<le> unat len" by (simp add: word_less_nat_alt)
    then obtain n where n: "U2BE buffer 2 = Inr n" using U2BE_total [of 2 buffer] len by auto
    let ?h = "h\<lparr>rx_apdu_buffer := buf_write (rx_apdu_buffer h) 0 [lp_type h],
      rx_apdu_status := APDU_STATUS_NEED_MORE_DATA, rx_apdu_length := n, rx_apdu_offset := 0\<rparr>"
    have "unat (len - 4) \<le> length (drop 4 buffer)"
      using 4 len by (simp add: unat_sub word_le_nat_alt)
    then have "n \<le> rx_apdu_buffer_size h \<Longrightarrow>
        \<exists>h'. apdu_store ?h (drop 4 buffer) (len - 4) = Inr h' \<and> rx_wf h'"
      using wf by (intro apdu_store_wf) (auto simp: rx_wf_def chunk_ok_def)
    then show ?thesis
      using False 3 s n wf
      by (auto simp: process_apdu_chunk_def mem_write_def rx_wf_def chunk_ok_def Let_def not_less)
  qed
qed

definition rx_dispatch :: "ledger_protocol \<Rightarrow> u8 \<Rightarrow> bytes \<Rightarrow> u16 \<Rightarrow> ledger_protocol res" where
  "rx_dispatch h tag buffer len =
     (if tag = TAG_GET_PROTOCOL_VERSION then rx_protocol_version h
      else if tag = TAG_ALLOCATE_CHANNEL then
        res_bind (mem_write (tx_chunk_buffer h) 2 [TAG_ALLOCATE_CHANNEL]) (\<lambda>cb.
        Inr (h\<lparr>tx_chunk_buffer := cb, tx_chunk_length := 3\<rparr>))
      else if tag = TAG_PING then rx_ping h buffer len
      else if tag = TAG_APDU then process_apdu_chunk h (drop 3 buffer) (len - 3)
      else if tag = TAG_MTU then rx_mtu h
      else Inr h)"

lemma rx_packet:
  assumes h: "chunk_ok h" and len: "3 \<le> unat len" "unat len \<le> length buffer"
  shows "LEDGER_PROTOCOL_rx h (Some buffer) len =
    rx_dispatch (rx_cleared h (take 2 buffer)) (buffer ! 2) buffer len"
proof -
  have ch: "length (take 2 buffer) = 2" using len by simp
  have "\<not> len < 3" using len(1) by (simp add: word_less_nat_alt)
  moreover have "mem_read buffer 0 2 = Inr (take 2 buffer)" "mem_get buffer 2 = Inr (buffer ! 2)"
    using len by (auto simp: mem_read_def mem_get_def)
  ultimately show ?thesis
    unfolding LEDGER_PROTOCOL_rx_def option.case rx_dispatch_def
    by (simp add: rx_clear [OF h ch] Let_def) (simp add: rx_cleared_def)
qed

lemma rx_cleared_simps [simp]:
  assumes "length ch = 2"
  shows "chunk_ok h \<Longrightarrow> chunk_ok (rx_cleared h ch)" "rx_wf h \<Longrightarrow> rx_wf (rx_cleared h ch)"
    "tx_chunk_buffer_size (rx_cleared h ch) = tx_chunk_buffer_size h"
    "tx_chunk_buffer (rx_cleared h ch) = ch @ replicate (unat (tx_chunk_buffer_size h) - 2) 0"
    "mtu (rx_cleared h ch) = mtu h"
  using assms by (auto simp: rx_cleared_def chunk_ok_def rx_wf_def)

lemma rx_protocol_version_eq:
  assumes h: "chunk_ok h" and ch: "length ch = 2"
  shows "rx_protocol_version (rx_cleared h ch) =
    Inr ((rx_cleared h ch)\<lparr>tx_chunk_buffer := (ch @ [TAG_GET_PROTOCOL_VERSION, 0, 0, 0, 0]) @
      replicate (unat (tx_chunk_buffer_size h) - 7) 0, tx_chunk_length := 7\<rparr>)"
proof -
  let ?s = "unat (tx_chunk_buffer_size h)"
  have s: "8 \<le> ?s" using h by (simp add: chunk_ok_def)
  have m: "min 4 (uint (tx_chunk_buffer_size h) - 3) = 4" using zle_int [of 8 ?s] s by simp
  have 1: "mem_write (ch @ replicate (?s - 2) 0) 2 [TAG_GET_PROTOCOL_VERSION] =
      Inr ((ch @ [TAG_GET_PROTOCOL_VERSION]) @ replicate (?s - 2 - 1) 0)"
    using mem_write_prefix [of ch 2 "[TAG_GET_PROTOCOL_VERSION]" "?s - 2" 0] ch s by simp
  have 2: "mem_write ((ch @ [TAG_GET_PROTOCOL_VERSION]) @ replicate (?s - 2 - 1) 0) 3 [0, 0, 0, 0] =
      Inr (((ch @ [TAG_GET_PROTOCOL_VERSION]) @ [0, 0, 0, 0]) @ replicate (?s - 2 - 1 - 4) 0)"
    using mem_write_prefix [of "ch @ [TAG_GET_PROTOCOL_VERSION]" 3 "[0, 0, 0, 0]" "?s - 2 - 1" 0] ch s
    by simp
  show ?thesis
    unfolding rx_protocol_version_def rx_cleared_simps [OF ch] 1 m Let_def
    using 2 by (simp add: protocol_version_def mem_read_def)
qed

lemma ucast_minus_2: "(ucast (ucast (w::u16) - 2 :: u32) :: u16) = w - 2"
  by transfer (simp add: take_bit_eq_mod mod_mod_cancel mod_simps)

lemma rx_mtu_eq:
  assumes h: "chunk_ok h" and ch: "length ch = 2"
  shows "rx_mtu (rx_cleared h ch) =
    Inr ((rx_cleared h ch)\<lparr>tx_chunk_buffer := (ch @ [TAG_MTU, 0] @ be_of_u16 (mtu h - 2) @
      [0x01, ucast (mtu h - 2)]) @ replicate (unat (tx_chunk_buffer_size h) - 8) 0, tx_chunk_length := 8\<rparr>)"
proof -
  let ?s = "unat (tx_chunk_buffer_size h)"
  let ?a = "[TAG_MTU, 0x00, 0x00, 0x00, 0x01, ucast (mtu h - 2)]"
  have s: "8 \<le> ?s" using h by (simp add: chunk_ok_def)
  have 1: "mem_write (ch @ replicate (?s - 2) 0) 2 ?a = Inr ((ch @ ?a) @ replicate (?s - 2 - 6) 0)"
    using mem_write_prefix [of ch 2 ?a "?s - 2" 0] ch s by simp
  have "(ucast (drop_bit 8 (ucast (mtu h) - 2 :: u32)) :: u8) = ucast (drop_bit 8 (mtu h - 2))"
    "(ucast (ucast (mtu h) - 2 :: u32) :: u8) = ucast (mtu h - 2)"
    unfolding ucast_minus_2 [symmetric] by (rule byte_eqI, simp add: bit_simps)+
  then have 2: "U2BE_ENCODE cb 4 (ucast (mtu h) - 2) = mem_write cb 4 (be_of_u16 (mtu h - 2))" for cb
    by (simp add: U2BE_ENCODE_def be_of_u16_def)
  show ?thesis
    unfolding rx_mtu_def rx_cleared_simps [OF ch] 1 2 res_bind_simps
    using ch s by (simp add: mem_write_def buf_write_def be_of_u16_def)
qed

lemma rx_ping_eq:
  assumes h: "chunk_ok h" and ch: "length ch = 2" "take 2 buffer = ch"
    and len: "3 \<le> unat len" "unat len \<le> length buffer"
    and n: "n = min (unat (tx_chunk_buffer_size h)) (unat len)"
  shows "rx_ping (rx_cleared h ch) buffer len =
    Inr ((rx_cleared h ch)\<lparr>tx_chunk_buffer := take n buffer @
      replicate (unat (tx_chunk_buffer_size h) - n) 0, tx_chunk_length := of_nat n\<rparr>)"
proof -
  let ?s = "tx_chunk_buffer_size h"
  let ?m = "if ucast ?s < len then ?s else ucast len"
  have s: "8 \<le> unat ?s" using h by (simp add: chunk_ok_def)
  have us: "unat (ucast ?s :: u16) = unat ?s"
    using u8_less_256 [of ?s] by (simp add: unsigned_ucast_eq take_bit_nat_eq_self)
  have m': "?m = of_nat n"
    using n us by (auto simp: word_less_nat_alt min_def)
  have m: "unat (of_nat n :: u8) = n"
    using n u8_less_256 [of ?s] by (simp add: unat_of_nat)
  have 1: "mem_read buffer 0 n = Inr (take n buffer)" using len n by (simp add: mem_read_def)
  have "mem_write (ch @ replicate (unat ?s - 2) 0) 0 (take n buffer) =
      Inr (take n buffer @ replicate (unat ?s - n) 0)"
    using len n s ch by (auto simp: mem_write_def buf_write_def)
  then show ?thesis
    unfolding rx_ping_def rx_cleared_simps [OF ch(1)] Let_def m' m 1 res_bind_simps by simp
qed

lemma rx_wf_chunk:
  "rx_wf h \<Longrightarrow> length b = unat (tx_chunk_buffer_size h) \<Longrightarrow>
   rx_wf (h\<lparr>tx_chunk_buffer := b, tx_chunk_length := n\<rparr>)"
  by (simp add: rx_wf_def chunk_ok_def)

text \<open>
  Property C4: whatever packet arrives, \<open>LEDGER_PROTOCOL_rx\<close> reads and writes inside its buffers
  and leaves the handle well-formed, provided the receive buffer has at least one byte more than
  \<open>rx_apdu_buffer_size\<close>.
\<close>

theorem rx_memory_safe:
  assumes wf: "rx_wf h" and len: "unat len \<le> length buffer"
  shows "\<exists>h'. LEDGER_PROTOCOL_rx h (Some buffer) len = Inr h' \<and> rx_wf h'"
proof (cases "len < 3")
  case True
  then show ?thesis using wf by (simp add: LEDGER_PROTOCOL_rx_def)
next
  case False
  then have 3: "3 \<le> unat len" by (simp add: word_less_nat_alt)
  have h: "chunk_ok h" and s: "8 \<le> unat (tx_chunk_buffer_size h)"
    using wf by (simp_all add: rx_wf_def chunk_ok_def)
  define ch where "ch = take 2 buffer"
  have ch: "length ch = 2" "take 2 buffer = ch" using 3 len by (simp_all add: ch_def)
  have c: "rx_wf (rx_cleared h ch)" using ch(1) wf by simp
  have "unat (len - 3) \<le> length (drop 3 buffer)"
    using 3 len by (simp add: unat_sub word_le_nat_alt)
  then have "\<exists>h'. process_apdu_chunk (rx_cleared h ch) (drop 3 buffer) (len - 3) = Inr h' \<and> rx_wf h'"
    by (rule process_apdu_chunk_wf [OF c])
  then show ?thesis
    unfolding rx_packet [OF h 3 len] ch(2) rx_dispatch_def
    using rx_protocol_version_eq [OF h ch(1)] rx_mtu_eq [OF h ch(1)] c s ch(1)
      rx_ping_eq [OF h ch 3 len refl] len
    by (auto simp: mem_write_def intro!: rx_wf_chunk)
qed

text \<open>A handle on small buffers, for the concrete instances below.\<close>

definition small_handle :: "nat \<Rightarrow> ledger_protocol" where
  "small_handle room = \<lparr>lp_type = 0x20, tx_apdu_buffer = None, tx_apdu_length = 0,
     tx_apdu_sequence_number = 0, tx_apdu_offset = 0, tx_chunk_buffer = replicate 8 0,
     tx_chunk_buffer_size = 8, tx_chunk_length = 0, rx_apdu_buffer = replicate room 0,
     rx_apdu_buffer_size = 4, rx_apdu_status = APDU_STATUS_WAITING, rx_apdu_sequence_number = 0,
     rx_apdu_length = 0, rx_apdu_offset = 0, mtu = 8, mtu_negotiated = 0\<rparr>"

theorem rx_memory_safe_witness:
  "rx_wf (small_handle 5) \<and> unat (3::u16) \<le> length [1, 2, 9::u8] \<and>
   (\<exists>h'. LEDGER_PROTOCOL_rx (small_handle 5) (Some [1, 2, 9]) 3 = Inr h' \<and> rx_wf h')"
proof -
  have "rx_wf (small_handle 5)" by (simp add: rx_wf_def chunk_ok_def small_handle_def)
  then show ?thesis using rx_memory_safe [of "small_handle 5" 3 "[1, 2, 9]"] by simp
qed

lemma rx_apdu_complete:
  assumes h: "chunk_ok h" "rx_apdu_sequence_number h = 0"
    and fits: "length apdu \<le> unat (rx_apdu_buffer_size h)" "length apdu < length (rx_apdu_buffer h)"
    and m: "length ch = 2" "8 \<le> m" "m + length pad < 65536"
    and fs: "fs = apdu_frames m ch apdu"
  shows "\<exists>h'. rx_all h (butlast fs @ [last fs @ pad]) = Inr h' \<and>
    rx_apdu_status h' = APDU_STATUS_COMPLETE \<and> rx_apdu_sequence_number h' = 0 \<and>
    rx_apdu_length h' = of_nat (length apdu + 1) \<and>
    take (1 + length apdu) (rx_apdu_buffer h') = lp_type h # apdu"
proof -
  have "rx_at h apdu 0 0" using h fits by (auto simp: rx_at_def)
  then have "rx_arrived h apdu (rx_all h (butlast fs @ [last fs @ pad]))"
    unfolding fs apdu_frames_def
    using m fits(1) u16_less_65536 [of "rx_apdu_buffer_size h"]
    by (intro rx_all_frames [OF _ drop_0 [symmetric]]) simp_all
  then show ?thesis using fits(2) by (simp add: rx_arrived_def)
qed

text \<open>
  The sender's side: the first call hands the APDU over, and as long as \<open>tx_apdu_buffer\<close> is set
  the transport calls again with no buffer. What is sent after each call is the first
  \<open>tx_chunk_length\<close> bytes of the chunk buffer; \<open>k\<close> bounds the number of further calls.
\<close>

definition tx_chunk :: "ledger_protocol \<Rightarrow> bytes" where
  "tx_chunk h = take (unat (tx_chunk_length h)) (tx_chunk_buffer h)"

fun tx_more :: "nat \<Rightarrow> ledger_protocol \<Rightarrow> (bytes list \<times> ledger_protocol) res" where
  "tx_more 0 h = Inr ([], h)"
| "tx_more (Suc k) h =
     (if tx_apdu_buffer h = None then Inr ([], h)
      else res_bind (LEDGER_PROTOCOL_tx h None 0) (\<lambda>h.
           res_bind (tx_more k h) (\<lambda>(fs, h'). Inr (tx_chunk h # fs, h'))))"

definition tx_all :: "nat \<Rightarrow> ledger_protocol \<Rightarrow> bytes \<Rightarrow> u16 \<Rightarrow> (bytes list \<times> ledger_protocol) res" where
  "tx_all k h apdu len =
     res_bind (LEDGER_PROTOCOL_tx h (Some apdu) len) (\<lambda>h.
     res_bind (tx_more k h) (\<lambda>(fs, h'). Inr (tx_chunk h # fs, h')))"

lemma tx_more_stop [simp]: "tx_apdu_buffer h = None \<Longrightarrow> tx_more k h = Inr ([], h)"
  by (cases k) simp_all

lemma tx_more_frames:
  assumes "tx_wf h" and "tx_apdu_buffer h = Some apdu" and "length (tx_rest h apdu) < k"
  shows "\<exists>h'. tx_more k h = Inr (frames (unat (mtu h)) (take 2 (tx_chunk_buffer h))
      (tx_apdu_sequence_number h) (tx_apdu_length h) (tx_rest h apdu), h') \<and> tx_apdu_buffer h' = None"
  using assms
proof (induction k arbitrary: h)
  case (Suc k)
  let ?g = "tx_sent h apdu"
  note sent = tx_sent_frame [OF Suc.prems(1,2)] tx_sent_wf [OF Suc.prems(1,2)]
  show ?case
  proof (cases "tx_apdu_buffer ?g")
    case None
    then show ?thesis
      using Suc.prems LEDGER_PROTOCOL_tx_next [OF Suc.prems(1,2)] sent(1) by (simp add: tx_chunk_def)
  next
    case (Some b)
    have b: "b = apdu" by (rule tx_sent_simps(3) [OF Suc.prems(2) Some])
    have "length (tx_rest ?g apdu) < length (tx_rest h apdu)"
      using Some by (cases rule: tx_sent_cases [OF Suc.prems(1,2) refl])
        (auto simp: tx_rest_def add.commute)
    then obtain h' where "tx_more k ?g = Inr (frames (unat (mtu h)) (take 2 (tx_chunk_buffer h))
        (tx_apdu_sequence_number ?g) (tx_apdu_length h) (tx_rest ?g apdu), h')" "tx_apdu_buffer h' = None"
      using Suc.IH [of ?g] sent(2,3) Some b Suc.prems(3) by auto
    then show ?thesis
      using Suc.prems LEDGER_PROTOCOL_tx_next [OF Suc.prems(1,2)] sent(1) Some by (simp add: tx_chunk_def)
  qed
qed simp

lemma tx_all_frames:
  assumes h: "length (tx_chunk_buffer h) = unat (tx_chunk_buffer_size h)" "8 \<le> unat (mtu h)"
      "unat (mtu h) \<le> unat (tx_chunk_buffer_size h)"
    and len: "length apdu < 65536" "length apdu \<le> k"
  shows "\<exists>h'. tx_all k h apdu (of_nat (length apdu)) =
    Inr (apdu_frames (unat (mtu h)) (take 2 (tx_chunk_buffer h)) apdu, h') \<and> tx_apdu_buffer h' = None"
proof -
  let ?s = "tx_start h apdu (of_nat (length apdu))"
  have l: "unat (of_nat (length apdu) :: u16) = length apdu" using len(1) by (simp add: unat_of_nat)
  have "tx_all k h apdu (of_nat (length apdu)) = tx_more (Suc k) ?s"
    by (simp add: tx_all_def LEDGER_PROTOCOL_tx_first) (simp add: tx_start_def)
  moreover have "tx_wf ?s" using h l by (simp add: tx_wf_def tx_start_def)
  ultimately show ?thesis
    using tx_more_frames [of ?s apdu "Suc k"] l len(2)
    by (simp add: apdu_frames_def tx_rest_def tx_start_def)
qed

text \<open>
  Property C1: an APDU given to \<open>LEDGER_PROTOCOL_tx\<close> and received with \<open>LEDGER_PROTOCOL_rx\<close>
  arrives. The sender's calls end within as many calls as the APDU has bytes, each chunk is at most
  \<open>mtu\<close> bytes, and the chunks it leaves in its chunk buffer, the last one possibly padded to the
  size of a packet, received in order by a handle whose buffer has room for the APDU and the type
  byte, restore the APDU: the status is complete, the length counts the type byte, and the buffer
  holds the type byte and the APDU.
\<close>

theorem apdu_sent_received:
  assumes g: "length (tx_chunk_buffer g) = unat (tx_chunk_buffer_size g)" "8 \<le> unat (mtu g)"
      "unat (mtu g) \<le> unat (tx_chunk_buffer_size g)"
    and h: "chunk_ok h" "rx_apdu_sequence_number h = 0"
    and fits: "length apdu \<le> unat (rx_apdu_buffer_size h)" "length apdu < length (rx_apdu_buffer h)"
    and pad: "unat (mtu g) + length pad < 65536"
  shows "\<exists>fs g' h'. tx_all (length apdu) g apdu (of_nat (length apdu)) = Inr (fs, g') \<and>
    tx_apdu_buffer g' = None \<and> (\<forall>f\<in>set fs. length f \<le> unat (mtu g)) \<and>
    rx_all h (butlast fs @ [last fs @ pad]) = Inr h' \<and>
    rx_apdu_status h' = APDU_STATUS_COMPLETE \<and> rx_apdu_sequence_number h' = 0 \<and>
    rx_apdu_length h' = of_nat (length apdu + 1) \<and>
    take (1 + length apdu) (rx_apdu_buffer h') = lp_type h # apdu"
proof -
  let ?ch = "take 2 (tx_chunk_buffer g)"
  let ?fs = "apdu_frames (unat (mtu g)) ?ch apdu"
  have l: "length apdu < 65536" using fits(1) u16_less_65536 [of "rx_apdu_buffer_size h"] by simp
  have ch: "length ?ch = 2" using g by simp
  obtain g' where "tx_all (length apdu) g apdu (of_nat (length apdu)) = Inr (?fs, g')"
    "tx_apdu_buffer g' = None"
    using tx_all_frames [OF g l le_refl] by blast
  moreover have "\<forall>f\<in>set ?fs. length f \<le> unat (mtu g)"
    unfolding apdu_frames_def using frames_length [OF ch g(2)] by blast
  ultimately show ?thesis using rx_apdu_complete [OF h fits ch g(2) pad refl] by fast
qed

theorem apdu_sent_received_witness:
  "chunk_ok (small_handle 5) \<and>
   (\<exists>fs g' h'. tx_all 4 (small_handle 0) [0xE0, 1, 2, 3] 4 = Inr (fs, g') \<and>
      fs = [[0, 0, 5, 0, 0, 0, 4, 0xE0], [0, 0, 5, 0, 1, 1, 2, 3]] \<and>
      rx_all (small_handle 5) (butlast fs @ [last fs @ [0]]) = Inr h' \<and>
      take 5 (rx_apdu_buffer h') = [0x20, 0xE0, 1, 2, 3])"
proof -
  let ?a = "[0xE0, 1, 2, 3::u8]" and ?fs = "[[0, 0, 5, 0, 0, 0, 4, 0xE0], [0, 0, 5, 0, 1, 1, 2, 3::u8]]"
  have c: "chunk_ok (small_handle 5)" by (simp add: chunk_ok_def small_handle_def)
  have h: "length (tx_chunk_buffer (small_handle 0)) = unat (tx_chunk_buffer_size (small_handle 0))"
    "8 \<le> unat (mtu (small_handle 0))" "unat (mtu (small_handle 0)) \<le> unat (tx_chunk_buffer_size (small_handle 0))"
    "rx_apdu_sequence_number (small_handle 5) = 0" "length ?a \<le> unat (rx_apdu_buffer_size (small_handle 5))"
    "length ?a < length (rx_apdu_buffer (small_handle 5))" "unat (mtu (small_handle 0)) + length [0::u8] < 65536"
    "lp_type (small_handle 5) = 0x20"
    by (simp_all add: small_handle_def)
  have l: "length ?a = 4" "1 + (4::nat) = 5" "(of_nat 4 :: u16) = 4" by simp_all
  obtain fs g' h' where r: "tx_all 4 (small_handle 0) ?a 4 = Inr (fs, g')"
    "rx_all (small_handle 5) (butlast fs @ [last fs @ [0]]) = Inr h'"
    "take 5 (rx_apdu_buffer h') = 0x20 # ?a"
    using apdu_sent_received [OF h(1-3) c h(4-7)] unfolding l h(8) by blast
  have "take 2 (tx_chunk_buffer (small_handle 0)) = [0, 0]" "unat (mtu (small_handle 0)) = 8"
    by (simp add: small_handle_def numeral_2_eq_2) (simp add: small_handle_def)
  moreover have "apdu_frames 8 [0, 0] ?a = ?fs" by code_simp
  ultimately have "fs = ?fs"
    using tx_all_frames [OF h(1-3), of ?a 4] r(1) unfolding l by auto
  then show ?thesis using c r by blast
qed

lemma rx_apdu_overrun:
  assumes h: "chunk_ok h" "rx_apdu_sequence_number h = 0"
    and full: "length apdu = unat (rx_apdu_buffer_size h)"
      "length (rx_apdu_buffer h) = unat (rx_apdu_buffer_size h)" "apdu \<noteq> []"
    and m: "length ch = 2" "8 \<le> m" "m + length pad < 65536"
    and fs: "fs = apdu_frames m ch apdu"
  shows "rx_all h (butlast fs @ [last fs @ pad]) = Inl Oob"
proof -
  have "0 < length apdu" using full(3) by simp
  then have "rx_at h apdu 0 0" using h full by (simp add: rx_at_def)
  then have "rx_arrived h apdu (rx_all h (butlast fs @ [last fs @ pad]))"
    unfolding fs apdu_frames_def
    using m full u16_less_65536 [of "rx_apdu_buffer_size h"]
    by (intro rx_all_frames [OF _ drop_0 [symmetric]]) simp_all
  then show ?thesis using full by (simp add: rx_arrived_def)
qed

text \<open>
  The check of the announced length leaves no room for the type byte. With a receive
  buffer of exactly \<open>rx_apdu_buffer_size\<close> bytes, as every transport sets it up, an APDU of that
  length passes the check and its last byte is written past the end of the buffer.
\<close>

theorem rx_off_by_one:
  assumes h: "chunk_ok h" "rx_apdu_sequence_number h = 0"
    and full: "length apdu = unat (rx_apdu_buffer_size h)"
      "length (rx_apdu_buffer h) = unat (rx_apdu_buffer_size h)" "apdu \<noteq> []"
    and m: "length ch = 2" "8 \<le> m" "m + length pad < 65536"
    and fs: "fs = apdu_frames m ch apdu"
  shows "rx_all h (butlast fs @ [last fs @ pad]) = Inl Oob"
  by (rule rx_apdu_overrun [OF assms])

theorem rx_off_by_one_witness:
  "rx_all (small_handle 4) (butlast (apdu_frames 8 [1, 1] [0xE0, 1, 2, 3]) @
     [last (apdu_frames 8 [1, 1] [0xE0, 1, 2, 3]) @ []]) = Inl Oob"
  by (rule rx_off_by_one [OF _ _ _ _ _ _ _ _ refl]) (simp_all add: chunk_ok_def small_handle_def)

text \<open>
  What the answer buffer holds after a packet of each administrative tag: the channel
  of the request followed by the version, the allocated channel, the echo of a ping cut to the
  buffer, or the MTU without the two channel bytes.
\<close>

theorem rx_answers:
  assumes h: "chunk_ok h" and len: "3 \<le> unat len" "unat len \<le> length buffer"
    and tag: "buffer ! 2 \<noteq> TAG_APDU"
    and ans: "answer = (\<lambda>h. take (unat (tx_chunk_length h)) (tx_chunk_buffer h))"
  shows "\<exists>h'. LEDGER_PROTOCOL_rx h (Some buffer) len = Inr h' \<and>
      rx_apdu_status h' = rx_apdu_status h \<and> rx_apdu_buffer h' = rx_apdu_buffer h \<and>
      (buffer ! 2 = TAG_GET_PROTOCOL_VERSION \<longrightarrow>
         answer h' = take 2 buffer @ [TAG_GET_PROTOCOL_VERSION] @ protocol_version) \<and>
      (buffer ! 2 = TAG_ALLOCATE_CHANNEL \<longrightarrow> answer h' = take 3 buffer) \<and>
      (buffer ! 2 = TAG_PING \<longrightarrow>
         answer h' = take (min (unat (tx_chunk_buffer_size h)) (unat len)) buffer) \<and>
      (buffer ! 2 = TAG_MTU \<longrightarrow>
         answer h' = take 2 buffer @ [TAG_MTU, 0] @ be_of_u16 (mtu h - 2) @ [1, ucast (mtu h - 2)])"
proof -
  define ch where "ch = take 2 buffer"
  have s: "8 \<le> unat (tx_chunk_buffer_size h)" using h by (simp add: chunk_ok_def)
  have ch: "length ch = 2" "take 2 buffer = ch" using len by (simp_all add: ch_def)
  have "take 3 buffer = ch @ [buffer ! 2]"
    using len take_Suc_conv_app_nth [of 2 buffer] by (simp add: ch_def eval_nat_numeral)
  moreover have "unat (of_nat (min (unat (tx_chunk_buffer_size h)) (unat len)) :: u8) =
      min (unat (tx_chunk_buffer_size h)) (unat len)"
    using u8_less_256 [of "tx_chunk_buffer_size h"] by (simp add: unat_of_nat)
  moreover have "mem_write (ch @ replicate (unat (tx_chunk_buffer_size h) - 2) 0) 2 [TAG_ALLOCATE_CHANNEL] =
      Inr ((ch @ [TAG_ALLOCATE_CHANNEL]) @ replicate (unat (tx_chunk_buffer_size h) - 2 - 1) 0)"
    using mem_write_prefix [of ch 2 "[TAG_ALLOCATE_CHANNEL]"] ch(1) s by simp
  ultimately show ?thesis
    unfolding rx_packet [OF h len] ch(2) rx_dispatch_def ans
    using rx_protocol_version_eq [OF h ch(1)] rx_mtu_eq [OF h ch(1)] s ch(1)
      rx_ping_eq [OF h ch len refl] len tag
    by (auto simp: rx_cleared_def protocol_version_def)
qed

theorem rx_answers_witness:
  "chunk_ok (small_handle 5) \<and>
   (\<exists>h'. LEDGER_PROTOCOL_rx (small_handle 5) (Some [1, 2, TAG_PING, 7]) 4 = Inr h' \<and>
      take (unat (tx_chunk_length h')) (tx_chunk_buffer h') = [1, 2, TAG_PING, 7])"
proof -
  have "chunk_ok (small_handle 5)" by (simp add: chunk_ok_def small_handle_def)
  then show ?thesis
    using rx_answers [OF _ _ _ _ refl, of "small_handle 5" 4 "[1, 2, TAG_PING, 7]"]
    by (auto simp: small_handle_def)
qed

text \<open>
  A chunk with another sequence number than the expected one only changes the status
  (and the answer buffer): what was reassembled, and the number that is expected, stay.
\<close>

theorem rx_wrong_sequence:
  assumes h: "chunk_ok h" and ch: "length ch = 2" and s: "s \<noteq> rx_apdu_sequence_number h"
    and len: "length d < 65000"
  shows "LEDGER_PROTOCOL_rx h (Some (frame_head ch s n @ d)) (of_nat (length (frame_head ch s n @ d))) =
    Inr ((rx_cleared h ch)\<lparr>rx_apdu_status := APDU_STATUS_WAITING\<rparr>)"
proof -
  let ?b = "(if s = 0 then be_of_u16 n else []) @ d"
  define f where "f = frame_head ch s n @ d"
  define l where "l = (of_nat (length f) :: u16)"
  have f: "f = ch @ [TAG_APDU] @ be_of_u16 s @ ?b" by (simp add: f_def frame_head_def)
  have "length f < 65536" using len ch by (simp add: f)
  then have ul: "unat l = length f" by (simp add: l_def unat_of_nat)
  have l3: "3 \<le> unat l" "unat l \<le> length f" using ch by (simp_all add: ul f)
  have "unat (l - 3) = length f - 3" using l3(1) ul by (simp add: unat_sub word_le_nat_alt)
  then have l2: "\<not> l - 3 < 2" using ch by (simp add: word_less_nat_alt f)
  have d: "take 2 f = ch" "f ! 2 = TAG_APDU" "drop 3 f = be_of_u16 s @ ?b"
    using ch by (auto simp: f nth_append)
  have "U2BE (be_of_u16 s @ ?b) 0 = Inr s" using U2BE_be_of_u16 [of "[]" 0 s ?b] by simp
  then have "process_apdu_chunk (rx_cleared h ch) (be_of_u16 s @ ?b) (l - 3) =
      Inr ((rx_cleared h ch)\<lparr>rx_apdu_status := APDU_STATUS_WAITING\<rparr>)"
    using l2 s unfolding process_apdu_chunk_def by (simp add: rx_cleared_def)
  then show ?thesis
    unfolding f_def [symmetric] l_def [symmetric] rx_packet [OF h l3] d rx_dispatch_def by simp
qed

theorem rx_wrong_sequence_witness:
  "LEDGER_PROTOCOL_rx (small_handle 5) (Some (frame_head [1, 2] 7 0 @ [5]))
     (of_nat (length (frame_head [1, 2] 7 0 @ [5]))) =
   Inr ((rx_cleared (small_handle 5) [1, 2])\<lparr>rx_apdu_status := APDU_STATUS_WAITING\<rparr>)"
  by (rule rx_wrong_sequence) (simp_all add: chunk_ok_def small_handle_def)

end
