(* ===== verification/Usbd_Hid.thy ===== *)
theory Usbd_Hid
  imports Usbd_LL Ledger_Protocol
begin

text \<open>
  The HID class of \<open>io/sdk/lib_stusb/src/usbd_ledger_hid.c\<close>: the class callbacks of the USB stack
  on top of the transport protocol. \<open>usbd_hid\<close> extends the device handle by
  \<open>ledger_hid_handle_t\<close>. The handle is a static object, so the \<open>cookie\<close> is never \<open>NULL\<close>. The
  two static buffers \<open>USBD_LEDGER_io_buffer\<close> (273 bytes) and \<open>USBD_LEDGER_protocol_chunk_buffer\<close>
  (64 bytes) are the buffer fields of \<open>protocol_data\<close>, so that \<open>USBD_LEDGER_HID_init\<close>, which
  clears the handle and points it to the buffers, keeps their contents.
\<close>

section \<open>State and constants\<close>

datatype ledger_hid_state = LEDGER_HID_STATE_IDLE | LEDGER_HID_STATE_BUSY

record usbd_hid = usbd_handle +
  hid_protocol :: u8
  hid_idle_state :: u8
  hid_alt_setting :: u8
  hid_state :: ledger_hid_state
  protocol_data :: ledger_protocol

abbreviation (input) LEDGER_HID_EPIN_ADDR :: u8 where "LEDGER_HID_EPIN_ADDR \<equiv> 0x82"
abbreviation (input) LEDGER_HID_EPIN_SIZE :: "'a::len word" where "LEDGER_HID_EPIN_SIZE \<equiv> 0x40"
abbreviation (input) LEDGER_HID_EPOUT_ADDR :: u8 where "LEDGER_HID_EPOUT_ADDR \<equiv> 0x02"
abbreviation (input) LEDGER_HID_EPOUT_SIZE :: "'a::len word" where "LEDGER_HID_EPOUT_SIZE \<equiv> 0x40"
abbreviation (input) HID_DESCRIPTOR_TYPE :: "'a::len word" where "HID_DESCRIPTOR_TYPE \<equiv> 0x21"
abbreviation (input) HID_REPORT_DESCRIPTOR_TYPE :: "'a::len word" where
  "HID_REPORT_DESCRIPTOR_TYPE \<equiv> 0x22"

abbreviation (input) REQ_SET_IDLE :: u8 where "REQ_SET_IDLE \<equiv> 0x0A"
abbreviation (input) REQ_GET_IDLE :: u8 where "REQ_GET_IDLE \<equiv> 0x02"
abbreviation (input) REQ_SET_PROTOCOL :: u8 where "REQ_SET_PROTOCOL \<equiv> 0x0B"
abbreviation (input) REQ_GET_PROTOCOL :: u8 where "REQ_GET_PROTOCOL \<equiv> 0x03"

abbreviation (input) USB_REQ_TYPE_STANDARD :: u8 where "USB_REQ_TYPE_STANDARD \<equiv> 0x00"
abbreviation (input) USB_REQ_TYPE_CLASS :: u8 where "USB_REQ_TYPE_CLASS \<equiv> 0x20"
abbreviation (input) USB_REQ_TYPE_VENDOR :: u8 where "USB_REQ_TYPE_VENDOR \<equiv> 0x40"
abbreviation (input) USB_REQ_TYPE_MASK :: u8 where "USB_REQ_TYPE_MASK \<equiv> 0x60"
abbreviation (input) USB_REQ_RECIPIENT_DEVICE :: u8 where "USB_REQ_RECIPIENT_DEVICE \<equiv> 0x00"
abbreviation (input) USB_REQ_RECIPIENT_INTERFACE :: u8 where "USB_REQ_RECIPIENT_INTERFACE \<equiv> 0x01"
abbreviation (input) USB_REQ_RECIPIENT_ENDPOINT :: u8 where "USB_REQ_RECIPIENT_ENDPOINT \<equiv> 0x02"
abbreviation (input) USB_REQ_RECIPIENT_MASK :: u8 where "USB_REQ_RECIPIENT_MASK \<equiv> 0x03"

abbreviation (input) USB_REQ_GET_STATUS :: u8 where "USB_REQ_GET_STATUS \<equiv> 0x00"
abbreviation (input) USB_REQ_CLEAR_FEATURE :: u8 where "USB_REQ_CLEAR_FEATURE \<equiv> 0x01"
abbreviation (input) USB_REQ_SET_FEATURE :: u8 where "USB_REQ_SET_FEATURE \<equiv> 0x03"
abbreviation (input) USB_REQ_SET_ADDRESS :: u8 where "USB_REQ_SET_ADDRESS \<equiv> 0x05"
abbreviation (input) USB_REQ_GET_DESCRIPTOR :: u8 where "USB_REQ_GET_DESCRIPTOR \<equiv> 0x06"
abbreviation (input) USB_REQ_GET_CONFIGURATION :: u8 where "USB_REQ_GET_CONFIGURATION \<equiv> 0x08"
abbreviation (input) USB_REQ_SET_CONFIGURATION :: u8 where "USB_REQ_SET_CONFIGURATION \<equiv> 0x09"
abbreviation (input) USB_REQ_GET_INTERFACE :: u8 where "USB_REQ_GET_INTERFACE \<equiv> 0x0A"
abbreviation (input) USB_REQ_SET_INTERFACE :: u8 where "USB_REQ_SET_INTERFACE \<equiv> 0x0B"

abbreviation (input) USB_LEN_IF_DESC :: nat where "USB_LEN_IF_DESC \<equiv> 9"
abbreviation (input) OS_IO_PACKET_TYPE_USB_HID_APDU :: u8 where "OS_IO_PACKET_TYPE_USB_HID_APDU \<equiv> 0x20"

definition LEDGER_HID_report_descriptor :: bytes where
  "LEDGER_HID_report_descriptor = concat
     [[0x06, 0xA0, 0xFF], [0x09, 0x01], [0xA1, 0x01],
      [0x09, 0x03], [0x15, 0x00], [0x26, 0xFF, 0x00], [0x75, 0x08], [0x95, LEDGER_HID_EPIN_SIZE], [0x81, 0x08],
      [0x09, 0x04], [0x15, 0x00], [0x26, 0xFF, 0x00], [0x75, 0x08], [0x95, LEDGER_HID_EPOUT_SIZE], [0x91, 0x08],
      [0xC0]]"

definition LEDGER_HID_descriptors :: bytes where
  "LEDGER_HID_descriptors = concat
     [[0x09, 0x04, 0x00, 0x00, 0x02, 0x03, 0x00, 0x00, 0x02],
      [0x09, HID_DESCRIPTOR_TYPE, 0x11, 0x01, 0x00, 0x01, HID_REPORT_DESCRIPTOR_TYPE, 34, 0x00],
      [0x07, 0x05, LEDGER_HID_EPIN_ADDR, USBD_EP_TYPE_INTR, LEDGER_HID_EPIN_SIZE, 0x00, 0x01],
      [0x07, 0x05, LEDGER_HID_EPOUT_ADDR, USBD_EP_TYPE_INTR, LEDGER_HID_EPOUT_SIZE, 0x00, 0x01]]"

section \<open>Class callbacks\<close>

definition USBD_LEDGER_HID_init ::
    "'a usbd_hid_scheme \<Rightarrow> 'a usbd_hid_scheme \<times> usbd_status" where
  "USBD_LEDGER_HID_init s =
     (let zero = \<lparr>lp_type = 0, tx_apdu_buffer = None, tx_apdu_length = 0,
            tx_apdu_sequence_number = 0, tx_apdu_offset = 0,
            tx_chunk_buffer = tx_chunk_buffer (protocol_data s), tx_chunk_buffer_size = 64, tx_chunk_length = 0,
            rx_apdu_buffer = rx_apdu_buffer (protocol_data s), rx_apdu_buffer_size = 273,
            rx_apdu_status = APDU_STATUS_WAITING, rx_apdu_sequence_number = 0,
            rx_apdu_length = 0, rx_apdu_offset = 0, mtu = 64, mtu_negotiated = 0\<rparr>;
          s = s\<lparr>hid_protocol := 0, hid_idle_state := 0, hid_alt_setting := 0,
                hid_state := LEDGER_HID_STATE_IDLE,
                protocol_data := LEDGER_PROTOCOL_init zero OS_IO_PACKET_TYPE_USB_HID_APDU\<rparr>
      in (fst (USBD_LL_PrepareReceive LEDGER_HID_EPOUT_ADDR LEDGER_HID_EPOUT_SIZE s), USBD_OK))"

definition USBD_LEDGER_HID_de_init ::
    "'a usbd_hid_scheme \<Rightarrow> 'a usbd_hid_scheme \<times> usbd_status" where
  "USBD_LEDGER_HID_de_init s = (s, USBD_OK)"

definition hid_standard_request ::
    "usbd_setup_req \<Rightarrow> 'a usbd_hid_scheme \<Rightarrow> ('a usbd_hid_scheme \<times> usbd_status) res" where
  "hid_standard_request req s =
     (let send = (\<lambda>d n. res_bind (USBD_CtlSendData (Some d) n s) (\<lambda>s. Inr (s, USBD_OK)))
      in if bRequest req = USB_REQ_GET_STATUS then
           (if dev_state s = USBD_STATE_CONFIGURED then send [0x00, 0x00] 2 else Inr (s, USBD_FAIL))
         else if bRequest req = USB_REQ_GET_DESCRIPTOR then
           (if wValue req = push_bit 8 HID_DESCRIPTOR_TYPE
            then send (drop USB_LEN_IF_DESC LEDGER_HID_descriptors)
                   (min (ucast (LEDGER_HID_descriptors ! USB_LEN_IF_DESC)) (ucast (wLength req)))
            else if wValue req = push_bit 8 HID_REPORT_DESCRIPTOR_TYPE
            then send LEDGER_HID_report_descriptor (min 34 (ucast (wLength req)))
            else Inr (s, USBD_FAIL))
         else if bRequest req = USB_REQ_GET_INTERFACE then
           (if dev_state s = USBD_STATE_CONFIGURED then send [hid_alt_setting s] 1 else Inr (s, USBD_FAIL))
         else if bRequest req = USB_REQ_SET_INTERFACE then
           Inr (if dev_state s = USBD_STATE_CONFIGURED
                then (s\<lparr>hid_alt_setting := ucast (wValue req)\<rparr>, USBD_OK) else (s, USBD_FAIL))
         else if bRequest req = USB_REQ_CLEAR_FEATURE then Inr (s, USBD_OK)
         else Inr (s, USBD_FAIL))"

definition hid_class_request ::
    "usbd_setup_req \<Rightarrow> 'a usbd_hid_scheme \<Rightarrow> ('a usbd_hid_scheme \<times> usbd_status) res" where
  "hid_class_request req s =
     (let send = (\<lambda>d n. res_bind (USBD_CtlSendData (Some d) n s) (\<lambda>s. Inr (s, USBD_OK)))
      in if bRequest req = REQ_SET_PROTOCOL then Inr (s\<lparr>hid_protocol := ucast (wValue req)\<rparr>, USBD_OK)
         else if bRequest req = REQ_GET_PROTOCOL then send [hid_protocol s] 1
         else if bRequest req = REQ_SET_IDLE
         then Inr (s\<lparr>hid_idle_state := ucast (drop_bit 8 (wValue req))\<rparr>, USBD_OK)
         else if bRequest req = REQ_GET_IDLE then send [hid_idle_state s] 1
         else Inr (s, USBD_FAIL))"

definition USBD_LEDGER_HID_setup ::
    "usbd_setup_req \<Rightarrow> 'a usbd_hid_scheme \<Rightarrow> ('a usbd_hid_scheme \<times> usbd_status) res" where
  "USBD_LEDGER_HID_setup req s =
     (let request = bmRequest req AND (USB_REQ_TYPE_MASK OR USB_REQ_RECIPIENT_MASK)
      in if request = USB_REQ_TYPE_STANDARD OR USB_REQ_RECIPIENT_INTERFACE
         then hid_standard_request req s
         else if request = USB_REQ_TYPE_CLASS OR USB_REQ_RECIPIENT_INTERFACE
         then hid_class_request req s
         else Inr (s, USBD_FAIL))"

definition hid_transmit_chunk ::
    "u32 \<Rightarrow> 'a usbd_hid_scheme \<Rightarrow> ('a usbd_hid_scheme \<times> usbd_status) res" where
  "hid_transmit_chunk timeout_ms s =
     USBD_LL_Transmit LEDGER_HID_EPIN_ADDR (Some (tx_chunk_buffer (protocol_data s)))
       LEDGER_HID_EPIN_SIZE timeout_ms (s\<lparr>hid_state := LEDGER_HID_STATE_BUSY\<rparr>)"

definition USBD_LEDGER_HID_data_in ::
    "'a usbd_hid_scheme \<Rightarrow> ('a usbd_hid_scheme \<times> usbd_status) res" where
  "USBD_LEDGER_HID_data_in s =
     res_bind
       (if tx_apdu_buffer (protocol_data s) \<noteq> None then
          res_bind (LEDGER_PROTOCOL_tx (protocol_data s) None 0) (\<lambda>h.
          let s = s\<lparr>protocol_data := h\<rparr>
          in if 2 \<le> tx_chunk_length h
             then res_bind (hid_transmit_chunk 0 s) (\<lambda>(s, _). Inr s)
             else Inr s)
        else Inr s) (\<lambda>s.
     Inr (if tx_apdu_buffer (protocol_data s) = None
          then s\<lparr>protocol_data := (protocol_data s)\<lparr>tx_chunk_length := 0\<rparr>, hid_state := LEDGER_HID_STATE_IDLE\<rparr>
          else s, USBD_OK))"

definition USBD_LEDGER_HID_data_out ::
    "bytes option \<Rightarrow> u16 \<Rightarrow> 'a usbd_hid_scheme \<Rightarrow> ('a usbd_hid_scheme \<times> usbd_status) res" where
  "USBD_LEDGER_HID_data_out packet packet_length s =
     (case packet of None \<Rightarrow> Inr (s, USBD_FAIL)
      | Some p \<Rightarrow>
          res_bind (LEDGER_PROTOCOL_rx (protocol_data s) (Some p) packet_length) (\<lambda>h.
          Inr (fst (USBD_LL_PrepareReceive LEDGER_HID_EPOUT_ADDR LEDGER_HID_EPOUT_SIZE
                      (s\<lparr>protocol_data := h\<rparr>)), USBD_OK)))"

definition USBD_LEDGER_HID_send_packet ::
    "bytes option \<Rightarrow> u16 \<Rightarrow> u32 \<Rightarrow> 'a usbd_hid_scheme \<Rightarrow> ('a usbd_hid_scheme \<times> usbd_status) res" where
  "USBD_LEDGER_HID_send_packet packet packet_length timeout_ms s =
     (case packet of None \<Rightarrow> Inr (s, USBD_FAIL)
      | Some p \<Rightarrow>
          res_bind (LEDGER_PROTOCOL_tx (protocol_data s) (Some p) packet_length) (\<lambda>h.
          let s = s\<lparr>protocol_data := h\<rparr>
          in if dev_state s = USBD_STATE_CONFIGURED then
               (if hid_state s = LEDGER_HID_STATE_IDLE then
                  (if 2 \<le> tx_chunk_length h then hid_transmit_chunk timeout_ms s
                   else Inr (s, USBD_FAIL))
                else Inr (s, USBD_BUSY))
             else Inr (s, USBD_FAIL)))"

definition USBD_LEDGER_HID_is_busy :: "'a usbd_hid_scheme \<Rightarrow> bool" where
  "USBD_LEDGER_HID_is_busy s \<longleftrightarrow> hid_state s = LEDGER_HID_STATE_BUSY"

text \<open>\<open>data_ready\<close> copies a complete APDU to the caller's buffer; it returns its length, 0 or -1.\<close>

definition USBD_LEDGER_HID_data_ready ::
    "bytes option \<Rightarrow> u16 \<Rightarrow> 'a usbd_hid_scheme \<Rightarrow> ('a usbd_hid_scheme \<times> bytes option \<times> int) res" where
  "USBD_LEDGER_HID_data_ready buffer max_length s =
     (case buffer of None \<Rightarrow> Inr (s, None, -1)
      | Some b \<Rightarrow>
          (let h = protocol_data s; n = rx_apdu_length h;
               s' = s\<lparr>protocol_data := h\<lparr>rx_apdu_status := APDU_STATUS_WAITING\<rparr>\<rparr>
           in if rx_apdu_status h = APDU_STATUS_COMPLETE then
                (if max_length < n then Inr (s', Some b, -1)
                 else res_bind (mem_read (rx_apdu_buffer h) 0 (unat n)) (\<lambda>d.
                      res_bind (mem_write b 0 d) (\<lambda>b. Inr (s', Some b, uint n))))
              else Inr (s, Some b, 0)))"

section \<open>Events in sequence\<close>

text \<open>
  The packets of the host, one \<open>data_out\<close> each, and the completions of the device's own packets,
  one \<open>data_in\<close> each.
\<close>

fun hid_data_outs :: "bytes list \<Rightarrow> 'a usbd_hid_scheme \<Rightarrow> 'a usbd_hid_scheme res" where
  "hid_data_outs [] s = Inr s"
| "hid_data_outs (p # ps) s =
     res_bind (USBD_LEDGER_HID_data_out (Some p) (of_nat (length p)) s) (\<lambda>(s, _). hid_data_outs ps s)"

fun hid_data_ins :: "nat \<Rightarrow> 'a usbd_hid_scheme \<Rightarrow> 'a usbd_hid_scheme res" where
  "hid_data_ins 0 s = Inr s"
| "hid_data_ins (Suc n) s = res_bind (USBD_LEDGER_HID_data_in s) (\<lambda>(s, _). hid_data_ins n s)"

definition hid_ok :: "'a usbd_hid_scheme \<Rightarrow> bool" where
  "hid_ok s \<longleftrightarrow>
     tx_wf (protocol_data s) \<and> tx_chunk_buffer_size (protocol_data s) = 64 \<and> mtu (protocol_data s) = 64 \<and>
     length (rx_apdu_buffer (protocol_data s)) = 273 \<and> rx_apdu_buffer_size (protocol_data s) = 273 \<and>
     lp_type (protocol_data s) = OS_IO_PACKET_TYPE_USB_HID_APDU"

lemma USBD_LEDGER_HID_init_ok:
  assumes "length (tx_chunk_buffer (protocol_data s)) = 64"
    and "length (rx_apdu_buffer (protocol_data s)) = 273"
  shows "hid_ok (fst (USBD_LEDGER_HID_init s))"
    "rx_apdu_sequence_number (protocol_data (fst (USBD_LEDGER_HID_init s))) = 0"
    "hid_state (fst (USBD_LEDGER_HID_init s)) = LEDGER_HID_STATE_IDLE"
  using assms
  by (simp_all add: USBD_LEDGER_HID_init_def hid_ok_def tx_wf_def LEDGER_PROTOCOL_init_def
      USBD_LL_PrepareReceive_def seph_tx_def Let_def)

subsection \<open>Reception\<close>

definition rx_prepare :: bytes where
  "rx_prepare = [SEPROXYHAL_TAG_USB_EP_PREPARE, 0, 3, LEDGER_HID_EPOUT_ADDR,
     SEPROXYHAL_TAG_USB_EP_PREPARE_DIR_OUT, 0x40]"

lemma USBD_LEDGER_HID_data_out_eq:
  "USBD_LEDGER_HID_data_out (Some p) len s =
   res_bind (LEDGER_PROTOCOL_rx (protocol_data s) (Some p) len) (\<lambda>h.
     Inr (s\<lparr>protocol_data := h, seph_out := seph_out s @ [rx_prepare]\<rparr>, USBD_OK))"
  by (simp add: USBD_LEDGER_HID_data_out_def USBD_LL_PrepareReceive_def seph_tx_def rx_prepare_def
      ep_num_def)

lemma hid_data_outs_rx_all:
  "hid_data_outs ps s = res_bind (rx_all (protocol_data s) ps) (\<lambda>h.
     Inr (s\<lparr>protocol_data := h, seph_out := seph_out s @ replicate (length ps) rx_prepare\<rparr>))"
proof (induction ps arbitrary: s)
  case Nil
  then show ?case by simp
next
  case (Cons p ps)
  show ?case
  proof (cases "LEDGER_PROTOCOL_rx (protocol_data s) (Some p) (of_nat (length p))")
    case (Inr h)
    then show ?thesis
      using Cons.IH [of "s\<lparr>protocol_data := h, seph_out := seph_out s @ [rx_prepare]\<rparr>"]
      by (simp add: USBD_LEDGER_HID_data_out_eq)
  qed (simp add: USBD_LEDGER_HID_data_out_eq)
qed

text \<open>The packets of a host that sends an APDU: its frames, the last one filled up with zeros.\<close>

definition host_packets :: "bytes \<Rightarrow> bytes \<Rightarrow> bytes list" where
  "host_packets ch apdu =
     (let fs = apdu_frames 64 ch apdu
      in butlast fs @ [last fs @ replicate (64 - length (last fs)) 0])"

text \<open>
  An APDU of up to 272 bytes that the host sends in packets of 64 bytes is handed to
  the application: \<open>data_ready\<close> returns its length and copies it behind the type byte of the HID
  transport.
\<close>

theorem hid_receives_apdu:
  assumes s: "hid_ok s" "rx_apdu_sequence_number (protocol_data s) = 0"
    and apdu: "length apdu \<le> 272" "length ch = 2"
    and buf: "length apdu < unat max_length" "unat max_length \<le> length b"
  shows "\<exists>s' s'' b'. hid_data_outs (host_packets ch apdu) s = Inr s' \<and>
    USBD_LEDGER_HID_data_ready (Some b) max_length s' = Inr (s'', Some b', int (length apdu) + 1) \<and>
    take (1 + length apdu) b' = OS_IO_PACKET_TYPE_USB_HID_APDU # apdu \<and>
    rx_apdu_status (protocol_data s'') = APDU_STATUS_WAITING"
proof -
  have h: "chunk_ok (protocol_data s)" "unat (rx_apdu_buffer_size (protocol_data s)) = 273"
    "length (rx_apdu_buffer (protocol_data s)) = 273" "lp_type (protocol_data s) = 0x20"
    using s(1) by (simp_all add: hid_ok_def tx_wf_def chunk_ok_def)
  have pad: "64 - length (last (apdu_frames 64 ch apdu)) < 65472" by arith
  obtain h' where h': "rx_all (protocol_data s) (host_packets ch apdu) = Inr h'"
    "rx_apdu_status h' = APDU_STATUS_COMPLETE" "rx_apdu_length h' = of_nat (length apdu + 1)"
    "take (1 + length apdu) (rx_apdu_buffer h') = 0x20 # apdu"
    using rx_apdu_complete [OF h(1) s(2) _ _ apdu(2) _ _ refl, of apdu 64
        "replicate (64 - length (last (apdu_frames 64 ch apdu))) 0"] h(2-4) apdu(1) pad
    by (auto simp: host_packets_def Let_def)
  have n1: "unat (rx_apdu_length h') = length apdu + 1"
    unfolding h'(3) using apdu(1) by (simp only: unat_of_nat) simp
  have n2: "uint (rx_apdu_length h') = int (length apdu) + 1"
    using arg_cong [OF n1, of int] by simp
  have "length (0x20 # apdu) = length (take (1 + length apdu) (rx_apdu_buffer h'))" unfolding h'(4) ..
  then have l: "1 + length apdu \<le> length (rx_apdu_buffer h')" by simp
  then have rd: "mem_read (rx_apdu_buffer h') 0 (unat (rx_apdu_length h')) = Inr (0x20 # apdu)"
    using h'(4) by (simp add: mem_read_def n1)
  have wr: "mem_write b 0 (0x20 # apdu) = Inr (buf_write b 0 (0x20 # apdu))"
    using buf by (simp add: mem_write_def)
  have "\<not> max_length < rx_apdu_length h'" using buf n1 by (simp add: word_less_nat_alt)
  moreover have "take (1 + length apdu) (buf_write b 0 (0x20 # apdu)) = 0x20 # apdu"
    using buf by (simp add: buf_write_def)
  ultimately show ?thesis
    using h'(1,2) rd wr n2
    by (auto simp: hid_data_outs_rx_all USBD_LEDGER_HID_data_ready_def Let_def)
qed

text \<open>A HID device as the stack sets it up, for the concrete instances below.\<close>

definition hid_blank :: usbd_hid where
  "hid_blank = fst (USBD_LEDGER_HID_init
     \<lparr>ep_in_stall_status = 0, ep_out_stall_status = 0, tx_times_out = False, seph_out = [],
      dev_id = 0, dev_config = 1, dev_default_config = 0, dev_config_status = 0, dev_speed = USBD_SPEED_FULL,
      ep_in = [], ep_out = [], ep0_state = USBD_EP0_IDLE, ep0_data_len = 0,
      dev_state = USBD_STATE_CONFIGURED, dev_old_state = 0, dev_address = 1, dev_remote_wakeup = 0,
      request = \<lparr>bmRequest = 0, bRequest = 0, wValue = 0, wIndex = 0, wLength = 0\<rparr>,
      pDesc = True, pClass = True, pClassData = True, pData = None, pConfDesc = None,
      hid_protocol = 0, hid_idle_state = 0, hid_alt_setting = 0, hid_state = LEDGER_HID_STATE_IDLE,
      protocol_data = (small_handle 273)\<lparr>tx_chunk_buffer := replicate 64 0\<rparr>\<rparr>)"

lemma hid_blank_ok:
  "hid_ok hid_blank" "rx_apdu_sequence_number (protocol_data hid_blank) = 0"
  "hid_state hid_blank = LEDGER_HID_STATE_IDLE" "dev_state hid_blank = USBD_STATE_CONFIGURED"
  unfolding hid_blank_def by (rule USBD_LEDGER_HID_init_ok; simp add: small_handle_def)+
    (simp add: USBD_LEDGER_HID_init_def Let_def USBD_LL_PrepareReceive_def seph_tx_def)

theorem hid_receives_apdu_witness:
  "\<exists>s' s'' b'. hid_data_outs (host_packets [1, 1] [0xE0, 1]) hid_blank = Inr s' \<and>
    USBD_LEDGER_HID_data_ready (Some [0, 0, 0, 0]) 4 s' = Inr (s'', Some b', 3) \<and>
    take 3 b' = [0x20, 0xE0, 1]"
  using hid_receives_apdu [OF hid_blank_ok(1,2), of "[0xE0, 1]" "[1, 1]" 4 "[0, 0, 0, 0]"]
  by (auto simp: numeral_3_eq_3)

text \<open>
  The receive buffer of 273 bytes is registered with its full size although its
  first byte is the type, so an APDU of 273 bytes from the host ends in a write past its end.
\<close>

theorem hid_overrun:
  assumes s: "hid_ok s" "rx_apdu_sequence_number (protocol_data s) = 0"
    and apdu: "length apdu = 273" "length ch = 2"
  shows "hid_data_outs (host_packets ch apdu) s = Inl Oob"
proof -
  have h: "chunk_ok (protocol_data s)" "unat (rx_apdu_buffer_size (protocol_data s)) = 273"
    "length (rx_apdu_buffer (protocol_data s)) = 273"
    using s(1) by (simp_all add: hid_ok_def tx_wf_def chunk_ok_def)
  have pad: "64 - length (last (apdu_frames 64 ch apdu)) < 65472" by arith
  have "apdu \<noteq> []" using apdu(1) by auto
  then have "rx_all (protocol_data s) (host_packets ch apdu) = Inl Oob"
    using rx_apdu_overrun [OF h(1) s(2) _ _ _ apdu(2) _ _ refl, of apdu 64
        "replicate (64 - length (last (apdu_frames 64 ch apdu))) 0"] h(2,3) apdu(1) pad
    by (simp add: host_packets_def Let_def)
  then show ?thesis by (simp add: hid_data_outs_rx_all)
qed

theorem hid_overrun_witness:
  "hid_data_outs (host_packets [1, 1] (replicate 273 7)) hid_blank = Inl Oob"
  using hid_overrun [OF hid_blank_ok(1,2), of "replicate 273 7" "[1, 1]"] by simp

subsection \<open>Transmission\<close>

text \<open>What goes to the MCU for a frame: the announcement of 64 bytes and the frame with zeros.\<close>

definition pad64 :: "bytes \<Rightarrow> bytes" where
  "pad64 f = f @ replicate (64 - length f) 0"

definition tx_packets :: "bytes \<Rightarrow> bytes list" where
  "tx_packets f = [transmit_header LEDGER_HID_EPIN_ADDR 0x40, pad64 f]"

lemma tx_sent_chunk:
  assumes wf: "tx_wf h" "tx_apdu_buffer h = Some apdu" and size: "tx_chunk_buffer_size h = 64"
  shows "tx_chunk_buffer (tx_sent h apdu) =
      pad64 (take (unat (tx_chunk_length (tx_sent h apdu))) (tx_chunk_buffer (tx_sent h apdu)))"
    "2 \<le> tx_chunk_length (tx_sent h apdu)" "length (tx_chunk_buffer (tx_sent h apdu)) = 64"
    "tx_chunk_buffer_size (tx_sent h apdu) = 64"
proof -
  have m: "unat (mtu h) \<le> unat (tx_chunk_buffer_size h)" and m8: "8 \<le> unat (mtu h)"
    using wf(1) by (simp_all add: tx_wf_def)
  obtain f where f: "length f \<le> unat (mtu h)" "2 \<le> length f"
    "tx_chunk_buffer (tx_sent h apdu) = pad64 f" "tx_chunk_length (tx_sent h apdu) = of_nat (length f)"
  proof (cases rule: tx_sent_cases [OF wf refl, case_names more last])
    case (more k f)
    show thesis by (rule that [of f]) (use m8 in \<open>auto simp: more(6,7) size pad64_def\<close>)
  next
    case (last f)
    show thesis by (rule that [of f]) (use last(3) in \<open>auto simp: last(2,4) size pad64_def length_frame_head\<close>)
  qed
  have "unat (of_nat (length f) :: u8) = length f" by (rule u16_in_byte [OF f(1) m])
  then show "tx_chunk_buffer (tx_sent h apdu) =
      pad64 (take (unat (tx_chunk_length (tx_sent h apdu))) (tx_chunk_buffer (tx_sent h apdu)))"
    "2 \<le> tx_chunk_length (tx_sent h apdu)"
    using f(2) by (simp_all add: f(3,4) pad64_def word_le_nat_alt)
  show "length (tx_chunk_buffer (tx_sent h apdu)) = 64" using f(1) m by (simp add: f(3) pad64_def size)
  show "tx_chunk_buffer_size (tx_sent h apdu) = 64" by (simp add: size tx_sent_def Let_def)
qed

lemma USBD_LL_Transmit_64:
  "length d = 64 \<Longrightarrow> USBD_LL_Transmit LEDGER_HID_EPIN_ADDR (Some d) 0x40 0 s =
   Inr (s\<lparr>seph_out := seph_out s @ [transmit_header LEDGER_HID_EPIN_ADDR 0x40, d]\<rparr>, USBD_OK)"
  by (simp add: USBD_LL_Transmit_def ep_num_def mem_arg_def mem_read_def seph_tx_def Let_def)

text \<open>The part of \<open>hid_ok\<close> that transmission needs, with an APDU under way.\<close>

definition tx_ready :: "ledger_protocol \<Rightarrow> bytes \<Rightarrow> bool" where
  "tx_ready h apdu \<longleftrightarrow>
     tx_wf h \<and> tx_apdu_buffer h = Some apdu \<and> tx_chunk_buffer_size h = 64 \<and> mtu h = 64"

definition sent_chunk :: "ledger_protocol \<Rightarrow> bytes \<Rightarrow> bytes" where
  "sent_chunk h apdu = take (unat (tx_chunk_length (tx_sent h apdu))) (tx_chunk_buffer (tx_sent h apdu))"

lemma hid_transmit_sent:
  assumes "tx_ready h apdu" and "protocol_data s = tx_sent h apdu"
  shows "hid_transmit_chunk 0 s =
    Inr (s\<lparr>hid_state := LEDGER_HID_STATE_BUSY, seph_out := seph_out s @ tx_packets (sent_chunk h apdu)\<rparr>, USBD_OK)"
proof -
  note c = tx_sent_chunk [of h apdu, folded sent_chunk_def]
  show ?thesis
    using assms c by (simp add: hid_transmit_chunk_def tx_ready_def USBD_LL_Transmit_64 tx_packets_def
        flip: c(1))
qed

lemma USBD_LEDGER_HID_data_in_eq:
  assumes "tx_ready (protocol_data s) apdu"
  defines "h \<equiv> tx_sent (protocol_data s) apdu"
  shows "USBD_LEDGER_HID_data_in s =
    Inr (s\<lparr>protocol_data := (if tx_apdu_buffer h = None then h\<lparr>tx_chunk_length := 0\<rparr> else h),
           hid_state := (if tx_apdu_buffer h = None then LEDGER_HID_STATE_IDLE else LEDGER_HID_STATE_BUSY),
           seph_out := seph_out s @ tx_packets (sent_chunk (protocol_data s) apdu)\<rparr>, USBD_OK)"
proof -
  have tx: "LEDGER_PROTOCOL_tx (protocol_data s) None 0 = Inr h"
    using assms(1) LEDGER_PROTOCOL_tx_next by (simp add: tx_ready_def h_def)
  have "2 \<le> tx_chunk_length h"
    using tx_sent_chunk(2) assms(1) by (simp add: h_def tx_ready_def)
  then show ?thesis
    using tx assms(1) hid_transmit_sent [OF assms(1), of "s\<lparr>protocol_data := h\<rparr>"]
    by (auto simp: USBD_LEDGER_HID_data_in_def tx_ready_def h_def)
qed

lemma tx_ready_next:
  assumes "tx_ready h apdu" and "tx_apdu_buffer (tx_sent h apdu) \<noteq> None"
  shows "tx_ready (tx_sent h apdu) apdu"
  using assms tx_sent_wf(1) [of h apdu] tx_sent_chunk(4) [of h apdu] tx_sent_simps(3) [of h apdu]
  by (auto simp: tx_ready_def)

lemma hid_data_ins_frames:
  assumes "tx_ready (protocol_data s) apdu"
    and "fs = frames 64 (take 2 (tx_chunk_buffer (protocol_data s)))
      (tx_apdu_sequence_number (protocol_data s)) (tx_apdu_length (protocol_data s)) (tx_rest (protocol_data s) apdu)"
  shows "\<exists>s'. hid_data_ins (length fs) s = Inr s' \<and> seph_out s' = seph_out s @ concat (map tx_packets fs) \<and>
    hid_state s' = LEDGER_HID_STATE_IDLE"
  using assms
proof (induction fs arbitrary: s)
  case Nil
  then show ?case by (metis frames_not_Nil)
next
  case (Cons f fs)
  let ?h = "protocol_data s"
  let ?n = "tx_sent ?h apdu"
  have wf: "tx_wf ?h" "tx_apdu_buffer ?h = Some apdu" "unat (mtu ?h) = 64"
    using Cons.prems(1) by (simp_all add: tx_ready_def)
  have fr: "f # fs = sent_chunk ?h apdu # (case tx_apdu_buffer ?n of None \<Rightarrow> []
      | Some b \<Rightarrow> frames 64 (take 2 (tx_chunk_buffer ?n)) (tx_apdu_sequence_number ?n)
          (tx_apdu_length ?n) (tx_rest ?n apdu))"
    unfolding Cons.prems(2) tx_sent_wf(2) [OF wf(1,2)] tx_sent_simps(2) sent_chunk_def
    by (rule tx_sent_frame [OF wf(1,2), unfolded wf(3)])
  show ?case
  proof (cases "tx_apdu_buffer ?n")
    case None
    then show ?thesis using fr USBD_LEDGER_HID_data_in_eq [OF Cons.prems(1)] by simp
  next
    case (Some b)
    let ?s = "s\<lparr>protocol_data := ?n, hid_state := LEDGER_HID_STATE_BUSY,
      seph_out := seph_out s @ tx_packets (sent_chunk ?h apdu)\<rparr>"
    have "\<exists>s'. hid_data_ins (length fs) ?s = Inr s' \<and> seph_out s' = seph_out ?s @ concat (map tx_packets fs) \<and>
        hid_state s' = LEDGER_HID_STATE_IDLE"
      using tx_ready_next [OF Cons.prems(1)] Some fr by (intro Cons.IH) simp_all
    then show ?thesis using fr Some USBD_LEDGER_HID_data_in_eq [OF Cons.prems(1)] by auto
  qed
qed

text \<open>
  Property C33: a response handed to \<open>USBD_LEDGER_HID_send_packet\<close> while the device is configured
  and idle leaves as exactly the frames of the protocol, each padded to a packet of 64 bytes and
  in order, driven by the completions of the packets; the device is busy until then and idle
  afterwards.
\<close>

theorem hid_sends_frames:
  assumes s: "hid_ok s" "dev_state s = USBD_STATE_CONFIGURED" "hid_state s = LEDGER_HID_STATE_IDLE"
    and p: "length p < 65536"
    and fs: "fs = apdu_frames 64 (take 2 (tx_chunk_buffer (protocol_data s))) p"
  shows "\<exists>s1 s2. USBD_LEDGER_HID_send_packet (Some p) (of_nat (length p)) 0 s = Inr (s1, USBD_OK) \<and>
    USBD_LEDGER_HID_is_busy s1 \<and> hid_data_ins (max 1 (length fs - 1)) s1 = Inr s2 \<and>
    \<not> USBD_LEDGER_HID_is_busy s2 \<and> seph_out s2 = seph_out s @ concat (map tx_packets fs)"
proof -
  let ?h = "tx_start (protocol_data s) p (of_nat (length p))"
  let ?n = "tx_sent ?h p"
  have l: "unat (of_nat (length p) :: u16) = length p" using p by (simp add: unat_of_nat)
  have rdy: "tx_ready ?h p"
    using s(1) l by (simp add: hid_ok_def tx_ready_def tx_wf_def tx_start_def)
  then have wf: "tx_wf ?h" "tx_apdu_buffer ?h = Some p" "unat (mtu ?h) = 64" by (simp_all add: tx_ready_def)
  have st: "tx_rest ?h p = p" "tx_apdu_sequence_number ?h = 0" "tx_apdu_length ?h = of_nat (length p)"
    "tx_chunk_buffer ?h = tx_chunk_buffer (protocol_data s)"
    using l by (simp_all add: tx_rest_def tx_start_def)
  have fr: "fs = sent_chunk ?h p # (case tx_apdu_buffer ?n of None \<Rightarrow> []
      | Some b \<Rightarrow> frames 64 (take 2 (tx_chunk_buffer ?n)) (tx_apdu_sequence_number ?n)
          (tx_apdu_length ?n) (tx_rest ?n p))"
    unfolding fs apdu_frames_def tx_sent_wf(2) [OF wf(1,2)] tx_sent_simps(2) sent_chunk_def
    using tx_sent_frame [OF wf(1,2), unfolded wf(3)] unfolding st .
  define s1 where "s1 = s\<lparr>protocol_data := ?n, hid_state := LEDGER_HID_STATE_BUSY,
      seph_out := seph_out s @ tx_packets (sent_chunk ?h p)\<rparr>"
  have "2 \<le> tx_chunk_length ?n" using tx_sent_chunk(2) rdy by (simp add: tx_ready_def)
  then have send: "USBD_LEDGER_HID_send_packet (Some p) (of_nat (length p)) 0 s = Inr (s1, USBD_OK)"
    using hid_transmit_sent [OF rdy, of "s\<lparr>protocol_data := ?n\<rparr>"] s(2,3)
    by (simp add: USBD_LEDGER_HID_send_packet_def LEDGER_PROTOCOL_tx_first
        LEDGER_PROTOCOL_tx_next [OF wf(1,2)] s1_def)
  have "\<exists>s2. hid_data_ins (max 1 (length fs - 1)) s1 = Inr s2 \<and> hid_state s2 = LEDGER_HID_STATE_IDLE \<and>
      seph_out s2 = seph_out s @ concat (map tx_packets fs)"
  proof (cases "tx_apdu_buffer ?n")
    case None
    then show ?thesis using fr by (simp add: s1_def USBD_LEDGER_HID_data_in_def)
  next
    case (Some b)
    let ?fs = "frames 64 (take 2 (tx_chunk_buffer ?n)) (tx_apdu_sequence_number ?n)
          (tx_apdu_length ?n) (tx_rest ?n p)"
    have "0 < length ?fs" by simp
    then have "max 1 (length fs - 1) = length ?fs" using fr Some by (simp del: length_greater_0_conv)
    then show ?thesis
      using hid_data_ins_frames [OF _ refl, of s1 p] tx_ready_next [OF rdy] Some fr by (auto simp: s1_def)
  qed
  then show ?thesis using send by (auto simp: USBD_LEDGER_HID_is_busy_def s1_def)
qed

theorem hid_sends_frames_witness:
  "\<exists>s1 s2. USBD_LEDGER_HID_send_packet (Some [0x90, 0x00]) 2 0 hid_blank = Inr (s1, USBD_OK) \<and>
    hid_data_ins 1 s1 = Inr s2 \<and>
    seph_out s2 = seph_out hid_blank @ [transmit_header LEDGER_HID_EPIN_ADDR 0x40,
      pad64 (take 2 (tx_chunk_buffer (protocol_data hid_blank)) @ [TAG_APDU, 0, 0, 0, 2, 0x90, 0x00])]"
proof -
  have "apdu_frames 64 ch [0x90, 0x00] = [ch @ [TAG_APDU, 0, 0, 0, 2, 0x90, 0x00]]"
    if "length ch = 2" for ch
    unfolding apdu_frames_def using that
    by (subst frames.simps) (simp add: Let_def frame_head_def be_of_u16_def)
  moreover have "length (take 2 (tx_chunk_buffer (protocol_data hid_blank))) = 2"
    using hid_blank_ok(1) by (simp add: hid_ok_def tx_wf_def)
  ultimately show ?thesis
    using hid_sends_frames [OF hid_blank_ok(1,4,3) _ refl, of "[0x90, 0x00]"]
    by (auto simp: tx_packets_def)
qed

end
