(* ===== verification/Usbd_Class.thy ===== *)
theory Usbd_Class
  imports Usbd_Hid
begin

text \<open>
  The USB device of the emulator: the state of \<open>usbd_ledger.c\<close>, the descriptors of
  \<open>usbd_desc.c\<close> and the class object \<open>USBD_LEDGER_CLASS\<close>, whose callbacks dispatch to the
  registered interfaces. The build defines \<open>HAVE_IO_USB\<close> and \<open>HAVE_BOLOS\<close> but none of the
  optional classes (keyboard, U2F, CCID, WebUSB, CDC) and no \<open>TARGET_\<close> macro, so the HID class is
  the only class object there is; the loops over the interfaces are kept.
\<close>

section \<open>State\<close>

datatype usb_ledger_state =
  USBD_LEDGER_STATE_ZERO
| USBD_LEDGER_STATE_INITIALIZED
| USBD_LEDGER_STATE_RUNNING
| USBD_LEDGER_STATE_STOPPED

datatype usbd_class_info = USBD_LEDGER_HID_class_info

record usbd_end_point_info =
  ep_in_addr :: u8
  ep_in_size :: u16
  ep_out_addr :: u8
  ep_out_size :: u16
  ep_type :: u8

fun class_end_point :: "usbd_class_info \<Rightarrow> usbd_end_point_info" where
  "class_end_point USBD_LEDGER_HID_class_info =
     \<lparr>ep_in_addr = LEDGER_HID_EPIN_ADDR, ep_in_size = LEDGER_HID_EPIN_SIZE,
      ep_out_addr = LEDGER_HID_EPOUT_ADDR, ep_out_size = LEDGER_HID_EPOUT_SIZE, ep_type = USBD_EP_TYPE_INTR\<rparr>"

abbreviation (input) USBD_LEDGER_CLASS_HID :: "'a::len word" where "USBD_LEDGER_CLASS_HID \<equiv> 0x0001"
abbreviation (input) USBD_LEDGER_CLASS_CDC_CONTROL :: "'a::len word" where
  "USBD_LEDGER_CLASS_CDC_CONTROL \<equiv> 0x0020"

fun class_type :: "usbd_class_info \<Rightarrow> u8" where
  "class_type USBD_LEDGER_HID_class_info = USBD_LEDGER_CLASS_HID"

fun class_interface_descriptor :: "usbd_class_info \<Rightarrow> bytes" where
  "class_interface_descriptor USBD_LEDGER_HID_class_info = LEDGER_HID_descriptors"

fun class_interface_association_descriptor :: "usbd_class_info \<Rightarrow> bytes option" where
  "class_interface_association_descriptor USBD_LEDGER_HID_class_info = None"

fun class_bos_descriptor :: "usbd_class_info \<Rightarrow> bytes option" where
  "class_bos_descriptor USBD_LEDGER_HID_class_info = None"

text \<open>
  \<open>usbd_ledger_data_t\<close> (its \<open>usbd_handle\<close> is the layer below; \<open>nb_of_class\<close> is the length of
  \<open>class_list\<close>), the start-up data, the descriptor buffer, and the variables of \<open>usbd_desc.c\<close>.
  Names are kept without their terminating zero; \<open>usbd_desc_product_str\<close> is \<open>NULL\<close> or points to
  \<open>ledger_name\<close>, so it is a flag.
\<close>

record os_io_init_usb =
  init_pid :: u16
  init_vid :: u16
  init_name :: bytes
  init_class_mask :: u16

record usbd = usbd_hid +
  ledger_state :: usb_ledger_state
  ledger_product :: u16
  ledger_vid :: u16
  ledger_pid :: u16
  ledger_name :: bytes
  ledger_bcdusb :: u8
  ledger_iad :: u8
  class_list :: "usbd_class_info list"
  classes :: u16
  usb_ep_xfer_len :: "u16 list"
  usb_ep_xfer_buffer :: "bytes option list"
  init_data :: os_io_init_usb
  usbd_ledger_descriptor :: bytes
  usbd_ledger_descriptor_size :: u16
  desc_bcdusb :: u8
  desc_vid :: u16
  desc_pid :: u16
  desc_product_str :: bool
  desc_iad :: u8
  desc_bos :: bool
  USBD_StrDesc :: bytes

definition USBD_MAX_NUM_INTERFACES :: nat where "USBD_MAX_NUM_INTERFACES = 4"

section \<open>Class callbacks\<close>

text \<open>Opening and closing the end points of one interface.\<close>

definition open_end_points :: "usbd_class_info \<Rightarrow> usbd \<Rightarrow> usbd res" where
  "open_end_points c s =
     (let e = class_end_point c
      in res_bind
           (if ep_in_addr e \<noteq> 0xFF
            then upd_ep_in (unat (ep_in_addr e AND 0x0F)) (\<lambda>ep. ep\<lparr>ep_is_used := 1\<rparr>)
                   (fst (USBD_LL_OpenEP (ep_in_addr e) (ep_type e) (ep_in_size e) s))
            else Inr s) (\<lambda>s.
         if ep_out_addr e \<noteq> 0xFF
         then upd_ep_out (unat (ep_out_addr e AND 0x0F)) (\<lambda>ep. ep\<lparr>ep_is_used := 1\<rparr>)
                (fst (USBD_LL_OpenEP (ep_out_addr e) (ep_type e) (ep_out_size e) s))
         else Inr s))"

definition close_end_points :: "usbd_class_info \<Rightarrow> usbd \<Rightarrow> usbd res" where
  "close_end_points c s =
     (let e = class_end_point c
      in res_bind
           (if ep_in_addr e \<noteq> 0xFF
            then upd_ep_in (unat (ep_in_addr e AND 0x0F)) (\<lambda>ep. ep\<lparr>ep_is_used := 0\<rparr>)
                   (fst (USBD_LL_CloseEP (ep_in_addr e) s))
            else Inr s) (\<lambda>s.
         if ep_out_addr e \<noteq> 0xFF
         then upd_ep_out (unat (ep_out_addr e AND 0x0F)) (\<lambda>ep. ep\<lparr>ep_is_used := 0\<rparr>)
                (fst (USBD_LL_CloseEP (ep_out_addr e) s))
         else Inr s))"

fun class_init :: "usbd_class_info \<Rightarrow> usbd \<Rightarrow> usbd \<times> usbd_status" where
  "class_init USBD_LEDGER_HID_class_info s = USBD_LEDGER_HID_init s"

fun class_de_init :: "usbd_class_info \<Rightarrow> usbd \<Rightarrow> usbd \<times> usbd_status" where
  "class_de_init USBD_LEDGER_HID_class_info s = USBD_LEDGER_HID_de_init s"

fun class_setup :: "usbd_class_info \<Rightarrow> usbd_setup_req \<Rightarrow> usbd \<Rightarrow> (usbd \<times> usbd_status) res" where
  "class_setup USBD_LEDGER_HID_class_info req s = USBD_LEDGER_HID_setup req s"

fun class_data_in :: "usbd_class_info \<Rightarrow> usbd \<Rightarrow> (usbd \<times> usbd_status) res" where
  "class_data_in USBD_LEDGER_HID_class_info s = USBD_LEDGER_HID_data_in s"

fun class_data_out :: "usbd_class_info \<Rightarrow> bytes option \<Rightarrow> u16 \<Rightarrow> usbd \<Rightarrow> (usbd \<times> usbd_status) res" where
  "class_data_out USBD_LEDGER_HID_class_info p n s = USBD_LEDGER_HID_data_out p n s"

fun init_loop :: "usbd_class_info list \<Rightarrow> usbd_status \<Rightarrow> usbd \<Rightarrow> (usbd \<times> usbd_status) res" where
  "init_loop [] ret s = Inr (s, ret)"
| "init_loop (c # cs) ret s =
     res_bind (open_end_points c s) (\<lambda>s. case class_init c s of (s, ret) \<Rightarrow> init_loop cs ret s)"

definition ledger_init :: "usbd \<Rightarrow> (usbd \<times> usbd_status) res" where
  "ledger_init s = init_loop (class_list s) USBD_OK (s\<lparr>pClassData := True\<rparr>)"

fun de_init_loop :: "usbd_class_info list \<Rightarrow> usbd_status \<Rightarrow> usbd \<Rightarrow> (usbd \<times> usbd_status) res" where
  "de_init_loop [] ret s = Inr (s, ret)"
| "de_init_loop (c # cs) ret s =
     res_bind (close_end_points c s) (\<lambda>s. case class_de_init c s of (s, ret) \<Rightarrow> de_init_loop cs ret s)"

definition ledger_de_init :: "usbd \<Rightarrow> (usbd \<times> usbd_status) res" where
  "ledger_de_init s =
     res_bind (de_init_loop (class_list s) USBD_OK s) (\<lambda>(s, ret). Inr (s\<lparr>pClassData := False\<rparr>, ret))"

definition USBD_CtlError :: "'a usb_ll_scheme \<Rightarrow> 'a usb_ll_scheme" where
  "USBD_CtlError s = fst (USBD_LL_StallEP 0 (fst (USBD_LL_StallEP 0x80 s)))"

definition ledger_setup :: "usbd_setup_req \<Rightarrow> usbd \<Rightarrow> (usbd \<times> usbd_status) res" where
  "ledger_setup req s =
     (let index = unat (wIndex req)
      in if index < length (class_list s) then class_setup (class_list s ! index) req s
         else Inr (USBD_CtlError s, USBD_FAIL))"

fun data_in_loop :: "usbd_class_info list \<Rightarrow> u8 \<Rightarrow> usbd_status \<Rightarrow> usbd \<Rightarrow> (usbd \<times> usbd_status) res" where
  "data_in_loop [] epnum ret s = Inr (s, ret)"
| "data_in_loop (c # cs) epnum ret s =
     (if ep_in_addr (class_end_point c) AND 0x7F = epnum AND 0x7F
      then res_bind (class_data_in c s) (\<lambda>(s, ret). data_in_loop cs epnum ret s)
      else data_in_loop cs epnum ret s)"

definition ledger_data_in :: "u8 \<Rightarrow> usbd \<Rightarrow> (usbd \<times> usbd_status) res" where
  "ledger_data_in epnum s = data_in_loop (class_list s) epnum USBD_OK s"

fun data_out_loop :: "usbd_class_info list \<Rightarrow> u8 \<Rightarrow> usbd_status \<Rightarrow> usbd \<Rightarrow> (usbd \<times> usbd_status) res" where
  "data_out_loop [] epnum ret s = Inr (s, ret)"
| "data_out_loop (c # cs) epnum ret s =
     (if ep_out_addr (class_end_point c) AND 0x7F = epnum AND 0x7F
      then res_bind (mem_get (usb_ep_xfer_buffer s) (ep_num epnum)) (\<lambda>p.
           res_bind (mem_get (usb_ep_xfer_len s) (ep_num epnum)) (\<lambda>n.
           res_bind (class_data_out c p n s) (\<lambda>(s, ret). data_out_loop cs epnum ret s)))
      else data_out_loop cs epnum ret s)"

definition ledger_data_out :: "u8 \<Rightarrow> usbd \<Rightarrow> (usbd \<times> usbd_status) res" where
  "ledger_data_out epnum s = data_out_loop (class_list s) epnum USBD_OK s"

section \<open>Descriptors\<close>

definition interface_descriptor :: bytes where
  "interface_descriptor = [0x09, 0x02, 0x00, 0x00, 0x00, 0x01, 0x02, 0xC0, 0x32]"

definition device_qualifier_decriptor :: bytes where
  "device_qualifier_decriptor = [0x0A, 0x06, 0x00, 0x02, 0x00, 0x00, 0x00, 0x40, 0x01, 0x00]"

definition bos_descriptor :: bytes where
  "bos_descriptor = [0x05, 0x0F, 0x00, 0x00, 0x00]"

definition incr_byte :: "bytes \<Rightarrow> nat \<Rightarrow> bytes res" where
  "incr_byte buf i = res_bind (mem_get buf i) (\<lambda>b. mem_write buf i [b + 1])"

text \<open>One round of the loop of \<open>forge_configuration_descriptor\<close>; \<open>offset\<close> is a byte.\<close>

definition forge_cfg_interface :: "usbd_class_info \<Rightarrow> u8 \<Rightarrow> u8 \<Rightarrow> bytes \<Rightarrow> (bytes \<times> u8) res" where
  "forge_cfg_interface c index offset buf =
     res_bind
       (case class_interface_association_descriptor c of None \<Rightarrow> Inr (buf, offset)
        | Some d \<Rightarrow>
            res_bind (mem_write buf (unat offset) d) (\<lambda>buf.
            res_bind (mem_write buf (unat offset + 2) [index]) (\<lambda>buf.
            Inr (buf, offset + of_nat (length d))))) (\<lambda>(buf, offset).
     res_bind (mem_write buf (unat offset) (class_interface_descriptor c)) (\<lambda>buf.
     res_bind (mem_write buf (unat offset + 2) [index]) (\<lambda>buf.
     res_bind
       (if class_type c = USBD_LEDGER_CLASS_CDC_CONTROL then
          res_bind (mem_write buf (unat offset + 18) [index + 1]) (\<lambda>buf.
          mem_write buf (unat offset + 26) [index, index + 1])
        else Inr buf) (\<lambda>buf.
     res_bind (incr_byte buf 4) (\<lambda>buf.
     Inr (buf, offset + of_nat (length (class_interface_descriptor c))))))))"

fun forge_cfg_loop :: "usbd_class_info list \<Rightarrow> u8 \<Rightarrow> u8 \<Rightarrow> bytes \<Rightarrow> (bytes \<times> u8) res" where
  "forge_cfg_loop [] index offset buf = Inr (buf, offset)"
| "forge_cfg_loop (c # cs) index offset buf =
     res_bind (forge_cfg_interface c index offset buf) (\<lambda>(buf, offset).
     forge_cfg_loop cs (index + 1) offset buf)"

definition forge_configuration_descriptor :: "usbd \<Rightarrow> usbd res" where
  "forge_configuration_descriptor s =
     res_bind (mem_set (usbd_ledger_descriptor s) 0 0 256) (\<lambda>buf.
     res_bind (mem_write buf 0 interface_descriptor) (\<lambda>buf.
     res_bind (forge_cfg_loop (class_list s) 0 (of_nat (length interface_descriptor)) buf) (\<lambda>(buf, offset).
     res_bind (mem_write buf 2 [offset, ucast (drop_bit 8 (ucast offset :: u32))]) (\<lambda>buf.
     Inr (s\<lparr>usbd_ledger_descriptor := buf, usbd_ledger_descriptor_size := ucast offset\<rparr>)))))"

fun forge_bos_loop :: "usbd_class_info list \<Rightarrow> u8 \<Rightarrow> bytes \<Rightarrow> (bytes \<times> u8) res" where
  "forge_bos_loop [] offset buf = Inr (buf, offset)"
| "forge_bos_loop (c # cs) offset buf =
     (case class_bos_descriptor c of None \<Rightarrow> forge_bos_loop cs offset buf
      | Some d \<Rightarrow>
          res_bind (mem_write buf (unat offset) d) (\<lambda>buf.
          res_bind (incr_byte buf 4) (\<lambda>buf. forge_bos_loop cs (offset + of_nat (length d)) buf)))"

definition forge_bos_descriptor :: "usbd \<Rightarrow> usbd res" where
  "forge_bos_descriptor s =
     res_bind (mem_set (usbd_ledger_descriptor s) 0 0 256) (\<lambda>buf.
     res_bind (mem_write buf 0 bos_descriptor) (\<lambda>buf.
     res_bind (forge_bos_loop (class_list s) (of_nat (length bos_descriptor)) buf) (\<lambda>(buf, offset).
     res_bind (mem_write buf 2 [offset, ucast (drop_bit 8 (ucast offset :: u32)), 2]) (\<lambda>buf.
     Inr (s\<lparr>usbd_ledger_descriptor := buf, usbd_ledger_descriptor_size := ucast offset\<rparr>)))))"

text \<open>A descriptor callback returns a buffer and its length, besides the state it changes.\<close>

type_synonym descriptor = "(usbd \<times> bytes option \<times> u16) res"

definition get_cfg_desc :: "usbd \<Rightarrow> descriptor" where
  "get_cfg_desc s =
     res_bind (forge_configuration_descriptor s) (\<lambda>s.
     Inr (s, Some (usbd_ledger_descriptor s), usbd_ledger_descriptor_size s))"

definition get_dev_qualifier_desc :: "usbd \<Rightarrow> descriptor" where
  "get_dev_qualifier_desc s = Inr (s, Some device_qualifier_decriptor, of_nat (length device_qualifier_decriptor))"

definition get_bos_desc :: "usbd \<Rightarrow> descriptor" where
  "get_bos_desc s =
     res_bind (forge_bos_descriptor s) (\<lambda>s.
     Inr (s, Some (usbd_ledger_descriptor s), usbd_ledger_descriptor_size s))"

definition USBD_desc_device_desc :: bytes where
  "USBD_desc_device_desc = concat
     [[0x12, 0x01], [0x00, 0x02], [0x00, 0x00, 0x00], [0x40], [0x97, 0x2C], [0x00, 0x00], [0x01, 0x02],
      [0x01, 0x02, 0x03], [1]]"

definition USBD_get_descriptor_device :: "usbd \<Rightarrow> descriptor" where
  "USBD_get_descriptor_device s =
     (let d = USBD_desc_device_desc[2 := desc_bcdusb s];
          d = (if desc_iad s \<noteq> 0 then d[4 := 0xEF, 5 := 0x02, 6 := 0x01]
               else d[4 := 0x00, 5 := 0x00, 6 := 0x00])
      in Inr (s, Some (d[8 := ucast (desc_vid s), 9 := ucast (drop_bit 8 (desc_vid s)),
                         10 := ucast (desc_pid s), 11 := ucast (drop_bit 8 (desc_pid s))]), 0x12))"

definition USBD_get_descriptor_lang_id :: "usbd \<Rightarrow> descriptor" where
  "USBD_get_descriptor_lang_id s = Inr (s, Some [0x04, 0x03, 0x09, 0x04], 4)"

text \<open>
  \<open>USBD_GetString\<close> writes a string as a UTF-16 descriptor into \<open>USBD_StrDesc\<close> and returns its
  length, computed from an 8-bit count of the characters.
\<close>

definition USBD_GetLen :: "bytes \<Rightarrow> u8" where
  "USBD_GetLen buf = of_nat (length buf)"

definition USBD_GetString :: "bytes option \<Rightarrow> usbd \<Rightarrow> (usbd \<times> u16) res" where
  "USBD_GetString desc s =
     (case desc of None \<Rightarrow> Inr (s, 0)
      | Some d \<Rightarrow>
          (let len = ucast (USBD_GetLen d) * 2 + 2 :: u16
           in res_bind (mem_write (USBD_StrDesc s) 0
                ([ucast len, 0x03] @ concat (map (\<lambda>c. [c, 0]) d))) (\<lambda>u.
              Inr (s\<lparr>USBD_StrDesc := u\<rparr>, len))))"

definition string_descriptor :: "bytes option \<Rightarrow> usbd \<Rightarrow> descriptor" where
  "string_descriptor str s =
     res_bind (USBD_GetString str s) (\<lambda>(s, n). Inr (s, Some (USBD_StrDesc s), n))"

definition USBD_get_descriptor_manufacturer :: "usbd \<Rightarrow> descriptor" where
  "USBD_get_descriptor_manufacturer s = string_descriptor (Some [0x4C, 0x65, 0x64, 0x67, 0x65, 0x72]) s"

definition USBD_get_descriptor_product :: "usbd \<Rightarrow> descriptor" where
  "USBD_get_descriptor_product s = string_descriptor (if desc_product_str s then Some (ledger_name s) else None) s"

definition USBD_get_descriptor_serial :: "usbd \<Rightarrow> descriptor" where
  "USBD_get_descriptor_serial s =
     Inr (s, Some ([10, 0x03, 0x30, 0x00, 0x30, 0x00, 0x30, 0x00, 0x31, 0x00] @ replicate 20 0), 10)"

definition USBD_get_descriptor_BOS :: "usbd \<Rightarrow> descriptor" where
  "USBD_get_descriptor_BOS s = (if desc_bos s then get_bos_desc s else Inr (s, None, 0))"

definition USBD_DESC_init :: "u16 \<Rightarrow> u16 \<Rightarrow> u8 \<Rightarrow> u8 \<Rightarrow> usbd \<Rightarrow> usbd" where
  "USBD_DESC_init v p bcdusb iad s =
     s\<lparr>desc_bcdusb := bcdusb, desc_vid := v, desc_pid := p, desc_product_str := True,
       desc_iad := iad, desc_bos := True\<rparr>"

end
