(* ===== verification/Usbd_Ctlreq.thy ===== *)
theory Usbd_Ctlreq
  imports Usbd_Class
begin

text \<open>
  The standard requests of \<open>io/sdk/lib_stusb/src/usbd_ctlreq.c\<close>: to the device, to an interface
  and to an end point. A call through \<open>pClass\<close> while it is \<open>NULL\<close> is an invalid access.
\<close>

abbreviation (input) USB_DESC_TYPE_DEVICE :: u16 where "USB_DESC_TYPE_DEVICE \<equiv> 0x01"
abbreviation (input) USB_DESC_TYPE_CONFIGURATION :: u16 where "USB_DESC_TYPE_CONFIGURATION \<equiv> 0x02"
abbreviation (input) USB_DESC_TYPE_STRING :: u16 where "USB_DESC_TYPE_STRING \<equiv> 0x03"
abbreviation (input) USB_DESC_TYPE_DEVICE_QUALIFIER :: u16 where "USB_DESC_TYPE_DEVICE_QUALIFIER \<equiv> 0x06"
abbreviation (input) USB_DESC_TYPE_OTHER_SPEED_CONFIGURATION :: u16 where
  "USB_DESC_TYPE_OTHER_SPEED_CONFIGURATION \<equiv> 0x07"
abbreviation (input) USB_DESC_TYPE_BOS :: u16 where "USB_DESC_TYPE_BOS \<equiv> 0x0F"
abbreviation (input) USB_FEATURE_EP_HALT :: u16 where "USB_FEATURE_EP_HALT \<equiv> 0x00"
abbreviation (input) USB_FEATURE_REMOTE_WAKEUP :: u16 where "USB_FEATURE_REMOTE_WAKEUP \<equiv> 0x01"
abbreviation (input) USB_CONFIG_SELF_POWERED :: u32 where "USB_CONFIG_SELF_POWERED \<equiv> 0x01"
abbreviation (input) USB_CONFIG_REMOTE_WAKEUP :: u32 where "USB_CONFIG_REMOTE_WAKEUP \<equiv> 0x02"

definition call_setup :: "usbd_setup_req \<Rightarrow> usbd \<Rightarrow> (usbd \<times> usbd_status) res" where
  "call_setup req s = (if pClass s then ledger_setup req s else Inl Oob)"

definition USBD_SetClassConfig :: "usbd \<Rightarrow> (usbd \<times> usbd_status) res" where
  "USBD_SetClassConfig s = (if pClass s then ledger_init s else Inr (s, USBD_FAIL))"

definition USBD_ClrClassConfig :: "usbd \<Rightarrow> usbd res" where
  "USBD_ClrClassConfig s =
     (if pClass s then res_bind (ledger_de_init s) (\<lambda>(s, _). Inr s) else Inr s)"

section \<open>Device requests\<close>

text \<open>The string descriptors and the other descriptors; \<open>Desc_Error\<close> is a branch that ends in \<open>USBD_CtlError\<close>.\<close>

datatype desc_lookup = Desc_Error | Desc descriptor

definition string_desc_lookup :: "u8 \<Rightarrow> usbd \<Rightarrow> desc_lookup" where
  "string_desc_lookup idx s =
     (if idx = 0x00 then Desc (USBD_get_descriptor_lang_id s)
      else if idx = 0x01 then Desc (USBD_get_descriptor_manufacturer s)
      else if idx = 0x02 then Desc (USBD_get_descriptor_product s)
      else if idx = 0x03 then Desc (USBD_get_descriptor_serial s)
      else if idx = 0x04 then Desc (USBD_get_descriptor_product s)
      else if idx = 0x05 then Desc (USBD_get_descriptor_product s)
      else if idx = 0xEE then Desc (Inr (s, None, 0))
      else Desc_Error)"

definition descriptor_lookup :: "u16 \<Rightarrow> usbd \<Rightarrow> desc_lookup" where
  "descriptor_lookup val s =
     (let ty = drop_bit 8 val;
          need_desc = (\<lambda>r. if pDesc s then r else Desc (Inl Oob));
          need_class = (\<lambda>r. if pClass s then r else Desc (Inl Oob))
      in if ty = USB_DESC_TYPE_BOS then need_desc (Desc (USBD_get_descriptor_BOS s))
         else if ty = USB_DESC_TYPE_DEVICE then need_desc (Desc (USBD_get_descriptor_device s))
         else if ty = USB_DESC_TYPE_CONFIGURATION then need_class (Desc (get_cfg_desc s))
         else if ty = USB_DESC_TYPE_STRING then
           (if ucast val = (0xEE :: u8) \<or> 0x05 < (ucast val :: u8)
            then string_desc_lookup (ucast val) s
            else need_desc (string_desc_lookup (ucast val) s))
         else if ty = USB_DESC_TYPE_DEVICE_QUALIFIER then
           (if dev_speed s = USBD_SPEED_HIGH then need_class (Desc (get_dev_qualifier_desc s)) else Desc_Error)
         else if ty = USB_DESC_TYPE_OTHER_SPEED_CONFIGURATION then
           (if dev_speed s = USBD_SPEED_HIGH
            then need_class (Desc (res_bind (get_cfg_desc s) (\<lambda>(s, _, n).
                   res_bind (mem_write (usbd_ledger_descriptor s) 1 [ucast USB_DESC_TYPE_OTHER_SPEED_CONFIGURATION])
                     (\<lambda>d. Inr (s\<lparr>usbd_ledger_descriptor := d\<rparr>, Some d, n)))))
            else Desc_Error)
         else Desc_Error)"

definition USBD_GetDescriptor :: "usbd_setup_req \<Rightarrow> usbd \<Rightarrow> usbd res" where
  "USBD_GetDescriptor req s =
     (case descriptor_lookup (wValue req) s of Desc_Error \<Rightarrow> Inr (USBD_CtlError s)
      | Desc r \<Rightarrow>
          res_bind r (\<lambda>(s, pbuf, len).
          if wLength req \<noteq> 0 then
            (if len \<noteq> 0 then USBD_CtlSendData pbuf (ucast (min len (wLength req))) s
             else Inr (USBD_CtlError s))
          else USBD_CtlSendStatus s))"

definition USBD_SetAddress :: "usbd_setup_req \<Rightarrow> usbd \<Rightarrow> usbd res" where
  "USBD_SetAddress req s =
     (if wIndex req = 0 \<and> wLength req = 0 \<and> wValue req < 128 then
        (let dev_addr = ucast (wValue req) AND 0x7F
         in if dev_state s = USBD_STATE_CONFIGURED then Inr (USBD_CtlError s)
            else
              res_bind (USBD_CtlSendStatus (fst (USBD_LL_SetUSBAddress dev_addr (s\<lparr>dev_address := dev_addr\<rparr>)))) (\<lambda>s.
              Inr (s\<lparr>dev_state := if dev_addr \<noteq> 0 then USBD_STATE_ADDRESSED else USBD_STATE_DEFAULT\<rparr>)))
      else Inr (USBD_CtlError s))"

definition set_config_addressed :: "u8 \<Rightarrow> usbd \<Rightarrow> (usbd \<times> usbd_status) res" where
  "set_config_addressed cfgidx s =
     (if cfgidx \<noteq> 0 then
        res_bind (USBD_SetClassConfig (s\<lparr>dev_config := ucast cfgidx\<rparr>)) (\<lambda>(s, ret).
        if ret \<noteq> USBD_OK then Inr (USBD_CtlError s, ret)
        else res_bind (USBD_CtlSendStatus s) (\<lambda>s. Inr (s\<lparr>dev_state := USBD_STATE_CONFIGURED\<rparr>, ret)))
      else res_bind (USBD_CtlSendStatus s) (\<lambda>s. Inr (s, USBD_OK)))"

definition set_config_configured :: "u8 \<Rightarrow> usbd \<Rightarrow> (usbd \<times> usbd_status) res" where
  "set_config_configured cfgidx s =
     (if cfgidx = 0 then
        res_bind (USBD_ClrClassConfig (s\<lparr>dev_state := USBD_STATE_ADDRESSED, dev_config := ucast cfgidx\<rparr>)) (\<lambda>s.
        res_bind (USBD_CtlSendStatus s) (\<lambda>s. Inr (s, USBD_OK)))
      else if ucast cfgidx \<noteq> dev_config s then
        res_bind (USBD_ClrClassConfig s) (\<lambda>s.
        res_bind (USBD_SetClassConfig (s\<lparr>dev_config := ucast cfgidx\<rparr>)) (\<lambda>(s, ret).
        if ret \<noteq> USBD_OK then
          res_bind (USBD_ClrClassConfig (USBD_CtlError s)) (\<lambda>s.
          Inr (s\<lparr>dev_state := USBD_STATE_ADDRESSED\<rparr>, ret))
        else res_bind (USBD_CtlSendStatus s) (\<lambda>s. Inr (s, ret))))
      else res_bind (USBD_CtlSendStatus s) (\<lambda>s. Inr (s, USBD_OK)))"

definition USBD_SetConfig :: "usbd_setup_req \<Rightarrow> usbd \<Rightarrow> (usbd \<times> usbd_status) res" where
  "USBD_SetConfig req s =
     (let cfgidx = ucast (wValue req) :: u8
      in if cfgidx > 1 then Inr (USBD_CtlError s, USBD_FAIL)
         else if dev_state s = USBD_STATE_ADDRESSED then set_config_addressed cfgidx s
         else if dev_state s = USBD_STATE_CONFIGURED then set_config_configured cfgidx s
         else res_bind (USBD_ClrClassConfig (USBD_CtlError s)) (\<lambda>s. Inr (s, USBD_FAIL)))"

text \<open>The three states of the switch statements that accept a request.\<close>

definition known_state :: "u8 \<Rightarrow> bool" where
  "known_state st \<longleftrightarrow> st = USBD_STATE_DEFAULT \<or> st = USBD_STATE_ADDRESSED \<or> st = USBD_STATE_CONFIGURED"

definition USBD_GetConfig :: "usbd_setup_req \<Rightarrow> usbd \<Rightarrow> usbd res" where
  "USBD_GetConfig req s =
     (if wLength req \<noteq> 1 then Inr (USBD_CtlError s)
      else if dev_state s = USBD_STATE_DEFAULT \<or> dev_state s = USBD_STATE_ADDRESSED
      then USBD_CtlSendData (Some (le_of_u32 0)) 1 (s\<lparr>dev_default_config := 0\<rparr>)
      else if dev_state s = USBD_STATE_CONFIGURED
      then USBD_CtlSendData (Some (le_of_u32 (dev_config s))) 1 s
      else Inr (USBD_CtlError s))"

definition USBD_GetStatus :: "usbd_setup_req \<Rightarrow> usbd \<Rightarrow> usbd res" where
  "USBD_GetStatus req s =
     (if known_state (dev_state s) then
        (if wLength req \<noteq> 2 then Inr (USBD_CtlError s)
         else
           (let st = (if dev_remote_wakeup s \<noteq> 0 then USB_CONFIG_SELF_POWERED OR USB_CONFIG_REMOTE_WAKEUP
                      else USB_CONFIG_SELF_POWERED)
            in USBD_CtlSendData (Some (le_of_u32 st)) 2 (s\<lparr>dev_config_status := st\<rparr>)))
      else Inr (USBD_CtlError s))"

definition USBD_SetFeature :: "usbd_setup_req \<Rightarrow> usbd \<Rightarrow> usbd res" where
  "USBD_SetFeature req s =
     (if wValue req = USB_FEATURE_REMOTE_WAKEUP
      then USBD_CtlSendStatus (s\<lparr>dev_remote_wakeup := 1\<rparr>) else Inr s)"

definition USBD_ClrFeature :: "usbd_setup_req \<Rightarrow> usbd \<Rightarrow> usbd res" where
  "USBD_ClrFeature req s =
     (if known_state (dev_state s) then
        (if wValue req = USB_FEATURE_REMOTE_WAKEUP
         then USBD_CtlSendStatus (s\<lparr>dev_remote_wakeup := 0\<rparr>) else Inr s)
      else Inr (USBD_CtlError s))"

definition USBD_StdDevReq :: "usbd_setup_req \<Rightarrow> usbd \<Rightarrow> (usbd \<times> usbd_status) res" where
  "USBD_StdDevReq req s =
     (let ty = bmRequest req AND USB_REQ_TYPE_MASK;
          ok = (\<lambda>r. res_bind r (\<lambda>s. Inr (s, USBD_OK)))
      in if ty = USB_REQ_TYPE_CLASS \<or> ty = USB_REQ_TYPE_VENDOR then call_setup req s
         else if ty = USB_REQ_TYPE_STANDARD then
           (if bRequest req = USB_REQ_GET_DESCRIPTOR then ok (USBD_GetDescriptor req s)
            else if bRequest req = USB_REQ_SET_ADDRESS then ok (USBD_SetAddress req s)
            else if bRequest req = USB_REQ_SET_CONFIGURATION then USBD_SetConfig req s
            else if bRequest req = USB_REQ_GET_CONFIGURATION then ok (USBD_GetConfig req s)
            else if bRequest req = USB_REQ_GET_STATUS then ok (USBD_GetStatus req s)
            else if bRequest req = USB_REQ_SET_FEATURE then ok (USBD_SetFeature req s)
            else if bRequest req = USB_REQ_CLEAR_FEATURE then ok (USBD_ClrFeature req s)
            else call_setup req s)
         else Inr (USBD_CtlError s, USBD_OK))"

section \<open>Interface and end point requests\<close>

definition USBD_StdItfReq :: "usbd_setup_req \<Rightarrow> usbd \<Rightarrow> (usbd \<times> usbd_status) res" where
  "USBD_StdItfReq req s =
     (let ty = bmRequest req AND USB_REQ_TYPE_MASK
      in if (ty = USB_REQ_TYPE_CLASS \<or> ty = USB_REQ_TYPE_VENDOR \<or> ty = USB_REQ_TYPE_STANDARD)
            \<and> known_state (dev_state s) \<and> unat (ucast (wIndex req) :: u8) \<le> USBD_MAX_NUM_INTERFACES
         then res_bind (call_setup req s) (\<lambda>(s, ret).
              if wLength req = 0 \<and> ret = USBD_OK
              then res_bind (USBD_CtlSendStatus s) (\<lambda>s. Inr (s, ret)) else Inr (s, ret))
         else Inr (USBD_CtlError s, USBD_OK))"

text \<open>The branches of \<open>USBD_StdEPReq\<close> for the feature and the status of an end point.\<close>

definition ep_feature_addressed :: "u8 \<Rightarrow> usbd \<Rightarrow> usbd" where
  "ep_feature_addressed ep_addr s =
     (if ep_addr \<noteq> 0x00 \<and> ep_addr \<noteq> 0x80
      then fst (USBD_LL_StallEP 0x80 (fst (USBD_LL_StallEP ep_addr s)))
      else USBD_CtlError s)"

definition ep_set_feature :: "u8 \<Rightarrow> usbd_setup_req \<Rightarrow> usbd \<Rightarrow> (usbd \<times> usbd_status) res" where
  "ep_set_feature ep_addr req s =
     (if dev_state s = USBD_STATE_ADDRESSED then Inr (ep_feature_addressed ep_addr s, USBD_OK)
      else if dev_state s = USBD_STATE_CONFIGURED then
        res_bind (USBD_CtlSendStatus
            (if wValue req = USB_FEATURE_EP_HALT \<and> ep_addr \<noteq> 0x00 \<and> ep_addr \<noteq> 0x80 \<and> wLength req = 0
             then fst (USBD_LL_StallEP ep_addr s) else s)) (\<lambda>s. Inr (s, USBD_OK))
      else Inr (USBD_CtlError s, USBD_OK))"

definition ep_clear_feature :: "u8 \<Rightarrow> usbd_setup_req \<Rightarrow> usbd \<Rightarrow> (usbd \<times> usbd_status) res" where
  "ep_clear_feature ep_addr req s =
     (if dev_state s = USBD_STATE_ADDRESSED then Inr (ep_feature_addressed ep_addr s, USBD_OK)
      else if dev_state s = USBD_STATE_CONFIGURED then
        (if wValue req = USB_FEATURE_EP_HALT then
           res_bind (USBD_CtlSendStatus
             (if ep_addr AND 0x7F \<noteq> 0x00 then fst (USBD_LL_ClearStallEP ep_addr s) else s)) (\<lambda>s.
           call_setup req s)
         else Inr (s, USBD_OK))
      else Inr (USBD_CtlError s, USBD_OK))"

definition set_ep_status :: "u8 \<Rightarrow> u32 \<Rightarrow> usbd \<Rightarrow> usbd res" where
  "set_ep_status ep_addr st s =
     res_bind (if ep_addr AND 0x80 = 0x80
               then upd_ep_in (ep_num ep_addr) (\<lambda>ep. ep\<lparr>ep_status := st\<rparr>) s
               else upd_ep_out (ep_num ep_addr) (\<lambda>ep. ep\<lparr>ep_status := st\<rparr>) s) (\<lambda>s.
     USBD_CtlSendData (Some (le_of_u32 st)) 2 s)"

definition ep_get_status :: "u8 \<Rightarrow> usbd \<Rightarrow> usbd res" where
  "ep_get_status ep_addr s =
     (if dev_state s = USBD_STATE_ADDRESSED then
        (if ep_addr \<noteq> 0x00 \<and> ep_addr \<noteq> 0x80 then Inr (USBD_CtlError s) else set_ep_status ep_addr 0 s)
      else if dev_state s = USBD_STATE_CONFIGURED then
        res_bind (mem_get (if ep_addr AND 0x80 = 0x80 then ep_in s else ep_out s) (unat (ep_addr AND 0xF))) (\<lambda>ep.
        if ep_is_used ep = 0 then Inr (USBD_CtlError s)
        else set_ep_status ep_addr
               (if ep_addr = 0x00 \<or> ep_addr = 0x80 then 0
                else if USBD_LL_IsStallEP ep_addr s \<noteq> 0 then 1 else 0) s)
      else Inr (USBD_CtlError s))"

definition USBD_StdEPReq :: "usbd_setup_req \<Rightarrow> usbd \<Rightarrow> (usbd \<times> usbd_status) res" where
  "USBD_StdEPReq req s =
     (let ty = bmRequest req AND USB_REQ_TYPE_MASK; ep_addr = ucast (wIndex req)
      in if ty = USB_REQ_TYPE_CLASS \<or> ty = USB_REQ_TYPE_VENDOR then call_setup req s
         else if ty = USB_REQ_TYPE_STANDARD then
           (if bRequest req = USB_REQ_SET_FEATURE then ep_set_feature ep_addr req s
            else if bRequest req = USB_REQ_CLEAR_FEATURE then ep_clear_feature ep_addr req s
            else if bRequest req = USB_REQ_GET_STATUS
            then res_bind (ep_get_status ep_addr s) (\<lambda>s. Inr (s, USBD_OK))
            else Inr (USBD_CtlError s, USBD_OK))
         else Inr (USBD_CtlError s, USBD_OK))"

definition USBD_ParseSetupRequest :: "bytes \<Rightarrow> usbd_setup_req res" where
  "USBD_ParseSetupRequest pdata =
     res_bind (mem_read pdata 0 8) (\<lambda>d.
     Inr \<lparr>bmRequest = d ! 0, bRequest = d ! 1,
          wValue = push_bit 8 (ucast (d ! 3)) OR ucast (d ! 2),
          wIndex = push_bit 8 (ucast (d ! 5)) OR ucast (d ! 4),
          wLength = push_bit 8 (ucast (d ! 7)) OR ucast (d ! 6)\<rparr>)"

end
