(* ===== verification/Usbd_Core.thy ===== *)
theory Usbd_Core
  imports Usbd_Ctlreq
begin

text \<open>
  The device core of \<open>io/sdk/lib_stusb/src/usbd_core.c\<close> (set-up, data and reset stages) and the
  operations of \<open>usbd_ledger.c\<close> that the I/O component calls: start and stop, the events of the
  MCU, sending and receiving.
\<close>

section \<open>Device core\<close>

definition USBD_Init :: "u8 \<Rightarrow> usbd \<Rightarrow> usbd" where
  "USBD_Init i s =
     fst (USBD_LL_Init (s\<lparr>pClass := False, pConfDesc := None, pDesc := True,
       dev_state := USBD_STATE_DEFAULT, dev_id := i\<rparr>))"

definition USBD_DeInit :: "usbd \<Rightarrow> (usbd \<times> usbd_status) res" where
  "USBD_DeInit s =
     (let s = (fst (USBD_LL_Stop s))\<lparr>dev_state := USBD_STATE_DEFAULT\<rparr>
      in res_bind
           (if pClass s then res_bind (ledger_de_init s) (\<lambda>(s, _). Inr (s\<lparr>pClass := False\<rparr>)) else Inr s) (\<lambda>s.
         Inr (USBD_LL_DeInit (s\<lparr>pDesc := False, pConfDesc := None\<rparr>))))"

definition USBD_RegisterClass :: "usbd \<Rightarrow> usbd res" where
  "USBD_RegisterClass s =
     res_bind (get_cfg_desc (s\<lparr>pClass := True\<rparr>)) (\<lambda>(s, d, _). Inr (s\<lparr>pConfDesc := d\<rparr>))"

definition USBD_Start :: "usbd \<Rightarrow> usbd \<times> usbd_status" where
  "USBD_Start s = USBD_LL_Start s"

definition USBD_Stop :: "usbd \<Rightarrow> usbd \<times> usbd_status" where
  "USBD_Stop s = (fst (USBD_LL_Stop s), USBD_OK)"

definition USBD_LL_SetupStage :: "bytes \<Rightarrow> usbd \<Rightarrow> (usbd \<times> usbd_status) res" where
  "USBD_LL_SetupStage psetup s =
     res_bind (USBD_ParseSetupRequest psetup) (\<lambda>req.
     let s = s\<lparr>request := req, ep0_state := USBD_EP0_SETUP, ep0_data_len := ucast (wLength req)\<rparr>;
         recipient = bmRequest req AND 0x1F
     in if recipient = USB_REQ_RECIPIENT_DEVICE then USBD_StdDevReq req s
        else if recipient = USB_REQ_RECIPIENT_INTERFACE then USBD_StdItfReq req s
        else if recipient = USB_REQ_RECIPIENT_ENDPOINT then USBD_StdEPReq req s
        else Inr (USBD_LL_StallEP (bmRequest req AND 0x80) s))"

definition USBD_LL_DataOutStage :: "u8 \<Rightarrow> usbd \<Rightarrow> (usbd \<times> usbd_status) res" where
  "USBD_LL_DataOutStage epnum s =
     (if epnum = 0 then
        (if ep0_state s = USBD_EP0_DATA_OUT then
           res_bind (mem_get (ep_out s) 0) (\<lambda>pep.
           if ep_rem_length pep > ep_maxpacket pep then
             (let rem = ep_rem_length pep - ep_maxpacket pep
              in res_bind (upd_ep_out 0 (\<lambda>ep. ep\<lparr>ep_rem_length := rem\<rparr>) s) (\<lambda>s.
                 Inr (USBD_CtlContinueRx (min rem (ep_maxpacket pep)) s, USBD_OK)))
           else
             res_bind (if dev_state s = USBD_STATE_CONFIGURED \<and> \<not> pClass s then Inl Oob
                       else USBD_CtlSendStatus s) (\<lambda>s. Inr (s, USBD_OK)))
         else Inr (s, USBD_OK))
      else if dev_state s = USBD_STATE_CONFIGURED then
        (if pClass s then ledger_data_out epnum s else Inl Oob)
      else Inr (s, USBD_OK))"

text \<open>The data-in stage of the control end point: next packet, empty packet, or status stage.\<close>

definition ep0_data_in :: "usbd \<Rightarrow> usbd res" where
  "ep0_data_in s =
     res_bind (mem_get (ep_in s) 0) (\<lambda>pep.
     if ep_rem_length pep > ep_maxpacket pep then
       (let rem = ep_rem_length pep - ep_maxpacket pep
        in res_bind (upd_ep_in 0 (\<lambda>ep. ep\<lparr>ep_rem_length := rem\<rparr>) s) (\<lambda>s.
           let s = s\<lparr>pData := map_option (drop (unat (ep_maxpacket pep))) (pData s)\<rparr>
           in res_bind (USBD_CtlContinueSendData (pData s) rem s) (\<lambda>s.
              Inr (fst (USBD_LL_PrepareReceive 0 0 s)))))
     else if ep_maxpacket pep = ep_rem_length pep \<and> ep_total_length pep \<ge> ep_maxpacket pep \<and>
             ep_total_length pep < ep0_data_len s then
       res_bind (USBD_CtlContinueSendData None 0 s) (\<lambda>s.
       Inr (fst (USBD_LL_PrepareReceive 0 0 (s\<lparr>ep0_data_len := 0\<rparr>))))
     else if dev_state s = USBD_STATE_CONFIGURED \<and> \<not> pClass s then Inl Oob
     else Inr (USBD_CtlReceiveStatus s))"

definition USBD_LL_DataInStage :: "u8 \<Rightarrow> usbd \<Rightarrow> (usbd \<times> usbd_status) res" where
  "USBD_LL_DataInStage epnum s =
     (if epnum = 0 then
        (if ep0_state s = USBD_EP0_DATA_IN then res_bind (ep0_data_in s) (\<lambda>s. Inr (s, USBD_OK))
         else Inr (s, USBD_OK))
      else if dev_state s = USBD_STATE_CONFIGURED then
        (if pClass s then ledger_data_in epnum s else Inl Oob)
      else Inr (s, USBD_OK))"

definition USBD_LL_Reset :: "usbd \<Rightarrow> usbd res" where
  "USBD_LL_Reset s =
     (let s = s\<lparr>dev_state := USBD_STATE_DEFAULT, ep0_state := USBD_EP0_IDLE, dev_config := 0,
                dev_remote_wakeup := 0\<rparr>;
          open_ep = (\<lambda>ep. ep\<lparr>ep_is_used := 1, ep_maxpacket := 64\<rparr>)
      in res_bind (if pClassData s \<and> pClass s then res_bind (ledger_de_init s) (\<lambda>(s, _). Inr s) else Inr s) (\<lambda>s.
         res_bind (upd_ep_out 0 open_ep (fst (USBD_LL_OpenEP 0x00 USBD_EP_TYPE_CTRL 64 s))) (\<lambda>s.
         upd_ep_in 0 open_ep (fst (USBD_LL_OpenEP 0x80 USBD_EP_TYPE_CTRL 64 s)))))"

definition USBD_LL_SetSpeed :: "usbd_speed \<Rightarrow> usbd \<Rightarrow> usbd" where
  "USBD_LL_SetSpeed speed s = s\<lparr>dev_speed := speed\<rparr>"

definition USBD_LL_Suspend :: "usbd \<Rightarrow> usbd" where
  "USBD_LL_Suspend s = s\<lparr>dev_old_state := dev_state s, dev_state := USBD_STATE_SUSPENDED\<rparr>"

definition USBD_LL_Resume :: "usbd \<Rightarrow> usbd" where
  "USBD_LL_Resume s =
     (if dev_state s = USBD_STATE_SUSPENDED then s\<lparr>dev_state := dev_old_state s\<rparr> else s)"

definition USBD_LL_SOF :: "usbd \<Rightarrow> usbd \<times> usbd_status" where
  "USBD_LL_SOF s = (s, if pClass s then USBD_OK else USBD_FAIL)"

definition USBD_LL_DevDisconnected :: "usbd \<Rightarrow> (usbd \<times> usbd_status) res" where
  "USBD_LL_DevDisconnected s =
     (let s = s\<lparr>dev_state := USBD_STATE_DEFAULT\<rparr>
      in res_bind (if pClass s then res_bind (ledger_de_init s) (\<lambda>(s, _). Inr s) else Inr s) (\<lambda>s.
         Inr (s, USBD_OK)))"

section \<open>Start and stop\<close>

definition zero_endpoint :: usbd_endpoint where
  "zero_endpoint = \<lparr>ep_status = 0, ep_total_length = 0, ep_rem_length = 0, ep_maxpacket = 0, ep_is_used = 0\<rparr>"

text \<open>\<open>memset (&usbd_ledger_data, 0, sizeof (usbd_ledger_data))\<close>, which covers the device handle.\<close>

definition zero_ledger_data :: "usbd \<Rightarrow> usbd" where
  "zero_ledger_data s = s\<lparr>dev_id := 0, dev_config := 0, dev_default_config := 0, dev_config_status := 0,
     dev_speed := USBD_SPEED_HIGH, ep_in := replicate IO_USB_MAX_ENDPOINTS zero_endpoint,
     ep_out := replicate IO_USB_MAX_ENDPOINTS zero_endpoint, ep0_state := USBD_EP0_IDLE, ep0_data_len := 0,
     dev_state := 0, dev_old_state := 0, dev_address := 0, dev_remote_wakeup := 0,
     request := \<lparr>bmRequest = 0, bRequest = 0, wValue = 0, wIndex = 0, wLength = 0\<rparr>,
     pDesc := False, pClass := False, pClassData := False, pData := None, pConfDesc := None,
     ledger_state := USBD_LEDGER_STATE_ZERO, ledger_product := 0, ledger_vid := 0, ledger_pid := 0,
     ledger_name := [], ledger_bcdusb := 0, ledger_iad := 0, class_list := [], classes := 0,
     usb_ep_xfer_len := replicate IO_USB_MAX_ENDPOINTS 0,
     usb_ep_xfer_buffer := replicate IO_USB_MAX_ENDPOINTS None\<rparr>"

definition USBD_LEDGER_init :: "os_io_init_usb option \<Rightarrow> bool \<Rightarrow> usbd \<Rightarrow> usbd" where
  "USBD_LEDGER_init ini force_restart s =
     (case ini of None \<Rightarrow> s
      | Some i \<Rightarrow>
          (if force_restart \<or> ledger_state s = USBD_LEDGER_STATE_ZERO
           then (zero_ledger_data s)\<lparr>ledger_state := USBD_LEDGER_STATE_STOPPED\<rparr> else s)\<lparr>init_data := i\<rparr>)"

definition USB_LEDGER_stop :: "usbd \<Rightarrow> usbd" where
  "USB_LEDGER_stop s = (fst (USBD_Stop s))\<lparr>ledger_state := USBD_LEDGER_STATE_STOPPED\<rparr>"

definition push_class :: "usbd_class_info \<Rightarrow> usbd \<Rightarrow> usbd res" where
  "push_class c s =
     (if length (class_list s) < USBD_MAX_NUM_INTERFACES
      then Inr (s\<lparr>class_list := class_list s @ [c]\<rparr>) else Inl Oob)"

text \<open>The part of \<open>USBD_LEDGER_start\<close> that builds the device anew.\<close>

definition ledger_configure :: "usbd \<Rightarrow> usbd res" where
  "ledger_configure s0 =
     (let s = (if ledger_state s0 = USBD_LEDGER_STATE_RUNNING then USB_LEDGER_stop s0 else s0);
          i = init_data s;
          s = s\<lparr>ledger_bcdusb := 0, ledger_iad := 0, class_list := [],
                ledger_name := take 19 (init_name i),
                ledger_vid := if init_vid i \<noteq> 0 then init_vid i else 0x2C97,
                ledger_pid := if init_pid i \<noteq> 0 then init_pid i else ledger_product s\<rparr>
      in res_bind (if init_class_mask i AND USBD_LEDGER_CLASS_HID \<noteq> 0
                   then push_class USBD_LEDGER_HID_class_info s else Inr s) (\<lambda>s.
         let s = s\<lparr>classes := init_class_mask i\<rparr>;
             s = USBD_DESC_init (ledger_vid s) (ledger_pid s) (ledger_bcdusb s) (ledger_iad s) s
         in USBD_RegisterClass (USBD_Init 0 s)))"

definition USBD_LEDGER_start :: "usbd \<Rightarrow> usbd res" where
  "USBD_LEDGER_start s =
     (let i = init_data s;
          mask = init_class_mask i AND NOT 0x0002 AND NOT 0x0004 AND NOT 0x0008 AND NOT 0x0010 AND NOT 0x0060;
          s = s\<lparr>init_data := i\<lparr>init_class_mask := mask\<rparr>\<rparr>
      in res_bind
           (if ledger_state s = USBD_LEDGER_STATE_INITIALIZED \<or> classes s \<noteq> mask \<or>
               (init_vid i \<noteq> 0 \<and> ledger_vid s \<noteq> init_vid i)
            then ledger_configure s else Inr s) (\<lambda>s.
         Inr (if ledger_state s = USBD_LEDGER_STATE_STOPPED \<or> ledger_state s = USBD_LEDGER_STATE_INITIALIZED
              then (fst (USBD_Start s))\<lparr>ledger_state := USBD_LEDGER_STATE_RUNNING\<rparr> else s)))"

definition USBD_LEDGER_add_profile :: "usbd_class_info \<Rightarrow> u8 \<Rightarrow> u8 \<Rightarrow> usbd \<Rightarrow> usbd res" where
  "USBD_LEDGER_add_profile c bcdusb iad s =
     res_bind (push_class c s) (\<lambda>s.
     let s = s\<lparr>ledger_bcdusb := ledger_bcdusb s OR bcdusb,
               ledger_iad := if iad \<noteq> 0 then iad else ledger_iad s\<rparr>
     in Inr (USBD_DESC_init (ledger_vid s) (ledger_pid s) (ledger_bcdusb s) (ledger_iad s) s))"

section \<open>Events and transfers\<close>

definition USBD_LEDGER_rx_evt_reset :: "usbd \<Rightarrow> usbd res" where
  "USBD_LEDGER_rx_evt_reset s = USBD_LL_Reset (USBD_LL_SetSpeed USBD_SPEED_FULL s)"

definition USBD_LEDGER_rx_evt_setup :: "bytes \<Rightarrow> usbd \<Rightarrow> usbd res" where
  "USBD_LEDGER_rx_evt_setup buffer s = res_bind (USBD_LL_SetupStage buffer s) (\<lambda>(s, _). Inr s)"

definition USBD_LEDGER_rx_evt_data_in :: "u8 \<Rightarrow> usbd \<Rightarrow> usbd res" where
  "USBD_LEDGER_rx_evt_data_in epnum s = res_bind (USBD_LL_DataInStage epnum s) (\<lambda>(s, _). Inr s)"

definition USBD_LEDGER_rx_evt_data_out :: "u8 \<Rightarrow> bytes \<Rightarrow> u16 \<Rightarrow> usbd \<Rightarrow> usbd res" where
  "USBD_LEDGER_rx_evt_data_out epnum buffer len s =
     res_bind (mem_write (usb_ep_xfer_len s) (ep_num epnum) [len]) (\<lambda>ls.
     res_bind (mem_write (usb_ep_xfer_buffer s) (ep_num epnum) [Some buffer]) (\<lambda>bs.
     res_bind (USBD_LL_DataOutStage epnum (s\<lparr>usb_ep_xfer_len := ls, usb_ep_xfer_buffer := bs\<rparr>))
       (\<lambda>(s, _). Inr s)))"

datatype send_status = SWO_SUCCESS | SEND_TIMEOUT | SEND_INVALID_PARAMETER

fun class_send_packet ::
    "usbd_class_info \<Rightarrow> bytes option \<Rightarrow> u16 \<Rightarrow> u32 \<Rightarrow> usbd \<Rightarrow> (usbd \<times> usbd_status) res" where
  "class_send_packet USBD_LEDGER_HID_class_info p n t s = USBD_LEDGER_HID_send_packet p n t s"

fun send_loop ::
    "usbd_class_info list \<Rightarrow> u8 \<Rightarrow> bytes option \<Rightarrow> u16 \<Rightarrow> u32 \<Rightarrow> usbd \<Rightarrow> (usbd \<times> usbd_status) res" where
  "send_loop [] ty p n t s = Inr (s, USBD_OK)"
| "send_loop (c # cs) ty p n t s =
     (if class_type c = ty then class_send_packet c p n t s else send_loop cs ty p n t s)"

definition USBD_LEDGER_send ::
    "u8 \<Rightarrow> bytes option \<Rightarrow> u16 \<Rightarrow> u32 \<Rightarrow> usbd \<Rightarrow> (usbd \<times> send_status) res" where
  "USBD_LEDGER_send ty p n t s =
     res_bind (send_loop (class_list s) ty p n t s) (\<lambda>(s, st).
     Inr (s, if st = USBD_OK then SWO_SUCCESS else if st = USBD_TIMEOUT then SEND_TIMEOUT
             else SEND_INVALID_PARAMETER))"

fun class_data_ready ::
    "usbd_class_info \<Rightarrow> bytes option \<Rightarrow> u16 \<Rightarrow> usbd \<Rightarrow> (usbd \<times> bytes option \<times> int) res" where
  "class_data_ready USBD_LEDGER_HID_class_info b n s = USBD_LEDGER_HID_data_ready b n s"

fun data_ready_loop ::
    "usbd_class_info list \<Rightarrow> bytes option \<Rightarrow> u16 \<Rightarrow> usbd \<Rightarrow> (usbd \<times> bytes option \<times> int) res" where
  "data_ready_loop [] b n s = Inr (s, b, 0)"
| "data_ready_loop (c # cs) b n s =
     res_bind (class_data_ready c b n s) (\<lambda>(s, b, st).
     if st > 0 then Inr (s, b, st) else data_ready_loop cs b n s)"

definition USBD_LEDGER_data_ready :: "bytes option \<Rightarrow> u16 \<Rightarrow> usbd \<Rightarrow> (usbd \<times> bytes option \<times> int) res" where
  "USBD_LEDGER_data_ready b n s = data_ready_loop (class_list s) b n s"

fun class_is_busy :: "usbd_class_info \<Rightarrow> usbd \<Rightarrow> bool" where
  "class_is_busy USBD_LEDGER_HID_class_info s = USBD_LEDGER_HID_is_busy s"

definition USBD_LEDGER_is_busy :: "usbd \<Rightarrow> bool" where
  "USBD_LEDGER_is_busy s \<longleftrightarrow> list_ex (\<lambda>c. class_is_busy c s) (class_list s)"

abbreviation (input) SEPROXYHAL_TAG_USB_EVENT :: u8 where "SEPROXYHAL_TAG_USB_EVENT \<equiv> 0x0F"
abbreviation (input) SEPROXYHAL_TAG_USB_EP_XFER_EVENT :: u8 where "SEPROXYHAL_TAG_USB_EP_XFER_EVENT \<equiv> 0x10"

text \<open>
  The entry point for events of the MCU. \<open>seph_buffer\<close> is the whole buffer the event is in, of
  which \<open>seph_buffer_length\<close> bytes belong to the event.
\<close>

definition rx_usb_event :: "bytes \<Rightarrow> bytes option \<Rightarrow> usbd \<Rightarrow> (usbd \<times> bytes option \<times> int) res" where
  "rx_usb_event seph_buffer apdu s =
     res_bind (mem_get seph_buffer 4) (\<lambda>ev.
     if ev = 0x01 then res_bind (USBD_LEDGER_rx_evt_reset s) (\<lambda>s. Inr (s, apdu, 0))
     else if ev = 0x02 then Inr (fst (USBD_LL_SOF s), apdu, 0)
     else if ev = 0x04 then Inr (USBD_LL_Suspend s, apdu, 0)
     else if ev = 0x08 then Inr (USBD_LL_Resume s, apdu, 0)
     else Inr (s, apdu, -1))"

definition rx_xfer_event ::
    "bytes \<Rightarrow> u16 \<Rightarrow> bytes option \<Rightarrow> u16 \<Rightarrow> usbd \<Rightarrow> (usbd \<times> bytes option \<times> int) res" where
  "rx_xfer_event seph_buffer seph_buffer_length apdu apdu_max s =
     res_bind (mem_read seph_buffer 0 7) (\<lambda>hd.
     let epnum = hd ! 4 AND 0x7F;
         len = word_of_int (min (uint (hd ! 6)) (uint seph_buffer_length - 6)) :: u16
     in if hd ! 5 = 0x01
        then res_bind (USBD_LEDGER_rx_evt_setup (drop 7 seph_buffer) s) (\<lambda>s. Inr (s, apdu, 0))
        else if hd ! 5 = 0x02 then
          (if unat epnum < IO_USB_MAX_ENDPOINTS
           then res_bind (USBD_LEDGER_rx_evt_data_in epnum s) (\<lambda>s. Inr (s, apdu, 0))
           else Inr (s, apdu, -1))
        else if hd ! 5 = 0x04 then
          (if unat epnum < IO_USB_MAX_ENDPOINTS
           then res_bind (USBD_LEDGER_rx_evt_data_out epnum (drop 7 seph_buffer) len s) (\<lambda>s.
                USBD_LEDGER_data_ready apdu apdu_max s)
           else Inr (s, apdu, -1))
        else Inr (s, apdu, -1))"

definition USBD_LEDGER_rx_seph_evt ::
    "bytes \<Rightarrow> u16 \<Rightarrow> bytes option \<Rightarrow> u16 \<Rightarrow> usbd \<Rightarrow> (usbd \<times> bytes option \<times> int) res" where
  "USBD_LEDGER_rx_seph_evt seph_buffer seph_buffer_length apdu apdu_max s =
     res_bind (mem_get seph_buffer 1) (\<lambda>tag.
     if tag = SEPROXYHAL_TAG_USB_EVENT then rx_usb_event seph_buffer apdu s
     else if tag = SEPROXYHAL_TAG_USB_EP_XFER_EVENT
     then rx_xfer_event seph_buffer seph_buffer_length apdu apdu_max s
     else Inr (s, apdu, -1))"

end
