(* ===== verification/Usbd_Invariant.thy ===== *)
theory Usbd_Invariant
  imports Usbd_Core
begin

text \<open>
  The invariant of the USB device and what its events do to it. It bounds every buffer of the
  stack, says that the HID class is registered, and ties the configured state to configuration 1
  and to an initialised protocol handle. The end points of the class are open in the configured
  state as long as \<open>pClassData\<close> is set: a \<open>SET_CONFIGURATION\<close> that arrives while the device is
  suspended closes them and clears \<open>pClassData\<close>, and the resume restores the configured state.
\<close>

section \<open>What the control end point changes\<close>

text \<open>
  \<open>ctl_step s s'\<close>: the states differ at most in the stall words, the output, the state of the
  control end point and its descriptor \<open>ep_in[0]\<close>.
\<close>

definition ctl_core :: "'a usbd_handle_scheme \<Rightarrow> 'a usbd_handle_scheme" where
  "ctl_core s = s\<lparr>ep_in_stall_status := 0, ep_out_stall_status := 0, seph_out := [],
     ep0_state := USBD_EP0_IDLE, ep0_data_len := 0, ep_in := tl (ep_in s), pData := None\<rparr>"

definition ctl_step :: "'a usbd_handle_scheme \<Rightarrow> 'a usbd_handle_scheme \<Rightarrow> bool" where
  "ctl_step s s' \<longleftrightarrow> ctl_core s' = ctl_core s \<and> length (ep_in s') = length (ep_in s)"

lemma ctl_step_refl [simp]: "ctl_step s s"
  by (simp add: ctl_step_def)

lemma ctl_step_trans: "ctl_step s t \<Longrightarrow> ctl_step t u \<Longrightarrow> ctl_step s u"
  by (simp add: ctl_step_def)

lemma tl_update_0: "tl (xs[0 := x]) = tl xs"
  by (cases xs) simp_all

lemma ctl_step_ll [simp]:
  "ctl_step s (fst (USBD_LL_StallEP ep s))"
  "ctl_step s (fst (USBD_LL_ClearStallEP ep s))"
  "ctl_step s (fst (USBD_LL_OpenEP ep ty mps s))"
  "ctl_step s (fst (USBD_LL_CloseEP ep s))"
  "ctl_step s (fst (USBD_LL_PrepareReceive ep sz s))"
  "ctl_step s (fst (USBD_LL_SetUSBAddress ad s))"
  by (simp_all add: ctl_step_def ctl_core_def USBD_LL_StallEP_def USBD_LL_ClearStallEP_def
      USBD_LL_OpenEP_def USBD_LL_CloseEP_def USBD_LL_PrepareReceive_def USBD_LL_SetUSBAddress_def
      seph_tx_def Let_def)

lemma ctl_step_CtlError [simp]: "ctl_step s (USBD_CtlError s)"
  unfolding USBD_CtlError_def by (rule ctl_step_trans) (rule ctl_step_ll)+

lemma ctl_step_ReceiveStatus [simp]: "ctl_step s (USBD_CtlReceiveStatus s)"
  by (simp add: USBD_CtlReceiveStatus_def ctl_step_def ctl_core_def USBD_LL_PrepareReceive_def seph_tx_def)

lemma USBD_CtlSendStatus_step: "\<exists>s'. USBD_CtlSendStatus s = Inr s' \<and> ctl_step s s'"
  by (simp add: USBD_CtlSendStatus_def USBD_LL_Transmit_def ep_num_def mem_arg_def
      ctl_step_def ctl_core_def seph_tx_def)

text \<open>A control transfer starts inside its buffer when the buffer is as long as announced.\<close>

lemma USBD_CtlContinueSendData_step:
  assumes "0 < length (ep_in s)"
    and "case pbuf of None \<Rightarrow> len = 0 | Some b \<Rightarrow> unat len \<le> length b"
  shows "\<exists>s'. USBD_CtlContinueSendData pbuf len s = Inr s' \<and> ctl_step s s'"
proof -
  let ?n = "min len (ep_maxpacket (ep_in s ! 0))"
  have "unat ?n \<le> unat len" by (simp add: word_le_nat_alt [symmetric])
  then have "\<exists>d. mem_arg pbuf (unat ?n) = Inr d"
    using assms(2) by (cases pbuf) (auto simp: mem_arg_def mem_read_def)
  then show ?thesis
    using assms(1)
    by (auto simp: USBD_CtlContinueSendData_def mem_get_def USBD_LL_Transmit_def ep_num_def
        ctl_step_def ctl_core_def seph_tx_def)
qed

lemma USBD_CtlSendData_step:
  assumes "0 < length (ep_in s)" and "unat len \<le> length b"
  shows "\<exists>s'. USBD_CtlSendData (Some b) len s = Inr s' \<and> ctl_step s s'"
proof -
  let ?s = "s\<lparr>ep0_state := USBD_EP0_DATA_IN,
    ep_in := (ep_in s)[0 := (ep_in s ! 0)\<lparr>ep_total_length := len, ep_rem_length := len\<rparr>], pData := Some b\<rparr>"
  have "ctl_step s ?s" by (simp add: ctl_step_def ctl_core_def tl_update_0)
  moreover have "USBD_CtlSendData (Some b) len s = USBD_CtlContinueSendData (Some b) len ?s"
    using assms(1) by (simp add: USBD_CtlSendData_def upd_ep_in_def)
  ultimately show ?thesis
    using USBD_CtlContinueSendData_step [where s = ?s and pbuf = "Some b" and len = len] assms
      ctl_step_trans by fastforce
qed

section \<open>The invariant\<close>

definition buffers_ok :: "usbd \<Rightarrow> bool" where
  "buffers_ok s \<longleftrightarrow>
     length (ep_in s) = 6 \<and> length (ep_out s) = 6 \<and>
     length (usb_ep_xfer_len s) = 6 \<and> length (usb_ep_xfer_buffer s) = 6 \<and>
     length (usbd_ledger_descriptor s) = 256 \<and> length (USBD_StrDesc s) = 48 \<and> length (ledger_name s) \<le> 19 \<and>
     length (tx_chunk_buffer (protocol_data s)) = 64 \<and> length (rx_apdu_buffer (protocol_data s)) = 273"

definition hid_open :: "usbd \<Rightarrow> bool" where
  "hid_open s \<longleftrightarrow> ep_is_used (ep_in s ! 2) = 1 \<and> ep_is_used (ep_out s ! 2) = 1 \<and> hid_ok s"

definition configured :: "usbd \<Rightarrow> bool" where
  "configured s \<longleftrightarrow> dev_state s = USBD_STATE_CONFIGURED \<or>
     dev_state s = USBD_STATE_SUSPENDED \<and> dev_old_state s = USBD_STATE_CONFIGURED"

definition states_ok :: "usbd \<Rightarrow> bool" where
  "states_ok s \<longleftrightarrow> (known_state (dev_state s) \<or>
     dev_state s = USBD_STATE_SUSPENDED \<and> (known_state (dev_old_state s) \<or> dev_old_state s = USBD_STATE_SUSPENDED))"

definition hid_selected :: "os_io_init_usb \<Rightarrow> bool" where
  "hid_selected i \<longleftrightarrow> init_class_mask i AND USBD_LEDGER_CLASS_HID \<noteq> 0"

definition device_ok :: "usbd \<Rightarrow> bool" where
  "device_ok s \<longleftrightarrow> buffers_ok s \<and> pClass s \<and> pDesc s \<and>
     class_list s = [USBD_LEDGER_HID_class_info] \<and> hid_selected (init_data s)"

definition config_ok :: "usbd \<Rightarrow> bool" where
  "config_ok s \<longleftrightarrow> dev_config s = 1 \<and> hid_ok s \<and> (pClassData s \<longrightarrow> hid_open s)"

definition usb_inv :: "usbd \<Rightarrow> bool" where
  "usb_inv s \<longleftrightarrow> device_ok s \<and> states_ok s \<and> (configured s \<longrightarrow> config_ok s)"

lemmas inv_defs = usb_inv_def device_ok_def buffers_ok_def states_ok_def configured_def config_ok_def
  hid_open_def hid_ok_def

lemma ctl_step_fields:
  fixes s s' :: usbd
  assumes "ctl_step s s'"
  shows "dev_state s' = dev_state s" "dev_old_state s' = dev_old_state s" "dev_config s' = dev_config s"
    "pClass s' = pClass s" "pDesc s' = pDesc s" "pClassData s' = pClassData s"
    "ep_out s' = ep_out s" "tl (ep_in s') = tl (ep_in s)" "length (ep_in s') = length (ep_in s)"
    "usb_ep_xfer_len s' = usb_ep_xfer_len s" "usb_ep_xfer_buffer s' = usb_ep_xfer_buffer s"
    "usbd_ledger_descriptor s' = usbd_ledger_descriptor s" "USBD_StrDesc s' = USBD_StrDesc s"
    "ledger_name s' = ledger_name s" "protocol_data s' = protocol_data s" "class_list s' = class_list s" "init_data s' = init_data s"
proof -
  have eq: "f (ctl_core s') = f (ctl_core s)" for f :: "usbd \<Rightarrow> 'x"
    using assms by (simp add: ctl_step_def)
  show "dev_state s' = dev_state s" using eq [of dev_state] by (simp add: ctl_core_def)
  show "dev_old_state s' = dev_old_state s" using eq [of dev_old_state] by (simp add: ctl_core_def)
  show "dev_config s' = dev_config s" using eq [of dev_config] by (simp add: ctl_core_def)
  show "pClass s' = pClass s" using eq [of pClass] by (simp add: ctl_core_def)
  show "pDesc s' = pDesc s" using eq [of pDesc] by (simp add: ctl_core_def)
  show "pClassData s' = pClassData s" using eq [of pClassData] by (simp add: ctl_core_def)
  show "ep_out s' = ep_out s" using eq [of ep_out] by (simp add: ctl_core_def)
  show "tl (ep_in s') = tl (ep_in s)" using eq [of ep_in] by (simp add: ctl_core_def)
  show "length (ep_in s') = length (ep_in s)" using assms by (simp add: ctl_step_def)
  show "usb_ep_xfer_len s' = usb_ep_xfer_len s" using eq [of usb_ep_xfer_len] by (simp add: ctl_core_def)
  show "usb_ep_xfer_buffer s' = usb_ep_xfer_buffer s" using eq [of usb_ep_xfer_buffer] by (simp add: ctl_core_def)
  show "usbd_ledger_descriptor s' = usbd_ledger_descriptor s"
    using eq [of usbd_ledger_descriptor] by (simp add: ctl_core_def)
  show "USBD_StrDesc s' = USBD_StrDesc s" using eq [of USBD_StrDesc] by (simp add: ctl_core_def)
  show "ledger_name s' = ledger_name s" using eq [of ledger_name] by (simp add: ctl_core_def)
  show "protocol_data s' = protocol_data s" using eq [of protocol_data] by (simp add: ctl_core_def)
  show "class_list s' = class_list s" using eq [of class_list] by (simp add: ctl_core_def)
  show "init_data s' = init_data s" using eq [of init_data] by (simp add: ctl_core_def)
qed

lemma nth_2_tl: "length xs = 6 \<Longrightarrow> xs ! 2 = tl xs ! 1"
  by (simp add: nth_tl numeral_2_eq_2)

lemma ctl_step_hid_open:
  assumes "ctl_step s s'" and "length (ep_in s) = 6"
  shows "hid_open s' = hid_open s"
proof -
  have "ep_in s' ! 2 = ep_in s ! 2"
    using assms ctl_step_fields(8,9) [OF assms(1)] by (simp add: nth_2_tl)
  then show ?thesis using ctl_step_fields [OF assms(1)] by (simp add: hid_open_def hid_ok_def)
qed

lemma ctl_step_parts:
  assumes "ctl_step s s'"
  shows "device_ok s' = device_ok s" "states_ok s' = states_ok s" "configured s' = configured s"
    "device_ok s \<Longrightarrow> config_ok s' = config_ok s"
  using ctl_step_fields [OF assms] ctl_step_hid_open [OF assms]
  by (simp_all add: device_ok_def buffers_ok_def states_ok_def configured_def config_ok_def hid_ok_def)

lemma ctl_step_inv: "ctl_step s s' \<Longrightarrow> usb_inv s \<Longrightarrow> usb_inv s'"
  using ctl_step_parts by (auto simp: usb_inv_def)

section \<open>Class callbacks\<close>

lemma hid_init_fields:
  fixes s :: usbd
  assumes "buffers_ok s"
  shows "hid_ok (fst (USBD_LEDGER_HID_init s))" "snd (USBD_LEDGER_HID_init s) = USBD_OK"
    "\<exists>a b c st h. fst (USBD_LEDGER_HID_init s) = s\<lparr>hid_protocol := a, hid_idle_state := b,
       hid_alt_setting := c, hid_state := st, protocol_data := h, seph_out := seph_out s @ [rx_prepare]\<rparr>"
proof -
  show "hid_ok (fst (USBD_LEDGER_HID_init s))"
    using assms USBD_LEDGER_HID_init_ok(1) [of s] by (simp add: buffers_ok_def)
  show "snd (USBD_LEDGER_HID_init s) = USBD_OK" by (simp add: USBD_LEDGER_HID_init_def Let_def)
  show "\<exists>a b c st h. fst (USBD_LEDGER_HID_init s) = s\<lparr>hid_protocol := a, hid_idle_state := b,
       hid_alt_setting := c, hid_state := st, protocol_data := h, seph_out := seph_out s @ [rx_prepare]\<rparr>"
    unfolding USBD_LEDGER_HID_init_def Let_def USBD_LL_PrepareReceive_def seph_tx_def
    by (simp add: ep_num_def rx_prepare_def) blast
qed

text \<open>The packet that opens an end point of the HID class: address, interrupt type and size.\<close>

definition open_packet :: "u8 \<Rightarrow> u8 \<Rightarrow> bytes" where
  "open_packet ty ep = [SEPROXYHAL_TAG_USB_CONFIG, 0, 5, SEPROXYHAL_TAG_USB_CONFIG_ENDPOINTS, 1, ep, ty, 64]"

lemma open_end_points_ok:
  assumes "length (ep_in s) = 6" and "length (ep_out s) = 6"
  shows "open_end_points USBD_LEDGER_HID_class_info s =
    Inr (s\<lparr>ep_in := (ep_in s)[2 := (ep_in s ! 2)\<lparr>ep_is_used := 1\<rparr>], ep_in_stall_status := 0,
      ep_out_stall_status := 0, seph_out := seph_out s @ [open_packet 2 0x82, open_packet 2 0x02],
      ep_out := (ep_out s)[2 := (ep_out s ! 2)\<lparr>ep_is_used := 1\<rparr>]\<rparr>)"
  using assms
  by (simp add: open_end_points_def USBD_LL_OpenEP_def ep_num_def upd_ep_in_def upd_ep_out_def seph_tx_def
      open_packet_def ep_type_tag_def Let_def)

lemma close_end_points_ok:
  assumes "length (ep_in s) = 6" and "length (ep_out s) = 6"
  shows "\<exists>outp. close_end_points USBD_LEDGER_HID_class_info s =
    Inr (s\<lparr>ep_in := (ep_in s)[2 := (ep_in s ! 2)\<lparr>ep_is_used := 0\<rparr>], seph_out := outp,
      ep_out := (ep_out s)[2 := (ep_out s ! 2)\<lparr>ep_is_used := 0\<rparr>]\<rparr>)"
  using assms
  by (simp add: close_end_points_def USBD_LL_CloseEP_def ep_num_def upd_ep_in_def upd_ep_out_def seph_tx_def
      Let_def) blast

text \<open>The fields the class callbacks leave alone.\<close>

definition same_device :: "usbd \<Rightarrow> usbd \<Rightarrow> bool" where
  "same_device s s' \<longleftrightarrow> dev_state s' = dev_state s \<and> dev_old_state s' = dev_old_state s \<and>
     dev_config s' = dev_config s \<and> class_list s' = class_list s"

lemma ledger_init_ok:
  assumes "device_ok s"
  shows "\<exists>s'. ledger_init s = Inr (s', USBD_OK) \<and> device_ok s' \<and> same_device s s' \<and> pClassData s' \<and>
    hid_open s' \<and> seph_out s' = seph_out s @ [open_packet 2 0x82, open_packet 2 0x02, rx_prepare]"
proof -
  let ?s = "s\<lparr>pClassData := True\<rparr>"
  have cl: "class_list s = [USBD_LEDGER_HID_class_info]" using assms by (simp add: device_ok_def)
  have l: "length (ep_in ?s) = 6" "length (ep_out ?s) = 6" using assms by (simp_all add: device_ok_def buffers_ok_def)
  define t where "t = ?s\<lparr>ep_in := (ep_in ?s)[2 := (ep_in ?s ! 2)\<lparr>ep_is_used := 1\<rparr>], ep_in_stall_status := 0,
      ep_out_stall_status := 0, seph_out := seph_out ?s @ [open_packet 2 0x82, open_packet 2 0x02],
      ep_out := (ep_out ?s)[2 := (ep_out ?s ! 2)\<lparr>ep_is_used := 1\<rparr>]\<rparr>"
  have o: "open_end_points USBD_LEDGER_HID_class_info ?s = Inr t"
    unfolding t_def by (rule open_end_points_ok [OF l])
  have bt: "buffers_ok t" using assms by (simp add: device_ok_def buffers_ok_def t_def)
  define u where "u = fst (USBD_LEDGER_HID_init t)"
  have i: "USBD_LEDGER_HID_init t = (u, USBD_OK)" using hid_init_fields(2) [OF bt] by (simp add: u_def prod_eq_iff)
  obtain f1 f2 f3 f4 h where u: "u = t\<lparr>hid_protocol := f1, hid_idle_state := f2,
       hid_alt_setting := f3, hid_state := f4, protocol_data := h, seph_out := seph_out t @ [rx_prepare]\<rparr>"
    using hid_init_fields(3) [OF bt] by (auto simp: u_def)
  have ok: "hid_ok u" using hid_init_fields(1) [OF bt] by (simp add: u_def)
  have "ledger_init s = Inr (u, USBD_OK)"
    by (simp add: ledger_init_def cl o i)
  moreover have "hid_open u" using ok l by (simp add: hid_open_def u t_def)
  moreover have "device_ok u" using assms ok by (simp add: device_ok_def buffers_ok_def u t_def hid_ok_def tx_wf_def)
  moreover have "same_device s u" "pClassData u" by (simp_all add: same_device_def u t_def)
  moreover have "seph_out u = seph_out s @ [open_packet 2 0x82, open_packet 2 0x02, rx_prepare]"
    by (simp add: u t_def)
  ultimately show ?thesis by blast
qed

lemma ledger_de_init_ok:
  assumes "device_ok s"
  shows "\<exists>s' st. ledger_de_init s = Inr (s', st) \<and> device_ok s' \<and> same_device s s' \<and> \<not> pClassData s' \<and>
    hid_ok s' = hid_ok s"
proof -
  have cl: "class_list s = [USBD_LEDGER_HID_class_info]" using assms by (simp add: device_ok_def)
  have l: "length (ep_in s) = 6" "length (ep_out s) = 6" using assms by (simp_all add: device_ok_def buffers_ok_def)
  show ?thesis using close_end_points_ok [OF l] assms
    by (auto simp: ledger_de_init_def cl USBD_LEDGER_HID_de_init_def device_ok_def buffers_ok_def same_device_def
        hid_ok_def)
qed

section \<open>Requests keep the invariant\<close>

definition safe :: "(usbd \<times> usbd_status) res \<Rightarrow> bool" where
  "safe r \<longleftrightarrow> (\<exists>s' st. r = Inr (s', st) \<and> usb_inv s')"

definition safe1 :: "usbd res \<Rightarrow> bool" where
  "safe1 r \<longleftrightarrow> (\<exists>s'. r = Inr s' \<and> usb_inv s')"

lemma safe_simps [simp]: "safe (Inr (s, st)) = usb_inv s" "safe1 (Inr s) = usb_inv s"
  by (simp_all add: safe_def safe1_def)

lemma safe_bind:
  "safe1 m \<Longrightarrow> (\<And>s. usb_inv s \<Longrightarrow> safe (f s)) \<Longrightarrow> safe (res_bind m f)"
  "safe p \<Longrightarrow> (\<And>s st. usb_inv s \<Longrightarrow> safe (g (s, st))) \<Longrightarrow> safe (res_bind p g)"
  by (auto simp: safe_def safe1_def)

lemma usb_inv_hid_fields [simp]:
  "usb_inv (s\<lparr>hid_alt_setting := a\<rparr>) = usb_inv s" "usb_inv (s\<lparr>hid_protocol := a\<rparr>) = usb_inv s"
  "usb_inv (s\<lparr>hid_idle_state := a\<rparr>) = usb_inv s" "usb_inv (s\<lparr>dev_remote_wakeup := w\<rparr>) = usb_inv s"
  "usb_inv (s\<lparr>dev_default_config := w\<rparr>) = usb_inv s" "usb_inv (s\<lparr>dev_config_status := w\<rparr>) = usb_inv s"
  "usb_inv (s\<lparr>request := r, ep0_state := e, ep0_data_len := w\<rparr>) = usb_inv s"
  by (simp_all add: inv_defs)

lemma usb_inv_lengths: "usb_inv s \<Longrightarrow> length (ep_in s) = 6" "usb_inv s \<Longrightarrow> length (ep_out s) = 6"
  by (simp_all add: usb_inv_def device_ok_def buffers_ok_def)

lemma CtlError_inv [simp]: "usb_inv s \<Longrightarrow> usb_inv (USBD_CtlError s)"
  by (rule ctl_step_inv [OF ctl_step_CtlError])

lemma SendStatus_safe: "usb_inv s \<Longrightarrow> safe1 (USBD_CtlSendStatus s)"
  using USBD_CtlSendStatus_step [of s] ctl_step_inv by (auto simp: safe1_def)

lemma SendData_safe: "usb_inv s \<Longrightarrow> unat len \<le> length b \<Longrightarrow> safe1 (USBD_CtlSendData (Some b) len s)"
  using USBD_CtlSendData_step [of s len b] ctl_step_inv usb_inv_lengths(1) by (fastforce simp: safe1_def)

lemma unat_min_le: "unat (min (a::'a::len word) b) \<le> unat a"
  by (simp add: word_le_nat_alt [symmetric])

lemma hid_send_safe:
  "usb_inv s \<Longrightarrow> unat len \<le> length b \<Longrightarrow>
   safe (res_bind (USBD_CtlSendData (Some b) len s) (\<lambda>s. Inr (s, USBD_OK)))"
  by (rule safe_bind(1) [OF SendData_safe]) simp_all

lemma hid_descriptor_lengths:
  "unat (min (ucast (LEDGER_HID_descriptors ! 9) :: u32) w) \<le> length (drop 9 LEDGER_HID_descriptors)"
  "unat (min (34 :: u32) w) \<le> length LEDGER_HID_report_descriptor"
  using unat_min_le [of "ucast (LEDGER_HID_descriptors ! 9) :: u32" w] unat_min_le [of "34 :: u32" w]
  by (auto simp: LEDGER_HID_descriptors_def LEDGER_HID_report_descriptor_def elim: order_trans)

lemma hid_setup_safe:
  assumes "usb_inv s"
  shows "safe (USBD_LEDGER_HID_setup req s)"
  using assms
  by (auto simp: USBD_LEDGER_HID_setup_def hid_standard_request_def hid_class_request_def Let_def
      intro!: hid_send_safe hid_descriptor_lengths)

lemma call_setup_safe:
  assumes "usb_inv s"
  shows "safe (call_setup req s)"
proof -
  have "pClass s" "class_list s = [USBD_LEDGER_HID_class_info]"
    using assms by (simp_all add: usb_inv_def device_ok_def)
  then show ?thesis
    using assms hid_setup_safe [OF assms, of req] by (auto simp: call_setup_def ledger_setup_def Let_def)
qed

section \<open>Descriptors\<close>

lemma mem_write_within:
  "off + length xs \<le> length pre \<Longrightarrow> mem_write (pre @ rest) off xs = Inr (buf_write pre off xs @ rest)"
  by (simp add: mem_write_def buf_write_def)

lemma mem_set_all: "length d = n \<Longrightarrow> mem_set d 0 v n = Inr (replicate n v)"
  by (simp add: mem_set_def buf_write_def)

lemma incr_byte_within: "i < length pre \<Longrightarrow> incr_byte (pre @ rest) i = Inr (pre[i := pre ! i + 1] @ rest)"
  by (simp add: incr_byte_def mem_get_def mem_write_def buf_write_def nth_append upd_conv_take_nth_drop)

text \<open>The configuration descriptor with the HID interface.\<close>

definition hid_configuration :: bytes where
  "hid_configuration = [0x09, 0x02, 41, 0x00, 0x01, 0x01, 0x02, 0xC0, 0x32] @ LEDGER_HID_descriptors"

lemma length_hid_configuration [simp]: "length hid_configuration = 41"
  by (simp add: hid_configuration_def LEDGER_HID_descriptors_def)

lemma forge_cfg_hid:
  "forge_cfg_loop [USBD_LEDGER_HID_class_info] 0 9 (interface_descriptor @ replicate 247 0) =
   Inr ((interface_descriptor[4 := 1] @ LEDGER_HID_descriptors) @ replicate 215 0, 41)"
proof -
  have 1: "mem_write (interface_descriptor @ replicate 247 0) 9 LEDGER_HID_descriptors =
      Inr ((interface_descriptor @ LEDGER_HID_descriptors) @ replicate 215 0)"
    using mem_write_prefix [of interface_descriptor 9 LEDGER_HID_descriptors 247 0]
    by (simp add: interface_descriptor_def LEDGER_HID_descriptors_def)
  have 2: "mem_write ((interface_descriptor @ LEDGER_HID_descriptors) @ replicate 215 0) 11 [0] =
      Inr ((interface_descriptor @ LEDGER_HID_descriptors) @ replicate 215 0)"
    by (subst mem_write_within) (simp_all add: interface_descriptor_def LEDGER_HID_descriptors_def buf_write_def)
  have 3: "incr_byte ((interface_descriptor @ LEDGER_HID_descriptors) @ replicate 215 0) 4 =
      Inr ((interface_descriptor[4 := 1] @ LEDGER_HID_descriptors) @ replicate 215 0)"
    by (subst incr_byte_within) (simp_all add: interface_descriptor_def)
  have l: "length LEDGER_HID_descriptors = 32" by (simp add: LEDGER_HID_descriptors_def)
  show ?thesis
    using 1 2 3 by (simp add: forge_cfg_interface_def l)
qed

lemma forge_configuration_descriptor_hid:
  assumes "length (usbd_ledger_descriptor s) = 256" and "class_list s = [USBD_LEDGER_HID_class_info]"
  shows "forge_configuration_descriptor s =
    Inr (s\<lparr>usbd_ledger_descriptor := hid_configuration @ replicate 215 0, usbd_ledger_descriptor_size := 41\<rparr>)"
proof -
  have i: "mem_write (replicate 256 0) 0 interface_descriptor = Inr (interface_descriptor @ replicate 247 0)"
    using mem_write_prefix [of "[]" 0 interface_descriptor 256 0] by (simp add: interface_descriptor_def)
  have l: "length interface_descriptor = 9" by (simp add: interface_descriptor_def)
  have w: "mem_write ((interface_descriptor[4 := 1] @ LEDGER_HID_descriptors) @ replicate 215 0) 2 [41, 0] =
      Inr (hid_configuration @ replicate 215 0)"
    by (subst mem_write_within)
      (simp_all add: interface_descriptor_def LEDGER_HID_descriptors_def hid_configuration_def buf_write_def)
  show ?thesis
    using i w forge_cfg_hid
    by (simp add: forge_configuration_descriptor_def mem_set_all [OF assms(1)] assms(2) l del: forge_cfg_loop.simps)
qed

lemma forge_bos_descriptor_eq:
  assumes "length (usbd_ledger_descriptor s) = 256"
    and "class_list s = [USBD_LEDGER_HID_class_info]"
  shows "forge_bos_descriptor s =
    Inr (s\<lparr>usbd_ledger_descriptor := [0x05, 0x0F, 5, 0, 2] @ replicate 251 0, usbd_ledger_descriptor_size := 5\<rparr>)"
proof -
  have i: "mem_write (replicate 256 0) 0 bos_descriptor = Inr (bos_descriptor @ replicate 251 0)"
    using mem_write_prefix [of "[]" 0 bos_descriptor 256 0] by (simp add: bos_descriptor_def)
  have w: "mem_write (bos_descriptor @ replicate 251 0) 2 [5, 0, 2] =
      Inr ([0x05, 0x0F, 5, 0, 2] @ replicate 251 0)"
    by (subst mem_write_within) (simp_all add: bos_descriptor_def buf_write_def)
  show ?thesis
    using i w assms(2)
    by (auto simp: forge_bos_descriptor_def mem_set_all [OF assms(1)]) (simp_all add: bos_descriptor_def)
qed

definition desc_safe :: "descriptor \<Rightarrow> bool" where
  "desc_safe d \<longleftrightarrow> (\<exists>s' pb n. d = Inr (s', pb, n) \<and> usb_inv s' \<and>
     (case pb of None \<Rightarrow> n = 0 | Some b \<Rightarrow> unat n \<le> length b))"

lemma usb_inv_descriptor:
  "usb_inv s \<Longrightarrow> length d = 256 \<Longrightarrow>
   usb_inv (s\<lparr>usbd_ledger_descriptor := d, usbd_ledger_descriptor_size := n\<rparr>)"
  "usb_inv s \<Longrightarrow> length d = 256 \<Longrightarrow> usb_inv (s\<lparr>usbd_ledger_descriptor := d\<rparr>)"
  "usb_inv s \<Longrightarrow> length u = 48 \<Longrightarrow> usb_inv (s\<lparr>USBD_StrDesc := u\<rparr>)"
  by (simp_all add: inv_defs)

lemma usb_inv_parts:
  assumes "usb_inv s"
  shows "length (usbd_ledger_descriptor s) = 256" "length (USBD_StrDesc s) = 48" "length (ledger_name s) \<le> 19"
    "class_list s = [USBD_LEDGER_HID_class_info]" "pClass s" "pDesc s"
  using assms by (simp_all add: usb_inv_def device_ok_def buffers_ok_def)

lemma get_cfg_desc_shape:
  assumes "usb_inv s"
  shows "\<exists>s' d n. get_cfg_desc s = Inr (s', Some d, n) \<and> usb_inv s' \<and> d = usbd_ledger_descriptor s' \<and>
    length d = 256 \<and> unat n \<le> 256"
proof -
  note p = usb_inv_parts [OF assms]
  show ?thesis
    using usb_inv_descriptor(1) [OF assms] p(4)
    by (simp add: get_cfg_desc_def forge_configuration_descriptor_hid p(1))
qed

lemma string_descriptor_safe:
  assumes "usb_inv s" and "case str of None \<Rightarrow> True | Some d \<Rightarrow> length d \<le> 19"
  shows "desc_safe (string_descriptor str s)"
proof (cases str)
  case None
  then show ?thesis using assms(1) by (simp add: string_descriptor_def USBD_GetString_def desc_safe_def)
next
  case (Some d)
  let ?n = "ucast (USBD_GetLen d) * 2 + 2 :: u16"
  have u: "length (concat (map (\<lambda>c. [c, 0]) d)) = 2 * length d"
    by (simp add: length_concat comp_def sum_list_triv)
  have l: "length d \<le> 19" using assms(2) Some by simp
  then have "?n = of_nat (2 * length d + 2)"
    by (simp add: USBD_GetLen_def ucast_of_nat_small)
  then have "unat ?n \<le> 48" using l by (simp only: unat_of_nat) simp
  then show ?thesis
    using Some assms(1) l u usb_inv_parts(2) [OF assms(1)]
    by (simp add: string_descriptor_def USBD_GetString_def desc_safe_def mem_write_def Let_def usb_inv_descriptor(3))
qed

lemma descriptor_lookup_safe:
  assumes "usb_inv s"
  shows "case descriptor_lookup w s of Desc_Error \<Rightarrow> True | Desc d \<Rightarrow> desc_safe d"
proof -
  note p = usb_inv_parts [OF assms]
  have cfg: "desc_safe (get_cfg_desc s)"
    using get_cfg_desc_shape [OF assms] by (auto simp: desc_safe_def)
  have other: "desc_safe (res_bind (get_cfg_desc s) (\<lambda>(s, _, n).
      res_bind (mem_write (usbd_ledger_descriptor s) 1 [v]) (\<lambda>d. Inr (s\<lparr>usbd_ledger_descriptor := d\<rparr>, Some d, n))))" for v
    using get_cfg_desc_shape [OF assms] by (auto simp: desc_safe_def mem_write_def usb_inv_descriptor(2))
  have strs: "desc_safe (USBD_get_descriptor_product s)" "desc_safe (USBD_get_descriptor_manufacturer s)"
    using p(3) assms
    by (auto simp: USBD_get_descriptor_product_def USBD_get_descriptor_manufacturer_def intro!: string_descriptor_safe)
  have bos: "desc_safe (USBD_get_descriptor_BOS s)"
    using assms p(4)
    by (auto simp: USBD_get_descriptor_BOS_def get_bos_desc_def forge_bos_descriptor_eq [OF p(1)] desc_safe_def
        usb_inv_descriptor(1))
  have rest: "desc_safe (USBD_get_descriptor_lang_id s)" "desc_safe (USBD_get_descriptor_serial s)"
    "desc_safe (get_dev_qualifier_desc s)" "desc_safe (USBD_get_descriptor_device s)"
    using assms
    by (simp_all add: desc_safe_def USBD_get_descriptor_lang_id_def USBD_get_descriptor_serial_def
        get_dev_qualifier_desc_def device_qualifier_decriptor_def USBD_get_descriptor_device_def
        USBD_desc_device_desc_def Let_def)
  have none: "desc_safe (Inr (s, None, 0))" using assms by (simp add: desc_safe_def)
  show ?thesis
    using p(5,6) cfg other strs bos rest none
    by (simp add: descriptor_lookup_def string_desc_lookup_def Let_def)
qed

lemma USBD_GetDescriptor_safe:
  assumes "usb_inv s"
  shows "safe1 (USBD_GetDescriptor req s)"
proof (cases "descriptor_lookup (wValue req) s")
  case Desc_Error
  then show ?thesis using assms by (simp add: USBD_GetDescriptor_def)
next
  case (Desc d)
  then obtain s' pb n where d: "d = Inr (s', pb, n)" "usb_inv s'"
    "case pb of None \<Rightarrow> n = 0 | Some b \<Rightarrow> unat n \<le> length b"
    using descriptor_lookup_safe [OF assms, of "wValue req"] by (auto simp: desc_safe_def)
  have "unat (ucast (min n (wLength req)) :: u32) \<le> unat n"
    using unat_min_le [of n "wLength req"] by (simp add: unsigned_ucast_eq) (rule order_trans [OF take_bit_nat_less_eq_self])
  then show ?thesis
    using d SendStatus_safe [OF d(2)] SendData_safe [OF d(2)]
    by (cases pb) (auto simp: USBD_GetDescriptor_def Desc intro!: SendData_safe)
qed

section \<open>Set-up stages\<close>

lemma safe_ok:
  "safe1 r \<Longrightarrow> safe (res_bind r (\<lambda>s. Inr (s, st)))"
  by (rule safe_bind(1)) simp_all

lemma USBD_SetAddress_safe:
  assumes "usb_inv s"
  shows "safe1 (USBD_SetAddress req s)"
proof (cases "dev_state s = USBD_STATE_CONFIGURED")
  case True
  then show ?thesis using assms by (simp add: USBD_SetAddress_def Let_def)
next
  case False
  let ?a = "ucast (wValue req) AND 0x7F :: u8"
  let ?t = "fst (USBD_LL_SetUSBAddress ?a (s\<lparr>dev_address := ?a\<rparr>))"
  obtain u where u: "USBD_CtlSendStatus ?t = Inr u" "ctl_step ?t u" using USBD_CtlSendStatus_step by blast
  have "ctl_step (s\<lparr>dev_address := ?a\<rparr>) u" by (rule ctl_step_trans [OF ctl_step_ll(6) u(2)])
  then have d: "device_ok u"
    using ctl_step_parts(1) [of "s\<lparr>dev_address := ?a\<rparr>" u] assms
    by (simp add: usb_inv_def device_ok_def buffers_ok_def)
  have "usb_inv (u\<lparr>dev_state := st\<rparr>)" if "st = USBD_STATE_ADDRESSED \<or> st = USBD_STATE_DEFAULT" for st
    using d that by (auto simp: usb_inv_def device_ok_def buffers_ok_def states_ok_def known_state_def configured_def)
  then show ?thesis using u(1) False assms by (simp add: USBD_SetAddress_def Let_def)
qed

lemma ClrClassConfig_ok:
  assumes "device_ok s"
  shows "\<exists>s'. USBD_ClrClassConfig s = Inr s' \<and> device_ok s' \<and> same_device s s' \<and> \<not> pClassData s' \<and>
    hid_ok s' = hid_ok s"
  using ledger_de_init_ok [OF assms] assms by (auto simp: USBD_ClrClassConfig_def device_ok_def)

lemma SetClassConfig_ok:
  assumes "device_ok s"
  shows "\<exists>s'. USBD_SetClassConfig s = Inr (s', USBD_OK) \<and> device_ok s' \<and> same_device s s' \<and> pClassData s' \<and>
    hid_open s' \<and> seph_out s' = seph_out s @ [open_packet 2 0x82, open_packet 2 0x02, rx_prepare]"
  using ledger_init_ok [OF assms] assms by (auto simp: USBD_SetClassConfig_def device_ok_def)

text \<open>Configuration 1 is the only one, and the device is configured exactly with it.\<close>

lemma set_config_addressed_safe:
  assumes inv: "usb_inv s" and st: "dev_state s = USBD_STATE_ADDRESSED" and cfg: "\<not> cfgidx > 1"
  shows "safe (set_config_addressed cfgidx s)"
proof (cases "cfgidx = 0")
  case True
  then show ?thesis using inv by (simp add: set_config_addressed_def SendStatus_safe safe_ok)
next
  case False
  then have "1 \<le> unat cfgidx" "unat cfgidx \<le> 1"
    using cfg by (auto simp: word_less_nat_alt not_less Suc_le_eq unat_gt_0)
  then have c: "cfgidx = 1" by (simp add: word_unat_eq_iff)
  have "device_ok (s\<lparr>dev_config := 1\<rparr>)" using inv by (simp add: usb_inv_def device_ok_def buffers_ok_def)
  then obtain t where t: "USBD_SetClassConfig (s\<lparr>dev_config := 1\<rparr>) = Inr (t, USBD_OK)" "device_ok t"
    "same_device (s\<lparr>dev_config := 1\<rparr>) t" "pClassData t" "hid_open t"
    using SetClassConfig_ok by blast
  obtain u where u: "USBD_CtlSendStatus t = Inr u" "ctl_step t u" using USBD_CtlSendStatus_step by blast
  have "config_ok t" using t(3-5) by (simp add: config_ok_def same_device_def hid_open_def)
  then have "config_ok u" "device_ok u" using ctl_step_parts(1,4) [OF u(2)] t(2) by simp_all
  then have "usb_inv (u\<lparr>dev_state := USBD_STATE_CONFIGURED\<rparr>)"
    by (simp add: inv_defs known_state_def)
  then show ?thesis using t(1) u(1) by (simp add: set_config_addressed_def c)
qed

lemma set_config_configured_safe:
  assumes inv: "usb_inv s" and st: "dev_state s = USBD_STATE_CONFIGURED" and cfg: "\<not> cfgidx > 1"
  shows "safe (set_config_configured cfgidx s)"
proof (cases "cfgidx = 0")
  case True
  have "device_ok (s\<lparr>dev_state := USBD_STATE_ADDRESSED, dev_config := 0\<rparr>)"
    using inv by (simp add: usb_inv_def device_ok_def buffers_ok_def)
  then obtain t where t: "USBD_ClrClassConfig (s\<lparr>dev_state := USBD_STATE_ADDRESSED, dev_config := 0\<rparr>) = Inr t"
    "device_ok t" "same_device (s\<lparr>dev_state := USBD_STATE_ADDRESSED, dev_config := 0\<rparr>) t"
    using ClrClassConfig_ok by blast
  then have "usb_inv t" by (simp add: usb_inv_def same_device_def states_ok_def known_state_def configured_def)
  then show ?thesis using t(1) True by (simp add: set_config_configured_def SendStatus_safe safe_ok)
next
  case False
  then have "1 \<le> unat cfgidx" "unat cfgidx \<le> 1"
    using cfg by (auto simp: word_less_nat_alt not_less Suc_le_eq unat_gt_0)
  then have c: "cfgidx = 1" by (simp add: word_unat_eq_iff)
  have "dev_config s = 1" using inv st by (simp add: usb_inv_def configured_def config_ok_def)
  then show ?thesis using inv c by (simp add: set_config_configured_def SendStatus_safe safe_ok)
qed

lemma USBD_SetConfig_safe:
  assumes inv: "usb_inv s"
  shows "safe (USBD_SetConfig req s)"
proof -
  let ?e = "USBD_CtlError s"
  have e: "usb_inv ?e" "dev_state ?e = dev_state s" "dev_old_state ?e = dev_old_state s"
    using inv ctl_step_fields(1,2) [OF ctl_step_CtlError] by simp_all
  then obtain t where t: "USBD_ClrClassConfig ?e = Inr t" "device_ok t" "same_device ?e t" "\<not> pClassData t"
    "hid_ok t = hid_ok ?e"
    using ClrClassConfig_ok by (auto simp: usb_inv_def)
  have c: "configured t = configured ?e" "states_ok t = states_ok ?e" "dev_config t = dev_config ?e"
    using t(3) by (simp_all add: configured_def states_ok_def same_device_def)
  have "usb_inv t"
    using e(1) t(2,4,5) c by (auto simp: usb_inv_def config_ok_def)
  then show ?thesis
    using e(1) t(1) set_config_addressed_safe [OF inv] set_config_configured_safe [OF inv]
    by (auto simp: USBD_SetConfig_def Let_def)
qed

lemma simple_requests_safe:
  assumes "usb_inv s"
  shows "safe1 (USBD_GetConfig req s)" "safe1 (USBD_GetStatus req s)"
    "safe1 (USBD_SetFeature req s)" "safe1 (USBD_ClrFeature req s)"
  using assms
  by (auto simp: USBD_GetConfig_def USBD_GetStatus_def USBD_SetFeature_def USBD_ClrFeature_def Let_def
      intro!: SendData_safe SendStatus_safe)

lemma USBD_StdDevReq_safe:
  assumes "usb_inv s"
  shows "safe (USBD_StdDevReq req s)"
  using assms simple_requests_safe [OF assms]
  by (auto simp: USBD_StdDevReq_def Let_def
      intro!: safe_ok call_setup_safe USBD_GetDescriptor_safe USBD_SetAddress_safe USBD_SetConfig_safe)

lemma USBD_StdItfReq_safe:
  assumes "usb_inv s"
  shows "safe (USBD_StdItfReq req s)"
  using assms
  by (auto simp: USBD_StdItfReq_def Let_def intro!: safe_bind(2) [OF call_setup_safe] safe_ok SendStatus_safe)

lemma ll_inv [simp]:
  "usb_inv s \<Longrightarrow> usb_inv (fst (USBD_LL_StallEP ep s))"
  "usb_inv s \<Longrightarrow> usb_inv (fst (USBD_LL_ClearStallEP ep s))"
  "usb_inv s \<Longrightarrow> usb_inv (fst (USBD_LL_PrepareReceive ep sz s))"
  using ctl_step_inv by (blast intro: ctl_step_ll)+

lemma upd_ep_status_safe:
  assumes "usb_inv s" and "i < 6"
  shows "safe1 (upd_ep_in i (\<lambda>ep. ep\<lparr>ep_status := st\<rparr>) s)" "safe1 (upd_ep_out i (\<lambda>ep. ep\<lparr>ep_status := st\<rparr>) s)"
  using assms usb_inv_lengths [OF assms(1)]
  by (auto simp: upd_ep_in_def upd_ep_out_def inv_defs nth_list_update)

lemma safe1_bind: "safe1 m \<Longrightarrow> (\<And>s. usb_inv s \<Longrightarrow> safe1 (f s)) \<Longrightarrow> safe1 (res_bind m f)"
  by (auto simp: safe1_def)

lemma ep_index_le: "unat (a AND 0xF) \<le> ep_num a"
proof -
  have "a AND 0xF = (a AND 0x7F) AND 0xF" by (simp add: and.assoc)
  also have "\<dots> \<le> a AND 0x7F" by (rule word_and_le2)
  finally show ?thesis by (simp add: ep_num_def word_le_nat_alt)
qed

lemma ep_get_status_safe:
  assumes "usb_inv s" and "ep_num ep < 6"
  shows "safe1 (ep_get_status ep s)"
proof -
  have set: "safe1 (set_ep_status ep st s)" for st
    using assms unfolding set_ep_status_def
    by (intro safe1_bind SendData_safe) (auto intro: upd_ep_status_safe)
  have "unat (ep AND 0xF) < 6" using ep_index_le [of ep] assms(2) by simp
  then show ?thesis
    using assms(1) set usb_inv_lengths [OF assms(1)] by (auto simp: ep_get_status_def mem_get_def)
qed

lemma USBD_StdEPReq_safe:
  assumes inv: "usb_inv s"
    and idx: "bmRequest req AND USB_REQ_TYPE_MASK = USB_REQ_TYPE_STANDARD \<and> bRequest req = USB_REQ_GET_STATUS
      \<Longrightarrow> ep_num (ucast (wIndex req)) < 6"
  shows "safe (USBD_StdEPReq req s)"
proof -
  have "safe (ep_set_feature ep req s)" "safe (ep_clear_feature ep req s)" for ep
    using inv
    by (auto simp: ep_set_feature_def ep_clear_feature_def ep_feature_addressed_def
        intro!: safe_ok SendStatus_safe safe_bind(1) [OF SendStatus_safe] call_setup_safe)
  then show ?thesis
    using inv idx by (auto simp: USBD_StdEPReq_def Let_def intro!: call_setup_safe safe_ok ep_get_status_safe)
qed

lemma USBD_ParseSetupRequest_total:
  "8 \<le> length d \<Longrightarrow> \<exists>req. USBD_ParseSetupRequest d = Inr req"
  by (simp add: USBD_ParseSetupRequest_def mem_read_def)

text \<open>The one request that can leave the tables: the status of an end point that does not exist.\<close>

definition bad_ep_status :: "usbd_setup_req \<Rightarrow> bool" where
  "bad_ep_status req \<longleftrightarrow> bmRequest req AND 0x1F = USB_REQ_RECIPIENT_ENDPOINT \<and>
     bmRequest req AND USB_REQ_TYPE_MASK = USB_REQ_TYPE_STANDARD \<and> bRequest req = USB_REQ_GET_STATUS \<and>
     6 \<le> ep_num (ucast (wIndex req))"

lemma setup_stage_safe:
  assumes inv: "usb_inv s" and req: "USBD_ParseSetupRequest d = Inr req" "\<not> bad_ep_status req"
  shows "safe (USBD_LL_SetupStage d s)"
proof -
  let ?s = "s\<lparr>request := req, ep0_state := USBD_EP0_SETUP, ep0_data_len := ucast (wLength req)\<rparr>"
  have s: "usb_inv ?s" using inv by simp
  have "safe (Inr (USBD_LL_StallEP e ?s))" for e
    using ll_inv(1) [OF s] by (cases "USBD_LL_StallEP e ?s") (metis fst_conv safe_simps(1))
  then show ?thesis
    using req USBD_StdDevReq_safe [OF s] USBD_StdItfReq_safe [OF s] USBD_StdEPReq_safe [OF s]
    by (auto simp: USBD_LL_SetupStage_def Let_def bad_ep_status_def not_le)
qed

section \<open>Reset, data stages and transfers\<close>

lemma upd_ep_0_safe:
  assumes "usb_inv s"
  shows "safe1 (upd_ep_in 0 f s)" "safe1 (upd_ep_out 0 f s)"
  using assms usb_inv_lengths [OF assms] by (auto simp: upd_ep_out_def upd_ep_in_def inv_defs)

lemma USBD_LL_Reset_safe:
  assumes "usb_inv s"
  shows "safe1 (USBD_LEDGER_rx_evt_reset s)"
proof -
  let ?s = "(USBD_LL_SetSpeed USBD_SPEED_FULL s)\<lparr>dev_state := USBD_STATE_DEFAULT, ep0_state := USBD_EP0_IDLE,
    dev_config := 0, dev_remote_wakeup := 0\<rparr>"
  have d: "device_ok ?s" using assms by (simp add: usb_inv_def device_ok_def buffers_ok_def USBD_LL_SetSpeed_def)
  obtain t where t: "(if pClassData ?s \<and> pClass ?s then res_bind (ledger_de_init ?s) (\<lambda>(s, _). Inr s) else Inr ?s) = Inr t"
    "device_ok t" "same_device ?s t"
  proof (cases "pClassData ?s \<and> pClass ?s")
    case True
    then show thesis using ledger_de_init_ok [OF d] that by fastforce
  next
    case False
    show thesis by (rule that [of ?s]) (use False d in \<open>auto simp: same_device_def\<close>)
  qed
  then have "usb_inv t" by (simp add: usb_inv_def same_device_def states_ok_def known_state_def configured_def)
  then have i: "usb_inv (fst (USBD_LL_OpenEP 0x00 USBD_EP_TYPE_CTRL 64 t))"
    by (rule ctl_step_inv [OF ctl_step_ll(3)])
  have "safe1 (res_bind (upd_ep_out 0 f (fst (USBD_LL_OpenEP 0x00 USBD_EP_TYPE_CTRL 64 t)))
      (\<lambda>s. upd_ep_in 0 f (fst (USBD_LL_OpenEP 0x80 USBD_EP_TYPE_CTRL 64 s))))" for f
    by (rule safe1_bind [OF upd_ep_0_safe(2) [OF i]]) (rule upd_ep_0_safe(1) [OF ctl_step_inv [OF ctl_step_ll(3)]])
  then show ?thesis
    unfolding USBD_LEDGER_rx_evt_reset_def USBD_LL_Reset_def Let_def t(1) res_bind_simps .
qed

lemma Suspend_Resume_inv:
  assumes "usb_inv s"
  shows "usb_inv (USBD_LL_Suspend s)" "usb_inv (USBD_LL_Resume s)"
  using assms
  by (auto simp: inv_defs USBD_LL_Suspend_def USBD_LL_Resume_def known_state_def)

text \<open>What a received or sent packet keeps of the protocol handle.\<close>

definition handle_same :: "ledger_protocol \<Rightarrow> ledger_protocol \<Rightarrow> bool" where
  "handle_same h h' \<longleftrightarrow> lp_type h' = lp_type h \<and> tx_apdu_buffer h' = tx_apdu_buffer h \<and>
     tx_apdu_length h' = tx_apdu_length h \<and> tx_apdu_offset h' = tx_apdu_offset h \<and>
     length (tx_chunk_buffer h') = length (tx_chunk_buffer h) \<and> tx_chunk_buffer_size h' = tx_chunk_buffer_size h \<and>
     length (rx_apdu_buffer h') = length (rx_apdu_buffer h) \<and> rx_apdu_buffer_size h' = rx_apdu_buffer_size h \<and>
     mtu h' = mtu h"

lemma apdu_store_same: "apdu_store h b len = Inr h' \<Longrightarrow> handle_same h h'"
  by (auto simp: apdu_store_def Let_def res_bind_eq_Inr_iff buf_simps handle_same_def split: if_splits)

lemma handle_same_trans: "handle_same h h1 \<Longrightarrow> handle_same h1 h2 \<Longrightarrow> handle_same h h2"
  by (simp add: handle_same_def)

lemma process_apdu_chunk_same:
  assumes "process_apdu_chunk h b len = Inr h'"
  shows "handle_same h h'"
proof -
  have st: "handle_same h (h\<lparr>rx_apdu_status := st\<rparr>)" for st by (simp add: handle_same_def)
  have first: "handle_same h (h\<lparr>rx_apdu_buffer := buf_write (rx_apdu_buffer h) 0 [v], rx_apdu_status := st,
      rx_apdu_length := n, rx_apdu_offset := k\<rparr>)" "handle_same h (h\<lparr>rx_apdu_buffer := buf_write (rx_apdu_buffer h) 0 [v], rx_apdu_status := st,
      rx_apdu_length := n\<rparr>)" if "0 < length (rx_apdu_buffer h)" for v st n k
    using that by (simp_all add: handle_same_def Suc_le_eq)
  show ?thesis
    using assms st first
    by (auto simp: process_apdu_chunk_def Let_def res_bind_eq_Inr_iff mem_write_Inr_iff Suc_le_eq split: if_splits
        dest!: apdu_store_same) (blast intro: handle_same_trans)
qed

lemma rx_admin_same:
  "rx_protocol_version h = Inr h' \<Longrightarrow> handle_same h h'" "rx_mtu h = Inr h' \<Longrightarrow> handle_same h h'"
  "rx_ping h b len = Inr h' \<Longrightarrow> handle_same h h'"
  by (auto simp: rx_protocol_version_def rx_mtu_def rx_ping_def U2BE_ENCODE_def Let_def
      res_bind_eq_Inr_iff buf_simps handle_same_def)

lemma rx_dispatch_same: "rx_dispatch h tag b len = Inr h' \<Longrightarrow> handle_same h h'"
  using process_apdu_chunk_same rx_admin_same
  by (auto simp: rx_dispatch_def res_bind_eq_Inr_iff mem_write_Inr_iff handle_same_def split: if_splits)

lemma LEDGER_PROTOCOL_rx_same:
  assumes "LEDGER_PROTOCOL_rx h (Some b) len = Inr h'"
  shows "handle_same h h'"
proof (cases "len < 3")
  case True
  then show ?thesis using assms by (simp add: LEDGER_PROTOCOL_rx_def handle_same_def)
next
  case False
  then have eq: "LEDGER_PROTOCOL_rx h (Some b) len =
      res_bind (mem_set (tx_chunk_buffer h) 0 0 (unat (tx_chunk_buffer_size h))) (\<lambda>cb.
      res_bind (mem_read b 0 2) (\<lambda>ch. res_bind (mem_write cb 0 ch) (\<lambda>cb'.
      res_bind (mem_get b 2) (\<lambda>tag. rx_dispatch (h\<lparr>tx_chunk_buffer := cb'\<rparr>) tag b len))))"
    by (simp add: LEDGER_PROTOCOL_rx_def rx_dispatch_def Let_def cong: if_cong)
  obtain cb ch cb' tag where 1: "mem_set (tx_chunk_buffer h) 0 0 (unat (tx_chunk_buffer_size h)) = Inr cb"
    "mem_write cb 0 ch = Inr cb'" "rx_dispatch (h\<lparr>tx_chunk_buffer := cb'\<rparr>) tag b len = Inr h'"
    using assms unfolding eq res_bind_eq_Inr_iff by blast
  then have "handle_same h (h\<lparr>tx_chunk_buffer := cb'\<rparr>)"
    by (auto simp: handle_same_def mem_set_Inr_iff mem_write_Inr_iff)
  then show ?thesis using rx_dispatch_same [OF 1(3)] handle_same_trans by blast
qed

lemma handle_same_hid_ok:
  "handle_same (protocol_data s) h \<Longrightarrow> hid_ok s \<Longrightarrow> hid_ok (s\<lparr>protocol_data := h, seph_out := outp\<rparr>)"
  by (auto simp: hid_ok_def tx_wf_def handle_same_def split: option.splits)

lemma usb_inv_handle:
  assumes "usb_inv s" and "length (tx_chunk_buffer h) = 64" "length (rx_apdu_buffer h) = 273"
    and "hid_ok s \<Longrightarrow> hid_ok (s\<lparr>protocol_data := h, seph_out := outp\<rparr>)"
  shows "usb_inv (s\<lparr>protocol_data := h, seph_out := outp\<rparr>)"
proof -
  have "hid_open s \<Longrightarrow> hid_open (s\<lparr>protocol_data := h, seph_out := outp\<rparr>)"
    using assms(4) by (simp add: hid_open_def)
  then show ?thesis
    using assms by (auto simp: usb_inv_def device_ok_def buffers_ok_def states_ok_def configured_def config_ok_def)
qed

lemma hid_data_out_inv:
  assumes inv: "usb_inv s" and out: "USBD_LEDGER_HID_data_out p n s = Inr (s', st)"
  shows "usb_inv s'"
proof (cases p)
  case None
  then show ?thesis using inv out by (simp add: USBD_LEDGER_HID_data_out_def)
next
  case (Some b)
  then obtain h where h: "LEDGER_PROTOCOL_rx (protocol_data s) (Some b) n = Inr h"
    "s' = s\<lparr>protocol_data := h, seph_out := seph_out s @ [rx_prepare]\<rparr>"
    using out by (auto simp: USBD_LEDGER_HID_data_out_eq res_bind_eq_Inr_iff)
  note same = LEDGER_PROTOCOL_rx_same [OF h(1)]
  then have "length (tx_chunk_buffer h) = 64" "length (rx_apdu_buffer h) = 273"
    using inv by (simp_all add: handle_same_def usb_inv_def device_ok_def buffers_ok_def)
  then show ?thesis unfolding h(2) by (intro usb_inv_handle inv handle_same_hid_ok same)
qed

end
