(* ===== verification/Usbd_Steps.thy ===== *)
theory Usbd_Steps
  imports Usbd_Invariant
begin

text \<open>
  The USB device as a state machine: the events of the bus and the calls of the application as a
  step relation, the invariant of the reachable states, and the theorems about enumeration,
  control transfers and memory safety.
\<close>

section \<open>Transfers keep the invariant\<close>

lemma usb_inv_irrelevant [simp]:
  "usb_inv (s\<lparr>hid_state := x\<rparr>) = usb_inv s" "usb_inv (s\<lparr>seph_out := outp\<rparr>) = usb_inv s"
  "usb_inv (s\<lparr>hid_state := x, seph_out := outp\<rparr>) = usb_inv s"
  by (simp_all add: inv_defs)

lemma hid_ok_tx:
  assumes "hid_ok s" and "tx_ready h p"
    and "length (rx_apdu_buffer h) = 273" "rx_apdu_buffer_size h = 273" "lp_type h = 0x20"
  shows "hid_ok (s\<lparr>protocol_data := tx_sent h p\<rparr>)" "length (tx_chunk_buffer (tx_sent h p)) = 64"
    "length (rx_apdu_buffer (tx_sent h p)) = 273"
proof -
  have r: "tx_wf h" "tx_apdu_buffer h = Some p" "tx_chunk_buffer_size h = 64" "mtu h = 64"
    using assms(2) by (simp_all add: tx_ready_def)
  show "length (tx_chunk_buffer (tx_sent h p)) = 64" by (rule tx_sent_chunk(3) [OF r(1-3)])
  show "length (rx_apdu_buffer (tx_sent h p)) = 273" using assms(3) by (simp add: tx_sent_def Let_def)
  show "hid_ok (s\<lparr>protocol_data := tx_sent h p\<rparr>)"
    using tx_sent_wf(1) [OF r(1,2)] tx_sent_chunk(4) [OF r(1-3)] r(4) assms(3-5)
    by (auto simp: hid_ok_def) (simp_all add: tx_sent_def Let_def)
qed

lemma usb_inv_set_handle:
  assumes "usb_inv s" and "length (tx_chunk_buffer h) = 64" "length (rx_apdu_buffer h) = 273"
    and "hid_ok (s\<lparr>protocol_data := h\<rparr>)"
  shows "usb_inv (s\<lparr>protocol_data := h\<rparr>)"
  using usb_inv_handle [OF assms(1-3), of "seph_out s"] assms(4) by simp

lemma hid_data_in_safe:
  assumes inv: "usb_inv s" and ok: "hid_ok s"
  shows "safe (USBD_LEDGER_HID_data_in s)"
proof (cases "tx_apdu_buffer (protocol_data s)")
  case None
  have "hid_ok (s\<lparr>protocol_data := (protocol_data s)\<lparr>tx_chunk_length := 0\<rparr>\<rparr>)"
    using ok by (auto simp: hid_ok_def tx_wf_def split: option.splits)
  from usb_inv_set_handle [OF inv _ _ this]
  have "usb_inv (s\<lparr>protocol_data := (protocol_data s)\<lparr>tx_chunk_length := 0\<rparr>\<rparr>)"
    using ok by (simp add: hid_ok_def tx_wf_def)
  then show ?thesis using None by (simp add: USBD_LEDGER_HID_data_in_def)
next
  case (Some apdu)
  let ?h = "tx_sent (protocol_data s) apdu"
  have rdy: "tx_ready (protocol_data s) apdu" using ok Some by (simp add: tx_ready_def hid_ok_def)
  note tx = hid_ok_tx [OF ok rdy]
  have i1: "usb_inv (s\<lparr>protocol_data := ?h\<rparr>)"
    using tx ok inv by (intro usb_inv_set_handle) (simp_all add: hid_ok_def)
  have "hid_ok (s\<lparr>protocol_data := ?h\<lparr>tx_chunk_length := 0\<rparr>\<rparr>)"
    using tx(1) ok by (auto simp: hid_ok_def tx_wf_def split: option.splits)
  then have i2: "usb_inv (s\<lparr>protocol_data := ?h\<lparr>tx_chunk_length := 0\<rparr>\<rparr>)"
    using tx(2,3) ok inv by (intro usb_inv_set_handle) (simp_all add: hid_ok_def)
  show ?thesis
    unfolding USBD_LEDGER_HID_data_in_eq [OF rdy] using i1 i2 by simp
qed

lemma hid_send_packet_safe:
  assumes inv: "usb_inv s" and ok: "hid_ok s" and n: "unat n \<le> length p"
  shows "safe (USBD_LEDGER_HID_send_packet (Some p) n t s)"
proof -
  let ?h = "tx_start (protocol_data s) p n"
  have rdy: "tx_ready ?h p" using ok n by (simp add: hid_ok_def tx_ready_def tx_wf_def tx_start_def)
  have h: "length (rx_apdu_buffer ?h) = 273" "rx_apdu_buffer_size ?h = 273" "lp_type ?h = 0x20"
    using ok by (simp_all add: hid_ok_def tx_start_def)
  note tx = hid_ok_tx [OF ok rdy h]
  have i: "usb_inv (s\<lparr>protocol_data := tx_sent ?h p\<rparr>)" by (intro usb_inv_set_handle inv tx)
  have "safe (hid_transmit_chunk t (s\<lparr>protocol_data := tx_sent ?h p\<rparr>))"
    using i tx(2)
    by (auto simp: hid_transmit_chunk_def USBD_LL_Transmit_def ep_num_def Let_def mem_arg_def mem_read_def
        seph_tx_def)
  then show ?thesis
    using i rdy by (simp add: USBD_LEDGER_HID_send_packet_def LEDGER_PROTOCOL_tx_first LEDGER_PROTOCOL_tx_next
        tx_ready_def Let_def)
qed

text \<open>
  A transmission that succeeds keeps the sizes of the buffers, whatever the handle was; the
  handle may be uninitialised when the device is not configured.
\<close>

lemma tx_header_length: "tx_header h cb = Inr (cb', off) \<Longrightarrow> length cb' = length cb"
  by (auto simp: tx_header_def U2BE_ENCODE_def res_bind_eq_Inr_iff mem_write_Inr_iff split: if_splits)

lemma LEDGER_PROTOCOL_tx_lengths:
  assumes "LEDGER_PROTOCOL_tx h b n = Inr h'"
  shows "length (tx_chunk_buffer h') = length (tx_chunk_buffer h)" "rx_apdu_buffer h' = rx_apdu_buffer h"
  using assms
  by (auto simp: LEDGER_PROTOCOL_tx_def tx_payload_def Let_def res_bind_eq_Inr_iff mem_write_Inr_iff
      mem_set_Inr_iff split: option.splits if_splits dest!: tx_header_length)

lemma hid_send_unconfigured:
  assumes inv: "usb_inv s" and st: "\<not> configured s"
    and r: "USBD_LEDGER_HID_send_packet p n t s = Inr (s', st')"
  shows "usb_inv s'"
proof (cases p)
  case None
  then show ?thesis using inv r by (simp add: USBD_LEDGER_HID_send_packet_def)
next
  case (Some b)
  then obtain h where h: "LEDGER_PROTOCOL_tx (protocol_data s) (Some b) n = Inr h" "s' = s\<lparr>protocol_data := h\<rparr>"
    using r st by (auto simp: USBD_LEDGER_HID_send_packet_def configured_def res_bind_eq_Inr_iff)
  then show ?thesis
    using inv st LEDGER_PROTOCOL_tx_lengths [OF h(1)]
    by (auto simp: usb_inv_def device_ok_def buffers_ok_def states_ok_def configured_def)
qed

lemma hid_send_inv:
  assumes inv: "usb_inv s" and p: "\<And>b. p = Some b \<Longrightarrow> unat n \<le> length b"
    and r: "USBD_LEDGER_HID_send_packet p n t s = Inr (s', st)"
  shows "usb_inv s'"
proof (cases "configured s \<and> p \<noteq> None")
  case True
  then obtain b where b: "p = Some b" by blast
  have "hid_ok s" using True inv by (simp add: usb_inv_def config_ok_def)
  then show ?thesis using hid_send_packet_safe [OF inv _ p [OF b], of t] r by (simp add: b safe_def)
next
  case False
  then show ?thesis
    using inv r hid_send_unconfigured [OF inv _ r]
    by (cases p) (auto simp: USBD_LEDGER_HID_send_packet_def)
qed

lemma hid_data_ready_inv:
  assumes "usb_inv s" and "USBD_LEDGER_HID_data_ready b n s = Inr (s', b', st)"
  shows "usb_inv s'"
proof -
  have "handle_same h (h\<lparr>rx_apdu_status := x\<rparr>)" for h x by (simp add: handle_same_def)
  then have "hid_ok s \<Longrightarrow> hid_ok (s\<lparr>protocol_data := (protocol_data s)\<lparr>rx_apdu_status := x\<rparr>, seph_out := seph_out s\<rparr>)" for x
    by (rule handle_same_hid_ok)
  then have "usb_inv (s\<lparr>protocol_data := (protocol_data s)\<lparr>rx_apdu_status := x\<rparr>, seph_out := seph_out s\<rparr>)" for x
    using assms(1) by (intro usb_inv_handle) (simp_all add: usb_inv_def device_ok_def buffers_ok_def)
  then show ?thesis
    using assms by (auto simp: USBD_LEDGER_HID_data_ready_def Let_def res_bind_eq_Inr_iff split: option.splits if_splits)
qed

section \<open>Stages\<close>

lemma configured_hid_ok:
  "usb_inv s \<Longrightarrow> dev_state s = USBD_STATE_CONFIGURED \<Longrightarrow> hid_ok s"
  by (simp add: usb_inv_def configured_def config_ok_def)

lemma ledger_data_in_safe:
  assumes inv: "usb_inv s" and st: "dev_state s = USBD_STATE_CONFIGURED"
  shows "safe (ledger_data_in ep s)"
  using usb_inv_parts(4) [OF inv] hid_data_in_safe [OF inv] configured_hid_ok [OF inv st] inv
  by (auto simp: ledger_data_in_def intro!: safe_bind(2))

lemma ep0_data_in_inv:
  assumes inv: "usb_inv s" and r: "ep0_data_in s = Inr s'"
  shows "usb_inv s'"
proof -
  have l: "length (ep_in s) = 6" by (rule usb_inv_lengths(1) [OF inv])
  have cont: "usb_inv u'" if "USBD_CtlContinueSendData pb n u = Inr u'" "usb_inv u" for pb n and u u' :: usbd
  proof (rule ctl_step_inv [OF _ that(2)])
    show "ctl_step u u'" using that(1)
      by (auto simp: USBD_CtlContinueSendData_def res_bind_eq_Inr_iff USBD_LL_Transmit_def ctl_step_def
          ctl_core_def seph_tx_def Let_def split: if_splits)
  qed
  have upd: "usb_inv (u\<lparr>ep_in := (ep_in u)[0 := x], pData := pb\<rparr>)" if "usb_inv u" for x pb and u :: usbd
    by (rule ctl_step_inv [OF _ that]) (simp add: ctl_step_def ctl_core_def tl_update_0)
  have len: "usb_inv (u\<lparr>ep0_data_len := n\<rparr>)" if "usb_inv u" for n and u :: usbd
    by (rule ctl_step_inv [OF _ that]) (simp add: ctl_step_def ctl_core_def)
  show ?thesis
    using r inv upd [OF inv] len l ctl_step_inv [OF ctl_step_ReceiveStatus inv]
    by (auto simp: ep0_data_in_def Let_def res_bind_eq_Inr_iff mem_get_Inr_iff upd_ep_in_def split: if_splits
        dest!: cont)
qed

lemma ledger_data_out_inv:
  assumes "usb_inv s" and "ledger_data_out ep s = Inr (s', st)"
  shows "usb_inv s'"
  using usb_inv_parts(4) [OF assms(1)] assms hid_data_out_inv [OF assms(1)]
  by (auto simp: ledger_data_out_def res_bind_eq_Inr_iff split: if_splits)

lemma data_stage_inv:
  assumes "usb_inv s"
  shows "USBD_LEDGER_rx_evt_data_in ep s = Inr s' \<Longrightarrow> usb_inv s'"
    and "USBD_LEDGER_rx_evt_data_out ep b n s = Inr s' \<Longrightarrow> usb_inv s'"
proof -
  show "USBD_LEDGER_rx_evt_data_in ep s = Inr s' \<Longrightarrow> usb_inv s'"
    using assms ledger_data_in_safe [OF assms, of ep] ep0_data_in_inv [OF assms]
    by (auto simp: USBD_LEDGER_rx_evt_data_in_def USBD_LL_DataInStage_def res_bind_eq_Inr_iff safe_def
        split: if_splits)
  assume out: "USBD_LEDGER_rx_evt_data_out ep b n s = Inr s'"
  then obtain ls bs st where u: "USBD_LL_DataOutStage ep (s\<lparr>usb_ep_xfer_len := ls, usb_ep_xfer_buffer := bs\<rparr>) = Inr (s', st)"
    "length ls = 6" "length bs = 6"
    using usb_inv_def device_ok_def buffers_ok_def assms
    by (auto simp: USBD_LEDGER_rx_evt_data_out_def res_bind_eq_Inr_iff mem_write_Inr_iff)
  let ?t = "s\<lparr>usb_ep_xfer_len := ls, usb_ep_xfer_buffer := bs\<rparr>"
  have t: "usb_inv ?t" using assms u(2,3) by (simp add: inv_defs)
  have "usb_inv u" if "upd_ep_out 0 (\<lambda>ep. ep\<lparr>ep_rem_length := r\<rparr>) ?t = Inr u" for r u
    using that upd_ep_0_safe(2) [OF t, of "\<lambda>ep. ep\<lparr>ep_rem_length := r\<rparr>"] by (auto simp: safe1_def)
  then show "usb_inv s'"
    using u(1) t ledger_data_out_inv [OF t] SendStatus_safe [OF t] ll_inv(3)
    by (auto simp: USBD_LL_DataOutStage_def USBD_CtlContinueRx_def Let_def res_bind_eq_Inr_iff safe1_def
        split: if_splits)
qed

section \<open>Start and restart\<close>

text \<open>The sizes of the static objects, and of the device handle once it has been cleared.\<close>

definition cold :: "usbd \<Rightarrow> bool" where
  "cold s \<longleftrightarrow> length (usbd_ledger_descriptor s) = 256 \<and> length (USBD_StrDesc s) = 48 \<and>
     length (tx_chunk_buffer (protocol_data s)) = 64 \<and> length (rx_apdu_buffer (protocol_data s)) = 273"

definition sized :: "usbd \<Rightarrow> bool" where
  "sized s \<longleftrightarrow> cold s \<and> length (ep_in s) = 6 \<and> length (ep_out s) = 6 \<and>
     length (usb_ep_xfer_len s) = 6 \<and> length (usb_ep_xfer_buffer s) = 6"

lemma usb_inv_sized: "usb_inv s \<Longrightarrow> sized s"
  by (simp add: usb_inv_def device_ok_def buffers_ok_def sized_def cold_def)

lemma usb_inv_init_data:
  "usb_inv s \<Longrightarrow> hid_selected i \<Longrightarrow> usb_inv (s\<lparr>init_data := i\<rparr>)"
  by (simp add: inv_defs)

lemma usb_inv_running:
  "usb_inv s \<Longrightarrow> usb_inv ((fst (USBD_Start s))\<lparr>ledger_state := st\<rparr>)"
  "usb_inv s \<Longrightarrow> usb_inv (USB_LEDGER_stop s)"
  by (simp_all add: inv_defs USBD_Start_def USBD_LL_Start_def USB_LEDGER_stop_def USBD_Stop_def USBD_LL_Stop_def
      seph_tx_def)

lemma ledger_configure_ok:
  assumes "sized s" and "hid_selected (init_data s)"
  shows "\<exists>s'. ledger_configure s = Inr s' \<and> usb_inv s' \<and> dev_state s' = USBD_STATE_DEFAULT \<and>
    ledger_state s' \<noteq> USBD_LEDGER_STATE_RUNNING"
proof -
  define u where "u = (if ledger_state s = USBD_LEDGER_STATE_RUNNING then USB_LEDGER_stop s else s)"
  define i where "i = init_data u"
  have u: "sized u" "hid_selected i" "ledger_state u \<noteq> USBD_LEDGER_STATE_RUNNING"
    using assms by (simp_all add: u_def i_def sized_def cold_def USB_LEDGER_stop_def USBD_Stop_def USBD_LL_Stop_def
        seph_tx_def)
  define w where "w = u\<lparr>ledger_bcdusb := 0, ledger_iad := 0, ledger_name := take 19 (init_name i),
      ledger_vid := (if init_vid i \<noteq> 0 then init_vid i else 0x2C97),
      ledger_pid := (if init_pid i \<noteq> 0 then init_pid i else ledger_product u),
      class_list := [USBD_LEDGER_HID_class_info], classes := init_class_mask i\<rparr>"
  define v where "v = (USBD_Init 0 (USBD_DESC_init (ledger_vid w) (ledger_pid w) 0 0 w))\<lparr>pClass := True\<rparr>"
  define d where "d = hid_configuration @ replicate 215 (0::u8)"
  let ?v = "v\<lparr>usbd_ledger_descriptor := d, usbd_ledger_descriptor_size := 41, pConfDesc := Some d\<rparr>"
  have v: "class_list v = [USBD_LEDGER_HID_class_info]" "length (usbd_ledger_descriptor v) = 256"
    using u by (simp_all add: v_def w_def USBD_Init_def USBD_LL_Init_def USBD_DESC_init_def sized_def cold_def)
  have "ledger_configure s = USBD_RegisterClass (USBD_Init 0 (USBD_DESC_init (ledger_vid w) (ledger_pid w) 0 0 w))"
    unfolding ledger_configure_def Let_def u_def [symmetric] i_def [symmetric] if_P [OF u(2) [unfolded hid_selected_def]]
    by (simp add: w_def push_class_def USBD_MAX_NUM_INTERFACES_def)
  also have "\<dots> = Inr ?v"
    using forge_configuration_descriptor_hid [OF v(2,1)]
    by (simp add: USBD_RegisterClass_def get_cfg_desc_def v_def d_def)
  finally have c: "ledger_configure s = Inr ?v" .
  have "length d = 256" by (simp add: d_def)
  then have "usb_inv ?v" "dev_state ?v = USBD_STATE_DEFAULT" "ledger_state ?v \<noteq> USBD_LEDGER_STATE_RUNNING"
    using u
    by (simp_all add: inv_defs known_state_def sized_def cold_def v_def w_def USBD_Init_def USBD_LL_Init_def
        USBD_DESC_init_def i_def)
  then show ?thesis using c by blast
qed

lemma class_mask_hid:
  "(m::u16) AND 1 \<noteq> 0 \<Longrightarrow>
   m AND NOT 0x0002 AND NOT 0x0004 AND NOT 0x0008 AND NOT 0x0010 AND NOT 0x0060 AND 1 \<noteq> 0"
proof -
  assume "m AND 1 \<noteq> 0"
  moreover have "m AND NOT 0x0002 AND NOT 0x0004 AND NOT 0x0008 AND NOT 0x0010 AND NOT 0x0060 AND 1 = m AND 1"
    by (simp add: and.assoc)
  ultimately show ?thesis by simp
qed

lemma start_inv:
  assumes s: "sized s" "hid_selected (init_data s)" and old: "usb_inv s \<or> classes s = 0"
  shows "\<exists>s'. USBD_LEDGER_start s = Inr s' \<and> usb_inv s' \<and>
    (classes s = 0 \<longrightarrow> dev_state s' = USBD_STATE_DEFAULT)"
proof -
  define mk where "mk = init_class_mask (init_data s) AND NOT 0x0002 AND NOT 0x0004 AND NOT 0x0008 AND NOT 0x0010 AND NOT 0x0060"
  have mk1: "mk AND 1 \<noteq> 0"
    using class_mask_hid [OF s(2) [unfolded hid_selected_def]] by (simp add: mk_def and.assoc)
  then have mk: "mk AND 1 \<noteq> 0" "mk \<noteq> 0" by auto
  define u where "u = s\<lparr>init_data := (init_data s)\<lparr>init_class_mask := mk\<rparr>\<rparr>"
  have u: "sized u" "hid_selected (init_data u)" "classes u = classes s"
    using s(1) mk(1) by (simp_all add: u_def sized_def cold_def hid_selected_def)
  have iu: "usb_inv s \<Longrightarrow> usb_inv u" using mk(1) by (simp add: u_def usb_inv_init_data hid_selected_def)
  let ?c = "ledger_state u = USBD_LEDGER_STATE_INITIALIZED \<or> classes u \<noteq> mk \<or>
      (init_vid (init_data s) \<noteq> 0 \<and> ledger_vid u \<noteq> init_vid (init_data s))"
  obtain v where v: "(if ?c then ledger_configure u else Inr u) = Inr v" "usb_inv v"
    "classes s = 0 \<Longrightarrow> dev_state v = USBD_STATE_DEFAULT"
    using ledger_configure_ok [OF u(1,2)] u(3) mk(2) old iu by (cases ?c) auto
  have "dev_state (fst (USBD_Start v)) = dev_state v" by (simp add: USBD_Start_def USBD_LL_Start_def seph_tx_def)
  then show ?thesis
    unfolding USBD_LEDGER_start_def Let_def mk_def [symmetric] u_def [symmetric] v(1) res_bind_simps
    using v(2,3) usb_inv_running(1) [OF v(2)] by simp
qed

lemma zero_ledger_data_sized:
  "cold s \<Longrightarrow> sized (zero_ledger_data s)" "classes (zero_ledger_data s) = 0"
  by (simp_all add: sized_def cold_def zero_ledger_data_def IO_USB_MAX_ENDPOINTS_def)

lemma restart_inv:
  assumes i: "hid_selected i"
    and old: "usb_inv s \<or> cold s \<and> (force \<or> ledger_state s = USBD_LEDGER_STATE_ZERO)"
  shows "\<exists>s'. USBD_LEDGER_start (USBD_LEDGER_init (Some i) force s) = Inr s' \<and> usb_inv s' \<and>
    (force \<or> ledger_state s = USBD_LEDGER_STATE_ZERO \<longrightarrow> dev_state s' = USBD_STATE_DEFAULT)"
proof (cases "force \<or> ledger_state s = USBD_LEDGER_STATE_ZERO")
  case True
  have "cold s" using old usb_inv_sized by (auto simp: sized_def)
  then have "sized ((zero_ledger_data s)\<lparr>ledger_state := st, init_data := i\<rparr>)" for st
    using zero_ledger_data_sized(1) [of s] by (simp add: sized_def cold_def)
  then show ?thesis
    using True i zero_ledger_data_sized(2) [of s]
      start_inv [of "(zero_ledger_data s)\<lparr>ledger_state := USBD_LEDGER_STATE_STOPPED, init_data := i\<rparr>"]
    by (simp add: USBD_LEDGER_init_def)
next
  case False
  then have "usb_inv (s\<lparr>init_data := i\<rparr>)" using old i by (auto intro: usb_inv_init_data)
  then show ?thesis
    using False i start_inv [OF usb_inv_sized, of "s\<lparr>init_data := i\<rparr>"] by (auto simp: USBD_LEDGER_init_def)
qed

section \<open>The device as a state machine\<close>

text \<open>
  The events of the bus in any state of the device, and the calls of the application: sending a
  buffer of at least the given length, collecting an APDU, stopping, starting again, and
  initialising anew with the HID class selected. Initialising and starting are one step:
  \<open>os_io_init\<close> and \<open>os_io_start\<close> are called one after the other. An operation that leaves its
  buffers has no successor state. \<open>USBD_LEDGER_add_profile\<close>, \<open>USBD_DeInit\<close> and
  \<open>USBD_LL_DevDisconnected\<close> have no caller in the program and are not steps.
\<close>

inductive usb_step :: "usbd \<Rightarrow> usbd \<Rightarrow> bool" where
  reset: "USBD_LEDGER_rx_evt_reset s = Inr s' \<Longrightarrow> usb_step s s'"
| suspend: "usb_step s (USBD_LL_Suspend s)"
| resume: "usb_step s (USBD_LL_Resume s)"
| sof: "usb_step s (fst (USBD_LL_SOF s))"
| setup_packet: "USBD_LEDGER_rx_evt_setup d s = Inr s' \<Longrightarrow> usb_step s s'"
| data_in: "USBD_LEDGER_rx_evt_data_in ep s = Inr s' \<Longrightarrow> usb_step s s'"
| data_out: "USBD_LEDGER_rx_evt_data_out ep b n s = Inr s' \<Longrightarrow> usb_step s s'"
| send: "(\<And>p. buf = Some p \<Longrightarrow> unat n \<le> length p) \<Longrightarrow>
    USBD_LEDGER_send ty buf n tmo s = Inr (s', st) \<Longrightarrow> usb_step s s'"
| ready: "USBD_LEDGER_data_ready b n s = Inr (s', b', r) \<Longrightarrow> usb_step s s'"
| stop: "usb_step s (USB_LEDGER_stop s)"
| start: "USBD_LEDGER_start s = Inr s' \<Longrightarrow> usb_step s s'"
| restart: "hid_selected i \<Longrightarrow> USBD_LEDGER_start (USBD_LEDGER_init (Some i) force s) = Inr s' \<Longrightarrow> usb_step s s'"

inductive_cases usb_stepE: "usb_step s s'"

inductive usb_steps :: "usbd \<Rightarrow> usbd \<Rightarrow> bool" where
  steps_refl: "usb_steps s s"
| steps_step: "usb_steps s t \<Longrightarrow> usb_step t u \<Longrightarrow> usb_steps s u"

text \<open>
  The states of a device that is first started with the HID class: the static objects have their
  sizes, the device handle is whatever \<open>USBD_LEDGER_init\<close> clears.
\<close>

definition usb_reachable :: "usbd \<Rightarrow> bool" where
  "usb_reachable s \<longleftrightarrow> (\<exists>s0 i s1. cold s0 \<and> hid_selected i \<and>
     USBD_LEDGER_start (USBD_LEDGER_init (Some i) True s0) = Inr s1 \<and> usb_steps s1 s)"

lemma bad_ep_status_inv:
  assumes "usb_inv s" and "USBD_LL_SetupStage d s = Inr (s', st)"
  shows "usb_inv s'"
proof -
  obtain req where req: "USBD_ParseSetupRequest d = Inr req"
    using assms(2) by (auto simp: USBD_LL_SetupStage_def res_bind_eq_Inr_iff)
  show ?thesis
  proof (cases "bad_ep_status req")
    case False
    then show ?thesis using setup_stage_safe [OF assms(1) req] assms(2) by (auto simp: safe_def)
  next
    case True
    let ?s = "s\<lparr>request := req, ep0_state := USBD_EP0_SETUP, ep0_data_len := ucast (wLength req)\<rparr>"
    let ?ep = "ucast (wIndex req) :: u8"
    have s: "usb_inv ?s" using assms(1) by simp
    have "USBD_StdEPReq req ?s = Inr (s', st)"
      using assms(2) req True by (simp add: USBD_LL_SetupStage_def bad_ep_status_def Let_def)
    then have g: "ep_get_status ?ep ?s = Inr s'"
      using True by (auto simp: USBD_StdEPReq_def bad_ep_status_def Let_def res_bind_eq_Inr_iff)
    have "\<nexists>t. set_ep_status ?ep v ?s = Inr t" for v
      using True usb_inv_lengths [OF s]
      by (auto simp: set_ep_status_def upd_ep_in_def upd_ep_out_def bad_ep_status_def res_bind_eq_Inr_iff
          split: if_splits)
    then have "s' = USBD_CtlError ?s"
      using g by (auto simp: ep_get_status_def res_bind_eq_Inr_iff split: if_splits)
    then show ?thesis using s by simp
  qed
qed

lemma usb_step_inv: "usb_step s s' \<Longrightarrow> usb_inv s \<Longrightarrow> usb_inv s'"
proof (induction rule: usb_step.induct)
  case (reset s s')
  then show ?case using USBD_LL_Reset_safe [of s] by (auto simp: safe1_def)
next
  case (setup_packet d s s')
  then show ?case using bad_ep_status_inv
    by (auto simp: USBD_LEDGER_rx_evt_setup_def res_bind_eq_Inr_iff)
next
  case (send buf n ty tmo s s' st)
  have "USBD_LEDGER_HID_send_packet buf n tmo s = Inr (t, st') \<Longrightarrow> usb_inv t" for t st'
    by (rule hid_send_inv [OF send(3,1)])
  then show ?case
    using usb_inv_parts(4) [OF send(3)] send(2,3)
    by (auto simp: USBD_LEDGER_send_def res_bind_eq_Inr_iff split: if_splits)
next
  case (ready b n s s' b' r)
  then show ?case
    using usb_inv_parts(4) [of s] hid_data_ready_inv [of s]
    by (auto simp: USBD_LEDGER_data_ready_def res_bind_eq_Inr_iff split: if_splits)
next
  case (suspend s)
  then show ?case by (rule Suspend_Resume_inv(1))
next
  case (resume s)
  then show ?case by (rule Suspend_Resume_inv(2))
next
  case (sof s)
  then show ?case by (simp add: USBD_LL_SOF_def)
next
  case (data_in ep s s')
  from data_in(2,1) show ?case by (rule data_stage_inv(1))
next
  case (data_out ep b n s s')
  from data_out(2,1) show ?case by (rule data_stage_inv(2))
next
  case (stop s)
  then show ?case by (rule usb_inv_running(2))
next
  case (start s s')
  then show ?case
    using start_inv [OF usb_inv_sized, of s] by (auto simp: usb_inv_def device_ok_def)
next
  case (restart i force s s')
  then show ?case using restart_inv [of i s force] by auto
qed

lemma usb_steps_inv: "usb_steps s s' \<Longrightarrow> usb_inv s \<Longrightarrow> usb_inv s'"
  by (induction rule: usb_steps.induct) (auto dest: usb_step_inv)

lemma usb_reachable_usb_inv: "usb_reachable s \<Longrightarrow> usb_inv s"
  using restart_inv [where force = True] usb_steps_inv by (fastforce simp: usb_reachable_def)

definition cold_device :: usbd where
  "cold_device =
     \<lparr>ep_in_stall_status = 0, ep_out_stall_status = 0, tx_times_out = False, seph_out = [],
      dev_id = 0, dev_config = 0, dev_default_config = 0, dev_config_status = 0, dev_speed = USBD_SPEED_HIGH,
      ep_in = replicate 6 zero_endpoint, ep_out = replicate 6 zero_endpoint, ep0_state = USBD_EP0_IDLE,
      ep0_data_len = 0, dev_state = 0, dev_old_state = 0, dev_address = 0, dev_remote_wakeup = 0,
      request = \<lparr>bmRequest = 0, bRequest = 0, wValue = 0, wIndex = 0, wLength = 0\<rparr>,
      pDesc = False, pClass = False, pClassData = False, pData = None, pConfDesc = None,
      hid_protocol = 0, hid_idle_state = 0, hid_alt_setting = 0, hid_state = LEDGER_HID_STATE_IDLE,
      protocol_data = (small_handle 273)\<lparr>tx_chunk_buffer := replicate 64 0\<rparr>,
      ledger_state = USBD_LEDGER_STATE_ZERO, ledger_product = 0, ledger_vid = 0, ledger_pid = 0,
      ledger_name = [], ledger_bcdusb = 0, ledger_iad = 0, class_list = [], classes = 0,
      usb_ep_xfer_len = replicate 6 0, usb_ep_xfer_buffer = replicate 6 None,
      init_data = \<lparr>init_pid = 0, init_vid = 0, init_name = [], init_class_mask = 0\<rparr>,
      usbd_ledger_descriptor = replicate 256 0, usbd_ledger_descriptor_size = 0,
      desc_bcdusb = 0, desc_vid = 0, desc_pid = 0, desc_product_str = False, desc_iad = 0, desc_bos = False,
      USBD_StrDesc = replicate 48 0\<rparr>"

definition hid_only :: os_io_init_usb where
  "hid_only = \<lparr>init_pid = 0, init_vid = 0, init_name = [0x4C], init_class_mask = USBD_LEDGER_CLASS_HID\<rparr>"

definition started :: "usbd \<Rightarrow> bool" where
  "started s \<longleftrightarrow> USBD_LEDGER_start (USBD_LEDGER_init (Some hid_only) True cold_device) = Inr s"

lemma cold_started: "cold cold_device" "hid_selected hid_only"
  by (simp_all add: cold_def cold_device_def small_handle_def hid_only_def hid_selected_def)

lemma started_reachable: "started s \<Longrightarrow> usb_reachable s"
  using cold_started steps_refl unfolding started_def usb_reachable_def by blast

lemma started_ex: "\<exists>s. started s \<and> usb_inv s \<and> dev_state s = USBD_STATE_DEFAULT"
  using restart_inv [OF cold_started(2), of cold_device True] cold_started(1) by (auto simp: started_def)

section \<open>Properties\<close>

text \<open>
  Property C30: whatever events the bus brings to a device started with the HID class, in whatever
  order and also while the device is suspended, and whatever is sent, collected, stopped and
  restarted in between, all buffers keep their sizes and the HID class stays registered. A device
  in the configured state has configuration 1 and an initialised protocol handle, and its end
  points are marked as open as long as \<open>pClassData\<close> is set.
\<close>

theorem usb_reachable_inv:
  assumes "usb_reachable s"
  shows "buffers_ok s \<and> pClass s \<and> pDesc s \<and> class_list s = [USBD_LEDGER_HID_class_info] \<and>
    (dev_state s = USBD_STATE_CONFIGURED \<longrightarrow> dev_config s = 1 \<and> hid_ok s \<and> (pClassData s \<longrightarrow> hid_open s))"
  using usb_reachable_usb_inv [OF assms]
  by (simp add: usb_inv_def device_ok_def configured_def config_ok_def)

theorem usb_reachable_inv_witness:
  "\<exists>s. started s \<and> buffers_ok (USBD_LL_Suspend s) \<and> class_list (USBD_LL_Suspend s) = [USBD_LEDGER_HID_class_info]"
proof -
  obtain s where s: "started s" using started_ex by blast
  have "usb_steps s (USBD_LL_Suspend s)" by (rule steps_step [OF steps_refl suspend])
  then have "usb_reachable (USBD_LL_Suspend s)"
    using cold_started s unfolding usb_reachable_def started_def by blast
  then show ?thesis using usb_reachable_inv s by blast
qed

text \<open>
  Property C31: in every reachable state of the device, suspended ones included, a set-up packet
  of at least 8 bytes is handled without an access outside any buffer and without a call through a
  null pointer, unless it asks for the status of an end point number of 6 or more.
\<close>

theorem setup_memory_safe:
  assumes "usb_reachable s" and "USBD_ParseSetupRequest d = Inr req" and "\<not> bad_ep_status req"
  shows "\<exists>s'. USBD_LEDGER_rx_evt_setup d s = Inr s' \<and> usb_reachable s'"
proof -
  obtain s' where s': "USBD_LEDGER_rx_evt_setup d s = Inr s'"
    using setup_stage_safe [OF usb_reachable_usb_inv [OF assms(1)] assms(2,3)]
    by (auto simp: USBD_LEDGER_rx_evt_setup_def safe_def)
  then show ?thesis
    using assms(1) steps_step [OF _ setup_packet] unfolding usb_reachable_def by blast
qed

theorem setup_memory_safe_witness:
  "\<exists>s s'. started s \<and>
    USBD_LEDGER_rx_evt_setup [0x80, 0x06, 0x00, 0x01, 0, 0, 0x12, 0] s = Inr s' \<and> usb_reachable s'"
proof -
  obtain s where s: "started s" using started_ex by blast
  let ?d = "[0x80, 0x06, 0x00, 0x01, 0, 0, 0x12, 0] :: bytes"
  let ?r = "\<lparr>bmRequest = 0x80, bRequest = 0x06, wValue = 0x0100, wIndex = 0, wLength = 0x12\<rparr>"
  have "USBD_ParseSetupRequest ?d = Inr ?r" by (simp add: USBD_ParseSetupRequest_def mem_read_def)
  then show ?thesis
    using setup_memory_safe [OF started_reachable [OF s], of ?d ?r] s by (auto simp: bad_ep_status_def)
qed

text \<open>
  A \<open>SET_CONFIGURATION\<close> that arrives while a configured device is suspended is answered with a
  stall, but closes the end points of the class. The resume restores the configured state, in
  which selecting configuration 1 again is acknowledged and opens nothing.
\<close>

theorem set_config_while_suspended:
  assumes inv: "usb_inv s" and st: "dev_state s = USBD_STATE_CONFIGURED"
  shows "\<exists>s1 s2. USBD_LEDGER_rx_evt_setup [0x00, 0x09, 1, 0, 0, 0, 0, 0] (USBD_LL_Suspend s) = Inr s1 \<and>
    dev_state (USBD_LL_Resume s1) = USBD_STATE_CONFIGURED \<and> \<not> pClassData (USBD_LL_Resume s1) \<and>
    USBD_LEDGER_rx_evt_setup [0x00, 0x09, 1, 0, 0, 0, 0, 0] (USBD_LL_Resume s1) = Inr s2 \<and> \<not> pClassData s2"
proof -
  let ?req = "\<lparr>bmRequest = 0, bRequest = 9, wValue = 1, wIndex = 0, wLength = 0\<rparr>"
  let ?f = "\<lambda>s :: usbd. s\<lparr>request := ?req, ep0_state := USBD_EP0_SETUP, ep0_data_len := 0\<rparr>"
  have p: "USBD_ParseSetupRequest [0x00, 0x09, 1, 0, 0, 0, 0, 0] = Inr ?req"
    by (simp add: USBD_ParseSetupRequest_def mem_read_def numeral_eq_Suc)
  let ?e = "USBD_CtlError (?f (USBD_LL_Suspend s))"
  have e: "usb_inv ?e" using Suspend_Resume_inv(1) [OF inv] by simp
  have ef: "dev_state ?e = USBD_STATE_SUSPENDED" "dev_old_state ?e = USBD_STATE_CONFIGURED" "dev_config ?e = 1"
    using ctl_step_fields(1-3) [OF ctl_step_CtlError, of "?f (USBD_LL_Suspend s)"] inv st
    by (simp_all add: USBD_LL_Suspend_def usb_inv_def configured_def config_ok_def)
  obtain t where t: "USBD_ClrClassConfig ?e = Inr t" "same_device ?e t" "\<not> pClassData t"
    using ClrClassConfig_ok e by (auto simp: usb_inv_def)
  have 1: "USBD_LEDGER_rx_evt_setup [0x00, 0x09, 1, 0, 0, 0, 0, 0] (USBD_LL_Suspend s) = Inr t"
    using t(1) by (simp add: USBD_LEDGER_rx_evt_setup_def USBD_LL_SetupStage_def p USBD_StdDevReq_def USBD_SetConfig_def
        USBD_LL_Suspend_def Let_def)
  have r: "dev_state (USBD_LL_Resume t) = USBD_STATE_CONFIGURED" "dev_config (USBD_LL_Resume t) = 1"
    "\<not> pClassData (USBD_LL_Resume t)"
    using t(2,3) ef by (simp_all add: USBD_LL_Resume_def same_device_def)
  obtain u where u: "USBD_CtlSendStatus (?f (USBD_LL_Resume t)) = Inr u" "ctl_step (?f (USBD_LL_Resume t)) u"
    using USBD_CtlSendStatus_step by blast
  have "USBD_LEDGER_rx_evt_setup [0x00, 0x09, 1, 0, 0, 0, 0, 0] (USBD_LL_Resume t) = Inr u"
    using u(1) r by (simp add: USBD_LEDGER_rx_evt_setup_def USBD_LL_SetupStage_def p USBD_StdDevReq_def USBD_SetConfig_def
        set_config_configured_def Let_def)
  moreover have "\<not> pClassData u" using ctl_step_fields(6) [OF u(2)] r(3) by simp
  ultimately show ?thesis using 1 r by blast
qed

text \<open>
  In the configured state the index of an end point status request is not checked
  against the six entries of the tables: for an end point number whose low four bits are 6 or
  more the handler reads outside of them.
\<close>

theorem ep_status_out_of_bounds:
  assumes "usb_inv s" and "dev_state s = USBD_STATE_CONFIGURED"
    and "USBD_ParseSetupRequest d = Inr req"
    and "bmRequest req = 0x82" "bRequest req = USB_REQ_GET_STATUS"
    and "6 \<le> unat ((ucast (wIndex req) :: u8) AND 0xF)"
  shows "USBD_LEDGER_rx_evt_setup d s = Inl Oob"
  using assms usb_inv_lengths [OF assms(1)]
  by (simp add: USBD_LEDGER_rx_evt_setup_def USBD_LL_SetupStage_def USBD_StdEPReq_def ep_get_status_def
      mem_get_def Let_def)

text \<open>Reset, then an address, then configuration 1.\<close>

definition status_packets :: "bytes list" where
  "status_packets = [transmit_header 0 0, []]"

lemma CtlSendStatus_eq:
  "USBD_CtlSendStatus s = Inr (s\<lparr>ep0_state := USBD_EP0_STATUS_IN, seph_out := seph_out s @ status_packets\<rparr>)"
  by (simp add: USBD_CtlSendStatus_def USBD_LL_Transmit_def ep_num_def mem_arg_def seph_tx_def status_packets_def)

lemma OpenEP_out:
  "ep_num a < 8 \<Longrightarrow> seph_out (fst (USBD_LL_OpenEP a ty 64 s)) = seph_out s @ [open_packet (ep_type_tag ty) a]"
  by (simp add: USBD_LL_OpenEP_def seph_tx_def open_packet_def)

lemma reset_default:
  assumes inv: "usb_inv s"
  shows "\<exists>s' pre. USBD_LEDGER_rx_evt_reset s = Inr s' \<and> usb_inv s' \<and> dev_state s' = USBD_STATE_DEFAULT \<and>
    seph_out s' = pre @ [open_packet 1 0x00, open_packet 1 0x80]"
proof -
  let ?s = "(USBD_LL_SetSpeed USBD_SPEED_FULL s)\<lparr>dev_state := USBD_STATE_DEFAULT, ep0_state := USBD_EP0_IDLE,
    dev_config := 0, dev_remote_wakeup := 0\<rparr>"
  let ?r = "if pClassData ?s \<and> pClass ?s then res_bind (ledger_de_init ?s) (\<lambda>(s, _). Inr s) else Inr ?s"
  have d: "device_ok ?s" using inv by (simp add: usb_inv_def device_ok_def buffers_ok_def USBD_LL_SetSpeed_def)
  have upd: "upd_ep_in i f t = Inr t' \<Longrightarrow> dev_state t' = dev_state t \<and> seph_out t' = seph_out t"
    "upd_ep_out i f t = Inr t' \<Longrightarrow> dev_state t' = dev_state t \<and> seph_out t' = seph_out t" for i f and t t' :: usbd
    by (auto simp: upd_ep_in_def upd_ep_out_def split: if_splits)
  have op: "dev_state (fst (USBD_LL_OpenEP a b c t)) = dev_state t" for a b c and t :: usbd
    by (rule ctl_step_fields(1) [OF ctl_step_ll(3)])
  have n: "ep_num 0 < 8" "ep_num 0x80 < 8" "ep_type_tag USBD_EP_TYPE_CTRL = 1"
    by (simp_all add: ep_num_def ep_type_tag_def)
  obtain s' where s': "USBD_LEDGER_rx_evt_reset s = Inr s'" "usb_inv s'"
    using USBD_LL_Reset_safe [OF inv] by (auto simp: safe1_def)
  then obtain t u where t: "?r = Inr t"
    "upd_ep_out 0 (\<lambda>ep. ep\<lparr>ep_is_used := 1, ep_maxpacket := 64\<rparr>) (fst (USBD_LL_OpenEP 0x00 USBD_EP_TYPE_CTRL 64 t)) = Inr u"
    "upd_ep_in 0 (\<lambda>ep. ep\<lparr>ep_is_used := 1, ep_maxpacket := 64\<rparr>) (fst (USBD_LL_OpenEP 0x80 USBD_EP_TYPE_CTRL 64 u)) = Inr s'"
    unfolding USBD_LEDGER_rx_evt_reset_def USBD_LL_Reset_def Let_def res_bind_eq_Inr_iff by blast
  have "dev_state t = USBD_STATE_DEFAULT"
    using t(1) ledger_de_init_ok [OF d] by (auto simp: same_device_def split: if_splits)
  then have "dev_state s' = USBD_STATE_DEFAULT" "seph_out s' = seph_out t @ [open_packet 1 0x00, open_packet 1 0x80]"
    using upd(2) [OF t(2)] upd(1) [OF t(3)] by (simp_all add: op OpenEP_out n)
  then show ?thesis using s' by blast
qed

lemma set_address_addressed:
  assumes inv: "usb_inv s" and st: "dev_state s = USBD_STATE_DEFAULT" and a: "0 < a" "a < 128"
  shows "\<exists>s'. USBD_LEDGER_rx_evt_setup [0x00, 0x05, a, 0, 0, 0, 0, 0] s = Inr s' \<and> usb_inv s' \<and>
    dev_state s' = USBD_STATE_ADDRESSED \<and> dev_address s' = a \<and> seph_out s' = seph_out s @
      [[SEPROXYHAL_TAG_USB_CONFIG, 0, 2, SEPROXYHAL_TAG_USB_CONFIG_ADDR, a]] @ status_packets"
proof -
  let ?req = "\<lparr>bmRequest = 0, bRequest = 5, wValue = ucast a, wIndex = 0, wLength = 0\<rparr>"
  let ?s = "s\<lparr>request := ?req, ep0_state := USBD_EP0_SETUP, ep0_data_len := 0\<rparr>"
  have p: "USBD_ParseSetupRequest [0x00, 0x05, a, 0, 0, 0, 0, 0] = Inr ?req"
    by (simp add: USBD_ParseSetupRequest_def mem_read_def numeral_eq_Suc)
  have "unat (ucast a :: u16) = unat a" using u8_less_256 [of a] by (simp add: unsigned_ucast_eq take_bit_nat_eq_self)
  then have lt: "(ucast a :: u16) < 128" using a(2) by (simp add: word_less_nat_alt)
  have m: "(0x7F::u8) = mask 7" by (simp add: mask_eq_exp_minus_1)
  have "take_bit 7 a = a" using a(2)
    by (simp add: word_unat_eq_iff unsigned_take_bit_eq take_bit_nat_eq_self word_less_nat_alt)
  moreover have "ucast (ucast a :: u16) = a" by (rule byte_eqI) (simp add: bit_simps)
  ultimately have am: "ucast (ucast a :: u16) AND 0x7F = a" unfolding m by (simp add: take_bit_eq_mask [symmetric])
  obtain s' where s': "USBD_LEDGER_rx_evt_setup [0x00, 0x05, a, 0, 0, 0, 0, 0] s = Inr s'" "usb_inv s'"
    using setup_stage_safe [OF inv p] by (auto simp: USBD_LEDGER_rx_evt_setup_def safe_def bad_ep_status_def)
  moreover have "dev_state s' = USBD_STATE_ADDRESSED \<and> dev_address s' = a \<and> seph_out s' = seph_out s @
      [[SEPROXYHAL_TAG_USB_CONFIG, 0, 2, SEPROXYHAL_TAG_USB_CONFIG_ADDR, a]] @ status_packets"
    using s'(1) st lt a(1) am
    by (auto simp: USBD_LEDGER_rx_evt_setup_def USBD_LL_SetupStage_def p USBD_StdDevReq_def USBD_SetAddress_def
        Let_def res_bind_eq_Inr_iff CtlSendStatus_eq USBD_LL_SetUSBAddress_def seph_tx_def)
  ultimately show ?thesis by blast
qed

lemma set_config_configures:
  assumes inv: "usb_inv s" and st: "dev_state s = USBD_STATE_ADDRESSED"
  shows "\<exists>s'. USBD_LEDGER_rx_evt_setup [0x00, 0x09, 1, 0, 0, 0, 0, 0] s = Inr s' \<and> usb_inv s' \<and>
    dev_state s' = USBD_STATE_CONFIGURED \<and> pClassData s' \<and>
    seph_out s' = seph_out s @ [open_packet 2 0x82, open_packet 2 0x02, rx_prepare] @ status_packets"
proof -
  let ?req = "\<lparr>bmRequest = 0, bRequest = 9, wValue = 1, wIndex = 0, wLength = 0\<rparr>"
  let ?s = "s\<lparr>request := ?req, ep0_state := USBD_EP0_SETUP, ep0_data_len := 0\<rparr>"
  have p: "USBD_ParseSetupRequest [0x00, 0x09, 1, 0, 0, 0, 0, 0] = Inr ?req"
    by (simp add: USBD_ParseSetupRequest_def mem_read_def numeral_eq_Suc)
  have "device_ok (?s\<lparr>dev_config := 1\<rparr>)" using inv by (simp add: usb_inv_def device_ok_def buffers_ok_def)
  then obtain t where t: "USBD_SetClassConfig (?s\<lparr>dev_config := 1\<rparr>) = Inr (t, USBD_OK)" "pClassData t"
    "seph_out t = seph_out ?s @ [open_packet 2 0x82, open_packet 2 0x02, rx_prepare]"
    using SetClassConfig_ok by fastforce
  obtain s' where s': "USBD_LEDGER_rx_evt_setup [0x00, 0x09, 1, 0, 0, 0, 0, 0] s = Inr s'" "usb_inv s'"
    using setup_stage_safe [OF inv p] by (auto simp: USBD_LEDGER_rx_evt_setup_def safe_def bad_ep_status_def)
  moreover have "dev_state s' = USBD_STATE_CONFIGURED \<and> pClassData s' \<and>
    seph_out s' = seph_out s @ [open_packet 2 0x82, open_packet 2 0x02, rx_prepare] @ status_packets"
    using s'(1) st t
    by (auto simp: USBD_LEDGER_rx_evt_setup_def USBD_LL_SetupStage_def p USBD_StdDevReq_def USBD_SetConfig_def
        set_config_addressed_def Let_def CtlSendStatus_eq)
  ultimately show ?thesis by blast
qed

text \<open>
  Property C9: enumeration succeeds from every reachable state of the device. A reset opens both
  directions of the control end point; the address \<open>a\<close> is taken over and passed to the driver;
  selecting configuration 1 leads to the configured state, sends the driver the two packets that
  open the interrupt end points \<open>0x82\<close> and \<open>0x02\<close> of the HID class and the packet that prepares
  the first reception, marks both end points as open and initialises the protocol handle. The
  packets of each of the last two requests are given in full and in order.
\<close>

theorem enumeration_configures:
  assumes "usb_reachable s" and "0 < a" and "a < 128"
  shows "\<exists>s1 s2 s3 pre. USBD_LEDGER_rx_evt_reset s = Inr s1 \<and>
    seph_out s1 = pre @ [open_packet 1 0x00, open_packet 1 0x80] \<and>
    USBD_LEDGER_rx_evt_setup [0x00, 0x05, a, 0, 0, 0, 0, 0] s1 = Inr s2 \<and> dev_address s2 = a \<and>
    seph_out s2 = seph_out s1 @
      [[SEPROXYHAL_TAG_USB_CONFIG, 0, 2, SEPROXYHAL_TAG_USB_CONFIG_ADDR, a]] @ status_packets \<and>
    USBD_LEDGER_rx_evt_setup [0x00, 0x09, 1, 0, 0, 0, 0, 0] s2 = Inr s3 \<and>
    seph_out s3 = seph_out s2 @ [open_packet 2 0x82, open_packet 2 0x02, rx_prepare] @ status_packets \<and>
    dev_state s3 = USBD_STATE_CONFIGURED \<and> dev_config s3 = 1 \<and> pClassData s3 \<and>
    class_list s3 = [USBD_LEDGER_HID_class_info] \<and> hid_open s3"
proof -
  obtain s1 pre where 1: "USBD_LEDGER_rx_evt_reset s = Inr s1" "usb_inv s1" "dev_state s1 = USBD_STATE_DEFAULT"
    "seph_out s1 = pre @ [open_packet 1 0x00, open_packet 1 0x80]"
    using reset_default [OF usb_reachable_usb_inv [OF assms(1)]] by blast
  obtain s2 where 2: "USBD_LEDGER_rx_evt_setup [0x00, 0x05, a, 0, 0, 0, 0, 0] s1 = Inr s2" "usb_inv s2"
    "dev_state s2 = USBD_STATE_ADDRESSED" "dev_address s2 = a"
    "seph_out s2 = seph_out s1 @
      [[SEPROXYHAL_TAG_USB_CONFIG, 0, 2, SEPROXYHAL_TAG_USB_CONFIG_ADDR, a]] @ status_packets"
    using set_address_addressed [OF 1(2,3) assms(2,3)] by blast
  obtain s3 where 3: "USBD_LEDGER_rx_evt_setup [0x00, 0x09, 1, 0, 0, 0, 0, 0] s2 = Inr s3" "usb_inv s3"
    "dev_state s3 = USBD_STATE_CONFIGURED" "pClassData s3"
    "seph_out s3 = seph_out s2 @ [open_packet 2 0x82, open_packet 2 0x02, rx_prepare] @ status_packets"
    using set_config_configures [OF 2(2,3)] by blast
  have "config_ok s3" "class_list s3 = [USBD_LEDGER_HID_class_info]"
    using 3(2,3) by (simp_all add: usb_inv_def configured_def device_ok_def)
  then have "dev_config s3 = 1" "hid_open s3" using 3(4) by (simp_all add: config_ok_def)
  then show ?thesis using 1(1,4) 2(1,4,5) 3(1,3,4,5) \<open>class_list s3 = _\<close> by blast
qed

lemma configured_ex: "\<exists>s. usb_inv s \<and> dev_state s = USBD_STATE_CONFIGURED"
proof -
  obtain s where "usb_inv s" using started_ex by blast
  then obtain s1 where 1: "usb_inv s1" "dev_state s1 = USBD_STATE_DEFAULT" using reset_default by blast
  then obtain s2 where "usb_inv s2" "dev_state s2 = USBD_STATE_ADDRESSED"
    using set_address_addressed [of s1 1] by auto
  then show ?thesis using set_config_configures by blast
qed

theorem enumeration_configures_witness:
  "\<exists>s s1 s2 s3. started s \<and> USBD_LEDGER_rx_evt_reset s = Inr s1 \<and>
    USBD_LEDGER_rx_evt_setup [0x00, 0x05, 1, 0, 0, 0, 0, 0] s1 = Inr s2 \<and>
    USBD_LEDGER_rx_evt_setup [0x00, 0x09, 1, 0, 0, 0, 0, 0] s2 = Inr s3 \<and>
    dev_state s3 = USBD_STATE_CONFIGURED \<and> hid_open s3"
proof -
  obtain s where s: "started s" using started_ex by blast
  have "0 < (1::u8)" "(1::u8) < 128" by simp_all
  from enumeration_configures [OF started_reachable [OF s] this] show ?thesis using s by blast
qed

theorem ep_status_out_of_bounds_witness:
  "\<exists>s. usb_inv s \<and> USBD_LEDGER_rx_evt_setup [0x82, 0x00, 0, 0, 0x86, 0, 2, 0] s = Inl Oob"
proof -
  obtain s where s: "usb_inv s" "dev_state s = USBD_STATE_CONFIGURED" using configured_ex by blast
  have "USBD_ParseSetupRequest [0x82, 0x00, 0, 0, 0x86, 0, 2, 0] =
      Inr \<lparr>bmRequest = 0x82, bRequest = 0, wValue = 0, wIndex = 0x86, wLength = 2\<rparr>"
    by (simp add: USBD_ParseSetupRequest_def mem_read_def)
  from ep_status_out_of_bounds [OF s this] show ?thesis using s by auto
qed

text \<open>
  Clearing the halt of an end point of a configured device acknowledges the request
  and then stalls the control end point in both directions: the request is passed on to the class
  set-up callback, which takes the end point address for an interface number.
\<close>

theorem clear_halt_stalls_control:
  assumes inv: "usb_inv s" and st: "dev_state s = USBD_STATE_CONFIGURED"
    and req: "USBD_ParseSetupRequest d = Inr req" "bmRequest req = 0x02" "bRequest req = USB_REQ_CLEAR_FEATURE"
      "wValue req = USB_FEATURE_EP_HALT" "1 \<le> unat (wIndex req)"
  shows "\<exists>s'. USBD_LEDGER_rx_evt_setup d s = Inr s' \<and>
    USBD_LL_IsStallEP 0x80 s' \<noteq> 0 \<and> USBD_LL_IsStallEP 0x00 s' \<noteq> 0"
proof -
  let ?s = "s\<lparr>request := req, ep0_state := USBD_EP0_SETUP, ep0_data_len := ucast (wLength req)\<rparr>"
  let ?t = "if ucast (wIndex req) AND 0x7F \<noteq> (0 :: u8) then fst (USBD_LL_ClearStallEP (ucast (wIndex req)) ?s) else ?s"
  have "usb_inv ?t" using inv by simp
  then obtain u where u: "USBD_CtlSendStatus ?t = Inr u" "usb_inv u"
    using SendStatus_safe by (auto simp: safe1_def)
  have "length (class_list u) \<le> 1" "pClass u" using usb_inv_parts(4,5) [OF u(2)] by auto
  then have "call_setup req u = Inr (USBD_CtlError u, USBD_FAIL)"
    using req(5) by (simp add: call_setup_def ledger_setup_def Let_def)
  then have "USBD_LEDGER_rx_evt_setup d s = Inr (USBD_CtlError u)"
    using u(1) req st
    by (simp add: USBD_LEDGER_rx_evt_setup_def USBD_LL_SetupStage_def USBD_StdEPReq_def ep_clear_feature_def Let_def)
  moreover have "USBD_LL_IsStallEP 0x80 (USBD_CtlError u) \<noteq> 0" "USBD_LL_IsStallEP 0x00 (USBD_CtlError u) \<noteq> 0"
    unfolding USBD_LL_IsStallEP_bit
    by (simp_all add: USBD_CtlError_def USBD_LL_StallEP_def ep_num_def is_in_ep_def seph_tx_def Let_def bit_simps)
  ultimately show ?thesis by blast
qed

theorem clear_halt_stalls_control_witness:
  "\<exists>s s'. usb_inv s \<and> USBD_LEDGER_rx_evt_setup [0x02, 0x01, 0, 0, 0x82, 0, 0, 0] s = Inr s' \<and>
    USBD_LL_IsStallEP 0x80 s' \<noteq> 0"
proof -
  obtain s where s: "usb_inv s" "dev_state s = USBD_STATE_CONFIGURED" using configured_ex by blast
  have "USBD_ParseSetupRequest [0x02, 0x01, 0, 0, 0x82, 0, 0, 0] =
      Inr \<lparr>bmRequest = 0x02, bRequest = 1, wValue = 0, wIndex = 0x82, wLength = 0\<rparr>"
    by (simp add: USBD_ParseSetupRequest_def mem_read_def)
  from clear_halt_stalls_control [OF s this] show ?thesis using s by auto
qed

text \<open>
  A second suspend event overwrites the state the first one saved, so that the resume
  leaves the device suspended; a single suspend is undone by the resume.
\<close>

theorem suspend_resume:
  "dev_state (USBD_LL_Resume (USBD_LL_Suspend s)) = dev_state s \<and>
   dev_state (USBD_LL_Resume (USBD_LL_Suspend (USBD_LL_Suspend s))) = USBD_STATE_SUSPENDED"
  by (simp add: USBD_LL_Resume_def USBD_LL_Suspend_def)

end
