(* ===== verification/Usbd_Control.thy ===== *)
theory Usbd_Control
  imports Usbd_Steps
begin

text \<open>
  Control transfers to the host: the data of a request leaves the device in packets of 64 bytes,
  the first sent by \<open>USBD_CtlSendData\<close>, each further one by the completion of the one before it.
  The completion of the last one sends an empty packet when the data ends on a packet boundary
  short of what the host asked for, and in any case prepares the status stage.
\<close>

fun ctl_packets :: "bytes \<Rightarrow> bytes list" where
  "ctl_packets d = (if length d \<le> 64 then [d] else take 64 d # ctl_packets (drop 64 d))"

declare ctl_packets.simps [simp del]

definition ctl_out :: "bytes \<Rightarrow> bytes list" where
  "ctl_out p = [transmit_header 0 (of_nat (length p)), p]"

definition ctl_prepare :: bytes where
  "ctl_prepare = [SEPROXYHAL_TAG_USB_EP_PREPARE, 0, 3, 0, SEPROXYHAL_TAG_USB_EP_PREPARE_DIR_OUT, 0]"

fun ep0_ins :: "nat \<Rightarrow> usbd \<Rightarrow> usbd res" where
  "ep0_ins 0 s = Inr s"
| "ep0_ins (Suc n) s = res_bind (USBD_LEDGER_rx_evt_data_in 0 s) (\<lambda>s. ep0_ins n s)"

lemma ctl_packets_not_Nil [simp]: "ctl_packets d \<noteq> []"
  by (subst ctl_packets.simps) simp

lemma hd_ctl_packets: "hd (ctl_packets d) = take 64 d"
  by (subst ctl_packets.simps) simp

lemma concat_ctl_packets: "concat (ctl_packets d) = d"
  by (induction d rule: ctl_packets.induct) (subst ctl_packets.simps, simp)

lemma last_ctl_packets:
  "length (last (ctl_packets d)) = 64 \<longleftrightarrow> d \<noteq> [] \<and> 64 dvd length d"
  "length (last (ctl_packets d)) \<le> 64"
proof (induction d rule: ctl_packets.induct)
  case (1 d)
  have "length d \<le> 64 \<Longrightarrow> (length d = 64) = (d \<noteq> [] \<and> 64 dvd length d)"
    by (auto dest: dvd_imp_le)
  moreover have "\<not> length d \<le> 64 \<Longrightarrow> (64 dvd length (drop 64 d)) = (64 dvd length d)"
    by (simp add: dvd_minus_self)
  ultimately show "length (last (ctl_packets d)) = 64 \<longleftrightarrow> d \<noteq> [] \<and> 64 dvd length d"
    "length (last (ctl_packets d)) \<le> 64"
    using 1 by (subst ctl_packets.simps, auto)+
qed

text \<open>The transfer of \<open>d\<close> is under way and its first packet has been sent.\<close>

definition ctl_sending :: "usbd \<Rightarrow> bytes \<Rightarrow> bytes \<Rightarrow> bool" where
  "ctl_sending s d rest \<longleftrightarrow> 0 < length (ep_in s) \<and> ep0_state s = USBD_EP0_DATA_IN \<and>
     ep_maxpacket (ep_in s ! 0) = 64 \<and> pData s = Some (d @ rest) \<and>
     unat (ep_rem_length (ep_in s ! 0)) = length d"

text \<open>What the packets of a transfer leave alone.\<close>

definition ctl_same :: "usbd \<Rightarrow> usbd \<Rightarrow> bool" where
  "ctl_same s s' \<longleftrightarrow> ep_total_length (ep_in s' ! 0) = ep_total_length (ep_in s ! 0) \<and>
     ep0_data_len s' = ep0_data_len s \<and> dev_state s' = dev_state s \<and> pClass s' = pClass s"

lemma continue_send:
  assumes "0 < length (ep_in s)" and "ep_maxpacket (ep_in s ! 0) = 64" and "unat n = length d"
  shows "USBD_CtlContinueSendData (Some (d @ rest)) n s =
    Inr (s\<lparr>seph_out := seph_out s @ ctl_out (take 64 d)\<rparr>)"
proof -
  have m: "min n 64 = of_nat (length (take 64 d))" "unat (min n 64) = length (take 64 d)"
    by (auto simp: min_def word_le_nat_alt assms(3) [symmetric])
  have "mem_arg (Some (d @ rest)) (length (take 64 d)) = Inr (take 64 d)"
    by (auto simp: mem_arg_def mem_read_def min_def)
  then show ?thesis
    unfolding USBD_CtlContinueSendData_def USBD_LL_Transmit_def using assms(1,2) m
    by (simp add: mem_get_def ep_num_def Let_def seph_tx_def ctl_out_def)
qed

lemma ep0_ins_packets:
  assumes "ctl_sending s d rest"
  shows "\<exists>s'. ep0_ins (length (ctl_packets d) - 1) s = Inr s' \<and>
    seph_out s' = seph_out s @ concat (map (\<lambda>p. ctl_out p @ [ctl_prepare]) (tl (ctl_packets d))) \<and>
    ctl_sending s' (last (ctl_packets d)) rest \<and> ctl_same s s'"
  using assms
proof (induction d arbitrary: s rule: ctl_packets.induct)
  case (1 d)
  show ?case
  proof (cases "length d \<le> 64")
    case True
    then show ?thesis using "1.prems" by (subst (1 2 3) ctl_packets.simps) (simp add: ctl_same_def)
  next
    case False
    let ?d = "drop 64 d" and ?e = "ep_in s ! 0"
    have s: "0 < length (ep_in s)" "ep0_state s = USBD_EP0_DATA_IN" "ep_maxpacket ?e = 64"
      "pData s = Some (d @ rest)" "unat (ep_rem_length ?e) = length d"
      using "1.prems" by (simp_all add: ctl_sending_def)
    have r: "ep_rem_length ?e > 64" "unat (ep_rem_length ?e - 64) = length ?d"
      using False s(5) by (auto simp: word_less_nat_alt unat_sub word_le_nat_alt)
    let ?t = "s\<lparr>ep_in := (ep_in s)[0 := ?e\<lparr>ep_rem_length := ep_rem_length ?e - 64\<rparr>], pData := Some (?d @ rest)\<rparr>"
    let ?u = "?t\<lparr>seph_out := seph_out s @ ctl_out (take 64 ?d) @ [ctl_prepare]\<rparr>"
    have "USBD_CtlContinueSendData (Some (?d @ rest)) (ep_rem_length ?e - 64) ?t =
        Inr (?t\<lparr>seph_out := seph_out ?t @ ctl_out (take 64 ?d)\<rparr>)"
      using s(1,3) r(2) by (intro continue_send) simp_all
    then have ev: "USBD_LEDGER_rx_evt_data_in 0 s = Inr ?u"
      using s r(1) False
      by (simp add: USBD_LEDGER_rx_evt_data_in_def USBD_LL_DataInStage_def ep0_data_in_def mem_get_def upd_ep_in_def
          Let_def USBD_LL_PrepareReceive_def ep_num_def seph_tx_def ctl_prepare_def)
    have "ctl_sending ?u ?d rest" using s r by (simp add: ctl_sending_def)
    then obtain s' where s': "ep0_ins (length (ctl_packets ?d) - 1) ?u = Inr s'"
      "seph_out s' = seph_out ?u @ concat (map (\<lambda>p. ctl_out p @ [ctl_prepare]) (tl (ctl_packets ?d)))"
      "ctl_sending s' (last (ctl_packets ?d)) rest" "ctl_same ?u s'"
      using "1.IH" [OF False] by blast
    have p: "ctl_packets d = take 64 d # ctl_packets ?d" using False by (subst ctl_packets.simps) simp
    obtain x xs where xs: "ctl_packets ?d = x # xs" by (cases "ctl_packets ?d") simp_all
    then have "x = take 64 ?d" using hd_ctl_packets [of ?d] by simp
    moreover have "ctl_same s s'" using s'(4) s(1) by (simp add: ctl_same_def)
    ultimately show ?thesis using s' ev xs unfolding p by simp
  qed
qed

text \<open>The completion of the last packet.\<close>

definition ctl_end :: "bytes \<Rightarrow> u32 \<Rightarrow> bytes list" where
  "ctl_end d asked =
     (if d \<noteq> [] \<and> 64 dvd length d \<and> length d < unat asked then ctl_out [] else []) @ [ctl_prepare]"

lemma ep0_last_in:
  assumes s: "ctl_sending s p rest" "dev_state s \<noteq> USBD_STATE_CONFIGURED \<or> pClass s"
    and p: "p = last (ctl_packets d)" and tot: "unat (ep_total_length (ep_in s ! 0)) = length d"
  shows "\<exists>s'. USBD_LEDGER_rx_evt_data_in 0 s = Inr s' \<and> seph_out s' = seph_out s @ ctl_end d (ep0_data_len s)"
proof -
  let ?e = "ep_in s ! 0"
  have e: "0 < length (ep_in s)" "ep0_state s = USBD_EP0_DATA_IN" "ep_maxpacket ?e = 64"
    "unat (ep_rem_length ?e) = length p"
    using s(1) by (simp_all add: ctl_sending_def)
  have "\<not> ep_rem_length ?e > ep_maxpacket ?e"
    using e(3,4) last_ctl_packets(2) [of d] by (simp add: p word_less_nat_alt)
  moreover have "(ep_maxpacket ?e = ep_rem_length ?e \<and> ep_total_length ?e \<ge> ep_maxpacket ?e \<and>
      ep_total_length ?e < ep0_data_len s) = (d \<noteq> [] \<and> 64 dvd length d \<and> length d < unat (ep0_data_len s))"
    using e(3,4) last_ctl_packets(1) [of d] tot dvd_imp_le [of 64 "length d"]
    by (auto simp: p word_less_nat_alt word_le_nat_alt word_unat_eq_iff)
  moreover have "USBD_CtlContinueSendData None 0 s = Inr (s\<lparr>seph_out := seph_out s @ ctl_out []\<rparr>)"
    using e(1) by (simp add: USBD_CtlContinueSendData_def USBD_LL_Transmit_def mem_get_def mem_arg_def ep_num_def
        seph_tx_def ctl_out_def)
  ultimately show ?thesis
    using e(1,2) s(2)
    by (auto simp: USBD_LEDGER_rx_evt_data_in_def USBD_LL_DataInStage_def ep0_data_in_def mem_get_def ctl_end_def
        USBD_CtlReceiveStatus_def USBD_LL_PrepareReceive_def ep_num_def seph_tx_def ctl_prepare_def)
qed

text \<open>
  Property C32: the data of a control request reaches the host unchanged: \<open>USBD_CtlSendData\<close> and
  the completions of its packets send \<open>len\<close> bytes of the buffer, cut into packets of 64 bytes
  whose concatenation is the data. The completion of the last packet prepares the status stage,
  preceded by an empty packet exactly when the data is not empty, ends on a packet boundary and is
  shorter than what the host asked for.
\<close>

theorem control_transfer_complete:
  fixes s :: usbd
  assumes s: "0 < length (ep_in s)" "ep_maxpacket (ep_in s ! 0) = 64"
      "dev_state s \<noteq> USBD_STATE_CONFIGURED \<or> pClass s"
    and b: "unat len \<le> length b" and d: "d = take (unat len) b"
  shows "\<exists>s1 s2 s3. USBD_CtlSendData (Some b) len s = Inr s1 \<and>
    ep0_ins (length (ctl_packets d) - 1) s1 = Inr s2 \<and>
    seph_out s2 = seph_out s @ ctl_out (hd (ctl_packets d)) @
      concat (map (\<lambda>p. ctl_out p @ [ctl_prepare]) (tl (ctl_packets d))) \<and>
    concat (ctl_packets d) = d \<and>
    USBD_LEDGER_rx_evt_data_in 0 s2 = Inr s3 \<and>
    seph_out s3 = seph_out s2 @
      (if d \<noteq> [] \<and> 64 dvd length d \<and> length d < unat (ep0_data_len s) then ctl_out [] else []) @ [ctl_prepare]"
proof -
  let ?e = "(ep_in s ! 0)\<lparr>ep_total_length := len, ep_rem_length := len\<rparr>" and ?r = "drop (unat len) b"
  let ?t = "s\<lparr>ep0_state := USBD_EP0_DATA_IN, ep_in := (ep_in s)[0 := ?e], pData := Some (d @ ?r)\<rparr>"
  let ?s1 = "?t\<lparr>seph_out := seph_out s @ ctl_out (take 64 d)\<rparr>"
  have bd: "b = d @ ?r" by (simp add: d)
  have "USBD_CtlSendData (Some b) len s = USBD_CtlContinueSendData (Some (d @ ?r)) len ?t"
    using s(1) bd by (simp add: USBD_CtlSendData_def upd_ep_in_def)
  also have "\<dots> = Inr (?t\<lparr>seph_out := seph_out ?t @ ctl_out (take 64 d)\<rparr>)"
    using s b d by (intro continue_send) simp_all
  finally have 1: "USBD_CtlSendData (Some b) len s = Inr ?s1" by simp
  have "ctl_sending ?s1 d ?r" using s b d by (simp add: ctl_sending_def)
  from ep0_ins_packets [OF this] obtain s2 where 2: "ep0_ins (length (ctl_packets d) - 1) ?s1 = Inr s2"
    "seph_out s2 = seph_out ?s1 @ concat (map (\<lambda>p. ctl_out p @ [ctl_prepare]) (tl (ctl_packets d)))"
    "ctl_sending s2 (last (ctl_packets d)) ?r" "ctl_same ?s1 s2" by blast
  have same: "dev_state s2 \<noteq> USBD_STATE_CONFIGURED \<or> pClass s2" "unat (ep_total_length (ep_in s2 ! 0)) = length d"
    "ep0_data_len s2 = ep0_data_len s"
    using 2(4) s b d by (simp_all add: ctl_same_def)
  obtain s3 where "USBD_LEDGER_rx_evt_data_in 0 s2 = Inr s3" "seph_out s3 = seph_out s2 @ ctl_end d (ep0_data_len s)"
    using ep0_last_in [OF 2(3) same(1) refl same(2)] same(3) by auto
  then show ?thesis using 1 2(1,2) by (auto simp: hd_ctl_packets concat_ctl_packets ctl_end_def)
qed

theorem control_transfer_complete_witness:
  "\<exists>s1 s2 s3. USBD_CtlSendData (Some (replicate 100 7)) 64
      (cold_device\<lparr>ep_in := replicate 6 (zero_endpoint\<lparr>ep_maxpacket := 64\<rparr>), ep0_data_len := 255\<rparr>) = Inr s1 \<and>
    ep0_ins (length (ctl_packets (replicate 64 7)) - 1) s1 = Inr s2 \<and>
    concat (ctl_packets (replicate 64 7)) = replicate 64 7 \<and>
    USBD_LEDGER_rx_evt_data_in 0 s2 = Inr s3 \<and> seph_out s3 = seph_out s2 @ ctl_out [] @ [ctl_prepare]"
proof -
  let ?s = "cold_device\<lparr>ep_in := replicate 6 (zero_endpoint\<lparr>ep_maxpacket := 64\<rparr>), ep0_data_len := 255\<rparr>"
  have s: "0 < length (ep_in ?s)" "ep_maxpacket (ep_in ?s ! 0) = 64" "dev_state ?s \<noteq> USBD_STATE_CONFIGURED \<or> pClass ?s"
    "unat (64::u32) \<le> length (replicate 100 (7::u8))" "replicate 64 (7::u8) = take (unat (64::u32)) (replicate 100 7)"
    by (simp_all add: cold_device_def)
  have z: "replicate 64 (7::u8) \<noteq> [] \<and> 64 dvd length (replicate 64 (7::u8)) \<and>
      length (replicate 64 (7::u8)) < unat (ep0_data_len ?s)"
    by simp
  show ?thesis using control_transfer_complete [OF s] unfolding if_P [OF z] by blast
qed

end
