(* ===== verification/Seph_Io.thy ===== *)
theory Seph_Io
  imports Prelude Cx_Utils
begin

text \<open>
  The link to the MCU (\<open>bolos/io/io.c\<close>, \<open>bolos/touch.c\<close>): packets are written to and read from a
  file descriptor, with a small state machine that lets commands through until a status packet
  and then waits for an event. \<open>read\<close> and \<open>write\<close> are the system's: what they return is a list
  of outcomes, one per call, and a list that ends models a call that blocks (\<open>None\<close>). A read
  delivers at most what was asked for and the rest stays in the pipe.
\<close>

section \<open>Reading and writing the descriptor\<close>

datatype read_outcome = Rd bytes | Rd_closed | Rd_eintr | Rd_error
datatype write_outcome = Wr nat | Wr_closed | Wr_eintr | Wr_error

text \<open>
  \<open>readall\<close> with the buffer it fills. As in the source, the buffer pointer is not advanced: each
  read stores its bytes at the start of the buffer.
\<close>

fun readall :: "read_outcome list \<Rightarrow> bytes \<Rightarrow> nat \<Rightarrow> (read_outcome list \<times> bytes \<times> int) option" where
  "readall es buf 0 = Some (es, buf, 0)"
| "readall [] buf (Suc n) = None"
| "readall (Rd_closed # es) buf (Suc n) = Some (es, buf, -1)"
| "readall (Rd_error # es) buf (Suc n) = Some (es, buf, -1)"
| "readall (Rd_eintr # es) buf (Suc n) = readall es buf (Suc n)"
| "readall (Rd d # es) buf (Suc n) =
     (if d = [] then Some (es, buf, -1)
      else if Suc n < length d
      then Some (Rd (drop (Suc n) d) # es, buf_write buf 0 (take (Suc n) d), 0)
      else readall es (buf_write buf 0 d) (Suc n - length d))"

text \<open>\<open>writeall\<close>: the bytes that reach the descriptor, and the status; here the pointer advances.\<close>

fun writeall :: "write_outcome list \<Rightarrow> bytes \<Rightarrow> (write_outcome list \<times> bytes \<times> int) option" where
  "writeall es [] = Some (es, [], 0)"
| "writeall [] (b # bs) = None"
| "writeall (Wr_closed # es) (b # bs) = Some (es, [], -1)"
| "writeall (Wr_error # es) (b # bs) = Some (es, [], -1)"
| "writeall (Wr_eintr # es) (b # bs) = writeall es (b # bs)"
| "writeall (Wr k # es) (b # bs) =
     (if k = 0 then Some (es, [], -1)
      else case writeall es (drop k (b # bs)) of None \<Rightarrow> None
           | Some (es', w, st) \<Rightarrow> Some (es', take k (b # bs) @ w, st))"

section \<open>State\<close>

datatype seph_state = SEPH_STATE_IDLE | SEPH_STATE_WAIT_EVENT | SEPH_STATE_SEND_CMD

record touch_info =
  touch_x :: u16
  touch_y :: u16
  touch_state :: u8

text \<open>\<open>G_seph_info\<close>, the last touch, and the two directions of the descriptor.\<close>

record seph =
  tx_packet_length :: u16
  tx_packet_offset :: u16
  tx_packet_max_length :: u16
  tx_packet_tag :: u8
  seph_st :: seph_state
  rx_packet_length :: u16
  rx_packet_max_length :: u16
  rx_packet :: bytes
  last_touch_infos :: touch_info
  fd_reads :: "read_outcome list"
  fd_writes :: "write_outcome list"
  fd_written :: bytes

definition G_seph_info :: "read_outcome list \<Rightarrow> write_outcome list \<Rightarrow> seph" where
  "G_seph_info rs ws =
     \<lparr>tx_packet_length = 0, tx_packet_offset = 0, tx_packet_max_length = 272, tx_packet_tag = 0,
      seph_st = SEPH_STATE_SEND_CMD, rx_packet_length = 0, rx_packet_max_length = 272,
      rx_packet = replicate 272 0, last_touch_infos = \<lparr>touch_x = 0, touch_y = 0, touch_state = 0\<rparr>,
      fd_reads = rs, fd_writes = ws, fd_written = []\<rparr>"

definition is_status :: "u8 \<Rightarrow> bool" where
  "is_status tag \<longleftrightarrow> tag AND 0x60 = 0x60"

section \<open>Sending\<close>

text \<open>The part of \<open>sys_os_io_seph_tx\<close> from the check of the packet length on.\<close>

definition seph_tx_body :: "bytes \<Rightarrow> u16 \<Rightarrow> seph \<Rightarrow> (seph \<times> int) res option" where
  "seph_tx_body buffer len s =
     (if unat (tx_packet_offset s) + unat len > unat (tx_packet_length s) then Some (Inr (s, -24))
      else case mem_read buffer 0 (unat len) of Inl e \<Rightarrow> Some (Inl e)
      | Inr d \<Rightarrow>
        (case writeall (fd_writes s) d of None \<Rightarrow> None
         | Some (ws, w, _) \<Rightarrow>
             let status = is_status (tx_packet_tag s);
                 s = s\<lparr>fd_writes := ws, fd_written := fd_written s @ w,
                       tx_packet_offset := tx_packet_offset s + len\<rparr>
             in Some (Inr (if tx_packet_offset s = tx_packet_length s
                           then s\<lparr>tx_packet_length := 0, tx_packet_tag := 0,
                                  seph_st := if status then SEPH_STATE_WAIT_EVENT else seph_st s\<rparr>
                           else s, uint len))))"

definition sys_os_io_seph_tx :: "bytes option \<Rightarrow> u16 \<Rightarrow> seph \<Rightarrow> (seph \<times> int) res option" where
  "sys_os_io_seph_tx buf len s =
     (case buf of None \<Rightarrow> Some (Inr (s, -22))
      | Some buffer \<Rightarrow>
          if len = 0 then Some (Inr (s, -22))
          else if seph_st s = SEPH_STATE_WAIT_EVENT then
            (if tx_packet_length s = 0 then
               (case mem_get buffer 0 of Inl e \<Rightarrow> Some (Inl e)
                | Inr tag \<Rightarrow> Some (Inr (s, if is_status tag then uint len else -1)))
             else Some (Inr (s, -1)))
          else if tx_packet_length s = 0 then
            (if len < 3 then Some (Inr (s, -23))
             else case res_bind (U2BE buffer 1) (\<lambda>n. res_bind (mem_get buffer 0) (\<lambda>tag. Inr (n, tag)))
                  of Inl e \<Rightarrow> Some (Inl e)
                  | Inr (n, tag) \<Rightarrow>
                      if n + 3 > tx_packet_max_length s then Some (Inr (s\<lparr>tx_packet_length := 0\<rparr>, -25))
                      else seph_tx_body buffer len
                             (s\<lparr>tx_packet_length := n + 3, tx_packet_tag := tag, tx_packet_offset := 0\<rparr>))
          else seph_tx_body buffer len s)"

section \<open>Receiving\<close>

definition catch_touch_info_from_seph :: "bytes \<Rightarrow> u16 \<Rightarrow> seph \<Rightarrow> seph res" where
  "catch_touch_info_from_seph buffer sz s =
     (if sz < 5 then Inr s
      else res_bind (mem_get buffer 0) (\<lambda>tag.
        if tag \<noteq> 0x0C then Inr s
        else res_bind (mem_read buffer 3 5) (\<lambda>d.
          Inr (s\<lparr>last_touch_infos :=
            \<lparr>touch_x = push_bit 8 (ucast (d ! 1)) + ucast (d ! 2),
             touch_y = push_bit 8 (ucast (d ! 3)) + ucast (d ! 4), touch_state = d ! 0\<rparr>\<rparr>))))"

definition sys_touch_get_last_info :: "seph \<Rightarrow> touch_info" where
  "sys_touch_get_last_info s = last_touch_infos s"

text \<open>What \<open>sys_os_io_seph_se_rx_event\<close> returns: a length or a negative error; \<open>Errx\<close> is the exit
  on a failed read.\<close>

definition rx_finish :: "seph \<Rightarrow> bytes \<Rightarrow> int \<Rightarrow> (seph \<times> bytes \<times> int) res" where
  "rx_finish s buffer rx_length =
     res_bind (if rx_length \<ge> 0 then catch_touch_info_from_seph (drop 1 buffer) (word_of_int (rx_length - 1)) s
               else Inr s) (\<lambda>s. Inr (s, buffer, rx_length))"

definition rx_body :: "seph \<Rightarrow> bytes \<Rightarrow> (seph \<times> bytes \<times> int) res option" where
  "rx_body s buffer =
     (let n = rx_packet_length s + 3
      in case readall (fd_reads s) (drop 3 (rx_packet s)) (unat n - 3) of None \<Rightarrow> None
         | Some (es, d, st) \<Rightarrow>
             (let s = s\<lparr>rx_packet_length := n, fd_reads := es, rx_packet := take 3 (rx_packet s) @ d\<rparr>
              in if st < 0 then Some (Inl Errx)
                 else Some (
                   res_bind (mem_write buffer 0 [0x01]) (\<lambda>buffer.
                   res_bind (mem_read (rx_packet s) 0 (unat n)) (\<lambda>p.
                   res_bind (mem_write buffer 1 p) (\<lambda>buffer.
                   rx_finish (s\<lparr>seph_st := SEPH_STATE_SEND_CMD, tx_packet_length := 0\<rparr>) buffer
                     (uint n + 1)))))))"

definition sys_os_io_seph_se_rx_event ::
    "bytes option \<Rightarrow> u16 \<Rightarrow> bool \<Rightarrow> seph \<Rightarrow> (seph \<times> bytes option \<times> int) res option" where
  "sys_os_io_seph_se_rx_event buf max_length cached s =
     (let wrap = map_option (\<lambda>r. res_bind r (\<lambda>(s, b, n). Inr (s, Some b, n)))
      in case buf of None \<Rightarrow> Some (Inr (s, None, -26))
      | Some buffer \<Rightarrow>
          if max_length < rx_packet_max_length s then Some (Inr (s, buf, -26))
          else if cached then
            wrap (Some (res_bind (mem_read (rx_packet s) 0 (unat (rx_packet_length s))) (\<lambda>p.
                  res_bind (mem_write buffer 0 p) (\<lambda>buffer.
                  rx_finish s buffer (uint (rx_packet_length s))))))
          else if seph_st s \<noteq> SEPH_STATE_WAIT_EVENT then wrap (Some (rx_finish s buffer (-1)))
          else
            (case readall (fd_reads s) (rx_packet s) 3 of None \<Rightarrow> None
             | Some (es, p, st) \<Rightarrow>
                 (let s = s\<lparr>fd_reads := es, rx_packet := p\<rparr>
                  in if st < 0 then Some (Inl Errx)
                     else case U2BE p 1 of Inl e \<Rightarrow> Some (Inl e)
                     | Inr n \<Rightarrow>
                         (let s = s\<lparr>rx_packet_length := n\<rparr>
                          in if uint n > uint (rx_packet_max_length s) - 3
                             then wrap (Some (rx_finish s buffer (-12)))
                             else wrap (rx_body s buffer)))))"

section \<open>The descriptor\<close>

text \<open>
  A descriptor that stays alive: no call closes it or fails, interrupted calls are retried and
  every other call moves at least one byte.
\<close>

definition wr_live :: "write_outcome list \<Rightarrow> bool" where
  "wr_live ws \<longleftrightarrow> set ws \<subseteq> {Wr_eintr} \<union> {Wr k |k. 0 < k}"

definition wr_calls :: "write_outcome list \<Rightarrow> nat" where
  "wr_calls ws = length (filter (\<lambda>w. w \<noteq> Wr_eintr) ws)"

lemma wr_live_Cons [simp]:
  "wr_live (w # ws) \<longleftrightarrow> (w = Wr_eintr \<or> (\<exists>k>0. w = Wr k)) \<and> wr_live ws"
  by (auto simp: wr_live_def)

lemma wr_calls_simps [simp]:
  "wr_calls [] = 0" "wr_calls (Wr_eintr # ws) = wr_calls ws" "wr_calls (Wr k # ws) = Suc (wr_calls ws)"
  by (simp_all add: wr_calls_def)

lemma writeall_live:
  "wr_live ws \<Longrightarrow> length bs \<le> wr_calls ws \<Longrightarrow>
   \<exists>ws'. writeall ws bs = Some (ws', bs, 0) \<and> wr_live ws' \<and> wr_calls ws \<le> wr_calls ws' + length bs"
proof (induction ws bs rule: writeall.induct)
  case (6 k es b bs)
  then obtain ws' where "writeall es (drop k (b # bs)) = Some (ws', drop k (b # bs), 0)"
    "wr_live ws'" "wr_calls es \<le> wr_calls ws' + length (drop k (b # bs))"
    by fastforce
  moreover have "Suc (length (drop k (b # bs))) \<le> length (b # bs)"
    using 6(2) by auto
  ultimately show ?case using 6(2) by auto
qed auto

text \<open>Interrupted calls at the front of a read are skipped.\<close>

lemma readall_eintr: "readall (replicate i Rd_eintr @ es) buf n =
    (if n = 0 then Some (replicate i Rd_eintr @ es, buf, 0) else readall es buf n)"
  by (induction i) (cases n; simp)+

lemma readall_once: "0 < n \<Longrightarrow> length d = n \<Longrightarrow> readall (Rd d # es) buf n = Some (es, buf_write buf 0 d, 0)"
  by (cases n) auto

lemma readall_length: "readall es buf n = Some (es', buf', st) \<Longrightarrow> n \<le> length buf \<Longrightarrow> length buf' = length buf"
  by (induction es buf n rule: readall.induct) (auto split: if_splits)

section \<open>Sending a packet\<close>

text \<open>A packet: tag, big-endian length, payload.\<close>

definition seph_packet :: "u8 \<Rightarrow> bytes \<Rightarrow> bytes" where
  "seph_packet tag d = tag # be_of_u16 (of_nat (length d)) @ d"

fun tx_all :: "bytes list \<Rightarrow> seph \<Rightarrow> (seph \<times> int list) res option" where
  "tx_all [] s = Some (Inr (s, []))"
| "tx_all (p # ps) s =
     (case sys_os_io_seph_tx (Some p) (of_nat (length p)) s of
        None \<Rightarrow> None
      | Some (Inl e) \<Rightarrow> Some (Inl e)
      | Some (Inr (s, n)) \<Rightarrow>
          (case tx_all ps s of None \<Rightarrow> None
           | Some r \<Rightarrow> Some (res_bind r (\<lambda>(s, ns). Inr (s, n # ns)))))"

text \<open>
  Inside a packet: \<open>done\<close> bytes of the packet have been written, the rest is still to come.
\<close>

definition tx_at :: "bytes \<Rightarrow> nat \<Rightarrow> seph \<Rightarrow> bool" where
  "tx_at p k s \<longleftrightarrow> length p \<le> 272 \<and> k \<le> length p \<and> tx_packet_length s = of_nat (length p) \<and>
     tx_packet_offset s = of_nat k \<and> tx_packet_tag s = p ! 0 \<and> seph_st s \<noteq> SEPH_STATE_WAIT_EVENT \<and>
     wr_live (fd_writes s) \<and> length p \<le> wr_calls (fd_writes s) + k"

definition tx_done_state :: "bytes \<Rightarrow> seph \<Rightarrow> seph_state" where
  "tx_done_state p s = (if is_status (p ! 0) then SEPH_STATE_WAIT_EVENT else seph_st s)"

lemma U2BE_packet: "U2BE (tag # be_of_u16 n @ d) 1 = Inr n"
  using U2BE_be_of_u16 [of "[tag]" 1 n d] by simp

lemma tx_body_step:
  assumes at: "tx_at p k s" and j: "0 < j" "k + j \<le> length p"
  defines "q \<equiv> take j (drop k p)"
  shows "\<exists>s'. seph_tx_body q (of_nat j) s = Some (Inr (s', int j)) \<and>
    fd_written s' = fd_written s @ q \<and>
    (if k + j < length p then tx_at p (k + j) s' \<and> seph_st s' = seph_st s
     else tx_packet_length s' = 0 \<and> seph_st s' = tx_done_state p s)"
proof -
  have len: "length q = j" "length p \<le> 272" using j at by (simp_all add: q_def tx_at_def)
  have u: "unat (of_nat j :: u16) = j" "unat (of_nat k :: u16) = k"
    "unat (of_nat (length p) :: u16) = length p" "uint (of_nat j :: u16) = int j"
    using j len by (simp_all add: unat_of_nat uint_nat)
  have eq: "(of_nat (k + j) :: u16) = of_nat (length p) \<longleftrightarrow> k + j = length p"
    using j len by (simp add: word_unat_eq_iff unat_of_nat del: of_nat_add)
  have "length q \<le> wr_calls (fd_writes s)" using at len j by (simp add: tx_at_def)
  then obtain ws where ws: "writeall (fd_writes s) q = Some (ws, q, 0)" "wr_live ws"
    "wr_calls (fd_writes s) \<le> wr_calls ws + j"
    using writeall_live [of "fd_writes s" q] at len by (auto simp: tx_at_def)
  have "mem_read q 0 j = Inr q" using len by (simp add: mem_read_def)
  then show ?thesis using at ws u eq j
    by (auto simp: seph_tx_body_def tx_at_def tx_done_state_def Let_def)
qed

lemma tx_all_rest:
  assumes "tx_at p k s" and "concat ps = drop k p" and "k < length p" and "[] \<notin> set ps"
  shows "\<exists>s'. tx_all ps s = Some (Inr (s', map (\<lambda>q. int (length q)) ps)) \<and>
    fd_written s' = fd_written s @ drop k p \<and> tx_packet_length s' = 0 \<and> seph_st s' = tx_done_state p s"
  using assms
proof (induction ps arbitrary: k s)
  case (Cons q ps)
  let ?j = "length q"
  have q: "q = take ?j (drop k p)" "concat ps = drop (k + ?j) p"
    using Cons.prems(2) by (metis append_eq_conv_conj concat.simps(2),
      metis append_eq_conv_conj concat.simps(2) drop_drop add.commute)
  have "?j + length (concat ps) = length p - k"
    using arg_cong [OF Cons.prems(2), of length] by simp
  then have j: "0 < ?j" "k + ?j \<le> length p" using Cons.prems(3,4) by auto
  obtain s' where s': "seph_tx_body q (of_nat ?j) s = Some (Inr (s', int ?j))"
    "fd_written s' = fd_written s @ q"
    "if k + ?j < length p then tx_at p (k + ?j) s' \<and> seph_st s' = seph_st s
     else tx_packet_length s' = 0 \<and> seph_st s' = tx_done_state p s"
    using tx_body_step [OF Cons.prems(1) j] q(1) by auto
  have nz: "(of_nat ?j :: u16) \<noteq> 0" "(of_nat (length p) :: u16) \<noteq> 0"
    using j Cons.prems(1) by (auto simp: tx_at_def word_unat_eq_iff unat_of_nat)
  then have tx: "sys_os_io_seph_tx (Some q) (of_nat ?j) s = Some (Inr (s', int ?j))"
    using s'(1) Cons.prems(1) by (simp add: sys_os_io_seph_tx_def tx_at_def)
  have w: "fd_written s' @ drop (k + ?j) p = fd_written s @ drop k p"
    using s'(2) Cons.prems(2) q(2) by simp
  show ?case
  proof (cases "k + ?j < length p")
    case True
    then have "tx_at p (k + ?j) s'" "tx_done_state p s' = tx_done_state p s"
      using s'(3) by (simp_all add: tx_done_state_def)
    then obtain s2 where "tx_all ps s' = Some (Inr (s2, map (\<lambda>q. int (length q)) ps))"
      "fd_written s2 = fd_written s' @ drop (k + ?j) p" "tx_packet_length s2 = 0"
      "seph_st s2 = tx_done_state p s"
      using Cons.IH [of "k + ?j" s'] q(2) True Cons.prems(4) by auto
    then show ?thesis using tx w by auto
  next
    case False
    then have "ps = []" using q(2) Cons.prems(4) by (cases ps) auto
    then show ?thesis using tx w s' False by auto
  qed
qed simp

text \<open>
  Property C34: a packet (tag, length, payload of at most 269 bytes) handed over in pieces of any
  size, the first of at least three bytes, reaches a live descriptor complete and in order,
  whatever the write calls accept at a time and however often they are interrupted; every call
  returns its length, and afterwards the driver waits for an event exactly when the packet was
  a status.
\<close>

theorem seph_tx_packet:
  assumes "seph_st s \<noteq> SEPH_STATE_WAIT_EVENT" and "tx_packet_length s = 0"
    and "tx_packet_max_length s = 272" and "length d \<le> 269"
    and "wr_live (fd_writes s)" and "length d + 3 \<le> wr_calls (fd_writes s)"
    and "concat ps = seph_packet tag d" and "[] \<notin> set ps" and "3 \<le> length (hd ps)"
  shows "\<exists>s'. tx_all ps s = Some (Inr (s', map (\<lambda>q. int (length q)) ps)) \<and>
    fd_written s' = fd_written s @ seph_packet tag d \<and> tx_packet_length s' = 0 \<and>
    seph_st s' = (if is_status tag then SEPH_STATE_WAIT_EVENT else seph_st s)"
proof -
  let ?p = "seph_packet tag d"
  let ?s = "s\<lparr>tx_packet_length := of_nat (length d) + 3, tx_packet_tag := tag, tx_packet_offset := 0\<rparr>"
  have lp: "length ?p = length d + 3" by (simp add: seph_packet_def)
  obtain q qs where ps: "ps = q # qs" using assms(7) by (cases ps) (auto simp: seph_packet_def)
  then have q3: "3 \<le> length q" "length q \<le> length d + 3"
    using assms(9) lp arg_cong [OF assms(7), of length] by auto
  have "take 3 q = take 3 ?p" using ps assms(7) q3 by (metis concat.simps(2) take_append diff_is_0_eq take_0 append_Nil2)
  then have "take 3 q = tag # be_of_u16 (of_nat (length d))" by (simp add: seph_packet_def)
  then have qe: "q = tag # be_of_u16 (of_nat (length d)) @ drop 3 q"
    by (metis append_Cons append_take_drop_id)
  have at: "tx_at ?p 0 ?s" using assms lp by (simp add: tx_at_def seph_packet_def add.commute)
  have u: "unat (of_nat (length d) + 3 :: u16) = length d + 3" "unat (of_nat (length q) :: u16) = length q"
    using assms(4) q3 unat_of_nat [where 'a=16, of "length d + 3"] by (auto simp: unat_of_nat)
  have len: "\<not> (of_nat (length q) :: u16) < 3" "(of_nat (length q) :: u16) \<noteq> 0"
    "\<not> of_nat (length d) + 3 > (272 :: u16)" "(of_nat (length d) + 3 :: u16) \<noteq> 0"
    using q3 u assms(4) by (auto simp: word_less_nat_alt)
  have "U2BE q 1 = Inr (of_nat (length d))" "mem_get q 0 = Inr tag"
    using U2BE_packet [of tag "of_nat (length d)" "drop 3 q"] qe
    by (metis, metis mem_get_Inr_iff length_Cons nth_Cons_0 zero_less_Suc)
  then have "sys_os_io_seph_tx (Some q) (of_nat (length q)) s = seph_tx_body q (of_nat (length q)) ?s"
    "sys_os_io_seph_tx (Some q) (of_nat (length q)) ?s = seph_tx_body q (of_nat (length q)) ?s"
    using assms(1-3) len unfolding sys_os_io_seph_tx_def
    by (simp_all del: not_less)
  then have "tx_all ps s = tx_all ps ?s" by (simp add: ps)
  then show ?thesis using tx_all_rest [OF at] assms lp
    by (auto simp: tx_done_state_def seph_packet_def)
qed

theorem seph_tx_packet_witness:
  "\<exists>s'. tx_all [[0x65, 0, 2], [7], [8]]
      (G_seph_info [] [Wr 2, Wr_eintr, Wr 1, Wr 9, Wr_eintr, Wr 5, Wr 1, Wr 1]) = Some (Inr (s', [3, 1, 1])) \<and>
    fd_written s' = [0x65, 0, 2, 7, 8] \<and> tx_packet_length s' = 0 \<and> seph_st s' = SEPH_STATE_WAIT_EVENT"
  using seph_tx_packet [where s = "G_seph_info [] [Wr 2, Wr_eintr, Wr 1, Wr 9, Wr_eintr, Wr 5, Wr 1, Wr 1]"
      and d = "[7, 8]" and ps = "[[0x65, 0, 2], [7], [8]]" and tag = "0x65"]
  by (simp add: G_seph_info_def seph_packet_def be_of_u16_def is_status_def wr_live_def)

section \<open>The states of the driver\<close>

definition seph_inv :: "seph \<Rightarrow> bool" where
  "seph_inv s \<longleftrightarrow> length (rx_packet s) = 272 \<and> rx_packet_max_length s = 272 \<and>
     tx_packet_max_length s = 272 \<and> tx_packet_length s \<le> 272 \<and>
     (tx_packet_length s \<noteq> 0 \<longrightarrow> tx_packet_offset s < tx_packet_length s) \<and>
     (seph_st s = SEPH_STATE_WAIT_EVENT \<longrightarrow> tx_packet_length s = 0)"

lemma seph_tx_body_inv:
  assumes "seph_inv s" and "seph_st s \<noteq> SEPH_STATE_WAIT_EVENT" and "tx_packet_length s \<noteq> 0 \<or> l \<noteq> 0"
    and "seph_tx_body b l s = Some (Inr (s', n))"
  shows "seph_inv s'"
proof (cases "unat (tx_packet_offset s) + unat l > unat (tx_packet_length s)")
  case False
  then have "unat (tx_packet_offset s + l) = unat (tx_packet_offset s) + unat l"
    using unsigned_less [where 'a=nat, of "tx_packet_length s"] by (intro unat_add_lem [THEN iffD1]) simp
  then have "tx_packet_offset s + l \<le> tx_packet_length s"
    using False by (simp add: word_le_nat_alt)
  then show ?thesis using assms False
    by (auto simp: seph_tx_body_def seph_inv_def Let_def split: sum.splits option.splits if_splits)
qed (use assms in \<open>simp add: seph_tx_body_def\<close>)

lemma seph_tx_inv:
  assumes "seph_inv s" and "sys_os_io_seph_tx b l s = Some (Inr (s', n))"
  shows "seph_inv s'"
proof -
  have [simp]: "seph_inv (s\<lparr>tx_packet_length := 0\<rparr>)" using assms(1) by (simp add: seph_inv_def)
  show ?thesis
  proof (cases "\<exists>buf. b = Some buf \<and> l \<noteq> 0 \<and> seph_st s \<noteq> SEPH_STATE_WAIT_EVENT \<and> tx_packet_length s = 0 \<and> \<not> l < 3")
    case True
    then obtain buf where b: "b = Some buf" "l \<noteq> 0" "seph_st s \<noteq> SEPH_STATE_WAIT_EVENT"
      "tx_packet_length s = 0" "\<not> l < 3" by blast
    let ?s = "\<lambda>n tag. s\<lparr>tx_packet_length := n + 3, tx_packet_tag := tag, tx_packet_offset := 0\<rparr>"
    have "seph_inv (?s m tag)" if "\<not> m + 3 > tx_packet_max_length s" for m tag
      using assms(1) b(3) that by (auto simp: seph_inv_def word_neq_0_conv)
    then have "seph_inv s'" if "\<not> m + 3 > tx_packet_max_length s"
      "seph_tx_body buf l (?s m tag) = Some (Inr (s', n))" for m tag
      using seph_tx_body_inv [of "?s m tag" l buf s' n] b that by simp
    then show ?thesis using assms b
      by (auto simp: sys_os_io_seph_tx_def simp del: not_less split: sum.splits if_splits)
  next
    case False
    then show ?thesis using assms seph_tx_body_inv [of s l _ s' n]
      by (auto simp: sys_os_io_seph_tx_def split: option.splits if_splits sum.splits)
  qed
qed

lemma seph_tx_safe:
  assumes "unat l \<le> length b"
  shows "sys_os_io_seph_tx (Some b) l s \<noteq> Some (Inl Oob)"
proof -
  have 1: "seph_tx_body b l t \<noteq> Some (Inl Oob)" for t
    using assms by (auto simp: seph_tx_body_def mem_read_def Let_def split: option.splits)
  have 2: "b \<noteq> []" if "l \<noteq> 0" using assms that unat_gt_0 [of l] by auto
  have 3: "\<exists>n. U2BE b 1 = Inr n" if "\<not> l < 3"
    using assms that U2BE_total [of 1 b] by (auto simp: word_less_nat_alt)
  show ?thesis
    using 1 2 3 by (auto simp: sys_os_io_seph_tx_def mem_get_def split: if_splits)
qed

lemma seph_tx_waits:
  assumes "seph_st s = SEPH_STATE_WAIT_EVENT" and "sys_os_io_seph_tx b l s = Some (Inr (s', n))"
  shows "s' = s"
  using assms by (auto simp: sys_os_io_seph_tx_def split: option.splits if_splits sum.splits)

text \<open>The receiving side.\<close>

lemma catch_touch_eq:
  assumes "9 \<le> length b"
  shows "\<exists>ti. catch_touch_info_from_seph (drop 1 b) n s = Inr (s\<lparr>last_touch_infos := ti\<rparr>)"
  using assms by (auto simp: catch_touch_info_from_seph_def mem_get_def mem_read_def
      intro: exI [of _ "last_touch_infos s"])

lemma rx_finish_eq:
  assumes "9 \<le> length b"
  shows "\<exists>ti. rx_finish s b n = Inr (s\<lparr>last_touch_infos := ti\<rparr>, b, n)"
  using catch_touch_eq [OF assms, of "word_of_int (n - 1)" s]
  by (auto simp: rx_finish_def intro: exI [of _ "last_touch_infos s"])

lemma rx_finish_inv:
  assumes "rx_finish s b n = Inr (s', b', m)"
  shows "m = n \<and> (seph_inv s' \<longleftrightarrow> seph_inv s)"
  using assms
  by (auto simp: rx_finish_def res_bind_eq_Inr_iff catch_touch_info_from_seph_def seph_inv_def
      split: if_splits)

lemma rx_body_inv:
  assumes "seph_inv s" and "rx_packet_length s \<le> 269" and "rx_body s b = Some (Inr (s', b', n))"
  shows "seph_inv s'"
proof -
  have le: "rx_packet_length s + 3 \<le> 272"
    using assms(2) by (simp add: word_le_nat_alt unat_word_ariths)
  have "length d = 269" if "readall (fd_reads s) (drop 3 (rx_packet s)) (unat (rx_packet_length s + 3) - 3) = Some (es, d, st)" for es d st
    using readall_length [OF that] assms(1) le by (simp add: seph_inv_def word_le_nat_alt)
  then show ?thesis using assms(1,3) le
    by (auto simp: rx_body_def seph_inv_def Let_def res_bind_eq_Inr_iff split: option.splits if_splits
        dest!: rx_finish_inv)
qed

lemma seph_rx_inv:
  assumes "seph_inv s" and "sys_os_io_seph_se_rx_event b m c s = Some (Inr (s', b', n))"
  shows "seph_inv s'"
proof -
  have 1: "seph_inv (s\<lparr>fd_reads := es, rx_packet := p, rx_packet_length := k\<rparr>)"
    if "readall (fd_reads s) (rx_packet s) 3 = Some (es, p, st)" for es p st k
    using readall_length [OF that(1)] assms(1) by (simp add: seph_inv_def)
  have 2: "\<not> uint k > uint (rx_packet_max_length s) - 3 \<longleftrightarrow> k \<le> 269" for k :: u16
    using assms(1) by (auto simp: seph_inv_def word_le_def)
  have 3: "seph_inv s'" if "readall (fd_reads s) (rx_packet s) 3 = Some (es, p, st)" "k \<le> 269"
      "rx_body (s\<lparr>fd_reads := es, rx_packet := p, rx_packet_length := k\<rparr>) buf = Some (Inr (s', d, i))"
    for es p st k buf d i
    using rx_body_inv [OF 1 [OF that(1)] _ that(3)] that(2) by simp
  show ?thesis using assms 2
    by (auto simp: sys_os_io_seph_se_rx_event_def Let_def res_bind_eq_Inr_iff
        dest!: rx_finish_inv split: option.splits if_splits sum.splits intro: 1 3)
qed

lemma rx_body_safe:
  assumes "seph_inv s" and "rx_packet_length s \<le> 269" and "273 \<le> length b"
  shows "rx_body s b \<noteq> Some (Inl Oob)"
proof -
  have le: "rx_packet_length s + 3 \<le> 272"
    using assms(2) by (simp add: word_le_nat_alt unat_word_ariths)
  have "length d = 269" if "readall (fd_reads s) (drop 3 (rx_packet s)) (unat (rx_packet_length s + 3) - 3) = Some (es, d, st)" for es d st
    using readall_length [OF that] assms(1) le by (simp add: seph_inv_def word_le_nat_alt)
  moreover have "rx_finish t c n \<noteq> Inl Oob" if "length c = length b" for t c n
    using rx_finish_eq [of c t n] assms(3) that by auto
  ultimately show ?thesis using assms(1,3) le
    by (auto simp: rx_body_def seph_inv_def Let_def mem_write_def mem_read_def word_le_nat_alt
        split: option.splits if_splits)
qed

lemma seph_rx_safe:
  assumes inv: "seph_inv s" and b: "273 \<le> length b"
  shows "sys_os_io_seph_se_rx_event (Some b) m False s \<noteq> Some (Inl Oob)"
    "sys_os_io_seph_se_rx_event (Some b) m True s = Some (Inl Oob) \<longleftrightarrow> 272 \<le> m \<and> 272 < rx_packet_length s"
proof -
  have fin: "rx_finish t d n \<noteq> Inl Oob" if "length d = length b" for t d n
    using rx_finish_eq [of d t n] b that by auto
  have body: "rx_body (s\<lparr>fd_reads := es, rx_packet := p, rx_packet_length := k\<rparr>) b \<noteq> Some (Inl Oob)"
    if "readall (fd_reads s) (rx_packet s) 3 = Some (es, p, st)" "\<not> 269 < uint k" for es p st k
  proof -
    have "k \<le> 269" using that(2) by (auto simp: word_le_def)
    then show ?thesis using readall_length [OF that(1)] inv b
      by (intro rx_body_safe) (simp_all add: seph_inv_def word_le_nat_alt)
  qed
  have head: "\<exists>k. U2BE p 1 = Inr k" if "readall (fd_reads s) (rx_packet s) 3 = Some (es, p, st)" for es p st
    using U2BE_total [of 1 p] readall_length [OF that] inv by (simp add: seph_inv_def)
  have wrap: "res_bind r (\<lambda>(s, b, n). Inr (s, Some b, n)) = Inl Oob \<longleftrightarrow> r = Inl Oob"
    for r :: "(seph \<times> bytes \<times> int) res" by (cases r) auto
  show "sys_os_io_seph_se_rx_event (Some b) m False s \<noteq> Some (Inl Oob)" using inv fin b head
    by (auto simp: sys_os_io_seph_se_rx_event_def Let_def wrap seph_inv_def
        split: option.splits sum.splits if_splits dest: body)
  have len: "length (rx_packet s) = 272" "rx_packet_max_length s = 272" using inv by (simp_all add: seph_inv_def)
  show "sys_os_io_seph_se_rx_event (Some b) m True s = Some (Inl Oob) \<longleftrightarrow> 272 \<le> m \<and> 272 < rx_packet_length s"
  proof (cases "rx_packet_length s \<le> 272")
    case True
    then show ?thesis using fin b len
      by (auto simp: sys_os_io_seph_se_rx_event_def Let_def mem_write_def mem_read_def wrap word_le_nat_alt word_less_nat_alt)
  next
    case False
    then show ?thesis using len
      by (auto simp: sys_os_io_seph_se_rx_event_def Let_def mem_read_def word_le_nat_alt not_le word_less_nat_alt)
  qed
qed

section \<open>Sequences of calls\<close>

text \<open>
  One system call by the application, whatever it returns; a call that blocks for ever, exits or
  leaves its buffers has no successor.
\<close>

inductive seph_step :: "seph \<Rightarrow> seph \<Rightarrow> bool" where
  seph_step_tx: "sys_os_io_seph_tx b l s = Some (Inr (s', n)) \<Longrightarrow> seph_step s s'"
| seph_step_rx: "sys_os_io_seph_se_rx_event b m c s = Some (Inr (s', b', n)) \<Longrightarrow>
     seph_step s s'"

inductive seph_reach :: "read_outcome list \<Rightarrow> write_outcome list \<Rightarrow> seph \<Rightarrow> bool" for rs ws where
  seph_reach_init: "seph_reach rs ws (G_seph_info rs ws)"
| seph_reach_step: "seph_reach rs ws s \<Longrightarrow> seph_step s s' \<Longrightarrow> seph_reach rs ws s'"

inductive_cases seph_stepE: "seph_step s s'"

lemma seph_reach_inv: "seph_reach rs ws s \<Longrightarrow> seph_inv s"
proof (induction rule: seph_reach.induct)
  case seph_reach_init
  show ?case by (simp add: G_seph_info_def seph_inv_def)
next
  case (seph_reach_step s s')
  then show ?case by (auto elim!: seph_stepE dest: seph_tx_inv seph_rx_inv)
qed

text \<open>
  Property C36: from the initial state, whatever the descriptor does, every sequence of sends and
  receives, refused ones included, keeps the driver's invariant: a packet in progress is shorter
  than its announced length, at most 272 bytes, and there is none while an event is awaited. So no
  further send and no further receive from the descriptor touches memory outside its buffers,
  given a send buffer of the length passed and a receive buffer of 273 bytes; a receive from the
  cache does exactly when the packet length recorded last is greater than the 272 bytes of the
  cache. While an event is awaited a send changes nothing.
\<close>

theorem seph_calls_safe:
  assumes "seph_reach rs ws s" and "unat l \<le> length b" and "273 \<le> length b'"
  shows "seph_inv s \<and> sys_os_io_seph_tx (Some b) l s \<noteq> Some (Inl Oob) \<and>
    sys_os_io_seph_se_rx_event (Some b') m False s \<noteq> Some (Inl Oob) \<and>
    (sys_os_io_seph_se_rx_event (Some b') m True s = Some (Inl Oob) \<longleftrightarrow> 272 \<le> m \<and> 272 < rx_packet_length s) \<and>
    (seph_st s = SEPH_STATE_WAIT_EVENT \<longrightarrow>
       (\<forall>s' n. sys_os_io_seph_tx (Some b) l s = Some (Inr (s', n)) \<longrightarrow> s' = s))"
  using seph_reach_inv [OF assms(1)] seph_tx_safe [OF assms(2)] seph_rx_safe [OF _ assms(3)]
    seph_tx_waits [of s] by blast

theorem seph_calls_safe_witness:
  "seph_inv (G_seph_info [Rd [1]] [Wr 3]) \<and>
   sys_os_io_seph_tx (Some [0x65, 0, 0]) 3 (G_seph_info [Rd [1]] [Wr 3]) \<noteq> Some (Inl Oob) \<and>
   sys_os_io_seph_se_rx_event (Some (replicate 273 0)) 272 False (G_seph_info [Rd [1]] [Wr 3]) \<noteq> Some (Inl Oob) \<and>
   sys_os_io_seph_se_rx_event (Some (replicate 273 0)) 272 True (G_seph_info [Rd [1]] [Wr 3]) \<noteq> Some (Inl Oob)"
proof -
  have "\<not> 272 < rx_packet_length (G_seph_info [Rd [1]] [Wr 3])" by (simp add: G_seph_info_def)
  then show ?thesis
    using seph_calls_safe [OF seph_reach_init [of "[Rd [1]]" "[Wr 3]"], of 3 "[0x65, 0, 0]" "replicate 273 0" 272]
    by simp
qed

section \<open>Receiving a packet\<close>

text \<open>
  The reads of a packet when the descriptor gives the header in one read and the payload in
  another, after any number of interruptions.
\<close>

definition packet_reads :: "nat \<Rightarrow> nat \<Rightarrow> u8 \<Rightarrow> bytes \<Rightarrow> read_outcome list \<Rightarrow> read_outcome list" where
  "packet_reads i j tag d es =
     replicate i Rd_eintr @ Rd (tag # be_of_u16 (of_nat (length d))) #
     (if d = [] then es else replicate j Rd_eintr @ Rd d # es)"

definition touch_of :: "u8 \<Rightarrow> bytes \<Rightarrow> touch_info" where
  "touch_of st d = \<lparr>touch_x = push_bit 8 (ucast (d ! 0)) + ucast (d ! 1),
     touch_y = push_bit 8 (ucast (d ! 2)) + ucast (d ! 3), touch_state = st\<rparr>"

lemma readall_header:
  "readall (packet_reads i j tag d es) buf 3 =
   Some (if d = [] then es else replicate j Rd_eintr @ Rd d # es,
         buf_write buf 0 (tag # be_of_u16 (of_nat (length d))), 0)"
  by (simp add: packet_reads_def readall_eintr readall_once)

lemma readall_payload:
  "readall (if d = [] then es else replicate j Rd_eintr @ Rd d # es) buf (length d) =
   Some (es, buf_write buf 0 d, 0)"
  by (auto simp: readall_eintr readall_once)

lemma rx_body_eq:
  assumes "seph_inv s" and "fd_reads s = (if d = [] then es else replicate j Rd_eintr @ Rd d # es)"
    and "length d \<le> 269" and "rx_packet_length s = of_nat (length d)" and "length d + 4 \<le> length b"
    and "take 3 (rx_packet s) = h"
  shows "rx_body s b = Some (rx_finish
      (s\<lparr>rx_packet_length := of_nat (length d) + 3, fd_reads := es,
         rx_packet := buf_write (rx_packet s) 3 d, seph_st := SEPH_STATE_SEND_CMD, tx_packet_length := 0\<rparr>)
      (buf_write b 0 (1 # h @ d)) (int (length d) + 4))"
proof -
  let ?n = "of_nat (length d) + 3 :: u16"
  let ?p = "h @ d @ drop (3 + length d) (rx_packet s)"
  have n: "unat ?n = length d + 3" "uint ?n = int (length d) + 3"
    using assms(3) unat_of_nat [where 'a=16, of "length d + 3"] by (simp_all add: uint_nat)
  have lh: "length h = 3" "length (rx_packet s) = 272" using assms(1,6) by (auto simp: seph_inv_def)
  have rd: "readall (fd_reads s) (drop 3 (rx_packet s)) (unat ?n - 3) =
      Some (es, d @ drop (3 + length d) (rx_packet s), 0)"
    using readall_payload [of d es j "drop 3 (rx_packet s)"] assms(2) n
    by (simp add: buf_write_def add.commute)
  have p: "buf_write (rx_packet s) 3 d = ?p" using assms(6) by (simp add: buf_write_def)
  have "mem_read ?p 0 (unat ?n) = Inr (h @ d)"
    using lh assms(3) by (simp add: mem_read_def n)
  moreover have "mem_write b 0 [1] = Inr (buf_write b 0 [1])"
    "mem_write (buf_write b 0 [1]) 1 (h @ d) = Inr (buf_write b 0 (1 # h @ d))"
    using assms(3,5) lh buf_write_append [of 0 b "[1]" "h @ d"] by (simp_all add: mem_write_def)
  ultimately show ?thesis using rd p n assms(4,6) by (simp add: rx_body_def Let_def add.commute)
qed

lemma rx_finish_touch:
  assumes "b = 1 # tag # l0 # l1 # r" and "5 \<le> length r" and "n \<le> 269"
  shows "rx_finish s b (int n + 4) =
    Inr (s\<lparr>last_touch_infos := if tag = 0x0C \<and> 2 \<le> n then touch_of (r ! 0) (drop 1 r) else last_touch_infos s\<rparr>,
      b, int n + 4)"
proof -
  have "(word_of_int (int n + 4 - 1) :: u16) = of_nat (n + 3)" by simp
  then have "((word_of_int (int n + 4 - 1) :: u16) < 5) = (\<not> 2 \<le> n)"
    using assms(3) by (auto simp: word_less_nat_alt unat_of_nat simp del: of_nat_add)
  then show ?thesis
    using assms(1,2) by (auto simp: rx_finish_def catch_touch_info_from_seph_def mem_get_def mem_read_def touch_of_def
        nth_append numeral_eq_Suc)
qed

text \<open>
  Property C35: when the driver waits for an event and the MCU sends a packet of at most 269 bytes
  of payload, its header and its payload each delivered by one read after any number of
  interruptions, into a buffer with room for the type byte and the packet and for the 9 bytes of a
  finger event, the call returns the packet preceded by the type byte and its length, and the
  driver may send again. A finger event of at least five bytes updates the last touch position; one
  of two to four bytes updates it too, with what the buffer held behind the packet; any other
  packet leaves it alone.
\<close>

theorem seph_rx_packet:
  assumes "seph_inv s" and "seph_st s = SEPH_STATE_WAIT_EVENT" and "length d \<le> 269"
    and "fd_reads s = packet_reads i j tag d es" and "272 \<le> m" and "length d + 4 \<le> length b" and "9 \<le> length b"
  shows "\<exists>s'. sys_os_io_seph_se_rx_event (Some b) m False s =
      Some (Inr (s', Some (buf_write b 0 (1 # seph_packet tag d)), int (length d) + 4)) \<and>
    seph_st s' = SEPH_STATE_SEND_CMD \<and> fd_reads s' = es \<and> seph_inv s' \<and>
    take (length d + 3) (rx_packet s') = seph_packet tag d \<and>
    last_touch_infos s' =
      (if tag = 0x0C \<and> 2 \<le> length d
       then let e = d @ drop (length d + 4) b in touch_of (e ! 0) (drop 1 e)
       else last_touch_infos s)"
proof -
  let ?n = "of_nat (length d) :: u16"
  let ?h = "tag # be_of_u16 ?n"
  let ?es = "if d = [] then es else replicate j Rd_eintr @ Rd d # es"
  let ?p = "buf_write (rx_packet s) 0 ?h"
  let ?t = "s\<lparr>fd_reads := ?es, rx_packet := ?p, rx_packet_length := ?n\<rparr>"
  let ?u = "?t\<lparr>rx_packet_length := of_nat (length d) + 3, fd_reads := es,
         rx_packet := buf_write ?p 3 d, seph_st := SEPH_STATE_SEND_CMD, tx_packet_length := 0\<rparr>"
  let ?b = "buf_write b 0 (1 # seph_packet tag d)" and ?e = "d @ drop (length d + 4) b"
  define ti where "ti = (if tag = 0x0C \<and> 2 \<le> length d then touch_of (?e ! 0) (drop 1 ?e) else last_touch_infos s)"
  have n: "uint ?n = int (length d)" "?n \<le> 269"
    using assms(3) by (simp_all add: uint_nat unat_of_nat word_le_nat_alt)
  have len: "length (rx_packet s) = 272" "rx_packet_max_length s = 272" using assms(1) by (simp_all add: seph_inv_def)
  have u2: "U2BE ?p 1 = Inr ?n" using U2BE_packet [of tag ?n] by (simp add: buf_write_def)
  have inv: "seph_inv ?t" using assms(1) len by (simp add: seph_inv_def)
  have p3: "take 3 ?p = ?h" by (simp add: buf_write_def)
  have body: "rx_body ?t b = Some (rx_finish ?u ?b (int (length d) + 4))"
    using rx_body_eq [OF inv _ assms(3) _ assms(6), of es j ?h] p3 by (simp add: seph_packet_def)
  have b: "?b = 1 # tag # (be_of_u16 ?n ! 0) # (be_of_u16 ?n ! 1) # ?e"
    by (simp add: buf_write_def seph_packet_def be_of_u16_def numeral_eq_Suc)
  have "5 \<le> length ?e" using assms(6,7) by simp
  then have ti: "rx_finish ?u ?b (int (length d) + 4) = Inr (?u\<lparr>last_touch_infos := ti\<rparr>, ?b, int (length d) + 4)"
    using rx_finish_touch [OF b _ assms(3), of ?u] by (simp add: ti_def)
  have rd: "readall (fd_reads s) (rx_packet s) 3 = Some (?es, ?p, 0)"
    unfolding assms(4) by (rule readall_header)
  have "sys_os_io_seph_se_rx_event (Some b) m False s =
      Some (Inr (?u\<lparr>last_touch_infos := ti\<rparr>, Some ?b, int (length d) + 4))"
    using assms(2,3,5) len n(1) ti unfolding sys_os_io_seph_se_rx_event_def rd
    by (simp add: u2 body Let_def not_less del: One_nat_def)
  moreover have "seph_inv (?u\<lparr>last_touch_infos := ti\<rparr>)"
    using assms(1,3) len by (simp add: seph_inv_def)
  moreover have "take (length d + 3) (buf_write ?p 3 d) = seph_packet tag d"
    using take_buf_write [of 3 ?p d] len p3 by (simp add: seph_packet_def add.commute)
  ultimately show ?thesis by (auto simp: ti_def Let_def)
qed

theorem seph_rx_packet_witness:
  "\<exists>s'. sys_os_io_seph_se_rx_event (Some (replicate 273 0)) 272 False
      ((G_seph_info (packet_reads 1 0 0x0C [1, 0, 7, 0, 9] []) [])\<lparr>seph_st := SEPH_STATE_WAIT_EVENT\<rparr>) =
      Some (Inr (s', Some (buf_write (replicate 273 0) 0 (1 # seph_packet 0x0C [1, 0, 7, 0, 9])), 9)) \<and>
    last_touch_infos s' = \<lparr>touch_x = 7, touch_y = 9, touch_state = 1\<rparr>"
proof -
  let ?s = "(G_seph_info (packet_reads 1 0 0x0C [1, 0, 7, 0, 9] []) [])\<lparr>seph_st := SEPH_STATE_WAIT_EVENT\<rparr>"
  have "seph_inv ?s" "seph_st ?s = SEPH_STATE_WAIT_EVENT"
    "fd_reads ?s = packet_reads 1 0 0x0C [1, 0, 7, 0, 9] []"
    by (simp_all add: G_seph_info_def seph_inv_def)
  from seph_rx_packet [OF this(1,2) _ this(3), of 272 "replicate 273 0"]
  show ?thesis by (auto simp: touch_of_def Let_def)
qed

section \<open>Where the driver goes wrong\<close>

text \<open>
  The buffer pointer of \<open>readall\<close> does not advance, so when a read returns fewer bytes
  than asked for, the next one overwrites them: two short reads that together fill the buffer
  leave the second one at its start and report success.
\<close>

theorem readall_short_read:
  assumes "d \<noteq> []" and "e \<noteq> []" and "length buf = length d + length e"
  shows "\<exists>buf'. readall (Rd d # Rd e # es) buf (length d + length e) = Some (es, buf', 0) \<and>
    take (length e) buf' = e \<and> length buf' = length d + length e"
proof -
  obtain n where n: "length d + length e = Suc n" using assms(1) by (cases d) auto
  have "readall (Rd d # Rd e # es) buf (Suc n) = readall (Rd e # es) (buf_write buf 0 d) (length e)"
    using assms(1,2) n diff_add_inverse [of "length d" "length e"] by (cases "length d = Suc n") auto
  then show ?thesis
    using assms n by (simp add: readall_once buf_write_def)
qed

theorem readall_short_read_witness:
  "\<exists>buf'. readall [Rd [1], Rd [2, 3]] [0, 0, 0] 3 = Some ([], buf', 0) \<and>
     take 2 buf' = [2, 3] \<and> length buf' = 3"
  using readall_short_read [of "[1]" "[2, 3]" "[0, 0, 0]" "[]"] by (simp add: numeral_eq_Suc)

text \<open>
  A call that passes extra bytes than the packet it announces is refused with
  \<open>-24\<close>, nothing is written, but the announced length stays recorded: a following call with a
  fresh packet is taken as the continuation of the refused one. When it is shorter, the driver
  stays inside a packet, so that not even a status makes it wait for an event.
\<close>

theorem seph_tx_stale:
  assumes "seph_st s \<noteq> SEPH_STATE_WAIT_EVENT" and "tx_packet_length s = 0"
    and "tx_packet_max_length s = 272" and "length d \<le> 269"
    and "length d + 3 < length (seph_packet tag d @ extra)" and "length (seph_packet tag d @ extra) < 65536"
    and "0 < length q" and "length q < length d + 3" and "wr_live (fd_writes s)"
    and "length q \<le> wr_calls (fd_writes s)"
  shows "\<exists>s1 s2. tx_all [seph_packet tag d @ extra] s = Some (Inr (s1, [-24])) \<and>
    fd_written s1 = fd_written s \<and> tx_packet_length s1 = of_nat (length d + 3) \<and>
    tx_all [q] s1 = Some (Inr (s2, [int (length q)])) \<and> fd_written s2 = fd_written s @ q \<and>
    seph_st s2 = seph_st s \<and> tx_packet_length s2 = of_nat (length d + 3)"
proof -
  let ?b = "seph_packet tag d @ extra"
  let ?l = "of_nat (length ?b) :: u16"
  let ?s = "s\<lparr>tx_packet_length := of_nat (length d) + 3, tx_packet_tag := tag, tx_packet_offset := 0\<rparr>"
  have u: "unat (of_nat (length d) + 3 :: u16) = length d + 3" "unat ?l = length ?b" "unat (of_nat (length q) :: u16) = length q"
    using assms(4,6,8) unat_of_nat [where 'a=16, of "length d + 3"]
    by (simp_all add: unat_of_nat del: length_append)
  have len: "\<not> ?l < 3" "?l \<noteq> 0" "\<not> of_nat (length d) + 3 > (272 :: u16)"
      "(of_nat (length d) + 3 :: u16) \<noteq> 0" "(of_nat (length q) :: u16) \<noteq> 0"
    using u assms(4,5,7) by (auto simp: word_less_nat_alt simp del: of_nat_add dest: arg_cong [of _ _ unat])
  have "U2BE ?b 1 = Inr (of_nat (length d))" "mem_get ?b 0 = Inr tag"
    using U2BE_packet [of tag "of_nat (length d)" "d @ extra"] by (simp_all add: seph_packet_def mem_get_def)
  then have "sys_os_io_seph_tx (Some ?b) ?l s = seph_tx_body ?b ?l ?s"
    using assms(1-3) len unfolding sys_os_io_seph_tx_def by (simp del: not_less)
  also have "\<dots> = Some (Inr (?s, -24))" using u assms(5) by (simp add: seph_tx_body_def del: length_append)
  finally have 1: "tx_all [?b] s = Some (Inr (?s, [-24]))" by simp
  obtain ws where "writeall (fd_writes s) q = Some (ws, q, 0)"
    using writeall_live [OF assms(9,10)] by auto
  moreover have "of_nat (length q) \<noteq> (of_nat (length d) + 3 :: u16)"
    using u assms(8) by (metis less_irrefl)
  moreover have "uint (of_nat (length q) :: u16) = int (length q)" using u(3) by (simp add: uint_nat)
  ultimately obtain s2 where "tx_all [q] ?s = Some (Inr (s2, [int (length q)]))" "fd_written s2 = fd_written s @ q"
    "seph_st s2 = seph_st s" "tx_packet_length s2 = of_nat (length d) + 3"
    using assms(1,8) len(4,5) u
    by (auto simp: sys_os_io_seph_tx_def seph_tx_body_def mem_read_def Let_def)
  then show ?thesis using 1 by (auto simp: add.commute)
qed

theorem seph_tx_stale_witness:
  "\<exists>s1 s2. tx_all [[0x50, 0, 4, 1, 2, 3, 4, 5]] (G_seph_info [] (replicate 5 (Wr 1))) = Some (Inr (s1, [-24])) \<and>
    tx_all [[0x60, 0, 0]] s1 = Some (Inr (s2, [3])) \<and> seph_st s2 = SEPH_STATE_SEND_CMD \<and>
    tx_packet_length s2 = 7"
  using seph_tx_stale [where s = "G_seph_info [] (replicate 5 (Wr 1))" and tag = "0x50" and d = "[1, 2, 3, 4]"
      and extra = "[5]" and q = "[0x60, 0, 0]"]
  by (auto simp: G_seph_info_def seph_packet_def be_of_u16_def wr_live_def wr_calls_def)

text \<open>
  The length check of a receive compares the caller's buffer with 272, but the type
  byte is stored before the packet: with a buffer of exactly the accepted size, the largest
  packet is copied one byte past its end.
\<close>

theorem seph_rx_overrun:
  assumes "seph_inv s" and "seph_st s = SEPH_STATE_WAIT_EVENT" and "length d = 269"
    and "fd_reads s = packet_reads i j tag d es" and "length b = 272"
  shows "sys_os_io_seph_se_rx_event (Some b) 272 False s = Some (Inl Oob)"
proof -
  let ?p = "buf_write (rx_packet s) 0 (tag # be_of_u16 269)"
  have len: "length (rx_packet s) = 272" "rx_packet_max_length s = 272" using assms(1) by (simp_all add: seph_inv_def)
  have rd: "readall (fd_reads s) (rx_packet s) 3 = Some (if d = [] then es else replicate j Rd_eintr @ Rd d # es, ?p, 0)"
    using readall_header [of i j tag d es "rx_packet s"] assms(3,4) by simp
  have u2: "U2BE ?p 1 = Inr 269" using U2BE_packet [of tag 269] by (simp add: buf_write_def)
  have "readall (if d = [] then es else replicate j Rd_eintr @ Rd d # es) (drop 3 ?p) 269 = Some (es, buf_write (drop 3 ?p) 0 d, 0)"
    using readall_payload [of d es j "drop 3 ?p"] assms(3) by simp
  then have "rx_body (s\<lparr>fd_reads := if d = [] then es else replicate j Rd_eintr @ Rd d # es, rx_packet := ?p,
      rx_packet_length := 269\<rparr>) b = Some (Inl Oob)"
    using assms(3,5) len by (simp add: rx_body_def Let_def mem_write_def mem_read_def)
  then show ?thesis using assms(2) len unfolding sys_os_io_seph_se_rx_event_def rd
    by (simp add: u2 Let_def del: One_nat_def)
qed

theorem seph_rx_overrun_witness:
  "sys_os_io_seph_se_rx_event (Some (replicate 272 0)) 272 False
      ((G_seph_info (packet_reads 0 0 5 (replicate 269 7) []) [])\<lparr>seph_st := SEPH_STATE_WAIT_EVENT\<rparr>) =
   Some (Inl Oob)"
  by (rule seph_rx_overrun [where d = "replicate 269 7" and i = 0 and j = 0 and tag = 5 and es = "[]"])
    (simp_all add: G_seph_info_def seph_inv_def)

text \<open>
  A packet announced as longer than 269 bytes is refused with \<open>-12\<close>, but its length
  stays recorded as the length of the cached packet: when it exceeds the 272 bytes of the cache,
  the next cached receive reads past the end of it.
\<close>

theorem seph_cached_overrun:
  assumes "seph_inv s" and "seph_st s = SEPH_STATE_WAIT_EVENT" and "272 < length d" and "length d < 65536"
    and "fd_reads s = packet_reads i j tag d es" and "272 \<le> m" and "273 \<le> length b"
  shows "\<exists>s'. sys_os_io_seph_se_rx_event (Some b) m False s = Some (Inr (s', Some b, -12)) \<and>
    sys_os_io_seph_se_rx_event (Some b) m True s' = Some (Inl Oob)"
proof -
  let ?n = "of_nat (length d) :: u16"
  let ?p = "buf_write (rx_packet s) 0 (tag # be_of_u16 ?n)"
  let ?t = "s\<lparr>fd_reads := if d = [] then es else replicate j Rd_eintr @ Rd d # es, rx_packet := ?p, rx_packet_length := ?n\<rparr>"
  have len: "length (rx_packet s) = 272" "rx_packet_max_length s = 272" using assms(1) by (simp_all add: seph_inv_def)
  have n: "uint ?n = int (length d)" "unat ?n = length d" using assms(4) by (simp_all add: uint_nat unat_of_nat)
  have rd: "readall (fd_reads s) (rx_packet s) 3 = Some (if d = [] then es else replicate j Rd_eintr @ Rd d # es, ?p, 0)"
    unfolding assms(5) by (rule readall_header)
  have u2: "U2BE ?p 1 = Inr ?n" using U2BE_packet [of tag ?n] by (simp add: buf_write_def)
  have "rx_finish ?t b (-12) = Inr (?t, b, -12)" by (simp add: rx_finish_def)
  then have "sys_os_io_seph_se_rx_event (Some b) m False s = Some (Inr (?t, Some b, -12))"
    using assms(2,3,6) len n(1) unfolding sys_os_io_seph_se_rx_event_def rd
    by (simp add: u2 Let_def not_less del: One_nat_def)
  moreover have "sys_os_io_seph_se_rx_event (Some b) m True ?t = Some (Inl Oob)"
    using assms(3,6) len n(2) by (simp add: sys_os_io_seph_se_rx_event_def mem_read_def not_less Let_def)
  ultimately show ?thesis by blast
qed

theorem seph_cached_overrun_witness:
  "\<exists>s'. sys_os_io_seph_se_rx_event (Some (replicate 300 0)) 300 False
      ((G_seph_info (packet_reads 0 0 5 (replicate 280 7) []) [])\<lparr>seph_st := SEPH_STATE_WAIT_EVENT\<rparr>) =
      Some (Inr (s', Some (replicate 300 0), -12)) \<and>
    sys_os_io_seph_se_rx_event (Some (replicate 300 0)) 300 True s' = Some (Inl Oob)"
  by (rule seph_cached_overrun [where d = "replicate 280 7" and i = 0 and j = 0 and tag = 5 and es = "[]"])
    (simp_all add: G_seph_info_def seph_inv_def)

end
