(* ===== verification/Nbgl_Rle.thy ===== *)
theory Nbgl_Rle
  imports Prelude
begin

text \<open>
  The run-length decoder of pictures, \<open>src/bolos/nbgl_rle.c\<close>, for pictures of four bits and of
  one bit per pixel. The decoders are compared with the list of pixels that the compressed data
  stands for, and pictures compressed as the comments of the source describe are restored.
\<close>

section \<open>Areas\<close>

record nbgl_area =
  x0 :: u16
  y0 :: u16
  width :: u16
  height :: u16
  backgroundColor :: u8
  bpp :: u8

definition NBGL_BPP_1 :: u8 where
  "NBGL_BPP_1 = 0"

definition NBGL_BPP_4 :: u8 where
  "NBGL_BPP_4 = 2"

definition WHITE_4BPP :: u8 where
  "WHITE_4BPP = 0xF"

text \<open>
  \<open>width * height\<close> as the 32-bit number the decoders keep. The decoder of four bits per pixel
  multiplies in \<open>int\<close>, where a product of \<open>2 ^ 31\<close> or more overflows; here it has the bits of the
  wrapped product, as compilers for the target give it. \<open>area_size\<close> is the product of the numbers.
\<close>

definition area_pixels :: "nbgl_area \<Rightarrow> u32" where
  "area_pixels area = ucast (width area) * ucast (height area)"

definition area_size :: "nbgl_area \<Rightarrow> nat" where
  "area_size area = unat (width area) * unat (height area)"

lemma area_size_bound: "area_size area \<le> 65535 * 65535"
proof -
  have "unat (width area) \<le> 65535" "unat (height area) \<le> 65535"
    using unsigned_less [of "width area", where 'a = nat]
      unsigned_less [of "height area", where 'a = nat] by simp_all
  then show ?thesis unfolding area_size_def by (rule mult_le_mono)
qed

lemma unat_area_pixels: "unat (area_pixels area) = area_size area"
proof -
  have "unat (ucast w :: u32) = unat w" for w :: u16
    using unsigned_less [of w, where 'a = nat] by (simp add: unsigned_ucast_eq take_bit_nat_eq_self)
  then show ?thesis
    using area_size_bound [of area] by (simp add: area_pixels_def area_size_def unat_word_ariths)
qed

section \<open>Four bits per pixel\<close>

text \<open>
  The locals that the handlers change through pointers: the number of pixels written, the byte
  that waits for its second pixel, and the output buffer. The counter is at most
  \<open>area_pixels\<close>, and the sum with the 64 pixels of a run is below \<open>2 ^ 32\<close>, so that it is a
  natural number here. The position in the input is a \<open>uint32_t\<close> that may wrap around.
\<close>

record rle4 =
  pix_cnt :: nat
  remaining :: u8
  out_buffer :: bytes

fun fill_4bpp_pairs :: "u8 \<Rightarrow> nat \<Rightarrow> rle4 \<Rightarrow> rle4 res" where
  "fill_4bpp_pairs double_pix 0 s = Inr s"
| "fill_4bpp_pairs double_pix (Suc n) s =
     res_bind (mem_write (out_buffer s) (pix_cnt s div 2) [double_pix])
       (\<lambda>out. fill_4bpp_pairs double_pix n (s\<lparr>out_buffer := out, pix_cnt := pix_cnt s + 2\<rparr>))"

definition fill_4bpp_first :: "u8 \<Rightarrow> rle4 \<Rightarrow> rle4 res" where
  "fill_4bpp_first color s =
     res_bind (mem_write (out_buffer s) (pix_cnt s div 2) [remaining s OR (0x0F AND color)])
       (\<lambda>out. Inr (s\<lparr>out_buffer := out, remaining := 0, pix_cnt := pix_cnt s + 1\<rparr>))"

definition fill_4bpp_pixels_color :: "u8 \<Rightarrow> nat \<Rightarrow> nat \<Rightarrow> rle4 \<Rightarrow> rle4 res" where
  "fill_4bpp_pixels_color color nb_pix max_pix_cnt s =
     (if pix_cnt s + nb_pix > max_pix_cnt then Inr s
      else let double_pix = push_bit 4 color OR color;
               first_non_aligned = odd (pix_cnt s);
               last_non_aligned = odd (pix_cnt s + nb_pix) in
        res_bind (if first_non_aligned then fill_4bpp_first color s else Inr s) (\<lambda>s.
        res_bind (fill_4bpp_pairs double_pix
           ((if first_non_aligned then nb_pix - 1 else nb_pix) div 2) s) (\<lambda>s.
        Inr (if last_non_aligned
             then s\<lparr>remaining := push_bit 4 color, pix_cnt := pix_cnt s + 1\<rparr> else s))))"

definition handle_4bpp_repeat_white :: "u8 \<Rightarrow> nat \<Rightarrow> rle4 \<Rightarrow> (nat \<times> rle4) res" where
  "handle_4bpp_repeat_white byte_in max_pix_cnt s =
     (let nb_pix = unat (byte_in AND 0x3F) + 1 in
      res_bind (fill_4bpp_pixels_color WHITE_4BPP nb_pix max_pix_cnt s) (\<lambda>s. Inr (1, s)))"

definition handle_4bpp_repeat_color :: "u8 \<Rightarrow> nat \<Rightarrow> rle4 \<Rightarrow> (nat \<times> rle4) res" where
  "handle_4bpp_repeat_color byte_in max_pix_cnt s =
     (let nb_pix = unat (drop_bit 4 (byte_in AND 0x70)) + 1; color = byte_in AND 0x0F in
      res_bind (fill_4bpp_pixels_color color nb_pix max_pix_cnt s) (\<lambda>s. Inr (1, s)))"

text \<open>The loop over the pixels of a copy instruction, from pixel \<open>i\<close> with \<open>n\<close> left.\<close>

fun copy_4bpp_loop :: "bytes \<Rightarrow> nat \<Rightarrow> nat \<Rightarrow> nat \<Rightarrow> rle4 \<Rightarrow> rle4 res" where
  "copy_4bpp_loop bytes_in max_pix_cnt i 0 s = Inr s"
| "copy_4bpp_loop bytes_in max_pix_cnt i (Suc n) s =
     res_bind (mem_get bytes_in ((i + 1) div 2)) (\<lambda>b.
     res_bind (fill_4bpp_pixels_color (if even i then b AND 0x0F else drop_bit 4 b) 1
        max_pix_cnt s) (\<lambda>s.
     copy_4bpp_loop bytes_in max_pix_cnt (i + 1) n s))"

definition handle_4bpp_copy :: "bytes \<Rightarrow> nat \<Rightarrow> nat \<Rightarrow> rle4 \<Rightarrow> (nat \<times> rle4) res" where
  "handle_4bpp_copy bytes_in bytes_in_len max_pix_cnt s =
     res_bind (mem_get bytes_in 0) (\<lambda>b.
       let nb_pix = unat (drop_bit 4 (b AND 0x30)) + 3; nb_bytes_read = nb_pix div 2 + 1 in
       if nb_bytes_read > bytes_in_len then Inr (nb_bytes_read, s)
       else res_bind (copy_4bpp_loop bytes_in max_pix_cnt 0 nb_pix s)
              (\<lambda>s. Inr (nb_bytes_read, s)))"

definition rle_4bpp_step :: "bytes \<Rightarrow> u32 \<Rightarrow> nat \<Rightarrow> u32 \<Rightarrow> rle4 \<Rightarrow> (nat \<times> rle4) res" where
  "rle_4bpp_step buffer buffer_len max_pix_cnt read_cnt s =
     res_bind (mem_get buffer (unat read_cnt)) (\<lambda>byte.
       if byte AND 0x80 \<noteq> 0 then
         if byte AND 0x40 \<noteq> 0 then handle_4bpp_repeat_white byte max_pix_cnt s
         else handle_4bpp_copy (drop (unat read_cnt) buffer) (unat (buffer_len - read_cnt)) max_pix_cnt s
       else handle_4bpp_repeat_color byte max_pix_cnt s)"

text \<open>
  The loop over the input. For an input within three bytes of \<open>2 ^ 32\<close> a copy instruction that is cut
  off at its end takes \<open>read_cnt\<close> past zero, and the loop may run for ever: then there is no result.
\<close>

partial_function (option) rle_4bpp_loop ::
  "bytes \<Rightarrow> u32 \<Rightarrow> nat \<Rightarrow> u32 \<Rightarrow> rle4 \<Rightarrow> rle4 res option" where
  "rle_4bpp_loop buffer buffer_len max_pix_cnt read_cnt s =
     (if read_cnt < buffer_len then
        case rle_4bpp_step buffer buffer_len max_pix_cnt read_cnt s of
          Inl e \<Rightarrow> Some (Inl e)
        | Inr r \<Rightarrow> rle_4bpp_loop buffer buffer_len max_pix_cnt (read_cnt + of_nat (fst r)) (snd r)
      else Some (Inr s))"

definition finish_4bpp :: "rle4 \<Rightarrow> bytes res" where
  "finish_4bpp s =
     (if odd (pix_cnt s) then mem_write (out_buffer s) (pix_cnt s div 2) [remaining s]
      else Inr (out_buffer s))"

definition nbgl_uncompress_rle_4bpp ::
  "nbgl_area \<Rightarrow> bytes \<Rightarrow> u32 \<Rightarrow> bytes \<Rightarrow> u32 \<Rightarrow> bytes res option" where
  "nbgl_uncompress_rle_4bpp area buffer buffer_len out out_buffer_len =
     (let max_pix_cnt = area_pixels area in
      if max_pix_cnt * 2 > out_buffer_len then Some (Inr out)
      else case mem_set out 0 0xFF (unat out_buffer_len) of Inl e \<Rightarrow> Some (Inl e)
      | Inr out \<Rightarrow>
        if buffer_len = 0 then Some (Inr out)
        else case rle_4bpp_loop buffer buffer_len (unat max_pix_cnt) 0
               \<lparr>pix_cnt = 0, remaining = 0, out_buffer = out\<rparr> of
             None \<Rightarrow> None
           | Some r \<Rightarrow> Some (res_bind r finish_4bpp))"

section \<open>One bit per pixel\<close>

record rle1 =
  idx :: nat
  nb_zeros :: nat
  nb_ones :: nat
  pixels :: u8
  nb_pixels :: nat
  remaining_pixels :: u32
  out_pos :: nat
  out_bytes :: bytes

text \<open>The inner loop: reads counts until one of them is not zero or the input ends.\<close>

function reload_1bpp :: "bytes \<Rightarrow> nat \<Rightarrow> rle1 \<Rightarrow> rle1 res" where
  "reload_1bpp buffer buffer_len s =
     (if nb_zeros s = 0 \<and> nb_ones s = 0 \<and> idx s < buffer_len then
        case mem_get buffer (idx s) of
          Inl e \<Rightarrow> Inl e
        | Inr byte \<Rightarrow> reload_1bpp buffer buffer_len
            (s\<lparr>idx := idx s + 1, nb_ones := unat (byte AND 0x0F), nb_zeros := unat (drop_bit 4 byte)\<rparr>)
      else Inr s)"
  by pat_completeness auto
termination
  by (relation "measure (\<lambda>(buffer, buffer_len, s). buffer_len - idx s)") auto

declare reload_1bpp.simps [simp del]

definition next_pixel_1bpp :: "rle1 \<Rightarrow> rle1" where
  "next_pixel_1bpp s =
     (let s = s\<lparr>pixels := push_bit 1 (pixels s)\<rparr>;
          s = (if nb_zeros s \<noteq> 0 then s\<lparr>nb_zeros := nb_zeros s - 1, pixels := pixels s OR 0\<rparr>
               else if nb_ones s \<noteq> 0 then s\<lparr>nb_ones := nb_ones s - 1, pixels := pixels s OR 1\<rparr>
               else s) in
      s\<lparr>nb_pixels := nb_pixels s + 1\<rparr>)"

definition store_pixels_1bpp :: "rle1 \<Rightarrow> rle1 res" where
  "store_pixels_1bpp s =
     (if nb_pixels s = 8 then
        res_bind (mem_write (out_bytes s) (out_pos s) [pixels s]) (\<lambda>out.
          Inr (s\<lparr>out_bytes := out, out_pos := out_pos s + 1,
                 remaining_pixels := remaining_pixels s - 8, nb_pixels := nb_pixels s - 8\<rparr>))
      else Inr s)"

definition rle_1bpp_step :: "bytes \<Rightarrow> nat \<Rightarrow> rle1 \<Rightarrow> rle1 res" where
  "rle_1bpp_step buffer buffer_len s =
     res_bind (reload_1bpp buffer buffer_len s) (\<lambda>s. store_pixels_1bpp (next_pixel_1bpp s))"


lemma reload_1bpp_idx:
  "reload_1bpp buffer buffer_len s = Inr s' \<Longrightarrow>
   idx s < idx s' \<and> idx s < buffer_len \<or> s' = s \<and> \<not> (nb_zeros s = 0 \<and> nb_ones s = 0 \<and> idx s < buffer_len)"
proof (induction buffer buffer_len s rule: reload_1bpp.induct)
  case (1 buffer buffer_len s)
  show ?case
  proof (cases "nb_zeros s = 0 \<and> nb_ones s = 0 \<and> idx s < buffer_len")
    case True
    then obtain b where b: "mem_get buffer (idx s) = Inr b"
      using "1.prems" by (auto simp: reload_1bpp.simps [of buffer buffer_len s] split: sum.splits)
    then show ?thesis
      using "1.IH" [OF True b] "1.prems" True by (auto simp: reload_1bpp.simps [of buffer buffer_len s])
  next
    case False
    then show ?thesis
      using "1.prems" by (auto simp: reload_1bpp.simps [of buffer buffer_len s])
  qed
qed

lemma next_pixel_1bpp_idx [simp]: "idx (next_pixel_1bpp s) = idx s"
  by (simp add: next_pixel_1bpp_def Let_def)

lemma store_pixels_1bpp_counts:
  "store_pixels_1bpp s = Inr s' \<Longrightarrow>
   idx s' = idx s \<and> nb_zeros s' = nb_zeros s \<and> nb_ones s' = nb_ones s"
  by (auto simp: store_pixels_1bpp_def res_bind_eq_Inr_iff split: if_splits)

lemma rle_1bpp_step_progress:
  assumes "rle_1bpp_step buffer buffer_len s = Inr s'"
    and "idx s < buffer_len \<or> nb_zeros s \<noteq> 0 \<or> nb_ones s \<noteq> 0"
  shows "idx s < idx s' \<and> idx s < buffer_len \<or>
    idx s' = idx s \<and> nb_zeros s' + nb_ones s' < nb_zeros s + nb_ones s"
proof -
  obtain t where t: "reload_1bpp buffer buffer_len s = Inr t"
      "store_pixels_1bpp (next_pixel_1bpp t) = Inr s'"
    using assms(1) by (auto simp: rle_1bpp_step_def res_bind_eq_Inr_iff)
  show ?thesis
    using reload_1bpp_idx [OF t(1)] store_pixels_1bpp_counts [OF t(2)] assms(2)
    by (auto simp: next_pixel_1bpp_def Let_def split: if_splits)
qed

function rle_1bpp_loop :: "bytes \<Rightarrow> nat \<Rightarrow> rle1 \<Rightarrow> rle1 res" where
  "rle_1bpp_loop buffer buffer_len s =
     (if remaining_pixels s \<noteq> 0 \<and> (idx s < buffer_len \<or> nb_zeros s \<noteq> 0 \<or> nb_ones s \<noteq> 0) then
        case rle_1bpp_step buffer buffer_len s of
          Inl e \<Rightarrow> Inl e
        | Inr s' \<Rightarrow> rle_1bpp_loop buffer buffer_len s'
      else Inr s)"
  by pat_completeness auto
termination
  by (relation "measures [\<lambda>(buffer, buffer_len, s). buffer_len - idx s,
      \<lambda>(buffer, buffer_len, s). nb_zeros s + nb_ones s]")
    (auto dest!: sym [where s = "Inr _"] rle_1bpp_step_progress)

declare rle_1bpp_loop.simps [simp del]

definition flush_pixels_1bpp :: "rle1 \<Rightarrow> bytes res" where
  "flush_pixels_1bpp s =
     (if nb_pixels s \<noteq> 0
      then mem_write (out_bytes s) (out_pos s) [push_bit (8 - nb_pixels s) (pixels s)]
      else Inr (out_bytes s))"

definition nbgl_uncompress_rle_1bpp ::
  "nbgl_area \<Rightarrow> bytes \<Rightarrow> nat \<Rightarrow> bytes \<Rightarrow> nat \<Rightarrow> bytes res" where
  "nbgl_uncompress_rle_1bpp area buffer buffer_len out out_buffer_len =
     res_bind (mem_set out 0 0 out_buffer_len) (\<lambda>out.
       if buffer_len = 0 then Inr out
       else res_bind (rle_1bpp_loop buffer buffer_len
              \<lparr>idx = 0, nb_zeros = 0, nb_ones = 0, pixels = 0, nb_pixels = 0,
               remaining_pixels = area_pixels area, out_pos = 0, out_bytes = out\<rparr>)
              flush_pixels_1bpp)"

definition nbgl_uncompress_rle ::
  "nbgl_area \<Rightarrow> bytes \<Rightarrow> u32 \<Rightarrow> bytes \<Rightarrow> u32 \<Rightarrow> bytes res option" where
  "nbgl_uncompress_rle area buffer buffer_len out out_buffer_len =
     (if bpp area = NBGL_BPP_4 then
        nbgl_uncompress_rle_4bpp area buffer buffer_len out out_buffer_len
      else if bpp area = NBGL_BPP_1 then
        Some (nbgl_uncompress_rle_1bpp area buffer (unat buffer_len) out (unat out_buffer_len))
      else Some (Inr out))"

section \<open>The pixels of compressed data, four bits per pixel\<close>

text \<open>
  The reference: compressed data is a sequence of runs of pixels. A run is written when all of
  it fits into the picture. The pixels of a copy instruction are runs of one pixel each, and an
  instruction that is cut off stands for nothing.
\<close>

definition nibbles :: "bytes \<Rightarrow> u8 list" where
  "nibbles bs = concat (map (\<lambda>b. [drop_bit 4 b, b AND 0x0F]) bs)"

function rle4_runs :: "bytes \<Rightarrow> u8 list list" where
  "rle4_runs [] = []"
| "rle4_runs (b # bs) =
     (if \<not> bit b 7 then replicate (unat (drop_bit 4 b AND 7) + 1) (b AND 0x0F) # rle4_runs bs
      else if bit b 6 then replicate (unat (b AND 0x3F) + 1) 0xF # rle4_runs bs
      else let n = unat (drop_bit 4 b AND 3) + 3 in
        if n div 2 \<le> length bs
        then map (\<lambda>c. [c]) (take n (tl (nibbles (b # bs)))) @ rle4_runs (drop (n div 2) bs)
        else [])"
  by pat_completeness auto
termination
  by (relation "measure length") auto

definition fit_runs :: "nat \<Rightarrow> u8 list list \<Rightarrow> u8 list \<Rightarrow> u8 list" where
  "fit_runs n = fold (\<lambda>r ps. if length ps + length r \<le> n then ps @ r else ps)"

fun pack4 :: "u8 list \<Rightarrow> bytes" where
  "pack4 (a # b # ps) = (push_bit 4 a OR b) # pack4 ps"
| "pack4 [a] = [push_bit 4 a]"
| "pack4 [] = []"


text \<open>The state of the decoder after the pixels \<open>ps\<close>: complete bytes and the pixel left over.\<close>

fun pairs4 :: "u8 list \<Rightarrow> bytes" where
  "pairs4 (a # b # ps) = (push_bit 4 a OR b) # pairs4 ps"
| "pairs4 ps = []"

fun rest4 :: "u8 list \<Rightarrow> u8" where
  "rest4 (a # b # ps) = rest4 ps"
| "rest4 [a] = push_bit 4 a"
| "rest4 [] = 0"

definition st4 :: "bytes \<Rightarrow> u8 list \<Rightarrow> rle4" where
  "st4 B ps = \<lparr>pix_cnt = length ps, remaining = rest4 ps, out_buffer = buf_write B 0 (pairs4 ps)\<rparr>"

lemma pix_cnt_st4: "pix_cnt (st4 B ps) = length ps"
  by (simp add: st4_def)

lemma length_pairs4 [simp]: "length (pairs4 ps) = length ps div 2"
  by (induction ps rule: pairs4.induct) auto

lemma pairs4_even_append:
  "even (length ps) \<Longrightarrow> pairs4 (ps @ qs) = pairs4 ps @ pairs4 qs \<and> rest4 (ps @ qs) = rest4 qs"
  by (induction ps rule: pairs4.induct) auto

lemma pairs4_odd_snoc:
  "odd (length ps) \<Longrightarrow> pairs4 (ps @ [c]) = pairs4 ps @ [rest4 ps OR c] \<and> rest4 (ps @ [c]) = 0"
  by (induction ps rule: pairs4.induct) auto

lemma rest4_even: "even (length ps) \<Longrightarrow> rest4 ps = 0"
  by (induction ps rule: rest4.induct) auto

lemma pack4_pairs4: "pack4 ps = pairs4 ps @ (if odd (length ps) then [rest4 ps] else [])"
  by (induction ps rule: pack4.induct) auto

lemma buf_write_0_append:
  "length xs + length ys \<le> length B \<Longrightarrow>
   mem_write (buf_write B 0 xs) (length xs) ys = Inr (buf_write B 0 (xs @ ys))"
  using buf_write_append [of 0 B xs ys] by (simp add: mem_write_def)

lemma st4_write:
  assumes "length ps div 2 < length B"
  shows "mem_write (buf_write B 0 (pairs4 ps)) (length ps div 2) [b]
    = Inr (buf_write B 0 (pairs4 ps @ [b]))"
  using buf_write_0_append [of "pairs4 ps" "[b]" B] assms by simp

lemma fill_4bpp_first_st4:
  assumes "odd (length ps)" and "length ps div 2 < length B" and "0x0F AND c = c"
  shows "fill_4bpp_first c (st4 B ps) = Inr (st4 B (ps @ [c]))"
  using assms pairs4_odd_snoc [of ps c] by (simp add: fill_4bpp_first_def st4_def st4_write)

lemma fill_4bpp_pairs_st4:
  assumes "even (length ps)" and "length ps + 2 * n \<le> 2 * length B"
  shows "fill_4bpp_pairs (push_bit 4 c OR c) n (st4 B ps) = Inr (st4 B (ps @ replicate (2 * n) c))"
  using assms
proof (induction n arbitrary: ps)
  case (Suc n)
  have "length ps div 2 < length B" using Suc.prems(2) by simp
  moreover have "st4 B (ps @ [c, c]) =
      (st4 B ps)\<lparr>out_buffer := buf_write B 0 (pairs4 ps @ [push_bit 4 c OR c]),
        pix_cnt := pix_cnt (st4 B ps) + 2\<rparr>"
    using pairs4_even_append [OF Suc.prems(1), of "[c, c]"] rest4_even [OF Suc.prems(1)]
    by (simp add: st4_def)
  moreover have "replicate (2 * Suc n) c = [c, c] @ replicate (2 * n) c" by simp
  ultimately show ?case
    using Suc.IH [of "ps @ [c, c]"] Suc.prems st4_write [of ps B]
    by (simp add: st4_def)
qed (simp)

lemma st4_even_snoc:
  assumes "even (length ps)"
  shows "(st4 B ps)\<lparr>remaining := push_bit 4 c, pix_cnt := pix_cnt (st4 B ps) + 1\<rparr> = st4 B (ps @ [c])"
  using pairs4_even_append [OF assms, of "[c]"] by (simp add: st4_def)

lemma fill_4bpp_pixels_color_st4:
  assumes "0x0F AND c = c" and "0 < n" and "m \<le> 2 * length B"
  shows "fill_4bpp_pixels_color c n m (st4 B ps) = Inr (st4 B (fit_runs m [replicate n c] ps))"
proof (cases "length ps + n \<le> m")
  case fits: True
  let ?ps = "if odd (length ps) then ps @ [c] else ps"
  let ?k = "(if odd (length ps) then n - 1 else n) div 2"
  have first: "(if odd (length ps) then fill_4bpp_first c (st4 B ps) else Inr (st4 B ps)) = Inr (st4 B ?ps)"
    using assms fits by (auto simp: fill_4bpp_first_st4)
  have pairs: "fill_4bpp_pairs (push_bit 4 c OR c) ?k (st4 B ?ps) =
      Inr (st4 B (?ps @ replicate (2 * ?k) c))"
    using assms fits by (intro fill_4bpp_pairs_st4) auto
  let ?qs = "?ps @ replicate (2 * ?k) c"
  have even: "even (length ?qs)" by simp
  have split: "ps @ replicate n c = (if odd (length ps + n) then ?qs @ [c] else ?qs)"
  proof -
    have "n = (if odd (length ps) then 1 else 0) + 2 * ?k + (if odd (length ps + n) then 1 else 0)"
      using assms(2) by (auto elim!: evenE oddE)
    then have "ps @ replicate n c = ps @ replicate (if odd (length ps) then 1 else 0) c @
        replicate (2 * ?k) c @ replicate (if odd (length ps + n) then 1 else 0) c"
      by (metis replicate_add append_assoc)
    then show ?thesis by (simp split: if_splits)
  qed
  have last: "(if odd (length ps + n) then (st4 B ?qs)\<lparr>remaining := push_bit 4 c,
      pix_cnt := pix_cnt (st4 B ?qs) + 1\<rparr> else st4 B ?qs) = st4 B (ps @ replicate n c)"
    unfolding split by (simp only: st4_even_snoc [OF even] split: if_split) simp
  have "\<not> m < length ps + n" "fit_runs m [replicate n c] ps = ps @ replicate n c"
    using fits by (simp_all add: fit_runs_def)
  then show ?thesis
    by (simp only: fill_4bpp_pixels_color_def Let_def pix_cnt_st4 if_False first pairs
        last [unfolded pix_cnt_st4] res_bind_simps)
qed (simp add: fill_4bpp_pixels_color_def fit_runs_def st4_def)


lemma fit_runs_Nil: "fit_runs m [] ps = ps"
  by (simp add: fit_runs_def)

lemma fit_runs_append: "fit_runs m (rs @ rs') ps = fit_runs m rs' (fit_runs m rs ps)"
  by (simp add: fit_runs_def)

lemma nibble_mask: "0x0F AND (b AND 0x0F) = (b AND 0x0F :: u8)" "0x0F AND drop_bit 4 b = (drop_bit 4 b :: u8)"
proof -
  show "0x0F AND (b AND 0x0F) = b AND 0x0F" by (simp add: ac_simps)
  have "(0x0F :: u8) = mask 4" by (simp add: mask_eq_exp_minus_1)
  then show "0x0F AND drop_bit 4 b = drop_bit 4 b"
    by (auto simp: bit_eq_iff bit_simps dest: bit_imp_le_length)
qed

lemma length_nibbles [simp]: "length (nibbles bs) = 2 * length bs"
  by (induction bs) (simp_all add: nibbles_def)

lemma nth_nibbles:
  "i div 2 < length bs \<Longrightarrow>
   nibbles bs ! i = (if odd i then bs ! (i div 2) AND 0x0F else drop_bit 4 (bs ! (i div 2)))"
proof (induction bs arbitrary: i)
  case (Cons b bs)
  have split: "nibbles (b # bs) = [drop_bit 4 b, b AND 0x0F] @ nibbles bs"
    by (simp add: nibbles_def)
  consider "i = 0" | "i = 1" | j where "i = Suc (Suc j)"
    by (metis One_nat_def not0_implies_Suc)
  then show ?case
    using Cons.IH Cons.prems by cases (simp_all add: split)
qed simp

lemma nth_tl_nibbles:
  "(i + 1) div 2 < length bs \<Longrightarrow>
   tl (nibbles bs) ! i = (if even i then bs ! ((i + 1) div 2) AND 0x0F else drop_bit 4 (bs ! ((i + 1) div 2)))"
  using nth_nibbles [of "i + 1" bs] by (simp add: nth_tl)

lemma copy_4bpp_loop_st4:
  assumes "m \<le> 2 * length B" and "(i + n) div 2 < length bs"
  shows "copy_4bpp_loop bs m i n (st4 B ps) =
    Inr (st4 B (fit_runs m (map (\<lambda>c. [c]) (take n (drop i (tl (nibbles bs))))) ps))"
  using assms(2)
proof (induction n arbitrary: i ps)
  case (Suc n)
  have i: "(i + 1) div 2 < length bs" 
    using le_less_trans [OF div_le_mono [of "i + 1" "i + Suc n" 2] Suc.prems] by simp
  let ?c = "if even i then bs ! ((i + 1) div 2) AND 0x0F else drop_bit 4 (bs ! ((i + 1) div 2))"
  have mask: "0x0F AND ?c = ?c" by (simp add: nibble_mask)
  have fill: "fill_4bpp_pixels_color ?c 1 m (st4 B ps) = Inr (st4 B (fit_runs m [[?c]] ps))"
    using fill_4bpp_pixels_color_st4 [OF mask _ assms(1), of 1 ps] by simp
  have "i < length (tl (nibbles bs))" using i by simp
  then have "drop i (tl (nibbles bs)) = ?c # drop (i + 1) (tl (nibbles bs))"
    using Cons_nth_drop_Suc [of i "tl (nibbles bs)"] unfolding nth_tl_nibbles [OF i] by simp
  then have "map (\<lambda>c. [c]) (take (Suc n) (drop i (tl (nibbles bs)))) =
      [[?c]] @ map (\<lambda>c. [c]) (take n (drop (i + 1) (tl (nibbles bs))))" by simp
  then have "fit_runs m (map (\<lambda>c. [c]) (take (Suc n) (drop i (tl (nibbles bs))))) ps =
      fit_runs m (map (\<lambda>c. [c]) (take n (drop (i + 1) (tl (nibbles bs))))) (fit_runs m [[?c]] ps)"
    by (simp only: fit_runs_append)
  moreover have "copy_4bpp_loop bs m (i + 1) n (st4 B (fit_runs m [[?c]] ps)) = Inr (st4 B
      (fit_runs m (map (\<lambda>c. [c]) (take n (drop (i + 1) (tl (nibbles bs))))) (fit_runs m [[?c]] ps)))"
    using Suc.IH [of "i + 1"] Suc.prems by simp
  moreover have "mem_get bs ((i + 1) div 2) = Inr (bs ! ((i + 1) div 2))"
    using i by (simp add: mem_get_def)
  ultimately show ?case
    by (simp only: copy_4bpp_loop.simps res_bind_simps fill)
qed (simp add: fit_runs_def)


lemma drop_bit_mask:
  "drop_bit 4 (b AND 0x70) = drop_bit 4 b AND (7 :: u8)"
  "drop_bit 4 (b AND 0x30) = drop_bit 4 b AND (3 :: u8)"
  by (simp_all add: drop_bit_and)

lemma nibble_less: "(c::u8) < 16 \<Longrightarrow> c AND 0x0F = c"
  using less_mask_eq [of c 4] by (simp add: mask_eq_exp_minus_1)

lemma and_top_bits: "b AND 0x80 \<noteq> 0 \<longleftrightarrow> bit b 7" "b AND 0x40 \<noteq> 0 \<longleftrightarrow> bit (b :: u8) 6"
  using and_exp_eq_0_iff_not_bit [of b 7] and_exp_eq_0_iff_not_bit [of b 6] by simp_all

lemma handle_4bpp_repeat_color_st4:
  assumes "m \<le> 2 * length B"
  shows "handle_4bpp_repeat_color b m (st4 B ps) = Inr (1, st4 B
    (fit_runs m [replicate (unat (drop_bit 4 b AND 7) + 1) (b AND 0x0F)] ps))"
  unfolding handle_4bpp_repeat_color_def Let_def drop_bit_mask
  using fill_4bpp_pixels_color_st4 [OF nibble_mask(1) _ assms, of "unat (drop_bit 4 b AND 7) + 1" b ps]
  by (simp only: res_bind_simps zero_less_Suc Suc_eq_plus1 [symmetric])

lemma handle_4bpp_repeat_white_st4:
  assumes "m \<le> 2 * length B"
  shows "handle_4bpp_repeat_white b m (st4 B ps) = Inr (1, st4 B
    (fit_runs m [replicate (unat (b AND 0x3F) + 1) 0xF] ps))"
  unfolding handle_4bpp_repeat_white_def Let_def WHITE_4BPP_def
  using fill_4bpp_pixels_color_st4 [OF _ _ assms, of "0xF" "unat (b AND 0x3F) + 1" ps]
  by (simp only: res_bind_simps zero_less_Suc Suc_eq_plus1 [symmetric]) simp

lemma handle_4bpp_copy_st4:
  fixes b :: u8
  defines "n \<equiv> unat (drop_bit 4 b AND 3) + 3"
  assumes "m \<le> 2 * length B"
  shows "handle_4bpp_copy (b # bs) (length bs + 1) m (st4 B ps) = Inr (n div 2 + 1, st4 B
    (if n div 2 \<le> length bs
     then fit_runs m (map (\<lambda>c. [c]) (take n (tl (nibbles (b # bs))))) ps else ps))"
proof -
  have "copy_4bpp_loop (b # bs) m 0 n (st4 B ps) =
      Inr (st4 B (fit_runs m (map (\<lambda>c. [c]) (take n (tl (nibbles (b # bs))))) ps))"
    if "n div 2 \<le> length bs"
    using copy_4bpp_loop_st4 [OF assms(2), of 0 n "b # bs" ps] that by simp
  then show ?thesis
    unfolding handle_4bpp_copy_def Let_def mem_get_def
    by (simp only: length_Cons nth_Cons_0 zero_less_Suc if_True res_bind_simps drop_bit_mask
        n_def [symmetric]) auto
qed

lemma rle_4bpp_step_st4:
  assumes "r < length buffer" and "m \<le> 2 * length B" and "length buffer < 2 ^ 32"
  obtains n rs where
    "rle_4bpp_step buffer (of_nat (length buffer)) m (of_nat r) (st4 B ps) = Inr (n, st4 B (fit_runs m rs ps))"
    and "rle4_runs (drop r buffer) = rs @ rle4_runs (drop (r + n) buffer)" and "0 < n" and "n \<le> 4"
proof -
  have u: "unat (of_nat r :: u32) = r" "unat (of_nat (length buffer) - of_nat r :: u32) = length buffer - r"
    using assms(1,3) by (simp_all add: unat_of_nat unat_sub word_le_nat_alt)
  let ?b = "buffer ! r"
  let ?bs = "drop (r + 1) buffer"
  have bs: "drop r buffer = ?b # ?bs"
    using assms(1) by (metis Cons_nth_drop_Suc Suc_eq_plus1)
  consider (color) "\<not> bit ?b 7" | (white) "bit ?b 7" "bit ?b 6" | (copy) "bit ?b 7" "\<not> bit ?b 6"
    by blast
  then show thesis
  proof cases
    case color
    show thesis
      by (rule that [of 1 "[replicate (unat (drop_bit 4 ?b AND 7) + 1) (?b AND 0x0F)]"])
        (use color assms bs in \<open>simp_all add: rle_4bpp_step_def u mem_get_def and_top_bits
          handle_4bpp_repeat_color_st4\<close>)
  next
    case white
    show thesis
      by (rule that [of 1 "[replicate (unat (?b AND 0x3F) + 1) 0xF]"])
        (use white assms bs in \<open>simp_all add: rle_4bpp_step_def u mem_get_def and_top_bits
          handle_4bpp_repeat_white_st4\<close>)
  next
    case copy
    define n where "n = unat (drop_bit 4 ?b AND 3) + 3"
    have "unat (drop_bit 4 ?b AND 3) \<le> unat (3::u8)"
      using word_and_le1 [of "drop_bit 4 ?b" 3] by (simp only: word_le_nat_alt)
    then have n4: "n div 2 + 1 \<le> 4" by (simp add: n_def)
    have len: "length buffer - r = length ?bs + 1" using assms(1) by simp
    have step: "rle_4bpp_step buffer (of_nat (length buffer)) m (of_nat r) (st4 B ps) = Inr (n div 2 + 1, st4 B
        (if n div 2 \<le> length ?bs
         then fit_runs m (map (\<lambda>c. [c]) (take n (tl (nibbles (?b # ?bs))))) ps else ps))"
      using copy assms(1) handle_4bpp_copy_st4 [OF assms(2), of ?b ?bs ps]
      unfolding n_def bs [symmetric] len [symmetric]
      by (simp only: rle_4bpp_step_def u mem_get_def and_top_bits if_True res_bind_simps
          simp_thms if_False)
    have runs: "rle4_runs (drop r buffer) = (if n div 2 \<le> length ?bs
        then map (\<lambda>c. [c]) (take n (tl (nibbles (?b # ?bs)))) @ rle4_runs (drop (n div 2) ?bs) else [])"
      using copy unfolding bs n_def by (simp only: rle4_runs.simps Let_def if_True if_False not_True_eq_False)
    show thesis
    proof (cases "n div 2 \<le> length ?bs")
      case True
      then show thesis
        using n4 by (intro that [OF step [simplified if_P [OF True]]]) (simp_all add: runs ac_simps)
    next
      case False
      then show thesis
        using step n4 by (intro that [of "n div 2 + 1" "[]"]) (simp_all add: runs fit_runs_def)
    qed
  qed
qed

lemma rle_4bpp_loop_st4:
  assumes "m \<le> 2 * length B" and "length buffer + 3 < 2 ^ 32"
  shows "r \<le> length buffer + 3 \<Longrightarrow> rle_4bpp_loop buffer (of_nat (length buffer)) m (of_nat r) (st4 B ps) =
    Some (Inr (st4 B (fit_runs m (rle4_runs (drop r buffer)) ps)))"
proof (induction "length buffer - r" arbitrary: r ps rule: less_induct)
  case less
  have lt: "((of_nat r :: u32) < of_nat (length buffer)) = (r < length buffer)"
    using less.prems assms(2) by (simp add: word_less_nat_alt unat_of_nat)
  show ?case
  proof (cases "r < length buffer")
    case True
    then obtain n rs where step:
      "rle_4bpp_step buffer (of_nat (length buffer)) m (of_nat r) (st4 B ps) = Inr (n, st4 B (fit_runs m rs ps))"
      "rle4_runs (drop r buffer) = rs @ rle4_runs (drop (r + n) buffer)" "0 < n" "n \<le> 4"
      by (rule rle_4bpp_step_st4 [OF _ assms(1)]) (use assms(2) in simp)
    have "rle_4bpp_loop buffer (of_nat (length buffer)) m (of_nat (r + n)) (st4 B (fit_runs m rs ps)) =
        Some (Inr (st4 B (fit_runs m (rle4_runs (drop (r + n) buffer)) (fit_runs m rs ps))))"
      using less.hyps [of "r + n" "fit_runs m rs ps"] True step(3,4) by simp
    then show ?thesis
      using True lt step(1,2) by (subst rle_4bpp_loop.simps) (simp add: fit_runs_append)
  qed (subst rle_4bpp_loop.simps, simp add: lt fit_runs_def)
qed


lemma length_fit_runs: "length ps \<le> m \<Longrightarrow> length (fit_runs m rs ps) \<le> m"
  by (induction rs arbitrary: ps) (simp_all add: fit_runs_def)

lemma fit_runs_all: "length ps + length (concat rs) \<le> m \<Longrightarrow> fit_runs m rs ps = ps @ concat rs"
  by (induction rs arbitrary: ps) (simp_all add: fit_runs_def)

text \<open>Sizes that fit: the doubled number of pixels and the position in the input do not wrap around.\<close>

definition rle_4bpp_sizes :: "nbgl_area \<Rightarrow> bytes \<Rightarrow> bytes \<Rightarrow> bool" where
  "rle_4bpp_sizes area buffer out \<longleftrightarrow>
     2 * area_size area < 2 ^ 32 \<and> length buffer + 3 < 2 ^ 32 \<and> length out < 2 ^ 32"

lemma rle_4bpp_guard:
  assumes "rle_4bpp_sizes area buffer out"
  shows "(area_pixels area * 2 > of_nat (length out)) = (\<not> 2 * area_size area \<le> length out)"
proof -
  have "unat (area_pixels area * 2) = area_size area * 2"
    using assms unat_area_pixels [of area] by (simp add: unat_word_ariths rle_4bpp_sizes_def mult.commute)
  then show ?thesis
    using assms by (simp add: word_less_nat_alt unat_of_nat rle_4bpp_sizes_def not_le mult.commute)
qed

lemma rle_4bpp_decodes:
  assumes sz: "rle_4bpp_sizes area buffer out" and fits: "2 * area_size area \<le> length out"
  shows "nbgl_uncompress_rle_4bpp area buffer (of_nat (length buffer)) out (of_nat (length out)) =
    Some (Inr (buf_write (replicate (length out) 0xFF) 0
      (pack4 (fit_runs (area_size area) (rle4_runs buffer) []))))"
proof -
  let ?B = "replicate (length out) (0xFF::u8)" and ?m = "area_size area"
  let ?ps = "fit_runs ?m (rle4_runs buffer) []"
  have init: "\<lparr>pix_cnt = 0, remaining = 0, out_buffer = ?B\<rparr> = st4 ?B []"
    by (simp add: st4_def)
  have "length ?ps \<le> ?m" by (rule length_fit_runs) simp
  then have "odd (length ?ps) \<Longrightarrow> length ?ps div 2 < length ?B"
    using fits by (cases "length ?ps") auto
  then have fin: "finish_4bpp (st4 ?B ?ps) = Inr (buf_write ?B 0 (pack4 ?ps))"
    using st4_write [of ?ps ?B] by (simp add: finish_4bpp_def st4_def pack4_pairs4)
  have "rle_4bpp_loop buffer (of_nat (length buffer)) ?m 0 (st4 ?B []) = Some (Inr (st4 ?B ?ps))"
    using rle_4bpp_loop_st4 [of ?m ?B buffer 0 "[]"] fits sz by (simp add: rle_4bpp_sizes_def)
  moreover have "unat (of_nat (length out) :: u32) = length out"
    "((of_nat (length buffer) :: u32) = 0) = (buffer = [])"
    using sz by (auto simp: rle_4bpp_sizes_def unat_of_nat word_unat_eq_iff)
  ultimately show ?thesis
    using fin init rle_4bpp_guard [OF sz] fits
    by (cases "buffer = []") (simp_all add: nbgl_uncompress_rle_4bpp_def Let_def mem_set_def unat_area_pixels
        buf_write_full fit_runs_Nil)
qed

section \<open>Pictures compressed as documented, four bits per pixel\<close>

text \<open>The three instructions of the comment above \<open>nbgl_uncompress_rle_4bpp\<close>.\<close>

datatype rle4_instr = Repeat_White nat | Copy "u8 list" | Repeat_Color nat u8

fun instr_ok :: "rle4_instr \<Rightarrow> bool" where
  "instr_ok (Repeat_White n) = (1 \<le> n \<and> n \<le> 64)"
| "instr_ok (Copy cs) = (3 \<le> length cs \<and> length cs \<le> 6 \<and> list_all (\<lambda>c. c < 16) cs)"
| "instr_ok (Repeat_Color n c) = (1 \<le> n \<and> n \<le> 8 \<and> c < 16)"

fun instr_pixels :: "rle4_instr \<Rightarrow> u8 list" where
  "instr_pixels (Repeat_White n) = replicate n 0xF"
| "instr_pixels (Copy cs) = cs"
| "instr_pixels (Repeat_Color n c) = replicate n c"

fun instr_bytes :: "rle4_instr \<Rightarrow> bytes" where
  "instr_bytes (Repeat_White n) = [0xC0 OR of_nat (n - 1)]"
| "instr_bytes (Copy cs) = pack4 ((0x8 OR of_nat (length cs - 3)) # cs)"
| "instr_bytes (Repeat_Color n c) = [push_bit 4 (of_nat (n - 1)) OR c]"

fun instr_runs :: "rle4_instr \<Rightarrow> u8 list list" where
  "instr_runs (Repeat_White n) = [replicate n 0xF]"
| "instr_runs (Copy cs) = map (\<lambda>c. [c]) cs"
| "instr_runs (Repeat_Color n c) = [replicate n c]"

lemma concat_instr_runs: "concat (instr_runs i) = instr_pixels i"
  by (cases i) (simp_all add: concat_map_singleton)

lemma power4_16: "(2::u8) ^ 4 = 16"
  by simp

lemma nibble_pair:
  fixes h c :: u8
  assumes "h < 16" "c < 16"
  shows "drop_bit 4 (push_bit 4 h OR c) = h" "(push_bit 4 h OR c) AND 0x0F = c"
proof -
  have bits: "n < 4" if "x < 16" "bit x n" for x :: u8 and n
    using that less_mask_eq [of x 4] by (metis bit_and_iff bit_mask_iff power4_16)
  then have bh: "\<And>n. bit h n \<Longrightarrow> n < 4" and bc: "\<And>n. bit c n \<Longrightarrow> n < 4"
    using assms by blast+
  have "(0x0F :: u8) = mask 4" by (simp add: mask_eq_exp_minus_1)
  then show "drop_bit 4 (push_bit 4 h OR c) = h" "(push_bit 4 h OR c) AND 0x0F = c"
    using bh bc by (auto simp: bit_eq_iff bit_simps dest: bh bc)
qed

lemma bit_high: "bit b 7 = bit (drop_bit 4 b) 3" "bit b 6 = bit (drop_bit 4 (b::u8)) 2"
  by (simp_all add: bit_simps)

lemma nibbles_Cons: "nibbles (b # bs) = drop_bit 4 b # (b AND 0x0F) # nibbles bs"
  by (simp add: nibbles_def)

lemma take_nibbles_pack4:
  "list_all (\<lambda>c. c < 16) ps \<Longrightarrow> take (length ps) (nibbles (pack4 ps @ bs)) = ps"
  by (induction ps rule: pack4.induct)
    (auto simp: nibbles_Cons nibble_pair nibble_pair [of _ 0, simplified]
      simp del: drop_bit_or)

lemma length_pack4: "length (pack4 ps) = (length ps + 1) div 2"
  by (induction ps rule: pack4.induct) auto

lemma small_cases: "(n::nat) \<le> 8 \<Longrightarrow> 1 \<le> n \<Longrightarrow> n \<in> {1, 2, 3, 4, 5, 6, 7, 8}"
  by auto

lemma white_byte:
  assumes "k < 64"
  shows "bit (0xC0 OR of_nat k :: u8) 7" "bit (0xC0 OR of_nat k :: u8) 6"
    "unat ((0xC0 OR of_nat k :: u8) AND 0x3F) = k"
proof -
  show "bit (0xC0 OR of_nat k :: u8) 7" "bit (0xC0 OR of_nat k :: u8) 6"
    by (simp_all add: bit_or_iff)
  have "(of_nat k :: u8) AND 0x3F = take_bit 6 (of_nat k)"
    by (simp add: take_bit_eq_mask mask_eq_exp_minus_1)
  also have "\<dots> = of_nat k"
    using assms by (simp add: take_bit_of_nat take_bit_nat_eq_self)
  finally have "(0xC0 OR of_nat k :: u8) AND 0x3F = of_nat k"
    by (simp add: bit.conj_disj_distrib2)
  then show "unat ((0xC0 OR of_nat k :: u8) AND 0x3F) = k"
    using assms by (simp add: unat_of_nat)
qed

lemma rle4_runs_instr:
  assumes "instr_ok i"
  shows "rle4_runs (instr_bytes i @ bs) = instr_runs i @ rle4_runs bs"
proof (cases i)
  case (Repeat_White n)
  then obtain k where k: "n = Suc k" "k < 64" using assms by (cases n) auto
  then show ?thesis
    using white_byte [OF k(2)] unfolding Repeat_White by simp
next
  case (Copy cs)
  define h :: u8 where "h = 0x8 OR of_nat (length cs - 3)"
  have cs: "length cs \<in> {3, 4, 5, 6}" "list_all (\<lambda>c. c < 16) cs"
    using assms Copy by auto
  then obtain c cs' where Cons: "cs = c # cs'" by (cases cs) auto
  have h: "h < 16 \<and> bit h 3 \<and> \<not> bit h 2 \<and> unat (h AND 3) + 3 = length cs"
    using cs(1) by (auto simp: h_def)
  let ?b = "push_bit 4 h OR c"
  have b: "drop_bit 4 ?b = h" using nibble_pair [of h c] h cs(2) Cons by simp
  have bytes: "instr_bytes i = ?b # pack4 cs'"
    by (simp add: Copy Cons h_def)
  have "take (length (h # cs)) (nibbles (pack4 (h # cs) @ bs)) = h # cs"
    using h cs(2) by (intro take_nibbles_pack4) simp
  then have "take (length cs) (tl (nibbles (?b # pack4 cs' @ bs))) = cs"
    by (simp add: Cons nibbles_Cons b)
  moreover have "length cs div 2 = length (pack4 cs')"
    by (simp add: Cons length_pack4)
  ultimately show ?thesis
    using h b bit_high [of ?b] unfolding bytes
    by (simp add: Copy Let_def del: drop_bit_or)
next
  case (Repeat_Color n c)
  define h :: u8 where "h = of_nat (n - 1)"
  have "n \<in> {1, 2, 3, 4, 5, 6, 7, 8}" using assms Repeat_Color by (intro small_cases) simp_all
  then have h: "h < 16 \<and> \<not> bit h 3 \<and> unat (h AND 7) + 1 = n" by (auto simp: h_def)
  have "instr_bytes i = [push_bit 4 h OR c]" by (simp add: Repeat_Color h_def)
  then show ?thesis
    using assms Repeat_Color nibble_pair [of h c] bit_high [of "push_bit 4 h OR c"] h
    by (simp del: drop_bit_or instr_bytes.simps replicate_Suc One_nat_def)
qed


lemma rle4_runs_instrs:
  "list_all instr_ok is \<Longrightarrow> rle4_runs (concat (map instr_bytes is)) = concat (map instr_runs is)"
  by (induction "is") (simp_all add: rle4_runs_instr)

lemma concat_instrs_runs: "concat (concat (map instr_runs is)) = concat (map instr_pixels is)"
  by (induction "is") (simp_all add: concat_instr_runs)

section \<open>The pixels of compressed data, one bit per pixel\<close>

text \<open>
  Every byte stands for a run of zeros and a run of ones. Data that ends with a zero byte yields
  one pixel more, because the decoder takes a pixel after it has found no further counts.
\<close>

definition byte_pixels :: "u8 \<Rightarrow> bool list" where
  "byte_pixels b = replicate (unat (drop_bit 4 b)) False @ replicate (unat (b AND 0x0F)) True"

definition rle1_pixels :: "bytes \<Rightarrow> bool list" where
  "rle1_pixels bs = concat (map byte_pixels bs) @ (if bs \<noteq> [] \<and> last bs = 0 then [False] else [])"

definition shift_in :: "bool \<Rightarrow> u8 \<Rightarrow> u8" where
  "shift_in p w = push_bit 1 w OR (if p then 1 else 0)"

definition byte8 :: "bool list \<Rightarrow> u8" where
  "byte8 ps = push_bit (8 - length ps) (fold shift_in ps 0)"

function pack8 :: "bool list \<Rightarrow> bytes" where
  "pack8 ps = (if ps = [] then [] else byte8 (take 8 ps) # pack8 (drop 8 ps))"
  by pat_completeness auto
termination
  by (relation "measure length") auto

declare pack8.simps [simp del]

lemma shift_in_or: "shift_in p (a OR b) = push_bit 1 a OR shift_in p b"
  by (simp only: shift_in_def push_bit_or or.assoc)

lemma fold_shift_in: "fold shift_in ps w = push_bit (length ps) w OR fold shift_in ps 0"
proof (induction ps rule: rev_induct)
  case (snoc p ps)
  have "push_bit (Suc (length ps)) w = push_bit 1 (push_bit (length ps) w)"
    by (simp only: push_bit_push_bit plus_1_eq_Suc)
  then show ?case
    using snoc.IH by (simp only: fold_append fold_simps o_apply shift_in_or length_append_singleton)
qed simp

lemma push_bit_8: "8 \<le> n \<Longrightarrow> push_bit n (w :: u8) = 0"
  by (rule bit_word_eqI) (simp add: bit_simps)

lemma byte8_fold:
  assumes "length ps \<le> 8"
  shows "push_bit (8 - length ps) (fold shift_in ps w) = byte8 ps"
  unfolding byte8_def fold_shift_in [of ps w]
  using assms by (simp add: push_bit_or push_bit_push_bit push_bit_8)

lemma pack8_short: "ps \<noteq> [] \<Longrightarrow> length ps \<le> 8 \<Longrightarrow> pack8 ps = [byte8 ps]"
  by (simp add: pack8.simps)

lemma pack8_Nil [simp]: "pack8 [] = []"
  by (simp add: pack8.simps)

lemma pack8_block: "length ps = 8 \<Longrightarrow> pack8 (ps @ qs) = byte8 ps # pack8 qs"
  by (simp add: pack8.simps [of "ps @ qs"]) auto

text \<open>What is left to decode in a state: the current counts and the rest of the input.\<close>

definition rle1_rest :: "bytes \<Rightarrow> nat \<Rightarrow> nat \<Rightarrow> nat \<Rightarrow> bool list" where
  "rle1_rest buffer i ones zeros =
     replicate zeros False @ replicate ones True @ rle1_pixels (drop i buffer)"

definition rle1_left :: "bytes \<Rightarrow> rle1 \<Rightarrow> bool list" where
  "rle1_left buffer s = rle1_rest buffer (idx s) (nb_ones s) (nb_zeros s)"

lemma byte_pixels_Nil: "byte_pixels b = [] \<longleftrightarrow> b = 0"
proof -
  have "b = 0" if "drop_bit 4 b = 0" "b AND 0x0F = 0"
  proof -
    have "b = push_bit 4 (drop_bit 4 b) OR take_bit 4 b"
      by (rule bit_word_eqI) (auto simp: bit_simps)
    then show ?thesis using that by (simp add: take_bit_eq_mask mask_eq_exp_minus_1)
  qed
  then show ?thesis by (auto simp: byte_pixels_def unat_eq_zero)
qed

lemma rle1_pixels_Nil: "rle1_pixels bs = [] \<longleftrightarrow> bs = []"
proof (cases bs rule: rev_cases)
  case (snoc cs c)
  then show ?thesis using byte_pixels_Nil [of c] by (auto simp: rle1_pixels_def)
qed (simp add: rle1_pixels_def)

lemma rle1_left_Nil:
  "rle1_left buffer s = [] \<longleftrightarrow> nb_zeros s = 0 \<and> nb_ones s = 0 \<and> length buffer \<le> idx s"
  by (auto simp: rle1_left_def rle1_rest_def rle1_pixels_Nil)

lemma rle1_pixels_Cons:
  "rle1_pixels (b # bs) = (if bs = [] \<and> b = 0 then [False] else byte_pixels b @ rle1_pixels bs)"
  by (auto simp: rle1_pixels_def byte_pixels_Nil)

lemma reload_1bpp_stop:
  "\<not> (nb_zeros s = 0 \<and> nb_ones s = 0 \<and> idx s < n) \<Longrightarrow> reload_1bpp buffer n s = Inr s"
  by (subst reload_1bpp.simps) auto

lemma reload_1bpp_left:
  assumes "rle1_left buffer s = p # ps"
  obtains z n i where "reload_1bpp buffer (length buffer) s =
      Inr (s\<lparr>idx := i, nb_ones := n, nb_zeros := z\<rparr>)"
    and "(if z \<noteq> 0 then rle1_rest buffer i n (z - 1) = ps \<and> \<not> p
          else if n \<noteq> 0 then rle1_rest buffer i (n - 1) 0 = ps \<and> p
          else rle1_rest buffer i 0 0 = ps \<and> \<not> p)"
  using assms
proof (induction buffer "length buffer" s arbitrary: thesis rule: reload_1bpp.induct)
  case (1 buffer s)
  show ?case
  proof (cases "nb_zeros s = 0 \<and> nb_ones s = 0 \<and> idx s < length buffer")
    case True
    let ?b = "buffer ! idx s"
    let ?s = "s\<lparr>idx := idx s + 1, nb_ones := unat (?b AND 0x0F), nb_zeros := unat (drop_bit 4 ?b)\<rparr>"
    have get: "mem_get buffer (idx s) = Inr ?b" using True by (simp add: mem_get_def)
    have run: "reload_1bpp buffer (length buffer) s = reload_1bpp buffer (length buffer) ?s"
      using True get by (simp add: reload_1bpp.simps [of buffer "length buffer" s])
    have drop: "drop (idx s) buffer = ?b # drop (idx s + 1) buffer"
      using True by (simp add: Cons_nth_drop_Suc)
    show ?thesis
    proof (cases "drop (idx s + 1) buffer = [] \<and> ?b = 0")
      case last: True
      then have "rle1_left buffer s = [False]"
        using True by (simp add: rle1_left_def rle1_rest_def drop rle1_pixels_Cons)
      then have "\<not> p" "ps = []" using "1.prems"(2) by simp_all
      moreover have "reload_1bpp buffer (length buffer) s =
          Inr (s\<lparr>idx := idx s + 1, nb_ones := 0, nb_zeros := 0\<rparr>)"
        using run last reload_1bpp_stop
          [of "s\<lparr>idx := idx s + 1, nb_ones := 0, nb_zeros := 0\<rparr>" "length buffer" buffer] by simp
      moreover have "rle1_rest buffer (idx s + 1) 0 0 = []"
        using last by (simp add: rle1_rest_def rle1_pixels_def)
      ultimately show ?thesis
        by (intro "1.prems"(1) [of 0 0 "idx s + 1"]) simp_all
    next
      case False
      then have "rle1_left buffer ?s = p # ps"
        using True "1.prems"(2)
        by (simp add: rle1_left_def rle1_rest_def drop rle1_pixels_Cons byte_pixels_def split: if_splits)
      then obtain z n i where "reload_1bpp buffer (length buffer) ?s =
          Inr (?s\<lparr>idx := i, nb_ones := n, nb_zeros := z\<rparr>)"
        "(if z \<noteq> 0 then rle1_rest buffer i n (z - 1) = ps \<and> \<not> p
          else if n \<noteq> 0 then rle1_rest buffer i (n - 1) 0 = ps \<and> p
          else rle1_rest buffer i 0 0 = ps \<and> \<not> p)"
        using "1.hyps" [OF True get] by blast
      then show ?thesis
        using run by (intro "1.prems"(1) [of z n i]) simp_all
    qed
  next
    case False
    then have run: "reload_1bpp buffer (length buffer) s = Inr s"
      by (rule reload_1bpp_stop)
    have "nb_zeros s \<noteq> 0 \<or> nb_ones s \<noteq> 0"
      using False "1.prems"(2) rle1_left_Nil [of buffer s] by auto
    then show ?thesis
      using "1.prems"(2) run
      by (intro "1.prems"(1) [of "nb_zeros s" "nb_ones s" "idx s"])
        (cases "nb_zeros s"; cases "nb_ones s"; simp add: rle1_left_def rle1_rest_def)+
  qed
qed


text \<open>One turn of the decoder takes one pixel.\<close>

lemma rle_1bpp_step_left:
  assumes "rle1_left buffer s = p # ps"
  obtains t where "rle_1bpp_step buffer (length buffer) s = store_pixels_1bpp t"
    and "rle1_left buffer t = ps" and "pixels t = shift_in p (pixels s)"
    and "nb_pixels t = nb_pixels s + 1" and "remaining_pixels t = remaining_pixels s"
    and "out_pos t = out_pos s" and "out_bytes t = out_bytes s"
proof -
  obtain z n i where reload: "reload_1bpp buffer (length buffer) s =
      Inr (s\<lparr>idx := i, nb_ones := n, nb_zeros := z\<rparr>)"
    and left: "(if z \<noteq> 0 then rle1_rest buffer i n (z - 1) = ps \<and> \<not> p
          else if n \<noteq> 0 then rle1_rest buffer i (n - 1) 0 = ps \<and> p
          else rle1_rest buffer i 0 0 = ps \<and> \<not> p)"
    using reload_1bpp_left [OF assms] .
  let ?t = "next_pixel_1bpp (s\<lparr>idx := i, nb_ones := n, nb_zeros := z\<rparr>)"
  show thesis
    by (rule that [of ?t])
      (use left reload in \<open>auto simp: rle_1bpp_step_def next_pixel_1bpp_def Let_def rle1_left_def rle1_rest_def
        shift_in_def split: if_splits\<close>)
qed

lemma mem_write_Cons:
  "mem_write out pos (b # bs) = res_bind (mem_write out pos [b]) (\<lambda>out. mem_write out (pos + 1) bs)"
proof (cases "pos < length out")
  case True
  then show ?thesis
    using buf_write_append [of pos out "[b]" bs] by (simp add: mem_write_def)
qed (simp add: mem_write_def)

definition emitted :: "nat \<Rightarrow> bool list \<Rightarrow> bool list" where
  "emitted rem ps = (if 8 dvd rem then take rem ps else ps)"

lemma emitted_block:
  fixes rem :: u32
  assumes "length q = 8" and "rem \<noteq> 0"
  shows "pack8 (emitted (unat rem) (q @ ps)) = byte8 q # pack8 (emitted (unat (rem - 8)) ps)"
proof (cases "8 dvd unat rem")
  case True
  moreover have "unat rem \<noteq> 0" using assms(2) by (simp add: unat_eq_zero)
  ultimately have "8 \<le> unat rem" by (simp add: dvd_imp_le)
  then have "unat (rem - 8) = unat rem - 8" by (simp add: unat_sub word_le_nat_alt)
  then show ?thesis
    using True \<open>8 \<le> unat rem\<close> assms(1) by (simp add: emitted_def pack8_block)
next
  case False
  have "\<not> 8 dvd unat (rem - 8)"
  proof
    assume "8 dvd unat (rem - 8)"
    moreover have "unat rem = (unat (rem - 8) + 8) mod 2 ^ 32"
      using unat_word_ariths(1) [of "rem - 8" 8] by simp
    ultimately show False using False by (simp add: dvd_mod)
  qed
  then show ?thesis
    using False assms(1) by (simp add: emitted_def pack8_block)
qed

lemma rle_1bpp_loop_left:
  assumes "pixels s = fold shift_in q w" and "nb_pixels s = length q" and "length q < 8"
    and "remaining_pixels s = 0 \<Longrightarrow> q = []" and "out_pos s \<le> length (out_bytes s)"
  shows "res_bind (rle_1bpp_loop buffer (length buffer) s) flush_pixels_1bpp =
    mem_write (out_bytes s) (out_pos s)
      (pack8 (emitted (unat (remaining_pixels s)) (q @ rle1_left buffer s)))"
  using assms
proof (induction buffer "length buffer" s arbitrary: q w rule: rle_1bpp_loop.induct)
  case (1 buffer s)
  let ?rem = "unat (remaining_pixels s)"
  let ?go = "remaining_pixels s \<noteq> 0 \<and> (idx s < length buffer \<or> nb_zeros s \<noteq> 0 \<or> nb_ones s \<noteq> 0)"
  show ?case
  proof (cases "remaining_pixels s = 0 \<or> rle1_left buffer s = []")
    case True
    then have stop: "rle_1bpp_loop buffer (length buffer) s = Inr s"
      by (auto simp: rle_1bpp_loop.simps [of buffer "length buffer" s] rle1_left_Nil)
    have "emitted ?rem (q @ rle1_left buffer s) = q"
      using True "1.prems"(3,4)
      by (cases "remaining_pixels s = 0")
        (auto simp: emitted_def unat_eq_zero unat_gt_0 dest!: dvd_imp_le)
    then show ?thesis
      using "1.prems" stop byte8_fold [of q w] pack8_short [of q]
      by (auto simp: flush_pixels_1bpp_def mem_write_def)
  next
    case False
    then have go: ?go by (auto simp: rle1_left_Nil)
    obtain p ps where left: "rle1_left buffer s = p # ps" using False by (cases "rle1_left buffer s") auto
    obtain t where t: "rle_1bpp_step buffer (length buffer) s = store_pixels_1bpp t"
      "rle1_left buffer t = ps" "pixels t = shift_in p (pixels s)"
      "nb_pixels t = nb_pixels s + 1" "remaining_pixels t = remaining_pixels s"
      "out_pos t = out_pos s" "out_bytes t = out_bytes s"
      using rle_1bpp_step_left [OF left] .
    have px: "pixels t = fold shift_in (q @ [p]) w" using t(3) "1.prems"(1) by simp
    show ?thesis
    proof (cases "length q = 7")
      case False
      then have step: "rle_1bpp_step buffer (length buffer) s = Inr t"
        using t(1,4) "1.prems"(2) by (simp add: store_pixels_1bpp_def)
      have "res_bind (rle_1bpp_loop buffer (length buffer) t) flush_pixels_1bpp =
          mem_write (out_bytes t) (out_pos t)
            (pack8 (emitted (unat (remaining_pixels t)) ((q @ [p]) @ rle1_left buffer t)))"
        by (rule "1.hyps" [OF go step px]) (use t "1.prems" False go in auto)
      then show ?thesis
        using go step t left by (simp add: rle_1bpp_loop.simps [of buffer "length buffer" s])
    next
      case True
      let ?t = "\<lambda>out. t\<lparr>out_bytes := out, out_pos := out_pos t + 1,
          remaining_pixels := remaining_pixels t - 8, nb_pixels := nb_pixels t - 8\<rparr>"
      have byte: "pixels t = byte8 (q @ [p])" using px byte8_fold [of "q @ [p]" w] True by simp
      have out: "pack8 (emitted ?rem (q @ p # ps)) =
          byte8 (q @ [p]) # pack8 (emitted (unat (remaining_pixels s - 8)) ps)"
        using emitted_block [of "q @ [p]" "remaining_pixels s" ps] True go by simp
      show ?thesis
      proof (cases "out_pos s < length (out_bytes s)")
        case inside: True
        define out where "out = buf_write (out_bytes s) (out_pos s) [pixels t]"
        have len: "length out = length (out_bytes s)" using inside by (simp add: out_def)
        have put: "mem_write (out_bytes s) (out_pos s) [pixels t] = Inr out"
          using inside by (simp add: mem_write_def out_def)
        then have step: "rle_1bpp_step buffer (length buffer) s = Inr (?t out)"
          using t True "1.prems"(2) by (simp add: store_pixels_1bpp_def)
        have "res_bind (rle_1bpp_loop buffer (length buffer) (?t out)) flush_pixels_1bpp =
          mem_write (out_bytes (?t out)) (out_pos (?t out))
            (pack8 (emitted (unat (remaining_pixels (?t out))) ([] @ rle1_left buffer (?t out))))"
          by (rule "1.hyps" [OF go step, where q = "[]" and w = "pixels t"]) (use t "1.prems" True inside len in auto)
        moreover have "rle1_left buffer (?t out) = ps" using t(2) by (simp add: rle1_left_def rle1_rest_def)
        moreover have "mem_write (out_bytes s) (out_pos s) (byte8 (q @ [p]) # bs) =
            mem_write out (out_pos s + 1) bs" for bs
          using put mem_write_Cons [of "out_bytes s" "out_pos s" "pixels t" bs]
          by (simp only: byte res_bind_simps)
        ultimately show ?thesis
          using go step t(4-) unfolding left out
          by (simp add: rle_1bpp_loop.simps [of buffer "length buffer" s])
      next
        case outside: False
        then have "rle_1bpp_step buffer (length buffer) s = Inl Oob"
          using t True "1.prems"(2) by (simp add: store_pixels_1bpp_def mem_write_def)
        then show ?thesis
          using go outside unfolding left out
          by (simp add: rle_1bpp_loop.simps [of buffer "length buffer" s] mem_write_def)
      qed
    qed
  qed
qed


lemma rle_1bpp_decodes:
  "nbgl_uncompress_rle_1bpp area buffer (length buffer) out (length out) =
   mem_write (replicate (length out) 0) 0
     (pack8 (emitted (area_size area) (rle1_pixels buffer)))"
proof (cases "buffer = []")
  case True
  then show ?thesis
    by (simp add: nbgl_uncompress_rle_1bpp_def mem_set_def buf_write_full mem_write_def
        rle1_pixels_def emitted_def)
next
  case False
  let ?s = "\<lparr>idx = 0, nb_zeros = 0, nb_ones = 0, pixels = 0, nb_pixels = 0,
      remaining_pixels = area_pixels area, out_pos = 0,
      out_bytes = replicate (length out) (0::u8)\<rparr>"
  show ?thesis
    using False unat_area_pixels [of area] rle_1bpp_loop_left [of ?s "[]" 0 buffer]
    by (simp add: nbgl_uncompress_rle_1bpp_def mem_set_def buf_write_full rle1_left_def rle1_rest_def)
qed


section \<open>Properties\<close>

lemma bpp_distinct: "NBGL_BPP_4 \<noteq> NBGL_BPP_1"
  by (simp add: NBGL_BPP_4_def NBGL_BPP_1_def)

text \<open>
  Property C22: for an area of fewer than \<open>2 ^ 31\<close> pixels and an input shorter than \<open>2 ^ 32 - 3\<close> bytes,
  the decoder of four bits per pixel ends, never leaves its buffers, whatever the compressed data
  is, and writes exactly the pixels the data stands for: the runs are packed two pixels per byte
  from the start of the output, a run that does not fit into the area is left out, the rest of
  the output is white, and an output of fewer than two bytes per pixel is not touched.
\<close>

theorem rle_4bpp_refines:
  assumes "bpp area = NBGL_BPP_4" and "2 * area_size area < 2 ^ 32"
    and "length buffer + 3 < 2 ^ 32" and "length out < 2 ^ 32"
  shows "nbgl_uncompress_rle area buffer (of_nat (length buffer)) out (of_nat (length out)) =
    Some (Inr (if 2 * area_size area \<le> length out
      then buf_write (replicate (length out) 0xFF) 0
        (pack4 (fit_runs (area_size area) (rle4_runs buffer) []))
      else out))"
proof -
  have sz: "rle_4bpp_sizes area buffer out" using assms by (simp add: rle_4bpp_sizes_def)
  show ?thesis
    using rle_4bpp_decodes [OF sz] rle_4bpp_guard [OF sz] assms(1)
    by (cases "2 * area_size area \<le> length out") (simp_all add: nbgl_uncompress_rle_def nbgl_uncompress_rle_4bpp_def)
qed

definition area_2x2 :: nbgl_area where
  "area_2x2 = \<lparr>x0 = 0, y0 = 0, width = 2, height = 2, backgroundColor = 0, bpp = NBGL_BPP_4\<rparr>"

theorem rle_4bpp_refines_witness:
  "nbgl_uncompress_rle area_2x2 [0x23] 1 (replicate 8 0) 8 =
   Some (Inr [0x33, 0x30, 0xFF, 0xFF, 0xFF, 0xFF, 0xFF, 0xFF])"
proof -
  have "area_size area_2x2 = 4" by (simp add: area_size_def area_2x2_def)
  moreover have "rle4_runs [0x23] = [[3, 3, 3]]" by code_simp
  moreover have "fit_runs 4 [[3, 3, 3]] [] = [3, 3, 3]" by (simp add: fit_runs_def)
  moreover have "buf_write (replicate 8 0xFF) 0 (pack4 [3, 3, 3]) =
      [0x33, 0x30, 0xFF, 0xFF, 0xFF, 0xFF, 0xFF, (0xFF::u8)]" by code_simp
  ultimately show ?thesis
    using rle_4bpp_refines [of area_2x2 "[0x23]" "replicate 8 0"]
    by (simp add: area_2x2_def)
qed

text \<open>
  The guard of the output size doubles the number of pixels in 32 bits. An area of \<open>2 ^ 31 + 2\<close>
  pixels passes it with an output of four bytes, and a single run of 64 white pixels is written
  past the end of it.
\<close>

definition area_huge :: nbgl_area where
  "area_huge = \<lparr>x0 = 0, y0 = 0, width = 54161, height = 39650, backgroundColor = 0, bpp = NBGL_BPP_4\<rparr>"

lemma rle_4bpp_overrun:
  "nbgl_uncompress_rle area_huge [0xFF] 1 [0, 0, 0, 0] 4 = Some (Inl Oob)"
proof -
  let ?s = "\<lparr>pix_cnt = 0, remaining = 0, out_buffer = [0xFF, 0xFF, 0xFF, 0xFF]\<rparr>"
  have g: "area_pixels area_huge = 0x80000002" "bpp area_huge = NBGL_BPP_4"
    by (simp_all add: area_pixels_def area_huge_def)
  have m: "unat (0x80000002 :: u32) = 2147483650" "\<not> (0x80000002 * 2 :: u32) > 4" by simp_all
  have "fill_4bpp_pairs 0xFF 32 ?s = Inl Oob" by code_simp
  then have "rle_4bpp_step [0xFF] 1 2147483650 0 ?s = Inl Oob"
    by (simp add: rle_4bpp_step_def handle_4bpp_repeat_white_def fill_4bpp_pixels_color_def WHITE_4BPP_def mem_get_def)
  then have "rle_4bpp_loop [0xFF] 1 2147483650 0 ?s = Some (Inl Oob)"
    by (subst rle_4bpp_loop.simps) simp
  moreover have "mem_set [0, 0, 0, 0::u8] 0 0xFF (unat (4::u32)) = Inr [0xFF, 0xFF, 0xFF, 0xFF]"
    by code_simp
  ultimately show ?thesis
    unfolding nbgl_uncompress_rle_def nbgl_uncompress_rle_4bpp_def Let_def g m(1) if_not_P [OF m(2)] by simp
qed

text \<open>
  A picture compressed as the comment of the decoder describes is restored. For
  every sequence of instructions whose counts and colours are in range and whose pixels fit into
  the area, the output starts with the pixels of the instructions in order.
\<close>

theorem rle_4bpp_roundtrip:
  assumes "bpp area = NBGL_BPP_4" and "rle_4bpp_sizes area (concat (map instr_bytes is)) out"
    and "2 * area_size area \<le> length out" and "list_all instr_ok is"
    and "length (concat (map instr_pixels is)) \<le> area_size area"
  shows "nbgl_uncompress_rle area (concat (map instr_bytes is))
      (of_nat (length (concat (map instr_bytes is)))) out (of_nat (length out)) =
    Some (Inr (buf_write (replicate (length out) 0xFF) 0 (pack4 (concat (map instr_pixels is)))))"
  using assms rle_4bpp_decodes [OF assms(2,3)]
    fit_runs_all [of "[]" "concat (map instr_runs is)" "area_size area"]
  by (simp add: nbgl_uncompress_rle_def rle4_runs_instrs concat_instrs_runs)

text \<open>
  What the decoder of one bit per pixel does for every input. Where the number of
  pixels of the area is a multiple of eight it writes that many pixels at most, eight to a byte;
  otherwise the count of the pixels left never becomes zero and it writes all the pixels of the
  data. The bytes after them are zero, and the decoder leaves the output exactly when these
  pixels need more bytes than there are.
\<close>

theorem rle_1bpp_exact:
  assumes "bpp area = NBGL_BPP_1" and "length buffer < 2 ^ 32" and "length out < 2 ^ 32"
  shows "nbgl_uncompress_rle area buffer (of_nat (length buffer)) out (of_nat (length out)) =
    Some (mem_write (replicate (length out) 0) 0
      (pack8 (if 8 dvd area_size area then take (area_size area) (rle1_pixels buffer)
              else rle1_pixels buffer)))"
proof -
  have "unat (of_nat (length buffer) :: u32) = length buffer" "unat (of_nat (length out) :: u32) = length out"
    using assms(2,3) by (simp_all add: unat_of_nat)
  then show ?thesis
    using assms(1) bpp_distinct rle_1bpp_decodes [of area buffer out]
    by (simp add: nbgl_uncompress_rle_def emitted_def)
qed

definition area_1bpp :: "u16 \<Rightarrow> nbgl_area" where
  "area_1bpp w = \<lparr>x0 = 0, y0 = 0, width = w, height = 1, backgroundColor = 0, bpp = NBGL_BPP_1\<rparr>"

text \<open>
  The consequence for an area whose size is not a multiple of eight: one pixel of picture, one
  byte of output, and data of fifteen pixels is written past the output.
\<close>

lemma rle_1bpp_overrun:
  "nbgl_uncompress_rle (area_1bpp 1) [0x0F] 1 [0] 1 = Some (Inl Oob)"
proof -
  have "length (pack8 (rle1_pixels [0x0F])) = 2"
    by (simp add: rle1_pixels_def byte_pixels_def pack8.simps)
  then show ?thesis
    using rle_1bpp_decodes [of "area_1bpp 1" "[0x0F]" "[0]"] bpp_distinct
    by (simp add: nbgl_uncompress_rle_def area_1bpp_def area_size_def emitted_def mem_write_def)
qed

end
