(* ===== verification/Cx_Lib.thy ===== *)
theory Cx_Lib
  imports Prelude
begin

text \<open>
  The error codes of the second version of the cryptographic library, \<open>src/bolos/cxlib.h\<close>. A call
  that returns \<open>CX_OK\<close> is \<open>Inr\<close> of its results, a call that returns an error \<open>Inl\<close> of the code.
  Accesses outside of a buffer are the outer \<open>Inl Oob\<close>.
\<close>

datatype cx_err =
    CX_CARRY
  | CX_LOCKED
  | CX_UNLOCKED
  | CX_NOT_LOCKED
  | CX_NOT_UNLOCKED
  | CX_INTERNAL_ERROR
  | CX_INVALID_PARAMETER_SIZE
  | CX_INVALID_PARAMETER_VALUE
  | CX_INVALID_PARAMETER
  | CX_NOT_INVERTIBLE
  | CX_OVERFLOW
  | CX_MEMORY_FULL
  | CX_NO_RESIDUE
  | CX_EC_INFINITE_POINT
  | CX_EC_INVALID_POINT
  | CX_EC_INVALID_CURVE

type_synonym 'a cx_res = "(cx_err + 'a) res"

end
