(* ===== verification/Big_Endian.thy ===== *)
theory Big_Endian
  imports Prelude
begin

text \<open>
  Big numbers as byte strings, most significant byte first: the interface between the byte
  buffers of the applications and the integers of the big number library and of the curve
  parameters.
\<close>

definition os2ip :: "bytes \<Rightarrow> int" where
  "os2ip bs = foldl (\<lambda>v b. 256 * v + uint b) 0 bs"

text \<open>The \<open>n\<close> low bytes of a number.\<close>

fun i2osp :: "nat \<Rightarrow> int \<Rightarrow> bytes" where
  "i2osp 0 v = []"
| "i2osp (Suc n) v = i2osp n (v div 256) @ [word_of_int v]"

lemma length_i2osp [simp]: "length (i2osp n v) = n"
  by (induction n arbitrary: v) simp_all

lemma os2ip_Nil [simp]: "os2ip [] = 0"
  by (simp add: os2ip_def)

lemma os2ip_snoc [simp]: "os2ip (bs @ [b]) = 256 * os2ip bs + uint b"
  by (simp add: os2ip_def)

lemma os2ip_append: "os2ip (as @ bs) = os2ip as * 256 ^ length bs + os2ip bs"
  by (induction bs rule: rev_induct)
    (simp_all flip: append_assoc add: algebra_simps)

lemma os2ip_Cons: "os2ip (b # bs) = uint b * 256 ^ length bs + os2ip bs"
  using os2ip_append [of "[b]" bs] by (simp add: os2ip_def)

lemma os2ip_nonneg [simp]: "0 \<le> os2ip bs"
  by (induction bs rule: rev_induct) simp_all

lemma os2ip_bound: "os2ip bs < 256 ^ length bs"
proof (induction bs rule: rev_induct)
  case (snoc b bs)
  have "uint b < 256" using uint_bounded [of b] by simp
  then show ?case using snoc by simp
qed simp

lemma os2ip_replicate_0 [simp]: "os2ip (replicate n 0) = 0"
  by (induction n) (simp_all add: os2ip_Cons)

lemma os2ip_strip [simp]: "os2ip (replicate n 0 @ bs) = os2ip bs"
  by (simp add: os2ip_append)

lemma uint_byte_of_int: "uint (word_of_int v :: u8) = v mod 256"
  by (simp add: uint_word_of_int)

lemma os2ip_i2osp: "os2ip (i2osp n v) = v mod 256 ^ n"
proof (induction n arbitrary: v)
  case (Suc n)
  have "v mod 256 ^ Suc n = 256 * (v div 256 mod 256 ^ n) + v mod 256"
    using zmod_zmult2_eq [of "256 ^ n" v 256] by simp
  then show ?case
    using Suc by (simp add: uint_byte_of_int)
qed simp

lemma os2ip_i2osp_id [simp]: "0 \<le> v \<Longrightarrow> v < 256 ^ n \<Longrightarrow> os2ip (i2osp n v) = v"
  by (simp add: os2ip_i2osp)

lemma i2osp_os2ip [simp]: "i2osp (length bs) (os2ip bs) = bs"
proof (induction bs rule: rev_induct)
  case (snoc b bs)
  have "uint b < 256" "0 \<le> uint b" using uint_bounded [of b] by simp_all
  then have "(256 * os2ip bs + uint b) div 256 = os2ip bs" by simp
  moreover have "word_of_int (256 * os2ip bs + uint b) = b"
    by (rule word_uint_eqI) (simp add: uint_byte_of_int \<open>uint b < 256\<close> del: of_int_add of_int_mult)
  ultimately show ?case using snoc by (simp del: of_int_add of_int_mult)
qed simp

lemma os2ip_inj: "length as = length bs \<Longrightarrow> os2ip as = os2ip bs \<longleftrightarrow> as = bs"
  by (metis i2osp_os2ip)

end
