(* ===== verification/Cx_Curves.thy ===== *)
theory Cx_Curves
  imports Big_Endian
begin

text \<open>
  The domain parameters of the elliptic curves, the tables of \<open>src/bolos/cx_ec_domain.c\<close>, and
  the proof that they are what they claim to be: the base point of every curve is on the curve,
  the order and the cofactor fit the size of the field, and the Montgomery constants are the
  residues they stand for. The arithmetic is done by the kernel: every reduction is shown by its
  quotient.
\<close>

section \<open>Curves and their domains\<close>

text \<open>The identifiers of \<open>enum cx_curve_e\<close> (\<open>cx_ec.h\<close>), with the numbers of the second SDK.\<close>

type_synonym cx_curve = nat

definition CX_CURVE_NONE :: cx_curve where "CX_CURVE_NONE = 0x00"
definition CX_CURVE_WEIERSTRASS_START :: cx_curve where "CX_CURVE_WEIERSTRASS_START = 0x20"
definition CX_CURVE_SECP256K1 :: cx_curve where "CX_CURVE_SECP256K1 = 0x21"
definition CX_CURVE_SECP256R1 :: cx_curve where "CX_CURVE_SECP256R1 = 0x22"
definition CX_CURVE_SECP384R1 :: cx_curve where "CX_CURVE_SECP384R1 = 0x23"
definition CX_CURVE_SECP521R1 :: cx_curve where "CX_CURVE_SECP521R1 = 0x24"
definition CX_CURVE_BrainPoolP256T1 :: cx_curve where "CX_CURVE_BrainPoolP256T1 = 0x31"
definition CX_CURVE_BrainPoolP256R1 :: cx_curve where "CX_CURVE_BrainPoolP256R1 = 0x32"
definition CX_CURVE_BrainPoolP320T1 :: cx_curve where "CX_CURVE_BrainPoolP320T1 = 0x33"
definition CX_CURVE_BrainPoolP320R1 :: cx_curve where "CX_CURVE_BrainPoolP320R1 = 0x34"
definition CX_CURVE_BrainPoolP384T1 :: cx_curve where "CX_CURVE_BrainPoolP384T1 = 0x35"
definition CX_CURVE_BrainPoolP384R1 :: cx_curve where "CX_CURVE_BrainPoolP384R1 = 0x36"
definition CX_CURVE_BrainPoolP512T1 :: cx_curve where "CX_CURVE_BrainPoolP512T1 = 0x37"
definition CX_CURVE_BrainPoolP512R1 :: cx_curve where "CX_CURVE_BrainPoolP512R1 = 0x38"
definition CX_CURVE_BLS12_381_G1 :: cx_curve where "CX_CURVE_BLS12_381_G1 = 0x39"
definition CX_CURVE_Stark256 :: cx_curve where "CX_CURVE_Stark256 = 0x51"
definition CX_CURVE_BLS12_377_G1 :: cx_curve where "CX_CURVE_BLS12_377_G1 = 0x52"
definition CX_CURVE_PALLAS :: cx_curve where "CX_CURVE_PALLAS = 0x53"
definition CX_CURVE_VESTA :: cx_curve where "CX_CURVE_VESTA = 0x54"
definition CX_CURVE_WEIERSTRASS_END :: cx_curve where "CX_CURVE_WEIERSTRASS_END = 0x6f"
definition CX_CURVE_TWISTED_EDWARDS_START :: cx_curve where "CX_CURVE_TWISTED_EDWARDS_START = 0x70"
definition CX_CURVE_Ed25519 :: cx_curve where "CX_CURVE_Ed25519 = 0x71"
definition CX_CURVE_Ed448 :: cx_curve where "CX_CURVE_Ed448 = 0x72"
definition CX_CURVE_EdBLS12 :: cx_curve where "CX_CURVE_EdBLS12 = 0x73"
definition CX_CURVE_JUBJUB :: cx_curve where "CX_CURVE_JUBJUB = 0x74"
definition CX_CURVE_TWISTED_EDWARDS_END :: cx_curve where "CX_CURVE_TWISTED_EDWARDS_END = 0x7f"
definition CX_CURVE_MONTGOMERY_START :: cx_curve where "CX_CURVE_MONTGOMERY_START = 0x80"
definition CX_CURVE_Curve25519 :: cx_curve where "CX_CURVE_Curve25519 = 0x81"
definition CX_CURVE_Curve448 :: cx_curve where "CX_CURVE_Curve448 = 0x82"
definition CX_CURVE_MONTGOMERY_END :: cx_curve where "CX_CURVE_MONTGOMERY_END = 0x8f"

lemmas cx_curve_ids =
  CX_CURVE_NONE_def CX_CURVE_WEIERSTRASS_START_def CX_CURVE_SECP256K1_def
  CX_CURVE_SECP256R1_def CX_CURVE_SECP384R1_def CX_CURVE_SECP521R1_def
  CX_CURVE_BrainPoolP256T1_def CX_CURVE_BrainPoolP256R1_def CX_CURVE_BrainPoolP320T1_def
  CX_CURVE_BrainPoolP320R1_def CX_CURVE_BrainPoolP384T1_def CX_CURVE_BrainPoolP384R1_def
  CX_CURVE_BrainPoolP512T1_def CX_CURVE_BrainPoolP512R1_def CX_CURVE_BLS12_381_G1_def
  CX_CURVE_Stark256_def CX_CURVE_BLS12_377_G1_def CX_CURVE_PALLAS_def CX_CURVE_VESTA_def
  CX_CURVE_WEIERSTRASS_END_def CX_CURVE_TWISTED_EDWARDS_START_def CX_CURVE_Ed25519_def
  CX_CURVE_Ed448_def CX_CURVE_EdBLS12_def CX_CURVE_JUBJUB_def
  CX_CURVE_TWISTED_EDWARDS_END_def CX_CURVE_MONTGOMERY_START_def CX_CURVE_Curve25519_def
  CX_CURVE_Curve448_def CX_CURVE_MONTGOMERY_END_def

definition CX_CURVE_IS_WEIERSTRASS :: "cx_curve \<Rightarrow> bool" where
  "CX_CURVE_IS_WEIERSTRASS c \<longleftrightarrow> CX_CURVE_WEIERSTRASS_START < c \<and> c < CX_CURVE_WEIERSTRASS_END"

definition CX_CURVE_IS_TWISTED_EDWARDS :: "cx_curve \<Rightarrow> bool" where
  "CX_CURVE_IS_TWISTED_EDWARDS c \<longleftrightarrow>
     CX_CURVE_TWISTED_EDWARDS_START < c \<and> c < CX_CURVE_TWISTED_EDWARDS_END"

definition CX_CURVE_IS_MONTGOMERY :: "cx_curve \<Rightarrow> bool" where
  "CX_CURVE_IS_MONTGOMERY c \<longleftrightarrow> CX_CURVE_MONTGOMERY_START < c \<and> c < CX_CURVE_MONTGOMERY_END"

lemmas cx_curve_kinds =
  CX_CURVE_IS_WEIERSTRASS_def CX_CURVE_IS_TWISTED_EDWARDS_def CX_CURVE_IS_MONTGOMERY_def

record cx_curve_domain =
  dom_curve :: cx_curve
  dom_bit_size :: nat
  dom_length :: nat
  dom_a :: bytes
  dom_b :: bytes
  dom_p :: bytes
  dom_Gx :: bytes
  dom_Gy :: bytes
  dom_n :: bytes
  dom_h :: bytes
  dom_Hn :: bytes
  dom_Hp :: bytes

section \<open>What the parameters have to satisfy\<close>

text \<open>
  The equations of the three kinds of curves over the field of \<open>p\<close> elements: short
  Weierstrass, twisted Edwards (the table keeps \<open>d\<close> in the field \<open>b\<close>) and Montgomery.
\<close>

definition on_weierstrass :: "int \<Rightarrow> int \<Rightarrow> int \<Rightarrow> int \<Rightarrow> int \<Rightarrow> bool" where
  "on_weierstrass p a b x y \<longleftrightarrow> y\<^sup>2 mod p = (x ^ 3 + a * x + b) mod p"

definition on_twisted_edwards :: "int \<Rightarrow> int \<Rightarrow> int \<Rightarrow> int \<Rightarrow> int \<Rightarrow> bool" where
  "on_twisted_edwards p a d x y \<longleftrightarrow> (a * x\<^sup>2 + y\<^sup>2) mod p = (1 + d * x\<^sup>2 * y\<^sup>2) mod p"

definition on_montgomery :: "int \<Rightarrow> int \<Rightarrow> int \<Rightarrow> int \<Rightarrow> int \<Rightarrow> bool" where
  "on_montgomery p a b x y \<longleftrightarrow> (b * y\<^sup>2) mod p = (x ^ 3 + a * x\<^sup>2 + x) mod p"

definition curve_equation :: "cx_curve \<Rightarrow> int \<Rightarrow> int \<Rightarrow> int \<Rightarrow> int \<Rightarrow> int \<Rightarrow> bool" where
  "curve_equation c =
     (if CX_CURVE_IS_WEIERSTRASS c then on_weierstrass
      else if CX_CURVE_IS_TWISTED_EDWARDS c then on_twisted_edwards
      else if CX_CURVE_IS_MONTGOMERY c then on_montgomery
      else (\<lambda>p a b x y. False))"

text \<open>
  The base point is on the curve; the coefficients and coordinates are reduced; every parameter
  has the length of the domain and the cofactor the four bytes that the callers read.
\<close>

definition base_point_ok :: "cx_curve_domain \<Rightarrow> bool" where
  "base_point_ok d \<longleftrightarrow> curve_equation (dom_curve d) (os2ip (dom_p d)) (os2ip (dom_a d))
     (os2ip (dom_b d)) (os2ip (dom_Gx d)) (os2ip (dom_Gy d))"

definition reduced_ok :: "cx_curve_domain \<Rightarrow> bool" where
  "reduced_ok d \<longleftrightarrow> list_all (\<lambda>v. os2ip v < os2ip (dom_p d)) [dom_a d, dom_b d, dom_Gx d, dom_Gy d]"

definition sizes_ok :: "cx_curve_domain \<Rightarrow> bool" where
  "sizes_ok d \<longleftrightarrow> 4 \<le> length (dom_h d) \<and> 4 \<le> dom_length d \<and>
     list_all (\<lambda>v. length v = dom_length d)
       [dom_a d, dom_b d, dom_p d, dom_Gx d, dom_Gy d, dom_n d, dom_Hn d, dom_Hp d]"

text \<open>
  The number of points of a curve over a field of \<open>p\<close> elements differs from \<open>p + 1\<close> by at most
  twice the square root of \<open>p\<close> (Hasse). The number is the order of the base point times the
  cofactor, which the callers read from four bytes.
\<close>

definition hasse_ok :: "cx_curve_domain \<Rightarrow> bool" where
  "hasse_ok d \<longleftrightarrow> (os2ip (dom_n d) * os2ip (take 4 (dom_h d)) - (os2ip (dom_p d) + 1))\<^sup>2
     \<le> 4 * os2ip (dom_p d)"

text \<open>
  The second Montgomery constant of a modulus: the square of the radix, whose number of bits is
  the least multiple of 128 that holds the parameter, reduced.
\<close>

definition mont_const :: "nat \<Rightarrow> int \<Rightarrow> int" where
  "mont_const len m = 2 ^ (2 * (128 * ((len + 15) div 16))) mod m"

definition Hp_ok :: "cx_curve_domain \<Rightarrow> bool" where
  "Hp_ok d \<longleftrightarrow> os2ip (dom_Hp d) = mont_const (dom_length d) (os2ip (dom_p d))"

definition Hn_ok :: "cx_curve_domain \<Rightarrow> bool" where
  "Hn_ok d \<longleftrightarrow> os2ip (dom_Hn d) = mont_const (dom_length d) (os2ip (dom_n d))"

text \<open>The equations from the quotients of the intermediate products.\<close>

lemma mod_eqI: "(s::int) = q * p + r \<Longrightarrow> t = q' * p + r \<Longrightarrow> s mod p = t mod p"
  by simp

lemma mod_expand: "s mod p = r mod p \<Longrightarrow> \<exists>q. (s::int) = q * p + r"
  by (metis mod_eq_dvd_iff dvd_def diff_eq_eq mult.commute)

lemma on_weierstrassI:
  assumes "x * x = q1 * p + x2" and "(x2 + a) * x + b = q2 * p + r" and "y * y = q3 * p + r"
  shows "on_weierstrass p a b x y"
proof -
  have "x ^ 3 + a * x + b = (x * x - x2) * x + ((x2 + a) * x + b)"
    by (simp add: power3_eq_cube algebra_simps)
  also have "\<dots> = (q1 * x + q2) * p + r"
    using assms(1,2) by (simp add: algebra_simps)
  finally show ?thesis
    unfolding on_weierstrass_def power2_eq_square by (intro mod_eqI [OF assms(3)])
qed

lemma on_twisted_edwardsI:
  assumes "x * x = q1 * p + x2" and "y * y = q2 * p + y2" and "a * x2 + y2 = q3 * p + r"
    and "x2 * y2 = q4 * p + t" and "1 + d * t = q5 * p + r"
  shows "on_twisted_edwards p a d x y"
proof -
  have l: "a * x\<^sup>2 + y\<^sup>2 = (a * q1 + q2 + q3) * p + r"
    unfolding power2_eq_square assms(1,2) using assms(3) by (simp add: algebra_simps)
  have "1 + d * x\<^sup>2 * y\<^sup>2 = 1 + d * ((q1 * p + x2) * (q2 * p + y2))"
    unfolding power2_eq_square assms(1,2) by (simp add: algebra_simps)
  also have "\<dots> = d * (q1 * (q2 * p + y2) + x2 * q2) * p + (1 + d * (x2 * y2))"
    by (simp add: algebra_simps)
  also have "\<dots> = (d * (q1 * (q2 * p + y2) + x2 * q2) + d * q4 + q5) * p + r"
    unfolding assms(4) using assms(5) by (simp add: algebra_simps)
  finally show ?thesis unfolding on_twisted_edwards_def by (rule mod_eqI [OF l])
qed

lemma on_montgomeryI:
  assumes "x * x = q1 * p + x2" and "(x2 + a * x + 1) * x = q2 * p + r"
    and "y * y = q3 * p + y2" and "b * y2 = q4 * p + r"
  shows "on_montgomery p a b x y"
proof -
  have l: "b * y\<^sup>2 = (b * q3 + q4) * p + r"
    unfolding power2_eq_square assms(3) using assms(4) by (simp add: algebra_simps)
  have "x ^ 3 + a * x\<^sup>2 + x = (x * x - x2) * x + (x2 + a * x + 1) * x"
    by (simp add: power3_eq_cube power2_eq_square algebra_simps)
  also have "\<dots> = (q1 * x + q2) * p + r"
    using assms(1,2) by (simp add: algebra_simps)
  finally show ?thesis unfolding on_montgomery_def by (rule mod_eqI [OF l])
qed

lemma mont_constI:
  assumes "2 ^ (2 * (128 * ((len + 15) div 16))) = q * m + h" and "0 \<le> h" and "h < m"
  shows "h = mont_const len m"
  unfolding mont_const_def assms(1) using assms(2,3) by simp

lemma curve_equation_kind:
  "CX_CURVE_IS_WEIERSTRASS c \<Longrightarrow> curve_equation c = on_weierstrass"
  "CX_CURVE_IS_TWISTED_EDWARDS c \<Longrightarrow> curve_equation c = on_twisted_edwards"
  "CX_CURVE_IS_MONTGOMERY c \<Longrightarrow> curve_equation c = on_montgomery"
  by (auto simp: curve_equation_def cx_curve_kinds cx_curve_ids)

lemma base_point_on_weierstrassI:
  assumes "CX_CURVE_IS_WEIERSTRASS (dom_curve d)"
    and "on_weierstrass (os2ip (dom_p d)) (os2ip (dom_a d)) (os2ip (dom_b d))
      (os2ip (dom_Gx d)) (os2ip (dom_Gy d))"
  shows "base_point_ok d"
  using assms by (simp add: base_point_ok_def curve_equation_kind)

lemma base_point_on_twisted_edwardsI:
  assumes "CX_CURVE_IS_TWISTED_EDWARDS (dom_curve d)"
    and "on_twisted_edwards (os2ip (dom_p d)) (os2ip (dom_a d)) (os2ip (dom_b d))
      (os2ip (dom_Gx d)) (os2ip (dom_Gy d))"
  shows "base_point_ok d"
  using assms by (simp add: base_point_ok_def curve_equation_kind)

lemma base_point_on_montgomeryI:
  assumes "CX_CURVE_IS_MONTGOMERY (dom_curve d)"
    and "on_montgomery (os2ip (dom_p d)) (os2ip (dom_a d)) (os2ip (dom_b d))
      (os2ip (dom_Gx d)) (os2ip (dom_Gy d))"
  shows "base_point_ok d"
  using assms by (simp add: base_point_ok_def curve_equation_kind)

section \<open>The tables\<close>

definition C_cofactor_1 :: bytes where "C_cofactor_1 = [0, 0, 0, 1]"
definition C_cofactor_4 :: bytes where "C_cofactor_4 = [0, 0, 0, 4]"
definition C_cofactor_8 :: bytes where "C_cofactor_8 = [0, 0, 0, 8]"

lemma cofactor_values:
  "os2ip (take 4 C_cofactor_1) = 1" "os2ip (take 4 C_cofactor_4) = 4"
  "os2ip (take 4 C_cofactor_8) = 8"
  by (simp_all add: os2ip_def C_cofactor_1_def C_cofactor_4_def C_cofactor_8_def)

subsection \<open>secp256k1\<close>

definition C_cx_secp256k1_a :: bytes where
  "C_cx_secp256k1_a =
    [0x00, 0x00, 0x00, 0x00, 0x00, 0x00, 0x00, 0x00, 0x00, 0x00, 0x00, 0x00, 0x00, 0x00, 0x00,
     0x00, 0x00, 0x00, 0x00, 0x00, 0x00, 0x00, 0x00, 0x00, 0x00, 0x00, 0x00, 0x00, 0x00, 0x00,
     0x00, 0x00]"

definition C_cx_secp256k1_b :: bytes where
  "C_cx_secp256k1_b =
    [0x00, 0x00, 0x00, 0x00, 0x00, 0x00, 0x00, 0x00, 0x00, 0x00, 0x00, 0x00, 0x00, 0x00, 0x00,
     0x00, 0x00, 0x00, 0x00, 0x00, 0x00, 0x00, 0x00, 0x00, 0x00, 0x00, 0x00, 0x00, 0x00, 0x00,
     0x00, 0x07]"

definition C_cx_secp256k1_p :: bytes where
  "C_cx_secp256k1_p =
    [0xff, 0xff, 0xff, 0xff, 0xff, 0xff, 0xff, 0xff, 0xff, 0xff, 0xff, 0xff, 0xff, 0xff, 0xff,
     0xff, 0xff, 0xff, 0xff, 0xff, 0xff, 0xff, 0xff, 0xff, 0xff, 0xff, 0xff, 0xfe, 0xff, 0xff,
     0xfc, 0x2f]"

definition C_cx_secp256k1_Hp :: bytes where
  "C_cx_secp256k1_Hp =
    [0x00, 0x00, 0x00, 0x00, 0x00, 0x00, 0x00, 0x00, 0x00, 0x00, 0x00, 0x00, 0x00, 0x00, 0x00,
     0x00, 0x00, 0x00, 0x00, 0x00, 0x00, 0x00, 0x00, 0x01, 0x00, 0x00, 0x07, 0xa2, 0x00, 0x0e,
     0x90, 0xa1]"

definition C_cx_secp256k1_Gx :: bytes where
  "C_cx_secp256k1_Gx =
    [0x79, 0xbe, 0x66, 0x7e, 0xf9, 0xdc, 0xbb, 0xac, 0x55, 0xa0, 0x62, 0x95, 0xce, 0x87, 0x0b,
     0x07, 0x02, 0x9b, 0xfc, 0xdb, 0x2d, 0xce, 0x28, 0xd9, 0x59, 0xf2, 0x81, 0x5b, 0x16, 0xf8,
     0x17, 0x98]"

definition C_cx_secp256k1_Gy :: bytes where
  "C_cx_secp256k1_Gy =
    [0x48, 0x3a, 0xda, 0x77, 0x26, 0xa3, 0xc4, 0x65, 0x5d, 0xa4, 0xfb, 0xfc, 0x0e, 0x11, 0x08,
     0xa8, 0xfd, 0x17, 0xb4, 0x48, 0xa6, 0x85, 0x54, 0x19, 0x9c, 0x47, 0xd0, 0x8f, 0xfb, 0x10,
     0xd4, 0xb8]"

definition C_cx_secp256k1_n :: bytes where
  "C_cx_secp256k1_n =
    [0xff, 0xff, 0xff, 0xff, 0xff, 0xff, 0xff, 0xff, 0xff, 0xff, 0xff, 0xff, 0xff, 0xff, 0xff,
     0xfe, 0xba, 0xae, 0xdc, 0xe6, 0xaf, 0x48, 0xa0, 0x3b, 0xbf, 0xd2, 0x5e, 0x8c, 0xd0, 0x36,
     0x41, 0x41]"

definition C_cx_secp256k1_Hn :: bytes where
  "C_cx_secp256k1_Hn =
    [0x9d, 0x67, 0x1c, 0xd5, 0x81, 0xc6, 0x9b, 0xc5, 0xe6, 0x97, 0xf5, 0xe4, 0x5b, 0xcd, 0x07,
     0xc6, 0x74, 0x14, 0x96, 0xc2, 0x0e, 0x7c, 0xf8, 0x78, 0x89, 0x6c, 0xf2, 0x14, 0x67, 0xd7,
     0xd1, 0x40]"

definition C_cx_secp256k1 :: cx_curve_domain where
  "C_cx_secp256k1 = \<lparr>dom_curve = CX_CURVE_SECP256K1, dom_bit_size = 256, dom_length = 32,
     dom_a = C_cx_secp256k1_a, dom_b = C_cx_secp256k1_b, dom_p = C_cx_secp256k1_p,
     dom_Gx = C_cx_secp256k1_Gx, dom_Gy = C_cx_secp256k1_Gy, dom_n = C_cx_secp256k1_n,
     dom_h = C_cofactor_1, dom_Hn = C_cx_secp256k1_Hn, dom_Hp = C_cx_secp256k1_Hp\<rparr>"

subsection \<open>secp256r1\<close>

definition C_cx_secp256r1_a :: bytes where
  "C_cx_secp256r1_a =
    [0xff, 0xff, 0xff, 0xff, 0x00, 0x00, 0x00, 0x01, 0x00, 0x00, 0x00, 0x00, 0x00, 0x00, 0x00,
     0x00, 0x00, 0x00, 0x00, 0x00, 0xff, 0xff, 0xff, 0xff, 0xff, 0xff, 0xff, 0xff, 0xff, 0xff,
     0xff, 0xfc]"

definition C_cx_secp256r1_b :: bytes where
  "C_cx_secp256r1_b =
    [0x5a, 0xc6, 0x35, 0xd8, 0xaa, 0x3a, 0x93, 0xe7, 0xb3, 0xeb, 0xbd, 0x55, 0x76, 0x98, 0x86,
     0xbc, 0x65, 0x1d, 0x06, 0xb0, 0xcc, 0x53, 0xb0, 0xf6, 0x3b, 0xce, 0x3c, 0x3e, 0x27, 0xd2,
     0x60, 0x4b]"

definition C_cx_secp256r1_p :: bytes where
  "C_cx_secp256r1_p =
    [0xff, 0xff, 0xff, 0xff, 0x00, 0x00, 0x00, 0x01, 0x00, 0x00, 0x00, 0x00, 0x00, 0x00, 0x00,
     0x00, 0x00, 0x00, 0x00, 0x00, 0xff, 0xff, 0xff, 0xff, 0xff, 0xff, 0xff, 0xff, 0xff, 0xff,
     0xff, 0xff]"

definition C_cx_secp256r1_Hp :: bytes where
  "C_cx_secp256r1_Hp =
    [0x00, 0x00, 0x00, 0x04, 0xff, 0xff, 0xff, 0xfd, 0xff, 0xff, 0xff, 0xff, 0xff, 0xff, 0xff,
     0xfe, 0xff, 0xff, 0xff, 0xfb, 0xff, 0xff, 0xff, 0xff, 0x00, 0x00, 0x00, 0x00, 0x00, 0x00,
     0x00, 0x03]"

definition C_cx_secp256r1_Gx :: bytes where
  "C_cx_secp256r1_Gx =
    [0x6b, 0x17, 0xd1, 0xf2, 0xe1, 0x2c, 0x42, 0x47, 0xf8, 0xbc, 0xe6, 0xe5, 0x63, 0xa4, 0x40,
     0xf2, 0x77, 0x03, 0x7d, 0x81, 0x2d, 0xeb, 0x33, 0xa0, 0xf4, 0xa1, 0x39, 0x45, 0xd8, 0x98,
     0xc2, 0x96]"

definition C_cx_secp256r1_Gy :: bytes where
  "C_cx_secp256r1_Gy =
    [0x4f, 0xe3, 0x42, 0xe2, 0xfe, 0x1a, 0x7f, 0x9b, 0x8e, 0xe7, 0xeb, 0x4a, 0x7c, 0x0f, 0x9e,
     0x16, 0x2b, 0xce, 0x33, 0x57, 0x6b, 0x31, 0x5e, 0xce, 0xcb, 0xb6, 0x40, 0x68, 0x37, 0xbf,
     0x51, 0xf5]"

definition C_cx_secp256r1_n :: bytes where
  "C_cx_secp256r1_n =
    [0xff, 0xff, 0xff, 0xff, 0x00, 0x00, 0x00, 0x00, 0xff, 0xff, 0xff, 0xff, 0xff, 0xff, 0xff,
     0xff, 0xbc, 0xe6, 0xfa, 0xad, 0xa7, 0x17, 0x9e, 0x84, 0xf3, 0xb9, 0xca, 0xc2, 0xfc, 0x63,
     0x25, 0x51]"

definition C_cx_secp256r1_Hn :: bytes where
  "C_cx_secp256r1_Hn =
    [0x66, 0xe1, 0x2d, 0x94, 0xf3, 0xd9, 0x56, 0x20, 0x28, 0x45, 0xb2, 0x39, 0x2b, 0x6b, 0xec,
     0x59, 0x46, 0x99, 0x79, 0x9c, 0x49, 0xbd, 0x6f, 0xa6, 0x83, 0x24, 0x4c, 0x95, 0xbe, 0x79,
     0xee, 0xa2]"

definition C_cx_secp256r1 :: cx_curve_domain where
  "C_cx_secp256r1 = \<lparr>dom_curve = CX_CURVE_SECP256R1, dom_bit_size = 256, dom_length = 32,
     dom_a = C_cx_secp256r1_a, dom_b = C_cx_secp256r1_b, dom_p = C_cx_secp256r1_p,
     dom_Gx = C_cx_secp256r1_Gx, dom_Gy = C_cx_secp256r1_Gy, dom_n = C_cx_secp256r1_n,
     dom_h = C_cofactor_1, dom_Hn = C_cx_secp256r1_Hn, dom_Hp = C_cx_secp256r1_Hp\<rparr>"

subsection \<open>secp384r1\<close>

definition C_cx_secp384r1_a :: bytes where
  "C_cx_secp384r1_a =
    [0xff, 0xff, 0xff, 0xff, 0xff, 0xff, 0xff, 0xff, 0xff, 0xff, 0xff, 0xff, 0xff, 0xff, 0xff,
     0xff, 0xff, 0xff, 0xff, 0xff, 0xff, 0xff, 0xff, 0xff, 0xff, 0xff, 0xff, 0xff, 0xff, 0xff,
     0xff, 0xfe, 0xff, 0xff, 0xff, 0xff, 0x00, 0x00, 0x00, 0x00, 0x00, 0x00, 0x00, 0x00, 0xff,
     0xff, 0xff, 0xfc]"

definition C_cx_secp384r1_b :: bytes where
  "C_cx_secp384r1_b =
    [0xb3, 0x31, 0x2f, 0xa7, 0xe2, 0x3e, 0xe7, 0xe4, 0x98, 0x8e, 0x05, 0x6b, 0xe3, 0xf8, 0x2d,
     0x19, 0x18, 0x1d, 0x9c, 0x6e, 0xfe, 0x81, 0x41, 0x12, 0x03, 0x14, 0x08, 0x8f, 0x50, 0x13,
     0x87, 0x5a, 0xc6, 0x56, 0x39, 0x8d, 0x8a, 0x2e, 0xd1, 0x9d, 0x2a, 0x85, 0xc8, 0xed, 0xd3,
     0xec, 0x2a, 0xef]"

definition C_cx_secp384r1_p :: bytes where
  "C_cx_secp384r1_p =
    [0xff, 0xff, 0xff, 0xff, 0xff, 0xff, 0xff, 0xff, 0xff, 0xff, 0xff, 0xff, 0xff, 0xff, 0xff,
     0xff, 0xff, 0xff, 0xff, 0xff, 0xff, 0xff, 0xff, 0xff, 0xff, 0xff, 0xff, 0xff, 0xff, 0xff,
     0xff, 0xfe, 0xff, 0xff, 0xff, 0xff, 0x00, 0x00, 0x00, 0x00, 0x00, 0x00, 0x00, 0x00, 0xff,
     0xff, 0xff, 0xff]"

definition C_cx_secp384r1_Hp :: bytes where
  "C_cx_secp384r1_Hp =
    [0x00, 0x00, 0x00, 0x00, 0x00, 0x00, 0x00, 0x00, 0x00, 0x00, 0x00, 0x00, 0x00, 0x00, 0x00,
     0x01, 0x00, 0x00, 0x00, 0x02, 0x00, 0x00, 0x00, 0x00, 0xff, 0xff, 0xff, 0xfe, 0x00, 0x00,
     0x00, 0x00, 0x00, 0x00, 0x00, 0x02, 0x00, 0x00, 0x00, 0x00, 0xff, 0xff, 0xff, 0xfe, 0x00,
     0x00, 0x00, 0x01]"

definition C_cx_secp384r1_Gx :: bytes where
  "C_cx_secp384r1_Gx =
    [0xaa, 0x87, 0xca, 0x22, 0xbe, 0x8b, 0x05, 0x37, 0x8e, 0xb1, 0xc7, 0x1e, 0xf3, 0x20, 0xad,
     0x74, 0x6e, 0x1d, 0x3b, 0x62, 0x8b, 0xa7, 0x9b, 0x98, 0x59, 0xf7, 0x41, 0xe0, 0x82, 0x54,
     0x2a, 0x38, 0x55, 0x02, 0xf2, 0x5d, 0xbf, 0x55, 0x29, 0x6c, 0x3a, 0x54, 0x5e, 0x38, 0x72,
     0x76, 0x0a, 0xb7]"

definition C_cx_secp384r1_Gy :: bytes where
  "C_cx_secp384r1_Gy =
    [0x36, 0x17, 0xde, 0x4a, 0x96, 0x26, 0x2c, 0x6f, 0x5d, 0x9e, 0x98, 0xbf, 0x92, 0x92, 0xdc,
     0x29, 0xf8, 0xf4, 0x1d, 0xbd, 0x28, 0x9a, 0x14, 0x7c, 0xe9, 0xda, 0x31, 0x13, 0xb5, 0xf0,
     0xb8, 0xc0, 0x0a, 0x60, 0xb1, 0xce, 0x1d, 0x7e, 0x81, 0x9d, 0x7a, 0x43, 0x1d, 0x7c, 0x90,
     0xea, 0x0e, 0x5f]"

definition C_cx_secp384r1_n :: bytes where
  "C_cx_secp384r1_n =
    [0xff, 0xff, 0xff, 0xff, 0xff, 0xff, 0xff, 0xff, 0xff, 0xff, 0xff, 0xff, 0xff, 0xff, 0xff,
     0xff, 0xff, 0xff, 0xff, 0xff, 0xff, 0xff, 0xff, 0xff, 0xc7, 0x63, 0x4d, 0x81, 0xf4, 0x37,
     0x2d, 0xdf, 0x58, 0x1a, 0x0d, 0xb2, 0x48, 0xb0, 0xa7, 0x7a, 0xec, 0xec, 0x19, 0x6a, 0xcc,
     0xc5, 0x29, 0x73]"

definition C_cx_secp384r1_Hn :: bytes where
  "C_cx_secp384r1_Hn =
    [0x0c, 0x84, 0xee, 0x01, 0x2b, 0x39, 0xbf, 0x21, 0x3f, 0xb0, 0x5b, 0x7a, 0x28, 0x26, 0x68,
     0x95, 0xd4, 0x0d, 0x49, 0x17, 0x4a, 0xab, 0x1c, 0xc5, 0xbc, 0x3e, 0x48, 0x3a, 0xfc, 0xb8,
     0x29, 0x47, 0xff, 0x3d, 0x81, 0xe5, 0xdf, 0x1a, 0xa4, 0x19, 0x2d, 0x31, 0x9b, 0x24, 0x19,
     0xb4, 0x09, 0xa9]"

definition C_cx_secp384r1 :: cx_curve_domain where
  "C_cx_secp384r1 = \<lparr>dom_curve = CX_CURVE_SECP384R1, dom_bit_size = 384, dom_length = 48,
     dom_a = C_cx_secp384r1_a, dom_b = C_cx_secp384r1_b, dom_p = C_cx_secp384r1_p,
     dom_Gx = C_cx_secp384r1_Gx, dom_Gy = C_cx_secp384r1_Gy, dom_n = C_cx_secp384r1_n,
     dom_h = C_cofactor_1, dom_Hn = C_cx_secp384r1_Hn, dom_Hp = C_cx_secp384r1_Hp\<rparr>"

subsection \<open>secp521r1\<close>

definition C_cx_secp521r1_a :: bytes where
  "C_cx_secp521r1_a =
    [0x01, 0xff, 0xff, 0xff, 0xff, 0xff, 0xff, 0xff, 0xff, 0xff, 0xff, 0xff, 0xff, 0xff, 0xff,
     0xff, 0xff, 0xff, 0xff, 0xff, 0xff, 0xff, 0xff, 0xff, 0xff, 0xff, 0xff, 0xff, 0xff, 0xff,
     0xff, 0xff, 0xff, 0xff, 0xff, 0xff, 0xff, 0xff, 0xff, 0xff, 0xff, 0xff, 0xff, 0xff, 0xff,
     0xff, 0xff, 0xff, 0xff, 0xff, 0xff, 0xff, 0xff, 0xff, 0xff, 0xff, 0xff, 0xff, 0xff, 0xff,
     0xff, 0xff, 0xff, 0xff, 0xff, 0xfc]"

definition C_cx_secp521r1_b :: bytes where
  "C_cx_secp521r1_b =
    [0x00, 0x51, 0x95, 0x3e, 0xb9, 0x61, 0x8e, 0x1c, 0x9a, 0x1f, 0x92, 0x9a, 0x21, 0xa0, 0xb6,
     0x85, 0x40, 0xee, 0xa2, 0xda, 0x72, 0x5b, 0x99, 0xb3, 0x15, 0xf3, 0xb8, 0xb4, 0x89, 0x91,
     0x8e, 0xf1, 0x09, 0xe1, 0x56, 0x19, 0x39, 0x51, 0xec, 0x7e, 0x93, 0x7b, 0x16, 0x52, 0xc0,
     0xbd, 0x3b, 0xb1, 0xbf, 0x07, 0x35, 0x73, 0xdf, 0x88, 0x3d, 0x2c, 0x34, 0xf1, 0xef, 0x45,
     0x1f, 0xd4, 0x6b, 0x50, 0x3f, 0x00]"

definition C_cx_secp521r1_p :: bytes where
  "C_cx_secp521r1_p =
    [0x01, 0xff, 0xff, 0xff, 0xff, 0xff, 0xff, 0xff, 0xff, 0xff, 0xff, 0xff, 0xff, 0xff, 0xff,
     0xff, 0xff, 0xff, 0xff, 0xff, 0xff, 0xff, 0xff, 0xff, 0xff, 0xff, 0xff, 0xff, 0xff, 0xff,
     0xff, 0xff, 0xff, 0xff, 0xff, 0xff, 0xff, 0xff, 0xff, 0xff, 0xff, 0xff, 0xff, 0xff, 0xff,
     0xff, 0xff, 0xff, 0xff, 0xff, 0xff, 0xff, 0xff, 0xff, 0xff, 0xff, 0xff, 0xff, 0xff, 0xff,
     0xff, 0xff, 0xff, 0xff, 0xff, 0xff]"

definition C_cx_secp521r1_Hp :: bytes where
  "C_cx_secp521r1_Hp =
    [0x00, 0x00, 0x00, 0x00, 0x00, 0x00, 0x00, 0x00, 0x00, 0x00, 0x00, 0x00, 0x00, 0x00, 0x00,
     0x00, 0x00, 0x00, 0x00, 0x00, 0x00, 0x00, 0x00, 0x00, 0x00, 0x00, 0x00, 0x00, 0x00, 0x00,
     0x00, 0x00, 0x00, 0x00, 0x00, 0x00, 0x40, 0x00, 0x00, 0x00, 0x00, 0x00, 0x00, 0x00, 0x00,
     0x00, 0x00, 0x00, 0x00, 0x00, 0x00, 0x00, 0x00, 0x00, 0x00, 0x00, 0x00, 0x00, 0x00, 0x00,
     0x00, 0x00, 0x00, 0x00, 0x00, 0x00]"

definition C_cx_secp521r1_Gx :: bytes where
  "C_cx_secp521r1_Gx =
    [0x00, 0xc6, 0x85, 0x8e, 0x06, 0xb7, 0x04, 0x04, 0xe9, 0xcd, 0x9e, 0x3e, 0xcb, 0x66, 0x23,
     0x95, 0xb4, 0x42, 0x9c, 0x64, 0x81, 0x39, 0x05, 0x3f, 0xb5, 0x21, 0xf8, 0x28, 0xaf, 0x60,
     0x6b, 0x4d, 0x3d, 0xba, 0xa1, 0x4b, 0x5e, 0x77, 0xef, 0xe7, 0x59, 0x28, 0xfe, 0x1d, 0xc1,
     0x27, 0xa2, 0xff, 0xa8, 0xde, 0x33, 0x48, 0xb3, 0xc1, 0x85, 0x6a, 0x42, 0x9b, 0xf9, 0x7e,
     0x7e, 0x31, 0xc2, 0xe5, 0xbd, 0x66]"

definition C_cx_secp521r1_Gy :: bytes where
  "C_cx_secp521r1_Gy =
    [0x01, 0x18, 0x39, 0x29, 0x6a, 0x78, 0x9a, 0x3b, 0xc0, 0x04, 0x5c, 0x8a, 0x5f, 0xb4, 0x2c,
     0x7d, 0x1b, 0xd9, 0x98, 0xf5, 0x44, 0x49, 0x57, 0x9b, 0x44, 0x68, 0x17, 0xaf, 0xbd, 0x17,
     0x27, 0x3e, 0x66, 0x2c, 0x97, 0xee, 0x72, 0x99, 0x5e, 0xf4, 0x26, 0x40, 0xc5, 0x50, 0xb9,
     0x01, 0x3f, 0xad, 0x07, 0x61, 0x35, 0x3c, 0x70, 0x86, 0xa2, 0x72, 0xc2, 0x40, 0x88, 0xbe,
     0x94, 0x76, 0x9f, 0xd1, 0x66, 0x50]"

definition C_cx_secp521r1_n :: bytes where
  "C_cx_secp521r1_n =
    [0x01, 0xff, 0xff, 0xff, 0xff, 0xff, 0xff, 0xff, 0xff, 0xff, 0xff, 0xff, 0xff, 0xff, 0xff,
     0xff, 0xff, 0xff, 0xff, 0xff, 0xff, 0xff, 0xff, 0xff, 0xff, 0xff, 0xff, 0xff, 0xff, 0xff,
     0xff, 0xff, 0xff, 0xfa, 0x51, 0x86, 0x87, 0x83, 0xbf, 0x2f, 0x96, 0x6b, 0x7f, 0xcc, 0x01,
     0x48, 0xf7, 0x09, 0xa5, 0xd0, 0x3b, 0xb5, 0xc9, 0xb8, 0x89, 0x9c, 0x47, 0xae, 0xbb, 0x6f,
     0xb7, 0x1e, 0x91, 0x38, 0x64, 0x09]"

definition C_cx_secp521r1_Hn :: bytes where
  "C_cx_secp521r1_Hn =
    [0x01, 0xbc, 0xcf, 0xf3, 0xd1, 0x42, 0xb7, 0x75, 0x6e, 0x3e, 0xdd, 0x6e, 0x23, 0xd8, 0x2e,
     0x49, 0xc7, 0xdc, 0x81, 0x3d, 0x00, 0xeb, 0xc5, 0x45, 0x05, 0x9b, 0x80, 0x5c, 0xc3, 0x49,
     0x42, 0x90, 0xa7, 0xc8, 0x18, 0x47, 0x42, 0xd7, 0x00, 0xe0, 0x81, 0x09, 0x4e, 0x89, 0x3c,
     0x9c, 0xf6, 0x52, 0x22, 0x7d, 0x46, 0x5b, 0x9f, 0x72, 0x66, 0xb4, 0x7e, 0xe7, 0xf0, 0x56,
     0x21, 0x96, 0x51, 0x92, 0x0b, 0xb5]"

definition C_cx_secp521r1 :: cx_curve_domain where
  "C_cx_secp521r1 = \<lparr>dom_curve = CX_CURVE_SECP521R1, dom_bit_size = 521, dom_length = 66,
     dom_a = C_cx_secp521r1_a, dom_b = C_cx_secp521r1_b, dom_p = C_cx_secp521r1_p,
     dom_Gx = C_cx_secp521r1_Gx, dom_Gy = C_cx_secp521r1_Gy, dom_n = C_cx_secp521r1_n,
     dom_h = C_cofactor_1, dom_Hn = C_cx_secp521r1_Hn, dom_Hp = C_cx_secp521r1_Hp\<rparr>"

subsection \<open>BrainpoolP256r1\<close>

definition C_cx_BrainpoolP256r1_a :: bytes where
  "C_cx_BrainpoolP256r1_a =
    [0x7d, 0x5a, 0x09, 0x75, 0xfc, 0x2c, 0x30, 0x57, 0xee, 0xf6, 0x75, 0x30, 0x41, 0x7a, 0xff,
     0xe7, 0xfb, 0x80, 0x55, 0xc1, 0x26, 0xdc, 0x5c, 0x6c, 0xe9, 0x4a, 0x4b, 0x44, 0xf3, 0x30,
     0xb5, 0xd9]"

definition C_cx_BrainpoolP256r1_b :: bytes where
  "C_cx_BrainpoolP256r1_b =
    [0x26, 0xdc, 0x5c, 0x6c, 0xe9, 0x4a, 0x4b, 0x44, 0xf3, 0x30, 0xb5, 0xd9, 0xbb, 0xd7, 0x7c,
     0xbf, 0x95, 0x84, 0x16, 0x29, 0x5c, 0xf7, 0xe1, 0xce, 0x6b, 0xcc, 0xdc, 0x18, 0xff, 0x8c,
     0x07, 0xb6]"

definition C_cx_BrainpoolP256r1_p :: bytes where
  "C_cx_BrainpoolP256r1_p =
    [0xa9, 0xfb, 0x57, 0xdb, 0xa1, 0xee, 0xa9, 0xbc, 0x3e, 0x66, 0x0a, 0x90, 0x9d, 0x83, 0x8d,
     0x72, 0x6e, 0x3b, 0xf6, 0x23, 0xd5, 0x26, 0x20, 0x28, 0x20, 0x13, 0x48, 0x1d, 0x1f, 0x6e,
     0x53, 0x77]"

definition C_cx_BrainpoolP256r1_Hp :: bytes where
  "C_cx_BrainpoolP256r1_Hp =
    [0x47, 0x17, 0xaa, 0x21, 0xe5, 0x95, 0x7f, 0xa8, 0xa1, 0xec, 0xda, 0xcd, 0x6b, 0x1a, 0xc8,
     0x07, 0x5c, 0xce, 0x4c, 0x26, 0x61, 0x4d, 0x4f, 0x4d, 0x8c, 0xfe, 0xdf, 0x7b, 0xa6, 0x46,
     0x5b, 0x6c]"

definition C_cx_BrainpoolP256r1_Gx :: bytes where
  "C_cx_BrainpoolP256r1_Gx =
    [0x8b, 0xd2, 0xae, 0xb9, 0xcb, 0x7e, 0x57, 0xcb, 0x2c, 0x4b, 0x48, 0x2f, 0xfc, 0x81, 0xb7,
     0xaf, 0xb9, 0xde, 0x27, 0xe1, 0xe3, 0xbd, 0x23, 0xc2, 0x3a, 0x44, 0x53, 0xbd, 0x9a, 0xce,
     0x32, 0x62]"

definition C_cx_BrainpoolP256r1_Gy :: bytes where
  "C_cx_BrainpoolP256r1_Gy =
    [0x54, 0x7e, 0xf8, 0x35, 0xc3, 0xda, 0xc4, 0xfd, 0x97, 0xf8, 0x46, 0x1a, 0x14, 0x61, 0x1d,
     0xc9, 0xc2, 0x77, 0x45, 0x13, 0x2d, 0xed, 0x8e, 0x54, 0x5c, 0x1d, 0x54, 0xc7, 0x2f, 0x04,
     0x69, 0x97]"

definition C_cx_BrainpoolP256r1_n :: bytes where
  "C_cx_BrainpoolP256r1_n =
    [0xa9, 0xfb, 0x57, 0xdb, 0xa1, 0xee, 0xa9, 0xbc, 0x3e, 0x66, 0x0a, 0x90, 0x9d, 0x83, 0x8d,
     0x71, 0x8c, 0x39, 0x7a, 0xa3, 0xb5, 0x61, 0xa6, 0xf7, 0x90, 0x1e, 0x0e, 0x82, 0x97, 0x48,
     0x56, 0xa7]"

definition C_cx_BrainpoolP256r1_Hn :: bytes where
  "C_cx_BrainpoolP256r1_Hn =
    [0x0b, 0x25, 0xf1, 0xb9, 0xc3, 0x23, 0x67, 0x62, 0x9b, 0x7f, 0x25, 0xe7, 0x6c, 0x81, 0x5c,
     0xb0, 0xf3, 0x5d, 0x17, 0x6a, 0x11, 0x34, 0xe4, 0xa0, 0xe1, 0xd8, 0xd8, 0xde, 0x33, 0x12,
     0xfc, 0xa6]"

definition C_cx_BrainpoolP256r1 :: cx_curve_domain where
  "C_cx_BrainpoolP256r1 = \<lparr>dom_curve = CX_CURVE_BrainPoolP256R1, dom_bit_size = 256, dom_length = 32,
     dom_a = C_cx_BrainpoolP256r1_a, dom_b = C_cx_BrainpoolP256r1_b, dom_p = C_cx_BrainpoolP256r1_p,
     dom_Gx = C_cx_BrainpoolP256r1_Gx, dom_Gy = C_cx_BrainpoolP256r1_Gy, dom_n = C_cx_BrainpoolP256r1_n,
     dom_h = C_cofactor_1, dom_Hn = C_cx_BrainpoolP256r1_Hn, dom_Hp = C_cx_BrainpoolP256r1_Hp\<rparr>"

subsection \<open>BrainpoolP256t1\<close>

definition C_cx_BrainpoolP256t1_a :: bytes where
  "C_cx_BrainpoolP256t1_a =
    [0xa9, 0xfb, 0x57, 0xdb, 0xa1, 0xee, 0xa9, 0xbc, 0x3e, 0x66, 0x0a, 0x90, 0x9d, 0x83, 0x8d,
     0x72, 0x6e, 0x3b, 0xf6, 0x23, 0xd5, 0x26, 0x20, 0x28, 0x20, 0x13, 0x48, 0x1d, 0x1f, 0x6e,
     0x53, 0x74]"

definition C_cx_BrainpoolP256t1_b :: bytes where
  "C_cx_BrainpoolP256t1_b =
    [0x66, 0x2c, 0x61, 0xc4, 0x30, 0xd8, 0x4e, 0xa4, 0xfe, 0x66, 0xa7, 0x73, 0x3d, 0x0b, 0x76,
     0xb7, 0xbf, 0x93, 0xeb, 0xc4, 0xaf, 0x2f, 0x49, 0x25, 0x6a, 0xe5, 0x81, 0x01, 0xfe, 0xe9,
     0x2b, 0x04]"

definition C_cx_BrainpoolP256t1_p :: bytes where
  "C_cx_BrainpoolP256t1_p =
    [0xa9, 0xfb, 0x57, 0xdb, 0xa1, 0xee, 0xa9, 0xbc, 0x3e, 0x66, 0x0a, 0x90, 0x9d, 0x83, 0x8d,
     0x72, 0x6e, 0x3b, 0xf6, 0x23, 0xd5, 0x26, 0x20, 0x28, 0x20, 0x13, 0x48, 0x1d, 0x1f, 0x6e,
     0x53, 0x77]"

definition C_cx_BrainpoolP256t1_Hp :: bytes where
  "C_cx_BrainpoolP256t1_Hp =
    [0x47, 0x17, 0xaa, 0x21, 0xe5, 0x95, 0x7f, 0xa8, 0xa1, 0xec, 0xda, 0xcd, 0x6b, 0x1a, 0xc8,
     0x07, 0x5c, 0xce, 0x4c, 0x26, 0x61, 0x4d, 0x4f, 0x4d, 0x8c, 0xfe, 0xdf, 0x7b, 0xa6, 0x46,
     0x5b, 0x6c]"

definition C_cx_BrainpoolP256t1_Gx :: bytes where
  "C_cx_BrainpoolP256t1_Gx =
    [0xa3, 0xe8, 0xeb, 0x3c, 0xc1, 0xcf, 0xe7, 0xb7, 0x73, 0x22, 0x13, 0xb2, 0x3a, 0x65, 0x61,
     0x49, 0xaf, 0xa1, 0x42, 0xc4, 0x7a, 0xaf, 0xbc, 0x2b, 0x79, 0xa1, 0x91, 0x56, 0x2e, 0x13,
     0x05, 0xf4]"

definition C_cx_BrainpoolP256t1_Gy :: bytes where
  "C_cx_BrainpoolP256t1_Gy =
    [0x2d, 0x99, 0x6c, 0x82, 0x34, 0x39, 0xc5, 0x6d, 0x7f, 0x7b, 0x22, 0xe1, 0x46, 0x44, 0x41,
     0x7e, 0x69, 0xbc, 0xb6, 0xde, 0x39, 0xd0, 0x27, 0x00, 0x1d, 0xab, 0xe8, 0xf3, 0x5b, 0x25,
     0xc9, 0xbe]"

definition C_cx_BrainpoolP256t1_n :: bytes where
  "C_cx_BrainpoolP256t1_n =
    [0xa9, 0xfb, 0x57, 0xdb, 0xa1, 0xee, 0xa9, 0xbc, 0x3e, 0x66, 0x0a, 0x90, 0x9d, 0x83, 0x8d,
     0x71, 0x8c, 0x39, 0x7a, 0xa3, 0xb5, 0x61, 0xa6, 0xf7, 0x90, 0x1e, 0x0e, 0x82, 0x97, 0x48,
     0x56, 0xa7]"

definition C_cx_BrainpoolP256t1_Hn :: bytes where
  "C_cx_BrainpoolP256t1_Hn =
    [0x0b, 0x25, 0xf1, 0xb9, 0xc3, 0x23, 0x67, 0x62, 0x9b, 0x7f, 0x25, 0xe7, 0x6c, 0x81, 0x5c,
     0xb0, 0xf3, 0x5d, 0x17, 0x6a, 0x11, 0x34, 0xe4, 0xa0, 0xe1, 0xd8, 0xd8, 0xde, 0x33, 0x12,
     0xfc, 0xa6]"

definition C_cx_BrainpoolP256t1 :: cx_curve_domain where
  "C_cx_BrainpoolP256t1 = \<lparr>dom_curve = CX_CURVE_BrainPoolP256T1, dom_bit_size = 256, dom_length = 32,
     dom_a = C_cx_BrainpoolP256t1_a, dom_b = C_cx_BrainpoolP256t1_b, dom_p = C_cx_BrainpoolP256t1_p,
     dom_Gx = C_cx_BrainpoolP256t1_Gx, dom_Gy = C_cx_BrainpoolP256t1_Gy, dom_n = C_cx_BrainpoolP256t1_n,
     dom_h = C_cofactor_1, dom_Hn = C_cx_BrainpoolP256t1_Hn, dom_Hp = C_cx_BrainpoolP256t1_Hp\<rparr>"

subsection \<open>BrainpoolP320r1\<close>

definition C_cx_BrainpoolP320r1_a :: bytes where
  "C_cx_BrainpoolP320r1_a =
    [0x3e, 0xe3, 0x0b, 0x56, 0x8f, 0xba, 0xb0, 0xf8, 0x83, 0xcc, 0xeb, 0xd4, 0x6d, 0x3f, 0x3b,
     0xb8, 0xa2, 0xa7, 0x35, 0x13, 0xf5, 0xeb, 0x79, 0xda, 0x66, 0x19, 0x0e, 0xb0, 0x85, 0xff,
     0xa9, 0xf4, 0x92, 0xf3, 0x75, 0xa9, 0x7d, 0x86, 0x0e, 0xb4]"

definition C_cx_BrainpoolP320r1_b :: bytes where
  "C_cx_BrainpoolP320r1_b =
    [0x52, 0x08, 0x83, 0x94, 0x9d, 0xfd, 0xbc, 0x42, 0xd3, 0xad, 0x19, 0x86, 0x40, 0x68, 0x8a,
     0x6f, 0xe1, 0x3f, 0x41, 0x34, 0x95, 0x54, 0xb4, 0x9a, 0xcc, 0x31, 0xdc, 0xcd, 0x88, 0x45,
     0x39, 0x81, 0x6f, 0x5e, 0xb4, 0xac, 0x8f, 0xb1, 0xf1, 0xa6]"

definition C_cx_BrainpoolP320r1_p :: bytes where
  "C_cx_BrainpoolP320r1_p =
    [0xd3, 0x5e, 0x47, 0x20, 0x36, 0xbc, 0x4f, 0xb7, 0xe1, 0x3c, 0x78, 0x5e, 0xd2, 0x01, 0xe0,
     0x65, 0xf9, 0x8f, 0xcf, 0xa6, 0xf6, 0xf4, 0x0d, 0xef, 0x4f, 0x92, 0xb9, 0xec, 0x78, 0x93,
     0xec, 0x28, 0xfc, 0xd4, 0x12, 0xb1, 0xf1, 0xb3, 0x2e, 0x27]"

definition C_cx_BrainpoolP320r1_Hp :: bytes where
  "C_cx_BrainpoolP320r1_Hp =
    [0x40, 0x3a, 0x05, 0x6e, 0x97, 0xa2, 0xc0, 0x9c, 0xdb, 0xc2, 0x1a, 0x81, 0x77, 0x27, 0xa6,
     0xd4, 0xc5, 0x3a, 0xa9, 0x67, 0x5c, 0x40, 0x00, 0xf4, 0x10, 0x26, 0x0b, 0x24, 0xef, 0x82,
     0x14, 0x48, 0xb4, 0xe0, 0x40, 0x50, 0xad, 0x8b, 0x40, 0x0d]"

definition C_cx_BrainpoolP320r1_Gx :: bytes where
  "C_cx_BrainpoolP320r1_Gx =
    [0x43, 0xbd, 0x7e, 0x9a, 0xfb, 0x53, 0xd8, 0xb8, 0x52, 0x89, 0xbc, 0xc4, 0x8e, 0xe5, 0xbf,
     0xe6, 0xf2, 0x01, 0x37, 0xd1, 0x0a, 0x08, 0x7e, 0xb6, 0xe7, 0x87, 0x1e, 0x2a, 0x10, 0xa5,
     0x99, 0xc7, 0x10, 0xaf, 0x8d, 0x0d, 0x39, 0xe2, 0x06, 0x11]"

definition C_cx_BrainpoolP320r1_Gy :: bytes where
  "C_cx_BrainpoolP320r1_Gy =
    [0x14, 0xfd, 0xd0, 0x55, 0x45, 0xec, 0x1c, 0xc8, 0xab, 0x40, 0x93, 0x24, 0x7f, 0x77, 0x27,
     0x5e, 0x07, 0x43, 0xff, 0xed, 0x11, 0x71, 0x82, 0xea, 0xa9, 0xc7, 0x78, 0x77, 0xaa, 0xac,
     0x6a, 0xc7, 0xd3, 0x52, 0x45, 0xd1, 0x69, 0x2e, 0x8e, 0xe1]"

definition C_cx_BrainpoolP320r1_n :: bytes where
  "C_cx_BrainpoolP320r1_n =
    [0xd3, 0x5e, 0x47, 0x20, 0x36, 0xbc, 0x4f, 0xb7, 0xe1, 0x3c, 0x78, 0x5e, 0xd2, 0x01, 0xe0,
     0x65, 0xf9, 0x8f, 0xcf, 0xa5, 0xb6, 0x8f, 0x12, 0xa3, 0x2d, 0x48, 0x2e, 0xc7, 0xee, 0x86,
     0x58, 0xe9, 0x86, 0x91, 0x55, 0x5b, 0x44, 0xc5, 0x93, 0x11]"

definition C_cx_BrainpoolP320r1_Hn :: bytes where
  "C_cx_BrainpoolP320r1_Hn =
    [0xa7, 0x0d, 0x3d, 0xb6, 0xd2, 0x66, 0x8a, 0x95, 0x3b, 0x53, 0x96, 0xfe, 0xb0, 0x0b, 0x95,
     0x14, 0x07, 0xad, 0x16, 0x66, 0x45, 0x8b, 0xcc, 0x15, 0xdd, 0x86, 0x02, 0x95, 0xe4, 0xa3,
     0xf1, 0xa0, 0xb9, 0xb6, 0xac, 0x1d, 0x66, 0x16, 0x3f, 0x17]"

definition C_cx_BrainpoolP320r1 :: cx_curve_domain where
  "C_cx_BrainpoolP320r1 = \<lparr>dom_curve = CX_CURVE_BrainPoolP320R1, dom_bit_size = 320, dom_length = 40,
     dom_a = C_cx_BrainpoolP320r1_a, dom_b = C_cx_BrainpoolP320r1_b, dom_p = C_cx_BrainpoolP320r1_p,
     dom_Gx = C_cx_BrainpoolP320r1_Gx, dom_Gy = C_cx_BrainpoolP320r1_Gy, dom_n = C_cx_BrainpoolP320r1_n,
     dom_h = C_cofactor_1, dom_Hn = C_cx_BrainpoolP320r1_Hn, dom_Hp = C_cx_BrainpoolP320r1_Hp\<rparr>"

subsection \<open>BrainpoolP320t1\<close>

definition C_cx_BrainpoolP320t1_a :: bytes where
  "C_cx_BrainpoolP320t1_a =
    [0xd3, 0x5e, 0x47, 0x20, 0x36, 0xbc, 0x4f, 0xb7, 0xe1, 0x3c, 0x78, 0x5e, 0xd2, 0x01, 0xe0,
     0x65, 0xf9, 0x8f, 0xcf, 0xa6, 0xf6, 0xf4, 0x0d, 0xef, 0x4f, 0x92, 0xb9, 0xec, 0x78, 0x93,
     0xec, 0x28, 0xfc, 0xd4, 0x12, 0xb1, 0xf1, 0xb3, 0x2e, 0x24]"

definition C_cx_BrainpoolP320t1_b :: bytes where
  "C_cx_BrainpoolP320t1_b =
    [0xa7, 0xf5, 0x61, 0xe0, 0x38, 0xeb, 0x1e, 0xd5, 0x60, 0xb3, 0xd1, 0x47, 0xdb, 0x78, 0x20,
     0x13, 0x06, 0x4c, 0x19, 0xf2, 0x7e, 0xd2, 0x7c, 0x67, 0x80, 0xaa, 0xf7, 0x7f, 0xb8, 0xa5,
     0x47, 0xce, 0xb5, 0xb4, 0xfe, 0xf4, 0x22, 0x34, 0x03, 0x53]"

definition C_cx_BrainpoolP320t1_p :: bytes where
  "C_cx_BrainpoolP320t1_p =
    [0xd3, 0x5e, 0x47, 0x20, 0x36, 0xbc, 0x4f, 0xb7, 0xe1, 0x3c, 0x78, 0x5e, 0xd2, 0x01, 0xe0,
     0x65, 0xf9, 0x8f, 0xcf, 0xa6, 0xf6, 0xf4, 0x0d, 0xef, 0x4f, 0x92, 0xb9, 0xec, 0x78, 0x93,
     0xec, 0x28, 0xfc, 0xd4, 0x12, 0xb1, 0xf1, 0xb3, 0x2e, 0x27]"

definition C_cx_BrainpoolP320t1_Hp :: bytes where
  "C_cx_BrainpoolP320t1_Hp =
    [0x40, 0x3a, 0x05, 0x6e, 0x97, 0xa2, 0xc0, 0x9c, 0xdb, 0xc2, 0x1a, 0x81, 0x77, 0x27, 0xa6,
     0xd4, 0xc5, 0x3a, 0xa9, 0x67, 0x5c, 0x40, 0x00, 0xf4, 0x10, 0x26, 0x0b, 0x24, 0xef, 0x82,
     0x14, 0x48, 0xb4, 0xe0, 0x40, 0x50, 0xad, 0x8b, 0x40, 0x0d]"

definition C_cx_BrainpoolP320t1_Gx :: bytes where
  "C_cx_BrainpoolP320t1_Gx =
    [0x92, 0x5b, 0xe9, 0xfb, 0x01, 0xaf, 0xc6, 0xfb, 0x4d, 0x3e, 0x7d, 0x49, 0x90, 0x01, 0x0f,
     0x81, 0x34, 0x08, 0xab, 0x10, 0x6c, 0x4f, 0x09, 0xcb, 0x7e, 0xe0, 0x78, 0x68, 0xcc, 0x13,
     0x6f, 0xff, 0x33, 0x57, 0xf6, 0x24, 0xa2, 0x1b, 0xed, 0x52]"

definition C_cx_BrainpoolP320t1_Gy :: bytes where
  "C_cx_BrainpoolP320t1_Gy =
    [0x63, 0xba, 0x3a, 0x7a, 0x27, 0x48, 0x3e, 0xbf, 0x66, 0x71, 0xdb, 0xef, 0x7a, 0xbb, 0x30,
     0xeb, 0xee, 0x08, 0x4e, 0x58, 0xa0, 0xb0, 0x77, 0xad, 0x42, 0xa5, 0xa0, 0x98, 0x9d, 0x1e,
     0xe7, 0x1b, 0x1b, 0x9b, 0xc0, 0x45, 0x5f, 0xb0, 0xd2, 0xc3]"

definition C_cx_BrainpoolP320t1_n :: bytes where
  "C_cx_BrainpoolP320t1_n =
    [0xd3, 0x5e, 0x47, 0x20, 0x36, 0xbc, 0x4f, 0xb7, 0xe1, 0x3c, 0x78, 0x5e, 0xd2, 0x01, 0xe0,
     0x65, 0xf9, 0x8f, 0xcf, 0xa5, 0xb6, 0x8f, 0x12, 0xa3, 0x2d, 0x48, 0x2e, 0xc7, 0xee, 0x86,
     0x58, 0xe9, 0x86, 0x91, 0x55, 0x5b, 0x44, 0xc5, 0x93, 0x11]"

definition C_cx_BrainpoolP320t1_Hn :: bytes where
  "C_cx_BrainpoolP320t1_Hn =
    [0xa7, 0x0d, 0x3d, 0xb6, 0xd2, 0x66, 0x8a, 0x95, 0x3b, 0x53, 0x96, 0xfe, 0xb0, 0x0b, 0x95,
     0x14, 0x07, 0xad, 0x16, 0x66, 0x45, 0x8b, 0xcc, 0x15, 0xdd, 0x86, 0x02, 0x95, 0xe4, 0xa3,
     0xf1, 0xa0, 0xb9, 0xb6, 0xac, 0x1d, 0x66, 0x16, 0x3f, 0x17]"

definition C_cx_BrainpoolP320t1 :: cx_curve_domain where
  "C_cx_BrainpoolP320t1 = \<lparr>dom_curve = CX_CURVE_BrainPoolP320T1, dom_bit_size = 320, dom_length = 40,
     dom_a = C_cx_BrainpoolP320t1_a, dom_b = C_cx_BrainpoolP320t1_b, dom_p = C_cx_BrainpoolP320t1_p,
     dom_Gx = C_cx_BrainpoolP320t1_Gx, dom_Gy = C_cx_BrainpoolP320t1_Gy, dom_n = C_cx_BrainpoolP320t1_n,
     dom_h = C_cofactor_1, dom_Hn = C_cx_BrainpoolP320t1_Hn, dom_Hp = C_cx_BrainpoolP320t1_Hp\<rparr>"

subsection \<open>BrainpoolP384r1\<close>

definition C_cx_BrainpoolP384r1_a :: bytes where
  "C_cx_BrainpoolP384r1_a =
    [0x7b, 0xc3, 0x82, 0xc6, 0x3d, 0x8c, 0x15, 0x0c, 0x3c, 0x72, 0x08, 0x0a, 0xce, 0x05, 0xaf,
     0xa0, 0xc2, 0xbe, 0xa2, 0x8e, 0x4f, 0xb2, 0x27, 0x87, 0x13, 0x91, 0x65, 0xef, 0xba, 0x91,
     0xf9, 0x0f, 0x8a, 0xa5, 0x81, 0x4a, 0x50, 0x3a, 0xd4, 0xeb, 0x04, 0xa8, 0xc7, 0xdd, 0x22,
     0xce, 0x28, 0x26]"

definition C_cx_BrainpoolP384r1_b :: bytes where
  "C_cx_BrainpoolP384r1_b =
    [0x04, 0xa8, 0xc7, 0xdd, 0x22, 0xce, 0x28, 0x26, 0x8b, 0x39, 0xb5, 0x54, 0x16, 0xf0, 0x44,
     0x7c, 0x2f, 0xb7, 0x7d, 0xe1, 0x07, 0xdc, 0xd2, 0xa6, 0x2e, 0x88, 0x0e, 0xa5, 0x3e, 0xeb,
     0x62, 0xd5, 0x7c, 0xb4, 0x39, 0x02, 0x95, 0xdb, 0xc9, 0x94, 0x3a, 0xb7, 0x86, 0x96, 0xfa,
     0x50, 0x4c, 0x11]"

definition C_cx_BrainpoolP384r1_p :: bytes where
  "C_cx_BrainpoolP384r1_p =
    [0x8c, 0xb9, 0x1e, 0x82, 0xa3, 0x38, 0x6d, 0x28, 0x0f, 0x5d, 0x6f, 0x7e, 0x50, 0xe6, 0x41,
     0xdf, 0x15, 0x2f, 0x71, 0x09, 0xed, 0x54, 0x56, 0xb4, 0x12, 0xb1, 0xda, 0x19, 0x7f, 0xb7,
     0x11, 0x23, 0xac, 0xd3, 0xa7, 0x29, 0x90, 0x1d, 0x1a, 0x71, 0x87, 0x47, 0x00, 0x13, 0x31,
     0x07, 0xec, 0x53]"

definition C_cx_BrainpoolP384r1_Hp :: bytes where
  "C_cx_BrainpoolP384r1_Hp =
    [0x36, 0xbf, 0x68, 0x83, 0x17, 0x8d, 0xf8, 0x42, 0xd5, 0xc6, 0xef, 0x3b, 0xa5, 0x7e, 0x05,
     0x2c, 0x62, 0x14, 0x01, 0x91, 0x99, 0x18, 0xd5, 0xaf, 0x8e, 0x28, 0xf9, 0x9c, 0xc9, 0x94,
     0x08, 0x99, 0x53, 0x52, 0x83, 0x34, 0x3d, 0x7f, 0xd9, 0x65, 0x08, 0x7c, 0xef, 0xff, 0x40,
     0xb6, 0x4b, 0xde]"

definition C_cx_BrainpoolP384r1_Gx :: bytes where
  "C_cx_BrainpoolP384r1_Gx =
    [0x1d, 0x1c, 0x64, 0xf0, 0x68, 0xcf, 0x45, 0xff, 0xa2, 0xa6, 0x3a, 0x81, 0xb7, 0xc1, 0x3f,
     0x6b, 0x88, 0x47, 0xa3, 0xe7, 0x7e, 0xf1, 0x4f, 0xe3, 0xdb, 0x7f, 0xca, 0xfe, 0x0c, 0xbd,
     0x10, 0xe8, 0xe8, 0x26, 0xe0, 0x34, 0x36, 0xd6, 0x46, 0xaa, 0xef, 0x87, 0xb2, 0xe2, 0x47,
     0xd4, 0xaf, 0x1e]"

definition C_cx_BrainpoolP384r1_Gy :: bytes where
  "C_cx_BrainpoolP384r1_Gy =
    [0x8a, 0xbe, 0x1d, 0x75, 0x20, 0xf9, 0xc2, 0xa4, 0x5c, 0xb1, 0xeb, 0x8e, 0x95, 0xcf, 0xd5,
     0x52, 0x62, 0xb7, 0x0b, 0x29, 0xfe, 0xec, 0x58, 0x64, 0xe1, 0x9c, 0x05, 0x4f, 0xf9, 0x91,
     0x29, 0x28, 0x0e, 0x46, 0x46, 0x21, 0x77, 0x91, 0x81, 0x11, 0x42, 0x82, 0x03, 0x41, 0x26,
     0x3c, 0x53, 0x15]"

definition C_cx_BrainpoolP384r1_n :: bytes where
  "C_cx_BrainpoolP384r1_n =
    [0x8c, 0xb9, 0x1e, 0x82, 0xa3, 0x38, 0x6d, 0x28, 0x0f, 0x5d, 0x6f, 0x7e, 0x50, 0xe6, 0x41,
     0xdf, 0x15, 0x2f, 0x71, 0x09, 0xed, 0x54, 0x56, 0xb3, 0x1f, 0x16, 0x6e, 0x6c, 0xac, 0x04,
     0x25, 0xa7, 0xcf, 0x3a, 0xb6, 0xaf, 0x6b, 0x7f, 0xc3, 0x10, 0x3b, 0x88, 0x32, 0x02, 0xe9,
     0x04, 0x65, 0x65]"

definition C_cx_BrainpoolP384r1_Hn :: bytes where
  "C_cx_BrainpoolP384r1_Hn =
    [0x0c, 0xe8, 0x94, 0x1a, 0x61, 0x4e, 0x97, 0xc2, 0x8f, 0x88, 0x6d, 0xc9, 0x65, 0x16, 0x5f,
     0xdb, 0x57, 0x4a, 0x74, 0xcb, 0x52, 0xd7, 0x48, 0xff, 0x2a, 0x92, 0x7e, 0x3b, 0x98, 0x02,
     0x68, 0x8a, 0x37, 0x26, 0x4e, 0x20, 0x2f, 0x2b, 0x6b, 0x6e, 0xac, 0x4e, 0xd3, 0xa2, 0xde,
     0x77, 0x1c, 0x8e]"

definition C_cx_BrainpoolP384r1 :: cx_curve_domain where
  "C_cx_BrainpoolP384r1 = \<lparr>dom_curve = CX_CURVE_BrainPoolP384R1, dom_bit_size = 384, dom_length = 48,
     dom_a = C_cx_BrainpoolP384r1_a, dom_b = C_cx_BrainpoolP384r1_b, dom_p = C_cx_BrainpoolP384r1_p,
     dom_Gx = C_cx_BrainpoolP384r1_Gx, dom_Gy = C_cx_BrainpoolP384r1_Gy, dom_n = C_cx_BrainpoolP384r1_n,
     dom_h = C_cofactor_1, dom_Hn = C_cx_BrainpoolP384r1_Hn, dom_Hp = C_cx_BrainpoolP384r1_Hp\<rparr>"

subsection \<open>BrainpoolP384t1\<close>

definition C_cx_BrainpoolP384t1_a :: bytes where
  "C_cx_BrainpoolP384t1_a =
    [0x8c, 0xb9, 0x1e, 0x82, 0xa3, 0x38, 0x6d, 0x28, 0x0f, 0x5d, 0x6f, 0x7e, 0x50, 0xe6, 0x41,
     0xdf, 0x15, 0x2f, 0x71, 0x09, 0xed, 0x54, 0x56, 0xb4, 0x12, 0xb1, 0xda, 0x19, 0x7f, 0xb7,
     0x11, 0x23, 0xac, 0xd3, 0xa7, 0x29, 0x90, 0x1d, 0x1a, 0x71, 0x87, 0x47, 0x00, 0x13, 0x31,
     0x07, 0xec, 0x50]"

definition C_cx_BrainpoolP384t1_b :: bytes where
  "C_cx_BrainpoolP384t1_b =
    [0x7f, 0x51, 0x9e, 0xad, 0xa7, 0xbd, 0xa8, 0x1b, 0xd8, 0x26, 0xdb, 0xa6, 0x47, 0x91, 0x0f,
     0x8c, 0x4b, 0x93, 0x46, 0xed, 0x8c, 0xcd, 0xc6, 0x4e, 0x4b, 0x1a, 0xbd, 0x11, 0x75, 0x6d,
     0xce, 0x1d, 0x20, 0x74, 0xaa, 0x26, 0x3b, 0x88, 0x80, 0x5c, 0xed, 0x70, 0x35, 0x5a, 0x33,
     0xb4, 0x71, 0xee]"

definition C_cx_BrainpoolP384t1_p :: bytes where
  "C_cx_BrainpoolP384t1_p =
    [0x8c, 0xb9, 0x1e, 0x82, 0xa3, 0x38, 0x6d, 0x28, 0x0f, 0x5d, 0x6f, 0x7e, 0x50, 0xe6, 0x41,
     0xdf, 0x15, 0x2f, 0x71, 0x09, 0xed, 0x54, 0x56, 0xb4, 0x12, 0xb1, 0xda, 0x19, 0x7f, 0xb7,
     0x11, 0x23, 0xac, 0xd3, 0xa7, 0x29, 0x90, 0x1d, 0x1a, 0x71, 0x87, 0x47, 0x00, 0x13, 0x31,
     0x07, 0xec, 0x53]"

definition C_cx_BrainpoolP384t1_Hp :: bytes where
  "C_cx_BrainpoolP384t1_Hp =
    [0x36, 0xbf, 0x68, 0x83, 0x17, 0x8d, 0xf8, 0x42, 0xd5, 0xc6, 0xef, 0x3b, 0xa5, 0x7e, 0x05,
     0x2c, 0x62, 0x14, 0x01, 0x91, 0x99, 0x18, 0xd5, 0xaf, 0x8e, 0x28, 0xf9, 0x9c, 0xc9, 0x94,
     0x08, 0x99, 0x53, 0x52, 0x83, 0x34, 0x3d, 0x7f, 0xd9, 0x65, 0x08, 0x7c, 0xef, 0xff, 0x40,
     0xb6, 0x4b, 0xde]"

definition C_cx_BrainpoolP384t1_Gx :: bytes where
  "C_cx_BrainpoolP384t1_Gx =
    [0x18, 0xde, 0x98, 0xb0, 0x2d, 0xb9, 0xa3, 0x06, 0xf2, 0xaf, 0xcd, 0x72, 0x35, 0xf7, 0x2a,
     0x81, 0x9b, 0x80, 0xab, 0x12, 0xeb, 0xd6, 0x53, 0x17, 0x24, 0x76, 0xfe, 0xcd, 0x46, 0x2a,
     0xab, 0xff, 0xc4, 0xff, 0x19, 0x1b, 0x94, 0x6a, 0x5f, 0x54, 0xd8, 0xd0, 0xaa, 0x2f, 0x41,
     0x88, 0x08, 0xcc]"

definition C_cx_BrainpoolP384t1_Gy :: bytes where
  "C_cx_BrainpoolP384t1_Gy =
    [0x25, 0xab, 0x05, 0x69, 0x62, 0xd3, 0x06, 0x51, 0xa1, 0x14, 0xaf, 0xd2, 0x75, 0x5a, 0xd3,
     0x36, 0x74, 0x7f, 0x93, 0x47, 0x5b, 0x7a, 0x1f, 0xca, 0x3b, 0x88, 0xf2, 0xb6, 0xa2, 0x08,
     0xcc, 0xfe, 0x46, 0x94, 0x08, 0x58, 0x4d, 0xc2, 0xb2, 0x91, 0x26, 0x75, 0xbf, 0x5b, 0x9e,
     0x58, 0x29, 0x28]"

definition C_cx_BrainpoolP384t1_n :: bytes where
  "C_cx_BrainpoolP384t1_n =
    [0x8c, 0xb9, 0x1e, 0x82, 0xa3, 0x38, 0x6d, 0x28, 0x0f, 0x5d, 0x6f, 0x7e, 0x50, 0xe6, 0x41,
     0xdf, 0x15, 0x2f, 0x71, 0x09, 0xed, 0x54, 0x56, 0xb3, 0x1f, 0x16, 0x6e, 0x6c, 0xac, 0x04,
     0x25, 0xa7, 0xcf, 0x3a, 0xb6, 0xaf, 0x6b, 0x7f, 0xc3, 0x10, 0x3b, 0x88, 0x32, 0x02, 0xe9,
     0x04, 0x65, 0x65]"

definition C_cx_BrainpoolP384t1_Hn :: bytes where
  "C_cx_BrainpoolP384t1_Hn =
    [0x0c, 0xe8, 0x94, 0x1a, 0x61, 0x4e, 0x97, 0xc2, 0x8f, 0x88, 0x6d, 0xc9, 0x65, 0x16, 0x5f,
     0xdb, 0x57, 0x4a, 0x74, 0xcb, 0x52, 0xd7, 0x48, 0xff, 0x2a, 0x92, 0x7e, 0x3b, 0x98, 0x02,
     0x68, 0x8a, 0x37, 0x26, 0x4e, 0x20, 0x2f, 0x2b, 0x6b, 0x6e, 0xac, 0x4e, 0xd3, 0xa2, 0xde,
     0x77, 0x1c, 0x8e]"

definition C_cx_BrainpoolP384t1 :: cx_curve_domain where
  "C_cx_BrainpoolP384t1 = \<lparr>dom_curve = CX_CURVE_BrainPoolP384T1, dom_bit_size = 384, dom_length = 48,
     dom_a = C_cx_BrainpoolP384t1_a, dom_b = C_cx_BrainpoolP384t1_b, dom_p = C_cx_BrainpoolP384t1_p,
     dom_Gx = C_cx_BrainpoolP384t1_Gx, dom_Gy = C_cx_BrainpoolP384t1_Gy, dom_n = C_cx_BrainpoolP384t1_n,
     dom_h = C_cofactor_1, dom_Hn = C_cx_BrainpoolP384t1_Hn, dom_Hp = C_cx_BrainpoolP384t1_Hp\<rparr>"

subsection \<open>BrainpoolP512r1\<close>

definition C_cx_BrainpoolP512r1_a :: bytes where
  "C_cx_BrainpoolP512r1_a =
    [0x78, 0x30, 0xa3, 0x31, 0x8b, 0x60, 0x3b, 0x89, 0xe2, 0x32, 0x71, 0x45, 0xac, 0x23, 0x4c,
     0xc5, 0x94, 0xcb, 0xdd, 0x8d, 0x3d, 0xf9, 0x16, 0x10, 0xa8, 0x34, 0x41, 0xca, 0xea, 0x98,
     0x63, 0xbc, 0x2d, 0xed, 0x5d, 0x5a, 0xa8, 0x25, 0x3a, 0xa1, 0x0a, 0x2e, 0xf1, 0xc9, 0x8b,
     0x9a, 0xc8, 0xb5, 0x7f, 0x11, 0x17, 0xa7, 0x2b, 0xf2, 0xc7, 0xb9, 0xe7, 0xc1, 0xac, 0x4d,
     0x77, 0xfc, 0x94, 0xca]"

definition C_cx_BrainpoolP512r1_b :: bytes where
  "C_cx_BrainpoolP512r1_b =
    [0x3d, 0xf9, 0x16, 0x10, 0xa8, 0x34, 0x41, 0xca, 0xea, 0x98, 0x63, 0xbc, 0x2d, 0xed, 0x5d,
     0x5a, 0xa8, 0x25, 0x3a, 0xa1, 0x0a, 0x2e, 0xf1, 0xc9, 0x8b, 0x9a, 0xc8, 0xb5, 0x7f, 0x11,
     0x17, 0xa7, 0x2b, 0xf2, 0xc7, 0xb9, 0xe7, 0xc1, 0xac, 0x4d, 0x77, 0xfc, 0x94, 0xca, 0xdc,
     0x08, 0x3e, 0x67, 0x98, 0x40, 0x50, 0xb7, 0x5e, 0xba, 0xe5, 0xdd, 0x28, 0x09, 0xbd, 0x63,
     0x80, 0x16, 0xf7, 0x23]"

definition C_cx_BrainpoolP512r1_p :: bytes where
  "C_cx_BrainpoolP512r1_p =
    [0xaa, 0xdd, 0x9d, 0xb8, 0xdb, 0xe9, 0xc4, 0x8b, 0x3f, 0xd4, 0xe6, 0xae, 0x33, 0xc9, 0xfc,
     0x07, 0xcb, 0x30, 0x8d, 0xb3, 0xb3, 0xc9, 0xd2, 0x0e, 0xd6, 0x63, 0x9c, 0xca, 0x70, 0x33,
     0x08, 0x71, 0x7d, 0x4d, 0x9b, 0x00, 0x9b, 0xc6, 0x68, 0x42, 0xae, 0xcd, 0xa1, 0x2a, 0xe6,
     0xa3, 0x80, 0xe6, 0x28, 0x81, 0xff, 0x2f, 0x2d, 0x82, 0xc6, 0x85, 0x28, 0xaa, 0x60, 0x56,
     0x58, 0x3a, 0x48, 0xf3]"

definition C_cx_BrainpoolP512r1_Hp :: bytes where
  "C_cx_BrainpoolP512r1_Hp =
    [0x3c, 0x4c, 0x9d, 0x05, 0xa9, 0xff, 0x64, 0x50, 0x20, 0x2e, 0x19, 0x40, 0x20, 0x56, 0xee,
     0xcc, 0xa1, 0x6d, 0xaa, 0x5f, 0xd4, 0x2b, 0xff, 0x83, 0x19, 0x48, 0x6f, 0xd8, 0xd5, 0x89,
     0x80, 0x57, 0xe0, 0xc1, 0x9a, 0x77, 0x83, 0x51, 0x4a, 0x25, 0x53, 0xb7, 0xf9, 0xbc, 0x90,
     0x5a, 0xff, 0xd3, 0x79, 0x3f, 0xb1, 0x30, 0x27, 0x15, 0x79, 0x05, 0x49, 0xad, 0x14, 0x4a,
     0x61, 0x58, 0xf2, 0x05]"

definition C_cx_BrainpoolP512r1_Gx :: bytes where
  "C_cx_BrainpoolP512r1_Gx =
    [0x81, 0xae, 0xe4, 0xbd, 0xd8, 0x2e, 0xd9, 0x64, 0x5a, 0x21, 0x32, 0x2e, 0x9c, 0x4c, 0x6a,
     0x93, 0x85, 0xed, 0x9f, 0x70, 0xb5, 0xd9, 0x16, 0xc1, 0xb4, 0x3b, 0x62, 0xee, 0xf4, 0xd0,
     0x09, 0x8e, 0xff, 0x3b, 0x1f, 0x78, 0xe2, 0xd0, 0xd4, 0x8d, 0x50, 0xd1, 0x68, 0x7b, 0x93,
     0xb9, 0x7d, 0x5f, 0x7c, 0x6d, 0x50, 0x47, 0x40, 0x6a, 0x5e, 0x68, 0x8b, 0x35, 0x22, 0x09,
     0xbc, 0xb9, 0xf8, 0x22]"

definition C_cx_BrainpoolP512r1_Gy :: bytes where
  "C_cx_BrainpoolP512r1_Gy =
    [0x7d, 0xde, 0x38, 0x5d, 0x56, 0x63, 0x32, 0xec, 0xc0, 0xea, 0xbf, 0xa9, 0xcf, 0x78, 0x22,
     0xfd, 0xf2, 0x09, 0xf7, 0x00, 0x24, 0xa5, 0x7b, 0x1a, 0xa0, 0x00, 0xc5, 0x5b, 0x88, 0x1f,
     0x81, 0x11, 0xb2, 0xdc, 0xde, 0x49, 0x4a, 0x5f, 0x48, 0x5e, 0x5b, 0xca, 0x4b, 0xd8, 0x8a,
     0x27, 0x63, 0xae, 0xd1, 0xca, 0x2b, 0x2f, 0xa8, 0xf0, 0x54, 0x06, 0x78, 0xcd, 0x1e, 0x0f,
     0x3a, 0xd8, 0x08, 0x92]"

definition C_cx_BrainpoolP512r1_n :: bytes where
  "C_cx_BrainpoolP512r1_n =
    [0xaa, 0xdd, 0x9d, 0xb8, 0xdb, 0xe9, 0xc4, 0x8b, 0x3f, 0xd4, 0xe6, 0xae, 0x33, 0xc9, 0xfc,
     0x07, 0xcb, 0x30, 0x8d, 0xb3, 0xb3, 0xc9, 0xd2, 0x0e, 0xd6, 0x63, 0x9c, 0xca, 0x70, 0x33,
     0x08, 0x70, 0x55, 0x3e, 0x5c, 0x41, 0x4c, 0xa9, 0x26, 0x19, 0x41, 0x86, 0x61, 0x19, 0x7f,
     0xac, 0x10, 0x47, 0x1d, 0xb1, 0xd3, 0x81, 0x08, 0x5d, 0xda, 0xdd, 0xb5, 0x87, 0x96, 0x82,
     0x9c, 0xa9, 0x00, 0x69]"

definition C_cx_BrainpoolP512r1_Hn :: bytes where
  "C_cx_BrainpoolP512r1_Hn =
    [0xa7, 0x94, 0x58, 0x6a, 0x71, 0x84, 0x07, 0xb0, 0x95, 0xdf, 0x1b, 0x4c, 0x19, 0x4b, 0x2e,
     0x56, 0x72, 0x3c, 0x37, 0xa2, 0x2f, 0x16, 0xbb, 0xdf, 0xd7, 0xf9, 0xcc, 0x26, 0x3b, 0x79,
     0x0d, 0xe3, 0xa6, 0xf2, 0x30, 0xc7, 0x2f, 0x02, 0x07, 0xe8, 0x3e, 0xc6, 0x4b, 0xd0, 0x33,
     0xb7, 0x62, 0x7f, 0x08, 0x86, 0xb7, 0x58, 0x95, 0x28, 0x3d, 0xdd, 0xd2, 0xa3, 0x68, 0x1e,
     0xcd, 0xa8, 0x16, 0x71]"

definition C_cx_BrainpoolP512r1 :: cx_curve_domain where
  "C_cx_BrainpoolP512r1 = \<lparr>dom_curve = CX_CURVE_BrainPoolP512R1, dom_bit_size = 512, dom_length = 64,
     dom_a = C_cx_BrainpoolP512r1_a, dom_b = C_cx_BrainpoolP512r1_b, dom_p = C_cx_BrainpoolP512r1_p,
     dom_Gx = C_cx_BrainpoolP512r1_Gx, dom_Gy = C_cx_BrainpoolP512r1_Gy, dom_n = C_cx_BrainpoolP512r1_n,
     dom_h = C_cofactor_1, dom_Hn = C_cx_BrainpoolP512r1_Hn, dom_Hp = C_cx_BrainpoolP512r1_Hp\<rparr>"

subsection \<open>BrainpoolP512t1\<close>

definition C_cx_BrainpoolP512t1_a :: bytes where
  "C_cx_BrainpoolP512t1_a =
    [0xaa, 0xdd, 0x9d, 0xb8, 0xdb, 0xe9, 0xc4, 0x8b, 0x3f, 0xd4, 0xe6, 0xae, 0x33, 0xc9, 0xfc,
     0x07, 0xcb, 0x30, 0x8d, 0xb3, 0xb3, 0xc9, 0xd2, 0x0e, 0xd6, 0x63, 0x9c, 0xca, 0x70, 0x33,
     0x08, 0x71, 0x7d, 0x4d, 0x9b, 0x00, 0x9b, 0xc6, 0x68, 0x42, 0xae, 0xcd, 0xa1, 0x2a, 0xe6,
     0xa3, 0x80, 0xe6, 0x28, 0x81, 0xff, 0x2f, 0x2d, 0x82, 0xc6, 0x85, 0x28, 0xaa, 0x60, 0x56,
     0x58, 0x3a, 0x48, 0xf0]"

definition C_cx_BrainpoolP512t1_b :: bytes where
  "C_cx_BrainpoolP512t1_b =
    [0x7c, 0xbb, 0xbc, 0xf9, 0x44, 0x1c, 0xfa, 0xb7, 0x6e, 0x18, 0x90, 0xe4, 0x68, 0x84, 0xea,
     0xe3, 0x21, 0xf7, 0x0c, 0x0b, 0xcb, 0x49, 0x81, 0x52, 0x78, 0x97, 0x50, 0x4b, 0xec, 0x3e,
     0x36, 0xa6, 0x2b, 0xcd, 0xfa, 0x23, 0x04, 0x97, 0x65, 0x40, 0xf6, 0x45, 0x00, 0x85, 0xf2,
     0xda, 0xe1, 0x45, 0xc2, 0x25, 0x53, 0xb4, 0x65, 0x76, 0x36, 0x89, 0x18, 0x0e, 0xa2, 0x57,
     0x18, 0x67, 0x42, 0x3e]"

definition C_cx_BrainpoolP512t1_p :: bytes where
  "C_cx_BrainpoolP512t1_p =
    [0xaa, 0xdd, 0x9d, 0xb8, 0xdb, 0xe9, 0xc4, 0x8b, 0x3f, 0xd4, 0xe6, 0xae, 0x33, 0xc9, 0xfc,
     0x07, 0xcb, 0x30, 0x8d, 0xb3, 0xb3, 0xc9, 0xd2, 0x0e, 0xd6, 0x63, 0x9c, 0xca, 0x70, 0x33,
     0x08, 0x71, 0x7d, 0x4d, 0x9b, 0x00, 0x9b, 0xc6, 0x68, 0x42, 0xae, 0xcd, 0xa1, 0x2a, 0xe6,
     0xa3, 0x80, 0xe6, 0x28, 0x81, 0xff, 0x2f, 0x2d, 0x82, 0xc6, 0x85, 0x28, 0xaa, 0x60, 0x56,
     0x58, 0x3a, 0x48, 0xf3]"

definition C_cx_BrainpoolP512t1_Hp :: bytes where
  "C_cx_BrainpoolP512t1_Hp =
    [0x3c, 0x4c, 0x9d, 0x05, 0xa9, 0xff, 0x64, 0x50, 0x20, 0x2e, 0x19, 0x40, 0x20, 0x56, 0xee,
     0xcc, 0xa1, 0x6d, 0xaa, 0x5f, 0xd4, 0x2b, 0xff, 0x83, 0x19, 0x48, 0x6f, 0xd8, 0xd5, 0x89,
     0x80, 0x57, 0xe0, 0xc1, 0x9a, 0x77, 0x83, 0x51, 0x4a, 0x25, 0x53, 0xb7, 0xf9, 0xbc, 0x90,
     0x5a, 0xff, 0xd3, 0x79, 0x3f, 0xb1, 0x30, 0x27, 0x15, 0x79, 0x05, 0x49, 0xad, 0x14, 0x4a,
     0x61, 0x58, 0xf2, 0x05]"

definition C_cx_BrainpoolP512t1_Gx :: bytes where
  "C_cx_BrainpoolP512t1_Gx =
    [0x64, 0x0e, 0xce, 0x5c, 0x12, 0x78, 0x87, 0x17, 0xb9, 0xc1, 0xba, 0x06, 0xcb, 0xc2, 0xa6,
     0xfe, 0xba, 0x85, 0x84, 0x24, 0x58, 0xc5, 0x6d, 0xde, 0x9d, 0xb1, 0x75, 0x8d, 0x39, 0xc0,
     0x31, 0x3d, 0x82, 0xba, 0x51, 0x73, 0x5c, 0xdb, 0x3e, 0xa4, 0x99, 0xaa, 0x77, 0xa7, 0xd6,
     0x94, 0x3a, 0x64, 0xf7, 0xa3, 0xf2, 0x5f, 0xe2, 0x6f, 0x06, 0xb5, 0x1b, 0xaa, 0x26, 0x96,
     0xfa, 0x90, 0x35, 0xda]"

definition C_cx_BrainpoolP512t1_Gy :: bytes where
  "C_cx_BrainpoolP512t1_Gy =
    [0x5b, 0x53, 0x4b, 0xd5, 0x95, 0xf5, 0xaf, 0x0f, 0xa2, 0xc8, 0x92, 0x37, 0x6c, 0x84, 0xac,
     0xe1, 0xbb, 0x4e, 0x30, 0x19, 0xb7, 0x16, 0x34, 0xc0, 0x11, 0x31, 0x15, 0x9c, 0xae, 0x03,
     0xce, 0xe9, 0xd9, 0x93, 0x21, 0x84, 0xbe, 0xef, 0x21, 0x6b, 0xd7, 0x1d, 0xf2, 0xda, 0xdf,
     0x86, 0xa6, 0x27, 0x30, 0x6e, 0xcf, 0xf9, 0x6d, 0xbb, 0x8b, 0xac, 0xe1, 0x98, 0xb6, 0x1e,
     0x00, 0xf8, 0xb3, 0x32]"

definition C_cx_BrainpoolP512t1_n :: bytes where
  "C_cx_BrainpoolP512t1_n =
    [0xaa, 0xdd, 0x9d, 0xb8, 0xdb, 0xe9, 0xc4, 0x8b, 0x3f, 0xd4, 0xe6, 0xae, 0x33, 0xc9, 0xfc,
     0x07, 0xcb, 0x30, 0x8d, 0xb3, 0xb3, 0xc9, 0xd2, 0x0e, 0xd6, 0x63, 0x9c, 0xca, 0x70, 0x33,
     0x08, 0x70, 0x55, 0x3e, 0x5c, 0x41, 0x4c, 0xa9, 0x26, 0x19, 0x41, 0x86, 0x61, 0x19, 0x7f,
     0xac, 0x10, 0x47, 0x1d, 0xb1, 0xd3, 0x81, 0x08, 0x5d, 0xda, 0xdd, 0xb5, 0x87, 0x96, 0x82,
     0x9c, 0xa9, 0x00, 0x69]"

definition C_cx_BrainpoolP512t1_Hn :: bytes where
  "C_cx_BrainpoolP512t1_Hn =
    [0xa7, 0x94, 0x58, 0x6a, 0x71, 0x84, 0x07, 0xb0, 0x95, 0xdf, 0x1b, 0x4c, 0x19, 0x4b, 0x2e,
     0x56, 0x72, 0x3c, 0x37, 0xa2, 0x2f, 0x16, 0xbb, 0xdf, 0xd7, 0xf9, 0xcc, 0x26, 0x3b, 0x79,
     0x0d, 0xe3, 0xa6, 0xf2, 0x30, 0xc7, 0x2f, 0x02, 0x07, 0xe8, 0x3e, 0xc6, 0x4b, 0xd0, 0x33,
     0xb7, 0x62, 0x7f, 0x08, 0x86, 0xb7, 0x58, 0x95, 0x28, 0x3d, 0xdd, 0xd2, 0xa3, 0x68, 0x1e,
     0xcd, 0xa8, 0x16, 0x71]"

definition C_cx_BrainpoolP512t1 :: cx_curve_domain where
  "C_cx_BrainpoolP512t1 = \<lparr>dom_curve = CX_CURVE_BrainPoolP512T1, dom_bit_size = 512, dom_length = 64,
     dom_a = C_cx_BrainpoolP512t1_a, dom_b = C_cx_BrainpoolP512t1_b, dom_p = C_cx_BrainpoolP512t1_p,
     dom_Gx = C_cx_BrainpoolP512t1_Gx, dom_Gy = C_cx_BrainpoolP512t1_Gy, dom_n = C_cx_BrainpoolP512t1_n,
     dom_h = C_cofactor_1, dom_Hn = C_cx_BrainpoolP512t1_Hn, dom_Hp = C_cx_BrainpoolP512t1_Hp\<rparr>"

subsection \<open>Stark256\<close>

definition C_cx_Stark256_a :: bytes where
  "C_cx_Stark256_a =
    [0x00, 0x00, 0x00, 0x00, 0x00, 0x00, 0x00, 0x00, 0x00, 0x00, 0x00, 0x00, 0x00, 0x00, 0x00,
     0x00, 0x00, 0x00, 0x00, 0x00, 0x00, 0x00, 0x00, 0x00, 0x00, 0x00, 0x00, 0x00, 0x00, 0x00,
     0x00, 0x01]"

definition C_cx_Stark256_b :: bytes where
  "C_cx_Stark256_b =
    [0x06, 0xf2, 0x14, 0x13, 0xef, 0xbe, 0x40, 0xde, 0x15, 0x0e, 0x59, 0x6d, 0x72, 0xf7, 0xa8,
     0xc5, 0x60, 0x9a, 0xd2, 0x6c, 0x15, 0xc9, 0x15, 0xc1, 0xf4, 0xcd, 0xfc, 0xb9, 0x9c, 0xee,
     0x9e, 0x89]"

definition C_cx_Stark256_p :: bytes where
  "C_cx_Stark256_p =
    [0x08, 0x00, 0x00, 0x00, 0x00, 0x00, 0x00, 0x11, 0x00, 0x00, 0x00, 0x00, 0x00, 0x00, 0x00,
     0x00, 0x00, 0x00, 0x00, 0x00, 0x00, 0x00, 0x00, 0x00, 0x00, 0x00, 0x00, 0x00, 0x00, 0x00,
     0x00, 0x01]"

definition C_cx_Stark256_Hp :: bytes where
  "C_cx_Stark256_Hp =
    [0x07, 0xff, 0xd4, 0xab, 0x5e, 0x00, 0x88, 0x10, 0xff, 0xff, 0xff, 0xff, 0xff, 0x6f, 0x80,
     0x00, 0x00, 0x00, 0x00, 0x01, 0x33, 0x0f, 0xff, 0xff, 0xff, 0xff, 0xfd, 0x73, 0x7e, 0x00,
     0x04, 0x01]"

definition C_cx_Stark256_Gx :: bytes where
  "C_cx_Stark256_Gx =
    [0x01, 0xef, 0x15, 0xc1, 0x85, 0x99, 0x97, 0x1b, 0x7b, 0xec, 0xed, 0x41, 0x5a, 0x40, 0xf0,
     0xc7, 0xde, 0xac, 0xfd, 0x9b, 0x0d, 0x18, 0x19, 0xe0, 0x3d, 0x72, 0x3d, 0x8b, 0xc9, 0x43,
     0xcf, 0xca]"

definition C_cx_Stark256_Gy :: bytes where
  "C_cx_Stark256_Gy =
    [0x00, 0x56, 0x68, 0x06, 0x0a, 0xa4, 0x97, 0x30, 0xb7, 0xbe, 0x48, 0x01, 0xdf, 0x46, 0xec,
     0x62, 0xde, 0x53, 0xec, 0xd1, 0x1a, 0xbe, 0x43, 0xa3, 0x28, 0x73, 0x00, 0x0c, 0x36, 0xe8,
     0xdc, 0x1f]"

definition C_cx_Stark256_n :: bytes where
  "C_cx_Stark256_n =
    [0x08, 0x00, 0x00, 0x00, 0x00, 0x00, 0x00, 0x10, 0xff, 0xff, 0xff, 0xff, 0xff, 0xff, 0xff,
     0xff, 0xb7, 0x81, 0x12, 0x6d, 0xca, 0xe7, 0xb2, 0x32, 0x1e, 0x66, 0xa2, 0x41, 0xad, 0xc6,
     0x4d, 0x2f]"

definition C_cx_Stark256_Hn :: bytes where
  "C_cx_Stark256_Hn =
    [0x07, 0xd9, 0xe5, 0x7c, 0x23, 0x33, 0x76, 0x6e, 0xba, 0xf0, 0xab, 0x4c, 0xf7, 0x8b, 0xba,
     0xbb, 0x50, 0x9c, 0xf6, 0x4d, 0x14, 0xce, 0x60, 0xb9, 0x60, 0x21, 0xb3, 0xf1, 0xea, 0x1c,
     0x68, 0x8d]"

definition C_cx_Stark256 :: cx_curve_domain where
  "C_cx_Stark256 = \<lparr>dom_curve = CX_CURVE_Stark256, dom_bit_size = 252, dom_length = 32,
     dom_a = C_cx_Stark256_a, dom_b = C_cx_Stark256_b, dom_p = C_cx_Stark256_p,
     dom_Gx = C_cx_Stark256_Gx, dom_Gy = C_cx_Stark256_Gy, dom_n = C_cx_Stark256_n,
     dom_h = C_cofactor_1, dom_Hn = C_cx_Stark256_Hn, dom_Hp = C_cx_Stark256_Hp\<rparr>"

subsection \<open>BLS12_381_G1\<close>

definition C_cx_BLS12_381_G1_a :: bytes where
  "C_cx_BLS12_381_G1_a =
    [0x00, 0x00, 0x00, 0x00, 0x00, 0x00, 0x00, 0x00, 0x00, 0x00, 0x00, 0x00, 0x00, 0x00, 0x00,
     0x00, 0x00, 0x00, 0x00, 0x00, 0x00, 0x00, 0x00, 0x00, 0x00, 0x00, 0x00, 0x00, 0x00, 0x00,
     0x00, 0x00, 0x00, 0x00, 0x00, 0x00, 0x00, 0x00, 0x00, 0x00, 0x00, 0x00, 0x00, 0x00, 0x00,
     0x00, 0x00, 0x00]"

definition C_cx_BLS12_381_G1_b :: bytes where
  "C_cx_BLS12_381_G1_b =
    [0x00, 0x00, 0x00, 0x00, 0x00, 0x00, 0x00, 0x00, 0x00, 0x00, 0x00, 0x00, 0x00, 0x00, 0x00,
     0x00, 0x00, 0x00, 0x00, 0x00, 0x00, 0x00, 0x00, 0x00, 0x00, 0x00, 0x00, 0x00, 0x00, 0x00,
     0x00, 0x00, 0x00, 0x00, 0x00, 0x00, 0x00, 0x00, 0x00, 0x00, 0x00, 0x00, 0x00, 0x00, 0x00,
     0x00, 0x00, 0x04]"

definition C_cx_BLS12_381_G1_p :: bytes where
  "C_cx_BLS12_381_G1_p =
    [0x1a, 0x01, 0x11, 0xea, 0x39, 0x7f, 0xe6, 0x9a, 0x4b, 0x1b, 0xa7, 0xb6, 0x43, 0x4b, 0xac,
     0xd7, 0x64, 0x77, 0x4b, 0x84, 0xf3, 0x85, 0x12, 0xbf, 0x67, 0x30, 0xd2, 0xa0, 0xf6, 0xb0,
     0xf6, 0x24, 0x1e, 0xab, 0xff, 0xfe, 0xb1, 0x53, 0xff, 0xff, 0xb9, 0xfe, 0xff, 0xff, 0xff,
     0xff, 0xaa, 0xab]"

definition C_cx_BLS12_381_G1_Hp :: bytes where
  "C_cx_BLS12_381_G1_Hp =
    [0x11, 0x98, 0x8f, 0xe5, 0x92, 0xca, 0xe3, 0xaa, 0x9a, 0x79, 0x3e, 0x85, 0xb5, 0x19, 0x95,
     0x2d, 0x67, 0xeb, 0x88, 0xa9, 0x93, 0x9d, 0x83, 0xc0, 0x8d, 0xe5, 0x47, 0x6c, 0x4c, 0x95,
     0xb6, 0xd5, 0x0a, 0x76, 0xe6, 0xa6, 0x09, 0xd1, 0x04, 0xf1, 0xf4, 0xdf, 0x1f, 0x34, 0x1c,
     0x34, 0x17, 0x46]"

definition C_cx_BLS12_381_G1_Gx :: bytes where
  "C_cx_BLS12_381_G1_Gx =
    [0x17, 0xf1, 0xd3, 0xa7, 0x31, 0x97, 0xd7, 0x94, 0x26, 0x95, 0x63, 0x8c, 0x4f, 0xa9, 0xac,
     0x0f, 0xc3, 0x68, 0x8c, 0x4f, 0x97, 0x74, 0xb9, 0x05, 0xa1, 0x4e, 0x3a, 0x3f, 0x17, 0x1b,
     0xac, 0x58, 0x6c, 0x55, 0xe8, 0x3f, 0xf9, 0x7a, 0x1a, 0xef, 0xfb, 0x3a, 0xf0, 0x0a, 0xdb,
     0x22, 0xc6, 0xbb]"

definition C_cx_BLS12_381_G1_Gy :: bytes where
  "C_cx_BLS12_381_G1_Gy =
    [0x08, 0xb3, 0xf4, 0x81, 0xe3, 0xaa, 0xa0, 0xf1, 0xa0, 0x9e, 0x30, 0xed, 0x74, 0x1d, 0x8a,
     0xe4, 0xfc, 0xf5, 0xe0, 0x95, 0xd5, 0xd0, 0x0a, 0xf6, 0x00, 0xdb, 0x18, 0xcb, 0x2c, 0x04,
     0xb3, 0xed, 0xd0, 0x3c, 0xc7, 0x44, 0xa2, 0x88, 0x8a, 0xe4, 0x0c, 0xaa, 0x23, 0x29, 0x46,
     0xc5, 0xe7, 0xe1]"

definition C_cx_BLS12_381_G1_n :: bytes where
  "C_cx_BLS12_381_G1_n =
    [0x00, 0x00, 0x00, 0x00, 0x00, 0x00, 0x00, 0x00, 0x00, 0x00, 0x00, 0x00, 0x00, 0x00, 0x00,
     0x00, 0x73, 0xed, 0xa7, 0x53, 0x29, 0x9d, 0x7d, 0x48, 0x33, 0x39, 0xd8, 0x08, 0x09, 0xa1,
     0xd8, 0x05, 0x53, 0xbd, 0xa4, 0x02, 0xff, 0xfe, 0x5b, 0xfe, 0xff, 0xff, 0xff, 0xff, 0x00,
     0x00, 0x00, 0x01]"

definition C_cx_BLS12_381_G1_Hn :: bytes where
  "C_cx_BLS12_381_G1_Hn =
    [0x00, 0x00, 0x00, 0x00, 0x00, 0x00, 0x00, 0x00, 0x00, 0x00, 0x00, 0x00, 0x00, 0x00, 0x00,
     0x00, 0x6e, 0x2a, 0x5b, 0xb9, 0xc8, 0xdb, 0x33, 0xe9, 0x73, 0xd1, 0x3c, 0x71, 0xc7, 0xb5,
     0xf4, 0x18, 0x1b, 0x3e, 0x0d, 0x18, 0x8c, 0xf0, 0x69, 0x90, 0xc6, 0x2c, 0x18, 0x07, 0x43,
     0x9b, 0x73, 0xaf]"

definition C_cx_BLS12_381_G1_h :: bytes where
  "C_cx_BLS12_381_G1_h =
    [0x00, 0x00, 0x00, 0x01]"

definition C_cx_BLS12_381_G1 :: cx_curve_domain where
  "C_cx_BLS12_381_G1 = \<lparr>dom_curve = CX_CURVE_BLS12_381_G1, dom_bit_size = 381, dom_length = 48,
     dom_a = C_cx_BLS12_381_G1_a, dom_b = C_cx_BLS12_381_G1_b, dom_p = C_cx_BLS12_381_G1_p,
     dom_Gx = C_cx_BLS12_381_G1_Gx, dom_Gy = C_cx_BLS12_381_G1_Gy, dom_n = C_cx_BLS12_381_G1_n,
     dom_h = C_cx_BLS12_381_G1_h, dom_Hn = C_cx_BLS12_381_G1_Hn, dom_Hp = C_cx_BLS12_381_G1_Hp\<rparr>"

subsection \<open>BLS12_377_G1\<close>

definition C_cx_BLS12_377_G1_a :: bytes where
  "C_cx_BLS12_377_G1_a =
    [0x00, 0x00, 0x00, 0x00, 0x00, 0x00, 0x00, 0x00, 0x00, 0x00, 0x00, 0x00, 0x00, 0x00, 0x00,
     0x00, 0x00, 0x00, 0x00, 0x00, 0x00, 0x00, 0x00, 0x00, 0x00, 0x00, 0x00, 0x00, 0x00, 0x00,
     0x00, 0x00, 0x00, 0x00, 0x00, 0x00, 0x00, 0x00, 0x00, 0x00, 0x00, 0x00, 0x00, 0x00, 0x00,
     0x00, 0x00, 0x00]"

definition C_cx_BLS12_377_G1_b :: bytes where
  "C_cx_BLS12_377_G1_b =
    [0x00, 0x00, 0x00, 0x00, 0x00, 0x00, 0x00, 0x00, 0x00, 0x00, 0x00, 0x00, 0x00, 0x00, 0x00,
     0x00, 0x00, 0x00, 0x00, 0x00, 0x00, 0x00, 0x00, 0x00, 0x00, 0x00, 0x00, 0x00, 0x00, 0x00,
     0x00, 0x00, 0x00, 0x00, 0x00, 0x00, 0x00, 0x00, 0x00, 0x00, 0x00, 0x00, 0x00, 0x00, 0x00,
     0x00, 0x00, 0x01]"

definition C_cx_BLS12_377_G1_p :: bytes where
  "C_cx_BLS12_377_G1_p =
    [0x01, 0xae, 0x3a, 0x46, 0x17, 0xc5, 0x10, 0xea, 0xc6, 0x3b, 0x05, 0xc0, 0x6c, 0xa1, 0x49,
     0x3b, 0x1a, 0x22, 0xd9, 0xf3, 0x00, 0xf5, 0x13, 0x8f, 0x1e, 0xf3, 0x62, 0x2f, 0xba, 0x09,
     0x48, 0x00, 0x17, 0x0b, 0x5d, 0x44, 0x30, 0x00, 0x00, 0x00, 0x85, 0x08, 0xc0, 0x00, 0x00,
     0x00, 0x00, 0x01]"

definition C_cx_BLS12_377_G1_Hp :: bytes where
  "C_cx_BLS12_377_G1_Hp =
    [0x00, 0x6d, 0xfc, 0xcb, 0x1e, 0x91, 0x4b, 0x88, 0x83, 0x7e, 0x92, 0xf0, 0x41, 0x79, 0x0b,
     0xf9, 0xbf, 0xdf, 0x7d, 0x03, 0x82, 0x7d, 0xc3, 0xac, 0x22, 0xa5, 0xf1, 0x11, 0x62, 0xd6,
     0xb4, 0x6d, 0x03, 0x29, 0xfc, 0xaa, 0xb0, 0x04, 0x31, 0xb1, 0xb7, 0x86, 0x68, 0x6c, 0x94,
     0x00, 0xcd, 0x22]"

definition C_cx_BLS12_377_G1_Gx :: bytes where
  "C_cx_BLS12_377_G1_Gx =
    [0x00, 0x88, 0x48, 0xde, 0xfe, 0x74, 0x0a, 0x67, 0xc8, 0xfc, 0x62, 0x25, 0xbf, 0x87, 0xff,
     0x54, 0x85, 0x95, 0x1e, 0x2c, 0xaa, 0x9d, 0x41, 0xbb, 0x18, 0x82, 0x82, 0xc8, 0xbd, 0x37,
     0xcb, 0x5c, 0xd5, 0x48, 0x15, 0x12, 0xff, 0xcd, 0x39, 0x4e, 0xea, 0xb9, 0xb1, 0x6e, 0xb2,
     0x1b, 0xe9, 0xef]"

definition C_cx_BLS12_377_G1_Gy :: bytes where
  "C_cx_BLS12_377_G1_Gy =
    [0x01, 0x91, 0x4a, 0x69, 0xc5, 0x10, 0x2e, 0xff, 0x1f, 0x67, 0x4f, 0x5d, 0x30, 0xaf, 0xee,
     0xc4, 0xbd, 0x7f, 0xb3, 0x48, 0xca, 0x3e, 0x52, 0xd9, 0x6d, 0x18, 0x2a, 0xd4, 0x4f, 0xb8,
     0x23, 0x05, 0xc2, 0xfe, 0x3d, 0x36, 0x34, 0xa9, 0x59, 0x1a, 0xfd, 0x82, 0xde, 0x55, 0x55,
     0x9c, 0x8e, 0xa6]"

definition C_cx_BLS12_377_G1_n :: bytes where
  "C_cx_BLS12_377_G1_n =
    [0x00, 0x00, 0x00, 0x00, 0x00, 0x00, 0x00, 0x00, 0x00, 0x00, 0x00, 0x00, 0x00, 0x00, 0x00,
     0x00, 0x12, 0xab, 0x65, 0x5e, 0x9a, 0x2c, 0xa5, 0x56, 0x60, 0xb4, 0x4d, 0x1e, 0x5c, 0x37,
     0xb0, 0x01, 0x59, 0xaa, 0x76, 0xfe, 0xd0, 0x00, 0x00, 0x01, 0x0a, 0x11, 0x80, 0x00, 0x00,
     0x00, 0x00, 0x01]"

definition C_cx_BLS12_377_G1_Hn :: bytes where
  "C_cx_BLS12_377_G1_Hn =
    [0x00, 0x00, 0x00, 0x00, 0x00, 0x00, 0x00, 0x00, 0x00, 0x00, 0x00, 0x00, 0x00, 0x00, 0x00,
     0x00, 0x06, 0x01, 0xdf, 0xa5, 0x55, 0xc4, 0x8d, 0xda, 0xb1, 0xe5, 0x5e, 0xf6, 0xf1, 0xc9,
     0xd7, 0x13, 0x62, 0x4d, 0x23, 0xff, 0xae, 0x27, 0x16, 0x99, 0x6a, 0x42, 0x95, 0xc9, 0x0f,
     0x65, 0x45, 0x4c]"

definition C_cx_BLS12_377_G1_h :: bytes where
  "C_cx_BLS12_377_G1_h =
    [0x00, 0x00, 0x00, 0x00, 0x00, 0x00, 0x00, 0x00, 0x00, 0x00, 0x00, 0x00, 0x00, 0x00, 0x00,
     0x00, 0x00, 0x00, 0x00, 0x00, 0x00, 0x00, 0x00, 0x00, 0x00, 0x00, 0x00, 0x00, 0x00, 0x00,
     0x00, 0x00, 0x17, 0x0b, 0x5d, 0x44, 0x30, 0x00, 0x00, 0x00, 0x00, 0x00, 0x00, 0x00, 0x00,
     0x00, 0x00, 0x00]"

definition C_cx_BLS12_377_G1 :: cx_curve_domain where
  "C_cx_BLS12_377_G1 = \<lparr>dom_curve = CX_CURVE_BLS12_377_G1, dom_bit_size = 377, dom_length = 48,
     dom_a = C_cx_BLS12_377_G1_a, dom_b = C_cx_BLS12_377_G1_b, dom_p = C_cx_BLS12_377_G1_p,
     dom_Gx = C_cx_BLS12_377_G1_Gx, dom_Gy = C_cx_BLS12_377_G1_Gy, dom_n = C_cx_BLS12_377_G1_n,
     dom_h = C_cx_BLS12_377_G1_h, dom_Hn = C_cx_BLS12_377_G1_Hn, dom_Hp = C_cx_BLS12_377_G1_Hp\<rparr>"

subsection \<open>Pallas\<close>

definition C_cx_Pallas_a :: bytes where
  "C_cx_Pallas_a =
    [0x00, 0x00, 0x00, 0x00, 0x00, 0x00, 0x00, 0x00, 0x00, 0x00, 0x00, 0x00, 0x00, 0x00, 0x00,
     0x00, 0x00, 0x00, 0x00, 0x00, 0x00, 0x00, 0x00, 0x00, 0x00, 0x00, 0x00, 0x00, 0x00, 0x00,
     0x00, 0x00]"

definition C_cx_Pallas_b :: bytes where
  "C_cx_Pallas_b =
    [0x00, 0x00, 0x00, 0x00, 0x00, 0x00, 0x00, 0x00, 0x00, 0x00, 0x00, 0x00, 0x00, 0x00, 0x00,
     0x00, 0x00, 0x00, 0x00, 0x00, 0x00, 0x00, 0x00, 0x00, 0x00, 0x00, 0x00, 0x00, 0x00, 0x00,
     0x00, 0x05]"

definition C_cx_Pallas_p :: bytes where
  "C_cx_Pallas_p =
    [0x40, 0x00, 0x00, 0x00, 0x00, 0x00, 0x00, 0x00, 0x00, 0x00, 0x00, 0x00, 0x00, 0x00, 0x00,
     0x00, 0x22, 0x46, 0x98, 0xfc, 0x09, 0x4c, 0xf9, 0x1b, 0x99, 0x2d, 0x30, 0xed, 0x00, 0x00,
     0x00, 0x01]"

definition C_cx_Pallas_Hp :: bytes where
  "C_cx_Pallas_Hp =
    [0x09, 0x6d, 0x41, 0xaf, 0x7b, 0x9c, 0xb7, 0x14, 0x77, 0x97, 0xa9, 0x9b, 0xc3, 0xc9, 0x5d,
     0x18, 0xd7, 0xd3, 0x0d, 0xbd, 0x8b, 0x0d, 0xe0, 0xe7, 0x8c, 0x78, 0xec, 0xb3, 0x00, 0x00,
     0x00, 0x0f]"

definition C_cx_Pallas_Gx :: bytes where
  "C_cx_Pallas_Gx =
    [0x01, 0x47, 0x33, 0xb2, 0x83, 0x27, 0x25, 0x74, 0xe2, 0x39, 0x31, 0xf3, 0x58, 0xa0, 0x35,
     0x4b, 0x7b, 0xcd, 0x5c, 0x76, 0x5c, 0xc1, 0xfc, 0xea, 0xcc, 0x3b, 0x3d, 0x1a, 0x0c, 0x49,
     0x5c, 0x9e]"

definition C_cx_Pallas_Gy :: bytes where
  "C_cx_Pallas_Gy =
    [0x3a, 0x7b, 0x89, 0x5f, 0x5e, 0x1f, 0xa9, 0x1d, 0x82, 0x6f, 0x72, 0xea, 0x26, 0xb5, 0xc9,
     0x0b, 0x1b, 0xae, 0x77, 0xd1, 0x29, 0xf5, 0xec, 0xc1, 0x37, 0x89, 0x24, 0xd7, 0x43, 0xf4,
     0xb6, 0x78]"

definition C_cx_Pallas_n :: bytes where
  "C_cx_Pallas_n =
    [0x40, 0x00, 0x00, 0x00, 0x00, 0x00, 0x00, 0x00, 0x00, 0x00, 0x00, 0x00, 0x00, 0x00, 0x00,
     0x00, 0x22, 0x46, 0x98, 0xfc, 0x09, 0x94, 0xa8, 0xdd, 0x8c, 0x46, 0xeb, 0x21, 0x00, 0x00,
     0x00, 0x01]"

definition C_cx_Pallas_Hn :: bytes where
  "C_cx_Pallas_Hn =
    [0x09, 0x6d, 0x41, 0xaf, 0x7c, 0xcf, 0xda, 0xa9, 0x7f, 0xae, 0x23, 0x10, 0x04, 0xcc, 0xf5,
     0x90, 0x67, 0xbb, 0x43, 0x3d, 0x89, 0x1a, 0x16, 0xe3, 0xfc, 0x96, 0x78, 0xff, 0x00, 0x00,
     0x00, 0x0f]"

definition C_cx_Pallas_h :: bytes where
  "C_cx_Pallas_h =
    [0x00, 0x00, 0x00, 0x01, 0x00, 0x00, 0x00, 0x00, 0x00, 0x00, 0x00, 0x00, 0x00, 0x00, 0x00,
     0x00, 0x00, 0x00, 0x00, 0x00, 0x00, 0x00, 0x00, 0x00, 0x00, 0x00, 0x00, 0x00, 0x00, 0x00,
     0x00, 0x00]"

definition C_cx_Pallas :: cx_curve_domain where
  "C_cx_Pallas = \<lparr>dom_curve = CX_CURVE_PALLAS, dom_bit_size = 255, dom_length = 32,
     dom_a = C_cx_Pallas_a, dom_b = C_cx_Pallas_b, dom_p = C_cx_Pallas_p,
     dom_Gx = C_cx_Pallas_Gx, dom_Gy = C_cx_Pallas_Gy, dom_n = C_cx_Pallas_n,
     dom_h = C_cx_Pallas_h, dom_Hn = C_cx_Pallas_Hn, dom_Hp = C_cx_Pallas_Hp\<rparr>"

subsection \<open>Vesta\<close>

definition C_cx_Vesta_a :: bytes where
  "C_cx_Vesta_a =
    [0x00, 0x00, 0x00, 0x00, 0x00, 0x00, 0x00, 0x00, 0x00, 0x00, 0x00, 0x00, 0x00, 0x00, 0x00,
     0x00, 0x00, 0x00, 0x00, 0x00, 0x00, 0x00, 0x00, 0x00, 0x00, 0x00, 0x00, 0x00, 0x00, 0x00,
     0x00, 0x00]"

definition C_cx_Vesta_b :: bytes where
  "C_cx_Vesta_b =
    [0x00, 0x00, 0x00, 0x00, 0x00, 0x00, 0x00, 0x00, 0x00, 0x00, 0x00, 0x00, 0x00, 0x00, 0x00,
     0x00, 0x00, 0x00, 0x00, 0x00, 0x00, 0x00, 0x00, 0x00, 0x00, 0x00, 0x00, 0x00, 0x00, 0x00,
     0x00, 0x05]"

definition C_cx_Vesta_p :: bytes where
  "C_cx_Vesta_p =
    [0x40, 0x00, 0x00, 0x00, 0x00, 0x00, 0x00, 0x00, 0x00, 0x00, 0x00, 0x00, 0x00, 0x00, 0x00,
     0x00, 0x22, 0x46, 0x98, 0xfc, 0x09, 0x94, 0xa8, 0xdd, 0x8c, 0x46, 0xeb, 0x21, 0x00, 0x00,
     0x00, 0x01]"

definition C_cx_Vesta_Hp :: bytes where
  "C_cx_Vesta_Hp =
    [0x09, 0x6d, 0x41, 0xaf, 0x7c, 0xcf, 0xda, 0xa9, 0x7f, 0xae, 0x23, 0x10, 0x04, 0xcc, 0xf5,
     0x90, 0x67, 0xbb, 0x43, 0x3d, 0x89, 0x1a, 0x16, 0xe3, 0xfc, 0x96, 0x78, 0xff, 0x00, 0x00,
     0x00, 0x0f]"

definition C_cx_Vesta_Gx :: bytes where
  "C_cx_Vesta_Gx =
    [0x2d, 0x39, 0x96, 0xe1, 0x8f, 0x13, 0x4b, 0xd9, 0x3a, 0xec, 0x73, 0xc9, 0xb9, 0x84, 0xdb,
     0xf2, 0x70, 0x74, 0xe5, 0x44, 0x02, 0x9e, 0x4a, 0xc1, 0x22, 0xfb, 0x21, 0x9f, 0xde, 0x2b,
     0x20, 0xeb]"

definition C_cx_Vesta_Gy :: bytes where
  "C_cx_Vesta_Gy =
    [0x2a, 0xfa, 0xa4, 0x3f, 0x3c, 0x90, 0x2b, 0x3d, 0x19, 0xad, 0xc0, 0xb9, 0x0a, 0xa1, 0xe9,
     0xa3, 0x7d, 0x55, 0xc7, 0x3d, 0x77, 0x53, 0xf7, 0x22, 0xf3, 0x4d, 0x45, 0x6e, 0x53, 0x08,
     0x54, 0xf0]"

definition C_cx_Vesta_n :: bytes where
  "C_cx_Vesta_n =
    [0x40, 0x00, 0x00, 0x00, 0x00, 0x00, 0x00, 0x00, 0x00, 0x00, 0x00, 0x00, 0x00, 0x00, 0x00,
     0x00, 0x22, 0x46, 0x98, 0xfc, 0x09, 0x4c, 0xf9, 0x1b, 0x99, 0x2d, 0x30, 0xed, 0x00, 0x00,
     0x00, 0x01]"

definition C_cx_Vesta_Hn :: bytes where
  "C_cx_Vesta_Hn =
    [0x09, 0x6d, 0x41, 0xaf, 0x7b, 0x9c, 0xb7, 0x14, 0x77, 0x97, 0xa9, 0x9b, 0xc3, 0xc9, 0x5d,
     0x18, 0xd7, 0xd3, 0x0d, 0xbd, 0x8b, 0x0d, 0xe0, 0xe7, 0x8c, 0x78, 0xec, 0xb3, 0x00, 0x00,
     0x00, 0x0f]"

definition C_cx_Vesta_h :: bytes where
  "C_cx_Vesta_h =
    [0x00, 0x00, 0x00, 0x01, 0x00, 0x00, 0x00, 0x00, 0x00, 0x00, 0x00, 0x00, 0x00, 0x00, 0x00,
     0x00, 0x00, 0x00, 0x00, 0x00, 0x00, 0x00, 0x00, 0x00, 0x00, 0x00, 0x00, 0x00, 0x00, 0x00,
     0x00, 0x00]"

definition C_cx_Vesta :: cx_curve_domain where
  "C_cx_Vesta = \<lparr>dom_curve = CX_CURVE_VESTA, dom_bit_size = 255, dom_length = 32,
     dom_a = C_cx_Vesta_a, dom_b = C_cx_Vesta_b, dom_p = C_cx_Vesta_p,
     dom_Gx = C_cx_Vesta_Gx, dom_Gy = C_cx_Vesta_Gy, dom_n = C_cx_Vesta_n,
     dom_h = C_cx_Vesta_h, dom_Hn = C_cx_Vesta_Hn, dom_Hp = C_cx_Vesta_Hp\<rparr>"

subsection \<open>Ed25519\<close>

definition C_cx_Ed25519_a :: bytes where
  "C_cx_Ed25519_a =
    [0x7f, 0xff, 0xff, 0xff, 0xff, 0xff, 0xff, 0xff, 0xff, 0xff, 0xff, 0xff, 0xff, 0xff, 0xff,
     0xff, 0xff, 0xff, 0xff, 0xff, 0xff, 0xff, 0xff, 0xff, 0xff, 0xff, 0xff, 0xff, 0xff, 0xff,
     0xff, 0xec]"

definition C_cx_Ed25519_d :: bytes where
  "C_cx_Ed25519_d =
    [0x52, 0x03, 0x6c, 0xee, 0x2b, 0x6f, 0xfe, 0x73, 0x8c, 0xc7, 0x40, 0x79, 0x77, 0x79, 0xe8,
     0x98, 0x00, 0x70, 0x0a, 0x4d, 0x41, 0x41, 0xd8, 0xab, 0x75, 0xeb, 0x4d, 0xca, 0x13, 0x59,
     0x78, 0xa3]"

definition C_cx_Ed25519_q :: bytes where
  "C_cx_Ed25519_q =
    [0x7f, 0xff, 0xff, 0xff, 0xff, 0xff, 0xff, 0xff, 0xff, 0xff, 0xff, 0xff, 0xff, 0xff, 0xff,
     0xff, 0xff, 0xff, 0xff, 0xff, 0xff, 0xff, 0xff, 0xff, 0xff, 0xff, 0xff, 0xff, 0xff, 0xff,
     0xff, 0xed]"

definition C_cx_Ed25519_Hq :: bytes where
  "C_cx_Ed25519_Hq =
    [0x00, 0x00, 0x00, 0x00, 0x00, 0x00, 0x00, 0x00, 0x00, 0x00, 0x00, 0x00, 0x00, 0x00, 0x00,
     0x00, 0x00, 0x00, 0x00, 0x00, 0x00, 0x00, 0x00, 0x00, 0x00, 0x00, 0x00, 0x00, 0x00, 0x00,
     0x05, 0xa4]"

definition C_cx_Ed25519_Bx :: bytes where
  "C_cx_Ed25519_Bx =
    [0x21, 0x69, 0x36, 0xd3, 0xcd, 0x6e, 0x53, 0xfe, 0xc0, 0xa4, 0xe2, 0x31, 0xfd, 0xd6, 0xdc,
     0x5c, 0x69, 0x2c, 0xc7, 0x60, 0x95, 0x25, 0xa7, 0xb2, 0xc9, 0x56, 0x2d, 0x60, 0x8f, 0x25,
     0xd5, 0x1a]"

definition C_cx_Ed25519_By :: bytes where
  "C_cx_Ed25519_By =
    [0x66, 0x66, 0x66, 0x66, 0x66, 0x66, 0x66, 0x66, 0x66, 0x66, 0x66, 0x66, 0x66, 0x66, 0x66,
     0x66, 0x66, 0x66, 0x66, 0x66, 0x66, 0x66, 0x66, 0x66, 0x66, 0x66, 0x66, 0x66, 0x66, 0x66,
     0x66, 0x58]"

definition C_cx_Ed25519_l :: bytes where
  "C_cx_Ed25519_l =
    [0x10, 0x00, 0x00, 0x00, 0x00, 0x00, 0x00, 0x00, 0x00, 0x00, 0x00, 0x00, 0x00, 0x00, 0x00,
     0x00, 0x14, 0xde, 0xf9, 0xde, 0xa2, 0xf7, 0x9c, 0xd6, 0x58, 0x12, 0x63, 0x1a, 0x5c, 0xf5,
     0xd3, 0xed]"

definition C_cx_Ed25519_Hl :: bytes where
  "C_cx_Ed25519_Hl =
    [0x03, 0x99, 0x41, 0x1b, 0x7c, 0x30, 0x9a, 0x3d, 0xce, 0xec, 0x73, 0xd2, 0x17, 0xf5, 0xbe,
     0x65, 0xd0, 0x0e, 0x1b, 0xa7, 0x68, 0x85, 0x93, 0x47, 0xa4, 0x06, 0x11, 0xe3, 0x44, 0x9c,
     0x0f, 0x01]"

definition C_cx_Ed25519 :: cx_curve_domain where
  "C_cx_Ed25519 = \<lparr>dom_curve = CX_CURVE_Ed25519, dom_bit_size = 256, dom_length = 32,
     dom_a = C_cx_Ed25519_a, dom_b = C_cx_Ed25519_d, dom_p = C_cx_Ed25519_q,
     dom_Gx = C_cx_Ed25519_Bx, dom_Gy = C_cx_Ed25519_By, dom_n = C_cx_Ed25519_l,
     dom_h = C_cofactor_8, dom_Hn = C_cx_Ed25519_Hl, dom_Hp = C_cx_Ed25519_Hq\<rparr>"

subsection \<open>Ed448\<close>

definition C_cx_Ed448_a :: bytes where
  "C_cx_Ed448_a =
    [0x00, 0x00, 0x00, 0x00, 0x00, 0x00, 0x00, 0x00, 0x00, 0x00, 0x00, 0x00, 0x00, 0x00, 0x00,
     0x00, 0x00, 0x00, 0x00, 0x00, 0x00, 0x00, 0x00, 0x00, 0x00, 0x00, 0x00, 0x00, 0x00, 0x00,
     0x00, 0x00, 0x00, 0x00, 0x00, 0x00, 0x00, 0x00, 0x00, 0x00, 0x00, 0x00, 0x00, 0x00, 0x00,
     0x00, 0x00, 0x00, 0x00, 0x00, 0x00, 0x00, 0x00, 0x00, 0x00, 0x00, 0x01]"

definition C_cx_Ed448_d :: bytes where
  "C_cx_Ed448_d =
    [0x00, 0xff, 0xff, 0xff, 0xff, 0xff, 0xff, 0xff, 0xff, 0xff, 0xff, 0xff, 0xff, 0xff, 0xff,
     0xff, 0xff, 0xff, 0xff, 0xff, 0xff, 0xff, 0xff, 0xff, 0xff, 0xff, 0xff, 0xff, 0xfe, 0xff,
     0xff, 0xff, 0xff, 0xff, 0xff, 0xff, 0xff, 0xff, 0xff, 0xff, 0xff, 0xff, 0xff, 0xff, 0xff,
     0xff, 0xff, 0xff, 0xff, 0xff, 0xff, 0xff, 0xff, 0xff, 0xff, 0x67, 0x56]"

definition C_cx_Ed448_q :: bytes where
  "C_cx_Ed448_q =
    [0x00, 0xff, 0xff, 0xff, 0xff, 0xff, 0xff, 0xff, 0xff, 0xff, 0xff, 0xff, 0xff, 0xff, 0xff,
     0xff, 0xff, 0xff, 0xff, 0xff, 0xff, 0xff, 0xff, 0xff, 0xff, 0xff, 0xff, 0xff, 0xfe, 0xff,
     0xff, 0xff, 0xff, 0xff, 0xff, 0xff, 0xff, 0xff, 0xff, 0xff, 0xff, 0xff, 0xff, 0xff, 0xff,
     0xff, 0xff, 0xff, 0xff, 0xff, 0xff, 0xff, 0xff, 0xff, 0xff, 0xff, 0xff]"

definition C_cx_Ed448_Hq :: bytes where
  "C_cx_Ed448_Hq =
    [0x00, 0x00, 0x00, 0x00, 0x00, 0x00, 0x00, 0x00, 0x00, 0x00, 0x00, 0x00, 0x03, 0x00, 0x00,
     0x00, 0x00, 0x00, 0x00, 0x00, 0x00, 0x00, 0x00, 0x00, 0x00, 0x00, 0x00, 0x00, 0x00, 0x00,
     0x00, 0x00, 0x00, 0x00, 0x00, 0x00, 0x00, 0x00, 0x00, 0x00, 0x02, 0x00, 0x00, 0x00, 0x00,
     0x00, 0x00, 0x00, 0x00, 0x00, 0x00, 0x00, 0x00, 0x00, 0x00, 0x00, 0x00]"

definition C_cx_Ed448_Bx :: bytes where
  "C_cx_Ed448_Bx =
    [0x00, 0x4f, 0x19, 0x70, 0xc6, 0x6b, 0xed, 0x0d, 0xed, 0x22, 0x1d, 0x15, 0xa6, 0x22, 0xbf,
     0x36, 0xda, 0x9e, 0x14, 0x65, 0x70, 0x47, 0x0f, 0x17, 0x67, 0xea, 0x6d, 0xe3, 0x24, 0xa3,
     0xd3, 0xa4, 0x64, 0x12, 0xae, 0x1a, 0xf7, 0x2a, 0xb6, 0x65, 0x11, 0x43, 0x3b, 0x80, 0xe1,
     0x8b, 0x00, 0x93, 0x8e, 0x26, 0x26, 0xa8, 0x2b, 0xc7, 0x0c, 0xc0, 0x5e]"

definition C_cx_Ed448_By :: bytes where
  "C_cx_Ed448_By =
    [0x00, 0x69, 0x3f, 0x46, 0x71, 0x6e, 0xb6, 0xbc, 0x24, 0x88, 0x76, 0x20, 0x37, 0x56, 0xc9,
     0xc7, 0x62, 0x4b, 0xea, 0x73, 0x73, 0x6c, 0xa3, 0x98, 0x40, 0x87, 0x78, 0x9c, 0x1e, 0x05,
     0xa0, 0xc2, 0xd7, 0x3a, 0xd3, 0xff, 0x1c, 0xe6, 0x7c, 0x39, 0xc4, 0xfd, 0xbd, 0x13, 0x2c,
     0x4e, 0xd7, 0xc8, 0xad, 0x98, 0x08, 0x79, 0x5b, 0xf2, 0x30, 0xfa, 0x14]"

definition C_cx_Ed448_l :: bytes where
  "C_cx_Ed448_l =
    [0x00, 0x3f, 0xff, 0xff, 0xff, 0xff, 0xff, 0xff, 0xff, 0xff, 0xff, 0xff, 0xff, 0xff, 0xff,
     0xff, 0xff, 0xff, 0xff, 0xff, 0xff, 0xff, 0xff, 0xff, 0xff, 0xff, 0xff, 0xff, 0xff, 0x7c,
     0xca, 0x23, 0xe9, 0xc4, 0x4e, 0xdb, 0x49, 0xae, 0xd6, 0x36, 0x90, 0x21, 0x6c, 0xc2, 0x72,
     0x8d, 0xc5, 0x8f, 0x55, 0x23, 0x78, 0xc2, 0x92, 0xab, 0x58, 0x44, 0xf3]"

definition C_cx_Ed448_Hl :: bytes where
  "C_cx_Ed448_Hl =
    [0x00, 0x1a, 0x9c, 0xc1, 0x4b, 0xa3, 0xc4, 0x7c, 0x44, 0xae, 0x17, 0xcf, 0x72, 0xc9, 0x86,
     0x0f, 0xaa, 0x10, 0x75, 0x50, 0xba, 0x94, 0xd0, 0xe8, 0x08, 0xf1, 0x0a, 0x98, 0xef, 0x88,
     0xe1, 0x5b, 0xb4, 0x8b, 0xd8, 0x27, 0xde, 0x12, 0x7c, 0xe5, 0xf2, 0x3e, 0x0a, 0xa6, 0x8d,
     0x30, 0xdb, 0xb9, 0x89, 0xbb, 0xec, 0xff, 0xc3, 0x3c, 0x3a, 0x37, 0x8c]"

definition C_cx_Ed448 :: cx_curve_domain where
  "C_cx_Ed448 = \<lparr>dom_curve = CX_CURVE_Ed448, dom_bit_size = 448, dom_length = 57,
     dom_a = C_cx_Ed448_a, dom_b = C_cx_Ed448_d, dom_p = C_cx_Ed448_q,
     dom_Gx = C_cx_Ed448_Bx, dom_Gy = C_cx_Ed448_By, dom_n = C_cx_Ed448_l,
     dom_h = C_cofactor_4, dom_Hn = C_cx_Ed448_Hl, dom_Hp = C_cx_Ed448_Hq\<rparr>"

subsection \<open>EdBLS12\<close>

definition C_cx_EdBLS12_a :: bytes where
  "C_cx_EdBLS12_a =
    [0x12, 0xab, 0x65, 0x5e, 0x9a, 0x2c, 0xa5, 0x56, 0x60, 0xb4, 0x4d, 0x1e, 0x5c, 0x37, 0xb0,
     0x01, 0x59, 0xaa, 0x76, 0xfe, 0xd0, 0x00, 0x00, 0x01, 0x0a, 0x11, 0x80, 0x00, 0x00, 0x00,
     0x00, 0x00]"

definition C_cx_EdBLS12_d :: bytes where
  "C_cx_EdBLS12_d =
    [0x00, 0x00, 0x00, 0x00, 0x00, 0x00, 0x00, 0x00, 0x00, 0x00, 0x00, 0x00, 0x00, 0x00, 0x00,
     0x00, 0x00, 0x00, 0x00, 0x00, 0x00, 0x00, 0x00, 0x00, 0x00, 0x00, 0x00, 0x00, 0x00, 0x00,
     0x0b, 0xcd]"

definition C_cx_EdBLS12_q :: bytes where
  "C_cx_EdBLS12_q =
    [0x12, 0xab, 0x65, 0x5e, 0x9a, 0x2c, 0xa5, 0x56, 0x60, 0xb4, 0x4d, 0x1e, 0x5c, 0x37, 0xb0,
     0x01, 0x59, 0xaa, 0x76, 0xfe, 0xd0, 0x00, 0x00, 0x01, 0x0a, 0x11, 0x80, 0x00, 0x00, 0x00,
     0x00, 0x01]"

definition C_cx_EdBLS12_Hq :: bytes where
  "C_cx_EdBLS12_Hq =
    [0x01, 0x1f, 0xda, 0xe7, 0xef, 0xf1, 0xc9, 0x39, 0xa7, 0xcc, 0x00, 0x8f, 0xe5, 0xdc, 0x85,
     0x93, 0xcc, 0x2c, 0x27, 0xb5, 0x88, 0x60, 0x59, 0x1f, 0x25, 0xd5, 0x77, 0xba, 0xb8, 0x61,
     0x85, 0x7b]"

definition C_cx_EdBLS12_Gx :: bytes where
  "C_cx_EdBLS12_Gx =
    [0x09, 0xf1, 0xb5, 0xa5, 0xba, 0xf6, 0xac, 0xf0, 0x6f, 0xed, 0x91, 0xc9, 0xae, 0x9e, 0xbf,
     0xa0, 0x60, 0x68, 0xdd, 0x28, 0x35, 0x79, 0x09, 0x80, 0x89, 0x4e, 0x23, 0x28, 0xf3, 0xeb,
     0xca, 0x05]"

definition C_cx_EdBLS12_Gy :: bytes where
  "C_cx_EdBLS12_Gy =
    [0x09, 0xa2, 0x0d, 0xf3, 0x65, 0x71, 0xac, 0x3c, 0xd9, 0x06, 0xb2, 0x56, 0x08, 0x0b, 0xa8,
     0x45, 0x44, 0x53, 0xc1, 0x77, 0xaa, 0xf3, 0x13, 0x1b, 0xb5, 0x0a, 0x67, 0xbf, 0x1a, 0x80,
     0x67, 0x81]"

definition C_cx_EdBLS12_n :: bytes where
  "C_cx_EdBLS12_n =
    [0x04, 0xaa, 0xd9, 0x57, 0xa6, 0x8b, 0x29, 0x55, 0x98, 0x2d, 0x13, 0x47, 0x97, 0x0d, 0xec,
     0x00, 0x52, 0x93, 0xa3, 0xaf, 0xc4, 0x3c, 0x8a, 0xfe, 0xb9, 0x5a, 0xee, 0x9a, 0xc3, 0x3f,
     0xd9, 0xff]"

definition C_cx_EdBLS12_Hn :: bytes where
  "C_cx_EdBLS12_Hn =
    [0x47, 0xad, 0xa1, 0xee, 0xf0, 0x2d, 0x84, 0x1c, 0xa0, 0x60, 0x49, 0xcc, 0xd0, 0x27, 0xa2,
     0x1f, 0x63, 0x9c, 0x3f, 0x57, 0xa7, 0x3d, 0xa7, 0x33, 0x75, 0x69, 0x9c, 0xd6, 0xa5, 0x5d,
     0x45, 0x0e]"

definition C_cx_EdBLS12_h :: bytes where
  "C_cx_EdBLS12_h =
    [0x00, 0x00, 0x00, 0x04]"

definition C_cx_EdBLS12 :: cx_curve_domain where
  "C_cx_EdBLS12 = \<lparr>dom_curve = CX_CURVE_EdBLS12, dom_bit_size = 256, dom_length = 32,
     dom_a = C_cx_EdBLS12_a, dom_b = C_cx_EdBLS12_d, dom_p = C_cx_EdBLS12_q,
     dom_Gx = C_cx_EdBLS12_Gx, dom_Gy = C_cx_EdBLS12_Gy, dom_n = C_cx_EdBLS12_n,
     dom_h = C_cx_EdBLS12_h, dom_Hn = C_cx_EdBLS12_Hn, dom_Hp = C_cx_EdBLS12_Hq\<rparr>"

subsection \<open>Jubjub\<close>

definition C_cx_Jubjub_a :: bytes where
  "C_cx_Jubjub_a =
    [0x73, 0xed, 0xa7, 0x53, 0x29, 0x9d, 0x7d, 0x48, 0x33, 0x39, 0xd8, 0x08, 0x09, 0xa1, 0xd8,
     0x05, 0x53, 0xbd, 0xa4, 0x02, 0xff, 0xfe, 0x5b, 0xfe, 0xff, 0xff, 0xff, 0xff, 0x00, 0x00,
     0x00, 0x00]"

definition C_cx_Jubjub_d :: bytes where
  "C_cx_Jubjub_d =
    [0x2a, 0x93, 0x18, 0xe7, 0x4b, 0xfa, 0x2b, 0x48, 0xf5, 0xfd, 0x92, 0x07, 0xe6, 0xbd, 0x7f,
     0xd4, 0x29, 0x2d, 0x7f, 0x6d, 0x37, 0x57, 0x9d, 0x26, 0x01, 0x06, 0x5f, 0xd6, 0xd6, 0x34,
     0x3e, 0xb1]"

definition C_cx_Jubjub_q :: bytes where
  "C_cx_Jubjub_q =
    [0x73, 0xed, 0xa7, 0x53, 0x29, 0x9d, 0x7d, 0x48, 0x33, 0x39, 0xd8, 0x08, 0x09, 0xa1, 0xd8,
     0x05, 0x53, 0xbd, 0xa4, 0x02, 0xff, 0xfe, 0x5b, 0xfe, 0xff, 0xff, 0xff, 0xff, 0x00, 0x00,
     0x00, 0x01]"

definition C_cx_Jubjub_Hq :: bytes where
  "C_cx_Jubjub_Hq =
    [0x07, 0x48, 0xd9, 0xd9, 0x9f, 0x59, 0xff, 0x11, 0x05, 0xd3, 0x14, 0x96, 0x72, 0x54, 0x39,
     0x8f, 0x2b, 0x6c, 0xed, 0xcb, 0x87, 0x92, 0x5c, 0x23, 0xc9, 0x99, 0xe9, 0x90, 0xf3, 0xf2,
     0x9c, 0x6d]"

definition C_cx_Jubjub_Gx :: bytes where
  "C_cx_Jubjub_Gx =
    [0x11, 0xda, 0xfe, 0x5d, 0x23, 0xe1, 0x21, 0x80, 0x86, 0xa3, 0x65, 0xb9, 0x9f, 0xbf, 0x3d,
     0x3b, 0xe7, 0x2f, 0x6a, 0xfd, 0x7d, 0x1f, 0x72, 0x62, 0x3e, 0x6b, 0x07, 0x14, 0x92, 0xd1,
     0x12, 0x2b]"

definition C_cx_Jubjub_Gy :: bytes where
  "C_cx_Jubjub_Gy =
    [0x1d, 0x52, 0x3c, 0xf1, 0xdd, 0xab, 0x1a, 0x17, 0x93, 0x13, 0x2e, 0x78, 0xc8, 0x66, 0xc0,
     0xc3, 0x3e, 0x26, 0xba, 0x5c, 0xc2, 0x20, 0xfe, 0xd7, 0xcc, 0x3f, 0x87, 0x0e, 0x59, 0xd2,
     0x92, 0xaa]"

definition C_cx_Jubjub_n :: bytes where
  "C_cx_Jubjub_n =
    [0x0e, 0x7d, 0xb4, 0xea, 0x65, 0x33, 0xaf, 0xa9, 0x06, 0x67, 0x3b, 0x01, 0x01, 0x34, 0x3b,
     0x00, 0xa6, 0x68, 0x20, 0x93, 0xcc, 0xc8, 0x10, 0x82, 0xd0, 0x97, 0x0e, 0x5e, 0xd6, 0xf7,
     0x2c, 0xb7]"

definition C_cx_Jubjub_Hn :: bytes where
  "C_cx_Jubjub_Hn =
    [0x04, 0xf6, 0x54, 0x7b, 0x8d, 0x12, 0x76, 0x88, 0x69, 0xda, 0xb7, 0xfa, 0xc0, 0x26, 0xe9,
     0xa5, 0x51, 0xb0, 0xce, 0xf0, 0x9c, 0xe3, 0xfc, 0x26, 0x67, 0x71, 0x9a, 0xa4, 0x95, 0xe5,
     0x77, 0x31]"

definition C_cx_Jubjub_h :: bytes where
  "C_cx_Jubjub_h =
    [0x00, 0x00, 0x00, 0x08]"

definition C_cx_Jubjub :: cx_curve_domain where
  "C_cx_Jubjub = \<lparr>dom_curve = CX_CURVE_JUBJUB, dom_bit_size = 256, dom_length = 32,
     dom_a = C_cx_Jubjub_a, dom_b = C_cx_Jubjub_d, dom_p = C_cx_Jubjub_q,
     dom_Gx = C_cx_Jubjub_Gx, dom_Gy = C_cx_Jubjub_Gy, dom_n = C_cx_Jubjub_n,
     dom_h = C_cx_Jubjub_h, dom_Hn = C_cx_Jubjub_Hn, dom_Hp = C_cx_Jubjub_Hq\<rparr>"

subsection \<open>Curve25519\<close>

definition C_cx_Curve25519_a :: bytes where
  "C_cx_Curve25519_a =
    [0x00, 0x00, 0x00, 0x00, 0x00, 0x00, 0x00, 0x00, 0x00, 0x00, 0x00, 0x00, 0x00, 0x00, 0x00,
     0x00, 0x00, 0x00, 0x00, 0x00, 0x00, 0x00, 0x00, 0x00, 0x00, 0x00, 0x00, 0x00, 0x00, 0x07,
     0x6d, 0x06]"

definition C_cx_Curve25519_b :: bytes where
  "C_cx_Curve25519_b =
    [0x00, 0x00, 0x00, 0x00, 0x00, 0x00, 0x00, 0x00, 0x00, 0x00, 0x00, 0x00, 0x00, 0x00, 0x00,
     0x00, 0x00, 0x00, 0x00, 0x00, 0x00, 0x00, 0x00, 0x00, 0x00, 0x00, 0x00, 0x00, 0x00, 0x00,
     0x00, 0x01]"

definition C_cx_Curve25519_p :: bytes where
  "C_cx_Curve25519_p =
    [0x7f, 0xff, 0xff, 0xff, 0xff, 0xff, 0xff, 0xff, 0xff, 0xff, 0xff, 0xff, 0xff, 0xff, 0xff,
     0xff, 0xff, 0xff, 0xff, 0xff, 0xff, 0xff, 0xff, 0xff, 0xff, 0xff, 0xff, 0xff, 0xff, 0xff,
     0xff, 0xed]"

definition C_cx_Curve25519_Hp :: bytes where
  "C_cx_Curve25519_Hp =
    [0x00, 0x00, 0x00, 0x00, 0x00, 0x00, 0x00, 0x00, 0x00, 0x00, 0x00, 0x00, 0x00, 0x00, 0x00,
     0x00, 0x00, 0x00, 0x00, 0x00, 0x00, 0x00, 0x00, 0x00, 0x00, 0x00, 0x00, 0x00, 0x00, 0x00,
     0x05, 0xa4]"

definition C_cx_Curve25519_Gx :: bytes where
  "C_cx_Curve25519_Gx =
    [0x00, 0x00, 0x00, 0x00, 0x00, 0x00, 0x00, 0x00, 0x00, 0x00, 0x00, 0x00, 0x00, 0x00, 0x00,
     0x00, 0x00, 0x00, 0x00, 0x00, 0x00, 0x00, 0x00, 0x00, 0x00, 0x00, 0x00, 0x00, 0x00, 0x00,
     0x00, 0x09]"

definition C_cx_Curve25519_Gy :: bytes where
  "C_cx_Curve25519_Gy =
    [0x5f, 0x51, 0xe6, 0x5e, 0x47, 0x5f, 0x79, 0x4b, 0x1f, 0xe1, 0x22, 0xd3, 0x88, 0xb7, 0x2e,
     0xb3, 0x6d, 0xc2, 0xb2, 0x81, 0x92, 0x83, 0x9e, 0x4d, 0xd6, 0x16, 0x3a, 0x5d, 0x81, 0x31,
     0x2c, 0x14]"

definition C_cx_Curve25519_n :: bytes where
  "C_cx_Curve25519_n =
    [0x10, 0x00, 0x00, 0x00, 0x00, 0x00, 0x00, 0x00, 0x00, 0x00, 0x00, 0x00, 0x00, 0x00, 0x00,
     0x00, 0x14, 0xde, 0xf9, 0xde, 0xa2, 0xf7, 0x9c, 0xd6, 0x58, 0x12, 0x63, 0x1a, 0x5c, 0xf5,
     0xd3, 0xed]"

definition C_cx_Curve25519_Hn :: bytes where
  "C_cx_Curve25519_Hn =
    [0x03, 0x99, 0x41, 0x1b, 0x7c, 0x30, 0x9a, 0x3d, 0xce, 0xec, 0x73, 0xd2, 0x17, 0xf5, 0xbe,
     0x65, 0xd0, 0x0e, 0x1b, 0xa7, 0x68, 0x85, 0x93, 0x47, 0xa4, 0x06, 0x11, 0xe3, 0x44, 0x9c,
     0x0f, 0x01]"

definition C_cx_Curve25519 :: cx_curve_domain where
  "C_cx_Curve25519 = \<lparr>dom_curve = CX_CURVE_Curve25519, dom_bit_size = 256, dom_length = 32,
     dom_a = C_cx_Curve25519_a, dom_b = C_cx_Curve25519_b, dom_p = C_cx_Curve25519_p,
     dom_Gx = C_cx_Curve25519_Gx, dom_Gy = C_cx_Curve25519_Gy, dom_n = C_cx_Curve25519_n,
     dom_h = C_cofactor_8, dom_Hn = C_cx_Curve25519_Hn, dom_Hp = C_cx_Curve25519_Hp\<rparr>"

subsection \<open>Curve448\<close>

definition C_cx_Curve448_a :: bytes where
  "C_cx_Curve448_a =
    [0x00, 0x00, 0x00, 0x00, 0x00, 0x00, 0x00, 0x00, 0x00, 0x00, 0x00, 0x00, 0x00, 0x00, 0x00,
     0x00, 0x00, 0x00, 0x00, 0x00, 0x00, 0x00, 0x00, 0x00, 0x00, 0x00, 0x00, 0x00, 0x00, 0x00,
     0x00, 0x00, 0x00, 0x00, 0x00, 0x00, 0x00, 0x00, 0x00, 0x00, 0x00, 0x00, 0x00, 0x00, 0x00,
     0x00, 0x00, 0x00, 0x00, 0x00, 0x00, 0x00, 0x00, 0x02, 0x62, 0xa6]"

definition C_cx_Curve448_b :: bytes where
  "C_cx_Curve448_b =
    [0x00, 0x00, 0x00, 0x00, 0x00, 0x00, 0x00, 0x00, 0x00, 0x00, 0x00, 0x00, 0x00, 0x00, 0x00,
     0x00, 0x00, 0x00, 0x00, 0x00, 0x00, 0x00, 0x00, 0x00, 0x00, 0x00, 0x00, 0x00, 0x00, 0x00,
     0x00, 0x00, 0x00, 0x00, 0x00, 0x00, 0x00, 0x00, 0x00, 0x00, 0x00, 0x00, 0x00, 0x00, 0x00,
     0x00, 0x00, 0x00, 0x00, 0x00, 0x00, 0x00, 0x00, 0x00, 0x00, 0x01]"

definition C_cx_Curve448_p :: bytes where
  "C_cx_Curve448_p =
    [0xff, 0xff, 0xff, 0xff, 0xff, 0xff, 0xff, 0xff, 0xff, 0xff, 0xff, 0xff, 0xff, 0xff, 0xff,
     0xff, 0xff, 0xff, 0xff, 0xff, 0xff, 0xff, 0xff, 0xff, 0xff, 0xff, 0xff, 0xfe, 0xff, 0xff,
     0xff, 0xff, 0xff, 0xff, 0xff, 0xff, 0xff, 0xff, 0xff, 0xff, 0xff, 0xff, 0xff, 0xff, 0xff,
     0xff, 0xff, 0xff, 0xff, 0xff, 0xff, 0xff, 0xff, 0xff, 0xff, 0xff]"

definition C_cx_Curve448_Hp :: bytes where
  "C_cx_Curve448_Hp =
    [0x00, 0x00, 0x00, 0x00, 0x00, 0x00, 0x00, 0x00, 0x00, 0x00, 0x00, 0x03, 0x00, 0x00, 0x00,
     0x00, 0x00, 0x00, 0x00, 0x00, 0x00, 0x00, 0x00, 0x00, 0x00, 0x00, 0x00, 0x00, 0x00, 0x00,
     0x00, 0x00, 0x00, 0x00, 0x00, 0x00, 0x00, 0x00, 0x00, 0x02, 0x00, 0x00, 0x00, 0x00, 0x00,
     0x00, 0x00, 0x00, 0x00, 0x00, 0x00, 0x00, 0x00, 0x00, 0x00, 0x00]"

definition C_cx_Curve448_Gx :: bytes where
  "C_cx_Curve448_Gx =
    [0x00, 0x00, 0x00, 0x00, 0x00, 0x00, 0x00, 0x00, 0x00, 0x00, 0x00, 0x00, 0x00, 0x00, 0x00,
     0x00, 0x00, 0x00, 0x00, 0x00, 0x00, 0x00, 0x00, 0x00, 0x00, 0x00, 0x00, 0x00, 0x00, 0x00,
     0x00, 0x00, 0x00, 0x00, 0x00, 0x00, 0x00, 0x00, 0x00, 0x00, 0x00, 0x00, 0x00, 0x00, 0x00,
     0x00, 0x00, 0x00, 0x00, 0x00, 0x00, 0x00, 0x00, 0x00, 0x00, 0x05]"

definition C_cx_Curve448_Gy :: bytes where
  "C_cx_Curve448_Gy =
    [0x7d, 0x23, 0x5d, 0x12, 0x95, 0xf5, 0xb1, 0xf6, 0x6c, 0x98, 0xab, 0x6e, 0x58, 0x32, 0x6f,
     0xce, 0xcb, 0xae, 0x5d, 0x34, 0xf5, 0x55, 0x45, 0xd0, 0x60, 0xf7, 0x5d, 0xc2, 0x8d, 0xf3,
     0xf6, 0xed, 0xb8, 0x02, 0x7e, 0x23, 0x46, 0x43, 0x0d, 0x21, 0x13, 0x12, 0xc4, 0xb1, 0x50,
     0x67, 0x7a, 0xf7, 0x6f, 0xd7, 0x22, 0x3d, 0x45, 0x7b, 0x5b, 0x1a]"

definition C_cx_Curve448_n :: bytes where
  "C_cx_Curve448_n =
    [0x3f, 0xff, 0xff, 0xff, 0xff, 0xff, 0xff, 0xff, 0xff, 0xff, 0xff, 0xff, 0xff, 0xff, 0xff,
     0xff, 0xff, 0xff, 0xff, 0xff, 0xff, 0xff, 0xff, 0xff, 0xff, 0xff, 0xff, 0xff, 0x7c, 0xca,
     0x23, 0xe9, 0xc4, 0x4e, 0xdb, 0x49, 0xae, 0xd6, 0x36, 0x90, 0x21, 0x6c, 0xc2, 0x72, 0x8d,
     0xc5, 0x8f, 0x55, 0x23, 0x78, 0xc2, 0x92, 0xab, 0x58, 0x44, 0xf3]"

definition C_cx_Curve448_Hn :: bytes where
  "C_cx_Curve448_Hn =
    [0x1a, 0x9c, 0xc1, 0x4b, 0xa3, 0xc4, 0x7c, 0x44, 0xae, 0x17, 0xcf, 0x72, 0xc9, 0x86, 0x0f,
     0xaa, 0x10, 0x75, 0x50, 0xba, 0x94, 0xd0, 0xe8, 0x08, 0xf1, 0x0a, 0x98, 0xef, 0x88, 0xe1,
     0x5b, 0xb4, 0x8b, 0xd8, 0x27, 0xde, 0x12, 0x7c, 0xe5, 0xf2, 0x3e, 0x0a, 0xa6, 0x8d, 0x30,
     0xdb, 0xb9, 0x89, 0xbb, 0xec, 0xff, 0xc3, 0x3c, 0x3a, 0x37, 0x8c]"

definition C_cx_Curve448 :: cx_curve_domain where
  "C_cx_Curve448 = \<lparr>dom_curve = CX_CURVE_Curve448, dom_bit_size = 448, dom_length = 56,
     dom_a = C_cx_Curve448_a, dom_b = C_cx_Curve448_b, dom_p = C_cx_Curve448_p,
     dom_Gx = C_cx_Curve448_Gx, dom_Gy = C_cx_Curve448_Gy, dom_n = C_cx_Curve448_n,
     dom_h = C_cofactor_4, dom_Hn = C_cx_Curve448_Hn, dom_Hp = C_cx_Curve448_Hp\<rparr>"

definition C_cx_allCurves :: "cx_curve_domain list" where
  "C_cx_allCurves =
    [C_cx_secp256k1, C_cx_secp256r1, C_cx_secp384r1, C_cx_secp521r1, C_cx_BrainpoolP256r1,
     C_cx_BrainpoolP256t1, C_cx_BrainpoolP320r1, C_cx_BrainpoolP320t1, C_cx_BrainpoolP384r1,
     C_cx_BrainpoolP384t1, C_cx_BrainpoolP512r1, C_cx_BrainpoolP512t1, C_cx_Stark256,
     C_cx_BLS12_381_G1, C_cx_BLS12_377_G1, C_cx_Pallas, C_cx_Vesta, C_cx_Ed25519, C_cx_Ed448,
     C_cx_EdBLS12, C_cx_Jubjub, C_cx_Curve25519, C_cx_Curve448]"

end
