(* ===== verification/Curve_Checks_1.thy ===== *)
theory Curve_Checks_1
  imports Cx_Curves
begin

text \<open>
  The parameters of the SEC and Stark curves, checked.
\<close>

lemma C_cx_secp256k1_values:
  "os2ip C_cx_secp256k1_a = 0"
  "os2ip C_cx_secp256k1_b = 7"
  "os2ip C_cx_secp256k1_p = 0xfffffffffffffffffffffffffffffffffffffffffffffffffffffffefffffc2f"
  "os2ip C_cx_secp256k1_Gx = 0x79be667ef9dcbbac55a06295ce870b07029bfcdb2dce28d959f2815b16f81798"
  "os2ip C_cx_secp256k1_Gy = 0x483ada7726a3c4655da4fbfc0e1108a8fd17b448a68554199c47d08ffb10d4b8"
  "os2ip C_cx_secp256k1_n = 0xfffffffffffffffffffffffffffffffebaaedce6af48a03bbfd25e8cd0364141"
  "os2ip C_cx_secp256k1_Hp = 0x1000007a2000e90a1"
  "os2ip C_cx_secp256k1_Hn = 0x9d671cd581c69bc5e697f5e45bcd07c6741496c20e7cf878896cf21467d7d140"
  by (simp_all add: os2ip_def C_cx_secp256k1_a_def C_cx_secp256k1_b_def C_cx_secp256k1_p_def C_cx_secp256k1_Gx_def C_cx_secp256k1_Gy_def C_cx_secp256k1_n_def C_cx_secp256k1_Hp_def C_cx_secp256k1_Hn_def)

lemma C_cx_secp256k1_red_x:
  "(0x79be667ef9dcbbac55a06295ce870b07029bfcdb2dce28d959f2815b16f81798::int) * 0x79be667ef9dcbbac55a06295ce870b07029bfcdb2dce28d959f2815b16f81798 = 0x39e58a8055b6fb264b75ec8c646509784204ac15a8c24e05babc9729e58090b9 * 0xfffffffffffffffffffffffffffffffffffffffffffffffffffffffefffffc2f + 0x8550e7d238fcf3086ba9adcf0fb52a9de3652194d06cb5bb38d50229b854fc49"
  by code_simp

lemma C_cx_secp256k1_red_r:
  "((0x8550e7d238fcf3086ba9adcf0fb52a9de3652194d06cb5bb38d50229b854fc49::int) + 0) * 0x79be667ef9dcbbac55a06295ce870b07029bfcdb2dce28d959f2815b16f81798 + 7 = 0x3f6664fec7445b86bad8c9a43effc5dc7384557bb62eadd8e2177ae0a2039723 * 0xfffffffffffffffffffffffffffffffffffffffffffffffffffffffefffffc2f + 0x4866d6a5ab41ab2c6bcc57ccd3735da5f16f80a548e5e20a44e4e9b8118c26f2"
  by code_simp

lemma C_cx_secp256k1_red_y:
  "(0x483ada7726a3c4655da4fbfc0e1108a8fd17b448a68554199c47d08ffb10d4b8::int) * 0x483ada7726a3c4655da4fbfc0e1108a8fd17b448a68554199c47d08ffb10d4b8 = 0x1461286abe28c5f1df2d7d4bca391b5070f6ec678fe75b56871bf154987e3e12 * 0xfffffffffffffffffffffffffffffffffffffffffffffffffffffffefffffc2f + 0x4866d6a5ab41ab2c6bcc57ccd3735da5f16f80a548e5e20a44e4e9b8118c26f2"
  by code_simp

lemma C_cx_secp256k1_base: "base_point_ok C_cx_secp256k1"
  by (rule base_point_on_weierstrassI, simp add: C_cx_secp256k1_def cx_curve_kinds cx_curve_ids,
      simp only: C_cx_secp256k1_def cx_curve_domain.simps C_cx_secp256k1_values,
      rule on_weierstrassI [OF C_cx_secp256k1_red_x C_cx_secp256k1_red_r C_cx_secp256k1_red_y])

lemma C_cx_secp256k1_Hp: "Hp_ok C_cx_secp256k1"
  unfolding Hp_ok_def C_cx_secp256k1_def cx_curve_domain.simps C_cx_secp256k1_values
  by (rule mont_constI [where q = "0x100000000000000000000000000000000000000000000000000000001000003d1"]) code_simp+

lemma C_cx_secp256k1_Hn: "Hn_ok C_cx_secp256k1"
  unfolding Hn_ok_def C_cx_secp256k1_def cx_curve_domain.simps C_cx_secp256k1_values
  by (rule mont_constI [where q = "0x1000000000000000000000000000000014551231950b75fc4402da1732fc9bec0"]) code_simp+

lemma C_cx_secp256k1_reduced: "reduced_ok C_cx_secp256k1"
  by (simp add: reduced_ok_def C_cx_secp256k1_def C_cx_secp256k1_values)

lemma C_cx_secp256k1_sizes: "sizes_ok C_cx_secp256k1"
  by (simp add: sizes_ok_def C_cx_secp256k1_def C_cx_secp256k1_a_def C_cx_secp256k1_b_def C_cx_secp256k1_p_def C_cx_secp256k1_Gx_def C_cx_secp256k1_Gy_def C_cx_secp256k1_n_def C_cx_secp256k1_Hp_def C_cx_secp256k1_Hn_def C_cofactor_1_def)

lemma C_cx_secp256k1_hasse: "hasse_ok C_cx_secp256k1"
  unfolding hasse_ok_def C_cx_secp256k1_def cx_curve_domain.simps C_cx_secp256k1_values cofactor_values by code_simp

lemma C_cx_secp256r1_values:
  "os2ip C_cx_secp256r1_a = 0xffffffff00000001000000000000000000000000fffffffffffffffffffffffc"
  "os2ip C_cx_secp256r1_b = 0x5ac635d8aa3a93e7b3ebbd55769886bc651d06b0cc53b0f63bce3c3e27d2604b"
  "os2ip C_cx_secp256r1_p = 0xffffffff00000001000000000000000000000000ffffffffffffffffffffffff"
  "os2ip C_cx_secp256r1_Gx = 0x6b17d1f2e12c4247f8bce6e563a440f277037d812deb33a0f4a13945d898c296"
  "os2ip C_cx_secp256r1_Gy = 0x4fe342e2fe1a7f9b8ee7eb4a7c0f9e162bce33576b315ececbb6406837bf51f5"
  "os2ip C_cx_secp256r1_n = 0xffffffff00000000ffffffffffffffffbce6faada7179e84f3b9cac2fc632551"
  "os2ip C_cx_secp256r1_Hp = 0x4fffffffdfffffffffffffffefffffffbffffffff0000000000000003"
  "os2ip C_cx_secp256r1_Hn = 0x66e12d94f3d956202845b2392b6bec594699799c49bd6fa683244c95be79eea2"
  by (simp_all add: os2ip_def C_cx_secp256r1_a_def C_cx_secp256r1_b_def C_cx_secp256r1_p_def C_cx_secp256r1_Gx_def C_cx_secp256r1_Gy_def C_cx_secp256r1_n_def C_cx_secp256r1_Hp_def C_cx_secp256r1_Hn_def)

lemma C_cx_secp256r1_red_x:
  "(0x6b17d1f2e12c4247f8bce6e563a440f277037d812deb33a0f4a13945d898c296::int) * 0x6b17d1f2e12c4247f8bce6e563a440f277037d812deb33a0f4a13945d898c296 = 0x2cccebb89adadb2d42e032c9f9d26319901d0e9589fc7dbbcf3d110b7c638fa8 * 0xffffffff00000001000000000000000000000000ffffffffffffffffffffffff + 0x98f6b84d29bef2b281819a5e0e3690d833b699495d694dd1002ae56c426b3f8c"
  by code_simp

lemma C_cx_secp256r1_red_r:
  "((0x98f6b84d29bef2b281819a5e0e3690d833b699495d694dd1002ae56c426b3f8c::int) + 0xffffffff00000001000000000000000000000000fffffffffffffffffffffffc) * 0x6b17d1f2e12c4247f8bce6e563a440f277037d812deb33a0f4a13945d898c296 + 0x5ac635d8aa3a93e7b3ebbd55769886bc651d06b0cc53b0f63bce3c3e27d2604b = 0xab152c987cc7ae8a34afd320a9e06ebaeaf89d6d9746034ffb29240950354396 * 0xffffffff00000001000000000000000000000000ffffffffffffffffffffffff + 0x55df5d5850f47bad82149139979369fe498a9022a412b5e0bedd2cfc21c3ed91"
  by code_simp

lemma C_cx_secp256r1_red_y:
  "(0x4fe342e2fe1a7f9b8ee7eb4a7c0f9e162bce33576b315ececbb6406837bf51f5::int) * 0x4fe342e2fe1a7f9b8ee7eb4a7c0f9e162bce33576b315ececbb6406837bf51f5 = 0x18ee0d07e1cadf1365bd80dd843314dd534834655163ed44a7f051b975f0f918 * 0xffffffff00000001000000000000000000000000ffffffffffffffffffffffff + 0x55df5d5850f47bad82149139979369fe498a9022a412b5e0bedd2cfc21c3ed91"
  by code_simp

lemma C_cx_secp256r1_base: "base_point_ok C_cx_secp256r1"
  by (rule base_point_on_weierstrassI, simp add: C_cx_secp256r1_def cx_curve_kinds cx_curve_ids,
      simp only: C_cx_secp256r1_def cx_curve_domain.simps C_cx_secp256r1_values,
      rule on_weierstrassI [OF C_cx_secp256r1_red_x C_cx_secp256r1_red_r C_cx_secp256r1_red_y])

lemma C_cx_secp256r1_Hp: "Hp_ok C_cx_secp256r1"
  unfolding Hp_ok_def C_cx_secp256r1_def cx_curve_domain.simps C_cx_secp256r1_values
  by (rule mont_constI [where q = "0x100000000fffffffffffffffefffffffefffffffeffffffff0000000000000003"]) code_simp+

lemma C_cx_secp256r1_Hn: "Hn_ok C_cx_secp256r1"
  unfolding Hn_ok_def C_cx_secp256r1_def cx_curve_domain.simps C_cx_secp256r1_values
  by (rule mont_constI [where q = "0x100000000fffffffffffffffeffffffff43190552df1a6c21012ffd85eedf9bfe"]) code_simp+

lemma C_cx_secp256r1_reduced: "reduced_ok C_cx_secp256r1"
  by (simp add: reduced_ok_def C_cx_secp256r1_def C_cx_secp256r1_values)

lemma C_cx_secp256r1_sizes: "sizes_ok C_cx_secp256r1"
  by (simp add: sizes_ok_def C_cx_secp256r1_def C_cx_secp256r1_a_def C_cx_secp256r1_b_def C_cx_secp256r1_p_def C_cx_secp256r1_Gx_def C_cx_secp256r1_Gy_def C_cx_secp256r1_n_def C_cx_secp256r1_Hp_def C_cx_secp256r1_Hn_def C_cofactor_1_def)

lemma C_cx_secp256r1_hasse: "hasse_ok C_cx_secp256r1"
  unfolding hasse_ok_def C_cx_secp256r1_def cx_curve_domain.simps C_cx_secp256r1_values cofactor_values by code_simp

lemma C_cx_secp384r1_values:
  "os2ip C_cx_secp384r1_a = 0xfffffffffffffffffffffffffffffffffffffffffffffffffffffffffffffffeffffffff0000000000000000fffffffc"
  "os2ip C_cx_secp384r1_b = 0xb3312fa7e23ee7e4988e056be3f82d19181d9c6efe8141120314088f5013875ac656398d8a2ed19d2a85c8edd3ec2aef"
  "os2ip C_cx_secp384r1_p = 0xfffffffffffffffffffffffffffffffffffffffffffffffffffffffffffffffeffffffff0000000000000000ffffffff"
  "os2ip C_cx_secp384r1_Gx = 0xaa87ca22be8b05378eb1c71ef320ad746e1d3b628ba79b9859f741e082542a385502f25dbf55296c3a545e3872760ab7"
  "os2ip C_cx_secp384r1_Gy = 0x3617de4a96262c6f5d9e98bf9292dc29f8f41dbd289a147ce9da3113b5f0b8c00a60b1ce1d7e819d7a431d7c90ea0e5f"
  "os2ip C_cx_secp384r1_n = 0xffffffffffffffffffffffffffffffffffffffffffffffffc7634d81f4372ddf581a0db248b0a77aecec196accc52973"
  "os2ip C_cx_secp384r1_Hp = 0x10000000200000000fffffffe000000000000000200000000fffffffe00000001"
  "os2ip C_cx_secp384r1_Hn = 0xc84ee012b39bf213fb05b7a28266895d40d49174aab1cc5bc3e483afcb82947ff3d81e5df1aa4192d319b2419b409a9"
  by (simp_all add: os2ip_def C_cx_secp384r1_a_def C_cx_secp384r1_b_def C_cx_secp384r1_p_def C_cx_secp384r1_Gx_def C_cx_secp384r1_Gy_def C_cx_secp384r1_n_def C_cx_secp384r1_Hp_def C_cx_secp384r1_Hn_def)

lemma C_cx_secp384r1_red_x:
  "(0xaa87ca22be8b05378eb1c71ef320ad746e1d3b628ba79b9859f741e082542a385502f25dbf55296c3a545e3872760ab7::int) * 0xaa87ca22be8b05378eb1c71ef320ad746e1d3b628ba79b9859f741e082542a385502f25dbf55296c3a545e3872760ab7 = 0x7198a07cf55072f7d9185324b5419eff77a9c6831cfed18efad243bcfaa857d93c85228796f0789fc6db9951cf81e148 * 0xfffffffffffffffffffffffffffffffffffffffffffffffffffffffffffffffeffffffff0000000000000000ffffffff + 0x46af925fa51ac496728217df5bc7c1fc3353aca34a380e1ffd8419fe7b13f6a92e8614fee38a288e2222412aca8b019"
  by code_simp

lemma C_cx_secp384r1_red_r:
  "((0x46af925fa51ac496728217df5bc7c1fc3353aca34a380e1ffd8419fe7b13f6a92e8614fee38a288e2222412aca8b019::int) + 0xfffffffffffffffffffffffffffffffffffffffffffffffffffffffffffffffeffffffff0000000000000000fffffffc) * 0xaa87ca22be8b05378eb1c71ef320ad746e1d3b628ba79b9859f741e082542a385502f25dbf55296c3a545e3872760ab7 + 0xb3312fa7e23ee7e4988e056be3f82d19181d9c6efe8141120314088f5013875ac656398d8a2ed19d2a85c8edd3ec2aef = 0xad792b7c5be31c585c69d5880a55b6451c15b8803c0d98f4fec13868322c183d38944cf5270ed2f352ac5176c8fc7a1c * 0xfffffffffffffffffffffffffffffffffffffffffffffffffffffffffffffffeffffffff0000000000000000ffffffff + 0xdda3f84d36cf26f1e1d86567d28802d3bc27d9e01dd940b9c2701ace3fc91bf708dff93308d2ee64526d1dda240d560e"
  by code_simp

lemma C_cx_secp384r1_red_y:
  "(0x3617de4a96262c6f5d9e98bf9292dc29f8f41dbd289a147ce9da3113b5f0b8c00a60b1ce1d7e819d7a431d7c90ea0e5f::int) * 0x3617de4a96262c6f5d9e98bf9292dc29f8f41dbd289a147ce9da3113b5f0b8c00a60b1ce1d7e819d7a431d7c90ea0e5f = 0xb6e140129c487c052b553752f5afaf3663c57ceb12c94101690de08a71a45d4f4e0bdfe11437eac823e5475fd92cecd * 0xfffffffffffffffffffffffffffffffffffffffffffffffffffffffffffffffeffffffff0000000000000000ffffffff + 0xdda3f84d36cf26f1e1d86567d28802d3bc27d9e01dd940b9c2701ace3fc91bf708dff93308d2ee64526d1dda240d560e"
  by code_simp

lemma C_cx_secp384r1_base: "base_point_ok C_cx_secp384r1"
  by (rule base_point_on_weierstrassI, simp add: C_cx_secp384r1_def cx_curve_kinds cx_curve_ids,
      simp only: C_cx_secp384r1_def cx_curve_domain.simps C_cx_secp384r1_values,
      rule on_weierstrassI [OF C_cx_secp384r1_red_x C_cx_secp384r1_red_r C_cx_secp384r1_red_y])

lemma C_cx_secp384r1_Hp: "Hp_ok C_cx_secp384r1"
  unfolding Hp_ok_def C_cx_secp384r1_def cx_curve_domain.simps C_cx_secp384r1_values
  by (rule mont_constI [where q = "0x1000000000000000000000000000000000000000000000000000000000000000100000000ffffffffffffffff00000001"]) code_simp+

lemma C_cx_secp384r1_Hn: "Hn_ok C_cx_secp384r1"
  unfolding Hn_ok_def C_cx_secp384r1_def cx_curve_domain.simps C_cx_secp384r1_values
  by (rule mont_constI [where q = "0x1000000000000000000000000000000000000000000000000389cb27e0bc8d220a7e5f24db74f58851313e695333ad68d"]) code_simp+

lemma C_cx_secp384r1_reduced: "reduced_ok C_cx_secp384r1"
  by (simp add: reduced_ok_def C_cx_secp384r1_def C_cx_secp384r1_values)

lemma C_cx_secp384r1_sizes: "sizes_ok C_cx_secp384r1"
  by (simp add: sizes_ok_def C_cx_secp384r1_def C_cx_secp384r1_a_def C_cx_secp384r1_b_def C_cx_secp384r1_p_def C_cx_secp384r1_Gx_def C_cx_secp384r1_Gy_def C_cx_secp384r1_n_def C_cx_secp384r1_Hp_def C_cx_secp384r1_Hn_def C_cofactor_1_def)

lemma C_cx_secp384r1_hasse: "hasse_ok C_cx_secp384r1"
  unfolding hasse_ok_def C_cx_secp384r1_def cx_curve_domain.simps C_cx_secp384r1_values cofactor_values by code_simp

lemma C_cx_secp521r1_values:
  "os2ip C_cx_secp521r1_a = 0x1fffffffffffffffffffffffffffffffffffffffffffffffffffffffffffffffffffffffffffffffffffffffffffffffffffffffffffffffffffffffffffffffffc"
  "os2ip C_cx_secp521r1_b = 0x51953eb9618e1c9a1f929a21a0b68540eea2da725b99b315f3b8b489918ef109e156193951ec7e937b1652c0bd3bb1bf073573df883d2c34f1ef451fd46b503f00"
  "os2ip C_cx_secp521r1_p = 0x1ffffffffffffffffffffffffffffffffffffffffffffffffffffffffffffffffffffffffffffffffffffffffffffffffffffffffffffffffffffffffffffffffff"
  "os2ip C_cx_secp521r1_Gx = 0xc6858e06b70404e9cd9e3ecb662395b4429c648139053fb521f828af606b4d3dbaa14b5e77efe75928fe1dc127a2ffa8de3348b3c1856a429bf97e7e31c2e5bd66"
  "os2ip C_cx_secp521r1_Gy = 0x11839296a789a3bc0045c8a5fb42c7d1bd998f54449579b446817afbd17273e662c97ee72995ef42640c550b9013fad0761353c7086a272c24088be94769fd16650"
  "os2ip C_cx_secp521r1_n = 0x1fffffffffffffffffffffffffffffffffffffffffffffffffffffffffffffffffa51868783bf2f966b7fcc0148f709a5d03bb5c9b8899c47aebb6fb71e91386409"
  "os2ip C_cx_secp521r1_Hp = 0x400000000000000000000000000000000000000000000000000000000000"
  "os2ip C_cx_secp521r1_Hn = 0x1bccff3d142b7756e3edd6e23d82e49c7dc813d00ebc545059b805cc3494290a7c8184742d700e081094e893c9cf652227d465b9f7266b47ee7f056219651920bb5"
  by (simp_all add: os2ip_def C_cx_secp521r1_a_def C_cx_secp521r1_b_def C_cx_secp521r1_p_def C_cx_secp521r1_Gx_def C_cx_secp521r1_Gy_def C_cx_secp521r1_n_def C_cx_secp521r1_Hp_def C_cx_secp521r1_Hn_def)

lemma C_cx_secp521r1_red_x:
  "(0xc6858e06b70404e9cd9e3ecb662395b4429c648139053fb521f828af606b4d3dbaa14b5e77efe75928fe1dc127a2ffa8de3348b3c1856a429bf97e7e31c2e5bd66::int) * 0xc6858e06b70404e9cd9e3ecb662395b4429c648139053fb521f828af606b4d3dbaa14b5e77efe75928fe1dc127a2ffa8de3348b3c1856a429bf97e7e31c2e5bd66 = 0x4cf96eafa26fea7e28bd64dbbee5490925d1d6a4d9d6bc6f63f996ced9af87a06d0a16821501201643168743d1883809f503ce9430576f12e985e994485fea5857 * 0x1ffffffffffffffffffffffffffffffffffffffffffffffffffffffffffffffffffffffffffffffffffffffffffffffffffffffffffffffffffffffffffffffffff + 0x1a0c5f6b208884c559039bfcd9ce1e18654802685c92a22d428bee74ec50b2a6be5b56f5205a9faadebf612dd3ab10c46b0d790b1c6e816ce8ab9157e8f5c861cfb"
  by code_simp

lemma C_cx_secp521r1_red_r:
  "((0x1a0c5f6b208884c559039bfcd9ce1e18654802685c92a22d428bee74ec50b2a6be5b56f5205a9faadebf612dd3ab10c46b0d790b1c6e816ce8ab9157e8f5c861cfb::int) + 0x1fffffffffffffffffffffffffffffffffffffffffffffffffffffffffffffffffffffffffffffffffffffffffffffffffffffffffffffffffffffffffffffffffc) * 0xc6858e06b70404e9cd9e3ecb662395b4429c648139053fb521f828af606b4d3dbaa14b5e77efe75928fe1dc127a2ffa8de3348b3c1856a429bf97e7e31c2e5bd66 + 0x51953eb9618e1c9a1f929a21a0b68540eea2da725b99b315f3b8b489918ef109e156193951ec7e937b1652c0bd3bb1bf073573df883d2c34f1ef451fd46b503f00 = 0x1681ed37684473d830c382ee305cb1ddebac081e704fb4eec73bb0eca2e0f63f7424746276ddba76b0a9fea9414e8dcd7e8a0e272cb8b93fbf3144436e4469a897c * 0x1ffffffffffffffffffffffffffffffffffffffffffffffffffffffffffffffffffffffffffffffffffffffffffffffffffffffffffffffffffffffffffffffffff + 0x17d1b55e69ce70dbfb18dd9d0e1bfcb0098365900ef85819564482d07dbd99f1caad97470c4b347640227c84c688f795df1eb45d49fa193bda8b3641e58a9afade6"
  by code_simp

lemma C_cx_secp521r1_red_y:
  "(0x11839296a789a3bc0045c8a5fb42c7d1bd998f54449579b446817afbd17273e662c97ee72995ef42640c550b9013fad0761353c7086a272c24088be94769fd16650::int) * 0x11839296a789a3bc0045c8a5fb42c7d1bd998f54449579b446817afbd17273e662c97ee72995ef42640c550b9013fad0761353c7086a272c24088be94769fd16650 = 0x995e8bae2ff72f26125d28a017616fc6bf04994bf6989853c7b0875a1fd4ac3460bb08afd897949b8b70ad887675edc19e6fc44bbb3a923e5dfd878439122bd4e6 * 0x1ffffffffffffffffffffffffffffffffffffffffffffffffffffffffffffffffffffffffffffffffffffffffffffffffffffffffffffffffffffffffffffffffff + 0x17d1b55e69ce70dbfb18dd9d0e1bfcb0098365900ef85819564482d07dbd99f1caad97470c4b347640227c84c688f795df1eb45d49fa193bda8b3641e58a9afade6"
  by code_simp

lemma C_cx_secp521r1_base: "base_point_ok C_cx_secp521r1"
  by (rule base_point_on_weierstrassI, simp add: C_cx_secp521r1_def cx_curve_kinds cx_curve_ids,
      simp only: C_cx_secp521r1_def cx_curve_domain.simps C_cx_secp521r1_values,
      rule on_weierstrassI [OF C_cx_secp521r1_red_x C_cx_secp521r1_red_r C_cx_secp521r1_red_y])

lemma C_cx_secp521r1_Hp: "Hp_ok C_cx_secp521r1"
  unfolding Hp_ok_def C_cx_secp521r1_def cx_curve_domain.simps C_cx_secp521r1_values
  by (rule mont_constI [where q = "0x8000000000000000000000000000000000000000000000000000000000000000000000000000000000000000000000000000000000000000000000000000000000400000000000000000000000000000000000000000000000000000000000"]) code_simp+

lemma C_cx_secp521r1_Hn: "Hn_ok C_cx_secp521r1"
  unfolding Hn_ok_def C_cx_secp521r1_def cx_curve_domain.simps C_cx_secp521r1_values
  by (rule mont_constI [where q = "0x8000000000000000000000000000000000000000000000000000000000000000016b9e5e1f10341a65200cffadc23d968bf1128d91dd98ee14512412385bb1e6fdc408f501c8d1cd2dad1d7f46221c1e96c701e8a49686a2ade636b0d472b3"]) code_simp+

lemma C_cx_secp521r1_reduced: "reduced_ok C_cx_secp521r1"
  by (simp add: reduced_ok_def C_cx_secp521r1_def C_cx_secp521r1_values)

lemma C_cx_secp521r1_sizes: "sizes_ok C_cx_secp521r1"
  by (simp add: sizes_ok_def C_cx_secp521r1_def C_cx_secp521r1_a_def C_cx_secp521r1_b_def C_cx_secp521r1_p_def C_cx_secp521r1_Gx_def C_cx_secp521r1_Gy_def C_cx_secp521r1_n_def C_cx_secp521r1_Hp_def C_cx_secp521r1_Hn_def C_cofactor_1_def)

lemma C_cx_secp521r1_hasse: "hasse_ok C_cx_secp521r1"
  unfolding hasse_ok_def C_cx_secp521r1_def cx_curve_domain.simps C_cx_secp521r1_values cofactor_values by code_simp

lemma C_cx_Stark256_values:
  "os2ip C_cx_Stark256_a = 1"
  "os2ip C_cx_Stark256_b = 0x6f21413efbe40de150e596d72f7a8c5609ad26c15c915c1f4cdfcb99cee9e89"
  "os2ip C_cx_Stark256_p = 0x800000000000011000000000000000000000000000000000000000000000001"
  "os2ip C_cx_Stark256_Gx = 0x1ef15c18599971b7beced415a40f0c7deacfd9b0d1819e03d723d8bc943cfca"
  "os2ip C_cx_Stark256_Gy = 0x5668060aa49730b7be4801df46ec62de53ecd11abe43a32873000c36e8dc1f"
  "os2ip C_cx_Stark256_n = 0x800000000000010ffffffffffffffffb781126dcae7b2321e66a241adc64d2f"
  "os2ip C_cx_Stark256_Hp = 0x7ffd4ab5e008810ffffffffff6f800000000001330ffffffffffd737e000401"
  "os2ip C_cx_Stark256_Hn = 0x7d9e57c2333766ebaf0ab4cf78bbabb509cf64d14ce60b96021b3f1ea1c688d"
  by (simp_all add: os2ip_def C_cx_Stark256_a_def C_cx_Stark256_b_def C_cx_Stark256_p_def C_cx_Stark256_Gx_def C_cx_Stark256_Gy_def C_cx_Stark256_n_def C_cx_Stark256_Hp_def C_cx_Stark256_Hn_def)

lemma C_cx_Stark256_red_x:
  "(0x1ef15c18599971b7beced415a40f0c7deacfd9b0d1819e03d723d8bc943cfca::int) * 0x1ef15c18599971b7beced415a40f0c7deacfd9b0d1819e03d723d8bc943cfca = 0x77aea4877f4587cdfe47d88833aab287075ac1f82fea693f8ba55a02a4bfc2 * 0x800000000000011000000000000000000000000000000000000000000000001 + 0x13416d95f2766d226ec11946f9fb4086c92cdea7426a6c09341d2439dbf8ba2"
  by code_simp

lemma C_cx_Stark256_red_r:
  "((0x13416d95f2766d226ec11946f9fb4086c92cdea7426a6c09341d2439dbf8ba2::int) + 1) * 0x1ef15c18599971b7beced415a40f0c7deacfd9b0d1819e03d723d8bc943cfca + 0x6f21413efbe40de150e596d72f7a8c5609ad26c15c915c1f4cdfcb99cee9e89 = 0x4a7a4ba29a92a68e40065b16716b0632054620b0d8d06a2ec06d28af4b3ad9 * 0x800000000000011000000000000000000000000000000000000000000000001 + 0x8d80397b08669c28921c94267ed7455c03c6a0a15a0d2ea06c7bbecf595f4e"
  by code_simp

lemma C_cx_Stark256_red_y:
  "(0x5668060aa49730b7be4801df46ec62de53ecd11abe43a32873000c36e8dc1f::int) * 0x5668060aa49730b7be4801df46ec62de53ecd11abe43a32873000c36e8dc1f = 0x3a541ca81ebf9efad75e083e120496a4c3253148c96e0050937d5fa1bec73 * 0x800000000000011000000000000000000000000000000000000000000000001 + 0x8d80397b08669c28921c94267ed7455c03c6a0a15a0d2ea06c7bbecf595f4e"
  by code_simp

lemma C_cx_Stark256_base: "base_point_ok C_cx_Stark256"
  by (rule base_point_on_weierstrassI, simp add: C_cx_Stark256_def cx_curve_kinds cx_curve_ids,
      simp only: C_cx_Stark256_def cx_curve_domain.simps C_cx_Stark256_values,
      rule on_weierstrassI [OF C_cx_Stark256_red_x C_cx_Stark256_red_r C_cx_Stark256_red_y])

lemma C_cx_Stark256_Hp: "Hp_ok C_cx_Stark256"
  unfolding Hp_ok_def C_cx_Stark256_def cx_curve_domain.simps C_cx_Stark256_values
  by (rule mont_constI [where q = "0x1fffffffffffffbc000000000000907ffffffffffeccf000000000028c81fffbff"]) code_simp+

lemma C_cx_Stark256_Hn: "Hn_ok C_cx_Stark256"
  unfolding Hn_ok_def C_cx_Stark256_def cx_curve_domain.simps C_cx_Stark256_values
  by (rule mont_constI [where q = "0x1fffffffffffffbc000000000000908121fbb648d32e2267189ec175384d77b0fd"]) code_simp+

lemma C_cx_Stark256_reduced: "reduced_ok C_cx_Stark256"
  by (simp add: reduced_ok_def C_cx_Stark256_def C_cx_Stark256_values)

lemma C_cx_Stark256_sizes: "sizes_ok C_cx_Stark256"
  by (simp add: sizes_ok_def C_cx_Stark256_def C_cx_Stark256_a_def C_cx_Stark256_b_def C_cx_Stark256_p_def C_cx_Stark256_Gx_def C_cx_Stark256_Gy_def C_cx_Stark256_n_def C_cx_Stark256_Hp_def C_cx_Stark256_Hn_def C_cofactor_1_def)

lemma C_cx_Stark256_hasse: "hasse_ok C_cx_Stark256"
  unfolding hasse_ok_def C_cx_Stark256_def cx_curve_domain.simps C_cx_Stark256_values cofactor_values by code_simp

end
