(* ===== verification/Curve_Checks_2.thy ===== *)
theory Curve_Checks_2
  imports Cx_Curves
begin

text \<open>
  The parameters of the Brainpool curves, checked.
\<close>

lemma C_cx_BrainpoolP256r1_values:
  "os2ip C_cx_BrainpoolP256r1_a = 0x7d5a0975fc2c3057eef67530417affe7fb8055c126dc5c6ce94a4b44f330b5d9"
  "os2ip C_cx_BrainpoolP256r1_b = 0x26dc5c6ce94a4b44f330b5d9bbd77cbf958416295cf7e1ce6bccdc18ff8c07b6"
  "os2ip C_cx_BrainpoolP256r1_p = 0xa9fb57dba1eea9bc3e660a909d838d726e3bf623d52620282013481d1f6e5377"
  "os2ip C_cx_BrainpoolP256r1_Gx = 0x8bd2aeb9cb7e57cb2c4b482ffc81b7afb9de27e1e3bd23c23a4453bd9ace3262"
  "os2ip C_cx_BrainpoolP256r1_Gy = 0x547ef835c3dac4fd97f8461a14611dc9c27745132ded8e545c1d54c72f046997"
  "os2ip C_cx_BrainpoolP256r1_n = 0xa9fb57dba1eea9bc3e660a909d838d718c397aa3b561a6f7901e0e82974856a7"
  "os2ip C_cx_BrainpoolP256r1_Hp = 0x4717aa21e5957fa8a1ecdacd6b1ac8075cce4c26614d4f4d8cfedf7ba6465b6c"
  "os2ip C_cx_BrainpoolP256r1_Hn = 0xb25f1b9c32367629b7f25e76c815cb0f35d176a1134e4a0e1d8d8de3312fca6"
  by (simp_all add: os2ip_def C_cx_BrainpoolP256r1_a_def C_cx_BrainpoolP256r1_b_def C_cx_BrainpoolP256r1_p_def C_cx_BrainpoolP256r1_Gx_def C_cx_BrainpoolP256r1_Gy_def C_cx_BrainpoolP256r1_n_def C_cx_BrainpoolP256r1_Hp_def C_cx_BrainpoolP256r1_Hn_def)

lemma C_cx_BrainpoolP256r1_red_x:
  "(0x8bd2aeb9cb7e57cb2c4b482ffc81b7afb9de27e1e3bd23c23a4453bd9ace3262::int) * 0x8bd2aeb9cb7e57cb2c4b482ffc81b7afb9de27e1e3bd23c23a4453bd9ace3262 = 0x7303d9f2afb4b84c4c1686b7ef48e29616596147f9f224a053b8f2b3f7fdf597 * 0xa9fb57dba1eea9bc3e660a909d838d726e3bf623d52620282013481d1f6e5377 + 0x315015e945d4d3c6cb9cdc0b7b60dd4275cf6a69447070e83dbce65f9a134f53"
  by code_simp

lemma C_cx_BrainpoolP256r1_red_r:
  "((0x315015e945d4d3c6cb9cdc0b7b60dd4275cf6a69447070e83dbce65f9a134f53::int) + 0x7d5a0975fc2c3057eef67530417affe7fb8055c126dc5c6ce94a4b44f330b5d9) * 0x8bd2aeb9cb7e57cb2c4b482ffc81b7afb9de27e1e3bd23c23a4453bd9ace3262 + 0x26dc5c6ce94a4b44f330b5d9bbd77cbf958416295cf7e1ce6bccdc18ff8c07b6 = 0x8facc511a6d03ed9c17c4391b852fb8696afe60ada1208ae6e93d63cb86de195 * 0xa9fb57dba1eea9bc3e660a909d838d726e3bf623d52620282013481d1f6e5377 + 0x3f1da8dfd1b386ee64eff2a03ca14bd3358fb2c604bf12c37cab6494a9c36f4b"
  by code_simp

lemma C_cx_BrainpoolP256r1_red_y:
  "(0x547ef835c3dac4fd97f8461a14611dc9c27745132ded8e545c1d54c72f046997::int) * 0x547ef835c3dac4fd97f8461a14611dc9c27745132ded8e545c1d54c72f046997 = 0x2a0080affb34e0c20fc58b98f4cfc0a4af88308bf36062358b8773922b9fabea * 0xa9fb57dba1eea9bc3e660a909d838d726e3bf623d52620282013481d1f6e5377 + 0x3f1da8dfd1b386ee64eff2a03ca14bd3358fb2c604bf12c37cab6494a9c36f4b"
  by code_simp

lemma C_cx_BrainpoolP256r1_base: "base_point_ok C_cx_BrainpoolP256r1"
  by (rule base_point_on_weierstrassI, simp add: C_cx_BrainpoolP256r1_def cx_curve_kinds cx_curve_ids,
      simp only: C_cx_BrainpoolP256r1_def cx_curve_domain.simps C_cx_BrainpoolP256r1_values,
      rule on_weierstrassI [OF C_cx_BrainpoolP256r1_red_x C_cx_BrainpoolP256r1_red_r C_cx_BrainpoolP256r1_red_y])

lemma C_cx_BrainpoolP256r1_Hp: "Hp_ok C_cx_BrainpoolP256r1"
  unfolding Hp_ok_def C_cx_BrainpoolP256r1_def cx_curve_domain.simps C_cx_BrainpoolP256r1_values
  by (rule mont_constI [where q = "0x1818c1131a1c55b7ebb73aba8322a7bf29b4f54a0ff6a2fa9b62ae6301180dd0c"]) code_simp+

lemma C_cx_BrainpoolP256r1_Hn: "Hn_ok C_cx_BrainpoolP256r1"
  unfolding Hn_ok_def C_cx_BrainpoolP256r1_def cx_curve_domain.simps C_cx_BrainpoolP256r1_values
  by (rule mont_constI [where q = "0x1818c1131a1c55b7ebb73aba8322a7bf49bf0088c5fdf55ea50d73b46ccd10716"]) code_simp+

lemma C_cx_BrainpoolP256r1_reduced: "reduced_ok C_cx_BrainpoolP256r1"
  by (simp add: reduced_ok_def C_cx_BrainpoolP256r1_def C_cx_BrainpoolP256r1_values)

lemma C_cx_BrainpoolP256r1_sizes: "sizes_ok C_cx_BrainpoolP256r1"
  by (simp add: sizes_ok_def C_cx_BrainpoolP256r1_def C_cx_BrainpoolP256r1_a_def C_cx_BrainpoolP256r1_b_def C_cx_BrainpoolP256r1_p_def C_cx_BrainpoolP256r1_Gx_def C_cx_BrainpoolP256r1_Gy_def C_cx_BrainpoolP256r1_n_def C_cx_BrainpoolP256r1_Hp_def C_cx_BrainpoolP256r1_Hn_def C_cofactor_1_def)

lemma C_cx_BrainpoolP256r1_hasse: "hasse_ok C_cx_BrainpoolP256r1"
  unfolding hasse_ok_def C_cx_BrainpoolP256r1_def cx_curve_domain.simps C_cx_BrainpoolP256r1_values cofactor_values by code_simp

lemma C_cx_BrainpoolP256t1_values:
  "os2ip C_cx_BrainpoolP256t1_a = 0xa9fb57dba1eea9bc3e660a909d838d726e3bf623d52620282013481d1f6e5374"
  "os2ip C_cx_BrainpoolP256t1_b = 0x662c61c430d84ea4fe66a7733d0b76b7bf93ebc4af2f49256ae58101fee92b04"
  "os2ip C_cx_BrainpoolP256t1_p = 0xa9fb57dba1eea9bc3e660a909d838d726e3bf623d52620282013481d1f6e5377"
  "os2ip C_cx_BrainpoolP256t1_Gx = 0xa3e8eb3cc1cfe7b7732213b23a656149afa142c47aafbc2b79a191562e1305f4"
  "os2ip C_cx_BrainpoolP256t1_Gy = 0x2d996c823439c56d7f7b22e14644417e69bcb6de39d027001dabe8f35b25c9be"
  "os2ip C_cx_BrainpoolP256t1_n = 0xa9fb57dba1eea9bc3e660a909d838d718c397aa3b561a6f7901e0e82974856a7"
  "os2ip C_cx_BrainpoolP256t1_Hp = 0x4717aa21e5957fa8a1ecdacd6b1ac8075cce4c26614d4f4d8cfedf7ba6465b6c"
  "os2ip C_cx_BrainpoolP256t1_Hn = 0xb25f1b9c32367629b7f25e76c815cb0f35d176a1134e4a0e1d8d8de3312fca6"
  by (simp_all add: os2ip_def C_cx_BrainpoolP256t1_a_def C_cx_BrainpoolP256t1_b_def C_cx_BrainpoolP256t1_p_def C_cx_BrainpoolP256t1_Gx_def C_cx_BrainpoolP256t1_Gy_def C_cx_BrainpoolP256t1_n_def C_cx_BrainpoolP256t1_Hp_def C_cx_BrainpoolP256t1_Hn_def)

lemma C_cx_BrainpoolP256t1_red_x:
  "(0xa3e8eb3cc1cfe7b7732213b23a656149afa142c47aafbc2b79a191562e1305f4::int) * 0xa3e8eb3cc1cfe7b7732213b23a656149afa142c47aafbc2b79a191562e1305f4 = 0x9e0e0548c3606fcb0e1a9aa709e4aacca09bced7252ded44161a777c8f361548 * 0xa9fb57dba1eea9bc3e660a909d838d726e3bf623d52620282013481d1f6e5377 + 0xa08ba82f009cf2f388e076a9ac28103dcb0892fcc26fb2c2635c932f9a613418"
  by code_simp

lemma C_cx_BrainpoolP256t1_red_r:
  "((0xa08ba82f009cf2f388e076a9ac28103dcb0892fcc26fb2c2635c932f9a613418::int) + 0xa9fb57dba1eea9bc3e660a909d838d726e3bf623d52620282013481d1f6e5374) * 0xa3e8eb3cc1cfe7b7732213b23a656149afa142c47aafbc2b79a191562e1305f4 + 0x662c61c430d84ea4fe66a7733d0b76b7bf93ebc4af2f49256ae58101fee92b04 = 0x13eb87168500ac24761c229c55e0f877d167874c93a4d06270dc899a1755584b9 * 0xa9fb57dba1eea9bc3e660a909d838d726e3bf623d52620282013481d1f6e5377 + 0x5fd30510c8834bd326608a804a330e8010e5410be8da9880ff0655afaa796b75"
  by code_simp

lemma C_cx_BrainpoolP256t1_red_y:
  "(0x2d996c823439c56d7f7b22e14644417e69bcb6de39d027001dabe8f35b25c9be::int) * 0x2d996c823439c56d7f7b22e14644417e69bcb6de39d027001dabe8f35b25c9be = 0xc3b831a594c48fb00d7f7d68f48c8db2f7011e5a2264282abb02c9b15a2bca9 * 0xa9fb57dba1eea9bc3e660a909d838d726e3bf623d52620282013481d1f6e5377 + 0x5fd30510c8834bd326608a804a330e8010e5410be8da9880ff0655afaa796b75"
  by code_simp

lemma C_cx_BrainpoolP256t1_base: "base_point_ok C_cx_BrainpoolP256t1"
  by (rule base_point_on_weierstrassI, simp add: C_cx_BrainpoolP256t1_def cx_curve_kinds cx_curve_ids,
      simp only: C_cx_BrainpoolP256t1_def cx_curve_domain.simps C_cx_BrainpoolP256t1_values,
      rule on_weierstrassI [OF C_cx_BrainpoolP256t1_red_x C_cx_BrainpoolP256t1_red_r C_cx_BrainpoolP256t1_red_y])

lemma C_cx_BrainpoolP256t1_Hp: "Hp_ok C_cx_BrainpoolP256t1"
  unfolding Hp_ok_def C_cx_BrainpoolP256t1_def cx_curve_domain.simps C_cx_BrainpoolP256t1_values
  by (rule mont_constI [where q = "0x1818c1131a1c55b7ebb73aba8322a7bf29b4f54a0ff6a2fa9b62ae6301180dd0c"]) code_simp+

lemma C_cx_BrainpoolP256t1_Hn: "Hn_ok C_cx_BrainpoolP256t1"
  unfolding Hn_ok_def C_cx_BrainpoolP256t1_def cx_curve_domain.simps C_cx_BrainpoolP256t1_values
  by (rule mont_constI [where q = "0x1818c1131a1c55b7ebb73aba8322a7bf49bf0088c5fdf55ea50d73b46ccd10716"]) code_simp+

lemma C_cx_BrainpoolP256t1_reduced: "reduced_ok C_cx_BrainpoolP256t1"
  by (simp add: reduced_ok_def C_cx_BrainpoolP256t1_def C_cx_BrainpoolP256t1_values)

lemma C_cx_BrainpoolP256t1_sizes: "sizes_ok C_cx_BrainpoolP256t1"
  by (simp add: sizes_ok_def C_cx_BrainpoolP256t1_def C_cx_BrainpoolP256t1_a_def C_cx_BrainpoolP256t1_b_def C_cx_BrainpoolP256t1_p_def C_cx_BrainpoolP256t1_Gx_def C_cx_BrainpoolP256t1_Gy_def C_cx_BrainpoolP256t1_n_def C_cx_BrainpoolP256t1_Hp_def C_cx_BrainpoolP256t1_Hn_def C_cofactor_1_def)

lemma C_cx_BrainpoolP256t1_hasse: "hasse_ok C_cx_BrainpoolP256t1"
  unfolding hasse_ok_def C_cx_BrainpoolP256t1_def cx_curve_domain.simps C_cx_BrainpoolP256t1_values cofactor_values by code_simp

lemma C_cx_BrainpoolP320r1_values:
  "os2ip C_cx_BrainpoolP320r1_a = 0x3ee30b568fbab0f883ccebd46d3f3bb8a2a73513f5eb79da66190eb085ffa9f492f375a97d860eb4"
  "os2ip C_cx_BrainpoolP320r1_b = 0x520883949dfdbc42d3ad198640688a6fe13f41349554b49acc31dccd884539816f5eb4ac8fb1f1a6"
  "os2ip C_cx_BrainpoolP320r1_p = 0xd35e472036bc4fb7e13c785ed201e065f98fcfa6f6f40def4f92b9ec7893ec28fcd412b1f1b32e27"
  "os2ip C_cx_BrainpoolP320r1_Gx = 0x43bd7e9afb53d8b85289bcc48ee5bfe6f20137d10a087eb6e7871e2a10a599c710af8d0d39e20611"
  "os2ip C_cx_BrainpoolP320r1_Gy = 0x14fdd05545ec1cc8ab4093247f77275e0743ffed117182eaa9c77877aaac6ac7d35245d1692e8ee1"
  "os2ip C_cx_BrainpoolP320r1_n = 0xd35e472036bc4fb7e13c785ed201e065f98fcfa5b68f12a32d482ec7ee8658e98691555b44c59311"
  "os2ip C_cx_BrainpoolP320r1_Hp = 0x403a056e97a2c09cdbc21a817727a6d4c53aa9675c4000f410260b24ef821448b4e04050ad8b400d"
  "os2ip C_cx_BrainpoolP320r1_Hn = 0xa70d3db6d2668a953b5396feb00b951407ad1666458bcc15dd860295e4a3f1a0b9b6ac1d66163f17"
  by (simp_all add: os2ip_def C_cx_BrainpoolP320r1_a_def C_cx_BrainpoolP320r1_b_def C_cx_BrainpoolP320r1_p_def C_cx_BrainpoolP320r1_Gx_def C_cx_BrainpoolP320r1_Gy_def C_cx_BrainpoolP320r1_n_def C_cx_BrainpoolP320r1_Hp_def C_cx_BrainpoolP320r1_Hn_def)

lemma C_cx_BrainpoolP320r1_red_x:
  "(0x43bd7e9afb53d8b85289bcc48ee5bfe6f20137d10a087eb6e7871e2a10a599c710af8d0d39e20611::int) * 0x43bd7e9afb53d8b85289bcc48ee5bfe6f20137d10a087eb6e7871e2a10a599c710af8d0d39e20611 = 0x15b5ad3fc9a071f9492be47ac261e213082314ab0282524b8c3a3dc61f0c328299c66e351f8783e0 * 0xd35e472036bc4fb7e13c785ed201e065f98fcfa6f6f40def4f92b9ec7893ec28fcd412b1f1b32e27 + 0xd064afdae893cfd849929d5c556a1dbbd2e81e58cf975de964f1b334e3bada423a3e3730b317601"
  by code_simp

lemma C_cx_BrainpoolP320r1_red_r:
  "((0xd064afdae893cfd849929d5c556a1dbbd2e81e58cf975de964f1b334e3bada423a3e3730b317601::int) + 0x3ee30b568fbab0f883ccebd46d3f3bb8a2a73513f5eb79da66190eb085ffa9f492f375a97d860eb4) * 0x43bd7e9afb53d8b85289bcc48ee5bfe6f20137d10a087eb6e7871e2a10a599c710af8d0d39e20611 + 0x520883949dfdbc42d3ad198640688a6fe13f41349554b49acc31dccd884539816f5eb4ac8fb1f1a6 = 0x185414597549afd6fa05cd7f4983ef67b0c970c5c43afe0aa8dc6413b25799eb3f56ae54eddc4c29 * 0xd35e472036bc4fb7e13c785ed201e065f98fcfa6f6f40def4f92b9ec7893ec28fcd412b1f1b32e27 + 0x3e2b6bb45186178df86f7754be32de418c94a12f49717bb6d0b160136d395f5fbad236c3b9de076c"
  by code_simp

lemma C_cx_BrainpoolP320r1_red_y:
  "(0x14fdd05545ec1cc8ab4093247f77275e0743ffed117182eaa9c77877aaac6ac7d35245d1692e8ee1::int) * 0x14fdd05545ec1cc8ab4093247f77275e0743ffed117182eaa9c77877aaac6ac7d35245d1692e8ee1 = 0x215af81e10d6fa9fbededba540b34223867717901c4fc6560786e236b6c8dccc457a0d84f2c7d23 * 0xd35e472036bc4fb7e13c785ed201e065f98fcfa6f6f40def4f92b9ec7893ec28fcd412b1f1b32e27 + 0x3e2b6bb45186178df86f7754be32de418c94a12f49717bb6d0b160136d395f5fbad236c3b9de076c"
  by code_simp

lemma C_cx_BrainpoolP320r1_base: "base_point_ok C_cx_BrainpoolP320r1"
  by (rule base_point_on_weierstrassI, simp add: C_cx_BrainpoolP320r1_def cx_curve_kinds cx_curve_ids,
      simp only: C_cx_BrainpoolP320r1_def cx_curve_domain.simps C_cx_BrainpoolP320r1_values,
      rule on_weierstrassI [OF C_cx_BrainpoolP320r1_red_x C_cx_BrainpoolP320r1_red_r C_cx_BrainpoolP320r1_red_y])

lemma C_cx_BrainpoolP320r1_Hp: "Hp_ok C_cx_BrainpoolP320r1"
  unfolding Hp_ok_def C_cx_BrainpoolP320r1_def cx_curve_domain.simps C_cx_BrainpoolP320r1_values
  by (rule mont_constI [where q = "0x1360e55a5af1aa1204195c15589ad983722b851a52237985c55d42a203d5ab45a2d8c7cafddc4b621c4a1becf2ccd1b353c0ef8ffc8a74b55"]) code_simp+

lemma C_cx_BrainpoolP320r1_Hn: "Hn_ok C_cx_BrainpoolP320r1"
  unfolding Hn_ok_def C_cx_BrainpoolP320r1_def cx_curve_domain.simps C_cx_BrainpoolP320r1_values
  by (rule mont_constI [where q = "0x1360e55a5af1aa1204195c15589ad983722b851a6f8341fe680461c1ba154e856059081eaafa142033c77380e7c201c00e5cb476c825fa059"]) code_simp+

lemma C_cx_BrainpoolP320r1_reduced: "reduced_ok C_cx_BrainpoolP320r1"
  by (simp add: reduced_ok_def C_cx_BrainpoolP320r1_def C_cx_BrainpoolP320r1_values)

lemma C_cx_BrainpoolP320r1_sizes: "sizes_ok C_cx_BrainpoolP320r1"
  by (simp add: sizes_ok_def C_cx_BrainpoolP320r1_def C_cx_BrainpoolP320r1_a_def C_cx_BrainpoolP320r1_b_def C_cx_BrainpoolP320r1_p_def C_cx_BrainpoolP320r1_Gx_def C_cx_BrainpoolP320r1_Gy_def C_cx_BrainpoolP320r1_n_def C_cx_BrainpoolP320r1_Hp_def C_cx_BrainpoolP320r1_Hn_def C_cofactor_1_def)

lemma C_cx_BrainpoolP320r1_hasse: "hasse_ok C_cx_BrainpoolP320r1"
  unfolding hasse_ok_def C_cx_BrainpoolP320r1_def cx_curve_domain.simps C_cx_BrainpoolP320r1_values cofactor_values by code_simp

lemma C_cx_BrainpoolP320t1_values:
  "os2ip C_cx_BrainpoolP320t1_a = 0xd35e472036bc4fb7e13c785ed201e065f98fcfa6f6f40def4f92b9ec7893ec28fcd412b1f1b32e24"
  "os2ip C_cx_BrainpoolP320t1_b = 0xa7f561e038eb1ed560b3d147db782013064c19f27ed27c6780aaf77fb8a547ceb5b4fef422340353"
  "os2ip C_cx_BrainpoolP320t1_p = 0xd35e472036bc4fb7e13c785ed201e065f98fcfa6f6f40def4f92b9ec7893ec28fcd412b1f1b32e27"
  "os2ip C_cx_BrainpoolP320t1_Gx = 0x925be9fb01afc6fb4d3e7d4990010f813408ab106c4f09cb7ee07868cc136fff3357f624a21bed52"
  "os2ip C_cx_BrainpoolP320t1_Gy = 0x63ba3a7a27483ebf6671dbef7abb30ebee084e58a0b077ad42a5a0989d1ee71b1b9bc0455fb0d2c3"
  "os2ip C_cx_BrainpoolP320t1_n = 0xd35e472036bc4fb7e13c785ed201e065f98fcfa5b68f12a32d482ec7ee8658e98691555b44c59311"
  "os2ip C_cx_BrainpoolP320t1_Hp = 0x403a056e97a2c09cdbc21a817727a6d4c53aa9675c4000f410260b24ef821448b4e04050ad8b400d"
  "os2ip C_cx_BrainpoolP320t1_Hn = 0xa70d3db6d2668a953b5396feb00b951407ad1666458bcc15dd860295e4a3f1a0b9b6ac1d66163f17"
  by (simp_all add: os2ip_def C_cx_BrainpoolP320t1_a_def C_cx_BrainpoolP320t1_b_def C_cx_BrainpoolP320t1_p_def C_cx_BrainpoolP320t1_Gx_def C_cx_BrainpoolP320t1_Gy_def C_cx_BrainpoolP320t1_n_def C_cx_BrainpoolP320t1_Hp_def C_cx_BrainpoolP320t1_Hn_def)

lemma C_cx_BrainpoolP320t1_red_x:
  "(0x925be9fb01afc6fb4d3e7d4990010f813408ab106c4f09cb7ee07868cc136fff3357f624a21bed52::int) * 0x925be9fb01afc6fb4d3e7d4990010f813408ab106c4f09cb7ee07868cc136fff3357f624a21bed52 = 0x655823a066d7a0d524a35604e62c0a7704a83f2dc49d13032fbf581bec576931e6efb3942de5d014 * 0xd35e472036bc4fb7e13c785ed201e065f98fcfa6f6f40def4f92b9ec7893ec28fcd412b1f1b32e27 + 0x75a4811e423c982b0f29f76dee1bc0a963dd36be3b46b8a73ebd1f90abc8befd6ea7003e17eaa338"
  by code_simp

lemma C_cx_BrainpoolP320t1_red_r:
  "((0x75a4811e423c982b0f29f76dee1bc0a963dd36be3b46b8a73ebd1f90abc8befd6ea7003e17eaa338::int) + 0xd35e472036bc4fb7e13c785ed201e065f98fcfa6f6f40def4f92b9ec7893ec28fcd412b1f1b32e24) * 0x925be9fb01afc6fb4d3e7d4990010f813408ab106c4f09cb7ee07868cc136fff3357f624a21bed52 + 0xa7f561e038eb1ed560b3d147db782013064c19f27ed27c6780aaf77fb8a547ceb5b4fef422340353 = 0xe3d1abd1ed6da76837b958eba2cc11b8899553e97eb73be0d6d8b91053f1e15ece741fa3fc5728a1 * 0xd35e472036bc4fb7e13c785ed201e065f98fcfa6f6f40def4f92b9ec7893ec28fcd412b1f1b32e27 + 0x73f61f922065d02a0c3ad88456602296f0c9f8bd04dbbd1251f89dcbd26b5d95e8a9d2fa8a202044"
  by code_simp

lemma C_cx_BrainpoolP320t1_red_y:
  "(0x63ba3a7a27483ebf6671dbef7abb30ebee084e58a0b077ad42a5a0989d1ee71b1b9bc0455fb0d2c3::int) * 0x63ba3a7a27483ebf6671dbef7abb30ebee084e58a0b077ad42a5a0989d1ee71b1b9bc0455fb0d2c3 = 0x2f0da21eaa2b6e1e7f4da88aa43d517a619c1792677dd44390cebaa62ec7be2890e2a6478e17edb3 * 0xd35e472036bc4fb7e13c785ed201e065f98fcfa6f6f40def4f92b9ec7893ec28fcd412b1f1b32e27 + 0x73f61f922065d02a0c3ad88456602296f0c9f8bd04dbbd1251f89dcbd26b5d95e8a9d2fa8a202044"
  by code_simp

lemma C_cx_BrainpoolP320t1_base: "base_point_ok C_cx_BrainpoolP320t1"
  by (rule base_point_on_weierstrassI, simp add: C_cx_BrainpoolP320t1_def cx_curve_kinds cx_curve_ids,
      simp only: C_cx_BrainpoolP320t1_def cx_curve_domain.simps C_cx_BrainpoolP320t1_values,
      rule on_weierstrassI [OF C_cx_BrainpoolP320t1_red_x C_cx_BrainpoolP320t1_red_r C_cx_BrainpoolP320t1_red_y])

lemma C_cx_BrainpoolP320t1_Hp: "Hp_ok C_cx_BrainpoolP320t1"
  unfolding Hp_ok_def C_cx_BrainpoolP320t1_def cx_curve_domain.simps C_cx_BrainpoolP320t1_values
  by (rule mont_constI [where q = "0x1360e55a5af1aa1204195c15589ad983722b851a52237985c55d42a203d5ab45a2d8c7cafddc4b621c4a1becf2ccd1b353c0ef8ffc8a74b55"]) code_simp+

lemma C_cx_BrainpoolP320t1_Hn: "Hn_ok C_cx_BrainpoolP320t1"
  unfolding Hn_ok_def C_cx_BrainpoolP320t1_def cx_curve_domain.simps C_cx_BrainpoolP320t1_values
  by (rule mont_constI [where q = "0x1360e55a5af1aa1204195c15589ad983722b851a6f8341fe680461c1ba154e856059081eaafa142033c77380e7c201c00e5cb476c825fa059"]) code_simp+

lemma C_cx_BrainpoolP320t1_reduced: "reduced_ok C_cx_BrainpoolP320t1"
  by (simp add: reduced_ok_def C_cx_BrainpoolP320t1_def C_cx_BrainpoolP320t1_values)

lemma C_cx_BrainpoolP320t1_sizes: "sizes_ok C_cx_BrainpoolP320t1"
  by (simp add: sizes_ok_def C_cx_BrainpoolP320t1_def C_cx_BrainpoolP320t1_a_def C_cx_BrainpoolP320t1_b_def C_cx_BrainpoolP320t1_p_def C_cx_BrainpoolP320t1_Gx_def C_cx_BrainpoolP320t1_Gy_def C_cx_BrainpoolP320t1_n_def C_cx_BrainpoolP320t1_Hp_def C_cx_BrainpoolP320t1_Hn_def C_cofactor_1_def)

lemma C_cx_BrainpoolP320t1_hasse: "hasse_ok C_cx_BrainpoolP320t1"
  unfolding hasse_ok_def C_cx_BrainpoolP320t1_def cx_curve_domain.simps C_cx_BrainpoolP320t1_values cofactor_values by code_simp

lemma C_cx_BrainpoolP384r1_values:
  "os2ip C_cx_BrainpoolP384r1_a = 0x7bc382c63d8c150c3c72080ace05afa0c2bea28e4fb22787139165efba91f90f8aa5814a503ad4eb04a8c7dd22ce2826"
  "os2ip C_cx_BrainpoolP384r1_b = 0x4a8c7dd22ce28268b39b55416f0447c2fb77de107dcd2a62e880ea53eeb62d57cb4390295dbc9943ab78696fa504c11"
  "os2ip C_cx_BrainpoolP384r1_p = 0x8cb91e82a3386d280f5d6f7e50e641df152f7109ed5456b412b1da197fb71123acd3a729901d1a71874700133107ec53"
  "os2ip C_cx_BrainpoolP384r1_Gx = 0x1d1c64f068cf45ffa2a63a81b7c13f6b8847a3e77ef14fe3db7fcafe0cbd10e8e826e03436d646aaef87b2e247d4af1e"
  "os2ip C_cx_BrainpoolP384r1_Gy = 0x8abe1d7520f9c2a45cb1eb8e95cfd55262b70b29feec5864e19c054ff99129280e4646217791811142820341263c5315"
  "os2ip C_cx_BrainpoolP384r1_n = 0x8cb91e82a3386d280f5d6f7e50e641df152f7109ed5456b31f166e6cac0425a7cf3ab6af6b7fc3103b883202e9046565"
  "os2ip C_cx_BrainpoolP384r1_Hp = 0x36bf6883178df842d5c6ef3ba57e052c621401919918d5af8e28f99cc9940899535283343d7fd965087cefff40b64bde"
  "os2ip C_cx_BrainpoolP384r1_Hn = 0xce8941a614e97c28f886dc965165fdb574a74cb52d748ff2a927e3b9802688a37264e202f2b6b6eac4ed3a2de771c8e"
  by (simp_all add: os2ip_def C_cx_BrainpoolP384r1_a_def C_cx_BrainpoolP384r1_b_def C_cx_BrainpoolP384r1_p_def C_cx_BrainpoolP384r1_Gx_def C_cx_BrainpoolP384r1_Gy_def C_cx_BrainpoolP384r1_n_def C_cx_BrainpoolP384r1_Hp_def C_cx_BrainpoolP384r1_Hn_def)

lemma C_cx_BrainpoolP384r1_red_x:
  "(0x1d1c64f068cf45ffa2a63a81b7c13f6b8847a3e77ef14fe3db7fcafe0cbd10e8e826e03436d646aaef87b2e247d4af1e::int) * 0x1d1c64f068cf45ffa2a63a81b7c13f6b8847a3e77ef14fe3db7fcafe0cbd10e8e826e03436d646aaef87b2e247d4af1e = 0x605a6cbc2fad839cbf273e81c3e0135633b0f2b23456b696fb568981d3d95c4509b7b4337705c98be9af19c1d90ef4f * 0x8cb91e82a3386d280f5d6f7e50e641df152f7109ed5456b412b1da197fb71123acd3a729901d1a71874700133107ec53 + 0x22a6bd3f492d4b8eec4b1546b0a3503e9a3f1a511dfc63b0fcfb2c721a69ba7c728ce62ae1965770746024c48b69ce7"
  by code_simp

lemma C_cx_BrainpoolP384r1_red_r:
  "((0x22a6bd3f492d4b8eec4b1546b0a3503e9a3f1a511dfc63b0fcfb2c721a69ba7c728ce62ae1965770746024c48b69ce7::int) + 0x7bc382c63d8c150c3c72080ace05afa0c2bea28e4fb22787139165efba91f90f8aa5814a503ad4eb04a8c7dd22ce2826) * 0x1d1c64f068cf45ffa2a63a81b7c13f6b8847a3e77ef14fe3db7fcafe0cbd10e8e826e03436d646aaef87b2e247d4af1e + 0x4a8c7dd22ce28268b39b55416f0447c2fb77de107dcd2a62e880ea53eeb62d57cb4390295dbc9943ab78696fa504c11 = 0x1a0cf3a45cfb2b8a8abd6119122700dd7d3f1179506c7b9c1321b450bf6be37da00cea9fa53b720b52d6654645230a42 * 0x8cb91e82a3386d280f5d6f7e50e641df152f7109ed5456b412b1da197fb71123acd3a729901d1a71874700133107ec53 + 0x4b23a392852300daea73be879a4b66beed0ecfe67357ea7ea392cbe5363e8706c53ae01a353bfa388c296aae7eb81b31"
  by code_simp

lemma C_cx_BrainpoolP384r1_red_y:
  "(0x8abe1d7520f9c2a45cb1eb8e95cfd55262b70b29feec5864e19c054ff99129280e4646217791811142820341263c5315::int) * 0x8abe1d7520f9c2a45cb1eb8e95cfd55262b70b29feec5864e19c054ff99129280e4646217791811142820341263c5315 = 0x88ca3f105905116d43c3bcfb117818407c97a934c71af8bb7db9a3b6e54b2ad0c022cdcd75301afe63a6ffcb17449858 * 0x8cb91e82a3386d280f5d6f7e50e641df152f7109ed5456b412b1da197fb71123acd3a729901d1a71874700133107ec53 + 0x4b23a392852300daea73be879a4b66beed0ecfe67357ea7ea392cbe5363e8706c53ae01a353bfa388c296aae7eb81b31"
  by code_simp

lemma C_cx_BrainpoolP384r1_base: "base_point_ok C_cx_BrainpoolP384r1"
  by (rule base_point_on_weierstrassI, simp add: C_cx_BrainpoolP384r1_def cx_curve_kinds cx_curve_ids,
      simp only: C_cx_BrainpoolP384r1_def cx_curve_domain.simps C_cx_BrainpoolP384r1_values,
      rule on_weierstrassI [OF C_cx_BrainpoolP384r1_red_x C_cx_BrainpoolP384r1_red_r C_cx_BrainpoolP384r1_red_y])

lemma C_cx_BrainpoolP384r1_Hp: "Hp_ok C_cx_BrainpoolP384r1"
  unfolding Hp_ok_def C_cx_BrainpoolP384r1_def cx_curve_domain.simps C_cx_BrainpoolP384r1_values
  by (rule mont_constI [where q = "0x1d1b575b16d8ec6b8ff25adfd3cc6fa65dda2c449cae56ede9ed590cef1c4d7219047bce07a71566f10a03bf684a26716"]) code_simp+

lemma C_cx_BrainpoolP384r1_Hn: "Hn_ok C_cx_BrainpoolP384r1"
  unfolding Hn_ok_def C_cx_BrainpoolP384r1_def cx_curve_domain.simps C_cx_BrainpoolP384r1_values
  by (rule mont_constI [where q = "0x1d1b575b16d8ec6b8ff25adfd3cc6fa65dda2c449cae56ee1c506f2fe165031e7189fdb467a652109600adcccf8a71f8a"]) code_simp+

lemma C_cx_BrainpoolP384r1_reduced: "reduced_ok C_cx_BrainpoolP384r1"
  by (simp add: reduced_ok_def C_cx_BrainpoolP384r1_def C_cx_BrainpoolP384r1_values)

lemma C_cx_BrainpoolP384r1_sizes: "sizes_ok C_cx_BrainpoolP384r1"
  by (simp add: sizes_ok_def C_cx_BrainpoolP384r1_def C_cx_BrainpoolP384r1_a_def C_cx_BrainpoolP384r1_b_def C_cx_BrainpoolP384r1_p_def C_cx_BrainpoolP384r1_Gx_def C_cx_BrainpoolP384r1_Gy_def C_cx_BrainpoolP384r1_n_def C_cx_BrainpoolP384r1_Hp_def C_cx_BrainpoolP384r1_Hn_def C_cofactor_1_def)

lemma C_cx_BrainpoolP384r1_hasse: "hasse_ok C_cx_BrainpoolP384r1"
  unfolding hasse_ok_def C_cx_BrainpoolP384r1_def cx_curve_domain.simps C_cx_BrainpoolP384r1_values cofactor_values by code_simp

lemma C_cx_BrainpoolP384t1_values:
  "os2ip C_cx_BrainpoolP384t1_a = 0x8cb91e82a3386d280f5d6f7e50e641df152f7109ed5456b412b1da197fb71123acd3a729901d1a71874700133107ec50"
  "os2ip C_cx_BrainpoolP384t1_b = 0x7f519eada7bda81bd826dba647910f8c4b9346ed8ccdc64e4b1abd11756dce1d2074aa263b88805ced70355a33b471ee"
  "os2ip C_cx_BrainpoolP384t1_p = 0x8cb91e82a3386d280f5d6f7e50e641df152f7109ed5456b412b1da197fb71123acd3a729901d1a71874700133107ec53"
  "os2ip C_cx_BrainpoolP384t1_Gx = 0x18de98b02db9a306f2afcd7235f72a819b80ab12ebd653172476fecd462aabffc4ff191b946a5f54d8d0aa2f418808cc"
  "os2ip C_cx_BrainpoolP384t1_Gy = 0x25ab056962d30651a114afd2755ad336747f93475b7a1fca3b88f2b6a208ccfe469408584dc2b2912675bf5b9e582928"
  "os2ip C_cx_BrainpoolP384t1_n = 0x8cb91e82a3386d280f5d6f7e50e641df152f7109ed5456b31f166e6cac0425a7cf3ab6af6b7fc3103b883202e9046565"
  "os2ip C_cx_BrainpoolP384t1_Hp = 0x36bf6883178df842d5c6ef3ba57e052c621401919918d5af8e28f99cc9940899535283343d7fd965087cefff40b64bde"
  "os2ip C_cx_BrainpoolP384t1_Hn = 0xce8941a614e97c28f886dc965165fdb574a74cb52d748ff2a927e3b9802688a37264e202f2b6b6eac4ed3a2de771c8e"
  by (simp_all add: os2ip_def C_cx_BrainpoolP384t1_a_def C_cx_BrainpoolP384t1_b_def C_cx_BrainpoolP384t1_p_def C_cx_BrainpoolP384t1_Gx_def C_cx_BrainpoolP384t1_Gy_def C_cx_BrainpoolP384t1_n_def C_cx_BrainpoolP384t1_Hp_def C_cx_BrainpoolP384t1_Hn_def)

lemma C_cx_BrainpoolP384t1_red_x:
  "(0x18de98b02db9a306f2afcd7235f72a819b80ab12ebd653172476fecd462aabffc4ff191b946a5f54d8d0aa2f418808cc::int) * 0x18de98b02db9a306f2afcd7235f72a819b80ab12ebd653172476fecd462aabffc4ff191b946a5f54d8d0aa2f418808cc = 0x46525997da3c03dc2ed6d42ba3277b5f1ff567c0a7a7935afc68927dfc3c43cb4f464b3f7ed08bdf6742d6a0aa51e09 * 0x8cb91e82a3386d280f5d6f7e50e641df152f7109ed5456b412b1da197fb71123acd3a729901d1a71874700133107ec53 + 0x1a3f2132d7742cffdb8a4cbb664c941df68098bcf313ea378bb6cb6ee4f91b14f78e3e83a05f8565eeafec88ba9559a5"
  by code_simp

lemma C_cx_BrainpoolP384t1_red_r:
  "((0x1a3f2132d7742cffdb8a4cbb664c941df68098bcf313ea378bb6cb6ee4f91b14f78e3e83a05f8565eeafec88ba9559a5::int) + 0x8cb91e82a3386d280f5d6f7e50e641df152f7109ed5456b412b1da197fb71123acd3a729901d1a71874700133107ec50) * 0x18de98b02db9a306f2afcd7235f72a819b80ab12ebd653172476fecd462aabffc4ff191b946a5f54d8d0aa2f418808cc + 0x7f519eada7bda81bd826dba647910f8c4b9346ed8ccdc64e4b1abd11756dce1d2074aa263b88805ced70355a33b471ee = 0x1d820b9964d1eb96edffe5a3d50e9396dac659cbe44a317e995c2d6701718be06e46eb3188c1341b35982bc818a14bc5 * 0x8cb91e82a3386d280f5d6f7e50e641df152f7109ed5456b412b1da197fb71123acd3a729901d1a71874700133107ec53 + 0x3081e52d4c0067012c4d0600b164cc34a817ba5bc58c8d560ff716ebcf727b6d262f8a8bb8acd054e287124c8d7ac4b"
  by code_simp

lemma C_cx_BrainpoolP384t1_red_y:
  "(0x25ab056962d30651a114afd2755ad336747f93475b7a1fca3b88f2b6a208ccfe469408584dc2b2912675bf5b9e582928::int) * 0x25ab056962d30651a114afd2755ad336747f93475b7a1fca3b88f2b6a208ccfe469408584dc2b2912675bf5b9e582928 = 0xa1531ea0b82bd6bb50588f6047e2822d1eb53e653bee11d83211a00d5165bbf344877d2de8c09d17e8492d7a0de8797 * 0x8cb91e82a3386d280f5d6f7e50e641df152f7109ed5456b412b1da197fb71123acd3a729901d1a71874700133107ec53 + 0x3081e52d4c0067012c4d0600b164cc34a817ba5bc58c8d560ff716ebcf727b6d262f8a8bb8acd054e287124c8d7ac4b"
  by code_simp

lemma C_cx_BrainpoolP384t1_base: "base_point_ok C_cx_BrainpoolP384t1"
  by (rule base_point_on_weierstrassI, simp add: C_cx_BrainpoolP384t1_def cx_curve_kinds cx_curve_ids,
      simp only: C_cx_BrainpoolP384t1_def cx_curve_domain.simps C_cx_BrainpoolP384t1_values,
      rule on_weierstrassI [OF C_cx_BrainpoolP384t1_red_x C_cx_BrainpoolP384t1_red_r C_cx_BrainpoolP384t1_red_y])

lemma C_cx_BrainpoolP384t1_Hp: "Hp_ok C_cx_BrainpoolP384t1"
  unfolding Hp_ok_def C_cx_BrainpoolP384t1_def cx_curve_domain.simps C_cx_BrainpoolP384t1_values
  by (rule mont_constI [where q = "0x1d1b575b16d8ec6b8ff25adfd3cc6fa65dda2c449cae56ede9ed590cef1c4d7219047bce07a71566f10a03bf684a26716"]) code_simp+

lemma C_cx_BrainpoolP384t1_Hn: "Hn_ok C_cx_BrainpoolP384t1"
  unfolding Hn_ok_def C_cx_BrainpoolP384t1_def cx_curve_domain.simps C_cx_BrainpoolP384t1_values
  by (rule mont_constI [where q = "0x1d1b575b16d8ec6b8ff25adfd3cc6fa65dda2c449cae56ee1c506f2fe165031e7189fdb467a652109600adcccf8a71f8a"]) code_simp+

lemma C_cx_BrainpoolP384t1_reduced: "reduced_ok C_cx_BrainpoolP384t1"
  by (simp add: reduced_ok_def C_cx_BrainpoolP384t1_def C_cx_BrainpoolP384t1_values)

lemma C_cx_BrainpoolP384t1_sizes: "sizes_ok C_cx_BrainpoolP384t1"
  by (simp add: sizes_ok_def C_cx_BrainpoolP384t1_def C_cx_BrainpoolP384t1_a_def C_cx_BrainpoolP384t1_b_def C_cx_BrainpoolP384t1_p_def C_cx_BrainpoolP384t1_Gx_def C_cx_BrainpoolP384t1_Gy_def C_cx_BrainpoolP384t1_n_def C_cx_BrainpoolP384t1_Hp_def C_cx_BrainpoolP384t1_Hn_def C_cofactor_1_def)

lemma C_cx_BrainpoolP384t1_hasse: "hasse_ok C_cx_BrainpoolP384t1"
  unfolding hasse_ok_def C_cx_BrainpoolP384t1_def cx_curve_domain.simps C_cx_BrainpoolP384t1_values cofactor_values by code_simp

lemma C_cx_BrainpoolP512r1_values:
  "os2ip C_cx_BrainpoolP512r1_a = 0x7830a3318b603b89e2327145ac234cc594cbdd8d3df91610a83441caea9863bc2ded5d5aa8253aa10a2ef1c98b9ac8b57f1117a72bf2c7b9e7c1ac4d77fc94ca"
  "os2ip C_cx_BrainpoolP512r1_b = 0x3df91610a83441caea9863bc2ded5d5aa8253aa10a2ef1c98b9ac8b57f1117a72bf2c7b9e7c1ac4d77fc94cadc083e67984050b75ebae5dd2809bd638016f723"
  "os2ip C_cx_BrainpoolP512r1_p = 0xaadd9db8dbe9c48b3fd4e6ae33c9fc07cb308db3b3c9d20ed6639cca703308717d4d9b009bc66842aecda12ae6a380e62881ff2f2d82c68528aa6056583a48f3"
  "os2ip C_cx_BrainpoolP512r1_Gx = 0x81aee4bdd82ed9645a21322e9c4c6a9385ed9f70b5d916c1b43b62eef4d0098eff3b1f78e2d0d48d50d1687b93b97d5f7c6d5047406a5e688b352209bcb9f822"
  "os2ip C_cx_BrainpoolP512r1_Gy = 0x7dde385d566332ecc0eabfa9cf7822fdf209f70024a57b1aa000c55b881f8111b2dcde494a5f485e5bca4bd88a2763aed1ca2b2fa8f0540678cd1e0f3ad80892"
  "os2ip C_cx_BrainpoolP512r1_n = 0xaadd9db8dbe9c48b3fd4e6ae33c9fc07cb308db3b3c9d20ed6639cca70330870553e5c414ca92619418661197fac10471db1d381085ddaddb58796829ca90069"
  "os2ip C_cx_BrainpoolP512r1_Hp = 0x3c4c9d05a9ff6450202e19402056eecca16daa5fd42bff8319486fd8d5898057e0c19a7783514a2553b7f9bc905affd3793fb1302715790549ad144a6158f205"
  "os2ip C_cx_BrainpoolP512r1_Hn = 0xa794586a718407b095df1b4c194b2e56723c37a22f16bbdfd7f9cc263b790de3a6f230c72f0207e83ec64bd033b7627f0886b75895283dddd2a3681ecda81671"
  by (simp_all add: os2ip_def C_cx_BrainpoolP512r1_a_def C_cx_BrainpoolP512r1_b_def C_cx_BrainpoolP512r1_p_def C_cx_BrainpoolP512r1_Gx_def C_cx_BrainpoolP512r1_Gy_def C_cx_BrainpoolP512r1_n_def C_cx_BrainpoolP512r1_Hp_def C_cx_BrainpoolP512r1_Hn_def)

lemma C_cx_BrainpoolP512r1_red_x:
  "(0x81aee4bdd82ed9645a21322e9c4c6a9385ed9f70b5d916c1b43b62eef4d0098eff3b1f78e2d0d48d50d1687b93b97d5f7c6d5047406a5e688b352209bcb9f822::int) * 0x81aee4bdd82ed9645a21322e9c4c6a9385ed9f70b5d916c1b43b62eef4d0098eff3b1f78e2d0d48d50d1687b93b97d5f7c6d5047406a5e688b352209bcb9f822 = 0x626d34d972ad699f513ce006fda1a6d496bcb5bd28b3ef1257a5c7bc19b4c557b80d2a83eaa49c88cbd19f3e4bb2504e261f5cf670e19d12a684a7076eeb8efa * 0xaadd9db8dbe9c48b3fd4e6ae33c9fc07cb308db3b3c9d20ed6639cca703308717d4d9b009bc66842aecda12ae6a380e62881ff2f2d82c68528aa6056583a48f3 + 0x898a9384ed033e746848cc95eb6d26e0d00f4b51d9564bd4fe9c188d26ca1e8009416a913afb76b3ce52f9e39f73601fc0d06d7259cc96d680b9a02da332dd36"
  by code_simp

lemma C_cx_BrainpoolP512r1_red_r:
  "((0x898a9384ed033e746848cc95eb6d26e0d00f4b51d9564bd4fe9c188d26ca1e8009416a913afb76b3ce52f9e39f73601fc0d06d7259cc96d680b9a02da332dd36::int) + 0x7830a3318b603b89e2327145ac234cc594cbdd8d3df91610a83441caea9863bc2ded5d5aa8253aa10a2ef1c98b9ac8b57f1117a72bf2c7b9e7c1ac4d77fc94ca) * 0x81aee4bdd82ed9645a21322e9c4c6a9385ed9f70b5d916c1b43b62eef4d0098eff3b1f78e2d0d48d50d1687b93b97d5f7c6d5047406a5e688b352209bcb9f822 + 0x3df91610a83441caea9863bc2ded5d5aa8253aa10a2ef1c98b9ac8b57f1117a72bf2c7b9e7c1ac4d77fc94cadc083e67984050b75ebae5dd2809bd638016f723 = 0xc39cb9a931329d74dc16000ad8e8d1c16143470e1ce209db3927947a0624a451c1a7839a5e3b97846968d5608c06dbfc811036a75041d307a5d77c7d6ebd327f * 0xaadd9db8dbe9c48b3fd4e6ae33c9fc07cb308db3b3c9d20ed6639cca703308717d4d9b009bc66842aecda12ae6a380e62881ff2f2d82c68528aa6056583a48f3 + 0x281ab21ebf9d20362ec1788a122cf2e6760aac121832542ec9dfd059638fcdd517dd7fe5ea91c5ac7a5e6c59fb2ac3928a85bc528ca09d7f235e7dfc08437496"
  by code_simp

lemma C_cx_BrainpoolP512r1_red_y:
  "(0x7dde385d566332ecc0eabfa9cf7822fdf209f70024a57b1aa000c55b881f8111b2dcde494a5f485e5bca4bd88a2763aed1ca2b2fa8f0540678cd1e0f3ad80892::int) * 0x7dde385d566332ecc0eabfa9cf7822fdf209f70024a57b1aa000c55b881f8111b2dcde494a5f485e5bca4bd88a2763aed1ca2b2fa8f0540678cd1e0f3ad80892 = 0x5cb877d1f7fa52b6ab8cc3ecd3d0f9134336b93a6fb4e74a826955d6efe02aa744653d8e0b0913bfb3d18bf0b6451b3217de21e7dba4aca243e500e2c9a0921a * 0xaadd9db8dbe9c48b3fd4e6ae33c9fc07cb308db3b3c9d20ed6639cca703308717d4d9b009bc66842aecda12ae6a380e62881ff2f2d82c68528aa6056583a48f3 + 0x281ab21ebf9d20362ec1788a122cf2e6760aac121832542ec9dfd059638fcdd517dd7fe5ea91c5ac7a5e6c59fb2ac3928a85bc528ca09d7f235e7dfc08437496"
  by code_simp

lemma C_cx_BrainpoolP512r1_base: "base_point_ok C_cx_BrainpoolP512r1"
  by (rule base_point_on_weierstrassI, simp add: C_cx_BrainpoolP512r1_def cx_curve_kinds cx_curve_ids,
      simp only: C_cx_BrainpoolP512r1_def cx_curve_domain.simps C_cx_BrainpoolP512r1_values,
      rule on_weierstrassI [OF C_cx_BrainpoolP512r1_red_x C_cx_BrainpoolP512r1_red_r C_cx_BrainpoolP512r1_red_y])

lemma C_cx_BrainpoolP512r1_Hp: "Hp_ok C_cx_BrainpoolP512r1"
  unfolding Hp_ok_def C_cx_BrainpoolP512r1_def cx_curve_domain.simps C_cx_BrainpoolP512r1_values
  by (rule mont_constI [where q = "0x17f8d7f4ed6daeb8a15d5ea2f03461e1e8373af60cc44ef09666ad8f2f5bf92f542ff2b38823152c5e47d93034e73ea8c71d621c4603556d117e2cf84e911e8d9"]) code_simp+

lemma C_cx_BrainpoolP512r1_Hn: "Hn_ok C_cx_BrainpoolP512r1"
  unfolding Hn_ok_def C_cx_BrainpoolP512r1_def cx_curve_domain.simps C_cx_BrainpoolP512r1_values
  by (rule mont_constI [where q = "0x17f8d7f4ed6daeb8a15d5ea2f03461e1e8373af60cc44ef09666ad8f2f5bf92f7db9470c61a235d449ff38f5f59ee47100eaf0d9015d5c4ce2fafac64db57db37"]) code_simp+

lemma C_cx_BrainpoolP512r1_reduced: "reduced_ok C_cx_BrainpoolP512r1"
  by (simp add: reduced_ok_def C_cx_BrainpoolP512r1_def C_cx_BrainpoolP512r1_values)

lemma C_cx_BrainpoolP512r1_sizes: "sizes_ok C_cx_BrainpoolP512r1"
  by (simp add: sizes_ok_def C_cx_BrainpoolP512r1_def C_cx_BrainpoolP512r1_a_def C_cx_BrainpoolP512r1_b_def C_cx_BrainpoolP512r1_p_def C_cx_BrainpoolP512r1_Gx_def C_cx_BrainpoolP512r1_Gy_def C_cx_BrainpoolP512r1_n_def C_cx_BrainpoolP512r1_Hp_def C_cx_BrainpoolP512r1_Hn_def C_cofactor_1_def)

lemma C_cx_BrainpoolP512r1_hasse: "hasse_ok C_cx_BrainpoolP512r1"
  unfolding hasse_ok_def C_cx_BrainpoolP512r1_def cx_curve_domain.simps C_cx_BrainpoolP512r1_values cofactor_values by code_simp

lemma C_cx_BrainpoolP512t1_values:
  "os2ip C_cx_BrainpoolP512t1_a = 0xaadd9db8dbe9c48b3fd4e6ae33c9fc07cb308db3b3c9d20ed6639cca703308717d4d9b009bc66842aecda12ae6a380e62881ff2f2d82c68528aa6056583a48f0"
  "os2ip C_cx_BrainpoolP512t1_b = 0x7cbbbcf9441cfab76e1890e46884eae321f70c0bcb4981527897504bec3e36a62bcdfa2304976540f6450085f2dae145c22553b465763689180ea2571867423e"
  "os2ip C_cx_BrainpoolP512t1_p = 0xaadd9db8dbe9c48b3fd4e6ae33c9fc07cb308db3b3c9d20ed6639cca703308717d4d9b009bc66842aecda12ae6a380e62881ff2f2d82c68528aa6056583a48f3"
  "os2ip C_cx_BrainpoolP512t1_Gx = 0x640ece5c12788717b9c1ba06cbc2a6feba85842458c56dde9db1758d39c0313d82ba51735cdb3ea499aa77a7d6943a64f7a3f25fe26f06b51baa2696fa9035da"
  "os2ip C_cx_BrainpoolP512t1_Gy = 0x5b534bd595f5af0fa2c892376c84ace1bb4e3019b71634c01131159cae03cee9d9932184beef216bd71df2dadf86a627306ecff96dbb8bace198b61e00f8b332"
  "os2ip C_cx_BrainpoolP512t1_n = 0xaadd9db8dbe9c48b3fd4e6ae33c9fc07cb308db3b3c9d20ed6639cca70330870553e5c414ca92619418661197fac10471db1d381085ddaddb58796829ca90069"
  "os2ip C_cx_BrainpoolP512t1_Hp = 0x3c4c9d05a9ff6450202e19402056eecca16daa5fd42bff8319486fd8d5898057e0c19a7783514a2553b7f9bc905affd3793fb1302715790549ad144a6158f205"
  "os2ip C_cx_BrainpoolP512t1_Hn = 0xa794586a718407b095df1b4c194b2e56723c37a22f16bbdfd7f9cc263b790de3a6f230c72f0207e83ec64bd033b7627f0886b75895283dddd2a3681ecda81671"
  by (simp_all add: os2ip_def C_cx_BrainpoolP512t1_a_def C_cx_BrainpoolP512t1_b_def C_cx_BrainpoolP512t1_p_def C_cx_BrainpoolP512t1_Gx_def C_cx_BrainpoolP512t1_Gy_def C_cx_BrainpoolP512t1_n_def C_cx_BrainpoolP512t1_Hp_def C_cx_BrainpoolP512t1_Hn_def)

lemma C_cx_BrainpoolP512t1_red_x:
  "(0x640ece5c12788717b9c1ba06cbc2a6feba85842458c56dde9db1758d39c0313d82ba51735cdb3ea499aa77a7d6943a64f7a3f25fe26f06b51baa2696fa9035da::int) * 0x640ece5c12788717b9c1ba06cbc2a6feba85842458c56dde9db1758d39c0313d82ba51735cdb3ea499aa77a7d6943a64f7a3f25fe26f06b51baa2696fa9035da = 0x3a97dd2cd45ac8c57c064a995529647d8e0be63b946ee359985ab2da75810e05e823a06166c10eea7624b9ea4cde85c47c5ff7a24e158c2f21ff878d0c8807c1 * 0xaadd9db8dbe9c48b3fd4e6ae33c9fc07cb308db3b3c9d20ed6639cca703308717d4d9b009bc66842aecda12ae6a380e62881ff2f2d82c68528aa6056583a48f3 + 0x2e32514610393673518dc71b402a0f9cce77198ffb44ffc41db4754ed2e4bfcc31d5cdd50abaafda662e780fb88b227a80087903c67690e50b0be327278c5971"
  by code_simp

lemma C_cx_BrainpoolP512t1_red_r:
  "((0x2e32514610393673518dc71b402a0f9cce77198ffb44ffc41db4754ed2e4bfcc31d5cdd50abaafda662e780fb88b227a80087903c67690e50b0be327278c5971::int) + 0xaadd9db8dbe9c48b3fd4e6ae33c9fc07cb308db3b3c9d20ed6639cca703308717d4d9b009bc66842aecda12ae6a380e62881ff2f2d82c68528aa6056583a48f0) * 0x640ece5c12788717b9c1ba06cbc2a6feba85842458c56dde9db1758d39c0313d82ba51735cdb3ea499aa77a7d6943a64f7a3f25fe26f06b51baa2696fa9035da + 0x7cbbbcf9441cfab76e1890e46884eae321f70c0bcb4981527897504bec3e36a62bcdfa2304976540f6450085f2dae145c22553b465763689180ea2571867423e = 0x7f1c38828024c941655ffecf059eda27650ef551018fedeba53cdbc60e9d4c7c092f1c432187b52ace272f7dc196c22acb9a375bb61388b655722202ea8c890f * 0xaadd9db8dbe9c48b3fd4e6ae33c9fc07cb308db3b3c9d20ed6639cca703308717d4d9b009bc66842aecda12ae6a380e62881ff2f2d82c68528aa6056583a48f3 + 0x4ac7293205d9aaf0fcfd251c725c2758b49b52eed8f9e752971e7216c1aed857974cca86ede76dd5c5274b764eec310436c6dc42cc12171a07c24313b8634c9b"
  by code_simp

lemma C_cx_BrainpoolP512t1_red_y:
  "(0x5b534bd595f5af0fa2c892376c84ace1bb4e3019b71634c01131159cae03cee9d9932184beef216bd71df2dadf86a627306ecff96dbb8bace198b61e00f8b332::int) * 0x5b534bd595f5af0fa2c892376c84ace1bb4e3019b71634c01131159cae03cee9d9932184beef216bd71df2dadf86a627306ecff96dbb8bace198b61e00f8b332 = 0x30cfea187c3beb701826cfbfec2aeb7e49b0c4d9e69490dd16ed168c68acab30b73a000b087295e0dfb4a9d26b2935db9d9ab389c8f3154aa0f1e65a32c88c73 * 0xaadd9db8dbe9c48b3fd4e6ae33c9fc07cb308db3b3c9d20ed6639cca703308717d4d9b009bc66842aecda12ae6a380e62881ff2f2d82c68528aa6056583a48f3 + 0x4ac7293205d9aaf0fcfd251c725c2758b49b52eed8f9e752971e7216c1aed857974cca86ede76dd5c5274b764eec310436c6dc42cc12171a07c24313b8634c9b"
  by code_simp

lemma C_cx_BrainpoolP512t1_base: "base_point_ok C_cx_BrainpoolP512t1"
  by (rule base_point_on_weierstrassI, simp add: C_cx_BrainpoolP512t1_def cx_curve_kinds cx_curve_ids,
      simp only: C_cx_BrainpoolP512t1_def cx_curve_domain.simps C_cx_BrainpoolP512t1_values,
      rule on_weierstrassI [OF C_cx_BrainpoolP512t1_red_x C_cx_BrainpoolP512t1_red_r C_cx_BrainpoolP512t1_red_y])

lemma C_cx_BrainpoolP512t1_Hp: "Hp_ok C_cx_BrainpoolP512t1"
  unfolding Hp_ok_def C_cx_BrainpoolP512t1_def cx_curve_domain.simps C_cx_BrainpoolP512t1_values
  by (rule mont_constI [where q = "0x17f8d7f4ed6daeb8a15d5ea2f03461e1e8373af60cc44ef09666ad8f2f5bf92f542ff2b38823152c5e47d93034e73ea8c71d621c4603556d117e2cf84e911e8d9"]) code_simp+

lemma C_cx_BrainpoolP512t1_Hn: "Hn_ok C_cx_BrainpoolP512t1"
  unfolding Hn_ok_def C_cx_BrainpoolP512t1_def cx_curve_domain.simps C_cx_BrainpoolP512t1_values
  by (rule mont_constI [where q = "0x17f8d7f4ed6daeb8a15d5ea2f03461e1e8373af60cc44ef09666ad8f2f5bf92f7db9470c61a235d449ff38f5f59ee47100eaf0d9015d5c4ce2fafac64db57db37"]) code_simp+

lemma C_cx_BrainpoolP512t1_reduced: "reduced_ok C_cx_BrainpoolP512t1"
  by (simp add: reduced_ok_def C_cx_BrainpoolP512t1_def C_cx_BrainpoolP512t1_values)

lemma C_cx_BrainpoolP512t1_sizes: "sizes_ok C_cx_BrainpoolP512t1"
  by (simp add: sizes_ok_def C_cx_BrainpoolP512t1_def C_cx_BrainpoolP512t1_a_def C_cx_BrainpoolP512t1_b_def C_cx_BrainpoolP512t1_p_def C_cx_BrainpoolP512t1_Gx_def C_cx_BrainpoolP512t1_Gy_def C_cx_BrainpoolP512t1_n_def C_cx_BrainpoolP512t1_Hp_def C_cx_BrainpoolP512t1_Hn_def C_cofactor_1_def)

lemma C_cx_BrainpoolP512t1_hasse: "hasse_ok C_cx_BrainpoolP512t1"
  unfolding hasse_ok_def C_cx_BrainpoolP512t1_def cx_curve_domain.simps C_cx_BrainpoolP512t1_values cofactor_values by code_simp

end
