(* ===== verification/Curve_Checks_3.thy ===== *)
theory Curve_Checks_3
  imports Cx_Curves
begin

text \<open>
  The parameters of the pairing-friendly and Pasta curves, checked.
\<close>

lemma C_cx_BLS12_381_G1_values:
  "os2ip C_cx_BLS12_381_G1_a = 0"
  "os2ip C_cx_BLS12_381_G1_b = 4"
  "os2ip C_cx_BLS12_381_G1_p = 0x1a0111ea397fe69a4b1ba7b6434bacd764774b84f38512bf6730d2a0f6b0f6241eabfffeb153ffffb9feffffffffaaab"
  "os2ip C_cx_BLS12_381_G1_Gx = 0x17f1d3a73197d7942695638c4fa9ac0fc3688c4f9774b905a14e3a3f171bac586c55e83ff97a1aeffb3af00adb22c6bb"
  "os2ip C_cx_BLS12_381_G1_Gy = 0x8b3f481e3aaa0f1a09e30ed741d8ae4fcf5e095d5d00af600db18cb2c04b3edd03cc744a2888ae40caa232946c5e7e1"
  "os2ip C_cx_BLS12_381_G1_n = 0x73eda753299d7d483339d80809a1d80553bda402fffe5bfeffffffff00000001"
  "os2ip C_cx_BLS12_381_G1_Hp = 0x11988fe592cae3aa9a793e85b519952d67eb88a9939d83c08de5476c4c95b6d50a76e6a609d104f1f4df1f341c341746"
  "os2ip C_cx_BLS12_381_G1_Hn = 0x6e2a5bb9c8db33e973d13c71c7b5f4181b3e0d188cf06990c62c1807439b73af"
  by (simp_all add: os2ip_def C_cx_BLS12_381_G1_a_def C_cx_BLS12_381_G1_b_def C_cx_BLS12_381_G1_p_def C_cx_BLS12_381_G1_Gx_def C_cx_BLS12_381_G1_Gy_def C_cx_BLS12_381_G1_n_def C_cx_BLS12_381_G1_Hp_def C_cx_BLS12_381_G1_Hn_def)

lemma C_cx_BLS12_381_G1_red_x:
  "(0x17f1d3a73197d7942695638c4fa9ac0fc3688c4f9774b905a14e3a3f171bac586c55e83ff97a1aeffb3af00adb22c6bb::int) * 0x17f1d3a73197d7942695638c4fa9ac0fc3688c4f9774b905a14e3a3f171bac586c55e83ff97a1aeffb3af00adb22c6bb = 0x160c576b47413202ac6cce1e868833724d82c86daa3e4a9ca6698edd38fdcfaf0a743a90a32995add371a0d6ca0d3960 * 0x1a0111ea397fe69a4b1ba7b6434bacd764774b84f38512bf6730d2a0f6b0f6241eabfffeb153ffffb9feffffffffaaab + 0xa959cfb3b49280847b60aab6103fd71e072f5eab6da1fce8a102615bff619c04071ac337f56b79f362863c0d062b979"
  by code_simp

lemma C_cx_BLS12_381_G1_red_r:
  "((0xa959cfb3b49280847b60aab6103fd71e072f5eab6da1fce8a102615bff619c04071ac337f56b79f362863c0d062b979::int) + 0) * 0x17f1d3a73197d7942695638c4fa9ac0fc3688c4f9774b905a14e3a3f171bac586c55e83ff97a1aeffb3af00adb22c6bb + 4 = 0x9bf02b0ee7878b32ca5504792742fa2b90a486549e75fa46d93b17304874f1561f85d8aef8c4d5c1d0eb436e7b56533 * 0x1a0111ea397fe69a4b1ba7b6434bacd764774b84f38512bf6730d2a0f6b0f6241eabfffeb153ffffb9feffffffffaaab + 0x64a3a594868a2a4dab071ff6d880ae0f459c87e11ab01b3454b95a7d6a93f853f6e07f754b6e7933799e0afe2779a56"
  by code_simp

lemma C_cx_BLS12_381_G1_red_y:
  "(0x8b3f481e3aaa0f1a09e30ed741d8ae4fcf5e095d5d00af600db18cb2c04b3edd03cc744a2888ae40caa232946c5e7e1::int) * 0x8b3f481e3aaa0f1a09e30ed741d8ae4fcf5e095d5d00af600db18cb2c04b3edd03cc744a2888ae40caa232946c5e7e1 = 0x2e9a4150be272194ad298b6f6b0560664e67c2d1b9cad633cc7a0c80b15d9faa0ac3ccf6ff0bf05eee67d5f3fcfac41 * 0x1a0111ea397fe69a4b1ba7b6434bacd764774b84f38512bf6730d2a0f6b0f6241eabfffeb153ffffb9feffffffffaaab + 0x64a3a594868a2a4dab071ff6d880ae0f459c87e11ab01b3454b95a7d6a93f853f6e07f754b6e7933799e0afe2779a56"
  by code_simp

lemma C_cx_BLS12_381_G1_base: "base_point_ok C_cx_BLS12_381_G1"
  by (rule base_point_on_weierstrassI, simp add: C_cx_BLS12_381_G1_def cx_curve_kinds cx_curve_ids,
      simp only: C_cx_BLS12_381_G1_def cx_curve_domain.simps C_cx_BLS12_381_G1_values,
      rule on_weierstrassI [OF C_cx_BLS12_381_G1_red_x C_cx_BLS12_381_G1_red_r C_cx_BLS12_381_G1_red_y])

lemma C_cx_BLS12_381_G1_Hp: "Hp_ok C_cx_BLS12_381_G1"
  unfolding Hp_ok_def C_cx_BLS12_381_G1_def cx_curve_domain.simps C_cx_BLS12_381_G1_values
  by (rule mont_constI [where q = "0x9d835d2f3cc9e45ce28101b0cc7a6ba291b82741ff6a0a94bdf4771e0286779d3997167a058f1c07b13e207f56591ba2e"]) code_simp+

lemma C_cx_BLS12_381_G1_Hn: "Hn_ok C_cx_BLS12_381_G1"
  unfolding Hn_ok_def C_cx_BLS12_381_G1_def cx_curve_domain.simps C_cx_BLS12_381_G1_values
  by (rule mont_constI [where q = "0x2355094edfede377c38b5dcb707e08ed365043eb4be4bad7142737a020c0d6393101613ce4457858fdb7b86bbf1d4d2671bc6525d1be17b09f6387449bc648c51"]) code_simp+

lemma C_cx_BLS12_381_G1_reduced: "reduced_ok C_cx_BLS12_381_G1"
  by (simp add: reduced_ok_def C_cx_BLS12_381_G1_def C_cx_BLS12_381_G1_values)

lemma C_cx_BLS12_381_G1_sizes: "sizes_ok C_cx_BLS12_381_G1"
  by (simp add: sizes_ok_def C_cx_BLS12_381_G1_def C_cx_BLS12_381_G1_a_def C_cx_BLS12_381_G1_b_def C_cx_BLS12_381_G1_p_def C_cx_BLS12_381_G1_Gx_def C_cx_BLS12_381_G1_Gy_def C_cx_BLS12_381_G1_n_def C_cx_BLS12_381_G1_Hp_def C_cx_BLS12_381_G1_Hn_def C_cx_BLS12_381_G1_h_def)

lemma C_cx_BLS12_377_G1_values:
  "os2ip C_cx_BLS12_377_G1_a = 0"
  "os2ip C_cx_BLS12_377_G1_b = 1"
  "os2ip C_cx_BLS12_377_G1_p = 0x1ae3a4617c510eac63b05c06ca1493b1a22d9f300f5138f1ef3622fba094800170b5d44300000008508c00000000001"
  "os2ip C_cx_BLS12_377_G1_Gx = 0x8848defe740a67c8fc6225bf87ff5485951e2caa9d41bb188282c8bd37cb5cd5481512ffcd394eeab9b16eb21be9ef"
  "os2ip C_cx_BLS12_377_G1_Gy = 0x1914a69c5102eff1f674f5d30afeec4bd7fb348ca3e52d96d182ad44fb82305c2fe3d3634a9591afd82de55559c8ea6"
  "os2ip C_cx_BLS12_377_G1_n = 0x12ab655e9a2ca55660b44d1e5c37b00159aa76fed00000010a11800000000001"
  "os2ip C_cx_BLS12_377_G1_Hp = 0x6dfccb1e914b88837e92f041790bf9bfdf7d03827dc3ac22a5f11162d6b46d0329fcaab00431b1b786686c9400cd22"
  "os2ip C_cx_BLS12_377_G1_Hn = 0x601dfa555c48ddab1e55ef6f1c9d713624d23ffae2716996a4295c90f65454c"
  by (simp_all add: os2ip_def C_cx_BLS12_377_G1_a_def C_cx_BLS12_377_G1_b_def C_cx_BLS12_377_G1_p_def C_cx_BLS12_377_G1_Gx_def C_cx_BLS12_377_G1_Gy_def C_cx_BLS12_377_G1_n_def C_cx_BLS12_377_G1_Hp_def C_cx_BLS12_377_G1_Hn_def)

lemma C_cx_BLS12_377_G1_red_x:
  "(0x8848defe740a67c8fc6225bf87ff5485951e2caa9d41bb188282c8bd37cb5cd5481512ffcd394eeab9b16eb21be9ef::int) * 0x8848defe740a67c8fc6225bf87ff5485951e2caa9d41bb188282c8bd37cb5cd5481512ffcd394eeab9b16eb21be9ef = 0x2b2bdd6b63ca836dbd231c3a52a8b3f475f8bc09bf99bd3cc069109c4e8909dc45daf011b29fc191a1a2e6e74b18ec * 0x1ae3a4617c510eac63b05c06ca1493b1a22d9f300f5138f1ef3622fba094800170b5d44300000008508c00000000001 + 0x7854d912cb936c46339162f0bb0af5a7049d409dc7b94f42670eb4c2d6910583ef63fb7346a647e51fb8d8a2e3d435"
  by code_simp

lemma C_cx_BLS12_377_G1_red_r:
  "((0x7854d912cb936c46339162f0bb0af5a7049d409dc7b94f42670eb4c2d6910583ef63fb7346a647e51fb8d8a2e3d435::int) + 0) * 0x8848defe740a67c8fc6225bf87ff5485951e2caa9d41bb188282c8bd37cb5cd5481512ffcd394eeab9b16eb21be9ef + 1 = 0x261e27ba9a52ef9ae7f76d2de58f48f5ceed41765d0ed99992fedd0cf9ddc4e5b4d80e2c1addc2f23be27a8d400b87 * 0x1ae3a4617c510eac63b05c06ca1493b1a22d9f300f5138f1ef3622fba094800170b5d44300000008508c00000000001 + 0x4100e0479472c3a43c725e79be81cfb325d882fba0946ad507d62b6a851f80a95091785f010f4fbdc807611d2e4ef5"
  by code_simp

lemma C_cx_BLS12_377_G1_red_y:
  "(0x1914a69c5102eff1f674f5d30afeec4bd7fb348ca3e52d96d182ad44fb82305c2fe3d3634a9591afd82de55559c8ea6::int) * 0x1914a69c5102eff1f674f5d30afeec4bd7fb348ca3e52d96d182ad44fb82305c2fe3d3634a9591afd82de55559c8ea6 = 0x1764ccd74e9c010d703adfcb00bf1127381a65d3c51a737aa3fe31e1f765c4b9764c8acbdcee332f8d4b153489e44af * 0x1ae3a4617c510eac63b05c06ca1493b1a22d9f300f5138f1ef3622fba094800170b5d44300000008508c00000000001 + 0x4100e0479472c3a43c725e79be81cfb325d882fba0946ad507d62b6a851f80a95091785f010f4fbdc807611d2e4ef5"
  by code_simp

lemma C_cx_BLS12_377_G1_base: "base_point_ok C_cx_BLS12_377_G1"
  by (rule base_point_on_weierstrassI, simp add: C_cx_BLS12_377_G1_def cx_curve_kinds cx_curve_ids,
      simp only: C_cx_BLS12_377_G1_def cx_curve_domain.simps C_cx_BLS12_377_G1_values,
      rule on_weierstrassI [OF C_cx_BLS12_377_G1_red_x C_cx_BLS12_377_G1_red_r C_cx_BLS12_377_G1_red_y])

lemma C_cx_BLS12_377_G1_Hp: "Hp_ok C_cx_BLS12_377_G1"
  unfolding Hp_ok_def C_cx_BLS12_377_G1_def cx_curve_domain.simps C_cx_BLS12_377_G1_values
  by (rule mont_constI [where q = "0x98542343310183a5db0f28160bbd3dceeeb43799ddac681abcb52236169b40b43b5a1de2710a9647e7f56317936bff32de"]) code_simp+

lemma C_cx_BLS12_377_G1_Hn: "Hn_ok C_cx_BLS12_377_G1"
  unfolding Hn_ok_def C_cx_BLS12_377_G1_def cx_curve_domain.simps C_cx_BLS12_377_G1_values
  by (rule mont_constI [where q = "0xdb65247b102cb27b93947927eaa01523f428602e35a78963d48130845479e7a850f6b1feccee7ca7cfc8405231358e6103846d2bb3916b0d3ca6f6a36f09abab4"]) code_simp+

lemma C_cx_BLS12_377_G1_reduced: "reduced_ok C_cx_BLS12_377_G1"
  by (simp add: reduced_ok_def C_cx_BLS12_377_G1_def C_cx_BLS12_377_G1_values)

lemma C_cx_BLS12_377_G1_sizes: "sizes_ok C_cx_BLS12_377_G1"
  by (simp add: sizes_ok_def C_cx_BLS12_377_G1_def C_cx_BLS12_377_G1_a_def C_cx_BLS12_377_G1_b_def C_cx_BLS12_377_G1_p_def C_cx_BLS12_377_G1_Gx_def C_cx_BLS12_377_G1_Gy_def C_cx_BLS12_377_G1_n_def C_cx_BLS12_377_G1_Hp_def C_cx_BLS12_377_G1_Hn_def C_cx_BLS12_377_G1_h_def)

lemma C_cx_Pallas_values:
  "os2ip C_cx_Pallas_a = 0"
  "os2ip C_cx_Pallas_b = 5"
  "os2ip C_cx_Pallas_p = 0x40000000000000000000000000000000224698fc094cf91b992d30ed00000001"
  "os2ip C_cx_Pallas_Gx = 0x14733b283272574e23931f358a0354b7bcd5c765cc1fceacc3b3d1a0c495c9e"
  "os2ip C_cx_Pallas_Gy = 0x3a7b895f5e1fa91d826f72ea26b5c90b1bae77d129f5ecc1378924d743f4b678"
  "os2ip C_cx_Pallas_n = 0x40000000000000000000000000000000224698fc0994a8dd8c46eb2100000001"
  "os2ip C_cx_Pallas_Hp = 0x96d41af7b9cb7147797a99bc3c95d18d7d30dbd8b0de0e78c78ecb30000000f"
  "os2ip C_cx_Pallas_Hn = 0x96d41af7ccfdaa97fae231004ccf59067bb433d891a16e3fc9678ff0000000f"
  by (simp_all add: os2ip_def C_cx_Pallas_a_def C_cx_Pallas_b_def C_cx_Pallas_p_def C_cx_Pallas_Gx_def C_cx_Pallas_Gy_def C_cx_Pallas_n_def C_cx_Pallas_Hp_def C_cx_Pallas_Hn_def)

lemma C_cx_Pallas_red_x:
  "(0x14733b283272574e23931f358a0354b7bcd5c765cc1fceacc3b3d1a0c495c9e::int) * 0x14733b283272574e23931f358a0354b7bcd5c765cc1fceacc3b3d1a0c495c9e = 0x688d471eeaaf7bc9eb4742eed29374f8ccdbee328c6cc1617a53ffb8fa86b * 0x40000000000000000000000000000000224698fc094cf91b992d30ed00000001 + 0x158c165fc051a5a07de9f9670a146b3cb07ccea9c180b6617efb717dc80e4919"
  by code_simp

lemma C_cx_Pallas_red_r:
  "((0x158c165fc051a5a07de9f9670a146b3cb07ccea9c180b6617efb717dc80e4919::int) + 0) * 0x14733b283272574e23931f358a0354b7bcd5c765cc1fceacc3b3d1a0c495c9e + 5 = 0x6e292a0cd514802a160c43627c4f02945bf54b07def16c451541cd3e1456dd * 0x40000000000000000000000000000000224698fc094cf91b992d30ed00000001 + 0x12751de481a9860f4d4508d7bffb4a1324634b5d63467acb93cd3c2a6122c296"
  by code_simp

lemma C_cx_Pallas_red_y:
  "(0x3a7b895f5e1fa91d826f72ea26b5c90b1bae77d129f5ecc1378924d743f4b678::int) * 0x3a7b895f5e1fa91d826f72ea26b5c90b1bae77d129f5ecc1378924d743f4b678 = 0x3570d7720808054b0a48d322bba387fcf2e9e5df48945a25a5c71472c5ac15aa * 0x40000000000000000000000000000000224698fc094cf91b992d30ed00000001 + 0x12751de481a9860f4d4508d7bffb4a1324634b5d63467acb93cd3c2a6122c296"
  by code_simp

lemma C_cx_Pallas_base: "base_point_ok C_cx_Pallas"
  by (rule base_point_on_weierstrassI, simp add: C_cx_Pallas_def cx_curve_kinds cx_curve_ids,
      simp only: C_cx_Pallas_def cx_curve_domain.simps C_cx_Pallas_values,
      rule on_weierstrassI [OF C_cx_Pallas_red_x C_cx_Pallas_red_r C_cx_Pallas_red_y])

lemma C_cx_Pallas_Hp: "Hp_ok C_cx_Pallas"
  unfolding Hp_ok_def C_cx_Pallas_def cx_curve_domain.simps C_cx_Pallas_values
  by (rule mont_constI [where q = "0x3fffffffffffffffffffffffffffffffddb96703f6b306e466d2cf12ffffffff1"]) code_simp+

lemma C_cx_Pallas_Hn: "Hn_ok C_cx_Pallas"
  unfolding Hn_ok_def C_cx_Pallas_def cx_curve_domain.simps C_cx_Pallas_values
  by (rule mont_constI [where q = "0x3fffffffffffffffffffffffffffffffddb96703f66b572273b914deffffffff1"]) code_simp+

lemma C_cx_Pallas_reduced: "reduced_ok C_cx_Pallas"
  by (simp add: reduced_ok_def C_cx_Pallas_def C_cx_Pallas_values)

lemma C_cx_Pallas_sizes: "sizes_ok C_cx_Pallas"
  by (simp add: sizes_ok_def C_cx_Pallas_def C_cx_Pallas_a_def C_cx_Pallas_b_def C_cx_Pallas_p_def C_cx_Pallas_Gx_def C_cx_Pallas_Gy_def C_cx_Pallas_n_def C_cx_Pallas_Hp_def C_cx_Pallas_Hn_def C_cx_Pallas_h_def)

lemma C_cx_Pallas_cofactor: "os2ip (take 4 C_cx_Pallas_h) = 1"
  by (simp add: os2ip_def C_cx_Pallas_h_def)

lemma C_cx_Pallas_hasse: "hasse_ok C_cx_Pallas"
  unfolding hasse_ok_def C_cx_Pallas_def cx_curve_domain.simps C_cx_Pallas_values C_cx_Pallas_cofactor by code_simp

lemma C_cx_Vesta_values:
  "os2ip C_cx_Vesta_a = 0"
  "os2ip C_cx_Vesta_b = 5"
  "os2ip C_cx_Vesta_p = 0x40000000000000000000000000000000224698fc0994a8dd8c46eb2100000001"
  "os2ip C_cx_Vesta_Gx = 0x2d3996e18f134bd93aec73c9b984dbf27074e544029e4ac122fb219fde2b20eb"
  "os2ip C_cx_Vesta_Gy = 0x2afaa43f3c902b3d19adc0b90aa1e9a37d55c73d7753f722f34d456e530854f0"
  "os2ip C_cx_Vesta_n = 0x40000000000000000000000000000000224698fc094cf91b992d30ed00000001"
  "os2ip C_cx_Vesta_Hp = 0x96d41af7ccfdaa97fae231004ccf59067bb433d891a16e3fc9678ff0000000f"
  "os2ip C_cx_Vesta_Hn = 0x96d41af7b9cb7147797a99bc3c95d18d7d30dbd8b0de0e78c78ecb30000000f"
  by (simp_all add: os2ip_def C_cx_Vesta_a_def C_cx_Vesta_b_def C_cx_Vesta_p_def C_cx_Vesta_Gx_def C_cx_Vesta_Gy_def C_cx_Vesta_n_def C_cx_Vesta_Hp_def C_cx_Vesta_Hn_def)

lemma C_cx_Vesta_red_x:
  "(0x2d3996e18f134bd93aec73c9b984dbf27074e544029e4ac122fb219fde2b20eb::int) * 0x2d3996e18f134bd93aec73c9b984dbf27074e544029e4ac122fb219fde2b20eb = 0x1ff52fff56ae66a648df4c60bbb4a73407ebf4562c4bd182e4d679be8e98b3da * 0x40000000000000000000000000000000224698fc0994a8dd8c46eb2100000001 + 0x6e3b3b6afeb249ae98851fdd082e66bd5903397a362f37bf875876d1894e3df"
  by code_simp

lemma C_cx_Vesta_red_r:
  "((0x6e3b3b6afeb249ae98851fdd082e66bd5903397a362f37bf875876d1894e3df::int) + 0) * 0x2d3996e18f134bd93aec73c9b984dbf27074e544029e4ac122fb219fde2b20eb + 5 = 0x4de4d667784d70adef0772c27276d1e4be50dac36f990ada75a0c2e875ca329 * 0x40000000000000000000000000000000224698fc0994a8dd8c46eb2100000001 + 0x30e7078a67c8f54bbdbebbfea1e508835c895547cdb9af7271abc1df4e416a91"
  by code_simp

lemma C_cx_Vesta_red_y:
  "(0x2afaa43f3c902b3d19adc0b90aa1e9a37d55c73d7753f722f34d456e530854f0::int) * 0x2afaa43f3c902b3d19adc0b90aa1e9a37d55c73d7753f722f34d456e530854f0 = 0x1cdccd27d30ab3f051ca841ecdaf02773b95885c7c7ef44b43775a6abcecf66f * 0x40000000000000000000000000000000224698fc0994a8dd8c46eb2100000001 + 0x30e7078a67c8f54bbdbebbfea1e508835c895547cdb9af7271abc1df4e416a91"
  by code_simp

lemma C_cx_Vesta_base: "base_point_ok C_cx_Vesta"
  by (rule base_point_on_weierstrassI, simp add: C_cx_Vesta_def cx_curve_kinds cx_curve_ids,
      simp only: C_cx_Vesta_def cx_curve_domain.simps C_cx_Vesta_values,
      rule on_weierstrassI [OF C_cx_Vesta_red_x C_cx_Vesta_red_r C_cx_Vesta_red_y])

lemma C_cx_Vesta_Hp: "Hp_ok C_cx_Vesta"
  unfolding Hp_ok_def C_cx_Vesta_def cx_curve_domain.simps C_cx_Vesta_values
  by (rule mont_constI [where q = "0x3fffffffffffffffffffffffffffffffddb96703f66b572273b914deffffffff1"]) code_simp+

lemma C_cx_Vesta_Hn: "Hn_ok C_cx_Vesta"
  unfolding Hn_ok_def C_cx_Vesta_def cx_curve_domain.simps C_cx_Vesta_values
  by (rule mont_constI [where q = "0x3fffffffffffffffffffffffffffffffddb96703f6b306e466d2cf12ffffffff1"]) code_simp+

lemma C_cx_Vesta_reduced: "reduced_ok C_cx_Vesta"
  by (simp add: reduced_ok_def C_cx_Vesta_def C_cx_Vesta_values)

lemma C_cx_Vesta_sizes: "sizes_ok C_cx_Vesta"
  by (simp add: sizes_ok_def C_cx_Vesta_def C_cx_Vesta_a_def C_cx_Vesta_b_def C_cx_Vesta_p_def C_cx_Vesta_Gx_def C_cx_Vesta_Gy_def C_cx_Vesta_n_def C_cx_Vesta_Hp_def C_cx_Vesta_Hn_def C_cx_Vesta_h_def)

lemma C_cx_Vesta_cofactor: "os2ip (take 4 C_cx_Vesta_h) = 1"
  by (simp add: os2ip_def C_cx_Vesta_h_def)

lemma C_cx_Vesta_hasse: "hasse_ok C_cx_Vesta"
  unfolding hasse_ok_def C_cx_Vesta_def cx_curve_domain.simps C_cx_Vesta_values C_cx_Vesta_cofactor by code_simp

end
