(* ===== verification/Curve_Checks_4.thy ===== *)
theory Curve_Checks_4
  imports Cx_Curves
begin

text \<open>
  The parameters of the twisted Edwards and Montgomery curves, checked.
\<close>

lemma C_cx_Ed25519_values:
  "os2ip C_cx_Ed25519_a = 0x7fffffffffffffffffffffffffffffffffffffffffffffffffffffffffffffec"
  "os2ip C_cx_Ed25519_d = 0x52036cee2b6ffe738cc740797779e89800700a4d4141d8ab75eb4dca135978a3"
  "os2ip C_cx_Ed25519_q = 0x7fffffffffffffffffffffffffffffffffffffffffffffffffffffffffffffed"
  "os2ip C_cx_Ed25519_Bx = 0x216936d3cd6e53fec0a4e231fdd6dc5c692cc7609525a7b2c9562d608f25d51a"
  "os2ip C_cx_Ed25519_By = 0x6666666666666666666666666666666666666666666666666666666666666658"
  "os2ip C_cx_Ed25519_l = 0x1000000000000000000000000000000014def9dea2f79cd65812631a5cf5d3ed"
  "os2ip C_cx_Ed25519_Hq = 0x5a4"
  "os2ip C_cx_Ed25519_Hl = 0x399411b7c309a3dceec73d217f5be65d00e1ba768859347a40611e3449c0f01"
  by (simp_all add: os2ip_def C_cx_Ed25519_a_def C_cx_Ed25519_d_def C_cx_Ed25519_q_def C_cx_Ed25519_Bx_def C_cx_Ed25519_By_def C_cx_Ed25519_l_def C_cx_Ed25519_Hq_def C_cx_Ed25519_Hl_def)

lemma C_cx_Ed25519_red_x:
  "(0x216936d3cd6e53fec0a4e231fdd6dc5c692cc7609525a7b2c9562d608f25d51a::int) * 0x216936d3cd6e53fec0a4e231fdd6dc5c692cc7609525a7b2c9562d608f25d51a = 0x8b896c140e6001ed198b5b7b564c5e7c4cea7656ac92ed1492ba58553286991 * 0x7fffffffffffffffffffffffffffffffffffffffffffffffffffffffffffffed + 0x39e5a76b6f33fadbc92a232fdb1c32f2ebe39c555ccb6a7d690b8a0f82e81c67"
  by code_simp

lemma C_cx_Ed25519_red_y:
  "(0x6666666666666666666666666666666666666666666666666666666666666658::int) * 0x6666666666666666666666666666666666666666666666666666666666666658 = 0x51eb851eb851eb851eb851eb851eb851eb851eb851eb851eb851eb851eb851e0 * 0x7fffffffffffffffffffffffffffffffffffffffffffffffffffffffffffffed + 0x51eb851eb851eb851eb851eb851eb851eb851eb851eb851eb851eb851eb851e0"
  by code_simp

lemma C_cx_Ed25519_red_l:
  "(0x7fffffffffffffffffffffffffffffffffffffffffffffffffffffffffffffec::int) * 0x39e5a76b6f33fadbc92a232fdb1c32f2ebe39c555ccb6a7d690b8a0f82e81c67 + 0x51eb851eb851eb851eb851eb851eb851eb851eb851eb851eb851eb851eb851e0 = 0x39e5a76b6f33fadbc92a232fdb1c32f2ebe39c555ccb6a7d690b8a0f82e81c67 * 0x7fffffffffffffffffffffffffffffffffffffffffffffffffffffffffffffed + 0x1805ddb3491df0a9558e2ebbaa02855effa18262f5201aa14f4661759bd03579"
  by code_simp

lemma C_cx_Ed25519_red_t:
  "(0x39e5a76b6f33fadbc92a232fdb1c32f2ebe39c555ccb6a7d690b8a0f82e81c67::int) * 0x51eb851eb851eb851eb851eb851eb851eb851eb851eb851eb851eb851eb851e0 = 0x250ddbc9e0c51b6df162a5e130120c2096f8122226e89612d296bec23f4cdefa * 0x7fffffffffffffffffffffffffffffffffffffffffffffffffffffffffffffed + 0x43c62db565e3d3bfdce7c49981fd913f4f49fda745a0e7fe57b577142ad1fdae"
  by code_simp

lemma C_cx_Ed25519_red_r:
  "(1::int) + 0x52036cee2b6ffe738cc740797779e89800700a4d4141d8ab75eb4dca135978a3 * 0x43c62db565e3d3bfdce7c49981fd913f4f49fda745a0e7fe57b577142ad1fdae = 0x2b6cc59a99944230931f709dd6154114df3773c14313160c6e0001c240b8a35a * 0x7fffffffffffffffffffffffffffffffffffffffffffffffffffffffffffffed + 0x1805ddb3491df0a9558e2ebbaa02855effa18262f5201aa14f4661759bd03579"
  by code_simp

lemma C_cx_Ed25519_base: "base_point_ok C_cx_Ed25519"
  by (rule base_point_on_twisted_edwardsI, simp add: C_cx_Ed25519_def cx_curve_kinds cx_curve_ids,
      simp only: C_cx_Ed25519_def cx_curve_domain.simps C_cx_Ed25519_values,
      rule on_twisted_edwardsI [OF C_cx_Ed25519_red_x C_cx_Ed25519_red_y C_cx_Ed25519_red_l C_cx_Ed25519_red_t C_cx_Ed25519_red_r])

lemma C_cx_Ed25519_Hp: "Hp_ok C_cx_Ed25519"
  unfolding Hp_ok_def C_cx_Ed25519_def cx_curve_domain.simps C_cx_Ed25519_values
  by (rule mont_constI [where q = "0x2000000000000000000000000000000000000000000000000000000000000004c"]) code_simp+

lemma C_cx_Ed25519_Hn: "Hn_ok C_cx_Ed25519"
  unfolding Hn_ok_def C_cx_Ed25519_def cx_curve_domain.simps C_cx_Ed25519_values
  by (rule mont_constI [where q = "0xfffffffffffffffffffffffffffffffeb2106215d086329a7ed9ce5a30a2c131b"]) code_simp+

lemma C_cx_Ed25519_reduced: "reduced_ok C_cx_Ed25519"
  by (simp add: reduced_ok_def C_cx_Ed25519_def C_cx_Ed25519_values)

lemma C_cx_Ed25519_sizes: "sizes_ok C_cx_Ed25519"
  by (simp add: sizes_ok_def C_cx_Ed25519_def C_cx_Ed25519_a_def C_cx_Ed25519_d_def C_cx_Ed25519_q_def C_cx_Ed25519_Bx_def C_cx_Ed25519_By_def C_cx_Ed25519_l_def C_cx_Ed25519_Hq_def C_cx_Ed25519_Hl_def C_cofactor_8_def)

lemma C_cx_Ed25519_hasse: "hasse_ok C_cx_Ed25519"
  unfolding hasse_ok_def C_cx_Ed25519_def cx_curve_domain.simps C_cx_Ed25519_values cofactor_values by code_simp

lemma C_cx_Ed448_values:
  "os2ip C_cx_Ed448_a = 1"
  "os2ip C_cx_Ed448_d = 0xfffffffffffffffffffffffffffffffffffffffffffffffffffffffeffffffffffffffffffffffffffffffffffffffffffffffffffff6756"
  "os2ip C_cx_Ed448_q = 0xfffffffffffffffffffffffffffffffffffffffffffffffffffffffeffffffffffffffffffffffffffffffffffffffffffffffffffffffff"
  "os2ip C_cx_Ed448_Bx = 0x4f1970c66bed0ded221d15a622bf36da9e146570470f1767ea6de324a3d3a46412ae1af72ab66511433b80e18b00938e2626a82bc70cc05e"
  "os2ip C_cx_Ed448_By = 0x693f46716eb6bc248876203756c9c7624bea73736ca3984087789c1e05a0c2d73ad3ff1ce67c39c4fdbd132c4ed7c8ad9808795bf230fa14"
  "os2ip C_cx_Ed448_l = 0x3fffffffffffffffffffffffffffffffffffffffffffffffffffffff7cca23e9c44edb49aed63690216cc2728dc58f552378c292ab5844f3"
  "os2ip C_cx_Ed448_Hq = 0x30000000000000000000000000000000000000000000000000000000200000000000000000000000000000000"
  "os2ip C_cx_Ed448_Hl = 0x1a9cc14ba3c47c44ae17cf72c9860faa107550ba94d0e808f10a98ef88e15bb48bd827de127ce5f23e0aa68d30dbb989bbecffc33c3a378c"
  by (simp_all add: os2ip_def C_cx_Ed448_a_def C_cx_Ed448_d_def C_cx_Ed448_q_def C_cx_Ed448_Bx_def C_cx_Ed448_By_def C_cx_Ed448_l_def C_cx_Ed448_Hq_def C_cx_Ed448_Hl_def)

lemma C_cx_Ed448_red_x:
  "(0x4f1970c66bed0ded221d15a622bf36da9e146570470f1767ea6de324a3d3a46412ae1af72ab66511433b80e18b00938e2626a82bc70cc05e::int) * 0x4f1970c66bed0ded221d15a622bf36da9e146570470f1767ea6de324a3d3a46412ae1af72ab66511433b80e18b00938e2626a82bc70cc05e = 0x1870b621af0b9b1f9fbfaadc002b13aacd4c7b2d9957340f3961bc8d4b80e82d85742beb4eb9616e45522a5319708b120f5b860c693cbf4f * 0xfffffffffffffffffffffffffffffffffffffffffffffffffffffffeffffffffffffffffffffffffffffffffffffffffffffffffffffffff + 0xb0d7aff3d62ed47d27917b1c8cdd6f723cd60bef2ee2fb8351f525ef43e4cd409dd7878b04d573db114a7f61ff1244fc48cc59552699e1d3"
  by code_simp

lemma C_cx_Ed448_red_y:
  "(0x693f46716eb6bc248876203756c9c7624bea73736ca3984087789c1e05a0c2d73ad3ff1ce67c39c4fdbd132c4ed7c8ad9808795bf230fa14::int) * 0x693f46716eb6bc248876203756c9c7624bea73736ca3984087789c1e05a0c2d73ad3ff1ce67c39c4fdbd132c4ed7c8ad9808795bf230fa14 = 0x2b44f76ccc089f156e03af91c5d22a7942605469ffecddf764cfe6fb0268db9336f981174d7f69081393264ae1f0c1e5aa646a4535365792 * 0xfffffffffffffffffffffffffffffffffffffffffffffffffffffffeffffffffffffffffffffffffffffffffffffffffffffffffffffffff + 0x74366fc32eea2671c5d7678ec0532d3b302e3babea6ee99099c9bdaf537802431535a5b7182b434756747ce9fb5b58ed6bfdbea9c1016922"
  by code_simp

lemma C_cx_Ed448_red_l:
  "(1::int) * 0xb0d7aff3d62ed47d27917b1c8cdd6f723cd60bef2ee2fb8351f525ef43e4cd409dd7878b04d573db114a7f61ff1244fc48cc59552699e1d3 + 0x74366fc32eea2671c5d7678ec0532d3b302e3babea6ee99099c9bdaf537802431535a5b7182b434756747ce9fb5b58ed6bfdbea9c1016922 = 1 * 0xfffffffffffffffffffffffffffffffffffffffffffffffffffffffeffffffffffffffffffffffffffffffffffffffffffffffffffffffff + 0x250e1fb70518faeeed68e2ab4d309cad6d04479b1951e513ebbee39f975ccf83b30d2d421d00b72267befc4bfa6d9de9b4ca17fee79b4af6"
  by code_simp

lemma C_cx_Ed448_red_t:
  "(0xb0d7aff3d62ed47d27917b1c8cdd6f723cd60bef2ee2fb8351f525ef43e4cd409dd7878b04d573db114a7f61ff1244fc48cc59552699e1d3::int) * 0x74366fc32eea2671c5d7678ec0532d3b302e3babea6ee99099c9bdaf537802431535a5b7182b434756747ce9fb5b58ed6bfdbea9c1016922 = 0x5047566df47aa8173d7e387423a9bbaa723322857e19ea832702361df4ffb977a0b66e9c3bb7cfe31c125d3dbfd9e4acd9289a20f20dd174 * 0xfffffffffffffffffffffffffffffffffffffffffffffffffffffffeffffffffffffffffffffffffffffffffffffffffffffffffffffffff + 0xe84292854df3671adede391342b8ad4bc3e21f818d4118c4a38da7fa67b0c4f47e73e924e7603d69abf7b214f9061bdaf0173c6a24f05a7a"
  by code_simp

lemma C_cx_Ed448_red_r:
  "(1::int) + 0xfffffffffffffffffffffffffffffffffffffffffffffffffffffffeffffffffffffffffffffffffffffffffffffffffffffffffffff6756 * 0xe84292854df3671adede391342b8ad4bc3e21f818d4118c4a38da7fa67b0c4f47e73e924e7603d69abf7b214f9061bdaf0173c6a24f05a7a = 0xe84292854df3671adede391342b8ad4bc3e21f818d4118c4a38da7fa67b0c4f47e73e924e7603d69abf7b214f9061bdaf0173c6a24efcff9 * 0xfffffffffffffffffffffffffffffffffffffffffffffffffffffffeffffffffffffffffffffffffffffffffffffffffffffffffffffffff + 0x250e1fb70518faeeed68e2ab4d309cad6d04479b1951e513ebbee39f975ccf83b30d2d421d00b72267befc4bfa6d9de9b4ca17fee79b4af6"
  by code_simp

lemma C_cx_Ed448_base: "base_point_ok C_cx_Ed448"
  by (rule base_point_on_twisted_edwardsI, simp add: C_cx_Ed448_def cx_curve_kinds cx_curve_ids,
      simp only: C_cx_Ed448_def cx_curve_domain.simps C_cx_Ed448_values,
      rule on_twisted_edwardsI [OF C_cx_Ed448_red_x C_cx_Ed448_red_y C_cx_Ed448_red_l C_cx_Ed448_red_t C_cx_Ed448_red_r])

lemma C_cx_Ed448_Hp: "Hp_ok C_cx_Ed448"
  unfolding Hp_ok_def C_cx_Ed448_def cx_curve_domain.simps C_cx_Ed448_values
  by (rule mont_constI [where q = "0x1000000000000000000000000000000000000000000000000000000010000000000000000000000000000000000000000000000000000000200000000000000000000000000000000"]) code_simp+

lemma C_cx_Ed448_Hn: "Hn_ok C_cx_Ed448"
  unfolding Hn_ok_def C_cx_Ed448_def cx_curve_domain.simps C_cx_Ed448_values
  by (rule mont_constI [where q = "0x400000000000000000000000000000000000000000000000000000008335dc163bb124b65129c96fde933d8d723a70aadc873d6d54a7bb0e0d00aa4e7e08edca4814af2df9341c2bc"]) code_simp+

lemma C_cx_Ed448_reduced: "reduced_ok C_cx_Ed448"
  by (simp add: reduced_ok_def C_cx_Ed448_def C_cx_Ed448_values)

lemma C_cx_Ed448_sizes: "sizes_ok C_cx_Ed448"
  by (simp add: sizes_ok_def C_cx_Ed448_def C_cx_Ed448_a_def C_cx_Ed448_d_def C_cx_Ed448_q_def C_cx_Ed448_Bx_def C_cx_Ed448_By_def C_cx_Ed448_l_def C_cx_Ed448_Hq_def C_cx_Ed448_Hl_def C_cofactor_4_def)

lemma C_cx_Ed448_hasse: "hasse_ok C_cx_Ed448"
  unfolding hasse_ok_def C_cx_Ed448_def cx_curve_domain.simps C_cx_Ed448_values cofactor_values by code_simp

lemma C_cx_EdBLS12_values:
  "os2ip C_cx_EdBLS12_a = 0x12ab655e9a2ca55660b44d1e5c37b00159aa76fed00000010a11800000000000"
  "os2ip C_cx_EdBLS12_d = 0xbcd"
  "os2ip C_cx_EdBLS12_q = 0x12ab655e9a2ca55660b44d1e5c37b00159aa76fed00000010a11800000000001"
  "os2ip C_cx_EdBLS12_Gx = 0x9f1b5a5baf6acf06fed91c9ae9ebfa06068dd2835790980894e2328f3ebca05"
  "os2ip C_cx_EdBLS12_Gy = 0x9a20df36571ac3cd906b256080ba8454453c177aaf3131bb50a67bf1a806781"
  "os2ip C_cx_EdBLS12_n = 0x4aad957a68b2955982d1347970dec005293a3afc43c8afeb95aee9ac33fd9ff"
  "os2ip C_cx_EdBLS12_Hq = 0x11fdae7eff1c939a7cc008fe5dc8593cc2c27b58860591f25d577bab861857b"
  "os2ip C_cx_EdBLS12_Hn = 0x47ada1eef02d841ca06049ccd027a21f639c3f57a73da73375699cd6a55d450e"
  by (simp_all add: os2ip_def C_cx_EdBLS12_a_def C_cx_EdBLS12_d_def C_cx_EdBLS12_q_def C_cx_EdBLS12_Gx_def C_cx_EdBLS12_Gy_def C_cx_EdBLS12_n_def C_cx_EdBLS12_Hq_def C_cx_EdBLS12_Hn_def)

lemma C_cx_EdBLS12_red_x:
  "(0x9f1b5a5baf6acf06fed91c9ae9ebfa06068dd2835790980894e2328f3ebca05::int) * 0x9f1b5a5baf6acf06fed91c9ae9ebfa06068dd2835790980894e2328f3ebca05 = 0x54bf403854e0dffb9a20d31b22904f93f64fde5c5db8e500b7649a9a00ffe69 * 0x12ab655e9a2ca55660b44d1e5c37b00159aa76fed00000010a11800000000001 + 0x282b3e918866bf09d477e2994028e2366d23dc7724efc6706be30986289e5b0"
  by code_simp

lemma C_cx_EdBLS12_red_y:
  "(0x9a20df36571ac3cd906b256080ba8454453c177aaf3131bb50a67bf1a806781::int) * 0x9a20df36571ac3cd906b256080ba8454453c177aaf3131bb50a67bf1a806781 = 0x4f86ce62af4bda49f2bf462c00f35b60d958abc4ec74b262a4eefa9553341ca * 0x12ab655e9a2ca55660b44d1e5c37b00159aa76fed00000010a11800000000001 + 0x10c55af3f5231a69ada2c0c28fe090b3e3821081366a15135418a64289a5cd37"
  by code_simp

lemma C_cx_EdBLS12_red_l:
  "(0x12ab655e9a2ca55660b44d1e5c37b00159aa76fed00000010a11800000000000::int) * 0x282b3e918866bf09d477e2994028e2366d23dc7724efc6706be30986289e5b0 + 0x10c55af3f5231a69ada2c0c28fe090b3e3821081366a15135418a64289a5cd37 = 0x282b3e918866bf09d477e2994028e2366d23dc7724efc6706be30986289e5b0 * 0x12ab655e9a2ca55660b44d1e5c37b00159aa76fed00000010a11800000000001 + 0xe42a70adc9cae79105b4298fbde02907cafd2b9c41b18ac4d5a75aa271be787"
  by code_simp

lemma C_cx_EdBLS12_red_t:
  "(0x282b3e918866bf09d477e2994028e2366d23dc7724efc6706be30986289e5b0::int) * 0x10c55af3f5231a69ada2c0c28fe090b3e3821081366a15135418a64289a5cd37 = 0x24157d65b8abddcdfddb070534677676010820990015afd0841e01700259838 * 0x12ab655e9a2ca55660b44d1e5c37b00159aa76fed00000010a11800000000001 + 0x102260f485711c3f7b0acfbdbe82a313c5c12d15527c3cf099a13dbad2d8b098"
  by code_simp

lemma C_cx_EdBLS12_red_r:
  "(1::int) + 0xbcd * 0x102260f485711c3f7b0acfbdbe82a313c5c12d15527c3cf099a13dbad2d8b098 = 0xa32 * 0x12ab655e9a2ca55660b44d1e5c37b00159aa76fed00000010a11800000000001 + 0xe42a70adc9cae79105b4298fbde02907cafd2b9c41b18ac4d5a75aa271be787"
  by code_simp

lemma C_cx_EdBLS12_base: "base_point_ok C_cx_EdBLS12"
  by (rule base_point_on_twisted_edwardsI, simp add: C_cx_EdBLS12_def cx_curve_kinds cx_curve_ids,
      simp only: C_cx_EdBLS12_def cx_curve_domain.simps C_cx_EdBLS12_values,
      rule on_twisted_edwardsI [OF C_cx_EdBLS12_red_x C_cx_EdBLS12_red_y C_cx_EdBLS12_red_l C_cx_EdBLS12_red_t C_cx_EdBLS12_red_r])

lemma C_cx_EdBLS12_Hp: "Hp_ok C_cx_EdBLS12"
  unfolding Hp_ok_def C_cx_EdBLS12_def cx_curve_domain.simps C_cx_EdBLS12_values
  by (rule mont_constI [where q = "0xdb65247b102cb27b93947927eaa01523f428602e35a78963d48130845479e7a85"]) code_simp+

lemma C_cx_EdBLS12_reduced: "reduced_ok C_cx_EdBLS12"
  by (simp add: reduced_ok_def C_cx_EdBLS12_def C_cx_EdBLS12_values)

lemma C_cx_EdBLS12_sizes: "sizes_ok C_cx_EdBLS12"
  by (simp add: sizes_ok_def C_cx_EdBLS12_def C_cx_EdBLS12_a_def C_cx_EdBLS12_d_def C_cx_EdBLS12_q_def C_cx_EdBLS12_Gx_def C_cx_EdBLS12_Gy_def C_cx_EdBLS12_n_def C_cx_EdBLS12_Hq_def C_cx_EdBLS12_Hn_def C_cx_EdBLS12_h_def)

lemma C_cx_EdBLS12_cofactor: "os2ip (take 4 C_cx_EdBLS12_h) = 4"
  by (simp add: os2ip_def C_cx_EdBLS12_h_def)

lemma C_cx_EdBLS12_hasse: "hasse_ok C_cx_EdBLS12"
  unfolding hasse_ok_def C_cx_EdBLS12_def cx_curve_domain.simps C_cx_EdBLS12_values C_cx_EdBLS12_cofactor by code_simp

lemma C_cx_Jubjub_values:
  "os2ip C_cx_Jubjub_a = 0x73eda753299d7d483339d80809a1d80553bda402fffe5bfeffffffff00000000"
  "os2ip C_cx_Jubjub_d = 0x2a9318e74bfa2b48f5fd9207e6bd7fd4292d7f6d37579d2601065fd6d6343eb1"
  "os2ip C_cx_Jubjub_q = 0x73eda753299d7d483339d80809a1d80553bda402fffe5bfeffffffff00000001"
  "os2ip C_cx_Jubjub_Gx = 0x11dafe5d23e1218086a365b99fbf3d3be72f6afd7d1f72623e6b071492d1122b"
  "os2ip C_cx_Jubjub_Gy = 0x1d523cf1ddab1a1793132e78c866c0c33e26ba5cc220fed7cc3f870e59d292aa"
  "os2ip C_cx_Jubjub_n = 0xe7db4ea6533afa906673b0101343b00a6682093ccc81082d0970e5ed6f72cb7"
  "os2ip C_cx_Jubjub_Hq = 0x748d9d99f59ff1105d314967254398f2b6cedcb87925c23c999e990f3f29c6d"
  "os2ip C_cx_Jubjub_Hn = 0x4f6547b8d12768869dab7fac026e9a551b0cef09ce3fc2667719aa495e57731"
  by (simp_all add: os2ip_def C_cx_Jubjub_a_def C_cx_Jubjub_d_def C_cx_Jubjub_q_def C_cx_Jubjub_Gx_def C_cx_Jubjub_Gy_def C_cx_Jubjub_n_def C_cx_Jubjub_Hq_def C_cx_Jubjub_Hn_def)

lemma C_cx_Jubjub_red_x:
  "(0x11dafe5d23e1218086a365b99fbf3d3be72f6afd7d1f72623e6b071492d1122b::int) * 0x11dafe5d23e1218086a365b99fbf3d3be72f6afd7d1f72623e6b071492d1122b = 0x2c007e34b5d4eadb7d481d2a37edd21177906e0d373041561b94565a4c45dd7 * 0x73eda753299d7d483339d80809a1d80553bda402fffe5bfeffffffff00000001 + 0x9260299945c6c8090b79317e2c72d91f04f3175402bb153fad96ca112bbb562"
  by code_simp

lemma C_cx_Jubjub_red_y:
  "(0x1d523cf1ddab1a1793132e78c866c0c33e26ba5cc220fed7cc3f870e59d292aa::int) * 0x1d523cf1ddab1a1793132e78c866c0c33e26ba5cc220fed7cc3f870e59d292aa = 0x76a850ac215566f7f3129a92871c827ab80adbca9367d038b8a05f09a48b568 * 0x73eda753299d7d483339d80809a1d80553bda402fffe5bfeffffffff00000001 + 0x3a535c4c46d7a2f91303d4f8248d8682aa7a829872ee82ce37a61d3e8ca5a37c"
  by code_simp

lemma C_cx_Jubjub_red_l:
  "(0x73eda753299d7d483339d80809a1d80553bda402fffe5bfeffffffff00000000::int) * 0x9260299945c6c8090b79317e2c72d91f04f3175402bb153fad96ca112bbb562 + 0x3a535c4c46d7a2f91303d4f8248d8682aa7a829872ee82ce37a61d3e8ca5a37c = 0x9260299945c6c8090b79317e2c72d91f04f3175402bb153fad96ca112bbb562 * 0x73eda753299d7d483339d80809a1d80553bda402fffe5bfeffffffff00000001 + 0x312d59b2b27b3678824c41e041c658f0ba2b512332c2d17a3cccb09d79e9ee1a"
  by code_simp

lemma C_cx_Jubjub_red_t:
  "(0x9260299945c6c8090b79317e2c72d91f04f3175402bb153fad96ca112bbb562::int) * 0x3a535c4c46d7a2f91303d4f8248d8682aa7a829872ee82ce37a61d3e8ca5a37c = 0x49a4eafe7f3e3b7a9e63b3aef2c59ce01d5555095428e36c76dc6ce89403bd0 * 0x73eda753299d7d483339d80809a1d80553bda402fffe5bfeffffffff00000001 + 0xedc95bafa50f42f573050c989570add646644e954a1680645eb63dd8e5305a8"
  by code_simp

lemma C_cx_Jubjub_red_r:
  "(1::int) + 0x2a9318e74bfa2b48f5fd9207e6bd7fd4292d7f6d37579d2601065fd6d6343eb1 * 0xedc95bafa50f42f573050c989570add646644e954a1680645eb63dd8e5305a8 = 0x5753b29b8582cae5ed6bfe739498fed2a7899a528612c33cc8911209efbab0f * 0x73eda753299d7d483339d80809a1d80553bda402fffe5bfeffffffff00000001 + 0x312d59b2b27b3678824c41e041c658f0ba2b512332c2d17a3cccb09d79e9ee1a"
  by code_simp

lemma C_cx_Jubjub_base: "base_point_ok C_cx_Jubjub"
  by (rule base_point_on_twisted_edwardsI, simp add: C_cx_Jubjub_def cx_curve_kinds cx_curve_ids,
      simp only: C_cx_Jubjub_def cx_curve_domain.simps C_cx_Jubjub_values,
      rule on_twisted_edwardsI [OF C_cx_Jubjub_red_x C_cx_Jubjub_red_y C_cx_Jubjub_red_l C_cx_Jubjub_red_t C_cx_Jubjub_red_r])

lemma C_cx_Jubjub_Hp: "Hp_ok C_cx_Jubjub"
  unfolding Hp_ok_def C_cx_Jubjub_def cx_curve_domain.simps C_cx_Jubjub_values
  by (rule mont_constI [where q = "0x2355094edfede377c38b5dcb707e08ed365043eb4be4bad7142737a020c0d6393"]) code_simp+

lemma C_cx_Jubjub_Hn: "Hn_ok C_cx_Jubjub"
  unfolding Hn_ok_def C_cx_Jubjub_def cx_curve_domain.simps C_cx_Jubjub_values
  by (rule mont_constI [where q = "0x11aa84a76ff6f1bbe1c5aee5b83f0476a01b7c72192b99f02977565ee9b2461ca9"]) code_simp+

lemma C_cx_Jubjub_reduced: "reduced_ok C_cx_Jubjub"
  by (simp add: reduced_ok_def C_cx_Jubjub_def C_cx_Jubjub_values)

lemma C_cx_Jubjub_sizes: "sizes_ok C_cx_Jubjub"
  by (simp add: sizes_ok_def C_cx_Jubjub_def C_cx_Jubjub_a_def C_cx_Jubjub_d_def C_cx_Jubjub_q_def C_cx_Jubjub_Gx_def C_cx_Jubjub_Gy_def C_cx_Jubjub_n_def C_cx_Jubjub_Hq_def C_cx_Jubjub_Hn_def C_cx_Jubjub_h_def)

lemma C_cx_Jubjub_cofactor: "os2ip (take 4 C_cx_Jubjub_h) = 8"
  by (simp add: os2ip_def C_cx_Jubjub_h_def)

lemma C_cx_Jubjub_hasse: "hasse_ok C_cx_Jubjub"
  unfolding hasse_ok_def C_cx_Jubjub_def cx_curve_domain.simps C_cx_Jubjub_values C_cx_Jubjub_cofactor by code_simp

lemma C_cx_Curve25519_values:
  "os2ip C_cx_Curve25519_a = 0x76d06"
  "os2ip C_cx_Curve25519_b = 1"
  "os2ip C_cx_Curve25519_p = 0x7fffffffffffffffffffffffffffffffffffffffffffffffffffffffffffffed"
  "os2ip C_cx_Curve25519_Gx = 9"
  "os2ip C_cx_Curve25519_Gy = 0x5f51e65e475f794b1fe122d388b72eb36dc2b28192839e4dd6163a5d81312c14"
  "os2ip C_cx_Curve25519_n = 0x1000000000000000000000000000000014def9dea2f79cd65812631a5cf5d3ed"
  "os2ip C_cx_Curve25519_Hp = 0x5a4"
  "os2ip C_cx_Curve25519_Hn = 0x399411b7c309a3dceec73d217f5be65d00e1ba768859347a40611e3449c0f01"
  by (simp_all add: os2ip_def C_cx_Curve25519_a_def C_cx_Curve25519_b_def C_cx_Curve25519_p_def C_cx_Curve25519_Gx_def C_cx_Curve25519_Gy_def C_cx_Curve25519_n_def C_cx_Curve25519_Hp_def C_cx_Curve25519_Hn_def)

lemma C_cx_Curve25519_red_x:
  "(9::int) * 9 = 0 * 0x7fffffffffffffffffffffffffffffffffffffffffffffffffffffffffffffed + 0x51"
  by code_simp

lemma C_cx_Curve25519_red_r:
  "((0x51::int) + 0x76d06 * 9 + 1) * 9 = 0 * 0x7fffffffffffffffffffffffffffffffffffffffffffffffffffffffffffffed + 0x25981c8"
  by code_simp

lemma C_cx_Curve25519_red_y:
  "(0x5f51e65e475f794b1fe122d388b72eb36dc2b28192839e4dd6163a5d81312c14::int) * 0x5f51e65e475f794b1fe122d388b72eb36dc2b28192839e4dd6163a5d81312c14 = 0x46fbc65b1fdf22d11e52db4fd04d945bf62cd4510360a00f3dc598815da315e8 * 0x7fffffffffffffffffffffffffffffffffffffffffffffffffffffffffffffed + 0x25981c8"
  by code_simp

lemma C_cx_Curve25519_red_b:
  "(1::int) * 0x25981c8 = 0 * 0x7fffffffffffffffffffffffffffffffffffffffffffffffffffffffffffffed + 0x25981c8"
  by code_simp

lemma C_cx_Curve25519_base: "base_point_ok C_cx_Curve25519"
  by (rule base_point_on_montgomeryI, simp add: C_cx_Curve25519_def cx_curve_kinds cx_curve_ids,
      simp only: C_cx_Curve25519_def cx_curve_domain.simps C_cx_Curve25519_values,
      rule on_montgomeryI [OF C_cx_Curve25519_red_x C_cx_Curve25519_red_r C_cx_Curve25519_red_y C_cx_Curve25519_red_b])

lemma C_cx_Curve25519_Hp: "Hp_ok C_cx_Curve25519"
  unfolding Hp_ok_def C_cx_Curve25519_def cx_curve_domain.simps C_cx_Curve25519_values
  by (rule mont_constI [where q = "0x2000000000000000000000000000000000000000000000000000000000000004c"]) code_simp+

lemma C_cx_Curve25519_Hn: "Hn_ok C_cx_Curve25519"
  unfolding Hn_ok_def C_cx_Curve25519_def cx_curve_domain.simps C_cx_Curve25519_values
  by (rule mont_constI [where q = "0xfffffffffffffffffffffffffffffffeb2106215d086329a7ed9ce5a30a2c131b"]) code_simp+

lemma C_cx_Curve25519_reduced: "reduced_ok C_cx_Curve25519"
  by (simp add: reduced_ok_def C_cx_Curve25519_def C_cx_Curve25519_values)

lemma C_cx_Curve25519_sizes: "sizes_ok C_cx_Curve25519"
  by (simp add: sizes_ok_def C_cx_Curve25519_def C_cx_Curve25519_a_def C_cx_Curve25519_b_def C_cx_Curve25519_p_def C_cx_Curve25519_Gx_def C_cx_Curve25519_Gy_def C_cx_Curve25519_n_def C_cx_Curve25519_Hp_def C_cx_Curve25519_Hn_def C_cofactor_8_def)

lemma C_cx_Curve25519_hasse: "hasse_ok C_cx_Curve25519"
  unfolding hasse_ok_def C_cx_Curve25519_def cx_curve_domain.simps C_cx_Curve25519_values cofactor_values by code_simp

lemma C_cx_Curve448_values:
  "os2ip C_cx_Curve448_a = 0x262a6"
  "os2ip C_cx_Curve448_b = 1"
  "os2ip C_cx_Curve448_p = 0xfffffffffffffffffffffffffffffffffffffffffffffffffffffffeffffffffffffffffffffffffffffffffffffffffffffffffffffffff"
  "os2ip C_cx_Curve448_Gx = 5"
  "os2ip C_cx_Curve448_Gy = 0x7d235d1295f5b1f66c98ab6e58326fcecbae5d34f55545d060f75dc28df3f6edb8027e2346430d211312c4b150677af76fd7223d457b5b1a"
  "os2ip C_cx_Curve448_n = 0x3fffffffffffffffffffffffffffffffffffffffffffffffffffffff7cca23e9c44edb49aed63690216cc2728dc58f552378c292ab5844f3"
  "os2ip C_cx_Curve448_Hp = 0x30000000000000000000000000000000000000000000000000000000200000000000000000000000000000000"
  "os2ip C_cx_Curve448_Hn = 0x1a9cc14ba3c47c44ae17cf72c9860faa107550ba94d0e808f10a98ef88e15bb48bd827de127ce5f23e0aa68d30dbb989bbecffc33c3a378c"
  by (simp_all add: os2ip_def C_cx_Curve448_a_def C_cx_Curve448_b_def C_cx_Curve448_p_def C_cx_Curve448_Gx_def C_cx_Curve448_Gy_def C_cx_Curve448_n_def C_cx_Curve448_Hp_def C_cx_Curve448_Hn_def)

lemma C_cx_Curve448_red_x:
  "(5::int) * 5 = 0 * 0xfffffffffffffffffffffffffffffffffffffffffffffffffffffffeffffffffffffffffffffffffffffffffffffffffffffffffffffffff + 0x19"
  by code_simp

lemma C_cx_Curve448_red_r:
  "((0x19::int) + 0x262a6 * 5 + 1) * 5 = 0 * 0xfffffffffffffffffffffffffffffffffffffffffffffffffffffffeffffffffffffffffffffffffffffffffffffffffffffffffffffffff + 0x3ba2b8"
  by code_simp

lemma C_cx_Curve448_red_y:
  "(0x7d235d1295f5b1f66c98ab6e58326fcecbae5d34f55545d060f75dc28df3f6edb8027e2346430d211312c4b150677af76fd7223d457b5b1a::int) * 0x7d235d1295f5b1f66c98ab6e58326fcecbae5d34f55545d060f75dc28df3f6edb8027e2346430d211312c4b150677af76fd7223d457b5b1a = 0x3d2b8dc6bb5d73474120c7adcc1fe9ba2630b22da303802433da90cc39f19499e7233036d669650874e676e7207568817a7bf30f50d42414 * 0xfffffffffffffffffffffffffffffffffffffffffffffffffffffffeffffffffffffffffffffffffffffffffffffffffffffffffffffffff + 0x3ba2b8"
  by code_simp

lemma C_cx_Curve448_red_b:
  "(1::int) * 0x3ba2b8 = 0 * 0xfffffffffffffffffffffffffffffffffffffffffffffffffffffffeffffffffffffffffffffffffffffffffffffffffffffffffffffffff + 0x3ba2b8"
  by code_simp

lemma C_cx_Curve448_base: "base_point_ok C_cx_Curve448"
  by (rule base_point_on_montgomeryI, simp add: C_cx_Curve448_def cx_curve_kinds cx_curve_ids,
      simp only: C_cx_Curve448_def cx_curve_domain.simps C_cx_Curve448_values,
      rule on_montgomeryI [OF C_cx_Curve448_red_x C_cx_Curve448_red_r C_cx_Curve448_red_y C_cx_Curve448_red_b])

lemma C_cx_Curve448_Hp: "Hp_ok C_cx_Curve448"
  unfolding Hp_ok_def C_cx_Curve448_def cx_curve_domain.simps C_cx_Curve448_values
  by (rule mont_constI [where q = "0x1000000000000000000000000000000000000000000000000000000010000000000000000000000000000000000000000000000000000000200000000000000000000000000000000"]) code_simp+

lemma C_cx_Curve448_Hn: "Hn_ok C_cx_Curve448"
  unfolding Hn_ok_def C_cx_Curve448_def cx_curve_domain.simps C_cx_Curve448_values
  by (rule mont_constI [where q = "0x400000000000000000000000000000000000000000000000000000008335dc163bb124b65129c96fde933d8d723a70aadc873d6d54a7bb0e0d00aa4e7e08edca4814af2df9341c2bc"]) code_simp+

lemma C_cx_Curve448_reduced: "reduced_ok C_cx_Curve448"
  by (simp add: reduced_ok_def C_cx_Curve448_def C_cx_Curve448_values)

lemma C_cx_Curve448_sizes: "sizes_ok C_cx_Curve448"
  by (simp add: sizes_ok_def C_cx_Curve448_def C_cx_Curve448_a_def C_cx_Curve448_b_def C_cx_Curve448_p_def C_cx_Curve448_Gx_def C_cx_Curve448_Gy_def C_cx_Curve448_n_def C_cx_Curve448_Hp_def C_cx_Curve448_Hn_def C_cofactor_4_def)

lemma C_cx_Curve448_hasse: "hasse_ok C_cx_Curve448"
  unfolding hasse_ok_def C_cx_Curve448_def cx_curve_domain.simps C_cx_Curve448_values cofactor_values by code_simp

end
