(* ===== verification/Cx_Ec_Domain.thy ===== *)
theory Cx_Ec_Domain
  imports Cx_Lib Curve_Checks_1 Curve_Checks_2 Curve_Checks_3 Curve_Checks_4
begin

text \<open>
  The calls on the domain parameters of the curves, \<open>src/bolos/cx_ec_domain.c\<close>, over the tables of
  \<open>Cx_Curves\<close>: a caller gets the parameters of the curve it names, inside its buffer, and the
  parameters are those of a curve.
\<close>

section \<open>Lookup\<close>

fun ecdomain_loop :: "cx_curve_domain list \<Rightarrow> cx_curve \<Rightarrow> cx_curve_domain option" where
  "ecdomain_loop [] curve = None"
| "ecdomain_loop (d # ds) curve = (if dom_curve d = curve then Some d else ecdomain_loop ds curve)"

definition cx_ecdomain :: "cx_curve \<Rightarrow> cx_curve_domain option" where
  "cx_ecdomain curve = ecdomain_loop C_cx_allCurves curve"

definition sys_cx_ecdomain_parameters_length :: "cx_curve \<Rightarrow> cx_err + nat" where
  "sys_cx_ecdomain_parameters_length curve =
     (case cx_ecdomain curve of None \<Rightarrow> Inl CX_EC_INVALID_CURVE | Some d \<Rightarrow> Inr (dom_length d))"

definition sys_cx_ecdomain_size :: "cx_curve \<Rightarrow> cx_err + nat" where
  "sys_cx_ecdomain_size curve =
     (case cx_ecdomain curve of None \<Rightarrow> Inl CX_EC_INVALID_CURVE | Some d \<Rightarrow> Inr (dom_bit_size d))"

datatype cx_curve_dom_param =
    CX_CURVE_PARAM_NONE
  | CX_CURVE_PARAM_A
  | CX_CURVE_PARAM_B
  | CX_CURVE_PARAM_Field
  | CX_CURVE_PARAM_Gx
  | CX_CURVE_PARAM_Gy
  | CX_CURVE_PARAM_Order
  | CX_CURVE_PARAM_Cofactor

fun sys_cx_ecdomain_param_ptr :: "cx_curve_domain \<Rightarrow> cx_curve_dom_param \<Rightarrow> bytes option" where
  "sys_cx_ecdomain_param_ptr d CX_CURVE_PARAM_A = Some (dom_a d)"
| "sys_cx_ecdomain_param_ptr d CX_CURVE_PARAM_B = Some (dom_b d)"
| "sys_cx_ecdomain_param_ptr d CX_CURVE_PARAM_Field = Some (dom_p d)"
| "sys_cx_ecdomain_param_ptr d CX_CURVE_PARAM_Gx = Some (dom_Gx d)"
| "sys_cx_ecdomain_param_ptr d CX_CURVE_PARAM_Gy = Some (dom_Gy d)"
| "sys_cx_ecdomain_param_ptr d CX_CURVE_PARAM_Order = Some (dom_n d)"
| "sys_cx_ecdomain_param_ptr d CX_CURVE_PARAM_Cofactor = Some (dom_h d)"
| "sys_cx_ecdomain_param_ptr d CX_CURVE_PARAM_NONE = None"

text \<open>The buffer of the caller is \<open>buf\<close>, the length it passes \<open>p_len\<close>.\<close>

definition sys_cx_ecdomain_parameter ::
  "cx_curve \<Rightarrow> cx_curve_dom_param \<Rightarrow> bytes \<Rightarrow> nat \<Rightarrow> bytes cx_res" where
  "sys_cx_ecdomain_parameter curve pid buf p_len =
     (case cx_ecdomain curve of
        None \<Rightarrow> Inr (Inl CX_EC_INVALID_CURVE)
      | Some d \<Rightarrow>
          (case sys_cx_ecdomain_param_ptr d pid of
             None \<Rightarrow> Inr (Inl CX_INVALID_PARAMETER)
           | Some ptr \<Rightarrow>
               if dom_length d > p_len then Inr (Inl CX_INVALID_PARAMETER)
               else res_bind
                 (mem_read ptr 0 (if pid = CX_CURVE_PARAM_Cofactor then 4 else dom_length d)) (\<lambda>v.
                 res_bind (mem_write buf 0 v) (\<lambda>buf. Inr (Inr buf)))))"

definition sys_cx_ecdomain_generator ::
  "cx_curve \<Rightarrow> bytes \<Rightarrow> bytes \<Rightarrow> nat \<Rightarrow> (bytes \<times> bytes) cx_res" where
  "sys_cx_ecdomain_generator curve Gx Gy len =
     (case cx_ecdomain curve of
        None \<Rightarrow> Inr (Inl CX_EC_INVALID_CURVE)
      | Some d \<Rightarrow>
          if dom_length d > len then Inr (Inl CX_INVALID_PARAMETER)
          else
            res_bind (mem_read (dom_Gx d) 0 (dom_length d)) (\<lambda>vx.
            res_bind (mem_write Gx 0 vx) (\<lambda>Gx.
            res_bind (mem_read (dom_Gy d) 0 (dom_length d)) (\<lambda>vy.
            res_bind (mem_write Gy 0 vy) (\<lambda>Gy. Inr (Inr (Gx, Gy)))))))"

text \<open>
  The names OpenSSL knows the curves by. \<open>NID_undef\<close> stands for a curve that is built from its
  parameters instead; the process exits on a curve that is not listed.
\<close>

datatype nid =
    NID_undef | NID_secp256k1 | NID_X9_62_prime256v1 | NID_secp384r1 | NID_secp521r1 | NID_ED25519
  | NID_brainpoolP256r1 | NID_brainpoolP256t1 | NID_brainpoolP320r1 | NID_brainpoolP320t1
  | NID_brainpoolP384r1 | NID_brainpoolP384t1 | NID_brainpoolP512r1 | NID_brainpoolP512t1

definition cx_nid_from_curve :: "cx_curve \<Rightarrow> nid res" where
  "cx_nid_from_curve curve =
     (if curve = CX_CURVE_SECP256K1 then Inr NID_secp256k1
      else if curve = CX_CURVE_SECP256R1 then Inr NID_X9_62_prime256v1
      else if curve = CX_CURVE_SECP384R1 then Inr NID_secp384r1
      else if curve = CX_CURVE_Ed25519 then Inr NID_ED25519
      else if curve = CX_CURVE_BrainPoolP256R1 then Inr NID_brainpoolP256r1
      else if curve = CX_CURVE_BrainPoolP256T1 then Inr NID_brainpoolP256t1
      else if curve = CX_CURVE_BrainPoolP320R1 then Inr NID_brainpoolP320r1
      else if curve = CX_CURVE_BrainPoolP320T1 then Inr NID_brainpoolP320t1
      else if curve = CX_CURVE_BrainPoolP384R1 then Inr NID_brainpoolP384r1
      else if curve = CX_CURVE_BrainPoolP384T1 then Inr NID_brainpoolP384t1
      else if curve = CX_CURVE_BrainPoolP512R1 then Inr NID_brainpoolP512r1
      else if curve = CX_CURVE_BrainPoolP512T1 then Inr NID_brainpoolP512t1
      else if curve = CX_CURVE_Stark256 then Inr NID_undef
      else if curve = CX_CURVE_BLS12_381_G1 then Inr NID_undef
      else if curve = CX_CURVE_BLS12_377_G1 then Inr NID_undef
      else if curve = CX_CURVE_SECP521R1 then Inr NID_secp521r1
      else if curve = CX_CURVE_EdBLS12 then Inr NID_undef
      else if curve = CX_CURVE_PALLAS then Inr NID_undef
      else if curve = CX_CURVE_VESTA then Inr NID_undef
      else if curve = CX_CURVE_JUBJUB then Inr NID_undef
      else Inl Errx)"

section \<open>Lemmas\<close>

lemma ecdomain_loop_Some:
  "ecdomain_loop ds curve = Some d \<Longrightarrow> d \<in> set ds \<and> dom_curve d = curve"
  by (induction ds) (auto split: if_splits)

lemma ecdomain_loop_distinct:
  "distinct (map dom_curve ds) \<Longrightarrow> d \<in> set ds \<Longrightarrow> ecdomain_loop ds (dom_curve d) = Some d"
  by (induction ds) auto

lemmas curve_defs = C_cx_secp256k1_def C_cx_secp256r1_def C_cx_secp384r1_def C_cx_secp521r1_def
  C_cx_BrainpoolP256r1_def C_cx_BrainpoolP256t1_def C_cx_BrainpoolP320r1_def
  C_cx_BrainpoolP320t1_def C_cx_BrainpoolP384r1_def C_cx_BrainpoolP384t1_def
  C_cx_BrainpoolP512r1_def C_cx_BrainpoolP512t1_def C_cx_Stark256_def C_cx_BLS12_381_G1_def
  C_cx_BLS12_377_G1_def C_cx_Pallas_def C_cx_Vesta_def C_cx_Ed25519_def C_cx_Ed448_def
  C_cx_EdBLS12_def C_cx_Jubjub_def C_cx_Curve25519_def C_cx_Curve448_def

lemma all_curves_distinct: "distinct (map dom_curve C_cx_allCurves)"
  by (simp add: C_cx_allCurves_def curve_defs cx_curve_ids)

lemma cx_ecdomain_iff: "cx_ecdomain curve = Some d \<longleftrightarrow> d \<in> set C_cx_allCurves \<and> dom_curve d = curve"
  using ecdomain_loop_Some ecdomain_loop_distinct [OF all_curves_distinct]
  unfolding cx_ecdomain_def by fastforce

lemma all_curves_sizes: "list_all sizes_ok C_cx_allCurves"
  unfolding C_cx_allCurves_def
  by (simp only: C_cx_secp256k1_sizes C_cx_secp256r1_sizes C_cx_secp384r1_sizes
      C_cx_secp521r1_sizes C_cx_BrainpoolP256r1_sizes C_cx_BrainpoolP256t1_sizes
      C_cx_BrainpoolP320r1_sizes C_cx_BrainpoolP320t1_sizes C_cx_BrainpoolP384r1_sizes
      C_cx_BrainpoolP384t1_sizes C_cx_BrainpoolP512r1_sizes C_cx_BrainpoolP512t1_sizes
      C_cx_Stark256_sizes C_cx_BLS12_381_G1_sizes C_cx_BLS12_377_G1_sizes C_cx_Pallas_sizes
      C_cx_Vesta_sizes C_cx_Ed25519_sizes C_cx_Ed448_sizes C_cx_EdBLS12_sizes C_cx_Jubjub_sizes
      C_cx_Curve25519_sizes C_cx_Curve448_sizes list.pred_inject simp_thms)

lemma all_curves_base: "list_all base_point_ok C_cx_allCurves"
  unfolding C_cx_allCurves_def
  by (simp only: C_cx_secp256k1_base C_cx_secp256r1_base C_cx_secp384r1_base C_cx_secp521r1_base
      C_cx_BrainpoolP256r1_base C_cx_BrainpoolP256t1_base C_cx_BrainpoolP320r1_base
      C_cx_BrainpoolP320t1_base C_cx_BrainpoolP384r1_base C_cx_BrainpoolP384t1_base
      C_cx_BrainpoolP512r1_base C_cx_BrainpoolP512t1_base C_cx_Stark256_base
      C_cx_BLS12_381_G1_base C_cx_BLS12_377_G1_base C_cx_Pallas_base C_cx_Vesta_base
      C_cx_Ed25519_base C_cx_Ed448_base C_cx_EdBLS12_base C_cx_Jubjub_base C_cx_Curve25519_base
      C_cx_Curve448_base list.pred_inject simp_thms)

lemma all_curves_reduced: "list_all reduced_ok C_cx_allCurves"
  unfolding C_cx_allCurves_def
  by (simp only: C_cx_secp256k1_reduced C_cx_secp256r1_reduced C_cx_secp384r1_reduced C_cx_secp521r1_reduced
      C_cx_BrainpoolP256r1_reduced C_cx_BrainpoolP256t1_reduced C_cx_BrainpoolP320r1_reduced
      C_cx_BrainpoolP320t1_reduced C_cx_BrainpoolP384r1_reduced C_cx_BrainpoolP384t1_reduced
      C_cx_BrainpoolP512r1_reduced C_cx_BrainpoolP512t1_reduced C_cx_Stark256_reduced
      C_cx_BLS12_381_G1_reduced C_cx_BLS12_377_G1_reduced C_cx_Pallas_reduced C_cx_Vesta_reduced
      C_cx_Ed25519_reduced C_cx_Ed448_reduced C_cx_EdBLS12_reduced C_cx_Jubjub_reduced
      C_cx_Curve25519_reduced C_cx_Curve448_reduced list.pred_inject simp_thms)

lemma cx_ecdomain_sizes: "cx_ecdomain curve = Some d \<Longrightarrow> sizes_ok d"
  using all_curves_sizes by (auto simp: cx_ecdomain_iff list_all_iff)

lemma param_ptr_length:
  assumes "sizes_ok d" and "sys_cx_ecdomain_param_ptr d pid = Some ptr"
  shows "if pid = CX_CURVE_PARAM_Cofactor then 4 \<le> length ptr else length ptr = dom_length d"
  using assms by (cases pid) (auto simp: sizes_ok_def)

section \<open>Properties\<close>

text \<open>
  Property C23: the tables of the curves are right. Of each of the 23 curves the base point
  satisfies the equation of the curve, the coefficients and the coordinates are reduced, and all
  the parameters have the length of the domain.
\<close>

theorem all_curves_base_points:
  "list_all (\<lambda>d. base_point_ok d \<and> reduced_ok d \<and> sizes_ok d) C_cx_allCurves"
  using all_curves_base all_curves_reduced all_curves_sizes by (simp add: list_all_iff)

text \<open>
  Property C29: the order, the cofactor and the field of every curve belong together: order times
  cofactor is in the interval of Hasse around the size of the field. The two curves whose cofactor
  has more than four bytes are excepted.
\<close>

theorem all_curves_orders:
  "list_all hasse_ok (filter (\<lambda>d. dom_curve d \<notin> {CX_CURVE_BLS12_381_G1, CX_CURVE_BLS12_377_G1})
     C_cx_allCurves)"
proof -
  have "filter (\<lambda>d. dom_curve d \<notin> {CX_CURVE_BLS12_381_G1, CX_CURVE_BLS12_377_G1}) C_cx_allCurves
      = [C_cx_secp256k1, C_cx_secp256r1, C_cx_secp384r1, C_cx_secp521r1, C_cx_BrainpoolP256r1,
         C_cx_BrainpoolP256t1, C_cx_BrainpoolP320r1, C_cx_BrainpoolP320t1, C_cx_BrainpoolP384r1,
         C_cx_BrainpoolP384t1, C_cx_BrainpoolP512r1, C_cx_BrainpoolP512t1, C_cx_Stark256,
         C_cx_Pallas, C_cx_Vesta, C_cx_Ed25519, C_cx_Ed448, C_cx_EdBLS12, C_cx_Jubjub,
         C_cx_Curve25519, C_cx_Curve448]"
    by (simp add: C_cx_allCurves_def curve_defs cx_curve_ids)
  then show ?thesis
    by (simp only: C_cx_secp256k1_hasse C_cx_secp256r1_hasse C_cx_secp384r1_hasse C_cx_secp521r1_hasse
      C_cx_BrainpoolP256r1_hasse C_cx_BrainpoolP256t1_hasse C_cx_BrainpoolP320r1_hasse
      C_cx_BrainpoolP320t1_hasse C_cx_BrainpoolP384r1_hasse C_cx_BrainpoolP384t1_hasse
      C_cx_BrainpoolP512r1_hasse C_cx_BrainpoolP512t1_hasse C_cx_Stark256_hasse C_cx_Pallas_hasse
      C_cx_Vesta_hasse C_cx_Ed25519_hasse C_cx_Ed448_hasse C_cx_EdBLS12_hasse C_cx_Jubjub_hasse
      C_cx_Curve25519_hasse C_cx_Curve448_hasse list.pred_inject simp_thms)
qed

text \<open>
  The Montgomery constants of the field and of the order are the squares of the radix
  in the residue classes of \<open>p\<close> and \<open>n\<close>, for every curve but one: the constant of the order of
  EdBLS12 is not.
\<close>

theorem all_curves_montgomery_constants:
  "list_all (\<lambda>d. Hp_ok d \<and> (Hn_ok d \<longleftrightarrow> dom_curve d \<noteq> CX_CURVE_EdBLS12)) C_cx_allCurves"
proof -
  have "os2ip (dom_n C_cx_EdBLS12) \<le> os2ip (dom_Hn C_cx_EdBLS12)"
    by (simp add: C_cx_EdBLS12_def C_cx_EdBLS12_values)
  moreover have "0 < os2ip (dom_n C_cx_EdBLS12)"
    by (simp add: C_cx_EdBLS12_def C_cx_EdBLS12_values)
  ultimately have "\<not> Hn_ok C_cx_EdBLS12"
    unfolding Hn_ok_def mont_const_def
    by (metis not_less pos_mod_bound)
  then show ?thesis
    unfolding C_cx_allCurves_def
    by (simp add: C_cx_secp256k1_Hp C_cx_secp256r1_Hp C_cx_secp384r1_Hp C_cx_secp521r1_Hp
      C_cx_BrainpoolP256r1_Hp C_cx_BrainpoolP256t1_Hp C_cx_BrainpoolP320r1_Hp
      C_cx_BrainpoolP320t1_Hp C_cx_BrainpoolP384r1_Hp C_cx_BrainpoolP384t1_Hp
      C_cx_BrainpoolP512r1_Hp C_cx_BrainpoolP512t1_Hp C_cx_Stark256_Hp C_cx_BLS12_381_G1_Hp
      C_cx_BLS12_377_G1_Hp C_cx_Pallas_Hp C_cx_Vesta_Hp C_cx_Ed25519_Hp C_cx_Ed448_Hp
      C_cx_EdBLS12_Hp C_cx_Jubjub_Hp C_cx_Curve25519_Hp C_cx_Curve448_Hp C_cx_secp256k1_Hn
      C_cx_secp256r1_Hn C_cx_secp384r1_Hn C_cx_secp521r1_Hn C_cx_BrainpoolP256r1_Hn
      C_cx_BrainpoolP256t1_Hn C_cx_BrainpoolP320r1_Hn C_cx_BrainpoolP320t1_Hn
      C_cx_BrainpoolP384r1_Hn C_cx_BrainpoolP384t1_Hn C_cx_BrainpoolP512r1_Hn
      C_cx_BrainpoolP512t1_Hn C_cx_Stark256_Hn C_cx_BLS12_381_G1_Hn C_cx_BLS12_377_G1_Hn
      C_cx_Pallas_Hn C_cx_Vesta_Hn C_cx_Ed25519_Hn C_cx_Ed448_Hn C_cx_Jubjub_Hn
      C_cx_Curve25519_Hn C_cx_Curve448_Hn) (simp add: curve_defs cx_curve_ids)
qed

text \<open>
  \<open>sys_cx_ecdomain_parameter\<close> never leaves the buffer of its caller. For a buffer of
  the length that is passed it either fails and writes nothing (no such curve, no such parameter,
  or a buffer shorter than the parameters of the curve), or puts the parameter at the start
  of the buffer: the bytes of the table, four of them for the cofactor.
\<close>

theorem ecdomain_parameter_exact:
  "sys_cx_ecdomain_parameter curve pid buf (length buf) = Inr
     (case cx_ecdomain curve of
        None \<Rightarrow> Inl CX_EC_INVALID_CURVE
      | Some d \<Rightarrow>
          (case sys_cx_ecdomain_param_ptr d pid of
             None \<Rightarrow> Inl CX_INVALID_PARAMETER
           | Some ptr \<Rightarrow>
               if length buf < dom_length d then Inl CX_INVALID_PARAMETER
               else Inr (buf_write buf 0 (take (if pid = CX_CURVE_PARAM_Cofactor then 4
                                                else length ptr) ptr))))"
proof (cases "cx_ecdomain curve")
  case (Some d)
  note sizes = cx_ecdomain_sizes [OF this]
  show ?thesis
  proof (cases "sys_cx_ecdomain_param_ptr d pid")
    case ptr: (Some ptr)
    have "4 \<le> dom_length d" using sizes by (simp add: sizes_ok_def)
    then show ?thesis
      using Some ptr param_ptr_length [OF sizes ptr]
      by (auto simp: sys_cx_ecdomain_parameter_def mem_read_def mem_write_def split: if_splits)
  qed (simp add: sys_cx_ecdomain_parameter_def Some)
qed (simp add: sys_cx_ecdomain_parameter_def)

text \<open>
  The generator that \<open>sys_cx_ecdomain_generator\<close> delivers into two buffers of the
  length of the curve's parameters is a point of the curve.
\<close>

theorem ecdomain_generator_on_curve:
  assumes "sys_cx_ecdomain_parameters_length curve = Inr (length Gx)" and "length Gy = length Gx"
  shows "\<exists>Gx' Gy' d. sys_cx_ecdomain_generator curve Gx Gy (length Gx) = Inr (Inr (Gx', Gy')) \<and>
    cx_ecdomain curve = Some d \<and>
    curve_equation curve (os2ip (dom_p d)) (os2ip (dom_a d)) (os2ip (dom_b d))
      (os2ip Gx') (os2ip Gy')"
proof -
  obtain d where d: "cx_ecdomain curve = Some d" "dom_length d = length Gx"
    using assms(1) by (auto simp: sys_cx_ecdomain_parameters_length_def split: option.splits)
  have "length (dom_Gx d) = length Gx" "length (dom_Gy d) = length Gy"
    using cx_ecdomain_sizes [OF d(1)] d(2) assms(2) by (simp_all add: sizes_ok_def)
  then have "sys_cx_ecdomain_generator curve Gx Gy (length Gx) = Inr (Inr (dom_Gx d, dom_Gy d))"
    using d assms(2)
    by (simp add: sys_cx_ecdomain_generator_def mem_read_def mem_write_def buf_write_full)
  moreover have "base_point_ok d" "dom_curve d = curve"
    using d(1) all_curves_base by (auto simp: cx_ecdomain_iff list_all_iff)
  ultimately show ?thesis
    using d(1) by (auto simp: base_point_ok_def)
qed

theorem ecdomain_generator_on_curve_witness:
  "\<exists>Gx' Gy' d. sys_cx_ecdomain_generator CX_CURVE_SECP256K1 (replicate 32 0) (replicate 32 0)
      (length (replicate 32 (0::u8))) = Inr (Inr (Gx', Gy')) \<and>
    cx_ecdomain CX_CURVE_SECP256K1 = Some d \<and>
    curve_equation CX_CURVE_SECP256K1 (os2ip (dom_p d)) (os2ip (dom_a d)) (os2ip (dom_b d))
      (os2ip Gx') (os2ip Gy')"
  by (rule ecdomain_generator_on_curve)
    (simp_all add: sys_cx_ecdomain_parameters_length_def cx_ecdomain_def C_cx_allCurves_def
      C_cx_secp256k1_def)

text \<open>
  The cofactor of BLS12-377 is eleven bytes long and stored right-aligned, so the four bytes that
  are read are zero.
\<close>

lemma bls12_377_cofactor_lost:
  "sys_cx_ecdomain_parameter CX_CURVE_BLS12_377_G1 CX_CURVE_PARAM_Cofactor (replicate 48 1) 48 =
   Inr (Inr (replicate 4 0 @ replicate 44 1))"
proof -
  have "cx_ecdomain CX_CURVE_BLS12_377_G1 = Some C_cx_BLS12_377_G1"
    by (simp add: cx_ecdomain_iff C_cx_allCurves_def) (simp add: C_cx_BLS12_377_G1_def)
  moreover have "take 4 (dom_h C_cx_BLS12_377_G1) = replicate 4 0" "dom_length C_cx_BLS12_377_G1 = 48"
    "4 \<le> length (dom_h C_cx_BLS12_377_G1)"
    by (simp_all add: C_cx_BLS12_377_G1_def C_cx_BLS12_377_G1_h_def numeral_eq_Suc)
  ultimately show ?thesis
    by (simp add: sys_cx_ecdomain_parameter_def mem_read_def mem_write_def buf_write_def)
qed

end
