(* ===== verification/Openssl_Bn.thy ===== *)
theory Openssl_Bn
  imports Big_Endian
begin

text \<open>
  The interface of OpenSSL's big numbers, as far as the sources use it. A \<open>BIGNUM\<close> holds an
  integer. The functions of the library are parameters of the model, the fields of a record; a
  function that can fail (for want of memory, or on an argument it refuses) returns an option. The
  locale states what the manual pages of the library document: the value of a call that succeeds.
  The last four fields are what \<open>BN_mod_add\<close>, \<open>BN_mod_sub\<close>, \<open>BN_mod_mul\<close> and
  \<open>BN_mod_exp\<close> do when the result is the very \<open>BIGNUM\<close> that holds the modulus: the pages
  document nothing for that call, and no law is stated of it.
  A second locale adds that no call fails for want of memory. Both are interpreted on
  integer arithmetic, so the assumptions can be met.
\<close>

section \<open>The functions\<close>

record bn_lib =
  BN_CTX_new :: bool
  BN_new :: "nat \<Rightarrow> int option"
  BN_num_bits :: "int \<Rightarrow> nat"
  BN_bin2bn :: "bytes \<Rightarrow> int option"
  BN_bn2bin :: "int \<Rightarrow> bytes"
  BN_bn2binpad :: "int \<Rightarrow> nat \<Rightarrow> bytes option"
  BN_copy :: "int \<Rightarrow> int option"
  BN_is_odd :: "int \<Rightarrow> bool"
  BN_is_one :: "int \<Rightarrow> bool"
  BN_is_zero :: "int \<Rightarrow> bool"
  BN_is_negative :: "int \<Rightarrow> bool"
  BN_set_negative :: "int \<Rightarrow> bool \<Rightarrow> int"
  BN_is_bit_set :: "int \<Rightarrow> nat \<Rightarrow> bool"
  BN_set_bit :: "int \<Rightarrow> nat \<Rightarrow> int option"
  BN_clear_bit :: "int \<Rightarrow> nat \<Rightarrow> int option"
  BN_mask_bits :: "int \<Rightarrow> nat \<Rightarrow> int option"
  BN_lshift :: "int \<Rightarrow> nat \<Rightarrow> int option"
  BN_rshift :: "int \<Rightarrow> nat \<Rightarrow> int option"
  BN_add :: "int \<Rightarrow> int \<Rightarrow> int option"
  BN_sub :: "int \<Rightarrow> int \<Rightarrow> int option"
  BN_add_word :: "int \<Rightarrow> nat \<Rightarrow> int option"
  BN_sub_word :: "int \<Rightarrow> nat \<Rightarrow> int option"
  BN_mul :: "int \<Rightarrow> int \<Rightarrow> int option"
  BN_div :: "int \<Rightarrow> int \<Rightarrow> (int \<times> int) option"
  BN_mod_add :: "int \<Rightarrow> int \<Rightarrow> int \<Rightarrow> int option"
  BN_mod_sub :: "int \<Rightarrow> int \<Rightarrow> int \<Rightarrow> int option"
  BN_mod_mul :: "int \<Rightarrow> int \<Rightarrow> int \<Rightarrow> int option"
  BN_mod_exp :: "int \<Rightarrow> int \<Rightarrow> int \<Rightarrow> int option"
  BN_mod_inverse :: "int \<Rightarrow> int \<Rightarrow> int option"
  BN_mod_sqrt :: "int \<Rightarrow> int \<Rightarrow> int option"
  BN_is_prime_ex :: "int \<Rightarrow> bool option"
  BN_GF2m_mod_mul :: "int \<Rightarrow> int \<Rightarrow> int \<Rightarrow> int option"
  BN_mod_add_over :: "int \<Rightarrow> int \<Rightarrow> int \<Rightarrow> int option"
  BN_mod_sub_over :: "int \<Rightarrow> int \<Rightarrow> int \<Rightarrow> int option"
  BN_mod_mul_over :: "int \<Rightarrow> int \<Rightarrow> int \<Rightarrow> int option"
  BN_mod_exp_over :: "int \<Rightarrow> int \<Rightarrow> int \<Rightarrow> int option"

text \<open>The macro \<open>BN_num_bytes\<close>.\<close>

definition BN_num_bytes :: "bn_lib \<Rightarrow> int \<Rightarrow> nat" where
  "BN_num_bytes lib v = (BN_num_bits lib v + 7) div 8"

section \<open>Lengths of numbers\<close>

fun bit_length :: "nat \<Rightarrow> nat" where
  "bit_length n = (if n = 0 then 0 else Suc (bit_length (n div 2)))"

declare bit_length.simps [simp del]

lemma bit_length_0 [simp]: "bit_length 0 = 0"
  by (simp add: bit_length.simps)

lemma less_2p_bit_length: "n < 2 ^ bit_length n"
proof (induction n rule: bit_length.induct)
  case (1 n)
  show ?case
  proof (cases "n = 0")
    case False
    then have "n div 2 < 2 ^ bit_length (n div 2)" by (rule 1)
    then show ?thesis using False by (simp add: bit_length.simps [of n])
  qed simp
qed

lemma bit_length_le_iff: "bit_length n \<le> k \<longleftrightarrow> n < 2 ^ k"
proof (induction n arbitrary: k rule: bit_length.induct)
  case (1 n)
  show ?case
  proof (cases "n = 0 \<or> k = 0")
    case True
    then show ?thesis by (auto simp: bit_length.simps [of n])
  next
    case False
    then obtain j where j: "k = Suc j" by (cases k) auto
    have "bit_length (n div 2) \<le> j \<longleftrightarrow> n div 2 < 2 ^ j" using False 1 by simp
    then show ?thesis using False j by (simp add: bit_length.simps [of n]) linarith
  qed
qed

text \<open>The number of bytes of the absolute value.\<close>

definition byte_length :: "int \<Rightarrow> nat" where
  "byte_length v = (bit_length (nat \<bar>v\<bar>) + 7) div 8"

lemma nat_less_power: "nat \<bar>v\<bar> < 2 ^ (8 * n) \<longleftrightarrow> \<bar>v\<bar> < 256 ^ n"
proof -
  have "(2::int) ^ (8 * n) = 256 ^ n" by (simp add: power_mult)
  then show ?thesis by (simp add: nat_less_iff)
qed

lemma byte_length_le_iff: "byte_length v \<le> n \<longleftrightarrow> \<bar>v\<bar> < 256 ^ n"
proof -
  have "byte_length v \<le> n \<longleftrightarrow> bit_length (nat \<bar>v\<bar>) \<le> 8 * n"
    unfolding byte_length_def by linarith
  then show ?thesis by (simp only: bit_length_le_iff nat_less_power)
qed

lemma byte_length_bound: "\<bar>v\<bar> < 256 ^ byte_length v"
  using byte_length_le_iff [of v "byte_length v"] by simp

lemma byte_length_0 [simp]: "byte_length 0 = 0"
  by (simp add: byte_length_def)

lemma byte_length_eq_0 [simp]: "byte_length v = 0 \<longleftrightarrow> v = 0"
  using byte_length_le_iff [of v 0] by auto

lemma byte_length_os2ip: "byte_length (os2ip bs) \<le> length bs"
  using os2ip_bound [of bs] by (simp add: byte_length_le_iff)

section \<open>What the library documents\<close>

definition bn_prime :: "int \<Rightarrow> bool" where
  "bn_prime p \<longleftrightarrow> 1 < p \<and> list_all (\<lambda>d. p mod d \<noteq> 0) [2..p - 1]"

locale openssl_bn =
  fixes lib :: bn_lib
  assumes new_val: "BN_new lib i = Some v \<Longrightarrow> v = 0"
    and num_bits_val: "BN_num_bits lib v = bit_length (nat \<bar>v\<bar>)"
    and bin2bn_val: "BN_bin2bn lib bs = Some v \<Longrightarrow> v = os2ip bs"
    and bn2bin_val: "BN_bn2bin lib v = i2osp (byte_length v) \<bar>v\<bar>"
    and bn2binpad_val: "BN_bn2binpad lib v k =
        (if byte_length v \<le> k then Some (i2osp k \<bar>v\<bar>) else None)"
    and copy_val: "BN_copy lib v = Some r \<Longrightarrow> r = v"
    and is_odd_val: "BN_is_odd lib v = odd v"
    and is_one_val: "BN_is_one lib v = (v = 1)"
    and is_zero_val: "BN_is_zero lib v = (v = 0)"
    and is_negative_val: "BN_is_negative lib v = (v < 0)"
    and set_negative_val: "BN_set_negative lib v neg = (if neg then - \<bar>v\<bar> else \<bar>v\<bar>)"
    and is_bit_set_val: "BN_is_bit_set lib v k = bit \<bar>v\<bar> k"
    and set_bit_val: "0 \<le> v \<Longrightarrow> BN_set_bit lib v k = Some r \<Longrightarrow> r = set_bit k v"
    and clear_bit_val: "0 \<le> v \<Longrightarrow> BN_clear_bit lib v k = Some r \<Longrightarrow> r = unset_bit k v"
    and mask_bits_val: "0 \<le> v \<Longrightarrow> BN_mask_bits lib v k = Some r \<Longrightarrow> r = take_bit k v"
    and lshift_val: "BN_lshift lib v k = Some r \<Longrightarrow> r = v * 2 ^ k"
    and rshift_val: "0 \<le> v \<Longrightarrow> BN_rshift lib v k = Some r \<Longrightarrow> r = v div 2 ^ k"
    and add_val: "BN_add lib a b = Some r \<Longrightarrow> r = a + b"
    and sub_val: "BN_sub lib a b = Some r \<Longrightarrow> r = a - b"
    and add_word_val: "BN_add_word lib a w = Some r \<Longrightarrow> r = a + int w"
    and sub_word_val: "BN_sub_word lib a w = Some r \<Longrightarrow> r = a - int w"
    and mul_val: "BN_mul lib a b = Some r \<Longrightarrow> r = a * b"
    and div_val: "0 \<le> a \<Longrightarrow> BN_div lib a n = Some (q, r) \<Longrightarrow> 0 < n \<Longrightarrow> q = a div n \<and> r = a mod n"
    and mod_add_val: "BN_mod_add lib a b n = Some r \<Longrightarrow> 0 < n \<Longrightarrow> r = (a + b) mod n"
    and mod_sub_val: "BN_mod_sub lib a b n = Some r \<Longrightarrow> 0 < n \<Longrightarrow> r = (a - b) mod n"
    and mod_mul_val: "BN_mod_mul lib a b n = Some r \<Longrightarrow> 0 < n \<Longrightarrow> r = (a * b) mod n"
    and mod_exp_val: "0 \<le> e \<Longrightarrow> BN_mod_exp lib a e n = Some r \<Longrightarrow> 0 < n \<Longrightarrow> r = a ^ nat e mod n"
    and mod_inverse_val: "BN_mod_inverse lib a n = Some r \<Longrightarrow> 1 < n \<Longrightarrow>
        0 \<le> r \<and> r < n \<and> (a * r) mod n = 1"
    and mod_sqrt_val: "BN_mod_sqrt lib a n = Some r \<Longrightarrow> bn_prime n \<Longrightarrow>
        0 \<le> r \<and> r < n \<and> (r * r) mod n = a mod n"
    and is_prime_val: "bn_prime v \<Longrightarrow> BN_is_prime_ex lib v \<noteq> Some False"
begin

lemma num_bytes_val: "BN_num_bytes lib v = byte_length v"
  by (simp add: BN_num_bytes_def byte_length_def num_bits_val)

lemma length_bn2bin [simp]: "length (BN_bn2bin lib v) = byte_length v"
  by (simp add: bn2bin_val)

lemma os2ip_bn2bin: "os2ip (BN_bn2bin lib v) = \<bar>v\<bar>"
  by (simp add: bn2bin_val byte_length_bound)

lemma bn2binpad_Some:
  "BN_bn2binpad lib v n = Some bs \<longleftrightarrow> byte_length v \<le> n \<and> bs = i2osp n \<bar>v\<bar>"
  by (auto simp: bn2binpad_val)

end

text \<open>No call fails for want of memory: what succeeds on every argument, or on those with a result.\<close>

locale openssl_bn_total = openssl_bn +
  assumes ctx_new_ok: "BN_CTX_new lib"
    and new_ok: "BN_new lib i \<noteq> None"
    and bin2bn_ok: "BN_bin2bn lib bs \<noteq> None"
    and copy_ok: "BN_copy lib v \<noteq> None"
    and set_bit_ok: "BN_set_bit lib v k \<noteq> None"
    and mask_bits_ok: "k < BN_num_bits lib v \<Longrightarrow> BN_mask_bits lib v k \<noteq> None"
    and lshift_ok: "BN_lshift lib v k \<noteq> None"
    and rshift_ok: "BN_rshift lib v k \<noteq> None"
    and add_ok: "BN_add lib a b \<noteq> None"
    and sub_ok: "BN_sub lib a b \<noteq> None"
    and add_word_ok: "BN_add_word lib a w \<noteq> None"
    and sub_word_ok: "BN_sub_word lib a w \<noteq> None"
    and mul_ok: "BN_mul lib a b \<noteq> None"
    and div_ok: "n \<noteq> 0 \<Longrightarrow> BN_div lib a n \<noteq> None"
    and mod_add_ok: "n \<noteq> 0 \<Longrightarrow> BN_mod_add lib a b n \<noteq> None"
    and mod_sub_ok: "n \<noteq> 0 \<Longrightarrow> BN_mod_sub lib a b n \<noteq> None"
    and mod_mul_ok: "n \<noteq> 0 \<Longrightarrow> BN_mod_mul lib a b n \<noteq> None"
    and mod_exp_ok: "n \<noteq> 0 \<Longrightarrow> BN_mod_exp lib a e n \<noteq> None"
    and is_prime_ok: "BN_is_prime_ex lib v \<noteq> None"
begin

lemma new_eq: "BN_new lib i = Some 0"
  using new_ok [of i] new_val by (cases "BN_new lib i") auto

lemma bin2bn_eq: "BN_bin2bn lib bs = Some (os2ip bs)"
  using bin2bn_ok [of bs] bin2bn_val by (cases "BN_bin2bn lib bs") auto

lemma copy_eq: "BN_copy lib v = Some v"
  using copy_ok [of v] copy_val by (cases "BN_copy lib v") auto

lemma add_eq: "BN_add lib a b = Some (a + b)"
  using add_ok [of a b] add_val by (cases "BN_add lib a b") auto

lemma sub_eq: "BN_sub lib a b = Some (a - b)"
  using sub_ok [of a b] sub_val by (cases "BN_sub lib a b") auto

lemma add_word_eq: "BN_add_word lib a w = Some (a + int w)"
  using add_word_ok [of a w] add_word_val by (cases "BN_add_word lib a w") auto

lemma sub_word_eq: "BN_sub_word lib a w = Some (a - int w)"
  using sub_word_ok [of a w] sub_word_val by (cases "BN_sub_word lib a w") auto

lemma mul_eq: "BN_mul lib a b = Some (a * b)"
  using mul_ok [of a b] mul_val by (cases "BN_mul lib a b") auto

lemma lshift_eq: "BN_lshift lib v k = Some (v * 2 ^ k)"
  using lshift_ok [of v k] lshift_val by (cases "BN_lshift lib v k") auto

lemma mask_bits_eq: "0 \<le> v \<Longrightarrow> k < bit_length (nat v) \<Longrightarrow> BN_mask_bits lib v k = Some (take_bit k v)"
  using mask_bits_ok [of k v] mask_bits_val [of v k] by (cases "BN_mask_bits lib v k") (auto simp: num_bits_val)

lemma mod_add_eq: "0 < n \<Longrightarrow> BN_mod_add lib a b n = Some ((a + b) mod n)"
  using mod_add_ok [of n a b] mod_add_val by (cases "BN_mod_add lib a b n") auto

lemma mod_sub_eq: "0 < n \<Longrightarrow> BN_mod_sub lib a b n = Some ((a - b) mod n)"
  using mod_sub_ok [of n a b] mod_sub_val by (cases "BN_mod_sub lib a b n") auto

lemma mod_mul_eq: "0 < n \<Longrightarrow> BN_mod_mul lib a b n = Some ((a * b) mod n)"
  using mod_mul_ok [of n a b] mod_mul_val by (cases "BN_mod_mul lib a b n") auto

lemma mod_exp_eq: "0 < n \<Longrightarrow> 0 \<le> e \<Longrightarrow> BN_mod_exp lib a e n = Some (a ^ nat e mod n)"
  using mod_exp_ok [of n a e] mod_exp_val by (cases "BN_mod_exp lib a e n") auto

end

section \<open>The exact library\<close>

definition find_int :: "(int \<Rightarrow> bool) \<Rightarrow> int \<Rightarrow> int option" where
  "find_int P n = find P [0..n - 1]"

lemma find_int_Some: "find_int P n = Some r \<Longrightarrow> 0 \<le> r \<and> r < n \<and> P r"
  by (auto simp: find_int_def find_Some_iff)

text \<open>Multiplication of binary polynomials, reduced: the carry-less product and its remainder.\<close>

fun gf2_mul :: "nat \<Rightarrow> int \<Rightarrow> int \<Rightarrow> int" where
  "gf2_mul 0 a b = 0"
| "gf2_mul (Suc k) a b = (if odd b then a else 0) XOR gf2_mul k (2 * a) (b div 2)"

fun gf2_reduce :: "nat \<Rightarrow> int \<Rightarrow> int \<Rightarrow> int" where
  "gf2_reduce 0 v n = v"
| "gf2_reduce (Suc k) v n =
     gf2_reduce k (if bit_length (nat v) = bit_length (nat n) + k then v XOR push_bit k n else v) n"

definition bn_exact :: bn_lib where
  "bn_exact = \<lparr>
     BN_CTX_new = True,
     BN_new = (\<lambda>i. Some 0),
     BN_num_bits = (\<lambda>v. bit_length (nat \<bar>v\<bar>)),
     BN_bin2bn = (\<lambda>bs. Some (os2ip bs)),
     BN_bn2bin = (\<lambda>v. i2osp (byte_length v) \<bar>v\<bar>),
     BN_bn2binpad = (\<lambda>v n. if byte_length v \<le> n then Some (i2osp n \<bar>v\<bar>) else None),
     BN_copy = Some,
     BN_is_odd = odd,
     BN_is_one = (\<lambda>v. v = 1),
     BN_is_zero = (\<lambda>v. v = 0),
     BN_is_negative = (\<lambda>v. v < 0),
     BN_set_negative = (\<lambda>v b. if b then - \<bar>v\<bar> else \<bar>v\<bar>),
     BN_is_bit_set = (\<lambda>v k. bit \<bar>v\<bar> k),
     BN_set_bit = (\<lambda>v k. Some (set_bit k v)),
     BN_clear_bit = (\<lambda>v k. if k < bit_length (nat \<bar>v\<bar>) then Some (unset_bit k v) else None),
     BN_mask_bits = (\<lambda>v k. if k < bit_length (nat \<bar>v\<bar>) then Some (take_bit k v) else None),
     BN_lshift = (\<lambda>v k. Some (v * 2 ^ k)),
     BN_rshift = (\<lambda>v k. Some (v div 2 ^ k)),
     BN_add = (\<lambda>a b. Some (a + b)),
     BN_sub = (\<lambda>a b. Some (a - b)),
     BN_add_word = (\<lambda>a w. Some (a + int w)),
     BN_sub_word = (\<lambda>a w. Some (a - int w)),
     BN_mul = (\<lambda>a b. Some (a * b)),
     BN_div = (\<lambda>a n. if n = 0 then None else Some (a div n, a mod n)),
     BN_mod_add = (\<lambda>a b n. if n = 0 then None else Some ((a + b) mod n)),
     BN_mod_sub = (\<lambda>a b n. if n = 0 then None else Some ((a - b) mod n)),
     BN_mod_mul = (\<lambda>a b n. if n = 0 then None else Some ((a * b) mod n)),
     BN_mod_exp = (\<lambda>a e n. if n = 0 then None else Some (a ^ nat e mod n)),
     BN_mod_inverse = (\<lambda>a n. find_int (\<lambda>r. (a * r) mod n = 1) n),
     BN_mod_sqrt = (\<lambda>a n. find_int (\<lambda>r. (r * r) mod n = a mod n) n),
     BN_is_prime_ex = (\<lambda>v. Some (bn_prime v)),
     BN_GF2m_mod_mul = (\<lambda>a b n. if n = 0 then None else
        Some (gf2_reduce (2 * bit_length (nat \<bar>n\<bar>)) (gf2_mul (bit_length (nat \<bar>b\<bar>)) a b) n)),
     BN_mod_add_over = (\<lambda>a b n. None),
     BN_mod_sub_over = (\<lambda>a b n. None),
     BN_mod_mul_over = (\<lambda>a b n. None),
     BN_mod_exp_over = (\<lambda>a e n. None)\<rparr>"

interpretation exact: openssl_bn_total bn_exact
  by unfold_locales (auto simp: bn_exact_def split: if_splits dest: find_int_Some)

end
