(* ===== verification/Cx_Mpi.thy ===== *)
theory Cx_Mpi
  imports Cx_Lib Openssl_Bn
begin

text \<open>
  The multi-precision integers, \<open>src/bolos/cx_mpi.c\<close>. The module keeps an array of 64 slots with
  a number each and accounts for their memory. A \<open>cx_mpi_t *\<close> is the index of a slot, so two
  operands of a call may be the same number; the operations read and write the array in the order
  of the code. The functions of OpenSSL are the parameter \<open>lib\<close>.
\<close>

section \<open>State\<close>

definition MAX_MPI_ARRAY_ENTRIES :: nat where
  "MAX_MPI_ARRAY_ENTRIES = 64"

definition MAX_MPI_BYTE_SIZE :: u32 where
  "MAX_MPI_BYTE_SIZE = 2048"

definition CX_MPI_WORD_BYTE_SIZE :: u32 where
  "CX_MPI_WORD_BYTE_SIZE = 16"

record mpi_slot =
  slot_mpi :: "int option"
  slot_size :: u32

text \<open>\<open>local_bn_ctx\<close> is only compared with \<open>NULL\<close>: it is true where the pointer is not null.\<close>

record mpi_state =
  local_bn_ctx :: bool
  cx_mpi_array :: "mpi_slot list"
  mpi_words_count :: u32
  mpi_word_size :: u32
  mpi_total_memory :: u32

definition empty_slot :: mpi_slot where
  "empty_slot = \<lparr>slot_mpi = None, slot_size = 0\<rparr>"

definition mpi_init_state :: mpi_state where
  "mpi_init_state = \<lparr>local_bn_ctx = False, cx_mpi_array = replicate 64 empty_slot,
     mpi_words_count = 0, mpi_word_size = 0, mpi_total_memory = 0\<rparr>"

type_synonym cx_bn = u32
type_synonym mpi_ptr = nat

section \<open>Operations that return an error code\<close>

text \<open>
  A call changes the state and returns a result or an error; \<open>op_bind\<close> is the sequence of two calls
  under \<open>CX_CHECK\<close>, and \<open>op_seq\<close> the sequence of two calls when the code ignores what the first
  returns.
\<close>

type_synonym 'a mpi_op = "mpi_state \<Rightarrow> ((cx_err + 'a) \<times> mpi_state) res"

definition op_ok :: "'a \<Rightarrow> 'a mpi_op" where
  "op_ok x s = Inr (Inr x, s)"

definition op_err :: "cx_err \<Rightarrow> 'a mpi_op" where
  "op_err e s = Inr (Inl e, s)"

definition op_crash :: "'a mpi_op" where
  "op_crash s = Inl Oob"

definition op_bind :: "'a mpi_op \<Rightarrow> ('a \<Rightarrow> 'b mpi_op) \<Rightarrow> 'b mpi_op" where
  "op_bind m f s =
     (case m s of
        Inl e \<Rightarrow> Inl e
      | Inr (Inl e, s') \<Rightarrow> Inr (Inl e, s')
      | Inr (Inr x, s') \<Rightarrow> f x s')"

definition op_seq :: "'a mpi_op \<Rightarrow> 'b mpi_op \<Rightarrow> 'b mpi_op" where
  "op_seq m m' s = (case m s of Inl e \<Rightarrow> Inl e | Inr (x, s') \<Rightarrow> m' s')"

definition op_opt :: "cx_err \<Rightarrow> 'a option \<Rightarrow> 'a mpi_op" where
  "op_opt e v = (case v of None \<Rightarrow> op_err e | Some x \<Rightarrow> op_ok x)"

definition op_read :: "(mpi_state \<Rightarrow> 'a) \<Rightarrow> 'a mpi_op" where
  "op_read f s = Inr (Inr (f s), s)"

text \<open>The number a pointer leads to, and its update. An empty slot is a null pointer.\<close>

definition op_get :: "mpi_ptr \<Rightarrow> int mpi_op" where
  "op_get p s =
     (if p < length (cx_mpi_array s) then
        case slot_mpi (cx_mpi_array s ! p) of None \<Rightarrow> Inl Oob | Some v \<Rightarrow> Inr (Inr v, s)
      else Inl Oob)"

definition op_put :: "mpi_ptr \<Rightarrow> int \<Rightarrow> unit mpi_op" where
  "op_put p v s =
     (if p < length (cx_mpi_array s) \<and> slot_mpi (cx_mpi_array s ! p) \<noteq> None then
        Inr (Inr (), s\<lparr>cx_mpi_array :=
          (cx_mpi_array s)[p := (cx_mpi_array s ! p)\<lparr>slot_mpi := Some v\<rparr>]\<rparr>)
      else Inl Oob)"

text \<open>A call of the library that stores its result in \<open>r\<close>, with the error of its failure.\<close>

definition op_store :: "cx_err \<Rightarrow> mpi_ptr \<Rightarrow> int option \<Rightarrow> unit mpi_op" where
  "op_store e r v = op_bind (op_opt e v) (op_put r)"

section \<open>Sizes\<close>

definition size_to_mpi_bytes :: "u32 \<Rightarrow> u32" where
  "size_to_mpi_bytes sz =
     (let sz = (sz + CX_MPI_WORD_BYTE_SIZE - 1) AND NOT (CX_MPI_WORD_BYTE_SIZE - 1) in
      if sz = 0 then CX_MPI_WORD_BYTE_SIZE else sz)"

definition size_to_mpi_word_bytes :: "mpi_state \<Rightarrow> u32 \<Rightarrow> u32" where
  "size_to_mpi_word_bytes s sz =
     (if sz = 0 then mpi_word_size s
      else (sz + (mpi_word_size s - 1)) div mpi_word_size s * mpi_word_size s)"

definition cx_mpi_nbytes :: "bn_lib \<Rightarrow> mpi_state \<Rightarrow> int \<Rightarrow> u32" where
  "cx_mpi_nbytes lib s x =
     size_to_mpi_word_bytes s (size_to_mpi_bytes (of_nat (BN_num_bytes lib x)))"

definition op_nbytes :: "bn_lib \<Rightarrow> mpi_ptr \<Rightarrow> u32 mpi_op" where
  "op_nbytes lib p = op_bind (op_get p) (\<lambda>x. op_read (\<lambda>s. cx_mpi_nbytes lib s x))"

definition cx_get_bn_ctx :: "mpi_state \<Rightarrow> bool" where
  "cx_get_bn_ctx s = local_bn_ctx s"

definition cx_get_bn_size :: "mpi_state \<Rightarrow> u32" where
  "cx_get_bn_size s = size_to_mpi_word_bytes s (mpi_word_size s)"

section \<open>From handles to numbers\<close>

text \<open>\<open>cx_bn_locked\<close> of \<open>cx_bn.c\<close>, which every conversion starts with.\<close>

definition sys_cx_bn_is_locked :: "mpi_state \<Rightarrow> bool" where
  "sys_cx_bn_is_locked s = cx_get_bn_ctx s"

definition sys_cx_bn_is_unlocked :: "mpi_state \<Rightarrow> bool" where
  "sys_cx_bn_is_unlocked s = (\<not> cx_get_bn_ctx s)"

definition cx_bn_locked :: "unit mpi_op" where
  "cx_bn_locked s = (if sys_cx_bn_is_locked s then op_ok () s else op_err CX_NOT_LOCKED s)"

definition cx_bn_unlocked :: "unit mpi_op" where
  "cx_bn_unlocked s = (if sys_cx_bn_is_unlocked s then op_ok () s else op_err CX_NOT_UNLOCKED s)"

text \<open>
  The four conversions differ in the number of handles. All handles have to be inside of the array
  and their slots in use.
\<close>

definition bn_in_array :: "cx_bn \<Rightarrow> bool" where
  "bn_in_array bn = (unat bn < MAX_MPI_ARRAY_ENTRIES)"

definition bns_to_mpi :: "cx_bn list \<Rightarrow> mpi_ptr list mpi_op" where
  "bns_to_mpi bns = op_bind cx_bn_locked (\<lambda>_ s.
     if list_all bn_in_array bns then
       if list_all (\<lambda>bn. slot_mpi (cx_mpi_array s ! unat bn) \<noteq> None) bns
       then op_ok (map unat bns) s
       else op_err CX_MEMORY_FULL s
     else if list_ex (\<lambda>bn. bn = - 1) bns then op_err CX_MEMORY_FULL s
     else op_err CX_INVALID_PARAMETER s)"

definition cx_bn_to_mpi :: "cx_bn \<Rightarrow> mpi_ptr mpi_op" where
  "cx_bn_to_mpi bn_x = op_bind (bns_to_mpi [bn_x]) (\<lambda>ps. op_ok (ps ! 0))"

definition cx_bn_ab_to_mpi :: "cx_bn \<Rightarrow> cx_bn \<Rightarrow> (mpi_ptr \<times> mpi_ptr) mpi_op" where
  "cx_bn_ab_to_mpi bn_a bn_b = op_bind (bns_to_mpi [bn_a, bn_b]) (\<lambda>ps. op_ok (ps ! 0, ps ! 1))"

definition cx_bn_rab_to_mpi ::
  "cx_bn \<Rightarrow> cx_bn \<Rightarrow> cx_bn \<Rightarrow> (mpi_ptr \<times> mpi_ptr \<times> mpi_ptr) mpi_op" where
  "cx_bn_rab_to_mpi bn_r bn_a bn_b =
     op_bind (bns_to_mpi [bn_a, bn_b, bn_r]) (\<lambda>ps. op_ok (ps ! 2, ps ! 0, ps ! 1))"

definition cx_bn_rabm_to_mpi ::
  "cx_bn \<Rightarrow> cx_bn \<Rightarrow> cx_bn \<Rightarrow> cx_bn \<Rightarrow> (mpi_ptr \<times> mpi_ptr \<times> mpi_ptr \<times> mpi_ptr) mpi_op" where
  "cx_bn_rabm_to_mpi bn_r bn_a bn_b bn_m =
     op_bind (bns_to_mpi [bn_a, bn_b, bn_r, bn_m])
       (\<lambda>ps. op_ok (ps ! 2, ps ! 0, ps ! 1, ps ! 3))"

definition cx_mpi_bytes :: "bn_lib \<Rightarrow> cx_bn \<Rightarrow> u32 mpi_op" where
  "cx_mpi_bytes lib bn_x = op_bind (cx_bn_to_mpi bn_x) (op_nbytes lib)"

section \<open>Slots\<close>

definition free_slot :: "mpi_state \<Rightarrow> nat \<Rightarrow> mpi_state" where
  "free_slot s i = s\<lparr>
     cx_mpi_array := (cx_mpi_array s)[i := empty_slot],
     mpi_total_memory := mpi_total_memory s - slot_size (cx_mpi_array s ! i),
     mpi_words_count := mpi_words_count s - slot_size (cx_mpi_array s ! i) div mpi_word_size s\<rparr>"

definition cx_mpi_destroy :: "cx_bn \<Rightarrow> unit mpi_op" where
  "cx_mpi_destroy bn_x s =
     (if bn_in_array bn_x \<and> slot_mpi (cx_mpi_array s ! unat bn_x) \<noteq> None then
        if \<not> local_bn_ctx s then op_err CX_NOT_LOCKED s
        else Inr (Inr (), free_slot s (unat bn_x))
      else op_ok () s)"

fun unlock_loop :: "nat \<Rightarrow> nat \<Rightarrow> unit mpi_op" where
  "unlock_loop i 0 = op_ok ()"
| "unlock_loop i (Suc n) = op_seq (cx_mpi_destroy (of_nat i)) (unlock_loop (i + 1) n)"

definition cx_mpi_unlock :: "unit mpi_op" where
  "cx_mpi_unlock = op_bind (unlock_loop 0 MAX_MPI_ARRAY_ENTRIES) (\<lambda>_ s.
     Inr (Inr (), s\<lparr>local_bn_ctx := False, mpi_total_memory := 0, mpi_word_size := 0,
                    mpi_words_count := 0\<rparr>))"

definition cx_mpi_lock :: "bn_lib \<Rightarrow> u32 \<Rightarrow> unit mpi_op" where
  "cx_mpi_lock lib word_size s =
     (if local_bn_ctx s then op_err CX_NOT_UNLOCKED s
      else if \<not> BN_CTX_new lib then op_err CX_INTERNAL_ERROR s
      else Inr (Inr (), s\<lparr>local_bn_ctx := True, mpi_total_memory := 0,
                         mpi_word_size := size_to_mpi_bytes word_size, mpi_words_count := 0\<rparr>))"

text \<open>The search for the first empty slot, and the allocation. \<open>None\<close> is the null pointer.\<close>

fun first_free :: "nat \<Rightarrow> mpi_slot list \<Rightarrow> nat option" where
  "first_free i [] = None"
| "first_free i (x # xs) = (if slot_mpi x = None then Some i else first_free (i + 1) xs)"

definition take_slot :: "mpi_state \<Rightarrow> nat \<Rightarrow> int \<Rightarrow> u32 \<Rightarrow> mpi_state" where
  "take_slot s i x sz = s\<lparr>
     cx_mpi_array := (cx_mpi_array s)[i := \<lparr>slot_mpi = Some x, slot_size = sz\<rparr>],
     mpi_total_memory := mpi_total_memory s + sz,
     mpi_words_count := mpi_words_count s + sz div mpi_word_size s\<rparr>"

definition cx_mpi_alloc :: "bn_lib \<Rightarrow> u32 \<Rightarrow> (mpi_ptr option \<times> cx_bn) mpi_op" where
  "cx_mpi_alloc lib sz s =
     (let sz = size_to_mpi_word_bytes s sz in
      if sz + mpi_total_memory s \<le> MAX_MPI_BYTE_SIZE then
        case first_free 0 (cx_mpi_array s) of
          None \<Rightarrow> op_ok (None, - 1) s
        | Some i \<Rightarrow>
            (case BN_new lib i of
               None \<Rightarrow> op_ok (None, - 1) s
             | Some x \<Rightarrow> op_ok (Some i, of_nat i) (take_slot s i x sz))
      else op_ok (None, - 1) s)"

definition cx_mpi_init :: "bn_lib \<Rightarrow> mpi_ptr \<Rightarrow> bytes \<Rightarrow> nat \<Rightarrow> unit mpi_op" where
  "cx_mpi_init lib x bytes nbytes =
     (case mem_read bytes 0 nbytes of
        Inl e \<Rightarrow> op_crash
      | Inr bs \<Rightarrow> op_store CX_INTERNAL_ERROR x (BN_bin2bn lib bs))"

definition cx_mpi_alloc_init ::
  "bn_lib \<Rightarrow> u32 \<Rightarrow> bytes \<Rightarrow> u32 \<Rightarrow> (mpi_ptr option \<times> cx_bn) mpi_op" where
  "cx_mpi_alloc_init lib sz bytes nbytes =
     op_bind (op_read (\<lambda>s. size_to_mpi_word_bytes s (if sz < nbytes then nbytes else sz))) (\<lambda>sz.
     op_bind (cx_mpi_alloc lib sz) (\<lambda>(x, bn_x).
       case x of
         None \<Rightarrow> op_ok (None, bn_x)
       | Some p \<Rightarrow>
           (case mem_read bytes 0 (unat nbytes) of
              Inl e \<Rightarrow> op_crash
            | Inr bs \<Rightarrow>
                (case BN_bin2bn lib bs of
                   None \<Rightarrow> op_seq (cx_mpi_destroy bn_x) (op_ok (None, bn_x))
                 | Some v \<Rightarrow> op_bind (op_put p v) (\<lambda>_. op_ok (Some p, bn_x))))))"

section \<open>Bytes\<close>

text \<open>
  The local arrays have \<open>MAX_MPI_BYTE_SIZE\<close> bytes; \<open>BN_bn2binpad\<close> with a longer length would
  write past the end of one.
\<close>

definition bn2binpad_local :: "bn_lib \<Rightarrow> int \<Rightarrow> u32 \<Rightarrow> cx_err \<Rightarrow> bytes mpi_op" where
  "bn2binpad_local lib x len e =
     (if len > MAX_MPI_BYTE_SIZE then op_crash else op_opt e (BN_bn2binpad lib x (unat len)))"

definition cx_mpi_export :: "bn_lib \<Rightarrow> mpi_ptr \<Rightarrow> bytes \<Rightarrow> nat \<Rightarrow> bytes mpi_op" where
  "cx_mpi_export lib src dst dst_len =
     op_bind (op_get src) (\<lambda>x. op_bind (op_nbytes lib src) (\<lambda>src_len.
       if src_len > MAX_MPI_BYTE_SIZE then op_err CX_INVALID_PARAMETER
       else op_bind (bn2binpad_local lib x src_len CX_INTERNAL_ERROR) (\<lambda>src_ptr.
         case mem_write dst 0
                (if unat src_len \<ge> dst_len then drop (unat src_len - dst_len) src_ptr
                 else replicate (dst_len - unat src_len) 0 @ src_ptr) of
           Inl e \<Rightarrow> op_crash
         | Inr dst \<Rightarrow> op_ok dst)))"

definition cx_mpi_copy :: "bn_lib \<Rightarrow> mpi_ptr \<Rightarrow> mpi_ptr \<Rightarrow> unit mpi_op" where
  "cx_mpi_copy lib dst src =
     (if dst = src then op_ok ()
      else op_bind (op_nbytes lib src) (\<lambda>dst_len.
        if dst_len > MAX_MPI_BYTE_SIZE then op_err CX_INVALID_PARAMETER
        else op_bind (cx_mpi_export lib src (replicate (unat dst_len) 0) (unat dst_len)) (\<lambda>dst_ptr.
          op_store CX_INTERNAL_ERROR dst (BN_bin2bn lib dst_ptr))))"

definition cx_mpi_set_u32 :: "bn_lib \<Rightarrow> mpi_ptr \<Rightarrow> u32 \<Rightarrow> unit mpi_op" where
  "cx_mpi_set_u32 lib x n =
     op_seq (op_store CX_INTERNAL_ERROR x (BN_bin2bn lib
       [ucast (drop_bit 24 n AND 0xFF), ucast (drop_bit 16 n AND 0xFF),
        ucast (drop_bit 8 n AND 0xFF), ucast (drop_bit 0 n AND 0xFF)]))
       (op_ok ())"

definition CX_INVALID_PARAMETER_code :: u32 where
  "CX_INVALID_PARAMETER_code = 0xFFFFFF88"

text \<open>The loops that put the last bytes of a big-endian string together, least significant first.\<close>

fun get_u32_loop :: "bytes \<Rightarrow> nat \<Rightarrow> nat \<Rightarrow> u32 \<Rightarrow> u32" where
  "get_u32_loop [] i shift v = v"
| "get_u32_loop (b # bs) i shift v =
     (if i < 4 then get_u32_loop bs (i + 1) (shift + 8) (v OR push_bit shift (ucast b)) else v)"

definition cx_mpi_get_u32 :: "bn_lib \<Rightarrow> mpi_ptr \<Rightarrow> u32 mpi_op" where
  "cx_mpi_get_u32 lib p = op_bind (op_get p) (\<lambda>x.
     if BN_num_bytes lib x > unat MAX_MPI_BYTE_SIZE then op_ok CX_INVALID_PARAMETER_code
     else op_ok (get_u32_loop (rev (BN_bn2bin lib x)) 0 0 0))"

definition cx_mpi_cmp_u32 :: "bn_lib \<Rightarrow> mpi_ptr \<Rightarrow> u32 \<Rightarrow> int mpi_op" where
  "cx_mpi_cmp_u32 lib p b = op_bind (op_get p) (\<lambda>x.
     if BN_num_bytes lib x > unat MAX_MPI_BYTE_SIZE then op_ok (sint CX_INVALID_PARAMETER_code)
     else
       let bytes = BN_bn2bin lib x; num_bytes = length bytes in
       if list_all (\<lambda>c. c = 0) (take (num_bytes - 4) bytes) then
         let value = get_u32_loop (rev (take (min num_bytes 4) bytes)) 0 0 0 in
         op_ok (if value < b then - 1 else if value = b then 0 else 1)
       else op_ok 1)"

fun memcmp :: "bytes \<Rightarrow> bytes \<Rightarrow> int" where
  "memcmp (a # as) (b # bs) = (if a = b then memcmp as bs else uint a - uint b)"
| "memcmp as bs = 0"

definition cx_mpi_cmp :: "bn_lib \<Rightarrow> mpi_ptr \<Rightarrow> mpi_ptr \<Rightarrow> int mpi_op" where
  "cx_mpi_cmp lib a b =
     op_bind (op_get a) (\<lambda>x. op_bind (op_get b) (\<lambda>y.
     op_bind (op_nbytes lib a) (\<lambda>a_len. op_bind (op_nbytes lib b) (\<lambda>b_len.
       if a_len > MAX_MPI_BYTE_SIZE \<or> b_len > MAX_MPI_BYTE_SIZE
       then op_ok (sint CX_INVALID_PARAMETER_code)
       else if a_len = b_len then
         (case (BN_bn2binpad lib x (unat a_len), BN_bn2binpad lib y (unat b_len)) of
            (Some a_ptr, Some b_ptr) \<Rightarrow> op_ok (memcmp a_ptr b_ptr)
          | _ \<Rightarrow> op_ok (- 1))
       else op_ok (- 1)))))"

definition cx_mpi_is_odd :: "bn_lib \<Rightarrow> mpi_ptr \<Rightarrow> bool mpi_op" where
  "cx_mpi_is_odd lib a = op_bind (op_get a) (\<lambda>x. op_ok (BN_is_odd lib x))"

definition cx_mpi_is_one :: "bn_lib \<Rightarrow> mpi_ptr \<Rightarrow> bool mpi_op" where
  "cx_mpi_is_one lib a = op_bind (op_get a) (\<lambda>x. op_ok (BN_is_one lib x))"

definition cx_mpi_is_zero :: "bn_lib \<Rightarrow> mpi_ptr \<Rightarrow> bool mpi_op" where
  "cx_mpi_is_zero lib a = op_bind (op_get a) (\<lambda>x. op_ok (BN_is_zero lib x))"

section \<open>Bits\<close>

definition cx_mpi_tst_bit :: "bn_lib \<Rightarrow> mpi_ptr \<Rightarrow> u32 \<Rightarrow> bool mpi_op" where
  "cx_mpi_tst_bit lib p pos = op_bind (op_nbytes lib p) (\<lambda>nbytes.
     if pos > nbytes * 8 - 1 then op_err CX_INVALID_PARAMETER
     else op_bind (op_get p) (\<lambda>x. op_ok (BN_is_bit_set lib x (unat pos))))"

definition cx_mpi_set_bit :: "bn_lib \<Rightarrow> mpi_ptr \<Rightarrow> u32 \<Rightarrow> unit mpi_op" where
  "cx_mpi_set_bit lib p pos = op_bind (op_nbytes lib p) (\<lambda>nbytes.
     if pos > nbytes * 8 - 1 then op_err CX_INVALID_PARAMETER
     else op_bind (op_get p) (\<lambda>x. op_store CX_INTERNAL_ERROR p (BN_set_bit lib x (unat pos))))"

definition cx_mpi_clr_bit :: "bn_lib \<Rightarrow> mpi_ptr \<Rightarrow> u32 \<Rightarrow> unit mpi_op" where
  "cx_mpi_clr_bit lib p pos =
     op_bind (op_get p) (\<lambda>x. op_store CX_INTERNAL_ERROR p (BN_clear_bit lib x (unat pos)))"

text \<open>
  Counting the bits: leading zero bytes are skipped, then the leading zero bits of a byte. The
  array is local and not initialised, so what follows the bytes of the number is \<open>junk\<close>.
\<close>

function skip_zero_bytes :: "bytes \<Rightarrow> nat \<Rightarrow> u32 \<Rightarrow> (nat \<times> u32) res" where
  "skip_zero_bytes a p len =
     (if p < length a then
        if a ! p = 0 then
          if len - 1 = 0 then Inr (p + 1, 0) else skip_zero_bytes a (p + 1) (len - 1)
        else Inr (p, len)
      else Inl Oob)"
  by pat_completeness auto
termination
  by (relation "measure (\<lambda>(a, p, len). length a - p)") auto

fun skip_zero_bits :: "nat \<Rightarrow> u8 \<Rightarrow> u32 \<Rightarrow> u32" where
  "skip_zero_bits 0 b len = len"
| "skip_zero_bits (Suc n) b len =
     (if b AND 0x80 = 0 then skip_zero_bits n (push_bit 1 b) (len - 1) else len)"

definition cx_mpi_cnt_bits :: "bn_lib \<Rightarrow> bytes \<Rightarrow> mpi_ptr \<Rightarrow> u32 mpi_op" where
  "cx_mpi_cnt_bits lib junk p = op_bind (op_get p) (\<lambda>x.
     if BN_num_bytes lib x > unat MAX_MPI_BYTE_SIZE then op_ok CX_INVALID_PARAMETER_code
     else
       let bs = BN_bn2bin lib x; a = bs @ drop (length bs) junk in
       case skip_zero_bytes a 0 (of_nat (length bs)) of
         Inl e \<Rightarrow> op_crash
       | Inr (i, len) \<Rightarrow>
           if len \<noteq> 0 then op_ok (skip_zero_bits 8 (a ! i) (len * 8)) else op_ok 0)"

definition cx_mpi_shr :: "bn_lib \<Rightarrow> mpi_ptr \<Rightarrow> u32 \<Rightarrow> unit mpi_op" where
  "cx_mpi_shr lib p n = op_bind (op_nbytes lib p) (\<lambda>nbytes.
     if n > nbytes * 8 then op_err CX_INVALID_PARAMETER
     else op_bind (op_get p) (\<lambda>x. op_store CX_INTERNAL_ERROR p (BN_rshift lib x (unat n))))"

definition cx_mpi_shl :: "bn_lib \<Rightarrow> mpi_ptr \<Rightarrow> u32 \<Rightarrow> unit mpi_op" where
  "cx_mpi_shl lib p n = op_bind (op_nbytes lib p) (\<lambda>num_bytes.
     if n > num_bytes * 8 then op_err CX_INVALID_PARAMETER
     else op_bind (op_get p) (\<lambda>x.
       op_bind (op_store CX_INTERNAL_ERROR p (BN_lshift lib x (unat n))) (\<lambda>_.
       op_bind (op_nbytes lib p) (\<lambda>res_bytes.
         if res_bytes > MAX_MPI_BYTE_SIZE then op_err CX_INVALID_PARAMETER
         else if res_bytes > num_bytes then
           op_bind (op_get p) (\<lambda>y.
             let bytes = BN_bn2bin lib y; res_bytes = length bytes in
             if res_bytes > unat num_bytes then
               op_store CX_INTERNAL_ERROR p
                 (BN_bin2bn lib (take (unat num_bytes) (drop (res_bytes - unat num_bytes) bytes)))
             else op_ok ())
         else op_ok ()))))"

text \<open>
  The three bitwise operations align the shorter operand with the end of the longer one. The bytes
  in front are kept for \<open>xor\<close> and \<open>or\<close> and cleared for \<open>and\<close>.
\<close>

definition bytewise :: "(u8 \<Rightarrow> u8 \<Rightarrow> u8) \<Rightarrow> (bytes \<Rightarrow> bytes) \<Rightarrow> bytes \<Rightarrow> bytes \<Rightarrow> bytes" where
  "bytewise f front a b =
     (if length a \<ge> length b then
        let j = length a - length b in front (take j a) @ map2 f (drop j a) b
      else
        let j = length b - length a in front (take j b) @ map2 f (drop j b) a)"

definition mpi_logic ::
  "bool \<Rightarrow> (u8 \<Rightarrow> u8 \<Rightarrow> u8) \<Rightarrow> (bytes \<Rightarrow> bytes) \<Rightarrow> bn_lib \<Rightarrow> mpi_ptr \<Rightarrow> mpi_ptr \<Rightarrow> mpi_ptr \<Rightarrow> unit mpi_op"
where
  "mpi_logic checked f front lib r a b =
     op_bind (op_get a) (\<lambda>x. op_bind (op_nbytes lib a) (\<lambda>a_len.
       if checked \<and> a_len > MAX_MPI_BYTE_SIZE then op_err CX_INVALID_PARAMETER
       else op_bind (bn2binpad_local lib x a_len CX_MEMORY_FULL) (\<lambda>a_ptr.
         op_bind (op_get b) (\<lambda>y. op_bind (op_nbytes lib b) (\<lambda>b_len.
           if checked \<and> b_len > MAX_MPI_BYTE_SIZE then op_err CX_INVALID_PARAMETER
           else op_bind (bn2binpad_local lib y b_len CX_MEMORY_FULL) (\<lambda>b_ptr.
             op_store CX_INTERNAL_ERROR r (BN_bin2bn lib (bytewise f front a_ptr b_ptr))))))))"

definition cx_mpi_xor :: "bn_lib \<Rightarrow> mpi_ptr \<Rightarrow> mpi_ptr \<Rightarrow> mpi_ptr \<Rightarrow> unit mpi_op" where
  "cx_mpi_xor = mpi_logic True (XOR) (\<lambda>bs. bs)"

definition cx_mpi_or :: "bn_lib \<Rightarrow> mpi_ptr \<Rightarrow> mpi_ptr \<Rightarrow> mpi_ptr \<Rightarrow> unit mpi_op" where
  "cx_mpi_or = mpi_logic True (OR) (\<lambda>bs. bs)"

definition cx_mpi_and :: "bn_lib \<Rightarrow> mpi_ptr \<Rightarrow> mpi_ptr \<Rightarrow> mpi_ptr \<Rightarrow> unit mpi_op" where
  "cx_mpi_and = mpi_logic False (AND) (\<lambda>bs. replicate (length bs) 0)"

section \<open>Arithmetic\<close>

definition op_max_nbytes :: "bn_lib \<Rightarrow> mpi_ptr \<Rightarrow> mpi_ptr \<Rightarrow> u32 mpi_op" where
  "op_max_nbytes lib a b = op_bind (op_nbytes lib a) (\<lambda>len. op_bind (op_nbytes lib b) (\<lambda>b_len.
     op_ok (if len < b_len then b_len else len)))"

definition cx_mpi_add :: "bn_lib \<Rightarrow> mpi_ptr \<Rightarrow> mpi_ptr \<Rightarrow> mpi_ptr \<Rightarrow> unit mpi_op" where
  "cx_mpi_add lib r a b =
     op_bind (op_get a) (\<lambda>x. op_bind (op_get b) (\<lambda>y.
     op_bind (op_store CX_INTERNAL_ERROR r (BN_add lib x y)) (\<lambda>_.
     op_bind (op_max_nbytes lib a b) (\<lambda>len. op_bind (op_get r) (\<lambda>v.
       if of_nat (BN_num_bytes lib v) > len then
         op_bind (op_store CX_INTERNAL_ERROR r (BN_mask_bits lib v (unat (8 * len))))
           (\<lambda>_. op_err CX_CARRY)
       else op_ok ())))))"

definition cx_mpi_not :: "bn_lib \<Rightarrow> mpi_ptr \<Rightarrow> unit mpi_op" where
  "cx_mpi_not lib a = op_bind (op_get a) (\<lambda>x. op_bind (op_nbytes lib a) (\<lambda>a_len.
     if a_len > MAX_MPI_BYTE_SIZE then op_err CX_INVALID_PARAMETER
     else op_bind (bn2binpad_local lib x a_len CX_INTERNAL_ERROR) (\<lambda>a_ptr.
       op_store CX_INTERNAL_ERROR a (BN_bin2bn lib (map (\<lambda>c. NOT c) a_ptr)))))"

definition cx_mpi_inc :: "bn_lib \<Rightarrow> mpi_ptr \<Rightarrow> unit mpi_op" where
  "cx_mpi_inc lib a = op_bind (op_get a) (\<lambda>x. op_store CX_INTERNAL_ERROR a (BN_add_word lib x 1))"

definition cx_mpi_dec :: "bn_lib \<Rightarrow> mpi_ptr \<Rightarrow> unit mpi_op" where
  "cx_mpi_dec lib a = op_bind (op_get a) (\<lambda>x. op_store CX_INTERNAL_ERROR a (BN_sub_word lib x 1))"

definition cx_mpi_neg :: "bn_lib \<Rightarrow> mpi_ptr \<Rightarrow> unit mpi_op" where
  "cx_mpi_neg lib a = op_bind (cx_mpi_not lib a) (\<lambda>_. cx_mpi_inc lib a)"

definition cx_mpi_sub :: "bn_lib \<Rightarrow> mpi_ptr \<Rightarrow> mpi_ptr \<Rightarrow> mpi_ptr \<Rightarrow> unit mpi_op" where
  "cx_mpi_sub lib r a b =
     op_bind (op_get a) (\<lambda>x. op_bind (op_get b) (\<lambda>y.
     op_bind (op_store CX_INTERNAL_ERROR r (BN_sub lib x y)) (\<lambda>_. op_bind (op_get r) (\<lambda>v.
       if BN_is_negative lib v then
         op_bind (op_put r (BN_set_negative lib v False)) (\<lambda>_.
         op_bind (op_max_nbytes lib a b) (\<lambda>len. op_bind (op_get r) (\<lambda>v.
         op_bind (if of_nat (BN_num_bytes lib v) > len
                  then op_store CX_INTERNAL_ERROR r (BN_mask_bits lib v (unat (8 * len)))
                  else op_ok ()) (\<lambda>_.
         op_bind (cx_mpi_neg lib r) (\<lambda>_. op_err CX_CARRY)))))
       else op_ok ()))))"

definition cx_mpi_mul :: "bn_lib \<Rightarrow> mpi_ptr \<Rightarrow> mpi_ptr \<Rightarrow> mpi_ptr \<Rightarrow> unit mpi_op" where
  "cx_mpi_mul lib r a b = op_bind (op_get a) (\<lambda>x. op_bind (op_get b) (\<lambda>y.
     op_store CX_INTERNAL_ERROR r (BN_mul lib x y)))"

definition cx_mpi_div :: "bn_lib \<Rightarrow> mpi_ptr \<Rightarrow> mpi_ptr \<Rightarrow> mpi_ptr \<Rightarrow> unit mpi_op" where
  "cx_mpi_div lib r d n = op_bind (op_get d) (\<lambda>x. op_bind (op_get n) (\<lambda>y.
     op_store CX_INTERNAL_ERROR r (map_option fst (BN_div lib x y))))"

definition cx_mpi_rem :: "bn_lib \<Rightarrow> mpi_ptr \<Rightarrow> mpi_ptr \<Rightarrow> mpi_ptr \<Rightarrow> unit mpi_op" where
  "cx_mpi_rem lib r d n = op_bind (op_get d) (\<lambda>x. op_bind (op_get n) (\<lambda>y.
     op_store CX_INTERNAL_ERROR r (map_option snd (BN_div lib x y))))"

text \<open>
  Random numbers: the outcomes of \<open>BN_rand\<close> and \<open>BN_rand_range\<close> are arguments. The range loop
  draws until the number is not zero; \<open>None\<close> is a run that has used up the outcomes.
\<close>

definition cx_mpi_rand :: "bn_lib \<Rightarrow> (nat \<Rightarrow> int option) \<Rightarrow> mpi_ptr \<Rightarrow> unit mpi_op" where
  "cx_mpi_rand lib BN_rand p = op_bind (op_nbytes lib p) (\<lambda>bytes.
     op_store CX_INTERNAL_ERROR p (BN_rand (unat (bytes * 8))))"

fun rng_loop :: "bn_lib \<Rightarrow> mpi_ptr \<Rightarrow> int option list \<Rightarrow> mpi_state \<Rightarrow>
  ((cx_err + unit) \<times> mpi_state) res option" where
  "rng_loop lib r [] s = None"
| "rng_loop lib r (v # vs) s =
     (case op_bind (op_store CX_INTERNAL_ERROR r v) (\<lambda>_. op_get r) s of
        Inl e \<Rightarrow> Some (Inl e)
      | Inr (Inl e, s') \<Rightarrow> Some (Inr (Inl e, s'))
      | Inr (Inr x, s') \<Rightarrow> if BN_is_zero lib x then rng_loop lib r vs s' else Some (op_ok () s'))"

definition cx_mpi_rng :: "bn_lib \<Rightarrow> int option list \<Rightarrow> mpi_ptr \<Rightarrow> mpi_ptr \<Rightarrow> mpi_state \<Rightarrow>
  ((cx_err + unit) \<times> mpi_state) res option" where
  "cx_mpi_rng lib draws r n s =
     (case op_get n s of
        Inl e \<Rightarrow> Some (Inl e)
      | Inr (Inl e, s') \<Rightarrow> Some (Inr (Inl e, s'))
      | Inr (Inr m, s') \<Rightarrow>
          if BN_is_one lib m \<or> BN_is_zero lib m then Some (op_err CX_INVALID_PARAMETER s')
          else rng_loop lib r draws s')"

section \<open>Modular arithmetic\<close>

text \<open>
  The library writes the result while it still reads the modulus, so a call whose result is the
  modulus itself is a call of its own (the \<open>over\<close> fields).
\<close>

definition cx_mpi_mod_add :: "bn_lib \<Rightarrow> mpi_ptr \<Rightarrow> mpi_ptr \<Rightarrow> mpi_ptr \<Rightarrow> mpi_ptr \<Rightarrow> unit mpi_op" where
  "cx_mpi_mod_add lib r a b n = op_bind (op_get a) (\<lambda>x. op_bind (op_get b) (\<lambda>y.
     op_bind (op_get n) (\<lambda>m. op_store CX_INTERNAL_ERROR r
       (if r = n then BN_mod_add_over lib x y m else BN_mod_add lib x y m))))"

definition cx_mpi_mod_sub :: "bn_lib \<Rightarrow> mpi_ptr \<Rightarrow> mpi_ptr \<Rightarrow> mpi_ptr \<Rightarrow> mpi_ptr \<Rightarrow> unit mpi_op" where
  "cx_mpi_mod_sub lib r a b n = op_bind (op_get a) (\<lambda>x. op_bind (op_get b) (\<lambda>y.
     op_bind (op_get n) (\<lambda>m. op_store CX_INTERNAL_ERROR r
       (if r = n then BN_mod_sub_over lib x y m else BN_mod_sub lib x y m))))"

definition cx_mpi_mod_mul :: "bn_lib \<Rightarrow> mpi_ptr \<Rightarrow> mpi_ptr \<Rightarrow> mpi_ptr \<Rightarrow> mpi_ptr \<Rightarrow> unit mpi_op" where
  "cx_mpi_mod_mul lib r a b n = op_bind (op_get n) (\<lambda>m.
     if \<not> BN_is_odd lib m then op_err CX_INVALID_PARAMETER_VALUE
     else op_bind (op_get a) (\<lambda>x. op_bind (op_get b) (\<lambda>y.
       op_store CX_INTERNAL_ERROR r
       (if r = n then BN_mod_mul_over lib x y m else BN_mod_mul lib x y m))))"

definition cx_mpi_mod_invert_nprime :: "bn_lib \<Rightarrow> mpi_ptr \<Rightarrow> mpi_ptr \<Rightarrow> mpi_ptr \<Rightarrow> unit mpi_op" where
  "cx_mpi_mod_invert_nprime lib r a n =
     op_bind (op_nbytes lib n) (\<lambda>sz.
     op_bind (cx_mpi_alloc lib sz) (\<lambda>(p, bn_p) s.
       case (case p of
               None \<Rightarrow> op_err CX_MEMORY_FULL
             | Some q \<Rightarrow>
                 op_bind (op_get n) (\<lambda>m.
                 op_bind (op_store CX_INTERNAL_ERROR q (BN_copy lib m)) (\<lambda>_.
                 op_bind (op_get q) (\<lambda>v.
                 op_bind (op_store CX_INTERNAL_ERROR q (BN_sub_word lib v 2)) (\<lambda>_.
                 op_bind (op_get q) (\<lambda>e. op_bind (op_get a) (\<lambda>x.
                   op_store CX_INTERNAL_ERROR r
                     (if r = n then BN_mod_exp_over lib x e m else BN_mod_exp lib x e m)))))))) s of
         Inl e \<Rightarrow> Inl e
       | Inr (res, s') \<Rightarrow>
           (case cx_mpi_destroy bn_p s' of Inl e \<Rightarrow> Inl e | Inr (_, s'') \<Rightarrow> Inr (res, s''))))"

definition cx_mpi_mod_u32_invert :: "bn_lib \<Rightarrow> mpi_ptr \<Rightarrow> u32 \<Rightarrow> mpi_ptr \<Rightarrow> unit mpi_op" where
  "cx_mpi_mod_u32_invert lib r e n = op_bind (cx_mpi_set_u32 lib r e) (\<lambda>_.
     op_bind (op_get r) (\<lambda>x. op_bind (op_get n) (\<lambda>m.
       op_store CX_INTERNAL_ERROR r (BN_mod_inverse lib x m))))"

definition cx_mpi_mod_sqrt :: "bn_lib \<Rightarrow> mpi_ptr \<Rightarrow> mpi_ptr \<Rightarrow> mpi_ptr \<Rightarrow> u32 \<Rightarrow> unit mpi_op" where
  "cx_mpi_mod_sqrt lib r a n sign = op_bind (op_get a) (\<lambda>x. op_bind (op_get n) (\<lambda>m.
     op_bind (op_store CX_INTERNAL_ERROR r (BN_mod_sqrt lib x m)) (\<lambda>_.
     op_bind (cx_mpi_tst_bit lib r 0) (\<lambda>set.
       if set \<noteq> (sign \<noteq> 0) then
         op_bind (op_get n) (\<lambda>m. op_bind (op_get r) (\<lambda>v.
           op_store CX_INTERNAL_ERROR r (BN_sub lib m v)))
       else op_ok ()))))"

definition cx_mpi_mod_pow :: "bn_lib \<Rightarrow> mpi_ptr \<Rightarrow> mpi_ptr \<Rightarrow> mpi_ptr \<Rightarrow> mpi_ptr \<Rightarrow> unit mpi_op" where
  "cx_mpi_mod_pow lib r a e n = op_bind (cx_mpi_is_odd lib n) (\<lambda>odd.
     if \<not> odd then op_err CX_INVALID_PARAMETER
     else op_bind (op_get a) (\<lambda>x. op_bind (op_get e) (\<lambda>y. op_bind (op_get n) (\<lambda>m.
       op_store CX_INTERNAL_ERROR r
         (if r = n then BN_mod_exp_over lib x y m else BN_mod_exp lib x y m)))))"

definition cx_mpi_is_prime :: "bn_lib \<Rightarrow> mpi_ptr \<Rightarrow> bool mpi_op" where
  "cx_mpi_is_prime lib p = op_bind (op_get p) (\<lambda>x. op_opt CX_INTERNAL_ERROR (BN_is_prime_ex lib x))"

text \<open>
  The search for the next prime adds two until the test succeeds, the number outgrows its size, or
  a call fails. Nothing in the code bounds the number of turns: not to return is the value \<open>None\<close>.
\<close>

definition next_prime_step :: "bn_lib \<Rightarrow> u32 \<Rightarrow> mpi_ptr \<Rightarrow> bool mpi_op" where
  "next_prime_step lib x_size p = op_bind (op_get p) (\<lambda>x.
     case BN_add_word lib x 2 of
       None \<Rightarrow> op_bind (op_nbytes lib p) (\<lambda>n.
         op_err (if n > x_size then CX_OVERFLOW else CX_INTERNAL_ERROR))
     | Some y \<Rightarrow> op_bind (op_put p y) (\<lambda>_. op_bind (op_nbytes lib p) (\<lambda>n.
         if n > x_size then op_err CX_OVERFLOW
         else op_opt CX_INTERNAL_ERROR (BN_is_prime_ex lib y))))"

partial_function (option) next_prime_loop ::
  "bn_lib \<Rightarrow> u32 \<Rightarrow> mpi_ptr \<Rightarrow> mpi_state \<Rightarrow> ((cx_err + unit) \<times> mpi_state) res option" where
  "next_prime_loop lib x_size p s =
     (case next_prime_step lib x_size p s of
        Inl e \<Rightarrow> Some (Inl e)
      | Inr r \<Rightarrow>
          (case r of (e, s') \<Rightarrow>
            (case e of
               Inl err \<Rightarrow> Some (Inr (Inl err, s'))
             | Inr prime \<Rightarrow>
                 if prime then Some (Inr (Inr (), s')) else next_prime_loop lib x_size p s')))"

definition cx_mpi_next_prime ::
  "bn_lib \<Rightarrow> mpi_ptr \<Rightarrow> mpi_state \<Rightarrow> ((cx_err + unit) \<times> mpi_state) res option" where
  "cx_mpi_next_prime lib p s =
     (case op_bind (cx_mpi_is_odd lib p) (\<lambda>odd.
              op_bind (if odd then op_ok () else
                         op_bind (op_get p) (\<lambda>x.
                           op_store CX_INTERNAL_ERROR p (BN_add_word lib x 1))) (\<lambda>_.
              op_nbytes lib p)) s of
        Inl e \<Rightarrow> Some (Inl e)
      | Inr (Inl e, s') \<Rightarrow> Some (Inr (Inl e, s'))
      | Inr (Inr x_size, s') \<Rightarrow> next_prime_loop lib x_size p s')"

definition cx_mpi_gf2_n_mul :: "bn_lib \<Rightarrow> mpi_ptr \<Rightarrow> mpi_ptr \<Rightarrow> mpi_ptr \<Rightarrow> mpi_ptr \<Rightarrow> unit mpi_op" where
  "cx_mpi_gf2_n_mul lib r a b n = op_bind (op_get a) (\<lambda>x. op_bind (op_get b) (\<lambda>y.
     op_bind (op_get n) (\<lambda>m. op_store CX_INTERNAL_ERROR r (BN_GF2m_mod_mul lib x y m))))"

text \<open>The two local buffers of the reversal have \<open>MAX_BYTE_LEN\<close> bytes; the first holds \<open>junk\<close>
  until the export succeeds.\<close>

definition MAX_BYTE_LEN :: nat where
  "MAX_BYTE_LEN = 128"

definition cx_mpi_reverse :: "bn_lib \<Rightarrow> bytes \<Rightarrow> mpi_ptr \<Rightarrow> nat \<Rightarrow> unit mpi_op" where
  "cx_mpi_reverse lib junk x nbytes s =
     (case cx_mpi_export lib x (take MAX_BYTE_LEN junk) nbytes s of
        Inl e \<Rightarrow> Inl e
      | Inr (r, s') \<Rightarrow>
          (let buf = (case r of Inl _ \<Rightarrow> junk | Inr b \<Rightarrow> b) in
           if nbytes > MAX_BYTE_LEN then Inl Oob
           else op_seq (cx_mpi_set_u32 lib x 0)
             (op_seq (cx_mpi_init lib x (rev (take nbytes buf)) nbytes) (op_ok ())) s'))"

definition cx_mpi_swap :: "mpi_ptr \<Rightarrow> mpi_ptr \<Rightarrow> bool \<Rightarrow> unit mpi_op" where
  "cx_mpi_swap a b c =
     (if c then op_bind (op_get a) (\<lambda>x. op_bind (op_get b) (\<lambda>y.
        op_bind (op_put a y) (\<lambda>_. op_put b x)))
      else op_ok ())"

definition cx_mpi_check_memory_full :: "mpi_ptr option \<Rightarrow> mpi_ptr mpi_op" where
  "cx_mpi_check_memory_full x = op_opt CX_MEMORY_FULL x"

end
