(* ===== verification/Cx_Bn.thy ===== *)
theory Cx_Bn
  imports Cx_Mpi
begin

text \<open>
  The big number system calls, \<open>src/bolos/cx_bn.c\<close>: each converts its handles to numbers and calls
  the operation of \<open>Cx_Mpi\<close>.
\<close>

section \<open>Locking and allocation\<close>

definition sys_cx_bn_lock :: "bn_lib \<Rightarrow> u32 \<Rightarrow> unit mpi_op" where
  "sys_cx_bn_lock lib word_size = op_bind cx_bn_unlocked (\<lambda>_. cx_mpi_lock lib word_size)"

definition sys_cx_bn_unlock :: "unit mpi_op" where
  "sys_cx_bn_unlock = op_bind cx_bn_locked (\<lambda>_. cx_mpi_unlock)"

definition sys_cx_bn_alloc :: "bn_lib \<Rightarrow> u32 \<Rightarrow> cx_bn mpi_op" where
  "sys_cx_bn_alloc lib sz = op_bind cx_bn_locked (\<lambda>_. op_bind (cx_mpi_alloc lib sz) (\<lambda>(x, bn_x).
     case x of None \<Rightarrow> op_err CX_MEMORY_FULL | Some _ \<Rightarrow> op_ok bn_x))"

definition sys_cx_bn_destroy :: "cx_bn \<Rightarrow> unit mpi_op" where
  "sys_cx_bn_destroy bn_x = cx_mpi_destroy bn_x"

definition sys_cx_bn_init :: "bn_lib \<Rightarrow> cx_bn \<Rightarrow> bytes \<Rightarrow> nat \<Rightarrow> unit mpi_op" where
  "sys_cx_bn_init lib bn_x bytes nbytes =
     op_bind (cx_bn_to_mpi bn_x) (\<lambda>x. cx_mpi_init lib x bytes nbytes)"

definition sys_cx_bn_alloc_init :: "bn_lib \<Rightarrow> u32 \<Rightarrow> bytes \<Rightarrow> nat \<Rightarrow> cx_bn mpi_op" where
  "sys_cx_bn_alloc_init lib sz bytes nbytes =
     op_bind (sys_cx_bn_alloc lib sz) (\<lambda>bn_x.
     op_bind (sys_cx_bn_init lib bn_x bytes nbytes) (\<lambda>_. op_ok bn_x))"

definition sys_cx_bn_export :: "bn_lib \<Rightarrow> cx_bn \<Rightarrow> bytes \<Rightarrow> nat \<Rightarrow> bytes mpi_op" where
  "sys_cx_bn_export lib bn_x bytes nbytes =
     op_bind (cx_bn_to_mpi bn_x) (\<lambda>x. cx_mpi_export lib x bytes nbytes)"

definition sys_cx_bn_copy :: "bn_lib \<Rightarrow> cx_bn \<Rightarrow> cx_bn \<Rightarrow> unit mpi_op" where
  "sys_cx_bn_copy lib bn_a bn_b =
     (if bn_a = bn_b then op_ok ()
      else op_bind (cx_bn_ab_to_mpi bn_a bn_b) (\<lambda>(a, b). cx_mpi_copy lib a b))"

definition sys_cx_bn_nbytes :: "bn_lib \<Rightarrow> cx_bn \<Rightarrow> u32 mpi_op" where
  "sys_cx_bn_nbytes lib bn_x = op_bind cx_bn_locked (\<lambda>_. cx_mpi_bytes lib bn_x)"

section \<open>One number\<close>

definition sys_cx_bn_set_u32 :: "bn_lib \<Rightarrow> cx_bn \<Rightarrow> u32 \<Rightarrow> unit mpi_op" where
  "sys_cx_bn_set_u32 lib bn_x n = op_bind (cx_bn_to_mpi bn_x) (\<lambda>x. cx_mpi_set_u32 lib x n)"

definition sys_cx_bn_get_u32 :: "bn_lib \<Rightarrow> cx_bn \<Rightarrow> u32 mpi_op" where
  "sys_cx_bn_get_u32 lib bn_x = op_bind (cx_bn_to_mpi bn_x) (cx_mpi_get_u32 lib)"

definition sys_cx_bn_cmp_u32 :: "bn_lib \<Rightarrow> cx_bn \<Rightarrow> u32 \<Rightarrow> int mpi_op" where
  "sys_cx_bn_cmp_u32 lib bn_a b = op_bind (cx_bn_to_mpi bn_a) (\<lambda>a. cx_mpi_cmp_u32 lib a b)"

definition sys_cx_bn_cmp :: "bn_lib \<Rightarrow> cx_bn \<Rightarrow> cx_bn \<Rightarrow> int mpi_op" where
  "sys_cx_bn_cmp lib bn_a bn_b = op_bind (cx_bn_ab_to_mpi bn_a bn_b) (\<lambda>(a, b). cx_mpi_cmp lib a b)"

definition sys_cx_bn_rand :: "bn_lib \<Rightarrow> (nat \<Rightarrow> int option) \<Rightarrow> cx_bn \<Rightarrow> unit mpi_op" where
  "sys_cx_bn_rand lib BN_rand bn_x = op_bind (cx_bn_to_mpi bn_x) (cx_mpi_rand lib BN_rand)"

definition sys_cx_bn_rng :: "bn_lib \<Rightarrow> int option list \<Rightarrow> cx_bn \<Rightarrow> cx_bn \<Rightarrow> mpi_state \<Rightarrow>
  ((cx_err + unit) \<times> mpi_state) res option" where
  "sys_cx_bn_rng lib draws bn_r bn_n s =
     (case cx_bn_ab_to_mpi bn_r bn_n s of
        Inl e \<Rightarrow> Some (Inl e)
      | Inr (Inl e, s') \<Rightarrow> Some (Inr (Inl e, s'))
      | Inr (Inr (r, n), s') \<Rightarrow> cx_mpi_rng lib draws r n s')"

definition sys_cx_bn_tst_bit :: "bn_lib \<Rightarrow> cx_bn \<Rightarrow> u32 \<Rightarrow> bool mpi_op" where
  "sys_cx_bn_tst_bit lib bn_x pos = op_bind (cx_bn_to_mpi bn_x) (\<lambda>x. cx_mpi_tst_bit lib x pos)"

definition sys_cx_bn_set_bit :: "bn_lib \<Rightarrow> cx_bn \<Rightarrow> u32 \<Rightarrow> unit mpi_op" where
  "sys_cx_bn_set_bit lib bn_x pos = op_bind (cx_bn_to_mpi bn_x) (\<lambda>x. cx_mpi_set_bit lib x pos)"

definition sys_cx_bn_clr_bit :: "bn_lib \<Rightarrow> cx_bn \<Rightarrow> u32 \<Rightarrow> unit mpi_op" where
  "sys_cx_bn_clr_bit lib bn_x pos = op_bind (cx_bn_to_mpi bn_x) (\<lambda>x. cx_mpi_clr_bit lib x pos)"

definition sys_cx_bn_cnt_bits :: "bn_lib \<Rightarrow> bytes \<Rightarrow> cx_bn \<Rightarrow> u32 mpi_op" where
  "sys_cx_bn_cnt_bits lib junk bn_x = op_bind (cx_bn_to_mpi bn_x) (cx_mpi_cnt_bits lib junk)"

definition sys_cx_bn_shr :: "bn_lib \<Rightarrow> cx_bn \<Rightarrow> u32 \<Rightarrow> unit mpi_op" where
  "sys_cx_bn_shr lib bn_r n = op_bind (cx_bn_to_mpi bn_r) (\<lambda>r. cx_mpi_shr lib r n)"

definition sys_cx_bn_shl :: "bn_lib \<Rightarrow> cx_bn \<Rightarrow> u32 \<Rightarrow> unit mpi_op" where
  "sys_cx_bn_shl lib bn_r n = op_bind (cx_bn_to_mpi bn_r) (\<lambda>r. cx_mpi_shl lib r n)"

definition sys_cx_bn_is_odd :: "bn_lib \<Rightarrow> cx_bn \<Rightarrow> bool mpi_op" where
  "sys_cx_bn_is_odd lib bn_a = op_bind (cx_bn_to_mpi bn_a) (\<lambda>a. cx_mpi_is_odd lib a)"

definition sys_cx_bn_is_prime :: "bn_lib \<Rightarrow> cx_bn \<Rightarrow> bool mpi_op" where
  "sys_cx_bn_is_prime lib bn_x = op_bind (cx_bn_to_mpi bn_x) (\<lambda>x. cx_mpi_is_prime lib x)"

definition sys_cx_bn_next_prime ::
  "bn_lib \<Rightarrow> cx_bn \<Rightarrow> mpi_state \<Rightarrow> ((cx_err + unit) \<times> mpi_state) res option" where
  "sys_cx_bn_next_prime lib bn_x s =
     (case cx_bn_to_mpi bn_x s of
        Inl e \<Rightarrow> Some (Inl e)
      | Inr (Inl e, s') \<Rightarrow> Some (Inr (Inl e, s'))
      | Inr (Inr x, s') \<Rightarrow> cx_mpi_next_prime lib x s')"

section \<open>Several numbers\<close>

definition sys_cx_bn_xor :: "bn_lib \<Rightarrow> cx_bn \<Rightarrow> cx_bn \<Rightarrow> cx_bn \<Rightarrow> unit mpi_op" where
  "sys_cx_bn_xor lib bn_r bn_a bn_b = 
     op_bind (cx_bn_rab_to_mpi bn_r bn_a bn_b) (\<lambda>(r, a, b). cx_mpi_xor lib r a b)"

definition sys_cx_bn_or :: "bn_lib \<Rightarrow> cx_bn \<Rightarrow> cx_bn \<Rightarrow> cx_bn \<Rightarrow> unit mpi_op" where
  "sys_cx_bn_or lib bn_r bn_a bn_b = 
     op_bind (cx_bn_rab_to_mpi bn_r bn_a bn_b) (\<lambda>(r, a, b). cx_mpi_or lib r a b)"

definition sys_cx_bn_and :: "bn_lib \<Rightarrow> cx_bn \<Rightarrow> cx_bn \<Rightarrow> cx_bn \<Rightarrow> unit mpi_op" where
  "sys_cx_bn_and lib bn_r bn_a bn_b = 
     op_bind (cx_bn_rab_to_mpi bn_r bn_a bn_b) (\<lambda>(r, a, b). cx_mpi_and lib r a b)"

definition sys_cx_bn_add :: "bn_lib \<Rightarrow> cx_bn \<Rightarrow> cx_bn \<Rightarrow> cx_bn \<Rightarrow> unit mpi_op" where
  "sys_cx_bn_add lib bn_r bn_a bn_b = 
     op_bind (cx_bn_rab_to_mpi bn_r bn_a bn_b) (\<lambda>(r, a, b). cx_mpi_add lib r a b)"

definition sys_cx_bn_sub :: "bn_lib \<Rightarrow> cx_bn \<Rightarrow> cx_bn \<Rightarrow> cx_bn \<Rightarrow> unit mpi_op" where
  "sys_cx_bn_sub lib bn_r bn_a bn_b = 
     op_bind (cx_bn_rab_to_mpi bn_r bn_a bn_b) (\<lambda>(r, a, b). cx_mpi_sub lib r a b)"

definition sys_cx_bn_mul :: "bn_lib \<Rightarrow> cx_bn \<Rightarrow> cx_bn \<Rightarrow> cx_bn \<Rightarrow> unit mpi_op" where
  "sys_cx_bn_mul lib bn_r bn_a bn_b = 
     op_bind (cx_bn_rab_to_mpi bn_r bn_a bn_b) (\<lambda>(r, a, b). cx_mpi_mul lib r a b)"

definition sys_cx_bn_mod_add :: "bn_lib \<Rightarrow> cx_bn \<Rightarrow> cx_bn \<Rightarrow> cx_bn \<Rightarrow> cx_bn \<Rightarrow> unit mpi_op" where
  "sys_cx_bn_mod_add lib bn_r bn_a bn_b bn_m = 
     op_bind (cx_bn_rabm_to_mpi bn_r bn_a bn_b bn_m) (\<lambda>(r, a, b, m). cx_mpi_mod_add lib r a b m)"

definition sys_cx_bn_mod_sub :: "bn_lib \<Rightarrow> cx_bn \<Rightarrow> cx_bn \<Rightarrow> cx_bn \<Rightarrow> cx_bn \<Rightarrow> unit mpi_op" where
  "sys_cx_bn_mod_sub lib bn_r bn_a bn_b bn_m = 
     op_bind (cx_bn_rabm_to_mpi bn_r bn_a bn_b bn_m) (\<lambda>(r, a, b, m). cx_mpi_mod_sub lib r a b m)"

definition sys_cx_bn_mod_mul :: "bn_lib \<Rightarrow> cx_bn \<Rightarrow> cx_bn \<Rightarrow> cx_bn \<Rightarrow> cx_bn \<Rightarrow> unit mpi_op" where
  "sys_cx_bn_mod_mul lib bn_r bn_a bn_b bn_m = 
     op_bind (cx_bn_rabm_to_mpi bn_r bn_a bn_b bn_m) (\<lambda>(r, a, b, m). cx_mpi_mod_mul lib r a b m)"

definition sys_cx_bn_reduce :: "bn_lib \<Rightarrow> cx_bn \<Rightarrow> cx_bn \<Rightarrow> cx_bn \<Rightarrow> unit mpi_op" where
  "sys_cx_bn_reduce lib bn_r bn_d bn_n = 
     op_bind (cx_bn_rab_to_mpi bn_r bn_d bn_n) (\<lambda>(r, d, n). cx_mpi_rem lib r d n)"

definition sys_cx_bn_mod_sqrt :: "bn_lib \<Rightarrow> cx_bn \<Rightarrow> cx_bn \<Rightarrow> cx_bn \<Rightarrow> u32 \<Rightarrow> unit mpi_op" where
  "sys_cx_bn_mod_sqrt lib bn_r bn_a bn_n sign = 
     op_bind (cx_bn_rab_to_mpi bn_r bn_a bn_n) (\<lambda>(r, a, n). cx_mpi_mod_sqrt lib r a n sign)"

definition sys_cx_bn_mod_invert_nprime :: "bn_lib \<Rightarrow> cx_bn \<Rightarrow> cx_bn \<Rightarrow> cx_bn \<Rightarrow> unit mpi_op" where
  "sys_cx_bn_mod_invert_nprime lib bn_r bn_a bn_n = 
     op_bind (cx_bn_rab_to_mpi bn_r bn_a bn_n) (\<lambda>(r, a, n). cx_mpi_mod_invert_nprime lib r a n)"

definition sys_cx_bn_mod_u32_invert :: "bn_lib \<Rightarrow> cx_bn \<Rightarrow> u32 \<Rightarrow> cx_bn \<Rightarrow> unit mpi_op" where
  "sys_cx_bn_mod_u32_invert lib bn_r e bn_n = 
     op_bind (cx_bn_ab_to_mpi bn_r bn_n) (\<lambda>(r, n). cx_mpi_mod_u32_invert lib r e n)"

definition sys_cx_bn_mod_pow ::
  "bn_lib \<Rightarrow> cx_bn \<Rightarrow> cx_bn \<Rightarrow> bytes \<Rightarrow> nat \<Rightarrow> cx_bn \<Rightarrow> unit mpi_op" where
  "sys_cx_bn_mod_pow lib bn_r bn_a bytes_e len_e bn_n =
     op_bind (op_read cx_get_bn_size) (\<lambda>sz.
     op_bind (sys_cx_bn_alloc_init lib sz bytes_e len_e) (\<lambda>bn_e.
     op_bind (cx_bn_rabm_to_mpi bn_r bn_a bn_e bn_n) (\<lambda>(r, a, e, n). cx_mpi_mod_pow lib r a e n)))"

definition sys_cx_bn_mod_pow_bn :: "bn_lib \<Rightarrow> cx_bn \<Rightarrow> cx_bn \<Rightarrow> cx_bn \<Rightarrow> cx_bn \<Rightarrow> unit mpi_op" where
  "sys_cx_bn_mod_pow_bn lib bn_r bn_a bn_e bn_n = 
     op_bind (cx_bn_rabm_to_mpi bn_r bn_a bn_e bn_n) (\<lambda>(r, a, e, n). cx_mpi_mod_pow lib r a e n)"

definition sys_cx_bn_mod_pow2 ::
  "bn_lib \<Rightarrow> cx_bn \<Rightarrow> cx_bn \<Rightarrow> bytes \<Rightarrow> nat \<Rightarrow> cx_bn \<Rightarrow> unit mpi_op" where
  "sys_cx_bn_mod_pow2 lib bn_r bn_a bytes_e len_e bn_n =
     sys_cx_bn_mod_pow lib bn_r bn_a bytes_e len_e bn_n"

definition sys_cx_bn_gf2_n_mul :: "bn_lib \<Rightarrow> cx_bn \<Rightarrow> cx_bn \<Rightarrow> cx_bn \<Rightarrow> cx_bn \<Rightarrow> cx_bn \<Rightarrow> unit mpi_op" where
  "sys_cx_bn_gf2_n_mul lib bn_r bn_a bn_b bn_n bn_h = 
     op_bind (cx_bn_rab_to_mpi bn_r bn_a bn_b) (\<lambda>(r, a, b).
     op_bind (cx_bn_ab_to_mpi bn_n bn_h) (\<lambda>(n, h). cx_mpi_gf2_n_mul lib r a b n))"

end
