(* ===== verification/Mpi_Invariant.thy ===== *)
theory Mpi_Invariant
  imports Cx_Bn
begin

text \<open>
  The invariant of the big number module: the array has 64 slots, the memory count is the sum of the
  sizes of the slots in use, and an unlocked module holds nothing. Every system
  call keeps it, whatever the library returns.
\<close>

section \<open>Invariant\<close>

text \<open>
  The counts are 32-bit numbers and so is the sum of the sizes: the test of \<open>cx_mpi_alloc\<close> adds the
  requested size to the memory in use, and a request close to \<open>2 ^ 32\<close> makes the sum wrap around.
\<close>

definition slot_ok :: "u32 \<Rightarrow> mpi_slot \<Rightarrow> bool" where
  "slot_ok w x \<longleftrightarrow> slot_size x div w * w = slot_size x \<and> (slot_mpi x = None \<longrightarrow> slot_size x = 0)"

definition used_memory :: "mpi_slot list \<Rightarrow> u32" where
  "used_memory xs = sum_list (map slot_size xs)"

definition mpi_inv :: "mpi_state \<Rightarrow> bool" where
  "mpi_inv s \<longleftrightarrow>
     length (cx_mpi_array s) = MAX_MPI_ARRAY_ENTRIES \<and>
     list_all (slot_ok (mpi_word_size s)) (cx_mpi_array s) \<and>
     mpi_total_memory s = used_memory (cx_mpi_array s) \<and>
     mpi_words_count s * mpi_word_size s = mpi_total_memory s \<and>
     (if local_bn_ctx s then 16 \<le> mpi_word_size s \<and> mpi_word_size s AND 15 = 0
      else s = mpi_init_state)"

definition locked_inv :: "mpi_state \<Rightarrow> bool" where
  "locked_inv s \<longleftrightarrow> mpi_inv s \<and> local_bn_ctx s"

text \<open>An operation that keeps the invariant of a locked module.\<close>

definition op_keeps :: "'a mpi_op \<Rightarrow> bool" where
  "op_keeps m \<longleftrightarrow> (\<forall>s r s'. locked_inv s \<longrightarrow> m s = Inr (r, s') \<longrightarrow> locked_inv s')"

named_theorems keeps \<open>operations that keep the invariant\<close>

lemma op_keepsD: "op_keeps m \<Longrightarrow> locked_inv s \<Longrightarrow> m s = Inr (r, s') \<Longrightarrow> locked_inv s'"
  by (auto simp: op_keeps_def)

lemma op_keeps_basic [keeps]:
  "op_keeps (op_ok x)" "op_keeps (op_err e)" "op_keeps op_crash" "op_keeps (op_read f)"
  "op_keeps (op_get p)" "op_keeps (op_opt e v)"
  by (auto simp: op_keeps_def op_ok_def op_err_def op_crash_def op_read_def op_get_def op_opt_def
      split: if_splits option.splits)

lemma op_keeps_bind [keeps]:
  assumes "op_keeps m" and "\<And>x. op_keeps (f x)"
  shows "op_keeps (op_bind m f)"
  unfolding op_keeps_def
proof (intro allI impI)
  fix s r s' assume inv: "locked_inv s" and run: "op_bind m f s = Inr (r, s')"
  then obtain q t where q: "m s = Inr (q, t)" by (auto simp: op_bind_def split: sum.splits)
  have t: "locked_inv t" by (rule op_keepsD [OF assms(1) inv q])
  show "locked_inv s'"
  proof (cases q)
    case (Inl e)
    then show ?thesis using run q t by (simp add: op_bind_def)
  next
    case (Inr x)
    then have "f x t = Inr (r, s')" using run q by (simp add: op_bind_def)
    then show ?thesis by (rule op_keepsD [OF assms(2) t])
  qed
qed

lemma op_keeps_seq [keeps]: "op_keeps m \<Longrightarrow> op_keeps m' \<Longrightarrow> op_keeps (op_seq m m')"
  unfolding op_keeps_def [of "op_seq m m'"]
proof (intro allI impI)
  fix s r s' assume m: "op_keeps m" "op_keeps m'" and inv: "locked_inv s"
    and run: "op_seq m m' s = Inr (r, s')"
  then obtain q t where "m s = Inr (q, t)" "m' t = Inr (r, s')"
    by (auto simp: op_seq_def split: sum.splits)
  then show "locked_inv s'" using op_keepsD [OF m(1) inv] op_keepsD [OF m(2)] by blast
qed

lemma op_keeps_if [keeps]: "op_keeps m \<Longrightarrow> op_keeps m' \<Longrightarrow> op_keeps (if P then m else m')"
  by simp

lemma op_keeps_state_if [keeps]:
  assumes "op_keeps m" "op_keeps m'"
  shows "op_keeps (\<lambda>s. if P s then m s else m' s)"
  unfolding op_keeps_def
proof (intro allI impI)
  fix s r s' assume inv: "locked_inv s" and run: "(if P s then m s else m' s) = Inr (r, s')"
  show "locked_inv s'"
    using run op_keepsD [OF assms(1) inv] op_keepsD [OF assms(2) inv] by (cases "P s") simp_all
qed

lemma op_keeps_option [keeps]:
  "op_keeps m \<Longrightarrow> (\<And>x. op_keeps (f x)) \<Longrightarrow> op_keeps (case v of None \<Rightarrow> m | Some x \<Rightarrow> f x)"
  by (cases v) auto

lemma op_keeps_sum [keeps]:
  "(\<And>x. op_keeps (f x)) \<Longrightarrow> (\<And>x. op_keeps (g x)) \<Longrightarrow> op_keeps (case v of Inl x \<Rightarrow> f x | Inr x \<Rightarrow> g x)"
  by (cases v) auto

lemma op_keeps_prod [keeps]: "(\<And>x y. op_keeps (f x y)) \<Longrightarrow> op_keeps (case v of (x, y) \<Rightarrow> f x y)"
  by (cases v) auto

lemma op_keeps_let [keeps]: "(\<And>x. op_keeps (f x)) \<Longrightarrow> op_keeps (let x = v in f x)"
  by simp

text \<open>Writing a number does not change the layout.\<close>

lemma used_memory_update:
  "i < length xs \<Longrightarrow> used_memory (xs[i := x]) = used_memory xs - slot_size (xs ! i) + slot_size x"
  unfolding used_memory_def
  by (induction xs arbitrary: i) (auto split: nat.splits)

lemma slots_ok_update:
  "list_all (slot_ok w) xs \<Longrightarrow> slot_ok w x \<Longrightarrow> list_all (slot_ok w) (xs[i := x])"
  by (cases "i < length xs") (auto simp: list_all_length nth_list_update)

lemma slots_okD: "list_all (slot_ok w) xs \<Longrightarrow> i < length xs \<Longrightarrow> slot_ok w (xs ! i)"
  by (auto simp: list_all_length)

text \<open>The locked module after a change of one slot.\<close>

lemma locked_inv_slot:
  assumes "locked_inv s" and "i < length (cx_mpi_array s)" and "slot_ok (mpi_word_size s) x"
  shows "locked_inv (s\<lparr>cx_mpi_array := (cx_mpi_array s)[i := x],
    mpi_total_memory := mpi_total_memory s - slot_size (cx_mpi_array s ! i) + slot_size x,
    mpi_words_count := mpi_words_count s - slot_size (cx_mpi_array s ! i) div mpi_word_size s
      + slot_size x div mpi_word_size s\<rparr>)"
proof -
  let ?w = "mpi_word_size s" and ?y = "cx_mpi_array s ! i"
  have "slot_ok ?w ?y" using assms(1,2) by (simp add: locked_inv_def mpi_inv_def slots_okD)
  then have "(mpi_words_count s - slot_size ?y div ?w + slot_size x div ?w) * ?w =
      mpi_words_count s * ?w - slot_size ?y + slot_size x"
    using assms(3) by (simp add: slot_ok_def algebra_simps)
  then show ?thesis
    using assms by (simp add: locked_inv_def mpi_inv_def used_memory_update slots_ok_update)
qed

lemma op_keeps_put [keeps]: "op_keeps (op_put p v)"
  unfolding op_keeps_def
proof (intro allI impI)
  fix s r s' assume inv: "locked_inv s" and run: "op_put p v s = Inr (r, s')"
  let ?xs = "cx_mpi_array s" and ?x = "(cx_mpi_array s ! p)\<lparr>slot_mpi := Some v\<rparr>"
  have p: "p < length ?xs" and s': "s' = s\<lparr>cx_mpi_array := ?xs[p := ?x]\<rparr>"
    using run by (auto simp: op_put_def split: if_splits)
  have "slot_ok (mpi_word_size s) ?x"
    using inv p slots_okD [of "mpi_word_size s" ?xs p]
    by (simp add: locked_inv_def mpi_inv_def slot_ok_def)
  then show "locked_inv s'"
    using locked_inv_slot [OF inv p, of ?x] by (simp add: s')
qed

lemma op_keeps_store [keeps]: "op_keeps (op_store e r v)"
  unfolding op_store_def by (intro keeps)

section \<open>Allocation\<close>

lemma unat_div_mult: "unat (a div w * w) = unat a div unat w * unat (w::u32)"
proof -
  have "unat a div unat w * unat w < 2 ^ LENGTH(32)"
    using le_less_trans [OF div_times_less_eq_dividend unsigned_less [of a, where 'a = nat]] .
  then show ?thesis using unat_mult_lem [of "a div w" w] by (simp add: unat_div)
qed

lemma div_mult_self_word: "(a div w * w) div w * w = a div w * (w :: u32)"
  by (rule unsigned_word_eqI [where 'a = nat])
    (cases "w = 0"; simp add: unat_div_mult unat_div unat_eq_zero)

lemma div_self_word: "w div w * w = (w :: u32)"
  by (rule unsigned_word_eqI [where 'a = nat]) (simp add: unat_div_mult)

lemma word_bytes_ok:
  "slot_ok (mpi_word_size s) \<lparr>slot_mpi = Some x, slot_size = size_to_mpi_word_bytes s sz\<rparr>"
  by (simp add: slot_ok_def size_to_mpi_word_bytes_def div_mult_self_word div_self_word)

lemma first_free_Some:
  "first_free i xs = Some j \<Longrightarrow> i \<le> j \<and> j - i < length xs \<and> slot_mpi (xs ! (j - i)) = None"
  by (induction xs arbitrary: i) (fastforce split: if_splits simp: nth_Cons')+


lemma op_keeps_alloc [keeps]: "op_keeps (cx_mpi_alloc lib sz)"
  unfolding op_keeps_def
proof (intro allI impI)
  fix s r s' assume inv: "locked_inv s" and run: "cx_mpi_alloc lib sz s = Inr (r, s')"
  let ?sz = "size_to_mpi_word_bytes s sz" and ?xs = "cx_mpi_array s" and ?w = "mpi_word_size s"
  show "locked_inv s'"
  proof (cases "s' = s")
    case False
    then obtain i x where i: "first_free 0 ?xs = Some i" and s': "s' = take_slot s i x ?sz"
      using run by (auto simp: cx_mpi_alloc_def Let_def op_ok_def split: if_splits option.splits)
    have slot: "i < length ?xs" "slot_mpi (?xs ! i) = None" using first_free_Some [OF i] by simp_all
    then have empty: "slot_size (?xs ! i) = 0"
      using inv slots_okD [of ?w ?xs i] by (auto simp: locked_inv_def mpi_inv_def slot_ok_def)
    show ?thesis
      using locked_inv_slot [OF inv slot(1) word_bytes_ok [of s x sz]] empty
      by (simp add: s' take_slot_def add.commute)
  qed (use inv in simp)
qed

lemma op_keeps_destroy [keeps]: "op_keeps (cx_mpi_destroy bn)"
  unfolding op_keeps_def
proof (intro allI impI)
  fix s r s' assume inv: "locked_inv s" and run: "cx_mpi_destroy bn s = Inr (r, s')"
  show "locked_inv s'"
  proof (cases "s' = s")
    case False
    then have s': "s' = free_slot s (unat bn)" and i: "unat bn < length (cx_mpi_array s)"
      using run inv by (auto simp: cx_mpi_destroy_def op_ok_def op_err_def bn_in_array_def
          locked_inv_def mpi_inv_def split: if_splits)
    have ok: "slot_ok (mpi_word_size s) empty_slot" by (simp add: slot_ok_def empty_slot_def)
    show ?thesis
      using locked_inv_slot [OF inv i ok] by (simp add: s' free_slot_def empty_slot_def)
  qed (use inv in simp)
qed

section \<open>The operations\<close>

lemma op_keeps_handles [keeps]:
  "op_keeps cx_bn_locked" "op_keeps cx_bn_unlocked" "op_keeps (bns_to_mpi bns)"
  unfolding cx_bn_locked_def [abs_def] cx_bn_unlocked_def [abs_def] bns_to_mpi_def
  by (intro keeps)+

lemma op_keeps_convert [keeps]:
  "op_keeps (cx_bn_to_mpi a)" "op_keeps (cx_bn_ab_to_mpi a b)" "op_keeps (cx_bn_rab_to_mpi r a b)"
  "op_keeps (cx_bn_rabm_to_mpi r a b m)"
  unfolding cx_bn_to_mpi_def cx_bn_ab_to_mpi_def cx_bn_rab_to_mpi_def cx_bn_rabm_to_mpi_def
  by (intro keeps)+

lemma op_keeps_nbytes [keeps]:
  "op_keeps (op_nbytes lib p)" "op_keeps (op_max_nbytes lib p q)" "op_keeps (bn2binpad_local lib x n e)"
  unfolding op_nbytes_def op_max_nbytes_def bn2binpad_local_def by (intro keeps)+

lemma op_keeps_bytes [keeps]:
  "op_keeps (cx_mpi_init lib p bs n)" "op_keeps (cx_mpi_export lib p dst n)"
  "op_keeps (cx_mpi_copy lib p q)" "op_keeps (cx_mpi_set_u32 lib p u)"
  "op_keeps (cx_mpi_get_u32 lib p)" "op_keeps (cx_mpi_cmp_u32 lib p u)"
  "op_keeps (cx_mpi_cmp lib p q)" "op_keeps (cx_mpi_bytes lib bn)"
  unfolding cx_mpi_init_def cx_mpi_export_def cx_mpi_copy_def cx_mpi_set_u32_def cx_mpi_get_u32_def
    cx_mpi_cmp_u32_def cx_mpi_cmp_def cx_mpi_bytes_def
  by (intro keeps)+


lemma op_keeps_bits [keeps]:
  "op_keeps (cx_mpi_is_odd lib p)" "op_keeps (cx_mpi_is_one lib p)" "op_keeps (cx_mpi_is_zero lib p)"
  "op_keeps (cx_mpi_tst_bit lib p n)" "op_keeps (cx_mpi_set_bit lib p n)"
  "op_keeps (cx_mpi_clr_bit lib p n)" "op_keeps (cx_mpi_cnt_bits lib junk p)"
  "op_keeps (cx_mpi_shr lib p n)" "op_keeps (cx_mpi_shl lib p n)"
  "op_keeps (cx_mpi_xor lib r p q)" "op_keeps (cx_mpi_or lib r p q)" "op_keeps (cx_mpi_and lib r p q)"
  unfolding cx_mpi_is_odd_def cx_mpi_is_one_def cx_mpi_is_zero_def cx_mpi_tst_bit_def
    cx_mpi_set_bit_def cx_mpi_clr_bit_def cx_mpi_cnt_bits_def cx_mpi_shr_def cx_mpi_shl_def
    cx_mpi_xor_def cx_mpi_or_def cx_mpi_and_def mpi_logic_def
  by (intro keeps)+

lemma op_keeps_arith [keeps]:
  "op_keeps (cx_mpi_add lib r p q)" "op_keeps (cx_mpi_not lib p)" "op_keeps (cx_mpi_inc lib p)"
  "op_keeps (cx_mpi_dec lib p)" "op_keeps (cx_mpi_mul lib r p q)" "op_keeps (cx_mpi_div lib r p q)"
  "op_keeps (cx_mpi_rem lib r p q)" "op_keeps (cx_mpi_rand lib rnd p)"
  "op_keeps (cx_mpi_mod_add lib r p q n)" "op_keeps (cx_mpi_mod_sub lib r p q n)"
  "op_keeps (cx_mpi_mod_mul lib r p q n)" "op_keeps (cx_mpi_gf2_n_mul lib r p q n)"
  "op_keeps (cx_mpi_is_prime lib p)" "op_keeps (next_prime_step lib k p)" "op_keeps (cx_mpi_swap p q c)"
  "op_keeps (cx_mpi_check_memory_full v)"
  unfolding cx_mpi_add_def cx_mpi_not_def cx_mpi_inc_def cx_mpi_dec_def cx_mpi_mul_def cx_mpi_div_def
    cx_mpi_rem_def cx_mpi_rand_def cx_mpi_mod_add_def cx_mpi_mod_sub_def cx_mpi_mod_mul_def
    cx_mpi_gf2_n_mul_def cx_mpi_is_prime_def next_prime_step_def cx_mpi_swap_def
    cx_mpi_check_memory_full_def
  by (intro keeps)+

lemma op_keeps_arith2 [keeps]:
  "op_keeps (cx_mpi_neg lib p)" "op_keeps (cx_mpi_sub lib r p q)"
  "op_keeps (cx_mpi_mod_u32_invert lib r u n)" "op_keeps (cx_mpi_mod_sqrt lib r p n u)"
  "op_keeps (cx_mpi_mod_pow lib r p q n)" "op_keeps (cx_mpi_alloc_init lib sz bs k)"
  unfolding cx_mpi_neg_def cx_mpi_sub_def cx_mpi_mod_u32_invert_def cx_mpi_mod_sqrt_def
    cx_mpi_mod_pow_def cx_mpi_alloc_init_def
  by (intro keeps op_keeps_arith)+


lemma op_keeps_final:
  assumes "op_keeps m" and "op_keeps d"
  shows "op_keeps (\<lambda>s. case m s of Inl e \<Rightarrow> Inl e
    | Inr (r, s') \<Rightarrow> (case d s' of Inl e \<Rightarrow> Inl e | Inr (_, s'') \<Rightarrow> Inr (r, s'')))"
  unfolding op_keeps_def
proof (intro allI impI)
  fix s r s' assume inv: "locked_inv s"
    and run: "(case m s of Inl e \<Rightarrow> Inl e
      | Inr (r, s') \<Rightarrow> (case d s' of Inl e \<Rightarrow> Inl e | Inr (_, s'') \<Rightarrow> Inr (r, s''))) = Inr (r, s')"
  then obtain q t u where "m s = Inr (q, t)" "d t = Inr (u, s')"
    by (auto split: sum.splits prod.splits)
  then show "locked_inv s'" using op_keepsD [OF assms(1) inv] op_keepsD [OF assms(2)] by blast
qed

lemma op_keeps_invert [keeps]: "op_keeps (cx_mpi_mod_invert_nprime lib r p n)"
  unfolding cx_mpi_mod_invert_nprime_def by (intro keeps op_keeps_final)

lemma op_keeps_rng:
  "locked_inv s \<Longrightarrow> rng_loop lib r draws s = Some (Inr (e, s')) \<Longrightarrow> locked_inv s'"
proof (induction draws arbitrary: s)
  case (Cons v vs)
  let ?m = "op_bind (op_store CX_INTERNAL_ERROR r v) (\<lambda>_. op_get r)"
  have "op_keeps ?m" by (intro keeps)
  then have step: "?m s = Inr (q, t) \<Longrightarrow> locked_inv t" for q t
    using Cons.prems(1) by (rule op_keepsD)
  show ?case
    using Cons.prems(2) Cons.IH step by (auto simp: op_ok_def split: sum.splits prod.splits if_splits)
qed simp

lemma op_keeps_next_prime:
  assumes "next_prime_loop lib k p s = Some v"
  shows "locked_inv s \<longrightarrow> (\<forall>e s'. v = Inr (e, s') \<longrightarrow> locked_inv s')"
proof (rule next_prime_loop.raw_induct [OF _ assms], intro impI allI)
  fix loop lib k p s v e s'
  assume IH: "\<And>lib k p s v. loop lib k p s = Some v \<Longrightarrow>
      locked_inv s \<longrightarrow> (\<forall>e s'. v = Inr (e, s') \<longrightarrow> locked_inv s')"
    and run: "(case next_prime_step lib k p s of Inl e \<Rightarrow> Some (Inl e)
      | Inr (Inl err, s') \<Rightarrow> Some (Inr (Inl err, s'))
      | Inr (Inr prime, s') \<Rightarrow> if prime then Some (Inr (Inr (), s')) else loop lib k p s') = Some v"
    and inv: "locked_inv s" and v: "v = Inr (e, s')"
  have "next_prime_step lib k p s = Inr (q, t) \<Longrightarrow> locked_inv t" for q t
    using op_keepsD [OF _ inv, of "next_prime_step lib k p"] by (auto intro: keeps)
  then show "locked_inv s'"
    using run v IH by (auto split: sum.splits prod.splits if_splits)
qed

section \<open>System calls\<close>

text \<open>An unlocked module refuses a call and is left alone.\<close>

definition needs_lock :: "'a mpi_op \<Rightarrow> bool" where
  "needs_lock m \<longleftrightarrow> (\<forall>s. \<not> local_bn_ctx s \<longrightarrow> m s = Inr (Inl CX_NOT_LOCKED, s))"

named_theorems lock_first \<open>calls that need the lock\<close>

lemma needs_lock_bind [lock_first]: "needs_lock m \<Longrightarrow> needs_lock (op_bind m f)"
  by (simp add: needs_lock_def op_bind_def)

lemma needs_lock_read [lock_first]: "(\<And>x. needs_lock (f x)) \<Longrightarrow> needs_lock (op_bind (op_read g) f)"
  by (simp add: needs_lock_def op_bind_def op_read_def)

lemma needs_lock_handles [lock_first]:
  "needs_lock cx_bn_locked" "needs_lock (bns_to_mpi bns)"
  by (simp_all add: needs_lock_def cx_bn_locked_def bns_to_mpi_def op_bind_def op_err_def
      sys_cx_bn_is_locked_def cx_get_bn_ctx_def)

lemma needs_lock_convert [lock_first]:
  "needs_lock (cx_bn_to_mpi a)" "needs_lock (cx_bn_ab_to_mpi a b)"
  "needs_lock (cx_bn_rab_to_mpi r a b)" "needs_lock (cx_bn_rabm_to_mpi r a b m)"
  unfolding cx_bn_to_mpi_def cx_bn_ab_to_mpi_def cx_bn_rab_to_mpi_def cx_bn_rabm_to_mpi_def
  by (intro lock_first)+

lemmas bn_call_defs =
  sys_cx_bn_alloc_def sys_cx_bn_init_def sys_cx_bn_alloc_init_def sys_cx_bn_export_def
  sys_cx_bn_nbytes_def sys_cx_bn_set_u32_def sys_cx_bn_get_u32_def sys_cx_bn_cmp_u32_def
  sys_cx_bn_cmp_def sys_cx_bn_rand_def sys_cx_bn_tst_bit_def sys_cx_bn_set_bit_def
  sys_cx_bn_clr_bit_def sys_cx_bn_cnt_bits_def sys_cx_bn_shr_def sys_cx_bn_shl_def
  sys_cx_bn_is_odd_def sys_cx_bn_is_prime_def sys_cx_bn_xor_def sys_cx_bn_or_def
  sys_cx_bn_and_def sys_cx_bn_add_def sys_cx_bn_sub_def sys_cx_bn_mul_def sys_cx_bn_mod_add_def
  sys_cx_bn_mod_sub_def sys_cx_bn_mod_mul_def sys_cx_bn_reduce_def sys_cx_bn_mod_sqrt_def
  sys_cx_bn_mod_invert_nprime_def sys_cx_bn_mod_u32_invert_def sys_cx_bn_mod_pow_def
  sys_cx_bn_mod_pow_bn_def sys_cx_bn_mod_pow2_def sys_cx_bn_gf2_n_mul_def

lemma bn_calls_need_lock:
  "needs_lock (sys_cx_bn_alloc lib sz)"
  "needs_lock (sys_cx_bn_init lib bn_x bytes nbytes)"
  "needs_lock (sys_cx_bn_alloc_init lib sz bytes nbytes)"
  "needs_lock (sys_cx_bn_export lib bn_x bytes nbytes)"
  "needs_lock (sys_cx_bn_nbytes lib bn_x)"
  "needs_lock (sys_cx_bn_set_u32 lib bn_x n)"
  "needs_lock (sys_cx_bn_get_u32 lib bn_x)"
  "needs_lock (sys_cx_bn_cmp_u32 lib bn_a b)"
  "needs_lock (sys_cx_bn_cmp lib bn_a bn_b)"
  "needs_lock (sys_cx_bn_rand lib BN_rand bn_x)"
  "needs_lock (sys_cx_bn_tst_bit lib bn_x pos)"
  "needs_lock (sys_cx_bn_set_bit lib bn_x pos)"
  "needs_lock (sys_cx_bn_clr_bit lib bn_x pos)"
  "needs_lock (sys_cx_bn_cnt_bits lib junk bn_x)"
  "needs_lock (sys_cx_bn_shr lib bn_r n)"
  "needs_lock (sys_cx_bn_shl lib bn_r n)"
  "needs_lock (sys_cx_bn_is_odd lib bn_a)"
  "needs_lock (sys_cx_bn_is_prime lib bn_x)"
  "needs_lock (sys_cx_bn_xor lib bn_r bn_a bn_b)"
  "needs_lock (sys_cx_bn_or lib bn_r bn_a bn_b)"
  "needs_lock (sys_cx_bn_and lib bn_r bn_a bn_b)"
  "needs_lock (sys_cx_bn_add lib bn_r bn_a bn_b)"
  "needs_lock (sys_cx_bn_sub lib bn_r bn_a bn_b)"
  "needs_lock (sys_cx_bn_mul lib bn_r bn_a bn_b)"
  "needs_lock (sys_cx_bn_mod_add lib bn_r bn_a bn_b bn_m)"
  "needs_lock (sys_cx_bn_mod_sub lib bn_r bn_a bn_b bn_m)"
  "needs_lock (sys_cx_bn_mod_mul lib bn_r bn_a bn_b bn_m)"
  "needs_lock (sys_cx_bn_reduce lib bn_r bn_d bn_n)"
  "needs_lock (sys_cx_bn_mod_sqrt lib bn_r bn_a bn_n sign)"
  "needs_lock (sys_cx_bn_mod_invert_nprime lib bn_r bn_a bn_n)"
  "needs_lock (sys_cx_bn_mod_u32_invert lib bn_r e bn_n)"
  "needs_lock (sys_cx_bn_mod_pow lib bn_r bn_a bytes_e len_e bn_n)"
  "needs_lock (sys_cx_bn_mod_pow_bn lib bn_r bn_a bn_e bn_n)"
  "needs_lock (sys_cx_bn_mod_pow2 lib bn_r bn_a bytes_e len_e bn_n)"
  "needs_lock (sys_cx_bn_gf2_n_mul lib bn_r bn_a bn_b bn_n bn_h)"
  unfolding bn_call_defs by (intro lock_first)+

lemma bn_calls_keep:
  "op_keeps (sys_cx_bn_alloc lib sz)"
  "op_keeps (sys_cx_bn_init lib bn_x bytes nbytes)"
  "op_keeps (sys_cx_bn_alloc_init lib sz bytes nbytes)"
  "op_keeps (sys_cx_bn_export lib bn_x bytes nbytes)"
  "op_keeps (sys_cx_bn_nbytes lib bn_x)"
  "op_keeps (sys_cx_bn_set_u32 lib bn_x n)"
  "op_keeps (sys_cx_bn_get_u32 lib bn_x)"
  "op_keeps (sys_cx_bn_cmp_u32 lib bn_a b)"
  "op_keeps (sys_cx_bn_cmp lib bn_a bn_b)"
  "op_keeps (sys_cx_bn_rand lib BN_rand bn_x)"
  "op_keeps (sys_cx_bn_tst_bit lib bn_x pos)"
  "op_keeps (sys_cx_bn_set_bit lib bn_x pos)"
  "op_keeps (sys_cx_bn_clr_bit lib bn_x pos)"
  "op_keeps (sys_cx_bn_cnt_bits lib junk bn_x)"
  "op_keeps (sys_cx_bn_shr lib bn_r n)"
  "op_keeps (sys_cx_bn_shl lib bn_r n)"
  "op_keeps (sys_cx_bn_is_odd lib bn_a)"
  "op_keeps (sys_cx_bn_is_prime lib bn_x)"
  "op_keeps (sys_cx_bn_xor lib bn_r bn_a bn_b)"
  "op_keeps (sys_cx_bn_or lib bn_r bn_a bn_b)"
  "op_keeps (sys_cx_bn_and lib bn_r bn_a bn_b)"
  "op_keeps (sys_cx_bn_add lib bn_r bn_a bn_b)"
  "op_keeps (sys_cx_bn_sub lib bn_r bn_a bn_b)"
  "op_keeps (sys_cx_bn_mul lib bn_r bn_a bn_b)"
  "op_keeps (sys_cx_bn_mod_add lib bn_r bn_a bn_b bn_m)"
  "op_keeps (sys_cx_bn_mod_sub lib bn_r bn_a bn_b bn_m)"
  "op_keeps (sys_cx_bn_mod_mul lib bn_r bn_a bn_b bn_m)"
  "op_keeps (sys_cx_bn_reduce lib bn_r bn_d bn_n)"
  "op_keeps (sys_cx_bn_mod_sqrt lib bn_r bn_a bn_n sign)"
  "op_keeps (sys_cx_bn_mod_invert_nprime lib bn_r bn_a bn_n)"
  "op_keeps (sys_cx_bn_mod_u32_invert lib bn_r e bn_n)"
  "op_keeps (sys_cx_bn_mod_pow lib bn_r bn_a bytes_e len_e bn_n)"
  "op_keeps (sys_cx_bn_mod_pow_bn lib bn_r bn_a bn_e bn_n)"
  "op_keeps (sys_cx_bn_mod_pow2 lib bn_r bn_a bytes_e len_e bn_n)"
  "op_keeps (sys_cx_bn_gf2_n_mul lib bn_r bn_a bn_b bn_n bn_h)"
  unfolding bn_call_defs by (intro keeps)+


lemma op_keeps_copy: "op_keeps (sys_cx_bn_copy lib a b)"
  unfolding sys_cx_bn_copy_def by (intro keeps)

text \<open>Unlocking empties the array.\<close>

lemma destroy_slot:
  assumes "locked_inv s" and "i < MAX_MPI_ARRAY_ENTRIES"
  obtains r s' where "cx_mpi_destroy (of_nat i) s = Inr (r, s')" and "locked_inv s'"
    and "cx_mpi_array s' = (cx_mpi_array s)[i := empty_slot]"
proof -
  have i: "unat (of_nat i :: u32) = i" using assms(2) by (simp add: unat_of_nat MAX_MPI_ARRAY_ENTRIES_def)
  have len: "i < length (cx_mpi_array s)" using assms by (simp add: locked_inv_def mpi_inv_def)
  obtain q where "cx_mpi_destroy (of_nat i) s = Inr q"
    by (cases "cx_mpi_destroy (of_nat i) s") (auto simp: cx_mpi_destroy_def op_ok_def op_err_def split: if_splits)
  then obtain r s' where run: "cx_mpi_destroy (of_nat i) s = Inr (r, s')" by (cases q) simp
  have "cx_mpi_array s' = (cx_mpi_array s)[i := empty_slot]"
  proof (cases "slot_mpi (cx_mpi_array s ! i) = None")
    case True
    then have "cx_mpi_array s ! i = empty_slot"
      using assms len slots_okD [of "mpi_word_size s" "cx_mpi_array s" i]
      by (auto simp: locked_inv_def mpi_inv_def slot_ok_def empty_slot_def)
    then have "(cx_mpi_array s)[i := empty_slot] = cx_mpi_array s" by (metis list_update_id)
    moreover have "s' = s" using True run i by (simp add: cx_mpi_destroy_def op_ok_def)
    ultimately show ?thesis by simp
  next
    case False
    then show ?thesis
      using run i assms by (auto simp: cx_mpi_destroy_def bn_in_array_def locked_inv_def free_slot_def)
  qed
  then show thesis
    using that run op_keepsD [OF op_keeps_destroy assms(1) run] by blast
qed

lemma unlock_loop_empties:
  assumes "locked_inv s" and "i + n = MAX_MPI_ARRAY_ENTRIES"
    and "take i (cx_mpi_array s) = replicate i empty_slot"
  shows "\<exists>s'. unlock_loop i n s = Inr (Inr (), s') \<and> locked_inv s' \<and>
    cx_mpi_array s' = replicate MAX_MPI_ARRAY_ENTRIES empty_slot"
  using assms
proof (induction n arbitrary: i s)
  case 0
  then show ?case by (auto simp: op_ok_def locked_inv_def mpi_inv_def)
next
  case (Suc n)
  have i: "i < MAX_MPI_ARRAY_ENTRIES" using Suc.prems(2) by simp
  obtain r t where t: "cx_mpi_destroy (of_nat i) s = Inr (r, t)" "locked_inv t"
      "cx_mpi_array t = (cx_mpi_array s)[i := empty_slot]"
    using destroy_slot [OF Suc.prems(1) i] .
  have "i < length (cx_mpi_array s)" using i Suc.prems(1) by (simp add: locked_inv_def mpi_inv_def)
  then have "take (i + 1) (cx_mpi_array t) = replicate (i + 1) empty_slot"
    using t(3) Suc.prems(3) by (simp add: take_Suc_conv_app_nth replicate_append_same)
  then show ?case
    using Suc.IH [OF t(2)] Suc.prems(2) t(1) by (simp add: op_seq_def)
qed

lemma unlock_resets:
  assumes "locked_inv s"
  shows "sys_cx_bn_unlock s = Inr (Inr (), mpi_init_state)"
proof -
  obtain t where t: "unlock_loop 0 MAX_MPI_ARRAY_ENTRIES s = Inr (Inr (), t)"
      "cx_mpi_array t = replicate MAX_MPI_ARRAY_ENTRIES empty_slot"
    using unlock_loop_empties [OF assms, of 0 MAX_MPI_ARRAY_ENTRIES] by auto
  then show ?thesis
    using assms
    by (simp add: sys_cx_bn_unlock_def cx_mpi_unlock_def op_bind_def cx_bn_locked_def op_ok_def
        sys_cx_bn_is_locked_def cx_get_bn_ctx_def locked_inv_def mpi_init_state_def
        MAX_MPI_ARRAY_ENTRIES_def)
qed

lemma mpi_inv_init: "mpi_inv mpi_init_state"
  by (simp add: mpi_inv_def mpi_init_state_def MAX_MPI_ARRAY_ENTRIES_def used_memory_def slot_ok_def
      empty_slot_def list_all_iff sum_list_replicate)

lemma size_to_mpi_bytes_ok: "16 \<le> size_to_mpi_bytes w \<and> size_to_mpi_bytes w AND 15 = 0"
proof -
  have "16 \<le> x" if "x AND 15 = 0" and "x \<noteq> 0" for x :: u32
  proof (rule ccontr)
    assume "\<not> 16 \<le> x"
    then have "unat x < 16" by (simp add: word_le_nat_alt)
    moreover have "x AND 15 = take_bit 4 x" by (simp add: take_bit_eq_mask mask_eq_exp_minus_1)
    then have "unat x mod 16 = 0" using that(1) unsigned_take_bit_eq [of 4 x, where 'a = nat] by (simp add: take_bit_eq_mod)
    ultimately show False using that(2) by (simp add: unat_eq_zero)
  qed
  moreover have "(x AND - 16) AND 15 = (0 :: u32)" for x by (simp add: and.assoc)
  ultimately show ?thesis
    by (simp add: size_to_mpi_bytes_def CX_MPI_WORD_BYTE_SIZE_def Let_def)
qed

lemma lock_locks:
  assumes "mpi_inv s" and "\<not> local_bn_ctx s" and "sys_cx_bn_lock lib w s = Inr (r, s')"
  shows "mpi_inv s' \<and> (r = Inr () \<longrightarrow> local_bn_ctx s')"
proof -
  have s: "s = mpi_init_state" using assms(1,2) by (simp add: mpi_inv_def)
  show ?thesis
    using assms size_to_mpi_bytes_ok [of w] mpi_inv_init
    by (auto simp: s sys_cx_bn_lock_def op_bind_def cx_bn_unlocked_def op_ok_def op_err_def
        cx_mpi_lock_def sys_cx_bn_is_unlocked_def cx_get_bn_ctx_def mpi_inv_def mpi_init_state_def
        list_all_iff slot_ok_def empty_slot_def split: if_splits)
qed

inductive bn_call :: "bn_lib \<Rightarrow> mpi_state \<Rightarrow> mpi_state \<Rightarrow> bool" for lib where
  bn_lock: "sys_cx_bn_lock lib word_size s = Inr (e, s') \<Longrightarrow> bn_call lib s s'"
| bn_unlock: "sys_cx_bn_unlock s = Inr (e, s') \<Longrightarrow> bn_call lib s s'"
| bn_alloc: "sys_cx_bn_alloc lib sz s = Inr (e, s') \<Longrightarrow> bn_call lib s s'"
| bn_destroy: "sys_cx_bn_destroy bn_x s = Inr (e, s') \<Longrightarrow> bn_call lib s s'"
| bn_init: "sys_cx_bn_init lib bn_x bytes nbytes s = Inr (e, s') \<Longrightarrow> bn_call lib s s'"
| bn_alloc_init: "sys_cx_bn_alloc_init lib sz bytes nbytes s = Inr (e, s') \<Longrightarrow> bn_call lib s s'"
| bn_export: "sys_cx_bn_export lib bn_x bytes nbytes s = Inr (e, s') \<Longrightarrow> bn_call lib s s'"
| bn_copy: "sys_cx_bn_copy lib bn_a bn_b s = Inr (e, s') \<Longrightarrow> bn_call lib s s'"
| bn_nbytes: "sys_cx_bn_nbytes lib bn_x s = Inr (e, s') \<Longrightarrow> bn_call lib s s'"
| bn_set_u32: "sys_cx_bn_set_u32 lib bn_x n s = Inr (e, s') \<Longrightarrow> bn_call lib s s'"
| bn_get_u32: "sys_cx_bn_get_u32 lib bn_x s = Inr (e, s') \<Longrightarrow> bn_call lib s s'"
| bn_cmp_u32: "sys_cx_bn_cmp_u32 lib bn_a b s = Inr (e, s') \<Longrightarrow> bn_call lib s s'"
| bn_cmp: "sys_cx_bn_cmp lib bn_a bn_b s = Inr (e, s') \<Longrightarrow> bn_call lib s s'"
| bn_rand: "sys_cx_bn_rand lib BN_rand bn_x s = Inr (e, s') \<Longrightarrow> bn_call lib s s'"
| bn_rng: "sys_cx_bn_rng lib draws bn_r bn_n s = Some (Inr (e, s')) \<Longrightarrow> bn_call lib s s'"
| bn_tst_bit: "sys_cx_bn_tst_bit lib bn_x pos s = Inr (e, s') \<Longrightarrow> bn_call lib s s'"
| bn_set_bit: "sys_cx_bn_set_bit lib bn_x pos s = Inr (e, s') \<Longrightarrow> bn_call lib s s'"
| bn_clr_bit: "sys_cx_bn_clr_bit lib bn_x pos s = Inr (e, s') \<Longrightarrow> bn_call lib s s'"
| bn_cnt_bits: "sys_cx_bn_cnt_bits lib junk bn_x s = Inr (e, s') \<Longrightarrow> bn_call lib s s'"
| bn_shr: "sys_cx_bn_shr lib bn_r n s = Inr (e, s') \<Longrightarrow> bn_call lib s s'"
| bn_shl: "sys_cx_bn_shl lib bn_r n s = Inr (e, s') \<Longrightarrow> bn_call lib s s'"
| bn_is_odd: "sys_cx_bn_is_odd lib bn_a s = Inr (e, s') \<Longrightarrow> bn_call lib s s'"
| bn_is_prime: "sys_cx_bn_is_prime lib bn_x s = Inr (e, s') \<Longrightarrow> bn_call lib s s'"
| bn_next_prime: "sys_cx_bn_next_prime lib bn_x s = Some (Inr (e, s')) \<Longrightarrow> bn_call lib s s'"
| bn_xor: "sys_cx_bn_xor lib bn_r bn_a bn_b s = Inr (e, s') \<Longrightarrow> bn_call lib s s'"
| bn_or: "sys_cx_bn_or lib bn_r bn_a bn_b s = Inr (e, s') \<Longrightarrow> bn_call lib s s'"
| bn_and: "sys_cx_bn_and lib bn_r bn_a bn_b s = Inr (e, s') \<Longrightarrow> bn_call lib s s'"
| bn_add: "sys_cx_bn_add lib bn_r bn_a bn_b s = Inr (e, s') \<Longrightarrow> bn_call lib s s'"
| bn_sub: "sys_cx_bn_sub lib bn_r bn_a bn_b s = Inr (e, s') \<Longrightarrow> bn_call lib s s'"
| bn_mul: "sys_cx_bn_mul lib bn_r bn_a bn_b s = Inr (e, s') \<Longrightarrow> bn_call lib s s'"
| bn_mod_add: "sys_cx_bn_mod_add lib bn_r bn_a bn_b bn_m s = Inr (e, s') \<Longrightarrow> bn_call lib s s'"
| bn_mod_sub: "sys_cx_bn_mod_sub lib bn_r bn_a bn_b bn_m s = Inr (e, s') \<Longrightarrow> bn_call lib s s'"
| bn_mod_mul: "sys_cx_bn_mod_mul lib bn_r bn_a bn_b bn_m s = Inr (e, s') \<Longrightarrow> bn_call lib s s'"
| bn_reduce: "sys_cx_bn_reduce lib bn_r bn_d bn_n s = Inr (e, s') \<Longrightarrow> bn_call lib s s'"
| bn_mod_sqrt: "sys_cx_bn_mod_sqrt lib bn_r bn_a bn_n sign s = Inr (e, s') \<Longrightarrow> bn_call lib s s'"
| bn_mod_invert_nprime: "sys_cx_bn_mod_invert_nprime lib bn_r bn_a bn_n s = Inr (e, s') \<Longrightarrow> bn_call lib s s'"
| bn_mod_u32_invert: "sys_cx_bn_mod_u32_invert lib bn_r k bn_n s = Inr (e, s') \<Longrightarrow> bn_call lib s s'"
| bn_mod_pow: "sys_cx_bn_mod_pow lib bn_r bn_a bytes_e len_e bn_n s = Inr (e, s') \<Longrightarrow> bn_call lib s s'"
| bn_mod_pow_bn: "sys_cx_bn_mod_pow_bn lib bn_r bn_a bn_e bn_n s = Inr (e, s') \<Longrightarrow> bn_call lib s s'"
| bn_mod_pow2: "sys_cx_bn_mod_pow2 lib bn_r bn_a bytes_e len_e bn_n s = Inr (e, s') \<Longrightarrow> bn_call lib s s'"
| bn_gf2_n_mul: "sys_cx_bn_gf2_n_mul lib bn_r bn_a bn_b bn_n bn_h s = Inr (e, s') \<Longrightarrow> bn_call lib s s'"

inductive bn_reachable :: "bn_lib \<Rightarrow> mpi_state \<Rightarrow> bool" for lib where
  start: "bn_reachable lib mpi_init_state"
| call: "bn_reachable lib s \<Longrightarrow> bn_call lib s s' \<Longrightarrow> bn_reachable lib s'"

section \<open>Reachable states\<close>

lemma call_keeps_inv:
  assumes "op_keeps m" and "needs_lock m" and "mpi_inv s" and "m s = Inr (e, s')"
  shows "mpi_inv s'"
proof (cases "local_bn_ctx s")
  case True
  then show ?thesis using op_keepsD [OF assms(1) _ assms(4)] assms(3) by (simp add: locked_inv_def)
next
  case False
  then show ?thesis using assms by (simp add: needs_lock_def)
qed

lemma unlocked_convert:
  assumes "\<not> local_bn_ctx s"
  shows "cx_bn_to_mpi a s = Inr (Inl CX_NOT_LOCKED, s)"
    "cx_bn_ab_to_mpi a b s = Inr (Inl CX_NOT_LOCKED, s)"
  using needs_lock_convert assms by (simp_all add: needs_lock_def)

lemma copy_keeps_inv:
  assumes "mpi_inv s" and "sys_cx_bn_copy lib a b s = Inr (e, s')"
  shows "mpi_inv s'"
proof (cases "local_bn_ctx s")
  case True
  then show ?thesis
    using op_keepsD [OF op_keeps_copy _ assms(2)] assms(1) by (simp add: locked_inv_def)
next
  case False
  then show ?thesis
    using assms by (auto simp: sys_cx_bn_copy_def op_bind_def unlocked_convert op_ok_def split: if_splits)
qed

lemma destroy_keeps_inv:
  assumes "mpi_inv s" and "sys_cx_bn_destroy bn s = Inr (e, s')"
  shows "mpi_inv s'"
proof (cases "local_bn_ctx s")
  case True
  then show ?thesis
    using op_keepsD [OF op_keeps_destroy _ assms(2) [unfolded sys_cx_bn_destroy_def]] assms(1)
    by (simp add: locked_inv_def)
next
  case False
  then show ?thesis
    using assms by (auto simp: sys_cx_bn_destroy_def cx_mpi_destroy_def op_ok_def op_err_def split: if_splits)
qed

lemma unlock_keeps_inv:
  assumes "mpi_inv s" and "sys_cx_bn_unlock s = Inr (e, s')"
  shows "mpi_inv s'"
proof (cases "local_bn_ctx s")
  case True
  then have "s' = mpi_init_state"
    using unlock_resets [of s] assms by (simp add: locked_inv_def)
  then show ?thesis by (simp add: mpi_inv_init)
next
  case False
  have "needs_lock sys_cx_bn_unlock" unfolding sys_cx_bn_unlock_def by (intro lock_first)
  then show ?thesis using False assms by (simp add: needs_lock_def)
qed

lemma lock_keeps_inv:
  assumes "mpi_inv s" and "sys_cx_bn_lock lib w s = Inr (e, s')"
  shows "mpi_inv s'"
proof (cases "local_bn_ctx s")
  case True
  then show ?thesis
    using assms by (simp add: sys_cx_bn_lock_def op_bind_def cx_bn_unlocked_def op_err_def
        sys_cx_bn_is_unlocked_def cx_get_bn_ctx_def)
next
  case False
  then show ?thesis using lock_locks [OF assms(1) False assms(2)] by simp
qed

lemma rng_keeps_inv:
  assumes "mpi_inv s" and "sys_cx_bn_rng lib draws r n s = Some (Inr (e, s'))"
  shows "mpi_inv s'"
proof (cases "local_bn_ctx s")
  case True
  then have inv: "locked_inv s" using assms(1) by (simp add: locked_inv_def)
  let ?m = "op_bind (cx_bn_ab_to_mpi r n) (\<lambda>(r, n). op_get n)"
  have conv: "cx_bn_ab_to_mpi r n s = Inr (q, t) \<Longrightarrow> locked_inv t" for q t
    using op_keepsD [OF op_keeps_convert(2) inv] .
  have get: "op_get p t = Inr (q, u) \<Longrightarrow> u = t" for p t q u
    by (auto simp: op_get_def split: if_splits option.splits)
  have "locked_inv s'"
    using assms(2) conv op_keeps_rng
    by (auto simp: sys_cx_bn_rng_def cx_mpi_rng_def op_err_def dest!: get
        split: sum.splits prod.splits if_splits) 
  then show ?thesis by (simp add: locked_inv_def)
next
  case False
  then show ?thesis using assms by (simp add: sys_cx_bn_rng_def unlocked_convert)
qed

lemma next_prime_keeps_inv:
  assumes "mpi_inv s" and "sys_cx_bn_next_prime lib x s = Some (Inr (e, s'))"
  shows "mpi_inv s'"
proof (cases "local_bn_ctx s")
  case True
  then have inv: "locked_inv s" using assms(1) by (simp add: locked_inv_def)
  have conv: "cx_bn_to_mpi x s = Inr (q, t) \<Longrightarrow> locked_inv t" for q t
    using op_keepsD [OF op_keeps_convert(1) inv] .
  let ?m = "\<lambda>p. op_bind (cx_mpi_is_odd lib p) (\<lambda>odd.
      op_bind (if odd then op_ok () else
        op_bind (op_get p) (\<lambda>x. op_store CX_INTERNAL_ERROR p (BN_add_word lib x 1))) (\<lambda>_. op_nbytes lib p))"
  have "op_keeps (?m p)" for p by (intro keeps)
  then have pre: "?m p t = Inr (q, u) \<Longrightarrow> locked_inv t \<Longrightarrow> locked_inv u" for p t q u
    by (rule op_keepsD)
  have loop: "next_prime_loop lib k p t = Some (Inr (q, u)) \<Longrightarrow> locked_inv t \<Longrightarrow> locked_inv u" for k p t q u
    using op_keeps_next_prime by blast
  have "locked_inv s'"
    using assms(2) conv pre loop
    by (auto simp: sys_cx_bn_next_prime_def cx_mpi_next_prime_def
        split: sum.splits prod.splits)
  then show ?thesis by (simp add: locked_inv_def)
next
  case False
  then show ?thesis using assms by (simp add: sys_cx_bn_next_prime_def unlocked_convert)
qed

lemma bn_call_keeps_inv:
  assumes "bn_call lib s s'" and "mpi_inv s"
  shows "mpi_inv s'"
  using assms(1)
  by cases
    (rule lock_keeps_inv [OF assms(2)] unlock_keeps_inv [OF assms(2)] destroy_keeps_inv [OF assms(2)]
       copy_keeps_inv [OF assms(2)] rng_keeps_inv [OF assms(2)] next_prime_keeps_inv [OF assms(2)]
       call_keeps_inv [OF bn_calls_keep(1) bn_calls_need_lock(1) assms(2)], assumption |
     rule call_keeps_inv [OF _ _ assms(2)], rule bn_calls_keep, rule bn_calls_need_lock, assumption)+

inductive_cases bn_callE: "bn_call lib s s'"

lemma bn_reachable_inv: "bn_reachable lib s \<Longrightarrow> mpi_inv s"
  by (induction rule: bn_reachable.induct) (auto simp: mpi_inv_init intro: bn_call_keeps_inv)

abbreviation locked_example :: mpi_state where
  "locked_example \<equiv> mpi_init_state\<lparr>local_bn_ctx := True, mpi_word_size := 32\<rparr>"

lemma lock_example_run: "sys_cx_bn_lock bn_exact 32 mpi_init_state = Inr (Inr (), locked_example)"
  by (simp add: sys_cx_bn_lock_def op_bind_def cx_bn_unlocked_def op_ok_def cx_mpi_lock_def
      sys_cx_bn_is_unlocked_def cx_get_bn_ctx_def mpi_init_state_def bn_exact_def
      size_to_mpi_bytes_def CX_MPI_WORD_BYTE_SIZE_def)

lemma lock_example: "bn_reachable bn_exact locked_example"
  by (rule bn_reachable.call [OF bn_reachable.start bn_lock [OF lock_example_run]])

text \<open>
  Property C21: in every state that a sequence of big number system calls leads to, whatever the library
  returns, the memory count is the sum of the sizes of the slots in use, the word count is that sum
  in words, the word size of a locked module is a multiple of 16, and an unlocked module is empty.
\<close>

theorem bn_module_invariant:
  assumes "bn_reachable lib s"
  shows "mpi_inv s"
  using bn_reachable_inv [OF assms] .

theorem bn_module_invariant_witness:
  "mpi_inv locked_example"
  using bn_module_invariant [OF lock_example] .

text \<open>
  Property C25: unlocking erases. From every reachable locked state the call succeeds and leaves the
  module as it was at the start: no slot keeps a number.
\<close>

theorem unlock_erases:
  assumes "bn_reachable lib s" and "local_bn_ctx s"
  shows "sys_cx_bn_unlock s = Inr (Inr (), mpi_init_state)"
  using unlock_resets bn_reachable_inv [OF assms(1)] assms(2) by (simp add: locked_inv_def)

theorem unlock_erases_witness:
  "sys_cx_bn_unlock locked_example =
     Inr (Inr (), mpi_init_state)"
  by (rule unlock_erases [OF lock_example]) simp

lemma needs_lockD: "needs_lock m \<Longrightarrow> \<not> local_bn_ctx s \<Longrightarrow> m s = Inr (e, s') \<Longrightarrow> s' = s"
  by (simp add: needs_lock_def)

text \<open>
  An unlocked module is inert. The only call that changes its state is the one that
  locks it.
\<close>

theorem unlocked_module_inert:
  assumes "\<not> local_bn_ctx s" and "bn_call lib s s'"
  shows "s' = s \<or> (\<exists>w. sys_cx_bn_lock lib w s = Inr (Inr (), s'))"
  using assms(2)
proof cases
  case (bn_lock w e)
  then show ?thesis
    by (cases e) (auto simp: sys_cx_bn_lock_def op_bind_def cx_bn_unlocked_def op_ok_def op_err_def
        cx_mpi_lock_def split: if_splits)
next
  case (bn_unlock e)
  then show ?thesis
    using assms(1) by (simp add: sys_cx_bn_unlock_def op_bind_def cx_bn_locked_def op_err_def
        sys_cx_bn_is_locked_def cx_get_bn_ctx_def)
next
  case (bn_destroy bn e)
  then show ?thesis
    using assms(1) by (auto simp: sys_cx_bn_destroy_def cx_mpi_destroy_def op_ok_def op_err_def split: if_splits)
next
  case (bn_copy a b e)
  then show ?thesis
    using assms(1)
    by (auto simp: sys_cx_bn_copy_def op_bind_def unlocked_convert op_ok_def split: if_splits)
next
  case (bn_rng draws r n e)
  then show ?thesis using assms(1) by (simp add: sys_cx_bn_rng_def unlocked_convert)
next
  case (bn_next_prime x e)
  then show ?thesis using assms(1) by (simp add: sys_cx_bn_next_prime_def unlocked_convert)
qed (rule disjI1, rule needs_lockD [OF _ assms(1)], rule bn_calls_need_lock, assumption)+

theorem unlocked_module_inert_witness:
  "\<not> local_bn_ctx mpi_init_state \<and> bn_call bn_exact mpi_init_state locked_example \<and>
   (locked_example = mpi_init_state \<or>
    (\<exists>w. sys_cx_bn_lock bn_exact w mpi_init_state = Inr (Inr (), locked_example)))"
  using unlocked_module_inert [OF _ bn_lock [OF lock_example_run]] bn_lock [OF lock_example_run]
  by (simp add: mpi_init_state_def)

end
