(* ===== verification/Mpi_Arith.thy ===== *)
theory Mpi_Arith
  imports Mpi_Invariant
begin

text \<open>
  What the big number system calls compute. The abstraction of the module is the map from handles to
  numbers; each call is related to the update it makes of that map. The laws of the OpenSSL library
  are those of the locales of \<open>Openssl_Bn\<close>.
\<close>

section \<open>Abstraction\<close>

lemma word_unat_eqI: "unat a = unat b \<Longrightarrow> a = b"
  by (simp add: unsigned_word_eqI)

definition bn_abs :: "mpi_state \<Rightarrow> cx_bn \<Rightarrow> int option" where
  "bn_abs s bn = (if bn_in_array bn then slot_mpi (cx_mpi_array s ! unat bn) else None)"

definition put_bn :: "mpi_state \<Rightarrow> cx_bn \<Rightarrow> int \<Rightarrow> mpi_state" where
  "put_bn s bn v = s\<lparr>cx_mpi_array :=
     (cx_mpi_array s)[unat bn := (cx_mpi_array s ! unat bn)\<lparr>slot_mpi := Some v\<rparr>]\<rparr>"

named_theorems bn_run \<open>evaluation of the operations of the module\<close>

lemma op_bind_basic [bn_run]:
  "op_bind (op_ok x) f s = f x s"
  "op_bind (op_err e) f s = Inr (Inl e, s)"
  "op_bind (op_read g) f s = f (g s) s"
  "op_bind op_crash f s = Inl Oob"
  by (simp_all add: op_bind_def op_ok_def op_err_def op_read_def op_crash_def)

lemma op_bind_assoc [bn_run]: "op_bind (op_bind m f) g = op_bind m (\<lambda>x. op_bind (f x) g)"
  by (rule ext) (simp add: op_bind_def split: sum.split prod.split)

lemma op_opt_Some [bn_run]: "op_opt e (Some x) = op_ok x" "op_opt e None = op_err e"
  by (simp_all add: op_opt_def)

lemma op_apply [bn_run]: "op_ok x s = Inr (Inr x, s)" "op_err e s = Inr (Inl e, s)"
  by (simp_all add: op_ok_def op_err_def)

lemma bind_get [bn_run]:
  assumes "locked_inv s" and "bn_abs s a = Some x"
  shows "op_bind (op_get (unat a)) f s = f x s"
  using assms by (auto simp: op_bind_def op_get_def bn_abs_def bn_in_array_def locked_inv_def mpi_inv_def
      split: if_splits)

lemma put_run [bn_run]:
  assumes "locked_inv s" and "bn_abs s a = Some x"
  shows "op_put (unat a) v s = Inr (Inr (), put_bn s a v)"
  using assms by (auto simp: op_put_def put_bn_def bn_abs_def bn_in_array_def locked_inv_def mpi_inv_def
      split: if_splits)

lemma bind_put [bn_run]:
  assumes "locked_inv s" and "bn_abs s a = Some x"
  shows "op_bind (op_put (unat a) v) f s = f () (put_bn s a v)"
  using put_run [OF assms] by (simp add: op_bind_def)

lemma locked_put [bn_run]:
  assumes "locked_inv s" and "bn_abs s a = Some x"
  shows "locked_inv (put_bn s a v)"
  using op_keepsD [OF op_keeps_put assms(1) put_run [OF assms]] .

lemma bn_abs_put:
  assumes "locked_inv s" and "bn_abs s a = Some x"
  shows "bn_abs (put_bn s a v) = (bn_abs s)(a \<mapsto> v)"
proof (rule ext)
  fix b
  have "unat a < length (cx_mpi_array s)"
    using assms by (auto simp: bn_abs_def bn_in_array_def locked_inv_def mpi_inv_def split: if_splits)
  then show "bn_abs (put_bn s a v) b = ((bn_abs s)(a \<mapsto> v)) b"
    using assms by (cases "b = a") (auto simp: bn_abs_def put_bn_def nth_list_update dest: word_unat_eqI split: if_splits)
qed

lemma put_sizes [simp]: "mpi_word_size (put_bn s a v) = mpi_word_size s"
  by (simp add: put_bn_def)

lemma put_put [simp]: "put_bn (put_bn s a v) a w = put_bn s a w"
  by (cases "unat a < length (cx_mpi_array s)") (simp_all add: put_bn_def list_update_beyond)

lemma nbytes_put [simp]: "cx_mpi_nbytes lib (put_bn s a v) x = cx_mpi_nbytes lib s x"
  by (simp add: cx_mpi_nbytes_def size_to_mpi_word_bytes_def)

lemma bind_nbytes [bn_run]:
  assumes "locked_inv s" and "bn_abs s a = Some x"
  shows "op_bind (op_nbytes lib (unat a)) f s = f (cx_mpi_nbytes lib s x) s"
  using assms by (simp add: op_nbytes_def bn_run)

lemma bind_bns:
  assumes "locked_inv s" and "list_all (\<lambda>a. bn_abs s a \<noteq> None) bns"
  shows "op_bind (bns_to_mpi bns) f s = f (map unat bns) s"
proof -
  have "list_all bn_in_array bns" "list_all (\<lambda>bn. slot_mpi (cx_mpi_array s ! unat bn) \<noteq> None) bns"
    using assms(2) by (auto simp: list_all_iff bn_abs_def split: if_splits)
  moreover have "cx_bn_locked s = Inr (Inr (), s)"
    using assms(1) by (simp add: cx_bn_locked_def op_ok_def sys_cx_bn_is_locked_def cx_get_bn_ctx_def
        locked_inv_def)
  ultimately show ?thesis by (simp add: bns_to_mpi_def op_bind_def op_ok_def)
qed

lemma bind_convert [bn_run]:
  assumes "locked_inv s"
  shows "bn_abs s a = Some x \<Longrightarrow> op_bind (cx_bn_to_mpi a) f s = f (unat a) s"
    and "bn_abs s a = Some x \<Longrightarrow> bn_abs s b = Some y \<Longrightarrow>
      op_bind (cx_bn_ab_to_mpi a b) g s = g (unat a, unat b) s"
    and "bn_abs s a = Some x \<Longrightarrow> bn_abs s b = Some y \<Longrightarrow> bn_abs s r = Some z \<Longrightarrow>
      op_bind (cx_bn_rab_to_mpi r a b) h s = h (unat r, unat a, unat b) s"
    and "bn_abs s a = Some x \<Longrightarrow> bn_abs s b = Some y \<Longrightarrow> bn_abs s r = Some z \<Longrightarrow> bn_abs s m = Some n \<Longrightarrow>
      op_bind (cx_bn_rabm_to_mpi r a b m) k s = k (unat r, unat a, unat b, unat m) s"
  by (simp_all add: cx_bn_to_mpi_def cx_bn_ab_to_mpi_def cx_bn_rab_to_mpi_def cx_bn_rabm_to_mpi_def
      op_bind_assoc bind_bns [OF assms] op_bind_basic)

section \<open>Sizes\<close>

lemma unat_round_16:
  fixes sz :: u32
  assumes "unat sz < 2 ^ 31"
  shows "unat ((15 + sz) AND - 16) = (unat sz + 15) div 16 * 16"
proof -
  let ?y = "15 + sz"
  have y: "unat ?y = unat sz + 15" using assms by (simp add: unat_word_ariths)
  have m: "- 16 = NOT (mask 4 :: u32)" by (simp add: mask_eq_exp_minus_1)
  have "?y AND - 16 = push_bit 4 (drop_bit 4 ?y)"
    unfolding m by (rule bit_eqI) (auto simp: bit_simps not_less)
  then have "?y AND - 16 = ?y div 16 * 16" by (simp add: push_bit_eq_mult drop_bit_eq_div)
  then show ?thesis using y unat_div_mult [of ?y 16] by simp
qed

lemma round_up_bounds: "0 < w \<Longrightarrow> n \<le> (n + (w - 1)) div w * w \<and> (n + (w - 1)) div w * w \<le> n + w"
  for n w :: nat
  using div_mult_mod_eq [of "n + (w - 1)" w] mod_less_divisor [of w "n + (w - 1)"] by linarith

lemma size_to_mpi_bytes_bounds:
  assumes "unat sz < 2 ^ 31"
  shows "unat sz \<le> unat (size_to_mpi_bytes sz)" and "unat (size_to_mpi_bytes sz) \<le> unat sz + 16"
proof -
  have r: "unat ((15 + sz) AND - 16) = (unat sz + 15) div 16 * 16" by (rule unat_round_16 [OF assms])
  have z: "(15 + sz) AND - 16 = 0 \<longleftrightarrow> unat sz = 0"
    using r by (simp add: unat_eq_zero [symmetric] del: unat_eq_zero) presburger
  show "unat sz \<le> unat (size_to_mpi_bytes sz)" "unat (size_to_mpi_bytes sz) \<le> unat sz + 16"
    using r z round_up_bounds [of 16 "unat sz"]
    by (auto simp: size_to_mpi_bytes_def CX_MPI_WORD_BYTE_SIZE_def Let_def)
qed

lemma size_to_mpi_word_bytes_bounds:
  assumes "unat sz < 2 ^ 30" and "unat (mpi_word_size s) < 2 ^ 30" and "mpi_word_size s \<noteq> 0"
  shows "unat sz \<le> unat (size_to_mpi_word_bytes s sz)"
    and "unat (size_to_mpi_word_bytes s sz) \<le> unat sz + unat (mpi_word_size s)"
proof -
  let ?w = "mpi_word_size s"
  have w: "0 < unat ?w" using assms(3) by (simp add: unat_gt_0)
  have "unat (sz + (?w - 1)) = unat sz + (unat ?w - 1)"
    using assms w by (simp add: unat_word_ariths unat_sub word_le_nat_alt)
  then have r: "unat ((sz + (?w - 1)) div ?w * ?w) = (unat sz + (unat ?w - 1)) div unat ?w * unat ?w"
    by (simp add: unat_div_mult)
  show "unat sz \<le> unat (size_to_mpi_word_bytes s sz)"
    "unat (size_to_mpi_word_bytes s sz) \<le> unat sz + unat ?w"
    using r round_up_bounds [OF w, of "unat sz"] by (auto simp: size_to_mpi_word_bytes_def)
qed

text \<open>Word sizes the applications use, and numbers that fit the buffers of the module.\<close>

definition small_words :: "mpi_state \<Rightarrow> bool" where
  "small_words s \<longleftrightarrow> unat (mpi_word_size s) \<le> 2048"

definition bn_len :: "bn_lib \<Rightarrow> mpi_state \<Rightarrow> int \<Rightarrow> nat" where
  "bn_len lib s v = unat (cx_mpi_nbytes lib s v)"

lemma small_words_put [simp]: "small_words (put_bn s a v) = small_words s"
  by (simp add: small_words_def)

context openssl_bn
begin

lemma nbytes_bounds:
  assumes "locked_inv s" and "small_words s" and "byte_length v \<le> 65536"
  shows "byte_length v \<le> unat (cx_mpi_nbytes lib s v)"
    and "unat (cx_mpi_nbytes lib s v) \<le> byte_length v + 2064"
proof -
  let ?n = "of_nat (byte_length v) :: u32"
  have n: "unat ?n = byte_length v" using assms(3) by (simp add: unat_of_nat)
  have b: "unat ?n \<le> unat (size_to_mpi_bytes ?n)" "unat (size_to_mpi_bytes ?n) \<le> unat ?n + 16"
    using size_to_mpi_bytes_bounds [of ?n] n assms(3) by simp_all
  have w: "mpi_word_size s \<noteq> 0" "unat (mpi_word_size s) < 2 ^ 30"
    using assms(1,2) by (auto simp: locked_inv_def mpi_inv_def small_words_def)
  show "byte_length v \<le> unat (cx_mpi_nbytes lib s v)"
    "unat (cx_mpi_nbytes lib s v) \<le> byte_length v + 2064"
    using size_to_mpi_word_bytes_bounds [of "size_to_mpi_bytes ?n" s] b n w assms(2,3)
    by (auto simp: cx_mpi_nbytes_def num_bytes_val small_words_def)
qed

lemma bn_len_bounds:
  assumes "locked_inv s" and "small_words s" and "byte_length v \<le> 65536"
  shows "byte_length v \<le> bn_len lib s v" and "bn_len lib s v \<le> byte_length v + 2064"
  using nbytes_bounds [OF assms] by (simp_all add: bn_len_def)

end

section \<open>Addition\<close>

lemma unat_max: "unat (max a b) = max (unat a) (unat (b :: u32))"
  by (simp add: word_le_nat_alt max_def)

lemma bind_max_nbytes [bn_run]:
  assumes "locked_inv s" and "bn_abs s a = Some x" and "bn_abs s b = Some y"
  shows "op_bind (op_max_nbytes lib (unat a) (unat b)) f s =
    f (max (cx_mpi_nbytes lib s x) (cx_mpi_nbytes lib s y)) s"
  using assms by (auto simp: op_max_nbytes_def bn_run max_def not_less)

context openssl_bn_total
begin

lemma op_mask_run:
  assumes "0 \<le> v" and "len = unat len'" and "len < 2 ^ 28" and "256 ^ len \<le> v"
  shows "BN_mask_bits lib v (unat (8 * len' :: u32)) = Some (v mod 256 ^ len)"
proof -
  have k: "unat (8 * len') = 8 * len" using assms(2,3) by (simp add: unat_word_ariths)
  have "(2::int) ^ (8 * len) = 256 ^ len" by (simp add: power_mult)
  then have "\<not> bit_length (nat v) \<le> 8 * len"
    using assms(1,4) nat_less_power [of v len] by (simp add: bit_length_le_iff)
  then show ?thesis
    using mask_bits_eq [of v "8 * len"] assms(1) \<open>2 ^ (8 * len) = 256 ^ len\<close>
    by (simp add: k take_bit_eq_mod)
qed

lemma num_bytes_greater:
  assumes "byte_length v < 2 ^ 32" and "0 \<le> v"
  shows "of_nat (BN_num_bytes lib v) > (len :: u32) \<longleftrightarrow> 256 ^ unat len \<le> v"
proof -
  have "of_nat (BN_num_bytes lib v) > len \<longleftrightarrow> \<not> byte_length v \<le> unat len"
    using assms(1) by (auto simp: num_bytes_val word_less_nat_alt unat_of_nat)
  then show ?thesis using assms(2) by (simp add: byte_length_le_iff not_less)
qed

lemma byte_length_add:
  assumes "byte_length x \<le> n" and "byte_length y \<le> n"
  shows "byte_length (x + y) \<le> n + 1"
proof -
  have "\<bar>x\<bar> < 256 ^ n" "\<bar>y\<bar> < 256 ^ n" using assms by (simp_all add: byte_length_le_iff)
  then have "\<bar>x + y\<bar> < 256 ^ (n + 1)" by simp
  then show ?thesis by (simp only: byte_length_le_iff)
qed

lemma add_run:
  assumes s: "locked_inv s" "small_words s"
    and abs: "bn_abs s a = Some x" "bn_abs s b = Some y" "bn_abs s r = Some z"
    and neq: "r \<noteq> a" "r \<noteq> b"
    and v: "0 \<le> x" "0 \<le> y" "byte_length x \<le> 2048" "byte_length y \<le> 2048"
  shows "sys_cx_bn_add lib r a b s =
    (let len = max (bn_len lib s x) (bn_len lib s y) in
     if x + y < 256 ^ len then Inr (Inr (), put_bn s r (x + y))
     else Inr (Inl CX_CARRY, put_bn s r ((x + y) mod 256 ^ len)))"
proof -
  let ?t = "put_bn s r (x + y)"
    and ?n = "max (cx_mpi_nbytes lib s x) (cx_mpi_nbytes lib s y)"
    and ?len = "max (bn_len lib s x) (bn_len lib s y)"
  have t: "locked_inv ?t" "bn_abs ?t = (bn_abs s)(r \<mapsto> x + y)"
    using locked_put [OF s(1) abs(3)] bn_abs_put [OF s(1) abs(3)] by simp_all
  have len: "?len = unat ?n" by (simp only: unat_max bn_len_def)
  have small: "?len < 2 ^ 28"
    using bn_len_bounds [OF s, of x] bn_len_bounds [OF s, of y] v by simp
  have "byte_length (x + y) < 2 ^ 32" using byte_length_add [OF v(3,4)] by simp
  then have cmp: "of_nat (BN_num_bytes lib (x + y)) > ?n \<longleftrightarrow> 256 ^ ?len \<le> x + y"
    using num_bytes_greater [of "x + y" ?n] v(1,2) by (simp only: len)
  have run: "sys_cx_bn_add lib r a b s =
      (if 256 ^ ?len \<le> x + y then
         op_bind (op_store CX_INTERNAL_ERROR (unat r) (BN_mask_bits lib (x + y) (unat (8 * ?n))))
           (\<lambda>_. op_err CX_CARRY) ?t
       else Inr (Inr (), ?t))"
    using neq abs by (simp add: sys_cx_bn_add_def cx_mpi_add_def op_store_def bn_run s(1) t add_eq cmp
        del: max_less_iff_conj)
  show ?thesis
  proof (cases "256 ^ ?len \<le> x + y")
    case True
    then show ?thesis
      using op_mask_run [OF _ len small True] v(1,2)
      by (simp add: run op_store_def bn_run t Let_def not_less)
  qed (simp add: run Let_def)
qed

lemma add_alias_run:
  assumes s: "locked_inv s" "small_words s"
    and abs: "bn_abs s a = Some x" "bn_abs s b = Some y"
    and v: "0 \<le> x" "0 \<le> y" "byte_length x \<le> 2048" "byte_length y \<le> 2048"
  shows "sys_cx_bn_add lib a a b s = Inr (Inr (), put_bn s a (x + y))"
proof -
  let ?t = "put_bn s a (x + y)"
  have t: "locked_inv ?t" "bn_abs ?t = (bn_abs s)(a \<mapsto> x + y)"
    using locked_put [OF s(1) abs(1)] bn_abs_put [OF s(1) abs(1)] by simp_all
  then obtain y' where b: "bn_abs ?t b = Some y'" "bn_abs ?t a = Some (x + y)" using abs by fastforce
  let ?n = "max (cx_mpi_nbytes lib s (x + y)) (cx_mpi_nbytes lib s y')"
  have "byte_length (x + y) \<le> 65536" using byte_length_add [OF v(3,4)] by simp
  then have "byte_length (x + y) \<le> unat ?n" "byte_length (x + y) < 2 ^ 32"
    using nbytes_bounds(1) [OF s, of "x + y"] by (simp_all add: unat_max)
  then have cmp: "\<not> of_nat (BN_num_bytes lib (x + y)) > ?n"
    using num_bytes_greater [of "x + y" ?n] v(1,2) byte_length_le_iff [of "x + y" "unat ?n"] by simp
  show ?thesis
    using abs cmp
    by (simp add: sys_cx_bn_add_def cx_mpi_add_def op_store_def bn_run s(1) t(1) b add_eq
        del: max_less_iff_conj)
qed

end

end
