(* ===== verification/Mpi_Calls.thy ===== *)
theory Mpi_Calls
  imports Mpi_Arith
begin

text \<open>
  What the big number calls compute, continued: bytes in and out, comparison, subtraction, bitwise
  operations, modular arithmetic and the search for a prime.
\<close>

section \<open>Byte strings\<close>

lemma i2osp_split: "i2osp (k + n) v = i2osp k (v div 256 ^ n) @ i2osp n v"
  by (induction n arbitrary: v) (simp_all add: zdiv_zmult2_eq)

lemma i2osp_0 [simp]: "i2osp n 0 = replicate n 0"
  by (induction n) (simp_all add: replicate_append_same [symmetric])

lemma i2osp_low: "n \<le> m \<Longrightarrow> drop (m - n) (i2osp m v) = i2osp n v"
  using i2osp_split [of "m - n" n v] by simp

lemma i2osp_pad: "m \<le> n \<Longrightarrow> 0 \<le> v \<Longrightarrow> v < 256 ^ m \<Longrightarrow> replicate (n - m) 0 @ i2osp m v = i2osp n v"
  using i2osp_split [of "n - m" m v] by simp

lemma os2ip_map_not: "os2ip (map (\<lambda>c. NOT c) bs) = 256 ^ length bs - 1 - os2ip bs"
proof (induction bs rule: rev_induct)
  case (snoc b bs)
  have "uint (NOT b) = 255 - uint b"
  proof -
    have "(- uint b - 1) mod 256 = (255 - uint b) mod 256"
      using mod_add_self2 [of "- uint b - 1" 256] by (simp add: algebra_simps)
    also have "\<dots> = 255 - uint b"
    proof (rule mod_pos_pos_trivial)
      have "uint b < 256" "0 \<le> uint b" using uint_bounded [of b] by simp_all
      then show "0 \<le> 255 - uint b" "255 - uint b < 256" by linarith+
    qed
    finally show ?thesis by (subst unsigned_not_eq) (simp add: not_eq_complement take_bit_eq_mod)
  qed
  then show ?case using snoc by (simp add: algebra_simps)
qed simp

lemma memcmp_sign:
  assumes "length as = length bs"
  shows "memcmp as bs < 0 \<longleftrightarrow> os2ip as < os2ip bs" and "memcmp as bs = 0 \<longleftrightarrow> os2ip as = os2ip bs"
proof -
  have "(memcmp as bs < 0 \<longleftrightarrow> os2ip as < os2ip bs) \<and> (memcmp as bs = 0 \<longleftrightarrow> os2ip as = os2ip bs)"
    using assms
  proof (induction as bs rule: list_induct2)
    case (Cons a as b bs)
    have bound: "os2ip as < 256 ^ length bs" "os2ip bs < 256 ^ length bs"
      using os2ip_bound [of as] os2ip_bound [of bs] Cons.hyps by simp_all
    consider "a = b" | "uint a < uint b" | "uint b < uint a"
      by (metis less_linear word_uint_eq_iff)
    then show ?case
    proof cases
      case 1
      then show ?thesis using Cons by (simp add: os2ip_Cons)
    next
      case 2
      then have "(uint a + 1) * 256 ^ length bs \<le> uint b * 256 ^ length bs"
        by (intro mult_right_mono) simp_all
      then have "os2ip (a # as) < os2ip (b # bs)"
        using bound os2ip_nonneg [of bs] unfolding os2ip_Cons distrib_right Cons.hyps by linarith
      then show ?thesis using 2 by auto
    next
      case 3
      then have "(uint b + 1) * 256 ^ length bs \<le> uint a * 256 ^ length bs"
        by (intro mult_right_mono) simp_all
      then have "os2ip (b # bs) < os2ip (a # as)"
        using bound os2ip_nonneg [of as] unfolding os2ip_Cons distrib_right Cons.hyps by linarith
      then show ?thesis using 3 by auto
    qed
  qed simp
  then show "memcmp as bs < 0 \<longleftrightarrow> os2ip as < os2ip bs" "memcmp as bs = 0 \<longleftrightarrow> os2ip as = os2ip bs"
    by simp_all
qed

section \<open>Input, output, comparison\<close>

context openssl_bn_total
begin

lemma init_run:
  assumes "locked_inv s" and "bn_abs s a = Some x" and "n \<le> length bs"
  shows "sys_cx_bn_init lib a bs n s = Inr (Inr (), put_bn s a (os2ip (take n bs)))"
  using assms by (simp add: sys_cx_bn_init_def cx_mpi_init_def mem_read_def op_store_def bn_run bin2bn_eq)

lemma pad_run:
  assumes "locked_inv s" and "small_words s" and "bn_abs s a = Some x" and "0 \<le> x"
    and "byte_length x \<le> 2048" and "bn_len lib s x \<le> 2048"
  shows "op_bind (bn2binpad_local lib x (cx_mpi_nbytes lib s x) e) f s = f (i2osp (bn_len lib s x) x) s"
    and "x < 256 ^ bn_len lib s x" and "\<not> cx_mpi_nbytes lib s x > MAX_MPI_BYTE_SIZE"
proof -
  have len: "byte_length x \<le> bn_len lib s x" using bn_len_bounds(1) [OF assms(1,2), of x] assms(5) by simp
  then show "x < 256 ^ bn_len lib s x" using assms(4) byte_length_le_iff [of x] by simp
  show small: "\<not> cx_mpi_nbytes lib s x > MAX_MPI_BYTE_SIZE"
    using assms(6) by (simp add: bn_len_def word_less_nat_alt MAX_MPI_BYTE_SIZE_def)
  show "op_bind (bn2binpad_local lib x (cx_mpi_nbytes lib s x) e) f s = f (i2osp (bn_len lib s x) x) s"
    using small len assms(4) by (simp add: bn2binpad_local_def bn2binpad_val bn_len_def bn_run)
qed

lemma export_run:
  assumes "locked_inv s" and "small_words s" and "bn_abs s a = Some x" and "0 \<le> x"
    and "byte_length x \<le> 2048" and "bn_len lib s x \<le> 2048" and "n \<le> length dst"
  shows "sys_cx_bn_export lib a dst n s = Inr (Inr (i2osp n x @ drop n dst), s)"
proof -
  note pad = pad_run [OF assms(1-6)]
  let ?m = "bn_len lib s x"
  have long: "\<not> n \<le> ?m \<Longrightarrow> replicate (n - ?m) 0 @ i2osp ?m x = i2osp n x"
    using i2osp_pad [of ?m n x] assms(4) pad(2) by simp
  show ?thesis
    using assms(1,3,7) pad(3)
    by (simp add: sys_cx_bn_export_def cx_mpi_export_def bn_run pad(1) mem_write_def buf_write_def
        i2osp_low long flip: bn_len_def)
qed

lemma cmp_run:
  assumes "locked_inv s" and "small_words s" and "bn_abs s a = Some x" and "bn_abs s b = Some y"
    and "0 \<le> x" "byte_length x \<le> 2048" "bn_len lib s x \<le> 2048"
    and "0 \<le> y" "byte_length y \<le> 2048" "bn_len lib s y \<le> 2048"
  shows "sys_cx_bn_cmp lib a b s = Inr (Inr
    (if bn_len lib s x = bn_len lib s y
     then memcmp (i2osp (bn_len lib s x) x) (i2osp (bn_len lib s y) y) else - 1), s)"
proof -
  note px = pad_run [OF assms(1-3,5-7)] and py = pad_run [OF assms(1,2,4,8-10)]
  have len: "byte_length x \<le> bn_len lib s x" "byte_length y \<le> bn_len lib s y"
    using px(2) py(2) assms(5,8) by (simp_all add: byte_length_le_iff)
  have eq: "cx_mpi_nbytes lib s x = cx_mpi_nbytes lib s y \<longleftrightarrow> bn_len lib s x = bn_len lib s y"
    by (auto simp: bn_len_def dest: word_unat_eqI)
  show ?thesis
    using assms(1,3,4,5,8) px(3) py(3) len eq
    by (simp add: sys_cx_bn_cmp_def cx_mpi_cmp_def bn_run bn2binpad_val flip: bn_len_def)
qed

end

section \<open>Subtraction\<close>

lemma byte_length_mono: "0 \<le> u \<Longrightarrow> u \<le> v \<Longrightarrow> byte_length u \<le> byte_length v"
  using byte_length_bound [of v] by (simp add: byte_length_le_iff)

context openssl_bn_total
begin

lemma neg_run:
  assumes "locked_inv s" and "small_words s" and "bn_abs s a = Some x" and "0 \<le> x"
    and "byte_length x \<le> 2048" and "bn_len lib s x \<le> 2048"
  shows "op_bind (cx_mpi_neg lib (unat a)) f s = f () (put_bn s a (256 ^ bn_len lib s x - x))"
proof -
  note pad = pad_run [OF assms(1-6)]
  let ?v = "256 ^ bn_len lib s x - 1 - x"
  have v: "os2ip (map (\<lambda>c. NOT c) (i2osp (bn_len lib s x) x)) = ?v"
    using pad(2) assms(4) by (simp add: os2ip_map_not)
  have t: "locked_inv (put_bn s a ?v)" "bn_abs (put_bn s a ?v) a = Some ?v"
    using locked_put [OF assms(1,3)] bn_abs_put [OF assms(1,3)] by simp_all
  show ?thesis
    using assms(1,3) pad(3)
    by (simp add: cx_mpi_neg_def cx_mpi_not_def cx_mpi_inc_def op_store_def bn_run pad(1) bin2bn_eq v t
        add_word_eq)
qed

lemma sub_run:
  assumes s: "locked_inv s" "small_words s"
    and abs: "bn_abs s a = Some x" "bn_abs s b = Some y" "bn_abs s r = Some z"
    and neq: "r \<noteq> a" "r \<noteq> b"
    and v: "0 \<le> x" "0 \<le> y" "byte_length x \<le> 2048" "byte_length y \<le> 2048"
    and d: "bn_len lib s (y - x) \<le> 2048"
  shows "sys_cx_bn_sub lib r a b s =
    (if y \<le> x then Inr (Inr (), put_bn s r (x - y))
     else Inr (Inl CX_CARRY, put_bn s r (256 ^ bn_len lib s (y - x) - (y - x))))"
proof -
  let ?t = "put_bn s r (x - y)"
  have t: "locked_inv ?t" "bn_abs ?t = (bn_abs s)(r \<mapsto> x - y)"
    using locked_put [OF s(1) abs(3)] bn_abs_put [OF s(1) abs(3)] by simp_all
  show ?thesis
  proof (cases "y \<le> x")
    case True
    then show ?thesis
      using neq abs
      by (simp add: sys_cx_bn_sub_def cx_mpi_sub_def op_store_def bn_run s(1) t sub_eq is_negative_val)
  next
    case False
    let ?u = "put_bn s r (y - x)" and ?n = "max (cx_mpi_nbytes lib s x) (cx_mpi_nbytes lib s y)"
    have u: "locked_inv ?u" "bn_abs ?u = (bn_abs s)(r \<mapsto> y - x)" "small_words ?u"
      using locked_put [OF s(1) abs(3)] bn_abs_put [OF s(1) abs(3)] s(2) by simp_all
    have dl: "byte_length (y - x) \<le> 2048"
      using byte_length_mono [of "y - x" y] False v(1,4) by simp
    have "byte_length y \<le> unat ?n" using nbytes_bounds(1) [OF s, of y] v(4) by (simp add: unat_max)
    then have "y < 256 ^ unat ?n" using v(2) byte_length_le_iff [of y "unat ?n"] by simp
    then have cmp: "\<not> of_nat (BN_num_bytes lib (y - x)) > ?n"
      using num_bytes_greater [of "y - x" ?n] dl False v(1) by simp
    have len: "bn_len lib ?u (y - x) = bn_len lib s (y - x)" by (simp add: bn_len_def)
    note neg = neg_run [of ?u r "y - x", OF u(1,3) _ _ dl, unfolded len, OF _ _ d]
    show ?thesis
      using False neq abs cmp
      by (simp add: sys_cx_bn_sub_def cx_mpi_sub_def op_store_def bn_run s(1) t u sub_eq is_negative_val
          set_negative_val neg del: max_less_iff_conj)
  qed
qed

end

section \<open>Modular arithmetic\<close>

context openssl_bn_total
begin

lemma mod_run:
  assumes s: "locked_inv s"
    and abs: "bn_abs s a = Some x" "bn_abs s b = Some y" "bn_abs s m = Some n" "bn_abs s r = Some z"
    and n: "0 < n" and neq: "r \<noteq> m"
  shows "sys_cx_bn_mod_add lib r a b m s = Inr (Inr (), put_bn s r ((x + y) mod n))"
    and "sys_cx_bn_mod_sub lib r a b m s = Inr (Inr (), put_bn s r ((x - y) mod n))"
    and "sys_cx_bn_mod_mul lib r a b m s =
      (if odd n then Inr (Inr (), put_bn s r (x * y mod n)) else Inr (Inl CX_INVALID_PARAMETER_VALUE, s))"
    and "0 \<le> y \<Longrightarrow> sys_cx_bn_mod_pow_bn lib r a b m s =
      (if odd n then Inr (Inr (), put_bn s r (x ^ nat y mod n)) else Inr (Inl CX_INVALID_PARAMETER, s))"
  using s abs n neq
  by (simp_all add: sys_cx_bn_mod_add_def sys_cx_bn_mod_sub_def sys_cx_bn_mod_mul_def
      sys_cx_bn_mod_pow_bn_def cx_mpi_mod_add_def cx_mpi_mod_sub_def cx_mpi_mod_mul_def
      cx_mpi_mod_pow_def cx_mpi_is_odd_def op_store_def bn_run mod_add_eq mod_sub_eq mod_mul_eq mod_exp_eq is_odd_val
      word_unat_eq_iff)

end

section \<open>Bitwise operations\<close>

text \<open>
  The interface of the three bitwise operations: an operation on bytes and the operation on integers
  it implements, byte by byte; the bytes in front are combined with zeros.
\<close>

locale bytewise_op =
  fixes f :: "u8 \<Rightarrow> u8 \<Rightarrow> u8" and F :: "int \<Rightarrow> int \<Rightarrow> int" and front :: "bytes \<Rightarrow> bytes"
  assumes comm: "f a b = f b a"
    and byte: "uint (f a b) = F (uint a) (uint b)"
    and high: "drop_bit n (F x y) = F (drop_bit n x) (drop_bit n y)"
    and low: "take_bit n (F x y) = F (take_bit n x) (take_bit n y)"
    and front: "front bs = map2 f bs (replicate (length bs) 0)"
begin

lemma F_0 [simp]: "F 0 0 = 0"
  using low [of 0 0 0] by simp

lemma F_concat:
  fixes a b :: u8
  shows "F (256 * v + uint a) (256 * w + uint b) = 256 * F v w + F (uint a) (uint b)"
proof -
  have lt: "0 \<le> uint c" "uint c < 256" for c :: u8 using uint_bounded [of c] by simp_all
  have parts: "drop_bit 8 (256 * z + uint c) = z" "take_bit 8 (256 * z + uint c) = uint c" for z and c :: u8
    using lt [of c] by (simp_all add: drop_bit_eq_div take_bit_eq_mod)
  let ?l = "F (256 * v + uint a) (256 * w + uint b)"
  have "?l = push_bit 8 (drop_bit 8 ?l) + take_bit 8 ?l" by (simp only: bits_ident)
  then show ?thesis by (simp add: high low parts push_bit_eq_mult)
qed

lemma os2ip_map2: "length as = length bs \<Longrightarrow> os2ip (map2 f as bs) = F (os2ip as) (os2ip bs)"
proof (induction as arbitrary: bs rule: rev_induct)
  case (snoc a as)
  then obtain cs c where "bs = cs @ [c]" "length cs = length as" by (cases bs rule: rev_cases) auto
  then show ?case using snoc.IH [of cs] by (simp add: F_concat byte)
qed simp

lemma front_aligned:
  assumes "length bs \<le> length as"
  shows "(let j = length as - length bs in front (take j as) @ map2 f (drop j as) bs) =
    map2 f as (replicate (length as - length bs) 0 @ bs)"
proof -
  let ?j = "length as - length bs"
  have "map2 f as (replicate ?j 0 @ bs) =
      map2 f (take ?j as @ drop ?j as) (replicate ?j 0 @ bs)" by simp
  also have "\<dots> = map2 f (take ?j as) (replicate ?j 0) @ map2 f (drop ?j as) bs"
    by (subst zip_append) simp_all
  finally have eq: "map2 f as (replicate ?j 0 @ bs) =
      map2 f (take ?j as) (replicate ?j 0) @ map2 f (drop ?j as) bs" .
  have len: "length (take ?j as) = ?j" by simp
  show ?thesis unfolding Let_def front len eq by (rule refl)
qed

lemma map2_comm: "map2 f as bs = map2 f bs as"
  by (induction as bs rule: list_induct2') (simp_all add: comm)

lemma os2ip_bytewise: "os2ip (bytewise f front as bs) = F (os2ip as) (os2ip bs)"
proof (cases "length bs \<le> length as")
  case True
  then show ?thesis
    unfolding bytewise_def using os2ip_map2 [of as "replicate (length as - length bs) 0 @ bs"]
    by (simp add: front_aligned)
next
  case False
  then have l: "length as \<le> length bs" "\<not> length as \<ge> length bs" by simp_all
  have "bytewise f front as bs = map2 f bs (replicate (length bs - length as) 0 @ as)"
    unfolding bytewise_def using l by (simp add: front_aligned)
  then show ?thesis
    using os2ip_map2 [of "replicate (length bs - length as) 0 @ as" bs] l
    by (simp add: map2_comm [of bs])
qed

end

lemma map2_zeros:
  "(\<And>a. f a 0 = a) \<Longrightarrow> map2 f bs (replicate (length bs) 0) = bs"
  "(\<And>a. f a 0 = 0) \<Longrightarrow> map2 f bs (replicate (length bs) 0) = replicate (length bs) 0"
  by (induction bs) simp_all

interpretation xor_bytes: bytewise_op "(XOR)" "(XOR)" "\<lambda>bs. bs"
  by unfold_locales
    (simp_all add: xor.commute unsigned_xor_eq drop_bit_xor take_bit_xor map2_zeros)

interpretation or_bytes: bytewise_op "(OR)" "(OR)" "\<lambda>bs. bs"
  by unfold_locales
    (simp_all add: or.commute unsigned_or_eq drop_bit_or take_bit_or map2_zeros)

interpretation and_bytes: bytewise_op "(AND)" "(AND)" "\<lambda>bs. replicate (length bs) 0"
  by unfold_locales
    (simp_all add: and.commute unsigned_and_eq drop_bit_and take_bit_and map2_zeros)

context openssl_bn_total
begin

lemma logic_run:
  assumes "bytewise_op f F front"
    and "locked_inv s" "small_words s"
    and "bn_abs s a = Some x" "0 \<le> x" "byte_length x \<le> 2048" "bn_len lib s x \<le> 2048"
    and "bn_abs s b = Some y" "0 \<le> y" "byte_length y \<le> 2048" "bn_len lib s y \<le> 2048"
    and "bn_abs s r = Some z"
  shows "mpi_logic checked f front lib (unat r) (unat a) (unat b) s = Inr (Inr (), put_bn s r (F x y))"
proof -
  note px = pad_run [OF assms(2-7)] and py = pad_run [OF assms(2,3,8-11)]
  have "os2ip (bytewise f front (i2osp (bn_len lib s x) x) (i2osp (bn_len lib s y) y)) = F x y"
    using bytewise_op.os2ip_bytewise [OF assms(1)] px(2) py(2) assms(5,9) by simp
  then show ?thesis
    using assms(2,4,8,12) px(3) py(3)
    by (simp add: mpi_logic_def bn_run px(1) py(1) op_store_def bin2bn_eq)
qed

end

section \<open>The next prime\<close>

text \<open>
  What the loop looks for: the first number at an even distance above \<open>x\<close> that passes the test or
  outgrows the size \<open>k\<close>.
\<close>

definition next_prime_found :: "bn_lib \<Rightarrow> mpi_state \<Rightarrow> u32 \<Rightarrow> int \<Rightarrow> int \<Rightarrow> bool" where
  "next_prime_found lib s k x y \<longleftrightarrow> x < y \<and> even (y - x) \<and>
     (cx_mpi_nbytes lib s y \<le> k \<longrightarrow> BN_is_prime_ex lib y = Some True) \<and>
     (\<forall>u. x < u \<longrightarrow> u < y \<longrightarrow> even (u - x) \<longrightarrow> BN_is_prime_ex lib u = Some False)"

context openssl_bn_total
begin

text \<open>One turn of the loop, and the loop: the distance to the largest number of the size decreases.\<close>

lemma step_run:
  assumes "locked_inv s" and "bn_abs s a = Some x"
  shows "next_prime_step lib k (unat a) s =
    (let t = put_bn s a (x + 2) in
     if cx_mpi_nbytes lib s (x + 2) > k then Inr (Inl CX_OVERFLOW, t)
     else Inr (Inr (the (BN_is_prime_ex lib (x + 2))), t))"
proof -
  let ?t = "put_bn s a (x + 2)"
  have t: "locked_inv ?t" "bn_abs ?t a = Some (x + 2)"
    using locked_put [OF assms] bn_abs_put [OF assms] by simp_all
  obtain p where p: "BN_is_prime_ex lib (x + 2) = Some p" using is_prime_ok by blast
  show ?thesis
    using assms by (simp add: next_prime_step_def bn_run add_word_eq t p Let_def)
qed

lemma next_prime_loop_unfold:
  assumes "locked_inv s" and "bn_abs s a = Some x"
  shows "next_prime_loop lib k (unat a) s =
    (let t = put_bn s a (x + 2) in
     if cx_mpi_nbytes lib s (x + 2) > k then Some (Inr (Inl CX_OVERFLOW, t))
     else if the (BN_is_prime_ex lib (x + 2)) then Some (Inr (Inr (), t))
     else next_prime_loop lib k (unat a) t)"
  by (subst next_prime_loop.simps) (simp add: step_run [OF assms] Let_def)

lemma found_now:
  assumes "cx_mpi_nbytes lib s (x + 2) > k \<or> BN_is_prime_ex lib (x + 2) = Some True"
  shows "next_prime_found lib s k x (x + 2)"
proof -
  have "\<not> even (u - x)" if "x < u" "u < x + 2" for u
  proof -
    have "u = x + 1" using that by linarith
    then show ?thesis by simp
  qed
  then show ?thesis using assms by (auto simp: next_prime_found_def not_le)
qed

lemma found_later:
  assumes "BN_is_prime_ex lib (x + 2) = Some False" and "next_prime_found lib (put_bn s a v) k (x + 2) y"
  shows "next_prime_found lib s k x y"
proof -
  have "BN_is_prime_ex lib u = Some False" if "x < u" "u < y" "even (u - x)" for u
  proof (cases "u = x + 2")
    case False
    have "u \<noteq> x + 1" using that(3) by auto
    then have "x + 2 < u" using False that(1) by linarith
    moreover have "even (u - (x + 2))" using that(3) by (simp add: diff_diff_eq [symmetric])
    ultimately show ?thesis using assms(2) that(2) by (simp add: next_prime_found_def)
  qed (simp add: assms(1))
  moreover have "even (y - x)" using assms(2) by (simp add: next_prime_found_def diff_diff_eq [symmetric])
  ultimately show ?thesis using assms(2) by (simp add: next_prime_found_def)
qed

lemma next_prime_loop_returns:
  assumes "locked_inv s" and "small_words s" and "bn_abs s a = Some x" and "0 \<le> x"
    and "unat k \<le> 65000" and "x < 256 ^ unat k"
  shows "\<exists>y. next_prime_found lib s k x y \<and> next_prime_loop lib k (unat a) s =
      Some (Inr (if cx_mpi_nbytes lib s y \<le> k then Inr () else Inl CX_OVERFLOW, put_bn s a y))"
  using assms
proof (induction "nat (256 ^ unat k - x)" arbitrary: s x rule: less_induct)
  case less
  let ?y = "x + 2" and ?t = "put_bn s a (x + 2)"
  obtain p where p: "BN_is_prime_ex lib ?y = Some p" using is_prime_ok by blast
  note unfold = next_prime_loop_unfold [OF less.prems(1,3), of k]
  show ?case
  proof (cases "cx_mpi_nbytes lib s ?y > k \<or> p")
    case True
    then show ?thesis
      using found_now [of k s x] p unfold by (intro exI [of _ ?y]) (auto simp: Let_def not_le)
  next
    case False
    then have size: "cx_mpi_nbytes lib s ?y \<le> k" and np: "\<not> p" by auto
    have "byte_length x \<le> 65000"
      using less.prems(4-6) byte_length_le_iff [of x "unat k"] by simp
    moreover have "byte_length 2 \<le> 65000" using byte_length_le_iff [of 2 1] by simp
    ultimately have "byte_length ?y \<le> 65536" using byte_length_add [of x 65000 2] by simp
    then have "byte_length ?y \<le> unat k"
      using nbytes_bounds(1) [OF less.prems(1,2), of ?y] size by (simp add: word_le_nat_alt)
    then have y: "?y < 256 ^ unat k" using less.prems(4) byte_length_le_iff [of ?y "unat k"] by simp
    have t: "locked_inv ?t" "small_words ?t" "bn_abs ?t a = Some ?y"
      using locked_put [OF less.prems(1,3)] bn_abs_put [OF less.prems(1,3)] less.prems(2) by simp_all
    have "nat (256 ^ unat k - ?y) < nat (256 ^ unat k - x)" using y by simp
    then obtain z where z: "next_prime_found lib ?t k ?y z" "next_prime_loop lib k (unat a) ?t =
        Some (Inr (if cx_mpi_nbytes lib ?t z \<le> k then Inr () else Inl CX_OVERFLOW, put_bn ?t a z))"
      using less.hyps [of ?y ?t] t less.prems(4,5) y by auto
    then show ?thesis
      using unfold size np p found_later [of x s a ?y k z] by (intro exI [of _ z]) (simp add: Let_def not_less)
  qed
qed

lemma put_same:
  assumes "bn_abs s a = Some x"
  shows "put_bn s a x = s"
proof -
  have "(cx_mpi_array s ! unat a)\<lparr>slot_mpi := Some x\<rparr> = cx_mpi_array s ! unat a"
    using assms by (cases "cx_mpi_array s ! unat a") (simp add: bn_abs_def split: if_splits)
  then show ?thesis by (simp add: put_bn_def)
qed

lemma op_bind_ok: "op_bind m op_ok s = m s"
  by (simp add: op_bind_def op_ok_def split: sum.split prod.split)

lemma next_prime_returns:
  assumes "locked_inv s" and "small_words s" and "bn_abs s a = Some x" and "0 \<le> x"
    and "byte_length x \<le> 2048"
  shows "\<exists>y. next_prime_found lib s (cx_mpi_nbytes lib s (x OR 1)) (x OR 1) y \<and>
    sys_cx_bn_next_prime lib a s =
      Some (Inr (if cx_mpi_nbytes lib s y \<le> cx_mpi_nbytes lib s (x OR 1) then Inr ()
                 else Inl CX_OVERFLOW, put_bn s a y))"
proof -
  let ?x = "x OR 1" and ?t = "put_bn s a (x OR 1)"
  let ?k = "cx_mpi_nbytes lib s ?x"
  have odd: "odd x \<Longrightarrow> ?x = x" "even x \<Longrightarrow> ?x = x + 1" by (simp_all add: or_one_eq)
  have t: "locked_inv ?t" "small_words ?t" "bn_abs ?t a = Some ?x"
    using locked_put [OF assms(1,3)] bn_abs_put [OF assms(1,3)] assms(2) by simp_all
  have same: "odd x \<Longrightarrow> ?t = s" using put_same [OF assms(3)] odd by simp
  have "byte_length 1 \<le> 2048" using byte_length_le_iff [of 1 1] by simp
  then have le: "0 \<le> ?x" "byte_length ?x \<le> 2049"
    using byte_length_add [OF assms(5), of 1] odd assms(4,5) by (cases "odd x"; simp)+
  have k: "unat ?k \<le> 65000" "?x < 256 ^ unat ?k"
    using nbytes_bounds [OF assms(1,2), of ?x] le byte_length_le_iff [of ?x "unat ?k"] by simp_all
  have conv: "cx_bn_to_mpi a s = Inr (Inr (unat a), s)"
    using bind_convert(1) [OF assms(1,3), of op_ok] by (simp add: op_bind_ok op_ok_def)
  have size: "op_nbytes lib (unat a) ?t = Inr (Inr ?k, ?t)"
    using bind_nbytes [OF t(1,3), of lib op_ok] by (simp add: op_bind_ok op_ok_def)
  have run: "sys_cx_bn_next_prime lib a s = next_prime_loop lib ?k (unat a) ?t"
    using assms(1,3) odd same size
    by (cases "odd x") (simp_all add: sys_cx_bn_next_prime_def conv cx_mpi_next_prime_def
        cx_mpi_is_odd_def is_odd_val op_store_def add_word_eq bn_run)
  show ?thesis
    using next_prime_loop_returns [OF t le(1) k] by (simp add: run next_prime_found_def)
qed

end

end
