(* ===== verification/Bn_Theorems.thy ===== *)
theory Bn_Theorems
  imports Mpi_Calls
begin

text \<open>
  The contract of the big number system calls, one theorem per group of calls. A module is locked with
  a word size up to 2048 bytes, the handles lead to numbers of at most 2048 bytes, and the library
  satisfies its documentation; then each call updates the map from handles to numbers as stated.
\<close>

section \<open>The setting\<close>

definition bn_operand :: "bn_lib \<Rightarrow> mpi_state \<Rightarrow> cx_bn \<Rightarrow> int \<Rightarrow> bool" where
  "bn_operand lib s bn x \<longleftrightarrow>
     bn_abs s bn = Some x \<and> 0 \<le> x \<and> byte_length x \<le> 2048 \<and> bn_len lib s x \<le> 2048"

definition bn_ready :: "mpi_state \<Rightarrow> bool" where
  "bn_ready s \<longleftrightarrow> locked_inv s \<and> small_words s"

text \<open>
  An example module for the witnesses: four numbers of one word of 32 bytes.
\<close>

definition bn_example :: "int \<Rightarrow> int \<Rightarrow> int \<Rightarrow> int \<Rightarrow> mpi_state" where
  "bn_example w x y z = locked_example\<lparr>
     cx_mpi_array := map (\<lambda>v. \<lparr>slot_mpi = Some v, slot_size = 32\<rparr>) [w, x, y, z] @ replicate 60 empty_slot,
     mpi_words_count := 4, mpi_total_memory := 128\<rparr>"

lemma bn_example_ready: "bn_ready (bn_example w x y z)"
  by (simp add: bn_ready_def locked_inv_def small_words_def mpi_inv_def bn_example_def mpi_init_state_def
      slot_ok_def empty_slot_def MAX_MPI_ARRAY_ENTRIES_def used_memory_def list_all_iff sum_list_replicate)

lemma bn_example_abs:
  "bn_abs (bn_example w x y z) 0 = Some w" "bn_abs (bn_example w x y z) 1 = Some x"
  "bn_abs (bn_example w x y z) 2 = Some y" "bn_abs (bn_example w x y z) 3 = Some z"
  by (simp_all add: bn_abs_def bn_example_def bn_in_array_def MAX_MPI_ARRAY_ENTRIES_def)

lemma word_of_32:
  assumes "mpi_word_size s = 32" and "n \<le> 32"
  shows "unat (size_to_mpi_word_bytes s (size_to_mpi_bytes (of_nat n))) = 32"
proof -
  have "list_all (\<lambda>n. unat (let sz = size_to_mpi_bytes (of_nat n) in
      if sz = 0 then 32 else (sz + 31) div 32 * 32) = 32) [0..<33]"
    by code_simp
  then have "\<forall>n\<in>{0..<33}. unat (let sz = size_to_mpi_bytes (of_nat n) in
      if sz = 0 then 32 else (sz + 31) div 32 * 32) = 32"
    by (simp only: list_all_iff set_upt)
  moreover have "n \<in> {0..<33}" using assms(2) by simp
  ultimately have "unat (let sz = size_to_mpi_bytes (of_nat n) in
      if sz = 0 then 32 else (sz + 31) div 32 * 32) = 32" by (rule bspec)
  then show ?thesis using assms(1) by (auto simp: size_to_mpi_word_bytes_def Let_def split: if_splits)
qed

lemma bn_example_operand:
  assumes "bn_abs (bn_example w x y z) a = Some v" and "0 \<le> v" and "v < 256 ^ 32"
  shows "bn_operand bn_exact (bn_example w x y z) a v"
proof -
  have b: "byte_length v \<le> 32" using assms by (simp add: byte_length_le_iff)
  then have "bn_len bn_exact (bn_example w x y z) v = 32"
    by (simp add: bn_len_def cx_mpi_nbytes_def exact.num_bytes_val word_of_32 bn_example_def)
  then show ?thesis using assms b by (simp add: bn_operand_def)
qed

section \<open>Bytes in and out\<close>

text \<open>
  Property C27: a number that is set from a byte string and exported to a buffer of the same length
  comes back unchanged.
\<close>

theorem bn_init_export_roundtrip:
  assumes "openssl_bn_total lib" and "bn_ready s" and "bn_abs s a \<noteq> None"
    and "length bs \<le> 2048" and "bn_len lib s (os2ip bs) \<le> 2048" and "length dst = length bs"
  shows "op_bind (sys_cx_bn_init lib a bs (length bs)) (\<lambda>_. sys_cx_bn_export lib a dst (length bs)) s =
    Inr (Inr bs, put_bn s a (os2ip bs))"
proof -
  obtain x where s: "locked_inv s" "small_words s" "bn_abs s a = Some x"
    using assms(2,3) by (auto simp: bn_ready_def)
  let ?t = "put_bn s a (os2ip bs)"
  have t: "locked_inv ?t" "small_words ?t" "bn_abs ?t a = Some (os2ip bs)"
    using locked_put [OF s(1,3)] bn_abs_put [OF s(1,3)] s(2) by simp_all
  have "byte_length (os2ip bs) \<le> 2048" using byte_length_os2ip [of bs] assms(4) by simp
  then have "sys_cx_bn_export lib a dst (length bs) ?t = Inr (Inr bs, ?t)"
    using openssl_bn_total.export_run [OF assms(1) t] assms(5,6) by (simp add: bn_len_def)
  then show ?thesis
    using openssl_bn_total.init_run [OF assms(1) s(1,3), of "length bs" bs] by (simp add: op_bind_def)
qed

theorem bn_init_export_roundtrip_witness:
  "op_bind (sys_cx_bn_init bn_exact 1 [1, 2, 3] 3) (\<lambda>_. sys_cx_bn_export bn_exact 1 [0, 0, 0] 3)
     (bn_example 5 6 7 8) = Inr (Inr [1, 2, 3], put_bn (bn_example 5 6 7 8) 1 0x010203)"
proof -
  have v: "os2ip [1, 2, 3] = 0x010203" by (simp add: os2ip_def)
  have "byte_length 0x010203 \<le> 32" by (simp add: byte_length_le_iff)
  then have len: "bn_len bn_exact (bn_example 5 6 7 8) 0x010203 = 32"
    by (simp add: bn_len_def cx_mpi_nbytes_def exact.num_bytes_val word_of_32 bn_example_def)
  show ?thesis
    using bn_init_export_roundtrip [OF exact.openssl_bn_total_axioms bn_example_ready, of 5 6 7 8 1
        "[1, 2, 3]" "[0, 0, 0]"]
    by (simp add: bn_example_abs v len numeral_3_eq_3)
qed

section \<open>Arithmetic\<close>

text \<open>
  Property C20: addition with a result apart from the operands is exact. The result is the sum modulo
  the size of the larger operand, and \<open>CX_CARRY\<close> is returned exactly if the sum does not fit.
\<close>

theorem bn_add_exact:
  assumes "openssl_bn_total lib" and "bn_ready s" and "bn_operand lib s a x" and "bn_operand lib s b y"
    and "bn_abs s r \<noteq> None" and "r \<noteq> a" and "r \<noteq> b"
  shows "sys_cx_bn_add lib r a b s =
    (let len = max (bn_len lib s x) (bn_len lib s y) in
     if x + y < 256 ^ len then Inr (Inr (), put_bn s r (x + y))
     else Inr (Inl CX_CARRY, put_bn s r ((x + y) mod 256 ^ len)))"
  using openssl_bn_total.add_run [OF assms(1)] assms(2-) by (auto simp: bn_ready_def bn_operand_def)

theorem bn_add_exact_witness:
  "sys_cx_bn_add bn_exact 2 0 1 (bn_example (2 ^ 256 - 1) 6 0 0) =
     Inr (Inl CX_CARRY, put_bn (bn_example (2 ^ 256 - 1) 6 0 0) 2 5)"
proof -
  let ?s = "bn_example (2 ^ 256 - 1) 6 0 0"
  have op: "bn_operand bn_exact ?s 0 (2 ^ 256 - 1)" "bn_operand bn_exact ?s 1 6"
    by (rule bn_example_operand, simp_all add: bn_example_abs)+
  then have len: "bn_len bn_exact ?s (2 ^ 256 - 1) = 32" "bn_len bn_exact ?s 6 = 32"
    by (simp_all add: bn_len_def cx_mpi_nbytes_def exact.num_bytes_val word_of_32 bn_example_def
        byte_length_le_iff)
  show ?thesis
    using bn_add_exact [OF exact.openssl_bn_total_axioms bn_example_ready op, of 2]
    by (simp add: bn_example_abs len [simplified])
qed

text \<open>
  An addition into its first operand never reports a carry. The size test runs on the
  operands after the sum is stored, so the number grows past its size instead of wrapping around.
\<close>

theorem bn_add_in_place:
  assumes "openssl_bn_total lib" and "bn_ready s" and "bn_operand lib s a x" and "bn_operand lib s b y"
  shows "sys_cx_bn_add lib a a b s = Inr (Inr (), put_bn s a (x + y))"
  using openssl_bn_total.add_alias_run [OF assms(1)] assms(2-) by (auto simp: bn_ready_def bn_operand_def)

theorem bn_add_in_place_witness:
  "sys_cx_bn_add bn_exact 0 0 1 (bn_example (2 ^ 256 - 1) 6 0 0) =
     Inr (Inr (), put_bn (bn_example (2 ^ 256 - 1) 6 0 0) 0 (2 ^ 256 + 5))"
proof -
  let ?s = "bn_example (2 ^ 256 - 1) 6 0 0"
  have op: "bn_operand bn_exact ?s 0 (2 ^ 256 - 1)" "bn_operand bn_exact ?s 1 6"
    by (rule bn_example_operand, simp_all add: bn_example_abs)+
  show ?thesis
    using bn_add_in_place [OF exact.openssl_bn_total_axioms bn_example_ready op] by simp
qed

text \<open>
  Subtraction is exact when the result is not negative. Otherwise \<open>CX_CARRY\<close> is returned
  and the result is the difference modulo the size of its own absolute value, which can be smaller
  than the size of the operands.
\<close>

theorem bn_sub_exact:
  assumes "openssl_bn_total lib" and "bn_ready s" and "bn_operand lib s a x" and "bn_operand lib s b y"
    and "bn_abs s r \<noteq> None" and "r \<noteq> a" and "r \<noteq> b" and "bn_len lib s (y - x) \<le> 2048"
  shows "sys_cx_bn_sub lib r a b s =
    (if y \<le> x then Inr (Inr (), put_bn s r (x - y))
     else Inr (Inl CX_CARRY, put_bn s r ((x - y) mod 256 ^ bn_len lib s (y - x))))"
proof -
  have "(x - y) mod 256 ^ bn_len lib s (y - x) = 256 ^ bn_len lib s (y - x) - (y - x)" if "\<not> y \<le> x"
  proof -
    let ?m = "256 ^ bn_len lib s (y - x) :: int"
    have "byte_length (y - x) \<le> byte_length y"
      using that assms(3,4) by (intro byte_length_mono) (simp_all add: bn_operand_def)
    then have "byte_length (y - x) \<le> 65536" using assms(4) by (simp add: bn_operand_def)
    then have "byte_length (y - x) \<le> bn_len lib s (y - x)"
      using openssl_bn.bn_len_bounds(1) [OF openssl_bn_total.axioms(1) [OF assms(1)], of s "y - x"]
        assms(2) by (simp add: bn_ready_def)
    then have "y - x < ?m" using that by (simp add: byte_length_le_iff)
    then have "(x - y + ?m) mod ?m = x - y + ?m" using that by (intro mod_pos_pos_trivial) linarith+
    then show ?thesis by simp
  qed
  moreover obtain z where "bn_abs s r = Some z" using assms(5) by auto
  then have "sys_cx_bn_sub lib r a b s =
      (if y \<le> x then Inr (Inr (), put_bn s r (x - y))
       else Inr (Inl CX_CARRY, put_bn s r (256 ^ bn_len lib s (y - x) - (y - x))))"
    using openssl_bn_total.sub_run [OF assms(1)] assms(2-4,6-) by (simp add: bn_ready_def bn_operand_def)
  ultimately show ?thesis by simp
qed

theorem bn_sub_exact_witness:
  "sys_cx_bn_sub bn_exact 2 0 1 (bn_example 5 6 0 0) =
     Inr (Inl CX_CARRY, put_bn (bn_example 5 6 0 0) 2 (2 ^ 256 - 1))"
proof -
  let ?s = "bn_example 5 6 0 0"
  have op: "bn_operand bn_exact ?s 0 5" "bn_operand bn_exact ?s 1 6"
    by (rule bn_example_operand, simp_all add: bn_example_abs)+
  have "byte_length 1 \<le> 32" by (simp add: byte_length_le_iff)
  then have len: "bn_len bn_exact ?s 1 = 32"
    by (simp add: bn_len_def cx_mpi_nbytes_def exact.num_bytes_val word_of_32 bn_example_def)
  show ?thesis
    using bn_sub_exact [OF exact.openssl_bn_total_axioms bn_example_ready op, of 2]
    by (simp add: bn_example_abs len)
qed

text \<open>
  Comparison. For numbers of the same size the sign of the result is the sign of the
  difference; for numbers of different sizes the result is always negative.
\<close>

theorem bn_cmp_sign:
  assumes "openssl_bn_total lib" and "bn_ready s" and "bn_operand lib s a x" and "bn_operand lib s b y"
  shows "\<exists>d. sys_cx_bn_cmp lib a b s = Inr (Inr d, s) \<and>
    (if bn_len lib s x = bn_len lib s y then sgn d = sgn (x - y) else d = - 1)"
proof -
  let ?m = "bn_len lib s x" and ?n = "bn_len lib s y"
  have pad: "x < 256 ^ ?m" "y < 256 ^ ?n"
    using openssl_bn_total.pad_run(2) [OF assms(1)] assms(2-) by (auto simp: bn_ready_def bn_operand_def)
  have run: "sys_cx_bn_cmp lib a b s =
      Inr (Inr (if ?m = ?n then memcmp (i2osp ?m x) (i2osp ?n y) else - 1), s)"
    using openssl_bn_total.cmp_run [OF assms(1)] assms(2-) by (simp add: bn_ready_def bn_operand_def)
  have "sgn (memcmp (i2osp ?m x) (i2osp ?n y)) = sgn (x - y)" if "?m = ?n"
  proof -
    have "0 \<le> x" "0 \<le> y" using assms(3,4) by (simp_all add: bn_operand_def)
    then have "memcmp (i2osp ?m x) (i2osp ?n y) < 0 \<longleftrightarrow> x < y" "memcmp (i2osp ?m x) (i2osp ?n y) = 0 \<longleftrightarrow> x = y"
      using memcmp_sign [of "i2osp ?m x" "i2osp ?n y"] that pad by simp_all
    then show ?thesis by (auto simp: sgn_if)
  qed
  then show ?thesis using run by simp
qed

theorem bn_cmp_sign_witness:
  "\<exists>d. sys_cx_bn_cmp bn_exact 0 1 (bn_example (2 ^ 255) 6 0 0) = Inr (Inr d, bn_example (2 ^ 255) 6 0 0) \<and>
    sgn d = 1"
proof -
  let ?s = "bn_example (2 ^ 255) 6 0 0"
  have op: "bn_operand bn_exact ?s 0 (2 ^ 255)" "bn_operand bn_exact ?s 1 6"
    by (rule bn_example_operand, simp_all add: bn_example_abs)+
  have "byte_length (2 ^ 255) \<le> 32" "byte_length 6 \<le> 32" by (simp_all add: byte_length_le_iff)
  then have "bn_len bn_exact ?s (2 ^ 255) = 32" "bn_len bn_exact ?s 6 = 32"
    by (simp_all add: bn_len_def cx_mpi_nbytes_def exact.num_bytes_val word_of_32 bn_example_def)
  then show ?thesis
    using bn_cmp_sign [OF exact.openssl_bn_total_axioms bn_example_ready op] by simp
qed

section \<open>Modular arithmetic\<close>

text \<open>
  Property C28: the modular operations. For a positive modulus \<open>n\<close>, an exponent that is not
  negative, and a result that is another number than the modulus (it may be an operand), sum,
  difference, product and power are those of the integers modulo \<open>n\<close>; product and power are
  refused, with the state unchanged, if \<open>n\<close> is even.
\<close>

theorem bn_mod_operations:
  assumes "openssl_bn_total lib" and "locked_inv s"
    and "bn_abs s a = Some x" and "bn_abs s b = Some y" and "bn_abs s m = Some n"
    and "bn_abs s r \<noteq> None" and "r \<noteq> m" and "0 < n" and "0 \<le> y"
  shows "sys_cx_bn_mod_add lib r a b m s = Inr (Inr (), put_bn s r ((x + y) mod n)) \<and>
    sys_cx_bn_mod_sub lib r a b m s = Inr (Inr (), put_bn s r ((x - y) mod n)) \<and>
    sys_cx_bn_mod_mul lib r a b m s =
      (if odd n then Inr (Inr (), put_bn s r (x * y mod n))
       else Inr (Inl CX_INVALID_PARAMETER_VALUE, s)) \<and>
    sys_cx_bn_mod_pow_bn lib r a b m s =
      (if odd n then Inr (Inr (), put_bn s r (x ^ nat y mod n))
       else Inr (Inl CX_INVALID_PARAMETER, s))"
proof -
  obtain z where "bn_abs s r = Some z" using assms(6) by auto
  note run = openssl_bn_total.mod_run [OF assms(1,2,3,4,5) this assms(8,7)]
  show ?thesis using run assms(9) by simp
qed

theorem bn_mod_operations_witness:
  "sys_cx_bn_mod_add bn_exact 2 0 1 3 (bn_example 9 5 0 11) =
     Inr (Inr (), put_bn (bn_example 9 5 0 11) 2 3) \<and>
   sys_cx_bn_mod_sub bn_exact 2 0 1 3 (bn_example 9 5 0 11) =
     Inr (Inr (), put_bn (bn_example 9 5 0 11) 2 4) \<and>
   sys_cx_bn_mod_mul bn_exact 2 0 1 3 (bn_example 9 5 0 11) =
     Inr (Inr (), put_bn (bn_example 9 5 0 11) 2 1) \<and>
   sys_cx_bn_mod_pow_bn bn_exact 2 0 1 3 (bn_example 9 5 0 11) =
     Inr (Inr (), put_bn (bn_example 9 5 0 11) 2 1)"
proof -
  let ?s = "bn_example 9 5 0 11"
  have "locked_inv ?s" using bn_example_ready by (simp add: bn_ready_def)
  from bn_mod_operations [OF exact.openssl_bn_total_axioms this bn_example_abs(1,2,4), of 2]
  show ?thesis by (simp add: bn_example_abs)
qed

section \<open>Bitwise operations\<close>

text \<open>
  \<open>xor\<close>, \<open>or\<close> and \<open>and\<close>, which work on byte strings of different lengths aligned at
  their ends, are the operations on the binary digits of the numbers.
\<close>

theorem bn_bitwise_operations:
  assumes "openssl_bn_total lib" and "bn_ready s" and "bn_operand lib s a x" and "bn_operand lib s b y"
    and "bn_abs s r \<noteq> None"
  shows "sys_cx_bn_xor lib r a b s = Inr (Inr (), put_bn s r (x XOR y)) \<and>
    sys_cx_bn_or lib r a b s = Inr (Inr (), put_bn s r (x OR y)) \<and>
    sys_cx_bn_and lib r a b s = Inr (Inr (), put_bn s r (x AND y))"
proof -
  obtain z where r: "bn_abs s r = Some z" using assms(5) by auto
  have s: "locked_inv s" "small_words s" using assms(2) by (simp_all add: bn_ready_def)
  have x: "bn_abs s a = Some x" "0 \<le> x" "byte_length x \<le> 2048" "bn_len lib s x \<le> 2048"
    and y: "bn_abs s b = Some y" "0 \<le> y" "byte_length y \<le> 2048" "bn_len lib s y \<le> 2048"
    using assms(3,4) by (simp_all add: bn_operand_def)
  note run = openssl_bn_total.logic_run [OF assms(1) _ s x y r]
  show ?thesis
    using run [OF xor_bytes.bytewise_op_axioms] run [OF or_bytes.bytewise_op_axioms]
      run [OF and_bytes.bytewise_op_axioms] s(1) x(1) y(1) r
    by (simp add: sys_cx_bn_xor_def sys_cx_bn_or_def sys_cx_bn_and_def cx_mpi_xor_def cx_mpi_or_def
        cx_mpi_and_def bind_convert)
qed

theorem bn_bitwise_operations_witness:
  "sys_cx_bn_xor bn_exact 2 0 1 (bn_example 6 3 0 0) = Inr (Inr (), put_bn (bn_example 6 3 0 0) 2 5) \<and>
   sys_cx_bn_or bn_exact 2 0 1 (bn_example 6 3 0 0) = Inr (Inr (), put_bn (bn_example 6 3 0 0) 2 7) \<and>
   sys_cx_bn_and bn_exact 2 0 1 (bn_example 6 3 0 0) = Inr (Inr (), put_bn (bn_example 6 3 0 0) 2 2)"
proof -
  let ?s = "bn_example 6 3 0 0"
  have op: "bn_operand bn_exact ?s 0 6" "bn_operand bn_exact ?s 1 3"
    by (rule bn_example_operand, simp_all add: bn_example_abs)+
  show ?thesis
    using bn_bitwise_operations [OF exact.openssl_bn_total_axioms bn_example_ready op, of 2]
    by (simp add: bn_example_abs)
qed

section \<open>The next prime\<close>

text \<open>
  Property C24: the search for the next prime ends. It returns the first number above \<open>x\<close>, or above
  \<open>x + 1\<close> when \<open>x\<close> is even, at an even distance, that passes the primality test, or stops with
  \<open>CX_OVERFLOW\<close> at the first such number that is longer than \<open>x\<close>. For an even \<open>x\<close> the candidate
  \<open>x + 1\<close> is never tested.
\<close>

theorem bn_next_prime_terminates:
  assumes "openssl_bn_total lib" and "bn_ready s" and "bn_operand lib s a x"
  shows "\<exists>y. next_prime_found lib s (cx_mpi_nbytes lib s (x OR 1)) (x OR 1) y \<and>
    sys_cx_bn_next_prime lib a s =
      Some (Inr (if cx_mpi_nbytes lib s y \<le> cx_mpi_nbytes lib s (x OR 1) then Inr ()
                 else Inl CX_OVERFLOW, put_bn s a y))"
  using openssl_bn_total.next_prime_returns [OF assms(1)] assms(2,3)
  by (simp add: bn_ready_def bn_operand_def)

theorem bn_next_prime_terminates_witness:
  "sys_cx_bn_next_prime bn_exact 0 (bn_example 4 0 0 0) =
     Some (Inr (Inr (), put_bn (bn_example 4 0 0 0) 0 7))"
proof -
  let ?s = "bn_example 4 0 0 0" and ?k = "cx_mpi_nbytes bn_exact (bn_example 4 0 0 0) 5"
  have op: "bn_operand bn_exact ?s 0 4" by (rule bn_example_operand) (simp_all add: bn_example_abs)
  have "(4 :: int) OR 1 = 5" by simp
  then obtain y where y: "next_prime_found bn_exact ?s ?k 5 y"
      "sys_cx_bn_next_prime bn_exact 0 ?s =
        Some (Inr (if cx_mpi_nbytes bn_exact ?s y \<le> ?k then Inr () else Inl CX_OVERFLOW, put_bn ?s 0 y))"
    using bn_next_prime_terminates [OF exact.openssl_bn_total_axioms bn_example_ready op] by auto
  have "bn_prime 7" by code_simp
  then have "BN_is_prime_ex bn_exact 7 = Some True" by (simp add: bn_exact_def)
  then have "\<not> 7 < y" using y(1) by (auto simp: next_prime_found_def)
  moreover have "5 < y" "even (y - 5)" using y(1) by (simp_all add: next_prime_found_def)
  ultimately have "y = 7" by presburger
  moreover have "cx_mpi_nbytes bn_exact ?s v = 32" if "byte_length v \<le> 32" for v
    using word_of_32 [of ?s "byte_length v"] that
    by (simp add: cx_mpi_nbytes_def exact.num_bytes_val bn_example_def word_unat_eqI)
  moreover have "byte_length 5 \<le> 32" "byte_length 7 \<le> 32" by (simp_all add: byte_length_le_iff)
  ultimately show ?thesis using y(2) by simp
qed

section \<open>Memory\<close>

text \<open>Everything but allocation and release leaves the memory count alone.\<close>

definition same_memory :: "'a mpi_op \<Rightarrow> bool" where
  "same_memory m \<longleftrightarrow> (\<forall>s r s'. m s = Inr (r, s') \<longrightarrow> mpi_total_memory s' = mpi_total_memory s)"

named_theorems memory \<open>operations that keep the memory count\<close>

lemma same_memoryD: "same_memory m \<Longrightarrow> m s = Inr (r, s') \<Longrightarrow> mpi_total_memory s' = mpi_total_memory s"
  by (auto simp: same_memory_def)

lemma same_memory_basic [memory]:
  "same_memory (op_ok x)" "same_memory (op_err e)" "same_memory op_crash" "same_memory (op_get p)"
  "same_memory (op_put p v)" "same_memory (op_opt e w)" "same_memory cx_bn_locked"
  by (auto simp: same_memory_def op_ok_def op_err_def op_crash_def op_get_def op_put_def op_opt_def
      cx_bn_locked_def split: if_splits option.splits)

lemma same_memory_bind [memory]:
  assumes "same_memory m" and "\<And>x. same_memory (f x)"
  shows "same_memory (op_bind m f)"
  unfolding same_memory_def
proof (intro allI impI)
  fix s r s' assume run: "op_bind m f s = Inr (r, s')"
  then obtain q t where q: "m s = Inr (q, t)" by (auto simp: op_bind_def split: sum.splits)
  show "mpi_total_memory s' = mpi_total_memory s"
    using run q same_memoryD [OF assms(1) q] same_memoryD [OF assms(2)]
    by (cases q) (auto simp: op_bind_def)
qed

lemma same_memory_if [memory]: "same_memory m \<Longrightarrow> same_memory m' \<Longrightarrow> same_memory (if P then m else m')"
  by simp

lemma same_memory_bns [memory]: "same_memory (bns_to_mpi bns)"
  unfolding bns_to_mpi_def
  by (intro memory) (auto simp: same_memory_def op_ok_def op_err_def split: if_splits)

lemma same_memory_sum [memory]:
  "(\<And>x. same_memory (f x)) \<Longrightarrow> (\<And>x. same_memory (g x)) \<Longrightarrow>
   same_memory (case v of Inl x \<Rightarrow> f x | Inr x \<Rightarrow> g x)"
  by (cases v) auto

lemma same_memory_prod [memory]: "(\<And>x y. same_memory (f x y)) \<Longrightarrow> same_memory (case v of (x, y) \<Rightarrow> f x y)"
  by (cases v) auto

lemma same_memory_calls [memory]:
  "same_memory (cx_bn_to_mpi a)" "same_memory (cx_bn_rabm_to_mpi r a b m)"
  "same_memory (sys_cx_bn_init lib a bs n)" "same_memory (cx_mpi_mod_pow lib p q u v)"
  unfolding cx_bn_to_mpi_def cx_bn_rabm_to_mpi_def sys_cx_bn_init_def cx_mpi_init_def
    cx_mpi_mod_pow_def cx_mpi_is_odd_def op_store_def
  by (intro memory)+

lemma bind_Inr_cases:
  assumes "op_bind m f s = Inr (Inr x, s')"
  obtains y t where "m s = Inr (Inr y, t)" and "f y t = Inr (Inr x, s')"
  using assms by (auto simp: op_bind_def split: sum.splits prod.splits)

lemma alloc_memory:
  assumes "sys_cx_bn_alloc lib sz s = Inr (Inr bn, s')"
  shows "mpi_total_memory s' = mpi_total_memory s + size_to_mpi_word_bytes s sz"
proof -
  obtain t where "cx_bn_locked s = Inr (Inr (), t)"
    and m: "op_bind (cx_mpi_alloc lib sz) (\<lambda>(x, bn_x).
       case x of None \<Rightarrow> op_err CX_MEMORY_FULL | Some _ \<Rightarrow> op_ok bn_x) t = Inr (Inr bn, s')"
    using assms unfolding sys_cx_bn_alloc_def by (auto elim: bind_Inr_cases)
  then have "t = s" by (auto simp: cx_bn_locked_def op_ok_def op_err_def split: if_splits)
  with m show ?thesis
    by (auto elim!: bind_Inr_cases simp: cx_mpi_alloc_def Let_def op_ok_def op_err_def take_slot_def
        split: if_splits option.splits)
qed

text \<open>
  The power with an exponent in bytes loses memory. The number allocated for the exponent
  is not released: a call that succeeds leaves the memory in use larger by one number.
\<close>

theorem bn_mod_pow_leaks:
  assumes "sys_cx_bn_mod_pow lib r a e len m s = Inr (Inr (), s')"
  shows "mpi_total_memory s' =
    mpi_total_memory s + size_to_mpi_word_bytes s (cx_get_bn_size s)"
proof -
  let ?rest = "\<lambda>bn_e. op_bind (cx_bn_rabm_to_mpi r a bn_e m) (\<lambda>(r, a, e, n). cx_mpi_mod_pow lib r a e n)"
  have "op_bind (sys_cx_bn_alloc lib (cx_get_bn_size s))
      (\<lambda>bn. op_bind (sys_cx_bn_init lib bn e len) (\<lambda>_. ?rest bn)) s = Inr (Inr (), s')"
    using assms unfolding sys_cx_bn_mod_pow_def sys_cx_bn_alloc_init_def op_bind_basic op_bind_assoc .
  then obtain bn t where 1: "sys_cx_bn_alloc lib (cx_get_bn_size s) s = Inr (Inr bn, t)"
    and "op_bind (sys_cx_bn_init lib bn e len) (\<lambda>_. ?rest bn) t = Inr (Inr (), s')"
    by (rule bind_Inr_cases)
  then obtain u where 2: "sys_cx_bn_init lib bn e len t = Inr (Inr (), u)"
    and 3: "?rest bn u = Inr (Inr (), s')"
    by (auto elim: bind_Inr_cases [of "sys_cx_bn_init lib bn e len"])
  have "same_memory (?rest bn)" by (intro memory)
  from same_memoryD [OF this 3] show ?thesis
    using alloc_memory [OF 1] same_memoryD [OF same_memory_calls(3) 2] by simp
qed

theorem bn_mod_pow_leaks_witness:
  "\<exists>s'. sys_cx_bn_mod_pow bn_exact 2 0 [3] 1 1 (bn_example 2 7 0 0) = Inr (Inr (), s') \<and>
     mpi_total_memory s' = 160"
proof -
  let ?s = "bn_example 2 7 0 0"
  have "case sys_cx_bn_mod_pow bn_exact 2 0 [3] 1 1 ?s of Inr (Inr (), s') \<Rightarrow> True | _ \<Rightarrow> False"
    by code_simp
  then obtain s' where run: "sys_cx_bn_mod_pow bn_exact 2 0 [3] 1 1 ?s = Inr (Inr (), s')"
    by (auto split: sum.splits prod.splits)
  moreover have "mpi_total_memory s' = 160"
    using bn_mod_pow_leaks [OF run]
    by (simp add: cx_get_bn_size_def size_to_mpi_word_bytes_def bn_example_def)
  ultimately show ?thesis by blast
qed

text \<open>
  The limit on the memory is checked on a sum of 32 bits, so a request close to \<open>2 ^ 32\<close> passes once
  some memory is in use.
\<close>

lemma alloc_limit_wraps:
  "case sys_cx_bn_alloc bn_exact 0xFFFFFFE0 (bn_example 0 0 0 0) of
     Inr (Inr bn, s') \<Rightarrow> bn = 4 \<and> slot_size (cx_mpi_array s' ! 4) = 0xFFFFFFE0 | _ \<Rightarrow> False"
  by code_simp

end
