(* ===== verification/Cx_Curve25519.thy ===== *)
theory Cx_Curve25519
  imports Big_Endian
begin

text \<open>
  Scalar multiplication on Curve25519, \<open>src/bolos/cx_curve25519.c\<close>. A field element is an array of
  ten signed 32-bit limbs of alternately 26 and 25 bits. Signed integers are words read with
  \<open>sint\<close>; the right shift of a signed integer is \<open>signed_drop_bit\<close>, and a conversion between widths
  is \<open>scast\<close>.
\<close>

section \<open>Field elements\<close>

type_synonym i32 = "32 word"
type_synonym i64 = "64 word"

datatype fe = Fe i32 i32 i32 i32 i32 i32 i32 i32 i32 i32

definition kBottom25Bits :: i64 where "kBottom25Bits = 0x1ffffff"
definition kBottom26Bits :: i64 where "kBottom26Bits = 0x3ffffff"
definition kTop39Bits :: i64 where "kTop39Bits = 0xfffffffffe000000"
definition kTop38Bits :: i64 where "kTop38Bits = 0xfffffffffc000000"

definition load_3 :: "bytes \<Rightarrow> u64" where
  "load_3 s = ucast (s ! 0) OR push_bit 8 (ucast (s ! 1)) OR push_bit 16 (ucast (s ! 2))"

definition load_4 :: "bytes \<Rightarrow> u64" where
  "load_4 s = ucast (s ! 0) OR push_bit 8 (ucast (s ! 1)) OR push_bit 16 (ucast (s ! 2)) OR
     push_bit 24 (ucast (s ! 3))"

text \<open>
  The carries: a limb of 26 or 25 bits is made small and the rest is added to the next limb, which
  for the last limb is the first one, 19 times.
\<close>

definition carry26 :: "i64 \<Rightarrow> i64 \<Rightarrow> i64 \<times> i64" where
  "carry26 h k = (let carry = h + push_bit 25 1 in
     (h - (carry AND kTop38Bits), k + signed_drop_bit 26 carry))"

definition carry25 :: "i64 \<Rightarrow> i64 \<Rightarrow> i64 \<times> i64" where
  "carry25 h k = (let carry = h + push_bit 24 1 in
     (h - (carry AND kTop39Bits), k + signed_drop_bit 25 carry))"

definition carry25_19 :: "i64 \<Rightarrow> i64 \<Rightarrow> i64 \<times> i64" where
  "carry25_19 h k = (let carry = h + push_bit 24 1 in
     (h - (carry AND kTop39Bits), k + signed_drop_bit 25 carry * 19))"

text \<open>The carries of \<open>fe_frombytes\<close> and \<open>fe_mul121666\<close>, and those of \<open>fe_mul\<close> and \<open>fe_sq\<close>.\<close>

definition fe_carry :: "i64 \<Rightarrow> i64 \<Rightarrow> i64 \<Rightarrow> i64 \<Rightarrow> i64 \<Rightarrow> i64 \<Rightarrow> i64 \<Rightarrow> i64 \<Rightarrow> i64 \<Rightarrow> i64 \<Rightarrow> fe" where
  "fe_carry h0 h1 h2 h3 h4 h5 h6 h7 h8 h9 =
     (let (h9, h0) = carry25_19 h9 h0;
          (h1, h2) = carry25 h1 h2; (h3, h4) = carry25 h3 h4;
          (h5, h6) = carry25 h5 h6; (h7, h8) = carry25 h7 h8;
          (h0, h1) = carry26 h0 h1; (h2, h3) = carry26 h2 h3; (h4, h5) = carry26 h4 h5;
          (h6, h7) = carry26 h6 h7; (h8, h9) = carry26 h8 h9
      in Fe (scast h0) (scast h1) (scast h2) (scast h3) (scast h4)
            (scast h5) (scast h6) (scast h7) (scast h8) (scast h9))"

definition fe_reduce :: "i64 \<Rightarrow> i64 \<Rightarrow> i64 \<Rightarrow> i64 \<Rightarrow> i64 \<Rightarrow> i64 \<Rightarrow> i64 \<Rightarrow> i64 \<Rightarrow> i64 \<Rightarrow> i64 \<Rightarrow> fe" where
  "fe_reduce h0 h1 h2 h3 h4 h5 h6 h7 h8 h9 =
     (let (h0, h1) = carry26 h0 h1; (h4, h5) = carry26 h4 h5;
          (h1, h2) = carry25 h1 h2; (h5, h6) = carry25 h5 h6;
          (h2, h3) = carry26 h2 h3; (h6, h7) = carry26 h6 h7;
          (h3, h4) = carry25 h3 h4; (h7, h8) = carry25 h7 h8;
          (h4, h5) = carry26 h4 h5; (h8, h9) = carry26 h8 h9;
          (h9, h0) = carry25_19 h9 h0; (h0, h1) = carry26 h0 h1
      in Fe (scast h0) (scast h1) (scast h2) (scast h3) (scast h4)
            (scast h5) (scast h6) (scast h7) (scast h8) (scast h9))"

definition fe_frombytes :: "bytes \<Rightarrow> fe" where
  "fe_frombytes s = fe_carry
     (load_4 s)
     (push_bit 6 (load_3 (drop 4 s)))
     (push_bit 5 (load_3 (drop 7 s)))
     (push_bit 3 (load_3 (drop 10 s)))
     (push_bit 2 (load_3 (drop 13 s)))
     (load_4 (drop 16 s))
     (push_bit 7 (load_3 (drop 20 s)))
     (push_bit 5 (load_3 (drop 23 s)))
     (push_bit 4 (load_3 (drop 26 s)))
     (push_bit 2 (load_3 (drop 29 s) AND 8388607))"

section \<open>Encoding\<close>

definition tobytes_q :: "fe \<Rightarrow> i32" where
  "tobytes_q h = (case h of Fe h0 h1 h2 h3 h4 h5 h6 h7 h8 h9 \<Rightarrow>
     let q = signed_drop_bit 25 (19 * h9 + push_bit 24 1);
         q = signed_drop_bit 26 (h0 + q);
         q = signed_drop_bit 25 (h1 + q);
         q = signed_drop_bit 26 (h2 + q);
         q = signed_drop_bit 25 (h3 + q);
         q = signed_drop_bit 26 (h4 + q);
         q = signed_drop_bit 25 (h5 + q);
         q = signed_drop_bit 26 (h6 + q);
         q = signed_drop_bit 25 (h7 + q);
         q = signed_drop_bit 26 (h8 + q)
     in signed_drop_bit 25 (h9 + q))"

text \<open>The masks of the carries of \<open>fe_tobytes\<close> are 64-bit constants, the limbs 32 bits wide.\<close>

definition low26 :: "i32 \<Rightarrow> i32" where
  "low26 h = scast (scast h AND kBottom26Bits)"

definition low25 :: "i32 \<Rightarrow> i32" where
  "low25 h = scast (scast h AND kBottom25Bits)"

definition tobytes_carry :: "i32 \<Rightarrow> fe \<Rightarrow> fe" where
  "tobytes_carry q h = (case h of Fe h0 h1 h2 h3 h4 h5 h6 h7 h8 h9 \<Rightarrow>
     let h0 = h0 + 19 * q;
         h1 = h1 + signed_drop_bit 26 h0; h0 = low26 h0;
         h2 = h2 + signed_drop_bit 25 h1; h1 = low25 h1;
         h3 = h3 + signed_drop_bit 26 h2; h2 = low26 h2;
         h4 = h4 + signed_drop_bit 25 h3; h3 = low25 h3;
         h5 = h5 + signed_drop_bit 26 h4; h4 = low26 h4;
         h6 = h6 + signed_drop_bit 25 h5; h5 = low25 h5;
         h7 = h7 + signed_drop_bit 26 h6; h6 = low26 h6;
         h8 = h8 + signed_drop_bit 25 h7; h7 = low25 h7;
         h9 = h9 + signed_drop_bit 26 h8; h8 = low26 h8;
         h9 = low25 h9
     in Fe h0 h1 h2 h3 h4 h5 h6 h7 h8 h9)"

definition tobytes_pack :: "fe \<Rightarrow> bytes" where
  "tobytes_pack h = (case h of Fe h0 h1 h2 h3 h4 h5 h6 h7 h8 h9 \<Rightarrow>
     [ucast (signed_drop_bit 0 h0), ucast (signed_drop_bit 8 h0), ucast (signed_drop_bit 16 h0),
      ucast (signed_drop_bit 24 h0 OR push_bit 2 h1),
      ucast (signed_drop_bit 6 h1), ucast (signed_drop_bit 14 h1),
      ucast (signed_drop_bit 22 h1 OR push_bit 3 h2),
      ucast (signed_drop_bit 5 h2), ucast (signed_drop_bit 13 h2),
      ucast (signed_drop_bit 21 h2 OR push_bit 5 h3),
      ucast (signed_drop_bit 3 h3), ucast (signed_drop_bit 11 h3),
      ucast (signed_drop_bit 19 h3 OR push_bit 6 h4),
      ucast (signed_drop_bit 2 h4), ucast (signed_drop_bit 10 h4), ucast (signed_drop_bit 18 h4),
      ucast (signed_drop_bit 0 h5), ucast (signed_drop_bit 8 h5), ucast (signed_drop_bit 16 h5),
      ucast (signed_drop_bit 24 h5 OR push_bit 1 h6),
      ucast (signed_drop_bit 7 h6), ucast (signed_drop_bit 15 h6),
      ucast (signed_drop_bit 23 h6 OR push_bit 3 h7),
      ucast (signed_drop_bit 5 h7), ucast (signed_drop_bit 13 h7),
      ucast (signed_drop_bit 21 h7 OR push_bit 4 h8),
      ucast (signed_drop_bit 4 h8), ucast (signed_drop_bit 12 h8),
      ucast (signed_drop_bit 20 h8 OR push_bit 6 h9),
      ucast (signed_drop_bit 2 h9), ucast (signed_drop_bit 10 h9), ucast (signed_drop_bit 18 h9)])"

definition fe_tobytes :: "fe \<Rightarrow> bytes" where
  "fe_tobytes h = tobytes_pack (tobytes_carry (tobytes_q h) h)"

section \<open>Arithmetic\<close>

definition fe_0 :: fe where
  "fe_0 = Fe 0 0 0 0 0 0 0 0 0 0"

definition fe_1 :: fe where
  "fe_1 = Fe 1 0 0 0 0 0 0 0 0 0"

definition fe_add :: "fe \<Rightarrow> fe \<Rightarrow> fe" where
  "fe_add f g = (case f of Fe f0 f1 f2 f3 f4 f5 f6 f7 f8 f9 \<Rightarrow> case g of Fe g0 g1 g2 g3 g4 g5 g6 g7 g8 g9 \<Rightarrow>
     Fe (f0 + g0) (f1 + g1) (f2 + g2) (f3 + g3) (f4 + g4) (f5 + g5) (f6 + g6) (f7 + g7) (f8 + g8) (f9 + g9))"

definition fe_sub :: "fe \<Rightarrow> fe \<Rightarrow> fe" where
  "fe_sub f g = (case f of Fe f0 f1 f2 f3 f4 f5 f6 f7 f8 f9 \<Rightarrow> case g of Fe g0 g1 g2 g3 g4 g5 g6 g7 g8 g9 \<Rightarrow>
     Fe (f0 - g0) (f1 - g1) (f2 - g2) (f3 - g3) (f4 - g4) (f5 - g5) (f6 - g6) (f7 - g7) (f8 - g8) (f9 - g9))"

text \<open>The product of two 32-bit integers in 64 bits.\<close>

definition smul :: "i32 \<Rightarrow> i32 \<Rightarrow> i64" where
  "smul a b = scast a * scast b"

definition fe_mul :: "fe \<Rightarrow> fe \<Rightarrow> fe" where
  "fe_mul f g = (case f of Fe f0 f1 f2 f3 f4 f5 f6 f7 f8 f9 \<Rightarrow> case g of Fe g0 g1 g2 g3 g4 g5 g6 g7 g8 g9 \<Rightarrow>
     (let g1_19 = 19 * g1; g2_19 = 19 * g2; g3_19 = 19 * g3; g4_19 = 19 * g4;
          g5_19 = 19 * g5; g6_19 = 19 * g6; g7_19 = 19 * g7; g8_19 = 19 * g8;
          g9_19 = 19 * g9; f1_2 = 2 * f1; f3_2 = 2 * f3; f5_2 = 2 * f5;
          f7_2 = 2 * f7; f9_2 = 2 * f9 in
      fe_reduce
        (smul f0 g0 + smul f1_2 g9_19 + smul f2 g8_19 + smul f3_2 g7_19 +
         smul f4 g6_19 + smul f5_2 g5_19 + smul f6 g4_19 + smul f7_2 g3_19 +
         smul f8 g2_19 + smul f9_2 g1_19)
        (smul f0 g1 + smul f1 g0 + smul f2 g9_19 + smul f3 g8_19 +
         smul f4 g7_19 + smul f5 g6_19 + smul f6 g5_19 + smul f7 g4_19 +
         smul f8 g3_19 + smul f9 g2_19)
        (smul f0 g2 + smul f1_2 g1 + smul f2 g0 + smul f3_2 g9_19 +
         smul f4 g8_19 + smul f5_2 g7_19 + smul f6 g6_19 + smul f7_2 g5_19 +
         smul f8 g4_19 + smul f9_2 g3_19)
        (smul f0 g3 + smul f1 g2 + smul f2 g1 + smul f3 g0 +
         smul f4 g9_19 + smul f5 g8_19 + smul f6 g7_19 + smul f7 g6_19 +
         smul f8 g5_19 + smul f9 g4_19)
        (smul f0 g4 + smul f1_2 g3 + smul f2 g2 + smul f3_2 g1 +
         smul f4 g0 + smul f5_2 g9_19 + smul f6 g8_19 + smul f7_2 g7_19 +
         smul f8 g6_19 + smul f9_2 g5_19)
        (smul f0 g5 + smul f1 g4 + smul f2 g3 + smul f3 g2 +
         smul f4 g1 + smul f5 g0 + smul f6 g9_19 + smul f7 g8_19 +
         smul f8 g7_19 + smul f9 g6_19)
        (smul f0 g6 + smul f1_2 g5 + smul f2 g4 + smul f3_2 g3 +
         smul f4 g2 + smul f5_2 g1 + smul f6 g0 + smul f7_2 g9_19 +
         smul f8 g8_19 + smul f9_2 g7_19)
        (smul f0 g7 + smul f1 g6 + smul f2 g5 + smul f3 g4 +
         smul f4 g3 + smul f5 g2 + smul f6 g1 + smul f7 g0 +
         smul f8 g9_19 + smul f9 g8_19)
        (smul f0 g8 + smul f1_2 g7 + smul f2 g6 + smul f3_2 g5 +
         smul f4 g4 + smul f5_2 g3 + smul f6 g2 + smul f7_2 g1 +
         smul f8 g0 + smul f9_2 g9_19)
        (smul f0 g9 + smul f1 g8 + smul f2 g7 + smul f3 g6 +
         smul f4 g5 + smul f5 g4 + smul f6 g3 + smul f7 g2 +
         smul f8 g1 + smul f9 g0)))"

definition fe_sq :: "fe \<Rightarrow> fe" where
  "fe_sq f = (case f of Fe f0 f1 f2 f3 f4 f5 f6 f7 f8 f9 \<Rightarrow>
     (let f0_2 = 2 * f0; f1_2 = 2 * f1; f2_2 = 2 * f2; f3_2 = 2 * f3;
          f4_2 = 2 * f4; f5_2 = 2 * f5; f6_2 = 2 * f6; f7_2 = 2 * f7;
          f5_38 = 38 * f5; f6_19 = 19 * f6; f7_38 = 38 * f7; f8_19 = 19 * f8;
          f9_38 = 38 * f9 in
      fe_reduce
        (smul f0 f0 + smul f1_2 f9_38 + smul f2_2 f8_19 + smul f3_2 f7_38 +
         smul f4_2 f6_19 + smul f5 f5_38)
        (smul f0_2 f1 + smul f2 f9_38 + smul f3_2 f8_19 + smul f4 f7_38 +
         smul f5_2 f6_19)
        (smul f0_2 f2 + smul f1_2 f1 + smul f3_2 f9_38 + smul f4_2 f8_19 +
         smul f5_2 f7_38 + smul f6 f6_19)
        (smul f0_2 f3 + smul f1_2 f2 + smul f4 f9_38 + smul f5_2 f8_19 +
         smul f6 f7_38)
        (smul f0_2 f4 + smul f1_2 f3_2 + smul f2 f2 + smul f5_2 f9_38 +
         smul f6_2 f8_19 + smul f7 f7_38)
        (smul f0_2 f5 + smul f1_2 f4 + smul f2_2 f3 + smul f6 f9_38 +
         smul f7_2 f8_19)
        (smul f0_2 f6 + smul f1_2 f5_2 + smul f2_2 f4 + smul f3_2 f3 +
         smul f7_2 f9_38 + smul f8 f8_19)
        (smul f0_2 f7 + smul f1_2 f6 + smul f2_2 f5 + smul f3_2 f4 +
         smul f8 f9_38)
        (smul f0_2 f8 + smul f1_2 f7_2 + smul f2_2 f6 + smul f3_2 f5_2 +
         smul f4 f4 + smul f9 f9_38)
        (smul f0_2 f9 + smul f1_2 f8 + smul f2_2 f7 + smul f3_2 f6 +
         smul f4_2 f5)))"

definition fe_mul121666 :: "fe \<Rightarrow> fe" where
  "fe_mul121666 f = (case f of Fe f0 f1 f2 f3 f4 f5 f6 f7 f8 f9 \<Rightarrow>
     fe_carry (scast f0 * 121666) (scast f1 * 121666) (scast f2 * 121666) (scast f3 * 121666)
       (scast f4 * 121666) (scast f5 * 121666) (scast f6 * 121666) (scast f7 * 121666)
       (scast f8 * 121666) (scast f9 * 121666))"

fun fe_sq_times :: "nat \<Rightarrow> fe \<Rightarrow> fe" where
  "fe_sq_times 0 f = f"
| "fe_sq_times (Suc n) f = fe_sq_times n (fe_sq f)"

definition fe_invert :: "fe \<Rightarrow> fe" where
  "fe_invert z =
     (let t0 = fe_sq z;
          t1 = fe_sq t0;
          t1 = fe_sq t1;
          t1 = fe_mul z t1;
          t0 = fe_mul t0 t1;
          t2 = fe_sq t0;
          t1 = fe_mul t1 t2;
          t2 = fe_sq_times 4 (fe_sq t1);
          t1 = fe_mul t2 t1;
          t2 = fe_sq_times 9 (fe_sq t1);
          t2 = fe_mul t2 t1;
          t3 = fe_sq_times 19 (fe_sq t2);
          t2 = fe_mul t3 t2;
          t2 = fe_sq_times 10 t2;
          t1 = fe_mul t2 t1;
          t2 = fe_sq_times 49 (fe_sq t1);
          t2 = fe_mul t2 t1;
          t3 = fe_sq_times 99 (fe_sq t2);
          t2 = fe_mul t3 t2;
          t2 = fe_sq_times 49 (fe_sq t2);
          t1 = fe_mul t2 t1;
          t1 = fe_sq_times 4 (fe_sq t1)
      in fe_mul t1 t0)"

definition limb_cswap :: "u32 \<Rightarrow> i32 \<Rightarrow> i32 \<Rightarrow> i32 \<times> i32" where
  "limb_cswap b f g = (let x = (f XOR g) AND b in (f XOR x, g XOR x))"

definition fe_cswap :: "fe \<Rightarrow> fe \<Rightarrow> u32 \<Rightarrow> fe \<times> fe" where
  "fe_cswap f g b = (case f of Fe f0 f1 f2 f3 f4 f5 f6 f7 f8 f9 \<Rightarrow> case g of Fe g0 g1 g2 g3 g4 g5 g6 g7 g8 g9 \<Rightarrow>
     (let b = 0 - b;
          (f0, g0) = limb_cswap b f0 g0; (f1, g1) = limb_cswap b f1 g1;
          (f2, g2) = limb_cswap b f2 g2; (f3, g3) = limb_cswap b f3 g3;
          (f4, g4) = limb_cswap b f4 g4; (f5, g5) = limb_cswap b f5 g5;
          (f6, g6) = limb_cswap b f6 g6; (f7, g7) = limb_cswap b f7 g7;
          (f8, g8) = limb_cswap b f8 g8; (f9, g9) = limb_cswap b f9 g9
      in (Fe f0 f1 f2 f3 f4 f5 f6 f7 f8 f9, Fe g0 g1 g2 g3 g4 g5 g6 g7 g8 g9)))"

section \<open>The ladder\<close>

record ladder =
  lad_x2 :: fe
  lad_z2 :: fe
  lad_x3 :: fe
  lad_z3 :: fe
  lad_swap :: u32

definition scalar_bit :: "bytes \<Rightarrow> nat \<Rightarrow> u32" where
  "scalar_bit e pos = 1 AND ucast (drop_bit (pos mod 8) (e ! (pos div 8)))"

definition ladder_swap :: "ladder \<Rightarrow> ladder" where
  "ladder_swap s =
     (let (x2, x3) = fe_cswap (lad_x2 s) (lad_x3 s) (lad_swap s);
          (z2, z3) = fe_cswap (lad_z2 s) (lad_z3 s) (lad_swap s)
      in s\<lparr>lad_x2 := x2, lad_z2 := z2, lad_x3 := x3, lad_z3 := z3\<rparr>)"

definition ladder_step :: "fe \<Rightarrow> u32 \<Rightarrow> ladder \<Rightarrow> ladder" where
  "ladder_step x1 b s =
     (let s = ladder_swap (s\<lparr>lad_swap := lad_swap s XOR b\<rparr>);
          x2 = lad_x2 s; z2 = lad_z2 s; x3 = lad_x3 s; z3 = lad_z3 s;
          swap = b;
          tmp0 = fe_sub x3 z3;
          tmp1 = fe_sub x2 z2;
          x2 = fe_add x2 z2;
          z2 = fe_add x3 z3;
          z3 = fe_mul tmp0 x2;
          z2 = fe_mul z2 tmp1;
          tmp0 = fe_sq tmp1;
          tmp1 = fe_sq x2;
          x3 = fe_add z3 z2;
          z2 = fe_sub z3 z2;
          x2 = fe_mul tmp1 tmp0;
          tmp1 = fe_sub tmp1 tmp0;
          z2 = fe_sq z2;
          z3 = fe_mul121666 tmp1;
          x3 = fe_sq x3;
          tmp0 = fe_add tmp0 z3;
          z3 = fe_mul x1 z2;
          z2 = fe_mul tmp1 tmp0
      in \<lparr>lad_x2 = x2, lad_z2 = z2, lad_x3 = x3, lad_z3 = z3, lad_swap = swap\<rparr>)"

fun ladder_loop :: "fe \<Rightarrow> bytes \<Rightarrow> nat \<Rightarrow> ladder \<Rightarrow> ladder" where
  "ladder_loop x1 e 0 s = s"
| "ladder_loop x1 e (Suc pos) s = ladder_loop x1 e pos (ladder_step x1 (scalar_bit e pos) s)"

definition curve25519_scalar_mult_generic :: "bytes \<Rightarrow> bytes \<Rightarrow> bytes" where
  "curve25519_scalar_mult_generic scalar point =
     (let x1 = fe_frombytes point;
          s = ladder_loop x1 scalar 255
                \<lparr>lad_x2 = fe_1, lad_z2 = fe_0, lad_x3 = x1, lad_z3 = fe_1, lad_swap = 0\<rparr>;
          s = ladder_swap s
      in fe_tobytes (fe_mul (lad_x2 s) (fe_invert (lad_z2 s))))"

text \<open>The reversal of a 32-byte string in place; \<open>lst\<close> is one past the last byte to exchange.\<close>

fun reverse_int_loop :: "nat \<Rightarrow> nat \<Rightarrow> bytes \<Rightarrow> bytes" where
  "reverse_int_loop first 0 a = a"
| "reverse_int_loop first (Suc lst) a =
     (if first \<noteq> Suc lst \<and> first \<noteq> lst
      then reverse_int_loop (first + 1) lst (a[lst := a ! first, first := a ! lst])
      else a)"

definition reverse_int :: "bytes \<Rightarrow> bytes" where
  "reverse_int a = reverse_int_loop 0 32 a"

definition scalarmult_curve25519 :: "bytes \<Rightarrow> bytes \<Rightarrow> int \<times> bytes" where
  "scalarmult_curve25519 scalar point =
     (let out = reverse_int (curve25519_scalar_mult_generic (reverse_int scalar) (reverse_int point))
      in (if out = replicate 32 0 then - 1 else 0, out))"

end
