(* ===== verification/Fe_Reduce.thy ===== *)
theory Fe_Reduce
  imports Cx_Curve25519
begin

text \<open>
  The carry chains of the field arithmetic. A word that stands for an integer in range is written
  \<open>word_of_int\<close> of it; a carry moves a multiple of the size of a limb to the next limb, so the value
  of a field element is unchanged, up to a multiple of the prime for the carry out of the last limb.
\<close>

section \<open>Signed words\<close>

lemma scast_word_of_int: "scast a = word_of_int (sint a)"
  by (rule of_int_sint [symmetric])

lemma sint_of_int32: "- 2147483648 \<le> X \<Longrightarrow> X < 2147483648 \<Longrightarrow> sint (word_of_int X :: i32) = X"
  by (simp add: sint_sbintrunc' signed_take_bit_int_eq_self)

lemma sint_of_int64:
  "- 9223372036854775808 \<le> X \<Longrightarrow> X < 9223372036854775808 \<Longrightarrow> sint (word_of_int X :: i64) = X"
  by (simp add: sint_sbintrunc' signed_take_bit_int_eq_self)

lemma scast_of_int64:
  "- 9223372036854775808 \<le> X \<Longrightarrow> X < 9223372036854775808 \<Longrightarrow>
   (scast (word_of_int X :: i64) :: i32) = word_of_int X"
  by (simp add: scast_word_of_int sint_of_int64)

lemma signed_drop_bit_int: "signed_drop_bit n w = word_of_int (sint w div 2 ^ n)"
proof -
  have "signed_drop_bit n w = word_of_int (sint (signed_drop_bit n w))" by simp
  then show ?thesis by (simp add: sint_signed_drop_bit_eq drop_bit_eq_div)
qed

lemma and_high_bits:
  "word_of_int X AND NOT (mask n) = (word_of_int (X - X mod 2 ^ n) :: 'a::len word)"
proof -
  let ?w = "word_of_int X :: 'a word"
  have "?w AND NOT (mask n) = push_bit n (drop_bit n ?w)"
    by (rule bit_eqI) (auto simp: bit_simps not_less)
  also have "\<dots> = ?w - take_bit n ?w"
    using bits_ident [of n ?w] by (simp add: eq_diff_eq)
  also have "take_bit n ?w = word_of_int (X mod 2 ^ n)"
    unfolding take_bit_eq_mod [symmetric] by (rule bit_eqI) (auto simp: bit_simps)
  finally show ?thesis by simp
qed

section \<open>One carry\<close>

lemma carry26E:
  fixes X :: int
  assumes "\<bar>X\<bar> \<le> 9000000000000000000"
  obtains c where "\<forall>Y. carry26 (word_of_int X) (word_of_int Y) =
      (word_of_int (X - 67108864 * c), word_of_int (Y + c))"
    and "- 33554432 \<le> X - 67108864 * c" and "X - 67108864 * c < 33554432"
proof
  let ?Z = "X + 33554432"
  let ?c = "?Z div 67108864"
  have carry: "word_of_int X + push_bit 25 1 = (word_of_int ?Z :: i64)"
    by (simp add: push_bit_eq_mult)
  have top: "kTop38Bits = NOT (mask 26)"
    by (simp add: kTop38Bits_def mask_eq_exp_minus_1)
  have "?Z mod 67108864 = ?Z - 67108864 * ?c" by (rule minus_mult_div_eq_mod [symmetric])
  then have high: "word_of_int ?Z AND kTop38Bits = (word_of_int (67108864 * ?c) :: i64)"
    unfolding top and_high_bits by simp
  have s: "sint (word_of_int ?Z :: i64) = ?Z" using assms by (intro sint_of_int64) linarith+
  have shift: "signed_drop_bit 26 (word_of_int ?Z :: i64) = word_of_int ?c"
    unfolding signed_drop_bit_int s by simp
  show "\<forall>Y. carry26 (word_of_int X) (word_of_int Y) =
      (word_of_int (X - 67108864 * ?c), word_of_int (Y + ?c))"
    unfolding carry26_def carry Let_def high shift by simp
  have "0 \<le> ?Z mod 67108864" "?Z mod 67108864 < 67108864" by simp_all
  then show "- 33554432 \<le> X - 67108864 * ?c" "X - 67108864 * ?c < 33554432"
    using \<open>?Z mod 67108864 = ?Z - 67108864 * ?c\<close> by linarith+
qed

lemma carry25_both:
  fixes X :: int
  assumes "\<bar>X\<bar> \<le> 9000000000000000000"
  obtains c where "\<forall>Y. carry25 (word_of_int X) (word_of_int Y) =
      (word_of_int (X - 33554432 * c), word_of_int (Y + c))"
    and "\<forall>Y. carry25_19 (word_of_int X) (word_of_int Y) =
      (word_of_int (X - 33554432 * c), word_of_int (Y + 19 * c))"
    and "- 16777216 \<le> X - 33554432 * c" and "X - 33554432 * c < 16777216"
proof
  let ?Z = "X + 16777216"
  let ?c = "?Z div 33554432"
  have carry: "word_of_int X + push_bit 24 1 = (word_of_int ?Z :: i64)"
    by (simp add: push_bit_eq_mult)
  have top: "kTop39Bits = NOT (mask 25)"
    by (simp add: kTop39Bits_def mask_eq_exp_minus_1)
  have "?Z mod 33554432 = ?Z - 33554432 * ?c" by (rule minus_mult_div_eq_mod [symmetric])
  then have high: "word_of_int ?Z AND kTop39Bits = (word_of_int (33554432 * ?c) :: i64)"
    unfolding top and_high_bits by simp
  have s: "sint (word_of_int ?Z :: i64) = ?Z" using assms by (intro sint_of_int64) linarith+
  have shift: "signed_drop_bit 25 (word_of_int ?Z :: i64) = word_of_int ?c"
    unfolding signed_drop_bit_int s by simp
  show "\<forall>Y. carry25 (word_of_int X) (word_of_int Y) =
      (word_of_int (X - 33554432 * ?c), word_of_int (Y + ?c))"
    unfolding carry25_def carry Let_def high shift by simp
  show "\<forall>Y. carry25_19 (word_of_int X) (word_of_int Y) =
      (word_of_int (X - 33554432 * ?c), word_of_int (Y + 19 * ?c))"
    unfolding carry25_19_def carry Let_def high shift by simp
  have "0 \<le> ?Z mod 33554432" "?Z mod 33554432 < 33554432" by simp_all
  then show "- 16777216 \<le> X - 33554432 * ?c" "X - 33554432 * ?c < 16777216"
    using \<open>?Z mod 33554432 = ?Z - 33554432 * ?c\<close> by linarith+
qed

lemma carry25E:
  assumes "\<bar>X\<bar> \<le> 9000000000000000000"
  obtains c where "\<forall>Y. carry25 (word_of_int X) (word_of_int Y) =
      (word_of_int (X - 33554432 * c), word_of_int (Y + c))"
    and "- 16777216 \<le> X - 33554432 * c" and "X - 33554432 * c < 16777216"
  by (rule carry25_both [OF assms])

lemma carry25_19E:
  assumes "\<bar>X\<bar> \<le> 9000000000000000000"
  obtains c where "\<forall>Y. carry25_19 (word_of_int X) (word_of_int Y) =
      (word_of_int (X - 33554432 * c), word_of_int (Y + 19 * c))"
    and "- 16777216 \<le> X - 33554432 * c" and "X - 33554432 * c < 16777216"
  by (rule carry25_both [OF assms])

section \<open>Values and bounds\<close>

definition fe_p :: int where
  "fe_p = 2 ^ 255 - 19"

text \<open>The integer of ten limbs, and of a field element.\<close>

definition limbs_val :: "int \<Rightarrow> int \<Rightarrow> int \<Rightarrow> int \<Rightarrow> int \<Rightarrow> int \<Rightarrow> int \<Rightarrow> int \<Rightarrow> int \<Rightarrow> int \<Rightarrow> int" where
  "limbs_val a0 a1 a2 a3 a4 a5 a6 a7 a8 a9 =
     a0 + 2 ^ 26 * a1 + 2 ^ 51 * a2 + 2 ^ 77 * a3 + 2 ^ 102 * a4 + 2 ^ 128 * a5 + 2 ^ 153 * a6 +
     2 ^ 179 * a7 + 2 ^ 204 * a8 + 2 ^ 230 * a9"

definition fe_val :: "fe \<Rightarrow> int" where
  "fe_val f = (case f of Fe f0 f1 f2 f3 f4 f5 f6 f7 f8 f9 \<Rightarrow>
     limbs_val (sint f0) (sint f1) (sint f2) (sint f3) (sint f4) (sint f5) (sint f6) (sint f7)
       (sint f8) (sint f9))"

definition fe_bounded :: "int \<Rightarrow> int \<Rightarrow> fe \<Rightarrow> bool" where
  "fe_bounded a b f \<longleftrightarrow> (case f of Fe f0 f1 f2 f3 f4 f5 f6 f7 f8 f9 \<Rightarrow>
     \<bar>sint f0\<bar> \<le> a \<and> \<bar>sint f1\<bar> \<le> b \<and> \<bar>sint f2\<bar> \<le> a \<and> \<bar>sint f3\<bar> \<le> b \<and> \<bar>sint f4\<bar> \<le> a \<and>
     \<bar>sint f5\<bar> \<le> b \<and> \<bar>sint f6\<bar> \<le> a \<and> \<bar>sint f7\<bar> \<le> b \<and> \<bar>sint f8\<bar> \<le> a \<and> \<bar>sint f9\<bar> \<le> b)"

text \<open>
  The bounds of the comments: \<open>1.01 * 2 ^ 25\<close> and \<open>1.01 * 2 ^ 24\<close> after a product, twice that after a
  sum, and \<open>1.65 * 2 ^ 26\<close> and \<open>1.65 * 2 ^ 25\<close> before a product.
\<close>

abbreviation fe_tight :: "fe \<Rightarrow> bool" where
  "fe_tight \<equiv> fe_bounded 33554432 16944988"

abbreviation fe_sum :: "fe \<Rightarrow> bool" where
  "fe_sum \<equiv> fe_bounded 67108864 33889976"

abbreviation fe_wide :: "fe \<Rightarrow> bool" where
  "fe_wide \<equiv> fe_bounded 110729625 55364812"

definition fe_abs :: "fe \<Rightarrow> int" where
  "fe_abs f = fe_val f mod fe_p"

lemma fe_bounded_mono: "fe_bounded a b f \<Longrightarrow> a \<le> a' \<Longrightarrow> b \<le> b' \<Longrightarrow> fe_bounded a' b' f"
  by (cases f) (simp add: fe_bounded_def)

lemma limbs_result:
  assumes "\<bar>r0\<bar> \<le> 33554432" "\<bar>r1\<bar> \<le> 16944988" "\<bar>r2\<bar> \<le> 33554432" "\<bar>r3\<bar> \<le> 16944988"
    "\<bar>r4\<bar> \<le> 33554432" "\<bar>r5\<bar> \<le> 16944988" "\<bar>r6\<bar> \<le> 33554432" "\<bar>r7\<bar> \<le> 16944988"
    "\<bar>r8\<bar> \<le> 33554432" "\<bar>r9\<bar> \<le> 16944988"
    and "limbs_val r0 r1 r2 r3 r4 r5 r6 r7 r8 r9 = v - fe_p * k"
    and "h = Fe (scast (word_of_int r0 :: i64)) (scast (word_of_int r1 :: i64))
      (scast (word_of_int r2 :: i64)) (scast (word_of_int r3 :: i64)) (scast (word_of_int r4 :: i64))
      (scast (word_of_int r5 :: i64)) (scast (word_of_int r6 :: i64)) (scast (word_of_int r7 :: i64))
      (scast (word_of_int r8 :: i64)) (scast (word_of_int r9 :: i64))"
  shows "fe_tight h \<and> fe_abs h = v mod fe_p"
proof -
  have s: "sint (scast (word_of_int r :: i64) :: i32) = r" if "\<bar>r\<bar> \<le> 33554432" for r
    using that by (subst scast_of_int64) (simp_all add: sint_of_int32)
  have s': "sint (scast (word_of_int r :: i64) :: i32) = r" if "\<bar>r\<bar> \<le> 16944988" for r
    using that by (intro s) simp
  have "(v - fe_p * k) mod fe_p = v mod fe_p" by (simp add: mod_diff_eq [symmetric])
  then show ?thesis
    using assms by (simp add: fe_bounded_def fe_abs_def fe_val_def s s')
qed

section \<open>The two chains\<close>

text \<open>After the products, with limbs below \<open>2 ^ 63\<close>.\<close>

lemma fe_reduce_correct:
  assumes B: "\<bar>H0\<bar> \<le> 8000000000000000000" "\<bar>H1\<bar> \<le> 8000000000000000000"
    "\<bar>H2\<bar> \<le> 8000000000000000000" "\<bar>H3\<bar> \<le> 8000000000000000000" "\<bar>H4\<bar> \<le> 8000000000000000000"
    "\<bar>H5\<bar> \<le> 8000000000000000000" "\<bar>H6\<bar> \<le> 8000000000000000000" "\<bar>H7\<bar> \<le> 8000000000000000000"
    "\<bar>H8\<bar> \<le> 8000000000000000000" "\<bar>H9\<bar> \<le> 8000000000000000000"
  defines "h \<equiv> fe_reduce (word_of_int H0) (word_of_int H1) (word_of_int H2) (word_of_int H3)
    (word_of_int H4) (word_of_int H5) (word_of_int H6) (word_of_int H7) (word_of_int H8) (word_of_int H9)"
  shows "fe_tight h \<and> fe_abs h = limbs_val H0 H1 H2 H3 H4 H5 H6 H7 H8 H9 mod fe_p"
proof -
  note U = B [THEN abs_le_D1] and L = B [THEN abs_le_D2]
  from B(1) have "\<bar>H0\<bar> \<le> 9000000000000000000" by simp
  then obtain a0 where a0: "\<forall>Y. carry26 (word_of_int H0) (word_of_int Y) =
      (word_of_int (H0 - 67108864 * a0), word_of_int (Y + a0))"
      "- 33554432 \<le> H0 - 67108864 * a0" "H0 - 67108864 * a0 < 33554432"
    by (rule carry26E)
  from B(5) have "\<bar>H4\<bar> \<le> 9000000000000000000" by simp
  then obtain a4 where a4: "\<forall>Y. carry26 (word_of_int H4) (word_of_int Y) =
      (word_of_int (H4 - 67108864 * a4), word_of_int (Y + a4))"
      "- 33554432 \<le> H4 - 67108864 * a4" "H4 - 67108864 * a4 < 33554432"
    by (rule carry26E)
  have "\<bar>H1 + a0\<bar> \<le> 9000000000000000000" using U L a0(2,3) by (intro abs_leI; linarith)
  then obtain a1 where a1: "\<forall>Y. carry25 (word_of_int (H1 + a0)) (word_of_int Y) =
      (word_of_int (H1 + a0 - 33554432 * a1), word_of_int (Y + a1))"
      "- 16777216 \<le> H1 + a0 - 33554432 * a1" "H1 + a0 - 33554432 * a1 < 16777216"
    by (rule carry25E)
  have "\<bar>H5 + a4\<bar> \<le> 9000000000000000000" using U L a4(2,3) by (intro abs_leI; linarith)
  then obtain a5 where a5: "\<forall>Y. carry25 (word_of_int (H5 + a4)) (word_of_int Y) =
      (word_of_int (H5 + a4 - 33554432 * a5), word_of_int (Y + a5))"
      "- 16777216 \<le> H5 + a4 - 33554432 * a5" "H5 + a4 - 33554432 * a5 < 16777216"
    by (rule carry25E)
  have "\<bar>H2 + a1\<bar> \<le> 9000000000000000000" using U L a0(2,3) a1(2,3) by (intro abs_leI; linarith)
  then obtain a2 where a2: "\<forall>Y. carry26 (word_of_int (H2 + a1)) (word_of_int Y) =
      (word_of_int (H2 + a1 - 67108864 * a2), word_of_int (Y + a2))"
      "- 33554432 \<le> H2 + a1 - 67108864 * a2" "H2 + a1 - 67108864 * a2 < 33554432"
    by (rule carry26E)
  have "\<bar>H6 + a5\<bar> \<le> 9000000000000000000" using U L a4(2,3) a5(2,3) by (intro abs_leI; linarith)
  then obtain a6 where a6: "\<forall>Y. carry26 (word_of_int (H6 + a5)) (word_of_int Y) =
      (word_of_int (H6 + a5 - 67108864 * a6), word_of_int (Y + a6))"
      "- 33554432 \<le> H6 + a5 - 67108864 * a6" "H6 + a5 - 67108864 * a6 < 33554432"
    by (rule carry26E)
  have "\<bar>H3 + a2\<bar> \<le> 9000000000000000000" using U L a0(2,3) a1(2,3) a2(2,3) by (intro abs_leI; linarith)
  then obtain a3 where a3: "\<forall>Y. carry25 (word_of_int (H3 + a2)) (word_of_int Y) =
      (word_of_int (H3 + a2 - 33554432 * a3), word_of_int (Y + a3))"
      "- 16777216 \<le> H3 + a2 - 33554432 * a3" "H3 + a2 - 33554432 * a3 < 16777216"
    by (rule carry25E)
  have "\<bar>H7 + a6\<bar> \<le> 9000000000000000000" using U L a4(2,3) a5(2,3) a6(2,3) by (intro abs_leI; linarith)
  then obtain a7 where a7: "\<forall>Y. carry25 (word_of_int (H7 + a6)) (word_of_int Y) =
      (word_of_int (H7 + a6 - 33554432 * a7), word_of_int (Y + a7))"
      "- 16777216 \<le> H7 + a6 - 33554432 * a7" "H7 + a6 - 33554432 * a7 < 16777216"
    by (rule carry25E)
  have "\<bar>H4 - 67108864 * a4 + a3\<bar> \<le> 9000000000000000000" using U L a0(2,3) a1(2,3) a2(2,3) a3(2,3) a4(2,3) by (intro abs_leI; linarith)
  then obtain b4 where b4: "\<forall>Y. carry26 (word_of_int (H4 - 67108864 * a4 + a3)) (word_of_int Y) =
      (word_of_int (H4 - 67108864 * a4 + a3 - 67108864 * b4), word_of_int (Y + b4))"
      "- 33554432 \<le> H4 - 67108864 * a4 + a3 - 67108864 * b4" "H4 - 67108864 * a4 + a3 - 67108864 * b4 < 33554432"
    by (rule carry26E)
  have "\<bar>H8 + a7\<bar> \<le> 9000000000000000000" using U L a4(2,3) a5(2,3) a6(2,3) a7(2,3) by (intro abs_leI; linarith)
  then obtain a8 where a8: "\<forall>Y. carry26 (word_of_int (H8 + a7)) (word_of_int Y) =
      (word_of_int (H8 + a7 - 67108864 * a8), word_of_int (Y + a8))"
      "- 33554432 \<le> H8 + a7 - 67108864 * a8" "H8 + a7 - 67108864 * a8 < 33554432"
    by (rule carry26E)
  have "\<bar>H9 + a8\<bar> \<le> 9000000000000000000" using U L a4(2,3) a5(2,3) a6(2,3) a7(2,3) a8(2,3) by (intro abs_leI; linarith)
  then obtain a9 where a9: "\<forall>Y. carry25_19 (word_of_int (H9 + a8)) (word_of_int Y) =
      (word_of_int (H9 + a8 - 33554432 * a9), word_of_int (Y + 19 * a9))"
      "- 16777216 \<le> H9 + a8 - 33554432 * a9" "H9 + a8 - 33554432 * a9 < 16777216"
    by (rule carry25_19E)
  have "\<bar>H0 - 67108864 * a0 + 19 * a9\<bar> \<le> 9000000000000000000" using U L a0(2,3) a4(2,3) a5(2,3) a6(2,3) a7(2,3) a8(2,3) a9(2,3) by (intro abs_leI; linarith)
  then obtain b0 where b0: "\<forall>Y. carry26 (word_of_int (H0 - 67108864 * a0 + 19 * a9)) (word_of_int Y) =
      (word_of_int (H0 - 67108864 * a0 + 19 * a9 - 67108864 * b0), word_of_int (Y + b0))"
      "- 33554432 \<le> H0 - 67108864 * a0 + 19 * a9 - 67108864 * b0" "H0 - 67108864 * a0 + 19 * a9 - 67108864 * b0 < 33554432"
    by (rule carry26E)
  let ?r0 = "H0 - 67108864 * a0 + 19 * a9 - 67108864 * b0" and ?r1 = "H1 + a0 - 33554432 * a1 + b0"
    and ?r2 = "H2 + a1 - 67108864 * a2" and ?r3 = "H3 + a2 - 33554432 * a3"
    and ?r4 = "H4 - 67108864 * a4 + a3 - 67108864 * b4" and ?r5 = "H5 + a4 - 33554432 * a5 + b4"
    and ?r6 = "H6 + a5 - 67108864 * a6" and ?r7 = "H7 + a6 - 33554432 * a7"
    and ?r8 = "H8 + a7 - 67108864 * a8" and ?r9 = "H9 + a8 - 33554432 * a9"
  note run = a0(1) [rule_format] a4(1) [rule_format] a1(1) [rule_format] a5(1) [rule_format]
    a2(1) [rule_format] a6(1) [rule_format] a3(1) [rule_format] a7(1) [rule_format]
    b4(1) [rule_format] a8(1) [rule_format] a9(1) [rule_format] b0(1) [rule_format]
  have h: "h = Fe (scast (word_of_int ?r0 :: i64)) (scast (word_of_int ?r1 :: i64))
      (scast (word_of_int ?r2 :: i64)) (scast (word_of_int ?r3 :: i64)) (scast (word_of_int ?r4 :: i64))
      (scast (word_of_int ?r5 :: i64)) (scast (word_of_int ?r6 :: i64)) (scast (word_of_int ?r7 :: i64))
      (scast (word_of_int ?r8 :: i64)) (scast (word_of_int ?r9 :: i64))"
    unfolding h_def fe_reduce_def Let_def prod.case run ..
  have v: "limbs_val ?r0 ?r1 ?r2 ?r3 ?r4 ?r5 ?r6 ?r7 ?r8 ?r9 =
      limbs_val H0 H1 H2 H3 H4 H5 H6 H7 H8 H9 - fe_p * a9"
    unfolding limbs_val_def fe_p_def by algebra
  note s0 = a0(2,3) a1(2,3) a2(2,3) a3(2,3) and s4 = a4(2,3) a5(2,3) a6(2,3) a7(2,3) a8(2,3) a9(2,3)
  show ?thesis
  proof (rule limbs_result [OF _ _ _ _ _ _ _ _ _ _ v h])
    show "\<bar>?r0\<bar> \<le> 33554432" using b0(2,3) by (intro abs_leI; linarith)
    show "\<bar>?r1\<bar> \<le> 16944988" using U L s0 s4 b0(2,3) by (intro abs_leI; linarith)
    show "\<bar>?r2\<bar> \<le> 33554432" using a2(2,3) by (intro abs_leI; linarith)
    show "\<bar>?r3\<bar> \<le> 16944988" using a3(2,3) by (intro abs_leI; linarith)
    show "\<bar>?r4\<bar> \<le> 33554432" using b4(2,3) by (intro abs_leI; linarith)
    show "\<bar>?r5\<bar> \<le> 16944988" using U L s0 s4 b4(2,3) by (intro abs_leI; linarith)
    show "\<bar>?r6\<bar> \<le> 33554432" using a6(2,3) by (intro abs_leI; linarith)
    show "\<bar>?r7\<bar> \<le> 16944988" using a7(2,3) by (intro abs_leI; linarith)
    show "\<bar>?r8\<bar> \<le> 33554432" using a8(2,3) by (intro abs_leI; linarith)
    show "\<bar>?r9\<bar> \<le> 16944988" using a9(2,3) by (intro abs_leI; linarith)
  qed
qed

text \<open>After the multiplication by a small constant, and after reading bytes.\<close>

lemma fe_carry_correct:
  assumes B: "\<bar>H0\<bar> \<le> 9000000000000" "\<bar>H1\<bar> \<le> 9000000000000" "\<bar>H2\<bar> \<le> 9000000000000"
    "\<bar>H3\<bar> \<le> 9000000000000" "\<bar>H4\<bar> \<le> 9000000000000" "\<bar>H5\<bar> \<le> 9000000000000"
    "\<bar>H6\<bar> \<le> 9000000000000" "\<bar>H7\<bar> \<le> 9000000000000" "\<bar>H8\<bar> \<le> 9000000000000"
    "\<bar>H9\<bar> \<le> 9000000000000"
  defines "h \<equiv> fe_carry (word_of_int H0) (word_of_int H1) (word_of_int H2) (word_of_int H3)
    (word_of_int H4) (word_of_int H5) (word_of_int H6) (word_of_int H7) (word_of_int H8) (word_of_int H9)"
  shows "fe_tight h \<and> fe_abs h = limbs_val H0 H1 H2 H3 H4 H5 H6 H7 H8 H9 mod fe_p"
proof -
  note U = B [THEN abs_le_D1] and L = B [THEN abs_le_D2]
  have "\<bar>H9\<bar> \<le> 9000000000000000000" using U(10) L(10)  by (intro abs_leI; linarith)
  then obtain c9 where c9: "\<forall>Y. carry25_19 (word_of_int (H9)) (word_of_int Y) =
      (word_of_int (H9 - 33554432 * c9), word_of_int (Y + 19 * c9))"
      "- 16777216 \<le> H9 - 33554432 * c9" "H9 - 33554432 * c9 < 16777216"
    by (rule carry25_19E)
  have "\<bar>H1\<bar> \<le> 9000000000000000000" using U(2) L(2)  by (intro abs_leI; linarith)
  then obtain c1 where c1: "\<forall>Y. carry25 (word_of_int (H1)) (word_of_int Y) =
      (word_of_int (H1 - 33554432 * c1), word_of_int (Y + c1))"
      "- 16777216 \<le> H1 - 33554432 * c1" "H1 - 33554432 * c1 < 16777216"
    by (rule carry25E)
  have "\<bar>H3\<bar> \<le> 9000000000000000000" using U(4) L(4)  by (intro abs_leI; linarith)
  then obtain c3 where c3: "\<forall>Y. carry25 (word_of_int (H3)) (word_of_int Y) =
      (word_of_int (H3 - 33554432 * c3), word_of_int (Y + c3))"
      "- 16777216 \<le> H3 - 33554432 * c3" "H3 - 33554432 * c3 < 16777216"
    by (rule carry25E)
  have "\<bar>H5\<bar> \<le> 9000000000000000000" using U(6) L(6)  by (intro abs_leI; linarith)
  then obtain c5 where c5: "\<forall>Y. carry25 (word_of_int (H5)) (word_of_int Y) =
      (word_of_int (H5 - 33554432 * c5), word_of_int (Y + c5))"
      "- 16777216 \<le> H5 - 33554432 * c5" "H5 - 33554432 * c5 < 16777216"
    by (rule carry25E)
  have "\<bar>H7\<bar> \<le> 9000000000000000000" using U(8) L(8)  by (intro abs_leI; linarith)
  then obtain c7 where c7: "\<forall>Y. carry25 (word_of_int (H7)) (word_of_int Y) =
      (word_of_int (H7 - 33554432 * c7), word_of_int (Y + c7))"
      "- 16777216 \<le> H7 - 33554432 * c7" "H7 - 33554432 * c7 < 16777216"
    by (rule carry25E)
  have "\<bar>H0 + 19 * c9\<bar> \<le> 9000000000000000000" using U(1) L(1) U(10) L(10) c9(2,3) by (intro abs_leI; linarith)
  then obtain c0 where c0: "\<forall>Y. carry26 (word_of_int (H0 + 19 * c9)) (word_of_int Y) =
      (word_of_int (H0 + 19 * c9 - 67108864 * c0), word_of_int (Y + c0))"
      "- 33554432 \<le> H0 + 19 * c9 - 67108864 * c0" "H0 + 19 * c9 - 67108864 * c0 < 33554432"
    by (rule carry26E)
  have "\<bar>H2 + c1\<bar> \<le> 9000000000000000000" using U(3) L(3) U(2) L(2) c1(2,3) by (intro abs_leI; linarith)
  then obtain c2 where c2: "\<forall>Y. carry26 (word_of_int (H2 + c1)) (word_of_int Y) =
      (word_of_int (H2 + c1 - 67108864 * c2), word_of_int (Y + c2))"
      "- 33554432 \<le> H2 + c1 - 67108864 * c2" "H2 + c1 - 67108864 * c2 < 33554432"
    by (rule carry26E)
  have "\<bar>H4 + c3\<bar> \<le> 9000000000000000000" using U(5) L(5) U(4) L(4) c3(2,3) by (intro abs_leI; linarith)
  then obtain c4 where c4: "\<forall>Y. carry26 (word_of_int (H4 + c3)) (word_of_int Y) =
      (word_of_int (H4 + c3 - 67108864 * c4), word_of_int (Y + c4))"
      "- 33554432 \<le> H4 + c3 - 67108864 * c4" "H4 + c3 - 67108864 * c4 < 33554432"
    by (rule carry26E)
  have "\<bar>H6 + c5\<bar> \<le> 9000000000000000000" using U(7) L(7) U(6) L(6) c5(2,3) by (intro abs_leI; linarith)
  then obtain c6 where c6: "\<forall>Y. carry26 (word_of_int (H6 + c5)) (word_of_int Y) =
      (word_of_int (H6 + c5 - 67108864 * c6), word_of_int (Y + c6))"
      "- 33554432 \<le> H6 + c5 - 67108864 * c6" "H6 + c5 - 67108864 * c6 < 33554432"
    by (rule carry26E)
  have "\<bar>H8 + c7\<bar> \<le> 9000000000000000000" using U(9) L(9) U(8) L(8) c7(2,3) by (intro abs_leI; linarith)
  then obtain c8 where c8: "\<forall>Y. carry26 (word_of_int (H8 + c7)) (word_of_int Y) =
      (word_of_int (H8 + c7 - 67108864 * c8), word_of_int (Y + c8))"
      "- 33554432 \<le> H8 + c7 - 67108864 * c8" "H8 + c7 - 67108864 * c8 < 33554432"
    by (rule carry26E)
  let ?r0 = "H0 + 19 * c9 - 67108864 * c0" and ?r1 = "H1 - 33554432 * c1 + c0"
    and ?r2 = "H2 + c1 - 67108864 * c2" and ?r3 = "H3 - 33554432 * c3 + c2"
    and ?r4 = "H4 + c3 - 67108864 * c4" and ?r5 = "H5 - 33554432 * c5 + c4"
    and ?r6 = "H6 + c5 - 67108864 * c6" and ?r7 = "H7 - 33554432 * c7 + c6"
    and ?r8 = "H8 + c7 - 67108864 * c8" and ?r9 = "H9 - 33554432 * c9 + c8"
  note run = c9(1) [rule_format] c1(1) [rule_format] c3(1) [rule_format] c5(1) [rule_format]
    c7(1) [rule_format] c0(1) [rule_format] c2(1) [rule_format] c4(1) [rule_format]
    c6(1) [rule_format] c8(1) [rule_format]
  have h: "h = Fe (scast (word_of_int ?r0 :: i64)) (scast (word_of_int ?r1 :: i64))
      (scast (word_of_int ?r2 :: i64)) (scast (word_of_int ?r3 :: i64)) (scast (word_of_int ?r4 :: i64))
      (scast (word_of_int ?r5 :: i64)) (scast (word_of_int ?r6 :: i64)) (scast (word_of_int ?r7 :: i64))
      (scast (word_of_int ?r8 :: i64)) (scast (word_of_int ?r9 :: i64))"
    unfolding h_def fe_carry_def Let_def prod.case run ..
  have v: "limbs_val ?r0 ?r1 ?r2 ?r3 ?r4 ?r5 ?r6 ?r7 ?r8 ?r9 =
      limbs_val H0 H1 H2 H3 H4 H5 H6 H7 H8 H9 - fe_p * c9"
    unfolding limbs_val_def fe_p_def by algebra
  show ?thesis
  proof (rule limbs_result [OF _ _ _ _ _ _ _ _ _ _ v h])
    show "\<bar>?r0\<bar> \<le> 33554432" using c0(2,3) by (intro abs_leI; linarith)
    show "\<bar>?r1\<bar> \<le> 16944988" using c1(2,3) c0(2,3) U(1) L(1) c9(2,3) U(10) L(10)
      by (intro abs_leI; linarith)
    show "\<bar>?r2\<bar> \<le> 33554432" using c2(2,3) by (intro abs_leI; linarith)
    show "\<bar>?r3\<bar> \<le> 16944988" using c3(2,3) c2(2,3) U(3) L(3) c1(2,3) U(2) L(2)
      by (intro abs_leI; linarith)
    show "\<bar>?r4\<bar> \<le> 33554432" using c4(2,3) by (intro abs_leI; linarith)
    show "\<bar>?r5\<bar> \<le> 16944988" using c5(2,3) c4(2,3) U(5) L(5) c3(2,3) U(4) L(4)
      by (intro abs_leI; linarith)
    show "\<bar>?r6\<bar> \<le> 33554432" using c6(2,3) by (intro abs_leI; linarith)
    show "\<bar>?r7\<bar> \<le> 16944988" using c7(2,3) c6(2,3) U(7) L(7) c5(2,3) U(6) L(6)
      by (intro abs_leI; linarith)
    show "\<bar>?r8\<bar> \<le> 33554432" using c8(2,3) by (intro abs_leI; linarith)
    show "\<bar>?r9\<bar> \<le> 16944988" using c9(2,3) c8(2,3) U(9) L(9) c7(2,3) U(8) L(8)
      by (intro abs_leI; linarith)
  qed
qed

end
