(* ===== verification/Fe_Arith.thy ===== *)
theory Fe_Arith
  imports Fe_Reduce
begin

text \<open>
  The field operations on limbs are the operations of the integers modulo \<open>2 ^ 255 - 19\<close>, and no
  32-bit or 64-bit integer overflows within the bounds of the comments of the code.
\<close>

section \<open>Products\<close>

lemma smul_word: "smul a b = word_of_int (sint a * sint b)"
  by (simp add: smul_def)

lemma sint_scale:
  assumes "sint (a :: i32) = A" and "\<bar>A\<bar> \<le> c" and "numeral k * c \<le> 2147483647"
  shows "sint (numeral k * a) = numeral k * A"
proof -
  have "\<bar>numeral k * A\<bar> \<le> numeral k * c" using assms(2) by (simp add: abs_mult)
  then have "- 2147483648 \<le> numeral k * A" "numeral k * A < 2147483648" using assms(3) by linarith+
  moreover have "numeral k * a = (word_of_int (numeral k * A) :: i32)" using assms(1) by auto
  ultimately show ?thesis using sint_of_int32 [of "numeral k * A"] by simp
qed

lemma scaled_both:
  "word_of_int ((numeral m * x) * (numeral n * y)) = word_of_int (numeral (m * n) * (x * y))"
  by (rule arg_cong [of _ _ word_of_int]) simp

lemma scaled_one:
  "word_of_int (x * (numeral n * y)) = word_of_int (numeral n * (x * y))"
  "word_of_int ((numeral n * x) * y) = word_of_int (numeral n * (x * y))"
  by (rule arg_cong [of _ _ word_of_int], simp)+

lemma product_bound:
  fixes x y :: int
  assumes "\<bar>x\<bar> \<le> a" and "\<bar>y\<bar> \<le> b"
  shows "x * y \<le> a * b" and "- (a * b) \<le> x * y"
  using abs_le_D1 [of "x * y" "a * b"] abs_le_D2 [of "x * y" "a * b"] mult_mono [OF assms] assms
  by (simp_all add: abs_mult)

lemma fe_mul_words:
  assumes s: "sint f0 = F0" "sint f1 = F1" "sint f2 = F2" "sint f3 = F3" "sint f4 = F4" "sint f5 = F5"
    "sint f6 = F6" "sint f7 = F7" "sint f8 = F8" "sint f9 = F9" "sint g0 = G0" "sint g1 = G1"
    "sint g2 = G2" "sint g3 = G3" "sint g4 = G4" "sint g5 = G5" "sint g6 = G6" "sint g7 = G7"
    "sint g8 = G8" "sint g9 = G9"
    and b: "\<bar>F0\<bar> \<le> 110729625" "\<bar>F1\<bar> \<le> 55364812" "\<bar>F2\<bar> \<le> 110729625" "\<bar>F3\<bar> \<le> 55364812"
    "\<bar>F4\<bar> \<le> 110729625" "\<bar>F5\<bar> \<le> 55364812" "\<bar>F6\<bar> \<le> 110729625" "\<bar>F7\<bar> \<le> 55364812"
    "\<bar>F8\<bar> \<le> 110729625" "\<bar>F9\<bar> \<le> 55364812" "\<bar>G0\<bar> \<le> 110729625" "\<bar>G1\<bar> \<le> 55364812"
    "\<bar>G2\<bar> \<le> 110729625" "\<bar>G3\<bar> \<le> 55364812" "\<bar>G4\<bar> \<le> 110729625" "\<bar>G5\<bar> \<le> 55364812"
    "\<bar>G6\<bar> \<le> 110729625" "\<bar>G7\<bar> \<le> 55364812" "\<bar>G8\<bar> \<le> 110729625" "\<bar>G9\<bar> \<le> 55364812"
  shows "fe_mul (Fe f0 f1 f2 f3 f4 f5 f6 f7 f8 f9) (Fe g0 g1 g2 g3 g4 g5 g6 g7 g8 g9) =
    fe_reduce
      (word_of_int (F0 * G0 + 38 * (F1 * G9) + 19 * (F2 * G8) + 38 * (F3 * G7) +
         19 * (F4 * G6) + 38 * (F5 * G5) + 19 * (F6 * G4) + 38 * (F7 * G3) +
         19 * (F8 * G2) + 38 * (F9 * G1)))
      (word_of_int (F0 * G1 + F1 * G0 + 19 * (F2 * G9) + 19 * (F3 * G8) +
         19 * (F4 * G7) + 19 * (F5 * G6) + 19 * (F6 * G5) + 19 * (F7 * G4) +
         19 * (F8 * G3) + 19 * (F9 * G2)))
      (word_of_int (F0 * G2 + 2 * (F1 * G1) + F2 * G0 + 38 * (F3 * G9) +
         19 * (F4 * G8) + 38 * (F5 * G7) + 19 * (F6 * G6) + 38 * (F7 * G5) +
         19 * (F8 * G4) + 38 * (F9 * G3)))
      (word_of_int (F0 * G3 + F1 * G2 + F2 * G1 + F3 * G0 +
         19 * (F4 * G9) + 19 * (F5 * G8) + 19 * (F6 * G7) + 19 * (F7 * G6) +
         19 * (F8 * G5) + 19 * (F9 * G4)))
      (word_of_int (F0 * G4 + 2 * (F1 * G3) + F2 * G2 + 2 * (F3 * G1) +
         F4 * G0 + 38 * (F5 * G9) + 19 * (F6 * G8) + 38 * (F7 * G7) +
         19 * (F8 * G6) + 38 * (F9 * G5)))
      (word_of_int (F0 * G5 + F1 * G4 + F2 * G3 + F3 * G2 +
         F4 * G1 + F5 * G0 + 19 * (F6 * G9) + 19 * (F7 * G8) +
         19 * (F8 * G7) + 19 * (F9 * G6)))
      (word_of_int (F0 * G6 + 2 * (F1 * G5) + F2 * G4 + 2 * (F3 * G3) +
         F4 * G2 + 2 * (F5 * G1) + F6 * G0 + 38 * (F7 * G9) +
         19 * (F8 * G8) + 38 * (F9 * G7)))
      (word_of_int (F0 * G7 + F1 * G6 + F2 * G5 + F3 * G4 +
         F4 * G3 + F5 * G2 + F6 * G1 + F7 * G0 +
         19 * (F8 * G9) + 19 * (F9 * G8)))
      (word_of_int (F0 * G8 + 2 * (F1 * G7) + F2 * G6 + 2 * (F3 * G5) +
         F4 * G4 + 2 * (F5 * G3) + F6 * G2 + 2 * (F7 * G1) +
         F8 * G0 + 38 * (F9 * G9)))
      (word_of_int (F0 * G9 + F1 * G8 + F2 * G7 + F3 * G6 +
         F4 * G5 + F5 * G4 + F6 * G3 + F7 * G2 +
         F8 * G1 + F9 * G0))"
proof -
  have y0: "sint (19 * g1) = 19 * G1" by (rule sint_scale [OF s(12) b(12)]) simp
  have y1: "sint (19 * g2) = 19 * G2" by (rule sint_scale [OF s(13) b(13)]) simp
  have y2: "sint (19 * g3) = 19 * G3" by (rule sint_scale [OF s(14) b(14)]) simp
  have y3: "sint (19 * g4) = 19 * G4" by (rule sint_scale [OF s(15) b(15)]) simp
  have y4: "sint (19 * g5) = 19 * G5" by (rule sint_scale [OF s(16) b(16)]) simp
  have y5: "sint (19 * g6) = 19 * G6" by (rule sint_scale [OF s(17) b(17)]) simp
  have y6: "sint (19 * g7) = 19 * G7" by (rule sint_scale [OF s(18) b(18)]) simp
  have y7: "sint (19 * g8) = 19 * G8" by (rule sint_scale [OF s(19) b(19)]) simp
  have y8: "sint (19 * g9) = 19 * G9" by (rule sint_scale [OF s(20) b(20)]) simp
  have y9: "sint (2 * f1) = 2 * F1" by (rule sint_scale [OF s(2) b(2)]) simp
  have y10: "sint (2 * f3) = 2 * F3" by (rule sint_scale [OF s(4) b(4)]) simp
  have y11: "sint (2 * f5) = 2 * F5" by (rule sint_scale [OF s(6) b(6)]) simp
  have y12: "sint (2 * f7) = 2 * F7" by (rule sint_scale [OF s(8) b(8)]) simp
  have y13: "sint (2 * f9) = 2 * F9" by (rule sint_scale [OF s(10) b(10)]) simp
  note y = y0 y1 y2 y3 y4 y5 y6 y7 y8 y9 y10 y11 y12 y13
  show ?thesis
    unfolding fe_mul_def fe.case Let_def smul_word y s
    unfolding scaled_both
    by (simp only: scaled_one of_int_add arith_simps)
qed

lemma fe_mul_bounds:
  fixes F0 F1 F2 F3 F4 F5 F6 F7 F8 F9 G0 G1 G2 G3 G4 G5 G6 G7 G8 G9 :: int
  assumes b: "\<bar>F0\<bar> \<le> 110729625" "\<bar>F1\<bar> \<le> 55364812" "\<bar>F2\<bar> \<le> 110729625" "\<bar>F3\<bar> \<le> 55364812"
    "\<bar>F4\<bar> \<le> 110729625" "\<bar>F5\<bar> \<le> 55364812" "\<bar>F6\<bar> \<le> 110729625" "\<bar>F7\<bar> \<le> 55364812"
    "\<bar>F8\<bar> \<le> 110729625" "\<bar>F9\<bar> \<le> 55364812" "\<bar>G0\<bar> \<le> 110729625" "\<bar>G1\<bar> \<le> 55364812"
    "\<bar>G2\<bar> \<le> 110729625" "\<bar>G3\<bar> \<le> 55364812" "\<bar>G4\<bar> \<le> 110729625" "\<bar>G5\<bar> \<le> 55364812"
    "\<bar>G6\<bar> \<le> 110729625" "\<bar>G7\<bar> \<le> 55364812" "\<bar>G8\<bar> \<le> 110729625" "\<bar>G9\<bar> \<le> 55364812"
  shows "\<bar>F0 * G0 + 38 * (F1 * G9) + 19 * (F2 * G8) + 38 * (F3 * G7) +
         19 * (F4 * G6) + 38 * (F5 * G5) + 19 * (F6 * G4) + 38 * (F7 * G3) +
         19 * (F8 * G2) + 38 * (F9 * G1)\<bar> \<le> 8000000000000000000"
    and "\<bar>F0 * G1 + F1 * G0 + 19 * (F2 * G9) + 19 * (F3 * G8) +
         19 * (F4 * G7) + 19 * (F5 * G6) + 19 * (F6 * G5) + 19 * (F7 * G4) +
         19 * (F8 * G3) + 19 * (F9 * G2)\<bar> \<le> 8000000000000000000"
    and "\<bar>F0 * G2 + 2 * (F1 * G1) + F2 * G0 + 38 * (F3 * G9) +
         19 * (F4 * G8) + 38 * (F5 * G7) + 19 * (F6 * G6) + 38 * (F7 * G5) +
         19 * (F8 * G4) + 38 * (F9 * G3)\<bar> \<le> 8000000000000000000"
    and "\<bar>F0 * G3 + F1 * G2 + F2 * G1 + F3 * G0 +
         19 * (F4 * G9) + 19 * (F5 * G8) + 19 * (F6 * G7) + 19 * (F7 * G6) +
         19 * (F8 * G5) + 19 * (F9 * G4)\<bar> \<le> 8000000000000000000"
    and "\<bar>F0 * G4 + 2 * (F1 * G3) + F2 * G2 + 2 * (F3 * G1) +
         F4 * G0 + 38 * (F5 * G9) + 19 * (F6 * G8) + 38 * (F7 * G7) +
         19 * (F8 * G6) + 38 * (F9 * G5)\<bar> \<le> 8000000000000000000"
    and "\<bar>F0 * G5 + F1 * G4 + F2 * G3 + F3 * G2 +
         F4 * G1 + F5 * G0 + 19 * (F6 * G9) + 19 * (F7 * G8) +
         19 * (F8 * G7) + 19 * (F9 * G6)\<bar> \<le> 8000000000000000000"
    and "\<bar>F0 * G6 + 2 * (F1 * G5) + F2 * G4 + 2 * (F3 * G3) +
         F4 * G2 + 2 * (F5 * G1) + F6 * G0 + 38 * (F7 * G9) +
         19 * (F8 * G8) + 38 * (F9 * G7)\<bar> \<le> 8000000000000000000"
    and "\<bar>F0 * G7 + F1 * G6 + F2 * G5 + F3 * G4 +
         F4 * G3 + F5 * G2 + F6 * G1 + F7 * G0 +
         19 * (F8 * G9) + 19 * (F9 * G8)\<bar> \<le> 8000000000000000000"
    and "\<bar>F0 * G8 + 2 * (F1 * G7) + F2 * G6 + 2 * (F3 * G5) +
         F4 * G4 + 2 * (F5 * G3) + F6 * G2 + 2 * (F7 * G1) +
         F8 * G0 + 38 * (F9 * G9)\<bar> \<le> 8000000000000000000"
    and "\<bar>F0 * G9 + F1 * G8 + F2 * G7 + F3 * G6 +
         F4 * G5 + F5 * G4 + F6 * G3 + F7 * G2 +
         F8 * G1 + F9 * G0\<bar> \<le> 8000000000000000000"
proof -
  show "\<bar>F0 * G0 + 38 * (F1 * G9) + 19 * (F2 * G8) + 38 * (F3 * G7) +
         19 * (F4 * G6) + 38 * (F5 * G5) + 19 * (F6 * G4) + 38 * (F7 * G3) +
         19 * (F8 * G2) + 38 * (F9 * G1)\<bar> \<le> 8000000000000000000"
    using product_bound [OF b(1) b(11)] product_bound [OF b(2) b(20)] product_bound [OF b(3) b(19)]
      product_bound [OF b(4) b(18)] product_bound [OF b(5) b(17)] product_bound [OF b(6) b(16)]
      product_bound [OF b(7) b(15)] product_bound [OF b(8) b(14)] product_bound [OF b(9) b(13)]
      product_bound [OF b(10) b(12)]
    by (intro abs_leI; linarith)
  show "\<bar>F0 * G1 + F1 * G0 + 19 * (F2 * G9) + 19 * (F3 * G8) +
         19 * (F4 * G7) + 19 * (F5 * G6) + 19 * (F6 * G5) + 19 * (F7 * G4) +
         19 * (F8 * G3) + 19 * (F9 * G2)\<bar> \<le> 8000000000000000000"
    using product_bound [OF b(1) b(12)] product_bound [OF b(2) b(11)] product_bound [OF b(3) b(20)]
      product_bound [OF b(4) b(19)] product_bound [OF b(5) b(18)] product_bound [OF b(6) b(17)]
      product_bound [OF b(7) b(16)] product_bound [OF b(8) b(15)] product_bound [OF b(9) b(14)]
      product_bound [OF b(10) b(13)]
    by (intro abs_leI; linarith)
  show "\<bar>F0 * G2 + 2 * (F1 * G1) + F2 * G0 + 38 * (F3 * G9) +
         19 * (F4 * G8) + 38 * (F5 * G7) + 19 * (F6 * G6) + 38 * (F7 * G5) +
         19 * (F8 * G4) + 38 * (F9 * G3)\<bar> \<le> 8000000000000000000"
    using product_bound [OF b(1) b(13)] product_bound [OF b(2) b(12)] product_bound [OF b(3) b(11)]
      product_bound [OF b(4) b(20)] product_bound [OF b(5) b(19)] product_bound [OF b(6) b(18)]
      product_bound [OF b(7) b(17)] product_bound [OF b(8) b(16)] product_bound [OF b(9) b(15)]
      product_bound [OF b(10) b(14)]
    by (intro abs_leI; linarith)
  show "\<bar>F0 * G3 + F1 * G2 + F2 * G1 + F3 * G0 +
         19 * (F4 * G9) + 19 * (F5 * G8) + 19 * (F6 * G7) + 19 * (F7 * G6) +
         19 * (F8 * G5) + 19 * (F9 * G4)\<bar> \<le> 8000000000000000000"
    using product_bound [OF b(1) b(14)] product_bound [OF b(2) b(13)] product_bound [OF b(3) b(12)]
      product_bound [OF b(4) b(11)] product_bound [OF b(5) b(20)] product_bound [OF b(6) b(19)]
      product_bound [OF b(7) b(18)] product_bound [OF b(8) b(17)] product_bound [OF b(9) b(16)]
      product_bound [OF b(10) b(15)]
    by (intro abs_leI; linarith)
  show "\<bar>F0 * G4 + 2 * (F1 * G3) + F2 * G2 + 2 * (F3 * G1) +
         F4 * G0 + 38 * (F5 * G9) + 19 * (F6 * G8) + 38 * (F7 * G7) +
         19 * (F8 * G6) + 38 * (F9 * G5)\<bar> \<le> 8000000000000000000"
    using product_bound [OF b(1) b(15)] product_bound [OF b(2) b(14)] product_bound [OF b(3) b(13)]
      product_bound [OF b(4) b(12)] product_bound [OF b(5) b(11)] product_bound [OF b(6) b(20)]
      product_bound [OF b(7) b(19)] product_bound [OF b(8) b(18)] product_bound [OF b(9) b(17)]
      product_bound [OF b(10) b(16)]
    by (intro abs_leI; linarith)
  show "\<bar>F0 * G5 + F1 * G4 + F2 * G3 + F3 * G2 +
         F4 * G1 + F5 * G0 + 19 * (F6 * G9) + 19 * (F7 * G8) +
         19 * (F8 * G7) + 19 * (F9 * G6)\<bar> \<le> 8000000000000000000"
    using product_bound [OF b(1) b(16)] product_bound [OF b(2) b(15)] product_bound [OF b(3) b(14)]
      product_bound [OF b(4) b(13)] product_bound [OF b(5) b(12)] product_bound [OF b(6) b(11)]
      product_bound [OF b(7) b(20)] product_bound [OF b(8) b(19)] product_bound [OF b(9) b(18)]
      product_bound [OF b(10) b(17)]
    by (intro abs_leI; linarith)
  show "\<bar>F0 * G6 + 2 * (F1 * G5) + F2 * G4 + 2 * (F3 * G3) +
         F4 * G2 + 2 * (F5 * G1) + F6 * G0 + 38 * (F7 * G9) +
         19 * (F8 * G8) + 38 * (F9 * G7)\<bar> \<le> 8000000000000000000"
    using product_bound [OF b(1) b(17)] product_bound [OF b(2) b(16)] product_bound [OF b(3) b(15)]
      product_bound [OF b(4) b(14)] product_bound [OF b(5) b(13)] product_bound [OF b(6) b(12)]
      product_bound [OF b(7) b(11)] product_bound [OF b(8) b(20)] product_bound [OF b(9) b(19)]
      product_bound [OF b(10) b(18)]
    by (intro abs_leI; linarith)
  show "\<bar>F0 * G7 + F1 * G6 + F2 * G5 + F3 * G4 +
         F4 * G3 + F5 * G2 + F6 * G1 + F7 * G0 +
         19 * (F8 * G9) + 19 * (F9 * G8)\<bar> \<le> 8000000000000000000"
    using product_bound [OF b(1) b(18)] product_bound [OF b(2) b(17)] product_bound [OF b(3) b(16)]
      product_bound [OF b(4) b(15)] product_bound [OF b(5) b(14)] product_bound [OF b(6) b(13)]
      product_bound [OF b(7) b(12)] product_bound [OF b(8) b(11)] product_bound [OF b(9) b(20)]
      product_bound [OF b(10) b(19)]
    by (intro abs_leI; linarith)
  show "\<bar>F0 * G8 + 2 * (F1 * G7) + F2 * G6 + 2 * (F3 * G5) +
         F4 * G4 + 2 * (F5 * G3) + F6 * G2 + 2 * (F7 * G1) +
         F8 * G0 + 38 * (F9 * G9)\<bar> \<le> 8000000000000000000"
    using product_bound [OF b(1) b(19)] product_bound [OF b(2) b(18)] product_bound [OF b(3) b(17)]
      product_bound [OF b(4) b(16)] product_bound [OF b(5) b(15)] product_bound [OF b(6) b(14)]
      product_bound [OF b(7) b(13)] product_bound [OF b(8) b(12)] product_bound [OF b(9) b(11)]
      product_bound [OF b(10) b(20)]
    by (intro abs_leI; linarith)
  show "\<bar>F0 * G9 + F1 * G8 + F2 * G7 + F3 * G6 +
         F4 * G5 + F5 * G4 + F6 * G3 + F7 * G2 +
         F8 * G1 + F9 * G0\<bar> \<le> 8000000000000000000"
    using product_bound [OF b(1) b(20)] product_bound [OF b(2) b(19)] product_bound [OF b(3) b(18)]
      product_bound [OF b(4) b(17)] product_bound [OF b(5) b(16)] product_bound [OF b(6) b(15)]
      product_bound [OF b(7) b(14)] product_bound [OF b(8) b(13)] product_bound [OF b(9) b(12)]
      product_bound [OF b(10) b(11)]
    by (intro abs_leI; linarith)
qed

lemma mod_fe_p [simp]: "(a - fe_p * k) mod fe_p = a mod fe_p"
  by (simp add: mod_diff_eq [symmetric])

lemma fe_mul_value:
  fixes F0 F1 F2 F3 F4 F5 F6 F7 F8 F9 G0 G1 G2 G3 G4 G5 G6 G7 G8 G9 :: int
  shows "limbs_val
      (F0 * G0 + 38 * (F1 * G9) + 19 * (F2 * G8) + 38 * (F3 * G7) +
       19 * (F4 * G6) + 38 * (F5 * G5) + 19 * (F6 * G4) + 38 * (F7 * G3) +
       19 * (F8 * G2) + 38 * (F9 * G1))
      (F0 * G1 + F1 * G0 + 19 * (F2 * G9) + 19 * (F3 * G8) +
       19 * (F4 * G7) + 19 * (F5 * G6) + 19 * (F6 * G5) + 19 * (F7 * G4) +
       19 * (F8 * G3) + 19 * (F9 * G2))
      (F0 * G2 + 2 * (F1 * G1) + F2 * G0 + 38 * (F3 * G9) +
       19 * (F4 * G8) + 38 * (F5 * G7) + 19 * (F6 * G6) + 38 * (F7 * G5) +
       19 * (F8 * G4) + 38 * (F9 * G3))
      (F0 * G3 + F1 * G2 + F2 * G1 + F3 * G0 +
       19 * (F4 * G9) + 19 * (F5 * G8) + 19 * (F6 * G7) + 19 * (F7 * G6) +
       19 * (F8 * G5) + 19 * (F9 * G4))
      (F0 * G4 + 2 * (F1 * G3) + F2 * G2 + 2 * (F3 * G1) +
       F4 * G0 + 38 * (F5 * G9) + 19 * (F6 * G8) + 38 * (F7 * G7) +
       19 * (F8 * G6) + 38 * (F9 * G5))
      (F0 * G5 + F1 * G4 + F2 * G3 + F3 * G2 +
       F4 * G1 + F5 * G0 + 19 * (F6 * G9) + 19 * (F7 * G8) +
       19 * (F8 * G7) + 19 * (F9 * G6))
      (F0 * G6 + 2 * (F1 * G5) + F2 * G4 + 2 * (F3 * G3) +
       F4 * G2 + 2 * (F5 * G1) + F6 * G0 + 38 * (F7 * G9) +
       19 * (F8 * G8) + 38 * (F9 * G7))
      (F0 * G7 + F1 * G6 + F2 * G5 + F3 * G4 +
       F4 * G3 + F5 * G2 + F6 * G1 + F7 * G0 +
       19 * (F8 * G9) + 19 * (F9 * G8))
      (F0 * G8 + 2 * (F1 * G7) + F2 * G6 + 2 * (F3 * G5) +
       F4 * G4 + 2 * (F5 * G3) + F6 * G2 + 2 * (F7 * G1) +
       F8 * G0 + 38 * (F9 * G9))
      (F0 * G9 + F1 * G8 + F2 * G7 + F3 * G6 +
       F4 * G5 + F5 * G4 + F6 * G3 + F7 * G2 +
       F8 * G1 + F9 * G0)
     mod fe_p =
     limbs_val F0 F1 F2 F3 F4 F5 F6 F7 F8 F9 * limbs_val G0 G1 G2 G3 G4 G5 G6 G7 G8 G9 mod fe_p"
    (is "?l mod fe_p = ?r mod fe_p")
proof -
  have "?l = ?r - fe_p * (2 * (F1 * G9) + 1 * (F2 * G8) +
       67108864 * (F2 * G9) + 2 * (F3 * G7) +
       67108864 * (F3 * G8) + 4503599627370496 * (F3 * G9) +
       1 * (F4 * G6) + 67108864 * (F4 * G7) +
       2251799813685248 * (F4 * G8) + 151115727451828646838272 * (F4 * G9) +
       2 * (F5 * G5) + 67108864 * (F5 * G6) +
       4503599627370496 * (F5 * G7) + 151115727451828646838272 * (F5 * G8) +
       10141204801825835211973625643008 * (F5 * G9) + 1 * (F6 * G4) +
       67108864 * (F6 * G5) + 2251799813685248 * (F6 * G6) +
       151115727451828646838272 * (F6 * G7) + 5070602400912917605986812821504 * (F6 * G8) +
       340282366920938463463374607431768211456 * (F6 * G9) + 2 * (F7 * G3) +
       67108864 * (F7 * G4) + 4503599627370496 * (F7 * G5) +
       151115727451828646838272 * (F7 * G6) + 10141204801825835211973625643008 * (F7 * G7) +
       340282366920938463463374607431768211456 * (F7 * G8) + 22835963083295358096932575511191922182123945984 * (F7 * G9) +
       1 * (F8 * G2) + 67108864 * (F8 * G3) +
       2251799813685248 * (F8 * G4) + 151115727451828646838272 * (F8 * G5) +
       5070602400912917605986812821504 * (F8 * G6) + 340282366920938463463374607431768211456 * (F8 * G7) +
       11417981541647679048466287755595961091061972992 * (F8 * G8) + 766247770432944429179173513575154591809369561091801088 * (F8 * G9) +
       2 * (F9 * G1) + 67108864 * (F9 * G2) +
       4503599627370496 * (F9 * G3) + 151115727451828646838272 * (F9 * G4) +
       10141204801825835211973625643008 * (F9 * G5) + 340282366920938463463374607431768211456 * (F9 * G6) +
       22835963083295358096932575511191922182123945984 * (F9 * G7) + 766247770432944429179173513575154591809369561091801088 * (F9 * G8) +
       51422017416287688817342786954917203280710495801049370729644032 * (F9 * G9))"
    unfolding limbs_val_def fe_p_def by algebra
  then show ?thesis by (simp only: mod_fe_p)
qed

lemma fe_val_Fe: "fe_val (Fe f0 f1 f2 f3 f4 f5 f6 f7 f8 f9) = limbs_val (sint f0) (sint f1) (sint f2) (sint f3)
    (sint f4) (sint f5) (sint f6) (sint f7) (sint f8) (sint f9)"
  by (simp add: fe_val_def)

theorem fe_mul_correct:
  assumes "fe_wide f" and "fe_wide g"
  shows "fe_tight (fe_mul f g) \<and> fe_abs (fe_mul f g) = fe_abs f * fe_abs g mod fe_p"
proof -
  obtain f0 f1 f2 f3 f4 f5 f6 f7 f8 f9 where f: "f = Fe f0 f1 f2 f3 f4 f5 f6 f7 f8 f9" by (cases f)
  obtain g0 g1 g2 g3 g4 g5 g6 g7 g8 g9 where g: "g = Fe g0 g1 g2 g3 g4 g5 g6 g7 g8 g9" by (cases g)
  have bounds: "\<bar>sint f0\<bar> \<le> 110729625" "\<bar>sint f1\<bar> \<le> 55364812" "\<bar>sint f2\<bar> \<le> 110729625"
    "\<bar>sint f3\<bar> \<le> 55364812" "\<bar>sint f4\<bar> \<le> 110729625" "\<bar>sint f5\<bar> \<le> 55364812"
    "\<bar>sint f6\<bar> \<le> 110729625" "\<bar>sint f7\<bar> \<le> 55364812" "\<bar>sint f8\<bar> \<le> 110729625"
    "\<bar>sint f9\<bar> \<le> 55364812" "\<bar>sint g0\<bar> \<le> 110729625" "\<bar>sint g1\<bar> \<le> 55364812"
    "\<bar>sint g2\<bar> \<le> 110729625" "\<bar>sint g3\<bar> \<le> 55364812" "\<bar>sint g4\<bar> \<le> 110729625"
    "\<bar>sint g5\<bar> \<le> 55364812" "\<bar>sint g6\<bar> \<le> 110729625" "\<bar>sint g7\<bar> \<le> 55364812"
    "\<bar>sint g8\<bar> \<le> 110729625" "\<bar>sint g9\<bar> \<le> 55364812"
    using assms by (simp_all add: f g fe_bounded_def)
  note words = fe_mul_words [OF refl refl refl refl refl refl refl refl refl refl
      refl refl refl refl refl refl refl refl refl refl bounds]
  show ?thesis
    using fe_reduce_correct [OF fe_mul_bounds [OF bounds]]
    unfolding f g words fe_mul_value fe_abs_def fe_val_Fe by (simp only: mod_mult_eq)
qed

lemma fe_sq_words:
  assumes s: "sint f0 = F0" "sint f1 = F1" "sint f2 = F2" "sint f3 = F3" "sint f4 = F4" "sint f5 = F5"
    "sint f6 = F6" "sint f7 = F7" "sint f8 = F8" "sint f9 = F9"
    and b: "\<bar>F0\<bar> \<le> 110729625" "\<bar>F1\<bar> \<le> 55364812" "\<bar>F2\<bar> \<le> 110729625" "\<bar>F3\<bar> \<le> 55364812"
    "\<bar>F4\<bar> \<le> 110729625" "\<bar>F5\<bar> \<le> 55364812" "\<bar>F6\<bar> \<le> 110729625" "\<bar>F7\<bar> \<le> 55364812"
    "\<bar>F8\<bar> \<le> 110729625" "\<bar>F9\<bar> \<le> 55364812"
  shows "fe_sq (Fe f0 f1 f2 f3 f4 f5 f6 f7 f8 f9) =
    fe_reduce
      (word_of_int (F0 * F0 + 76 * (F1 * F9) + 38 * (F2 * F8) + 76 * (F3 * F7) +
         38 * (F4 * F6) + 38 * (F5 * F5)))
      (word_of_int (2 * (F0 * F1) + 38 * (F2 * F9) + 38 * (F3 * F8) + 38 * (F4 * F7) +
         38 * (F5 * F6)))
      (word_of_int (2 * (F0 * F2) + 2 * (F1 * F1) + 76 * (F3 * F9) + 38 * (F4 * F8) +
         76 * (F5 * F7) + 19 * (F6 * F6)))
      (word_of_int (2 * (F0 * F3) + 2 * (F1 * F2) + 38 * (F4 * F9) + 38 * (F5 * F8) +
         38 * (F6 * F7)))
      (word_of_int (2 * (F0 * F4) + 4 * (F1 * F3) + F2 * F2 + 76 * (F5 * F9) +
         38 * (F6 * F8) + 38 * (F7 * F7)))
      (word_of_int (2 * (F0 * F5) + 2 * (F1 * F4) + 2 * (F2 * F3) + 38 * (F6 * F9) +
         38 * (F7 * F8)))
      (word_of_int (2 * (F0 * F6) + 4 * (F1 * F5) + 2 * (F2 * F4) + 2 * (F3 * F3) +
         76 * (F7 * F9) + 19 * (F8 * F8)))
      (word_of_int (2 * (F0 * F7) + 2 * (F1 * F6) + 2 * (F2 * F5) + 2 * (F3 * F4) +
         38 * (F8 * F9)))
      (word_of_int (2 * (F0 * F8) + 4 * (F1 * F7) + 2 * (F2 * F6) + 4 * (F3 * F5) +
         F4 * F4 + 38 * (F9 * F9)))
      (word_of_int (2 * (F0 * F9) + 2 * (F1 * F8) + 2 * (F2 * F7) + 2 * (F3 * F6) +
         2 * (F4 * F5)))"
proof -
  have y0: "sint (2 * f0) = 2 * F0" by (rule sint_scale [OF s(1) b(1)]) simp
  have y1: "sint (2 * f1) = 2 * F1" by (rule sint_scale [OF s(2) b(2)]) simp
  have y2: "sint (2 * f2) = 2 * F2" by (rule sint_scale [OF s(3) b(3)]) simp
  have y3: "sint (2 * f3) = 2 * F3" by (rule sint_scale [OF s(4) b(4)]) simp
  have y4: "sint (2 * f4) = 2 * F4" by (rule sint_scale [OF s(5) b(5)]) simp
  have y5: "sint (2 * f5) = 2 * F5" by (rule sint_scale [OF s(6) b(6)]) simp
  have y6: "sint (2 * f6) = 2 * F6" by (rule sint_scale [OF s(7) b(7)]) simp
  have y7: "sint (2 * f7) = 2 * F7" by (rule sint_scale [OF s(8) b(8)]) simp
  have y8: "sint (38 * f5) = 38 * F5" by (rule sint_scale [OF s(6) b(6)]) simp
  have y9: "sint (19 * f6) = 19 * F6" by (rule sint_scale [OF s(7) b(7)]) simp
  have y10: "sint (38 * f7) = 38 * F7" by (rule sint_scale [OF s(8) b(8)]) simp
  have y11: "sint (19 * f8) = 19 * F8" by (rule sint_scale [OF s(9) b(9)]) simp
  have y12: "sint (38 * f9) = 38 * F9" by (rule sint_scale [OF s(10) b(10)]) simp
  note y = y0 y1 y2 y3 y4 y5 y6 y7 y8 y9 y10 y11 y12
  show ?thesis
    unfolding fe_sq_def fe.case Let_def smul_word y s
    unfolding scaled_both
    by (simp only: scaled_one of_int_add arith_simps)
qed

lemma fe_sq_bounds:
  fixes F0 F1 F2 F3 F4 F5 F6 F7 F8 F9 :: int
  assumes b: "\<bar>F0\<bar> \<le> 110729625" "\<bar>F1\<bar> \<le> 55364812" "\<bar>F2\<bar> \<le> 110729625" "\<bar>F3\<bar> \<le> 55364812"
    "\<bar>F4\<bar> \<le> 110729625" "\<bar>F5\<bar> \<le> 55364812" "\<bar>F6\<bar> \<le> 110729625" "\<bar>F7\<bar> \<le> 55364812"
    "\<bar>F8\<bar> \<le> 110729625" "\<bar>F9\<bar> \<le> 55364812"
  shows "\<bar>F0 * F0 + 76 * (F1 * F9) + 38 * (F2 * F8) + 76 * (F3 * F7) +
         38 * (F4 * F6) + 38 * (F5 * F5)\<bar> \<le> 8000000000000000000"
    and "\<bar>2 * (F0 * F1) + 38 * (F2 * F9) + 38 * (F3 * F8) + 38 * (F4 * F7) +
         38 * (F5 * F6)\<bar> \<le> 8000000000000000000"
    and "\<bar>2 * (F0 * F2) + 2 * (F1 * F1) + 76 * (F3 * F9) + 38 * (F4 * F8) +
         76 * (F5 * F7) + 19 * (F6 * F6)\<bar> \<le> 8000000000000000000"
    and "\<bar>2 * (F0 * F3) + 2 * (F1 * F2) + 38 * (F4 * F9) + 38 * (F5 * F8) +
         38 * (F6 * F7)\<bar> \<le> 8000000000000000000"
    and "\<bar>2 * (F0 * F4) + 4 * (F1 * F3) + F2 * F2 + 76 * (F5 * F9) +
         38 * (F6 * F8) + 38 * (F7 * F7)\<bar> \<le> 8000000000000000000"
    and "\<bar>2 * (F0 * F5) + 2 * (F1 * F4) + 2 * (F2 * F3) + 38 * (F6 * F9) +
         38 * (F7 * F8)\<bar> \<le> 8000000000000000000"
    and "\<bar>2 * (F0 * F6) + 4 * (F1 * F5) + 2 * (F2 * F4) + 2 * (F3 * F3) +
         76 * (F7 * F9) + 19 * (F8 * F8)\<bar> \<le> 8000000000000000000"
    and "\<bar>2 * (F0 * F7) + 2 * (F1 * F6) + 2 * (F2 * F5) + 2 * (F3 * F4) +
         38 * (F8 * F9)\<bar> \<le> 8000000000000000000"
    and "\<bar>2 * (F0 * F8) + 4 * (F1 * F7) + 2 * (F2 * F6) + 4 * (F3 * F5) +
         F4 * F4 + 38 * (F9 * F9)\<bar> \<le> 8000000000000000000"
    and "\<bar>2 * (F0 * F9) + 2 * (F1 * F8) + 2 * (F2 * F7) + 2 * (F3 * F6) +
         2 * (F4 * F5)\<bar> \<le> 8000000000000000000"
proof -
  show "\<bar>F0 * F0 + 76 * (F1 * F9) + 38 * (F2 * F8) + 76 * (F3 * F7) +
         38 * (F4 * F6) + 38 * (F5 * F5)\<bar> \<le> 8000000000000000000"
    using product_bound [OF b(1) b(1)] product_bound [OF b(2) b(10)] product_bound [OF b(3) b(9)]
      product_bound [OF b(4) b(8)] product_bound [OF b(5) b(7)] product_bound [OF b(6) b(6)]
    by (intro abs_leI; linarith)
  show "\<bar>2 * (F0 * F1) + 38 * (F2 * F9) + 38 * (F3 * F8) + 38 * (F4 * F7) +
         38 * (F5 * F6)\<bar> \<le> 8000000000000000000"
    using product_bound [OF b(1) b(2)] product_bound [OF b(3) b(10)] product_bound [OF b(4) b(9)]
      product_bound [OF b(5) b(8)] product_bound [OF b(6) b(7)]
    by (intro abs_leI; linarith)
  show "\<bar>2 * (F0 * F2) + 2 * (F1 * F1) + 76 * (F3 * F9) + 38 * (F4 * F8) +
         76 * (F5 * F7) + 19 * (F6 * F6)\<bar> \<le> 8000000000000000000"
    using product_bound [OF b(1) b(3)] product_bound [OF b(2) b(2)] product_bound [OF b(4) b(10)]
      product_bound [OF b(5) b(9)] product_bound [OF b(6) b(8)] product_bound [OF b(7) b(7)]
    by (intro abs_leI; linarith)
  show "\<bar>2 * (F0 * F3) + 2 * (F1 * F2) + 38 * (F4 * F9) + 38 * (F5 * F8) +
         38 * (F6 * F7)\<bar> \<le> 8000000000000000000"
    using product_bound [OF b(1) b(4)] product_bound [OF b(2) b(3)] product_bound [OF b(5) b(10)]
      product_bound [OF b(6) b(9)] product_bound [OF b(7) b(8)]
    by (intro abs_leI; linarith)
  show "\<bar>2 * (F0 * F4) + 4 * (F1 * F3) + F2 * F2 + 76 * (F5 * F9) +
         38 * (F6 * F8) + 38 * (F7 * F7)\<bar> \<le> 8000000000000000000"
    using product_bound [OF b(1) b(5)] product_bound [OF b(2) b(4)] product_bound [OF b(3) b(3)]
      product_bound [OF b(6) b(10)] product_bound [OF b(7) b(9)] product_bound [OF b(8) b(8)]
    by (intro abs_leI; linarith)
  show "\<bar>2 * (F0 * F5) + 2 * (F1 * F4) + 2 * (F2 * F3) + 38 * (F6 * F9) +
         38 * (F7 * F8)\<bar> \<le> 8000000000000000000"
    using product_bound [OF b(1) b(6)] product_bound [OF b(2) b(5)] product_bound [OF b(3) b(4)]
      product_bound [OF b(7) b(10)] product_bound [OF b(8) b(9)]
    by (intro abs_leI; linarith)
  show "\<bar>2 * (F0 * F6) + 4 * (F1 * F5) + 2 * (F2 * F4) + 2 * (F3 * F3) +
         76 * (F7 * F9) + 19 * (F8 * F8)\<bar> \<le> 8000000000000000000"
    using product_bound [OF b(1) b(7)] product_bound [OF b(2) b(6)] product_bound [OF b(3) b(5)]
      product_bound [OF b(4) b(4)] product_bound [OF b(8) b(10)] product_bound [OF b(9) b(9)]
    by (intro abs_leI; linarith)
  show "\<bar>2 * (F0 * F7) + 2 * (F1 * F6) + 2 * (F2 * F5) + 2 * (F3 * F4) +
         38 * (F8 * F9)\<bar> \<le> 8000000000000000000"
    using product_bound [OF b(1) b(8)] product_bound [OF b(2) b(7)] product_bound [OF b(3) b(6)]
      product_bound [OF b(4) b(5)] product_bound [OF b(9) b(10)]
    by (intro abs_leI; linarith)
  show "\<bar>2 * (F0 * F8) + 4 * (F1 * F7) + 2 * (F2 * F6) + 4 * (F3 * F5) +
         F4 * F4 + 38 * (F9 * F9)\<bar> \<le> 8000000000000000000"
    using product_bound [OF b(1) b(9)] product_bound [OF b(2) b(8)] product_bound [OF b(3) b(7)]
      product_bound [OF b(4) b(6)] product_bound [OF b(5) b(5)] product_bound [OF b(10) b(10)]
    by (intro abs_leI; linarith)
  show "\<bar>2 * (F0 * F9) + 2 * (F1 * F8) + 2 * (F2 * F7) + 2 * (F3 * F6) +
         2 * (F4 * F5)\<bar> \<le> 8000000000000000000"
    using product_bound [OF b(1) b(10)] product_bound [OF b(2) b(9)] product_bound [OF b(3) b(8)]
      product_bound [OF b(4) b(7)] product_bound [OF b(5) b(6)]
    by (intro abs_leI; linarith)
qed

lemma fe_sq_value:
  fixes F0 F1 F2 F3 F4 F5 F6 F7 F8 F9 :: int
  shows "limbs_val
      (F0 * F0 + 76 * (F1 * F9) + 38 * (F2 * F8) + 76 * (F3 * F7) +
       38 * (F4 * F6) + 38 * (F5 * F5))
      (2 * (F0 * F1) + 38 * (F2 * F9) + 38 * (F3 * F8) + 38 * (F4 * F7) +
       38 * (F5 * F6))
      (2 * (F0 * F2) + 2 * (F1 * F1) + 76 * (F3 * F9) + 38 * (F4 * F8) +
       76 * (F5 * F7) + 19 * (F6 * F6))
      (2 * (F0 * F3) + 2 * (F1 * F2) + 38 * (F4 * F9) + 38 * (F5 * F8) +
       38 * (F6 * F7))
      (2 * (F0 * F4) + 4 * (F1 * F3) + F2 * F2 + 76 * (F5 * F9) +
       38 * (F6 * F8) + 38 * (F7 * F7))
      (2 * (F0 * F5) + 2 * (F1 * F4) + 2 * (F2 * F3) + 38 * (F6 * F9) +
       38 * (F7 * F8))
      (2 * (F0 * F6) + 4 * (F1 * F5) + 2 * (F2 * F4) + 2 * (F3 * F3) +
       76 * (F7 * F9) + 19 * (F8 * F8))
      (2 * (F0 * F7) + 2 * (F1 * F6) + 2 * (F2 * F5) + 2 * (F3 * F4) +
       38 * (F8 * F9))
      (2 * (F0 * F8) + 4 * (F1 * F7) + 2 * (F2 * F6) + 4 * (F3 * F5) +
       F4 * F4 + 38 * (F9 * F9))
      (2 * (F0 * F9) + 2 * (F1 * F8) + 2 * (F2 * F7) + 2 * (F3 * F6) +
       2 * (F4 * F5))
     mod fe_p =
     limbs_val F0 F1 F2 F3 F4 F5 F6 F7 F8 F9 * limbs_val F0 F1 F2 F3 F4 F5 F6 F7 F8 F9 mod fe_p"
    (is "?l mod fe_p = ?r mod fe_p")
proof -
  have "?l = ?r - fe_p * (4 * (F1 * F9) + 2 * (F2 * F8) +
       134217728 * (F2 * F9) + 4 * (F3 * F7) +
       134217728 * (F3 * F8) + 9007199254740992 * (F3 * F9) +
       2 * (F4 * F6) + 134217728 * (F4 * F7) +
       4503599627370496 * (F4 * F8) + 302231454903657293676544 * (F4 * F9) +
       2 * (F5 * F5) + 134217728 * (F5 * F6) +
       9007199254740992 * (F5 * F7) + 302231454903657293676544 * (F5 * F8) +
       20282409603651670423947251286016 * (F5 * F9) + 2251799813685248 * (F6 * F6) +
       302231454903657293676544 * (F6 * F7) + 10141204801825835211973625643008 * (F6 * F8) +
       680564733841876926926749214863536422912 * (F6 * F9) + 10141204801825835211973625643008 * (F7 * F7) +
       680564733841876926926749214863536422912 * (F7 * F8) + 45671926166590716193865151022383844364247891968 * (F7 * F9) +
       11417981541647679048466287755595961091061972992 * (F8 * F8) + 1532495540865888858358347027150309183618739122183602176 * (F8 * F9) +
       51422017416287688817342786954917203280710495801049370729644032 * (F9 * F9))"
    unfolding limbs_val_def fe_p_def by algebra
  then show ?thesis by (simp only: mod_fe_p)
qed

theorem fe_sq_correct:
  assumes "fe_wide f"
  shows "fe_tight (fe_sq f) \<and> fe_abs (fe_sq f) = fe_abs f * fe_abs f mod fe_p"
proof -
  obtain f0 f1 f2 f3 f4 f5 f6 f7 f8 f9 where f: "f = Fe f0 f1 f2 f3 f4 f5 f6 f7 f8 f9" by (cases f)
  have bounds: "\<bar>sint f0\<bar> \<le> 110729625" "\<bar>sint f1\<bar> \<le> 55364812" "\<bar>sint f2\<bar> \<le> 110729625"
    "\<bar>sint f3\<bar> \<le> 55364812" "\<bar>sint f4\<bar> \<le> 110729625" "\<bar>sint f5\<bar> \<le> 55364812"
    "\<bar>sint f6\<bar> \<le> 110729625" "\<bar>sint f7\<bar> \<le> 55364812" "\<bar>sint f8\<bar> \<le> 110729625"
    "\<bar>sint f9\<bar> \<le> 55364812"
    using assms by (simp_all add: f fe_bounded_def)
  note words = fe_sq_words [OF refl refl refl refl refl refl refl refl refl refl bounds]
  show ?thesis
    using fe_reduce_correct [OF fe_sq_bounds [OF bounds]]
    unfolding f words fe_sq_value fe_abs_def fe_val_Fe by (simp only: mod_mult_eq)
qed

section \<open>The other operations\<close>

lemma sint_add32:
  "\<bar>sint a\<bar> \<le> c \<Longrightarrow> \<bar>sint b\<bar> \<le> c \<Longrightarrow> c \<le> 1073741823 \<Longrightarrow> sint (a + b :: i32) = sint a + sint b"
proof -
  assume "\<bar>sint a\<bar> \<le> c" "\<bar>sint b\<bar> \<le> c" "c \<le> 1073741823"
  then have "- 2147483648 \<le> sint a + sint b" "sint a + sint b < 2147483648" by linarith+
  moreover have "a + b = (word_of_int (sint a + sint b) :: i32)" by simp
  ultimately show ?thesis by (simp only: sint_of_int32)
qed

lemma sint_sub32:
  "\<bar>sint a\<bar> \<le> c \<Longrightarrow> \<bar>sint b\<bar> \<le> c \<Longrightarrow> c \<le> 1073741823 \<Longrightarrow> sint (a - b :: i32) = sint a - sint b"
proof -
  assume "\<bar>sint a\<bar> \<le> c" "\<bar>sint b\<bar> \<le> c" "c \<le> 1073741823"
  then have "- 2147483648 \<le> sint a - sint b" "sint a - sint b < 2147483648" by linarith+
  moreover have "a - b = (word_of_int (sint a - sint b) :: i32)" by simp
  ultimately show ?thesis by (simp only: sint_of_int32)
qed

lemma abs_add_bound: "\<bar>x\<bar> \<le> c \<Longrightarrow> \<bar>y\<bar> \<le> c \<Longrightarrow> \<bar>x + y\<bar> \<le> 2 * c \<and> \<bar>x - y\<bar> \<le> 2 * (c :: int)"
  by linarith

lemma fe_add_correct:
  assumes "fe_tight f" and "fe_tight g"
  shows "fe_sum (fe_add f g) \<and> fe_abs (fe_add f g) = (fe_abs f + fe_abs g) mod fe_p"
proof -
  obtain f0 f1 f2 f3 f4 f5 f6 f7 f8 f9 where f: "f = Fe f0 f1 f2 f3 f4 f5 f6 f7 f8 f9" by (cases f)
  obtain g0 g1 g2 g3 g4 g5 g6 g7 g8 g9 where g: "g = Fe g0 g1 g2 g3 g4 g5 g6 g7 g8 g9" by (cases g)
  have add: "sint (a + b) = sint a + sint b" if "\<bar>sint a\<bar> \<le> 33554432" "\<bar>sint b\<bar> \<le> 33554432" for a b :: i32
    using sint_add32 that by simp
  have add': "sint (a + b) = sint a + sint b" if "\<bar>sint a\<bar> \<le> 16944988" "\<bar>sint b\<bar> \<le> 16944988" for a b :: i32
    using sint_add32 that by simp
  have bound: "\<bar>x + y\<bar> \<le> 67108864" if "\<bar>x\<bar> \<le> 33554432" "\<bar>y\<bar> \<le> 33554432" for x y :: int
    using abs_add_bound that by fastforce
  have bound': "\<bar>x + y\<bar> \<le> 33889976" if "\<bar>x\<bar> \<le> 16944988" "\<bar>y\<bar> \<le> 16944988" for x y :: int
    using abs_add_bound that by fastforce
  have val: "fe_val (fe_add f g) = fe_val f + fe_val g"
    using assms by (simp add: f g fe_add_def fe_val_Fe fe_bounded_def add add' limbs_val_def algebra_simps)
  have "fe_sum (fe_add f g)"
    using assms by (simp add: f g fe_add_def fe_bounded_def add add' bound bound')
  then show ?thesis by (simp add: fe_abs_def val mod_add_eq)
qed

lemma fe_sub_correct:
  assumes "fe_tight f" and "fe_tight g"
  shows "fe_sum (fe_sub f g) \<and> fe_abs (fe_sub f g) = (fe_abs f - fe_abs g) mod fe_p"
proof -
  obtain f0 f1 f2 f3 f4 f5 f6 f7 f8 f9 where f: "f = Fe f0 f1 f2 f3 f4 f5 f6 f7 f8 f9" by (cases f)
  obtain g0 g1 g2 g3 g4 g5 g6 g7 g8 g9 where g: "g = Fe g0 g1 g2 g3 g4 g5 g6 g7 g8 g9" by (cases g)
  have sub: "sint (a - b) = sint a - sint b" if "\<bar>sint a\<bar> \<le> 33554432" "\<bar>sint b\<bar> \<le> 33554432" for a b :: i32
    using sint_sub32 that by simp
  have sub': "sint (a - b) = sint a - sint b" if "\<bar>sint a\<bar> \<le> 16944988" "\<bar>sint b\<bar> \<le> 16944988" for a b :: i32
    using sint_sub32 that by simp
  have bound: "\<bar>x - y\<bar> \<le> 67108864" if "\<bar>x\<bar> \<le> 33554432" "\<bar>y\<bar> \<le> 33554432" for x y :: int
    using abs_add_bound that by fastforce
  have bound': "\<bar>x - y\<bar> \<le> 33889976" if "\<bar>x\<bar> \<le> 16944988" "\<bar>y\<bar> \<le> 16944988" for x y :: int
    using abs_add_bound that by fastforce
  have val: "fe_val (fe_sub f g) = fe_val f - fe_val g"
    using assms by (simp add: f g fe_sub_def fe_val_Fe fe_bounded_def sub sub' limbs_val_def algebra_simps)
  have "fe_sum (fe_sub f g)"
    using assms by (simp add: f g fe_sub_def fe_bounded_def sub sub' bound bound')
  then show ?thesis by (simp add: fe_abs_def val mod_diff_eq)
qed

lemma fe_mul121666_correct:
  assumes "fe_sum f"
  shows "fe_tight (fe_mul121666 f) \<and> fe_abs (fe_mul121666 f) = 121666 * fe_abs f mod fe_p"
proof -
  obtain f0 f1 f2 f3 f4 f5 f6 f7 f8 f9 where f: "f = Fe f0 f1 f2 f3 f4 f5 f6 f7 f8 f9" by (cases f)
  have word: "scast a * (121666 :: i64) = word_of_int (121666 * sint a)" for a :: i32 by simp
  have bound: "\<bar>121666 * x\<bar> \<le> 9000000000000" if "\<bar>x\<bar> \<le> 67108864" for x :: int using that by simp
  have bound': "\<bar>121666 * x\<bar> \<le> 9000000000000" if "\<bar>x\<bar> \<le> 33889976" for x :: int using that by simp
  have b: "\<bar>sint f0\<bar> \<le> 67108864" "\<bar>sint f1\<bar> \<le> 33889976" "\<bar>sint f2\<bar> \<le> 67108864" "\<bar>sint f3\<bar> \<le> 33889976"
    "\<bar>sint f4\<bar> \<le> 67108864" "\<bar>sint f5\<bar> \<le> 33889976" "\<bar>sint f6\<bar> \<le> 67108864" "\<bar>sint f7\<bar> \<le> 33889976"
    "\<bar>sint f8\<bar> \<le> 67108864" "\<bar>sint f9\<bar> \<le> 33889976"
    using assms by (simp_all add: f fe_bounded_def)
  note red = fe_carry_correct [OF bound [OF b(1)] bound' [OF b(2)] bound [OF b(3)] bound' [OF b(4)]
      bound [OF b(5)] bound' [OF b(6)] bound [OF b(7)] bound' [OF b(8)] bound [OF b(9)] bound' [OF b(10)]]
  have "limbs_val (121666 * sint f0) (121666 * sint f1) (121666 * sint f2) (121666 * sint f3)
      (121666 * sint f4) (121666 * sint f5) (121666 * sint f6) (121666 * sint f7) (121666 * sint f8)
      (121666 * sint f9) = 121666 * fe_val f"
    by (simp add: limbs_val_def f fe_val_Fe algebra_simps)
  then show ?thesis
    using red unfolding f fe_mul121666_def fe.case word fe_abs_def by (simp add: mod_mult_right_eq f)
qed

lemma fe_const_correct:
  "fe_tight fe_0 \<and> fe_abs fe_0 = 0" "fe_tight fe_1 \<and> fe_abs fe_1 = 1"
  by (simp_all add: fe_0_def fe_1_def fe_bounded_def fe_abs_def fe_val_def limbs_val_def fe_p_def)

lemma limb_cswap_01: "limb_cswap 0 f g = (f, g)" "limb_cswap (- 1) f g = (g, f)"
proof -
  show "limb_cswap 0 f g = (f, g)" by (simp add: limb_cswap_def)
  have "f XOR (f XOR g) = g" by (simp add: xor.assoc [symmetric])
  moreover have "g XOR (f XOR g) = f" by (simp add: xor.left_commute)
  ultimately show "limb_cswap (- 1) f g = (g, f)" by (simp add: limb_cswap_def)
qed

lemma fe_cswap_correct:
  "fe_cswap f g 0 = (f, g)" "fe_cswap f g 1 = (g, f)"
proof -
  obtain f0 f1 f2 f3 f4 f5 f6 f7 f8 f9 where f: "f = Fe f0 f1 f2 f3 f4 f5 f6 f7 f8 f9" by (cases f)
  obtain g0 g1 g2 g3 g4 g5 g6 g7 g8 g9 where g: "g = Fe g0 g1 g2 g3 g4 g5 g6 g7 g8 g9" by (cases g)
  have "(0 :: u32) - 0 = 0" "(0 :: u32) - 1 = - 1" by simp_all
  then show "fe_cswap f g 0 = (f, g)" "fe_cswap f g 1 = (g, f)"
    unfolding f g fe_cswap_def fe.case Let_def by (simp_all only: limb_cswap_01 prod.case)
qed

end
