(* ===== verification/Fe_Ladder.thy ===== *)
theory Fe_Ladder
  imports Fe_Arith
begin

text \<open>
  The Montgomery ladder on field elements. A field element \<^emph>\<open>stands for\<close> an integer modulo the
  prime: tightly after a product, loosely after a sum. The rules below carry the bounds of the limbs
  through every operation of \<open>fe_invert\<close> and of the ladder step, so that no product is ever out of
  range, and reduce both to arithmetic modulo \<open>2 ^ 255 - 19\<close>.
\<close>

section \<open>Standing for an integer\<close>

definition fe_is :: "int \<Rightarrow> fe \<Rightarrow> bool" where
  "fe_is v f \<longleftrightarrow> fe_tight f \<and> fe_abs f = v mod fe_p"

definition fe_like :: "int \<Rightarrow> fe \<Rightarrow> bool" where
  "fe_like v f \<longleftrightarrow> fe_sum f \<and> fe_abs f = v mod fe_p"

named_theorems fe_rules \<open>the field operations on the integers that field elements stand for\<close>

lemma fe_is_like [fe_rules]: "fe_is v f \<Longrightarrow> fe_like v f"
  by (auto simp: fe_is_def fe_like_def elim: fe_bounded_mono)

lemma fe_like_wide: "fe_like v f \<Longrightarrow> fe_wide f \<and> fe_abs f = v mod fe_p"
  by (auto simp: fe_like_def elim: fe_bounded_mono)

lemma fe_is_mul [fe_rules]: "fe_like u f \<Longrightarrow> fe_like v g \<Longrightarrow> fe_is (u * v) (fe_mul f g)"
  using fe_mul_correct [of f g] fe_like_wide [of u f] fe_like_wide [of v g]
  by (simp add: fe_is_def mod_mult_eq)

lemma fe_is_sq [fe_rules]: "fe_like v f \<Longrightarrow> fe_is (v ^ 2) (fe_sq f)"
  using fe_sq_correct [of f] fe_like_wide [of v f] by (simp add: fe_is_def mod_mult_eq power2_eq_square)

lemma fe_like_add [fe_rules]: "fe_is u f \<Longrightarrow> fe_is v g \<Longrightarrow> fe_like (u + v) (fe_add f g)"
  using fe_add_correct [of f g] by (simp add: fe_is_def fe_like_def mod_add_eq)

lemma fe_like_sub [fe_rules]: "fe_is u f \<Longrightarrow> fe_is v g \<Longrightarrow> fe_like (u - v) (fe_sub f g)"
  using fe_sub_correct [of f g] by (simp add: fe_is_def fe_like_def mod_diff_eq)

lemma fe_is_mul121666 [fe_rules]: "fe_like v f \<Longrightarrow> fe_is (121666 * v) (fe_mul121666 f)"
  using fe_mul121666_correct [of f] by (simp add: fe_is_def fe_like_def mod_mult_right_eq)

lemma fe_is_const [fe_rules]: "fe_is 0 fe_0" "fe_is 1 fe_1"
  using fe_const_correct by (simp_all add: fe_is_def fe_p_def)

lemma fe_is_cong: "fe_is u f \<Longrightarrow> u mod fe_p = v mod fe_p \<Longrightarrow> fe_is v f"
  by (simp add: fe_is_def)

lemma fe_is_mod [simp]: "fe_is (v mod fe_p) f = fe_is v f"
  by (simp add: fe_is_def)

section \<open>Inversion\<close>

lemma fe_pow_mul: "fe_is (z ^ k) f \<Longrightarrow> fe_is (z ^ l) g \<Longrightarrow> fe_is (z ^ (k + l)) (fe_mul f g)"
  by (auto simp: power_add intro: fe_rules)

lemma fe_pow_sq: "fe_is (z ^ k) f \<Longrightarrow> fe_is (z ^ (k * 2)) (fe_sq f)"
  using fe_is_sq [of "z ^ k" f] by (simp add: power_mult fe_is_like)

lemma fe_pow_sq_times: "fe_is (z ^ k) f \<Longrightarrow> fe_is (z ^ (k * 2 ^ n)) (fe_sq_times n f)"
proof (induction n arbitrary: k f)
  case (Suc n)
  then show ?case using Suc.IH [OF fe_pow_sq] by (simp add: mult.assoc)
qed simp

lemma fe_pow_sq_times_sq: "fe_is (z ^ k) f \<Longrightarrow> fe_is (z ^ (k * 2 ^ Suc n)) (fe_sq_times n (fe_sq f))"
  using fe_pow_sq_times [OF fe_pow_sq, of z k f n] by (simp add: mult.assoc)

text \<open>The exponents of the addition chain: \<open>2 ^ 250 - 1\<close> before the last squarings, \<open>p - 2\<close> after.\<close>

theorem fe_is_invert:
  assumes z: "fe_is z f"
  shows "fe_is (z ^ (2 ^ 255 - 21)) (fe_invert f)"
proof -
  have z1: "fe_is (z ^ 1) f" using z by simp
  note sq = fe_pow_sq [of z] and mul = fe_pow_mul [of z] and sqt = fe_pow_sq_times [of z]
    and sqs = fe_pow_sq_times_sq [of z]
  note z2 = sq [OF z1]
  note z9 = mul [OF z1 sq [OF sq [OF z2]]]
  note z11 = mul [OF z2 z9]
  note z5_0 = mul [OF z9 sq [OF z11]]
  note z10_0 = mul [OF sqs [OF z5_0, of 4] z5_0]
  note z20_0 = mul [OF sqs [OF z10_0, of 9] z10_0]
  note z40_0 = mul [OF sqs [OF z20_0, of 19] z20_0]
  note z50_0 = mul [OF sqt [OF z40_0, of 10] z10_0]
  note z100_0 = mul [OF sqs [OF z50_0, of 49] z50_0]
  note z200_0 = mul [OF sqs [OF z100_0, of 99] z100_0]
  note z250_0 = mul [OF sqs [OF z200_0, of 49] z50_0]
  note result = mul [OF sqs [OF z250_0, of 4] z11]
  show ?thesis
    using result unfolding fe_invert_def Let_def
    by (rule back_subst [of "\<lambda>n. fe_is (z ^ n) _"]) (simp add: eval_nat_numeral(3) [symmetric])
qed

section \<open>The reference ladder\<close>

text \<open>
  Points of the curve by the \<open>X\<close> and \<open>Z\<close> of their abscissa, as integers modulo the prime: the
  doubling and the differential addition of RFC 7748 and the ladder over the bits of the scalar,
  with no exchange of coordinates.
\<close>

definition xz_double :: "int \<times> int \<Rightarrow> int \<times> int" where
  "xz_double = (\<lambda>(x, z). let aa = (x + z) ^ 2; bb = (x - z) ^ 2; e = aa - bb in
     (aa * bb mod fe_p, e * (aa + 121665 * e) mod fe_p))"

definition xz_add :: "int \<Rightarrow> int \<times> int \<Rightarrow> int \<times> int \<Rightarrow> int \<times> int" where
  "xz_add x1 = (\<lambda>(x2, z2) (x3, z3). let da = (x3 - z3) * (x2 + z2); cb = (x3 + z3) * (x2 - z2) in
     ((da + cb) ^ 2 mod fe_p, x1 * (da - cb) ^ 2 mod fe_p))"

fun xz_ladder :: "int \<Rightarrow> int \<Rightarrow> nat \<Rightarrow> (int \<times> int) \<times> (int \<times> int) \<Rightarrow> (int \<times> int) \<times> (int \<times> int)" where
  "xz_ladder x1 k 0 PQ = PQ"
| "xz_ladder x1 k (Suc t) PQ = xz_ladder x1 k t
     (if bit k t then (xz_add x1 (fst PQ) (snd PQ), xz_double (snd PQ))
      else (xz_double (fst PQ), xz_add x1 (fst PQ) (snd PQ)))"

definition x25519 :: "int \<Rightarrow> int \<Rightarrow> int" where
  "x25519 k u = (case xz_ladder u k 255 ((1, 0), (u, 1)) of ((x, z), _) \<Rightarrow>
     x * z ^ (2 ^ 255 - 21) mod fe_p)"

lemma xz_add_commute: "xz_add x1 P Q = xz_add x1 Q P"
  by (cases P; cases Q) (simp add: xz_add_def Let_def power2_eq_square algebra_simps)

section \<open>The ladder on field elements\<close>

lemma bit_os2ip_rev:
  "n < 8 * length bs \<Longrightarrow> bit (os2ip (rev bs)) n \<longleftrightarrow> bit (bs ! (n div 8)) (n mod 8)"
proof (induction bs arbitrary: n)
  case (Cons b bs)
  have v: "os2ip (rev (b # bs)) = push_bit 8 (os2ip (rev bs)) OR uint b"
  proof -
    have "push_bit 8 (os2ip (rev bs)) AND uint b = 0" by (rule bit_eqI) (auto simp: bit_simps dest: not_bit_byte)
    then show ?thesis by (simp add: disjunctive_add_eq_or [symmetric] push_bit_eq_mult)
  qed
  show ?case
  proof (cases "n < 8")
    case True
    then show ?thesis unfolding v by (simp add: bit_simps)
  next
    case False
    then have "n div 8 = Suc ((n - 8) div 8)" "n mod 8 = (n - 8) mod 8"
      by (simp_all add: le_div_geq le_mod_geq)
    then show ?thesis unfolding v using False Cons by (simp add: bit_simps not_bit_byte)
  qed
qed simp

lemma scalar_bit_correct:
  "n < 8 * length e \<Longrightarrow> scalar_bit e n = of_bool (bit (os2ip (rev e)) n)"
  by (rule bit_eqI) (auto simp: scalar_bit_def bit_os2ip_rev bit_simps)

text \<open>
  Four coordinates stand for a pair of points, directly or, while the exchange of the last bit is
  pending, in the other order.
\<close>

definition ladder_is :: "(int \<times> int) \<times> (int \<times> int) \<Rightarrow> ladder \<Rightarrow> bool" where
  "ladder_is PQ s \<longleftrightarrow> fe_is (fst (fst PQ)) (lad_x2 s) \<and> fe_is (snd (fst PQ)) (lad_z2 s) \<and>
     fe_is (fst (snd PQ)) (lad_x3 s) \<and> fe_is (snd (snd PQ)) (lad_z3 s)"

definition ladder_inv :: "(int \<times> int) \<times> (int \<times> int) \<Rightarrow> ladder \<Rightarrow> bool" where
  "ladder_inv PQ s \<longleftrightarrow> (\<exists>c. lad_swap s = of_bool c \<and> ladder_is (if c then prod.swap PQ else PQ) s)"

lemma ladder_swap_is: "ladder_inv PQ s \<Longrightarrow> ladder_is PQ (ladder_swap s)"
  by (auto simp: ladder_inv_def ladder_swap_def fe_cswap_correct ladder_is_def split: if_splits)

lemma ladder_inv_flip:
  assumes "ladder_inv PQ s"
  shows "ladder_inv (if b then prod.swap PQ else PQ) (s\<lparr>lad_swap := lad_swap s XOR of_bool b\<rparr>)"
proof -
  from assms obtain c where "lad_swap s = of_bool c" "ladder_is (if c then prod.swap PQ else PQ) s"
    by (auto simp: ladder_inv_def)
  then show ?thesis
    unfolding ladder_inv_def by (intro exI [of _ "b \<noteq> c"]) (cases b; cases c; simp add: ladder_is_def)
qed

lemma ladder_step_unswapped:
  assumes "ladder_is (P, Q) (ladder_swap (s\<lparr>lad_swap := lad_swap s XOR b\<rparr>))" and "fe_is u x1"
  shows "ladder_is (xz_double P, xz_add u P Q) (ladder_step x1 b s)"
proof -
  define t where "t = ladder_swap (s\<lparr>lad_swap := lad_swap s XOR b\<rparr>)"
  obtain x2 z2 x3 z3 where PQ: "P = (x2, z2)" "Q = (x3, z3)" by (cases P; cases Q)
  have x2: "fe_is x2 (lad_x2 t)" and z2: "fe_is z2 (lad_z2 t)"
    and x3: "fe_is x3 (lad_x3 t)" and z3: "fe_is z3 (lad_z3 t)"
    using assms(1) by (simp_all add: ladder_is_def PQ t_def)
  note da = fe_is_mul [OF fe_like_sub [OF x3 z3] fe_like_add [OF x2 z2]]
  note cb = fe_is_mul [OF fe_like_add [OF x3 z3] fe_like_sub [OF x2 z2]]
  note aa = fe_is_sq [OF fe_like_add [OF x2 z2]] and bb = fe_is_sq [OF fe_like_sub [OF x2 z2]]
  note e = fe_like_sub [OF aa bb]
  note x3' = fe_is_sq [OF fe_like_add [OF da cb]]
  note x2' = fe_is_mul [OF fe_is_like [OF aa] fe_is_like [OF bb]]
  note z3' = fe_is_mul [OF fe_is_like [OF assms(2)] fe_is_like [OF fe_is_sq [OF fe_like_sub [OF da cb]]]]
  note z2' = fe_is_mul [OF e fe_like_add [OF bb fe_is_mul121666 [OF e]]]
  have coef: "bb + 121666 * (aa - bb) = aa + 121665 * (aa - bb)" for aa bb :: int by simp
  show ?thesis
    using x2' z2' x3' z3'
    unfolding ladder_step_def Let_def t_def [symmetric] ladder_is_def PQ xz_double_def xz_add_def coef
    by simp
qed

lemma ladder_step_inv:
  assumes "ladder_inv PQ s" and "fe_is u x1"
  shows "ladder_inv (if b then (xz_add u (fst PQ) (snd PQ), xz_double (snd PQ))
      else (xz_double (fst PQ), xz_add u (fst PQ) (snd PQ))) (ladder_step x1 (of_bool b) s)"
proof -
  let ?R = "if b then prod.swap PQ else PQ"
  have "ladder_is (fst ?R, snd ?R) (ladder_swap (s\<lparr>lad_swap := lad_swap s XOR of_bool b\<rparr>))"
    using ladder_swap_is [OF ladder_inv_flip [OF assms(1)]] by simp
  note step = ladder_step_unswapped [OF this assms(2)]
  have "lad_swap (ladder_step x1 (of_bool b) s) = of_bool b"
    by (simp add: ladder_step_def Let_def)
  then show ?thesis
    using step unfolding ladder_inv_def
    by (intro exI [of _ b]) (cases b; simp add: xz_add_commute [of u "snd PQ"])
qed

lemma ladder_loop_inv:
  assumes "ladder_inv PQ s" and "fe_is u x1" and "n \<le> 8 * length e"
  shows "ladder_inv (xz_ladder u (os2ip (rev e)) n PQ) (ladder_loop x1 e n s)"
  using assms
proof (induction n arbitrary: PQ s)
  case (Suc n)
  then show ?case using ladder_step_inv [of PQ s u x1] by (simp add: scalar_bit_correct)
qed simp

text \<open>The abscissa of the result, before it is encoded.\<close>

lemma ladder_result:
  assumes "fe_is u x1" and "length e = 32"
  defines "s \<equiv> ladder_swap (ladder_loop x1 e 255
      \<lparr>lad_x2 = fe_1, lad_z2 = fe_0, lad_x3 = x1, lad_z3 = fe_1, lad_swap = 0\<rparr>)"
  shows "fe_is (x25519 (os2ip (rev e)) u) (fe_mul (lad_x2 s) (fe_invert (lad_z2 s)))"
proof -
  have "ladder_inv ((1, 0), (u, 1))
      \<lparr>lad_x2 = fe_1, lad_z2 = fe_0, lad_x3 = x1, lad_z3 = fe_1, lad_swap = 0\<rparr>"
    unfolding ladder_inv_def using assms(1)
    by (intro exI [of _ False]) (simp add: ladder_is_def fe_is_const)
  then have pts: "ladder_is (xz_ladder u (os2ip (rev e)) 255 ((1, 0), (u, 1))) s"
    unfolding s_def using assms by (intro ladder_swap_is ladder_loop_inv) simp_all
  obtain x z Q where run: "xz_ladder u (os2ip (rev e)) 255 ((1, 0), (u, 1)) = ((x, z), Q)"
    by (metis prod.exhaust)
  then have "fe_is x (lad_x2 s)" "fe_is z (lad_z2 s)" using pts by (simp_all add: ladder_is_def)
  then have "fe_is (x * z ^ (2 ^ 255 - 21)) (fe_mul (lad_x2 s) (fe_invert (lad_z2 s)))"
    by (intro fe_is_mul fe_is_like fe_is_invert)
  then show ?thesis unfolding x25519_def run prod.case fe_is_mod .
qed

end
