(* ===== verification/Fe_Bytes.thy ===== *)
theory Fe_Bytes
  imports Fe_Reduce
begin

text \<open>
  Field elements and byte strings. \<open>fe_frombytes\<close> reads the low 255 bits of a little-endian string;
  \<open>fe_tobytes\<close> writes the only representative below the prime, whatever the limbs it is given, and
  leaves no integer out of range on the way.
\<close>

section \<open>Reading bytes\<close>

lemma or_push_bit_8: "ucast (b :: u8) OR push_bit 8 w = ucast b + 256 * (w :: u64)"
proof -
  have "ucast b AND push_bit 8 w = 0" by (rule bit_eqI) (auto simp: bit_simps dest: not_bit_byte)
  then have "ucast b OR push_bit 8 w = ucast b + push_bit 8 w"
    by (rule disjunctive_add_eq_or [symmetric])
  then show ?thesis by (simp add: push_bit_eq_mult mult.commute)
qed

lemma ucast_byte: "(ucast (b :: u8) :: u64) = word_of_int (uint b)"
  by simp

lemma load_3_int:
  "load_3 (a # b # c # s) = word_of_int (uint a + 256 * uint b + 65536 * uint c)"
proof -
  have "load_3 (a # b # c # s) = ucast a OR push_bit 8 (ucast b OR push_bit 8 (ucast c))"
    by (simp add: load_3_def push_bit_or)
  then show ?thesis by (simp add: or_push_bit_8 algebra_simps)
qed

lemma load_4_int:
  "load_4 (a # b # c # d # s) =
     word_of_int (uint a + 256 * uint b + 65536 * uint c + 16777216 * uint d)"
proof -
  have "load_4 (a # b # c # d # s) =
      ucast a OR push_bit 8 (ucast b OR push_bit 8 (ucast c OR push_bit 8 (ucast d)))"
    by (simp add: load_4_def push_bit_or)
  then show ?thesis by (simp add: or_push_bit_8 algebra_simps)
qed

lemma push_bit_int: "push_bit n (word_of_int X) = (word_of_int (2 ^ n * X) :: i64)"
  by (simp add: push_bit_eq_mult mult.commute)

lemma and_mask_int: "word_of_int X AND mask n = (word_of_int (X mod 2 ^ n) :: i64)"
  unfolding take_bit_eq_mask [symmetric] take_bit_eq_mod [symmetric]
  by (rule bit_eqI) (auto simp: bit_simps)

lemma and_23_bits_int: "word_of_int X AND 8388607 = (word_of_int (X mod 8388608) :: i64)"
  using and_mask_int [of X 23] by (simp add: mask_eq_exp_minus_1)

lemma byte_range: "0 \<le> uint (b :: u8)" "uint (b :: u8) \<le> 255"
  using uint_bounded [of b] by simp_all

lemma bytes_3_bound: "\<bar>uint (a :: u8) + 256 * uint (b :: u8) + 65536 * uint (c :: u8)\<bar> \<le> 16777215"
  using byte_range [of a] byte_range [of b] byte_range [of c] by linarith

lemma bytes_4_bound:
  "\<bar>uint (a :: u8) + 256 * uint (b :: u8) + 65536 * uint (c :: u8) + 16777216 * uint (d :: u8)\<bar> \<le> 4294967295"
  using byte_range [of a] byte_range [of b] byte_range [of c] byte_range [of d] by linarith

lemma scaled_bound:
  fixes X :: int
  assumes "\<bar>X\<bar> \<le> 16777215" and "n \<le> 7"
  shows "\<bar>2 ^ n * X\<bar> \<le> 9000000000000"
proof -
  have "(2 :: int) ^ n \<le> 2 ^ 7" using assms(2) by (intro power_increasing) simp_all
  then have "2 ^ n * \<bar>X\<bar> \<le> 128 * 16777215" using assms(1) by (intro mult_mono) simp_all
  then show ?thesis by (simp add: abs_mult)
qed

text \<open>A list of 32 bytes, by its elements.\<close>

lemma length_32E:
  assumes "length s = 32"
  obtains b0 b1 b2 b3 b4 b5 b6 b7 b8 b9 b10 b11 b12 b13 b14 b15 b16 b17 b18 b19 b20 b21 b22 b23 b24 b25 b26 b27 b28 b29 b30 b31
  where "s = [b0, b1, b2, b3, b4, b5, b6, b7, b8, b9, b10, b11, b12, b13, b14, b15,
    b16, b17, b18, b19, b20, b21, b22, b23, b24, b25, b26, b27, b28, b29, b30, b31]"
proof -
  have "length s = Suc (Suc (Suc (Suc (Suc (Suc (Suc (Suc (Suc (Suc (Suc (Suc (Suc (Suc (Suc (Suc
      (Suc (Suc (Suc (Suc (Suc (Suc (Suc (Suc (Suc (Suc (Suc (Suc (Suc (Suc (Suc (Suc
      (0))))))))))))))))))))))))))))))))" using assms by simp
  then show thesis using that by (auto simp only: length_Suc_conv length_0_conv)
qed

lemma drop_simps:
  "drop (numeral k) (x # xs) = drop (pred_numeral k) xs" "drop 0 xs = xs"
  "drop (Suc n) (x # xs) = drop n xs"
  by simp_all

lemma low_255_bits:
  fixes a b :: int
  assumes "0 \<le> a" and "a < 2 ^ 232"
  shows "(a + 2 ^ 232 * b) mod 2 ^ 255 = a + 2 ^ 232 * (b mod 8388608)"
proof -
  have "(a + 2 ^ 232 * b) div 2 ^ 232 = b" "(a + 2 ^ 232 * b) mod 2 ^ 232 = a" using assms by simp_all
  then show ?thesis using zmod_zmult2_eq [of 8388608 "a + 2 ^ 232 * b" "2 ^ 232"] by simp
qed

lemma fe_frombytes_correct:
  assumes "length s = 32"
  shows "fe_tight (fe_frombytes s) \<and> fe_abs (fe_frombytes s) = os2ip (rev s) mod 2 ^ 255 mod fe_p"
proof -
  obtain b0 b1 b2 b3 b4 b5 b6 b7 b8 b9 b10 b11 b12 b13 b14 b15 b16 b17 b18 b19 b20 b21 b22 b23 b24 b25 b26 b27 b28 b29 b30 b31
    where s: "s = [b0, b1, b2, b3, b4, b5, b6, b7, b8, b9, b10, b11, b12, b13, b14, b15,
      b16, b17, b18, b19, b20, b21, b22, b23, b24, b25, b26, b27, b28, b29, b30, b31]"
    using assms by (rule length_32E)
  let ?H0 = "uint b0 + 256 * uint b1 + 65536 * uint b2 + 16777216 * uint b3"
  let ?H1 = "2 ^ 6 * (uint b4 + 256 * uint b5 + 65536 * uint b6)"
  let ?H2 = "2 ^ 5 * (uint b7 + 256 * uint b8 + 65536 * uint b9)"
  let ?H3 = "2 ^ 3 * (uint b10 + 256 * uint b11 + 65536 * uint b12)"
  let ?H4 = "2 ^ 2 * (uint b13 + 256 * uint b14 + 65536 * uint b15)"
  let ?H5 = "uint b16 + 256 * uint b17 + 65536 * uint b18 + 16777216 * uint b19"
  let ?H6 = "2 ^ 7 * (uint b20 + 256 * uint b21 + 65536 * uint b22)"
  let ?H7 = "2 ^ 5 * (uint b23 + 256 * uint b24 + 65536 * uint b25)"
  let ?H8 = "2 ^ 4 * (uint b26 + 256 * uint b27 + 65536 * uint b28)"
  let ?H9 = "2 ^ 2 * ((uint b29 + 256 * uint b30 + 65536 * uint b31) mod 8388608)"
  have words: "fe_frombytes s = fe_carry (word_of_int ?H0) (word_of_int ?H1) (word_of_int ?H2)
      (word_of_int ?H3) (word_of_int ?H4) (word_of_int ?H5) (word_of_int ?H6) (word_of_int ?H7)
      (word_of_int ?H8) (word_of_int ?H9)"
    unfolding s fe_frombytes_def
    by (simp only: drop_simps pred_numeral_simps BitM.simps arith_simps load_3_int load_4_int push_bit_int and_23_bits_int)
  have top: "\<bar>(uint b29 + 256 * uint b30 + 65536 * uint b31) mod 8388608\<bar> \<le> 16777215"
    using pos_mod_bound [of 8388608 "uint b29 + 256 * uint b30 + 65536 * uint b31"]
      pos_mod_sign [of 8388608 "uint b29 + 256 * uint b30 + 65536 * uint b31"] by simp
  have four: "\<bar>X\<bar> \<le> 9000000000000" if "\<bar>X\<bar> \<le> 4294967295" for X :: int using that by simp
  note three = scaled_bound [OF bytes_3_bound]
  note result = fe_carry_correct [OF four [OF bytes_4_bound [of b0 b1 b2 b3]]
    three [of 6 b4 b5 b6] three [of 5 b7 b8 b9] three [of 3 b10 b11 b12] three [of 2 b13 b14 b15]
    four [OF bytes_4_bound [of b16 b17 b18 b19]] three [of 7 b20 b21 b22] three [of 5 b23 b24 b25]
    three [of 4 b26 b27 b28] scaled_bound [OF top, of 2]]
  let ?low = "os2ip (rev (take 29 s))"
  have low: "0 \<le> ?low" "?low < 2 ^ 232" using os2ip_bound [of "rev (take 29 s)"] assms by simp_all
  have "os2ip (rev s) = ?low + 2 ^ 232 * (uint b29 + 256 * uint b30 + 65536 * uint b31)"
    by (simp add: s os2ip_Cons)
  then have "os2ip (rev s) mod 2 ^ 255 = ?low + 2 ^ 232 * ((uint b29 + 256 * uint b30 + 65536 * uint b31) mod 8388608)"
    by (simp only: low_255_bits [OF low])
  also have "\<dots> = limbs_val ?H0 ?H1 ?H2 ?H3 ?H4 ?H5 ?H6 ?H7 ?H8 ?H9"
    by (simp add: s os2ip_Cons limbs_val_def)
  finally show ?thesis using result unfolding words by simp
qed

section \<open>The quotient by the prime\<close>

lemma sint_shift: "sint (signed_drop_bit n (w :: i32)) = sint w div 2 ^ n"
  by (simp add: sint_signed_drop_bit_eq drop_bit_eq_div)

lemma sint_plus: 
  assumes "\<bar>sint a + sint b\<bar> \<le> 2147483647"
  shows "sint (a + b :: i32) = sint a + sint b"
proof -
  have "a + b = (word_of_int (sint a + sint b) :: i32)" by simp
  then show ?thesis using assms sint_of_int32 [of "sint a + sint b"] by (simp only:)
qed

lemma sint_times_19:
  assumes "\<bar>sint a\<bar> \<le> 100000000"
  shows "sint (19 * a :: i32) = 19 * sint a"
proof -
  have "19 * a = (word_of_int (19 * sint a) :: i32)" by simp
  then show ?thesis using assms sint_of_int32 [of "19 * sint a"] by (simp only:)
qed

text \<open>One step of the chain: the carry stays small.\<close>

lemma carry_step:
  assumes "\<bar>sint h\<bar> \<le> 67108864" and "\<bar>sint q\<bar> \<le> 1000" and "25 \<le> n" and "n \<le> 26"
  shows "sint (signed_drop_bit n (h + q :: i32)) = (sint h + sint q) div 2 ^ n"
    and "\<bar>(sint h + sint q) div 2 ^ n\<bar> \<le> 1000"
proof -
  have "n = 25 \<or> n = 26" using assms(3,4) by auto
  moreover have "\<bar>sint h + sint q\<bar> \<le> 67109864" using assms(1,2) by linarith
  ultimately show "\<bar>(sint h + sint q) div 2 ^ n\<bar> \<le> 1000" by auto
  show "sint (signed_drop_bit n (h + q :: i32)) = (sint h + sint q) div 2 ^ n"
    using \<open>\<bar>sint h + sint q\<bar> \<le> 67109864\<close> by (simp add: sint_shift sint_plus)
qed

lemma carry_sum:
  "\<bar>sint h\<bar> \<le> 67108864 \<Longrightarrow> \<bar>sint q\<bar> \<le> 1000 \<Longrightarrow> sint
      (h + q :: i32) = sint h + sint q"
  by (rule sint_plus) linarith

lemma fe_p_eq: "fe_p = 57896044618658097711785492504343953926634992332820282019728792003956564819949"
  by (simp add: fe_p_def)

lemma quotient:
  fixes h9 low Q1 :: int
  assumes "\<bar>h9\<bar> \<le> 33889976" and "\<bar>low\<bar> \<le> 2 ^ 231"
    and "Q1 = (19 * h9 + 16777216) div 33554432"
  shows "(low + 2 ^ 230 * h9 + Q1) div 2 ^ 255 = (low + 2 ^ 230 * h9) div fe_p"
    and "\<bar>(low + 2 ^ 230 * h9) div fe_p\<bar> \<le> 3"
proof -
  let ?v = "low + 2 ^ 230 * h9"
  let ?q = "?v div fe_p" and ?r = "?v mod fe_p"
  have v: "?v = fe_p * ?q + ?r" by simp
  have r: "0 \<le> ?r" "?r < fe_p" by (simp_all add: fe_p_def)
  have q: "- 3 \<le> ?q" "?q \<le> 3"
    using v r abs_le_D1 [OF assms(1)] abs_le_D2 [OF assms(1)] abs_le_D1 [OF assms(2)] abs_le_D2 [OF assms(2)]
    unfolding fe_p_eq by simp_all
  have "19 * h9 + 16777216 = 33554432 * Q1 + (19 * h9 + 16777216) mod 33554432"
    unfolding assms(3) by simp
  moreover have "0 \<le> (19 * h9 + 16777216) mod 33554432" "(19 * h9 + 16777216) mod 33554432 < 33554432"
    by simp_all
  ultimately have Q1: "33554432 * Q1 \<le> 19 * h9 + 16777216" "19 * h9 + 16777216 < 33554432 * Q1 + 33554432"
    by linarith+
  have "0 \<le> ?v + Q1 - 2 ^ 255 * ?q" "?v + Q1 - 2 ^ 255 * ?q < 2 ^ 255"
    using v r q Q1 abs_le_D1 [OF assms(2)] abs_le_D2 [OF assms(2)]
    unfolding fe_p_eq by simp_all
  then have "(?v + Q1 - 2 ^ 255 * ?q) div 2 ^ 255 = 0" by simp
  then show "(?v + Q1) div 2 ^ 255 = ?q" by simp
  show "\<bar>?q\<bar> \<le> 3" using q by linarith
qed

text \<open>The chain of carries from a first one: its last carry and the limbs it leaves.\<close>

lemma limbs_val_range:
  assumes "0 \<le> r0" "r0 < 67108864"
    "0 \<le> r1" "r1 < 33554432" "0 \<le> r2" "r2 < 67108864" "0 \<le> r3" "r3 < 33554432"
    "0 \<le> r4" "r4 < 67108864" "0 \<le> r5" "r5 < 33554432" "0 \<le> r6" "r6 < 67108864"
    "0 \<le> r7" "r7 < 33554432" "0 \<le> r8" "r8 < 67108864" "0 \<le> r9" "r9 < 33554432"
  shows "0 \<le> limbs_val r0 r1 r2 r3 r4 r5 r6 r7 r8 r9" and "limbs_val r0 r1 r2 r3 r4 r5 r6 r7 r8 r9 < 2 ^ 255"
  using assms unfolding limbs_val_def by simp_all

lemma limbs_val_carried:
  "limbs_val (67108864 * c1 + r0 - c0) (33554432 * c2 + r1 - c1) (67108864 * c3 + r2 - c2)
      (33554432 * c4 + r3 - c3) (67108864 * c5 + r4 - c4) (33554432 * c6 + r5 - c5)
      (67108864 * c7 + r6 - c6) (33554432 * c8 + r7 - c7) (67108864 * c9 + r8 - c8)
      (33554432 * c10 + r9 - c9) + c0 =
     limbs_val r0 r1 r2 r3 r4 r5 r6 r7 r8 r9 + 2 ^ 255 * c10"
  unfolding limbs_val_def by simp

lemma div_limb: "d = (h + c) div m \<Longrightarrow> h = m * d + (h + c) mod m - (c :: int)"
  by simp

lemma div_of_low: "0 \<le> x \<Longrightarrow> x < m \<Longrightarrow> (x + m * c) div m = (c :: int)"
  by simp

lemma limbs_chain:
  assumes "c1 = (h0 + c0) div 67108864"
    "c2 = (h1 + c1) div 33554432" "c3 = (h2 + c2) div 67108864" "c4 = (h3 + c3) div 33554432"
    "c5 = (h4 + c4) div 67108864" "c6 = (h5 + c5) div 33554432" "c7 = (h6 + c6) div 67108864"
    "c8 = (h7 + c7) div 33554432" "c9 = (h8 + c8) div 67108864" "c10 = (h9 + c9) div 33554432"
  shows "c10 = (limbs_val h0 h1 h2 h3 h4 h5 h6 h7 h8 h9 + c0) div 2 ^ 255"
    and "limbs_val ((h0 + c0) mod 67108864) ((h1 + c1) mod 33554432) ((h2 + c2) mod 67108864)
      ((h3 + c3) mod 33554432) ((h4 + c4) mod 67108864) ((h5 + c5) mod 33554432)
      ((h6 + c6) mod 67108864) ((h7 + c7) mod 33554432) ((h8 + c8) mod 67108864)
      ((h9 + c9) mod 33554432) =
      (limbs_val h0 h1 h2 h3 h4 h5 h6 h7 h8 h9 + c0) mod 2 ^ 255"
proof -
  let ?r0 = "(h0 + c0) mod 67108864"
    and ?r1 = "(h1 + c1) mod 33554432"
    and ?r2 = "(h2 + c2) mod 67108864"
    and ?r3 = "(h3 + c3) mod 33554432"
    and ?r4 = "(h4 + c4) mod 67108864"
    and ?r5 = "(h5 + c5) mod 33554432"
    and ?r6 = "(h6 + c6) mod 67108864"
    and ?r7 = "(h7 + c7) mod 33554432"
    and ?r8 = "(h8 + c8) mod 67108864"
    and ?r9 = "(h9 + c9) mod 33554432"
  have limb: "h0 = 67108864 * c1 + ?r0 - c0"
    "h1 = 33554432 * c2 + ?r1 - c1" "h2 = 67108864 * c3 + ?r2 - c2" "h3 = 33554432 * c4 + ?r3 - c3"
    "h4 = 67108864 * c5 + ?r4 - c4" "h5 = 33554432 * c6 + ?r5 - c5" "h6 = 67108864 * c7 + ?r6 - c6"
    "h7 = 33554432 * c8 + ?r7 - c7" "h8 = 67108864 * c9 + ?r8 - c8" "h9 = 33554432 * c10 + ?r9 - c9"
    by (rule div_limb, rule assms)+
  let ?l = "limbs_val ?r0 ?r1 ?r2 ?r3 ?r4 ?r5 ?r6 ?r7 ?r8 ?r9"
  have v: "limbs_val h0 h1 h2 h3 h4 h5 h6 h7 h8 h9 + c0 = ?l + 2 ^ 255 * c10"
    using limbs_val_carried [of c1 ?r0 c0 c2 ?r1 c3 ?r2 c4 ?r3 c5 ?r4 c6 ?r5 c7 ?r6 c8 ?r7 c9 ?r8 c10 ?r9]
    unfolding limb [symmetric] .
  have l: "0 \<le> ?l" "?l < 2 ^ 255" by (rule limbs_val_range; simp)+
  show "c10 = (limbs_val h0 h1 h2 h3 h4 h5 h6 h7 h8 h9 + c0) div 2 ^ 255"
    unfolding v by (rule div_of_low [OF l, symmetric])
  show "?l = (limbs_val h0 h1 h2 h3 h4 h5 h6 h7 h8 h9 + c0) mod 2 ^ 255"
    unfolding v by (simp only: mod_mult_self2 mod_pos_pos_trivial l)
qed

lemma words_chain:
  assumes b: "fe_sum (Fe h0 h1 h2 h3 h4 h5 h6 h7 h8 h9)" and q: "\<bar>sint w0\<bar> \<le> 1000"
    and w: "w1 = signed_drop_bit 26 (h0 + w0)"
    "w2 = signed_drop_bit 25 (h1 + w1)" "w3 = signed_drop_bit 26 (h2 + w2)"
    "w4 = signed_drop_bit 25 (h3 + w3)" "w5 = signed_drop_bit 26 (h4 + w4)"
    "w6 = signed_drop_bit 25 (h5 + w5)" "w7 = signed_drop_bit 26 (h6 + w6)"
    "w8 = signed_drop_bit 25 (h7 + w7)" "w9 = signed_drop_bit 26 (h8 + w8)"
    "w10 = signed_drop_bit 25 (h9 + w9)"
  shows "sint w10 = (fe_val (Fe h0 h1 h2 h3 h4 h5 h6 h7 h8 h9) + sint w0) div 2 ^ 255"
    and "limbs_val (sint (h0 + w0) mod 67108864) (sint (h1 + w1) mod 33554432) (sint
      (h2 + w2) mod 67108864) (sint (h3 + w3) mod 33554432) (sint (h4 + w4) mod 67108864) (sint
      (h5 + w5) mod 33554432) (sint (h6 + w6) mod 67108864) (sint (h7 + w7) mod 33554432) (sint
      (h8 + w8) mod 67108864) (sint (h9 + w9) mod 33554432) =
      (fe_val (Fe h0 h1 h2 h3 h4 h5 h6 h7 h8 h9) + sint w0) mod 2 ^ 255"
proof -
  have h: "\<bar>sint h0\<bar> \<le> 67108864"
    "\<bar>sint h1\<bar> \<le> 67108864" "\<bar>sint h2\<bar> \<le> 67108864"
    "\<bar>sint h3\<bar> \<le> 67108864" "\<bar>sint h4\<bar> \<le> 67108864"
    "\<bar>sint h5\<bar> \<le> 67108864" "\<bar>sint h6\<bar> \<le> 67108864"
    "\<bar>sint h7\<bar> \<le> 67108864" "\<bar>sint h8\<bar> \<le> 67108864"
    "\<bar>sint h9\<bar> \<le> 67108864"
    using b by (simp_all add: fe_bounded_def)
  note c0 = q
  have s0: "sint w1 = (sint h0 + sint w0) div 67108864" and c1: "\<bar>sint w1\<bar> \<le> 1000"
    using carry_step [OF h(1) c0, of 26] by (simp_all add: w(1))
  have s1: "sint w2 = (sint h1 + sint w1) div 33554432" and c2: "\<bar>sint w2\<bar> \<le> 1000"
    using carry_step [OF h(2) c1, of 25] by (simp_all add: w(2))
  have s2: "sint w3 = (sint h2 + sint w2) div 67108864" and c3: "\<bar>sint w3\<bar> \<le> 1000"
    using carry_step [OF h(3) c2, of 26] by (simp_all add: w(3))
  have s3: "sint w4 = (sint h3 + sint w3) div 33554432" and c4: "\<bar>sint w4\<bar> \<le> 1000"
    using carry_step [OF h(4) c3, of 25] by (simp_all add: w(4))
  have s4: "sint w5 = (sint h4 + sint w4) div 67108864" and c5: "\<bar>sint w5\<bar> \<le> 1000"
    using carry_step [OF h(5) c4, of 26] by (simp_all add: w(5))
  have s5: "sint w6 = (sint h5 + sint w5) div 33554432" and c6: "\<bar>sint w6\<bar> \<le> 1000"
    using carry_step [OF h(6) c5, of 25] by (simp_all add: w(6))
  have s6: "sint w7 = (sint h6 + sint w6) div 67108864" and c7: "\<bar>sint w7\<bar> \<le> 1000"
    using carry_step [OF h(7) c6, of 26] by (simp_all add: w(7))
  have s7: "sint w8 = (sint h7 + sint w7) div 33554432" and c8: "\<bar>sint w8\<bar> \<le> 1000"
    using carry_step [OF h(8) c7, of 25] by (simp_all add: w(8))
  have s8: "sint w9 = (sint h8 + sint w8) div 67108864" and c9: "\<bar>sint w9\<bar> \<le> 1000"
    using carry_step [OF h(9) c8, of 26] by (simp_all add: w(9))
  have s9: "sint w10 = (sint h9 + sint w9) div 33554432" and c10: "\<bar>sint w10\<bar> \<le> 1000"
    using carry_step [OF h(10) c9, of 25] by (simp_all add: w(10))
  note chain = limbs_chain [OF s0 s1 s2 s3 s4 s5 s6 s7 s8 s9]
  note sums = carry_sum [OF h(1) c0] carry_sum [OF h(2) c1] carry_sum [OF h(3) c2] carry_sum [OF h(4) c3] carry_sum [OF h(5) c4] carry_sum [OF h(6) c5] carry_sum [OF h(7) c6] carry_sum [OF h(8) c7] carry_sum [OF h(9) c8] carry_sum [OF h(10) c9]
  show "sint w10 = (fe_val (Fe h0 h1 h2 h3 h4 h5 h6 h7 h8 h9) + sint w0) div 2 ^ 255"
    using chain(1) by (simp add: fe_val_def)
  show "limbs_val (sint (h0 + w0) mod 67108864) (sint (h1 + w1) mod 33554432) (sint
      (h2 + w2) mod 67108864) (sint (h3 + w3) mod 33554432) (sint (h4 + w4) mod 67108864) (sint
      (h5 + w5) mod 33554432) (sint (h6 + w6) mod 67108864) (sint (h7 + w7) mod 33554432) (sint
      (h8 + w8) mod 67108864) (sint (h9 + w9) mod 33554432) =
      (fe_val (Fe h0 h1 h2 h3 h4 h5 h6 h7 h8 h9) + sint w0) mod 2 ^ 255"
    unfolding sums using chain(2) by (simp add: fe_val_def)
qed

lemma tobytes_q_correct:
  assumes "fe_sum h"
  shows "sint (tobytes_q h) = fe_val h div fe_p" and "\<bar>fe_val h div fe_p\<bar> \<le> 3"
proof -
  obtain h0 h1 h2 h3 h4 h5 h6 h7 h8 h9 where h: "h = Fe h0 h1 h2 h3 h4 h5 h6 h7 h8 h9" by (cases h)
  have b: "\<bar>sint h0\<bar> \<le> 67108864"
    "\<bar>sint h1\<bar> \<le> 33889976" "\<bar>sint h2\<bar> \<le> 67108864"
    "\<bar>sint h3\<bar> \<le> 33889976" "\<bar>sint h4\<bar> \<le> 67108864"
    "\<bar>sint h5\<bar> \<le> 33889976" "\<bar>sint h6\<bar> \<le> 67108864"
    "\<bar>sint h7\<bar> \<le> 33889976" "\<bar>sint h8\<bar> \<le> 67108864"
    "\<bar>sint h9\<bar> \<le> 33889976"
    using assms by (simp_all add: h fe_bounded_def)
  let ?q = "signed_drop_bit 25 (19 * h9 + push_bit 24 1)"
  let ?low = "limbs_val (sint h0) (sint h1) (sint h2) (sint h3) (sint h4) (sint h5) (sint h6) (sint h7) (sint h8) 0"
  have one: "sint (push_bit 24 1 :: i32) = 16777216" by (simp add: push_bit_eq_mult)
  have t: "sint (19 * h9) = 19 * sint h9" using b(10) by (intro sint_times_19) simp
  have first: "sint ?q = (19 * sint h9 + 16777216) div 33554432"
    using b(10) by (simp add: sint_shift sint_plus t one)
  have small: "\<bar>sint ?q\<bar> \<le> 1000" unfolding first using b(10) by simp
  have low: "\<bar>?low\<bar> \<le> 2 ^ 231"
    unfolding limbs_val_def using b [THEN abs_le_D1] b [THEN abs_le_D2] by (intro abs_leI; simp)
  have v: "fe_val h = ?low + 2 ^ 230 * sint h9" by (simp add: h fe_val_def limbs_val_def)
  have "sint (tobytes_q h) = (fe_val h + sint ?q) div 2 ^ 255"
    unfolding h tobytes_q_def fe.case Let_def
    using assms by (intro words_chain(1) [OF _ small refl refl refl refl refl refl refl refl refl refl])
      (simp add: h)
  then show "sint (tobytes_q h) = fe_val h div fe_p" and "\<bar>fe_val h div fe_p\<bar> \<le> 3"
    using quotient [OF b(10) low first] unfolding v by simp_all
qed

section \<open>The limbs of the representative\<close>

lemma sint_low26: "sint (low26 w) = sint w mod 67108864"
proof -
  have "kBottom26Bits = mask 26" by (simp add: kBottom26Bits_def mask_eq_exp_minus_1)
  then have "low26 w = scast (word_of_int (sint w mod 67108864) :: i64)"
    unfolding low26_def scast_word_of_int [of w] using and_mask_int [of "sint w" 26] by simp
  moreover have "0 \<le> sint w mod 67108864" "sint w mod 67108864 < 67108864" by simp_all
  ultimately show ?thesis by (simp add: scast_of_int64 sint_of_int32)
qed

lemma sint_low25: "sint (low25 w) = sint w mod 33554432"
proof -
  have "kBottom25Bits = mask 25" by (simp add: kBottom25Bits_def mask_eq_exp_minus_1)
  then have "low25 w = scast (word_of_int (sint w mod 33554432) :: i64)"
    unfolding low25_def scast_word_of_int [of w] using and_mask_int [of "sint w" 25] by simp
  moreover have "0 \<le> sint w mod 33554432" "sint w mod 33554432 < 33554432" by simp_all
  ultimately show ?thesis by (simp add: scast_of_int64 sint_of_int32)
qed

text \<open>Limbs of exactly 26 and 25 bits.\<close>

definition fe_exact :: "fe \<Rightarrow> bool" where
  "fe_exact f \<longleftrightarrow> (case f of Fe f0 f1 f2 f3 f4 f5 f6 f7 f8 f9 \<Rightarrow>
     0 \<le> sint f0 \<and> sint f0 < 67108864 \<and>
     0 \<le> sint f1 \<and> sint f1 < 33554432 \<and>
     0 \<le> sint f2 \<and> sint f2 < 67108864 \<and>
     0 \<le> sint f3 \<and> sint f3 < 33554432 \<and>
     0 \<le> sint f4 \<and> sint f4 < 67108864 \<and>
     0 \<le> sint f5 \<and> sint f5 < 33554432 \<and>
     0 \<le> sint f6 \<and> sint f6 < 67108864 \<and>
     0 \<le> sint f7 \<and> sint f7 < 33554432 \<and>
     0 \<le> sint f8 \<and> sint f8 < 67108864 \<and>
     0 \<le> sint f9 \<and> sint f9 < 33554432)"

lemma tobytes_carry_correct:
  assumes "fe_sum h" and "\<bar>sint q\<bar> \<le> 50"
  shows "fe_exact (tobytes_carry q h) \<and> fe_val (tobytes_carry q h) = (fe_val h + 19 * sint q) mod 2 ^ 255"
proof -
  obtain h0 h1 h2 h3 h4 h5 h6 h7 h8 h9 where h: "h = Fe h0 h1 h2 h3 h4 h5 h6 h7 h8 h9" by (cases h)
  have q: "sint (19 * q) = 19 * sint q" using assms(2) by (intro sint_times_19) simp
  have small: "\<bar>sint (19 * q)\<bar> \<le> 1000" unfolding q using assms(2) by simp
  have b: "fe_sum (Fe h0 h1 h2 h3 h4 h5 h6 h7 h8 h9)" using assms(1) by (simp add: h)
  note chain = words_chain(2) [OF b small refl refl refl refl refl refl refl refl refl refl, unfolded q]
  have "fe_val (tobytes_carry q h) = (fe_val h + 19 * sint q) mod 2 ^ 255"
    unfolding h tobytes_carry_def fe.case Let_def fe_val_def sint_low26 sint_low25
    using chain by (simp only: fe_val_def fe.case)
  moreover have "fe_exact (tobytes_carry q h)"
    unfolding h tobytes_carry_def fe.case Let_def fe_exact_def sint_low26 sint_low25 by simp
  ultimately show ?thesis by simp
qed

section \<open>Packing\<close>

text \<open>A limb that starts \<open>8 - a\<close> bits into a byte, as the parts that its bytes hold.\<close>

definition limb_parts :: "int \<Rightarrow> nat \<Rightarrow> int" where
  "limb_parts x a = x mod 2 ^ a + 2 ^ a * (x div 2 ^ a mod 256) +
     2 ^ (a + 8) * (x div 2 ^ (a + 8) mod 256) + 2 ^ (a + 16) * (x div 2 ^ (a + 16))"

lemma limb_parts [simp]: "limb_parts x a = x"
proof -
  have next_byte: "x div 2 ^ n = x div 2 ^ n mod 256 + 256 * (x div 2 ^ (n + 8))" for n
    using zdiv_zmult2_eq [of 256 x "2 ^ n"] by (simp add: power_add)
  have digits: "v = m + P * r0 + (P * 256) * r1 + (P * 65536) * d2"
    if "v = m + P * d0" "d0 = r0 + 256 * d1" "d1 = r1 + 256 * d2" for v m P r0 r1 d0 d1 d2 :: int
    using that by (simp add: algebra_simps)
  have "x = x mod 2 ^ a + 2 ^ a * (x div 2 ^ a)" by simp
  from digits [OF this next_byte next_byte [of "a + 8"]] show ?thesis
    by (simp add: limb_parts_def power_add mult.commute)
qed

lemma uint_limb_byte: "uint (ucast (signed_drop_bit n (w :: i32)) :: u8) = sint w div 2 ^ n mod 256"
proof -
  have "(ucast (signed_drop_bit n w) :: u8) = word_of_int (sint w div 2 ^ n)"
    unfolding signed_drop_bit_int
    by (rule bit_eqI) (auto simp: bit_simps)
  then show ?thesis by (simp add: uint_byte_of_int)
qed

lemma uint_shared_byte:
  assumes "0 \<le> sint w" and "sint w < 2 ^ (n + j)" and "j \<le> 8"
  shows "uint (ucast (signed_drop_bit n (w :: i32) OR push_bit j v) :: u8) =
    sint w div 2 ^ n + 2 ^ j * (sint v mod 2 ^ (8 - j))"
proof -
  let ?A = "sint w div 2 ^ n"
  have "2 ^ n * ?A \<le> sint w" 
    using mult_div_mod_eq [of "2 ^ n" "sint w"] pos_mod_sign [of "2 ^ n" "sint w", OF zero_less_power]
    by linarith
  then have "2 ^ n * ?A < 2 ^ n * 2 ^ j" using assms(2) by (simp only: power_add)
  then have A: "0 \<le> ?A" "?A < 2 ^ j" using assms(1) by (simp_all add: pos_imp_zdiv_nonneg_iff)
  have "(2 :: int) ^ j \<le> 2 ^ 8" using assms(3) by (intro power_increasing) simp_all
  then have low: "uint (ucast (signed_drop_bit n w) :: u8) = ?A" using A by (simp add: uint_limb_byte)
  have high: "uint (ucast (push_bit j v) :: u8) = push_bit j (take_bit (8 - j) (sint v))"
    by (rule bit_eqI) (auto simp: bit_simps)
  have "take_bit j ?A AND push_bit j z = 0" for z by (rule bit_eqI) (auto simp: bit_simps)
  then have "?A AND push_bit j z = 0" for z using A by (simp add: take_bit_int_eq_self)
  then have "?A OR push_bit j z = ?A + push_bit j z" for z by (simp add: disjunctive_add_eq_or)
  moreover have or_byte: "uint (ucast (x OR y :: i32) :: u8) = uint (ucast x :: u8) OR uint (ucast y :: u8)" for x y
    by (rule bit_eqI) (auto simp: bit_simps)
  ultimately show ?thesis
    by (simp only: or_byte low high) (simp add: push_bit_eq_mult take_bit_eq_mod mult.commute)
qed

lemma tobytes_pack_correct:
  assumes "fe_exact f"
  shows "os2ip (rev (tobytes_pack f)) = fe_val f"
proof -
  obtain f0 f1 f2 f3 f4 f5 f6 f7 f8 f9 where f: "f = Fe f0 f1 f2 f3 f4 f5 f6 f7 f8 f9" by (cases f)
  have r: "0 \<le> sint f0" "sint f0 < 67108864"
    "0 \<le> sint f1" "sint f1 < 33554432" "0 \<le> sint f2" "sint f2 < 67108864"
    "0 \<le> sint f3" "sint f3 < 33554432" "0 \<le> sint f4" "sint f4 < 67108864"
    "0 \<le> sint f5" "sint f5 < 33554432" "0 \<le> sint f6" "sint f6 < 67108864"
    "0 \<le> sint f7" "sint f7 < 33554432" "0 \<le> sint f8" "sint f8 < 67108864"
    "0 \<le> sint f9" "sint f9 < 33554432"
    using assms by (simp_all add: f fe_exact_def)
  note shared = uint_shared_byte [of f0 24 2 f1, simplified, OF r(1,2)]
    uint_shared_byte [of f1 22 3 f2, simplified, OF r(3,4)]
    uint_shared_byte [of f2 21 5 f3, simplified, OF r(5,6)]
    uint_shared_byte [of f3 19 6 f4, simplified, OF r(7,8)]
    uint_shared_byte [of f5 24 1 f6, simplified, OF r(11,12)]
    uint_shared_byte [of f6 23 3 f7, simplified, OF r(13,14)]
    uint_shared_byte [of f7 21 4 f8, simplified, OF r(15,16)]
    uint_shared_byte [of f8 20 6 f9, simplified, OF r(17,18)]
  have top: "sint f4 div 262144 mod 256 = sint f4 div 262144" "sint f9 div 262144 mod 256 = sint f9 div 262144"
    using r by (simp_all add: mod_pos_pos_trivial pos_imp_zdiv_nonneg_iff)
  note first = uint_limb_byte [of 0 f0, simplified] uint_limb_byte [of 0 f5, simplified]
  have "os2ip (rev (tobytes_pack f)) = limbs_val (limb_parts (sint f0) 8) (limb_parts (sint f1) 6) (limb_parts (sint f2) 5)
      (limb_parts (sint f3) 3) (limb_parts (sint f4) 2) (limb_parts (sint f5) 8) (limb_parts (sint f6) 7)
      (limb_parts (sint f7) 5) (limb_parts (sint f8) 4) (limb_parts (sint f9) 2)"
    unfolding f tobytes_pack_def fe.case limbs_val_def limb_parts_def
    by (simp add: os2ip_Cons shared uint_limb_byte first top)
  then show ?thesis by (simp add: f fe_val_def)
qed

lemma fe_tobytes_value:
  assumes "fe_sum h"
  shows "os2ip (rev (fe_tobytes h)) = fe_abs h"
proof -
  let ?q = "fe_val h div fe_p"
  note q = tobytes_q_correct [OF assms]
  have "\<bar>sint (tobytes_q h)\<bar> \<le> 50" unfolding q(1) using q(2) by simp
  note carried = tobytes_carry_correct [OF assms this]
  have "fe_val h = fe_p * ?q + fe_abs h" by (simp add: fe_abs_def)
  then have eq: "fe_val h + 19 * ?q = fe_abs h + 2 ^ 255 * ?q" by (simp add: fe_p_def)
  have a: "0 \<le> fe_abs h" "fe_abs h < 2 ^ 255"
    using pos_mod_bound [of fe_p "fe_val h"] by (simp_all add: fe_abs_def fe_p_def)
  have "(fe_val h + 19 * ?q) mod 2 ^ 255 = fe_abs h"
    unfolding eq using a by (simp only: mod_mult_self2 mod_pos_pos_trivial)
  then show ?thesis
    using carried tobytes_pack_correct unfolding fe_tobytes_def q(1) by simp
qed

lemma length_fe_tobytes: "length (fe_tobytes h) = 32"
  by (simp add: fe_tobytes_def tobytes_pack_def split: fe.split)

lemma fe_tobytes_correct: "fe_sum h \<Longrightarrow> fe_tobytes h = rev (i2osp 32 (fe_abs h))"
  using i2osp_os2ip [of "rev (fe_tobytes h)"] by (simp add: fe_tobytes_value length_fe_tobytes)

lemma length_reverse_int_loop [simp]: "length (reverse_int_loop i n a) = length a"
  by (induction i n a rule: reverse_int_loop.induct) simp_all

lemma nth_reverse_int_loop:
  "i \<le> n \<Longrightarrow> n \<le> length a \<Longrightarrow> j < length a \<Longrightarrow>
   reverse_int_loop i n a ! j = (if i \<le> j \<and> j < n then a ! (i + n - 1 - j) else a ! j)"
proof (induction i n a rule: reverse_int_loop.induct)
  case (2 i n a)
  show ?case
  proof (cases "i \<noteq> Suc n \<and> i \<noteq> n")
    case True
    then have "i + 1 \<le> n" using 2 by simp
    then show ?thesis using True 2 by (auto simp: nth_list_update)
  next
    case False
    then show ?thesis using 2 by (auto simp: less_Suc_eq)
  qed
qed simp

lemma reverse_int_rev: "length a = 32 \<Longrightarrow> reverse_int a = rev a"
  by (rule nth_equalityI) (simp_all add: reverse_int_def nth_reverse_int_loop rev_nth)

end
