(* ===== verification/X25519.thy ===== *)
theory X25519
  imports Fe_Ladder Fe_Bytes
begin

text \<open>
  The public entry point of \<open>src/bolos/cx_curve25519.c\<close>: on 32-byte strings, most significant byte
  first, it computes the ladder of RFC 7748 on integers, and its result is the canonical encoding.
\<close>

lemma fe_is_frombytes: "length s = 32 \<Longrightarrow> fe_is (os2ip (rev s) mod 2 ^ 255) (fe_frombytes s)"
  using fe_frombytes_correct by (simp add: fe_is_def)

lemma fe_is_tobytes: "fe_is v f \<Longrightarrow> fe_tobytes f = rev (i2osp 32 (v mod fe_p))"
  using fe_tobytes_correct [of f] fe_is_like [of v f] by (simp add: fe_like_def)

lemma x25519_range: "0 \<le> x25519 k u" "x25519 k u < fe_p"
  by (simp_all add: x25519_def fe_p_def split: prod.split)

lemma x25519_mod [simp]: "x25519 k u mod fe_p = x25519 k u"
  using x25519_range by simp

lemma curve25519_scalar_mult_generic_correct:
  assumes "length scalar = 32" and "length point = 32"
  shows "curve25519_scalar_mult_generic scalar point =
    rev (i2osp 32 (x25519 (os2ip (rev scalar)) (os2ip (rev point) mod 2 ^ 255)))"
  using fe_is_tobytes [OF ladder_result [OF fe_is_frombytes [OF assms(2)] assms(1)]]
  by (simp add: curve25519_scalar_mult_generic_def Let_def)

lemma i2osp_eq_0_iff:
  assumes "0 \<le> v" and "v < 256 ^ n"
  shows "i2osp n v = replicate n 0 \<longleftrightarrow> v = 0"
  using assms os2ip_inj [of "i2osp n v" "replicate n 0"] by simp

text \<open>The neutral element stays the neutral element, and the scalar zero leads to it.\<close>

lemma xz_ladder_scalar_0: "fst (xz_ladder u 0 n ((1, 0), Q)) = (1, 0)"
proof (induction n arbitrary: Q)
  case (Suc n)
  have "xz_double (1, 0) = (1, 0)" by (simp add: xz_double_def fe_p_def)
  then show ?case using Suc by simp
qed simp

lemma x25519_scalar_0: "x25519 0 u = 0"
proof -
  obtain Q where "xz_ladder u 0 255 ((1, 0), (u, 1)) = ((1, 0), Q)"
    using xz_ladder_scalar_0 [of u 255 "(u, 1)"] by (metis prod.collapse)
  moreover have "(0 :: int) ^ (2 ^ 255 - 21) = 0" by (rule zero_power) simp
  ultimately show ?thesis unfolding x25519_def by simp
qed

text \<open>
  Property C3: on any scalar and any point of 32 bytes, \<open>scalarmult_curve25519\<close> returns the abscissa
  that the ladder of RFC 7748 computes over the integers modulo \<open>2 ^ 255 - 19\<close> from the low 255
  bits of the scalar, which is not clamped, and from the low 255 bits of the point, encoded in 32
  bytes below the prime. It returns \<open>-1\<close> exactly when the abscissa is zero; this is also so for the
  scalar 0 and every point, which the comment on that line does not mention, and a scalar of
  \<open>2 ^ 255\<close> or more loses its top bit, although the comment on the removed clamping speaks of a real
  multiplication.
\<close>

theorem scalarmult_curve25519_correct:
  assumes "length scalar = 32" and "length point = 32"
  shows "scalarmult_curve25519 scalar point =
    (let x = x25519 (os2ip scalar) (os2ip point mod 2 ^ 255)
     in (if x = 0 then - 1 else 0, i2osp 32 x))"
proof -
  let ?x = "x25519 (os2ip scalar) (os2ip point mod 2 ^ 255)"
  have out: "reverse_int (curve25519_scalar_mult_generic (reverse_int scalar) (reverse_int point)) = i2osp 32 ?x"
    using assms by (simp add: reverse_int_rev curve25519_scalar_mult_generic_correct)
  have "?x < 256 ^ 32" using x25519_range(2) by (rule order_less_le_trans) (simp add: fe_p_def)
  then have "i2osp 32 ?x = replicate 32 0 \<longleftrightarrow> ?x = 0"
    by (rule i2osp_eq_0_iff [OF x25519_range(1)])
  then show ?thesis
    unfolding scalarmult_curve25519_def Let_def out by simp
qed

theorem scalarmult_curve25519_correct_witness:
  "scalarmult_curve25519 (replicate 32 0) (replicate 31 0 @ [9]) = (- 1, replicate 32 0)"
proof -
  have "scalarmult_curve25519 (replicate 32 0) (replicate 31 0 @ [9]) =
      (let x = x25519 (os2ip (replicate 32 0)) (os2ip (replicate 31 0 @ [9]) mod 2 ^ 255)
       in (if x = 0 then - 1 else 0, i2osp 32 x))"
    by (rule scalarmult_curve25519_correct) simp_all
  also have "x25519 (os2ip (replicate 32 0)) (os2ip (replicate 31 0 @ [9]) mod 2 ^ 255) = 0"
    by (simp add: x25519_scalar_0)
  finally show ?thesis using i2osp_eq_0_iff [of 0 32] by simp
qed

text \<open>
  Property C26: reading 32 bytes and writing them back gives the canonical encoding of their low 255
  bits: the remainder by the prime, in 32 bytes.
\<close>

theorem fe_encoding_canonical:
  assumes "length s = 32"
  shows "fe_tobytes (fe_frombytes s) = rev (i2osp 32 (os2ip (rev s) mod 2 ^ 255 mod fe_p))"
  using fe_is_tobytes [OF fe_is_frombytes [OF assms]] .

theorem fe_encoding_canonical_witness:
  "fe_tobytes (fe_frombytes (0xf6 # replicate 30 0xff @ [0xff])) = 9 # replicate 31 0"
proof -
  have v: "os2ip (rev (0xf6 # replicate 30 0xff @ [0xff])) mod 2 ^ 255 mod fe_p = 9"
    by code_simp
  have "os2ip (rev (9 # replicate 31 0)) = 9" by simp
  then have "i2osp 32 9 = rev (9 # replicate 31 0 :: u8 list)"
    using i2osp_os2ip [of "rev (9 # replicate 31 0 :: u8 list)"] by simp
  then show ?thesis
    using fe_encoding_canonical [of "0xf6 # replicate 30 0xff @ [0xff]"] by (simp only: v) simp
qed

end
