(* ===== verification/Hdkey_Validate.thy ===== *)
theory Hdkey_Validate
  imports Cx_Utils Cx_Curves
begin

text \<open>
  Which keys an application may derive: \<open>src/bolos/hdkey/src/hdkey_validate.c\<close>, and the check of the
  older system calls in \<open>src/bolos/os_bip32.c\<close>. An application declares a mask of curves and a list
  of path prefixes; both checks parse that declaration for every derivation.
\<close>

section \<open>Types and constants\<close>

datatype os_result =
    OS_SUCCESS | OS_ERR_BAD_PARAM | OS_ERR_BAD_LEN | OS_ERR_BAD_STATE | OS_ERR_ACCESS_DENIED
  | OS_ERR_NOT_FOUND | OS_ERR_NOT_IMPLEMENTED | OS_ERR_NOT_SUPPORTED | OS_ERR_NO_MEMORY
  | OS_ERR_SHORT_BUFFER | OS_ERR_BUSY | OS_ERR_CANCEL | OS_ERR_TIMEOUT | OS_ERR_OVERFLOW
  | OS_ERR_CRYPTO_INTERNAL | OS_ERR_INTEGRITY | OS_ERR_SIGNATURE | OS_ERR_EMPTY
  | OS_ERR_BAD_FORMAT | OS_ERR_FORBIDDEN

definition HDW_NORMAL :: u32 where "HDW_NORMAL = 0"
definition HDW_ED25519_SLIP10 :: u32 where "HDW_ED25519_SLIP10 = 1"
definition HDW_SLIP21 :: u32 where "HDW_SLIP21 = 2"

definition HDKEY_DERIVE_MODE_BLS12377_ALEO :: u32 where "HDKEY_DERIVE_MODE_BLS12377_ALEO = 0x08"
definition HDKEY_DERIVE_MODE_ZIP32_SAPLING :: u32 where "HDKEY_DERIVE_MODE_ZIP32_SAPLING = 0x10"
definition HDKEY_DERIVE_MODE_ZIP32_ORCHARD :: u32 where "HDKEY_DERIVE_MODE_ZIP32_ORCHARD = 0x20"
definition HDKEY_DERIVE_MODE_ZIP32_REGISTERED :: u32 where "HDKEY_DERIVE_MODE_ZIP32_REGISTERED = 0x40"

definition HDKEY_DERIVE_AUTH_256K1 :: u8 where "HDKEY_DERIVE_AUTH_256K1 = 0x01"
definition HDKEY_DERIVE_AUTH_256R1 :: u8 where "HDKEY_DERIVE_AUTH_256R1 = 0x02"
definition HDKEY_DERIVE_AUTH_ED25519 :: u8 where "HDKEY_DERIVE_AUTH_ED25519 = 0x04"
definition HDKEY_DERIVE_AUTH_SLIP21 :: u8 where "HDKEY_DERIVE_AUTH_SLIP21 = 0x08"
definition HDKEY_DERIVE_AUTH_BLS12377G1 :: u8 where "HDKEY_DERIVE_AUTH_BLS12377G1 = 0x20"
definition HDKEY_DERIVE_AUTH_ZIP32 :: u8 where "HDKEY_DERIVE_AUTH_ZIP32 = 0x40"

definition HDKEY_BIP32_WILDCARD_VALUE :: u32 where "HDKEY_BIP32_WILDCARD_VALUE = 0x7fffffff"
definition APPLICATION_FLAG_DERIVE_MASTER :: u64 where "APPLICATION_FLAG_DERIVE_MASTER = 0x10"
definition BOLOS_APP_IDX :: u32 where "BOLOS_APP_IDX = 0xFF"

lemmas hdw_modes = HDW_NORMAL_def HDW_ED25519_SLIP10_def HDW_SLIP21_def
  HDKEY_DERIVE_MODE_BLS12377_ALEO_def HDKEY_DERIVE_MODE_ZIP32_SAPLING_def
  HDKEY_DERIVE_MODE_ZIP32_ORCHARD_def HDKEY_DERIVE_MODE_ZIP32_REGISTERED_def

lemmas hdkey_auths = HDKEY_DERIVE_AUTH_256K1_def HDKEY_DERIVE_AUTH_256R1_def
  HDKEY_DERIVE_AUTH_ED25519_def HDKEY_DERIVE_AUTH_SLIP21_def HDKEY_DERIVE_AUTH_BLS12377G1_def
  HDKEY_DERIVE_AUTH_ZIP32_def

text \<open>
  The request, with \<open>None\<close> for a null pointer. The path is memory that the code reads as 32-bit
  indices of the little-endian target and, for SLIP-21, as bytes.
\<close>

record HDKEY_params =
  hd_mode :: u32
  hd_from_app :: bool
  hd_curve :: cx_curve
  hd_path_len :: u32
  hd_private_key_len :: u32
  hd_chain_len :: u32
  hd_seed_key_len :: u32
  hd_path :: "bytes option"
  hd_private_key :: "bytes option"
  hd_chain :: "bytes option"
  hd_seed_key :: "bytes option"

text \<open>
  What the launcher knows of the application: its flags and the array with its derivation paths, of
  which the first \<open>derivation_path_len\<close> bytes are in use.
\<close>

record app_info =
  app_flags :: u64
  derivation_path :: bytes
  derivation_path_len :: nat

definition get_app_derivation_path :: "app_info \<Rightarrow> bytes \<times> nat" where
  "get_app_derivation_path app = (derivation_path app, derivation_path_len app)"

definition path_index :: "bytes option \<Rightarrow> nat \<Rightarrow> u32 res" where
  "path_index path i = (case path of None \<Rightarrow> Inl Oob
     | Some p \<Rightarrow> res_bind (mem_read p (4 * i) 4) (\<lambda>b. Inr (u32_of_le b)))"

definition path_bytes :: "bytes option \<Rightarrow> nat \<Rightarrow> bytes res" where
  "path_bytes path n = (case path of None \<Rightarrow> Inl Oob | Some p \<Rightarrow> mem_read p 0 n)"

section \<open>The checks of hdkey_validate.c\<close>

definition hdkey_validate_params :: "u32 \<Rightarrow> bytes option \<Rightarrow> os_result res" where
  "hdkey_validate_params mode path =
     (if mode = HDW_SLIP21 \<and> path = None then Inr OS_ERR_BAD_PARAM
      else res_bind (if mode = HDW_SLIP21
                     then res_bind (path_bytes path 1) (\<lambda>b. Inr (b \<noteq> [0])) else Inr False)
        (\<lambda>bad_prefix.
          if bad_prefix then Inr OS_ERR_BAD_FORMAT
          else if mode AND (mode - 1) \<noteq> 0 then Inr OS_ERR_BAD_PARAM
          else Inr OS_SUCCESS))"

text \<open>The search for a hardened index among \<open>n\<close> indices from \<open>i\<close>.\<close>

fun hardened_loop :: "bytes option \<Rightarrow> nat \<Rightarrow> nat \<Rightarrow> bool res" where
  "hardened_loop path i 0 = Inr False"
| "hardened_loop path i (Suc n) = res_bind (path_index path i)
     (\<lambda>w. if w AND 0x80000000 \<noteq> 0 then Inr True else hardened_loop path (i + 1) n)"

definition hdkey_validate_hardened ::
  "u32 \<Rightarrow> u32 \<Rightarrow> app_info \<Rightarrow> bytes option \<Rightarrow> nat \<Rightarrow> os_result res" where
  "hdkey_validate_hardened mode app_idx app path path_len =
     (if mode \<noteq> HDW_SLIP21 \<and> app_idx \<noteq> BOLOS_APP_IDX \<and>
         app_flags app AND APPLICATION_FLAG_DERIVE_MASTER = 0
      then res_bind (hardened_loop path 0 path_len)
             (\<lambda>found. Inr (if found then OS_SUCCESS else OS_ERR_BAD_PARAM))
      else Inr OS_SUCCESS)"

definition hdkey_get_derivation_path :: "u32 \<Rightarrow> app_info \<Rightarrow> bytes \<times> nat" where
  "hdkey_get_derivation_path app_idx app = get_app_derivation_path app"

text \<open>The authorisation that a mode and a curve need, or the error when there is none.\<close>

definition hdkey_curve_mask :: "u32 \<Rightarrow> cx_curve \<Rightarrow> os_result + u8" where
  "hdkey_curve_mask mode curve =
     (if mode = HDW_SLIP21 then Inr HDKEY_DERIVE_AUTH_SLIP21
      else if mode = HDKEY_DERIVE_MODE_BLS12377_ALEO then
        (if curve = CX_CURVE_BLS12_377_G1 then Inr HDKEY_DERIVE_AUTH_BLS12377G1 else Inl OS_ERR_BAD_PARAM)
      else if mode = HDKEY_DERIVE_MODE_ZIP32_SAPLING then
        (if curve = CX_CURVE_JUBJUB then Inr HDKEY_DERIVE_AUTH_ZIP32 else Inl OS_ERR_BAD_PARAM)
      else if mode = HDKEY_DERIVE_MODE_ZIP32_ORCHARD then Inr HDKEY_DERIVE_AUTH_ZIP32
      else if curve = CX_CURVE_SECP256K1 then Inr HDKEY_DERIVE_AUTH_256K1
      else if curve = CX_CURVE_SECP256R1 then Inr HDKEY_DERIVE_AUTH_256R1
      else if curve = CX_CURVE_Ed25519 then Inr HDKEY_DERIVE_AUTH_ED25519
      else Inl OS_ERR_NOT_IMPLEMENTED)"

definition hdkey_validate_curve :: "u32 \<Rightarrow> cx_curve \<Rightarrow> u8 \<Rightarrow> os_result" where
  "hdkey_validate_curve mode curve app_curve_mask =
     (case hdkey_curve_mask mode curve of
        Inl e \<Rightarrow> e
      | Inr curve_mask \<Rightarrow> if app_curve_mask AND curve_mask \<noteq> curve_mask then OS_ERR_NOT_FOUND else OS_SUCCESS)"

definition hdkey_match_slip21_subpath :: "HDKEY_params \<Rightarrow> bytes \<Rightarrow> nat \<Rightarrow> nat \<Rightarrow> bool res" where
  "hdkey_match_slip21_subpath params derive_path check_offset sub_path_length =
     res_bind (path_bytes (hd_path params) sub_path_length) (\<lambda>p.
     res_bind (mem_read derive_path (check_offset + 1) sub_path_length) (\<lambda>d. Inr (p = d)))"

text \<open>The comparison of \<open>n\<close> indices from the index \<open>i\<close>.\<close>

fun match_bip32_loop :: "bytes option \<Rightarrow> bytes \<Rightarrow> nat \<Rightarrow> nat \<Rightarrow> nat \<Rightarrow> bool res" where
  "match_bip32_loop path derive_path off i 0 = Inr True"
| "match_bip32_loop path derive_path off i (Suc n) =
     res_bind (U4BE derive_path (off + 1 + 4 * i)) (\<lambda>allowed_prefix.
     res_bind (path_index path i) (\<lambda>w.
       if w \<noteq> allowed_prefix \<and> allowed_prefix \<noteq> HDKEY_BIP32_WILDCARD_VALUE then Inr False
       else match_bip32_loop path derive_path off (i + 1) n))"

definition hdkey_match_bip32_subpath :: "HDKEY_params \<Rightarrow> bytes \<Rightarrow> nat \<Rightarrow> nat \<Rightarrow> bool res" where
  "hdkey_match_bip32_subpath params derive_path check_offset sub_path_length =
     match_bip32_loop (hd_path params) derive_path check_offset 0 sub_path_length"

text \<open>
  The header byte of an entry: its marker, the size of its elements and their number. The array has
  256 bytes, so that no offset wraps around.
\<close>

definition entry_marker :: "u8 \<Rightarrow> bool" where
  "entry_marker b \<longleftrightarrow> b AND 0x80 \<noteq> 0"

definition entry_count :: "u8 \<Rightarrow> nat" where
  "entry_count b = unat (b AND 0x7F)"

definition entry_end :: "nat \<Rightarrow> u8 \<Rightarrow> nat" where
  "entry_end off b = off + 1 + (if entry_marker b then 1 else 4) * entry_count b"

function hdkey_path_loop :: "HDKEY_params \<Rightarrow> bytes \<Rightarrow> nat \<Rightarrow> nat \<Rightarrow> bool res" where
  "hdkey_path_loop params derive_path dlen off =
     (if off < dlen then
        (case mem_get derive_path off of
           Inl e \<Rightarrow> Inl e
         | Inr b \<Rightarrow>
            if entry_end off b > dlen then Inr False
            else if unat (hd_path_len params) < entry_count b \<or>
                    entry_marker b \<noteq> (hd_mode params = HDW_SLIP21)
            then hdkey_path_loop params derive_path dlen (entry_end off b)
            else
              (case (if hd_mode params = HDW_SLIP21
                     then hdkey_match_slip21_subpath params derive_path off (entry_count b)
                     else hdkey_match_bip32_subpath params derive_path off (entry_count b)) of
                 Inl e \<Rightarrow> Inl e
               | Inr path_valid \<Rightarrow> if path_valid then Inr True
                   else hdkey_path_loop params derive_path dlen (entry_end off b)))
      else Inr False)"
  by pat_completeness auto

termination
  by (relation "measure (\<lambda>(params, derive_path, dlen, off). dlen - off)") (auto simp: entry_end_def)

definition hdkey_validate_path :: "HDKEY_params \<Rightarrow> u32 \<Rightarrow> app_info \<Rightarrow> os_result res" where
  "hdkey_validate_path params app_idx app =
     (let (derive_path, dlen) = (if app_idx \<noteq> BOLOS_APP_IDX
                                 then hdkey_get_derivation_path app_idx app else ([], 0))
      in if dlen = 0 then Inr OS_SUCCESS
         else if dlen = 1 then Inr OS_SUCCESS
         else res_bind (mem_get derive_path 0) (\<lambda>mask.
           if hdkey_validate_curve (hd_mode params) (hd_curve params) mask \<noteq> OS_SUCCESS
           then Inr OS_ERR_FORBIDDEN
           else res_bind (hdkey_path_loop params derive_path dlen 1)
             (\<lambda>path_valid. Inr (if path_valid then OS_SUCCESS else OS_ERR_FORBIDDEN))))"

definition HDKEY_VALIDATE_secure_context :: "app_info \<Rightarrow> HDKEY_params option \<Rightarrow> os_result res" where
  "HDKEY_VALIDATE_secure_context app params_ptr =
     (case params_ptr of
        None \<Rightarrow> Inr OS_ERR_BAD_PARAM
      | Some params \<Rightarrow>
          if hd_path_len params AND 0xF0000000 \<noteq> 0 then Inr OS_ERR_OVERFLOW
          else res_bind (hdkey_validate_params (hd_mode params) (hd_path params)) (\<lambda>os_error.
            if os_error \<noteq> OS_SUCCESS then Inr os_error
            else res_bind (hdkey_validate_hardened (hd_mode params) 0 app (hd_path params)
                             (unat (hd_path_len params))) (\<lambda>os_error.
              if os_error \<noteq> OS_SUCCESS then Inr os_error
              else hdkey_validate_path params 0 app)))"

section \<open>The check of os_bip32.c\<close>

text \<open>The file is compiled with the first numbering of the curves, where Ed25519 is \<open>0x41\<close>.\<close>

definition SDK1_CURVE_256K1 :: cx_curve where "SDK1_CURVE_256K1 = 0x21"
definition SDK1_CURVE_256R1 :: cx_curve where "SDK1_CURVE_256R1 = 0x22"
definition SDK1_CURVE_Ed25519 :: cx_curve where "SDK1_CURVE_Ed25519 = 0x41"

definition SWO_PAR_VAL_12 :: u16 where "SWO_PAR_VAL_12 = 0x4212"
definition SWO_PAR_VAL_13 :: u16 where "SWO_PAR_VAL_13 = 0x4213"
definition SWO_PAR_VAL_14 :: u16 where "SWO_PAR_VAL_14 = 0x4214"
definition SWO_PAR_VAL_15 :: u16 where "SWO_PAR_VAL_15 = 0x4215"

function check_path_loop :: "u32 \<Rightarrow> bytes option \<Rightarrow> nat \<Rightarrow> bytes \<Rightarrow> nat \<Rightarrow> nat \<Rightarrow> bool res" where
  "check_path_loop mode path pathLength derive_path dlen checkOffset =
     (if checkOffset < dlen then
        (case mem_get derive_path checkOffset of
           Inl e \<Rightarrow> Inl e
         | Inr b \<Rightarrow>
            (case (if entry_count b \<le> pathLength then
                     if entry_marker b \<noteq> (mode = HDW_SLIP21) then Inr False
                     else if mode = HDW_SLIP21
                     then res_bind (path_bytes path (entry_count b)) (\<lambda>p.
                          res_bind (mem_read derive_path (checkOffset + 1) (entry_count b)) (\<lambda>d. Inr (p = d)))
                     else match_bip32_loop path derive_path checkOffset 0 (entry_count b)
                   else Inr False) of
               Inl e \<Rightarrow> Inl e
             | Inr pathValid \<Rightarrow> if pathValid then Inr True
                 else check_path_loop mode path pathLength derive_path dlen (entry_end checkOffset b)))
      else Inr False)"
  by pat_completeness auto

termination
  by (relation "measure (\<lambda>(mode, path, pathLength, derive_path, dlen, off). dlen - off)")
    (auto simp: entry_end_def)

definition check_curve_mask :: "u32 \<Rightarrow> cx_curve \<Rightarrow> u8 res" where
  "check_curve_mask mode curve =
     (if mode = HDW_SLIP21 then Inr HDKEY_DERIVE_AUTH_SLIP21
      else if curve = SDK1_CURVE_256K1 then Inr HDKEY_DERIVE_AUTH_256K1
      else if curve = SDK1_CURVE_256R1 then Inr HDKEY_DERIVE_AUTH_256R1
      else if curve = SDK1_CURVE_Ed25519 then Inr HDKEY_DERIVE_AUTH_ED25519
      else Inl (Throw SWO_PAR_VAL_13))"

definition os_perso_derive_node_bip32_check_path ::
  "app_info \<Rightarrow> u32 \<Rightarrow> cx_curve \<Rightarrow> bytes option \<Rightarrow> nat \<Rightarrow> bool \<Rightarrow> unit res" where
  "os_perso_derive_node_bip32_check_path app mode curve path pathLength fromApp =
     (let (derive_path, dlen) = (if fromApp then get_app_derivation_path app else ([], 0)) in
      res_bind
        (if dlen \<noteq> 0 then
           res_bind (check_curve_mask mode curve) (\<lambda>curveMask.
           res_bind (mem_get derive_path 0) (\<lambda>mask.
             if mask AND curveMask \<noteq> curveMask then Inl (Throw SWO_PAR_VAL_14)
             else if dlen > 1 then check_path_loop mode path pathLength derive_path dlen 1
             else Inr True))
         else Inr True)
        (\<lambda>pathValid. if pathValid then Inr () else Inl (Throw SWO_PAR_VAL_15)))"

end
