(* ===== verification/Hdkey_Policy.thy ===== *)
theory Hdkey_Policy
  imports Hdkey_Validate
begin

text \<open>
  What an application declares and what the checks make of it. A policy is a mask of curves and a
  list of path prefixes, in which the wildcard stands for any index; its encoding is what the
  launcher passes on. Both checks find out whether one of the prefixes matches the request.
\<close>

section \<open>Policies\<close>

datatype policy_entry = Bip32_Prefix "u32 list" | Slip21_Prefix bytes

fun encode_entry :: "policy_entry \<Rightarrow> bytes" where
  "encode_entry (Bip32_Prefix ws) = of_nat (length ws) # concat (map be_of_u32 ws)"
| "encode_entry (Slip21_Prefix bs) = (0x80 OR of_nat (length bs)) # bs"

fun entry_ok :: "policy_entry \<Rightarrow> bool" where
  "entry_ok (Bip32_Prefix ws) = (length ws < 128)"
| "entry_ok (Slip21_Prefix bs) = (length bs < 128)"

definition encode_policy :: "u8 \<Rightarrow> policy_entry list \<Rightarrow> bytes" where
  "encode_policy curves es = curves # concat (map encode_entry es)"

definition path_word :: "bytes \<Rightarrow> nat \<Rightarrow> u32" where
  "path_word p i = u32_of_le (take 4 (drop (4 * i) p))"

text \<open>A prefix allows a request of \<open>n\<close> indices, or of \<open>n\<close> bytes for SLIP-21.\<close>

fun entry_allows :: "u32 \<Rightarrow> bytes \<Rightarrow> nat \<Rightarrow> policy_entry \<Rightarrow> bool" where
  "entry_allows mode p n (Bip32_Prefix ws) \<longleftrightarrow> mode \<noteq> HDW_SLIP21 \<and> length ws \<le> n \<and>
     (\<forall>i<length ws. ws ! i = HDKEY_BIP32_WILDCARD_VALUE \<or> ws ! i = path_word p i)"
| "entry_allows mode p n (Slip21_Prefix bs) \<longleftrightarrow> mode = HDW_SLIP21 \<and> length bs \<le> n \<and> take (length bs) p = bs"

text \<open>The memory of the path is as long as the request says.\<close>

definition path_mem :: "u32 \<Rightarrow> bytes \<Rightarrow> nat \<Rightarrow> bool" where
  "path_mem mode p n \<longleftrightarrow> (if mode = HDW_SLIP21 then n \<le> length p \<and> 1 \<le> length p else 4 * n \<le> length p)"

section \<open>Reading one entry\<close>

lemma length_encode_words [simp]: "length (concat (map be_of_u32 ws)) = 4 * length ws"
  by (induction ws) simp_all

lemma unat_count: "n < 128 \<Longrightarrow> unat (of_nat n :: u8) = n"
  by (simp add: unat_of_nat)

lemma entry_header:
  assumes "n < 128"
  shows "entry_marker (of_nat n) = False" "entry_count (of_nat n) = n"
    "entry_marker (0x80 OR of_nat n) = True" "entry_count (0x80 OR of_nat n) = n"
proof -
  have low: "bit (of_nat n :: u8) i \<Longrightarrow> i < 7" for i
    using assms not_bit_small [of n 7 i] by (auto simp: bit_simps not_le [symmetric])
  have m: "(0x7F :: u8) = mask 7" by (simp add: mask_eq_exp_minus_1)
  have "(0x80 :: u8) = 2 ^ 7" by simp
  then have top: "bit (0x80 :: u8) i \<longleftrightarrow> i = 7" for i by (simp only: bit_exp_iff) auto
  have "of_nat n AND (0x80 :: u8) = 0" 
    by (rule bit_eqI, simp only: bit_and_iff top) (auto dest: low)
  then show "entry_marker (of_nat n) = False" by (simp add: entry_marker_def)
  have "of_nat n AND (0x7F :: u8) = of_nat n"
    unfolding m by (rule bit_eqI, simp only: bit_and_iff bit_mask_iff) (auto dest: low)
  then show "entry_count (of_nat n) = n" by (simp add: entry_count_def unat_count [OF assms])
  have "bit ((0x80 OR of_nat n) AND (0x80 :: u8)) 7" by (simp add: bit_and_iff bit_or_iff top)
  then show "entry_marker (0x80 OR of_nat n) = True" by (auto simp: entry_marker_def)
  have "(0x80 OR of_nat n) AND (0x7F :: u8) = of_nat n"
    unfolding m by (rule bit_eqI, simp only: bit_and_iff bit_or_iff bit_mask_iff top) (auto dest: low)
  then show "entry_count (0x80 OR of_nat n) = n" by (simp add: entry_count_def unat_count [OF assms])
qed

lemma path_index_word: "4 * Suc i \<le> length p \<Longrightarrow> path_index (Some p) i = Inr (path_word p i)"
  by (simp add: path_index_def mem_read_def path_word_def)

lemma U4BE_entry:
  assumes "i < length ws" and "length pre = off"
  shows "U4BE (pre @ h # concat (map be_of_u32 ws) @ rest) (off + 1 + 4 * i) = Inr (ws ! i)"
proof -
  have "ws = take i ws @ ws ! i # drop (Suc i) ws" using assms(1) by (rule id_take_nth_drop)
  then have "concat (map be_of_u32 ws) =
      concat (map be_of_u32 (take i ws)) @ be_of_u32 (ws ! i) @ concat (map be_of_u32 (drop (Suc i) ws))"
    by (metis concat.simps(2) concat_append list.simps(9) map_append)
  then have "pre @ h # concat (map be_of_u32 ws) @ rest =
      (pre @ h # concat (map be_of_u32 (take i ws))) @ be_of_u32 (ws ! i) @
        concat (map be_of_u32 (drop (Suc i) ws)) @ rest" by simp
  then show ?thesis
    using assms by (simp only:) (subst U4BE_at; simp)
qed

lemma match_bip32_words:
  assumes "i + n = length ws" and "length pre = off" and "4 * length ws \<le> length p"
  shows "match_bip32_loop (Some p) (pre @ h # concat (map be_of_u32 ws) @ rest) off i n =
    Inr (\<forall>j. i \<le> j \<and> j < length ws \<longrightarrow> ws ! j = HDKEY_BIP32_WILDCARD_VALUE \<or> ws ! j = path_word p j)"
  using assms
proof (induction n arbitrary: i)
  case (Suc n)
  have split: "(\<forall>j. i \<le> j \<and> j < length ws \<longrightarrow> P j) \<longleftrightarrow> P i \<and> (\<forall>j. Suc i \<le> j \<and> j < length ws \<longrightarrow> P j)" for P
  proof -
    have "i \<le> j \<longleftrightarrow> j = i \<or> Suc i \<le> j" for j by auto
    then show ?thesis using Suc.prems(1) by auto
  qed
  have "U4BE (pre @ h # concat (map be_of_u32 ws) @ rest) (off + 1 + 4 * i) = Inr (ws ! i)"
    using Suc.prems by (intro U4BE_entry) simp_all
  then show ?case
    using Suc.prems Suc.IH [of "Suc i"] by (subst split) (auto simp: path_index_word)
qed auto

section \<open>The contract of the checks\<close>

text \<open>
  What both checks promise of one entry: at its header they decide whether it allows the request, and
  otherwise go on behind it.
\<close>

locale path_check =
  fixes check :: "'r \<Rightarrow> bytes \<Rightarrow> nat \<Rightarrow> nat \<Rightarrow> bool res"
    and mode :: "'r \<Rightarrow> u32" and path :: "'r \<Rightarrow> bytes option" and path_len :: "'r \<Rightarrow> nat"
  assumes check_end: "dlen \<le> off \<Longrightarrow> check r dp dlen off = Inr False"
    and check_entry: "entry_ok e \<Longrightarrow> path r = Some p \<Longrightarrow> path_mem (mode r) p (path_len r) \<Longrightarrow>
      length (pre @ encode_entry e) \<le> dlen \<Longrightarrow>
      check r (pre @ encode_entry e @ rest) dlen (length pre) =
        (if entry_allows (mode r) p (path_len r) e then Inr True
         else check r (pre @ encode_entry e @ rest) dlen (length (pre @ encode_entry e)))"
begin

lemma check_entries:
  assumes "path r = Some p" and "path_mem (mode r) p (path_len r)" and "\<forall>e \<in> set es. entry_ok e"
    and "dlen = length (pre @ concat (map encode_entry es))"
  shows "check r (pre @ concat (map encode_entry es) @ rest) dlen (length pre) =
    Inr (\<exists>e \<in> set es. entry_allows (mode r) p (path_len r) e)"
  using assms(3,4)
proof (induction es arbitrary: pre)
  case Nil
  then show ?case by (simp add: check_end)
next
  case (Cons e es)
  then show ?case
    using check_entry [OF _ assms(1,2), of e pre dlen "concat (map encode_entry es) @ rest"]
      Cons.IH [of "pre @ encode_entry e"] by simp
qed

corollary check_policy:
  assumes "path r = Some p" and "path_mem (mode r) p (path_len r)" and "\<forall>e \<in> set es. entry_ok e"
  shows "check r (encode_policy curves es @ rest) (length (encode_policy curves es)) 1 =
    Inr (\<exists>e \<in> set es. entry_allows (mode r) p (path_len r) e)"
  using check_entries [OF assms, of "length (encode_policy curves es)" "[curves]" rest]
  by (simp add: encode_policy_def)

end

lemma mem_get_at: "mem_get (pre @ x # post) (length pre) = Inr x"
  by (simp add: mem_get_def)

lemma entry_end_encode:
  "entry_ok e \<Longrightarrow> entry_end off (hd (encode_entry e)) = off + length (encode_entry e)"
  by (cases e) (simp_all add: entry_end_def entry_header)

lemma bip32_entry_match:
  assumes "4 * length ws \<le> length p"
  shows "match_bip32_loop (Some p) (pre @ of_nat (length ws) # concat (map be_of_u32 ws) @ rest) (length pre) 0 (length ws) =
    Inr (\<forall>i<length ws. ws ! i = HDKEY_BIP32_WILDCARD_VALUE \<or> ws ! i = path_word p i)"
  using match_bip32_words [of 0 "length ws" ws pre "length pre" p] assms by simp

lemma slip21_entry_match:
  assumes "length bs \<le> length p"
  shows "path_bytes (Some p) (length bs) = Inr (take (length bs) p)"
    and "mem_read (pre @ h # bs @ rest) (Suc (length pre)) (length bs) = Inr bs"
  using assms by (simp_all add: path_bytes_def mem_read_def)

interpretation hdkey_check: path_check hdkey_path_loop hd_mode hd_path "\<lambda>r. unat (hd_path_len r)"
proof
  fix r :: HDKEY_params and dp dlen off
  show "dlen \<le> off \<Longrightarrow> hdkey_path_loop r dp dlen off = Inr False" by simp
next
  fix r :: HDKEY_params and e p pre dlen rest
  assume e: "entry_ok e" and p: "hd_path r = Some p" "path_mem (hd_mode r) p (unat (hd_path_len r))"
    and len: "length (pre @ encode_entry e) \<le> dlen"
  have off: "length pre < dlen" using len by (cases e) simp_all
  show "hdkey_path_loop r (pre @ encode_entry e @ rest) dlen (length pre) =
      (if entry_allows (hd_mode r) p (unat (hd_path_len r)) e then Inr True
       else hdkey_path_loop r (pre @ encode_entry e @ rest) dlen (length (pre @ encode_entry e)))"
  proof (cases e)
    case (Bip32_Prefix ws)
    then show ?thesis
      using e p len off entry_end_encode [OF e] bip32_entry_match [of ws p pre rest]
      by (subst hdkey_path_loop.simps)
        (auto simp: mem_get_at entry_header path_mem_def hdkey_match_bip32_subpath_def simp del: hdkey_path_loop.simps)
  next
    case (Slip21_Prefix bs)
    then show ?thesis
      using e p len off entry_end_encode [OF e] slip21_entry_match [of bs p]
      by (subst hdkey_path_loop.simps)
        (auto simp: mem_get_at entry_header path_mem_def hdkey_match_slip21_subpath_def simp del: hdkey_path_loop.simps)
  qed
qed

interpretation bip32_check: path_check
  "\<lambda>(mode, path, n). check_path_loop mode path n" fst "fst \<circ> snd" "snd \<circ> snd"
proof
  fix r :: "u32 \<times> bytes option \<times> nat" and dp dlen off
  show "dlen \<le> off \<Longrightarrow> (case r of (mode, path, n) \<Rightarrow> check_path_loop mode path n) dp dlen off = Inr False"
    by (simp split: prod.split)
next
  fix r :: "u32 \<times> bytes option \<times> nat" and e p pre dlen rest
  obtain mode path n where r: "r = (mode, path, n)" by (cases r)
  assume e: "entry_ok e" and p: "(fst \<circ> snd) r = Some p" "path_mem (fst r) p ((snd \<circ> snd) r)"
    and len: "length (pre @ encode_entry e) \<le> dlen"
  have off: "length pre < dlen" using len by (cases e) simp_all
  have "check_path_loop mode path n (pre @ encode_entry e @ rest) dlen (length pre) =
      (if entry_allows mode p n e then Inr True
       else check_path_loop mode path n (pre @ encode_entry e @ rest) dlen (length (pre @ encode_entry e)))"
  proof (cases e)
    case (Bip32_Prefix ws)
    then show ?thesis
      using e p len off entry_end_encode [OF e] bip32_entry_match [of ws p pre rest]
      by (subst check_path_loop.simps)
        (auto simp: r mem_get_at entry_header path_mem_def simp del: check_path_loop.simps)
  next
    case (Slip21_Prefix bs)
    then show ?thesis
      using e p len off entry_end_encode [OF e] slip21_entry_match [of bs p]
      by (subst check_path_loop.simps)
        (auto simp: r mem_get_at entry_header path_mem_def simp del: check_path_loop.simps)
  qed
  then show "(case r of (mode, path, n) \<Rightarrow> check_path_loop mode path n) (pre @ encode_entry e @ rest) dlen (length pre) =
      (if entry_allows (fst r) p ((snd \<circ> snd) r) e then Inr True
       else (case r of (mode, path, n) \<Rightarrow> check_path_loop mode path n) (pre @ encode_entry e @ rest) dlen
              (length (pre @ encode_entry e)))"
    by (simp add: r)
qed

section \<open>Safety on any declaration\<close>

lemma U4BE_safe: "off + 4 \<le> length buf \<Longrightarrow> \<exists>w. U4BE buf off = Inr w"
  by (simp add: U4BE_def mem_get_def)

lemma match_bip32_safe:
  "off + 1 + 4 * (i + n) \<le> length dp \<Longrightarrow> 4 * (i + n) \<le> length p \<Longrightarrow>
   \<exists>v. match_bip32_loop (Some p) dp off i n = Inr v"
proof (induction n arbitrary: i)
  case (Suc n)
  obtain w where "U4BE dp (off + 1 + 4 * i) = Inr w" using U4BE_safe Suc.prems by force
  moreover have "path_index (Some p) i = Inr (path_word p i)" using Suc.prems by (intro path_index_word) simp
  ultimately show ?case using Suc.IH [of "Suc i"] Suc.prems by auto
qed auto

lemma hdkey_path_loop_safe:
  assumes "dlen \<le> length dp" and "hd_path r = Some p" and "path_mem (hd_mode r) p (unat (hd_path_len r))"
  shows "\<exists>v. hdkey_path_loop r dp dlen off = Inr v"
  using assms
proof (induction r dp dlen off rule: hdkey_path_loop.induct)
  case (1 r dp dlen off)
  show ?case
  proof (cases "off < dlen")
    case True
    then have b: "mem_get dp off = Inr (dp ! off)" using 1(3) by (simp add: mem_get_def)
    let ?b = "dp ! off"
    consider (cut) "dlen < entry_end off ?b"
      | (skip) "entry_end off ?b \<le> dlen" "unat (hd_path_len r) < entry_count ?b \<or>
          entry_marker ?b \<noteq> (hd_mode r = HDW_SLIP21)"
      | (compare) "entry_end off ?b \<le> dlen" "entry_count ?b \<le> unat (hd_path_len r)"
          "entry_marker ?b = (hd_mode r = HDW_SLIP21)" by fastforce
    then show ?thesis
    proof cases
      case compare
      have "\<exists>v. (if hd_mode r = HDW_SLIP21 then hdkey_match_slip21_subpath r dp off (entry_count ?b)
          else hdkey_match_bip32_subpath r dp off (entry_count ?b)) = Inr v"
        using compare 1(3,4,5) match_bip32_safe [of off 0 "entry_count ?b" dp p]
        by (auto simp: hdkey_match_slip21_subpath_def hdkey_match_bip32_subpath_def path_mem_def
            path_bytes_def mem_read_def entry_end_def)
      then show ?thesis
        using compare b True 1(2) [OF True b] 1(3-5) by (subst hdkey_path_loop.simps) (auto simp del: hdkey_path_loop.simps)
    next
      case skip
      then show ?thesis
        using b True 1(1) [OF True b] 1(3-5) by (subst hdkey_path_loop.simps) (auto simp del: hdkey_path_loop.simps)
    next
      case cut
      then show ?thesis
        using b True by (subst hdkey_path_loop.simps) (auto simp del: hdkey_path_loop.simps)
    qed
  qed auto
qed

section \<open>What is authorised\<close>

text \<open>The application has declared a policy, whatever follows it in the array.\<close>

definition declares :: "app_info \<Rightarrow> u8 \<Rightarrow> policy_entry list \<Rightarrow> bool" where
  "declares app curves es \<longleftrightarrow> (\<forall>e \<in> set es. entry_ok e) \<and>
     derivation_path_len app = length (encode_policy curves es) \<and>
     take (length (encode_policy curves es)) (derivation_path app) = encode_policy curves es"

lemma declares_array:
  assumes "declares app curves es"
  obtains rest where "derivation_path app = encode_policy curves es @ rest"
    and "derivation_path_len app = length (encode_policy curves es)" and "\<forall>e \<in> set es. entry_ok e"
  using assms append_take_drop_id [of "length (encode_policy curves es)" "derivation_path app"]
  unfolding declares_def by metis

lemma length_encode_policy: "length (encode_policy curves es) = 1 \<longleftrightarrow> es = []" "encode_policy curves es \<noteq> []"
proof -
  have "encode_entry e \<noteq> []" for e by (cases e) simp_all
  then show "length (encode_policy curves es) = 1 \<longleftrightarrow> es = []" by (cases es) (auto simp: encode_policy_def)
qed (simp add: encode_policy_def)

lemma encode_policy_first: "mem_get (encode_policy curves es @ rest) 0 = Inr curves"
  by (simp add: encode_policy_def mem_get_def)

text \<open>
  The authorisations of \<open>os_hdkey.h\<close> as a table: modes, curves (\<open>None\<close> for any) and the number of
  the bit that an application has to declare for them.
\<close>

definition auth_table :: "(u32 list \<times> cx_curve list option \<times> nat) list" where
  "auth_table =
     [([0x00, 0x01], Some [CX_CURVE_SECP256K1], 0),
      ([0x00, 0x01], Some [CX_CURVE_SECP256R1], 1),
      ([0x00, 0x01], Some [CX_CURVE_Ed25519], 2),
      ([0x02], None, 3),
      ([0x08], Some [CX_CURVE_BLS12_377_G1], 5),
      ([0x10], Some [CX_CURVE_JUBJUB], 6),
      ([0x20], None, 6)]"

definition auth_declared :: "u8 \<Rightarrow> u32 \<Rightarrow> cx_curve \<Rightarrow> bool" where
  "auth_declared curves mode curve \<longleftrightarrow>
     list_ex (\<lambda>(ms, cs, b). mode \<in> set ms \<and> (case cs of None \<Rightarrow> True | Some l \<Rightarrow> curve \<in> set l) \<and> bit curves b) auth_table"

definition auth_modes :: "u32 set" where
  "auth_modes = {0x00, 0x01, 0x02, 0x08, 0x10, 0x20}"

text \<open>
  A mode that is not in the table, the registered derivation of ZIP 32 (\<open>0x40\<close>) among them, is
  authorised as if it were a BIP32 derivation on the curve.
\<close>

definition hdkey_policy_ok :: "HDKEY_params \<Rightarrow> bytes \<Rightarrow> u8 \<Rightarrow> policy_entry list \<Rightarrow> bool" where
  "hdkey_policy_ok r p curves es \<longleftrightarrow>
     auth_declared curves (if hd_mode r \<in> auth_modes then hd_mode r else 0x00) (hd_curve r) \<and>
     (\<exists>e \<in> set es. entry_allows (hd_mode r) p (unat (hd_path_len r)) e)"

lemma hdkey_curve_mask_error: "hdkey_curve_mask mode curve = Inl e \<Longrightarrow> e \<noteq> OS_SUCCESS"
  by (auto simp: hdkey_curve_mask_def split: if_splits)

lemma auth_bits:
  fixes w :: u8
  shows "(w AND 0x01 = 0x01) = bit w 0" "(w AND 0x02 = 0x02) = bit w 1" "(w AND 0x04 = 0x04) = bit w 2"
    "(w AND 0x08 = 0x08) = bit w 3" "(w AND 0x20 = 0x20) = bit w 5" "(w AND 0x40 = 0x40) = bit w 6"
proof -
  have *: "(w AND 2 ^ n = 2 ^ n) = bit w n" if "n < 8" for n
  proof
    assume "w AND 2 ^ n = 2 ^ n"
    then have "bit (w AND 2 ^ n) n" using that by (simp add: bit_exp_iff)
    then show "bit w n" by (simp add: bit_and_iff)
  next
    assume "bit w n"
    then show "w AND 2 ^ n = 2 ^ n" using that by (intro bit_word_eqI) (auto simp: bit_and_iff bit_exp_iff)
  qed
  show "(w AND 0x01 = 0x01) = bit w 0" "(w AND 0x02 = 0x02) = bit w 1" "(w AND 0x04 = 0x04) = bit w 2"
    "(w AND 0x08 = 0x08) = bit w 3" "(w AND 0x20 = 0x20) = bit w 5" "(w AND 0x40 = 0x40) = bit w 6"
    using * [of 0] * [of 1] * [of 2] * [of 3] * [of 5] * [of 6] by simp_all
qed

lemma auth_declared_simps:
  "auth_declared w 0x02 c = bit w 3" "auth_declared w 0x20 c = bit w 6"
  "auth_declared w 0x08 c = (c = CX_CURVE_BLS12_377_G1 \<and> bit w 5)"
  "auth_declared w 0x10 c = (c = CX_CURVE_JUBJUB \<and> bit w 6)"
  "m = 0x00 \<or> m = 0x01 \<Longrightarrow> auth_declared w m c = (c = CX_CURVE_SECP256K1 \<and> bit w 0 \<or>
     c = CX_CURVE_SECP256R1 \<and> bit w 1 \<or> c = CX_CURVE_Ed25519 \<and> bit w 2)"
  by (auto simp: auth_declared_def auth_table_def)

text \<open>The switch statements of the code against the table.\<close>

lemma hdkey_validate_curve_iff:
  "hdkey_validate_curve mode curve curves = OS_SUCCESS \<longleftrightarrow>
     auth_declared curves (if mode \<in> auth_modes then mode else 0x00) curve"
proof -
  have d: "CX_CURVE_SECP256K1 \<noteq> CX_CURVE_SECP256R1" "CX_CURVE_SECP256K1 \<noteq> CX_CURVE_Ed25519"
    "CX_CURVE_SECP256R1 \<noteq> CX_CURVE_Ed25519"
    by (simp_all add: CX_CURVE_SECP256K1_def CX_CURVE_SECP256R1_def CX_CURVE_Ed25519_def)
  consider "mode = 0x02" | "mode = 0x08" | "mode = 0x10" | "mode = 0x20"
    | (bip32) "mode \<notin> {0x02, 0x08, 0x10, 0x20}" by blast
  then show ?thesis
  proof cases
    case bip32
    have "auth_declared curves (if mode \<in> auth_modes then mode else 0x00) curve =
        (curve = CX_CURVE_SECP256K1 \<and> bit curves 0 \<or> curve = CX_CURVE_SECP256R1 \<and> bit curves 1 \<or>
         curve = CX_CURVE_Ed25519 \<and> bit curves 2)"
      using bip32 by (intro auth_declared_simps(5)) (auto simp: auth_modes_def)
    moreover have "hdkey_validate_curve mode curve curves = OS_SUCCESS \<longleftrightarrow>
        (curve = CX_CURVE_SECP256K1 \<and> bit curves 0 \<or> curve = CX_CURVE_SECP256R1 \<and> bit curves 1 \<or>
         curve = CX_CURVE_Ed25519 \<and> bit curves 2)"
      using bip32 d by (simp add: hdkey_validate_curve_def hdkey_curve_mask_def hdw_modes hdkey_auths auth_bits)
    ultimately show ?thesis by simp
  qed (simp_all add: hdkey_validate_curve_def hdkey_curve_mask_def hdw_modes hdkey_auths auth_bits auth_modes_def
      auth_declared_simps)
qed

lemma hdkey_validate_path_policy:
  assumes "declares app curves es" and "es \<noteq> []" and "hd_path r = Some p"
    and "path_mem (hd_mode r) p (unat (hd_path_len r))"
  shows "hdkey_validate_path r 0 app = Inr (if hdkey_policy_ok r p curves es then OS_SUCCESS else OS_ERR_FORBIDDEN)"
proof -
  obtain rest where app: "derivation_path app = encode_policy curves es @ rest"
    "derivation_path_len app = length (encode_policy curves es)" and ok: "\<forall>e \<in> set es. entry_ok e"
    using assms(1) by (rule declares_array)
  have "length (encode_policy curves es) \<noteq> 0" "length (encode_policy curves es) \<noteq> 1"
    using assms(2) length_encode_policy [of curves es] by auto
  then show ?thesis
    using hdkey_check.check_policy [OF assms(3,4) ok, of curves rest]
    by (simp add: hdkey_validate_path_def hdkey_get_derivation_path_def get_app_derivation_path_def app
        BOLOS_APP_IDX_def encode_policy_first hdkey_validate_curve_iff hdkey_policy_ok_def
        del: hdkey_path_loop.simps)
qed

lemma hardened_loop_words:
  "4 * (i + n) \<le> length p \<Longrightarrow>
   hardened_loop (Some p) i n = Inr (\<exists>j. i \<le> j \<and> j < i + n \<and> path_word p j AND 0x80000000 \<noteq> 0)"
proof (induction n arbitrary: i)
  case (Suc n)
  have split: "(\<exists>j. i \<le> j \<and> j < i + Suc n \<and> P j) \<longleftrightarrow> P i \<or> (\<exists>j. Suc i \<le> j \<and> j < Suc i + n \<and> P j)" for P
  proof -
    have "i \<le> j \<and> j < i + Suc n \<longleftrightarrow> j = i \<or> Suc i \<le> j \<and> j < Suc i + n" for j by auto
    then have "(i \<le> j \<and> j < i + Suc n \<and> P j) = (j = i \<and> P j \<or> Suc i \<le> j \<and> j < Suc i + n \<and> P j)" for j
      by blast
    then show ?thesis by (simp only:) blast
  qed
  show ?case using Suc.IH [of "Suc i"] Suc.prems by (subst split) (simp add: path_index_word)
qed simp

lemma hdkey_validate_params_mem:
  "path_mem mode p n \<Longrightarrow> hdkey_validate_params mode (Some p) =
     Inr (if mode = HDW_SLIP21 \<and> p ! 0 \<noteq> 0 then OS_ERR_BAD_FORMAT
          else if mode AND (mode - 1) \<noteq> 0 then OS_ERR_BAD_PARAM else OS_SUCCESS)"
  by (cases p) (auto simp: hdkey_validate_params_def path_bytes_def mem_read_def path_mem_def)

lemma hdkey_validate_hardened_mem:
  "path_mem mode p n \<Longrightarrow> hdkey_validate_hardened mode 0 app (Some p) n =
     Inr (if mode = HDW_SLIP21 \<or> app_flags app AND APPLICATION_FLAG_DERIVE_MASTER \<noteq> 0 \<or>
             (\<exists>i<n. path_word p i AND 0x80000000 \<noteq> 0) then OS_SUCCESS else OS_ERR_BAD_PARAM)"
  using hardened_loop_words [of 0 n p]
  by (auto simp: hdkey_validate_hardened_def path_mem_def BOLOS_APP_IDX_def)

text \<open>
  What a request needs: a path length in range, a single mode, a zero byte at the start of a
  SLIP-21 path and otherwise a hardened index (unless the application may derive the master key),
  and, when the application has declared prefixes, a declared curve and a matching prefix.
\<close>

definition hdkey_authorised :: "app_info \<Rightarrow> HDKEY_params \<Rightarrow> bytes \<Rightarrow> u8 \<Rightarrow> policy_entry list \<Rightarrow> bool" where
  "hdkey_authorised app r p curves es \<longleftrightarrow>
     hd_path_len r AND 0xF0000000 = 0 \<and> hd_mode r AND (hd_mode r - 1) = 0 \<and>
     (if hd_mode r = HDW_SLIP21 then p ! 0 = 0
      else app_flags app AND APPLICATION_FLAG_DERIVE_MASTER \<noteq> 0 \<or>
        (\<exists>i<unat (hd_path_len r). path_word p i AND 0x80000000 \<noteq> 0)) \<and>
     (es \<noteq> [] \<longrightarrow> hdkey_policy_ok r p curves es)"

lemma secure_context_authorised:
  assumes "declares app curves es" and "hd_path r = Some p"
    and "path_mem (hd_mode r) p (unat (hd_path_len r))"
  shows "HDKEY_VALIDATE_secure_context app (Some r) = Inr OS_SUCCESS \<longleftrightarrow> hdkey_authorised app r p curves es"
proof -
  have "hdkey_validate_path r 0 app = Inr OS_SUCCESS \<longleftrightarrow> (es \<noteq> [] \<longrightarrow> hdkey_policy_ok r p curves es)"
  proof (cases "es = []")
    case True
    then have "derivation_path_len app = 1" using assms(1) by (simp add: declares_def encode_policy_def)
    then show ?thesis
      using True by (simp add: hdkey_validate_path_def hdkey_get_derivation_path_def get_app_derivation_path_def
          BOLOS_APP_IDX_def)
  next
    case False
    then show ?thesis by (simp add: hdkey_validate_path_policy [OF assms(1) False assms(2,3)])
  qed
  then show ?thesis
    unfolding HDKEY_VALIDATE_secure_context_def option.case assms(2)
      hdkey_validate_params_mem [OF assms(3)] hdkey_validate_hardened_mem [OF assms(3)]
      res_bind_simps hdkey_authorised_def
    by auto
qed

text \<open>
  Property C10: for an application with a well-formed declaration, a derivation request is let
  through exactly when the length of the path is in range, the mode is a single one, a SLIP-21 path
  starts with a zero byte, some index is hardened (unless the application may derive the master key
  or asks for SLIP-21) and, when the declaration has path prefixes, the application has declared
  the authorisation that \<open>os_hdkey.h\<close> gives for the mode and the curve, and one of the prefixes is
  a prefix of the path up to wildcards. Modes without an authorisation of their own, the registered
  derivation of ZIP 32 among them, need that of BIP32 on the curve. A declaration of curves alone
  restricts nothing, not even the curves.
\<close>

theorem hdkey_secure_context_iff:
  assumes "declares app curves es" and "hd_path r = Some p"
    and "path_mem (hd_mode r) p (unat (hd_path_len r))"
  shows "HDKEY_VALIDATE_secure_context app (Some r) = Inr OS_SUCCESS \<longleftrightarrow>
    hd_path_len r AND 0xF0000000 = 0 \<and> hd_mode r AND (hd_mode r - 1) = 0 \<and>
    (if hd_mode r = HDW_SLIP21 then p ! 0 = 0
     else app_flags app AND APPLICATION_FLAG_DERIVE_MASTER \<noteq> 0 \<or>
       (\<exists>i<unat (hd_path_len r). path_word p i AND 0x80000000 \<noteq> 0)) \<and>
    (es \<noteq> [] \<longrightarrow>
       auth_declared curves (if hd_mode r \<in> auth_modes then hd_mode r else 0x00) (hd_curve r) \<and>
       (\<exists>e \<in> set es. entry_allows (hd_mode r) p (unat (hd_path_len r)) e))"
  unfolding secure_context_authorised [OF assms] hdkey_authorised_def hdkey_policy_ok_def ..

text \<open>An application that declares \<open>44'/*\<close> on secp256k1, and a request for \<open>44'/0'/5\<close>.\<close>

definition app_44 :: app_info where
  "app_44 = \<lparr>app_flags = 0, derivation_path = [0x01, 0x02, 0x80, 0, 0, 0x2c, 0x7f, 0xff, 0xff, 0xff, 0, 0],
     derivation_path_len = 10\<rparr>"

definition path_44 :: bytes where
  "path_44 = [0x2c, 0, 0, 0x80, 0, 0, 0, 0x80, 5, 0, 0, 0]"

definition request_44 :: HDKEY_params where
  "request_44 = \<lparr>hd_mode = HDW_NORMAL, hd_from_app = True, hd_curve = CX_CURVE_SECP256K1, hd_path_len = 3,
     hd_private_key_len = 32, hd_chain_len = 0, hd_seed_key_len = 0,
     hd_path = Some path_44,
     hd_private_key = Some (replicate 32 0), hd_chain = None, hd_seed_key = None\<rparr>"

lemma request_44: "hd_path request_44 = Some path_44"
    "path_mem (hd_mode request_44) path_44 (unat (hd_path_len request_44))"
  by (simp add: request_44_def) code_simp

lemma declares_44: "declares app_44 0x01 [Bip32_Prefix [0x8000002c, HDKEY_BIP32_WILDCARD_VALUE]]"
  by (simp add: declares_def app_44_def encode_policy_def be_of_u32_def HDKEY_BIP32_WILDCARD_VALUE_def)

theorem hdkey_secure_context_iff_witness:
  "HDKEY_VALIDATE_secure_context app_44 (Some request_44) = Inr OS_SUCCESS"
  unfolding hdkey_secure_context_iff [OF declares_44 request_44] auth_modes_def by code_simp

text \<open>
  Property C11: whatever bytes an application declares, as long as their number is at most the size
  of the array, the check of a request ends without reading outside the declaration or outside the
  path. It answers with success, \<open>OS_ERR_BAD_PARAM\<close>, \<open>OS_ERR_BAD_FORMAT\<close>, \<open>OS_ERR_OVERFLOW\<close> or
  \<open>OS_ERR_FORBIDDEN\<close>: an unknown or undeclared curve is reported as forbidden, not with the
  \<open>OS_ERR_NOT_FOUND\<close> and \<open>OS_ERR_NOT_IMPLEMENTED\<close> of the header file, which in turn does not
  list the overflow.
\<close>

theorem hdkey_secure_context_safe:
  assumes "derivation_path_len app \<le> length (derivation_path app)" and "hd_path r = Some p"
    and "path_mem (hd_mode r) p (unat (hd_path_len r))"
  shows "HDKEY_VALIDATE_secure_context app (Some r) \<in>
    Inr ` {OS_SUCCESS, OS_ERR_BAD_PARAM, OS_ERR_BAD_FORMAT, OS_ERR_OVERFLOW, OS_ERR_FORBIDDEN}"
proof -
  obtain v where v: "hdkey_path_loop r (derivation_path app) (derivation_path_len app) 1 = Inr v"
    using hdkey_path_loop_safe assms by blast
  have "hdkey_validate_path r 0 app \<in> Inr ` {OS_SUCCESS, OS_ERR_FORBIDDEN}"
  proof (cases "derivation_path_len app \<le> 1")
    case True
    then show ?thesis
      by (auto simp: hdkey_validate_path_def hdkey_get_derivation_path_def get_app_derivation_path_def
          BOLOS_APP_IDX_def le_Suc_eq)
  next
    case False
    then have "mem_get (derivation_path app) 0 = Inr (derivation_path app ! 0)"
      using assms(1) by (cases "derivation_path app") (simp_all add: mem_get_def)
    then show ?thesis
      using False v by (auto simp: hdkey_validate_path_def hdkey_get_derivation_path_def
          get_app_derivation_path_def BOLOS_APP_IDX_def simp del: hdkey_path_loop.simps)
  qed
  then show ?thesis
    unfolding HDKEY_VALIDATE_secure_context_def option.case assms(2)
      hdkey_validate_params_mem [OF assms(3)] hdkey_validate_hardened_mem [OF assms(3)] res_bind_simps
    by auto
qed

theorem hdkey_secure_context_safe_witness:
  "HDKEY_VALIDATE_secure_context (app_44\<lparr>derivation_path_len := 7\<rparr>) (Some request_44) \<in>
    Inr ` {OS_SUCCESS, OS_ERR_BAD_PARAM, OS_ERR_BAD_FORMAT, OS_ERR_OVERFLOW, OS_ERR_FORBIDDEN}"
  by (rule hdkey_secure_context_safe [OF _ request_44]) (simp add: app_44_def)

section \<open>The two checks\<close>

text \<open>The curve of a request in the numbering of the older calls.\<close>

definition sdk1_curve :: "cx_curve \<Rightarrow> cx_curve" where
  "sdk1_curve curve = (if curve = CX_CURVE_Ed25519 then SDK1_CURVE_Ed25519 else curve)"

lemma check_curve_mask_sdk1:
  assumes "mode \<in> {HDW_NORMAL, HDW_ED25519_SLIP10, HDW_SLIP21}"
    and "curve \<in> {CX_CURVE_SECP256K1, CX_CURVE_SECP256R1, CX_CURVE_Ed25519}"
  obtains m where "hdkey_curve_mask mode curve = Inr m" and "check_curve_mask mode (sdk1_curve curve) = Inr m"
  using assms
  by (auto simp: hdkey_curve_mask_def check_curve_mask_def sdk1_curve_def hdw_modes SDK1_CURVE_256K1_def
      SDK1_CURVE_256R1_def SDK1_CURVE_Ed25519_def CX_CURVE_SECP256K1_def CX_CURVE_SECP256R1_def CX_CURVE_Ed25519_def)

text \<open>
  Property C12: on the modes and curves that both know, the check of the older system calls and the
  one of \<open>sys_hdkey_derive\<close> authorise the same requests under every declaration with at least one
  path prefix.
\<close>

theorem path_checks_agree:
  assumes "declares app curves es" and "es \<noteq> []" and "hd_path r = Some p"
    and "path_mem (hd_mode r) p (unat (hd_path_len r))"
    and "hd_mode r \<in> {HDW_NORMAL, HDW_ED25519_SLIP10, HDW_SLIP21}"
    and "hd_curve r \<in> {CX_CURVE_SECP256K1, CX_CURVE_SECP256R1, CX_CURVE_Ed25519}"
  shows "os_perso_derive_node_bip32_check_path app (hd_mode r) (sdk1_curve (hd_curve r)) (hd_path r)
      (unat (hd_path_len r)) True = Inr () \<longleftrightarrow> hdkey_validate_path r 0 app = Inr OS_SUCCESS"
proof -
  obtain rest where app: "derivation_path app = encode_policy curves es @ rest"
    "derivation_path_len app = length (encode_policy curves es)" and ok: "\<forall>e \<in> set es. entry_ok e"
    using assms(1) by (rule declares_array)
  obtain m where m: "hdkey_curve_mask (hd_mode r) (hd_curve r) = Inr m"
    "check_curve_mask (hd_mode r) (sdk1_curve (hd_curve r)) = Inr m"
    using assms(5,6) by (rule check_curve_mask_sdk1)
  have c: "auth_declared curves (if hd_mode r \<in> auth_modes then hd_mode r else 0x00) (hd_curve r) = (curves AND m = m)"
    unfolding hdkey_validate_curve_iff [symmetric] by (simp add: hdkey_validate_curve_def m)
  have "1 < length (encode_policy curves es)"
    using assms(2) length_encode_policy [of curves es] by (cases "encode_policy curves es") auto
  moreover have "check_path_loop (hd_mode r) (hd_path r) (unat (hd_path_len r)) (encode_policy curves es @ rest)
      (length (encode_policy curves es)) 1 =
      Inr (\<exists>e \<in> set es. entry_allows (hd_mode r) p (unat (hd_path_len r)) e)"
    using bip32_check.check_policy [of "(hd_mode r, hd_path r, unat (hd_path_len r))" p es curves rest] assms(3,4) ok
    by simp
  ultimately show ?thesis
    by (auto simp: os_perso_derive_node_bip32_check_path_def get_app_derivation_path_def app m
        encode_policy_first hdkey_validate_path_policy [OF assms(1-4)] hdkey_policy_ok_def c
        simp del: check_path_loop.simps)
qed

theorem path_checks_agree_witness:
  "os_perso_derive_node_bip32_check_path app_44 HDW_NORMAL (sdk1_curve CX_CURVE_SECP256K1) (Some path_44) 3 True =
      Inr () \<longleftrightarrow> hdkey_validate_path request_44 0 app_44 = Inr OS_SUCCESS"
  using path_checks_agree [OF declares_44 list.distinct(2) request_44] by (simp add: request_44_def)

text \<open>
  They differ on a declaration of curves alone: the newer check then accepts every mode and every
  curve, the older one only the declared curves.
\<close>

lemma curves_only_ignored:
  assumes "derivation_path_len app = 1"
  shows "hdkey_validate_path r 0 app = Inr OS_SUCCESS"
  using assms by (simp add: hdkey_validate_path_def hdkey_get_derivation_path_def get_app_derivation_path_def
      BOLOS_APP_IDX_def)

lemma curves_only_checked:
  assumes "derivation_path_len app = 1" and "derivation_path app = curves # rest"
    and "check_curve_mask mode curve = Inr m" and "curves AND m \<noteq> m"
  shows "os_perso_derive_node_bip32_check_path app mode curve path n True = Inl (Throw SWO_PAR_VAL_14)"
  using assms by (simp add: os_perso_derive_node_bip32_check_path_def get_app_derivation_path_def mem_get_def)

text \<open>
  The older check has no test of the length of an entry: a declaration cut off after the header of an
  entry makes it compare the request with the bytes behind the declaration.
\<close>

lemma truncated_entry_accepted:
  "os_perso_derive_node_bip32_check_path
     \<lparr>app_flags = 0, derivation_path = [0x01, 0x01, 0, 0, 0, 0], derivation_path_len = 2\<rparr>
     HDW_NORMAL SDK1_CURVE_256K1 (Some [0, 0, 0, 0, 0, 0, 0, 0x80]) 2 True = Inr ()"
  by code_simp

lemma truncated_entry_out_of_bounds:
  "os_perso_derive_node_bip32_check_path
     \<lparr>app_flags = 0, derivation_path = [0x01, 0x01], derivation_path_len = 2\<rparr>
     HDW_NORMAL SDK1_CURVE_256K1 (Some [0, 0, 0, 0, 0, 0, 0, 0x80]) 2 True = Inl Oob"
  by code_simp

end
