(* ===== verification/Hmac_Calls.thy ===== *)
theory Hmac_Calls
  imports Cx_Hkdf
begin

text \<open>
  The one-shot HMAC calls as the key derivations use them: with lengths shorter than the buffers, and
  with results written over the inputs. The global context is passed on from call to call.
\<close>

definition hm_bind :: "cx_hmac_ctx \<times> 'a res \<Rightarrow> (cx_hmac_ctx \<Rightarrow> 'a \<Rightarrow> cx_hmac_ctx \<times> 'b res) \<Rightarrow> cx_hmac_ctx \<times> 'b res" where
  "hm_bind p f = (case p of (G, Inl e) \<Rightarrow> (G, Inl e) | (G, Inr x) \<Rightarrow> f G x)"

lemma hm_bind_simps [simp]: "hm_bind (G, Inl e) f = (G, Inl e)" "hm_bind (G, Inr x) f = f G x"
  by (simp_all add: hm_bind_def)

text \<open>A call whose result goes to a buffer: the length it returns and the buffer afterwards.\<close>

definition hmac_sha256_to ::
  "cx_hmac_ctx \<Rightarrow> bytes option \<Rightarrow> nat \<Rightarrow> bytes \<Rightarrow> nat \<Rightarrow> bytes \<Rightarrow> nat \<Rightarrow> cx_hmac_ctx \<times> (nat \<times> bytes) res" where
  "hmac_sha256_to G key key_len data len out out_len =
     hm_bind (spec_cx_hmac_sha256 G key key_len (Some data) len (Some out) out_len)
       (\<lambda>G (n, out). (G, case out of None \<Rightarrow> Inl Oob | Some out \<Rightarrow> Inr (n, out)))"

definition hmac_sha512_to ::
  "cx_hmac_ctx \<Rightarrow> bytes option \<Rightarrow> nat \<Rightarrow> bytes \<Rightarrow> nat \<Rightarrow> bytes \<Rightarrow> nat \<Rightarrow> cx_hmac_ctx \<times> (nat \<times> bytes) res" where
  "hmac_sha512_to G key key_len data len out out_len =
     hm_bind (spec_cx_hmac_sha512 G key key_len (Some data) len (Some out) out_len)
       (\<lambda>G (n, out). (G, case out of None \<Rightarrow> Inl Oob | Some out \<Rightarrow> Inr (n, out)))"

abbreviation HMAC_SHA256 :: "bytes \<Rightarrow> bytes \<Rightarrow> bytes" where
  "HMAC_SHA256 \<equiv> rfc2104 (fips256_digest hzero_256 32) 64"

abbreviation HMAC_SHA512 :: "bytes \<Rightarrow> bytes \<Rightarrow> bytes" where
  "HMAC_SHA512 \<equiv> rfc2104 (fips512_digest hzero_512 64) 128"

context hmac_hash
begin

lemma set_key_prefix:
  assumes "n \<le> length k"
  shows "hmac_set_key md bs (Some k) n c = hmac_set_key md bs (Some (take n k)) n c"
  unfolding hmac_set_key_def spec_cx_hash_update_prefix [OF assms]
  using assms by (simp add: mem_arg_def mem_read_def)

lemma init_prefix:
  assumes "n \<le> length k"
  shows "spec_cx_hmac_init c md (Some k) n = spec_cx_hmac_init c md (Some (take n k)) n"
  by (simp add: spec_cx_hmac_init_def block_size_md set_key_prefix [OF assms])

lemma oneshot_prefix:
  assumes "kl \<le> length k" and "dl \<le> length d"
  shows "hmac_oneshot md G (Some k) kl (Some d) dl out n =
    hmac_oneshot md G (Some (take kl k)) kl (Some (take dl d)) dl out n"
  unfolding hmac_oneshot_def init_prefix [OF assms(1)] spec_cx_hmac_update_def
    spec_cx_hash_update_prefix [OF assms(2)] by simp

lemma length_mac: "length (mac k d) = osize"
  by (simp add: mac_def rfc2104_def digest_length)

lemma oneshot_any:
  assumes "kl \<le> length k" and "kl < cap" and "dl \<le> length d" and "bs + dl < cap" and "osize \<le> length out"
  shows "\<exists>G'. hmac_oneshot md G (Some k) kl (Some d) dl (Some out) osize =
    (G', Inr (osize, Some (mac (take kl k) (take dl d) @ drop osize out)))"
proof -
  have len: "length (take kl k) = kl" "length (take dl d) = dl" using assms(1,3) by simp_all
  have "snd (hmac_oneshot md G (Some k) kl (Some d) dl (Some out) osize) =
      Inr (osize, Some (mac (take kl k) (take dl d) @ drop osize out))"
    unfolding oneshot_prefix [OF assms(1,3)]
    using oneshot_mac [of "take kl k" "take dl d" osize out G] assms len length_mac by simp
  then show ?thesis by (metis prod.collapse)
qed

end

lemma hmac_sha256_to_mac:
  assumes "kl \<le> length k" and "kl < 2 ^ 22" and "dl \<le> length d" and "dl < 2 ^ 22" and "32 \<le> length out"
  obtains G' where "hmac_sha256_to G (Some k) kl d dl out 32 =
    (G', Inr (32, HMAC_SHA256 (take kl k) (take dl d) @ drop 32 out))"
  using hmac256.oneshot_any [of kl k dl d out G] assms that
  by (auto simp: hmac_sha256_to_def spec_cx_hmac_sha256_def hmac256.mac_def)

lemma hmac_sha512_to_mac:
  assumes "kl \<le> length k" and "kl < 2 ^ 22" and "dl \<le> length d" and "dl < 2 ^ 22" and "64 \<le> length out"
  obtains G' where "hmac_sha512_to G (Some k) kl d dl out 64 =
    (G', Inr (64, HMAC_SHA512 (take kl k) (take dl d) @ drop 64 out))"
  using hmac512.oneshot_any [of kl k dl d out G] assms that
  by (auto simp: hmac_sha512_to_def spec_cx_hmac_sha512_def hmac512.mac_def)

lemma length_HMAC [simp]: "length (HMAC_SHA256 k d) = 32" "length (HMAC_SHA512 k d) = 64"
  using hmac256.length_mac hmac512.length_mac by (simp_all add: hmac256.mac_def hmac512.mac_def)

end
