(* ===== verification/Os_Bip32.thy ===== *)
theory Os_Bip32
  imports Hmac_Calls Hdkey_Validate
begin

text \<open>
  Key derivations that need nothing but HMAC: SLIP-10 on Ed25519, SLIP-21 and the root key of
  BIP32-Ed25519 of \<open>src/bolos/os_bip32.c\<close>, and the derivation of BLS12-377 keys of
  \<open>src/bolos/hdkey/src/hdkey_bls12377.c\<close> over \<open>hdkey_bip32.c\<close>.
\<close>

section \<open>The seed\<close>

text \<open>The seed of the environment: an array of 64 bytes, of which \<open>seed_size\<close> are the seed.\<close>

record env_seed =
  seed_size :: nat
  seed_array :: bytes

definition MAX_SEED_SIZE :: nat where "MAX_SEED_SIZE = 64"

definition env_get_seed :: "env_seed \<Rightarrow> nat \<Rightarrow> (nat \<times> bytes) res" where
  "env_get_seed actual_seed max_size = res_bind (mem_read (seed_array actual_seed) 0 max_size)
     (\<lambda>seed. Inr (if seed_size actual_seed < max_size then seed_size actual_seed else max_size, seed))"

definition BIP32_SECP_SEED :: bytes where
  "BIP32_SECP_SEED = [0x42, 0x69, 0x74, 0x63, 0x6f, 0x69, 0x6e, 0x20, 0x73, 0x65, 0x65, 0x64]"

definition BIP32_NIST_SEED :: bytes where
  "BIP32_NIST_SEED = [0x4e, 0x69, 0x73, 0x74, 0x32, 0x35, 0x36, 0x70, 0x31, 0x20, 0x73, 0x65, 0x65, 0x64]"

definition BIP32_ED_SEED :: bytes where
  "BIP32_ED_SEED = [0x65, 0x64, 0x32, 0x35, 0x35, 0x31, 0x39, 0x20, 0x73, 0x65, 0x65, 0x64]"

definition SLIP21_SEED :: bytes where
  "SLIP21_SEED = [0x53, 0x79, 0x6d, 0x6d, 0x65, 0x74, 0x72, 0x69, 0x63, 0x20, 0x6b, 0x65, 0x79, 0x20,
     0x73, 0x65, 0x65, 0x64]"

definition BLS12_377_SEED :: bytes where
  "BLS12_377_SEED = [0x62, 0x6c, 0x73, 0x31, 0x32, 0x5f, 0x33, 0x37, 0x37, 0x20, 0x73, 0x65, 0x65, 0x64]"

lemmas seed_keys = BIP32_SECP_SEED_def BIP32_NIST_SEED_def BIP32_ED_SEED_def SLIP21_SEED_def BLS12_377_SEED_def

definition get_seed_key :: "cx_curve \<Rightarrow> bytes res" where
  "get_seed_key curve =
     (if curve = SDK1_CURVE_256K1 then Inr BIP32_SECP_SEED
      else if curve = SDK1_CURVE_256R1 then Inr BIP32_NIST_SEED
      else if curve = SDK1_CURVE_Ed25519 then Inr BIP32_ED_SEED
      else Inl Errx)"

section \<open>Derivations of os_bip32.c\<close>

record extended_private_key =
  epk_private_key :: bytes
  epk_chain_code :: bytes

definition is_hardened_child :: "u32 \<Rightarrow> bool" where
  "is_hardened_child child \<longleftrightarrow> child AND 0x80000000 \<noteq> 0"

text \<open>The copies of the two halves of a 64-byte hash into a key.\<close>

definition set_key_halves :: "extended_private_key \<Rightarrow> bytes \<Rightarrow> extended_private_key" where
  "set_key_halves key hash =
     key\<lparr>epk_private_key := buf_write (epk_private_key key) 0 (take 32 hash),
         epk_chain_code := take 32 (drop 32 hash)\<rparr>"

definition expand_seed_slip10 ::
  "cx_hmac_ctx \<Rightarrow> bytes \<Rightarrow> nat \<Rightarrow> bytes \<Rightarrow> nat \<Rightarrow> extended_private_key \<Rightarrow> cx_hmac_ctx \<times> extended_private_key res" where
  "expand_seed_slip10 G sk sk_length seed seed_length key =
     hm_bind (hmac_sha512_to G (Some sk) sk_length seed seed_length (replicate 64 0) 64)
       (\<lambda>G (_, hash). (G, Inr (set_key_halves key hash)))"

text \<open>
  The loop over the indices from \<open>i\<close> with the local buffer \<open>tmp\<close>; \<open>None\<close> is the return value \<open>-1\<close>.
\<close>

fun slip10_loop ::
  "bytes option \<Rightarrow> nat \<Rightarrow> nat \<Rightarrow> cx_hmac_ctx \<Rightarrow> extended_private_key \<Rightarrow> bytes \<Rightarrow>
     cx_hmac_ctx \<times> extended_private_key option res" where
  "slip10_loop path i 0 G key tmp = (G, Inr (Some key))"
| "slip10_loop path i (Suc n) G key tmp =
     hm_bind (G, path_index path i) (\<lambda>G w.
       if \<not> is_hardened_child w then (G, Inr None)
       else
         let tmp = buf_write tmp 0 ([0] @ take 32 (epk_private_key key) @ be_of_u32 w) in
         hm_bind (hmac_sha512_to G (Some (epk_chain_code key)) 32 tmp 37 tmp 64) (\<lambda>G (_, tmp).
           slip10_loop path (i + 1) n G (set_key_halves key tmp) tmp))"

text \<open>\<open>if (out != NULL) memcpy(out, src, n)\<close>\<close>

definition copy_out :: "bytes option \<Rightarrow> bytes \<Rightarrow> bytes option res" where
  "copy_out out src = (case out of None \<Rightarrow> Inr None
     | Some buf \<Rightarrow> res_bind (mem_write buf 0 src) (\<lambda>buf. Inr (Some buf)))"

definition hdw_slip10 ::
  "cx_hmac_ctx \<Rightarrow> extended_private_key \<Rightarrow> bytes option \<Rightarrow> nat \<Rightarrow> bytes option \<Rightarrow> bytes option \<Rightarrow>
     cx_hmac_ctx \<times> (int \<times> bytes option \<times> bytes option) res" where
  "hdw_slip10 G key path len private_key chain =
     hm_bind (slip10_loop path 0 len G key (replicate 69 0)) (\<lambda>G r.
       case r of
         None \<Rightarrow> (G, Inr (- 1, private_key, chain))
       | Some key \<Rightarrow>
           (G, res_bind (copy_out private_key (take 32 (epk_private_key key))) (\<lambda>private_key.
               res_bind (copy_out chain (take 32 (epk_chain_code key))) (\<lambda>chain.
                 Inr (0, private_key, chain)))))"

definition hdw_slip21 ::
  "cx_hmac_ctx \<Rightarrow> bytes \<Rightarrow> nat \<Rightarrow> bytes \<Rightarrow> nat \<Rightarrow> bytes option \<Rightarrow> nat \<Rightarrow> bytes option \<Rightarrow>
     cx_hmac_ctx \<times> (int \<times> bytes option) res" where
  "hdw_slip21 G sk sk_length seed sz path path_len private_key =
     (case path of
        None \<Rightarrow> (G, Inr (- 1, private_key))
      | Some p \<Rightarrow>
          if path_len = 0 then (G, Inr (- 1, private_key))
          else hm_bind (G, mem_get p 0) (\<lambda>G b.
            if b \<noteq> 0 then (G, Inr (- 1, private_key))
            else hm_bind (hmac_sha512_to G (Some sk) sk_length seed sz (replicate 64 0) 64) (\<lambda>G (_, node).
                 hm_bind (hmac_sha512_to G (Some node) 32 p path_len node 64) (\<lambda>G (_, node).
                   (G, res_bind (copy_out private_key (take 32 (drop 32 node)))
                         (\<lambda>private_key. Inr (0, private_key)))))))"

text \<open>The root key of BIP32-Ed25519: the hash is repeated until the third highest bit is clear.\<close>

partial_function (option) ed25519_root_loop ::
  "cx_hmac_ctx \<Rightarrow> bytes \<Rightarrow> nat \<Rightarrow> bytes \<Rightarrow> (cx_hmac_ctx \<times> bytes res) option" where
  "ed25519_root_loop G sk sk_length priv =
     (case mem_get priv 31 of
        Inl e \<Rightarrow> Some (G, Inl e)
      | Inr b \<Rightarrow>
          if b AND 0x20 = 0 then Some (G, Inr priv)
          else (case hmac_sha512_to G (Some sk) sk_length priv 64 priv 64 of
                  (G, Inl e) \<Rightarrow> Some (G, Inl e)
                | (G, Inr (_, priv)) \<Rightarrow> ed25519_root_loop G sk sk_length priv))"

declare ed25519_root_loop.simps [code]

definition ed25519_clamp :: "bytes \<Rightarrow> bytes" where
  "ed25519_clamp priv = priv[0 := (priv ! 0) AND 0xF8, 31 := ((priv ! 31) AND 0x7F) OR 0x40]"

definition expand_seed_ed25519_bip32 ::
  "cx_hmac_ctx \<Rightarrow> bytes \<Rightarrow> nat \<Rightarrow> bytes \<Rightarrow> nat \<Rightarrow> extended_private_key \<Rightarrow>
     (cx_hmac_ctx \<times> extended_private_key res) option" where
  "expand_seed_ed25519_bip32 G sk sk_length seed seed_length key =
     (case hm_bind (G, res_bind (mem_read seed 0 seed_length) (mem_write (1 # replicate 64 0) 1)) (\<lambda>G buf.
           hm_bind (hmac_sha256_to G (Some sk) sk_length buf (1 + seed_length) (epk_chain_code key) 32)
             (\<lambda>G (_, chain_code).
           hm_bind (hmac_sha512_to G (Some sk) sk_length seed seed_length (epk_private_key key) 64)
             (\<lambda>G (_, priv). (G, Inr (chain_code, priv))))) of
        (G, Inl e) \<Rightarrow> Some (G, Inl e)
      | (G, Inr (chain_code, priv)) \<Rightarrow>
          (case ed25519_root_loop G sk sk_length priv of
             None \<Rightarrow> None
           | Some (G, Inl e) \<Rightarrow> Some (G, Inl e)
           | Some (G, Inr priv) \<Rightarrow>
               Some (G, Inr (key\<lparr>epk_private_key := ed25519_clamp priv, epk_chain_code := chain_code\<rparr>))))"

section \<open>BLS12-377 keys\<close>

definition HDKEY_BLS12377_KEY_LEN :: nat where "HDKEY_BLS12377_KEY_LEN = 32"
definition HDKEY_BIP32_ED25519_KEY_LEN :: nat where "HDKEY_BIP32_ED25519_KEY_LEN = 96"
definition CX_SHA512_SIZE :: nat where "CX_SHA512_SIZE = 64"
definition CX_SHA256_SIZE :: nat where "CX_SHA256_SIZE = 32"

text \<open>\<open>explicit_bzero(params, sizeof(HDKEY_params_t))\<close>\<close>

definition hdkey_zero :: HDKEY_params where
  "hdkey_zero = \<lparr>hd_mode = 0, hd_from_app = False, hd_curve = 0, hd_path_len = 0, hd_private_key_len = 0,
     hd_chain_len = 0, hd_seed_key_len = 0, hd_path = None, hd_private_key = None, hd_chain = None,
     hd_seed_key = None\<rparr>"

definition hdkey_default_seed_key :: "u32 \<Rightarrow> cx_curve \<Rightarrow> os_result + bytes" where
  "hdkey_default_seed_key mode curve =
     (if mode = HDW_SLIP21 then Inr SLIP21_SEED
      else if curve = CX_CURVE_SECP256K1 then Inr BIP32_SECP_SEED
      else if curve = CX_CURVE_SECP256R1 then Inr BIP32_NIST_SEED
      else if curve = CX_CURVE_Ed25519 then Inr BIP32_ED_SEED
      else if curve = CX_CURVE_BLS12_377_G1 then Inr BLS12_377_SEED
      else Inl OS_ERR_NOT_IMPLEMENTED)"

definition hdkey_bip32_get_default_seed :: "HDKEY_params \<Rightarrow> HDKEY_params \<times> os_result" where
  "hdkey_bip32_get_default_seed params =
     (if hd_seed_key_len params = 0 \<or> hd_seed_key params = None then
        (case hdkey_default_seed_key (hd_mode params) (hd_curve params) of
           Inl e \<Rightarrow> (params, e)
         | Inr k \<Rightarrow> (params\<lparr>hd_seed_key := Some k, hd_seed_key_len := of_nat (length k)\<rparr>, OS_SUCCESS))
      else (params, OS_SUCCESS))"

definition hdkey_bip32_check_result_len :: "cx_curve \<Rightarrow> nat \<Rightarrow> os_result" where
  "hdkey_bip32_check_result_len curve result_len =
     (if curve = CX_CURVE_Ed25519
      then (if result_len \<noteq> HDKEY_BIP32_ED25519_KEY_LEN then OS_ERR_BAD_PARAM else OS_SUCCESS)
      else (if result_len \<noteq> CX_SHA512_SIZE then OS_ERR_BAD_PARAM else OS_SUCCESS))"

text \<open>The result is the buffer of the caller; the seed is written into it and then replaced.\<close>

definition hdkey_bip32_compute_seed_hmac_nvm ::
  "env_seed \<Rightarrow> cx_hmac_ctx \<Rightarrow> HDKEY_params \<Rightarrow> bytes \<Rightarrow> nat \<Rightarrow> cx_hmac_ctx \<times> (os_result \<times> bytes) res" where
  "hdkey_bip32_compute_seed_hmac_nvm env G params result result_len =
     (let os_error = hdkey_bip32_check_result_len (hd_curve params) result_len;
          key = hd_seed_key params; key_len = unat (hd_seed_key_len params) in
      if os_error \<noteq> OS_SUCCESS then (G, Inr (os_error, result))
      else
        hm_bind
          (if hd_curve params = CX_CURVE_Ed25519 \<and> hd_mode params = HDW_NORMAL then
             hm_bind (G, res_bind (env_get_seed env 64) (\<lambda>(_, seed). mem_write result 0 (1 # seed))) (\<lambda>G result.
             hm_bind (hmac_sha256_to G key key_len result 65 (drop 64 result) 32) (\<lambda>G (_, hash).
               (G, Inr (take 64 result @ hash))))
           else (G, Inr result))
          (\<lambda>G result.
             hm_bind (G, res_bind (env_get_seed env 64) (\<lambda>(_, seed). mem_write result 0 seed)) (\<lambda>G result.
             hm_bind (hmac_sha512_to G key key_len result 64 result 64) (\<lambda>G (_, result).
               (G, Inr (OS_SUCCESS, result))))))"

definition HDKEY_BIP32_compute_seed_hmac ::
  "env_seed \<Rightarrow> cx_hmac_ctx \<Rightarrow> HDKEY_params \<Rightarrow> bytes \<Rightarrow> nat \<Rightarrow>
     cx_hmac_ctx \<times> (os_result \<times> HDKEY_params \<times> bytes) res" where
  "HDKEY_BIP32_compute_seed_hmac env G params result result_len =
     hm_bind
       (let os_error = hdkey_bip32_check_result_len (hd_curve params) result_len in
        if os_error \<noteq> OS_SUCCESS then (G, Inr (os_error, params, result))
        else case hdkey_bip32_get_default_seed params of (params, os_error) \<Rightarrow>
          if os_error \<noteq> OS_SUCCESS then (G, Inr (os_error, params, result))
          else hm_bind (hdkey_bip32_compute_seed_hmac_nvm env G params result result_len)
                 (\<lambda>G (os_error, result). (G, Inr (os_error, params, result))))
       (\<lambda>G (os_error, params, result).
          (G, Inr (os_error, if os_error \<noteq> OS_SUCCESS then hdkey_zero else params, result)))"

definition HDKEY_BIP32_get_seed_hmac ::
  "env_seed \<Rightarrow> cx_hmac_ctx \<Rightarrow> HDKEY_params \<Rightarrow> bytes \<Rightarrow> nat \<Rightarrow>
     cx_hmac_ctx \<times> (os_result \<times> HDKEY_params \<times> bytes) res" where
  "HDKEY_BIP32_get_seed_hmac env G params seed_hmac seed_hmac_len =
     hm_bind
       (let os_error = hdkey_bip32_check_result_len (hd_curve params) seed_hmac_len in
        if os_error \<noteq> OS_SUCCESS then (G, Inr (os_error, params, seed_hmac))
        else HDKEY_BIP32_compute_seed_hmac env G params seed_hmac seed_hmac_len)
       (\<lambda>G (os_error, params, seed_hmac).
          (G, Inr (os_error, if os_error \<noteq> OS_SUCCESS then hdkey_zero else params, seed_hmac)))"

definition hdkey_bls12377_derive_child ::
  "cx_hmac_ctx \<Rightarrow> u32 \<Rightarrow> bytes \<Rightarrow> nat \<Rightarrow> cx_hmac_ctx \<times> (os_result \<times> bytes) res" where
  "hdkey_bls12377_derive_child G index seed_chain seed_chain_len =
     (let data = buf_write (replicate 37 0) 1 (take 32 seed_chain) in
      hm_bind (G, U4BE_ENCODE data 33 index) (\<lambda>G data.
      hm_bind (hmac_sha512_to G (Some (drop 32 seed_chain)) 32 data 37 seed_chain seed_chain_len)
        (\<lambda>G (n, seed_chain).
          (G, Inr (if n \<noteq> CX_SHA512_SIZE then OS_ERR_CRYPTO_INTERNAL else OS_SUCCESS, seed_chain)))))"

fun hdkey_bls12377_derive_path ::
  "bytes option \<Rightarrow> nat \<Rightarrow> nat \<Rightarrow> cx_hmac_ctx \<Rightarrow> bytes \<Rightarrow> nat \<Rightarrow> cx_hmac_ctx \<times> (os_result \<times> bytes) res" where
  "hdkey_bls12377_derive_path path i 0 G seed_chain seed_chain_len = (G, Inr (OS_SUCCESS, seed_chain))"
| "hdkey_bls12377_derive_path path i (Suc n) G seed_chain seed_chain_len =
     hm_bind (G, path_index path i) (\<lambda>G index.
     hm_bind (hdkey_bls12377_derive_child G index seed_chain seed_chain_len) (\<lambda>G (os_error, seed_chain).
       if os_error \<noteq> OS_SUCCESS then (G, Inr (os_error, seed_chain))
       else hdkey_bls12377_derive_path path (i + 1) n G seed_chain seed_chain_len))"

text \<open>The parameters carry the output buffers; an error erases the parameters, not the buffers.\<close>

definition HDKEY_BLS12377_derive ::
  "env_seed \<Rightarrow> cx_hmac_ctx \<Rightarrow> HDKEY_params option \<Rightarrow> cx_hmac_ctx \<times> (os_result \<times> HDKEY_params option) res" where
  "HDKEY_BLS12377_derive env G params_ptr =
     (case params_ptr of
        None \<Rightarrow> (G, Inr (OS_ERR_BAD_PARAM, None))
      | Some params \<Rightarrow>
        if hd_private_key params = None \<or> hd_path params = None
        then (G, Inr (OS_ERR_BAD_PARAM, params_ptr))
        else if unat (hd_private_key_len params) < HDKEY_BLS12377_KEY_LEN \<or>
                hd_chain params \<noteq> None \<and> unat (hd_chain_len params) \<noteq> HDKEY_BLS12377_KEY_LEN
        then (G, Inr (OS_ERR_SHORT_BUFFER, Some hdkey_zero))
        else
          hm_bind (HDKEY_BIP32_get_seed_hmac env G params (replicate 64 0) 64) (\<lambda>G (os_error, params, seed_chain).
            if os_error \<noteq> OS_SUCCESS then (G, Inr (os_error, Some hdkey_zero))
            else
              hm_bind (hdkey_bls12377_derive_path (hd_path params) 0 (unat (hd_path_len params)) G seed_chain 64)
                (\<lambda>G (os_error, seed_chain).
                  if os_error \<noteq> OS_SUCCESS then (G, Inr (os_error, Some hdkey_zero))
                  else
                    (G, res_bind (copy_out (hd_private_key params) (take 32 seed_chain)) (\<lambda>private_key.
                        res_bind (copy_out (hd_chain params) (take 32 (drop 32 seed_chain))) (\<lambda>chain.
                          Inr (OS_SUCCESS, Some (params\<lparr>hd_private_key := private_key, hd_chain := chain\<rparr>))))))))"

end
