(* ===== verification/Hd_Derive.thy ===== *)
theory Hd_Derive
  imports Os_Bip32
begin

text \<open>
  The derivations against their specifications: SLIP-0010 for Ed25519, SLIP-0021, the root key of
  BIP32-Ed25519 and the hardened derivation of BLS12-377 keys.
\<close>

section \<open>Specifications\<close>

text \<open>The hardened child of a key and a chain code, and the node of a path.\<close>

definition ckd_hardened :: "bytes \<times> bytes \<Rightarrow> u32 \<Rightarrow> bytes \<times> bytes" where
  "ckd_hardened = (\<lambda>(k, c) i. let I = HMAC_SHA512 c ([0] @ k @ be_of_u32 i) in (take 32 I, drop 32 I))"

definition master_node :: "bytes \<Rightarrow> bytes \<Rightarrow> bytes \<times> bytes" where
  "master_node key seed = (let I = HMAC_SHA512 key seed in (take 32 I, drop 32 I))"

definition path_words :: "bytes \<Rightarrow> nat \<Rightarrow> u32 list" where
  "path_words p n = map (\<lambda>i. u32_of_le (take 4 (drop (4 * i) p))) [0..<n]"

lemma path_index_words: "4 * n \<le> length p \<Longrightarrow> i < n \<Longrightarrow> path_index (Some p) i = Inr (path_words p n ! i)"
  by (simp add: path_index_def mem_read_def path_words_def)

lemma length_path_words [simp]: "length (path_words p n) = n"
  by (simp add: path_words_def)

lemma length_ckd: "length (fst (ckd_hardened kc i)) = 32 \<and> length (snd (ckd_hardened kc i)) = 32"
  by (simp add: ckd_hardened_def Let_def split: prod.split)

lemma length_ckd_path:
  assumes "length (fst kc) = 32 \<and> length (snd kc) = 32"
  shows "length (fst (foldl ckd_hardened kc ws)) = 32 \<and> length (snd (foldl ckd_hardened kc ws)) = 32"
  using assms by (induction ws rule: rev_induct) (simp_all add: length_ckd)

lemma length_master: "length (fst (master_node k s)) = 32 \<and> length (snd (master_node k s)) = 32"
  by (simp add: master_node_def Let_def)

section \<open>SLIP-10\<close>

text \<open>A key whose arrays have their sizes and hold a key and a chain code.\<close>

definition key_holds :: "extended_private_key \<Rightarrow> bytes \<times> bytes \<Rightarrow> bool" where
  "key_holds key kc \<longleftrightarrow> length (epk_private_key key) = 64 \<and> take 32 (epk_private_key key) = fst kc \<and>
     epk_chain_code key = snd kc \<and> length (fst kc) = 32 \<and> length (snd kc) = 32"

lemma set_key_halves_holds:
  "length h = 64 \<Longrightarrow> length (epk_private_key key) = 64 \<Longrightarrow>
   key_holds (set_key_halves key (h @ r)) (take 32 h, drop 32 h)"
  by (simp add: key_holds_def set_key_halves_def buf_write_def)

lemma slip10_step:
  assumes "key_holds key kc" and "length tmp = 69"
    and tmp': "tmp' = buf_write tmp 0 ([0] @ take 32 (epk_private_key key) @ be_of_u32 w)"
  obtains G' where "hmac_sha512_to G (Some (epk_chain_code key)) 32 tmp' 37 tmp' 64 =
      (G', Inr (64, HMAC_SHA512 (snd kc) ([0] @ fst kc @ be_of_u32 w) @ drop 64 tmp'))"
    and "length (HMAC_SHA512 (snd kc) ([0] @ fst kc @ be_of_u32 w) @ drop 64 tmp') = 69"
proof -
  have k: "take 32 (epk_private_key key) = fst kc" "length (fst kc) = 32" "take 32 (epk_chain_code key) = snd kc"
    "length (epk_chain_code key) = 32"
    using assms(1) by (auto simp: key_holds_def)
  have len: "length tmp' = 69" "take 37 tmp' = [0] @ fst kc @ be_of_u32 w"
    using assms(2) k by (simp_all add: tmp' buf_write_def)
  obtain G' where "hmac_sha512_to G (Some (epk_chain_code key)) 32 tmp' 37 tmp' 64 =
      (G', Inr (64, HMAC_SHA512 (take 32 (epk_chain_code key)) (take 37 tmp') @ drop 64 tmp'))"
    by (rule hmac_sha512_to_mac [of 32 "epk_chain_code key" 37 tmp' tmp' G]) (simp_all add: k len)
  then show thesis using that len k by simp
qed

lemma slip10_loop_correct:
  assumes "4 * m \<le> length p" and "i + n = m" and "key_holds key kc" and "length tmp = 69"
  shows "\<exists>G'. if \<forall>w \<in> set (drop i (path_words p m)). is_hardened_child w
    then \<exists>key'. slip10_loop (Some p) i n G key tmp = (G', Inr (Some key')) \<and>
      key_holds key' (foldl ckd_hardened kc (drop i (path_words p m)))
    else slip10_loop (Some p) i n G key tmp = (G', Inr None)"
  using assms(2-4)
proof (induction n arbitrary: i G key kc tmp)
  case 0
  then show ?case by auto
next
  case (Suc n)
  let ?w = "path_words p m ! i"
  have i: "i < m" using Suc.prems(1) by simp
  have drop: "drop i (path_words p m) = ?w # drop (Suc i) (path_words p m)"
    using i by (simp add: Cons_nth_drop_Suc)
  have idx: "path_index (Some p) i = Inr ?w" using path_index_words assms(1) i by blast
  show ?case
  proof (cases "is_hardened_child ?w")
    case False
    then show ?thesis by (simp add: idx drop)
  next
    case True
    define t where "t = buf_write tmp 0 ([0] @ take 32 (epk_private_key key) @ be_of_u32 ?w)"
    let ?h = "HMAC_SHA512 (snd kc) ([0] @ fst kc @ be_of_u32 ?w)"
    obtain G' where call: "hmac_sha512_to G (Some (epk_chain_code key)) 32 t 37 t 64 = (G', Inr (64, ?h @ drop 64 t))"
      and len: "length (?h @ drop 64 t) = 69"
      by (rule slip10_step [OF Suc.prems(2,3) t_def])
    have "key_holds (set_key_halves key (?h @ drop 64 t)) (ckd_hardened kc ?w)"
      using set_key_halves_holds [of ?h key "drop 64 t"] Suc.prems(2)
      by (simp add: ckd_hardened_def key_holds_def Let_def split: prod.split)
    note IH = Suc.IH [OF _ this len, of "Suc i" G']
    have step: "slip10_loop (Some p) i (Suc n) G key tmp =
        slip10_loop (Some p) (Suc i) n G' (set_key_halves key (?h @ drop 64 t)) (?h @ drop 64 t)"
      unfolding slip10_loop.simps idx hm_bind_simps Let_def t_def [symmetric] call prod.case using True by simp
    have ball: "(\<forall>w \<in> set (drop i (path_words p m)). is_hardened_child w) \<longleftrightarrow>
        (\<forall>w \<in> set (drop (Suc i) (path_words p m)). is_hardened_child w)" using True by (simp add: drop)
    have fold: "foldl ckd_hardened kc (drop i (path_words p m)) =
        foldl ckd_hardened (ckd_hardened kc ?w) (drop (Suc i) (path_words p m))" by (simp add: drop)
    show ?thesis unfolding step ball fold by (rule IH) (use Suc.prems(1) in simp)
  qed
qed

text \<open>From a key that holds a node, along the path.\<close>

lemma hdw_slip10_from_node:
  assumes "4 * n \<le> length p" and "key_holds key kc" and "32 \<le> length priv" and "32 \<le> length chain"
  defines "node \<equiv> foldl ckd_hardened kc (path_words p n)"
  shows "snd (hdw_slip10 G key (Some p) n (Some priv) (Some chain)) =
    (if \<forall>w \<in> set (path_words p n). is_hardened_child w
     then Inr (0, Some (buf_write priv 0 (fst node)), Some (buf_write chain 0 (snd node)))
     else Inr (- 1, Some priv, Some chain))"
proof -
  have "\<exists>G'. if \<forall>w \<in> set (path_words p n). is_hardened_child w
    then \<exists>key'. slip10_loop (Some p) 0 n G key (replicate 69 0) = (G', Inr (Some key')) \<and> key_holds key' node
    else slip10_loop (Some p) 0 n G key (replicate 69 0) = (G', Inr None)"
    using slip10_loop_correct [OF assms(1) _ assms(2), of 0 n "replicate 69 0" G] unfolding node_def drop_0 by simp
  then obtain G' where run: "if \<forall>w \<in> set (path_words p n). is_hardened_child w
    then \<exists>key'. slip10_loop (Some p) 0 n G key (replicate 69 0) = (G', Inr (Some key')) \<and> key_holds key' node
    else slip10_loop (Some p) 0 n G key (replicate 69 0) = (G', Inr None)" ..
  have len: "length (fst node) = 32" if "key_holds key' node" for key'
    using that by (simp add: key_holds_def)
  show ?thesis
    using run len assms(3,4)
    by (auto simp: hdw_slip10_def copy_out_def mem_write_def key_holds_def split: if_splits)
qed

lemma expand_seed_slip10_holds:
  assumes "length sk < 2 ^ 22" and "sl \<le> length seed" and "sl < 2 ^ 22" and "length (epk_private_key key) = 64"
  obtains G' key' where "expand_seed_slip10 G sk (length sk) seed sl key = (G', Inr key')"
    and "key_holds key' (master_node sk (take sl seed))"
proof -
  obtain G' where "hmac_sha512_to G (Some sk) (length sk) seed sl (replicate 64 0) 64 =
      (G', Inr (64, HMAC_SHA512 (take (length sk) sk) (take sl seed) @ drop 64 (replicate 64 0)))"
    by (rule hmac_sha512_to_mac [of "length sk" sk sl seed "replicate 64 0" G]) (use assms in simp_all)
  then show thesis
    using that set_key_halves_holds [of "HMAC_SHA512 sk (take sl seed)" key "[]"] assms(4)
    by (simp add: expand_seed_slip10_def master_node_def Let_def)
qed

text \<open>
  Property C17: SLIP-10 on Ed25519, from the seed to the key. The master node that
  \<open>expand_seed_slip10\<close> makes of the seed key and the seed, followed by \<open>hdw_slip10\<close> along the path
  as \<open>sys_os_perso_derive_node_with_seed_key\<close> calls them, writes the private key and the chain
  code of the node that SLIP-0010 derives from the seed; when an index is not hardened it returns
  \<open>-1\<close> and writes nothing. Seed and seed key are shorter than \<open>2 ^ 22\<close> bytes.
\<close>

theorem hdw_slip10_correct:
  assumes "length sk < 2 ^ 22" and "sl \<le> length seed" and "sl < 2 ^ 22" and "length (epk_private_key key) = 64"
    and "4 * n \<le> length p" and "32 \<le> length priv" and "32 \<le> length chain"
  defines "node \<equiv> foldl ckd_hardened (master_node sk (take sl seed)) (path_words p n)"
  shows "snd (hm_bind (expand_seed_slip10 G sk (length sk) seed sl key)
      (\<lambda>G key. hdw_slip10 G key (Some p) n (Some priv) (Some chain))) =
    (if \<forall>w \<in> set (path_words p n). is_hardened_child w
     then Inr (0, Some (buf_write priv 0 (fst node)), Some (buf_write chain 0 (snd node)))
     else Inr (- 1, Some priv, Some chain))"
proof -
  obtain G' key' where "expand_seed_slip10 G sk (length sk) seed sl key = (G', Inr key')"
    "key_holds key' (master_node sk (take sl seed))"
    using expand_seed_slip10_holds [OF assms(1-4)] .
  then show ?thesis using hdw_slip10_from_node [OF assms(5) _ assms(6,7), of key' "master_node sk (take sl seed)" G']
    by (simp add: node_def)
qed

definition key_zero :: extended_private_key where
  "key_zero = \<lparr>epk_private_key = replicate 64 0, epk_chain_code = replicate 32 0\<rparr>"

theorem hdw_slip10_correct_witness:
  "snd (hm_bind (expand_seed_slip10 hmac_zero BIP32_ED_SEED (length BIP32_ED_SEED) (replicate 64 7) 64 key_zero)
      (\<lambda>G key. hdw_slip10 G key (Some [0x2c, 0, 0, 0x80]) 1 (Some (replicate 32 1)) (Some (replicate 32 2)))) =
     (let node = ckd_hardened (master_node BIP32_ED_SEED (replicate 64 7)) 0x8000002c
      in Inr (0, Some (buf_write (replicate 32 1) 0 (fst node)), Some (buf_write (replicate 32 2) 0 (snd node)))) \<and>
   snd (hm_bind (expand_seed_slip10 hmac_zero BIP32_ED_SEED (length BIP32_ED_SEED) (replicate 64 7) 64 key_zero)
      (\<lambda>G key. hdw_slip10 G key (Some [1, 0, 0, 0]) 1 (Some (replicate 32 1)) (Some (replicate 32 2)))) =
     Inr (- 1, Some (replicate 32 1), Some (replicate 32 2))"
proof -
  have len: "length BIP32_ED_SEED < 2 ^ 22" "64 \<le> length (replicate 64 (7::u8))" "(64::nat) < 2 ^ 22"
    "length (epk_private_key key_zero) = 64" "32 \<le> length (replicate 32 (1::u8))" "32 \<le> length (replicate 32 (2::u8))"
    by (simp_all add: BIP32_ED_SEED_def key_zero_def)
  have w: "path_words [0x2c, 0, 0, 0x80] 1 = [0x8000002c]" "path_words [1, 0, 0, 0] 1 = [1]" by code_simp+
  have h: "is_hardened_child 0x8000002c" "\<not> is_hardened_child 1" by (simp_all add: is_hardened_child_def)
  note c = hdw_slip10_correct [OF len(1-4) _ len(5,6), where G = hmac_zero]
  show ?thesis using c [of 1 "[0x2c, 0, 0, 0x80]"] c [of 1 "[1, 0, 0, 0]"] unfolding w by (simp add: h Let_def)
qed

section \<open>SLIP-21\<close>

text \<open>The node of a label below a node of SLIP-0021, and the key of a node.\<close>

definition slip21_child :: "bytes \<Rightarrow> bytes \<Rightarrow> bytes" where
  "slip21_child node label = HMAC_SHA512 (take 32 node) ([0] @ label)"

definition slip21_key :: "bytes \<Rightarrow> bytes" where
  "slip21_key node = drop 32 node"

text \<open>
  SLIP-21. On a path that is a zero byte and a label, \<open>hdw_slip21\<close> writes the key of the
  child that SLIP-0021 derives for the label from the master node; other paths are refused with \<open>-1\<close>.
\<close>

theorem hdw_slip21_correct:
  assumes "length sk < 2 ^ 22" and "sl \<le> length seed" and "sl < 2 ^ 22" and "0 < n" and "n \<le> length p"
    and "n < 2 ^ 22" and "32 \<le> length priv"
  shows "snd (hdw_slip21 G sk (length sk) seed sl (Some p) n (Some priv)) =
    Inr (if p ! 0 = 0
         then (0, Some (buf_write priv 0 (slip21_key (slip21_child (HMAC_SHA512 sk (take sl seed)) (drop 1 (take n p))))))
         else (- 1, Some priv))"
proof (cases "p ! 0 = 0")
  case True
  obtain G1 where G1: "hmac_sha512_to G (Some sk) (length sk) seed sl (replicate 64 0) 64 =
      (G1, Inr (64, HMAC_SHA512 (take (length sk) sk) (take sl seed) @ drop 64 (replicate 64 0)))"
    by (rule hmac_sha512_to_mac [of "length sk" sk sl seed "replicate 64 0" G]) (use assms in simp_all)
  let ?node = "HMAC_SHA512 sk (take sl seed)"
  obtain G2 where G2: "hmac_sha512_to G1 (Some ?node) 32 p n ?node 64 =
      (G2, Inr (64, HMAC_SHA512 (take 32 ?node) (take n p) @ drop 64 ?node))"
    by (rule hmac_sha512_to_mac [of 32 ?node n p ?node G1]) (use assms in simp_all)
  have "take n p = [0] @ drop 1 (take n p)"
    using True assms(4,5) by (cases p; cases n) simp_all
  moreover have "p \<noteq> []" using assms(4,5) by auto
  ultimately show ?thesis
    using True G1 G2 assms(4,5,7)
    by (simp add: hdw_slip21_def mem_get_def copy_out_def mem_write_def slip21_key_def slip21_child_def)
next
  case False
  moreover have "p \<noteq> []" using assms(4,5) by auto
  ultimately show ?thesis using assms(4) by (simp add: hdw_slip21_def mem_get_def)
qed

theorem hdw_slip21_correct_witness:
  "snd (hdw_slip21 hmac_zero SLIP21_SEED (length SLIP21_SEED) (replicate 64 0) 64 (Some [1, 2]) 2 (Some (replicate 32 0))) =
     Inr (- 1, Some (replicate 32 0))"
  using hdw_slip21_correct [of SLIP21_SEED 64 "replicate 64 0" 2 "[1, 2]" "replicate 32 0" hmac_zero]
  by (simp add: SLIP21_SEED_def)

section \<open>The root key of BIP32-Ed25519\<close>

text \<open>The hash of the seed after \<open>n\<close> repetitions.\<close>

definition root_hash :: "bytes \<Rightarrow> bytes \<Rightarrow> nat \<Rightarrow> bytes" where
  "root_hash sk seed n = (HMAC_SHA512 sk ^^ Suc n) seed"

lemma ed25519_root_loop_iter:
  assumes "length sk < 2 ^ 22" and "length priv = 64"
    and "(((HMAC_SHA512 sk ^^ n) priv) ! 31) AND 0x20 = 0"
    and "\<forall>m<n. (((HMAC_SHA512 sk ^^ m) priv) ! 31) AND 0x20 \<noteq> 0"
  shows "\<exists>G'. ed25519_root_loop G sk (length sk) priv = Some (G', Inr ((HMAC_SHA512 sk ^^ n) priv))"
  using assms(2-4)
proof (induction n arbitrary: G priv)
  case 0
  then show ?case by (subst ed25519_root_loop.simps) (simp add: mem_get_def)
next
  case (Suc n)
  have bit: "(priv ! 31) AND 0x20 \<noteq> 0" using Suc.prems(3) by (metis funpow_0 zero_less_Suc)
  obtain G' where call: "hmac_sha512_to G (Some sk) (length sk) priv 64 priv 64 =
      (G', Inr (64, HMAC_SHA512 (take (length sk) sk) (take 64 priv) @ drop 64 priv))"
    by (rule hmac_sha512_to_mac [of "length sk" sk 64 priv priv G]) (use assms(1) Suc.prems(1) in simp_all)
  have "\<forall>m<n. (((HMAC_SHA512 sk ^^ m) (HMAC_SHA512 sk priv)) ! 31) AND 0x20 \<noteq> 0"
    using Suc.prems(3) by (metis Suc_less_eq comp_apply funpow_Suc_right)
  then show ?case
    using Suc.IH [of "HMAC_SHA512 sk priv" G'] Suc.prems(1,2) bit call
    by (subst ed25519_root_loop.simps) (simp add: mem_get_def funpow_swap1)
qed

lemma ed25519_clamp_bits:
  assumes "length h = 64" and "(h ! 31) AND 0x20 = 0"
  shows "ed25519_clamp h ! 0 AND 0x07 = 0" and "ed25519_clamp h ! 31 AND 0xE0 = 0x40"
    and "drop 32 (ed25519_clamp h) = drop 32 h"
proof -
  have "(x AND 0xF8) AND 0x07 = (0 :: u8)" for x by (simp add: and.assoc)
  then show "ed25519_clamp h ! 0 AND 0x07 = 0" using assms(1) by (simp add: ed25519_clamp_def)
  have "((x AND 0x7F) OR 0x40) AND 0xE0 = ((x AND 0x20) OR 0x40 :: u8)" for x
  proof -
    have absorb: "(x AND b) OR b = b" for b :: u8 by (rule bit_eqI) (auto simp: bit_simps)
    have "((x AND 0x7F) OR 0x40) AND 0xE0 = (x AND (0x20 OR 0x40)) OR 0x40"
      by (simp add: and.assoc bit.conj_disj_distrib2)
    also have "\<dots> = (x AND 0x20) OR ((x AND 0x40) OR 0x40)"
      by (simp only: bit.conj_disj_distrib or.assoc)
    finally show ?thesis by (simp only: absorb)
  qed
  then show "ed25519_clamp h ! 31 AND 0xE0 = 0x40" using assms by (simp add: ed25519_clamp_def)
  show "drop 32 (ed25519_clamp h) = drop 32 h" by (simp add: ed25519_clamp_def)
qed

lemma ed25519_root_loop_ends:
  assumes "ed25519_root_loop G sk sl priv = Some r"
  shows "sl = length sk \<longrightarrow> length sk < 2 ^ 22 \<longrightarrow> length priv = 64 \<longrightarrow>
    (\<exists>n. (((HMAC_SHA512 sk ^^ n) priv) ! 31) AND 0x20 = 0)"
proof (rule ed25519_root_loop.raw_induct [where P = "\<lambda>G sk sl priv r. sl = length sk \<longrightarrow> length sk < 2 ^ 22 \<longrightarrow>
    length priv = 64 \<longrightarrow> (\<exists>n. (((HMAC_SHA512 sk ^^ n) priv) ! 31) AND 0x20 = 0)", OF _ assms], intro impI)
  fix loop :: "cx_hmac_ctx \<Rightarrow> bytes \<Rightarrow> nat \<Rightarrow> bytes \<Rightarrow> (cx_hmac_ctx \<times> bytes res) option"
    and G sk sl priv r
  assume IH: "\<And>G sk sl priv r. loop G sk sl priv = Some r \<Longrightarrow> sl = length sk \<longrightarrow> length sk < 2 ^ 22 \<longrightarrow>
      length priv = 64 \<longrightarrow> (\<exists>n. (((HMAC_SHA512 sk ^^ n) priv) ! 31) AND 0x20 = 0)"
    and body: "(case mem_get priv 31 of Inl e \<Rightarrow> Some (G, Inl e)
      | Inr b \<Rightarrow> if b AND 0x20 = 0 then Some (G, Inr priv)
          else (case hmac_sha512_to G (Some sk) sl priv 64 priv 64 of
                  (G, Inl e) \<Rightarrow> Some (G, Inl e) | (G, Inr (_, priv)) \<Rightarrow> loop G sk sl priv)) = Some r"
    and sl: "sl = length sk" "length sk < 2 ^ 22" and len: "length priv = 64"
  show "\<exists>n. (((HMAC_SHA512 sk ^^ n) priv) ! 31) AND 0x20 = 0"
  proof (cases "(priv ! 31) AND 0x20 = 0")
    case True
    then show ?thesis by (intro exI [of _ 0]) simp
  next
    case False
    obtain G' where call: "hmac_sha512_to G (Some sk) (length sk) priv 64 priv 64 =
        (G', Inr (64, HMAC_SHA512 (take (length sk) sk) (take 64 priv) @ drop 64 priv))"
      by (rule hmac_sha512_to_mac [of "length sk" sk 64 priv priv G]) (use sl len in simp_all)
    have "loop G' sk (length sk) (HMAC_SHA512 sk priv) = Some r"
      using body False len call sl by (simp add: mem_get_def)
    from IH [OF this] sl obtain n where "(((HMAC_SHA512 sk ^^ n) (HMAC_SHA512 sk priv)) ! 31) AND 0x20 = 0" by auto
    then show ?thesis by (intro exI [of _ "Suc n"]) (simp add: funpow_swap1)
  qed
qed

text \<open>The number of repetitions that clears the bit, if there is one.\<close>

definition root_rounds :: "bytes \<Rightarrow> bytes \<Rightarrow> nat option" where
  "root_rounds sk seed =
     (if \<exists>n. (root_hash sk seed n ! 31) AND 0x20 = 0
      then Some (LEAST n. (root_hash sk seed n ! 31) AND 0x20 = 0) else None)"

lemma ed25519_root_loop_rounds:
  assumes "length sk < 2 ^ 22"
  shows "map_option snd (ed25519_root_loop G sk (length sk) (HMAC_SHA512 sk seed)) =
    map_option (\<lambda>n. Inr (root_hash sk seed n)) (root_rounds sk seed)"
proof -
  have h: "root_hash sk seed m = (HMAC_SHA512 sk ^^ m) (HMAC_SHA512 sk seed)" for m
    by (simp only: root_hash_def funpow_Suc_right comp_apply)
  show ?thesis
  proof (cases "\<exists>n. (root_hash sk seed n ! 31) AND 0x20 = 0")
    case True
    define n where "n = (LEAST n. (root_hash sk seed n ! 31) AND 0x20 = 0)"
    have "(root_hash sk seed n ! 31) AND 0x20 = 0" unfolding n_def by (rule LeastI_ex [OF True])
    moreover have "\<forall>m<n. (root_hash sk seed m ! 31) AND 0x20 \<noteq> 0" unfolding n_def by (auto dest: not_less_Least)
    ultimately obtain G' where "ed25519_root_loop G sk (length sk) (HMAC_SHA512 sk seed) =
        Some (G', Inr (root_hash sk seed n))"
      using ed25519_root_loop_iter [OF assms, of "HMAC_SHA512 sk seed" n G] unfolding h by auto
    then show ?thesis using True by (simp add: root_rounds_def n_def)
  next
    case False
    have "ed25519_root_loop G sk (length sk) (HMAC_SHA512 sk seed) = None"
    proof (rule ccontr)
      assume "ed25519_root_loop G sk (length sk) (HMAC_SHA512 sk seed) \<noteq> None"
      then show False using ed25519_root_loop_ends [of G sk "length sk" "HMAC_SHA512 sk seed"] assms False unfolding h by auto
    qed
    then show ?thesis using False by (simp add: root_rounds_def)
  qed
qed

text \<open>
  Property C18: the root key of BIP32-Ed25519. The expansion of the seed returns exactly when repeating
  HMAC-SHA512 on the hash of the seed ever clears the third highest bit of its left half; the key is
  then the first such hash, clamped, and the chain code the HMAC-SHA256 of the byte 1 and the seed.
\<close>

theorem ed25519_root_key:
  assumes "length sk < 2 ^ 22" and "length seed \<le> 64"
    and "length (epk_private_key key) = 64" and "length (epk_chain_code key) = 32"
  shows "map_option snd (expand_seed_ed25519_bip32 G sk (length sk) seed (length seed) key) =
    map_option (\<lambda>n. Inr (key\<lparr>epk_private_key := ed25519_clamp (root_hash sk seed n),
      epk_chain_code := HMAC_SHA256 sk (1 # seed)\<rparr>)) (root_rounds sk seed)"
proof -
  let ?sl = "length seed"
  let ?buf = "buf_write (1 # replicate 64 0) 1 seed"
  have buf: "take (1 + ?sl) ?buf = 1 # seed" "length ?buf = 65"
    using assms(2) by (simp_all add: buf_write_def)
  obtain G1 where G1: "hmac_sha256_to G (Some sk) (length sk) ?buf (1 + ?sl) (epk_chain_code key) 32 =
      (G1, Inr (32, HMAC_SHA256 (take (length sk) sk) (take (1 + ?sl) ?buf) @ drop 32 (epk_chain_code key)))"
    by (rule hmac_sha256_to_mac [of "length sk" sk "1 + ?sl" ?buf "epk_chain_code key" G])
      (use assms(1,2,4) buf in simp_all)
  obtain G2 where G2: "hmac_sha512_to G1 (Some sk) (length sk) seed ?sl (epk_private_key key) 64 =
      (G2, Inr (64, HMAC_SHA512 (take (length sk) sk) (take ?sl seed) @ drop 64 (epk_private_key key)))"
    by (rule hmac_sha512_to_mac [of "length sk" sk ?sl seed "epk_private_key key" G1]) (use assms(1-3) in simp_all)
  have run: "expand_seed_ed25519_bip32 G sk (length sk) seed ?sl key =
      (case ed25519_root_loop G2 sk (length sk) (HMAC_SHA512 sk seed) of
         None \<Rightarrow> None
       | Some (G, Inl e) \<Rightarrow> Some (G, Inl e)
       | Some (G, Inr priv) \<Rightarrow> Some (G, Inr (key\<lparr>epk_private_key := ed25519_clamp priv,
           epk_chain_code := HMAC_SHA256 sk (1 # seed)\<rparr>)))"
    using G1 G2 buf assms(2,3,4) by (simp add: expand_seed_ed25519_bip32_def mem_read_def mem_write_def)
  show ?thesis
    using ed25519_root_loop_rounds [OF assms(1), of G2 seed] unfolding run
    by (cases "root_rounds sk seed") (auto split: option.splits sum.splits)
qed

theorem ed25519_root_key_witness:
  "map_option snd (expand_seed_ed25519_bip32 hmac_zero BIP32_ED_SEED (length BIP32_ED_SEED) [7] (length [7 :: u8]) key_zero) =
    map_option (\<lambda>n. Inr (key_zero\<lparr>epk_private_key := ed25519_clamp (root_hash BIP32_ED_SEED [7] n),
      epk_chain_code := HMAC_SHA256 BIP32_ED_SEED [1, 7]\<rparr>)) (root_rounds BIP32_ED_SEED [7])"
  by (rule ed25519_root_key) (simp_all add: BIP32_ED_SEED_def key_zero_def)

section \<open>BLS12-377 keys\<close>

lemma bls12377_child:
  assumes "seed_chain = k @ c" and "length k = 32" and "length c = 32"
  obtains G' where "hdkey_bls12377_derive_child G w seed_chain 64 =
    (G', Inr (OS_SUCCESS, HMAC_SHA512 c ([0] @ k @ be_of_u32 w)))"
proof -
  let ?data = "[0] @ k @ be_of_u32 w"
  have data: "U4BE_ENCODE (buf_write (replicate 37 0) 1 (take 32 seed_chain)) 33 w = Inr ?data"
    using assms by (simp add: U4BE_ENCODE_eq mem_write_def buf_write_def)
  obtain G' where "hmac_sha512_to G (Some (drop 32 seed_chain)) 32 ?data 37 seed_chain 64 =
      (G', Inr (64, HMAC_SHA512 (take 32 (drop 32 seed_chain)) (take 37 ?data) @ drop 64 seed_chain))"
    by (rule hmac_sha512_to_mac [of 32 "drop 32 seed_chain" 37 ?data seed_chain G]) (use assms in simp_all)
  then show thesis
    using that data assms by (simp add: hdkey_bls12377_derive_child_def Let_def CX_SHA512_SIZE_def)
qed

lemma bls12377_path:
  assumes "4 * m \<le> length p" and "i + n = m" and "length (fst kc) = 32 \<and> length (snd kc) = 32"
  defines "node \<equiv> foldl ckd_hardened kc (drop i (path_words p m))"
  shows "\<exists>G'. hdkey_bls12377_derive_path (Some p) i n G (fst kc @ snd kc) 64 =
    (G', Inr (OS_SUCCESS, fst node @ snd node))"
  using assms(2,3) unfolding node_def
proof (induction n arbitrary: i G kc)
  case (Suc n)
  let ?w = "path_words p m ! i"
  have drop: "drop i (path_words p m) = ?w # drop (Suc i) (path_words p m)"
    using Suc.prems(1) by (simp add: Cons_nth_drop_Suc)
  have idx: "path_index (Some p) i = Inr ?w" using path_index_words assms(1) Suc.prems(1) by simp
  obtain G' where child: "hdkey_bls12377_derive_child G ?w (fst kc @ snd kc) 64 =
      (G', Inr (OS_SUCCESS, HMAC_SHA512 (snd kc) ([0] @ fst kc @ be_of_u32 ?w)))"
    using bls12377_child [OF refl, of "fst kc" "snd kc" G ?w] Suc.prems(2) by blast
  have "HMAC_SHA512 (snd kc) ([0] @ fst kc @ be_of_u32 ?w) =
      fst (ckd_hardened kc ?w) @ snd (ckd_hardened kc ?w)"
    by (simp add: ckd_hardened_def Let_def split: prod.split)
  then show ?case
    using Suc.IH [of "Suc i" "ckd_hardened kc ?w" G'] Suc.prems(1) child length_ckd [of kc ?w] by (simp add: idx drop)
qed simp

lemma bls12377_master:
  assumes "hd_curve r = CX_CURVE_BLS12_377_G1" and "hd_mode r \<noteq> HDW_SLIP21"
    and "hd_seed_key r = None" and "length (seed_array env) = 64"
  obtains G' where "HDKEY_BIP32_get_seed_hmac env G r (replicate 64 0) 64 =
    (G', Inr (OS_SUCCESS, r\<lparr>hd_seed_key := Some BLS12_377_SEED, hd_seed_key_len := 14\<rparr>,
      HMAC_SHA512 BLS12_377_SEED (seed_array env)))"
proof -
  have curve: "CX_CURVE_BLS12_377_G1 \<notin> {CX_CURVE_SECP256K1, CX_CURVE_SECP256R1, CX_CURVE_Ed25519}"
    by (simp add: CX_CURVE_BLS12_377_G1_def CX_CURVE_SECP256K1_def CX_CURVE_SECP256R1_def CX_CURVE_Ed25519_def)
  have k: "length BLS12_377_SEED = 14" by (simp add: BLS12_377_SEED_def)
  obtain G' where "hmac_sha512_to G (Some BLS12_377_SEED) 14 (seed_array env) 64 (seed_array env) 64 =
      (G', Inr (64, HMAC_SHA512 (take 14 BLS12_377_SEED) (take 64 (seed_array env)) @ drop 64 (seed_array env)))"
    by (rule hmac_sha512_to_mac [of 14 BLS12_377_SEED 64 "seed_array env" "seed_array env" G]) (use assms(4) k in simp_all)
  moreover have "take 14 BLS12_377_SEED = BLS12_377_SEED" by (simp add: BLS12_377_SEED_def)
  moreover have "mem_write (replicate 64 0) 0 (seed_array env) = Inr (seed_array env)"
    using assms(4) by (simp add: mem_write_def buf_write_def)
  ultimately show thesis
    using that assms curve k
    by (simp add: HDKEY_BIP32_get_seed_hmac_def HDKEY_BIP32_compute_seed_hmac_def hdkey_bip32_get_default_seed_def
        hdkey_default_seed_key_def hdkey_bip32_check_result_len_def hdkey_bip32_compute_seed_hmac_nvm_def
        env_get_seed_def mem_read_def CX_SHA512_SIZE_def Let_def)
qed

text \<open>
  Property C19: the derivation of BLS12-377 keys. With no seed key of the caller, the private key and
  the chain code that \<open>HDKEY_BLS12377_derive\<close> writes are those of the node that hardened derivation
  reaches along the path from the master node of the 64 bytes of the seed array; the caller's path
  and lengths are left as they were.
\<close>

theorem bls12377_derive_correct:
  assumes "hd_curve r = CX_CURVE_BLS12_377_G1" and "hd_mode r \<noteq> HDW_SLIP21" and "hd_seed_key r = None"
    and "length (seed_array env) = 64"
    and "hd_path r = Some p" and "4 * unat (hd_path_len r) \<le> length p"
    and "hd_private_key r = Some priv" and "32 \<le> unat (hd_private_key_len r)" and "32 \<le> length priv"
    and "hd_chain r = Some chain" and "unat (hd_chain_len r) = 32" and "32 \<le> length chain"
  shows "snd (HDKEY_BLS12377_derive env G (Some r)) =
    (let node = foldl ckd_hardened (master_node BLS12_377_SEED (seed_array env)) (path_words p (unat (hd_path_len r)))
     in Inr (OS_SUCCESS, Some (r\<lparr>hd_seed_key := Some BLS12_377_SEED, hd_seed_key_len := 14,
          hd_private_key := Some (buf_write priv 0 (fst node)), hd_chain := Some (buf_write chain 0 (snd node))\<rparr>)))"
proof -
  let ?kc = "master_node BLS12_377_SEED (seed_array env)"
  let ?node = "foldl ckd_hardened ?kc (path_words p (unat (hd_path_len r)))"
  obtain G1 where G1: "HDKEY_BIP32_get_seed_hmac env G r (replicate 64 0) 64 =
      (G1, Inr (OS_SUCCESS, r\<lparr>hd_seed_key := Some BLS12_377_SEED, hd_seed_key_len := 14\<rparr>,
        HMAC_SHA512 BLS12_377_SEED (seed_array env)))"
    using bls12377_master [OF assms(1-4)] by blast
  have hash: "HMAC_SHA512 BLS12_377_SEED (seed_array env) = fst ?kc @ snd ?kc"
    by (simp add: master_node_def Let_def)
  obtain G2 where G2: "hdkey_bls12377_derive_path (Some p) 0 (unat (hd_path_len r)) G1 (fst ?kc @ snd ?kc) 64 =
      (G2, Inr (OS_SUCCESS, fst ?node @ snd ?node))"
    using bls12377_path [OF assms(6), of 0 "unat (hd_path_len r)" ?kc G1] length_master by auto
  have len: "length (fst ?node) = 32" "length (snd ?node) = 32"
    using length_ckd_path [OF length_master] by simp_all
  show ?thesis
    using G1 G2 len assms(5-12) unfolding hash
    by (simp add: HDKEY_BLS12377_derive_def HDKEY_BLS12377_KEY_LEN_def copy_out_def mem_write_def Let_def)
qed

definition request_bls :: HDKEY_params where
  "request_bls = \<lparr>hd_mode = HDKEY_DERIVE_MODE_BLS12377_ALEO, hd_from_app = True, hd_curve = CX_CURVE_BLS12_377_G1,
     hd_path_len = 1, hd_private_key_len = 32, hd_chain_len = 32, hd_seed_key_len = 0,
     hd_path = Some [0, 0, 0, 0x80], hd_private_key = Some (replicate 32 0), hd_chain = Some (replicate 32 0),
     hd_seed_key = None\<rparr>"

theorem bls12377_derive_correct_witness:
  "snd (HDKEY_BLS12377_derive \<lparr>seed_size = 64, seed_array = replicate 64 1\<rparr> hmac_zero (Some request_bls)) =
    (let node = foldl ckd_hardened (master_node BLS12_377_SEED (replicate 64 1)) (path_words [0, 0, 0, 0x80] 1)
     in Inr (OS_SUCCESS, Some (request_bls\<lparr>hd_seed_key := Some BLS12_377_SEED, hd_seed_key_len := 14,
          hd_private_key := Some (buf_write (replicate 32 0) 0 (fst node)),
          hd_chain := Some (buf_write (replicate 32 0) 0 (snd node))\<rparr>)))"
  using bls12377_derive_correct [of request_bls "\<lparr>seed_size = 64, seed_array = replicate 64 1\<rparr>" "[0, 0, 0, 0x80]"
      "replicate 32 0" "replicate 32 0" hmac_zero]
  by (simp add: request_bls_def hdw_modes)

end
