(* ===== verification/Hdkey_Zip32.thy ===== *)
theory Hdkey_Zip32
  imports Os_Bip32 Cx_Bn Cx_Ec_Domain
begin

text \<open>
  The ZIP-32 derivations, \<open>src/bolos/hdkey/src/hdkey_zip32.c\<close>: Sapling, Orchard and registered keys over
  BLAKE2b and the big number system calls, the dispatch of \<open>hdkey/src/hdkey.c\<close> and the system call of
  \<open>os_hdkey.c\<close>.
\<close>

section \<open>Types and constants\<close>

definition HDKEY_ZIP32_KEY_LEN :: nat where "HDKEY_ZIP32_KEY_LEN = 32"
definition HDKEY_ZIP32_HASH_LEN :: nat where "HDKEY_ZIP32_HASH_LEN = 64"
definition HDKEY_ZIP32_TAG_SEQUENCE_STR :: u8 where "HDKEY_ZIP32_TAG_SEQUENCE_STR = 0xA0"
definition HDKEY_ZIP32_TAG_CONTEXT_STR :: u8 where "HDKEY_ZIP32_TAG_CONTEXT_STR = 0x16"

definition HDKEY_ZIP32_TAG_MASTER_ASK :: u8 where "HDKEY_ZIP32_TAG_MASTER_ASK = 0x00"
definition HDKEY_ZIP32_TAG_MASTER_NSK :: u8 where "HDKEY_ZIP32_TAG_MASTER_NSK = 0x01"
definition HDKEY_ZIP32_TAG_MASTER_OVK :: u8 where "HDKEY_ZIP32_TAG_MASTER_OVK = 0x02"
definition HDKEY_ZIP32_TAG_MASTER_DK :: u8 where "HDKEY_ZIP32_TAG_MASTER_DK = 0x10"
definition HDKEY_ZIP32_TAG_CHILD_HARDENED :: u8 where "HDKEY_ZIP32_TAG_CHILD_HARDENED = 0x11"
definition HDKEY_ZIP32_TAG_CHILD_ASK :: u8 where "HDKEY_ZIP32_TAG_CHILD_ASK = 0x13"
definition HDKEY_ZIP32_TAG_CHILD_NSK :: u8 where "HDKEY_ZIP32_TAG_CHILD_NSK = 0x14"
definition HDKEY_ZIP32_TAG_CHILD_OVK :: u8 where "HDKEY_ZIP32_TAG_CHILD_OVK = 0x15"
definition HDKEY_ZIP32_TAG_CHILD_DK :: u8 where "HDKEY_ZIP32_TAG_CHILD_DK = 0x16"
definition HDKEY_ZIP32_TAG_ORCHARD_DOMAIN :: u8 where "HDKEY_ZIP32_TAG_ORCHARD_DOMAIN = 0x81"
definition HDKEY_ZIP32_TAG_REGISTERED_DOMAIN :: u8 where "HDKEY_ZIP32_TAG_REGISTERED_DOMAIN = 0xAC"

lemmas zip32_consts = HDKEY_ZIP32_KEY_LEN_def HDKEY_ZIP32_HASH_LEN_def HDKEY_ZIP32_TAG_SEQUENCE_STR_def
  HDKEY_ZIP32_TAG_CONTEXT_STR_def HDKEY_ZIP32_TAG_MASTER_ASK_def HDKEY_ZIP32_TAG_MASTER_NSK_def
  HDKEY_ZIP32_TAG_MASTER_OVK_def HDKEY_ZIP32_TAG_MASTER_DK_def HDKEY_ZIP32_TAG_CHILD_HARDENED_def
  HDKEY_ZIP32_TAG_CHILD_ASK_def HDKEY_ZIP32_TAG_CHILD_NSK_def HDKEY_ZIP32_TAG_CHILD_OVK_def
  HDKEY_ZIP32_TAG_CHILD_DK_def HDKEY_ZIP32_TAG_ORCHARD_DOMAIN_def HDKEY_ZIP32_TAG_REGISTERED_DOMAIN_def

text \<open>The personalisation strings: Zcash_ExpandSeed, ZcashIP32Sapling, ZcashIP32Orchard, ZIPRegistered_KD.\<close>

definition PERSON_Z_EXPAND :: bytes where
  "PERSON_Z_EXPAND = [0x5a, 0x63, 0x61, 0x73, 0x68, 0x5f, 0x45, 0x78, 0x70, 0x61, 0x6e, 0x64, 0x53, 0x65, 0x65, 0x64]"

definition PERSON_Z_SAPLING :: bytes where
  "PERSON_Z_SAPLING = [0x5a, 0x63, 0x61, 0x73, 0x68, 0x49, 0x50, 0x33, 0x32, 0x53, 0x61, 0x70, 0x6c, 0x69, 0x6e, 0x67]"

definition PERSON_ORCHARD :: bytes where
  "PERSON_ORCHARD = [0x5a, 0x63, 0x61, 0x73, 0x68, 0x49, 0x50, 0x33, 0x32, 0x4f, 0x72, 0x63, 0x68, 0x61, 0x72, 0x64]"

definition DOMAIN_REGISTERED :: bytes where
  "DOMAIN_REGISTERED = [0x5a, 0x49, 0x50, 0x52, 0x65, 0x67, 0x69, 0x73, 0x74, 0x65, 0x72, 0x65, 0x64, 0x5f, 0x4b, 0x44]"

record HDKEY_ZIP32_sapling_xsk =
  xsk_ask :: bytes
  xsk_nsk :: bytes
  xsk_ovk :: bytes
  xsk_dk :: bytes
  xsk_chain_code :: bytes

record HDKEY_ZIP32_hard_sk =
  hsk_sk :: bytes
  hsk_chain_code :: bytes

definition sapling_zero :: HDKEY_ZIP32_sapling_xsk where
  "sapling_zero = \<lparr>xsk_ask = replicate 32 0, xsk_nsk = replicate 32 0, xsk_ovk = replicate 32 0,
     xsk_dk = replicate 32 0, xsk_chain_code = replicate 32 0\<rparr>"

definition hard_sk_zero :: HDKEY_ZIP32_hard_sk where
  "hard_sk_zero = \<lparr>hsk_sk = replicate 32 0, hsk_chain_code = replicate 32 0\<rparr>"

section \<open>Calls of BLAKE2b under ERROR_CHECK\<close>

text \<open>
  The functions act on the state of the big number module. A call of the hash returns its context or
  fails with \<open>CX_INVALID_PARAMETER\<close>; an exception of the hash passes through.
\<close>

definition op_res :: "'a res \<Rightarrow> 'a mpi_op" where
  "op_res r s = (case r of Inl e \<Rightarrow> Inl e | Inr x \<Rightarrow> Inr (Inr x, s))"

definition check_init :: "nat \<Rightarrow> bytes \<Rightarrow> cx_blake2b mpi_op" where
  "check_init bits person = op_res (cx_blake2b_init2 bits None 0 (Some person) (length person))"

definition check_update :: "cx_blake2b \<Rightarrow> bytes option \<Rightarrow> nat \<Rightarrow> cx_blake2b mpi_op" where
  "check_update ctx data len = op_bind (op_res (let (ctx, r) = spec_cx_blake2b_update ctx data len in
       res_bind r (\<lambda>r. Inr (ctx, r))))
     (\<lambda>(ctx, r). if r \<noteq> 1 then op_err CX_INVALID_PARAMETER else op_ok ctx)"

definition check_final :: "cx_blake2b \<Rightarrow> bytes \<Rightarrow> bytes mpi_op" where
  "check_final ctx out = op_bind (op_res (snd (spec_cx_blake2b_final ctx (Some out))))
     (\<lambda>(r, out). if r \<noteq> 1 then op_err CX_INVALID_PARAMETER else op_ok (the out))"

definition hdkey_zip32_prf_expand ::
  "bytes option \<Rightarrow> nat \<Rightarrow> bytes option \<Rightarrow> nat \<Rightarrow> bytes option \<Rightarrow> nat \<Rightarrow> bytes mpi_op" where
  "hdkey_zip32_prf_expand out out_len key key_len inp input_len =
     (case out of
        None \<Rightarrow> op_err CX_INTERNAL_ERROR
      | Some out \<Rightarrow>
          if key = None \<or> inp = None then op_err CX_INTERNAL_ERROR
          else op_bind (check_init (out_len * 8) PERSON_Z_EXPAND) (\<lambda>ctx.
               op_bind (check_update ctx key key_len) (\<lambda>ctx.
               op_bind (check_update ctx inp input_len) (\<lambda>ctx. check_final ctx out))))"

section \<open>Scalars\<close>

text \<open>The end of the functions that use big numbers: the module is unlocked if it is locked.\<close>

definition op_unlocking :: "'a mpi_op \<Rightarrow> 'a mpi_op" where
  "op_unlocking m s =
     (case m s of
        Inl e \<Rightarrow> Inl e
      | Inr (r, s') \<Rightarrow>
          if sys_cx_bn_is_locked s'
          then (case sys_cx_bn_unlock s' of Inl e \<Rightarrow> Inl e | Inr (_, s'') \<Rightarrow> Inr (r, s''))
          else Inr (r, s'))"

definition swap_local :: "bytes \<Rightarrow> nat \<Rightarrow> bytes mpi_op" where
  "swap_local buf len = op_res (res_bind (cx_swap_bytes (Some buf) len) (\<lambda>b. Inr (the b)))"

definition hdkey_zip32_to_scalar ::
  "bn_lib \<Rightarrow> cx_curve \<Rightarrow> bytes option \<Rightarrow> nat \<Rightarrow> bytes option \<Rightarrow> nat \<Rightarrow> bytes mpi_op" where
  "hdkey_zip32_to_scalar lib curve hash hash_len scalar scalar_len = op_unlocking
     (case (hash, scalar, cx_ecdomain curve) of
        (Some hash, Some scalar, Some d) \<Rightarrow>
          if hash_len \<noteq> HDKEY_ZIP32_HASH_LEN \<or> scalar_len \<noteq> HDKEY_ZIP32_KEY_LEN then op_err CX_INTERNAL_ERROR
          else
            op_bind (op_res (res_bind (mem_read hash 0 hash_len) (mem_write (replicate 64 0) 0))) (\<lambda>tmp.
            op_bind (swap_local tmp 64) (\<lambda>tmp.
            op_bind (sys_cx_bn_lock lib 64) (\<lambda>_.
            op_bind (sys_cx_bn_alloc lib 64) (\<lambda>bn_r.
            op_bind (sys_cx_bn_alloc_init lib 64 tmp 64) (\<lambda>bn_v.
            op_bind (sys_cx_bn_alloc_init lib 64 (dom_n d) (dom_length d)) (\<lambda>bn_m.
            op_bind (sys_cx_bn_reduce lib bn_r bn_v bn_m) (\<lambda>_.
            op_bind (sys_cx_bn_export lib bn_r tmp 64) (\<lambda>tmp.
            op_bind (op_res (res_bind (mem_read tmp (hash_len - scalar_len) scalar_len) (mem_write scalar 0)))
              (\<lambda>scalar. swap_local scalar scalar_len)))))))))
      | _ \<Rightarrow> op_err CX_INTERNAL_ERROR)"

definition hdkey_zip32_add_scalar ::
  "bn_lib \<Rightarrow> cx_curve \<Rightarrow> bytes option \<Rightarrow> nat \<Rightarrow> bytes option \<Rightarrow> nat \<Rightarrow> bytes option \<Rightarrow> nat \<Rightarrow> bytes mpi_op" where
  "hdkey_zip32_add_scalar lib curve out out_len a a_len b b_len = op_unlocking
     (case (out, a, b) of
        (Some out, Some a, Some b) \<Rightarrow>
          if a_len \<noteq> out_len \<or> b_len \<noteq> out_len then op_err CX_INVALID_PARAMETER_SIZE
          else if out_len \<noteq> HDKEY_ZIP32_KEY_LEN then op_err CX_INVALID_PARAMETER_SIZE
          else
            (case cx_ecdomain curve of
               None \<Rightarrow> op_err CX_INTERNAL_ERROR
             | Some d \<Rightarrow>
                op_bind (op_res (res_bind (mem_read a 0 a_len) (mem_write (replicate 32 0) 0))) (\<lambda>le_a.
                op_bind (op_res (res_bind (mem_read b 0 b_len) (mem_write (replicate 32 0) 0))) (\<lambda>le_b.
                op_bind (swap_local le_a 32) (\<lambda>le_a.
                op_bind (swap_local le_b 32) (\<lambda>le_b.
                op_bind (sys_cx_bn_lock lib (of_nat out_len)) (\<lambda>_.
                op_bind (sys_cx_bn_alloc lib (of_nat out_len)) (\<lambda>bn_r.
                op_bind (sys_cx_bn_alloc_init lib (of_nat out_len) le_a out_len) (\<lambda>bn_a.
                op_bind (sys_cx_bn_alloc_init lib (of_nat out_len) le_b out_len) (\<lambda>bn_b.
                op_bind (sys_cx_bn_alloc_init lib (of_nat out_len) (dom_n d) out_len) (\<lambda>bn_m.
                op_bind (sys_cx_bn_mod_add lib bn_r bn_a bn_b bn_m) (\<lambda>_.
                op_bind (sys_cx_bn_set_u32 lib bn_a 0) (\<lambda>_.
                op_bind (sys_cx_bn_mod_sub lib bn_r bn_r bn_a bn_m) (\<lambda>_.
                op_bind (sys_cx_bn_export lib bn_r out out_len) (\<lambda>out. swap_local out out_len))))))))))))))
      | _ \<Rightarrow> op_err CX_INTERNAL_ERROR)"

section \<open>Results of the operating system\<close>

text \<open>
  The functions that return an \<open>os_result_t\<close> fail with it; the key they were writing when they failed is
  not kept, since every caller erases it unread. \<open>cx_to_os\<close> is the end of these functions: an error of
  the library becomes \<open>OS_ERR_CRYPTO_INTERNAL\<close>.
\<close>

type_synonym 'a hd_op = "mpi_state \<Rightarrow> ((os_result + 'a) \<times> mpi_state) res"

definition hd_ok :: "'a \<Rightarrow> 'a hd_op" where
  "hd_ok x s = Inr (Inr x, s)"

definition hd_err :: "os_result \<Rightarrow> 'a hd_op" where
  "hd_err e s = Inr (Inl e, s)"

definition hd_res :: "'a res \<Rightarrow> 'a hd_op" where
  "hd_res r s = (case r of Inl e \<Rightarrow> Inl e | Inr x \<Rightarrow> Inr (Inr x, s))"

definition hd_bind :: "'a hd_op \<Rightarrow> ('a \<Rightarrow> 'b hd_op) \<Rightarrow> 'b hd_op" where
  "hd_bind m f s =
     (case m s of
        Inl e \<Rightarrow> Inl e
      | Inr (Inl e, s') \<Rightarrow> Inr (Inl e, s')
      | Inr (Inr x, s') \<Rightarrow> f x s')"

definition cx_to_os :: "'a mpi_op \<Rightarrow> 'a hd_op" where
  "cx_to_os m s =
     (case m s of
        Inl e \<Rightarrow> Inl e
      | Inr (Inl e, s') \<Rightarrow> Inr (Inl OS_ERR_CRYPTO_INTERNAL, s')
      | Inr (Inr x, s') \<Rightarrow> Inr (Inr x, s'))"

definition hdkey_zip32_get_seed :: "env_seed \<Rightarrow> nat \<Rightarrow> bytes hd_op" where
  "hdkey_zip32_get_seed env seed_len =
     (if seed_len \<noteq> 64 then hd_err OS_ERR_BAD_PARAM
      else hd_res (res_bind (env_get_seed env seed_len) (\<lambda>(_, seed). Inr seed)))"

text \<open>
  A parsed element: the memory from its value on, \<open>None\<close> for a null pointer, and its length. The parser
  returns the status, the element and the offset after it; on an error the element is left alone.
\<close>

record hdkey_zip32_tag =
  tag_value :: "bytes option"
  tag_length :: nat

definition hdkey_zip32_parse_tlv_tag ::
  "u8 \<Rightarrow> bytes option \<Rightarrow> nat \<Rightarrow> hdkey_zip32_tag \<Rightarrow> nat \<Rightarrow> (os_result \<times> hdkey_zip32_tag \<times> nat) res" where
  "hdkey_zip32_parse_tlv_tag expected_tag buffer buffer_len out_tag offset =
     (case buffer of
        None \<Rightarrow> Inr (OS_SUCCESS, \<lparr>tag_value = None, tag_length = 0\<rparr>, offset)
      | Some b \<Rightarrow>
          if offset \<ge> buffer_len then Inr (OS_ERR_OVERFLOW, out_tag, offset)
          else if offset + 2 > buffer_len then Inr (OS_ERR_SHORT_BUFFER, out_tag, offset)
          else res_bind (mem_get b offset) (\<lambda>tag. res_bind (mem_get b (offset + 1)) (\<lambda>len.
            if tag \<noteq> expected_tag then Inr (OS_ERR_NOT_FOUND, out_tag, offset + 2)
            else if offset + 2 + unat len > buffer_len then Inr (OS_ERR_OVERFLOW, out_tag, offset + 2)
            else Inr (OS_SUCCESS,
                   \<lparr>tag_value = (if len = 0 then None else Some (drop (offset + 2) b)), tag_length = unat len\<rparr>,
                   offset + 2 + unat len))))"

section \<open>Sapling\<close>

definition HDKEY_ZIP32_sapling_master_key ::
  "bn_lib \<Rightarrow> HDKEY_ZIP32_sapling_xsk option \<Rightarrow> bytes option \<Rightarrow> nat \<Rightarrow> HDKEY_ZIP32_sapling_xsk hd_op" where
  "HDKEY_ZIP32_sapling_master_key lib out_key seed seed_len =
     (case out_key of
        None \<Rightarrow> hd_err OS_ERR_BAD_PARAM
      | Some key \<Rightarrow>
          if seed = None then hd_err OS_ERR_BAD_PARAM
          else cx_to_os (
            op_bind (check_init (HDKEY_ZIP32_HASH_LEN * 8) PERSON_Z_SAPLING) (\<lambda>ctx.
            op_bind (check_update ctx seed seed_len) (\<lambda>ctx.
            op_bind (check_final ctx (replicate 64 0)) (\<lambda>I.
            let key = key\<lparr>xsk_chain_code := take 32 (drop 32 I)\<rparr> in
            op_bind (hdkey_zip32_prf_expand (Some (replicate 64 0)) 64 (Some I) HDKEY_ZIP32_KEY_LEN
                       (Some [HDKEY_ZIP32_TAG_MASTER_ASK]) 1) (\<lambda>tmp_out.
            op_bind (hdkey_zip32_to_scalar lib CX_CURVE_JUBJUB (Some tmp_out) 64 (Some (xsk_ask key)) 32) (\<lambda>ask.
            op_bind (hdkey_zip32_prf_expand (Some tmp_out) 64 (Some I) HDKEY_ZIP32_KEY_LEN
                       (Some [HDKEY_ZIP32_TAG_MASTER_NSK]) 1) (\<lambda>tmp_out.
            op_bind (hdkey_zip32_to_scalar lib CX_CURVE_JUBJUB (Some tmp_out) 64 (Some (xsk_nsk key)) 32) (\<lambda>nsk.
            op_bind (hdkey_zip32_prf_expand (Some tmp_out) 64 (Some I) HDKEY_ZIP32_KEY_LEN
                       (Some [HDKEY_ZIP32_TAG_MASTER_OVK]) 1) (\<lambda>tmp_out.
            let ovk = take 32 tmp_out in
            op_bind (hdkey_zip32_prf_expand (Some tmp_out) 64 (Some I) HDKEY_ZIP32_KEY_LEN
                       (Some [HDKEY_ZIP32_TAG_MASTER_DK]) 1) (\<lambda>tmp_out.
            op_ok (key\<lparr>xsk_ask := ask, xsk_nsk := nsk, xsk_ovk := ovk, xsk_dk := take 32 tmp_out\<rparr>))))))))))))"

text \<open>\<open>[0x11] || ask || nsk || ovk || dk || index\<close>\<close>

definition sapling_input :: "HDKEY_ZIP32_sapling_xsk \<Rightarrow> u32 \<Rightarrow> bytes res" where
  "sapling_input parent index = U4LE_ENCODE
     (buf_write (replicate 133 0) 0 ([HDKEY_ZIP32_TAG_CHILD_HARDENED] @ take 32 (xsk_ask parent) @
        take 32 (xsk_nsk parent) @ take 32 (xsk_ovk parent) @ take 32 (xsk_dk parent))) 129 index"

definition HDKEY_ZIP32_sapling_derive_child ::
  "bn_lib \<Rightarrow> HDKEY_ZIP32_sapling_xsk option \<Rightarrow> HDKEY_ZIP32_sapling_xsk option \<Rightarrow> u32 \<Rightarrow>
     HDKEY_ZIP32_sapling_xsk hd_op" where
  "HDKEY_ZIP32_sapling_derive_child lib out_child parent index =
     (case (out_child, parent) of
        (Some child, Some parent) \<Rightarrow> cx_to_os (
          op_bind (op_res (sapling_input parent index)) (\<lambda>input_data.
          op_bind (hdkey_zip32_prf_expand (Some (replicate 64 0)) 64 (Some (xsk_chain_code parent))
                     HDKEY_ZIP32_KEY_LEN (Some input_data) 133) (\<lambda>I.
          let child = child\<lparr>xsk_chain_code := take 32 (drop 32 I)\<rparr> in
          op_bind (hdkey_zip32_prf_expand (Some (replicate 64 0)) 64 (Some I) HDKEY_ZIP32_KEY_LEN
                     (Some [HDKEY_ZIP32_TAG_CHILD_ASK]) 1) (\<lambda>hash.
          op_bind (hdkey_zip32_to_scalar lib CX_CURVE_JUBJUB (Some hash) 64 (Some (replicate 32 0)) 32) (\<lambda>scalar.
          op_bind (hdkey_zip32_add_scalar lib CX_CURVE_JUBJUB (Some (xsk_ask child)) 32 (Some scalar) 32
                     (Some (xsk_ask parent)) 32) (\<lambda>ask.
          op_bind (hdkey_zip32_prf_expand (Some hash) 64 (Some I) HDKEY_ZIP32_KEY_LEN
                     (Some [HDKEY_ZIP32_TAG_CHILD_NSK]) 1) (\<lambda>hash.
          op_bind (hdkey_zip32_to_scalar lib CX_CURVE_JUBJUB (Some hash) 64 (Some (replicate 32 0)) 32) (\<lambda>scalar.
          op_bind (hdkey_zip32_add_scalar lib CX_CURVE_JUBJUB (Some (xsk_nsk child)) 32 (Some scalar) 32
                     (Some (xsk_nsk parent)) 32) (\<lambda>nsk.
          op_bind (hdkey_zip32_prf_expand (Some hash) 64 (Some I) HDKEY_ZIP32_KEY_LEN
                     (Some (HDKEY_ZIP32_TAG_CHILD_OVK # take 32 (xsk_ovk parent))) 33) (\<lambda>hash.
          let ovk = take 32 hash in
          op_bind (hdkey_zip32_prf_expand (Some hash) 64 (Some I) HDKEY_ZIP32_KEY_LEN
                     (Some (HDKEY_ZIP32_TAG_CHILD_DK # take 32 (xsk_dk parent))) 33) (\<lambda>hash.
          op_ok (child\<lparr>xsk_ask := ask, xsk_nsk := nsk, xsk_ovk := ovk, xsk_dk := take 32 hash\<rparr>))))))))))))
      | _ \<Rightarrow> hd_err OS_ERR_BAD_PARAM)"

text \<open>The loop over \<open>n\<close> indices from \<open>i\<close> with the child that was derived last and its parent.\<close>

fun sapling_loop ::
  "bn_lib \<Rightarrow> bytes option \<Rightarrow> nat \<Rightarrow> nat \<Rightarrow> HDKEY_ZIP32_sapling_xsk \<Rightarrow> HDKEY_ZIP32_sapling_xsk \<Rightarrow>
     HDKEY_ZIP32_sapling_xsk hd_op" where
  "sapling_loop lib path i 0 out_child parent = hd_ok out_child"
| "sapling_loop lib path i (Suc n) out_child parent =
     hd_bind (hd_res (path_index path i)) (\<lambda>index.
     hd_bind (HDKEY_ZIP32_sapling_derive_child lib (Some out_child) (Some parent) index) (\<lambda>out_child.
       sapling_loop lib path (i + 1) n out_child out_child))"

text \<open>
  The end of a derivation: an error erases the parameters. The result is the status, the parameters
  and the two output buffers of the caller, which an error may leave written.
\<close>

type_synonym hd_out = "os_result \<times> HDKEY_params option \<times> bytes option \<times> bytes option"

definition hd_finish ::
  "HDKEY_params \<Rightarrow> (os_result \<times> bytes option \<times> bytes option) hd_op \<Rightarrow> mpi_state \<Rightarrow> (hd_out \<times> mpi_state) res" where
  "hd_finish params m s =
     (case m s of
        Inl e \<Rightarrow> Inl e
      | Inr (Inl os_error, s') \<Rightarrow> Inr ((os_error, Some hdkey_zero, hd_private_key params, hd_chain params), s')
      | Inr (Inr (os_error, private_key, chain), s') \<Rightarrow>
          Inr ((os_error,
                Some (if os_error \<noteq> OS_SUCCESS then hdkey_zero
                      else params\<lparr>hd_private_key := private_key, hd_chain := chain\<rparr>),
                private_key, chain), s'))"

definition hd_refuse :: "HDKEY_params option \<Rightarrow> mpi_state \<Rightarrow> (hd_out \<times> mpi_state) res" where
  "hd_refuse params_ptr s = Inr ((OS_ERR_BAD_PARAM, params_ptr,
     Option.bind params_ptr hd_private_key, Option.bind params_ptr hd_chain), s)"

text \<open>The four parts of a Sapling key one after the other.\<close>

definition sapling_copy :: "bytes option \<Rightarrow> HDKEY_ZIP32_sapling_xsk \<Rightarrow> bytes option res" where
  "sapling_copy private_key xsk = (case private_key of None \<Rightarrow> Inl Oob
     | Some buf \<Rightarrow> res_bind (mem_write buf 0 (xsk_ask xsk)) (\<lambda>buf.
         res_bind (mem_write buf 32 (xsk_nsk xsk)) (\<lambda>buf.
         res_bind (mem_write buf 64 (xsk_ovk xsk)) (\<lambda>buf.
         res_bind (mem_write buf 96 (xsk_dk xsk)) (\<lambda>buf. Inr (Some buf))))))"

definition HDKEY_ZIP32_sapling_derive ::
  "bn_lib \<Rightarrow> env_seed \<Rightarrow> HDKEY_params option \<Rightarrow> mpi_state \<Rightarrow> (hd_out \<times> mpi_state) res" where
  "HDKEY_ZIP32_sapling_derive lib env params_ptr =
     (case params_ptr of
        None \<Rightarrow> hd_refuse params_ptr
      | Some params \<Rightarrow>
          if hd_private_key params = None \<or> hd_path params = None then hd_refuse params_ptr
          else hd_finish params
            (if hd_chain params \<noteq> None \<and> unat (hd_chain_len params) \<noteq> 32 then hd_err OS_ERR_BAD_LEN
             else if unat (hd_private_key_len params) < 128 then hd_err OS_ERR_SHORT_BUFFER
             else
               hd_bind (hdkey_zip32_get_seed env 64) (\<lambda>tmp_seed.
               hd_bind (HDKEY_ZIP32_sapling_master_key lib (Some sapling_zero) (Some tmp_seed) 64) (\<lambda>parent.
               hd_bind (sapling_loop lib (hd_path params) 0 (unat (hd_path_len params)) sapling_zero parent) (\<lambda>out_child.
               hd_bind (hd_res (sapling_copy (hd_private_key params) out_child)) (\<lambda>private_key.
               hd_bind (hd_res (copy_out (hd_chain params) (xsk_chain_code out_child))) (\<lambda>chain.
                 hd_ok (OS_SUCCESS, private_key, chain))))))))"

section \<open>Orchard\<close>

definition hard_sk_of :: "bytes \<Rightarrow> HDKEY_ZIP32_hard_sk" where
  "hard_sk_of I = \<lparr>hsk_sk = take 32 I, hsk_chain_code = take 32 (drop 32 I)\<rparr>"

definition HDKEY_ZIP32_orchard_master_key ::
  "HDKEY_ZIP32_hard_sk option \<Rightarrow> bytes option \<Rightarrow> nat \<Rightarrow> HDKEY_ZIP32_hard_sk hd_op" where
  "HDKEY_ZIP32_orchard_master_key out_key seed seed_len =
     (if out_key = None \<or> seed = None then hd_err OS_ERR_BAD_PARAM
      else cx_to_os (
        op_bind (check_init (HDKEY_ZIP32_HASH_LEN * 8) PERSON_ORCHARD) (\<lambda>ctx.
        op_bind (check_update ctx seed seed_len) (\<lambda>ctx.
        op_bind (check_final ctx (replicate 64 0)) (\<lambda>I. op_ok (hard_sk_of I))))))"

text \<open>\<open>tag || sk || index\<close>\<close>

definition hard_input :: "u8 \<Rightarrow> HDKEY_ZIP32_hard_sk \<Rightarrow> u32 \<Rightarrow> bytes res" where
  "hard_input ckd_domain parent index =
     U4LE_ENCODE (buf_write (replicate 37 0) 0 (ckd_domain # take 32 (hsk_sk parent))) 33 index"

definition HDKEY_ZIP32_orchard_derive_child ::
  "HDKEY_ZIP32_hard_sk option \<Rightarrow> HDKEY_ZIP32_hard_sk option \<Rightarrow> u32 \<Rightarrow> HDKEY_ZIP32_hard_sk hd_op" where
  "HDKEY_ZIP32_orchard_derive_child out_child parent index =
     (case (out_child, parent) of
        (Some _, Some parent) \<Rightarrow> cx_to_os (
          op_bind (op_res (hard_input HDKEY_ZIP32_TAG_ORCHARD_DOMAIN parent index)) (\<lambda>data.
          op_bind (hdkey_zip32_prf_expand (Some (replicate 64 0)) 64 (Some (hsk_chain_code parent)) 32
                     (Some data) 37) (\<lambda>I. op_ok (hard_sk_of I))))
      | _ \<Rightarrow> hd_err OS_ERR_BAD_PARAM)"

fun orchard_loop ::
  "bytes option \<Rightarrow> nat \<Rightarrow> nat \<Rightarrow> HDKEY_ZIP32_hard_sk \<Rightarrow> HDKEY_ZIP32_hard_sk \<Rightarrow> HDKEY_ZIP32_hard_sk hd_op" where
  "orchard_loop path i 0 out_child parent = hd_ok out_child"
| "orchard_loop path i (Suc n) out_child parent =
     hd_bind (hd_res (path_index path i)) (\<lambda>index.
     hd_bind (HDKEY_ZIP32_orchard_derive_child (Some out_child) (Some parent) index) (\<lambda>out_child.
       orchard_loop path (i + 1) n out_child out_child))"

definition hard_sk_copy ::
  "os_result \<Rightarrow> HDKEY_params \<Rightarrow> HDKEY_ZIP32_hard_sk \<Rightarrow> (os_result \<times> bytes option \<times> bytes option) hd_op" where
  "hard_sk_copy os_error params out_child =
     hd_bind (hd_res (copy_out (hd_private_key params) (hsk_sk out_child))) (\<lambda>private_key.
     hd_bind (hd_res (copy_out (hd_chain params) (hsk_chain_code out_child))) (\<lambda>chain.
       hd_ok (os_error, private_key, chain)))"

definition HDKEY_ZIP32_orchard_derive ::
  "env_seed \<Rightarrow> HDKEY_params option \<Rightarrow> mpi_state \<Rightarrow> (hd_out \<times> mpi_state) res" where
  "HDKEY_ZIP32_orchard_derive env params_ptr =
     (case params_ptr of
        None \<Rightarrow> hd_refuse params_ptr
      | Some params \<Rightarrow>
          if hd_private_key params = None \<or> hd_path params = None then hd_refuse params_ptr
          else hd_finish params
            (if unat (hd_private_key_len params) < HDKEY_ZIP32_KEY_LEN then hd_err OS_ERR_SHORT_BUFFER
             else if hd_chain params \<noteq> None \<and> unat (hd_chain_len params) \<noteq> HDKEY_ZIP32_KEY_LEN
             then hd_err OS_ERR_BAD_LEN
             else
               hd_bind (hdkey_zip32_get_seed env 64) (\<lambda>tmp_seed.
               hd_bind (HDKEY_ZIP32_orchard_master_key (Some hard_sk_zero) (Some tmp_seed) 64) (\<lambda>parent.
               hd_bind (orchard_loop (hd_path params) 0 (unat (hd_path_len params)) hard_sk_zero parent)
                 (hard_sk_copy OS_SUCCESS params)))))"

section \<open>Registered keys\<close>

definition HDKEY_ZIP32_hardened_derive_child ::
  "HDKEY_ZIP32_hard_sk option \<Rightarrow> HDKEY_ZIP32_hard_sk option \<Rightarrow> u32 \<Rightarrow> u8 \<Rightarrow> u8 \<Rightarrow> bytes option \<Rightarrow> nat \<Rightarrow>
     HDKEY_ZIP32_hard_sk hd_op" where
  "HDKEY_ZIP32_hardened_derive_child out_child parent index ckd_domain lead tag_seq tag_seq_len =
     (case (out_child, parent) of
        (Some _, Some parent) \<Rightarrow> cx_to_os (
          op_bind (op_res (hard_input ckd_domain parent index)) (\<lambda>data.
          op_bind (check_init (64 * 8) PERSON_Z_EXPAND) (\<lambda>ctx.
          op_bind (check_update ctx (Some (hsk_chain_code parent)) 32) (\<lambda>ctx.
          op_bind (check_update ctx (Some data) 37) (\<lambda>ctx.
          op_bind (if lead \<noteq> 0 \<or> tag_seq \<noteq> None then check_update ctx (Some [lead]) 1 else op_ok ctx) (\<lambda>ctx.
          op_bind (if tag_seq \<noteq> None then check_update ctx tag_seq tag_seq_len else op_ok ctx) (\<lambda>ctx.
          op_bind (check_final ctx (replicate 64 0)) (\<lambda>I. op_ok (hard_sk_of I)))))))))
      | _ \<Rightarrow> hd_err OS_ERR_BAD_PARAM)"

text \<open>The update with the context string, whose status is not looked at.\<close>

definition unchecked_update :: "cx_blake2b \<Rightarrow> bytes option \<Rightarrow> nat \<Rightarrow> cx_blake2b mpi_op" where
  "unchecked_update ctx data len = op_res (let (ctx, r) = spec_cx_blake2b_update ctx data len in
     res_bind r (\<lambda>_. Inr ctx))"

text \<open>The lengths are hashed as their lowest byte.\<close>

definition HDKEY_ZIP32_hardened_subtree_root_key ::
  "HDKEY_ZIP32_hard_sk option \<Rightarrow> u32 \<Rightarrow> bytes option \<Rightarrow> nat \<Rightarrow> bytes option \<Rightarrow> nat \<Rightarrow> HDKEY_ZIP32_hard_sk hd_op" where
  "HDKEY_ZIP32_hardened_subtree_root_key out_key zipnumber seed seed_len context_str context_str_len =
     (if seed = None then hd_err OS_ERR_BAD_PARAM
      else
        hd_bind (cx_to_os (
          op_bind (check_init (HDKEY_ZIP32_HASH_LEN * 8) DOMAIN_REGISTERED) (\<lambda>ctx.
          op_bind (check_update ctx (Some [of_nat context_str_len]) 1) (\<lambda>ctx.
          op_bind (if context_str \<noteq> None then unchecked_update ctx context_str context_str_len else op_ok ctx) (\<lambda>ctx.
          op_bind (check_update ctx (Some [of_nat seed_len]) 1) (\<lambda>ctx.
          op_bind (check_update ctx seed seed_len) (\<lambda>ctx.
          op_bind (check_final ctx (replicate 64 0)) (\<lambda>I. op_ok (hard_sk_of I)))))))))
        (\<lambda>parent. HDKEY_ZIP32_hardened_derive_child out_key (Some parent) zipnumber
                     HDKEY_ZIP32_TAG_REGISTERED_DOMAIN 0 None 0))"

text \<open>The loop returns the last status with the last child: a tag that is not found does not stop it.\<close>

fun registered_loop ::
  "HDKEY_params \<Rightarrow> nat \<Rightarrow> nat \<Rightarrow> os_result \<Rightarrow> HDKEY_ZIP32_hard_sk \<Rightarrow> HDKEY_ZIP32_hard_sk \<Rightarrow> hdkey_zip32_tag \<Rightarrow>
     nat \<Rightarrow> (os_result \<times> HDKEY_ZIP32_hard_sk) hd_op" where
  "registered_loop params i 0 os_error out_child parent tag tag_offset = hd_ok (os_error, out_child)"
| "registered_loop params i (Suc n) os_error out_child parent tag tag_offset =
     hd_bind (hd_res (path_index (hd_path params) i)) (\<lambda>index.
     hd_bind (HDKEY_ZIP32_hardened_derive_child (Some out_child) (Some parent) index
                HDKEY_ZIP32_TAG_REGISTERED_DOMAIN 0 (tag_value tag) (tag_length tag)) (\<lambda>out_child.
       if tag_offset \<ge> unat (hd_seed_key_len params)
       then registered_loop params (i + 1) n OS_SUCCESS out_child out_child tag tag_offset
       else
         hd_bind (hd_res (hdkey_zip32_parse_tlv_tag HDKEY_ZIP32_TAG_SEQUENCE_STR (hd_seed_key params)
                    (unat (hd_seed_key_len params)) tag tag_offset)) (\<lambda>(os_error, tag, tag_offset).
           if os_error \<noteq> OS_SUCCESS \<and> os_error \<noteq> OS_ERR_NOT_FOUND then hd_err os_error
           else registered_loop params (i + 1) n os_error out_child out_child tag tag_offset)))"

definition parse_or_fail ::
  "u8 \<Rightarrow> HDKEY_params \<Rightarrow> hdkey_zip32_tag \<Rightarrow> nat \<Rightarrow> (hdkey_zip32_tag \<times> nat) hd_op" where
  "parse_or_fail expected_tag params tag tag_offset =
     hd_bind (hd_res (hdkey_zip32_parse_tlv_tag expected_tag (hd_seed_key params)
                (unat (hd_seed_key_len params)) tag tag_offset)) (\<lambda>(os_error, tag, tag_offset).
       if os_error \<noteq> OS_SUCCESS then hd_err os_error else hd_ok (tag, tag_offset))"

definition HDKEY_ZIP32_registered_derive ::
  "env_seed \<Rightarrow> HDKEY_params option \<Rightarrow> mpi_state \<Rightarrow> (hd_out \<times> mpi_state) res" where
  "HDKEY_ZIP32_registered_derive env params_ptr =
     (case params_ptr of
        None \<Rightarrow> hd_refuse params_ptr
      | Some params \<Rightarrow>
          if hd_private_key params = None \<or> hd_path params = None then hd_refuse params_ptr
          else hd_finish params
            (if unat (hd_private_key_len params) < 32 then hd_err OS_ERR_SHORT_BUFFER
             else if hd_chain params \<noteq> None \<and> unat (hd_chain_len params) \<noteq> 32 then hd_err OS_ERR_BAD_LEN
             else
               hd_bind (hdkey_zip32_get_seed env 64) (\<lambda>tmp_seed.
               hd_bind (parse_or_fail HDKEY_ZIP32_TAG_CONTEXT_STR params \<lparr>tag_value = None, tag_length = 0\<rparr> 0)
                 (\<lambda>(tag, tag_offset).
               hd_bind (hd_res (path_index (hd_path params) 0)) (\<lambda>zipnumber.
               hd_bind (HDKEY_ZIP32_hardened_subtree_root_key (Some hard_sk_zero) zipnumber (Some tmp_seed) 64
                          (tag_value tag) (tag_length tag)) (\<lambda>parent.
               hd_bind (parse_or_fail HDKEY_ZIP32_TAG_SEQUENCE_STR params tag tag_offset) (\<lambda>(tag, tag_offset).
               hd_bind (registered_loop params 1 (unat (hd_path_len params) - 1) OS_SUCCESS hard_sk_zero parent
                          tag tag_offset)
                 (\<lambda>(os_error, out_child). hard_sk_copy os_error params out_child))))))))"

section \<open>The system call\<close>

text \<open>\<open>hdkey.c\<close>. The contexts of HMAC and of the big numbers are the state; the outputs are the buffers.\<close>

definition HDKEY_derive ::
  "app_info \<Rightarrow> env_seed \<Rightarrow> bn_lib \<Rightarrow> HDKEY_params option \<Rightarrow> cx_hmac_ctx \<times> mpi_state \<Rightarrow>
     ((os_result \<times> bytes option \<times> bytes option) \<times> cx_hmac_ctx \<times> mpi_state) res" where
  "HDKEY_derive app env lib params_ptr = (\<lambda>(G, s).
     case params_ptr of
       None \<Rightarrow> Inr ((OS_ERR_BAD_PARAM, None, None), G, s)
     | Some params \<Rightarrow>
         res_bind (HDKEY_VALIDATE_secure_context app params_ptr) (\<lambda>os_error.
           if os_error \<noteq> OS_SUCCESS then Inr ((os_error, hd_private_key params, hd_chain params), G, s)
           else if hd_mode params = HDKEY_DERIVE_MODE_BLS12377_ALEO then
             (case HDKEY_BLS12377_derive env G params_ptr of
                (G, Inl e) \<Rightarrow> Inl e
              | (G, Inr (os_error, ps)) \<Rightarrow>
                  Inr ((if os_error = OS_SUCCESS
                        then (os_error, Option.bind ps hd_private_key, Option.bind ps hd_chain)
                        else (os_error, hd_private_key params, hd_chain params)), G, s))
           else if hd_mode params = HDKEY_DERIVE_MODE_ZIP32_SAPLING then
             res_bind (HDKEY_ZIP32_sapling_derive lib env params_ptr s)
               (\<lambda>((os_error, _, private_key, chain), s). Inr ((os_error, private_key, chain), G, s))
           else if hd_mode params = HDKEY_DERIVE_MODE_ZIP32_ORCHARD then
             res_bind (HDKEY_ZIP32_orchard_derive env params_ptr s)
               (\<lambda>((os_error, _, private_key, chain), s). Inr ((os_error, private_key, chain), G, s))
           else if hd_mode params = HDKEY_DERIVE_MODE_ZIP32_REGISTERED then
             res_bind (HDKEY_ZIP32_registered_derive env params_ptr s)
               (\<lambda>((os_error, _, private_key, chain), s). Inr ((os_error, private_key, chain), G, s))
           else Inr ((OS_ERR_NOT_IMPLEMENTED, hd_private_key params, hd_chain params), G, s)))"

definition hdkey_status :: "os_result \<Rightarrow> u32" where
  "hdkey_status result =
     (case result of
        OS_SUCCESS \<Rightarrow> 0x0000
      | OS_ERR_ACCESS_DENIED \<Rightarrow> 0x550B
      | OS_ERR_NOT_FOUND \<Rightarrow> 0x4214
      | OS_ERR_INTEGRITY \<Rightarrow> 0x521D
      | OS_ERR_OVERFLOW \<Rightarrow> 0x420E
      | OS_ERR_BAD_FORMAT \<Rightarrow> 0x4210
      | OS_ERR_NOT_IMPLEMENTED \<Rightarrow> 0x4213
      | OS_ERR_FORBIDDEN \<Rightarrow> 0x4215
      | OS_ERR_CRYPTO_INTERNAL \<Rightarrow> 0x3308
      | OS_ERR_SHORT_BUFFER \<Rightarrow> 0x4212
      | _ \<Rightarrow> 0x420E)"

definition sys_hdkey_derive ::
  "app_info \<Rightarrow> env_seed \<Rightarrow> bn_lib \<Rightarrow> u32 \<Rightarrow> cx_curve \<Rightarrow> bytes option \<Rightarrow> u32 \<Rightarrow> bytes option \<Rightarrow> u32 \<Rightarrow>
     bytes option \<Rightarrow> u32 \<Rightarrow> bytes option \<Rightarrow> u32 \<Rightarrow> cx_hmac_ctx \<times> mpi_state \<Rightarrow>
     ((u32 \<times> bytes option \<times> bytes option) \<times> cx_hmac_ctx \<times> mpi_state) res" where
  "sys_hdkey_derive app env lib derivation_mode curve path path_len private_key private_key_len
       chain_code chain_code_len seed seed_len st =
     (if private_key = None \<or> private_key_len = 0 then Inr ((0x420E, private_key, chain_code), st)
      else if path = None \<and> path_len \<noteq> 0 then Inr ((0x420E, private_key, chain_code), st)
      else if chain_code = None \<and> chain_code_len \<noteq> 0 then Inr ((0x420E, private_key, chain_code), st)
      else if seed = None \<and> seed_len \<noteq> 0 then Inr ((0x420E, private_key, chain_code), st)
      else
        let params = \<lparr>hd_mode = derivation_mode, hd_from_app = True, hd_curve = curve, hd_path_len = path_len,
              hd_private_key_len = private_key_len, hd_chain_len = chain_code_len, hd_seed_key_len = seed_len,
              hd_path = path, hd_private_key = private_key, hd_chain = chain_code, hd_seed_key = seed\<rparr>
        in res_bind (HDKEY_derive app env lib (Some params) st) (\<lambda>((result, private_key, chain_code), st).
             Inr ((hdkey_status result, private_key, chain_code), st)))"

end
