(* ===== verification/Zip32_Calls.thy ===== *)
theory Zip32_Calls
  imports Hdkey_Zip32 Bn_Theorems Hd_Derive
begin

text \<open>
  What the calls below the ZIP-32 derivations compute: BLAKE2b-512 with a personalisation, the
  reduction of a hash to a scalar of Jubjub and the addition of scalars.
\<close>

section \<open>Sequences of calls\<close>

lemma op_res_simps [simp]:
  "op_res (Inr x) = op_ok x" "op_bind (op_ok x) f = f x" "op_bind (op_err e) f = op_err e"
  by (rule ext, simp add: op_res_def op_ok_def op_err_def op_bind_def)+

lemma hd_simps [simp]:
  "hd_bind (hd_ok x) f = f x" "hd_bind (hd_err e) f = hd_err e" "hd_res (Inr x) = hd_ok x"
  "cx_to_os (op_ok x) = hd_ok x"
  by (rule ext, simp add: hd_bind_def hd_ok_def hd_err_def hd_res_def cx_to_os_def op_ok_def)+

lemma hd_bind_run: "m s = Inr (Inr x, s') \<Longrightarrow> hd_bind m f s = f x s'"
  by (simp add: hd_bind_def)

lemma op_bind_run: "m s = Inr (Inr x, s') \<Longrightarrow> op_bind m f s = f x s'"
  by (simp add: op_bind_def)

lemma cx_to_os_run: "m s = Inr (Inr x, s') \<Longrightarrow> cx_to_os m s = Inr (Inr x, s')"
  by (simp add: cx_to_os_def)

section \<open>BLAKE2b\<close>

definition BLAKE2b_512 :: "bytes \<Rightarrow> bytes \<Rightarrow> bytes" where
  "BLAKE2b_512 person m = rfc7693_digest (rfc7693_h 64 0 [] person) 64 m"

abbreviation absorbed_512 :: "bytes \<Rightarrow> cx_blake2b \<Rightarrow> bytes \<Rightarrow> bool" where
  "absorbed_512 person \<equiv> cx_blake2b_absorbed (rfc7693_h 64 0 [] person) 64"

lemma length_BLAKE2b_512 [simp]: "length (BLAKE2b_512 person m) = 64"
  by (simp add: BLAKE2b_512_def rfc7693_digest_length)

lemma blake2b_init2_512:
  assumes "length person \<le> 16"
  obtains c where "cx_blake2b_init2 512 None 0 (Some person) (length person) = Inr c" "absorbed_512 person c []"
  using cx_blake2b_init2_absorbed [of 512 None "Some person"] assms
  by (auto simp: opt_bytes_def cx_blake2b_absorbed_def)

text \<open>The steps of a hash as rules: the rest of the computation is run on a context that has absorbed more.\<close>

lemma check_init_run:
  assumes "length person \<le> 16" and "\<And>c. absorbed_512 person c [] \<Longrightarrow> f c s = R"
  shows "op_bind (check_init 512 person) f s = R"
proof -
  obtain c where "cx_blake2b_init2 512 None 0 (Some person) (length person) = Inr c" "absorbed_512 person c []"
    by (rule blake2b_init2_512 [OF assms(1)])
  then show ?thesis using assms(2) by (simp add: check_init_def)
qed

lemma blake2b_update_take:
  "n \<le> length d \<Longrightarrow> spec_blake2b_update S (Some d) n = spec_blake2b_update S (Some (take n d)) (length (take n d))"
  by (simp add: spec_blake2b_update_def mem_arg_def mem_read_def)

lemma blake2b_update_512:
  assumes "absorbed_512 person c m" and "n \<le> length d"
  obtains c' where "spec_cx_blake2b_update c (Some d) n = (c', Inr 1)" "absorbed_512 person c' (m @ take n d)"
  using assms blake2b_absorbed_update [of "rfc7693_h 64 0 [] person" 64 "blake2b_ctx c" m "take n d"]
  by (fastforce simp: blake2b_update_take [of n d] spec_cx_blake2b_update_def cx_blake2b_absorbed_def)

lemma check_update_run:
  assumes "absorbed_512 person c m" and "n \<le> length d"
    and "\<And>c'. absorbed_512 person c' (m @ take n d) \<Longrightarrow> f c' s = R"
  shows "op_bind (check_update c (Some d) n) f s = R"
proof -
  obtain c' where "spec_cx_blake2b_update c (Some d) n = (c', Inr 1)" "absorbed_512 person c' (m @ take n d)"
    by (rule blake2b_update_512 [OF assms(1,2)])
  then show ?thesis using assms(3) by (simp add: check_update_def)
qed

lemma unchecked_update_run:
  assumes "absorbed_512 person c m" and "n \<le> length d"
    and "\<And>c'. absorbed_512 person c' (m @ take n d) \<Longrightarrow> f c' s = R"
  shows "op_bind (unchecked_update c (Some d) n) f s = R"
proof -
  obtain c' where "spec_cx_blake2b_update c (Some d) n = (c', Inr 1)" "absorbed_512 person c' (m @ take n d)"
    by (rule blake2b_update_512 [OF assms(1,2)])
  then show ?thesis using assms(3) by (simp add: unchecked_update_def)
qed

lemma check_final_run:
  assumes "absorbed_512 person c m" and "length out = 64"
  shows "check_final c out s = Inr (Inr (BLAKE2b_512 person m), s)"
proof -
  obtain S' where "spec_blake2b_final (blake2b_ctx c) (Some out) 64 =
      res_bind (mem_write out 0 (BLAKE2b_512 person m)) (\<lambda>o2. Inr (S', Some o2, True))"
    using blake2b_absorbed_final [of "rfc7693_h 64 0 [] person" 64 "blake2b_ctx c" m 64 out] assms(1)
    by (auto simp: cx_blake2b_absorbed_def BLAKE2b_512_def)
  then show ?thesis
    using assms by (simp add: check_final_def spec_cx_blake2b_final_def cx_blake2b_absorbed_def mem_write_def
        buf_write_def op_ok_def)
qed

lemma person_lengths [simp]:
  "length PERSON_Z_EXPAND \<le> 16" "length PERSON_Z_SAPLING \<le> 16" "length PERSON_ORCHARD \<le> 16"
  "length DOMAIN_REGISTERED \<le> 16"
  by (simp_all add: PERSON_Z_EXPAND_def PERSON_Z_SAPLING_def PERSON_ORCHARD_def DOMAIN_REGISTERED_def)

text \<open>\<open>PRF^expand\<close> of the Zcash protocol.\<close>

definition PRF_expand :: "bytes \<Rightarrow> bytes \<Rightarrow> bytes" where
  "PRF_expand k t = BLAKE2b_512 PERSON_Z_EXPAND (k @ t)"

lemma length_PRF_expand [simp]: "length (PRF_expand k t) = 64"
  by (simp add: PRF_expand_def)

lemma prf_expand_run:
  assumes "length out = 64" and "kl \<le> length k" and "n \<le> length t"
  shows "hdkey_zip32_prf_expand (Some out) 64 (Some k) kl (Some t) n s = Inr (Inr (PRF_expand (take kl k) (take n t)), s)"
  unfolding hdkey_zip32_prf_expand_def option.case PRF_expand_def
  using assms
  by (simp, intro check_init_run check_update_run check_final_run [where m = "take kl k @ take n t"]) (assumption | simp)+

section \<open>The big number module of a derivation\<close>

text \<open>The locked module with word size \<open>w\<close> in which the numbers \<open>vs\<close> were allocated, one word each.\<close>

definition bn_mod :: "u32 \<Rightarrow> int list \<Rightarrow> mpi_state" where
  "bn_mod w vs = \<lparr>local_bn_ctx = True,
     cx_mpi_array = map (\<lambda>v. \<lparr>slot_mpi = Some v, slot_size = w\<rparr>) vs @ replicate (64 - length vs) empty_slot,
     mpi_words_count = of_nat (length vs), mpi_word_size = w, mpi_total_memory = of_nat (length vs) * w\<rparr>"

definition key_word :: "u32 \<Rightarrow> bool" where
  "key_word w \<longleftrightarrow> w = 32 \<or> w = 64"

lemma key_word_sizes:
  assumes "key_word w"
  shows "size_to_mpi_bytes w = w" "w div w = 1" "size_to_mpi_word_bytes (bn_mod w vs) w = w" "unat w \<le> 64" "w \<noteq> 0"
    "16 \<le> w" "w AND 15 = 0"
  using assms by (auto simp: key_word_def size_to_mpi_bytes_def size_to_mpi_word_bytes_def bn_mod_def
      CX_MPI_WORD_BYTE_SIZE_def Let_def)

lemma bn_mod_used: "used_memory (cx_mpi_array (bn_mod w vs)) = of_nat (length vs) * w"
proof -
  have "sum_list (map slot_size (map (\<lambda>v. \<lparr>slot_mpi = Some v, slot_size = w\<rparr>) vs)) = of_nat (length vs) * w"
    by (induction vs) (simp_all add: algebra_simps)
  then show ?thesis by (simp add: used_memory_def bn_mod_def empty_slot_def sum_list_replicate)
qed

lemma bn_mod_fields [simp]:
  "local_bn_ctx (bn_mod w vs)" "mpi_word_size (bn_mod w vs) = w" "mpi_words_count (bn_mod w vs) = of_nat (length vs)"
  "mpi_total_memory (bn_mod w vs) = of_nat (length vs) * w"
  by (simp_all add: bn_mod_def)

lemma bn_mod_array:
  assumes "key_word w" and "length vs \<le> 64"
  shows "length (cx_mpi_array (bn_mod w vs)) = 64" and "list_all (slot_ok w) (cx_mpi_array (bn_mod w vs))"
  using assms key_word_sizes(2) [OF assms(1)] by (auto simp: bn_mod_def list_all_iff slot_ok_def empty_slot_def)

lemma bn_mod_locked:
  assumes "key_word w" and "length vs \<le> 64"
  shows "locked_inv (bn_mod w vs)" and "small_words (bn_mod w vs)"
  using bn_mod_array [OF assms] key_word_sizes(4,6,7) [OF assms(1)]
  by (simp_all add: locked_inv_def mpi_inv_def bn_mod_used MAX_MPI_ARRAY_ENTRIES_def small_words_def)

lemma bn_mod_abs: "i < length vs \<Longrightarrow> length vs \<le> 64 \<Longrightarrow> bn_abs (bn_mod w vs) (of_nat i) = Some (vs ! i)"
  by (simp add: bn_abs_def bn_in_array_def bn_mod_def MAX_MPI_ARRAY_ENTRIES_def unat_of_nat nth_append)

lemma bn_mod_put:
  "i < length vs \<Longrightarrow> length vs \<le> 64 \<Longrightarrow> put_bn (bn_mod w vs) (of_nat i) v = bn_mod w (vs[i := v])"
  by (simp add: put_bn_def bn_mod_def unat_of_nat nth_append list_update_append map_update)

lemma first_free_skip:
  "list_all (\<lambda>x. slot_mpi x \<noteq> None) xs \<Longrightarrow> first_free i (xs @ ys) = first_free (i + length xs) ys"
  by (induction xs arbitrary: i) auto

lemma first_free_bn_mod: "length vs < 64 \<Longrightarrow> first_free 0 (cx_mpi_array (bn_mod w vs)) = Some (length vs)"
proof -
  assume "length vs < 64"
  then obtain k where k: "64 - length vs = Suc k" by (metis Suc_diff_Suc)
  show ?thesis by (simp add: bn_mod_def first_free_skip list_all_iff k empty_slot_def)
qed

lemma bn_len_key_word:
  assumes "key_word w" and "n \<le> unat w"
  shows "unat (size_to_mpi_word_bytes (bn_mod w vs) (size_to_mpi_bytes (of_nat n))) = unat w"
proof -
  have "list_all (\<lambda>n. unat (let sz = size_to_mpi_bytes (of_nat n) in
      if sz = 0 then 64 else (sz + 63) div 64 * 64) = 64) [0..<65]"
    by code_simp
  then have "\<forall>n\<in>{0..<65}. unat (let sz = size_to_mpi_bytes (of_nat n) in
      if sz = 0 then 64 else (sz + 63) div 64 * 64) = 64"
    by (simp only: list_all_iff set_upt)
  moreover have "n \<in> {0..<65}" using assms key_word_sizes(4) [OF assms(1)] by simp
  ultimately have 64: "unat (let sz = size_to_mpi_bytes (of_nat n) in
      if sz = 0 then 64 else (sz + 63) div 64 * 64) = 64" by (rule bspec)
  show ?thesis
  proof (cases "w = 32")
    case True
    then show ?thesis using word_of_32 [of "bn_mod w vs" n] assms(2) by (simp add: bn_mod_def)
  next
    case False
    then have "w = 64" using assms(1) by (simp add: key_word_def)
    then show ?thesis using 64 by (auto simp: size_to_mpi_word_bytes_def bn_mod_def Let_def split: if_splits)
  qed
qed

context openssl_bn_total
begin

lemma lock_key_word:
  assumes "key_word w"
  shows "sys_cx_bn_lock lib w mpi_init_state = Inr (Inr (), bn_mod w [])"
  using key_word_sizes(1) [OF assms]
  by (simp add: sys_cx_bn_lock_def op_bind_def cx_bn_unlocked_def op_ok_def cx_mpi_lock_def
      sys_cx_bn_is_unlocked_def cx_get_bn_ctx_def mpi_init_state_def ctx_new_ok bn_mod_def)

lemma alloc_key_word:
  assumes "key_word w" and "length vs < 8"
  shows "sys_cx_bn_alloc lib w (bn_mod w vs) = Inr (Inr (of_nat (length vs)), bn_mod w (vs @ [0]))"
proof -
  have "unat (w + of_nat (length vs) * w) \<le> 2048"
  proof -
    have "unat (w * of_nat (Suc (length vs))) \<le> 64 * 8"
    proof -
      have "unat (w * of_nat (Suc (length vs))) = unat w * Suc (length vs)"
        using assms(2) key_word_sizes(4) [OF assms(1)] mult_le_mono [of "unat w" 64 "Suc (length vs)" 8]
        by (subst unat_mult_lem [THEN iffD1]) (simp_all add: unat_of_nat del: of_nat_Suc)
      then show ?thesis
        using assms(2) key_word_sizes(4) [OF assms(1)] mult_le_mono [of "unat w" 64 "Suc (length vs)" 8] by simp
    qed
    then show ?thesis by (simp add: algebra_simps)
  qed
  then have mem: "w + of_nat (length vs) * w \<le> MAX_MPI_BYTE_SIZE"
    by (simp add: word_le_nat_alt MAX_MPI_BYTE_SIZE_def)
  have k: "64 - length vs = Suc (63 - length vs)" "64 - length (vs @ [0 :: int]) = 63 - length vs"
    using assms(2) by simp_all
  have "take_slot (bn_mod w vs) (length vs) 0 w = bn_mod w (vs @ [0])"
    using key_word_sizes(2) [OF assms(1)]
    unfolding take_slot_def bn_mod_def k by (simp add: list_update_append algebra_simps)
  then show ?thesis
    using mem first_free_bn_mod [of vs w] assms(2) key_word_sizes(3) [OF assms(1), of vs] new_eq
    by (simp add: sys_cx_bn_alloc_def op_bind_def cx_bn_locked_def sys_cx_bn_is_locked_def cx_get_bn_ctx_def
        cx_mpi_alloc_def Let_def op_ok_def bn_mod_def)
qed

lemma alloc_init_key_word:
  assumes "key_word w" and "length vs < 8" and "n \<le> length bs"
  shows "sys_cx_bn_alloc_init lib w bs n (bn_mod w vs) =
    Inr (Inr (of_nat (length vs)), bn_mod w (vs @ [os2ip (take n bs)]))"
proof -
  let ?s = "bn_mod w (vs @ [0])"
  have "sys_cx_bn_init lib (of_nat (length vs)) bs n ?s = Inr (Inr (), bn_mod w (vs @ [os2ip (take n bs)]))"
    using init_run [OF bn_mod_locked(1) bn_mod_abs, of w "vs @ [0]" "length vs" n bs] assms
      bn_mod_put [of "length vs" "vs @ [0]" w] by simp
  then show ?thesis
    using alloc_key_word [OF assms(1,2)] by (simp add: sys_cx_bn_alloc_init_def op_bind_def op_ok_def)
qed

lemma export_key_word:
  assumes "key_word w" and "i < length vs" and "length vs \<le> 8" and "0 \<le> vs ! i" and "vs ! i < 256 ^ unat w"
    and "n \<le> length dst"
  shows "sys_cx_bn_export lib (of_nat i) dst n (bn_mod w vs) = Inr (Inr (i2osp n (vs ! i) @ drop n dst), bn_mod w vs)"
proof -
  have b: "byte_length (vs ! i) \<le> unat w" using assms(4,5) by (simp add: byte_length_le_iff)
  have w: "unat w \<le> 64" by (rule key_word_sizes(4) [OF assms(1)])
  have len: "bn_len lib (bn_mod w vs) (vs ! i) = unat w"
    using bn_len_key_word [OF assms(1) b] by (simp add: bn_len_def cx_mpi_nbytes_def num_bytes_val)
  show ?thesis
    by (rule export_run [OF bn_mod_locked bn_mod_abs]) (use assms b w len in simp_all)
qed

lemma unlock_key_word:
  assumes "key_word w" and "length vs \<le> 64"
  shows "sys_cx_bn_unlock (bn_mod w vs) = Inr (Inr (), mpi_init_state)"
  by (rule unlock_resets [OF bn_mod_locked(1) [OF assms]])

lemma unlocking_key_word:
  assumes "m s = Inr (r, bn_mod w vs)" and "key_word w" and "length vs \<le> 64"
  shows "op_unlocking m s = Inr (r, mpi_init_state)"
  using assms unlock_key_word [OF assms(2,3)]
  by (simp add: op_unlocking_def sys_cx_bn_is_locked_def cx_get_bn_ctx_def bn_mod_def)

end

section \<open>Scalars of Jubjub\<close>

text \<open>Numbers as little-endian strings; \<open>ToScalar\<close> of the Zcash protocol for the order of Jubjub.\<close>

definition le2ip :: "bytes \<Rightarrow> int" where
  "le2ip bs = os2ip (rev bs)"

definition i2le :: "nat \<Rightarrow> int \<Rightarrow> bytes" where
  "i2le n v = rev (i2osp n v)"

definition jubjub_order :: int where
  "jubjub_order = 6554484396890773809930967563523245729705921265872317281365359162392183254199"

definition ToScalar :: "bytes \<Rightarrow> bytes" where
  "ToScalar x = i2le 32 (le2ip x mod jubjub_order)"

definition add_scalars :: "bytes \<Rightarrow> bytes \<Rightarrow> bytes" where
  "add_scalars a b = i2le 32 ((le2ip a + le2ip b) mod jubjub_order)"

lemma length_scalars [simp]: "length (ToScalar x) = 32" "length (add_scalars a b) = 32"
  by (simp_all add: ToScalar_def add_scalars_def i2le_def)

lemma jubjub_n: "os2ip C_cx_Jubjub_n = jubjub_order" "length C_cx_Jubjub_n = 32"
  by (simp_all add: C_cx_Jubjub_n_def jubjub_order_def os2ip_Cons)

lemma jubjub_order_bounds: "0 < jubjub_order" "jubjub_order < 256 ^ 32"
  by (simp_all add: jubjub_order_def)

lemma mod_jubjub: "0 \<le> v mod jubjub_order" "v mod jubjub_order < 256 ^ 32" "v mod jubjub_order < 256 ^ 64"
proof -
  show "0 \<le> v mod jubjub_order" by (simp add: jubjub_order_def)
  show 32: "v mod jubjub_order < 256 ^ 32"
    using pos_mod_bound [OF jubjub_order_bounds(1), of v] jubjub_order_bounds(2) by linarith
  then show "v mod jubjub_order < 256 ^ 64" by (rule less_trans) simp
qed

lemma ecdomain_jubjub: "cx_ecdomain CX_CURVE_JUBJUB = Some C_cx_Jubjub"
  by (simp add: cx_ecdomain_iff C_cx_allCurves_def C_cx_Jubjub_def)

lemma swap_local_run: "length b = n \<Longrightarrow> swap_local b n = op_ok (rev b)"
  using cx_swap_bytes_rev [of b] by (auto simp: swap_local_def)

context openssl_bn_total
begin

lemma reduce_run:
  assumes "locked_inv s" and "bn_abs s a = Some x" "bn_abs s m = Some n" "bn_abs s r = Some z" and "0 \<le> x" and "0 < n"
  shows "sys_cx_bn_reduce lib r a m s = Inr (Inr (), put_bn s r (x mod n))"
proof -
  have "map_option snd (BN_div lib x n) = Some (x mod n)"
    using div_ok [of n x] div_val [OF assms(5), of n] assms(6) by (cases "BN_div lib x n") auto
  then show ?thesis
    using assms(1-4) by (simp add: sys_cx_bn_reduce_def cx_mpi_rem_def op_store_def bn_run del: map_option_eq_Some)
qed

lemma to_scalar_run:
  assumes "length hash = 64" and "length scalar = 32"
  shows "hdkey_zip32_to_scalar lib CX_CURVE_JUBJUB (Some hash) 64 (Some scalar) 32 mpi_init_state =
    Inr (Inr (ToScalar hash), mpi_init_state)"
proof -
  let ?x = "os2ip (rev hash)" and ?v = "os2ip (rev hash) mod jubjub_order"
  have w: "key_word 64" by (simp add: key_word_def)
  have n: "dom_n C_cx_Jubjub = C_cx_Jubjub_n" "dom_length C_cx_Jubjub = 32" by (simp_all add: C_cx_Jubjub_def)
  have tmp: "res_bind (mem_read hash 0 64) (mem_write (replicate 64 0) 0) = Inr hash"
    using assms(1) by (simp add: mem_read_def mem_write_def buf_write_def)
  let ?s = "bn_mod 64 [0, ?x, jubjub_order]"
  have "locked_inv ?s" by (rule bn_mod_locked(1) [OF w]) simp
  moreover have "bn_abs ?s 0 = Some 0" "bn_abs ?s 1 = Some ?x" "bn_abs ?s 2 = Some jubjub_order"
    using bn_mod_abs [of 0 "[0, ?x, jubjub_order]" 64] bn_mod_abs [of 1 "[0, ?x, jubjub_order]" 64]
      bn_mod_abs [of 2 "[0, ?x, jubjub_order]" 64] by simp_all
  ultimately have reduce: "sys_cx_bn_reduce lib 0 1 2 ?s = Inr (Inr (), bn_mod 64 [?v, ?x, jubjub_order])"
    using reduce_run [of ?s 1 ?x 2 jubjub_order 0 0] jubjub_order_bounds(1)
      bn_mod_put [of 0 "[0, ?x, jubjub_order]" 64 ?v] by simp
  have export: "sys_cx_bn_export lib 0 (rev hash) 64 (bn_mod 64 [?v, ?x, jubjub_order]) =
      Inr (Inr (i2osp 64 ?v), bn_mod 64 [?v, ?x, jubjub_order])"
    using export_key_word [OF w, of 0 "[?v, ?x, jubjub_order]" 64 "rev hash"] mod_jubjub [of ?x] assms(1) by simp
  have alloc: "sys_cx_bn_alloc lib 64 (bn_mod 64 []) = Inr (Inr 0, bn_mod 64 [0])"
    "sys_cx_bn_alloc_init lib 64 (rev hash) 64 (bn_mod 64 [0]) = Inr (Inr 1, bn_mod 64 [0, ?x])"
    "sys_cx_bn_alloc_init lib 64 C_cx_Jubjub_n 32 (bn_mod 64 [0, ?x]) = Inr (Inr 2, ?s)"
    using alloc_key_word [OF w, of "[]"] alloc_init_key_word [OF w, of "[0]" 64 "rev hash"] assms(1)
      alloc_init_key_word [OF w, of "[0, ?x]" 32 C_cx_Jubjub_n] jubjub_n by simp_all
  have low: "res_bind (mem_read (i2osp 64 ?v) 32 32) (mem_write scalar 0) = Inr (i2osp 32 ?v)"
    using assms(2) i2osp_low [of 32 64 ?v] by (simp add: mem_read_def mem_write_def buf_write_def)
  show ?thesis
    unfolding hdkey_zip32_to_scalar_def
    by (rule unlocking_key_word [of _ _ _ 64 "[?v, ?x, jubjub_order]"])
      (simp_all add: ecdomain_jubjub zip32_consts n tmp swap_local_run assms(1) w op_bind_def lock_key_word
        alloc reduce export low op_ok_def ToScalar_def i2le_def le2ip_def)
qed

lemma set_zero_run:
  assumes "locked_inv s" and "bn_abs s a = Some x"
  shows "sys_cx_bn_set_u32 lib a 0 s = Inr (Inr (), put_bn s a 0)"
proof -
  have z: "os2ip [0, 0, 0, 0] = 0" by (simp add: os2ip_Cons)
  then show ?thesis
    using assms by (simp add: sys_cx_bn_set_u32_def cx_mpi_set_u32_def op_store_def bn_run bin2bn_eq op_seq_def)
qed

lemma add_scalars_calls:
  assumes "key_word w"
  shows "sys_cx_bn_mod_add lib 0 1 2 3 (bn_mod w [0, x, y, jubjub_order]) =
      Inr (Inr (), bn_mod w [(x + y) mod jubjub_order, x, y, jubjub_order])"
    and "sys_cx_bn_set_u32 lib 1 0 (bn_mod w [z, x, y, jubjub_order]) = Inr (Inr (), bn_mod w [z, 0, y, jubjub_order])"
    and "sys_cx_bn_mod_sub lib 0 0 1 3 (bn_mod w [z, 0, y, jubjub_order]) =
      Inr (Inr (), bn_mod w [z mod jubjub_order, 0, y, jubjub_order])"
proof -
  have inv: "locked_inv (bn_mod w [a, b, c, d])" for a b c d by (rule bn_mod_locked(1) [OF assms]) simp
  have abs: "bn_abs (bn_mod w [a, b, c, d]) 0 = Some a" "bn_abs (bn_mod w [a, b, c, d]) 1 = Some b"
    "bn_abs (bn_mod w [a, b, c, d]) 2 = Some c" "bn_abs (bn_mod w [a, b, c, d]) 3 = Some d" for a b c d
    using bn_mod_abs [of 0 "[a, b, c, d]" w] bn_mod_abs [of 1 "[a, b, c, d]" w]
      bn_mod_abs [of 2 "[a, b, c, d]" w] bn_mod_abs [of 3 "[a, b, c, d]" w] by simp_all
  have put: "put_bn (bn_mod w [a, b, c, d]) 0 v = bn_mod w [v, b, c, d]"
    "put_bn (bn_mod w [a, b, c, d]) 1 v = bn_mod w [a, v, c, d]" for a b c d v
    using bn_mod_put [of 0 "[a, b, c, d]" w v] bn_mod_put [of 1 "[a, b, c, d]" w v] by simp_all
  show "sys_cx_bn_mod_add lib 0 1 2 3 (bn_mod w [0, x, y, jubjub_order]) =
      Inr (Inr (), bn_mod w [(x + y) mod jubjub_order, x, y, jubjub_order])"
    using mod_run(1) [OF inv abs(2,3,4,1) jubjub_order_bounds(1)] by (simp add: put)
  show "sys_cx_bn_set_u32 lib 1 0 (bn_mod w [z, x, y, jubjub_order]) = Inr (Inr (), bn_mod w [z, 0, y, jubjub_order])"
    using set_zero_run [OF inv abs(2)] by (simp add: put)
  show "sys_cx_bn_mod_sub lib 0 0 1 3 (bn_mod w [z, 0, y, jubjub_order]) =
      Inr (Inr (), bn_mod w [z mod jubjub_order, 0, y, jubjub_order])"
    using mod_run(2) [OF inv abs(1,2,4,1) jubjub_order_bounds(1)] by (simp add: put)
qed

lemma add_scalar_run:
  assumes "length out = 32" and "length a = 32" and "length b = 32"
  shows "hdkey_zip32_add_scalar lib CX_CURVE_JUBJUB (Some out) 32 (Some a) 32 (Some b) 32 mpi_init_state =
    Inr (Inr (add_scalars a b), mpi_init_state)"
proof -
  let ?x = "os2ip (rev a)" and ?y = "os2ip (rev b)" and ?v = "(os2ip (rev a) + os2ip (rev b)) mod jubjub_order"
  have w: "key_word 32" by (simp add: key_word_def)
  have n: "dom_n C_cx_Jubjub = C_cx_Jubjub_n" by (simp add: C_cx_Jubjub_def)
  have tmp: "res_bind (mem_read d 0 32) (mem_write (replicate 32 0) 0) = Inr d" if "length d = 32" for d :: bytes
    using that by (simp add: mem_read_def mem_write_def buf_write_def)
  have alloc: "sys_cx_bn_alloc lib 32 (bn_mod 32 []) = Inr (Inr 0, bn_mod 32 [0])"
    "sys_cx_bn_alloc_init lib 32 (rev a) 32 (bn_mod 32 [0]) = Inr (Inr 1, bn_mod 32 [0, ?x])"
    "sys_cx_bn_alloc_init lib 32 (rev b) 32 (bn_mod 32 [0, ?x]) = Inr (Inr 2, bn_mod 32 [0, ?x, ?y])"
    "sys_cx_bn_alloc_init lib 32 C_cx_Jubjub_n 32 (bn_mod 32 [0, ?x, ?y]) = Inr (Inr 3, bn_mod 32 [0, ?x, ?y, jubjub_order])"
    using alloc_key_word [OF w, of "[]"] alloc_init_key_word [OF w, of "[0]" 32 "rev a"] assms(2,3)
      alloc_init_key_word [OF w, of "[0, ?x]" 32 "rev b"] alloc_init_key_word [OF w, of "[0, ?x, ?y]" 32 C_cx_Jubjub_n]
      jubjub_n by simp_all
  have export: "sys_cx_bn_export lib 0 out 32 (bn_mod 32 [?v, 0, ?y, jubjub_order]) =
      Inr (Inr (i2osp 32 ?v), bn_mod 32 [?v, 0, ?y, jubjub_order])"
    using export_key_word [OF w, of 0 "[?v, 0, ?y, jubjub_order]" 32 out] mod_jubjub [of "?x + ?y"] assms(1) by simp
  have vv: "?v mod jubjub_order = ?v" by simp
  show ?thesis
    unfolding hdkey_zip32_add_scalar_def
    by (rule unlocking_key_word [of _ _ _ 32 "[?v, 0, ?y, jubjub_order]"])
      (simp_all add: ecdomain_jubjub zip32_consts n tmp swap_local_run assms w op_bind_def lock_key_word alloc
        add_scalars_calls export vv op_ok_def add_scalars_def i2le_def le2ip_def)
qed

text \<open>
  A module that the application has locked is not kept: the reduction fails, and the end of the function
  unlocks the module and erases the numbers of the application.
\<close>

lemma to_scalar_unlocks:
  assumes "locked_inv s" and "length hash = 64"
  shows "hdkey_zip32_to_scalar lib CX_CURVE_JUBJUB (Some hash) 64 (Some scalar) 32 s =
    Inr (Inl CX_NOT_UNLOCKED, mpi_init_state)"
proof -
  have tmp: "res_bind (mem_read hash 0 64) (mem_write (replicate 64 0) 0) = Inr hash"
    using assms(2) by (simp add: mem_read_def mem_write_def buf_write_def)
  have lock: "sys_cx_bn_lock lib 64 s = Inr (Inl CX_NOT_UNLOCKED, s)"
    using assms(1) by (simp add: sys_cx_bn_lock_def op_bind_def cx_bn_unlocked_def op_err_def
        sys_cx_bn_is_unlocked_def cx_get_bn_ctx_def locked_inv_def)
  show ?thesis
    using assms(1) unlock_resets [OF assms(1)]
    by (simp add: hdkey_zip32_to_scalar_def op_unlocking_def ecdomain_jubjub zip32_consts tmp swap_local_run assms(2)
        op_bind_def [of "sys_cx_bn_lock lib 64"] lock sys_cx_bn_is_locked_def cx_get_bn_ctx_def locked_inv_def)
qed

end

end
