(* ===== verification/Zip32_Derive.thy ===== *)
theory Zip32_Derive
  imports Zip32_Calls
begin

text \<open>
  The ZIP-32 derivations against the specification of ZIP 32: Sapling extended spending keys, and the
  hardened-only derivation that Orchard and registered keys use.
\<close>

section \<open>Specifications\<close>

definition sapling_master :: "bytes \<Rightarrow> HDKEY_ZIP32_sapling_xsk" where
  "sapling_master S = (let I = BLAKE2b_512 PERSON_Z_SAPLING S; L = take 32 I in
     \<lparr>xsk_ask = ToScalar (PRF_expand L [0x00]), xsk_nsk = ToScalar (PRF_expand L [0x01]),
      xsk_ovk = take 32 (PRF_expand L [0x02]), xsk_dk = take 32 (PRF_expand L [0x10]),
      xsk_chain_code = drop 32 I\<rparr>)"

definition sapling_ckd :: "HDKEY_ZIP32_sapling_xsk \<Rightarrow> u32 \<Rightarrow> HDKEY_ZIP32_sapling_xsk" where
  "sapling_ckd k i = (let I = PRF_expand (xsk_chain_code k)
       ([0x11] @ xsk_ask k @ xsk_nsk k @ xsk_ovk k @ xsk_dk k @ le_of_u32 i); L = take 32 I in
     \<lparr>xsk_ask = add_scalars (ToScalar (PRF_expand L [0x13])) (xsk_ask k),
      xsk_nsk = add_scalars (ToScalar (PRF_expand L [0x14])) (xsk_nsk k),
      xsk_ovk = take 32 (PRF_expand L ([0x15] @ xsk_ovk k)), xsk_dk = take 32 (PRF_expand L ([0x16] @ xsk_dk k)),
      xsk_chain_code = drop 32 I\<rparr>)"

text \<open>The master key of a hardened-only derivation, and its child with a tag sequence.\<close>

definition hard_master :: "bytes \<Rightarrow> bytes \<Rightarrow> HDKEY_ZIP32_hard_sk" where
  "hard_master person ikm = (let I = BLAKE2b_512 person ikm in \<lparr>hsk_sk = take 32 I, hsk_chain_code = drop 32 I\<rparr>)"

definition hard_ckd :: "u8 \<Rightarrow> HDKEY_ZIP32_hard_sk \<Rightarrow> u32 \<Rightarrow> bytes \<Rightarrow> HDKEY_ZIP32_hard_sk" where
  "hard_ckd ckd_domain k i tag =
     (let I = PRF_expand (hsk_chain_code k) ([ckd_domain] @ hsk_sk k @ le_of_u32 i @ (if tag = [] then [] else [0] @ tag))
      in \<lparr>hsk_sk = take 32 I, hsk_chain_code = drop 32 I\<rparr>)"

definition xsk_ok :: "HDKEY_ZIP32_sapling_xsk \<Rightarrow> bool" where
  "xsk_ok k \<longleftrightarrow> list_all (\<lambda>b. length b = 32) [xsk_ask k, xsk_nsk k, xsk_ovk k, xsk_dk k, xsk_chain_code k]"

definition hsk_ok :: "HDKEY_ZIP32_hard_sk \<Rightarrow> bool" where
  "hsk_ok k \<longleftrightarrow> length (hsk_sk k) = 32 \<and> length (hsk_chain_code k) = 32"

lemma xsk_ok_simps [simp]: "xsk_ok (sapling_master S)" "xsk_ok (sapling_ckd k i)" "xsk_ok sapling_zero"
  by (simp_all add: xsk_ok_def sapling_master_def sapling_ckd_def sapling_zero_def Let_def)

lemma hsk_ok_simps [simp]: "hsk_ok (hard_master p S)" "hsk_ok (hard_ckd d k i t)" "hsk_ok hard_sk_zero"
  by (simp_all add: hsk_ok_def hard_master_def hard_ckd_def hard_sk_zero_def Let_def)

lemma hard_sk_of_hash: "length I = 64 \<Longrightarrow> hard_sk_of I = \<lparr>hsk_sk = take 32 I, hsk_chain_code = drop 32 I\<rparr>"
  by (simp add: hard_sk_of_def)

lemma U4LE_ENCODE_le: "U4LE_ENCODE b off w = mem_write b off (le_of_u32 w)"
  by (simp add: U4LE_ENCODE_def le_of_u32_def)

section \<open>Sapling\<close>

context openssl_bn_total
begin

lemma sapling_master_run:
  assumes "xsk_ok key" and "length seed = 64"
  shows "HDKEY_ZIP32_sapling_master_key lib (Some key) (Some seed) 64 mpi_init_state =
    Inr (Inr (sapling_master seed), mpi_init_state)"
proof -
  have k: "length (xsk_ask key) = 32" "length (xsk_nsk key) = 32" using assms(1) by (simp_all add: xsk_ok_def)
  show ?thesis
    unfolding HDKEY_ZIP32_sapling_master_key_def option.case
    apply simp
    apply (rule cx_to_os_run)
    apply (simp add: zip32_consts Let_def)
    apply (rule check_init_run, simp)
    apply (rule check_update_run, assumption, simp add: assms(2))
    apply (subst op_bind_run, rule check_final_run, assumption, simp)
    apply (simp add: assms k op_bind_def prf_expand_run to_scalar_run op_ok_def sapling_master_def Let_def)
    done
qed

lemma sapling_child_run:
  assumes "xsk_ok child" and "xsk_ok parent"
  shows "HDKEY_ZIP32_sapling_derive_child lib (Some child) (Some parent) i mpi_init_state =
    Inr (Inr (sapling_ckd parent i), mpi_init_state)"
proof -
  have c: "length (xsk_ask child) = 32" "length (xsk_nsk child) = 32" using assms(1) by (simp_all add: xsk_ok_def)
  have p: "length (xsk_ask parent) = 32" "length (xsk_nsk parent) = 32" "length (xsk_ovk parent) = 32"
    "length (xsk_dk parent) = 32" "length (xsk_chain_code parent) = 32" using assms(2) by (simp_all add: xsk_ok_def)
  have inp: "sapling_input parent i =
      Inr (0x11 # xsk_ask parent @ xsk_nsk parent @ xsk_ovk parent @ xsk_dk parent @ le_of_u32 i)"
    using p by (simp add: sapling_input_def U4LE_ENCODE_le mem_write_def buf_write_def zip32_consts)
  show ?thesis
    using c p
    by (simp add: HDKEY_ZIP32_sapling_derive_child_def inp cx_to_os_def op_bind_def prf_expand_run to_scalar_run
        add_scalar_run zip32_consts Let_def op_ok_def sapling_ckd_def)
qed

lemma sapling_loop_run:
  assumes "4 * m \<le> length p" and "i + n = m" and "xsk_ok out" and "xsk_ok parent"
  shows "sapling_loop lib (Some p) i n out parent mpi_init_state =
    Inr (Inr (if n = 0 then out else foldl sapling_ckd parent (drop i (path_words p m))), mpi_init_state)"
  using assms(2-4)
proof (induction n arbitrary: i out parent)
  case (Suc n)
  let ?w = "path_words p m ! i"
  have i: "i < m" using Suc.prems(1) by simp
  have drop: "drop i (path_words p m) = ?w # drop (Suc i) (path_words p m)" using i by (simp add: Cons_nth_drop_Suc)
  have "sapling_loop lib (Some p) i (Suc n) out parent mpi_init_state =
      sapling_loop lib (Some p) (Suc i) n (sapling_ckd parent ?w) (sapling_ckd parent ?w) mpi_init_state"
    using path_index_words [OF assms(1) i] sapling_child_run [OF Suc.prems(2,3)] by (simp add: hd_bind_def)
  then show ?case using Suc.IH [of "Suc i" "sapling_ckd parent ?w" "sapling_ckd parent ?w"] Suc.prems(1) drop by simp
qed (simp add: hd_ok_def)

end

text \<open>
  A request that the derivations accept: a path of \<open>n\<close> indices and output buffers of their announced
  sizes, of which the key needs \<open>k\<close> bytes.
\<close>

definition zip32_request :: "HDKEY_params \<Rightarrow> bytes \<Rightarrow> nat \<Rightarrow> nat \<Rightarrow> bytes \<Rightarrow> bytes option \<Rightarrow> bool" where
  "zip32_request params p n k priv chain \<longleftrightarrow>
     hd_path params = Some p \<and> unat (hd_path_len params) = n \<and> 4 * n \<le> length p \<and>
     hd_private_key params = Some priv \<and> unat (hd_private_key_len params) = length priv \<and> k \<le> length priv \<and>
     hd_chain params = chain \<and>
     (case chain of None \<Rightarrow> True | Some c \<Rightarrow> length c = 32 \<and> unat (hd_chain_len params) = 32)"

lemma zip32_chain_ok:
  "zip32_request params p n k priv chain \<Longrightarrow> \<not> (hd_chain params \<noteq> None \<and> unat (hd_chain_len params) \<noteq> 32)"
  by (auto simp: zip32_request_def split: option.splits)

lemma zip32_copy_chain:
  "zip32_request params p n k priv chain \<Longrightarrow> length c = 32 \<Longrightarrow> copy_out chain c = Inr (map_option (\<lambda>_. c) chain)"
  by (auto simp: zip32_request_def copy_out_def mem_write_def buf_write_def split: option.splits)

definition sapling_bytes :: "HDKEY_ZIP32_sapling_xsk \<Rightarrow> bytes" where
  "sapling_bytes k = xsk_ask k @ xsk_nsk k @ xsk_ovk k @ xsk_dk k"

lemma sapling_copy_run:
  assumes "xsk_ok k" and "128 \<le> length priv"
  shows "sapling_copy (Some priv) k = Inr (Some (sapling_bytes k @ drop 128 priv))"
  using assms by (simp add: sapling_copy_def xsk_ok_def mem_write_def buf_write_def sapling_bytes_def)

lemma get_seed_run:
  "length (seed_array env) = 64 \<Longrightarrow> hdkey_zip32_get_seed env 64 = hd_ok (seed_array env)"
  by (simp add: hdkey_zip32_get_seed_def env_get_seed_def mem_read_def)

lemma sapling_node_ok: "xsk_ok k \<Longrightarrow> xsk_ok (foldl sapling_ckd k ws)"
  by (induction ws arbitrary: k) simp_all

text \<open>
  Property C14: the Sapling derivation. For a path that is not empty the buffers get the extended
  spending key of ZIP 32 along the path, every index taken as hardened, from the 64 bytes of the seed
  array; the big number module is left as it was. For an empty path the key and the chain code are
  zero, not the master key.
\<close>

theorem zip32_sapling_correct:
  assumes "openssl_bn_total lib" and "zip32_request params p n 128 priv chain" and "length (seed_array env) = 64"
  defines "node \<equiv> if n = 0 then sapling_zero else foldl sapling_ckd (sapling_master (seed_array env)) (path_words p n)"
  shows "HDKEY_ZIP32_sapling_derive lib env (Some params) mpi_init_state =
    Inr ((OS_SUCCESS,
          Some (params\<lparr>hd_private_key := Some (sapling_bytes node @ drop 128 priv),
                       hd_chain := map_option (\<lambda>_. xsk_chain_code node) chain\<rparr>),
          Some (sapling_bytes node @ drop 128 priv), map_option (\<lambda>_. xsk_chain_code node) chain), mpi_init_state)"
proof -
  note run = openssl_bn_total.sapling_master_run [OF assms(1)] openssl_bn_total.sapling_loop_run [OF assms(1)]
  have req: "hd_path params = Some p" "unat (hd_path_len params) = n" "4 * n \<le> length p"
    "hd_private_key params = Some priv" "unat (hd_private_key_len params) = length priv" "128 \<le> length priv"
    "hd_chain params = chain"
    using assms(2) by (simp_all add: zip32_request_def)
  have ok: "xsk_ok node" by (simp add: node_def sapling_node_ok)
  then have chain: "copy_out chain (xsk_chain_code node) = Inr (map_option (\<lambda>_. xsk_chain_code node) chain)"
    using zip32_copy_chain [OF assms(2)] by (simp add: xsk_ok_def)
  have loop: "sapling_loop lib (Some p) 0 n sapling_zero (sapling_master (seed_array env)) mpi_init_state =
      Inr (Inr node, mpi_init_state)"
    using run(2) [OF req(3), of 0 n] by (simp add: node_def)
  show ?thesis
    unfolding HDKEY_ZIP32_sapling_derive_def option.case if_not_P [OF zip32_chain_ok [OF assms(2)]]
    using req
    by (simp add: hd_finish_def get_seed_run [OF assms(3)] hd_bind_def run(1) assms(3)
        loop sapling_copy_run [OF ok] chain hd_ok_def)
qed

definition zip32_example :: "u32 \<Rightarrow> nat \<Rightarrow> bytes \<Rightarrow> HDKEY_params" where
  "zip32_example mode n p = \<lparr>hd_mode = mode, hd_from_app = True, hd_curve = CX_CURVE_JUBJUB,
     hd_path_len = of_nat n, hd_private_key_len = 128, hd_chain_len = 0, hd_seed_key_len = 0, hd_path = Some p,
     hd_private_key = Some (replicate 128 0), hd_chain = None, hd_seed_key = None\<rparr>"

definition seed_example :: env_seed where
  "seed_example = \<lparr>seed_size = 64, seed_array = replicate 64 7\<rparr>"

lemma zip32_example_request:
  "n < 16 \<Longrightarrow> 4 * n \<le> length p \<Longrightarrow> k \<le> 128 \<Longrightarrow> zip32_request (zip32_example mode n p) p n k (replicate 128 0) None"
  by (simp add: zip32_request_def zip32_example_def unat_of_nat)

lemma seed_example_length: "length (seed_array seed_example) = 64"
  by (simp add: seed_example_def)

theorem zip32_sapling_correct_witness:
  "\<exists>params. HDKEY_ZIP32_sapling_derive bn_exact seed_example
       (Some (zip32_example HDKEY_DERIVE_MODE_ZIP32_SAPLING 1 [32, 0, 0, 128])) mpi_init_state =
     Inr ((OS_SUCCESS, params, Some (sapling_bytes (sapling_ckd (sapling_master (replicate 64 7)) 0x80000020)), None),
       mpi_init_state)"
proof -
  have "path_words [32, 0, 0, 128] 1 = [0x80000020]" by code_simp
  then show ?thesis
    using zip32_sapling_correct [OF exact.openssl_bn_total_axioms
        zip32_example_request [of 1 "[32, 0, 0, 128]" 128 HDKEY_DERIVE_MODE_ZIP32_SAPLING] seed_example_length]
    by (simp add: seed_example_def)
qed

section \<open>Orchard\<close>

lemma hard_input_run:
  assumes "hsk_ok parent"
  shows "hard_input d parent i = Inr (d # hsk_sk parent @ le_of_u32 i)"
  using assms by (simp add: hard_input_def hsk_ok_def U4LE_ENCODE_le mem_write_def buf_write_def)

lemma orchard_master_run:
  assumes "length seed = 64"
  shows "HDKEY_ZIP32_orchard_master_key (Some key) (Some seed) 64 s = Inr (Inr (hard_master PERSON_ORCHARD seed), s)"
proof -
  have "op_bind (check_init 512 PERSON_ORCHARD) (\<lambda>ctx. op_bind (check_update ctx (Some seed) 64) (\<lambda>ctx.
      op_bind (check_final ctx (replicate 64 0)) (\<lambda>I. op_ok (hard_sk_of I)))) s =
      Inr (Inr (hard_master PERSON_ORCHARD seed), s)"
    apply (rule check_init_run, simp)
    apply (rule check_update_run, assumption, simp add: assms)
    apply (subst op_bind_run, rule check_final_run, assumption, simp)
    apply (simp add: assms hard_sk_of_hash hard_master_def Let_def op_ok_def)
    done
  then show ?thesis by (simp add: HDKEY_ZIP32_orchard_master_key_def zip32_consts cx_to_os_run)
qed

lemma orchard_child_run:
  assumes "hsk_ok parent"
  shows "HDKEY_ZIP32_orchard_derive_child (Some child) (Some parent) i s =
    Inr (Inr (hard_ckd HDKEY_ZIP32_TAG_ORCHARD_DOMAIN parent i []), s)"
  using assms hard_input_run [OF assms]
  by (simp add: HDKEY_ZIP32_orchard_derive_child_def cx_to_os_def op_bind_def prf_expand_run hsk_ok_def hard_sk_of_hash
      hard_ckd_def Let_def op_ok_def)

definition orchard_ckd :: "HDKEY_ZIP32_hard_sk \<Rightarrow> u32 \<Rightarrow> HDKEY_ZIP32_hard_sk" where
  "orchard_ckd k i = hard_ckd 0x81 k i []"

lemma orchard_ckd_ok [simp]: "hsk_ok (orchard_ckd k i)"
  by (simp add: orchard_ckd_def)

lemma orchard_loop_run:
  assumes "4 * m \<le> length p" and "i + n = m" and "hsk_ok parent"
  shows "orchard_loop (Some p) i n out parent s =
    Inr (Inr (if n = 0 then out else foldl orchard_ckd parent (drop i (path_words p m))), s)"
  using assms(2,3)
proof (induction n arbitrary: i out parent)
  case (Suc n)
  let ?w = "path_words p m ! i"
  have i: "i < m" using Suc.prems(1) by simp
  have drop: "drop i (path_words p m) = ?w # drop (Suc i) (path_words p m)" using i by (simp add: Cons_nth_drop_Suc)
  have "orchard_loop (Some p) i (Suc n) out parent s =
      orchard_loop (Some p) (Suc i) n (orchard_ckd parent ?w) (orchard_ckd parent ?w) s"
    using path_index_words [OF assms(1) i] orchard_child_run [OF Suc.prems(2)]
    by (simp add: hd_bind_def orchard_ckd_def HDKEY_ZIP32_TAG_ORCHARD_DOMAIN_def)
  then show ?case using Suc.IH [of "Suc i" "orchard_ckd parent ?w" "orchard_ckd parent ?w"] Suc.prems(1) drop by simp
qed (simp add: hd_ok_def)

lemma orchard_node_ok: "hsk_ok k \<Longrightarrow> hsk_ok (foldl orchard_ckd k ws)"
  by (induction ws arbitrary: k) simp_all

text \<open>The copy of a hardened-only key into the buffers of a request.\<close>

lemma hard_sk_copy_run:
  assumes "zip32_request params p n 32 priv chain" and "hsk_ok k"
  shows "hard_sk_copy os_error params k s =
    Inr (Inr (os_error, Some (hsk_sk k @ drop 32 priv), map_option (\<lambda>_. hsk_chain_code k) chain), s)"
proof -
  have "copy_out (Some priv) (hsk_sk k) = Inr (Some (hsk_sk k @ drop 32 priv))"
    using assms by (simp add: zip32_request_def copy_out_def mem_write_def buf_write_def hsk_ok_def)
  then show ?thesis
    using assms zip32_copy_chain [OF assms(1), of "hsk_chain_code k"]
    by (simp add: hard_sk_copy_def hsk_ok_def zip32_request_def hd_ok_def)
qed

lemma orchard_derive_run:
  assumes "zip32_request params p n 32 priv chain" and "length (seed_array env) = 64"
  defines "node \<equiv> if n = 0 then hard_sk_zero
    else foldl orchard_ckd (hard_master PERSON_ORCHARD (seed_array env)) (path_words p n)"
  shows "HDKEY_ZIP32_orchard_derive env (Some params) s =
    Inr ((OS_SUCCESS,
          Some (params\<lparr>hd_private_key := Some (hsk_sk node @ drop 32 priv),
                       hd_chain := map_option (\<lambda>_. hsk_chain_code node) chain\<rparr>),
          Some (hsk_sk node @ drop 32 priv), map_option (\<lambda>_. hsk_chain_code node) chain), s)"
proof -
  have req: "hd_path params = Some p" "unat (hd_path_len params) = n" "4 * n \<le> length p"
    "hd_private_key params = Some priv" "unat (hd_private_key_len params) = length priv" "32 \<le> length priv"
    using assms(1) by (simp_all add: zip32_request_def)
  have ok: "hsk_ok node" by (simp add: node_def orchard_node_ok)
  have loop: "orchard_loop (Some p) 0 n hard_sk_zero (hard_master PERSON_ORCHARD (seed_array env)) s = Inr (Inr node, s)"
    using orchard_loop_run [OF req(3), of 0 n] by (simp add: node_def)
  show ?thesis
    unfolding HDKEY_ZIP32_orchard_derive_def option.case HDKEY_ZIP32_KEY_LEN_def
      if_not_P [OF zip32_chain_ok [OF assms(1)]]
    using req
    by (simp add: hd_finish_def get_seed_run [OF assms(2)] hd_bind_def orchard_master_run assms(2) loop
        hard_sk_copy_run [OF assms(1) ok])
qed

text \<open>
  Property C16: the Orchard derivation. For a path that is not empty the buffers get the key and the chain
  code that the hardened-only derivation of ZIP 32 gives along the path; for an empty path they get zeros.
\<close>

theorem zip32_orchard_correct:
  assumes "zip32_request params p n 32 priv chain" and "length (seed_array env) = 64"
  defines "node \<equiv> if n = 0 then hard_sk_zero
    else foldl orchard_ckd (hard_master PERSON_ORCHARD (seed_array env)) (path_words p n)"
  shows "HDKEY_ZIP32_orchard_derive env (Some params) s =
    Inr ((OS_SUCCESS,
          Some (params\<lparr>hd_private_key := Some (hsk_sk node @ drop 32 priv),
                       hd_chain := map_option (\<lambda>_. hsk_chain_code node) chain\<rparr>),
          Some (hsk_sk node @ drop 32 priv), map_option (\<lambda>_. hsk_chain_code node) chain), s)"
  unfolding node_def by (rule orchard_derive_run [OF assms(1,2)])

theorem zip32_orchard_correct_witness:
  "\<exists>params. HDKEY_ZIP32_orchard_derive seed_example
       (Some (zip32_example HDKEY_DERIVE_MODE_ZIP32_ORCHARD 1 [32, 0, 0, 128])) mpi_init_state =
     Inr ((OS_SUCCESS, params,
       Some (hsk_sk (orchard_ckd (hard_master PERSON_ORCHARD (replicate 64 7)) 0x80000020) @ replicate 96 0), None),
       mpi_init_state)"
proof -
  have "path_words [32, 0, 0, 128] 1 = [0x80000020]" by code_simp
  then show ?thesis
    using zip32_orchard_correct [OF zip32_example_request [of 1 "[32, 0, 0, 128]" 32 HDKEY_DERIVE_MODE_ZIP32_ORCHARD]
        seed_example_length, of mpi_init_state]
    by (simp add: seed_example_def)
qed

end
