(* ===== verification/Zip32_Registered.thy ===== *)
theory Zip32_Registered
  imports Zip32_Derive Hdkey_Policy
begin

text \<open>
  Registered keys of ZIP 32, whose context and tag sequences come as a TLV string, and the system call
  over all derivations: what it refuses, and that nothing is derived without the authorisation.
\<close>

section \<open>TLV strings\<close>

definition tlv :: "u8 \<Rightarrow> bytes \<Rightarrow> bytes" where
  "tlv t v = [t, of_nat (length v)] @ v"

text \<open>An element that holds a value: the pointer is null for the empty value.\<close>

definition tag_holds :: "hdkey_zip32_tag \<Rightarrow> bytes \<Rightarrow> bool" where
  "tag_holds tag v \<longleftrightarrow> tag_length tag = length v \<and>
     (if v = [] then tag_value tag = None else \<exists>rest. tag_value tag = Some (v @ rest))"

lemma length_tlv [simp]: "length (tlv t v) = 2 + length v"
  by (simp add: tlv_def)

lemma parse_tlv:
  assumes "drop off b = tlv t v @ rest" and "off \<le> length b" and "length v \<le> 255"
  obtains tag' where "hdkey_zip32_parse_tlv_tag t (Some b) (length b) tag off = Inr (OS_SUCCESS, tag', off + 2 + length v)"
    and "tag_holds tag' v"
proof -
  let ?tag = "\<lparr>tag_value = (if (of_nat (length v) :: u8) = 0 then None else Some (drop (off + 2) b)), tag_length = length v\<rparr>"
  have "length (drop off b) = 2 + length v + length rest" using assms(1) by simp
  then have len: "length b = off + 2 + length v + length rest" using assms(2) by simp
  have nth: "b ! off = t" "b ! (off + 1) = of_nat (length v)"
    using nth_drop [OF assms(2), of 0] nth_drop [OF assms(2), of 1] assms(1) by (simp_all add: tlv_def)
  have v: "unat (of_nat (length v) :: u8) = length v" using assms(3) by (simp add: unat_of_nat)
  have zero: "(of_nat (length v) :: u8) = 0 \<longleftrightarrow> v = []" using v by (auto simp: unat_eq_0)
  have "drop (off + 2) b = drop 2 (drop off b)" by (simp add: add.commute)
  then have rest: "drop (off + 2) b = v @ rest" by (simp add: assms(1) tlv_def)
  have "hdkey_zip32_parse_tlv_tag t (Some b) (length b) tag off = Inr (OS_SUCCESS, ?tag, off + 2 + length v)"
    using len nth v by (simp add: hdkey_zip32_parse_tlv_tag_def mem_get_def)
  moreover have "tag_holds ?tag v" using zero unfolding tag_holds_def rest by simp
  ultimately show thesis by (rule that)
qed

section \<open>Registered keys\<close>

abbreviation registered_ckd :: "HDKEY_ZIP32_hard_sk \<Rightarrow> u32 \<Rightarrow> bytes \<Rightarrow> HDKEY_ZIP32_hard_sk" where
  "registered_ckd \<equiv> hard_ckd 0xAC"

definition registered_root :: "bytes \<Rightarrow> bytes \<Rightarrow> u32 \<Rightarrow> HDKEY_ZIP32_hard_sk" where
  "registered_root ctx seed zipnumber = registered_ckd
     (hard_master DOMAIN_REGISTERED ([of_nat (length ctx)] @ ctx @ [of_nat (length seed)] @ seed)) zipnumber []"

text \<open>
  The node of a path: every index takes the next tag sequence, and the last sequence serves for the
  indices that are left.
\<close>

fun registered_node :: "HDKEY_ZIP32_hard_sk \<Rightarrow> u32 list \<Rightarrow> bytes \<Rightarrow> bytes list \<Rightarrow> HDKEY_ZIP32_hard_sk" where
  "registered_node k [] t ts = k"
| "registered_node k (w # ws) t [] = registered_node (registered_ckd k w t) ws t []"
| "registered_node k (w # ws) t (t' # ts) = registered_node (registered_ckd k w t) ws t' ts"

lemma registered_node_ok: "hsk_ok k \<Longrightarrow> hsk_ok (registered_node k ws t ts)"
  by (induction k ws t ts rule: registered_node.induct) simp_all

lemma registered_child_run:
  assumes "hsk_ok parent" and "tag_holds tag v"
  shows "HDKEY_ZIP32_hardened_derive_child (Some child) (Some parent) w d 0 (tag_value tag) (tag_length tag) s =
    Inr (Inr (hard_ckd d parent w v), s)"
proof -
  let ?m = "hsk_chain_code parent @ d # hsk_sk parent @ le_of_u32 w"
  have p: "length (hsk_chain_code parent) = 32" "length (hsk_sk parent) = 32" using assms(1) by (simp_all add: hsk_ok_def)
  have node: "hard_sk_of (BLAKE2b_512 PERSON_Z_EXPAND (?m @ (if v = [] then [] else 0 # v))) = hard_ckd d parent w v"
    by (simp add: hard_sk_of_hash hard_ckd_def PRF_expand_def Let_def)
  have fin: "op_bind (check_final c (replicate 64 0)) (\<lambda>I. op_ok (hard_sk_of I)) s = Inr (Inr (hard_ckd d parent w v), s)"
    if "absorbed_512 PERSON_Z_EXPAND c (?m @ (if v = [] then [] else 0 # v))" for c
    using check_final_run [OF that, of "replicate 64 0" s] node by (simp add: op_bind_def op_ok_def)
  have tags: "op_bind (if tag_value tag \<noteq> None then check_update c (Some [0]) 1 else op_ok c) (\<lambda>c.
      op_bind (if tag_value tag \<noteq> None then check_update c (tag_value tag) (tag_length tag) else op_ok c) (\<lambda>c.
      op_bind (check_final c (replicate 64 0)) (\<lambda>I. op_ok (hard_sk_of I)))) s = Inr (Inr (hard_ckd d parent w v), s)"
    if c: "absorbed_512 PERSON_Z_EXPAND c ?m" for c
  proof (cases "v = []")
    case True
    then show ?thesis using assms(2) fin [of c] c by (simp add: tag_holds_def)
  next
    case False
    then obtain rest where r: "tag_value tag = Some (v @ rest)" "tag_length tag = length v"
      using assms(2) by (auto simp: tag_holds_def)
    show ?thesis
      unfolding r using False
      apply simp
      apply (rule check_update_run [OF c], simp)
      apply (rule check_update_run, assumption, simp)
      apply (rule fin [simplified], simp)
      done
  qed
  have "op_bind (check_init 512 PERSON_Z_EXPAND) (\<lambda>c.
      op_bind (check_update c (Some (hsk_chain_code parent)) 32) (\<lambda>c.
      op_bind (check_update c (Some (d # hsk_sk parent @ le_of_u32 w)) 37) (\<lambda>c.
      op_bind (if tag_value tag \<noteq> None then check_update c (Some [0]) 1 else op_ok c) (\<lambda>c.
      op_bind (if tag_value tag \<noteq> None then check_update c (tag_value tag) (tag_length tag) else op_ok c) (\<lambda>c.
      op_bind (check_final c (replicate 64 0)) (\<lambda>I. op_ok (hard_sk_of I))))))) s = Inr (Inr (hard_ckd d parent w v), s)"
    apply (rule check_init_run, simp)
    apply (rule check_update_run, assumption, simp add: p)
    apply (rule check_update_run, assumption, simp add: p)
    apply (rule tags, simp add: p)
    done
  then show ?thesis
    by (simp add: HDKEY_ZIP32_hardened_derive_child_def hard_input_run [OF assms(1)] cx_to_os_run)
qed

lemma registered_root_run:
  assumes "length seed = 64" and "tag_holds tag ctx"
  shows "HDKEY_ZIP32_hardened_subtree_root_key (Some key) w (Some seed) 64 (tag_value tag) (tag_length tag) s =
    Inr (Inr (registered_root ctx seed w), s)"
proof -
  let ?ikm = "[of_nat (length ctx)] @ ctx @ [of_nat (length seed)] @ seed"
  let ?tail = "\<lambda>c. op_bind (check_update c (Some [64]) 1) (\<lambda>c. op_bind (check_update c (Some seed) 64) (\<lambda>c.
      op_bind (check_final c (replicate 64 0)) (\<lambda>I. op_ok (hard_sk_of I))))"
  have len: "tag_length tag = length ctx" using assms(2) by (simp add: tag_holds_def)
  have tail: "?tail c s = Inr (Inr (hard_master DOMAIN_REGISTERED ?ikm), s)"
    if c: "absorbed_512 DOMAIN_REGISTERED c ([of_nat (length ctx)] @ ctx)" for c
    apply (rule check_update_run [OF c], simp)
    apply (rule check_update_run, assumption, simp add: assms(1))
    apply (subst op_bind_run, rule check_final_run, assumption, simp)
    apply (simp add: assms(1) hard_sk_of_hash hard_master_def Let_def op_ok_def)
    done
  have ctx: "op_bind (if tag_value tag \<noteq> None then unchecked_update c (tag_value tag) (tag_length tag) else op_ok c) ?tail s =
      Inr (Inr (hard_master DOMAIN_REGISTERED ?ikm), s)"
    if c: "absorbed_512 DOMAIN_REGISTERED c [of_nat (length ctx)]" for c
  proof (cases "ctx = []")
    case True
    then show ?thesis using assms(2) tail [of c] c by (simp add: tag_holds_def)
  next
    case False
    then obtain rest where r: "tag_value tag = Some (ctx @ rest)" using assms(2) by (auto simp: tag_holds_def)
    show ?thesis
      unfolding r len
      apply simp
      apply (rule unchecked_update_run [OF c], simp)
      apply (rule tail [simplified], simp)
      done
  qed
  have "op_bind (check_init 512 DOMAIN_REGISTERED) (\<lambda>c. op_bind (check_update c (Some [of_nat (length ctx)]) 1) (\<lambda>c.
      op_bind (if tag_value tag \<noteq> None then unchecked_update c (tag_value tag) (tag_length tag) else op_ok c) ?tail)) s =
      Inr (Inr (hard_master DOMAIN_REGISTERED ?ikm), s)"
    apply (rule check_init_run, simp)
    apply (rule check_update_run, assumption, simp)
    apply (rule ctx, simp)
    done
  then have master: "cx_to_os (op_bind (check_init 512 DOMAIN_REGISTERED) (\<lambda>c.
      op_bind (check_update c (Some [of_nat (length ctx)]) 1) (\<lambda>c.
      op_bind (if tag_value tag \<noteq> None then unchecked_update c (tag_value tag) (tag_length tag) else op_ok c) ?tail))) s =
      Inr (Inr (hard_master DOMAIN_REGISTERED ?ikm), s)"
    by (rule cx_to_os_run)
  have none: "tag_holds \<lparr>tag_value = None, tag_length = 0\<rparr> []" by (simp add: tag_holds_def)
  show ?thesis
    using master [unfolded len] registered_child_run [OF hsk_ok_simps(1) none, of key "DOMAIN_REGISTERED" ?ikm w "0xAC" s]
    by (simp add: HDKEY_ZIP32_hardened_subtree_root_key_def zip32_consts hd_bind_def len registered_root_def)
qed

text \<open>
  What an application passes for the context string and the tag sequences. Without a string both are
  empty.
\<close>

definition registered_args :: "HDKEY_params \<Rightarrow> bytes \<Rightarrow> bytes \<Rightarrow> bytes list \<Rightarrow> bool" where
  "registered_args params ctx t ts \<longleftrightarrow>
     (case hd_seed_key params of
        None \<Rightarrow> hd_seed_key_len params = 0 \<and> ctx = [] \<and> t = [] \<and> ts = []
      | Some sk \<Rightarrow> unat (hd_seed_key_len params) = length sk \<and>
          sk = tlv 0x16 ctx @ tlv 0xA0 t @ concat (map (tlv 0xA0) ts) \<and> list_all (\<lambda>v. length v \<le> 255) (ctx # t # ts))"

text \<open>The string from an offset on holds the tag sequences that are left.\<close>

definition tags_left :: "HDKEY_params \<Rightarrow> nat \<Rightarrow> bytes list \<Rightarrow> bool" where
  "tags_left params off ts \<longleftrightarrow>
     (case hd_seed_key params of
        None \<Rightarrow> hd_seed_key_len params = 0 \<and> ts = []
      | Some sk \<Rightarrow> unat (hd_seed_key_len params) = length sk \<and> off \<le> length sk \<and>
          drop off sk = concat (map (tlv 0xA0) ts) \<and> list_all (\<lambda>v. length v \<le> 255) ts)"

lemma tags_left_end: "tags_left params off [] \<Longrightarrow> unat (hd_seed_key_len params) \<le> off"
  by (auto simp: tags_left_def split: option.splits)

lemma tags_left_next:
  assumes "tags_left params off (t # ts)"
  obtains tag' off' where "off < unat (hd_seed_key_len params)"
    and "hdkey_zip32_parse_tlv_tag HDKEY_ZIP32_TAG_SEQUENCE_STR (hd_seed_key params) (unat (hd_seed_key_len params)) tag off =
      Inr (OS_SUCCESS, tag', off')"
    and "tag_holds tag' t" and "tags_left params off' ts"
proof -
  obtain sk where sk: "hd_seed_key params = Some sk" "unat (hd_seed_key_len params) = length sk" "off \<le> length sk"
    "drop off sk = tlv 0xA0 t @ concat (map (tlv 0xA0) ts)" "length t \<le> 255" "list_all (\<lambda>v. length v \<le> 255) ts"
    using assms by (auto simp: tags_left_def split: option.splits)
  have "length (drop off sk) = 2 + length t + length (concat (map (tlv 0xA0) ts))" unfolding sk(4) by simp
  then have l: "off + 2 + length t \<le> length sk" using sk(3) by simp
  obtain tag' where p: "hdkey_zip32_parse_tlv_tag 0xA0 (Some sk) (length sk) tag off = Inr (OS_SUCCESS, tag', off + 2 + length t)"
    "tag_holds tag' t"
    by (rule parse_tlv [OF sk(4,3,5)])
  have "drop (off + 2 + length t) sk = drop (2 + length t) (drop off sk)" by (simp add: ac_simps)
  then have "drop (off + 2 + length t) sk = concat (map (tlv 0xA0) ts)" by (simp add: sk(4))
  then have "tags_left params (off + 2 + length t) ts" using sk l by (simp add: tags_left_def)
  then show thesis using that [of tag' "off + 2 + length t"] p sk l by (simp add: zip32_consts)
qed

lemma registered_loop_run:
  assumes "hd_path params = Some p" and "4 * m \<le> length p" and "i + n = m" and "hsk_ok parent"
    and "tag_holds tag t" and "tags_left params off ts"
  shows "registered_loop params i n OS_SUCCESS out parent tag off s =
    Inr (Inr (OS_SUCCESS, if n = 0 then out else registered_node parent (drop i (path_words p m)) t ts), s)"
  using assms(3-6)
proof (induction n arbitrary: i out parent tag off t ts)
  case (Suc n)
  let ?w = "path_words p m ! i" and ?k = "registered_ckd parent (path_words p m ! i) t"
  have i: "i < m" using Suc.prems(1) by simp
  have drop: "drop i (path_words p m) = ?w # drop (Suc i) (path_words p m)" using i by (simp add: Cons_nth_drop_Suc)
  have child: "HDKEY_ZIP32_hardened_derive_child (Some out) (Some parent) ?w HDKEY_ZIP32_TAG_REGISTERED_DOMAIN 0
      (tag_value tag) (tag_length tag) s = Inr (Inr ?k, s)"
    using registered_child_run [OF Suc.prems(2,3)] by (simp add: zip32_consts)
  show ?case
  proof (cases ts)
    case Nil
    then have "registered_loop params i (Suc n) OS_SUCCESS out parent tag off s =
        registered_loop params (Suc i) n OS_SUCCESS ?k ?k tag off s"
      using path_index_words [OF assms(2) i] child tags_left_end [of params off] Suc.prems(4)
      by (simp add: hd_bind_def assms(1))
    then show ?thesis
      using Suc.IH [of "Suc i" ?k tag t off ts ?k] Suc.prems Nil drop by simp
  next
    case (Cons t' ts')
    then obtain tag' off' where n: "off < unat (hd_seed_key_len params)"
      "hdkey_zip32_parse_tlv_tag HDKEY_ZIP32_TAG_SEQUENCE_STR (hd_seed_key params) (unat (hd_seed_key_len params)) tag off =
        Inr (OS_SUCCESS, tag', off')" "tag_holds tag' t'" "tags_left params off' ts'"
      using tags_left_next [of params off t' ts' tag] Suc.prems(4) by blast
    have "registered_loop params i (Suc n) OS_SUCCESS out parent tag off s =
        registered_loop params (Suc i) n OS_SUCCESS ?k ?k tag' off' s"
      using path_index_words [OF assms(2) i] child n(1,2) by (simp add: hd_bind_def assms(1))
    then show ?thesis
      using Suc.IH [of "Suc i" ?k tag' t' off' ts' ?k] Suc.prems n(3,4) Cons drop by simp
  qed
qed (simp add: hd_ok_def)

lemma registered_args_parsed:
  assumes "registered_args params ctx t ts"
  obtains tag1 off1 tag2 off2
  where "parse_or_fail HDKEY_ZIP32_TAG_CONTEXT_STR params tag0 0 = hd_ok (tag1, off1)" "tag_holds tag1 ctx"
    and "parse_or_fail HDKEY_ZIP32_TAG_SEQUENCE_STR params tag1 off1 = hd_ok (tag2, off2)" "tag_holds tag2 t"
    and "tags_left params off2 ts"
proof (cases "hd_seed_key params")
  case None
  let ?tag = "\<lparr>tag_value = None, tag_length = 0\<rparr>"
  have "parse_or_fail e params tag off = hd_ok (?tag, off)" for e tag off
    by (simp add: parse_or_fail_def hdkey_zip32_parse_tlv_tag_def None)
  moreover have "tag_holds ?tag ctx" "tag_holds ?tag t" "tags_left params 0 ts"
    using assms None by (simp_all add: registered_args_def tag_holds_def tags_left_def)
  ultimately show thesis by (intro that [of ?tag 0 ?tag 0])
next
  case (Some sk)
  let ?rest = "concat (map (tlv 0xA0) ts)"
  have sk: "unat (hd_seed_key_len params) = length sk" "sk = tlv 0x16 ctx @ tlv 0xA0 t @ ?rest" "length ctx \<le> 255"
    "length t \<le> 255" "list_all (\<lambda>v. length v \<le> 255) ts"
    using assms Some by (simp_all add: registered_args_def)
  have d0: "drop 0 sk = tlv 0x16 ctx @ tlv 0xA0 t @ ?rest" by (simp add: sk(2))
  obtain tag1 where p1: "hdkey_zip32_parse_tlv_tag 0x16 (Some sk) (length sk) tag0 0 = Inr (OS_SUCCESS, tag1, 0 + 2 + length ctx)"
    "tag_holds tag1 ctx"
    by (rule parse_tlv [OF d0 _ sk(3)]) simp
  have "drop (2 + length ctx) sk = drop (length (tlv 0x16 ctx)) sk" by simp
  then have d1: "drop (2 + length ctx) sk = tlv 0xA0 t @ ?rest" by (simp only: sk(2) append_eq_conv_conj simp_thms drop_append) simp
  have len: "length sk = 2 + length ctx + (2 + length t) + length ?rest" unfolding sk(2) by simp
  then have le: "2 + length ctx \<le> length sk" by simp
  obtain tag2 where p2: "hdkey_zip32_parse_tlv_tag 0xA0 (Some sk) (length sk) tag1 (2 + length ctx) =
      Inr (OS_SUCCESS, tag2, 2 + length ctx + 2 + length t)" "tag_holds tag2 t"
    by (rule parse_tlv [OF d1 le sk(4)])
  have "drop (2 + length ctx + 2 + length t) sk = drop (length (tlv 0xA0 t)) (drop (2 + length ctx) sk)"
    unfolding drop_drop by (simp add: ac_simps)
  then have d2: "drop (2 + length ctx + 2 + length t) sk = ?rest" unfolding d1 by simp
  have "2 + length ctx + 2 + length t \<le> length sk" using len by simp
  then have "tags_left params (2 + length ctx + 2 + length t) ts"
    unfolding tags_left_def Some option.case d2 using sk(1,5) by simp
  then show thesis
    using p1 p2 Some sk(1) by (intro that [of tag1 "2 + length ctx" tag2]) (simp_all add: parse_or_fail_def zip32_consts)
qed

text \<open>
  Property C15: registered keys. The first index is the number of the ZIP; the key of the others is the
  one of ZIP 32 under the context string, each with its tag sequence and the last sequence for the
  rest. A path with the number alone gives a key of zeros, not the root key of the subtree.
\<close>

theorem zip32_registered_correct:
  assumes "zip32_request params p n 32 priv chain" and "length (seed_array env) = 64"
    and "1 \<le> n" and "registered_args params ctx t ts"
  defines "node \<equiv> if n = 1 then hard_sk_zero
    else registered_node (registered_root ctx (seed_array env) (path_words p n ! 0)) (tl (path_words p n)) t ts"
  shows "HDKEY_ZIP32_registered_derive env (Some params) s =
    Inr ((OS_SUCCESS,
          Some (params\<lparr>hd_private_key := Some (hsk_sk node @ drop 32 priv),
                       hd_chain := map_option (\<lambda>_. hsk_chain_code node) chain\<rparr>),
          Some (hsk_sk node @ drop 32 priv), map_option (\<lambda>_. hsk_chain_code node) chain), s)"
proof -
  have req: "hd_path params = Some p" "unat (hd_path_len params) = n" "4 * n \<le> length p"
    "hd_private_key params = Some priv" "unat (hd_private_key_len params) = length priv" "32 \<le> length priv"
    using assms(1) by (simp_all add: zip32_request_def)
  let ?root = "registered_root ctx (seed_array env) (path_words p n ! 0)"
  have ok: "hsk_ok ?root" by (simp add: registered_root_def)
  then have node: "hsk_ok node" by (simp add: node_def registered_node_ok)
  obtain tag1 off1 tag2 off2
    where p: "parse_or_fail HDKEY_ZIP32_TAG_CONTEXT_STR params \<lparr>tag_value = None, tag_length = 0\<rparr> 0 = hd_ok (tag1, off1)"
      "tag_holds tag1 ctx" "parse_or_fail HDKEY_ZIP32_TAG_SEQUENCE_STR params tag1 off1 = hd_ok (tag2, off2)"
      "tag_holds tag2 t" "tags_left params off2 ts"
    by (rule registered_args_parsed [OF assms(4)])
  have idx: "path_index (Some p) 0 = Inr (path_words p n ! 0)" using path_index_words [OF req(3), of 0] assms(3) by simp
  have loop: "registered_loop params 1 (n - 1) OS_SUCCESS hard_sk_zero ?root tag2 off2 s = Inr (Inr (OS_SUCCESS, node), s)"
    using registered_loop_run [OF req(1,3) _ ok p(4,5), of 1 "n - 1"] assms(3)
    by (simp add: node_def drop_Suc split: if_splits)
  show ?thesis
    unfolding HDKEY_ZIP32_registered_derive_def option.case if_not_P [OF zip32_chain_ok [OF assms(1)]]
    using req
    by (simp add: hd_finish_def get_seed_run [OF assms(2)] hd_bind_def p(1,3) registered_root_run [OF assms(2) p(2)]
        idx loop [unfolded One_nat_def] hard_sk_copy_run [OF assms(1) node])
qed

definition registered_example :: "nat \<Rightarrow> bytes \<Rightarrow> bytes \<Rightarrow> HDKEY_params" where
  "registered_example n p sk = (zip32_example HDKEY_DERIVE_MODE_ZIP32_REGISTERED n p)\<lparr>
     hd_seed_key := Some sk, hd_seed_key_len := of_nat (length sk)\<rparr>"

lemma registered_example_request:
  "n < 16 \<Longrightarrow> 4 * n \<le> length p \<Longrightarrow> zip32_request (registered_example n p sk) p n 32 (replicate 128 0) None"
  using zip32_example_request [of n p 32] by (simp add: zip32_request_def registered_example_def)

theorem zip32_registered_correct_witness:
  "\<exists>params. HDKEY_ZIP32_registered_derive seed_example
       (Some (registered_example 3 [32, 0, 0, 128, 1, 0, 0, 128, 2, 0, 0, 128] [0x16, 1, 9, 0xA0, 0, 0xA0, 1, 5]))
       mpi_init_state =
     Inr ((OS_SUCCESS, params,
       Some (hsk_sk (registered_ckd (registered_ckd (registered_root [9] (replicate 64 7) 0x80000020) 0x80000001 [])
               0x80000002 [5]) @ replicate 96 0), None), mpi_init_state)"
proof -
  let ?p = "[32, 0, 0, 128, 1, 0, 0, 128, 2, 0, 0, 128]" and ?sk = "[0x16, 1, 9, 0xA0, 0, 0xA0, 1, 5]"
  have words: "path_words ?p 3 = [0x80000020, 0x80000001, 0x80000002]" by code_simp
  have args: "registered_args (registered_example 3 ?p ?sk) [9] [] [[5]]"
    by (simp add: registered_args_def registered_example_def tlv_def)
  show ?thesis
    using zip32_registered_correct [OF registered_example_request [of 3 ?p ?sk] seed_example_length _ args, of mpi_init_state]
    by (simp add: words seed_example_def)
qed

text \<open>
  An element with another tag after the last tag sequence is skipped, but when it is met after the last
  index the call fails although the key is already in the buffer.
\<close>

lemma registered_unknown_tag:
  assumes "hd_path params = Some p" and "8 \<le> length p" and "hsk_ok parent" and "tag_holds tag t"
    and "hd_seed_key params = Some sk" and "unat (hd_seed_key_len params) = length sk" and "drop off sk = [u, l]"
    and "u \<noteq> 0xA0"
  shows "registered_loop params 1 1 OS_SUCCESS out parent tag off s =
    Inr (Inr (OS_ERR_NOT_FOUND, registered_ckd parent (path_words p 2 ! 1) t), s)"
proof -
  have "length (drop off sk) = 2" by (simp add: assms(7))
  then have len: "length sk = off + 2" by simp
  have nth: "sk ! off = u" "sk ! Suc off = l"
    using nth_drop [of off sk 0] nth_drop [of off sk 1] len assms(7) by simp_all
  have parse: "hdkey_zip32_parse_tlv_tag 0xA0 (Some sk) (length sk) tag off = Inr (OS_ERR_NOT_FOUND, tag, off + 2)"
    using assms(8) len nth by (simp add: hdkey_zip32_parse_tlv_tag_def mem_get_def)
  have "path_index (Some p) 1 = Inr (path_words p 2 ! 1)" using path_index_words [of 2 p 1] assms(2) by simp
  then show ?thesis
    using registered_child_run [OF assms(3,4), of out "path_words p 2 ! 1" "0xAC" s] parse len
    by (simp add: assms(1,5,6) hd_bind_def zip32_consts hd_ok_def)
qed

section \<open>The system call\<close>

definition hdkey_request ::
  "u32 \<Rightarrow> cx_curve \<Rightarrow> bytes option \<Rightarrow> u32 \<Rightarrow> bytes option \<Rightarrow> u32 \<Rightarrow> bytes option \<Rightarrow> u32 \<Rightarrow> bytes option \<Rightarrow> u32 \<Rightarrow>
     HDKEY_params" where
  "hdkey_request mode curve path path_len priv priv_len chain chain_len seed seed_len =
     \<lparr>hd_mode = mode, hd_from_app = True, hd_curve = curve, hd_path_len = path_len, hd_private_key_len = priv_len,
      hd_chain_len = chain_len, hd_seed_key_len = seed_len, hd_path = path, hd_private_key = priv,
      hd_chain = chain, hd_seed_key = seed\<rparr>"

lemma hdkey_status_0: "hdkey_status r = 0 \<longleftrightarrow> r = OS_SUCCESS"
  by (cases r) (simp_all add: hdkey_status_def)

lemma HDKEY_derive_checked:
  assumes "HDKEY_derive app env lib (Some params) st = Inr ((r, pk, ch), st')"
    and "r = OS_SUCCESS \<or> pk \<noteq> hd_private_key params \<or> ch \<noteq> hd_chain params"
  shows "HDKEY_VALIDATE_secure_context app (Some params) = Inr OS_SUCCESS" and "hd_mode params \<in>
    {HDKEY_DERIVE_MODE_BLS12377_ALEO, HDKEY_DERIVE_MODE_ZIP32_SAPLING, HDKEY_DERIVE_MODE_ZIP32_ORCHARD,
     HDKEY_DERIVE_MODE_ZIP32_REGISTERED}"
proof -
  obtain G s where st: "st = (G, s)" by (cases st)
  obtain e where e: "HDKEY_VALIDATE_secure_context app (Some params) = Inr e"
    using assms(1) by (cases "HDKEY_VALIDATE_secure_context app (Some params)") (simp_all add: HDKEY_derive_def st)
  then show ok: "HDKEY_VALIDATE_secure_context app (Some params) = Inr OS_SUCCESS"
    using assms by (cases "e = OS_SUCCESS") (simp_all add: HDKEY_derive_def st)
  show "hd_mode params \<in> {HDKEY_DERIVE_MODE_BLS12377_ALEO, HDKEY_DERIVE_MODE_ZIP32_SAPLING,
      HDKEY_DERIVE_MODE_ZIP32_ORCHARD, HDKEY_DERIVE_MODE_ZIP32_REGISTERED}"
    using assms ok by (auto simp: HDKEY_derive_def st split: if_splits)
qed

text \<open>
  Property C13: no key leaves the system call without authorisation. For an application with a
  well-formed declaration, when the call returns 0 or has changed one of the output buffers, then
  the request meets every condition of the check: a path length in range, a single mode, a hardened
  index or its exceptions, and, when the declaration has path prefixes, the declared authorisation
  of the mode and the curve and an entry that covers the path. The authorisation is read off the
  table of \<open>os_hdkey.h\<close>; the registered derivation of ZIP 32 has no row of its own in the code and
  passes with the authorisation of BIP32 on the curve. A declaration without prefixes restricts
  neither mode, curve nor path.
\<close>

theorem sys_hdkey_derive_authorised:
  assumes "sys_hdkey_derive app env lib mode curve (Some p) path_len priv priv_len chain chain_len seed seed_len st =
      Inr ((status, priv', chain'), st')"
    and "status = 0 \<or> priv' \<noteq> priv \<or> chain' \<noteq> chain"
    and "declares app curves es" and "path_mem mode p (unat path_len)"
  shows "hdkey_authorised app
      (hdkey_request mode curve (Some p) path_len priv priv_len chain chain_len seed seed_len) p curves es"
proof -
  let ?r = "hdkey_request mode curve (Some p) path_len priv priv_len chain chain_len seed seed_len"
  have r: "hd_path ?r = Some p" "hd_mode ?r = mode" "hd_path_len ?r = path_len" "hd_private_key ?r = priv" "hd_chain ?r = chain"
    by (simp_all add: hdkey_request_def)
  obtain result where run: "HDKEY_derive app env lib (Some ?r) st = Inr ((result, priv', chain'), st')"
    and status: "status = hdkey_status result"
    using assms(1,2)
    by (auto simp: sys_hdkey_derive_def Let_def res_bind_def hdkey_request_def split: if_splits sum.splits)
  have "HDKEY_VALIDATE_secure_context app (Some ?r) = Inr OS_SUCCESS"
    using HDKEY_derive_checked(1) [OF run] assms(2) status by (simp add: r hdkey_status_0)
  then show ?thesis
    using secure_context_authorised [OF assms(3) r(1)] assms(4) by (simp add: r)
qed

text \<open>An authorised request for an Orchard key goes through.\<close>

lemma sys_hdkey_derive_orchard:
  assumes "HDKEY_VALIDATE_secure_context app (Some r) = Inr OS_SUCCESS"
    and "r = hdkey_request HDKEY_DERIVE_MODE_ZIP32_ORCHARD curve (Some p) path_len (Some priv) priv_len chain chain_len None 0"
    and "zip32_request r p n 32 priv chain" and "length (seed_array env) = 64" and "chain = None \<Longrightarrow> chain_len = 0"
  obtains priv' chain' where "sys_hdkey_derive app env lib HDKEY_DERIVE_MODE_ZIP32_ORCHARD curve (Some p) path_len (Some priv)
      priv_len chain chain_len None 0 st = Inr ((0, priv', chain'), st)"
proof -
  obtain G s where st: "st = (G, s)" by (cases st)
  have len: "priv_len \<noteq> 0" using assms(3) by (auto simp: assms(2) zip32_request_def hdkey_request_def)
  have modes: "hd_mode r = HDKEY_DERIVE_MODE_ZIP32_ORCHARD" by (simp add: assms(2) hdkey_request_def)
  have "\<exists>pk ch. HDKEY_derive app env lib (Some r) st = Inr ((OS_SUCCESS, pk, ch), st)"
    using orchard_derive_run [OF assms(3,4), of s]
    by (simp add: HDKEY_derive_def st assms(1) modes) (simp add: hdw_modes)
  then obtain pk ch where run: "HDKEY_derive app env lib (Some r) st = Inr ((OS_SUCCESS, pk, ch), st)" by blast
  have "sys_hdkey_derive app env lib HDKEY_DERIVE_MODE_ZIP32_ORCHARD curve (Some p) path_len (Some priv)
      priv_len chain chain_len None 0 st = Inr ((0, pk, ch), st)"
    using len assms(5) run [unfolded assms(2) hdkey_request_def]
    by (cases chain) (simp_all add: sys_hdkey_derive_def hdkey_status_def Let_def)
  then show thesis by (rule that)
qed

definition app_zip32 :: app_info where
  "app_zip32 = \<lparr>app_flags = 0, derivation_path = [0x40, 0x01, 0x80, 0, 0, 0x20], derivation_path_len = 6\<rparr>"

theorem sys_hdkey_derive_authorised_witness:
  "hdkey_authorised app_zip32
     (hdkey_request HDKEY_DERIVE_MODE_ZIP32_ORCHARD 0 (Some [32, 0, 0, 128]) 1 (Some (replicate 32 0)) 32
       None 0 None 0) [32, 0, 0, 128] 0x40 [Bip32_Prefix [0x80000020]]"
proof -
  let ?p = "[32, 0, 0, 128]"
  let ?r = "hdkey_request HDKEY_DERIVE_MODE_ZIP32_ORCHARD 0 (Some ?p) 1 (Some (replicate 32 0)) 32 None 0 None 0"
  have ok: "HDKEY_VALIDATE_secure_context app_zip32 (Some ?r) = Inr OS_SUCCESS" by code_simp
  have req: "zip32_request ?r ?p 1 32 (replicate 32 0) None" by (simp add: zip32_request_def hdkey_request_def)
  obtain priv' chain' where run: "sys_hdkey_derive app_zip32 seed_example bn_exact HDKEY_DERIVE_MODE_ZIP32_ORCHARD 0 (Some ?p) 1
      (Some (replicate 32 0)) 32 None 0 None 0 (hmac_zero, mpi_init_state) =
      Inr ((0, priv', chain'), (hmac_zero, mpi_init_state))"
    by (rule sys_hdkey_derive_orchard [OF ok refl req seed_example_length, of bn_exact "(hmac_zero, mpi_init_state)"]) simp
  have "declares app_zip32 0x40 [Bip32_Prefix [0x80000020]]"
    by (simp add: declares_def app_zip32_def encode_policy_def be_of_u32_def)
  then show ?thesis
    by (intro sys_hdkey_derive_authorised [OF run]) (simp_all add: path_mem_def hdw_modes)
qed

end
