(* ===== verification/Cx_Math.thy ===== *)
theory Cx_Math
  imports Cx_Utils Mpi_Calls
begin

text \<open>
  Arithmetic on big-endian byte buffers, \<open>src/bolos/cx_math.c\<close>. Every function loads its operands into
  numbers of the library before it writes its result, so operands and result may be the same buffer.
  The library is the parameter \<open>lib\<close>; the functions do not look at failures of its calls, and \<open>left\<close>
  stands for what a failed call leaves in its result. A null pointer from \<open>BN_new\<close> or \<open>BN_CTX_new\<close> is
  passed on and dereferenced. Each function returns its status and the result buffer.
\<close>

section \<open>Numbers from and to buffers\<close>

definition MAX_SIZE :: nat where "MAX_SIZE = 4096"

definition bn_in :: "bn_lib \<Rightarrow> int \<Rightarrow> nat \<Rightarrow> bytes \<Rightarrow> nat \<Rightarrow> int res" where
  "bn_in lib left i buf len = (case BN_new lib i of
     None \<Rightarrow> Inl Oob
   | Some _ \<Rightarrow> res_bind (mem_read buf 0 len) (\<lambda>bs. Inr (case BN_bin2bn lib bs of None \<Rightarrow> left | Some v \<Rightarrow> v)))"

text \<open>The number that receives a result, and a call of the library that stores into it.\<close>

definition bn_result :: "bn_lib \<Rightarrow> int \<Rightarrow> nat \<Rightarrow> int option \<Rightarrow> int res" where
  "bn_result lib left i v = (case BN_new lib i of
     None \<Rightarrow> Inl Oob | Some _ \<Rightarrow> Inr (case v of None \<Rightarrow> left | Some r \<Rightarrow> r))"

definition with_ctx :: "bn_lib \<Rightarrow> 'a res \<Rightarrow> 'a res" where
  "with_ctx lib m = (if BN_CTX_new lib then m else Inl Oob)"

text \<open>\<open>BN_bn2binpad\<close> into a buffer: a number that does not fit is not written.\<close>

definition bn_out :: "bn_lib \<Rightarrow> int \<Rightarrow> bytes \<Rightarrow> nat \<Rightarrow> bytes res" where
  "bn_out lib v r len = (case BN_bn2binpad lib v len of None \<Rightarrow> Inr r | Some bs \<Rightarrow> mem_write r 0 bs)"

definition BN_bn2binpad_truncate :: "bn_lib \<Rightarrow> int \<Rightarrow> bytes \<Rightarrow> nat \<Rightarrow> (bool \<times> bytes) res" where
  "BN_bn2binpad_truncate lib a to_buf tolen =
     (case BN_bn2binpad lib a tolen of
        Some bs \<Rightarrow> res_bind (mem_write to_buf 0 bs) (\<lambda>t. Inr (False, t))
      | None \<Rightarrow>
          (case BN_bn2binpad lib a (MAX_SIZE + 1) of
             None \<Rightarrow> Inl Errx
           | Some buf \<Rightarrow> res_bind (mem_write to_buf 0 (drop (MAX_SIZE + 1 - tolen) buf)) (\<lambda>t. Inr (True, t))))"

section \<open>The functions\<close>

fun math_cmp_loop :: "bytes \<Rightarrow> bytes \<Rightarrow> nat \<Rightarrow> nat \<Rightarrow> int res" where
  "math_cmp_loop a b i 0 = Inr 0"
| "math_cmp_loop a b i (Suc n) = res_bind (mem_get a i) (\<lambda>x. res_bind (mem_get b i) (\<lambda>y.
     if x \<noteq> y then Inr (if x < y then - 1 else 1) else math_cmp_loop a b (i + 1) n))"

definition sys_cx_math_cmp :: "bytes \<Rightarrow> bytes \<Rightarrow> nat \<Rightarrow> int res" where
  "sys_cx_math_cmp a b len = math_cmp_loop a b 0 len"

definition sys_cx_math_invintm ::
  "bn_lib \<Rightarrow> (bytes \<Rightarrow> int option) \<Rightarrow> int \<Rightarrow> bytes \<Rightarrow> u32 \<Rightarrow> bytes \<Rightarrow> nat \<Rightarrow> (int \<times> bytes) res" where
  "sys_cx_math_invintm lib BN_lebin2bn left r a m len = with_ctx lib
     (res_bind (bn_result lib left 0 (BN_lebin2bn (le_of_u32 a))) (\<lambda>aa.
      res_bind (bn_in lib left 1 m len) (\<lambda>mm.
      res_bind (bn_result lib left 2 (BN_mod_inverse lib aa mm)) (\<lambda>rr.
      res_bind (bn_out lib rr r len) (\<lambda>r. Inr (0, r))))))"

definition sys_cx_math_invprimem ::
  "bn_lib \<Rightarrow> int \<Rightarrow> bytes \<Rightarrow> bytes \<Rightarrow> bytes \<Rightarrow> nat \<Rightarrow> (int \<times> bytes) res" where
  "sys_cx_math_invprimem lib left r a m len = with_ctx lib
     (res_bind (bn_in lib left 0 a len) (\<lambda>aa.
      res_bind (bn_in lib left 1 m len) (\<lambda>mm.
      res_bind (bn_result lib left 2 (BN_mod_inverse lib aa mm)) (\<lambda>rr.
      res_bind (bn_out lib rr r len) (\<lambda>r. Inr (0, r))))))"

fun math_is_zero_loop :: "bytes \<Rightarrow> nat \<Rightarrow> nat \<Rightarrow> int res" where
  "math_is_zero_loop a i 0 = Inr 1"
| "math_is_zero_loop a i (Suc n) = res_bind (mem_get a i) (\<lambda>x.
     if x \<noteq> 0 then Inr 0 else math_is_zero_loop a (i + 1) n)"

definition sys_cx_math_is_zero :: "bytes \<Rightarrow> nat \<Rightarrow> int res" where
  "sys_cx_math_is_zero a len = math_is_zero_loop a 0 len"

definition sys_cx_math_add ::
  "bn_lib \<Rightarrow> int \<Rightarrow> bytes \<Rightarrow> bytes \<Rightarrow> bytes \<Rightarrow> nat \<Rightarrow> (int \<times> bytes) res" where
  "sys_cx_math_add lib left r a b len =
     (if len > MAX_SIZE then Inl Errx
      else res_bind (bn_in lib left 0 a len) (\<lambda>aa.
           res_bind (bn_in lib left 1 b len) (\<lambda>bb.
           res_bind (bn_result lib left 2 (BN_add lib aa bb)) (\<lambda>rr.
           res_bind (BN_bn2binpad_truncate lib rr r len) (\<lambda>(carry, r). Inr (if carry then 1 else 0, r))))))"

text \<open>The status of the functions that should return nothing is \<open>0xdeadbeef\<close> as an \<open>int\<close>.\<close>

definition math_void :: int where "math_void = sint (0xdeadbeef :: u32)"

definition sys_cx_math_addm ::
  "bn_lib \<Rightarrow> int \<Rightarrow> bytes \<Rightarrow> bytes \<Rightarrow> bytes \<Rightarrow> bytes \<Rightarrow> nat \<Rightarrow> (int \<times> bytes) res" where
  "sys_cx_math_addm lib left r a b m len = with_ctx lib
     (res_bind (bn_in lib left 0 a len) (\<lambda>aa.
      res_bind (bn_in lib left 1 b len) (\<lambda>bb.
      res_bind (bn_in lib left 2 m len) (\<lambda>mm.
      res_bind (bn_result lib left 3 (BN_mod_add lib aa bb mm)) (\<lambda>rr.
      res_bind (bn_out lib rr r len) (\<lambda>r. Inr (math_void, r)))))))"

definition sys_cx_math_powm ::
  "bn_lib \<Rightarrow> int \<Rightarrow> bytes \<Rightarrow> bytes \<Rightarrow> bytes \<Rightarrow> nat \<Rightarrow> bytes \<Rightarrow> nat \<Rightarrow> (int \<times> bytes) res" where
  "sys_cx_math_powm lib left r a e len_e m len = with_ctx lib
     (res_bind (bn_in lib left 0 a len) (\<lambda>aa.
      res_bind (bn_in lib left 1 e len_e) (\<lambda>ee.
      res_bind (bn_in lib left 2 m len) (\<lambda>mm.
      res_bind (bn_result lib left 3 (BN_mod_exp lib aa ee mm)) (\<lambda>rr.
      res_bind (bn_out lib rr r len) (\<lambda>r. Inr (0, r)))))))"

definition sys_cx_math_sub ::
  "bn_lib \<Rightarrow> int \<Rightarrow> bytes \<Rightarrow> bytes \<Rightarrow> bytes \<Rightarrow> nat \<Rightarrow> (int \<times> bytes) res" where
  "sys_cx_math_sub lib left r a b len =
     res_bind (bn_in lib left 0 a len) (\<lambda>aa.
     res_bind (bn_in lib left 1 b len) (\<lambda>bb.
     res_bind (bn_result lib left 2 (BN_sub lib aa bb)) (\<lambda>rr.
     res_bind (bn_out lib rr r len) (\<lambda>r. Inr (0, r)))))"

definition sys_cx_math_subm ::
  "bn_lib \<Rightarrow> int \<Rightarrow> bytes \<Rightarrow> bytes \<Rightarrow> bytes \<Rightarrow> bytes \<Rightarrow> nat \<Rightarrow> (int \<times> bytes) res" where
  "sys_cx_math_subm lib left r a b m len = with_ctx lib
     (res_bind (bn_in lib left 0 a len) (\<lambda>aa.
      res_bind (bn_in lib left 1 b len) (\<lambda>bb.
      res_bind (bn_in lib left 2 m len) (\<lambda>mm.
      res_bind (bn_result lib left 3 (BN_mod_sub lib aa bb mm)) (\<lambda>rr.
      res_bind (bn_out lib rr r len) (\<lambda>r. Inr (0, r)))))))"

definition sys_cx_math_modm ::
  "bn_lib \<Rightarrow> int \<Rightarrow> bytes \<Rightarrow> nat \<Rightarrow> bytes \<Rightarrow> nat \<Rightarrow> (int \<times> bytes) res" where
  "sys_cx_math_modm lib left v len_v m len_m = with_ctx lib
     (res_bind (bn_in lib left 0 v len_v) (\<lambda>aa.
      res_bind (bn_in lib left 1 m len_m) (\<lambda>mm.
      res_bind (bn_result lib left 2 (map_option snd (BN_div lib aa mm))) (\<lambda>rr.
      res_bind (bn_out lib rr v len_v) (\<lambda>v. Inr (math_void, v))))))"

definition sys_cx_math_mult ::
  "bn_lib \<Rightarrow> int \<Rightarrow> bytes \<Rightarrow> bytes \<Rightarrow> bytes \<Rightarrow> nat \<Rightarrow> (int \<times> bytes) res" where
  "sys_cx_math_mult lib left r a b len = with_ctx lib
     (res_bind (bn_in lib left 0 a len) (\<lambda>aa.
      res_bind (bn_in lib left 1 b len) (\<lambda>bb.
      res_bind (bn_result lib left 2 (BN_mul lib aa bb)) (\<lambda>rr.
      res_bind (bn_out lib rr r (2 * len)) (\<lambda>r. Inr (math_void, r))))))"

definition sys_cx_math_multm ::
  "bn_lib \<Rightarrow> int \<Rightarrow> bytes \<Rightarrow> bytes \<Rightarrow> bytes \<Rightarrow> bytes \<Rightarrow> nat \<Rightarrow> (int \<times> bytes) res" where
  "sys_cx_math_multm lib left r a b m len = with_ctx lib
     (res_bind (bn_in lib left 0 a len) (\<lambda>aa.
      res_bind (bn_in lib left 1 b len) (\<lambda>bb.
      res_bind (bn_in lib left 2 m len) (\<lambda>mm.
      res_bind (bn_result lib left 3 (BN_mod_mul lib aa bb mm)) (\<lambda>rr.
      res_bind (bn_out lib rr r len) (\<lambda>r. Inr (math_void, r)))))))"

definition sys_cx_math_is_prime :: "bn_lib \<Rightarrow> int \<Rightarrow> bytes \<Rightarrow> nat \<Rightarrow> int res" where
  "sys_cx_math_is_prime lib left r len = with_ctx lib
     (res_bind (bn_in lib left 0 r len) (\<lambda>rr.
      Inr (case BN_is_prime_ex lib rr of None \<Rightarrow> - 1 | Some p \<Rightarrow> if p then 1 else 0)))"

section \<open>What they compute\<close>

definition buf_num :: "bytes \<Rightarrow> nat \<Rightarrow> int" where
  "buf_num buf n = os2ip (take n buf)"

lemma buf_num_bounds: "0 \<le> buf_num buf n" "n \<le> length buf \<Longrightarrow> buf_num buf n < 256 ^ n"
  using os2ip_bound [of "take n buf"] by (simp_all add: buf_num_def)

lemma buf_num_Suc: "n < length buf \<Longrightarrow> buf_num buf (Suc n) = 256 * buf_num buf n + uint (buf ! n)"
  by (simp add: buf_num_def take_Suc_conv_app_nth)

text \<open>The comparison and the test for zero are those of the numbers.\<close>

lemma math_cmp_loop_eq:
  "i + n \<le> length a \<Longrightarrow> i + n \<le> length b \<Longrightarrow>
   math_cmp_loop a b i n = Inr (sgn (os2ip (take n (drop i a)) - os2ip (take n (drop i b))))"
proof (induction n arbitrary: i)
  case (Suc n)
  let ?x = "os2ip (take n (drop (Suc i) a))" and ?y = "os2ip (take n (drop (Suc i) b))"
  have a: "take (Suc n) (drop i a) = a ! i # take n (drop (Suc i) a)"
    and b: "take (Suc n) (drop i b) = b ! i # take n (drop (Suc i) b)"
    using Suc.prems by (simp_all add: Cons_nth_drop_Suc [symmetric])
  have len: "length (take n (drop (Suc i) a)) = n" "length (take n (drop (Suc i) b)) = n"
    using Suc.prems by simp_all
  have bound: "0 \<le> ?x" "?x < 256 ^ n" "0 \<le> ?y" "?y < 256 ^ n"
    using os2ip_bound [of "take n (drop (Suc i) a)"] os2ip_bound [of "take n (drop (Suc i) b)"] len by simp_all
  have val: "os2ip (a ! i # take n (drop (Suc i) a)) = uint (a ! i) * 256 ^ n + ?x"
    "os2ip (b ! i # take n (drop (Suc i) b)) = uint (b ! i) * 256 ^ n + ?y"
    using len by (simp_all add: os2ip_Cons)
  consider "a ! i = b ! i" | "uint (a ! i) < uint (b ! i)" | "uint (b ! i) < uint (a ! i)"
    by (metis less_linear word_uint_eq_iff)
  then show ?case
  proof cases
    case 1
    have "os2ip (take (Suc n) (drop i a)) - os2ip (take (Suc n) (drop i b)) = ?x - ?y"
      unfolding a b val by (simp add: 1)
    then show ?thesis using 1 Suc by (simp add: mem_get_def)
  next
    case 2
    then have "(uint (a ! i) + 1) * 256 ^ n \<le> uint (b ! i) * 256 ^ n" by (intro mult_right_mono) simp_all
    then have "os2ip (a ! i # take n (drop (Suc i) a)) < os2ip (b ! i # take n (drop (Suc i) b))"
      using bound unfolding val distrib_right by linarith
    then show ?thesis using 2 Suc.prems by (auto simp: a b mem_get_def word_less_def)
  next
    case 3
    then have "(uint (b ! i) + 1) * 256 ^ n \<le> uint (a ! i) * 256 ^ n" by (intro mult_right_mono) simp_all
    then have "os2ip (b ! i # take n (drop (Suc i) b)) < os2ip (a ! i # take n (drop (Suc i) a))"
      using bound unfolding val distrib_right by linarith
    then show ?thesis using 3 Suc.prems by (auto simp: a b mem_get_def word_less_def)
  qed
qed simp

lemma math_cmp_eq:
  "n \<le> length a \<Longrightarrow> n \<le> length b \<Longrightarrow> sys_cx_math_cmp a b n = Inr (sgn (buf_num a n - buf_num b n))"
  using math_cmp_loop_eq [of 0 n a b] by (simp add: sys_cx_math_cmp_def buf_num_def)

lemma math_is_zero_loop_eq:
  "i + n \<le> length a \<Longrightarrow> math_is_zero_loop a i n = Inr (if take n (drop i a) = replicate n 0 then 1 else 0)"
proof (induction n arbitrary: i)
  case (Suc n)
  then have "take (Suc n) (drop i a) = a ! i # take n (drop (Suc i) a)" by (simp add: Cons_nth_drop_Suc [symmetric])
  then show ?case using Suc by (simp add: mem_get_def)
qed simp

lemma math_is_zero_eq:
  assumes "n \<le> length a"
  shows "sys_cx_math_is_zero a n = Inr (if buf_num a n = 0 then 1 else 0)"
proof -
  have "take n a = replicate n 0 \<longleftrightarrow> buf_num a n = 0"
    using os2ip_inj [of "take n a" "replicate n 0"] assms by (simp add: buf_num_def)
  then show ?thesis using math_is_zero_loop_eq [of 0 n a] assms by (simp add: sys_cx_math_is_zero_def)
qed

lemma double_power_le: "n \<le> k \<Longrightarrow> (2 :: int) * 256 ^ n \<le> 256 ^ Suc k"
proof -
  assume "n \<le> k"
  then have "(256 :: int) ^ n \<le> 256 ^ k" by (intro power_increasing) simp_all
  moreover have "0 < (256 :: int) ^ k" by simp
  ultimately show ?thesis unfolding power_Suc by linarith
qed

context openssl_bn_total
begin

lemma bn_in_eq: "n \<le> length buf \<Longrightarrow> bn_in lib left i buf n = Inr (buf_num buf n)"
  by (simp add: bn_in_def new_eq mem_read_def bin2bn_eq buf_num_def)

lemma bn_result_eq: "bn_result lib left i (Some v) = Inr v"
  by (simp add: bn_result_def new_eq)

lemma with_ctx_eq: "with_ctx lib m = m"
  by (simp add: with_ctx_def ctx_new_ok)

lemma bn_out_eq: "0 \<le> v \<Longrightarrow> v < 256 ^ n \<Longrightarrow> n \<le> length r \<Longrightarrow> bn_out lib v r n = Inr (i2osp n v @ drop n r)"
  by (simp add: bn_out_def bn2binpad_val byte_length_le_iff mem_write_def buf_write_def)

lemmas math_run = bn_in_eq bn_result_eq with_ctx_eq

lemma mod_fits: "0 < m \<Longrightarrow> m < 256 ^ n \<Longrightarrow> 0 \<le> x mod m \<and> x mod m < (256 :: int) ^ n"
  using pos_mod_bound [of m x] pos_mod_sign [of m x] by linarith

lemma math_mod_run:
  assumes "n \<le> length r" "n \<le> length a" "n \<le> length b" "n \<le> length m" and "0 < buf_num m n"
  shows "sys_cx_math_addm lib left r a b m n =
      Inr (math_void, i2osp n ((buf_num a n + buf_num b n) mod buf_num m n) @ drop n r)"
    and "sys_cx_math_subm lib left r a b m n =
      Inr (0, i2osp n ((buf_num a n - buf_num b n) mod buf_num m n) @ drop n r)"
    and "sys_cx_math_multm lib left r a b m n =
      Inr (math_void, i2osp n (buf_num a n * buf_num b n mod buf_num m n) @ drop n r)"
    and "k \<le> length e \<Longrightarrow> sys_cx_math_powm lib left r a e k m n =
      Inr (0, i2osp n (buf_num a n ^ nat (buf_num e k) mod buf_num m n) @ drop n r)"
  using assms mod_fits [OF assms(5) buf_num_bounds(2) [OF assms(4)]]
  by (simp_all add: sys_cx_math_addm_def sys_cx_math_subm_def sys_cx_math_multm_def sys_cx_math_powm_def math_run
      mod_add_eq mod_sub_eq mod_mul_eq mod_exp_eq buf_num_bounds(1) bn_out_eq)

lemma math_modm_run:
  assumes "n \<le> length v" and "k \<le> length m" and "0 < buf_num m k"
  shows "sys_cx_math_modm lib left v n m k = Inr (math_void, i2osp n (buf_num v n mod buf_num m k) @ drop n v)"
proof -
  have "map_option snd (BN_div lib (buf_num v n) (buf_num m k)) = Some (buf_num v n mod buf_num m k)"
    using div_ok [of "buf_num m k" "buf_num v n"] div_val [OF buf_num_bounds(1), of v n "buf_num m k"] assms(3)
    by (cases "BN_div lib (buf_num v n) (buf_num m k)") auto
  moreover have "buf_num v n mod buf_num m k \<le> buf_num v n"
    using assms(3) buf_num_bounds(1) [of v n] by (simp add: zmod_le_nonneg_dividend)
  then have "buf_num v n mod buf_num m k < 256 ^ n"
    using buf_num_bounds(2) [OF assms(1)] by linarith
  ultimately show ?thesis
    using assms by (simp add: sys_cx_math_modm_def math_run bn_out_eq del: map_option_eq_Some)
qed

lemma truncate_run:
  assumes "n \<le> length r" "n \<le> MAX_SIZE" and v: "0 \<le> v" "v < 2 * 256 ^ n"
  shows "BN_bn2binpad_truncate lib v r n = Inr (256 ^ n \<le> v, i2osp n v @ drop n r)"
proof -
  have big: "\<bar>v\<bar> < 256 ^ Suc MAX_SIZE" using double_power_le [OF assms(2)] v by linarith
  have low: "drop (Suc MAX_SIZE - n) (i2osp (Suc MAX_SIZE) v) = i2osp n v"
    using assms(2) by (intro i2osp_low) simp
  have pad: "BN_bn2binpad lib v (Suc MAX_SIZE) = Some (i2osp (Suc MAX_SIZE) v)"
    using big v(1) by (simp only: bn2binpad_val byte_length_le_iff abs_of_nonneg if_True)
  have fit: "BN_bn2binpad lib v n = (if 256 ^ n \<le> v then None else Some (i2osp n v))"
    using v(1) by (simp add: bn2binpad_val byte_length_le_iff)
  show ?thesis
    using assms(1) low pad
    by (simp add: BN_bn2binpad_truncate_def fit mem_write_def buf_write_def del: i2osp.simps)
qed

lemma math_add_run:
  assumes "n \<le> length r" "n \<le> length a" "n \<le> length b" and "n \<le> MAX_SIZE"
  shows "sys_cx_math_add lib left r a b n =
    Inr (if 256 ^ n \<le> buf_num a n + buf_num b n then 1 else 0, i2osp n (buf_num a n + buf_num b n) @ drop n r)"
proof -
  have "0 \<le> buf_num a n + buf_num b n" "buf_num a n + buf_num b n < 2 * 256 ^ n"
    using buf_num_bounds(1) [of a n] buf_num_bounds(1) [of b n] buf_num_bounds(2) [OF assms(2)]
      buf_num_bounds(2) [OF assms(3)] by linarith+
  from truncate_run [OF assms(1,4) this] show ?thesis
    using assms by (simp add: sys_cx_math_add_def math_run add_eq)
qed

text \<open>The difference is written without its sign: for \<open>a < b\<close> it is \<open>b - a\<close>, with the same status.\<close>

lemma math_sub_run:
  assumes "n \<le> length r" "n \<le> length a" "n \<le> length b"
  shows "sys_cx_math_sub lib left r a b n = Inr (0, i2osp n \<bar>buf_num a n - buf_num b n\<bar> @ drop n r)"
proof -
  have "\<bar>buf_num a n - buf_num b n\<bar> < 256 ^ n"
    using buf_num_bounds(1) [of a n] buf_num_bounds(1) [of b n] buf_num_bounds(2) [OF assms(2)]
      buf_num_bounds(2) [OF assms(3)] by linarith
  then show ?thesis
    using assms by (simp add: sys_cx_math_sub_def math_run sub_eq bn_out_def bn2binpad_val byte_length_le_iff
        mem_write_def buf_write_def)
qed

lemma math_mult_run:
  assumes "2 * n \<le> length r" "n \<le> length a" "n \<le> length b"
  shows "sys_cx_math_mult lib left r a b n = Inr (math_void, i2osp (2 * n) (buf_num a n * buf_num b n) @ drop (2 * n) r)"
proof -
  have "buf_num a n * buf_num b n < 256 ^ n * 256 ^ n"
    using buf_num_bounds(1) [of a n] buf_num_bounds(1) [of b n] buf_num_bounds(2) [OF assms(2)]
      buf_num_bounds(2) [OF assms(3)] by (intro mult_strict_mono) simp_all
  then have "buf_num a n * buf_num b n < 256 ^ (2 * n)" by (simp add: mult_2 power_add)
  then show ?thesis
    using assms by (simp add: sys_cx_math_mult_def math_run mul_eq buf_num_bounds(1) bn_out_eq)
qed

text \<open>The inverse, where the library finds one.\<close>

lemma math_inverse_run:
  assumes "n \<le> length r" "n \<le> length a" "n \<le> length m" and "1 < buf_num m n"
    and "BN_mod_inverse lib (buf_num a n) (buf_num m n) = Some v"
  shows "sys_cx_math_invprimem lib left r a m n = Inr (0, i2osp n v @ drop n r)"
    and "(buf_num a n * v) mod buf_num m n = 1"
proof -
  have v: "0 \<le> v" "v < buf_num m n" "(buf_num a n * v) mod buf_num m n = 1"
    using mod_inverse_val [OF assms(5,4)] by simp_all
  have "v < 256 ^ n" using v(2) buf_num_bounds(2) [OF assms(3)] by linarith
  then show "sys_cx_math_invprimem lib left r a m n = Inr (0, i2osp n v @ drop n r)"
    using assms v(1) by (simp add: sys_cx_math_invprimem_def math_run bn_out_eq)
  show "(buf_num a n * v) mod buf_num m n = 1" by (rule v(3))
qed

end

end
