(* ===== verification/Cx_Ec_Der.thy ===== *)
theory Cx_Ec_Der
  imports Cx_Utils Big_Endian
begin

text \<open>
  DER encoding and decoding of ECDSA signatures, \<open>src/bolos/cx_ec.c\<close>. A pointer into the input is its
  offset from the start, \<open>e\<close> is the offset of \<open>end\<close>; a length is a \<open>size_t\<close> of 32 bits, and adding it
  to a pointer wraps around. Reads are checked against the buffer of the caller, which may be longer
  than \<open>input_len\<close>. The numbers and the signature of the encoder are separate buffers.
\<close>

section \<open>Operations\<close>

definition ptr_add :: "nat \<Rightarrow> u32 \<Rightarrow> nat" where
  "ptr_add p n = (p + unat n) mod 2 ^ 32"

text \<open>The result of the readers: whether they accept, \<open>*p\<close> and \<open>*len\<close> afterwards.\<close>

fun asn1_len_loop :: "bytes \<Rightarrow> nat \<Rightarrow> nat \<Rightarrow> u32 \<Rightarrow> nat \<Rightarrow> (bool \<times> nat \<times> u32) res" where
  "asn1_len_loop input e p len 0 = Inr (True, p, len)"
| "asn1_len_loop input e p len (Suc n) =
     (if drop_bit 24 len \<noteq> 0 then Inr (False, p, len)
      else res_bind (mem_get input p) (\<lambda>b.
        let len = push_bit 8 len OR ucast b in
        if of_nat (e - p) < len + of_nat (Suc n) then Inr (False, p, len)
        else asn1_len_loop input e (p + 1) len n))"

definition asn1_read_len :: "bytes \<Rightarrow> nat \<Rightarrow> nat \<Rightarrow> (bool \<times> nat \<times> u32) res" where
  "asn1_read_len input e p =
     (if e \<le> p then Inr (False, p, 0)
      else res_bind (mem_get input p) (\<lambda>b1.
        let p = p + 1 in
        if b1 = 0xff then Inr (False, p, 0)
        else if b1 AND 0x80 = 0 then Inr (True, p, ucast b1)
        else if b1 = 0x80 then Inr (False, p, 0)
        else let lenleft = unat (b1 AND 0x7F) in
          if lenleft > e - p then Inr (False, p, 0)
          else res_bind (mem_get input p) (\<lambda>b.
            if b = 0 then Inr (False, p, 0)
            else if lenleft > 4 then Inr (False, p, 0)
            else res_bind (asn1_len_loop input e p 0 lenleft) (\<lambda>(ok, p, len).
              Inr (if ok then 128 \<le> len else False, p, len)))))"

definition asn1_read_tag :: "bytes \<Rightarrow> nat \<Rightarrow> nat \<Rightarrow> u8 \<Rightarrow> (bool \<times> nat \<times> u32) res" where
  "asn1_read_tag input e p tag =
     (if int e - int p < 1 then Inr (False, p, 0)
      else res_bind (mem_get input p) (\<lambda>b.
        if b \<noteq> tag then Inr (False, p, 0) else asn1_read_len input e (p + 1)))"

text \<open>\<open>while (**p == 0 && *p != end && len > 0)\<close>: the byte is read before the other two tests.\<close>

fun asn1_skip_zeros :: "bytes \<Rightarrow> nat \<Rightarrow> nat \<Rightarrow> nat \<Rightarrow> (nat \<times> nat) res" where
  "asn1_skip_zeros input e p 0 = res_bind (mem_get input p) (\<lambda>_. Inr (p, 0))"
| "asn1_skip_zeros input e p (Suc n) = res_bind (mem_get input p) (\<lambda>b.
     if b = 0 \<and> p \<noteq> e then asn1_skip_zeros input e (p + 1) n else Inr (p, Suc n))"

text \<open>\<open>(*p)[0] == 0 && len >= 2 && ((*p)[1] & 0x80) == 0\<close>\<close>

definition asn1_padded :: "bytes \<Rightarrow> nat \<Rightarrow> u32 \<Rightarrow> u8 \<Rightarrow> bool res" where
  "asn1_padded input p len b =
     (if b = 0 \<and> 2 \<le> len then res_bind (mem_get input (p + 1)) (\<lambda>c. Inr (c AND 0x80 = 0)) else Inr False)"

text \<open>\<open>Some (p, n, n_len)\<close> when the integer is accepted; the out parameters are set only then.\<close>

definition asn1_parse_integer :: "bytes \<Rightarrow> nat \<Rightarrow> nat \<Rightarrow> (nat \<times> nat \<times> nat) option res" where
  "asn1_parse_integer input e p =
     res_bind (asn1_read_tag input e p 2) (\<lambda>(ok, p, len).
       if \<not> ok then Inr None
       else res_bind (mem_get input p) (\<lambda>b.
         if b AND 0x80 = 0x80 then Inr None
         else res_bind (asn1_padded input p len b) (\<lambda>padded.
           if padded then Inr None
           else res_bind (asn1_skip_zeros input e p (unat len)) (\<lambda>(n, n_len).
             Inr (Some (ptr_add n (of_nat n_len), n, n_len))))))"

text \<open>\<open>Some ((r, r_len), (s, s_len))\<close> is the return value 1, \<open>None\<close> is 0.\<close>

definition spec_cx_ecfp_decode_sig_der ::
  "bytes \<Rightarrow> nat \<Rightarrow> nat \<Rightarrow> ((nat \<times> nat) \<times> (nat \<times> nat)) option res" where
  "spec_cx_ecfp_decode_sig_der input input_len max_size =
     res_bind (asn1_read_tag input input_len 0 0x30) (\<lambda>(ok, p, len).
       if \<not> ok then Inr None
       else if ptr_add p len \<noteq> input_len then Inr None
       else res_bind (asn1_parse_integer input input_len p) (\<lambda>ri.
         case ri of None \<Rightarrow> Inr None
         | Some (p, r, r_len) \<Rightarrow>
             res_bind (asn1_parse_integer input input_len p) (\<lambda>si.
               case si of None \<Rightarrow> Inr None
               | Some (p, s, s_len) \<Rightarrow>
                   if p \<noteq> input_len then Inr None
                   else if r_len > max_size \<or> s_len > max_size then Inr None
                   else Inr (Some ((r, r_len), (s, s_len))))))"

text \<open>\<open>while ((*r == 0) && r_len)\<close>: the byte is read before the length is tested.\<close>

fun der_skip_zeros :: "bytes \<Rightarrow> nat \<Rightarrow> nat \<Rightarrow> (nat \<times> nat) res" where
  "der_skip_zeros r i 0 = res_bind (mem_get r i) (\<lambda>_. Inr (i, 0))"
| "der_skip_zeros r i (Suc n) = res_bind (mem_get r i) (\<lambda>b.
     if b = 0 then der_skip_zeros r (i + 1) n else Inr (i, Suc n))"

text \<open>The block that writes one integer at \<open>offset\<close>: the signature and the length of its contents.\<close>

definition der_put_integer :: "bytes \<Rightarrow> nat \<Rightarrow> bytes \<Rightarrow> nat \<Rightarrow> nat \<Rightarrow> (bytes \<times> nat) res" where
  "der_put_integer sig offset r i r_len =
     res_bind (mem_get r i) (\<lambda>b.
     res_bind (mem_read r i r_len) (\<lambda>d.
     res_bind (if b AND 0x80 \<noteq> 0
               then res_bind (mem_write sig (offset + 2) [0]) (\<lambda>sig.
                    res_bind (mem_write sig (offset + 3) d) (\<lambda>sig. Inr (sig, r_len + 1)))
               else res_bind (mem_write sig (offset + 2) d) (\<lambda>sig. Inr (sig, r_len))) (\<lambda>(sig, r_len).
     res_bind (mem_write sig offset [2]) (\<lambda>sig.
     res_bind (mem_write sig (offset + 1) [of_nat r_len]) (\<lambda>sig. Inr (sig, r_len))))))"

definition der_total :: "u8 \<Rightarrow> nat \<Rightarrow> u8 \<Rightarrow> nat \<Rightarrow> nat" where
  "der_total br r_len bs s_len =
     (3 * 2 + r_len + s_len + (if br AND 0x80 \<noteq> 0 then 1 else 0) + (if bs AND 0x80 \<noteq> 0 then 1 else 0)) mod 2 ^ 32"

definition spec_cx_ecfp_encode_sig_der ::
  "bytes \<Rightarrow> nat \<Rightarrow> bytes \<Rightarrow> nat \<Rightarrow> bytes \<Rightarrow> nat \<Rightarrow> (nat \<times> bytes) res" where
  "spec_cx_ecfp_encode_sig_der sig sig_len r r_len s s_len =
     res_bind (der_skip_zeros r 0 r_len) (\<lambda>(ri, r_len).
     res_bind (der_skip_zeros s 0 s_len) (\<lambda>(si, s_len).
     if r_len = 0 \<or> s_len = 0 then Inr (0, sig)
     else res_bind (mem_get r ri) (\<lambda>br.
       res_bind (mem_get s si) (\<lambda>bs.
       if sig_len < der_total br r_len bs s_len then Inr (0, sig)
       else res_bind (der_put_integer sig 2 r ri r_len) (\<lambda>(sig, r_len).
         res_bind (der_put_integer sig (4 + r_len) s si s_len) (\<lambda>(sig, s_len).
         res_bind (mem_write sig 0 [0x30]) (\<lambda>sig.
         res_bind (mem_write sig 1 [of_nat (2 + r_len + 2 + s_len)]) (\<lambda>sig.
         res_bind (mem_get sig 1) (\<lambda>n. Inr (2 + unat n, sig))))))))))"

section \<open>The distinguished encoding rules\<close>

fun nat_bytes :: "nat \<Rightarrow> bytes" where
  "nat_bytes n = (if n = 0 then [] else nat_bytes (n div 256) @ [of_nat n])"

declare nat_bytes.simps [simp del]

definition der_length :: "nat \<Rightarrow> bytes" where
  "der_length n = (if n < 128 then [of_nat n] else of_nat (128 + length (nat_bytes n)) # nat_bytes n)"

definition der_tlv :: "u8 \<Rightarrow> bytes \<Rightarrow> bytes" where
  "der_tlv tag c = tag # der_length (length c) @ c"

definition strip :: "bytes \<Rightarrow> bytes" where
  "strip = dropWhile (\<lambda>b. b = 0)"

text \<open>The contents of the INTEGER with the given magnitude.\<close>

definition der_integer :: "bytes \<Rightarrow> bytes" where
  "der_integer d = (if strip d = [] then [0] else if hd (strip d) AND 0x80 \<noteq> 0 then 0 # strip d else strip d)"

definition der_body :: "bytes \<Rightarrow> bytes \<Rightarrow> bytes" where
  "der_body r s = der_tlv 2 (der_integer r) @ der_tlv 2 (der_integer s)"

definition der_signature :: "bytes \<Rightarrow> bytes \<Rightarrow> bytes" where
  "der_signature r s = der_tlv 0x30 (der_body r s)"


section \<open>Bytes and stripped numbers\<close>

lemma top_bit: "bit (b :: u8) 7 \<longleftrightarrow> 0x80 \<le> b"
proof -
  have "odd (x div 128) \<longleftrightarrow> 128 \<le> x" if "0 \<le> x" "x < 256" for x :: int
    using that by (cases "x < 128") (simp_all add: div_pos_geq)
  from this [of "uint b"] show ?thesis
    using uint_lt2p [of b] bit_iff_odd [of "uint b" 7] by (simp add: bit_uint_iff word_le_def)
qed

lemma top_bit_clear: "b AND 0x80 = 0 \<longleftrightarrow> (b :: u8) < 0x80"
  using and_exp_eq_0_iff_not_bit [of b 7] top_bit [of b] by (simp add: not_le)

lemma top_bit_set: "b AND 0x80 = 0x80 \<longleftrightarrow> 0x80 \<le> (b :: u8)"
proof -
  have "b AND 0x80 = (if bit b 7 then 0x80 else 0)"
    using and_exp_eq_0_iff_not_bit [of b 7]
    by (auto intro!: bit_word_eqI simp: bit_simps less_Suc_eq numeral_eq_Suc)
  then show ?thesis by (simp add: top_bit)
qed

lemma strip_split: obtains k where "d = replicate k 0 @ strip d"
proof
  have "takeWhile (\<lambda>b. b = 0) d = replicate (length (takeWhile (\<lambda>b. b = 0) d)) 0"
    by (rule replicate_eqI) (auto dest: set_takeWhileD)
  then show "d = replicate (length (takeWhile (\<lambda>b. b = 0) d)) 0 @ strip d"
    unfolding strip_def by (metis takeWhile_dropWhile_id)
qed

lemma hd_strip: "strip d \<noteq> [] \<Longrightarrow> hd (strip d) \<noteq> 0"
  using hd_dropWhile [of "\<lambda>b. b = 0" d] by (simp add: strip_def)

lemma strip_idem [simp]: "strip (strip d) = strip d"
  unfolding strip_def by (simp add: dropWhile_idem)

lemma strip_Cons [simp]: "strip (0 # d) = strip d" "b \<noteq> 0 \<Longrightarrow> strip (b # d) = b # d"
  by (simp_all add: strip_def)

lemma strip_Nil [simp]: "strip [] = []"
  by (simp add: strip_def)

lemma strip_id: "d \<noteq> [] \<Longrightarrow> hd d \<noteq> 0 \<Longrightarrow> strip d = d"
  by (cases d) simp_all

lemma strip_der_integer [simp]: "strip (der_integer d) = strip d"
  by (cases "strip d = []") (auto simp: der_integer_def)

lemma os2ip_strip_eq: "os2ip (strip d) = os2ip d"
proof -
  obtain k where "d = replicate k 0 @ strip d" by (rule strip_split)
  then show ?thesis using os2ip_strip [of k "strip d"] by simp
qed

lemma length_strip_le: "length (strip d) \<le> length d"
  by (simp add: strip_def length_dropWhile_le)

section \<open>The decoder accepts what the rules prescribe\<close>

lemma asn1_skip_zeros_spec:
  assumes "p + n \<le> e" and "e \<le> length input" and "strip (take n (drop p input)) \<noteq> []"
  shows "asn1_skip_zeros input e p n =
    Inr (p + n - length (strip (take n (drop p input))), length (strip (take n (drop p input))))"
  using assms(1,3)
proof (induction n arbitrary: p)
  case (Suc n)
  have take: "take (Suc n) (drop p input) = input ! p # take n (drop (Suc p) input)"
    using Suc.prems assms(2) by (simp add: Cons_nth_drop_Suc [symmetric])
  show ?case
  proof (cases "input ! p = 0")
    case True
    then show ?thesis using Suc assms(2) by (simp add: take)
  next
    case False
    then show ?thesis using Suc.prems assms(2) by (simp add: take)
  qed
qed simp

lemma ptr_add_small: "p + n < 2 ^ 32 \<Longrightarrow> ptr_add p (of_nat n) = p + n"
  by (simp add: ptr_add_def unat_of_nat)

lemma asn1_read_len_short:
  assumes "p < e" and "e \<le> length input" and "input ! p < 0x80"
  shows "asn1_read_len input e p = Inr (True, p + 1, ucast (input ! p))"
proof -
  have "input ! p \<noteq> 0xff" using assms(3) by auto
  then show ?thesis using assms by (simp add: asn1_read_len_def top_bit_clear)
qed

lemma asn1_read_tag_short:
  assumes "p + 1 < e" and "e \<le> length input" and "input ! p = tag" and "input ! (p + 1) = of_nat n" and "n < 128"
  shows "asn1_read_tag input e p tag = Inr (True, p + 2, of_nat n)"
proof -
  have "(of_nat n :: u8) < 0x80" using assms(5) by (simp add: word_less_nat_alt unat_of_nat)
  then show ?thesis
    using asn1_read_len_short [of "p + 1" e input] assms by (simp add: asn1_read_tag_def ucast_of_nat_small)
qed

text \<open>An INTEGER in its minimal encoding at offset \<open>p\<close>, for a magnitude other than 0.\<close>

lemma asn1_parse_integer_der:
  assumes "take (2 + n) (drop p input) = 2 # of_nat n # der_integer d" and "n = length (der_integer d)" and "n < 128"
    and "strip d \<noteq> []" and "p + 2 + n \<le> e" and "e \<le> length input" and "e < 2 ^ 31"
  shows "asn1_parse_integer input e p =
    Inr (Some (p + 2 + n, p + 2 + n - length (strip d), length (strip d)))"
proof -
  have at: "i < 2 + n \<Longrightarrow> input ! (p + i) = (2 # of_nat n # der_integer d) ! i" for i
    unfolding assms(1) [symmetric] using assms(5,6) by simp
  have int: "take n (drop (p + 2) input) = der_integer d"
  proof -
    have "take n (drop (p + 2) input) = drop 2 (take (2 + n) (drop p input))" by (simp add: drop_take add.commute)
    then show ?thesis unfolding assms(1) by simp
  qed
  have pos: "0 < n" using assms(2) by (simp add: der_integer_def)
  have tag: "asn1_read_tag input e p 2 = Inr (True, p + 2, of_nat n)"
    using at [of 0] at [of 1] pos assms(3,5,6) by (intro asn1_read_tag_short) simp_all
  have b0: "input ! (p + 2) = der_integer d ! 0" using at [of 2] pos by simp
  have first: "\<not> 0x80 \<le> input ! (p + 2)"
    using assms(4) by (cases "strip d") (auto simp: b0 der_integer_def top_bit_clear not_less simp del: add_2_eq_Suc')
  have padded: "asn1_padded input (p + 2) (of_nat n) (input ! (p + 2)) = Inr False"
  proof (cases "input ! (p + 2) = 0 \<and> 2 \<le> n")
    case True
    then have "hd (strip d) AND 0x80 \<noteq> 0"
      using hd_strip [OF assms(4)] assms(4) by (cases "strip d") (auto simp: b0 der_integer_def split: if_splits simp del: add_2_eq_Suc')
    then have "der_integer d ! 1 AND 0x80 \<noteq> 0" using assms(4) by (simp add: der_integer_def hd_conv_nth)
    moreover have "input ! (p + 3) = der_integer d ! 1" using at [of 3] True by (simp add: numeral_eq_Suc)
    ultimately show ?thesis using True assms(5,6) by (simp add: asn1_padded_def numeral_eq_Suc)
  next
    case False
    then show ?thesis using assms(3) by (auto simp: asn1_padded_def word_le_nat_alt unat_of_nat)
  qed
  have skip: "asn1_skip_zeros input e (p + 2) n = Inr (p + 2 + n - length (strip d), length (strip d))"
    using asn1_skip_zeros_spec [of "p + 2" n e input] assms(4-6) int by simp
  have len: "length (strip d) \<le> n" using length_strip_le [of "der_integer d"] assms(2) by simp
  have "ptr_add (p + 2 + n - length (strip d)) (of_nat (length (strip d))) = p + 2 + n"
    using ptr_add_small [of "p + 2 + n - length (strip d)" "length (strip d)"] len assms(5,7) by simp
  then show ?thesis
    using tag first padded skip pos assms(3,5,6)
    by (simp add: asn1_parse_integer_def top_bit_set unat_of_nat)
qed


section \<open>What the encoder writes\<close>

text \<open>The encoder always uses one length byte.\<close>

definition der_short :: "u8 \<Rightarrow> bytes \<Rightarrow> bytes" where
  "der_short tag c = tag # of_nat (length c) # c"

definition short_body :: "bytes \<Rightarrow> bytes \<Rightarrow> bytes" where
  "short_body r s = der_short 2 (der_integer r) @ der_short 2 (der_integer s)"

lemma length_der_short [simp]: "length (der_short tag c) = 2 + length c"
  by (simp add: der_short_def)

lemma der_tlv_short: "length c < 128 \<Longrightarrow> der_tlv tag c = der_short tag c"
  by (simp add: der_tlv_def der_length_def der_short_def)

lemma der_signature_short:
  assumes "length (short_body r s) < 128"
  shows "der_signature r s = der_short 0x30 (short_body r s)"
proof -
  have "der_body r s = short_body r s"
    using assms by (simp add: der_body_def short_body_def der_tlv_short)
  then show ?thesis using assms by (simp add: der_signature_def der_tlv_short)
qed

lemma length_der_integer: "strip d \<noteq> [] \<Longrightarrow>
    length (der_integer d) = length (strip d) + (if hd (strip d) AND 0x80 \<noteq> 0 then 1 else 0)"
  by (simp add: der_integer_def)

lemma der_skip_zeros_spec:
  assumes "i + n \<le> length r" and "strip (take n (drop i r)) \<noteq> []"
  shows "der_skip_zeros r i n =
    Inr (i + n - length (strip (take n (drop i r))), length (strip (take n (drop i r))))"
  using assms
proof (induction n arbitrary: i)
  case (Suc n)
  have take: "take (Suc n) (drop i r) = r ! i # take n (drop (Suc i) r)"
    using Suc.prems by (simp add: Cons_nth_drop_Suc [symmetric])
  show ?case using Suc by (cases "r ! i = 0") (simp_all add: take)
qed simp

text \<open>A number that is 0: the byte behind it is read.\<close>

lemma der_skip_zeros_all:
  assumes "i + n \<le> length r" and "strip (take n (drop i r)) = []"
  shows "der_skip_zeros r i n = (if i + n < length r then Inr (i + n, 0) else Inl Oob)"
  using assms
proof (induction n arbitrary: i)
  case 0
  then show ?case by (simp add: mem_get_def)
next
  case (Suc n)
  have take: "take (Suc n) (drop i r) = r ! i # take n (drop (Suc i) r)"
    using Suc.prems by (simp add: Cons_nth_drop_Suc [symmetric])
  then have "r ! i = 0" using Suc.prems(2) by (cases "r ! i = 0") simp_all
  then show ?case using Suc by (simp add: take)
qed

lemma buf_write_header:
  assumes "off + 2 + length c \<le> length sig"
  shows "((buf_write sig (off + 2) c)[off := a])[Suc off := b] = buf_write sig off (a # b # c)"
  using assms
  by (intro nth_equalityI) (auto simp: nth_buf_write nth_list_update nth_Cons' less_Suc_eq)

lemma stripped_at:
  assumes "n \<le> length r" and "strip (take n r) \<noteq> []"
  defines "d \<equiv> strip (take n r)"
  shows "n - length d < length r" and "r ! (n - length d) = hd d"
    and "take (length d) (drop (n - length d) r) = d" and "n - length d + length d \<le> length r"
proof -
  have le: "length d \<le> n" using length_strip_le [of "take n r"] assms(1) by (simp add: d_def)
  obtain k where k: "take n r = replicate k 0 @ d" unfolding d_def by (rule strip_split)
  have "k = n - length d" using arg_cong [OF k, of length] assms(1) by simp
  then have suffix: "drop (n - length d) (take n r) = d" using k by simp
  then show take: "take (length d) (drop (n - length d) r) = d"
    using le by (simp add: drop_take)
  show "n - length d + length d \<le> length r" using le assms(1) by simp
  have pos: "0 < length d" using assms(2) by (simp add: d_def)
  then show "n - length d < length r" using le assms(1) by linarith
  then show "r ! (n - length d) = hd d"
    using arg_cong [OF take, of hd] pos by (simp add: hd_drop_conv_nth)
qed

lemma der_put_integer_spec:
  assumes "n \<le> length r" and "strip (take n r) \<noteq> []"
    and "off + 2 + length (der_integer (take n r)) \<le> length sig"
  defines "d \<equiv> strip (take n r)"
  shows "der_put_integer sig off r (n - length d) (length d) =
    Inr (buf_write sig off (der_short 2 (der_integer (take n r))), length (der_integer (take n r)))"
proof -
  let ?c = "der_integer (take n r)"
  note at = stripped_at [OF assms(1,2), folded d_def]
  have "(if hd d AND 0x80 \<noteq> 0
          then res_bind (mem_write sig (off + 2) [0]) (\<lambda>sig.
               res_bind (mem_write sig (off + 3) d) (\<lambda>sig. Inr (sig, length d + 1)))
          else res_bind (mem_write sig (off + 2) d) (\<lambda>sig. Inr (sig, length d))) =
      Inr (buf_write sig (off + 2) ?c, length ?c)"
  proof (cases "hd d AND 0x80 = 0")
    case True
    then have "?c = d" using assms(2) by (simp add: der_integer_def d_def)
    then show ?thesis using True assms(3) by (simp add: mem_write_def)
  next
    case False
    then have "?c = 0 # d" using assms(2) by (simp add: der_integer_def d_def)
    then show ?thesis
      using False assms(3) buf_write_append [of "off + 2" sig "[0]" d]
      by (simp add: mem_write_def buf_write_single [symmetric] numeral_3_eq_3 del: mem_write_single)
  qed
  then show ?thesis
    using at assms(3) buf_write_header [OF assms(3), of 2 "of_nat (length ?c)"]
    by (simp add: der_put_integer_def mem_read_def der_short_def)
qed

lemma encode_sig_der_spec:
  assumes "rn \<le> length r" "strip (take rn r) \<noteq> []" and "sn \<le> length s" "strip (take sn s) \<noteq> []"
    and "rn < 2 ^ 30" and "sn < 2 ^ 30" and "sig_len \<le> length sig"
  defines "body \<equiv> short_body (take rn r) (take sn s)"
  shows "spec_cx_ecfp_encode_sig_der sig sig_len r rn s sn =
    Inr (if sig_len < 2 + length body then (0, sig)
         else (2 + unat (of_nat (length body) :: u8), buf_write sig 0 (der_short 0x30 body)))"
proof -
  let ?r = "take rn r" and ?s = "take sn s"
  let ?rl = "length (der_integer ?r)" and ?sl = "length (der_integer ?s)"
  note ra = stripped_at [OF assms(1,2)] and sa = stripped_at [OF assms(3,4)]
  have skip: "der_skip_zeros r 0 rn = Inr (rn - length (strip ?r), length (strip ?r))"
    "der_skip_zeros s 0 sn = Inr (sn - length (strip ?s), length (strip ?s))"
    using der_skip_zeros_spec [of 0 rn r] der_skip_zeros_spec [of 0 sn s] assms(1-4) by simp_all
  have body: "length body = 4 + ?rl + ?sl" by (simp add: body_def short_body_def)
  have "length (strip ?r) \<le> rn" "length (strip ?s) \<le> sn"
    using length_strip_le [of ?r] length_strip_le [of ?s] assms(1,3) by simp_all
  then have total: "der_total (hd (strip ?r)) (length (strip ?r)) (hd (strip ?s)) (length (strip ?s)) = 2 + length body"
    using assms(5,6) by (simp add: der_total_def body length_der_integer assms(2,4))
  show ?thesis
  proof (cases "sig_len < 2 + length body")
    case True
    then show ?thesis using skip ra sa total assms(2,4) by (simp add: spec_cx_ecfp_encode_sig_der_def)
  next
    case False
    then have room: "6 + ?rl + ?sl \<le> length sig" using body assms(7) by simp
    let ?sig1 = "buf_write sig 2 (der_short 2 (der_integer ?r))"
    let ?sig2 = "buf_write sig 2 body"
    have len: "length ?sig1 = length sig" "length ?sig2 = length sig" using room body by simp_all
    have put_r: "der_put_integer sig 2 r (rn - length (strip ?r)) (length (strip ?r)) = Inr (?sig1, ?rl)"
      using der_put_integer_spec [OF assms(1,2), of 2 sig] room by simp
    have "buf_write ?sig1 (4 + ?rl) (der_short 2 (der_integer ?s)) = ?sig2"
      using buf_write_append [of 2 sig "der_short 2 (der_integer ?r)" "der_short 2 (der_integer ?s)"] room
      by (simp add: body_def short_body_def numeral_eq_Suc)
    then have put_s: "der_put_integer ?sig1 (4 + ?rl) s (sn - length (strip ?s)) (length (strip ?s)) = Inr (?sig2, ?sl)"
      using der_put_integer_spec [OF assms(3,4), of "4 + ?rl" ?sig1] room len by simp
    have n: "2 + ?rl + 2 + ?sl = length body" using body by simp
    have pos: "0 < length ?sig2" "1 < length ?sig2" using len room by linarith+
    have w: "mem_write ?sig2 0 [0x30] = Inr (?sig2[0 := 0x30])"
      "mem_write (?sig2[0 := 0x30]) 1 [x] = Inr (?sig2[0 := 0x30, 1 := x])" for x
      by (simp_all only: mem_write_single length_list_update pos)
    have h: "?sig2[0 := 0x30, 1 := of_nat (length body)] = buf_write sig 0 (der_short 0x30 body)"
      using buf_write_header [of 0 body sig "0x30" "of_nat (length body)"] room body
      by (simp add: numeral_2_eq_2 der_short_def)
    have g: "mem_get (buf_write sig 0 (der_short 0x30 body)) 1 = Inr (of_nat (length body))"
      using room body by (simp add: mem_get_def buf_write_def der_short_def)
    have ne: "\<not> (length (strip ?r) = 0 \<or> length (strip ?s) = 0)" using assms(2,4) by simp
    have hd: "mem_get r (rn - length (strip ?r)) = Inr (hd (strip ?r))"
      "mem_get s (sn - length (strip ?s)) = Inr (hd (strip ?s))" using ra sa by simp_all
    show ?thesis
      unfolding spec_cx_ecfp_encode_sig_der_def skip res_bind_simps prod.case if_not_P [OF ne] hd total
        if_not_P [OF False] put_r put_s w n h g ..
  qed
qed


section \<open>Decoding what the encoder wrote\<close>

lemma short_body_at:
  assumes "take (2 + length (short_body r s)) input = der_short 0x30 (short_body r s)"
  defines "rl \<equiv> length (der_integer r)" and "sl \<equiv> length (der_integer s)"
  shows "take (2 + rl) (drop 2 input) = 2 # of_nat rl # der_integer r"
    and "take (2 + sl) (drop (4 + rl) input) = 2 # of_nat sl # der_integer s"
    and "6 + rl + sl \<le> length input"
proof -
  have body: "length (short_body r s) = 4 + rl + sl" by (simp add: short_body_def rl_def sl_def)
  have "length (take (2 + length (short_body r s)) input) = 2 + length (short_body r s)"
    unfolding assms(1) by simp
  then show "6 + rl + sl \<le> length input" using body by simp
  have d2: "take (4 + rl + sl) (drop 2 input) = short_body r s"
    using arg_cong [OF assms(1), of "drop 2"] body by (simp add: drop_take der_short_def add.assoc)
  have "take (2 + rl) (drop 2 input) = take (2 + rl) (take (4 + rl + sl) (drop 2 input))" by (simp add: min_def)
  then show "take (2 + rl) (drop 2 input) = 2 # of_nat rl # der_integer r"
    unfolding d2 by (simp add: short_body_def der_short_def rl_def)
  have "take (2 + sl) (drop (4 + rl) input) = drop (2 + rl) (take (4 + rl + sl) (drop 2 input))"
    by (simp add: drop_take add.commute numeral_eq_Suc)
  then show "take (2 + sl) (drop (4 + rl) input) = 2 # of_nat sl # der_integer s"
    unfolding d2 by (simp add: short_body_def der_short_def rl_def sl_def)
qed

lemma short_head:
  assumes "take (2 + length c) input = der_short tag c"
  shows "input ! 0 = tag" and "input ! 1 = of_nat (length c)" and "2 + length c \<le> length input"
proof -
  have at: "i < 2 + length c \<Longrightarrow> input ! i = der_short tag c ! i" for i by (simp flip: assms)
  show "input ! 0 = tag" "input ! 1 = of_nat (length c)" using at [of 0] at [of 1] by (simp_all add: der_short_def)
  show "2 + length c \<le> length input" using arg_cong [OF assms, of length] by simp
qed

definition integer_slices :: "bytes \<Rightarrow> bytes \<Rightarrow> (nat \<times> nat) \<times> (nat \<times> nat)" where
  "integer_slices r s =
     (let rl = length (der_integer r); sl = length (der_integer s) in
      ((4 + rl - length (strip r), length (strip r)), (6 + rl + sl - length (strip s), length (strip s))))"

lemma decode_short:
  assumes "take (2 + length (short_body r s)) input = der_short 0x30 (short_body r s)"
    and "strip r \<noteq> []" and "strip s \<noteq> []" and "length (short_body r s) < 128"
  shows "spec_cx_ecfp_decode_sig_der input (2 + length (short_body r s)) max_size =
    Inr (if length (strip r) \<le> max_size \<and> length (strip s) \<le> max_size then Some (integer_slices r s) else None)"
proof -
  let ?m = "length (short_body r s)" and ?rl = "length (der_integer r)" and ?sl = "length (der_integer s)"
  have m: "?m = 4 + ?rl + ?sl" by (simp add: short_body_def)
  note at = short_body_at [OF assms(1)] and head = short_head [OF assms(1)]
  have tag: "asn1_read_tag input (2 + ?m) 0 0x30 = Inr (True, 2, of_nat ?m)"
    using asn1_read_tag_short [of 0 "2 + ?m" input "0x30" ?m] head assms(4) by simp
  have ptr: "ptr_add 2 (of_nat ?m) = 2 + ?m" using ptr_add_small [of 2 ?m] assms(4) by simp
  have r: "asn1_parse_integer input (2 + ?m) 2 =
      Inr (Some (4 + ?rl, 4 + ?rl - length (strip r), length (strip r)))"
    using asn1_parse_integer_der [OF at(1) refl _ assms(2), of "2 + ?m"] head m assms(4) by simp
  have s: "asn1_parse_integer input (2 + ?m) (4 + ?rl) =
      Inr (Some (6 + ?rl + ?sl, 6 + ?rl + ?sl - length (strip s), length (strip s)))"
    using asn1_parse_integer_der [OF at(2) refl _ assms(3), of "2 + ?m"] head m assms(4) by simp
  have "2 + ?m = 6 + ?rl + ?sl" using m by simp
  then show ?thesis
    using tag ptr r s by (auto simp: spec_cx_ecfp_decode_sig_der_def integer_slices_def Let_def)
qed

lemma and_7F: "128 \<le> m \<Longrightarrow> m < 256 \<Longrightarrow> unat ((of_nat m :: u8) AND 0x7F) = m - 128"
proof -
  assume m: "128 \<le> m" "m < 256"
  have "unat ((of_nat m :: u8) AND mask 7) = unat (of_nat m :: u8) mod 2 ^ 7"
    by (simp only: take_bit_eq_mask [symmetric] unsigned_take_bit_eq) (simp only: take_bit_eq_mod)
  also have "\<dots> = m - 128" using m by (simp add: unat_of_nat mod_if)
  finally show ?thesis by (simp add: mask_eq_exp_minus_1)
qed

lemma byte_lt: "unat (b :: u8) < 256"
  using unsigned_less [of b, where ?'a = nat] by simp

lemma unat_shift_byte:
  fixes len :: u32 and b :: u8
  assumes "unat len < 2 ^ 24"
  shows "unat (push_bit 8 len OR ucast b) = unat len * 256 + unat b"
proof -
  have "push_bit 8 len AND ucast b = 0"
    by (rule bit_word_eqI) (auto simp: bit_simps dest: bit_imp_le_length)
  then have "push_bit 8 len OR ucast b = push_bit 8 len + ucast b" by (simp add: disjunctive_add_eq_or)
  moreover have "unat (ucast b :: u32) = unat b" by (simp add: unsigned_ucast_eq take_bit_nat_eq_self less_trans [OF byte_lt])
  moreover have "unat (push_bit 8 len) = unat len * 256"
    using assms by (simp add: push_bit_eq_mult unat_word_ariths mult.commute)
  ultimately show ?thesis
    using assms byte_lt [of b] by (simp add: unat_word_ariths)
qed

text \<open>The long form is not written, so that a body of 128 bytes or more cannot be read back.\<close>

lemma asn1_len_loop_refuses:
  assumes "input ! 2 = 2" and "128 < m" and "m < 256" and "2 + m \<le> length input" and "0 < n" "n \<le> 4"
  shows "\<exists>ok p len. asn1_len_loop input (2 + m) 2 0 n = Inr (ok, p, len) \<and> (ok \<longrightarrow> len < 128)"
proof -
  have small: "\<not> (of_nat m :: u32) < 2 + of_nat n"
    using assms(2,3,5,6) by (auto simp: word_less_nat_alt unat_of_nat unat_word_ariths)
  obtain k where k: "n = Suc k" using assms(5) by (cases n) auto
  have first: "asn1_len_loop input (2 + m) 2 0 n = asn1_len_loop input (2 + m) 3 2 k"
  proof -
    have "mem_get input 2 = Inr 2" using assms(1,2,4) by (simp add: mem_get_def)
    moreover have "push_bit 8 0 OR ucast (2 :: u8) = (2 :: u32)" by simp
    ultimately show ?thesis
      unfolding k asn1_len_loop.simps using small [unfolded k] by (simp only: res_bind_simps Let_def) simp
  qed
  show ?thesis
  proof (cases k)
    case 0
    then show ?thesis using first by (intro exI [of _ True]) simp
  next
    case (Suc j)
    define b where "b = input ! 3"
    let ?len = "push_bit 8 2 OR ucast b :: u32"
    have len: "unat ?len = 512 + unat b" using unat_shift_byte [of 2 b] by simp
    then have "unat (?len + of_nat (Suc j)) = 512 + unat b + Suc j"
      using assms(6) k Suc byte_lt [of b]
      by (simp only: unat_word_ariths(1) len) (simp add: unat_of_nat del: of_nat_Suc)
    then have big: "(of_nat (m - 1) :: u32) < ?len + of_nat (Suc j)"
      unfolding word_less_nat_alt using assms(3) by (simp add: unat_of_nat del: of_nat_Suc)
    have "2 + m - 3 = m - 1" "mem_get input 3 = Inr b" "drop_bit 24 (2 :: u32) = 0"
      using assms(2,4) by (simp_all add: b_def)
    then have "asn1_len_loop input (2 + m) 3 2 k = Inr (False, 3, ?len)"
      unfolding Suc asn1_len_loop.simps using big by (simp only: res_bind_simps Let_def if_True) simp
    then show ?thesis using first by (intro exI [of _ False]) simp
  qed
qed


lemma decode_long:
  assumes "take (2 + length (short_body r s)) input = der_short 0x30 (short_body r s)"
    and "128 \<le> length (short_body r s)" and "length (short_body r s) < 256"
  shows "spec_cx_ecfp_decode_sig_der input (2 + length (short_body r s)) max_size = Inr None"
proof -
  define m where "m = length (short_body r s)"
  note head = short_head [OF assms(1), folded m_def]
  have bounds: "128 \<le> m" "m < 256" using assms(2,3) by (simp_all add: m_def)
  have "take (2 + length (der_integer r)) (drop 2 input) ! 0 = 2" unfolding short_body_at(1) [OF assms(1)] by simp
  then have two: "input ! 2 = 2" using head(3) by simp
  have b1: "mem_get input 1 = Inr (of_nat m)" "mem_get input 2 = Inr 2" "mem_get input 0 = Inr 0x30"
    using head two bounds less_le_trans [OF _ head(3), of 0] less_le_trans [OF _ head(3), of 1] less_le_trans [OF _ head(3), of 2]
    by (simp_all only: mem_get_in)
  have top: "(of_nat m :: u8) AND 0x80 \<noteq> 0"
    using bounds by (simp add: top_bit_clear word_less_nat_alt unat_of_nat)
  have left: "\<not> unat ((of_nat m :: u8) AND 0x7F) > 2 + m - 2" using and_7F [OF bounds] by simp
  have "\<exists>p len. asn1_read_len input (2 + m) 1 = Inr (False, p, len)"
  proof (cases "m = 255 \<or> m = 128 \<or> 4 < m - 128")
    case True
    then show ?thesis
      using b1 b1(2) [unfolded numeral_2_eq_2] top left and_7F [OF bounds] bounds
      by (auto simp: asn1_read_len_def Let_def)
  next
    case False
    then have n: "0 < m - 128" "m - 128 \<le> 4" "128 < m" using bounds by auto
    have ne: "(of_nat m :: u8) \<noteq> 0xff" "(of_nat m :: u8) \<noteq> 0x80"
      using False bounds by (auto simp: word_unat_eq_iff unat_of_nat)
    obtain ok p len where "asn1_len_loop input (2 + m) 2 0 (m - 128) = Inr (ok, p, len)" "ok \<longrightarrow> len < 128"
      using asn1_len_loop_refuses [OF two n(3) bounds(2) head(3) n(1,2)] by blast
    then show ?thesis
      using b1 b1(2) [unfolded numeral_2_eq_2] top left and_7F [OF bounds] ne n
      by (auto simp: asn1_read_len_def Let_def simp flip: numeral_2_eq_2)
  qed
  then show ?thesis
    using b1(3) by (auto simp: spec_cx_ecfp_decode_sig_der_def asn1_read_tag_def simp flip: m_def)
qed

section \<open>The decoder accepts nothing else\<close>

lemma nat_bytes_os2ip: "ds = [] \<or> hd ds \<noteq> 0 \<Longrightarrow> nat_bytes (nat (os2ip ds)) = ds"
proof (induction ds rule: rev_induct)
  case Nil
  then show ?case by (simp add: nat_bytes.simps)
next
  case (snoc b ds)
  let ?v = "nat (os2ip ds)"
  have v: "nat (os2ip (ds @ [b])) = 256 * ?v + unat b"
    by (simp add: nat_add_distrib nat_mult_distrib)
  have IH: "nat_bytes ?v = ds" using snoc by (cases ds) auto
  have "256 * ?v + unat b \<noteq> 0"
  proof (cases ds)
    case Nil
    then show ?thesis using snoc.prems by (simp add: unat_eq_0)
  next
    case (Cons a as)
    then have "ds \<noteq> []" "nat_bytes ?v \<noteq> []" using IH by simp_all
    then have "?v \<noteq> 0" by (metis nat_bytes.simps)
    then show ?thesis by simp
  qed
  moreover have "(256 * ?v + unat b) div 256 = ?v" using byte_lt [of b] by simp
  moreover have "(of_nat (256 * ?v + unat b) :: u8) = b"
  proof -
    have "(256 :: u8) = 0" by simp
    then show ?thesis by (simp only: of_nat_add of_nat_mult of_nat_numeral mult_zero_left add_0) simp
  qed
  ultimately show ?case unfolding v by (subst nat_bytes.simps) (simp only: if_False IH)
qed

text \<open>
  A long-form length that is accepted fits in the input. The input is shorter than 8 megabytes, so
  that the sum in the test of the loop does not wrap around.
\<close>

lemma asn1_len_loop_sound:
  assumes "asn1_len_loop input e p len n = Inr (True, p', len')" and "e < 2 ^ 23" and "e \<le> length input"
    and "p + n \<le> e" and "unat len < 2 ^ 23" and "n \<le> 4"
  shows "p' = p + n \<and> int (unat len') = int (unat len) * 256 ^ n + os2ip (take n (drop p input)) \<and>
    (0 < n \<longrightarrow> p' + unat len' \<le> e)"
  using assms(1,4-)
proof (induction n arbitrary: p len)
  case (Suc n)
  define b where "b = input ! p"
  define l where "l = (push_bit 8 len OR ucast b :: u32)"
  have get: "mem_get input p = Inr b" using Suc.prems assms(3) by (simp add: mem_get_def b_def)
  have ul: "unat l = unat len * 256 + unat b" unfolding l_def using Suc.prems by (intro unat_shift_byte) simp
  have check: "\<not> of_nat (e - p) < l + of_nat (Suc n)" and rest: "asn1_len_loop input e (p + 1) l n = Inr (True, p', len')"
    using Suc.prems(1) get by (auto simp: l_def Let_def split: if_splits)
  have sum: "unat (l + of_nat (Suc n)) = unat l + Suc n"
    using ul byte_lt [of b] Suc.prems(3,4) by (simp only: unat_word_ariths(1)) (simp add: unat_of_nat del: of_nat_Suc)
  have fits: "unat l + Suc n \<le> e - p"
    using check assms(2) unfolding word_less_nat_alt sum by (simp add: unat_of_nat)
  then have "unat l < 2 ^ 23" using assms(2) by linarith
  then have IH: "p' = p + 1 + n" "int (unat len') = int (unat l) * 256 ^ n + os2ip (take n (drop (p + 1) input))"
    "0 < n \<longrightarrow> p' + unat len' \<le> e"
    using Suc.IH [OF rest] Suc.prems(2-4) by auto
  have take: "take (Suc n) (drop p input) = b # take n (drop (Suc p) input)"
    using Suc.prems(2) assms(3) by (simp add: b_def Cons_nth_drop_Suc [symmetric])
  have "length (take n (drop (Suc p) input)) = n" using Suc.prems(2) assms(3) by simp
  then have "int (unat len') = int (unat len) * 256 ^ Suc n + os2ip (take (Suc n) (drop p input))"
    unfolding IH(2) ul take os2ip_Cons by (simp add: distrib_right)
  moreover have "p' + unat len' \<le> e"
  proof (cases n)
    case 0
    then have "len' = l" "p' = p + 1" using rest by simp_all
    then show ?thesis using fits 0 by simp
  qed (use IH in simp)
  ultimately show ?case using IH(1) by simp
qed auto


lemma slice_append:
  assumes "a \<le> b" and "b \<le> c"
  shows "take (c - a) (drop a xs) = take (b - a) (drop a xs) @ take (c - b) (drop b xs)"
proof -
  have "c - a = (b - a) + (c - b)" "(b - a) + a = b" using assms by simp_all
  then show ?thesis by (simp only: take_add drop_drop)
qed

lemma and_7F_eq: "0x80 \<le> b \<Longrightarrow> (b :: u8) = of_nat (128 + unat (b AND 0x7F))"
proof -
  assume "0x80 \<le> b"
  then have b: "128 \<le> unat b" by (simp add: word_le_nat_alt)
  have "unat (b AND 0x7F) = unat b - 128" using and_7F [OF b byte_lt] by simp
  then have "128 + unat (b AND 0x7F) = unat b" using b by simp
  then show ?thesis by (simp del: of_nat_add)
qed

lemma asn1_read_len_sound:
  assumes "asn1_read_len input e p = Inr (True, p', len)" and "e < 2 ^ 23" and "e \<le> length input"
  shows "p < p'" and "p' \<le> e" and "take (p' - p) (drop p input) = der_length (unat len)"
    and "unat len < 128 \<or> p' + unat len \<le> e"
proof -
  define b1 where "b1 = input ! p"
  have p: "p < e" using assms(1) by (auto simp: asn1_read_len_def split: if_splits)
  then have get: "mem_get input p = Inr b1" using assms(3) by (simp add: mem_get_def b1_def)
  have one: "take (Suc 0) (drop p input) = [b1]" using p assms(3) by (simp add: b1_def take_Suc_conv_app_nth)
  have "p < p' \<and> p' \<le> e \<and> take (p' - p) (drop p input) = der_length (unat len) \<and>
      (unat len < 128 \<or> p' + unat len \<le> e)"
  proof (cases "b1 AND 0x80 = 0")
    case True
    then have "b1 < 0x80" by (simp add: top_bit_clear)
    then have small: "unat b1 < 128" by (simp add: word_less_nat_alt)
    have "p' = p + 1" "len = ucast b1" using assms(1) p get True by (auto simp: asn1_read_len_def Let_def split: if_splits)
    moreover have "unat (ucast b1 :: u32) = unat b1"
      by (simp add: unsigned_ucast_eq take_bit_nat_eq_self less_trans [OF byte_lt])
    ultimately show ?thesis using p one small by (simp add: der_length_def)
  next
    case False
    define n where "n = unat (b1 AND 0x7F)"
    have b1: "b1 = of_nat (128 + n)" unfolding n_def
      using False by (intro and_7F_eq) (simp add: top_bit_clear not_less)
    have n0: "b1 \<noteq> 0x80" and n: "n \<le> e - (p + 1)" "n \<le> 4" and first: "mem_get input (p + 1) \<noteq> Inr 0"
      and loop: "asn1_len_loop input e (p + 1) 0 n = Inr (True, p', len)" and big: "128 \<le> len"
      using assms(1) p get False
      by (auto simp: asn1_read_len_def Let_def n_def res_bind_eq_Inr_iff not_less split: if_splits)
    have pos: "0 < n" using n0 b1 by (cases n) simp_all
    let ?ds = "take n (drop (p + 1) input)"
    have room: "p + 1 + n \<le> e" using n p by linarith
    have snd: "p' = p + 1 + n" "int (unat len) = os2ip ?ds" "p' + unat len \<le> e"
      using asn1_len_loop_sound [OF loop assms(2,3) room] n pos by auto
    have len: "length ?ds = n" using n p assms(3) by simp
    have "hd ?ds \<noteq> 0"
      using first pos n p assms(3) by (simp add: hd_drop_conv_nth mem_get_def split: if_splits)
    moreover have "nat (os2ip ?ds) = unat len" unfolding snd(2) [symmetric] by (rule nat_int)
    ultimately have "nat_bytes (unat len) = ?ds" using nat_bytes_os2ip [of ?ds] by simp
    moreover have "\<not> unat len < 128" using big by (simp add: word_le_nat_alt)
    ultimately have "der_length (unat len) = b1 # ?ds" unfolding der_length_def using len b1 by simp
    moreover have "take (p' - p) (drop p input) = b1 # ?ds"
      using slice_append [of p "p + 1" p' input] snd(1) one by simp
    ultimately show ?thesis using snd n p by simp
  qed
  then show "p < p'" "p' \<le> e" "take (p' - p) (drop p input) = der_length (unat len)"
    "unat len < 128 \<or> p' + unat len \<le> e" by simp_all
qed

lemma asn1_read_tag_sound:
  assumes "asn1_read_tag input e p tag = Inr (True, p', len)" and "e < 2 ^ 23" and "e \<le> length input"
  shows "p < p'" and "p < e" and "p' \<le> e" and "take (p' - p) (drop p input) = tag # der_length (unat len)"
    and "ptr_add p' len = p' + unat len" and "p' + unat len < 2 ^ 24"
proof -
  have p: "p < e" "input ! p = tag" and rd: "asn1_read_len input e (p + 1) = Inr (True, p', len)"
    using assms by (auto simp: asn1_read_tag_def split: if_splits)
  note l = asn1_read_len_sound [OF rd assms(2,3)]
  show "p < p'" "p < e" "p' \<le> e" using l p by simp_all
  have "take (Suc 0) (drop p input) = [tag]" using p assms(3) by (simp add: take_Suc_conv_app_nth)
  then show "take (p' - p) (drop p input) = tag # der_length (unat len)"
    using slice_append [of p "p + 1" p' input] l by simp
  show "p' + unat len < 2 ^ 24" using l assms(2) by auto
  then show "ptr_add p' len = p' + unat len" by (simp add: ptr_add_def)
qed

lemma asn1_skip_zeros_sound:
  assumes "asn1_skip_zeros input e p n = Inr (p', n')" and "e \<le> length input"
  shows "p' + n' = p + n" and "p + n \<le> e \<Longrightarrow> take n' (drop p' input) = strip (take n (drop p input))"
proof -
  show "p' + n' = p + n"
    using assms(1) by (induction n arbitrary: p) (auto simp: res_bind_eq_Inr_iff split: if_splits)
  show "take n' (drop p' input) = strip (take n (drop p input))" if "p + n \<le> e"
    using assms(1) that
  proof (induction n arbitrary: p)
    case (Suc n)
    have take: "take (Suc n) (drop p input) = input ! p # take n (drop (Suc p) input)"
      using Suc.prems assms(2) by (simp add: Cons_nth_drop_Suc [symmetric])
    have get: "mem_get input p = Inr (input ! p)" using Suc.prems(2) assms(2) by simp
    show ?case
    proof (cases "input ! p = 0")
      case True
      then show ?thesis using Suc get by (simp add: take)
    next
      case False
      then have "p' = p" "n' = Suc n" using Suc.prems get by simp_all
      then show ?thesis using False take strip_Cons(2) [OF False] by simp
    qed
  qed (auto simp: res_bind_eq_Inr_iff)
qed

text \<open>An accepted integer is empty or minimally encoded.\<close>

lemma minimal_integer:
  assumes "X \<noteq> []" and "hd X < 0x80" and "2 \<le> length X \<Longrightarrow> hd X = 0 \<Longrightarrow> 0x80 \<le> X ! 1"
  shows "X = der_integer X"
proof (cases "hd X = 0")
  case True
  show ?thesis
  proof (cases "2 \<le> length X")
    case True
    then obtain c Y where X: "X = 0 # c # Y" using \<open>hd X = 0\<close> by (cases X; cases "tl X") auto
    then have "0x80 \<le> c" using assms(3) by simp
    then have "c \<noteq> 0" "c AND 0x80 \<noteq> 0" by (auto simp: top_bit_clear not_less)
    then show ?thesis using X by (simp add: der_integer_def)
  next
    case False
    then have "X = [0]" using assms(1) \<open>hd X = 0\<close> by (cases X; cases "tl X") auto
    then show ?thesis by (simp add: der_integer_def)
  qed
next
  case False
  then have "strip X = X" using assms(1) by (intro strip_id)
  moreover have "hd X AND 0x80 = 0" using assms(2) by (simp add: top_bit_clear)
  ultimately show ?thesis using assms(1) by (simp add: der_integer_def)
qed


lemma asn1_parse_integer_sound:
  assumes "asn1_parse_integer input e p = Inr (Some (q, n, n_len))" and "e < 2 ^ 23" and "e \<le> length input"
  shows "p < e" and "p < q"
    and "q \<le> e \<Longrightarrow> \<exists>X. take (q - p) (drop p input) = der_tlv 2 X \<and> (X = [] \<or> X = der_integer X) \<and>
      take n_len (drop n input) = strip X \<and> n_len = length (strip X)"
proof -
  obtain p' len b where tag: "asn1_read_tag input e p 2 = Inr (True, p', len)" and b: "mem_get input p' = Inr b"
    and top: "\<not> 0x80 \<le> b" and padded: "asn1_padded input p' len b = Inr False"
    and skip: "asn1_skip_zeros input e p' (unat len) = Inr (n, n_len)" and q: "q = ptr_add n (of_nat n_len)"
    using assms(1)
    by (auto simp: asn1_parse_integer_def res_bind_eq_Inr_iff top_bit_set split: prod.splits if_splits)
  note t = asn1_read_tag_sound [OF tag assms(2,3)] and z = asn1_skip_zeros_sound [OF skip assms(3)]
  have qq: "q = p' + unat len" unfolding q using ptr_add_small [of n n_len] z(1) t(6) by simp
  show "p < e" "p < q" using t qq by simp_all
  show "\<exists>X. take (q - p) (drop p input) = der_tlv 2 X \<and> (X = [] \<or> X = der_integer X) \<and>
      take n_len (drop n input) = strip X \<and> n_len = length (strip X)" if "q \<le> e"
  proof -
    define X where "X = take (unat len) (drop p' input)"
    have len: "length X = unat len" using that qq assms(3) by (simp add: X_def)
    have "take (q - p) (drop p input) = der_tlv 2 X"
      using slice_append [of p p' q input] t(1,4) qq len by (simp add: der_tlv_def X_def)
    moreover have strip: "take n_len (drop n input) = strip X" using z(2) that qq by (simp add: X_def)
    moreover have "n_len = length (strip X)"
      using arg_cong [OF strip, of length] z(1) that qq assms(3) by simp
    moreover have "X = der_integer X" if ne: "X \<noteq> []"
    proof (rule minimal_integer [OF ne])
      have pos: "0 < unat len" using ne len by (metis length_greater_0_conv)
      have hd: "hd X = b" using b pos by (simp add: X_def hd_drop_conv_nth mem_get_def split: if_splits)
      then show "hd X < 0x80" using top by simp
      show "0x80 \<le> X ! 1" if two: "2 \<le> length X" "hd X = 0"
      proof -
        have "2 \<le> len" using two(1) len by (simp add: word_le_nat_alt)
        then have "input ! Suc p' AND 0x80 \<noteq> 0"
          using padded two(2) hd by (auto simp: asn1_padded_def res_bind_eq_Inr_iff mem_get_def split: if_splits)
        moreover have "X ! 1 = input ! Suc p'" using two(1) len that qq assms(3) unfolding X_def by simp
        ultimately show ?thesis by (simp add: top_bit_clear not_less)
      qed
    qed
    ultimately show ?thesis by blast
  qed
qed

lemma decode_sound:
  assumes "spec_cx_ecfp_decode_sig_der input e max_size = Inr (Some ((r, r_len), (s, s_len)))"
    and "e < 2 ^ 23" and "e \<le> length input"
  shows "\<exists>R S. take e input = der_tlv 0x30 (der_tlv 2 R @ der_tlv 2 S) \<and>
    (R = [] \<or> R = der_integer R) \<and> (S = [] \<or> S = der_integer S) \<and>
    take r_len (drop r input) = strip R \<and> take s_len (drop s input) = strip S \<and>
    r_len = length (strip R) \<and> s_len = length (strip S) \<and> r_len \<le> max_size \<and> s_len \<le> max_size"
proof -
  note def = assms(1) [unfolded spec_cx_ecfp_decode_sig_der_def]
  obtain p len where tag: "asn1_read_tag input e 0 0x30 = Inr (True, p, len)" and seq: "ptr_add p len = e"
    using def by (cases "asn1_read_tag input e 0 0x30") (auto split: if_splits)
  note def1 = def [unfolded tag res_bind_simps prod.case seq, simplified]
  obtain p1 r' rl where ri': "asn1_parse_integer input e p = Inr (Some (p1, r', rl))"
    using def1 by (cases "asn1_parse_integer input e p") (auto split: option.splits)
  obtain p2 s' sl where si': "asn1_parse_integer input e p1 = Inr (Some (p2, s', sl))"
    using def1 [unfolded ri', simplified] by (cases "asn1_parse_integer input e p1") (auto split: option.splits)
  have fin: "p2 = e" "r' = r" "rl = r_len" "s' = s" "sl = s_len" and max: "r_len \<le> max_size" "s_len \<le> max_size"
    using def1 [unfolded ri' res_bind_simps option.case prod.case si'] by (auto split: if_splits)
  note ri = ri' [unfolded fin] and si = si' [unfolded fin]
  note t = asn1_read_tag_sound [OF tag assms(2,3)]
  note rs = asn1_parse_integer_sound [OF ri assms(2,3)] and ss = asn1_parse_integer_sound [OF si assms(2,3)]
  obtain R where R: "take (p1 - p) (drop p input) = der_tlv 2 R" "R = [] \<or> R = der_integer R"
    "take r_len (drop r input) = strip R" "r_len = length (strip R)" using rs(3) ss(1) by auto
  obtain S where S: "take (e - p1) (drop p1 input) = der_tlv 2 S" "S = [] \<or> S = der_integer S"
    "take s_len (drop s input) = strip S" "s_len = length (strip S)" using ss(3) by auto
  have body: "take (e - p) (drop p input) = der_tlv 2 R @ der_tlv 2 S"
    using slice_append [of p p1 e input] rs(2) ss(1) R(1) S(1) by simp
  have "length (der_tlv 2 R @ der_tlv 2 S) = unat len"
    unfolding body [symmetric] using seq t assms(3) by simp
  then have "take e input = der_tlv 0x30 (der_tlv 2 R @ der_tlv 2 S)"
    using slice_append [of 0 p e input] t body seq by (simp add: der_tlv_def [of "0x30"])
  then show ?thesis using R S max by blast
qed

section \<open>Properties\<close>

lemma take_buf_write_0: "length c \<le> length b \<Longrightarrow> take (length c) (buf_write b 0 c) = c"
  using take_buf_write [of 0 b c] by simp

lemma der_length_ge: "1 \<le> length (der_length n)"
  by (simp add: der_length_def)

lemma short_body_le: "length (short_body r s) \<le> length (der_body r s)"
  using der_length_ge [of "length (der_integer r)"] der_length_ge [of "length (der_integer s)"]
  by (simp add: short_body_def der_body_def der_tlv_def)

lemma der_integer_suffix: "drop (length (der_integer d) - length (strip d)) (der_integer d) = strip d"
  by (simp add: der_integer_def)

lemma slice_suffix:
  assumes "take n (drop p xs) = c" and "length c = n" and "drop k c = d"
  shows "take (length d) (drop (p + k) xs) = d"
proof -
  have "drop k (take n (drop p xs)) = d" using assms(1,3) by simp
  moreover have "length d = n - k" using assms(2,3) by auto
  ultimately show ?thesis by (simp add: drop_take add.commute)
qed

lemma slices_hold:
  assumes "take (2 + length (short_body r s)) input = der_short 0x30 (short_body r s)"
    and "integer_slices r s = ((ri, rl), (si, sl))"
  shows "take rl (drop ri input) = strip r" and "take sl (drop si input) = strip s"
proof -
  let ?R = "length (der_integer r)" and ?S = "length (der_integer s)"
  note at = short_body_at [OF assms(1)]
  have le: "length (strip r) \<le> ?R" "length (strip s) \<le> ?S"
    using length_strip_le [of "der_integer r"] length_strip_le [of "der_integer s"] by simp_all
  have "take (length (strip r)) (drop (2 + (2 + (?R - length (strip r)))) input) = strip r"
    by (rule slice_suffix [OF at(1)]) (simp_all add: der_integer_suffix)
  then show "take rl (drop ri input) = strip r"
    using assms(2) le by (auto simp: integer_slices_def Let_def numeral_eq_Suc Suc_diff_le)
  have "take (length (strip s)) (drop (4 + ?R + (2 + (?S - length (strip s)))) input) = strip s"
    by (rule slice_suffix [OF at(2)]) (simp_all add: der_integer_suffix)
  then show "take sl (drop si input) = strip s"
    using assms(2) le by (auto simp: integer_slices_def Let_def add.assoc numeral_eq_Suc Suc_diff_le)
qed

text \<open>
  Property C40: a signature that \<open>spec_cx_ecfp_encode_sig_der\<close> writes is the distinguished encoding of
  its two numbers, and \<open>spec_cx_ecfp_decode_sig_der\<close> finds the numbers again without their leading
  zeros, as long as the sequence has less than 128 bytes of contents.
\<close>

theorem der_signature_roundtrip:
  assumes "rn \<le> length r" "strip (take rn r) \<noteq> []" and "sn \<le> length s" "strip (take sn s) \<noteq> []"
    and "length (der_body (take rn r) (take sn s)) < 128"
    and "length (der_signature (take rn r) (take sn s)) \<le> sig_len" and "sig_len \<le> length sig"
    and "rn < 2 ^ 30" "sn < 2 ^ 30" and "rn \<le> max_size" "sn \<le> max_size"
  shows "\<exists>sig' ri rl si sl.
    spec_cx_ecfp_encode_sig_der sig sig_len r rn s sn = Inr (length (der_signature (take rn r) (take sn s)), sig') \<and>
    take (length (der_signature (take rn r) (take sn s))) sig' = der_signature (take rn r) (take sn s) \<and>
    spec_cx_ecfp_decode_sig_der sig' (length (der_signature (take rn r) (take sn s))) max_size =
      Inr (Some ((ri, rl), (si, sl))) \<and>
    take rl (drop ri sig') = strip (take rn r) \<and> take sl (drop si sig') = strip (take sn s)"
proof -
  let ?b = "short_body (take rn r) (take sn s)"
  have m: "length ?b < 128" using short_body_le [of "take rn r" "take sn s"] assms(5) by simp
  note sg = der_signature_short [OF m]
  let ?sig = "buf_write sig 0 (der_short 0x30 ?b)"
  have room: "2 + length ?b \<le> sig_len" using assms(6) by (simp add: sg)
  have "unat (of_nat (length ?b) :: u8) = length ?b" using m by (simp add: unat_of_nat)
  then have enc: "spec_cx_ecfp_encode_sig_der sig sig_len r rn s sn = Inr (2 + length ?b, ?sig)"
    using encode_sig_der_spec [OF assms(1-4,8,9,7)] room by simp
  have out: "take (2 + length ?b) ?sig = der_short 0x30 ?b"
    using take_buf_write_0 [of "der_short 0x30 ?b" sig] room assms(7) by simp
  obtain ri rl si sl where sl: "integer_slices (take rn r) (take sn s) = ((ri, rl), (si, sl))"
    by (metis surj_pair)
  have "length (strip (take rn r)) \<le> max_size" "length (strip (take sn s)) \<le> max_size"
    using length_strip_le [of "take rn r"] length_strip_le [of "take sn s"] assms(10,11) by simp_all
  then have "spec_cx_ecfp_decode_sig_der ?sig (2 + length ?b) max_size = Inr (Some ((ri, rl), (si, sl)))"
    using decode_short [OF out assms(2,4) m] sl by simp
  then show ?thesis using enc out slices_hold [OF out sl] unfolding sg by (auto simp del: add_2_eq_Suc)
qed

theorem der_signature_roundtrip_witness:
  "\<exists>sig' ri rl si sl. spec_cx_ecfp_encode_sig_der (replicate 9 0) 9 [0, 5] 2 [0x90] 1 = Inr (9, sig') \<and>
    take 9 sig' = [0x30, 7, 2, 1, 5, 2, 2, 0, 0x90] \<and>
    spec_cx_ecfp_decode_sig_der sig' 9 32 = Inr (Some ((ri, rl), (si, sl))) \<and>
    take rl (drop ri sig') = [5] \<and> take sl (drop si sig') = [0x90]"
proof -
  have body: "der_body (take 2 [0, 5]) (take 1 [0x90]) = [2, 1, 5, 2, 2, 0, 0x90]"
    by (simp add: der_body_def der_tlv_def der_length_def der_integer_def strip_def)
  have sig: "der_signature (take 2 [0, 5]) (take 1 [0x90]) = [0x30, 7, 2, 1, 5, 2, 2, 0, 0x90]"
    unfolding der_signature_def body by (simp add: der_tlv_def der_length_def)
  have len: "length [0x30, 7, 2, 1, 5, 2, 2, 0, 0x90 :: u8] = 9" by simp
  have st: "strip (take 2 [0, 5]) = [5]" "strip (take 1 [0x90]) = [0x90]" by (simp_all add: strip_def)
  show ?thesis
    using der_signature_roundtrip [of 2 "[0, 5]" 1 "[0x90]" 9 "replicate 9 0" 32, unfolded st body sig len]
    by simp
qed

text \<open>
  \<open>spec_cx_ecfp_decode_sig_der\<close> accepts nothing but the distinguished encoding: the whole
  input is a SEQUENCE of two INTEGERs with lengths in their shortest form, whose contents are minimal or
  empty, and the numbers returned are the contents without leading zeros and at most \<open>max_size\<close> long.
\<close>

theorem decode_sig_der_strict:
  assumes "spec_cx_ecfp_decode_sig_der input input_len max_size = Inr (Some ((r, r_len), (s, s_len)))"
    and "input_len < 2 ^ 23" and "input_len \<le> length input"
  shows "\<exists>R S. take input_len input = der_tlv 0x30 (der_tlv 2 R @ der_tlv 2 S) \<and>
    (R = [] \<or> R = der_integer R) \<and> (S = [] \<or> S = der_integer S) \<and>
    take r_len (drop r input) = strip R \<and> take s_len (drop s input) = strip S \<and>
    r_len = length (strip R) \<and> s_len = length (strip S) \<and> r_len \<le> max_size \<and> s_len \<le> max_size"
  using assms by (rule decode_sound)

theorem decode_sig_der_strict_witness:
  "\<exists>R S. take 8 [0x30, 6, 2, 1, 5, 2, 1, 7 :: u8] = der_tlv 0x30 (der_tlv 2 R @ der_tlv 2 S) \<and>
    [5] = strip R \<and> [7] = strip S"
proof -
  have "spec_cx_ecfp_decode_sig_der [0x30, 6, 2, 1, 5, 2, 1, 7] 8 32 = Inr (Some ((4, 1), (7, 1)))"
    by (simp add: spec_cx_ecfp_decode_sig_der_def asn1_read_tag_def asn1_read_len_def asn1_parse_integer_def
        asn1_padded_def ptr_add_def mem_get_def)
  from decode_sig_der_strict [OF this] show ?thesis by auto
qed

text \<open>
  The encoder has no long form: numbers of the 512-bit curves, whose sequence has 128 bytes of contents
  or more, give a signature that is not DER and that the decoder refuses.
\<close>

theorem der_signature_too_long:
  assumes "rn \<le> length r" "strip (take rn r) \<noteq> []" and "sn \<le> length s" "strip (take sn s) \<noteq> []"
    and "128 \<le> length (short_body (take rn r) (take sn s))" "length (short_body (take rn r) (take sn s)) < 256"
    and "2 + length (short_body (take rn r) (take sn s)) \<le> sig_len" and "sig_len \<le> length sig"
    and "rn < 2 ^ 30" "sn < 2 ^ 30"
  shows "\<exists>n sig'. spec_cx_ecfp_encode_sig_der sig sig_len r rn s sn = Inr (n, sig') \<and>
    n = 2 + length (short_body (take rn r) (take sn s)) \<and> spec_cx_ecfp_decode_sig_der sig' n max_size = Inr None"
proof -
  let ?b = "short_body (take rn r) (take sn s)"
  let ?sig = "buf_write sig 0 (der_short 0x30 ?b)"
  have "unat (of_nat (length ?b) :: u8) = length ?b" using assms(6) by (simp add: unat_of_nat)
  then have enc: "spec_cx_ecfp_encode_sig_der sig sig_len r rn s sn = Inr (2 + length ?b, ?sig)"
    using encode_sig_der_spec [OF assms(1-4,9,10,8)] assms(7) by simp
  have out: "take (2 + length ?b) ?sig = der_short 0x30 ?b"
    using take_buf_write_0 [of "der_short 0x30 ?b" sig] assms(7,8) by simp
  show ?thesis using enc decode_long [OF out assms(5,6)] by blast
qed

text \<open>
  The decoder looks at the first byte of an integer, and behind its leading zeros, before it tests where
  the input ends: on an empty last integer it reads the byte behind the input. An empty integer is
  accepted, although it is not DER.
\<close>

lemma decode_reads_behind: "spec_cx_ecfp_decode_sig_der [0x30, 4, 2, 0, 2, 0] 6 32 = Inl Oob"
  by (simp add: spec_cx_ecfp_decode_sig_der_def asn1_read_tag_def asn1_read_len_def asn1_parse_integer_def
      asn1_padded_def ptr_add_def mem_get_def)

lemma decode_empty_integers:
  "spec_cx_ecfp_decode_sig_der [0x30, 4, 2, 0, 2, 0, 0] 6 32 = Inr (Some ((4, 0), (6, 0)))"
  by (simp add: spec_cx_ecfp_decode_sig_der_def asn1_read_tag_def asn1_read_len_def asn1_parse_integer_def
      asn1_padded_def ptr_add_def mem_get_def)

end
