(* ===== verification/Cx_Ec_Tables.thy ===== *)
theory Cx_Ec_Tables
  imports Cx_Ec_Domain Hdkey_Validate Cx_Hash_Types
begin

text \<open>
  The curve tables of \<open>src/bolos/cx_ec.c\<close>, which the calls of the first SDK use, with the curve
  numbers of that SDK, and the proof that they agree with the tables of \<open>src/bolos/cx_ec_domain.c\<close>
  (\<open>Cx_Curves\<close>). The prefix \<open>C_cx\<close> of the sources is \<open>SDK1\<close> here, because both files use the same names.
\<close>

section \<open>Curves and their domains\<close>

text \<open>
  The identifiers of \<open>enum cx_curve_e\<close> (\<open>cx_ec.h\<close>) without \<open>_SDK_2_0_\<close>; the enumeration counts up from
  the numbers it gives.
\<close>

definition SDK1_CURVE_WEIERSTRASS_START :: cx_curve where "SDK1_CURVE_WEIERSTRASS_START = 0x20"
definition SDK1_CURVE_SECP256K1 :: cx_curve where "SDK1_CURVE_SECP256K1 = 0x21"
definition SDK1_CURVE_SECP256R1 :: cx_curve where "SDK1_CURVE_SECP256R1 = 0x22"
definition SDK1_CURVE_SECP384R1 :: cx_curve where "SDK1_CURVE_SECP384R1 = 0x23"
definition SDK1_CURVE_BrainPoolP256T1 :: cx_curve where "SDK1_CURVE_BrainPoolP256T1 = 0x25"
definition SDK1_CURVE_BrainPoolP256R1 :: cx_curve where "SDK1_CURVE_BrainPoolP256R1 = 0x26"
definition SDK1_CURVE_BrainPoolP320T1 :: cx_curve where "SDK1_CURVE_BrainPoolP320T1 = 0x27"
definition SDK1_CURVE_BrainPoolP320R1 :: cx_curve where "SDK1_CURVE_BrainPoolP320R1 = 0x28"
definition SDK1_CURVE_BrainPoolP384T1 :: cx_curve where "SDK1_CURVE_BrainPoolP384T1 = 0x29"
definition SDK1_CURVE_BrainPoolP384R1 :: cx_curve where "SDK1_CURVE_BrainPoolP384R1 = 0x2a"
definition SDK1_CURVE_BrainPoolP512T1 :: cx_curve where "SDK1_CURVE_BrainPoolP512T1 = 0x2b"
definition SDK1_CURVE_BrainPoolP512R1 :: cx_curve where "SDK1_CURVE_BrainPoolP512R1 = 0x2c"
definition SDK1_CURVE_BLS12_381_G1 :: cx_curve where "SDK1_CURVE_BLS12_381_G1 = 0x2f"
definition SDK1_CURVE_WEIERSTRASS_END :: cx_curve where "SDK1_CURVE_WEIERSTRASS_END = 0x30"
definition SDK1_CURVE_TWISTED_EDWARD_START :: cx_curve where "SDK1_CURVE_TWISTED_EDWARD_START = 0x40"
definition SDK1_CURVE_TWISTED_EDWARD_END :: cx_curve where "SDK1_CURVE_TWISTED_EDWARD_END = 0x43"
definition SDK1_CURVE_MONTGOMERY_START :: cx_curve where "SDK1_CURVE_MONTGOMERY_START = 0x60"
definition SDK1_CURVE_Curve25519 :: cx_curve where "SDK1_CURVE_Curve25519 = 0x61"
definition SDK1_CURVE_MONTGOMERY_END :: cx_curve where "SDK1_CURVE_MONTGOMERY_END = 0x63"

lemmas sdk1_curve_ids =
  SDK1_CURVE_WEIERSTRASS_START_def SDK1_CURVE_SECP256K1_def SDK1_CURVE_SECP256R1_def
  SDK1_CURVE_SECP384R1_def SDK1_CURVE_BrainPoolP256T1_def SDK1_CURVE_BrainPoolP256R1_def
  SDK1_CURVE_BrainPoolP320T1_def SDK1_CURVE_BrainPoolP320R1_def
  SDK1_CURVE_BrainPoolP384T1_def SDK1_CURVE_BrainPoolP384R1_def
  SDK1_CURVE_BrainPoolP512T1_def SDK1_CURVE_BrainPoolP512R1_def SDK1_CURVE_BLS12_381_G1_def
  SDK1_CURVE_WEIERSTRASS_END_def SDK1_CURVE_TWISTED_EDWARD_START_def
  SDK1_CURVE_TWISTED_EDWARD_END_def SDK1_CURVE_MONTGOMERY_START_def SDK1_CURVE_Curve25519_def
  SDK1_CURVE_MONTGOMERY_END_def SDK1_CURVE_Ed25519_def

text \<open>\<open>CX_CURVE_HEADER\<close>, and the structures that extend it.\<close>

record sdk1_domain =
  sd_curve :: cx_curve
  sd_bit_size :: nat
  sd_length :: nat
  sd_p :: bytes
  sd_Hp :: bytes
  sd_Gx :: bytes
  sd_Gy :: bytes
  sd_n :: bytes
  sd_Hn :: bytes
  sd_h :: int

record sdk1_weierstrass = sdk1_domain +
  sw_a :: bytes
  sw_b :: bytes

record sdk1_twisted_edward = sdk1_domain +
  se_a :: bytes
  se_d :: bytes
  se_I :: bytes
  se_Qq :: bytes

section \<open>The tables\<close>

subsection \<open>secp256k1\<close>

definition SDK1_secp256k1_a :: bytes where
  "SDK1_secp256k1_a =
    [0x00, 0x00, 0x00, 0x00, 0x00, 0x00, 0x00, 0x00, 0x00, 0x00, 0x00, 0x00, 0x00, 0x00, 0x00,
     0x00, 0x00, 0x00, 0x00, 0x00, 0x00, 0x00, 0x00, 0x00, 0x00, 0x00, 0x00, 0x00, 0x00, 0x00,
     0x00, 0x00]"

definition SDK1_secp256k1_b :: bytes where
  "SDK1_secp256k1_b =
    [0x00, 0x00, 0x00, 0x00, 0x00, 0x00, 0x00, 0x00, 0x00, 0x00, 0x00, 0x00, 0x00, 0x00, 0x00,
     0x00, 0x00, 0x00, 0x00, 0x00, 0x00, 0x00, 0x00, 0x00, 0x00, 0x00, 0x00, 0x00, 0x00, 0x00,
     0x00, 0x07]"

definition SDK1_secp256k1_p :: bytes where
  "SDK1_secp256k1_p =
    [0xff, 0xff, 0xff, 0xff, 0xff, 0xff, 0xff, 0xff, 0xff, 0xff, 0xff, 0xff, 0xff, 0xff, 0xff,
     0xff, 0xff, 0xff, 0xff, 0xff, 0xff, 0xff, 0xff, 0xff, 0xff, 0xff, 0xff, 0xfe, 0xff, 0xff,
     0xfc, 0x2f]"

definition SDK1_secp256k1_Hp :: bytes where
  "SDK1_secp256k1_Hp =
    [0x00, 0x00, 0x00, 0x00, 0x00, 0x00, 0x00, 0x00, 0x00, 0x00, 0x00, 0x00, 0x00, 0x00, 0x00,
     0x00, 0x00, 0x00, 0x00, 0x00, 0x00, 0x00, 0x00, 0x01, 0x00, 0x00, 0x07, 0xa2, 0x00, 0x0e,
     0x90, 0xa1]"

definition SDK1_secp256k1_Gx :: bytes where
  "SDK1_secp256k1_Gx =
    [0x79, 0xbe, 0x66, 0x7e, 0xf9, 0xdc, 0xbb, 0xac, 0x55, 0xa0, 0x62, 0x95, 0xce, 0x87, 0x0b,
     0x07, 0x02, 0x9b, 0xfc, 0xdb, 0x2d, 0xce, 0x28, 0xd9, 0x59, 0xf2, 0x81, 0x5b, 0x16, 0xf8,
     0x17, 0x98]"

definition SDK1_secp256k1_Gy :: bytes where
  "SDK1_secp256k1_Gy =
    [0x48, 0x3a, 0xda, 0x77, 0x26, 0xa3, 0xc4, 0x65, 0x5d, 0xa4, 0xfb, 0xfc, 0x0e, 0x11, 0x08,
     0xa8, 0xfd, 0x17, 0xb4, 0x48, 0xa6, 0x85, 0x54, 0x19, 0x9c, 0x47, 0xd0, 0x8f, 0xfb, 0x10,
     0xd4, 0xb8]"

definition SDK1_secp256k1_n :: bytes where
  "SDK1_secp256k1_n =
    [0xff, 0xff, 0xff, 0xff, 0xff, 0xff, 0xff, 0xff, 0xff, 0xff, 0xff, 0xff, 0xff, 0xff, 0xff,
     0xfe, 0xba, 0xae, 0xdc, 0xe6, 0xaf, 0x48, 0xa0, 0x3b, 0xbf, 0xd2, 0x5e, 0x8c, 0xd0, 0x36,
     0x41, 0x41]"

definition SDK1_secp256k1_Hn :: bytes where
  "SDK1_secp256k1_Hn =
    [0x9d, 0x67, 0x1c, 0xd5, 0x81, 0xc6, 0x9b, 0xc5, 0xe6, 0x97, 0xf5, 0xe4, 0x5b, 0xcd, 0x07,
     0xc6, 0x74, 0x14, 0x96, 0xc2, 0x0e, 0x7c, 0xf8, 0x78, 0x89, 0x6c, 0xf2, 0x14, 0x67, 0xd7,
     0xd1, 0x40]"

definition SDK1_secp256k1_h :: int where "SDK1_secp256k1_h = 1"

definition SDK1_secp256k1 :: sdk1_weierstrass where
  "SDK1_secp256k1 = \<lparr>sd_curve = SDK1_CURVE_SECP256K1, sd_bit_size = 256, sd_length = 32,
     sd_p = SDK1_secp256k1_p, sd_Hp = SDK1_secp256k1_Hp, sd_Gx = SDK1_secp256k1_Gx,
     sd_Gy = SDK1_secp256k1_Gy, sd_n = SDK1_secp256k1_n, sd_Hn = SDK1_secp256k1_Hn,
     sd_h = SDK1_secp256k1_h, sw_a = SDK1_secp256k1_a, sw_b = SDK1_secp256k1_b\<rparr>"

subsection \<open>secp256r1\<close>

definition SDK1_secp256r1_a :: bytes where
  "SDK1_secp256r1_a =
    [0xff, 0xff, 0xff, 0xff, 0x00, 0x00, 0x00, 0x01, 0x00, 0x00, 0x00, 0x00, 0x00, 0x00, 0x00,
     0x00, 0x00, 0x00, 0x00, 0x00, 0xff, 0xff, 0xff, 0xff, 0xff, 0xff, 0xff, 0xff, 0xff, 0xff,
     0xff, 0xfc]"

definition SDK1_secp256r1_b :: bytes where
  "SDK1_secp256r1_b =
    [0x5a, 0xc6, 0x35, 0xd8, 0xaa, 0x3a, 0x93, 0xe7, 0xb3, 0xeb, 0xbd, 0x55, 0x76, 0x98, 0x86,
     0xbc, 0x65, 0x1d, 0x06, 0xb0, 0xcc, 0x53, 0xb0, 0xf6, 0x3b, 0xce, 0x3c, 0x3e, 0x27, 0xd2,
     0x60, 0x4b]"

definition SDK1_secp256r1_p :: bytes where
  "SDK1_secp256r1_p =
    [0xff, 0xff, 0xff, 0xff, 0x00, 0x00, 0x00, 0x01, 0x00, 0x00, 0x00, 0x00, 0x00, 0x00, 0x00,
     0x00, 0x00, 0x00, 0x00, 0x00, 0xff, 0xff, 0xff, 0xff, 0xff, 0xff, 0xff, 0xff, 0xff, 0xff,
     0xff, 0xff]"

definition SDK1_secp256r1_Hp :: bytes where
  "SDK1_secp256r1_Hp =
    [0x00, 0x00, 0x00, 0x04, 0xff, 0xff, 0xff, 0xfd, 0xff, 0xff, 0xff, 0xff, 0xff, 0xff, 0xff,
     0xfe, 0xff, 0xff, 0xff, 0xfb, 0xff, 0xff, 0xff, 0xff, 0x00, 0x00, 0x00, 0x00, 0x00, 0x00,
     0x00, 0x03]"

definition SDK1_secp256r1_Gx :: bytes where
  "SDK1_secp256r1_Gx =
    [0x6b, 0x17, 0xd1, 0xf2, 0xe1, 0x2c, 0x42, 0x47, 0xf8, 0xbc, 0xe6, 0xe5, 0x63, 0xa4, 0x40,
     0xf2, 0x77, 0x03, 0x7d, 0x81, 0x2d, 0xeb, 0x33, 0xa0, 0xf4, 0xa1, 0x39, 0x45, 0xd8, 0x98,
     0xc2, 0x96]"

definition SDK1_secp256r1_Gy :: bytes where
  "SDK1_secp256r1_Gy =
    [0x4f, 0xe3, 0x42, 0xe2, 0xfe, 0x1a, 0x7f, 0x9b, 0x8e, 0xe7, 0xeb, 0x4a, 0x7c, 0x0f, 0x9e,
     0x16, 0x2b, 0xce, 0x33, 0x57, 0x6b, 0x31, 0x5e, 0xce, 0xcb, 0xb6, 0x40, 0x68, 0x37, 0xbf,
     0x51, 0xf5]"

definition SDK1_secp256r1_n :: bytes where
  "SDK1_secp256r1_n =
    [0xff, 0xff, 0xff, 0xff, 0x00, 0x00, 0x00, 0x00, 0xff, 0xff, 0xff, 0xff, 0xff, 0xff, 0xff,
     0xff, 0xbc, 0xe6, 0xfa, 0xad, 0xa7, 0x17, 0x9e, 0x84, 0xf3, 0xb9, 0xca, 0xc2, 0xfc, 0x63,
     0x25, 0x51]"

definition SDK1_secp256r1_Hn :: bytes where
  "SDK1_secp256r1_Hn =
    [0x66, 0xe1, 0x2d, 0x94, 0xf3, 0xd9, 0x56, 0x20, 0x28, 0x45, 0xb2, 0x39, 0x2b, 0x6b, 0xec,
     0x59, 0x46, 0x99, 0x79, 0x9c, 0x49, 0xbd, 0x6f, 0xa6, 0x83, 0x24, 0x4c, 0x95, 0xbe, 0x79,
     0xee, 0xa2]"

definition SDK1_secp256r1_h :: int where "SDK1_secp256r1_h = 1"

definition SDK1_secp256r1 :: sdk1_weierstrass where
  "SDK1_secp256r1 = \<lparr>sd_curve = SDK1_CURVE_SECP256R1, sd_bit_size = 256, sd_length = 32,
     sd_p = SDK1_secp256r1_p, sd_Hp = SDK1_secp256r1_Hp, sd_Gx = SDK1_secp256r1_Gx,
     sd_Gy = SDK1_secp256r1_Gy, sd_n = SDK1_secp256r1_n, sd_Hn = SDK1_secp256r1_Hn,
     sd_h = SDK1_secp256r1_h, sw_a = SDK1_secp256r1_a, sw_b = SDK1_secp256r1_b\<rparr>"

subsection \<open>secp384r1\<close>

definition SDK1_secp384r1_a :: bytes where
  "SDK1_secp384r1_a =
    [0xff, 0xff, 0xff, 0xff, 0xff, 0xff, 0xff, 0xff, 0xff, 0xff, 0xff, 0xff, 0xff, 0xff, 0xff,
     0xff, 0xff, 0xff, 0xff, 0xff, 0xff, 0xff, 0xff, 0xff, 0xff, 0xff, 0xff, 0xff, 0xff, 0xff,
     0xff, 0xfe, 0xff, 0xff, 0xff, 0xff, 0x00, 0x00, 0x00, 0x00, 0x00, 0x00, 0x00, 0x00, 0xff,
     0xff, 0xff, 0xfc]"

definition SDK1_secp384r1_b :: bytes where
  "SDK1_secp384r1_b =
    [0xb3, 0x31, 0x2f, 0xa7, 0xe2, 0x3e, 0xe7, 0xe4, 0x98, 0x8e, 0x05, 0x6b, 0xe3, 0xf8, 0x2d,
     0x19, 0x18, 0x1d, 0x9c, 0x6e, 0xfe, 0x81, 0x41, 0x12, 0x03, 0x14, 0x08, 0x8f, 0x50, 0x13,
     0x87, 0x5a, 0xc6, 0x56, 0x39, 0x8d, 0x8a, 0x2e, 0xd1, 0x9d, 0x2a, 0x85, 0xc8, 0xed, 0xd3,
     0xec, 0x2a, 0xef]"

definition SDK1_secp384r1_p :: bytes where
  "SDK1_secp384r1_p =
    [0xff, 0xff, 0xff, 0xff, 0xff, 0xff, 0xff, 0xff, 0xff, 0xff, 0xff, 0xff, 0xff, 0xff, 0xff,
     0xff, 0xff, 0xff, 0xff, 0xff, 0xff, 0xff, 0xff, 0xff, 0xff, 0xff, 0xff, 0xff, 0xff, 0xff,
     0xff, 0xfe, 0xff, 0xff, 0xff, 0xff, 0x00, 0x00, 0x00, 0x00, 0x00, 0x00, 0x00, 0x00, 0xff,
     0xff, 0xff, 0xff]"

definition SDK1_secp384r1_Hp :: bytes where
  "SDK1_secp384r1_Hp =
    [0x00, 0x00, 0x00, 0x00, 0x00, 0x00, 0x00, 0x00, 0x00, 0x00, 0x00, 0x00, 0x00, 0x00, 0x00,
     0x01, 0x00, 0x00, 0x00, 0x02, 0x00, 0x00, 0x00, 0x00, 0xff, 0xff, 0xff, 0xfe, 0x00, 0x00,
     0x00, 0x00, 0x00, 0x00, 0x00, 0x02, 0x00, 0x00, 0x00, 0x00, 0xff, 0xff, 0xff, 0xfe, 0x00,
     0x00, 0x00, 0x01]"

definition SDK1_secp384r1_Gx :: bytes where
  "SDK1_secp384r1_Gx =
    [0xaa, 0x87, 0xca, 0x22, 0xbe, 0x8b, 0x05, 0x37, 0x8e, 0xb1, 0xc7, 0x1e, 0xf3, 0x20, 0xad,
     0x74, 0x6e, 0x1d, 0x3b, 0x62, 0x8b, 0xa7, 0x9b, 0x98, 0x59, 0xf7, 0x41, 0xe0, 0x82, 0x54,
     0x2a, 0x38, 0x55, 0x02, 0xf2, 0x5d, 0xbf, 0x55, 0x29, 0x6c, 0x3a, 0x54, 0x5e, 0x38, 0x72,
     0x76, 0x0a, 0xb7]"

definition SDK1_secp384r1_Gy :: bytes where
  "SDK1_secp384r1_Gy =
    [0x36, 0x17, 0xde, 0x4a, 0x96, 0x26, 0x2c, 0x6f, 0x5d, 0x9e, 0x98, 0xbf, 0x92, 0x92, 0xdc,
     0x29, 0xf8, 0xf4, 0x1d, 0xbd, 0x28, 0x9a, 0x14, 0x7c, 0xe9, 0xda, 0x31, 0x13, 0xb5, 0xf0,
     0xb8, 0xc0, 0x0a, 0x60, 0xb1, 0xce, 0x1d, 0x7e, 0x81, 0x9d, 0x7a, 0x43, 0x1d, 0x7c, 0x90,
     0xea, 0x0e, 0x5f]"

definition SDK1_secp384r1_n :: bytes where
  "SDK1_secp384r1_n =
    [0xff, 0xff, 0xff, 0xff, 0xff, 0xff, 0xff, 0xff, 0xff, 0xff, 0xff, 0xff, 0xff, 0xff, 0xff,
     0xff, 0xff, 0xff, 0xff, 0xff, 0xff, 0xff, 0xff, 0xff, 0xc7, 0x63, 0x4d, 0x81, 0xf4, 0x37,
     0x2d, 0xdf, 0x58, 0x1a, 0x0d, 0xb2, 0x48, 0xb0, 0xa7, 0x7a, 0xec, 0xec, 0x19, 0x6a, 0xcc,
     0xc5, 0x29, 0x73]"

definition SDK1_secp384r1_Hn :: bytes where
  "SDK1_secp384r1_Hn =
    [0x0c, 0x84, 0xee, 0x01, 0x2b, 0x39, 0xbf, 0x21, 0x3f, 0xb0, 0x5b, 0x7a, 0x28, 0x26, 0x68,
     0x95, 0xd4, 0x0d, 0x49, 0x17, 0x4a, 0xab, 0x1c, 0xc5, 0xbc, 0x3e, 0x48, 0x3a, 0xfc, 0xb8,
     0x29, 0x47, 0xff, 0x3d, 0x81, 0xe5, 0xdf, 0x1a, 0xa4, 0x19, 0x2d, 0x31, 0x9b, 0x24, 0x19,
     0xb4, 0x09, 0xa9]"

definition SDK1_secp384r1_h :: int where "SDK1_secp384r1_h = 1"

definition SDK1_secp384r1 :: sdk1_weierstrass where
  "SDK1_secp384r1 = \<lparr>sd_curve = SDK1_CURVE_SECP384R1, sd_bit_size = 384, sd_length = 48,
     sd_p = SDK1_secp384r1_p, sd_Hp = SDK1_secp384r1_Hp, sd_Gx = SDK1_secp384r1_Gx,
     sd_Gy = SDK1_secp384r1_Gy, sd_n = SDK1_secp384r1_n, sd_Hn = SDK1_secp384r1_Hn,
     sd_h = SDK1_secp384r1_h, sw_a = SDK1_secp384r1_a, sw_b = SDK1_secp384r1_b\<rparr>"

subsection \<open>BrainpoolP256r1\<close>

definition SDK1_BrainpoolP256r1_a :: bytes where
  "SDK1_BrainpoolP256r1_a =
    [0x7d, 0x5a, 0x09, 0x75, 0xfc, 0x2c, 0x30, 0x57, 0xee, 0xf6, 0x75, 0x30, 0x41, 0x7a, 0xff,
     0xe7, 0xfb, 0x80, 0x55, 0xc1, 0x26, 0xdc, 0x5c, 0x6c, 0xe9, 0x4a, 0x4b, 0x44, 0xf3, 0x30,
     0xb5, 0xd9]"

definition SDK1_BrainpoolP256r1_b :: bytes where
  "SDK1_BrainpoolP256r1_b =
    [0x26, 0xdc, 0x5c, 0x6c, 0xe9, 0x4a, 0x4b, 0x44, 0xf3, 0x30, 0xb5, 0xd9, 0xbb, 0xd7, 0x7c,
     0xbf, 0x95, 0x84, 0x16, 0x29, 0x5c, 0xf7, 0xe1, 0xce, 0x6b, 0xcc, 0xdc, 0x18, 0xff, 0x8c,
     0x07, 0xb6]"

definition SDK1_BrainpoolP256r1_p :: bytes where
  "SDK1_BrainpoolP256r1_p =
    [0xa9, 0xfb, 0x57, 0xdb, 0xa1, 0xee, 0xa9, 0xbc, 0x3e, 0x66, 0x0a, 0x90, 0x9d, 0x83, 0x8d,
     0x72, 0x6e, 0x3b, 0xf6, 0x23, 0xd5, 0x26, 0x20, 0x28, 0x20, 0x13, 0x48, 0x1d, 0x1f, 0x6e,
     0x53, 0x77]"

definition SDK1_BrainpoolP256r1_Hp :: bytes where
  "SDK1_BrainpoolP256r1_Hp =
    [0x47, 0x17, 0xaa, 0x21, 0xe5, 0x95, 0x7f, 0xa8, 0xa1, 0xec, 0xda, 0xcd, 0x6b, 0x1a, 0xc8,
     0x07, 0x5c, 0xce, 0x4c, 0x26, 0x61, 0x4d, 0x4f, 0x4d, 0x8c, 0xfe, 0xdf, 0x7b, 0xa6, 0x46,
     0x5b, 0x6c]"

definition SDK1_BrainpoolP256r1_Gx :: bytes where
  "SDK1_BrainpoolP256r1_Gx =
    [0x8b, 0xd2, 0xae, 0xb9, 0xcb, 0x7e, 0x57, 0xcb, 0x2c, 0x4b, 0x48, 0x2f, 0xfc, 0x81, 0xb7,
     0xaf, 0xb9, 0xde, 0x27, 0xe1, 0xe3, 0xbd, 0x23, 0xc2, 0x3a, 0x44, 0x53, 0xbd, 0x9a, 0xce,
     0x32, 0x62]"

definition SDK1_BrainpoolP256r1_Gy :: bytes where
  "SDK1_BrainpoolP256r1_Gy =
    [0x54, 0x7e, 0xf8, 0x35, 0xc3, 0xda, 0xc4, 0xfd, 0x97, 0xf8, 0x46, 0x1a, 0x14, 0x61, 0x1d,
     0xc9, 0xc2, 0x77, 0x45, 0x13, 0x2d, 0xed, 0x8e, 0x54, 0x5c, 0x1d, 0x54, 0xc7, 0x2f, 0x04,
     0x69, 0x97]"

definition SDK1_BrainpoolP256r1_n :: bytes where
  "SDK1_BrainpoolP256r1_n =
    [0xa9, 0xfb, 0x57, 0xdb, 0xa1, 0xee, 0xa9, 0xbc, 0x3e, 0x66, 0x0a, 0x90, 0x9d, 0x83, 0x8d,
     0x71, 0x8c, 0x39, 0x7a, 0xa3, 0xb5, 0x61, 0xa6, 0xf7, 0x90, 0x1e, 0x0e, 0x82, 0x97, 0x48,
     0x56, 0xa7]"

definition SDK1_BrainpoolP256r1_Hn :: bytes where
  "SDK1_BrainpoolP256r1_Hn =
    [0x0b, 0x25, 0xf1, 0xb9, 0xc3, 0x23, 0x67, 0x62, 0x9b, 0x7f, 0x25, 0xe7, 0x6c, 0x81, 0x5c,
     0xb0, 0xf3, 0x5d, 0x17, 0x6a, 0x11, 0x34, 0xe4, 0xa0, 0xe1, 0xd8, 0xd8, 0xde, 0x33, 0x12,
     0xfc, 0xa6]"

definition SDK1_BrainpoolP256r1_h :: int where "SDK1_BrainpoolP256r1_h = 1"

definition SDK1_BrainpoolP256r1 :: sdk1_weierstrass where
  "SDK1_BrainpoolP256r1 = \<lparr>sd_curve = SDK1_CURVE_BrainPoolP256R1, sd_bit_size = 256, sd_length = 32,
     sd_p = SDK1_BrainpoolP256r1_p, sd_Hp = SDK1_BrainpoolP256r1_Hp,
     sd_Gx = SDK1_BrainpoolP256r1_Gx, sd_Gy = SDK1_BrainpoolP256r1_Gy,
     sd_n = SDK1_BrainpoolP256r1_n, sd_Hn = SDK1_BrainpoolP256r1_Hn,
     sd_h = SDK1_BrainpoolP256r1_h, sw_a = SDK1_BrainpoolP256r1_a, sw_b = SDK1_BrainpoolP256r1_b\<rparr>"

subsection \<open>BrainpoolP256t1\<close>

definition SDK1_BrainpoolP256t1_a :: bytes where
  "SDK1_BrainpoolP256t1_a =
    [0xa9, 0xfb, 0x57, 0xdb, 0xa1, 0xee, 0xa9, 0xbc, 0x3e, 0x66, 0x0a, 0x90, 0x9d, 0x83, 0x8d,
     0x72, 0x6e, 0x3b, 0xf6, 0x23, 0xd5, 0x26, 0x20, 0x28, 0x20, 0x13, 0x48, 0x1d, 0x1f, 0x6e,
     0x53, 0x74]"

definition SDK1_BrainpoolP256t1_b :: bytes where
  "SDK1_BrainpoolP256t1_b =
    [0x66, 0x2c, 0x61, 0xc4, 0x30, 0xd8, 0x4e, 0xa4, 0xfe, 0x66, 0xa7, 0x73, 0x3d, 0x0b, 0x76,
     0xb7, 0xbf, 0x93, 0xeb, 0xc4, 0xaf, 0x2f, 0x49, 0x25, 0x6a, 0xe5, 0x81, 0x01, 0xfe, 0xe9,
     0x2b, 0x04]"

definition SDK1_BrainpoolP256t1_p :: bytes where
  "SDK1_BrainpoolP256t1_p =
    [0xa9, 0xfb, 0x57, 0xdb, 0xa1, 0xee, 0xa9, 0xbc, 0x3e, 0x66, 0x0a, 0x90, 0x9d, 0x83, 0x8d,
     0x72, 0x6e, 0x3b, 0xf6, 0x23, 0xd5, 0x26, 0x20, 0x28, 0x20, 0x13, 0x48, 0x1d, 0x1f, 0x6e,
     0x53, 0x77]"

definition SDK1_BrainpoolP256t1_Hp :: bytes where
  "SDK1_BrainpoolP256t1_Hp =
    [0x47, 0x17, 0xaa, 0x21, 0xe5, 0x95, 0x7f, 0xa8, 0xa1, 0xec, 0xda, 0xcd, 0x6b, 0x1a, 0xc8,
     0x07, 0x5c, 0xce, 0x4c, 0x26, 0x61, 0x4d, 0x4f, 0x4d, 0x8c, 0xfe, 0xdf, 0x7b, 0xa6, 0x46,
     0x5b, 0x6c]"

definition SDK1_BrainpoolP256t1_Gx :: bytes where
  "SDK1_BrainpoolP256t1_Gx =
    [0xa3, 0xe8, 0xeb, 0x3c, 0xc1, 0xcf, 0xe7, 0xb7, 0x73, 0x22, 0x13, 0xb2, 0x3a, 0x65, 0x61,
     0x49, 0xaf, 0xa1, 0x42, 0xc4, 0x7a, 0xaf, 0xbc, 0x2b, 0x79, 0xa1, 0x91, 0x56, 0x2e, 0x13,
     0x05, 0xf4]"

definition SDK1_BrainpoolP256t1_Gy :: bytes where
  "SDK1_BrainpoolP256t1_Gy =
    [0x2d, 0x99, 0x6c, 0x82, 0x34, 0x39, 0xc5, 0x6d, 0x7f, 0x7b, 0x22, 0xe1, 0x46, 0x44, 0x41,
     0x7e, 0x69, 0xbc, 0xb6, 0xde, 0x39, 0xd0, 0x27, 0x00, 0x1d, 0xab, 0xe8, 0xf3, 0x5b, 0x25,
     0xc9, 0xbe]"

definition SDK1_BrainpoolP256t1_n :: bytes where
  "SDK1_BrainpoolP256t1_n =
    [0xa9, 0xfb, 0x57, 0xdb, 0xa1, 0xee, 0xa9, 0xbc, 0x3e, 0x66, 0x0a, 0x90, 0x9d, 0x83, 0x8d,
     0x71, 0x8c, 0x39, 0x7a, 0xa3, 0xb5, 0x61, 0xa6, 0xf7, 0x90, 0x1e, 0x0e, 0x82, 0x97, 0x48,
     0x56, 0xa7]"

definition SDK1_BrainpoolP256t1_Hn :: bytes where
  "SDK1_BrainpoolP256t1_Hn =
    [0x0b, 0x25, 0xf1, 0xb9, 0xc3, 0x23, 0x67, 0x62, 0x9b, 0x7f, 0x25, 0xe7, 0x6c, 0x81, 0x5c,
     0xb0, 0xf3, 0x5d, 0x17, 0x6a, 0x11, 0x34, 0xe4, 0xa0, 0xe1, 0xd8, 0xd8, 0xde, 0x33, 0x12,
     0xfc, 0xa6]"

definition SDK1_BrainpoolP256t1_h :: int where "SDK1_BrainpoolP256t1_h = 1"

definition SDK1_BrainpoolP256t1 :: sdk1_weierstrass where
  "SDK1_BrainpoolP256t1 = \<lparr>sd_curve = SDK1_CURVE_BrainPoolP256T1, sd_bit_size = 256, sd_length = 32,
     sd_p = SDK1_BrainpoolP256t1_p, sd_Hp = SDK1_BrainpoolP256t1_Hp,
     sd_Gx = SDK1_BrainpoolP256t1_Gx, sd_Gy = SDK1_BrainpoolP256t1_Gy,
     sd_n = SDK1_BrainpoolP256t1_n, sd_Hn = SDK1_BrainpoolP256t1_Hn,
     sd_h = SDK1_BrainpoolP256t1_h, sw_a = SDK1_BrainpoolP256t1_a, sw_b = SDK1_BrainpoolP256t1_b\<rparr>"

subsection \<open>BrainpoolP320r1\<close>

definition SDK1_BrainpoolP320r1_a :: bytes where
  "SDK1_BrainpoolP320r1_a =
    [0x3e, 0xe3, 0x0b, 0x56, 0x8f, 0xba, 0xb0, 0xf8, 0x83, 0xcc, 0xeb, 0xd4, 0x6d, 0x3f, 0x3b,
     0xb8, 0xa2, 0xa7, 0x35, 0x13, 0xf5, 0xeb, 0x79, 0xda, 0x66, 0x19, 0x0e, 0xb0, 0x85, 0xff,
     0xa9, 0xf4, 0x92, 0xf3, 0x75, 0xa9, 0x7d, 0x86, 0x0e, 0xb4]"

definition SDK1_BrainpoolP320r1_b :: bytes where
  "SDK1_BrainpoolP320r1_b =
    [0x52, 0x08, 0x83, 0x94, 0x9d, 0xfd, 0xbc, 0x42, 0xd3, 0xad, 0x19, 0x86, 0x40, 0x68, 0x8a,
     0x6f, 0xe1, 0x3f, 0x41, 0x34, 0x95, 0x54, 0xb4, 0x9a, 0xcc, 0x31, 0xdc, 0xcd, 0x88, 0x45,
     0x39, 0x81, 0x6f, 0x5e, 0xb4, 0xac, 0x8f, 0xb1, 0xf1, 0xa6]"

definition SDK1_BrainpoolP320r1_p :: bytes where
  "SDK1_BrainpoolP320r1_p =
    [0xd3, 0x5e, 0x47, 0x20, 0x36, 0xbc, 0x4f, 0xb7, 0xe1, 0x3c, 0x78, 0x5e, 0xd2, 0x01, 0xe0,
     0x65, 0xf9, 0x8f, 0xcf, 0xa6, 0xf6, 0xf4, 0x0d, 0xef, 0x4f, 0x92, 0xb9, 0xec, 0x78, 0x93,
     0xec, 0x28, 0xfc, 0xd4, 0x12, 0xb1, 0xf1, 0xb3, 0x2e, 0x27]"

definition SDK1_BrainpoolP320r1_Hp :: bytes where
  "SDK1_BrainpoolP320r1_Hp =
    [0x40, 0x3a, 0x05, 0x6e, 0x97, 0xa2, 0xc0, 0x9c, 0xdb, 0xc2, 0x1a, 0x81, 0x77, 0x27, 0xa6,
     0xd4, 0xc5, 0x3a, 0xa9, 0x67, 0x5c, 0x40, 0x00, 0xf4, 0x10, 0x26, 0x0b, 0x24, 0xef, 0x82,
     0x14, 0x48, 0xb4, 0xe0, 0x40, 0x50, 0xad, 0x8b, 0x40, 0x0d]"

definition SDK1_BrainpoolP320r1_Gx :: bytes where
  "SDK1_BrainpoolP320r1_Gx =
    [0x43, 0xbd, 0x7e, 0x9a, 0xfb, 0x53, 0xd8, 0xb8, 0x52, 0x89, 0xbc, 0xc4, 0x8e, 0xe5, 0xbf,
     0xe6, 0xf2, 0x01, 0x37, 0xd1, 0x0a, 0x08, 0x7e, 0xb6, 0xe7, 0x87, 0x1e, 0x2a, 0x10, 0xa5,
     0x99, 0xc7, 0x10, 0xaf, 0x8d, 0x0d, 0x39, 0xe2, 0x06, 0x11]"

definition SDK1_BrainpoolP320r1_Gy :: bytes where
  "SDK1_BrainpoolP320r1_Gy =
    [0x14, 0xfd, 0xd0, 0x55, 0x45, 0xec, 0x1c, 0xc8, 0xab, 0x40, 0x93, 0x24, 0x7f, 0x77, 0x27,
     0x5e, 0x07, 0x43, 0xff, 0xed, 0x11, 0x71, 0x82, 0xea, 0xa9, 0xc7, 0x78, 0x77, 0xaa, 0xac,
     0x6a, 0xc7, 0xd3, 0x52, 0x45, 0xd1, 0x69, 0x2e, 0x8e, 0xe1]"

definition SDK1_BrainpoolP320r1_n :: bytes where
  "SDK1_BrainpoolP320r1_n =
    [0xd3, 0x5e, 0x47, 0x20, 0x36, 0xbc, 0x4f, 0xb7, 0xe1, 0x3c, 0x78, 0x5e, 0xd2, 0x01, 0xe0,
     0x65, 0xf9, 0x8f, 0xcf, 0xa5, 0xb6, 0x8f, 0x12, 0xa3, 0x2d, 0x48, 0x2e, 0xc7, 0xee, 0x86,
     0x58, 0xe9, 0x86, 0x91, 0x55, 0x5b, 0x44, 0xc5, 0x93, 0x11]"

definition SDK1_BrainpoolP320r1_Hn :: bytes where
  "SDK1_BrainpoolP320r1_Hn =
    [0xa7, 0x0d, 0x3d, 0xb6, 0xd2, 0x66, 0x8a, 0x95, 0x3b, 0x53, 0x96, 0xfe, 0xb0, 0x0b, 0x95,
     0x14, 0x07, 0xad, 0x16, 0x66, 0x45, 0x8b, 0xcc, 0x15, 0xdd, 0x86, 0x02, 0x95, 0xe4, 0xa3,
     0xf1, 0xa0, 0xb9, 0xb6, 0xac, 0x1d, 0x66, 0x16, 0x3f, 0x17]"

definition SDK1_BrainpoolP320r1_h :: int where "SDK1_BrainpoolP320r1_h = 1"

definition SDK1_BrainpoolP320r1 :: sdk1_weierstrass where
  "SDK1_BrainpoolP320r1 = \<lparr>sd_curve = SDK1_CURVE_BrainPoolP320R1, sd_bit_size = 320, sd_length = 40,
     sd_p = SDK1_BrainpoolP320r1_p, sd_Hp = SDK1_BrainpoolP320r1_Hp,
     sd_Gx = SDK1_BrainpoolP320r1_Gx, sd_Gy = SDK1_BrainpoolP320r1_Gy,
     sd_n = SDK1_BrainpoolP320r1_n, sd_Hn = SDK1_BrainpoolP320r1_Hn,
     sd_h = SDK1_BrainpoolP320r1_h, sw_a = SDK1_BrainpoolP320r1_a, sw_b = SDK1_BrainpoolP320r1_b\<rparr>"

subsection \<open>BrainpoolP320t1\<close>

definition SDK1_BrainpoolP320t1_a :: bytes where
  "SDK1_BrainpoolP320t1_a =
    [0xd3, 0x5e, 0x47, 0x20, 0x36, 0xbc, 0x4f, 0xb7, 0xe1, 0x3c, 0x78, 0x5e, 0xd2, 0x01, 0xe0,
     0x65, 0xf9, 0x8f, 0xcf, 0xa6, 0xf6, 0xf4, 0x0d, 0xef, 0x4f, 0x92, 0xb9, 0xec, 0x78, 0x93,
     0xec, 0x28, 0xfc, 0xd4, 0x12, 0xb1, 0xf1, 0xb3, 0x2e, 0x24]"

definition SDK1_BrainpoolP320t1_b :: bytes where
  "SDK1_BrainpoolP320t1_b =
    [0xa7, 0xf5, 0x61, 0xe0, 0x38, 0xeb, 0x1e, 0xd5, 0x60, 0xb3, 0xd1, 0x47, 0xdb, 0x78, 0x20,
     0x13, 0x06, 0x4c, 0x19, 0xf2, 0x7e, 0xd2, 0x7c, 0x67, 0x80, 0xaa, 0xf7, 0x7f, 0xb8, 0xa5,
     0x47, 0xce, 0xb5, 0xb4, 0xfe, 0xf4, 0x22, 0x34, 0x03, 0x53]"

definition SDK1_BrainpoolP320t1_p :: bytes where
  "SDK1_BrainpoolP320t1_p =
    [0xd3, 0x5e, 0x47, 0x20, 0x36, 0xbc, 0x4f, 0xb7, 0xe1, 0x3c, 0x78, 0x5e, 0xd2, 0x01, 0xe0,
     0x65, 0xf9, 0x8f, 0xcf, 0xa6, 0xf6, 0xf4, 0x0d, 0xef, 0x4f, 0x92, 0xb9, 0xec, 0x78, 0x93,
     0xec, 0x28, 0xfc, 0xd4, 0x12, 0xb1, 0xf1, 0xb3, 0x2e, 0x27]"

definition SDK1_BrainpoolP320t1_Hp :: bytes where
  "SDK1_BrainpoolP320t1_Hp =
    [0x40, 0x3a, 0x05, 0x6e, 0x97, 0xa2, 0xc0, 0x9c, 0xdb, 0xc2, 0x1a, 0x81, 0x77, 0x27, 0xa6,
     0xd4, 0xc5, 0x3a, 0xa9, 0x67, 0x5c, 0x40, 0x00, 0xf4, 0x10, 0x26, 0x0b, 0x24, 0xef, 0x82,
     0x14, 0x48, 0xb4, 0xe0, 0x40, 0x50, 0xad, 0x8b, 0x40, 0x0d]"

definition SDK1_BrainpoolP320t1_Gx :: bytes where
  "SDK1_BrainpoolP320t1_Gx =
    [0x92, 0x5b, 0xe9, 0xfb, 0x01, 0xaf, 0xc6, 0xfb, 0x4d, 0x3e, 0x7d, 0x49, 0x90, 0x01, 0x0f,
     0x81, 0x34, 0x08, 0xab, 0x10, 0x6c, 0x4f, 0x09, 0xcb, 0x7e, 0xe0, 0x78, 0x68, 0xcc, 0x13,
     0x6f, 0xff, 0x33, 0x57, 0xf6, 0x24, 0xa2, 0x1b, 0xed, 0x52]"

definition SDK1_BrainpoolP320t1_Gy :: bytes where
  "SDK1_BrainpoolP320t1_Gy =
    [0x63, 0xba, 0x3a, 0x7a, 0x27, 0x48, 0x3e, 0xbf, 0x66, 0x71, 0xdb, 0xef, 0x7a, 0xbb, 0x30,
     0xeb, 0xee, 0x08, 0x4e, 0x58, 0xa0, 0xb0, 0x77, 0xad, 0x42, 0xa5, 0xa0, 0x98, 0x9d, 0x1e,
     0xe7, 0x1b, 0x1b, 0x9b, 0xc0, 0x45, 0x5f, 0xb0, 0xd2, 0xc3]"

definition SDK1_BrainpoolP320t1_n :: bytes where
  "SDK1_BrainpoolP320t1_n =
    [0xd3, 0x5e, 0x47, 0x20, 0x36, 0xbc, 0x4f, 0xb7, 0xe1, 0x3c, 0x78, 0x5e, 0xd2, 0x01, 0xe0,
     0x65, 0xf9, 0x8f, 0xcf, 0xa5, 0xb6, 0x8f, 0x12, 0xa3, 0x2d, 0x48, 0x2e, 0xc7, 0xee, 0x86,
     0x58, 0xe9, 0x86, 0x91, 0x55, 0x5b, 0x44, 0xc5, 0x93, 0x11]"

definition SDK1_BrainpoolP320t1_Hn :: bytes where
  "SDK1_BrainpoolP320t1_Hn =
    [0xa7, 0x0d, 0x3d, 0xb6, 0xd2, 0x66, 0x8a, 0x95, 0x3b, 0x53, 0x96, 0xfe, 0xb0, 0x0b, 0x95,
     0x14, 0x07, 0xad, 0x16, 0x66, 0x45, 0x8b, 0xcc, 0x15, 0xdd, 0x86, 0x02, 0x95, 0xe4, 0xa3,
     0xf1, 0xa0, 0xb9, 0xb6, 0xac, 0x1d, 0x66, 0x16, 0x3f, 0x17]"

definition SDK1_BrainpoolP320t1_h :: int where "SDK1_BrainpoolP320t1_h = 1"

definition SDK1_BrainpoolP320t1 :: sdk1_weierstrass where
  "SDK1_BrainpoolP320t1 = \<lparr>sd_curve = SDK1_CURVE_BrainPoolP320T1, sd_bit_size = 320, sd_length = 40,
     sd_p = SDK1_BrainpoolP320t1_p, sd_Hp = SDK1_BrainpoolP320t1_Hp,
     sd_Gx = SDK1_BrainpoolP320t1_Gx, sd_Gy = SDK1_BrainpoolP320t1_Gy,
     sd_n = SDK1_BrainpoolP320t1_n, sd_Hn = SDK1_BrainpoolP320t1_Hn,
     sd_h = SDK1_BrainpoolP320t1_h, sw_a = SDK1_BrainpoolP320t1_a, sw_b = SDK1_BrainpoolP320t1_b\<rparr>"

subsection \<open>BrainpoolP384r1\<close>

definition SDK1_BrainpoolP384r1_a :: bytes where
  "SDK1_BrainpoolP384r1_a =
    [0x7b, 0xc3, 0x82, 0xc6, 0x3d, 0x8c, 0x15, 0x0c, 0x3c, 0x72, 0x08, 0x0a, 0xce, 0x05, 0xaf,
     0xa0, 0xc2, 0xbe, 0xa2, 0x8e, 0x4f, 0xb2, 0x27, 0x87, 0x13, 0x91, 0x65, 0xef, 0xba, 0x91,
     0xf9, 0x0f, 0x8a, 0xa5, 0x81, 0x4a, 0x50, 0x3a, 0xd4, 0xeb, 0x04, 0xa8, 0xc7, 0xdd, 0x22,
     0xce, 0x28, 0x26]"

definition SDK1_BrainpoolP384r1_b :: bytes where
  "SDK1_BrainpoolP384r1_b =
    [0x04, 0xa8, 0xc7, 0xdd, 0x22, 0xce, 0x28, 0x26, 0x8b, 0x39, 0xb5, 0x54, 0x16, 0xf0, 0x44,
     0x7c, 0x2f, 0xb7, 0x7d, 0xe1, 0x07, 0xdc, 0xd2, 0xa6, 0x2e, 0x88, 0x0e, 0xa5, 0x3e, 0xeb,
     0x62, 0xd5, 0x7c, 0xb4, 0x39, 0x02, 0x95, 0xdb, 0xc9, 0x94, 0x3a, 0xb7, 0x86, 0x96, 0xfa,
     0x50, 0x4c, 0x11]"

definition SDK1_BrainpoolP384r1_p :: bytes where
  "SDK1_BrainpoolP384r1_p =
    [0x8c, 0xb9, 0x1e, 0x82, 0xa3, 0x38, 0x6d, 0x28, 0x0f, 0x5d, 0x6f, 0x7e, 0x50, 0xe6, 0x41,
     0xdf, 0x15, 0x2f, 0x71, 0x09, 0xed, 0x54, 0x56, 0xb4, 0x12, 0xb1, 0xda, 0x19, 0x7f, 0xb7,
     0x11, 0x23, 0xac, 0xd3, 0xa7, 0x29, 0x90, 0x1d, 0x1a, 0x71, 0x87, 0x47, 0x00, 0x13, 0x31,
     0x07, 0xec, 0x53]"

definition SDK1_BrainpoolP384r1_Hp :: bytes where
  "SDK1_BrainpoolP384r1_Hp =
    [0x36, 0xbf, 0x68, 0x83, 0x17, 0x8d, 0xf8, 0x42, 0xd5, 0xc6, 0xef, 0x3b, 0xa5, 0x7e, 0x05,
     0x2c, 0x62, 0x14, 0x01, 0x91, 0x99, 0x18, 0xd5, 0xaf, 0x8e, 0x28, 0xf9, 0x9c, 0xc9, 0x94,
     0x08, 0x99, 0x53, 0x52, 0x83, 0x34, 0x3d, 0x7f, 0xd9, 0x65, 0x08, 0x7c, 0xef, 0xff, 0x40,
     0xb6, 0x4b, 0xde]"

definition SDK1_BrainpoolP384r1_Gx :: bytes where
  "SDK1_BrainpoolP384r1_Gx =
    [0x1d, 0x1c, 0x64, 0xf0, 0x68, 0xcf, 0x45, 0xff, 0xa2, 0xa6, 0x3a, 0x81, 0xb7, 0xc1, 0x3f,
     0x6b, 0x88, 0x47, 0xa3, 0xe7, 0x7e, 0xf1, 0x4f, 0xe3, 0xdb, 0x7f, 0xca, 0xfe, 0x0c, 0xbd,
     0x10, 0xe8, 0xe8, 0x26, 0xe0, 0x34, 0x36, 0xd6, 0x46, 0xaa, 0xef, 0x87, 0xb2, 0xe2, 0x47,
     0xd4, 0xaf, 0x1e]"

definition SDK1_BrainpoolP384r1_Gy :: bytes where
  "SDK1_BrainpoolP384r1_Gy =
    [0x8a, 0xbe, 0x1d, 0x75, 0x20, 0xf9, 0xc2, 0xa4, 0x5c, 0xb1, 0xeb, 0x8e, 0x95, 0xcf, 0xd5,
     0x52, 0x62, 0xb7, 0x0b, 0x29, 0xfe, 0xec, 0x58, 0x64, 0xe1, 0x9c, 0x05, 0x4f, 0xf9, 0x91,
     0x29, 0x28, 0x0e, 0x46, 0x46, 0x21, 0x77, 0x91, 0x81, 0x11, 0x42, 0x82, 0x03, 0x41, 0x26,
     0x3c, 0x53, 0x15]"

definition SDK1_BrainpoolP384r1_n :: bytes where
  "SDK1_BrainpoolP384r1_n =
    [0x8c, 0xb9, 0x1e, 0x82, 0xa3, 0x38, 0x6d, 0x28, 0x0f, 0x5d, 0x6f, 0x7e, 0x50, 0xe6, 0x41,
     0xdf, 0x15, 0x2f, 0x71, 0x09, 0xed, 0x54, 0x56, 0xb3, 0x1f, 0x16, 0x6e, 0x6c, 0xac, 0x04,
     0x25, 0xa7, 0xcf, 0x3a, 0xb6, 0xaf, 0x6b, 0x7f, 0xc3, 0x10, 0x3b, 0x88, 0x32, 0x02, 0xe9,
     0x04, 0x65, 0x65]"

definition SDK1_BrainpoolP384r1_Hn :: bytes where
  "SDK1_BrainpoolP384r1_Hn =
    [0x0c, 0xe8, 0x94, 0x1a, 0x61, 0x4e, 0x97, 0xc2, 0x8f, 0x88, 0x6d, 0xc9, 0x65, 0x16, 0x5f,
     0xdb, 0x57, 0x4a, 0x74, 0xcb, 0x52, 0xd7, 0x48, 0xff, 0x2a, 0x92, 0x7e, 0x3b, 0x98, 0x02,
     0x68, 0x8a, 0x37, 0x26, 0x4e, 0x20, 0x2f, 0x2b, 0x6b, 0x6e, 0xac, 0x4e, 0xd3, 0xa2, 0xde,
     0x77, 0x1c, 0x8e]"

definition SDK1_BrainpoolP384r1_h :: int where "SDK1_BrainpoolP384r1_h = 1"

definition SDK1_BrainpoolP384r1 :: sdk1_weierstrass where
  "SDK1_BrainpoolP384r1 = \<lparr>sd_curve = SDK1_CURVE_BrainPoolP384R1, sd_bit_size = 384, sd_length = 48,
     sd_p = SDK1_BrainpoolP384r1_p, sd_Hp = SDK1_BrainpoolP384r1_Hp,
     sd_Gx = SDK1_BrainpoolP384r1_Gx, sd_Gy = SDK1_BrainpoolP384r1_Gy,
     sd_n = SDK1_BrainpoolP384r1_n, sd_Hn = SDK1_BrainpoolP384r1_Hn,
     sd_h = SDK1_BrainpoolP384r1_h, sw_a = SDK1_BrainpoolP384r1_a, sw_b = SDK1_BrainpoolP384r1_b\<rparr>"

subsection \<open>BrainpoolP384t1\<close>

definition SDK1_BrainpoolP384t1_a :: bytes where
  "SDK1_BrainpoolP384t1_a =
    [0x8c, 0xb9, 0x1e, 0x82, 0xa3, 0x38, 0x6d, 0x28, 0x0f, 0x5d, 0x6f, 0x7e, 0x50, 0xe6, 0x41,
     0xdf, 0x15, 0x2f, 0x71, 0x09, 0xed, 0x54, 0x56, 0xb4, 0x12, 0xb1, 0xda, 0x19, 0x7f, 0xb7,
     0x11, 0x23, 0xac, 0xd3, 0xa7, 0x29, 0x90, 0x1d, 0x1a, 0x71, 0x87, 0x47, 0x00, 0x13, 0x31,
     0x07, 0xec, 0x50]"

definition SDK1_BrainpoolP384t1_b :: bytes where
  "SDK1_BrainpoolP384t1_b =
    [0x7f, 0x51, 0x9e, 0xad, 0xa7, 0xbd, 0xa8, 0x1b, 0xd8, 0x26, 0xdb, 0xa6, 0x47, 0x91, 0x0f,
     0x8c, 0x4b, 0x93, 0x46, 0xed, 0x8c, 0xcd, 0xc6, 0x4e, 0x4b, 0x1a, 0xbd, 0x11, 0x75, 0x6d,
     0xce, 0x1d, 0x20, 0x74, 0xaa, 0x26, 0x3b, 0x88, 0x80, 0x5c, 0xed, 0x70, 0x35, 0x5a, 0x33,
     0xb4, 0x71, 0xee]"

definition SDK1_BrainpoolP384t1_p :: bytes where
  "SDK1_BrainpoolP384t1_p =
    [0x8c, 0xb9, 0x1e, 0x82, 0xa3, 0x38, 0x6d, 0x28, 0x0f, 0x5d, 0x6f, 0x7e, 0x50, 0xe6, 0x41,
     0xdf, 0x15, 0x2f, 0x71, 0x09, 0xed, 0x54, 0x56, 0xb4, 0x12, 0xb1, 0xda, 0x19, 0x7f, 0xb7,
     0x11, 0x23, 0xac, 0xd3, 0xa7, 0x29, 0x90, 0x1d, 0x1a, 0x71, 0x87, 0x47, 0x00, 0x13, 0x31,
     0x07, 0xec, 0x53]"

definition SDK1_BrainpoolP384t1_Hp :: bytes where
  "SDK1_BrainpoolP384t1_Hp =
    [0x36, 0xbf, 0x68, 0x83, 0x17, 0x8d, 0xf8, 0x42, 0xd5, 0xc6, 0xef, 0x3b, 0xa5, 0x7e, 0x05,
     0x2c, 0x62, 0x14, 0x01, 0x91, 0x99, 0x18, 0xd5, 0xaf, 0x8e, 0x28, 0xf9, 0x9c, 0xc9, 0x94,
     0x08, 0x99, 0x53, 0x52, 0x83, 0x34, 0x3d, 0x7f, 0xd9, 0x65, 0x08, 0x7c, 0xef, 0xff, 0x40,
     0xb6, 0x4b, 0xde]"

definition SDK1_BrainpoolP384t1_Gx :: bytes where
  "SDK1_BrainpoolP384t1_Gx =
    [0x18, 0xde, 0x98, 0xb0, 0x2d, 0xb9, 0xa3, 0x06, 0xf2, 0xaf, 0xcd, 0x72, 0x35, 0xf7, 0x2a,
     0x81, 0x9b, 0x80, 0xab, 0x12, 0xeb, 0xd6, 0x53, 0x17, 0x24, 0x76, 0xfe, 0xcd, 0x46, 0x2a,
     0xab, 0xff, 0xc4, 0xff, 0x19, 0x1b, 0x94, 0x6a, 0x5f, 0x54, 0xd8, 0xd0, 0xaa, 0x2f, 0x41,
     0x88, 0x08, 0xcc]"

definition SDK1_BrainpoolP384t1_Gy :: bytes where
  "SDK1_BrainpoolP384t1_Gy =
    [0x25, 0xab, 0x05, 0x69, 0x62, 0xd3, 0x06, 0x51, 0xa1, 0x14, 0xaf, 0xd2, 0x75, 0x5a, 0xd3,
     0x36, 0x74, 0x7f, 0x93, 0x47, 0x5b, 0x7a, 0x1f, 0xca, 0x3b, 0x88, 0xf2, 0xb6, 0xa2, 0x08,
     0xcc, 0xfe, 0x46, 0x94, 0x08, 0x58, 0x4d, 0xc2, 0xb2, 0x91, 0x26, 0x75, 0xbf, 0x5b, 0x9e,
     0x58, 0x29, 0x28]"

definition SDK1_BrainpoolP384t1_n :: bytes where
  "SDK1_BrainpoolP384t1_n =
    [0x8c, 0xb9, 0x1e, 0x82, 0xa3, 0x38, 0x6d, 0x28, 0x0f, 0x5d, 0x6f, 0x7e, 0x50, 0xe6, 0x41,
     0xdf, 0x15, 0x2f, 0x71, 0x09, 0xed, 0x54, 0x56, 0xb3, 0x1f, 0x16, 0x6e, 0x6c, 0xac, 0x04,
     0x25, 0xa7, 0xcf, 0x3a, 0xb6, 0xaf, 0x6b, 0x7f, 0xc3, 0x10, 0x3b, 0x88, 0x32, 0x02, 0xe9,
     0x04, 0x65, 0x65]"

definition SDK1_BrainpoolP384t1_Hn :: bytes where
  "SDK1_BrainpoolP384t1_Hn =
    [0x0c, 0xe8, 0x94, 0x1a, 0x61, 0x4e, 0x97, 0xc2, 0x8f, 0x88, 0x6d, 0xc9, 0x65, 0x16, 0x5f,
     0xdb, 0x57, 0x4a, 0x74, 0xcb, 0x52, 0xd7, 0x48, 0xff, 0x2a, 0x92, 0x7e, 0x3b, 0x98, 0x02,
     0x68, 0x8a, 0x37, 0x26, 0x4e, 0x20, 0x2f, 0x2b, 0x6b, 0x6e, 0xac, 0x4e, 0xd3, 0xa2, 0xde,
     0x77, 0x1c, 0x8e]"

definition SDK1_BrainpoolP384t1_h :: int where "SDK1_BrainpoolP384t1_h = 1"

definition SDK1_BrainpoolP384t1 :: sdk1_weierstrass where
  "SDK1_BrainpoolP384t1 = \<lparr>sd_curve = SDK1_CURVE_BrainPoolP384T1, sd_bit_size = 384, sd_length = 48,
     sd_p = SDK1_BrainpoolP384t1_p, sd_Hp = SDK1_BrainpoolP384t1_Hp,
     sd_Gx = SDK1_BrainpoolP384t1_Gx, sd_Gy = SDK1_BrainpoolP384t1_Gy,
     sd_n = SDK1_BrainpoolP384t1_n, sd_Hn = SDK1_BrainpoolP384t1_Hn,
     sd_h = SDK1_BrainpoolP384t1_h, sw_a = SDK1_BrainpoolP384t1_a, sw_b = SDK1_BrainpoolP384t1_b\<rparr>"

subsection \<open>BrainpoolP512r1\<close>

definition SDK1_BrainpoolP512r1_a :: bytes where
  "SDK1_BrainpoolP512r1_a =
    [0x78, 0x30, 0xa3, 0x31, 0x8b, 0x60, 0x3b, 0x89, 0xe2, 0x32, 0x71, 0x45, 0xac, 0x23, 0x4c,
     0xc5, 0x94, 0xcb, 0xdd, 0x8d, 0x3d, 0xf9, 0x16, 0x10, 0xa8, 0x34, 0x41, 0xca, 0xea, 0x98,
     0x63, 0xbc, 0x2d, 0xed, 0x5d, 0x5a, 0xa8, 0x25, 0x3a, 0xa1, 0x0a, 0x2e, 0xf1, 0xc9, 0x8b,
     0x9a, 0xc8, 0xb5, 0x7f, 0x11, 0x17, 0xa7, 0x2b, 0xf2, 0xc7, 0xb9, 0xe7, 0xc1, 0xac, 0x4d,
     0x77, 0xfc, 0x94, 0xca]"

definition SDK1_BrainpoolP512r1_b :: bytes where
  "SDK1_BrainpoolP512r1_b =
    [0x3d, 0xf9, 0x16, 0x10, 0xa8, 0x34, 0x41, 0xca, 0xea, 0x98, 0x63, 0xbc, 0x2d, 0xed, 0x5d,
     0x5a, 0xa8, 0x25, 0x3a, 0xa1, 0x0a, 0x2e, 0xf1, 0xc9, 0x8b, 0x9a, 0xc8, 0xb5, 0x7f, 0x11,
     0x17, 0xa7, 0x2b, 0xf2, 0xc7, 0xb9, 0xe7, 0xc1, 0xac, 0x4d, 0x77, 0xfc, 0x94, 0xca, 0xdc,
     0x08, 0x3e, 0x67, 0x98, 0x40, 0x50, 0xb7, 0x5e, 0xba, 0xe5, 0xdd, 0x28, 0x09, 0xbd, 0x63,
     0x80, 0x16, 0xf7, 0x23]"

definition SDK1_BrainpoolP512r1_p :: bytes where
  "SDK1_BrainpoolP512r1_p =
    [0xaa, 0xdd, 0x9d, 0xb8, 0xdb, 0xe9, 0xc4, 0x8b, 0x3f, 0xd4, 0xe6, 0xae, 0x33, 0xc9, 0xfc,
     0x07, 0xcb, 0x30, 0x8d, 0xb3, 0xb3, 0xc9, 0xd2, 0x0e, 0xd6, 0x63, 0x9c, 0xca, 0x70, 0x33,
     0x08, 0x71, 0x7d, 0x4d, 0x9b, 0x00, 0x9b, 0xc6, 0x68, 0x42, 0xae, 0xcd, 0xa1, 0x2a, 0xe6,
     0xa3, 0x80, 0xe6, 0x28, 0x81, 0xff, 0x2f, 0x2d, 0x82, 0xc6, 0x85, 0x28, 0xaa, 0x60, 0x56,
     0x58, 0x3a, 0x48, 0xf3]"

definition SDK1_BrainpoolP512r1_Hp :: bytes where
  "SDK1_BrainpoolP512r1_Hp =
    [0x3c, 0x4c, 0x9d, 0x05, 0xa9, 0xff, 0x64, 0x50, 0x20, 0x2e, 0x19, 0x40, 0x20, 0x56, 0xee,
     0xcc, 0xa1, 0x6d, 0xaa, 0x5f, 0xd4, 0x2b, 0xff, 0x83, 0x19, 0x48, 0x6f, 0xd8, 0xd5, 0x89,
     0x80, 0x57, 0xe0, 0xc1, 0x9a, 0x77, 0x83, 0x51, 0x4a, 0x25, 0x53, 0xb7, 0xf9, 0xbc, 0x90,
     0x5a, 0xff, 0xd3, 0x79, 0x3f, 0xb1, 0x30, 0x27, 0x15, 0x79, 0x05, 0x49, 0xad, 0x14, 0x4a,
     0x61, 0x58, 0xf2, 0x05]"

definition SDK1_BrainpoolP512r1_Gx :: bytes where
  "SDK1_BrainpoolP512r1_Gx =
    [0x81, 0xae, 0xe4, 0xbd, 0xd8, 0x2e, 0xd9, 0x64, 0x5a, 0x21, 0x32, 0x2e, 0x9c, 0x4c, 0x6a,
     0x93, 0x85, 0xed, 0x9f, 0x70, 0xb5, 0xd9, 0x16, 0xc1, 0xb4, 0x3b, 0x62, 0xee, 0xf4, 0xd0,
     0x09, 0x8e, 0xff, 0x3b, 0x1f, 0x78, 0xe2, 0xd0, 0xd4, 0x8d, 0x50, 0xd1, 0x68, 0x7b, 0x93,
     0xb9, 0x7d, 0x5f, 0x7c, 0x6d, 0x50, 0x47, 0x40, 0x6a, 0x5e, 0x68, 0x8b, 0x35, 0x22, 0x09,
     0xbc, 0xb9, 0xf8, 0x22]"

definition SDK1_BrainpoolP512r1_Gy :: bytes where
  "SDK1_BrainpoolP512r1_Gy =
    [0x7d, 0xde, 0x38, 0x5d, 0x56, 0x63, 0x32, 0xec, 0xc0, 0xea, 0xbf, 0xa9, 0xcf, 0x78, 0x22,
     0xfd, 0xf2, 0x09, 0xf7, 0x00, 0x24, 0xa5, 0x7b, 0x1a, 0xa0, 0x00, 0xc5, 0x5b, 0x88, 0x1f,
     0x81, 0x11, 0xb2, 0xdc, 0xde, 0x49, 0x4a, 0x5f, 0x48, 0x5e, 0x5b, 0xca, 0x4b, 0xd8, 0x8a,
     0x27, 0x63, 0xae, 0xd1, 0xca, 0x2b, 0x2f, 0xa8, 0xf0, 0x54, 0x06, 0x78, 0xcd, 0x1e, 0x0f,
     0x3a, 0xd8, 0x08, 0x92]"

definition SDK1_BrainpoolP512r1_n :: bytes where
  "SDK1_BrainpoolP512r1_n =
    [0xaa, 0xdd, 0x9d, 0xb8, 0xdb, 0xe9, 0xc4, 0x8b, 0x3f, 0xd4, 0xe6, 0xae, 0x33, 0xc9, 0xfc,
     0x07, 0xcb, 0x30, 0x8d, 0xb3, 0xb3, 0xc9, 0xd2, 0x0e, 0xd6, 0x63, 0x9c, 0xca, 0x70, 0x33,
     0x08, 0x70, 0x55, 0x3e, 0x5c, 0x41, 0x4c, 0xa9, 0x26, 0x19, 0x41, 0x86, 0x61, 0x19, 0x7f,
     0xac, 0x10, 0x47, 0x1d, 0xb1, 0xd3, 0x81, 0x08, 0x5d, 0xda, 0xdd, 0xb5, 0x87, 0x96, 0x82,
     0x9c, 0xa9, 0x00, 0x69]"

definition SDK1_BrainpoolP512r1_Hn :: bytes where
  "SDK1_BrainpoolP512r1_Hn =
    [0xa7, 0x94, 0x58, 0x6a, 0x71, 0x84, 0x07, 0xb0, 0x95, 0xdf, 0x1b, 0x4c, 0x19, 0x4b, 0x2e,
     0x56, 0x72, 0x3c, 0x37, 0xa2, 0x2f, 0x16, 0xbb, 0xdf, 0xd7, 0xf9, 0xcc, 0x26, 0x3b, 0x79,
     0x0d, 0xe3, 0xa6, 0xf2, 0x30, 0xc7, 0x2f, 0x02, 0x07, 0xe8, 0x3e, 0xc6, 0x4b, 0xd0, 0x33,
     0xb7, 0x62, 0x7f, 0x08, 0x86, 0xb7, 0x58, 0x95, 0x28, 0x3d, 0xdd, 0xd2, 0xa3, 0x68, 0x1e,
     0xcd, 0xa8, 0x16, 0x71]"

definition SDK1_BrainpoolP512r1_h :: int where "SDK1_BrainpoolP512r1_h = 1"

definition SDK1_BrainpoolP512r1 :: sdk1_weierstrass where
  "SDK1_BrainpoolP512r1 = \<lparr>sd_curve = SDK1_CURVE_BrainPoolP512R1, sd_bit_size = 512, sd_length = 64,
     sd_p = SDK1_BrainpoolP512r1_p, sd_Hp = SDK1_BrainpoolP512r1_Hp,
     sd_Gx = SDK1_BrainpoolP512r1_Gx, sd_Gy = SDK1_BrainpoolP512r1_Gy,
     sd_n = SDK1_BrainpoolP512r1_n, sd_Hn = SDK1_BrainpoolP512r1_Hn,
     sd_h = SDK1_BrainpoolP512r1_h, sw_a = SDK1_BrainpoolP512r1_a, sw_b = SDK1_BrainpoolP512r1_b\<rparr>"

subsection \<open>BrainpoolP512t1\<close>

definition SDK1_BrainpoolP512t1_a :: bytes where
  "SDK1_BrainpoolP512t1_a =
    [0xaa, 0xdd, 0x9d, 0xb8, 0xdb, 0xe9, 0xc4, 0x8b, 0x3f, 0xd4, 0xe6, 0xae, 0x33, 0xc9, 0xfc,
     0x07, 0xcb, 0x30, 0x8d, 0xb3, 0xb3, 0xc9, 0xd2, 0x0e, 0xd6, 0x63, 0x9c, 0xca, 0x70, 0x33,
     0x08, 0x71, 0x7d, 0x4d, 0x9b, 0x00, 0x9b, 0xc6, 0x68, 0x42, 0xae, 0xcd, 0xa1, 0x2a, 0xe6,
     0xa3, 0x80, 0xe6, 0x28, 0x81, 0xff, 0x2f, 0x2d, 0x82, 0xc6, 0x85, 0x28, 0xaa, 0x60, 0x56,
     0x58, 0x3a, 0x48, 0xf0]"

definition SDK1_BrainpoolP512t1_b :: bytes where
  "SDK1_BrainpoolP512t1_b =
    [0x7c, 0xbb, 0xbc, 0xf9, 0x44, 0x1c, 0xfa, 0xb7, 0x6e, 0x18, 0x90, 0xe4, 0x68, 0x84, 0xea,
     0xe3, 0x21, 0xf7, 0x0c, 0x0b, 0xcb, 0x49, 0x81, 0x52, 0x78, 0x97, 0x50, 0x4b, 0xec, 0x3e,
     0x36, 0xa6, 0x2b, 0xcd, 0xfa, 0x23, 0x04, 0x97, 0x65, 0x40, 0xf6, 0x45, 0x00, 0x85, 0xf2,
     0xda, 0xe1, 0x45, 0xc2, 0x25, 0x53, 0xb4, 0x65, 0x76, 0x36, 0x89, 0x18, 0x0e, 0xa2, 0x57,
     0x18, 0x67, 0x42, 0x3e]"

definition SDK1_BrainpoolP512t1_p :: bytes where
  "SDK1_BrainpoolP512t1_p =
    [0xaa, 0xdd, 0x9d, 0xb8, 0xdb, 0xe9, 0xc4, 0x8b, 0x3f, 0xd4, 0xe6, 0xae, 0x33, 0xc9, 0xfc,
     0x07, 0xcb, 0x30, 0x8d, 0xb3, 0xb3, 0xc9, 0xd2, 0x0e, 0xd6, 0x63, 0x9c, 0xca, 0x70, 0x33,
     0x08, 0x71, 0x7d, 0x4d, 0x9b, 0x00, 0x9b, 0xc6, 0x68, 0x42, 0xae, 0xcd, 0xa1, 0x2a, 0xe6,
     0xa3, 0x80, 0xe6, 0x28, 0x81, 0xff, 0x2f, 0x2d, 0x82, 0xc6, 0x85, 0x28, 0xaa, 0x60, 0x56,
     0x58, 0x3a, 0x48, 0xf3]"

definition SDK1_BrainpoolP512t1_Hp :: bytes where
  "SDK1_BrainpoolP512t1_Hp =
    [0x3c, 0x4c, 0x9d, 0x05, 0xa9, 0xff, 0x64, 0x50, 0x20, 0x2e, 0x19, 0x40, 0x20, 0x56, 0xee,
     0xcc, 0xa1, 0x6d, 0xaa, 0x5f, 0xd4, 0x2b, 0xff, 0x83, 0x19, 0x48, 0x6f, 0xd8, 0xd5, 0x89,
     0x80, 0x57, 0xe0, 0xc1, 0x9a, 0x77, 0x83, 0x51, 0x4a, 0x25, 0x53, 0xb7, 0xf9, 0xbc, 0x90,
     0x5a, 0xff, 0xd3, 0x79, 0x3f, 0xb1, 0x30, 0x27, 0x15, 0x79, 0x05, 0x49, 0xad, 0x14, 0x4a,
     0x61, 0x58, 0xf2, 0x05]"

definition SDK1_BrainpoolP512t1_Gx :: bytes where
  "SDK1_BrainpoolP512t1_Gx =
    [0x64, 0x0e, 0xce, 0x5c, 0x12, 0x78, 0x87, 0x17, 0xb9, 0xc1, 0xba, 0x06, 0xcb, 0xc2, 0xa6,
     0xfe, 0xba, 0x85, 0x84, 0x24, 0x58, 0xc5, 0x6d, 0xde, 0x9d, 0xb1, 0x75, 0x8d, 0x39, 0xc0,
     0x31, 0x3d, 0x82, 0xba, 0x51, 0x73, 0x5c, 0xdb, 0x3e, 0xa4, 0x99, 0xaa, 0x77, 0xa7, 0xd6,
     0x94, 0x3a, 0x64, 0xf7, 0xa3, 0xf2, 0x5f, 0xe2, 0x6f, 0x06, 0xb5, 0x1b, 0xaa, 0x26, 0x96,
     0xfa, 0x90, 0x35, 0xda]"

definition SDK1_BrainpoolP512t1_Gy :: bytes where
  "SDK1_BrainpoolP512t1_Gy =
    [0x5b, 0x53, 0x4b, 0xd5, 0x95, 0xf5, 0xaf, 0x0f, 0xa2, 0xc8, 0x92, 0x37, 0x6c, 0x84, 0xac,
     0xe1, 0xbb, 0x4e, 0x30, 0x19, 0xb7, 0x16, 0x34, 0xc0, 0x11, 0x31, 0x15, 0x9c, 0xae, 0x03,
     0xce, 0xe9, 0xd9, 0x93, 0x21, 0x84, 0xbe, 0xef, 0x21, 0x6b, 0xd7, 0x1d, 0xf2, 0xda, 0xdf,
     0x86, 0xa6, 0x27, 0x30, 0x6e, 0xcf, 0xf9, 0x6d, 0xbb, 0x8b, 0xac, 0xe1, 0x98, 0xb6, 0x1e,
     0x00, 0xf8, 0xb3, 0x32]"

definition SDK1_BrainpoolP512t1_n :: bytes where
  "SDK1_BrainpoolP512t1_n =
    [0xaa, 0xdd, 0x9d, 0xb8, 0xdb, 0xe9, 0xc4, 0x8b, 0x3f, 0xd4, 0xe6, 0xae, 0x33, 0xc9, 0xfc,
     0x07, 0xcb, 0x30, 0x8d, 0xb3, 0xb3, 0xc9, 0xd2, 0x0e, 0xd6, 0x63, 0x9c, 0xca, 0x70, 0x33,
     0x08, 0x70, 0x55, 0x3e, 0x5c, 0x41, 0x4c, 0xa9, 0x26, 0x19, 0x41, 0x86, 0x61, 0x19, 0x7f,
     0xac, 0x10, 0x47, 0x1d, 0xb1, 0xd3, 0x81, 0x08, 0x5d, 0xda, 0xdd, 0xb5, 0x87, 0x96, 0x82,
     0x9c, 0xa9, 0x00, 0x69]"

definition SDK1_BrainpoolP512t1_Hn :: bytes where
  "SDK1_BrainpoolP512t1_Hn =
    [0xa7, 0x94, 0x58, 0x6a, 0x71, 0x84, 0x07, 0xb0, 0x95, 0xdf, 0x1b, 0x4c, 0x19, 0x4b, 0x2e,
     0x56, 0x72, 0x3c, 0x37, 0xa2, 0x2f, 0x16, 0xbb, 0xdf, 0xd7, 0xf9, 0xcc, 0x26, 0x3b, 0x79,
     0x0d, 0xe3, 0xa6, 0xf2, 0x30, 0xc7, 0x2f, 0x02, 0x07, 0xe8, 0x3e, 0xc6, 0x4b, 0xd0, 0x33,
     0xb7, 0x62, 0x7f, 0x08, 0x86, 0xb7, 0x58, 0x95, 0x28, 0x3d, 0xdd, 0xd2, 0xa3, 0x68, 0x1e,
     0xcd, 0xa8, 0x16, 0x71]"

definition SDK1_BrainpoolP512t1_h :: int where "SDK1_BrainpoolP512t1_h = 1"

definition SDK1_BrainpoolP512t1 :: sdk1_weierstrass where
  "SDK1_BrainpoolP512t1 = \<lparr>sd_curve = SDK1_CURVE_BrainPoolP512T1, sd_bit_size = 512, sd_length = 64,
     sd_p = SDK1_BrainpoolP512t1_p, sd_Hp = SDK1_BrainpoolP512t1_Hp,
     sd_Gx = SDK1_BrainpoolP512t1_Gx, sd_Gy = SDK1_BrainpoolP512t1_Gy,
     sd_n = SDK1_BrainpoolP512t1_n, sd_Hn = SDK1_BrainpoolP512t1_Hn,
     sd_h = SDK1_BrainpoolP512t1_h, sw_a = SDK1_BrainpoolP512t1_a, sw_b = SDK1_BrainpoolP512t1_b\<rparr>"

subsection \<open>BLS12_381_G1\<close>

definition SDK1_BLS12_381_G1_a :: bytes where
  "SDK1_BLS12_381_G1_a =
    [0x00, 0x00, 0x00, 0x00, 0x00, 0x00, 0x00, 0x00, 0x00, 0x00, 0x00, 0x00, 0x00, 0x00, 0x00,
     0x00, 0x00, 0x00, 0x00, 0x00, 0x00, 0x00, 0x00, 0x00, 0x00, 0x00, 0x00, 0x00, 0x00, 0x00,
     0x00, 0x00, 0x00, 0x00, 0x00, 0x00, 0x00, 0x00, 0x00, 0x00, 0x00, 0x00, 0x00, 0x00, 0x00,
     0x00, 0x00, 0x00]"

definition SDK1_BLS12_381_G1_b :: bytes where
  "SDK1_BLS12_381_G1_b =
    [0x00, 0x00, 0x00, 0x00, 0x00, 0x00, 0x00, 0x00, 0x00, 0x00, 0x00, 0x00, 0x00, 0x00, 0x00,
     0x00, 0x00, 0x00, 0x00, 0x00, 0x00, 0x00, 0x00, 0x00, 0x00, 0x00, 0x00, 0x00, 0x00, 0x00,
     0x00, 0x00, 0x00, 0x00, 0x00, 0x00, 0x00, 0x00, 0x00, 0x00, 0x00, 0x00, 0x00, 0x00, 0x00,
     0x00, 0x00, 0x04]"

definition SDK1_BLS12_381_G1_p :: bytes where
  "SDK1_BLS12_381_G1_p =
    [0x1a, 0x01, 0x11, 0xea, 0x39, 0x7f, 0xe6, 0x9a, 0x4b, 0x1b, 0xa7, 0xb6, 0x43, 0x4b, 0xac,
     0xd7, 0x64, 0x77, 0x4b, 0x84, 0xf3, 0x85, 0x12, 0xbf, 0x67, 0x30, 0xd2, 0xa0, 0xf6, 0xb0,
     0xf6, 0x24, 0x1e, 0xab, 0xff, 0xfe, 0xb1, 0x53, 0xff, 0xff, 0xb9, 0xfe, 0xff, 0xff, 0xff,
     0xff, 0xaa, 0xab]"

definition SDK1_BLS12_381_G1_Hp :: bytes where
  "SDK1_BLS12_381_G1_Hp =
    [0x11, 0x98, 0x8f, 0xe5, 0x92, 0xca, 0xe3, 0xaa, 0x9a, 0x79, 0x3e, 0x85, 0xb5, 0x19, 0x95,
     0x2d, 0x67, 0xeb, 0x88, 0xa9, 0x93, 0x9d, 0x83, 0xc0, 0x8d, 0xe5, 0x47, 0x6c, 0x4c, 0x95,
     0xb6, 0xd5, 0x0a, 0x76, 0xe6, 0xa6, 0x09, 0xd1, 0x04, 0xf1, 0xf4, 0xdf, 0x1f, 0x34, 0x1c,
     0x34, 0x17, 0x46]"

definition SDK1_BLS12_381_G1_n :: bytes where
  "SDK1_BLS12_381_G1_n =
    [0x00, 0x00, 0x00, 0x00, 0x00, 0x00, 0x00, 0x00, 0x00, 0x00, 0x00, 0x00, 0x00, 0x00, 0x00,
     0x00, 0x73, 0xed, 0xa7, 0x53, 0x29, 0x9d, 0x7d, 0x48, 0x33, 0x39, 0xd8, 0x08, 0x09, 0xa1,
     0xd8, 0x05, 0x53, 0xbd, 0xa4, 0x02, 0xff, 0xfe, 0x5b, 0xfe, 0xff, 0xff, 0xff, 0xff, 0x00,
     0x00, 0x00, 0x01]"

definition SDK1_BLS12_381_G1_Hn :: bytes where
  "SDK1_BLS12_381_G1_Hn =
    [0x00, 0x00, 0x00, 0x00, 0x00, 0x00, 0x00, 0x00, 0x00, 0x00, 0x00, 0x00, 0x00, 0x00, 0x00,
     0x00, 0x6e, 0x2a, 0x5b, 0xb9, 0xc8, 0xdb, 0x33, 0xe9, 0x73, 0xd1, 0x3c, 0x71, 0xc7, 0xb5,
     0xf4, 0x18, 0x1b, 0x3e, 0x0d, 0x18, 0x8c, 0xf0, 0x69, 0x90, 0xc6, 0x2c, 0x18, 0x07, 0x43,
     0x9b, 0x73, 0xaf]"

definition SDK1_BLS12_381_G1_Gx :: bytes where
  "SDK1_BLS12_381_G1_Gx =
    [0x17, 0xf1, 0xd3, 0xa7, 0x31, 0x97, 0xd7, 0x94, 0x26, 0x95, 0x63, 0x8c, 0x4f, 0xa9, 0xac,
     0x0f, 0xc3, 0x68, 0x8c, 0x4f, 0x97, 0x74, 0xb9, 0x05, 0xa1, 0x4e, 0x3a, 0x3f, 0x17, 0x1b,
     0xac, 0x58, 0x6c, 0x55, 0xe8, 0x3f, 0xf9, 0x7a, 0x1a, 0xef, 0xfb, 0x3a, 0xf0, 0x0a, 0xdb,
     0x22, 0xc6, 0xbb]"

definition SDK1_BLS12_381_G1_Gy :: bytes where
  "SDK1_BLS12_381_G1_Gy =
    [0x08, 0xb3, 0xf4, 0x81, 0xe3, 0xaa, 0xa0, 0xf1, 0xa0, 0x9e, 0x30, 0xed, 0x74, 0x1d, 0x8a,
     0xe4, 0xfc, 0xf5, 0xe0, 0x95, 0xd5, 0xd0, 0x0a, 0xf6, 0x00, 0xdb, 0x18, 0xcb, 0x2c, 0x04,
     0xb3, 0xed, 0xd0, 0x3c, 0xc7, 0x44, 0xa2, 0x88, 0x8a, 0xe4, 0x0c, 0xaa, 0x23, 0x29, 0x46,
     0xc5, 0xe7, 0xe1]"

definition SDK1_BLS12_381_G1_h :: int where "SDK1_BLS12_381_G1_h = 1"

definition SDK1_BLS12_381_G1 :: sdk1_weierstrass where
  "SDK1_BLS12_381_G1 = \<lparr>sd_curve = SDK1_CURVE_BLS12_381_G1, sd_bit_size = 381, sd_length = 48,
     sd_p = SDK1_BLS12_381_G1_p, sd_Hp = SDK1_BLS12_381_G1_Hp, sd_Gx = SDK1_BLS12_381_G1_Gx,
     sd_Gy = SDK1_BLS12_381_G1_Gy, sd_n = SDK1_BLS12_381_G1_n, sd_Hn = SDK1_BLS12_381_G1_Hn,
     sd_h = SDK1_BLS12_381_G1_h, sw_a = SDK1_BLS12_381_G1_a, sw_b = SDK1_BLS12_381_G1_b\<rparr>"

subsection \<open>Ed25519\<close>

definition SDK1_Ed25519_a :: bytes where
  "SDK1_Ed25519_a =
    [0x7f, 0xff, 0xff, 0xff, 0xff, 0xff, 0xff, 0xff, 0xff, 0xff, 0xff, 0xff, 0xff, 0xff, 0xff,
     0xff, 0xff, 0xff, 0xff, 0xff, 0xff, 0xff, 0xff, 0xff, 0xff, 0xff, 0xff, 0xff, 0xff, 0xff,
     0xff, 0xec]"

definition SDK1_Ed25519_d :: bytes where
  "SDK1_Ed25519_d =
    [0x52, 0x03, 0x6c, 0xee, 0x2b, 0x6f, 0xfe, 0x73, 0x8c, 0xc7, 0x40, 0x79, 0x77, 0x79, 0xe8,
     0x98, 0x00, 0x70, 0x0a, 0x4d, 0x41, 0x41, 0xd8, 0xab, 0x75, 0xeb, 0x4d, 0xca, 0x13, 0x59,
     0x78, 0xa3]"

definition SDK1_Ed25519_q :: bytes where
  "SDK1_Ed25519_q =
    [0x7f, 0xff, 0xff, 0xff, 0xff, 0xff, 0xff, 0xff, 0xff, 0xff, 0xff, 0xff, 0xff, 0xff, 0xff,
     0xff, 0xff, 0xff, 0xff, 0xff, 0xff, 0xff, 0xff, 0xff, 0xff, 0xff, 0xff, 0xff, 0xff, 0xff,
     0xff, 0xed]"

definition SDK1_Ed25519_Hq :: bytes where
  "SDK1_Ed25519_Hq =
    [0x00, 0x00, 0x00, 0x00, 0x00, 0x00, 0x00, 0x00, 0x00, 0x00, 0x00, 0x00, 0x00, 0x00, 0x00,
     0x00, 0x00, 0x00, 0x00, 0x00, 0x00, 0x00, 0x00, 0x00, 0x00, 0x00, 0x00, 0x00, 0x00, 0x00,
     0x05, 0xa4]"

definition SDK1_Ed25519_Bx :: bytes where
  "SDK1_Ed25519_Bx =
    [0x21, 0x69, 0x36, 0xd3, 0xcd, 0x6e, 0x53, 0xfe, 0xc0, 0xa4, 0xe2, 0x31, 0xfd, 0xd6, 0xdc,
     0x5c, 0x69, 0x2c, 0xc7, 0x60, 0x95, 0x25, 0xa7, 0xb2, 0xc9, 0x56, 0x2d, 0x60, 0x8f, 0x25,
     0xd5, 0x1a]"

definition SDK1_Ed25519_By :: bytes where
  "SDK1_Ed25519_By =
    [0x66, 0x66, 0x66, 0x66, 0x66, 0x66, 0x66, 0x66, 0x66, 0x66, 0x66, 0x66, 0x66, 0x66, 0x66,
     0x66, 0x66, 0x66, 0x66, 0x66, 0x66, 0x66, 0x66, 0x66, 0x66, 0x66, 0x66, 0x66, 0x66, 0x66,
     0x66, 0x58]"

definition SDK1_Ed25519_l :: bytes where
  "SDK1_Ed25519_l =
    [0x10, 0x00, 0x00, 0x00, 0x00, 0x00, 0x00, 0x00, 0x00, 0x00, 0x00, 0x00, 0x00, 0x00, 0x00,
     0x00, 0x14, 0xde, 0xf9, 0xde, 0xa2, 0xf7, 0x9c, 0xd6, 0x58, 0x12, 0x63, 0x1a, 0x5c, 0xf5,
     0xd3, 0xed]"

definition SDK1_Ed25519_Hl :: bytes where
  "SDK1_Ed25519_Hl =
    [0x03, 0x99, 0x41, 0x1b, 0x7c, 0x30, 0x9a, 0x3d, 0xce, 0xec, 0x73, 0xd2, 0x17, 0xf5, 0xbe,
     0x65, 0xd0, 0x0e, 0x1b, 0xa7, 0x68, 0x85, 0x93, 0x47, 0xa4, 0x06, 0x11, 0xe3, 0x44, 0x9c,
     0x0f, 0x01]"

definition SDK1_Ed25519_I :: bytes where
  "SDK1_Ed25519_I =
    [0x2b, 0x83, 0x24, 0x80, 0x4f, 0xc1, 0xdf, 0x0b, 0x2b, 0x4d, 0x00, 0x99, 0x3d, 0xfb, 0xd7,
     0xa7, 0x2f, 0x43, 0x18, 0x06, 0xad, 0x2f, 0xe4, 0x78, 0xc4, 0xee, 0x1b, 0x27, 0x4a, 0x0e,
     0xa0, 0xb0]"

definition SDK1_Ed25519_Qplus3div8 :: bytes where
  "SDK1_Ed25519_Qplus3div8 =
    [0x0f, 0xff, 0xff, 0xff, 0xff, 0xff, 0xff, 0xff, 0xff, 0xff, 0xff, 0xff, 0xff, 0xff, 0xff,
     0xff, 0xff, 0xff, 0xff, 0xff, 0xff, 0xff, 0xff, 0xff, 0xff, 0xff, 0xff, 0xff, 0xff, 0xff,
     0xff, 0xfe]"

definition SDK1_Ed25519_h :: int where "SDK1_Ed25519_h = 8"

definition SDK1_Ed25519 :: sdk1_twisted_edward where
  "SDK1_Ed25519 = \<lparr>sd_curve = SDK1_CURVE_Ed25519, sd_bit_size = 256, sd_length = 32, sd_p = SDK1_Ed25519_q,
     sd_Hp = SDK1_Ed25519_Hq, sd_Gx = SDK1_Ed25519_Bx, sd_Gy = SDK1_Ed25519_By,
     sd_n = SDK1_Ed25519_l, sd_Hn = SDK1_Ed25519_Hl, sd_h = SDK1_Ed25519_h,
     se_a = SDK1_Ed25519_a, se_d = SDK1_Ed25519_d, se_I = SDK1_Ed25519_I,
     se_Qq = SDK1_Ed25519_Qplus3div8\<rparr>"

text \<open>The array of all curves: a pointer to a curve is cast to a pointer to its header.\<close>

definition SDK1_allCurves :: "sdk1_domain list" where
  "SDK1_allCurves =
    [sdk1_domain.truncate SDK1_secp256k1, sdk1_domain.truncate SDK1_secp256r1,
     sdk1_domain.truncate SDK1_secp384r1, sdk1_domain.truncate SDK1_Ed25519,
     sdk1_domain.truncate SDK1_BLS12_381_G1, sdk1_domain.truncate SDK1_BrainpoolP256r1,
     sdk1_domain.truncate SDK1_BrainpoolP256t1, sdk1_domain.truncate SDK1_BrainpoolP320r1,
     sdk1_domain.truncate SDK1_BrainpoolP320t1, sdk1_domain.truncate SDK1_BrainpoolP384r1,
     sdk1_domain.truncate SDK1_BrainpoolP384t1, sdk1_domain.truncate SDK1_BrainpoolP512r1,
     sdk1_domain.truncate SDK1_BrainpoolP512t1]"

section \<open>Lookup\<close>

text \<open>\<open>THROW(INVALID_PARAMETER)\<close> on a curve that is not in the table.\<close>

fun sdk1_domain_loop :: "sdk1_domain list \<Rightarrow> cx_curve \<Rightarrow> sdk1_domain res" where
  "sdk1_domain_loop [] curve = Inl (Throw INVALID_PARAMETER)"
| "sdk1_domain_loop (d # ds) curve = (if sd_curve d = curve then Inr d else sdk1_domain_loop ds curve)"

definition cx_ecfp_get_domain :: "cx_curve \<Rightarrow> sdk1_domain res" where
  "cx_ecfp_get_domain curve = sdk1_domain_loop SDK1_allCurves curve"

definition nid_from_curve :: "cx_curve \<Rightarrow> nid res" where
  "nid_from_curve curve =
     (if curve = SDK1_CURVE_SECP256K1 then Inr NID_secp256k1
      else if curve = SDK1_CURVE_SECP256R1 then Inr NID_X9_62_prime256v1
      else if curve = SDK1_CURVE_SECP384R1 then Inr NID_secp384r1
      else if curve = SDK1_CURVE_BrainPoolP256R1 then Inr NID_brainpoolP256r1
      else if curve = SDK1_CURVE_BrainPoolP256T1 then Inr NID_brainpoolP256t1
      else if curve = SDK1_CURVE_BrainPoolP320R1 then Inr NID_brainpoolP320r1
      else if curve = SDK1_CURVE_BrainPoolP320T1 then Inr NID_brainpoolP320t1
      else if curve = SDK1_CURVE_BrainPoolP384R1 then Inr NID_brainpoolP384r1
      else if curve = SDK1_CURVE_BrainPoolP384T1 then Inr NID_brainpoolP384t1
      else if curve = SDK1_CURVE_BrainPoolP512R1 then Inr NID_brainpoolP512r1
      else if curve = SDK1_CURVE_BrainPoolP512T1 then Inr NID_brainpoolP512t1
      else Inl Errx)"

section \<open>Agreement with the tables of the second SDK\<close>

definition SDK1_weierstrass_curves :: "sdk1_weierstrass list" where
  "SDK1_weierstrass_curves =
    [SDK1_secp256k1, SDK1_secp256r1, SDK1_secp384r1, SDK1_BLS12_381_G1, SDK1_BrainpoolP256r1,
     SDK1_BrainpoolP256t1, SDK1_BrainpoolP320r1, SDK1_BrainpoolP320t1, SDK1_BrainpoolP384r1,
     SDK1_BrainpoolP384t1, SDK1_BrainpoolP512r1, SDK1_BrainpoolP512t1]"

text \<open>The domain in the form of the second SDK, with the number the curve has there.\<close>

definition sdk2_curve :: "cx_curve \<Rightarrow> cx_curve" where
  "sdk2_curve c =
     (if c = SDK1_CURVE_BLS12_381_G1 then CX_CURVE_BLS12_381_G1
      else if c = SDK1_CURVE_Ed25519 then CX_CURVE_Ed25519
      else if SDK1_CURVE_BrainPoolP256T1 \<le> c \<and> c \<le> SDK1_CURVE_BrainPoolP512R1
      then c - SDK1_CURVE_BrainPoolP256T1 + CX_CURVE_BrainPoolP256T1
      else c)"

definition sdk2_domain :: "'a sdk1_domain_scheme \<Rightarrow> bytes \<Rightarrow> bytes \<Rightarrow> cx_curve_domain" where
  "sdk2_domain d a b = \<lparr>dom_curve = sdk2_curve (sd_curve d), dom_bit_size = sd_bit_size d, dom_length = sd_length d,
     dom_a = a, dom_b = b, dom_p = sd_p d, dom_Gx = sd_Gx d, dom_Gy = sd_Gy d, dom_n = sd_n d,
     dom_h = i2osp 4 (sd_h d), dom_Hn = sd_Hn d, dom_Hp = sd_Hp d\<rparr>"

lemma h_bytes: "i2osp 4 1 = [0, 0, 0, 1]" "i2osp 4 8 = [0, 0, 0, 8]"
  by (simp_all add: eval_nat_numeral)

lemma SDK1_secp256k1_agrees: "sdk2_domain SDK1_secp256k1 (sw_a SDK1_secp256k1) (sw_b SDK1_secp256k1) = C_cx_secp256k1"
  by (simp add: sdk2_domain_def SDK1_secp256k1_def C_cx_secp256k1_def sdk2_curve_def sdk1_curve_ids cx_curve_ids SDK1_secp256k1_h_def C_cofactor_1_def h_bytes)
    (simp only: SDK1_secp256k1_a_def C_cx_secp256k1_a_def SDK1_secp256k1_b_def C_cx_secp256k1_b_def SDK1_secp256k1_p_def C_cx_secp256k1_p_def SDK1_secp256k1_Hp_def C_cx_secp256k1_Hp_def SDK1_secp256k1_Gx_def C_cx_secp256k1_Gx_def SDK1_secp256k1_Gy_def C_cx_secp256k1_Gy_def SDK1_secp256k1_n_def C_cx_secp256k1_n_def SDK1_secp256k1_Hn_def C_cx_secp256k1_Hn_def)

lemma SDK1_secp256r1_agrees: "sdk2_domain SDK1_secp256r1 (sw_a SDK1_secp256r1) (sw_b SDK1_secp256r1) = C_cx_secp256r1"
  by (simp add: sdk2_domain_def SDK1_secp256r1_def C_cx_secp256r1_def sdk2_curve_def sdk1_curve_ids cx_curve_ids SDK1_secp256r1_h_def C_cofactor_1_def h_bytes)
    (simp only: SDK1_secp256r1_a_def C_cx_secp256r1_a_def SDK1_secp256r1_b_def C_cx_secp256r1_b_def SDK1_secp256r1_p_def C_cx_secp256r1_p_def SDK1_secp256r1_Hp_def C_cx_secp256r1_Hp_def SDK1_secp256r1_Gx_def C_cx_secp256r1_Gx_def SDK1_secp256r1_Gy_def C_cx_secp256r1_Gy_def SDK1_secp256r1_n_def C_cx_secp256r1_n_def SDK1_secp256r1_Hn_def C_cx_secp256r1_Hn_def)

lemma SDK1_secp384r1_agrees: "sdk2_domain SDK1_secp384r1 (sw_a SDK1_secp384r1) (sw_b SDK1_secp384r1) = C_cx_secp384r1"
  by (simp add: sdk2_domain_def SDK1_secp384r1_def C_cx_secp384r1_def sdk2_curve_def sdk1_curve_ids cx_curve_ids SDK1_secp384r1_h_def C_cofactor_1_def h_bytes)
    (simp only: SDK1_secp384r1_a_def C_cx_secp384r1_a_def SDK1_secp384r1_b_def C_cx_secp384r1_b_def SDK1_secp384r1_p_def C_cx_secp384r1_p_def SDK1_secp384r1_Hp_def C_cx_secp384r1_Hp_def SDK1_secp384r1_Gx_def C_cx_secp384r1_Gx_def SDK1_secp384r1_Gy_def C_cx_secp384r1_Gy_def SDK1_secp384r1_n_def C_cx_secp384r1_n_def SDK1_secp384r1_Hn_def C_cx_secp384r1_Hn_def)

lemma SDK1_BLS12_381_G1_agrees: "sdk2_domain SDK1_BLS12_381_G1 (sw_a SDK1_BLS12_381_G1) (sw_b SDK1_BLS12_381_G1) = C_cx_BLS12_381_G1"
  by (simp add: sdk2_domain_def SDK1_BLS12_381_G1_def C_cx_BLS12_381_G1_def sdk2_curve_def sdk1_curve_ids cx_curve_ids SDK1_BLS12_381_G1_h_def C_cx_BLS12_381_G1_h_def h_bytes)
    (simp only: SDK1_BLS12_381_G1_a_def C_cx_BLS12_381_G1_a_def SDK1_BLS12_381_G1_b_def C_cx_BLS12_381_G1_b_def SDK1_BLS12_381_G1_p_def C_cx_BLS12_381_G1_p_def SDK1_BLS12_381_G1_Hp_def C_cx_BLS12_381_G1_Hp_def SDK1_BLS12_381_G1_n_def C_cx_BLS12_381_G1_n_def SDK1_BLS12_381_G1_Hn_def C_cx_BLS12_381_G1_Hn_def SDK1_BLS12_381_G1_Gx_def C_cx_BLS12_381_G1_Gx_def SDK1_BLS12_381_G1_Gy_def C_cx_BLS12_381_G1_Gy_def)

lemma SDK1_BrainpoolP256r1_agrees: "sdk2_domain SDK1_BrainpoolP256r1 (sw_a SDK1_BrainpoolP256r1) (sw_b SDK1_BrainpoolP256r1) = C_cx_BrainpoolP256r1"
  by (simp add: sdk2_domain_def SDK1_BrainpoolP256r1_def C_cx_BrainpoolP256r1_def sdk2_curve_def sdk1_curve_ids cx_curve_ids SDK1_BrainpoolP256r1_h_def C_cofactor_1_def h_bytes)
    (simp only: SDK1_BrainpoolP256r1_a_def C_cx_BrainpoolP256r1_a_def SDK1_BrainpoolP256r1_b_def C_cx_BrainpoolP256r1_b_def SDK1_BrainpoolP256r1_p_def C_cx_BrainpoolP256r1_p_def SDK1_BrainpoolP256r1_Hp_def C_cx_BrainpoolP256r1_Hp_def SDK1_BrainpoolP256r1_Gx_def C_cx_BrainpoolP256r1_Gx_def SDK1_BrainpoolP256r1_Gy_def C_cx_BrainpoolP256r1_Gy_def SDK1_BrainpoolP256r1_n_def C_cx_BrainpoolP256r1_n_def SDK1_BrainpoolP256r1_Hn_def C_cx_BrainpoolP256r1_Hn_def)

lemma SDK1_BrainpoolP256t1_agrees: "sdk2_domain SDK1_BrainpoolP256t1 (sw_a SDK1_BrainpoolP256t1) (sw_b SDK1_BrainpoolP256t1) = C_cx_BrainpoolP256t1"
  by (simp add: sdk2_domain_def SDK1_BrainpoolP256t1_def C_cx_BrainpoolP256t1_def sdk2_curve_def sdk1_curve_ids cx_curve_ids SDK1_BrainpoolP256t1_h_def C_cofactor_1_def h_bytes)
    (simp only: SDK1_BrainpoolP256t1_a_def C_cx_BrainpoolP256t1_a_def SDK1_BrainpoolP256t1_b_def C_cx_BrainpoolP256t1_b_def SDK1_BrainpoolP256t1_p_def C_cx_BrainpoolP256t1_p_def SDK1_BrainpoolP256t1_Hp_def C_cx_BrainpoolP256t1_Hp_def SDK1_BrainpoolP256t1_Gx_def C_cx_BrainpoolP256t1_Gx_def SDK1_BrainpoolP256t1_Gy_def C_cx_BrainpoolP256t1_Gy_def SDK1_BrainpoolP256t1_n_def C_cx_BrainpoolP256t1_n_def SDK1_BrainpoolP256t1_Hn_def C_cx_BrainpoolP256t1_Hn_def)

lemma SDK1_BrainpoolP320r1_agrees: "sdk2_domain SDK1_BrainpoolP320r1 (sw_a SDK1_BrainpoolP320r1) (sw_b SDK1_BrainpoolP320r1) = C_cx_BrainpoolP320r1"
  by (simp add: sdk2_domain_def SDK1_BrainpoolP320r1_def C_cx_BrainpoolP320r1_def sdk2_curve_def sdk1_curve_ids cx_curve_ids SDK1_BrainpoolP320r1_h_def C_cofactor_1_def h_bytes)
    (simp only: SDK1_BrainpoolP320r1_a_def C_cx_BrainpoolP320r1_a_def SDK1_BrainpoolP320r1_b_def C_cx_BrainpoolP320r1_b_def SDK1_BrainpoolP320r1_p_def C_cx_BrainpoolP320r1_p_def SDK1_BrainpoolP320r1_Hp_def C_cx_BrainpoolP320r1_Hp_def SDK1_BrainpoolP320r1_Gx_def C_cx_BrainpoolP320r1_Gx_def SDK1_BrainpoolP320r1_Gy_def C_cx_BrainpoolP320r1_Gy_def SDK1_BrainpoolP320r1_n_def C_cx_BrainpoolP320r1_n_def SDK1_BrainpoolP320r1_Hn_def C_cx_BrainpoolP320r1_Hn_def)

lemma SDK1_BrainpoolP320t1_agrees: "sdk2_domain SDK1_BrainpoolP320t1 (sw_a SDK1_BrainpoolP320t1) (sw_b SDK1_BrainpoolP320t1) = C_cx_BrainpoolP320t1"
  by (simp add: sdk2_domain_def SDK1_BrainpoolP320t1_def C_cx_BrainpoolP320t1_def sdk2_curve_def sdk1_curve_ids cx_curve_ids SDK1_BrainpoolP320t1_h_def C_cofactor_1_def h_bytes)
    (simp only: SDK1_BrainpoolP320t1_a_def C_cx_BrainpoolP320t1_a_def SDK1_BrainpoolP320t1_b_def C_cx_BrainpoolP320t1_b_def SDK1_BrainpoolP320t1_p_def C_cx_BrainpoolP320t1_p_def SDK1_BrainpoolP320t1_Hp_def C_cx_BrainpoolP320t1_Hp_def SDK1_BrainpoolP320t1_Gx_def C_cx_BrainpoolP320t1_Gx_def SDK1_BrainpoolP320t1_Gy_def C_cx_BrainpoolP320t1_Gy_def SDK1_BrainpoolP320t1_n_def C_cx_BrainpoolP320t1_n_def SDK1_BrainpoolP320t1_Hn_def C_cx_BrainpoolP320t1_Hn_def)

lemma SDK1_BrainpoolP384r1_agrees: "sdk2_domain SDK1_BrainpoolP384r1 (sw_a SDK1_BrainpoolP384r1) (sw_b SDK1_BrainpoolP384r1) = C_cx_BrainpoolP384r1"
  by (simp add: sdk2_domain_def SDK1_BrainpoolP384r1_def C_cx_BrainpoolP384r1_def sdk2_curve_def sdk1_curve_ids cx_curve_ids SDK1_BrainpoolP384r1_h_def C_cofactor_1_def h_bytes)
    (simp only: SDK1_BrainpoolP384r1_a_def C_cx_BrainpoolP384r1_a_def SDK1_BrainpoolP384r1_b_def C_cx_BrainpoolP384r1_b_def SDK1_BrainpoolP384r1_p_def C_cx_BrainpoolP384r1_p_def SDK1_BrainpoolP384r1_Hp_def C_cx_BrainpoolP384r1_Hp_def SDK1_BrainpoolP384r1_Gx_def C_cx_BrainpoolP384r1_Gx_def SDK1_BrainpoolP384r1_Gy_def C_cx_BrainpoolP384r1_Gy_def SDK1_BrainpoolP384r1_n_def C_cx_BrainpoolP384r1_n_def SDK1_BrainpoolP384r1_Hn_def C_cx_BrainpoolP384r1_Hn_def)

lemma SDK1_BrainpoolP384t1_agrees: "sdk2_domain SDK1_BrainpoolP384t1 (sw_a SDK1_BrainpoolP384t1) (sw_b SDK1_BrainpoolP384t1) = C_cx_BrainpoolP384t1"
  by (simp add: sdk2_domain_def SDK1_BrainpoolP384t1_def C_cx_BrainpoolP384t1_def sdk2_curve_def sdk1_curve_ids cx_curve_ids SDK1_BrainpoolP384t1_h_def C_cofactor_1_def h_bytes)
    (simp only: SDK1_BrainpoolP384t1_a_def C_cx_BrainpoolP384t1_a_def SDK1_BrainpoolP384t1_b_def C_cx_BrainpoolP384t1_b_def SDK1_BrainpoolP384t1_p_def C_cx_BrainpoolP384t1_p_def SDK1_BrainpoolP384t1_Hp_def C_cx_BrainpoolP384t1_Hp_def SDK1_BrainpoolP384t1_Gx_def C_cx_BrainpoolP384t1_Gx_def SDK1_BrainpoolP384t1_Gy_def C_cx_BrainpoolP384t1_Gy_def SDK1_BrainpoolP384t1_n_def C_cx_BrainpoolP384t1_n_def SDK1_BrainpoolP384t1_Hn_def C_cx_BrainpoolP384t1_Hn_def)

lemma SDK1_BrainpoolP512r1_agrees: "sdk2_domain SDK1_BrainpoolP512r1 (sw_a SDK1_BrainpoolP512r1) (sw_b SDK1_BrainpoolP512r1) = C_cx_BrainpoolP512r1"
  by (simp add: sdk2_domain_def SDK1_BrainpoolP512r1_def C_cx_BrainpoolP512r1_def sdk2_curve_def sdk1_curve_ids cx_curve_ids SDK1_BrainpoolP512r1_h_def C_cofactor_1_def h_bytes)
    (simp only: SDK1_BrainpoolP512r1_a_def C_cx_BrainpoolP512r1_a_def SDK1_BrainpoolP512r1_b_def C_cx_BrainpoolP512r1_b_def SDK1_BrainpoolP512r1_p_def C_cx_BrainpoolP512r1_p_def SDK1_BrainpoolP512r1_Hp_def C_cx_BrainpoolP512r1_Hp_def SDK1_BrainpoolP512r1_Gx_def C_cx_BrainpoolP512r1_Gx_def SDK1_BrainpoolP512r1_Gy_def C_cx_BrainpoolP512r1_Gy_def SDK1_BrainpoolP512r1_n_def C_cx_BrainpoolP512r1_n_def SDK1_BrainpoolP512r1_Hn_def C_cx_BrainpoolP512r1_Hn_def)

lemma SDK1_BrainpoolP512t1_agrees: "sdk2_domain SDK1_BrainpoolP512t1 (sw_a SDK1_BrainpoolP512t1) (sw_b SDK1_BrainpoolP512t1) = C_cx_BrainpoolP512t1"
  by (simp add: sdk2_domain_def SDK1_BrainpoolP512t1_def C_cx_BrainpoolP512t1_def sdk2_curve_def sdk1_curve_ids cx_curve_ids SDK1_BrainpoolP512t1_h_def C_cofactor_1_def h_bytes)
    (simp only: SDK1_BrainpoolP512t1_a_def C_cx_BrainpoolP512t1_a_def SDK1_BrainpoolP512t1_b_def C_cx_BrainpoolP512t1_b_def SDK1_BrainpoolP512t1_p_def C_cx_BrainpoolP512t1_p_def SDK1_BrainpoolP512t1_Hp_def C_cx_BrainpoolP512t1_Hp_def SDK1_BrainpoolP512t1_Gx_def C_cx_BrainpoolP512t1_Gx_def SDK1_BrainpoolP512t1_Gy_def C_cx_BrainpoolP512t1_Gy_def SDK1_BrainpoolP512t1_n_def C_cx_BrainpoolP512t1_n_def SDK1_BrainpoolP512t1_Hn_def C_cx_BrainpoolP512t1_Hn_def)

lemma SDK1_Ed25519_agrees: "sdk2_domain SDK1_Ed25519 (se_a SDK1_Ed25519) (se_d SDK1_Ed25519) = C_cx_Ed25519"
  by (simp add: sdk2_domain_def SDK1_Ed25519_def C_cx_Ed25519_def sdk2_curve_def sdk1_curve_ids cx_curve_ids SDK1_Ed25519_h_def C_cofactor_8_def h_bytes)
    (simp only: SDK1_Ed25519_a_def C_cx_Ed25519_a_def SDK1_Ed25519_d_def C_cx_Ed25519_d_def SDK1_Ed25519_q_def C_cx_Ed25519_q_def SDK1_Ed25519_Hq_def C_cx_Ed25519_Hq_def SDK1_Ed25519_Bx_def C_cx_Ed25519_Bx_def SDK1_Ed25519_By_def C_cx_Ed25519_By_def SDK1_Ed25519_l_def C_cx_Ed25519_l_def SDK1_Ed25519_Hl_def C_cx_Ed25519_Hl_def)

text \<open>The constants for square roots: a root of \<open>-1\<close> and \<open>(q + 3) / 8\<close>.\<close>

lemma SDK1_Ed25519_root: "(os2ip (se_I SDK1_Ed25519) * os2ip (se_I SDK1_Ed25519) + 1) mod os2ip (sd_p SDK1_Ed25519) = 0"
  and SDK1_Ed25519_exponent: "8 * os2ip (se_Qq SDK1_Ed25519) = os2ip (sd_p SDK1_Ed25519) + 3"
  by (simp_all add: SDK1_Ed25519_def SDK1_Ed25519_I_def SDK1_Ed25519_q_def SDK1_Ed25519_Qplus3div8_def os2ip_def)

section \<open>The lookup gives the parameters of a curve\<close>

lemma sdk1_domain_loop_Inr: "sdk1_domain_loop ds curve = Inr d \<Longrightarrow> d \<in> set ds \<and> sd_curve d = curve"
  by (induction ds) (auto split: if_splits)

lemma sdk2_domain_truncate: "sdk2_domain (sdk1_domain.truncate w) a b = sdk2_domain w a b"
  by (simp add: sdk2_domain_def sdk1_domain.defs)

lemma agrees_found:
  assumes "sdk2_domain w a b = e" and "e \<in> set C_cx_allCurves"
  shows "\<exists>a b. cx_ecdomain (sdk2_curve (sd_curve (sdk1_domain.truncate w))) = Some (sdk2_domain (sdk1_domain.truncate w) a b)"
proof -
  have "dom_curve e = sdk2_curve (sd_curve (sdk1_domain.truncate w))"
    unfolding assms(1) [symmetric] by (simp add: sdk2_domain_def sdk1_domain.defs)
  then have "cx_ecdomain (sdk2_curve (sd_curve (sdk1_domain.truncate w))) = Some e"
    using assms(2) by (simp add: cx_ecdomain_iff)
  then show ?thesis unfolding sdk2_domain_truncate using assms(1) by blast
qed

lemma sdk1_curves_in_sdk2:
  "C_cx_secp256k1 \<in> set C_cx_allCurves" "C_cx_secp256r1 \<in> set C_cx_allCurves" "C_cx_secp384r1 \<in> set C_cx_allCurves"
  "C_cx_Ed25519 \<in> set C_cx_allCurves" "C_cx_BLS12_381_G1 \<in> set C_cx_allCurves"
  "C_cx_BrainpoolP256r1 \<in> set C_cx_allCurves" "C_cx_BrainpoolP256t1 \<in> set C_cx_allCurves"
  "C_cx_BrainpoolP320r1 \<in> set C_cx_allCurves" "C_cx_BrainpoolP320t1 \<in> set C_cx_allCurves"
  "C_cx_BrainpoolP384r1 \<in> set C_cx_allCurves" "C_cx_BrainpoolP384t1 \<in> set C_cx_allCurves"
  "C_cx_BrainpoolP512r1 \<in> set C_cx_allCurves" "C_cx_BrainpoolP512t1 \<in> set C_cx_allCurves"
  unfolding C_cx_allCurves_def by (simp_all only: list.set insert_iff simp_thms)

lemmas sdk1_found =
  agrees_found [OF SDK1_secp256k1_agrees sdk1_curves_in_sdk2(1)]
  agrees_found [OF SDK1_secp256r1_agrees sdk1_curves_in_sdk2(2)]
  agrees_found [OF SDK1_secp384r1_agrees sdk1_curves_in_sdk2(3)]
  agrees_found [OF SDK1_Ed25519_agrees sdk1_curves_in_sdk2(4)]
  agrees_found [OF SDK1_BLS12_381_G1_agrees sdk1_curves_in_sdk2(5)]
  agrees_found [OF SDK1_BrainpoolP256r1_agrees sdk1_curves_in_sdk2(6)]
  agrees_found [OF SDK1_BrainpoolP256t1_agrees sdk1_curves_in_sdk2(7)]
  agrees_found [OF SDK1_BrainpoolP320r1_agrees sdk1_curves_in_sdk2(8)]
  agrees_found [OF SDK1_BrainpoolP320t1_agrees sdk1_curves_in_sdk2(9)]
  agrees_found [OF SDK1_BrainpoolP384r1_agrees sdk1_curves_in_sdk2(10)]
  agrees_found [OF SDK1_BrainpoolP384t1_agrees sdk1_curves_in_sdk2(11)]
  agrees_found [OF SDK1_BrainpoolP512r1_agrees sdk1_curves_in_sdk2(12)]
  agrees_found [OF SDK1_BrainpoolP512t1_agrees sdk1_curves_in_sdk2(13)]

text \<open>
  Every curve that \<open>cx_ecfp_get_domain\<close> finds has, in the tables of the second SDK, the same
  field, order, base point, sizes, cofactor and Montgomery constants. What is proved of those tables
  (the base point is on the curve, the order fits the field) holds for the first SDK too.
\<close>

theorem sdk1_domain_agrees:
  assumes "cx_ecfp_get_domain curve = Inr d"
  shows "\<exists>a b. cx_ecdomain (sdk2_curve curve) = Some (sdk2_domain d a b)"
proof -
  have d: "d \<in> set SDK1_allCurves" "sd_curve d = curve"
    using sdk1_domain_loop_Inr assms unfolding cx_ecfp_get_domain_def by blast+
  have "list_all (\<lambda>d. \<exists>a b. cx_ecdomain (sdk2_curve (sd_curve d)) = Some (sdk2_domain d a b)) SDK1_allCurves"
    unfolding SDK1_allCurves_def list.pred_inject(2) by (intro conjI list.pred_inject(1) sdk1_found)
  then show ?thesis using d unfolding list_all_iff by blast
qed

lemma sdk1_head: "sdk1_domain_loop SDK1_allCurves SDK1_CURVE_SECP256K1 = Inr (sdk1_domain.truncate SDK1_secp256k1)"
  unfolding SDK1_allCurves_def sdk1_domain_loop.simps by (simp add: SDK1_secp256k1_def sdk1_domain.defs)

theorem sdk1_domain_agrees_witness:
  "\<exists>a b. cx_ecdomain (sdk2_curve SDK1_CURVE_SECP256K1) = Some (sdk2_domain (sdk1_domain.truncate SDK1_secp256k1) a b)"
  by (rule sdk1_domain_agrees) (simp add: cx_ecfp_get_domain_def sdk1_head)

end
