(* ===== verification/Cx_Rfc6979.thy ===== *)
theory Cx_Rfc6979
  imports Hmac_Calls Cx_Math Cx_Mpi Cx_Ec_Der
begin

text \<open>
  The generator of deterministic nonces, \<open>src/bolos/cx_rng_rfc6979.c\<close>, over the HMAC of the library and
  the subtraction of \<open>cx_math.c\<close>, and the proof that it computes the candidates of RFC 6979. The lengths
  of the context are counted in bits; the return values of the HMAC calls are not looked at.
\<close>

section \<open>Context and conversions\<close>

record cx_rnd_rfc6979_ctx =
  rf_v :: bytes
  rf_k :: bytes
  rf_q :: bytes
  rf_q_len :: nat
  rf_r_len :: nat
  rf_tmp :: bytes
  rf_hash_id :: cx_md
  rf_md_len :: nat
  rf_hmac :: cx_hmac_ctx

text \<open>
  The shift of \<open>cx_rfc6979_bits2int\<close>. The output may be the input: a byte is read before it is written
  and not read again. (Where the input is padded it is another buffer than the output.)
\<close>

fun bits2int_shift :: "bytes \<Rightarrow> bytes \<Rightarrow> nat \<Rightarrow> u8 \<Rightarrow> nat \<Rightarrow> nat \<Rightarrow> bytes res" where
  "bits2int_shift b b_out right_shift carry i 0 = Inr b_out"
| "bits2int_shift b b_out right_shift carry i (Suc n) = res_bind (mem_get b i) (\<lambda>x.
     res_bind (mem_write b_out i [carry OR drop_bit right_shift x]) (\<lambda>b_out.
       bits2int_shift b b_out right_shift (push_bit (8 - right_shift) x) (i + 1) n))"

definition cx_rfc6979_bits2int :: "cx_rnd_rfc6979_ctx \<Rightarrow> bytes \<Rightarrow> nat \<Rightarrow> bytes \<Rightarrow> bytes res" where
  "cx_rfc6979_bits2int c b b_len b_out =
     (if b_len > rf_q_len c then
        let right_shift = (b_len - rf_q_len c) mod 8 in
        if right_shift = 0 then res_bind (mem_read b 0 (rf_r_len c div 8)) (mem_write b_out 0)
        else bits2int_shift b b_out right_shift 0 0 (rf_r_len c div 8)
      else
        let b_len = b_len div 8; padding_len = rf_r_len c div 8 - b_len in
        res_bind (mem_read b 0 b_len) (\<lambda>d.
        res_bind (mem_set b_out 0 0 padding_len) (\<lambda>b_out. mem_write b_out padding_len d)))"

text \<open>\<open>memcmp\<close> compares byte by byte, like \<open>sys_cx_math_cmp\<close>.\<close>

definition c_memcmp :: "bytes \<Rightarrow> bytes \<Rightarrow> nat \<Rightarrow> int res" where
  "c_memcmp a b n = math_cmp_loop a b 0 n"

definition cx_rfc6979_bits2octets ::
  "bn_lib \<Rightarrow> int \<Rightarrow> cx_rnd_rfc6979_ctx \<Rightarrow> bytes \<Rightarrow> nat \<Rightarrow> bytes \<Rightarrow> bytes res" where
  "cx_rfc6979_bits2octets lib left c b b_len b_out =
     res_bind (cx_rfc6979_bits2int c b b_len b_out) (\<lambda>b_out.
     res_bind (c_memcmp b_out (rf_q c) (rf_r_len c div 8)) (\<lambda>d.
       if d > 0
       then res_bind (sys_cx_math_sub lib left b_out b_out (rf_q c) (rf_r_len c div 8)) (\<lambda>(_, b_out). Inr b_out)
       else Inr b_out))"

definition cx_rfc6979_int2octets :: "cx_rnd_rfc6979_ctx \<Rightarrow> bytes \<Rightarrow> nat \<Rightarrow> bytes \<Rightarrow> bytes res" where
  "cx_rfc6979_int2octets c i i_len b_out =
     (let n = i_len div 8; r = rf_r_len c div 8 in
      if n < r then
        res_bind (mem_read i 0 n) (\<lambda>d.
        res_bind (mem_write b_out (r - n) d) (\<lambda>b_out. mem_set b_out 0 0 (r - n)))
      else res_bind (mem_read i (n - r) r) (mem_write b_out 0))"

text \<open>
  The two loops are those of \<open>cx_mpi_cnt_bits\<close>, with \<open>a_len\<close> at least 1; the first one ends with length 0
  when all bytes are 0.
\<close>

definition cx_rfc6979_bitslength :: "bytes \<Rightarrow> nat \<Rightarrow> nat res" where
  "cx_rfc6979_bitslength a a_len =
     res_bind (skip_zero_bytes a 0 (of_nat a_len)) (\<lambda>(i, len).
       if len = 0 then Inr 0 else Inr (unat (skip_zero_bits 8 (a ! i) (len * 8))))"

section \<open>The generator\<close>

text \<open>A call of the HMAC: its context and result, or the way it ended otherwise.\<close>

definition hm_call :: "cx_hmac_ctx \<times> 'a res \<Rightarrow> (cx_hmac_ctx \<times> 'a) res" where
  "hm_call p = (case p of (h, Inl e) \<Rightarrow> Inl e | (h, Inr x) \<Rightarrow> Inr (h, x))"

text \<open>An optional input: it is converted into \<open>tmp\<close> and hashed from there.\<close>

definition hmacVK_input ::
  "(bytes \<Rightarrow> bytes \<Rightarrow> bytes res) \<Rightarrow> nat \<Rightarrow> bytes option \<Rightarrow> cx_hmac_ctx \<Rightarrow> bytes \<Rightarrow> (cx_hmac_ctx \<times> bytes) res" where
  "hmacVK_input conv r data h tmp =
     (case data of
        None \<Rightarrow> Inr (h, tmp)
      | Some d \<Rightarrow> res_bind (conv d tmp) (\<lambda>tmp.
          res_bind (hm_call (spec_cx_hmac_update h (Some tmp) r)) (\<lambda>(h, _). Inr (h, tmp))))"

text \<open>The output of \<open>cx_rfc6979_hmacVK\<close> is the key or the value of the context.\<close>

definition cx_rfc6979_hmacVK ::
  "bn_lib \<Rightarrow> int \<Rightarrow> cx_rnd_rfc6979_ctx \<Rightarrow> int \<Rightarrow> bytes option \<Rightarrow> nat \<Rightarrow> bytes option \<Rightarrow> nat \<Rightarrow> bool \<Rightarrow>
     cx_rnd_rfc6979_ctx res" where
  "cx_rfc6979_hmacVK lib left c opt x x_len h1 h1_len to_k =
     res_bind (hm_call (spec_cx_hmac_init (rf_hmac c) (rf_hash_id c) (Some (rf_k c)) (rf_md_len c))) (\<lambda>(h, _).
     res_bind (if 0 \<le> opt
               then res_bind (mem_write (rf_v c) (rf_md_len c) [word_of_int opt]) (\<lambda>v. Inr (v, rf_md_len c + 1))
               else Inr (rf_v c, rf_md_len c)) (\<lambda>(v, len).
     res_bind (hm_call (spec_cx_hmac_update h (Some v) len)) (\<lambda>(h, _).
     res_bind (hmacVK_input (\<lambda>x. cx_rfc6979_int2octets c x (x_len * 8)) (rf_r_len c div 8) x h (rf_tmp c)) (\<lambda>(h, tmp).
     res_bind (hmacVK_input (\<lambda>h1. cx_rfc6979_bits2octets lib left c h1 (h1_len * 8)) (rf_r_len c div 8) h1 h tmp)
       (\<lambda>(h, tmp).
     res_bind (hm_call (spec_cx_hmac_final h (Some (if to_k then rf_k c else v)) (rf_md_len c))) (\<lambda>(h, _, out, _).
       case out of
         None \<Rightarrow> Inl Oob
       | Some out \<Rightarrow> Inr (c\<lparr>rf_v := if to_k then v else out, rf_k := if to_k then out else rf_k c,
                           rf_tmp := tmp, rf_hmac := h\<rparr>)))))))"

definition spec_cx_rng_rfc6979_init ::
  "bn_lib \<Rightarrow> int \<Rightarrow> cx_rnd_rfc6979_ctx \<Rightarrow> cx_md \<Rightarrow> bytes option \<Rightarrow> nat \<Rightarrow> bytes option \<Rightarrow> nat \<Rightarrow> bytes \<Rightarrow> nat \<Rightarrow>
     cx_rnd_rfc6979_ctx res" where
  "spec_cx_rng_rfc6979_init lib left c hash_id x x_len h1 h1_len q q_len =
     (case spec_cx_hash_get_info hash_id of
        None \<Rightarrow> Inl (Throw INVALID_PARAMETER)
      | Some info \<Rightarrow>
          if output_size info = 0 then Inl (Throw INVALID_PARAMETER)
          else
            res_bind (res_bind (mem_read q 0 q_len) (mem_write (rf_q c) 0)) (\<lambda>cq.
            res_bind (cx_rfc6979_bitslength q q_len) (\<lambda>n.
            res_bind (mem_set (rf_v c) 0 1 (output_size info)) (\<lambda>v.
            res_bind (mem_set (rf_k c) 0 0 (output_size info)) (\<lambda>k.
            let c = c\<lparr>rf_q := cq, rf_q_len := n, rf_r_len := 8 * ((n + 7) div 8), rf_hash_id := hash_id,
                      rf_md_len := output_size info, rf_v := v, rf_k := k\<rparr> in
            res_bind (cx_rfc6979_hmacVK lib left c 0 x x_len h1 h1_len True) (\<lambda>c.
            res_bind (cx_rfc6979_hmacVK lib left c (- 1) None 0 None 0 False) (\<lambda>c.
            res_bind (cx_rfc6979_hmacVK lib left c 1 x x_len h1 h1_len True) (\<lambda>c.
            cx_rfc6979_hmacVK lib left c (- 1) None 0 None 0 False))))))))"

text \<open>The loop over the blocks of a candidate; it does not end when \<open>md_len\<close> is 0.\<close>

partial_function (option) rfc6979_blocks ::
  "bn_lib \<Rightarrow> int \<Rightarrow> cx_rnd_rfc6979_ctx \<Rightarrow> bytes \<Rightarrow> nat \<Rightarrow> nat \<Rightarrow> (cx_rnd_rfc6979_ctx \<times> bytes) res option" where
  "rfc6979_blocks lib left c out t_Blen r_Blen =
     (if t_Blen < r_Blen then
        (case cx_rfc6979_hmacVK lib left c (- 1) None 0 None 0 False of
           Inl e \<Rightarrow> Some (Inl e)
         | Inr c \<Rightarrow>
             if rf_md_len c > r_Blen - t_Blen
             then (case res_bind (mem_read (rf_v c) 0 (r_Blen - t_Blen)) (mem_write out t_Blen) of
                     Inl e \<Rightarrow> Some (Inl e)
                   | Inr out \<Rightarrow> rfc6979_blocks lib left c out r_Blen r_Blen)
             else (case res_bind (mem_read (rf_v c) 0 (rf_md_len c)) (mem_write out t_Blen) of
                     Inl e \<Rightarrow> Some (Inl e)
                   | Inr out \<Rightarrow> rfc6979_blocks lib left c out (t_Blen + rf_md_len c) r_Blen))
      else Some (Inr (c, out)))"

text \<open>A candidate is below \<open>q\<close> or not; the key and the value move on in either case.\<close>

definition rfc6979_try :: "bn_lib \<Rightarrow> int \<Rightarrow> cx_rnd_rfc6979_ctx \<Rightarrow> bytes \<Rightarrow> (bool \<times> cx_rnd_rfc6979_ctx \<times> bytes) res" where
  "rfc6979_try lib left c out =
     res_bind (cx_rfc6979_bits2int c out (rf_r_len c div 8 * 8) out) (\<lambda>out.
     res_bind (c_memcmp out (rf_q c) (rf_r_len c div 8)) (\<lambda>d.
     res_bind (cx_rfc6979_hmacVK lib left c 0 None 0 None 0 True) (\<lambda>c.
     res_bind (cx_rfc6979_hmacVK lib left c (- 1) None 0 None 0 False) (\<lambda>c. Inr (d < 0, c, out)))))"

partial_function (option) rfc6979_next_loop ::
  "bn_lib \<Rightarrow> int \<Rightarrow> cx_rnd_rfc6979_ctx \<Rightarrow> bytes \<Rightarrow> (cx_rnd_rfc6979_ctx \<times> bytes) res option" where
  "rfc6979_next_loop lib left c out =
     (case rfc6979_blocks lib left c out 0 (rf_r_len c div 8) of
        None \<Rightarrow> None
      | Some (Inl e) \<Rightarrow> Some (Inl e)
      | Some (Inr (c, out)) \<Rightarrow>
          (case rfc6979_try lib left c out of
             Inl e \<Rightarrow> Some (Inl e)
           | Inr (found, c, out) \<Rightarrow>
               if found then Some (Inr (c, out)) else rfc6979_next_loop lib left c out))"

definition spec_cx_rng_rfc6979_next ::
  "bn_lib \<Rightarrow> int \<Rightarrow> cx_rnd_rfc6979_ctx \<Rightarrow> bytes \<Rightarrow> nat \<Rightarrow> (cx_rnd_rfc6979_ctx \<times> bytes) res option" where
  "spec_cx_rng_rfc6979_next lib left c out out_len =
     (if out_len * 8 < rf_r_len c then Some (Inl (Throw INVALID_PARAMETER)) else rfc6979_next_loop lib left c out)"

declare rfc6979_blocks.simps [code] rfc6979_next_loop.simps [code]


section \<open>RFC 6979\<close>

definition rfc_bits2int :: "nat \<Rightarrow> bytes \<Rightarrow> int" where
  "rfc_bits2int qlen b =
     (if qlen < 8 * length b then os2ip b div 2 ^ (8 * length b - qlen) else os2ip b)"

definition rfc_bits2octets :: "int \<Rightarrow> nat \<Rightarrow> bytes \<Rightarrow> bytes" where
  "rfc_bits2octets q qlen b = i2osp ((qlen + 7) div 8) (rfc_bits2int qlen b mod q)"

definition rfc_int2octets :: "nat \<Rightarrow> bytes \<Rightarrow> bytes" where
  "rfc_int2octets qlen x = i2osp ((qlen + 7) div 8) (os2ip x)"

text \<open>Steps b to g: the key and the value after the initialisation.\<close>

definition rfc_start :: "(bytes \<Rightarrow> bytes \<Rightarrow> bytes) \<Rightarrow> nat \<Rightarrow> bytes \<Rightarrow> bytes \<times> bytes" where
  "rfc_start mac hlen seed =
     (let V = replicate hlen 1; K = replicate hlen 0;
          K = mac K (V @ [0] @ seed); V = mac K V;
          K = mac K (V @ [1] @ seed); V = mac K V
      in (K, V))"

text \<open>Step h: the blocks of a candidate, and the next key and value.\<close>

fun rfc_chain :: "(bytes \<Rightarrow> bytes) \<Rightarrow> bytes \<Rightarrow> nat \<Rightarrow> bytes" where
  "rfc_chain f V 0 = V"
| "rfc_chain f V (Suc n) = rfc_chain f (f V) n"

fun rfc_T :: "(bytes \<Rightarrow> bytes) \<Rightarrow> bytes \<Rightarrow> nat \<Rightarrow> bytes" where
  "rfc_T f V 0 = []"
| "rfc_T f V (Suc n) = f V @ rfc_T f (f V) n"

definition rfc_blocks :: "nat \<Rightarrow> nat \<Rightarrow> nat" where
  "rfc_blocks hlen qlen = ((qlen + 7) div 8 + hlen - 1) div hlen"

definition rfc_candidate :: "(bytes \<Rightarrow> bytes \<Rightarrow> bytes) \<Rightarrow> nat \<Rightarrow> nat \<Rightarrow> bytes \<times> bytes \<Rightarrow> int" where
  "rfc_candidate mac hlen qlen KV = rfc_bits2int qlen (rfc_T (mac (fst KV)) (snd KV) (rfc_blocks hlen qlen))"

definition rfc_next :: "(bytes \<Rightarrow> bytes \<Rightarrow> bytes) \<Rightarrow> nat \<Rightarrow> nat \<Rightarrow> bytes \<times> bytes \<Rightarrow> bytes \<times> bytes" where
  "rfc_next mac hlen qlen KV =
     (let V = rfc_chain (mac (fst KV)) (snd KV) (rfc_blocks hlen qlen); K = mac (fst KV) (V @ [0]) in (K, mac K V))"

text \<open>The number of candidates that are refused, if one is ever accepted.\<close>

definition rfc_refused :: "(bytes \<Rightarrow> bytes \<Rightarrow> bytes) \<Rightarrow> nat \<Rightarrow> nat \<Rightarrow> int \<Rightarrow> bytes \<times> bytes \<Rightarrow> nat option" where
  "rfc_refused mac hlen qlen q KV =
     (if \<exists>n. rfc_candidate mac hlen qlen ((rfc_next mac hlen qlen ^^ n) KV) < q
      then Some (LEAST n. rfc_candidate mac hlen qlen ((rfc_next mac hlen qlen ^^ n) KV) < q) else None)"

definition rfc_nonce :: "(bytes \<Rightarrow> bytes \<Rightarrow> bytes) \<Rightarrow> nat \<Rightarrow> nat \<Rightarrow> int \<Rightarrow> bytes \<times> bytes \<Rightarrow> int option" where
  "rfc_nonce mac hlen qlen q KV =
     map_option (\<lambda>n. rfc_candidate mac hlen qlen ((rfc_next mac hlen qlen ^^ n) KV)) (rfc_refused mac hlen qlen q KV)"

section \<open>The conversions\<close>

lemma os2ip_take_div: "n \<le> length b \<Longrightarrow> os2ip b div 256 ^ (length b - n) = os2ip (take n b)"
proof -
  assume n: "n \<le> length b"
  have "os2ip b = os2ip (take n b) * 256 ^ (length b - n) + os2ip (drop n b)"
    using os2ip_append [of "take n b" "drop n b"] by simp
  moreover have "os2ip (drop n b) < 256 ^ (length b - n)" using os2ip_bound [of "drop n b"] by simp
  ultimately show ?thesis by (simp add: div_add1_eq)
qed

lemma pow2_256: "(2 :: int) ^ (8 * n) = 256 ^ n"
  by (simp add: power_mult)

lemma rfc_bits2int_take:
  assumes "0 < qlen" and "(qlen + 7) div 8 \<le> length b"
  shows "rfc_bits2int qlen (take ((qlen + 7) div 8) b) = rfc_bits2int qlen b"
proof -
  let ?r = "(qlen + 7) div 8"
  have q: "qlen \<le> 8 * ?r" by presburger
  have "os2ip b div 2 ^ (8 * length b - qlen) = os2ip (take ?r b) div 2 ^ (8 * ?r - qlen)"
  proof -
    have "8 * length b - qlen = 8 * (length b - ?r) + (8 * ?r - qlen)" using q assms(2) by simp
    then have "(2 :: int) ^ (8 * length b - qlen) = 256 ^ (length b - ?r) * 2 ^ (8 * ?r - qlen)"
      by (simp only: power_add pow2_256)
    then show ?thesis
      using os2ip_take_div [OF assms(2)] by (simp add: div_mult2_eq' zdiv_zmult2_eq)
  qed
  moreover have "qlen < 8 * length b \<or> 8 * length b = qlen \<and> length b = ?r" using q assms(2) by linarith
  moreover have "os2ip (take ?r b) = os2ip (take ?r b) div 2 ^ (8 * ?r - qlen)" if "8 * ?r \<le> qlen"
    using that by simp
  ultimately show ?thesis using assms(2) q by (auto simp: rfc_bits2int_def)
qed

lemma div_less_mult: "0 < d \<Longrightarrow> x < m * d \<Longrightarrow> x div d < (m :: int)"
proof (rule ccontr)
  assume *: "0 < d" "x < m * d" "\<not> x div d < m"
  then have "m * d \<le> x div d * d" by (intro mult_right_mono) simp_all
  also have "\<dots> \<le> x" using *(1) div_mult_mod_eq [of x d] pos_mod_sign [of d x] by linarith
  finally show False using *(2) by simp
qed

lemma rfc_bits2int_bounds: "0 \<le> rfc_bits2int qlen b" "rfc_bits2int qlen b < 2 ^ qlen"
proof -
  show "0 \<le> rfc_bits2int qlen b" by (simp add: rfc_bits2int_def pos_imp_zdiv_nonneg_iff)
  have b: "os2ip b < 2 ^ (8 * length b)" using os2ip_bound [of b] by (simp add: pow2_256)
  show "rfc_bits2int qlen b < 2 ^ qlen"
  proof (cases "qlen < 8 * length b")
    case True
    then have "(2 :: int) ^ (8 * length b) = 2 ^ qlen * 2 ^ (8 * length b - qlen)" by (simp flip: power_add)
    then show ?thesis using True b div_less_mult [of "2 ^ (8 * length b - qlen)" "os2ip b" "2 ^ qlen"]
      by (simp add: rfc_bits2int_def)
  next
    case False
    then have "(2 :: int) ^ (8 * length b) \<le> 2 ^ qlen" by (intro power_increasing) simp_all
    then have "os2ip b < 2 ^ qlen" using b by linarith
    then show ?thesis using False by (simp add: rfc_bits2int_def)
  qed
qed


lemma shift_byte_join:
  assumes "c < 2 ^ s" and "0 < s" and "s < 8"
  shows "uint ((of_nat (c * 2 ^ (8 - s)) :: u8) OR drop_bit s x) = int (c * 2 ^ (8 - s)) + uint x div 2 ^ s"
proof -
  have "c * 2 ^ (8 - s) < 2 ^ s * 2 ^ (8 - s)" using assms(1) by simp
  then have c: "c * 2 ^ (8 - s) < 256" using assms(3) by (simp flip: power_add)
  have cw: "(of_nat (c * 2 ^ (8 - s)) :: u8) = push_bit (8 - s) (of_nat c)"
    by (simp add: push_bit_eq_mult mult.commute)
  have "(of_nat (c * 2 ^ (8 - s)) :: u8) AND drop_bit s x = 0"
    unfolding cw by (rule bit_word_eqI) (auto simp: bit_simps dest: bit_imp_le_length)
  then have or: "(of_nat (c * 2 ^ (8 - s)) :: u8) OR drop_bit s x = of_nat (c * 2 ^ (8 - s)) + drop_bit s x"
    by (simp add: disjunctive_add_eq_or)
  have "uint x div 2 ^ s < 2 ^ (8 - s)"
    using div_less_mult [of "2 ^ s" "uint x" "2 ^ (8 - s)"] uint_lt2p [of x] assms(3) by (simp flip: power_add)
  moreover have "int (c * 2 ^ (8 - s)) + 2 ^ (8 - s) \<le> 256"
  proof -
    have "(c + 1) * 2 ^ (8 - s) \<le> 2 ^ s * 2 ^ (8 - s)" using assms(1) by (intro mult_le_mono1) simp
    also have "\<dots> = 256" using assms(3) by (simp flip: power_add)
    finally have "c * 2 ^ (8 - s) + 2 ^ (8 - s) \<le> 256" by simp
    then have "int (c * 2 ^ (8 - s) + 2 ^ (8 - s)) \<le> int 256" by (simp only: of_nat_le_iff)
    then show ?thesis by simp
  qed
  ultimately have "int (c * 2 ^ (8 - s)) + uint x div 2 ^ s < 256" by linarith
  moreover have "uint (drop_bit s x) = uint x div 2 ^ s" 
    using take_bit_int_eq_self [of "uint x" 8] uint_lt2p [of x] uint_ge_0 [of x]
    by (simp only: unsigned_drop_bit_eq) (simp add: drop_bit_eq_div)
  moreover have "uint (of_nat (c * 2 ^ (8 - s)) :: u8) = int (c * 2 ^ (8 - s))"
    using c by (simp add: uint_nat unat_of_nat del: of_nat_mult)
  moreover have "0 \<le> uint x div 2 ^ s" by (simp add: pos_imp_zdiv_nonneg_iff)
  ultimately show ?thesis
    unfolding or by (simp add: uint_word_ariths mod_pos_pos_trivial del: of_nat_mult)
qed

lemma bits2int_shift_spec:
  assumes "0 < s" and "s < 8" and "i + n \<le> length b" and "i + n \<le> length out" and "c < 2 ^ s"
  shows "\<exists>ys. bits2int_shift b out s (of_nat (c * 2 ^ (8 - s))) i n = Inr (buf_write out i ys) \<and> length ys = n \<and>
    os2ip ys = (int c * 256 ^ n + os2ip (take n (drop i b))) div 2 ^ s"
  using assms(3-)
proof (induction n arbitrary: i out c)
  case 0
  then show ?case by (simp add: div_pos_pos_trivial)
next
  case (Suc n)
  define x where "x = b ! i"
  define c' where "c' = unat x mod 2 ^ s"
  let ?y = "of_nat (c * 2 ^ (8 - s)) OR drop_bit s x"
  have get: "mem_get b i = Inr x" using Suc.prems(1) by (simp add: x_def)
  have carry: "push_bit (8 - s) x = of_nat (c' * 2 ^ (8 - s))"
  proof (rule bit_word_eqI)
    fix j assume "j < LENGTH(8)"
    then show "bit (push_bit (8 - s) x) j = bit (of_nat (c' * 2 ^ (8 - s)) :: u8) j"
      using assms(1,2)
      by (auto simp: c'_def take_bit_eq_mod [symmetric] push_bit_eq_mult [symmetric] bit_simps)
  qed
  obtain ys where ys: "bits2int_shift b (out[i := ?y]) s (of_nat (c' * 2 ^ (8 - s))) (i + 1) n =
      Inr (buf_write (out[i := ?y]) (i + 1) ys)" "length ys = n"
      "os2ip ys = (int c' * 256 ^ n + os2ip (take n (drop (i + 1) b))) div 2 ^ s"
    using Suc.IH [of "i + 1" "out[i := ?y]" c'] Suc.prems by (auto simp: c'_def)
  have take: "take (Suc n) (drop i b) = x # take n (drop (i + 1) b)"
    using Suc.prems(1) by (simp add: x_def Cons_nth_drop_Suc [symmetric])
  have len: "length (take n (drop (i + 1) b)) = n" using Suc.prems(1) by simp
  have wr: "buf_write (out[i := ?y]) (i + 1) ys = buf_write out i (?y # ys)"
    using buf_write_append [of i out "[?y]" ys] Suc.prems(2) by (simp add: buf_write_single)
  have "os2ip (?y # ys) = (int c * 256 ^ Suc n + os2ip (take (Suc n) (drop i b))) div 2 ^ s"
  proof -
    let ?R = "os2ip (take n (drop (i + 1) b))" and ?Y = "int (c * 2 ^ (8 - s)) + uint x div 2 ^ s"
    have y: "os2ip (?y # ys) = ?Y * 256 ^ n + (int c' * 256 ^ n + ?R) div 2 ^ s"
      unfolding os2ip_Cons ys(2,3) shift_byte_join [OF Suc.prems(3) assms(1,2)] ..
    define X where "X = uint x div 2 ^ s"
    have x: "uint x = X * 2 ^ s + int c'"
      using div_mult_mod_eq [of "uint x" "2 ^ s"] by (simp add: X_def c'_def zmod_int)
    have "(256 :: int) = 2 ^ (8 - s) * 2 ^ s" using assms(2) by (simp flip: power_add)
    from arg_cong [OF this, of "\<lambda>t. int c * (t * 256 ^ n)"]
    have shift: "int c * 256 ^ Suc n = int c * 2 ^ (8 - s) * 256 ^ n * 2 ^ s" by (simp only: power_Suc mult.assoc mult.left_commute mult.commute)
    have eq: "int c * 256 ^ Suc n + (uint x * 256 ^ n + ?R) = (?Y * 256 ^ n) * 2 ^ s + (int c' * 256 ^ n + ?R)"
    proof -
      have "(X * 2 ^ s + int c') * 256 ^ n = X * 256 ^ n * 2 ^ s + int c' * 256 ^ n"
        by (simp add: distrib_right ac_simps)
      moreover have "(int (c * 2 ^ (8 - s)) + X) * 256 ^ n * 2 ^ s = int c * 2 ^ (8 - s) * 256 ^ n * 2 ^ s + X * 256 ^ n * 2 ^ s"
        by (simp add: distrib_right)
      ultimately show ?thesis unfolding X_def [symmetric] unfolding x using shift by linarith
    qed
    show ?thesis unfolding y take os2ip_Cons [of x] len eq by simp
  qed
  then show ?case
    using ys get carry wr Suc.prems by (intro exI [of _ "?y # ys"]) simp
qed


text \<open>What the context has to hold: the order and its length in bits.\<close>

definition rfc_order :: "cx_rnd_rfc6979_ctx \<Rightarrow> int \<Rightarrow> bool" where
  "rfc_order c q \<longleftrightarrow> 0 < rf_q_len c \<and> rf_r_len c = 8 * ((rf_q_len c + 7) div 8) \<and>
     2 ^ (rf_q_len c - 1) \<le> q \<and> q < 2 ^ rf_q_len c \<and>
     take ((rf_q_len c + 7) div 8) (rf_q c) = i2osp ((rf_q_len c + 7) div 8) q \<and>
     (rf_q_len c + 7) div 8 \<le> 66 \<and> length (rf_q c) = 66"

lemma rfc_order_pos: "rfc_order c q \<Longrightarrow> 0 < q"
  unfolding rfc_order_def by (metis less_le_trans zero_less_power zero_less_numeral)

lemma order_octets: "qlen \<le> 8 * ((qlen + 7) div 8)" "8 * ((qlen + 7) div 8) - qlen < 8" for qlen :: nat
  by presburger+

lemma bits_fit: "v < 2 ^ qlen \<Longrightarrow> v < 256 ^ ((qlen + 7) div 8)" for v :: int
proof -
  assume "v < 2 ^ qlen"
  also have "(2 :: int) ^ qlen \<le> 2 ^ (8 * ((qlen + 7) div 8))"
    using order_octets(1) by (intro power_increasing) simp_all
  finally show ?thesis by (simp add: pow2_256)
qed

lemma order_shift:
  fixes qlen n :: nat
  assumes "qlen < 8 * n"
  shows "(qlen + 7) div 8 \<le> n" and "(8 * n - qlen) mod 8 = 8 * ((qlen + 7) div 8) - qlen"
proof -
  let ?r = "(qlen + 7) div 8"
  show r: "?r \<le> n" using assms by simp
  have "8 * n - qlen = 8 * (n - ?r) + (8 * ?r - qlen)" using r order_octets(1) [of qlen] by simp
  then show "(8 * n - qlen) mod 8 = 8 * ?r - qlen" using order_octets(2) [of qlen] by (simp only: mod_mult_self4 mod_less)
qed

lemma bits2int_eq:
  assumes "rfc_order c q" and "n \<le> length b" and "(rf_q_len c + 7) div 8 \<le> length out"
  shows "cx_rfc6979_bits2int c b (8 * n) out =
    Inr (i2osp ((rf_q_len c + 7) div 8) (rfc_bits2int (rf_q_len c) (take n b)) @ drop ((rf_q_len c + 7) div 8) out)"
proof -
  let ?ql = "rf_q_len c" and ?v = "rfc_bits2int (rf_q_len c) (take n b)"
  let ?r = "(?ql + 7) div 8"
  have r: "rf_r_len c div 8 = ?r" and pos: "0 < ?ql" using assms(1) by (simp_all add: rfc_order_def)
  show ?thesis
  proof (cases "8 * n \<le> ?ql")
    case True
    then have n: "n \<le> ?r" by presburger
    have v: "?v = os2ip (take n b)" using True assms(2) by (simp add: rfc_bits2int_def)
    have "i2osp ?r ?v = replicate (?r - n) 0 @ take n b"
      using i2osp_pad [OF n os2ip_nonneg, of "take n b"] os2ip_bound [of "take n b"] assms(2) i2osp_os2ip [of "take n b"]
      by (simp add: v)
    then show ?thesis
      using True assms(2,3) n
      by (simp add: cx_rfc6979_bits2int_def r mem_read_def mem_set_def mem_write_def buf_write_def Let_def)
  next
    case False
    then have n: "?r \<le> n" by (intro order_shift(1)) simp
    have v: "?v = rfc_bits2int ?ql (take ?r b)"
      using rfc_bits2int_take [OF pos, of "take n b"] n assms(2) by simp
    define s where "s = (8 * n - ?ql) mod 8"
    have s: "s = 8 * ?r - ?ql" using False unfolding s_def by (intro order_shift(2)) simp
    have val: "?v = os2ip (take ?r b) div 2 ^ s"
      unfolding v s using order_octets(1) [of ?ql] n assms(2) by (auto simp: rfc_bits2int_def)
    show ?thesis
    proof (cases "s = 0")
      case True
      then have "i2osp ?r ?v = take ?r b" using i2osp_os2ip [of "take ?r b"] n assms(2) by (simp add: val)
      then show ?thesis
        using True False n assms(2,3)
        by (simp add: cx_rfc6979_bits2int_def r s_def [symmetric] mem_read_def mem_write_def buf_write_def Let_def)
    next
      case s0: False
      have s8: "0 < s" "s < 8" using s0 unfolding s_def by simp_all
      obtain ys where ys: "bits2int_shift b out s 0 0 ?r = Inr (buf_write out 0 ys)" "length ys = ?r" "os2ip ys = ?v"
        using bits2int_shift_spec [OF s8, of 0 ?r b out 0] n assms(2,3) val by auto
      have "i2osp ?r ?v = ys" unfolding ys(3) [symmetric] using i2osp_os2ip [of ys] ys(2) by simp
      then show ?thesis
        using s0 False ys(1,2) by (simp add: cx_rfc6979_bits2int_def r s_def [symmetric] buf_write_def Let_def)
    qed
  qed
qed

lemma int2octets_eq:
  assumes "rfc_order c q" and "n \<le> length x" and "(rf_q_len c + 7) div 8 \<le> length out"
  shows "cx_rfc6979_int2octets c x (8 * n) out =
    Inr (rfc_int2octets (rf_q_len c) (take n x) @ drop ((rf_q_len c + 7) div 8) out)"
proof -
  let ?r = "(rf_q_len c + 7) div 8"
  have r: "rf_r_len c div 8 = ?r" using assms(1) by (simp add: rfc_order_def)
  show ?thesis
  proof (cases "n < ?r")
    case True
    have "i2osp ?r (os2ip (take n x)) = replicate (?r - n) 0 @ take n x"
      using i2osp_pad [of n ?r "os2ip (take n x)"] True os2ip_bound [of "take n x"] assms(2) i2osp_os2ip [of "take n x"]
      by simp
    then show ?thesis
      using True assms(2,3)
      by (simp add: cx_rfc6979_int2octets_def r mem_read_def mem_set_def mem_write_def buf_write_def rfc_int2octets_def Let_def)
  next
    case False
    have "i2osp ?r (os2ip (take n x)) = drop (n - ?r) (take n x)"
      using i2osp_low [of ?r n "os2ip (take n x)"] False assms(2) i2osp_os2ip [of "take n x"] by simp
    then show ?thesis
      using False assms(2,3)
      by (simp add: cx_rfc6979_int2octets_def r mem_read_def mem_write_def buf_write_def rfc_int2octets_def Let_def drop_take)
  qed
qed


lemma order_twice: "rfc_order c q \<Longrightarrow> 2 ^ rf_q_len c \<le> 2 * q"
proof -
  assume *: "rfc_order c q"
  then have "(2 :: int) ^ rf_q_len c = 2 * 2 ^ (rf_q_len c - 1)"
    by (simp add: rfc_order_def flip: power_Suc)
  then show ?thesis using * by (simp add: rfc_order_def)
qed

lemma order_cmp:
  assumes "rfc_order c q" and "0 \<le> v" and "v < 2 ^ rf_q_len c" and "(rf_q_len c + 7) div 8 = r"
  shows "c_memcmp (i2osp r v @ rest) (rf_q c) r = Inr (sgn (v - q))" and "buf_num (rf_q c) r = q"
    and "buf_num (i2osp r v @ rest) r = v"
proof -
  have "q < 256 ^ r" "v < 256 ^ r"
    using bits_fit [of q "rf_q_len c"] bits_fit [OF assms(3)] assms(1,4) by (simp_all add: rfc_order_def)
  then show q: "buf_num (rf_q c) r = q" and v: "buf_num (i2osp r v @ rest) r = v"
    using assms(1,2,4) rfc_order_pos [OF assms(1)] by (simp_all add: buf_num_def rfc_order_def)
  have "r \<le> length (rf_q c)" using assms(1,4) by (simp add: rfc_order_def)
  then show "c_memcmp (i2osp r v @ rest) (rf_q c) r = Inr (sgn (v - q))"
    using math_cmp_eq [of r "i2osp r v @ rest" "rf_q c"] q v by (simp add: c_memcmp_def sys_cx_math_cmp_def)
qed

lemma bits2octets_eq:
  assumes "rfc_order c q" and "n \<le> length b" and "(rf_q_len c + 7) div 8 \<le> length out"
    and "rfc_bits2int (rf_q_len c) (take n b) \<noteq> q" and "openssl_bn_total lib"
  shows "cx_rfc6979_bits2octets lib left c b (8 * n) out =
    Inr (rfc_bits2octets q (rf_q_len c) (take n b) @ drop ((rf_q_len c + 7) div 8) out)"
proof -
  define r where "r = (rf_q_len c + 7) div 8"
  define v where "v = rfc_bits2int (rf_q_len c) (take n b)"
  have v: "0 \<le> v" "v < 2 ^ rf_q_len c" unfolding v_def by (rule rfc_bits2int_bounds)+
  have rl: "rf_r_len c div 8 = r" and rq: "r \<le> length (rf_q c)" using assms(1) by (simp_all add: rfc_order_def r_def)
  let ?o = "i2osp r v @ drop r out"
  note cmp = order_cmp(1) [OF assms(1) v r_def [symmetric], of "drop r out"] order_cmp(2) [OF assms(1) v r_def [symmetric]]
    order_cmp(3) [OF assms(1) v r_def [symmetric], of "drop r out"]
  have conv: "cx_rfc6979_bits2int c b (8 * n) out = Inr ?o"
    using bits2int_eq [OF assms(1-3)] by (simp add: r_def v_def)
  have m: "v mod q = (if q < v then v - q else v)"
  proof (cases "q < v")
    case True
    then have "(v - q) mod q = v - q" using order_twice [OF assms(1)] v(2) by (intro mod_pos_pos_trivial) simp_all
    then show ?thesis using True using minus_mod_self2 [of v q] by simp
  next
    case False
    then have "v < q" using assms(4) by (simp add: v_def)
    then show ?thesis using v(1) by simp
  qed
  have sub: "sys_cx_math_sub lib left ?o ?o (rf_q c) r = Inr (0, i2osp r \<bar>v - q\<bar> @ drop r ?o)"
    using openssl_bn_total.math_sub_run [OF assms(5), of r ?o ?o "rf_q c"] rq cmp by simp
  show ?thesis
    unfolding cx_rfc6979_bits2octets_def conv rl
    using cmp(1) sub m by (simp add: rfc_bits2octets_def r_def [symmetric] v_def [symmetric])
qed


text \<open>The number of bits of the order.\<close>

lemma skip_zero_bits_spec:
  assumes "2 ^ (8 - n) \<le> unat b" and "n \<le> 8"
  shows "\<exists>k < 8. skip_zero_bits n b len = len - of_nat k \<and> 2 ^ 7 \<le> unat b * 2 ^ k \<and> unat b * 2 ^ k < 2 ^ 8"
  using assms
proof (induction n arbitrary: b len)
  case 0
  then show ?case using byte_lt [of b] by simp
next
  case (Suc n)
  show ?case
  proof (cases "b < 0x80")
    case False
    then have "128 \<le> unat b" by (simp add: word_less_nat_alt)
    then show ?thesis using False byte_lt [of b] by (intro exI [of _ 0]) (simp add: top_bit_clear)
  next
    case True
    then have b: "unat b < 128" by (simp add: word_less_nat_alt)
    have dbl: "unat (push_bit 1 b) = 2 * unat b" using b by (simp add: push_bit_eq_mult unat_word_ariths)
    have "2 ^ (8 - n) = 2 * (2 :: nat) ^ (8 - Suc n)" using Suc.prems(2) by (simp flip: power_Suc add: Suc_diff_Suc)
    then have "2 ^ (8 - n) \<le> unat (push_bit 1 b)" using Suc.prems(1) dbl by simp
    from Suc.IH [OF this] Suc.prems(2) obtain k where k: "k < 8"
      "skip_zero_bits n (push_bit 1 b) (len - 1) = len - 1 - of_nat k"
      "2 ^ 7 \<le> unat b * 2 ^ Suc k" "unat b * 2 ^ Suc k < 2 ^ 8"
      unfolding dbl by (auto simp: ac_simps)
    have "Suc k < 8"
    proof (rule ccontr)
      assume "\<not> Suc k < 8"
      then have "2 ^ 8 \<le> (2 :: nat) ^ Suc k" by (intro power_increasing) simp_all
      moreover have "0 < unat b" using k(3) by (cases "unat b = 0") simp_all
      ultimately have "2 ^ 8 \<le> unat b * 2 ^ Suc k" using mult_le_mono [of 1 "unat b" "2 ^ 8" "2 ^ Suc k"] by simp
      then show False using k(4) by simp
    qed
    then show ?thesis using k True by (intro exI [of _ "Suc k"]) (simp add: top_bit_clear)
  qed
qed

lemma bitslength_eq:
  assumes "0 < n" and "n \<le> length a" and "n < 2 ^ 20" and "a ! 0 \<noteq> 0"
  shows "\<exists>m. cx_rfc6979_bitslength a n = Inr m \<and> (m + 7) div 8 = n \<and> 0 < m \<and>
    2 ^ (m - 1) \<le> os2ip (take n a) \<and> os2ip (take n a) < 2 ^ m"
proof -
  define b where "b = a ! 0"
  have b: "2 ^ (8 - 8) \<le> unat b" using assms(4) by (simp add: b_def Suc_le_eq unat_gt_0)
  obtain k where k: "k < 8" "skip_zero_bits 8 b (of_nat n * 8) = of_nat n * 8 - of_nat k"
    "2 ^ 7 \<le> unat b * 2 ^ k" "unat b * 2 ^ k < 2 ^ 8"
    using skip_zero_bits_spec [OF b, of "of_nat n * 8"] by auto
  have skip: "skip_zero_bytes a 0 (of_nat n) = Inr (0, of_nat n)"
    using assms(1,2,4) by (subst skip_zero_bytes.simps) auto
  have n0: "(of_nat n :: u32) \<noteq> 0" using assms(1,3) by (simp add: word_unat_eq_iff unat_of_nat)
  have w: "(of_nat n * 8 - of_nat k :: u32) = of_nat (8 * n - k)" using k(1) assms(1) by (simp add: of_nat_diff)
  have len: "cx_rfc6979_bitslength a n = Inr (8 * n - k)"
    using skip n0 k(2) w assms(3) by (simp add: cx_rfc6979_bitslength_def b_def unat_of_nat del: of_nat_diff)
  obtain p where p: "n = Suc p" using assms(1) by (cases n) auto
  have take: "take n a = b # take p (drop 1 a)" using assms(2) p by (cases a) (simp_all add: b_def)
  have lenp: "length (take p (drop 1 a)) = p" using assms(2) p by simp
  have v: "os2ip (take n a) = int (unat b) * 256 ^ p + os2ip (take p (drop 1 a))"
    unfolding take os2ip_Cons lenp by simp
  have rest: "0 \<le> os2ip (take p (drop 1 a))" "os2ip (take p (drop 1 a)) < 256 ^ p"
    using os2ip_bound [of "take p (drop 1 a)"] lenp by simp_all
  have lo: "2 ^ (7 - k) \<le> unat b"
  proof -
    have "2 ^ (7 - k) * 2 ^ k \<le> unat b * (2 :: nat) ^ k" using k(1,3) by (simp flip: power_add)
    then show ?thesis by simp
  qed
  have hi: "unat b + 1 \<le> 2 ^ (8 - k)"
  proof -
    have "unat b * 2 ^ k < 2 ^ (8 - k) * (2 :: nat) ^ k" using k(1,4) by (simp flip: power_add)
    then show ?thesis by simp
  qed
  have e: "8 * n - k - 1 = 7 - k + 8 * p" "8 * n - k = 8 - k + 8 * p" using p k(1) by simp_all
  have "(2 :: int) ^ (7 - k) * 256 ^ p \<le> int (unat b) * 256 ^ p"
  proof (intro mult_right_mono)
    have "int (2 ^ (7 - k)) \<le> int (unat b)" using lo by (simp only: of_nat_le_iff)
    then show "(2 :: int) ^ (7 - k) \<le> int (unat b)" by simp
  qed simp
  then have "2 ^ (8 * n - k - 1) \<le> os2ip (take n a)"
    unfolding v e(1) power_add pow2_256 using rest(1) by linarith
  moreover have "(int (unat b) + 1) * 256 ^ p \<le> (2 :: int) ^ (8 - k) * 256 ^ p"
  proof (intro mult_right_mono)
    have "int (unat b + 1) \<le> int (2 ^ (8 - k))" using hi by (simp only: of_nat_le_iff)
    then show "int (unat b) + 1 \<le> 2 ^ (8 - k)" by simp
  qed simp
  then have "os2ip (take n a) < 2 ^ (8 * n - k)"
    unfolding v e(2) power_add pow2_256 distrib_right using rest(2) by linarith
  moreover have "(8 * n - k + 7) div 8 = n" "0 < 8 * n - k" using k(1) assms(1) by simp_all
  ultimately show ?thesis using len by blast
qed

lemma bit_length_unique:
  fixes q :: int
  assumes "2 ^ (m - 1) \<le> q" and "q < 2 ^ m" and "2 ^ (n - 1) \<le> q" and "q < 2 ^ n" and "0 < m" and "0 < n"
  shows "m = n"
proof (rule ccontr)
  assume "m \<noteq> n"
  then consider "m \<le> n - 1" | "n \<le> m - 1" using assms(5,6) by linarith
  then show False
  proof cases
    case 1
    then have "(2 :: int) ^ m \<le> 2 ^ (n - 1)" by (intro power_increasing) simp_all
    then show False using assms(2,3) by linarith
  next
    case 2
    then have "(2 :: int) ^ n \<le> 2 ^ (m - 1)" by (intro power_increasing) simp_all
    then show False using assms(1,4) by linarith
  qed
qed

section \<open>The generator computes the key and the value of the standard\<close>

lemma hm_call_simps [simp]: "hm_call (h, Inl e) = Inl e" "hm_call (h, Inr x) = Inr (h, x)"
  by (simp_all add: hm_call_def)

context hmac_hash
begin

definition rfc_state :: "cx_rnd_rfc6979_ctx \<Rightarrow> int \<Rightarrow> bytes \<times> bytes \<Rightarrow> bool" where
  "rfc_state c q KV \<longleftrightarrow> rfc_order c q \<and> rf_hash_id c = md \<and> rf_md_len c = osize \<and>
     length (rf_k c) = 64 \<and> length (rf_v c) = 65 \<and> length (rf_tmp c) = 66 \<and>
     take osize (rf_k c) = fst KV \<and> take osize (rf_v c) = snd KV"

text \<open>An input of \<open>cx_rfc6979_hmacVK\<close>: what it adds to the message.\<close>

lemma hmacVK_input_absorbs:
  assumes "hmac_absorbed h k m" and "bs + length m + r < cap" and "r \<le> 66" and "length tmp = 66"
    and "\<And>d. data = Some d \<Longrightarrow> conv d tmp = Inr (f d @ drop r tmp) \<and> length (f d) = r"
  shows "\<exists>h' tmp'. hmacVK_input conv r data h tmp = Inr (h', tmp') \<and> length tmp' = 66 \<and>
    hmac_absorbed h' k (m @ (case data of None \<Rightarrow> [] | Some d \<Rightarrow> f d))"
proof (cases data)
  case None
  then show ?thesis using assms(1,4) by (simp add: hmacVK_input_def)
next
  case (Some d)
  let ?t = "f d @ drop r tmp"
  have conv: "conv d tmp = Inr ?t" and len: "length (f d) = r" using assms(5) [OF Some] by simp_all
  have "r \<le> length ?t" using len by simp
  from hmac_update_any [OF assms(1) this assms(2)] obtain h' where
    "spec_cx_hmac_update h (Some ?t) r = (h', Inr 1)" "hmac_absorbed h' k (m @ f d)" using len by auto
  then show ?thesis using Some conv len assms(3,4) by (simp add: hmacVK_input_def)
qed

lemma length_macs: "length (mac k m) = osize"
  by (simp add: mac_def rfc2104_def digest_length)

lemma hmacVK_eq:
  assumes st: "rfc_state c q (K, V)" and lib: "openssl_bn_total lib" and cap: "512 < cap"
    and x: "\<And>d. x = Some d \<Longrightarrow> xn \<le> length d"
    and h: "\<And>d. h1 = Some d \<Longrightarrow> hn \<le> length d \<and> rfc_bits2int (rf_q_len c) (take hn d) \<noteq> q"
    and opt: "opt \<in> {- 1, 0, 1}"
  defines "msg \<equiv> V @ (if 0 \<le> opt then [word_of_int opt] else []) @
      (case x of None \<Rightarrow> [] | Some d \<Rightarrow> rfc_int2octets (rf_q_len c) (take xn d)) @
      (case h1 of None \<Rightarrow> [] | Some d \<Rightarrow> rfc_bits2octets q (rf_q_len c) (take hn d))"
  shows "\<exists>c'. cx_rfc6979_hmacVK lib left c opt x xn h1 hn to_k = Inr c' \<and> rf_q_len c' = rf_q_len c \<and>
    rf_r_len c' = rf_r_len c \<and> rf_q c' = rf_q c \<and>
    rfc_state c' q (if to_k then (mac K msg, V) else (K, mac K msg))"
proof -
  define r where "r = (rf_q_len c + 7) div 8"
  have ord: "rfc_order c q" and s: "rf_hash_id c = md" "rf_md_len c = osize" "length (rf_k c) = 64"
    "length (rf_v c) = 65" "length (rf_tmp c) = 66" "take osize (rf_k c) = K" "take osize (rf_v c) = V"
    using st by (simp_all add: rfc_state_def)
  have r: "rf_r_len c div 8 = r" "r \<le> 66" using ord by (simp_all add: rfc_order_def r_def)
  have lK: "length K = osize" "length V = osize" using s sizes by auto
  obtain h0 where h0: "spec_cx_hmac_init (rf_hmac c) md (Some (rf_k c)) osize = (h0, Inr 1)" "hmac_absorbed h0 K []"
    using hmac_init [of K "rf_hmac c"] init_prefix [of osize "rf_k c" "rf_hmac c"] s lK sizes by auto
  let ?o = "if 0 \<le> opt then [word_of_int opt] else [] :: bytes"
  define v where "v = (if 0 \<le> opt then (rf_v c)[osize := word_of_int opt] else rf_v c)"
  have v: "length v = 65" "take osize v = V" "take (osize + length ?o) v = V @ ?o"
    using s sizes unfolding v_def by (auto simp: take_Suc_conv_app_nth)
  have put: "(if 0 \<le> opt then res_bind (mem_write (rf_v c) osize [word_of_int opt]) (\<lambda>v. Inr (v, osize + 1))
      else Inr (rf_v c, osize)) = Inr (v, osize + length ?o)"
    using s sizes by (simp add: v_def)
  obtain h1' where h1': "spec_cx_hmac_update h0 (Some v) (osize + length ?o) = (h1', Inr 1)" "hmac_absorbed h1' K (V @ ?o)"
  proof -
    have lo: "length ?o \<le> 1" by simp
    then have "osize + length ?o \<le> length v" "bs + length [] + (osize + length ?o) < cap"
      unfolding v(1) list.size using sizes cap by linarith+
    from hmac_update_any [OF h0(2) this] v(3) show ?thesis using that by auto
  qed
  obtain h2 tmp2 where h2: "hmacVK_input (\<lambda>x. cx_rfc6979_int2octets c x (xn * 8)) r x h1' (rf_tmp c) = Inr (h2, tmp2)"
    "length tmp2 = 66"
    "hmac_absorbed h2 K ((V @ ?o) @ (case x of None \<Rightarrow> [] | Some d \<Rightarrow> rfc_int2octets (rf_q_len c) (take xn d)))"
  proof -
    have conv: "cx_rfc6979_int2octets c d (xn * 8) (rf_tmp c) = Inr (rfc_int2octets (rf_q_len c) (take xn d) @ drop r (rf_tmp c)) \<and>
        length (rfc_int2octets (rf_q_len c) (take xn d)) = r" if "x = Some d" for d
      using int2octets_eq [OF ord x [OF that], of "rf_tmp c"] r s by (simp add: r_def rfc_int2octets_def mult.commute)
    have "bs + length (V @ ?o) + r < cap" using lK r(2) sizes cap by simp
    from hmacVK_input_absorbs [where data = x and conv = "\<lambda>x. cx_rfc6979_int2octets c x (xn * 8)"
        and f = "\<lambda>d. rfc_int2octets (rf_q_len c) (take xn d)", OF h1'(2) this r(2) s(5) conv]
    show ?thesis using that by blast
  qed
  let ?m = "(V @ ?o) @ (case x of None \<Rightarrow> [] | Some d \<Rightarrow> rfc_int2octets (rf_q_len c) (take xn d))"
  have lm: "length ?m \<le> 131" using lK r(2) sizes by (auto simp: rfc_int2octets_def r_def split: option.splits)
  obtain h3 tmp3 where h3: "hmacVK_input (\<lambda>h1. cx_rfc6979_bits2octets lib left c h1 (hn * 8)) r h1 h2 tmp2 = Inr (h3, tmp3)"
    "length tmp3 = 66" "hmac_absorbed h3 K msg"
  proof -
    have conv: "cx_rfc6979_bits2octets lib left c d (hn * 8) tmp2 = Inr (rfc_bits2octets q (rf_q_len c) (take hn d) @ drop r tmp2) \<and>
        length (rfc_bits2octets q (rf_q_len c) (take hn d)) = r" if "h1 = Some d" for d
      using bits2octets_eq [OF ord _ _ _ lib, of hn d tmp2 left] h [OF that] r h2(2) by (simp add: r_def rfc_bits2octets_def mult.commute)
    have "bs + length ?m + r < cap" using lm r(2) sizes cap by linarith
    from hmacVK_input_absorbs [where data = h1 and conv = "\<lambda>h1. cx_rfc6979_bits2octets lib left c h1 (hn * 8)"
        and f = "\<lambda>d. rfc_bits2octets q (rf_q_len c) (take hn d)", OF h2(3) this r(2) h2(2) conv]
    show ?thesis using that by (auto simp: msg_def)
  qed
  obtain h4 where h4: "spec_cx_hmac_final h3 (Some (if to_k then rf_k c else v)) osize =
      (h4, Inr (1, Some (mac K msg @ drop osize (if to_k then rf_k c else v)), osize))"
  proof -
    have "min osize osize \<le> length (if to_k then rf_k c else v)" using s(3) v(1) sizes by simp
    from hmac_final [OF h3(3) this] show ?thesis using that length_macs [of K msg] by auto
  qed
  show ?thesis
    unfolding cx_rfc6979_hmacVK_def s(1,2) r(1) h0(1) hm_call_simps res_bind_simps prod.case put h1'(1) h2(1) h3(1) h4
    using ord s v h3(2) length_macs [of K msg] sizes by (auto simp: rfc_state_def rfc_order_def)
qed


lemma hmacVK_value:
  assumes "rfc_state c q (K, V)" and "openssl_bn_total lib" and "512 < cap"
  obtains c' where "cx_rfc6979_hmacVK lib left c (- 1) None 0 None 0 False = Inr c'" and "rfc_state c' q (K, mac K V)"
    and "rf_q_len c' = rf_q_len c" and "rf_r_len c' = rf_r_len c" and "rf_q c' = rf_q c"
  using hmacVK_eq [OF assms, of None 0 None 0 "- 1" left False] that by auto

lemma hmacVK_key:
  assumes "rfc_state c q (K, V)" and "openssl_bn_total lib" and "512 < cap"
  obtains c' where "cx_rfc6979_hmacVK lib left c 0 None 0 None 0 True = Inr c'" and "rfc_state c' q (mac K (V @ [0]), V)"
    and "rf_q_len c' = rf_q_len c" and "rf_r_len c' = rf_r_len c" and "rf_q c' = rf_q c"
  using hmacVK_eq [OF assms, of None 0 None 0 0 left True] that by auto

lemma length_rfc_T: "length (rfc_T (mac K) V n) = n * osize"
  by (induction n arbitrary: V) (simp_all add: length_macs)

text \<open>The loop over the blocks, from \<open>t\<close> bytes on.\<close>

lemma blocks_eq:
  assumes "openssl_bn_total lib" and "512 < cap"
    and "rfc_state c q (K, V)" and "t \<le> r" and "r \<le> length out"
  defines "n \<equiv> (r - t + osize - 1) div osize"
  shows "\<exists>c'. rfc6979_blocks lib left c out t r =
      Some (Inr (c', buf_write out t (take (r - t) (rfc_T (mac K) V n)))) \<and>
    rfc_state c' q (K, rfc_chain (mac K) V n) \<and> rf_q_len c' = rf_q_len c \<and> rf_r_len c' = rf_r_len c \<and> rf_q c' = rf_q c"
  using assms(3-5) unfolding n_def
proof (induction "r - t" arbitrary: t c V out rule: less_induct)
  case less
  show ?case
  proof (cases "t < r")
    case False
    moreover have "(osize - Suc 0) div osize = 0" using sizes(1) by simp
    ultimately show ?thesis using less.prems by (subst rfc6979_blocks.simps) simp
  next
    case True
    obtain c1 where c1: "cx_rfc6979_hmacVK lib left c (- 1) None 0 None 0 False = Inr c1"
      "rfc_state c1 q (K, mac K V)" "rf_q_len c1 = rf_q_len c" "rf_r_len c1 = rf_r_len c" "rf_q c1 = rf_q c"
      using hmacVK_value [OF less.prems(1) assms(1,2)] by blast
    have v: "take osize (rf_v c1) = mac K V" "length (rf_v c1) = 65" "rf_md_len c1 = osize"
      using c1(2) by (simp_all add: rfc_state_def)
    have read: "mem_read (rf_v c1) 0 m = Inr (take m (mac K V))" if "m \<le> osize" for m
      using v that sizes by (auto simp: mem_read_def simp flip: v(1))
    have N: "(r - t + osize - 1) div osize = Suc ((r - t - 1) div osize)"
    proof -
      have eq: "r - t + osize - 1 = (r - t - 1) + osize" using True by simp
      show ?thesis unfolding eq using sizes(1) by (subst div_add_self2) simp_all
    qed
    show ?thesis
    proof (cases "osize > r - t")
      case big: True
      then have N1: "(r - t - 1) div osize = 0" by simp
      have wr: "mem_write out t (take (r - t) (mac K V)) = Inr (buf_write out t (take (r - t) (mac K V)))"
        using True less.prems(3) length_macs [of K V] by (simp add: mem_write_def)
      have "rfc6979_blocks lib left c out t r = Some (Inr (c1, buf_write out t (take (r - t) (mac K V))))"
        using True big c1(1) v(3) read [of "r - t"] wr
        by (subst rfc6979_blocks.simps, simp) (subst rfc6979_blocks.simps, simp)
      then show ?thesis unfolding N N1 using c1 big length_macs [of K V] by simp
    next
      case False
      then have le: "osize \<le> r - t" by simp
      let ?out = "buf_write out t (mac K V)"
      have wr: "mem_write out t (mac K V) = Inr ?out"
        using True le less.prems(3) length_macs [of K V] by (simp add: mem_write_def)
      have step: "rfc6979_blocks lib left c out t r = rfc6979_blocks lib left c1 ?out (t + osize) r"
        using True le c1(1) v(3) read [of osize] wr length_macs [of K V] by (subst rfc6979_blocks.simps) simp
      have len: "r \<le> length ?out" using le less.prems(3) length_macs [of K V] True by simp
      have dec: "r - (t + osize) < r - t" "t + osize \<le> r" using True sizes(1) le by linarith+
      have M: "(r - (t + osize) + osize - 1) div osize = (r - t - 1) div osize"
      proof -
        have "r - (t + osize) + osize - 1 = r - t - 1" using le by simp
        then show ?thesis by simp
      qed
      obtain c' where c': "rfc6979_blocks lib left c1 ?out (t + osize) r =
          Some (Inr (c', buf_write ?out (t + osize) (take (r - (t + osize)) (rfc_T (mac K) (mac K V) ((r - t - 1) div osize)))))"
        "rfc_state c' q (K, rfc_chain (mac K) (mac K V) ((r - t - 1) div osize))"
        "rf_q_len c' = rf_q_len c1" "rf_r_len c' = rf_r_len c1" "rf_q c' = rf_q c1"
        using less.hyps [OF dec(1) c1(2) dec(2) len] unfolding M by blast
      have "buf_write ?out (t + osize) ys = buf_write out t (mac K V @ ys)" for ys
        using buf_write_append [of t out "mac K V" ys] True less.prems(3) length_macs [of K V] by simp
      then show ?thesis unfolding N step using c' c1 le length_macs [of K V] by simp
    qed
  qed
qed

lemma blocks_enough: "(qlen + 7) div 8 \<le> rfc_blocks osize qlen * osize"
  using sizes(1) div_mult_mod_eq [of "(qlen + 7) div 8 + osize - 1" osize]
    mod_less_divisor [OF sizes(1), of "(qlen + 7) div 8 + osize - 1"]
  unfolding rfc_blocks_def by linarith

text \<open>One candidate: the loop over the blocks, the conversion, and the next key and value.\<close>

lemma round_eq:
  assumes "openssl_bn_total lib" and "512 < cap" and "rfc_state c q KV" and "(rf_q_len c + 7) div 8 \<le> length out"
  defines "r \<equiv> (rf_q_len c + 7) div 8" and "k \<equiv> rfc_candidate mac osize (rf_q_len c) KV"
  shows "\<exists>c1 c2 out1. rfc6979_blocks lib left c out 0 r = Some (Inr (c1, out1)) \<and>
    rfc6979_try lib left c1 out1 = Inr (k < q, c2, i2osp r k @ drop r out) \<and>
    rfc_state c2 q (rfc_next mac osize (rf_q_len c) KV) \<and> rf_q_len c2 = rf_q_len c \<and> 0 \<le> k"
proof -
  obtain K V where KV: "KV = (K, V)" by (cases KV)
  define n where "n = rfc_blocks osize (rf_q_len c)"
  let ?T = "rfc_T (mac K) V n" and ?W = "rfc_chain (mac K) V n"
  have r: "r \<le> length out" using assms(4) by (simp add: r_def)
  have len: "r \<le> length ?T" unfolding length_rfc_T n_def r_def by (rule blocks_enough)
  have "(r - 0 + osize - 1) div osize = n" by (simp add: n_def rfc_blocks_def r_def)
  then obtain c1 where c1: "rfc6979_blocks lib left c out 0 r = Some (Inr (c1, buf_write out 0 (take r ?T)))"
    "rfc_state c1 q (K, ?W)" "rf_q_len c1 = rf_q_len c" "rf_r_len c1 = rf_r_len c"
    using blocks_eq [OF assms(1,2) assms(3) [unfolded KV] _ r, of 0 left] by auto
  let ?out = "buf_write out 0 (take r ?T)"
  have out: "?out = take r ?T @ drop r out" using len by (simp add: buf_write_def)
  have ord: "rfc_order c1 q" using c1(2) by (simp add: rfc_state_def)
  have rl: "rf_r_len c1 div 8 = r" using ord c1(3) by (simp add: rfc_order_def r_def)
  have k: "rfc_bits2int (rf_q_len c) (take r ?out) = k"
    unfolding out k_def rfc_candidate_def KV using len ord c1(3) rfc_bits2int_take [of "rf_q_len c" ?T]
    by (simp add: n_def r_def rfc_order_def)
  have kb: "0 \<le> k" "k < 2 ^ rf_q_len c1" unfolding k [symmetric] c1(3) by (rule rfc_bits2int_bounds)+
  have conv: "cx_rfc6979_bits2int c1 ?out (r * 8) ?out = Inr (i2osp r k @ drop r out)"
    using bits2int_eq [OF ord, of r ?out ?out] r len k c1(3) by (simp add: r_def [symmetric] out mult.commute)
  have cmp: "c_memcmp (i2osp r k @ drop r out) (rf_q c1) r = Inr (sgn (k - q))"
    using order_cmp(1) [OF ord kb] c1(3) by (simp add: r_def)
  obtain c2 where c2: "cx_rfc6979_hmacVK lib left c1 0 None 0 None 0 True = Inr c2"
    "rfc_state c2 q (mac K (?W @ [0]), ?W)" "rf_q_len c2 = rf_q_len c1"
    using hmacVK_key [OF c1(2) assms(1,2)] by blast
  obtain c3 where c3: "cx_rfc6979_hmacVK lib left c2 (- 1) None 0 None 0 False = Inr c3"
    "rfc_state c3 q (mac K (?W @ [0]), mac (mac K (?W @ [0])) ?W)" "rf_q_len c3 = rf_q_len c2"
    using hmacVK_value [OF c2(2) assms(1,2)] by blast
  have "rfc6979_try lib left c1 ?out = Inr (k < q, c3, i2osp r k @ drop r out)"
    unfolding rfc6979_try_def rl conv res_bind_simps cmp c2(1) c3(1) by (simp add: sgn_if)
  moreover have "rfc_next mac osize (rf_q_len c) KV = (mac K (?W @ [0]), mac (mac K (?W @ [0])) ?W)"
    by (simp add: rfc_next_def KV n_def Let_def)
  ultimately show ?thesis using c1 c2 c3 kb by auto
qed

text \<open>The loop ends with the first candidate below \<open>q\<close>.\<close>

lemma next_loop_eq:
  assumes "openssl_bn_total lib" and "512 < cap"
    and "rfc_state c q KV" and "rf_q_len c = qlen" and "(qlen + 7) div 8 \<le> length out"
    and "rfc_candidate mac osize qlen ((rfc_next mac osize qlen ^^ j) KV) < q"
    and "\<And>i. i < j \<Longrightarrow> q \<le> rfc_candidate mac osize qlen ((rfc_next mac osize qlen ^^ i) KV)"
  shows "\<exists>c'. rfc6979_next_loop lib left c out =
      Some (Inr (c', i2osp ((qlen + 7) div 8) (rfc_candidate mac osize qlen ((rfc_next mac osize qlen ^^ j) KV)) @
        drop ((qlen + 7) div 8) out)) \<and>
    rfc_state c' q ((rfc_next mac osize qlen ^^ Suc j) KV) \<and> rf_q_len c' = qlen"
  using assms(3-)
proof (induction j arbitrary: c KV out)
  case 0
  have rl: "rf_r_len c div 8 = (qlen + 7) div 8" using 0 by (simp add: rfc_state_def rfc_order_def)
  show ?case
    using round_eq [OF assms(1,2) 0(1), of out left] 0 rl by (subst rfc6979_next_loop.simps) auto
next
  case (Suc j)
  let ?r = "(qlen + 7) div 8"
  have rl: "rf_r_len c div 8 = ?r" using Suc.prems by (simp add: rfc_state_def rfc_order_def)
  have ge: "\<not> rfc_candidate mac osize qlen KV < q" using Suc.prems(5) [of 0] by simp
  obtain c1 c2 out1 where r: "rfc6979_blocks lib left c out 0 ?r = Some (Inr (c1, out1))"
    "rfc6979_try lib left c1 out1 = Inr (False, c2, i2osp ?r (rfc_candidate mac osize qlen KV) @ drop ?r out)"
    "rfc_state c2 q (rfc_next mac osize qlen KV)" "rf_q_len c2 = qlen"
    using round_eq [OF assms(1,2) Suc.prems(1), of out left] Suc.prems(2,3) ge by auto
  let ?out = "i2osp ?r (rfc_candidate mac osize qlen KV) @ drop ?r out"
  have step: "rfc6979_next_loop lib left c out = rfc6979_next_loop lib left c2 ?out"
    using r rl by (subst rfc6979_next_loop.simps) simp
  have len: "?r \<le> length ?out" by simp
  have ge': "i < j \<Longrightarrow> q \<le> rfc_candidate mac osize qlen ((rfc_next mac osize qlen ^^ i) (rfc_next mac osize qlen KV))" for i
    using Suc.prems(5) [of "Suc i"] by (simp add: funpow_swap1)
  have lt: "rfc_candidate mac osize qlen ((rfc_next mac osize qlen ^^ j) (rfc_next mac osize qlen KV)) < q"
    using Suc.prems(4) by (simp add: funpow_swap1)
  show ?case using Suc.IH [OF r(3,4) len lt ge'] unfolding step by (simp add: funpow_swap1)
qed


text \<open>A loop that ends has found such a candidate.\<close>

lemma next_loop_ends:
  assumes "rfc6979_next_loop lib left c out = Some r" and "512 < cap"
  shows "\<forall>KV. openssl_bn_total lib \<longrightarrow> rfc_state c q KV \<longrightarrow> rf_q_len c = qlen \<longrightarrow> (qlen + 7) div 8 \<le> length out \<longrightarrow>
    (\<exists>n. rfc_candidate mac osize qlen ((rfc_next mac osize qlen ^^ n) KV) < q)"
proof (rule rfc6979_next_loop.raw_induct [where P = "\<lambda>lib left c out r. \<forall>KV. openssl_bn_total lib \<longrightarrow> rfc_state c q KV \<longrightarrow>
    rf_q_len c = qlen \<longrightarrow> (qlen + 7) div 8 \<le> length out \<longrightarrow>
    (\<exists>n. rfc_candidate mac osize qlen ((rfc_next mac osize qlen ^^ n) KV) < q)", OF _ assms(1)], intro allI impI)
  fix loop :: "bn_lib \<Rightarrow> int \<Rightarrow> cx_rnd_rfc6979_ctx \<Rightarrow> bytes \<Rightarrow> (cx_rnd_rfc6979_ctx \<times> bytes) res option"
    and lib left c out r KV
  assume IH: "\<And>lib left c out r. loop lib left c out = Some r \<Longrightarrow> \<forall>KV. openssl_bn_total lib \<longrightarrow> rfc_state c q KV \<longrightarrow>
      rf_q_len c = qlen \<longrightarrow> (qlen + 7) div 8 \<le> length out \<longrightarrow>
      (\<exists>n. rfc_candidate mac osize qlen ((rfc_next mac osize qlen ^^ n) KV) < q)"
    and body: "(case rfc6979_blocks lib left c out 0 (rf_r_len c div 8) of
        None \<Rightarrow> None
      | Some (Inl e) \<Rightarrow> Some (Inl e)
      | Some (Inr (c, out)) \<Rightarrow>
          (case rfc6979_try lib left c out of
             Inl e \<Rightarrow> Some (Inl e)
           | Inr (found, c, out) \<Rightarrow> if found then Some (Inr (c, out)) else loop lib left c out)) = Some r"
    and *: "openssl_bn_total lib" "rfc_state c q KV" "rf_q_len c = qlen" "(qlen + 7) div 8 \<le> length out"
  let ?r = "(qlen + 7) div 8" and ?k = "rfc_candidate mac osize qlen KV"
  have rl: "rf_r_len c div 8 = ?r" using * by (simp add: rfc_state_def rfc_order_def)
  obtain c1 c2 out1 where run: "rfc6979_blocks lib left c out 0 ?r = Some (Inr (c1, out1))"
    "rfc6979_try lib left c1 out1 = Inr (?k < q, c2, i2osp ?r ?k @ drop ?r out)"
    "rfc_state c2 q (rfc_next mac osize qlen KV)" "rf_q_len c2 = qlen"
    using round_eq [OF *(1) assms(2) *(2), of out left] *(3,4) by auto
  show "\<exists>n. rfc_candidate mac osize qlen ((rfc_next mac osize qlen ^^ n) KV) < q"
  proof (cases "?k < q")
    case True
    then show ?thesis by (intro exI [of _ 0]) simp
  next
    case False
    then have "loop lib left c2 (i2osp ?r ?k @ drop ?r out) = Some r" using body run rl by simp
    moreover have "?r \<le> length (i2osp ?r ?k @ drop ?r out)" by simp
    ultimately obtain n where
      "rfc_candidate mac osize qlen ((rfc_next mac osize qlen ^^ n) (rfc_next mac osize qlen KV)) < q"
      using IH *(1) run(3,4) by blast
    then show ?thesis by (intro exI [of _ "Suc n"]) (simp add: funpow_swap1)
  qed
qed

lemma next_eq:
  assumes "openssl_bn_total lib" and "512 < cap" and "rfc_state c q KV" and "rf_q_len c = qlen"
    and "(qlen + 7) div 8 \<le> length out" and "(qlen + 7) div 8 \<le> out_len"
  shows "map_option (map_sum id snd) (spec_cx_rng_rfc6979_next lib left c out out_len) =
    map_option (\<lambda>k. Inr (i2osp ((qlen + 7) div 8) k @ drop ((qlen + 7) div 8) out)) (rfc_nonce mac osize qlen q KV)"
proof -
  let ?P = "\<lambda>n. rfc_candidate mac osize qlen ((rfc_next mac osize qlen ^^ n) KV) < q"
  have "rf_r_len c = 8 * ((qlen + 7) div 8)" using assms(3,4) by (simp add: rfc_state_def rfc_order_def)
  then have loop: "spec_cx_rng_rfc6979_next lib left c out out_len = rfc6979_next_loop lib left c out"
    using assms(6) by (simp add: spec_cx_rng_rfc6979_next_def)
  show ?thesis
  proof (cases "\<exists>n. ?P n")
    case True
    define n where "n = (LEAST n. ?P n)"
    have "?P n" unfolding n_def by (rule LeastI_ex [OF True])
    moreover have "q \<le> rfc_candidate mac osize qlen ((rfc_next mac osize qlen ^^ i) KV)" if "i < n" for i
      using not_less_Least [OF that [unfolded n_def]] by simp
    ultimately show ?thesis
      using next_loop_eq [OF assms(1-5), of n left] True
      unfolding loop by (auto simp: rfc_nonce_def rfc_refused_def n_def)
  next
    case False
    have "rfc6979_next_loop lib left c out = None"
    proof (rule ccontr)
      assume "rfc6979_next_loop lib left c out \<noteq> None"
      then obtain r where "rfc6979_next_loop lib left c out = Some r" by auto
      from next_loop_ends [OF this assms(2), of q qlen] show False using assms(1,3-5) False by blast
    qed
    then show ?thesis unfolding loop using False by (simp add: rfc_nonce_def rfc_refused_def)
  qed
qed

lemma rng_init_eq:
  assumes "openssl_bn_total lib" and "512 < cap"
    and "spec_cx_hash_get_info md = Some hi" and "output_size hi = osize"
    and "length (rf_k c) = 64" "length (rf_v c) = 65" "length (rf_tmp c) = 66" "length (rf_q c) = 66"
    and "0 < qn" "qn \<le> 66" "qn \<le> length qb" "qb ! 0 \<noteq> 0"
    and "q = os2ip (take qn qb)" "0 < qlen" "2 ^ (qlen - 1) \<le> q" "q < 2 ^ qlen"
    and "xn \<le> length x" and "hn \<le> length h" and "rfc_bits2int qlen (take hn h) \<noteq> q"
  shows "\<exists>c'. spec_cx_rng_rfc6979_init lib left c md (Some x) xn (Some h) hn qb qn = Inr c' \<and> rf_q_len c' = qlen \<and>
    rfc_state c' q (rfc_start mac osize (rfc_int2octets qlen (take xn x) @ rfc_bits2octets q qlen (take hn h)))"
proof -
  have "qn < 2 ^ 20" using assms(10) by simp
  from bitslength_eq [OF assms(9,11) this assms(12)] obtain m where m: "cx_rfc6979_bitslength qb qn = Inr m"
    "(m + 7) div 8 = qn" "0 < m" "2 ^ (m - 1) \<le> q" "q < 2 ^ m" unfolding assms(13) by blast
  have "m = qlen" by (rule bit_length_unique [OF m(4,5) assms(15,16) m(3) assms(14)])
  note bl = m(1) [unfolded this] and r = m(2) [unfolded this]
  let ?seed = "rfc_int2octets qlen (take xn x) @ rfc_bits2octets q qlen (take hn h)"
  define c0 where "c0 = c\<lparr>rf_q := buf_write (rf_q c) 0 (take qn qb), rf_q_len := qlen, rf_r_len := 8 * qn, rf_hash_id := md,
      rf_md_len := osize, rf_v := buf_write (rf_v c) 0 (replicate osize 1), rf_k := buf_write (rf_k c) 0 (replicate osize 0)\<rparr>"
  let ?V0 = "replicate osize (1 :: u8)" and ?K0 = "replicate osize (0 :: u8)"
  have order: "take qn (rf_q c0) = i2osp qn q"
    using i2osp_os2ip [of "take qn qb"] assms(8,10,11) by (simp add: c0_def buf_write_def assms(13))
  have st0: "rfc_state c0 q (?K0, ?V0)"
    using order r assms(5-8,10,11,14-16) sizes
    by (simp add: rfc_state_def rfc_order_def) (simp add: c0_def buf_write_def)
  have ql0: "rf_q_len c0 = qlen" by (simp add: c0_def)
  define K1 where "K1 = mac ?K0 (?V0 @ [0] @ ?seed)"
  obtain c1 where c1: "cx_rfc6979_hmacVK lib left c0 0 (Some x) xn (Some h) hn True = Inr c1" "rf_q_len c1 = qlen"
    "rfc_state c1 q (K1, ?V0)"
    using hmacVK_eq [OF st0 assms(1,2), of "Some x" xn "Some h" hn 0 left True] assms(17-19) ql0 by (auto simp: K1_def)
  obtain c2 where c2: "cx_rfc6979_hmacVK lib left c1 (- 1) None 0 None 0 False = Inr c2"
    "rfc_state c2 q (K1, mac K1 ?V0)" "rf_q_len c2 = qlen"
    using hmacVK_value [OF c1(3) assms(1,2)] c1(2) by metis
  define V1 where "V1 = mac K1 ?V0"
  define K2 where "K2 = mac K1 (V1 @ [1] @ ?seed)"
  obtain c3 where c3: "cx_rfc6979_hmacVK lib left c2 1 (Some x) xn (Some h) hn True = Inr c3" "rf_q_len c3 = qlen"
    "rfc_state c3 q (K2, V1)"
    using hmacVK_eq [OF c2(2) assms(1,2), of "Some x" xn "Some h" hn 1 left True] assms(17-19) c2(3)
    by (auto simp: K2_def V1_def)
  obtain c4 where c4: "cx_rfc6979_hmacVK lib left c3 (- 1) None 0 None 0 False = Inr c4"
    "rfc_state c4 q (K2, mac K2 V1)" "rf_q_len c4 = qlen"
    using hmacVK_value [OF c3(3) assms(1,2)] c3(2) by metis
  have "rfc_start mac osize ?seed = (K2, mac K2 V1)"
    by (simp add: rfc_start_def K1_def K2_def V1_def Let_def)
  moreover have "spec_cx_rng_rfc6979_init lib left c md (Some x) xn (Some h) hn qb qn = Inr c4"
  proof -
    have "res_bind (mem_read qb 0 qn) (mem_write (rf_q c) 0) = Inr (buf_write (rf_q c) 0 (take qn qb))"
      "mem_set (rf_v c) 0 1 osize = Inr (buf_write (rf_v c) 0 ?V0)"
      "mem_set (rf_k c) 0 0 osize = Inr (buf_write (rf_k c) 0 ?K0)"
      using assms(5-11) sizes by (simp_all add: mem_read_def mem_write_def mem_set_def)
    moreover have "c\<lparr>rf_q := buf_write (rf_q c) 0 (take qn qb), rf_q_len := qlen, rf_r_len := 8 * ((qlen + 7) div 8),
        rf_hash_id := md, rf_md_len := osize, rf_v := buf_write (rf_v c) 0 ?V0, rf_k := buf_write (rf_k c) 0 ?K0\<rparr> = c0"
      by (simp add: c0_def r)
    ultimately show ?thesis
      unfolding spec_cx_rng_rfc6979_init_def assms(3) option.case assms(4) if_not_P [OF neq0_conv [THEN iffD2, OF sizes(1)]]
      by (simp only: res_bind_simps bl Let_def c1(1) c2(1) c3(1) c4(1))
  qed
  ultimately show ?thesis using c4 by simp
qed

text \<open>The initialisation and the first call together.\<close>

lemma rng_eq:
  assumes "openssl_bn_total lib" and "512 < cap"
    and "spec_cx_hash_get_info md = Some hi" and "output_size hi = osize"
    and "length (rf_k c) = 64" "length (rf_v c) = 65" "length (rf_tmp c) = 66" "length (rf_q c) = 66"
    and "0 < qn" "qn \<le> 66" "qn \<le> length qb" "qb ! 0 \<noteq> 0"
    and "q = os2ip (take qn qb)" "0 < qlen" "2 ^ (qlen - 1) \<le> q" "q < 2 ^ qlen"
    and "xn \<le> length x" and "hn \<le> length h" and "rfc_bits2int qlen (take hn h) \<noteq> q" and "qn \<le> length out"
  shows "\<exists>c1. spec_cx_rng_rfc6979_init lib left c md (Some x) xn (Some h) hn qb qn = Inr c1 \<and>
    map_option (map_sum id snd) (spec_cx_rng_rfc6979_next lib left c1 out qn) =
      map_option (\<lambda>k. Inr (i2osp qn k @ drop qn out)) (rfc_nonce mac osize qlen q
        (rfc_start mac osize (rfc_int2octets qlen (take xn x) @ rfc_bits2octets q qlen (take hn h))))"
proof -
  have qn: "(qlen + 7) div 8 = qn"
  proof -
    have "qn < 2 ^ 20" using assms(10) by simp
    from bitslength_eq [OF assms(9,11) this assms(12)] bit_length_unique [OF _ _ assms(15,16) _ assms(14)]
    show ?thesis unfolding assms(13) by metis
  qed
  from rng_init_eq [OF assms(1-19)] next_eq [OF assms(1,2), of _ q _ qlen out qn left] assms(20)
  show ?thesis unfolding qn by blast
qed

end

section \<open>The nonces of SHA-256\<close>

text \<open>A context of the right sizes, with any contents.\<close>

definition rfc_sizes :: "cx_rnd_rfc6979_ctx \<Rightarrow> bool" where
  "rfc_sizes c \<longleftrightarrow> length (rf_k c) = 64 \<and> length (rf_v c) = 65 \<and> length (rf_tmp c) = 66 \<and> length (rf_q c) = 66"

definition rfc6979_zero :: cx_rnd_rfc6979_ctx where
  "rfc6979_zero = \<lparr>rf_v = replicate 65 0, rf_k = replicate 64 0, rf_q = replicate 66 0, rf_q_len = 0, rf_r_len = 0,
     rf_tmp = replicate 66 0, rf_hash_id = CX_NONE, rf_md_len = 0, rf_hmac = hmac_zero\<rparr>"

text \<open>
  With SHA-256, the initialisation and the first call of the generator give the nonce of RFC
  6979 for the private key \<open>x\<close> and the hash \<open>h\<close>: the first candidate below \<open>q\<close> in the sequence of the
  standard. The call ends exactly when there is such a candidate. The order has no leading zero byte
  and is not the number that the hash stands for.
\<close>

theorem rfc6979_nonce_sha256:
  assumes "openssl_bn_total lib" and "rfc_sizes c"
    and "0 < qn" "qn \<le> 66" "qn \<le> length qb" "qb ! 0 \<noteq> 0"
    and "q = os2ip (take qn qb)" "0 < qlen" "2 ^ (qlen - 1) \<le> q" "q < 2 ^ qlen"
    and "xn \<le> length x" and "hn \<le> length h" and "rfc_bits2int qlen (take hn h) \<noteq> q" and "qn \<le> length out"
  shows "\<exists>c1. spec_cx_rng_rfc6979_init lib left c CX_SHA256 (Some x) xn (Some h) hn qb qn = Inr c1 \<and>
    map_option (map_sum id snd) (spec_cx_rng_rfc6979_next lib left c1 out qn) =
      map_option (\<lambda>k. Inr (i2osp qn k @ drop qn out)) (rfc_nonce HMAC_SHA256 32 qlen q
        (rfc_start HMAC_SHA256 32 (rfc_int2octets qlen (take xn x) @ rfc_bits2octets q qlen (take hn h))))"
proof -
  have "hmac256.mac = HMAC_SHA256" by (simp add: hmac256.mac_def [abs_def])
  then show ?thesis
    using hmac256.rng_eq [OF assms(1) _ _ _ _ _ _ _ assms(3-14), of cx_sha256_info c left] assms(2)
    by (simp add: rfc_sizes_def cx_sha256_info_def)
qed

theorem rfc6979_nonce_sha256_witness:
  "\<exists>c1. spec_cx_rng_rfc6979_init bn_exact 0 rfc6979_zero CX_SHA256 (Some [5]) 1 (Some [1, 2]) 2 [0xfb] 1 = Inr c1 \<and>
    map_option (map_sum id snd) (spec_cx_rng_rfc6979_next bn_exact 0 c1 [0] 1) =
      map_option (\<lambda>k. Inr (i2osp 1 k @ [])) (rfc_nonce HMAC_SHA256 32 8 251
        (rfc_start HMAC_SHA256 32 (rfc_int2octets 8 [5] @ rfc_bits2octets 251 8 [1, 2])))"
proof -
  have "rfc_sizes rfc6979_zero" by (simp add: rfc_sizes_def rfc6979_zero_def)
  moreover have "251 = os2ip (take 1 [0xfb])" "rfc_bits2int 8 (take 2 [1, 2]) \<noteq> 251"
    by (simp_all add: os2ip_def rfc_bits2int_def)
  moreover have "take 1 [5 :: u8] = [5]" "take 2 [1, 2 :: u8] = [1, 2]" "drop 1 [0 :: u8] = []" by simp_all
  ultimately show ?thesis
    using rfc6979_nonce_sha256 [OF exact.openssl_bn_total_axioms, of rfc6979_zero 1 "[0xfb]" 251 8 1 "[5]" 2 "[1, 2]" "[0]" 0]
    by (simp only:) simp
qed

end
