(* ===== verification/Spec2Isabelle.thy ===== *)
theory Spec2Isabelle
  imports Cx_Crc Cx_Hkdf Usbd_Control Seph_Io Nbgl_Rle Cx_Ec_Domain Bn_Theorems X25519
    Hdkey_Policy Hd_Derive Zip32_Registered Cx_Math Cx_Ec_Der Cx_Ec_Tables Cx_Rfc6979
begin

text \<open>
  Verification of the Speculos emulator: the parts of the secure element's firmware interface
  that the repository implements itself.

  \<^bold>\<open>The program.\<close> Speculos runs a Ledger application under an ARM emulator and implements the
  system calls of the operating system: cryptography (\<open>src/bolos/cx_*.c\<close>), the input and output
  stack towards the host (\<open>src/bolos/io/\<close>: the link to the MCU, the USB device, the framing of
  APDUs) and the services of the OS. An APDU of the host arrives as USB reports in SEPROXYHAL
  packets: \<open>io.c\<close> reads a packet from the socket, the USB core interprets it, the HID class hands
  a report to the framing protocol, which assembles the APDU. Answers go the opposite way.

  \<^bold>\<open>Foundations.\<close>
  \<^item> \<open>Prelude\<close>: the integers of the 32-bit target as words, byte buffers as lists with checked
    reads and writes, the ways a C function can end (\<open>Oob\<close> for an access outside a buffer,
    \<open>Throw\<close> for a \<open>THROW\<close>) and the result type \<open>res\<close>.
  \<^item> \<open>Block_Stream\<close>, \<open>Counted_Stream\<close>, \<open>Hash_Interface\<close>: the interfaces of the hash functions
    as locales. \<open>block_stream\<close> and \<open>block_update\<close> state what the update loop of a hash function
    is made of and prove that it absorbs the full blocks of its input and keeps the rest,
    however the input is cut up; \<open>counted_stream\<close> adds the block counter that throws at 65535;
    \<open>hash_function\<close> is the contract towards the clients of a hash: a context remembers the bytes
    it absorbed and the final call writes their digest. Each hash below interprets them.

  \<^bold>\<open>Cryptography.\<close>
  \<^item> \<open>Cx_Utils\<close> (\<open>cx_utils.c\<close>, \<open>cx_utils.h\<close>): rotations, byte swaps, reversal of buffers, big and
    little endian encodings, and the parser of derivation paths. Round trips, bounds, and that
    \<open>be2le\<close> reverses buffers of even length only.
  \<^item> \<open>Cx_Crc\<close> (\<open>cx_crc.c\<close>): both tables are proved equal to the bitwise definition of the CRC.
  \<^item> \<open>Sha2_Schedule\<close>, \<open>Cx_Sha256\<close>, \<open>Cx_Sha512\<close> (\<open>cx_sha256.c\<close>, \<open>cx_sha512.c\<close>): the compression
    with its in-place window of sixteen words is the one of FIPS 180-4, the padding and the
    length field are right for every message up to the block counter, and the one-shot calls
    return the digest.
  \<^item> \<open>Cx_Ripemd160\<close> (\<open>cx_ripemd160.c\<close>): against the two-line definition of RIPEMD-160.
  \<^item> \<open>Cx_Sha3\<close> (\<open>cx_sha3.c\<close>): the permutation is Keccak-f[1600] of FIPS 202 with offsets and round
    constants generated as in the standard; SHA-3, Keccak and SHAKE are the sponge of it at every
    rate of the library, the extendable functions for every output length.
  \<^item> \<open>Cx_Blake2b\<close> (\<open>cx_blake2b.c\<close>): BLAKE2b of RFC 7693 with any output size, salt and
    personalisation.
  \<^item> \<open>Cx_Hash\<close> (\<open>cx_hash.c\<close>): the dispatch over the algorithms; the system call returns the digest of
    the standard behind the algorithm.
  \<^item> \<open>Cx_Hmac\<close>, \<open>Cx_Hkdf\<close> (\<open>cx_hmac.c\<close>, \<open>cx_hkdf.c\<close>, the context checks of \<open>cx_scc.c\<close>): the MAC of
    RFC 2104 and the key derivation of RFC 5869, up to 255 blocks.
  \<^item> \<open>Cx_Curves\<close>, \<open>Curve_Checks_1\<close> to \<open>Curve_Checks_4\<close>, \<open>Cx_Ec_Domain\<close> (\<open>cx_ec_domain.c\<close>,
    \<open>cx_ec.h\<close>): the parameters of the 23 curves byte for byte. The base points lie on their curves,
    the orders are within the Hasse bound, the Montgomery constants are right except one, and the
    system calls return them on every branch.
  \<^item> \<open>Cx_Ec_Tables\<close> (\<open>cx_ec.c\<close>): the tables of the first SDK; every curve they hold agrees with the
    tables above.
  \<^item> \<open>Cx_Ec_Der\<close> (\<open>cx_ec.c\<close>): the DER encoder and decoder of ECDSA signatures with lengths and
    pointers of 32 bits. What the encoder writes is the distinguished encoding and is decoded again,
    below 128 bytes of contents; the decoder accepts nothing but minimal encodings.
  \<^item> \<open>Cx_Math\<close> (\<open>cx_math.c\<close>): modular arithmetic on byte buffers over the OpenSSL parameter.
  \<^item> \<open>Cx_Rfc6979\<close> (\<open>cx_rng_rfc6979.c\<close>): the generator of nonces. With SHA-256, initialisation and first
    call give the first candidate of RFC 6979 below the order, and end exactly if there is one.
  \<^item> \<open>Cx_Curve25519\<close>, \<open>Fe_Reduce\<close>, \<open>Fe_Arith\<close>, \<open>Fe_Bytes\<close>, \<open>Fe_Ladder\<close>, \<open>X25519\<close>
    (\<open>cx_curve25519.c\<close>): field elements as ten signed limbs at the widths of the code. The products,
    squares and carries are those of the integers modulo \<open>2 ^ 255 - 19\<close> within the bounds of the
    comments, inversion is the power \<open>p - 2\<close>, the encoding is canonical, and the
    ladder with its conditional exchanges is the ladder of RFC 7748 on integers.

  \<^bold>\<open>Big numbers.\<close>
  \<^item> \<open>Big_Endian\<close>, \<open>Cx_Lib\<close>: numbers as byte strings, and the error codes of \<open>cxlib.h\<close>.
  \<^item> \<open>Openssl_Bn\<close>: the functions of OpenSSL that the code calls are the fields of a record. The locale
    \<open>openssl_bn\<close> states what their manual pages document of a call that succeeds, and
    \<open>openssl_bn_total\<close> that calls do not fail for want of memory; integer arithmetic interprets both.
    A modular operation whose result is the modulus itself is a call of its own, of which nothing is
    documented and nothing assumed.
  \<^item> \<open>Cx_Mpi\<close>, \<open>Cx_Bn\<close> (\<open>cx_mpi.c\<close>, \<open>cx_bn.c\<close>): the module with its 64 slots, where a number is the index
    of its slot so that the operands of a call may coincide, and the system calls over it.
  \<^item> \<open>Mpi_Invariant\<close>: the memory accounting is kept by every call whatever the library returns, an
    unlocked module only reacts to the lock, and unlocking erases all numbers.
  \<^item> \<open>Mpi_Arith\<close>, \<open>Mpi_Calls\<close>, \<open>Bn_Theorems\<close>: the abstraction of the module is the map from handles to
    numbers, and each call is a stated update of it.

  \<^bold>\<open>Key derivation.\<close>
  \<^item> \<open>Hdkey_Validate\<close>, \<open>Hdkey_Policy\<close> (\<open>hdkey/src/hdkey_validate.c\<close>, the check of \<open>os_bip32.c\<close>): which
    keys an application may derive. The declaration of the application is a byte string; its meaning
    is a list of entries, and the checks accept a request exactly if some entry allows it. Which
    authorisation a mode and a curve need is a table of its own, taken from \<open>os_hdkey.h\<close> and not from
    the mask the code computes. The newer check stays inside the declaration whatever its bytes are.
  \<^item> \<open>Hmac_Calls\<close>, \<open>Os_Bip32\<close>, \<open>Hd_Derive\<close> (\<open>os_bip32.c\<close>, \<open>hdkey_bip32.c\<close>, \<open>hdkey_bls12377.c\<close>): the
    derivations that need HMAC only. SLIP-10 on Ed25519, SLIP-21 and BLS12-377 against their
    definitions; the root key of BIP32-Ed25519 is searched by a loop with no bound, a partial function
    of which it is proved when it ends and with what.
  \<^item> \<open>Hdkey_Zip32\<close>, \<open>Zip32_Calls\<close>, \<open>Zip32_Derive\<close>, \<open>Zip32_Registered\<close> (\<open>hdkey/src/hdkey_zip32.c\<close>,
    \<open>hdkey/src/hdkey.c\<close>, \<open>os_hdkey.c\<close>): Sapling, Orchard and registered keys are those of ZIP 32, with the
    scalars of Jubjub computed by the big number calls from an unlocked module back to it; the system call
    derives nothing that the application has not declared.

  \<^bold>\<open>Display.\<close> \<open>Nbgl_Rle\<close> (\<open>nbgl_rle.c\<close>): both run-length decoders. The decoder for four bits per pixel
  refines the meaning of the instruction stream and never leaves its output buffer, for areas of
  fewer than \<open>2 ^ 31\<close> pixels (above, its size check wraps around and it can overrun); the decoder
  for one bit does so when the number of pixels is a multiple of eight.

  \<^bold>\<open>Input and output.\<close>
  \<^item> \<open>Ledger_Protocol\<close> (\<open>io/sdk/protocol/src/ledger_protocol.c\<close>): \<open>ledger_protocol\<close> is the handle;
    the chunks that the calls of \<open>LEDGER_PROTOCOL_tx\<close> leave \<open>LEDGER_PROTOCOL_rx\<close> puts together again, the
    receiver stays inside its buffers, the service commands get their answers.
  \<^item> \<open>Usbd_LL\<close> (\<open>usbd_conf.c\<close>, \<open>usbd_ioreq.c\<close>), \<open>Usbd_Hid\<close> (\<open>usbd_ledger_hid.c\<close>), \<open>Usbd_Class\<close>
    (\<open>usbd_ledger.c\<close>, \<open>usbd_desc.c\<close>), \<open>Usbd_Ctlreq\<close> (\<open>usbd_ctlreq.c\<close>) and \<open>Usbd_Core\<close>
    (\<open>usbd_core.c\<close>): the device stack. The record of a layer extends the record of the one below.
    Packets for the MCU are appended to a log.
  \<^item> \<open>Usbd_Invariant\<close>, \<open>Usbd_Steps\<close>, \<open>Usbd_Control\<close>: the invariant of the stack, kept by every event of the
    bus in every state of the device and by sends, stops and restarts, from a start with the HID
    class; enumeration reaches the configured state and opens the end points; memory safety of set-up
    packets; control transfers deliver all of their data, with an empty packet where one is due.
    Start-up (\<open>os_io_init\<close> and \<open>os_io_start\<close>) is one step; \<open>USBD_LEDGER_add_profile\<close> and the
    disconnection callbacks have no caller and are not steps.
  \<^item> \<open>Seph_Io\<close> (\<open>io/io.c\<close>, \<open>touch.c\<close>): the outcomes of \<open>read\<close> and \<open>write\<close> on the socket are lists
    of events; packets are sent and received complete and in order, and in every state that a sequence
    of calls leads to, refused receives included, sends and receives from the socket stay inside the
    buffers; for a receive from the cache it is stated exactly when it does not.

  \<^bold>\<open>Bounds and loops.\<close> Every loop is structural recursion or has a measure; the only runs that
  need input to go on (reads and writes of the socket, random draws) consume a list of outcomes and return
  \<open>None\<close> when it is used up, and the theorems give the outcome lists for which they end. The search
  for a prime is not bounded by the code; it is a partial function and its termination is proved. So are
  the four-bit decoder, whose 32-bit read counter could wrap around, and the search for a nonce. Messages
  of the hash functions are bounded by 65536 blocks where the code throws at that limit.

  \<^bold>\<open>Findings.\<close> Some theorems record where the code does not do what it means to: an APDU as long
  as the receive buffer is stored one byte past it, \<open>GET_STATUS\<close> of an end point past the tables
  reads outside them, clearing a halt stalls the control end point, a second suspend loses the
  device state, a \<open>SET_CONFIGURATION\<close> while suspended closes the end points of a device that is
  configured again after the resume, and \<open>readall\<close> overwrites what a short read delivered; a context of \<open>cx_hmac\<close> that is
  used again has lost its key, and an expansion past 255 blocks writes in front of its output; the
  one-bit decoder overruns its output on images whose size is not a multiple of eight; the cofactor
  of BLS12-377 is returned as 0; an addition in place loses its carry, the comparison of numbers of
  different sizes is always negative, the search for a prime skips \<open>x + 1\<close> for an even \<open>x\<close>, and the
  power with an exponent in bytes leaks a slot; the check of a declaration of curves alone accepts every
  curve, and ZIP-32 derivations with an empty path return a key of zeros; the encoder of signatures has
  no long form of lengths, and the nonce generator accepts zero.

  \<^bold>\<open>Not modelled.\<close> The other functions on elliptic curve points and AES are layers over OpenSSL objects, and the
  derivations that compute points (BIP-32, BIP32-Ed25519 children, EIP-2333) need them. The WebUSB, U2F
  and NFC classes are compiled to nothing. The launcher, the emulation of system calls and signals act on the host process. The MCU side is in Python.
\<close>

end
